(* ===== verification/IbPrelude.thy ===== *)
theory IbPrelude
  imports Main "HOL-Library.Word" "HOL-Library.Monad_Syntax"
begin

text \<open>
  What every component of the model shares.

  The C code works on raw byte buffers. A buffer is the list of its bytes, a pointer into it is
  an offset, and a read or a write outside the buffer is the value \<open>None\<close> (the access is
  undefined in C). Everything else the code does with integers is written at the width the code
  uses: \<open>u8\<close>, \<open>u16\<close>, \<open>u32\<close> and \<open>u64\<close> are words, an \<open>int\<close>
  that the code compares or returns is an HOL \<open>int\<close>.

  Host byte order is explicit, because the library is compiled for both: \<open>LE\<close> and
  \<open>BE\<close> say how a native integer lies in memory.
\<close>

unbundle bit_operations_syntax

type_synonym u8 = "8 word"
type_synonym u16 = "16 word"
type_synonym u32 = "32 word"
type_synonym u64 = "64 word"
type_synonym mem = "u8 list"

named_theorems mem_simps \<comment> \<open>how the memory operations act on lengths and bytes\<close>
named_theorems c_eval \<comment> \<open>unfolding of the constants of the C headers\<close>

section \<open>Memory access\<close>

definition mem_rd :: "'a list \<Rightarrow> nat \<Rightarrow> 'a option" where
  "mem_rd p i = (if i < length p then Some (p ! i) else None)"

definition mem_wr :: "'a list \<Rightarrow> nat \<Rightarrow> 'a \<Rightarrow> 'a list option" where
  "mem_wr p i v = (if i < length p then Some (p[i := v]) else None)"

definition mem_load :: "'a list \<Rightarrow> nat \<Rightarrow> nat \<Rightarrow> 'a list option" where
  \<comment> \<open>the \<open>n\<close> bytes at offset \<open>i\<close> (the source operand of a \<open>memcpy\<close>)\<close>
  "mem_load p i n = (if i + n \<le> length p then Some (take n (drop i p)) else None)"

definition mem_store :: "'a list \<Rightarrow> nat \<Rightarrow> 'a list \<Rightarrow> 'a list option" where
  \<comment> \<open>write the bytes \<open>xs\<close> at offset \<open>i\<close> (the target operand of a \<open>memcpy\<close>)\<close>
  "mem_store p i xs =
     (if i + length xs \<le> length p then Some (take i p @ xs @ drop (i + length xs) p) else None)"

lemma mem_rd_Some [mem_simps]: "mem_rd p i = Some v \<longleftrightarrow> i < length p \<and> v = p ! i"
  by (auto simp: mem_rd_def)

lemma mem_wr_Some [mem_simps]: "mem_wr p i v = Some p' \<longleftrightarrow> i < length p \<and> p' = p[i := v]"
  by (auto simp: mem_wr_def)

lemma mem_load_Some [mem_simps]:
  "mem_load p i n = Some xs \<longleftrightarrow> i + n \<le> length p \<and> xs = take n (drop i p)"
  by (auto simp: mem_load_def)

lemma mem_store_Some [mem_simps]:
  "mem_store p i xs = Some p' \<longleftrightarrow>
     i + length xs \<le> length p \<and> p' = take i p @ xs @ drop (i + length xs) p"
  by (auto simp: mem_store_def)

lemma length_mem_load: "mem_load p i n = Some xs \<Longrightarrow> length xs = n"
  by (auto simp: mem_simps)

lemma length_mem_store: "mem_store p i xs = Some p' \<Longrightarrow> length p' = length p"
  by (auto simp: mem_simps)

lemma mem_store_nth:
  assumes "mem_store p i xs = Some p'" and "k < length p"
  shows "p' ! k = (if i \<le> k \<and> k < i + length xs then xs ! (k - i) else p ! k)"
  using assms by (auto simp: mem_simps nth_append min_def)

lemma mem_load_store_same:
  assumes "mem_store p i xs = Some p'"
  shows "mem_load p' i (length xs) = Some xs"
  using assms by (auto simp: mem_simps)

lemma mem_load_nth_eq:
  assumes "length p' = length p" and "\<And>k. i \<le> k \<Longrightarrow> k < i + n \<Longrightarrow> k < length p \<Longrightarrow> p' ! k = p ! k"
  shows "mem_load p' i n = mem_load p i n"
proof -
  have "take n (drop i p') = take n (drop i p)" if "i + n \<le> length p"
    using assms that by (intro nth_equalityI) auto
  then show ?thesis using assms(1) by (simp add: mem_load_def)
qed

lemma mem_load_store_other:
  assumes "mem_store p i xs = Some p'" and "j + n \<le> i \<or> i + length xs \<le> j"
  shows "mem_load p' j n = mem_load p j n"
  by (rule mem_load_nth_eq)
    (use assms in \<open>auto simp: length_mem_store [OF assms(1)] mem_store_nth [OF assms(1)]\<close>)

section \<open>Words as bytes\<close>

datatype endian = LE | BE

definition byte_of :: "nat \<Rightarrow> 'a::len word \<Rightarrow> u8" where
  \<comment> \<open>byte \<open>k\<close> of a word, the least significant being byte 0\<close>
  "byte_of k w = ucast (drop_bit (8 * k) w)"

lemma bit_byte_of: "bit (byte_of k w) n \<longleftrightarrow> n < 8 \<and> bit w (8 * k + n)"
  by (auto simp: byte_of_def bit_simps)

definition native_bytes :: "endian \<Rightarrow> nat \<Rightarrow> 'a::len word \<Rightarrow> u8 list" where
  \<comment> \<open>the \<open>n\<close> bytes of a native integer, in the order they have in memory\<close>
  "native_bytes e n w =
     (case e of LE \<Rightarrow> map (\<lambda>k. byte_of k w) [0..<n]
              | BE \<Rightarrow> map (\<lambda>k. byte_of (n - 1 - k) w) [0..<n])"

lemma length_native_bytes [simp]: "length (native_bytes e n w) = n"
  by (cases e) (simp_all add: native_bytes_def)

lemma nth_native_bytes:
  "k < n \<Longrightarrow> native_bytes e n w ! k = byte_of (case e of LE \<Rightarrow> k | BE \<Rightarrow> n - 1 - k) w"
  by (cases e) (simp_all add: native_bytes_def)

fun le_word :: "u8 list \<Rightarrow> 'a::len word" where
  "le_word [] = 0"
| "le_word (b # bs) = ucast b OR push_bit 8 (le_word bs)"

definition native_word :: "endian \<Rightarrow> u8 list \<Rightarrow> 'a::len word" where
  "native_word e bs = (case e of LE \<Rightarrow> le_word bs | BE \<Rightarrow> le_word (rev bs))"

lemma bit_le_word:
  "bit (le_word bs :: 'a::len word) n \<longleftrightarrow>
     n < LENGTH('a) \<and> n < 8 * length bs \<and> bit (bs ! (n div 8)) (n mod 8)"
proof (induction bs arbitrary: n)
  case Nil
  then show ?case by simp
next
  case (Cons b bs)
  show ?case
  proof (cases "n < 8")
    case True
    then show ?thesis by (auto simp: bit_simps)
  next
    case False
    then have n: "n div 8 = Suc ((n - 8) div 8)" "n mod 8 = (n - 8) mod 8"
      by (simp_all add: le_div_geq le_mod_geq)
    have "\<not> bit b n" using False bit_imp_le_length [of b n] by auto
    with False show ?thesis by (auto simp: bit_simps Cons.IH n)
  qed
qed

lemma le_word_inverse:
  assumes "LENGTH('a) = 8 * n"
  shows "le_word (map (\<lambda>k. byte_of k (w :: 'a::len word)) [0..<n]) = w"
  using assms by (intro bit_word_eqI) (auto simp: bit_le_word bit_byte_of less_mult_imp_div_less mult.commute)

lemma native_word_inverse [simp]:
  assumes "LENGTH('a) = 8 * n"
  shows "native_word e (native_bytes e n (w :: 'a::len word)) = w"
proof (cases e)
  case LE
  then show ?thesis using le_word_inverse [OF assms] by (simp add: native_word_def native_bytes_def)
next
  case BE
  have "rev (map (\<lambda>k. byte_of (n - 1 - k) w) [0..<n]) = map (\<lambda>k. byte_of k w) [0..<n]"
    by (rule nth_equalityI) (simp_all add: rev_nth)
  then show ?thesis
    using BE le_word_inverse [OF assms] by (simp add: native_word_def native_bytes_def)
qed

lemma native_word32_inverse: "native_word e (native_bytes e 4 (w :: u32)) = w"
  by simp

lemma native_word64_inverse: "native_word e (native_bytes e 8 (w :: u64)) = w"
  by simp

section \<open>C integers\<close>

definition c_ones :: "nat \<Rightarrow> 'a::len word" where
  \<comment> \<open>\<open>(1 << n) - 1\<close>\<close>
  "c_ones n = push_bit n 1 - 1"

lemma c_ones_mask: "c_ones n = mask n"
  by (simp add: c_ones_def mask_eq_exp_minus_1)

definition int_of_u32 :: "u32 \<Rightarrow> int" where
  \<comment> \<open>conversion of an \<open>unsigned\<close> to \<open>int\<close>: two's complement\<close>
  "int_of_u32 w = sint w"

definition size_of_int :: "int \<Rightarrow> nat" where
  \<comment> \<open>conversion of an \<open>int\<close> to \<open>size_t\<close>: a negative value becomes huge\<close>
  "size_of_int i = unat (word_of_int i :: u64)"

lemma size_of_int_nonneg: "0 \<le> i \<Longrightarrow> i < 2 ^ 31 \<Longrightarrow> size_of_int i = nat i"
  by (simp add: size_of_int_def unsigned_of_int take_bit_int_eq_self)

lemma size_of_int_neg: "i < 0 \<Longrightarrow> - (2 ^ 31) \<le> i \<Longrightarrow> size_of_int i = nat (2 ^ 64 + i)"
proof -
  assume "i < 0" "- (2 ^ 31) \<le> i"
  then have "(2 ^ 64 + i) mod 2 ^ 64 = 2 ^ 64 + i"
    by (intro mod_pos_pos_trivial) simp_all
  then have "i mod 2 ^ 64 = 2 ^ 64 + i"
    by simp
  then show ?thesis by (simp add: size_of_int_def unsigned_of_int take_bit_eq_mod)
qed

section \<open>The byte order of a 32-bit word inside a MAD\<close>

text \<open>
  \<open>fields.c\<close> addresses byte \<open>3 ^ idx\<close>: within each aligned group of four bytes
  the order is reversed, which turns an offset in a big-endian word into a byte address.
\<close>

lemma xor3_eq: "(3::nat) XOR i = 4 * (i div 4) + (3 - i mod 4)"
proof -
  have hi: "drop_bit 2 ((3::nat) XOR i) = drop_bit 2 i"
    by (simp add: drop_bit_xor)
  have lo: "take_bit 2 ((3::nat) XOR i) = 3 - i mod 4"
  proof -
    have "i mod 4 < 4" by simp
    then consider "i mod 4 = 0" | "i mod 4 = 1" | "i mod 4 = 2" | "i mod 4 = 3" by linarith
    then have "(3::nat) XOR (i mod 4) = 3 - i mod 4" by cases simp_all
    moreover have "take_bit 2 ((3::nat) XOR i) = take_bit 2 (3 XOR take_bit 2 i)"
      by (simp add: take_bit_xor)
    ultimately show ?thesis by (simp add: take_bit_eq_mod)
  qed
  have "3 XOR i = push_bit 2 (drop_bit 2 ((3::nat) XOR i)) + take_bit 2 (3 XOR i)"
    by (rule bits_ident [symmetric])
  then show ?thesis unfolding hi lo by (simp add: push_bit_eq_mult drop_bit_eq_div)
qed

lemma xor3_inj [simp]: "(3::nat) XOR i = 3 XOR j \<longleftrightarrow> i = j"
  by (metis xor.left_neutral xor.assoc xor_self_eq)

lemma xor3_less:
  assumes "4 dvd n" and "i < n"
  shows "(3::nat) XOR i < n"
proof -
  obtain k where k: "n = 4 * k" using assms(1) by (elim dvdE)
  then have "i div 4 < k" using assms(2) by (simp add: less_mult_imp_div_less mult.commute)
  then have "4 * (i div 4) + 3 < 4 * k" by linarith
  then show ?thesis using k unfolding xor3_eq by linarith
qed

lemma xor3_less_iff: "4 dvd n \<Longrightarrow> (3::nat) XOR i < n \<longleftrightarrow> i < n"
  using xor3_less [of n i] xor3_less [of n "3 XOR i"] by (auto simp: xor.assoc [symmetric])

end
