(* ===== verification/MadField.thy ===== *)
theory MadField
  imports IbPrelude
begin

text \<open>
  The bit-field codec of \<open>libibmad/src/fields.c\<close>: the field descriptor, the macros that
  normalise the offsets of the specification, and the six static accessors. The abstract view of
  a buffer is the function \<open>buf_bit\<close>, which numbers the bits of a buffer the way the
  descriptors do; every accessor is characterised by what it does to those bits.
\<close>

section \<open>Field descriptors\<close>

text \<open>The dump functions a descriptor can point to (the ones \<open>ib_mad_f\<close> uses).\<close>

datatype dump_fn =
    Dump_uint | Dump_hex | Dump_rhex | Dump_array | Dump_string | Dump_bitfield
  | Dump_linkwidth | Dump_linkwidthsup | Dump_linkwidthen | Dump_linkdowndefstate
  | Dump_linkspeed | Dump_linkspeedsup | Dump_linkspeeden
  | Dump_linkspeedext | Dump_linkspeedextsup | Dump_linkspeedexten
  | Dump_portstate | Dump_physportstate | Dump_portcapmask | Dump_portcapmask2
  | Dump_mtu | Dump_vlcap | Dump_opervls | Dump_node_type

record ib_field_t =
  bitoffs :: nat
  bitlen :: nat
  name :: string
  def_dump_fn :: "dump_fn option"

definition BITSOFFS :: "nat \<Rightarrow> nat \<Rightarrow> nat \<times> nat" where
  "BITSOFFS off w =
     (nat ((int off AND NOT 31) OR (32 - (int off AND 31) - int w)), w)"

definition BE_OFFS :: "nat \<Rightarrow> nat \<Rightarrow> nat \<times> nat" where
  "BE_OFFS off w = (off, w)"

definition BE_TO_BITSOFFS :: "nat \<Rightarrow> nat \<Rightarrow> nat" where
  "BE_TO_BITSOFFS off w = nat ((int off AND NOT 31) OR (32 - (int off AND 31) - int w))"

definition no_field :: ib_field_t where
  \<comment> \<open>the initialiser \<open>{}\<close>\<close>
  "no_field = \<lparr>bitoffs = 0, bitlen = 0, name = '''', def_dump_fn = None\<rparr>"

fun mk_field :: "nat \<times> nat \<Rightarrow> string \<Rightarrow> dump_fn \<Rightarrow> ib_field_t" where
  "mk_field (off, w) nm d = \<lparr>bitoffs = off, bitlen = w, name = nm, def_dump_fn = Some d\<rparr>"

section \<open>Fields of at most 32 bits\<close>

definition prebits :: "ib_field_t \<Rightarrow> nat" where
  "prebits f = (8 - (bitoffs f AND 7)) AND 7"

definition postbits :: "ib_field_t \<Rightarrow> nat" where
  "postbits f = (bitoffs f + bitlen f) AND 7"

definition bytelen :: "ib_field_t \<Rightarrow> nat" where
  "bytelen f = bitlen f div 8"

definition field_idx :: "nat \<Rightarrow> ib_field_t \<Rightarrow> nat" where
  "field_idx base_offs f = base_offs + bitoffs f div 8"

fun set_bytes :: "mem \<Rightarrow> nat \<Rightarrow> nat \<Rightarrow> u32 \<Rightarrow> (mem \<times> nat \<times> u32) option" where
  \<comment> \<open>\<open>for (; bytelen--; val >>= 8) p[3 ^ idx++] = val & 0xff;\<close>\<close>
  "set_bytes p idx 0 val = Some (p, idx, val)"
| "set_bytes p idx (Suc n) val = do {
     p \<leftarrow> mem_wr p (3 XOR idx) (ucast (val AND 0xff));
     set_bytes p (idx + 1) n (drop_bit 8 val)
   }"

definition set_pre :: "mem \<Rightarrow> nat \<Rightarrow> nat \<Rightarrow> u32 \<Rightarrow> (mem \<times> nat \<times> u32) option" where
  \<comment> \<open>val lsb in byte msb\<close>
  "set_pre p idx pre val =
     (if pre \<noteq> 0 then do {
        b \<leftarrow> mem_rd p (3 XOR idx);
        p \<leftarrow> mem_wr p (3 XOR idx) (b AND c_ones (8 - pre));
        b \<leftarrow> mem_rd p (3 XOR idx);
        p \<leftarrow> mem_wr p (3 XOR idx) (b OR ucast (push_bit (8 - pre) (val AND c_ones pre)));
        Some (p, idx + 1, drop_bit pre val)
      } else Some (p, idx, val))"

definition set_post :: "mem \<Rightarrow> nat \<Rightarrow> nat \<Rightarrow> u32 \<Rightarrow> mem option" where
  \<comment> \<open>val msb in byte lsb\<close>
  "set_post p idx post val =
     (if post \<noteq> 0 then do {
        b \<leftarrow> mem_rd p (3 XOR idx);
        p \<leftarrow> mem_wr p (3 XOR idx) (b AND NOT (c_ones post));
        b \<leftarrow> mem_rd p (3 XOR idx);
        mem_wr p (3 XOR idx) (b OR ucast val)
      } else Some p)"

definition set_field :: "mem \<Rightarrow> nat \<Rightarrow> ib_field_t \<Rightarrow> u32 \<Rightarrow> mem option" where
  "set_field p base_offs f val =
     (let idx = field_idx base_offs f; o7 = bitoffs f AND 7 in
      if bytelen f = 0 \<and> o7 + bitlen f < 8 then do {
        b \<leftarrow> mem_rd p (3 XOR idx);
        p \<leftarrow> mem_wr p (3 XOR idx) (b AND NOT (push_bit o7 (c_ones (bitlen f))));
        b \<leftarrow> mem_rd p (3 XOR idx);
        mem_wr p (3 XOR idx) (b OR ucast (push_bit o7 (val AND c_ones (bitlen f))))
      } else do {
        (p, idx, val) \<leftarrow> set_pre p idx (prebits f) val;
        (p, idx, val) \<leftarrow> set_bytes p idx (bytelen f) val;
        set_post p idx (postbits f) val
      })"

fun get_bytes :: "mem \<Rightarrow> nat \<Rightarrow> nat \<Rightarrow> u32 \<Rightarrow> u32 option" where
  \<comment> \<open>\<open>for (idx += bytelen - 1; bytelen--; idx--) val = (val << 8) | p[3 ^ idx];\<close>\<close>
  "get_bytes p idx 0 val = Some val"
| "get_bytes p idx (Suc n) val = do {
     b \<leftarrow> mem_rd p (3 XOR (idx + n));
     get_bytes p idx n (push_bit 8 val OR ucast b)
   }"

definition get_field :: "mem \<Rightarrow> nat \<Rightarrow> ib_field_t \<Rightarrow> u32 option" where
  "get_field p base_offs f =
     (let idx = field_idx base_offs f; o7 = bitoffs f AND 7 in
      if bytelen f = 0 \<and> o7 + bitlen f < 8 then do {
        b \<leftarrow> mem_rd p (3 XOR idx);
        Some (drop_bit o7 (ucast b) AND c_ones (bitlen f))
      } else do {
        (v, idx) \<leftarrow> (if prebits f \<noteq> 0 then do {
                        b \<leftarrow> mem_rd p (3 XOR idx);
                        Some (drop_bit (8 - prebits f) (ucast b), idx + 1)
                      } else Some (0, idx));
        val \<leftarrow> (if postbits f \<noteq> 0 then do {
                   b \<leftarrow> mem_rd p (3 XOR (base_offs + (bitoffs f + bitlen f) div 8));
                   Some (ucast b AND c_ones (postbits f))
                 } else Some 0);
        val \<leftarrow> get_bytes p idx (bytelen f) val;
        Some (push_bit (prebits f) val OR v)
      })"

section \<open>Fields of 64 bits, and arrays\<close>

definition htonll :: "endian \<Rightarrow> u64 \<Rightarrow> u64" where
  \<comment> \<open>\<open>bswap_64\<close> on a little-endian host, the identity on a big-endian one\<close>
  "htonll e x = (case e of LE \<Rightarrow> le_word (rev (native_bytes LE 8 x)) | BE \<Rightarrow> x)"

definition ntohll :: "endian \<Rightarrow> u64 \<Rightarrow> u64" where
  "ntohll e x = htonll e x"

definition set_field64 :: "endian \<Rightarrow> mem \<Rightarrow> nat \<Rightarrow> ib_field_t \<Rightarrow> u64 \<Rightarrow> mem option" where
  "set_field64 e p base_offs f val =
     (let nval = htonll e val in
      mem_store p (base_offs + bitoffs f div 8) (native_bytes e 8 nval))"

definition get_field64 :: "endian \<Rightarrow> mem \<Rightarrow> nat \<Rightarrow> ib_field_t \<Rightarrow> u64 option" where
  "get_field64 e p base_offs f = do {
     bs \<leftarrow> mem_load p (base_offs + bitoffs f div 8) 8;
     Some (ntohll e (native_word e bs))
   }"

definition array_offs :: "ib_field_t \<Rightarrow> nat" where
  "array_offs f = (if bitlen f < 32 then BE_TO_BITSOFFS (bitoffs f) (bitlen f) else bitoffs f)"

definition set_array :: "mem \<Rightarrow> nat \<Rightarrow> ib_field_t \<Rightarrow> mem \<Rightarrow> mem option" where
  "set_array p base_offs f val = do {
     bs \<leftarrow> mem_load val 0 (bitlen f div 8);
     mem_store p (base_offs + array_offs f div 8) bs
   }"

definition get_array :: "mem \<Rightarrow> nat \<Rightarrow> ib_field_t \<Rightarrow> mem \<Rightarrow> mem option" where
  "get_array p base_offs f val = do {
     bs \<leftarrow> mem_load p (base_offs + array_offs f div 8) (bitlen f div 8);
     mem_store val 0 bs
   }"

section \<open>The bits of a buffer\<close>

definition buf_bit :: "mem \<Rightarrow> nat \<Rightarrow> bool" where
  \<comment> \<open>bit \<open>n\<close> of a buffer in the numbering of the descriptors\<close>
  "buf_bit p n = bit (p ! (3 XOR (n div 8))) (n mod 8)"

definition field_start :: "nat \<Rightarrow> ib_field_t \<Rightarrow> nat" where
  "field_start base_offs f = 8 * base_offs + bitoffs f"

definition field_end :: "nat \<Rightarrow> ib_field_t \<Rightarrow> nat" where
  "field_end base_offs f = field_start base_offs f + bitlen f"

definition single_byte :: "ib_field_t \<Rightarrow> bool" where
  "single_byte f \<longleftrightarrow> bytelen f = 0 \<and> (bitoffs f AND 7) + bitlen f < 8"

definition field_shape :: "ib_field_t \<Rightarrow> bool" where
  \<comment> \<open>the accessors split a field into a head, whole bytes and a tail that add up to it\<close>
  "field_shape f \<longleftrightarrow> 0 < bitlen f \<and> bitlen f \<le> 32 \<and>
     (single_byte f \<or> prebits f + 8 * bytelen f + postbits f = bitlen f)"

definition field_in :: "nat \<Rightarrow> nat \<Rightarrow> ib_field_t \<Rightarrow> bool" where
  \<comment> \<open>the field lies inside a buffer of \<open>n\<close> bytes made of whole 32-bit words\<close>
  "field_in n base_offs f \<longleftrightarrow> 4 dvd n \<and> field_end base_offs f \<le> 8 * n"

definition spill_end :: "nat \<Rightarrow> ib_field_t \<Rightarrow> nat" where
  \<comment> \<open>the end of the last byte a store writes to without masking\<close>
  "spill_end base_offs f =
     (if single_byte f \<or> postbits f = 0 then field_end base_offs f
      else field_end base_offs f + (8 - postbits f))"

definition fits :: "ib_field_t \<Rightarrow> u32 \<Rightarrow> bool" where
  \<comment> \<open>no bit of the value is stored outside the field\<close>
  "fits f v \<longleftrightarrow> single_byte f \<or> postbits f = 0 \<or> unat v < 2 ^ bitlen f"

section \<open>What the accessors do to the bits\<close>

subsection \<open>Arithmetic of the split\<close>

lemma nat_and_7: "(n::nat) AND 7 = n mod 8"
  using take_bit_eq_mask [of 3 n] by (simp add: mask_eq_exp_minus_1 take_bit_eq_mod)

lemma prebits_eq: "prebits f = (8 - bitoffs f mod 8) mod 8"
  by (simp add: prebits_def nat_and_7)

lemma postbits_eq: "postbits f = (bitoffs f + bitlen f) mod 8"
  by (simp add: postbits_def nat_and_7)

lemma prebits_less: "prebits f < 8" and postbits_less: "postbits f < 8"
  by (simp_all add: prebits_eq postbits_eq)

lemma prebits_0: "prebits f = 0 \<Longrightarrow> bitoffs f mod 8 = 0"
  by (cases "bitoffs f mod 8 = 0") (simp_all add: prebits_eq)

lemma prebits_pos: "prebits f \<noteq> 0 \<Longrightarrow> prebits f + bitoffs f mod 8 = 8"
  by (cases "bitoffs f mod 8 = 0") (simp_all add: prebits_eq)

lemma field_start_idx: "field_start base f = 8 * field_idx base f + bitoffs f mod 8"
  by (simp add: field_start_def field_idx_def)

text \<open>Where the head, the bytes and the tail of a field are.\<close>

definition mid_idx :: "nat \<Rightarrow> ib_field_t \<Rightarrow> nat" where
  "mid_idx base f = field_idx base f + (if prebits f = 0 then 0 else 1)"

lemma mid_idx_start: "8 * mid_idx base f = field_start base f + prebits f"
proof (cases "prebits f = 0")
  case True
  then show ?thesis using prebits_0 [of f] by (simp add: mid_idx_def field_start_idx)
next
  case False
  then show ?thesis using prebits_pos [of f] by (simp add: mid_idx_def field_start_idx)
qed

lemma field_split:
  assumes "field_shape f" and "\<not> single_byte f"
  shows "8 * (mid_idx base f + bytelen f) + postbits f = field_end base f"
    and "base + (bitoffs f + bitlen f) div 8 = mid_idx base f + bytelen f"
proof -
  show 1: "8 * (mid_idx base f + bytelen f) + postbits f = field_end base f"
    using assms mid_idx_start [of base f] by (simp add: field_shape_def field_end_def)
  have "8 * base + (bitoffs f + bitlen f) = 8 * (mid_idx base f + bytelen f) + postbits f"
    using 1 by (simp add: field_end_def field_start_def)
  then have "8 * (base + (bitoffs f + bitlen f) div 8) = 8 * (mid_idx base f + bytelen f)"
    unfolding postbits_eq distrib_left
    using mult_div_mod_eq [of 8 "bitoffs f + bitlen f"] by linarith
  then show "base + (bitoffs f + bitlen f) div 8 = mid_idx base f + bytelen f" by simp
qed

subsection \<open>One byte\<close>

lemma bit_c_ones [simp]: "bit (c_ones n :: 'a::len word) k \<longleftrightarrow> k < n \<and> k < LENGTH('a)"
  by (auto simp: c_ones_mask bit_mask_iff)

lemma low_byte: "(ucast ((v :: u32) AND 0xff) :: u8) = byte_of 0 v"
proof -
  have "v AND 0xff = take_bit 8 v" by (simp add: take_bit_eq_mask mask_eq_exp_minus_1)
  then show ?thesis by (intro bit_word_eqI) (simp add: bit_byte_of bit_simps)
qed

lemma buf_bit_update [mem_simps]:
  "3 XOR k < length p \<Longrightarrow>
     buf_bit (p[3 XOR k := b]) m = (if m div 8 = k then bit b (m mod 8) else buf_bit p m)"
  by (auto simp: buf_bit_def)

lemma bit_get_byte [mem_simps]:
  "n < 8 \<Longrightarrow> bit (p ! (3 XOR k)) n = buf_bit p (8 * k + n)"
  by (simp add: buf_bit_def)

lemma bit_less_exp:
  assumes "unat (w :: 'a::len word) < 2 ^ n" and "bit w k"
  shows "k < n"
proof (rule ccontr)
  assume "\<not> k < n"
  then have "(2::nat) ^ n \<le> 2 ^ k" by (intro power_increasing) simp_all
  moreover have "odd (unat w div 2 ^ k)"
    using assms(2) bit_imp_le_length [OF assms(2)] by (simp add: bit_unsigned_iff flip: bit_iff_odd)
  then have "unat w div 2 ^ k \<noteq> 0" by (metis dvd_0_right)
  then have "2 ^ k \<le> unat w" by (simp add: div_eq_0_iff)
  ultimately show False using assms(1) by linarith
qed

lemma div8_iff: "m div 8 = k \<longleftrightarrow> 8 * k \<le> m \<and> m < 8 * k + 8" for m k :: nat
  using mult_div_mod_eq [of 8 m] mod_less_divisor [of 8 m] by (auto intro: div_nat_eqI)

lemma mod8_at: "m div 8 = k \<Longrightarrow> m mod 8 = m - 8 * k" for m k :: nat
  using minus_mult_div_eq_mod [of m 8] by auto

subsection \<open>The three parts of a store\<close>

lemma set_pre_bits:
  assumes "3 XOR idx < length p" and "pre < 8"
  shows "\<exists>p'. set_pre p idx pre val
                = Some (p', idx + (if pre = 0 then 0 else 1), drop_bit pre val) \<and>
              length p' = length p \<and>
              (\<forall>m. buf_bit p' m = (if 8 * idx + 8 - pre \<le> m \<and> m < 8 * idx + 8
                                   then bit val (m - (8 * idx + 8 - pre)) else buf_bit p m))"
proof (cases "pre = 0")
  case True
  then show ?thesis by (auto simp: set_pre_def)
next
  case False
  let ?b = "(p ! (3 XOR idx) AND c_ones (8 - pre)) OR ucast (push_bit (8 - pre) (val AND c_ones pre))"
  have "buf_bit (p[3 XOR idx := ?b]) m = (if 8 * idx + 8 - pre \<le> m \<and> m < 8 * idx + 8
          then bit val (m - (8 * idx + 8 - pre)) else buf_bit p m)" for m
  proof (cases "m div 8 = idx")
    case True
    then obtain r where r: "m = 8 * idx + r" "r < 8" by (metis div8_iff le_Suc_ex nat_add_left_cancel_less)
    have "bit ?b r = (if 8 - pre \<le> r then bit val (r - (8 - pre)) else buf_bit p m)"
      using r assms(2) by (auto simp: bit_simps buf_bit_def)
    then show ?thesis using r assms(2) by (auto simp: buf_bit_update [OF assms(1)])
  next
    case False
    then show ?thesis using assms by (auto simp: buf_bit_update div8_iff)
  qed
  then show ?thesis using False assms by (auto simp: set_pre_def mem_rd_def mem_wr_def)
qed

lemma set_bytes_bits:
  assumes "4 dvd length p" and "idx + n \<le> length p"
  shows "\<exists>p'. set_bytes p idx n val = Some (p', idx + n, drop_bit (8 * n) val) \<and>
              length p' = length p \<and>
              (\<forall>m. buf_bit p' m = (if 8 * idx \<le> m \<and> m < 8 * (idx + n)
                                   then bit val (m - 8 * idx) else buf_bit p m))"
  using assms
proof (induction n arbitrary: p idx val)
  case 0
  then show ?case by auto
next
  case (Suc n)
  let ?p = "p[3 XOR idx := ucast (val AND 0xff)]"
  have i: "3 XOR idx < length p" using Suc.prems by (simp add: xor3_less)
  obtain p' where p': "set_bytes ?p (idx + 1) n (drop_bit 8 val)
      = Some (p', idx + 1 + n, drop_bit (8 * n) (drop_bit 8 val))" "length p' = length p"
    and bits: "\<And>m. buf_bit p' m = (if 8 * (idx + 1) \<le> m \<and> m < 8 * (idx + 1 + n)
                  then bit (drop_bit 8 val) (m - 8 * (idx + 1)) else buf_bit ?p m)"
    using Suc.IH [of ?p "idx + 1" "drop_bit 8 val"] Suc.prems by auto
  have "buf_bit p' m = (if 8 * idx \<le> m \<and> m < 8 * (idx + Suc n)
          then bit val (m - 8 * idx) else buf_bit p m)" for m
  proof (cases "m div 8 = idx")
    case True
    then obtain r where r: "m = 8 * idx + r" "r < 8" by (metis div8_iff le_Suc_ex nat_add_left_cancel_less)
    then show ?thesis
      unfolding bits buf_bit_update [OF i] low_byte by (simp add: bit_byte_of)
  next
    case False
    then show ?thesis
      unfolding bits buf_bit_update [OF i] by (auto simp: bit_drop_bit_eq div8_iff)
  qed
  then show ?case using i p' by (simp add: mem_wr_def algebra_simps)
qed

text \<open>
  The tail is stored with a plain \<open>|= val\<close>: bits of \<open>val\<close> above the tail are or-ed
  into the rest of the byte.
\<close>

lemma set_post_bits:
  assumes "post \<noteq> 0 \<Longrightarrow> 3 XOR idx < length p" and "post < 8"
  shows "\<exists>p'. set_post p idx post val = Some p' \<and> length p' = length p \<and>
              (\<forall>m. buf_bit p' m = (if 8 * idx \<le> m \<and> m < 8 * idx + post then bit val (m - 8 * idx)
                                   else if post \<noteq> 0 \<and> 8 * idx + post \<le> m \<and> m < 8 * idx + 8
                                   then buf_bit p m \<or> bit val (m - 8 * idx) else buf_bit p m))"
proof (cases "post = 0")
  case True
  then show ?thesis by (auto simp: set_post_def)
next
  case False
  let ?b = "(p ! (3 XOR idx) AND NOT (c_ones post)) OR ucast val"
  have "buf_bit (p[3 XOR idx := ?b]) m =
          (if 8 * idx \<le> m \<and> m < 8 * idx + post then bit val (m - 8 * idx)
           else if 8 * idx + post \<le> m \<and> m < 8 * idx + 8
           then buf_bit p m \<or> bit val (m - 8 * idx) else buf_bit p m)" for m
  proof (cases "m div 8 = idx")
    case True
    then obtain r where r: "m = 8 * idx + r" "r < 8" by (metis div8_iff le_Suc_ex nat_add_left_cancel_less)
    have "bit ?b r = (if r < post then bit val r else buf_bit p m \<or> bit val r)"
      using r assms(2) by (auto simp: bit_simps buf_bit_def)
    then show ?thesis using r assms(2) by (auto simp: buf_bit_update [OF assms(1) [OF False]])
  next
    case False
    then show ?thesis using assms \<open>post \<noteq> 0\<close> by (auto simp: buf_bit_update div8_iff)
  qed
  then show ?thesis using False assms by (auto simp: set_post_def mem_rd_def mem_wr_def)
qed

subsection \<open>A whole field\<close>

lemma single_byteD:
  assumes "single_byte f"
  shows "bitoffs f mod 8 + bitlen f < 8"
  using assms by (simp add: single_byte_def nat_and_7)

lemma field_in_idx:
  assumes "field_in n base f" and "0 < bitlen f"
  shows "3 XOR field_idx base f < n"
proof -
  have "8 * field_idx base f < 8 * n"
    using assms by (simp add: field_in_def field_end_def field_start_idx)
  then show ?thesis using assms by (simp add: field_in_def xor3_less)
qed

lemma set_field_single:
  assumes "single_byte f" and "3 XOR field_idx base f < length p"
  shows "\<exists>p'. set_field p base f v = Some p' \<and> length p' = length p \<and>
              (\<forall>m. buf_bit p' m = (if field_start base f \<le> m \<and> m < field_end base f
                                   then bit v (m - field_start base f) else buf_bit p m))"
proof -
  let ?i = "field_idx base f" and ?o = "bitoffs f mod 8" and ?n = "bitlen f"
  let ?b = "(p ! (3 XOR ?i) AND NOT (push_bit ?o (c_ones ?n))) OR ucast (push_bit ?o (v AND c_ones ?n))"
  have on: "?o + ?n < 8" by (rule single_byteD [OF assms(1)])
  have "buf_bit (p[3 XOR ?i := ?b]) m = (if field_start base f \<le> m \<and> m < field_end base f
          then bit v (m - field_start base f) else buf_bit p m)" for m
  proof (cases "m div 8 = ?i")
    case True
    then obtain r where r: "m = 8 * ?i + r" "r < 8"
      by (metis div8_iff le_Suc_ex nat_add_left_cancel_less)
    have "bit ?b r = (if ?o \<le> r \<and> r < ?o + ?n then bit v (r - ?o) else buf_bit p m)"
      using r on by (auto simp: bit_simps buf_bit_def)
    then show ?thesis
      using r by (auto simp: buf_bit_update [OF assms(2)] field_start_idx field_end_def)
  next
    case False
    then show ?thesis
      using on unfolding buf_bit_update [OF assms(2)] by (auto simp: field_start_idx field_end_def div8_iff)
  qed
  then show ?thesis
    using assms by (auto simp: set_field_def Let_def single_byte_def mem_rd_def mem_wr_def nat_and_7)
qed

lemma set_field_multi:
  assumes shape: "field_shape f" and "\<not> single_byte f" and inb: "field_in (length p) base f"
  shows "\<exists>p'. set_field p base f v = Some p' \<and> length p' = length p \<and>
              (\<forall>m. buf_bit p' m =
                 (if field_start base f \<le> m \<and> m < field_end base f then bit v (m - field_start base f)
                  else if field_end base f \<le> m \<and> m < spill_end base f
                  then buf_bit p m \<or> bit v (m - field_start base f) else buf_bit p m))"
proof -
  let ?i = "field_idx base f" and ?j = "mid_idx base f" and ?n = "bytelen f"
  let ?k = "?j + ?n" and ?d = "prebits f + 8 * ?n"
  have len: "prebits f + 8 * ?n + postbits f = bitlen f" and pos: "0 < bitlen f"
    using assms(1,2) by (simp_all add: field_shape_def)
  have start: "8 * ?j = field_start base f + prebits f" by (rule mid_idx_start)
  have fin: "8 * ?k + postbits f = field_end base f" by (rule field_split(1) [OF assms(1,2)])
  have dvd: "4 dvd length p" and lim: "field_end base f \<le> 8 * length p"
    using inb by (simp_all add: field_in_def)
  obtain p1 where p1: "set_pre p ?i (prebits f) v = Some (p1, ?j, drop_bit (prebits f) v)"
      "length p1 = length p"
    and b1: "\<And>m. buf_bit p1 m = (if 8 * ?i + 8 - prebits f \<le> m \<and> m < 8 * ?i + 8
              then bit v (m - (8 * ?i + 8 - prebits f)) else buf_bit p m)"
    using set_pre_bits [OF field_in_idx [OF inb pos] prebits_less] unfolding mid_idx_def by blast
  have "?k \<le> length p1" using fin lim p1(2) unfolding distrib_left by linarith
  then obtain p2 where p2: "set_bytes p1 ?j ?n (drop_bit (prebits f) v)
        = Some (p2, ?k, drop_bit (8 * ?n) (drop_bit (prebits f) v))" "length p2 = length p"
    and b2: "\<And>m. buf_bit p2 m = (if 8 * ?j \<le> m \<and> m < 8 * ?k
              then bit (drop_bit (prebits f) v) (m - 8 * ?j) else buf_bit p1 m)"
    using set_bytes_bits [of p1 ?j ?n "drop_bit (prebits f) v"] dvd p1(2) by auto
  have v2: "drop_bit (8 * ?n) (drop_bit (prebits f) v) = drop_bit ?d v" by (simp add: add.commute)
  have "3 XOR ?k < length p2" if "postbits f \<noteq> 0"
    using that fin lim dvd p2(2) by (intro xor3_less) auto
  then obtain p3 where p3: "set_post p2 ?k (postbits f) (drop_bit ?d v) = Some p3"
      "length p3 = length p"
    and b3: "\<And>m. buf_bit p3 m =
              (if 8 * ?k \<le> m \<and> m < 8 * ?k + postbits f then bit (drop_bit ?d v) (m - 8 * ?k)
               else if postbits f \<noteq> 0 \<and> 8 * ?k + postbits f \<le> m \<and> m < 8 * ?k + 8
               then buf_bit p2 m \<or> bit (drop_bit ?d v) (m - 8 * ?k) else buf_bit p2 m)"
    using set_post_bits [OF _ postbits_less, of f ?k p2 "drop_bit ?d v"] p2(2) by auto
  have spill: "spill_end base f = (if postbits f = 0 then field_end base f else 8 * ?k + 8)"
    using fin assms(2) postbits_less [of f] by (auto simp: spill_end_def)
  have eq: "set_field p base f v = Some p3"
    using assms(2) p1 p2 p3 v2 by (auto simp: set_field_def single_byte_def Let_def)
  have pre: "8 * ?i + 8 - prebits f = field_start base f \<and> 8 * ?i + 8 = 8 * ?j \<or>
      prebits f = 0 \<and> ?i = ?j"
    using prebits_pos [of f] start by (cases "prebits f = 0") (auto simp: mid_idx_def field_start_idx)
  have "buf_bit p3 m =
          (if field_start base f \<le> m \<and> m < field_end base f then bit v (m - field_start base f)
           else if field_end base f \<le> m \<and> m < spill_end base f
           then buf_bit p m \<or> bit v (m - field_start base f) else buf_bit p m)" for m
  proof -
    consider "m < field_start base f" | "field_start base f \<le> m" "m < 8 * ?j"
      | "8 * ?j \<le> m" "m < 8 * ?k" | "8 * ?k \<le> m" "m < field_end base f"
      | "field_end base f \<le> m" "m < spill_end base f" | "field_end base f \<le> m" "spill_end base f \<le> m"
      by linarith
    then show ?thesis
    proof cases
      case 1
      then show ?thesis using start fin len pre by (auto simp: b1 b2 b3)
    next
      case 2
      then show ?thesis using start fin len pre by (auto simp: b1 b2 b3)
    next
      case 3
      then have "m - 8 * ?j + prebits f = m - field_start base f" using start by linarith
      then show ?thesis using 3 start fin len by (auto simp: b2 b3 bit_drop_bit_eq add.commute)
    next
      case 4
      then have "m - 8 * ?k + ?d = m - field_start base f" using start by (simp add: algebra_simps)
      then show ?thesis using 4 start fin len by (auto simp: b3 bit_drop_bit_eq add.commute)
    next
      case 5
      then have "m - 8 * ?k + ?d = m - field_start base f" using start fin by (simp add: algebra_simps)
      moreover have "buf_bit p2 m = buf_bit p m" using 5 start fin len pre by (auto simp: b1 b2)
      ultimately show ?thesis
        using 5 start fin len spill by (auto simp: b3 bit_drop_bit_eq add.commute split: if_splits)
    next
      case 6
      then show ?thesis using start fin len pre spill by (auto simp: b1 b2 b3 split: if_splits)
    qed
  qed
  with eq p3(2) show ?thesis by blast
qed

text \<open>The exact effect of a store, for every value.\<close>

lemma set_field_exact:
  assumes "field_shape f" and "field_in (length p) base f"
  shows "\<exists>p'. set_field p base f v = Some p' \<and> length p' = length p \<and>
              (\<forall>m. buf_bit p' m =
                 (if field_start base f \<le> m \<and> m < field_end base f then bit v (m - field_start base f)
                  else if field_end base f \<le> m \<and> m < spill_end base f
                  then buf_bit p m \<or> bit v (m - field_start base f) else buf_bit p m))"
proof (cases "single_byte f")
  case True
  then have "3 XOR field_idx base f < length p"
    using assms by (intro field_in_idx) (simp_all add: field_shape_def)
  from set_field_single [OF True this, of v] obtain p' where "set_field p base f v = Some p'"
      "length p' = length p" "\<forall>m. buf_bit p' m = (if field_start base f \<le> m \<and> m < field_end base f
                                   then bit v (m - field_start base f) else buf_bit p m)"
    by blast
  then show ?thesis using True by (auto simp: spill_end_def)
next
  case False
  then show ?thesis using assms by (intro set_field_multi)
qed

lemma set_field_bits:
  assumes "field_shape f" and "field_in (length p) base f" and "fits f v"
  shows "\<exists>p'. set_field p base f v = Some p' \<and> length p' = length p \<and>
              (\<forall>m. buf_bit p' m = (if field_start base f \<le> m \<and> m < field_end base f
                                   then bit v (m - field_start base f) else buf_bit p m))"
proof -
  obtain p' where p': "set_field p base f v = Some p'" "length p' = length p"
    and bits: "\<And>m. buf_bit p' m =
                 (if field_start base f \<le> m \<and> m < field_end base f then bit v (m - field_start base f)
                  else if field_end base f \<le> m \<and> m < spill_end base f
                  then buf_bit p m \<or> bit v (m - field_start base f) else buf_bit p m)"
    using set_field_exact [OF assms(1,2)] by blast
  have "\<not> bit v (m - field_start base f)" if "field_end base f \<le> m" "m < spill_end base f" for m
  proof
    assume b: "bit v (m - field_start base f)"
    have "unat v < 2 ^ bitlen f" using that assms(3) by (auto simp: fits_def spill_end_def split: if_splits)
    from bit_less_exp [OF this b] that show False by (simp add: field_end_def)
  qed
  with p' show ?thesis by (auto simp: bits)
qed

lemma get_bytes_bits:
  assumes "4 dvd length p" and "idx + n \<le> length p"
  shows "\<exists>w. get_bytes p idx n val = Some w \<and>
             (\<forall>j < 32. bit w j = (if j < 8 * n then buf_bit p (8 * idx + j) else bit val (j - 8 * n)))"
  using assms
proof (induction n arbitrary: val)
  case 0
  then show ?case by simp
next
  case (Suc n)
  let ?b = "p ! (3 XOR (idx + n))"
  have i: "3 XOR (idx + n) < length p" using Suc.prems by (intro xor3_less) auto
  obtain w where w: "get_bytes p idx n (push_bit 8 val OR ucast ?b) = Some w"
    and bits: "\<And>j. j < 32 \<Longrightarrow> bit w j = (if j < 8 * n then buf_bit p (8 * idx + j)
                  else bit (push_bit 8 val OR ucast ?b) (j - 8 * n))"
    using Suc.IH [of "push_bit 8 val OR ucast ?b"] Suc.prems by auto
  have "bit w j = (if j < 8 * Suc n then buf_bit p (8 * idx + j) else bit val (j - 8 * Suc n))"
    if "j < 32" for j
  proof -
    consider "j < 8 * n" | r where "j = 8 * n + r" "r < 8" | "8 * Suc n \<le> j"
      by (metis add.commute le_Suc_ex mult_Suc_right nat_add_left_cancel_less not_less)
    then show ?thesis
    proof cases
      case 1
      then show ?thesis using bits [OF that] by simp
    next
      case 2
      have "bit ?b r = buf_bit p (8 * (idx + n) + r)" using 2 by (simp add: bit_get_byte)
      moreover have "bit (push_bit 8 val OR ucast ?b) r = bit ?b r"
        using 2 that by (auto simp: bit_simps)
      ultimately show ?thesis using 2 bits [OF that] by (simp add: algebra_simps)
    next
      case 3
      have "\<not> bit ?b (j - 8 * n)" using 3 bit_imp_le_length [of ?b "j - 8 * n"] by auto
      moreover have "j - 8 * n - 8 = j - 8 * Suc n" "8 \<le> j - 8 * n" "j - 8 * n < 32"
        using 3 that by simp_all
      ultimately show ?thesis using 3 that bits [OF that] by (simp add: bit_simps)
    qed
  qed
  then show ?case using i w by (simp add: mem_rd_def)
qed

lemma get_field_bits:
  assumes "field_shape f" and "field_in (length p) base f"
  shows "\<exists>w. get_field p base f = Some w \<and>
             (\<forall>j. bit w j \<longleftrightarrow> j < bitlen f \<and> buf_bit p (field_start base f + j))"
proof -
  have pos: "0 < bitlen f" and le: "bitlen f \<le> 32" using assms(1) by (simp_all add: field_shape_def)
  have i: "3 XOR field_idx base f < length p" by (rule field_in_idx [OF assms(2) pos])
  show ?thesis
  proof (cases "single_byte f")
    case True
    let ?o = "bitoffs f mod 8"
    let ?w = "drop_bit ?o (ucast (p ! (3 XOR field_idx base f))) AND c_ones (bitlen f) :: u32"
    have on: "?o + bitlen f < 8" by (rule single_byteD [OF True])
    have "bit ?w j \<longleftrightarrow> j < bitlen f \<and> buf_bit p (field_start base f + j)" for j
    proof (cases "j < bitlen f")
      case True
      then have oj: "?o + j < 8" and s: "field_start base f + j = 8 * field_idx base f + (?o + j)"
        using on by (simp_all add: field_start_idx)
      then have "(field_start base f + j) div 8 = field_idx base f"
          "(field_start base f + j) mod 8 = ?o + j"
        unfolding s using oj by (simp_all only: div_mult_self4 mod_mult_self4 mod_less div_less)
      then show ?thesis using True le on by (auto simp: bit_simps buf_bit_def)
    next
      case False
      then show ?thesis by (simp add: bit_simps)
    qed
    then show ?thesis
      using True i by (auto simp: get_field_def single_byte_def mem_rd_def nat_and_7 Let_def)
  next
    case False
    let ?i = "field_idx base f" and ?j = "mid_idx base f" and ?n = "bytelen f"
    let ?k = "?j + ?n"
    have len: "prebits f + 8 * ?n + postbits f = bitlen f"
      using assms(1) False by (simp add: field_shape_def)
    have start: "8 * ?j = field_start base f + prebits f" by (rule mid_idx_start)
    have fin: "8 * ?k + postbits f = field_end base f" by (rule field_split(1) [OF assms(1) False])
    have k: "base + (bitoffs f + bitlen f) div 8 = ?k" by (rule field_split(2) [OF assms(1) False])
    have dvd: "4 dvd length p" and lim: "field_end base f \<le> 8 * length p"
      using assms(2) by (simp_all add: field_in_def)
    define v :: u32 where "v = (if prebits f \<noteq> 0 then drop_bit (8 - prebits f) (ucast (p ! (3 XOR ?i))) else 0)"
    define t :: u32 where "t = (if postbits f \<noteq> 0 then ucast (p ! (3 XOR ?k)) AND c_ones (postbits f) else 0)"
    have bv: "bit v r \<longleftrightarrow> r < prebits f \<and> buf_bit p (field_start base f + r)" for r
    proof (cases "prebits f = 0")
      case True
      then show ?thesis by (simp add: v_def)
    next
      case False
      have s: "field_start base f = 8 * ?i + (8 - prebits f)"
        using prebits_pos [OF False] by (simp add: field_start_idx)
      show ?thesis
      proof (cases "r < prebits f")
        case True
        then have "bit (p ! (3 XOR ?i)) (8 - prebits f + r) = buf_bit p (field_start base f + r)"
          using prebits_less [of f] unfolding s by (subst bit_get_byte) (simp_all add: add.assoc)
        moreover have "8 - prebits f + r < 32" using True prebits_less [of f] by linarith
        ultimately show ?thesis using True False by (simp add: v_def bit_simps)
      next
        case False
        then have "\<not> bit (p ! (3 XOR ?i)) (8 - prebits f + r)"
          using bit_imp_le_length [of "p ! (3 XOR ?i)" "8 - prebits f + r"] prebits_less [of f] by auto
        then show ?thesis using False by (simp add: v_def bit_simps)
      qed
    qed
    have bt: "bit t r \<longleftrightarrow> r < postbits f \<and> buf_bit p (8 * ?k + r)" for r
      using postbits_less [of f] bit_get_byte [of r p ?k]
      by (cases "r < postbits f") (simp_all add: t_def bit_simps)
    have kin: "3 XOR ?k < length p" if "postbits f \<noteq> 0"
      using that fin lim dvd by (intro xor3_less) auto
    have "?k \<le> length p" using fin lim unfolding distrib_left by linarith
    then obtain u where u: "get_bytes p ?j ?n t = Some u"
      and bu: "\<And>r. r < 32 \<Longrightarrow> bit u r = (if r < 8 * ?n then buf_bit p (8 * ?j + r) else bit t (r - 8 * ?n))"
      using get_bytes_bits [OF dvd, of ?j ?n t] by blast
    let ?w = "push_bit (prebits f) u OR v"
    have "get_field p base f = Some ?w"
      using False i kin u k
      by (cases "prebits f = 0"; cases "postbits f = 0")
        (auto simp: get_field_def single_byte_def mem_rd_def v_def t_def mid_idx_def Let_def)
    moreover have "bit ?w r \<longleftrightarrow> r < bitlen f \<and> buf_bit p (field_start base f + r)" for r
    proof -
      have w: "bit ?w r \<longleftrightarrow> prebits f \<le> r \<and> r < 32 \<and> bit u (r - prebits f) \<or> bit v r"
        by (auto simp: bit_or_iff bit_push_bit_iff)
      consider "r < prebits f" | q where "r = prebits f + q" "r < 32" | "32 \<le> r" "prebits f \<le> r"
        by (metis le_Suc_ex not_less)
      then show ?thesis
      proof cases
        case 1
        then show ?thesis unfolding w using len bv [of r] by simp
      next
        case 2
        then have "bit u q \<longleftrightarrow> q < 8 * ?n + postbits f \<and> buf_bit p (8 * ?j + q)"
          using bu [of q] bt [of "q - 8 * ?n"] by auto
        moreover have "8 * ?j + q = field_start base f + r" using 2 start by simp
        ultimately show ?thesis unfolding w using 2 bv [of r] len by auto
      next
        case 3
        then show ?thesis unfolding w using le bv [of r] by simp
      qed
    qed
    ultimately show ?thesis by blast
  qed
qed

lemma get_field_Some:
  assumes "field_shape f" and "field_in (length p) base f"
  shows "get_field p base f = Some w \<longleftrightarrow>
           (\<forall>j. bit w j \<longleftrightarrow> j < bitlen f \<and> buf_bit p (field_start base f + j))"
proof -
  obtain w' where w': "get_field p base f = Some w'"
      "\<forall>j. bit w' j \<longleftrightarrow> j < bitlen f \<and> buf_bit p (field_start base f + j)"
    using get_field_bits [OF assms] by blast
  then show ?thesis by (auto intro: bit_eqI)
qed

text \<open>Reading back what was stored, and reading a field that the store did not touch.\<close>

lemma get_set_field_same:
  assumes "field_shape f" and "field_in (length p) base f" and "unat v < 2 ^ bitlen f"
  shows "\<exists>p'. set_field p base f v = Some p' \<and> length p' = length p \<and> get_field p' base f = Some v"
proof -
  have "fits f v" using assms(3) by (simp add: fits_def)
  from set_field_bits [OF assms(1,2) this] obtain p' where p': "set_field p base f v = Some p'"
      "length p' = length p"
    and bits: "\<And>m. buf_bit p' m = (if field_start base f \<le> m \<and> m < field_end base f
                       then bit v (m - field_start base f) else buf_bit p m)" by blast
  have "get_field p' base f = Some v"
    using assms bit_less_exp [OF assms(3)] p'
    by (auto simp: get_field_Some bits field_end_def)
  with p' show ?thesis by blast
qed

lemma get_set_field_trunc:
  \<comment> \<open>without a tail the accessors truncate the value to the width of the field\<close>
  assumes "field_shape f" and "field_in (length p) base f" and "single_byte f \<or> postbits f = 0"
  shows "\<exists>p'. set_field p base f v = Some p' \<and> length p' = length p \<and>
              get_field p' base f = Some (take_bit (bitlen f) v)"
proof -
  have "fits f v" using assms(3) by (auto simp: fits_def)
  from set_field_bits [OF assms(1,2) this] obtain p' where p': "set_field p base f v = Some p'"
      "length p' = length p"
    and bits: "\<And>m. buf_bit p' m = (if field_start base f \<le> m \<and> m < field_end base f
                       then bit v (m - field_start base f) else buf_bit p m)" by blast
  have "get_field p' base f = Some (take_bit (bitlen f) v)"
    using assms p' by (auto simp: get_field_Some bits field_end_def bit_take_bit_iff)
  with p' show ?thesis by blast
qed

definition disjoint_bits :: "nat \<Rightarrow> ib_field_t \<Rightarrow> nat \<Rightarrow> ib_field_t \<Rightarrow> bool" where
  "disjoint_bits b f b' g \<longleftrightarrow> field_end b f \<le> field_start b' g \<or> field_end b' g \<le> field_start b f"

lemma get_set_field_other:
  assumes "field_shape f" and "field_in (length p) base f" and "fits f v"
    and "field_shape g" and "field_in (length p) base' g" and "disjoint_bits base f base' g"
    and "set_field p base f v = Some p'"
  shows "get_field p' base' g = get_field p base' g"
proof -
  from set_field_bits [OF assms(1-3)] assms(7) have l: "length p' = length p"
    and bits: "\<And>m. buf_bit p' m = (if field_start base f \<le> m \<and> m < field_end base f
                       then bit v (m - field_start base f) else buf_bit p m)" by auto
  have "buf_bit p' (field_start base' g + j) = buf_bit p (field_start base' g + j)" if "j < bitlen g" for j
    using that assms(6) unfolding bits by (auto simp: disjoint_bits_def field_end_def)
  then have "get_field p' base' g = Some w \<longleftrightarrow> get_field p base' g = Some w" for w
    using assms(4,5) l by (auto simp: get_field_Some)
  then show ?thesis by (metis not_None_eq)
qed

end
