(* ===== verification/FieldEnum.thy ===== *)
theory FieldEnum
  imports IbPrelude "HOL-Library.Sublist"
begin

text \<open>
  \<open>enum MAD_FIELDS\<close> of \<open>libibmad/include/infiniband/mad.h\<close>: the enumerators in
  source order, the rule by which C numbers them, and the numbers of the enumerators that the
  model uses as constants. \<open>field_constants_agree\<close> checks the constants against the rule.
\<close>

datatype enumerator =
    Enum string \<comment> \<open>\<open>NAME,\<close>\<close>
  | EnumEq string string \<comment> \<open>\<open>NAME = OTHER,\<close>\<close>

fun enum_values :: "enumerator list \<Rightarrow> nat \<Rightarrow> (string \<times> nat) list \<Rightarrow> (string \<times> nat) list" where
  \<comment> \<open>numbers the enumerators from \<open>cur\<close> on; \<open>env\<close> holds the earlier ones, latest first\<close>
  "enum_values [] cur env = []"
| "enum_values (Enum n # es) cur env = (n, cur) # enum_values es (cur + 1) ((n, cur) # env)"
| "enum_values (EnumEq n m # es) cur env =
     (let v = the (map_of env m) in (n, v) # enum_values es (v + 1) ((n, v) # env))"

fun enum_positions :: "enumerator list \<Rightarrow> string list" where
  \<comment> \<open>the enumerators that open a new number, in order\<close>
  "enum_positions [] = []"
| "enum_positions (Enum n # es) = n # enum_positions es"
| "enum_positions (EnumEq n m # es) = enum_positions es"

section \<open>The enumerators\<close>

definition MAD_FIELDS_1 :: "enumerator list" where
  "MAD_FIELDS_1 = [
     Enum ''IB_NO_FIELD'',
     Enum ''IB_GID_PREFIX_F'',
     Enum ''IB_GID_GUID_F'',
     Enum ''IB_MAD_METHOD_F'',
     Enum ''IB_MAD_RESPONSE_F'',
     Enum ''IB_MAD_CLASSVER_F'',
     Enum ''IB_MAD_MGMTCLASS_F'',
     Enum ''IB_MAD_BASEVER_F'',
     Enum ''IB_MAD_STATUS_F'',
     Enum ''IB_DRSMP_HOPCNT_F'',
     Enum ''IB_DRSMP_HOPPTR_F'',
     Enum ''IB_DRSMP_STATUS_F'',
     Enum ''IB_DRSMP_DIRECTION_F'',
     Enum ''IB_MAD_TRID_F'',
     Enum ''IB_MAD_ATTRID_F'',
     Enum ''IB_MAD_ATTRMOD_F'',
     Enum ''IB_MAD_MKEY_F'',
     Enum ''IB_DRSMP_DRDLID_F'',
     Enum ''IB_DRSMP_DRSLID_F'',
     Enum ''IB_SA_MKEY_F'',
     Enum ''IB_SA_ATTROFFS_F'',
     Enum ''IB_SA_COMPMASK_F'',
     Enum ''IB_SA_DATA_F'',
     Enum ''IB_SM_DATA_F'',
     Enum ''IB_GS_DATA_F'',
     Enum ''IB_DRSMP_PATH_F'',
     Enum ''IB_DRSMP_RPATH_F'',
     Enum ''IB_PORT_FIRST_F'',
     EnumEq ''IB_PORT_MKEY_F'' ''IB_PORT_FIRST_F'',
     Enum ''IB_PORT_GID_PREFIX_F'',
     Enum ''IB_PORT_LID_F'',
     Enum ''IB_PORT_SMLID_F'',
     Enum ''IB_PORT_CAPMASK_F'',
     Enum ''IB_PORT_DIAG_F'',
     Enum ''IB_PORT_MKEY_LEASE_F'',
     Enum ''IB_PORT_LOCAL_PORT_F'',
     Enum ''IB_PORT_LINK_WIDTH_ENABLED_F'',
     Enum ''IB_PORT_LINK_WIDTH_SUPPORTED_F'',
     Enum ''IB_PORT_LINK_WIDTH_ACTIVE_F'',
     Enum ''IB_PORT_LINK_SPEED_SUPPORTED_F'',
     Enum ''IB_PORT_STATE_F'',
     Enum ''IB_PORT_PHYS_STATE_F'',
     Enum ''IB_PORT_LINK_DOWN_DEF_F'',
     Enum ''IB_PORT_MKEY_PROT_BITS_F'',
     Enum ''IB_PORT_LMC_F'',
     Enum ''IB_PORT_LINK_SPEED_ACTIVE_F'',
     Enum ''IB_PORT_LINK_SPEED_ENABLED_F'',
     Enum ''IB_PORT_NEIGHBOR_MTU_F'',
     Enum ''IB_PORT_SMSL_F'',
     Enum ''IB_PORT_VL_CAP_F'',
     Enum ''IB_PORT_INIT_TYPE_F'',
     Enum ''IB_PORT_VL_HIGH_LIMIT_F'',
     Enum ''IB_PORT_VL_ARBITRATION_HIGH_CAP_F'',
     Enum ''IB_PORT_VL_ARBITRATION_LOW_CAP_F'',
     Enum ''IB_PORT_INIT_TYPE_REPLY_F'',
     Enum ''IB_PORT_MTU_CAP_F'',
     Enum ''IB_PORT_VL_STALL_COUNT_F'',
     Enum ''IB_PORT_HOQ_LIFE_F'',
     Enum ''IB_PORT_OPER_VLS_F'',
     Enum ''IB_PORT_PART_EN_INB_F'',
     Enum ''IB_PORT_PART_EN_OUTB_F'',
     Enum ''IB_PORT_FILTER_RAW_INB_F'',
     Enum ''IB_PORT_FILTER_RAW_OUTB_F'',
     Enum ''IB_PORT_MKEY_VIOL_F'',
     Enum ''IB_PORT_PKEY_VIOL_F'',
     Enum ''IB_PORT_QKEY_VIOL_F'',
     Enum ''IB_PORT_GUID_CAP_F'',
     Enum ''IB_PORT_CLIENT_REREG_F'',
     Enum ''IB_PORT_MCAST_PKEY_SUPR_ENAB_F'',
     Enum ''IB_PORT_SUBN_TIMEOUT_F'',
     Enum ''IB_PORT_RESP_TIME_VAL_F'',
     Enum ''IB_PORT_LOCAL_PHYS_ERR_F'',
     Enum ''IB_PORT_OVERRUN_ERR_F'',
     Enum ''IB_PORT_MAX_CREDIT_HINT_F'',
     Enum ''IB_PORT_LINK_ROUND_TRIP_F'',
     Enum ''IB_PORT_LAST_F'',
     Enum ''IB_NODE_FIRST_F'',
     EnumEq ''IB_NODE_BASE_VERS_F'' ''IB_NODE_FIRST_F'',
     Enum ''IB_NODE_CLASS_VERS_F'',
     Enum ''IB_NODE_TYPE_F'',
     Enum ''IB_NODE_NPORTS_F'',
     Enum ''IB_NODE_SYSTEM_GUID_F'',
     Enum ''IB_NODE_GUID_F'',
     Enum ''IB_NODE_PORT_GUID_F'',
     Enum ''IB_NODE_PARTITION_CAP_F'',
     Enum ''IB_NODE_DEVID_F'',
     Enum ''IB_NODE_REVISION_F'',
     Enum ''IB_NODE_LOCAL_PORT_F'',
     Enum ''IB_NODE_VENDORID_F'',
     Enum ''IB_NODE_LAST_F'',
     Enum ''IB_SW_FIRST_F'',
     EnumEq ''IB_SW_LINEAR_FDB_CAP_F'' ''IB_SW_FIRST_F'',
     Enum ''IB_SW_RANDOM_FDB_CAP_F'',
     Enum ''IB_SW_MCAST_FDB_CAP_F'',
     Enum ''IB_SW_LINEAR_FDB_TOP_F'',
     Enum ''IB_SW_DEF_PORT_F'',
     Enum ''IB_SW_DEF_MCAST_PRIM_F'',
     Enum ''IB_SW_DEF_MCAST_NOT_PRIM_F'',
     Enum ''IB_SW_LIFE_TIME_F'',
     Enum ''IB_SW_STATE_CHANGE_F'',
     Enum ''IB_SW_OPT_SLTOVL_MAPPING_F'',
     Enum ''IB_SW_LIDS_PER_PORT_F'',
     Enum ''IB_SW_PARTITION_ENFORCE_CAP_F'',
     Enum ''IB_SW_PARTITION_ENF_INB_F'',
     Enum ''IB_SW_PARTITION_ENF_OUTB_F'']"

definition MAD_FIELDS_2 :: "enumerator list" where
  "MAD_FIELDS_2 = [
     Enum ''IB_SW_FILTER_RAW_INB_F'',
     Enum ''IB_SW_FILTER_RAW_OUTB_F'',
     Enum ''IB_SW_ENHANCED_PORT0_F'',
     Enum ''IB_SW_MCAST_FDB_TOP_F'',
     Enum ''IB_SW_LAST_F'',
     Enum ''IB_LINEAR_FORW_TBL_F'',
     Enum ''IB_MULTICAST_FORW_TBL_F'',
     Enum ''IB_NODE_DESC_F'',
     Enum ''IB_NOTICE_IS_GENERIC_F'',
     Enum ''IB_NOTICE_TYPE_F'',
     Enum ''IB_NOTICE_PRODUCER_F'',
     Enum ''IB_NOTICE_TRAP_NUMBER_F'',
     Enum ''IB_NOTICE_ISSUER_LID_F'',
     Enum ''IB_NOTICE_TOGGLE_F'',
     Enum ''IB_NOTICE_COUNT_F'',
     Enum ''IB_NOTICE_DATA_DETAILS_F'',
     Enum ''IB_NOTICE_DATA_LID_F'',
     Enum ''IB_NOTICE_DATA_144_LID_F'',
     Enum ''IB_NOTICE_DATA_144_CAPMASK_F'',
     Enum ''IB_PC_FIRST_F'',
     EnumEq ''IB_PC_PORT_SELECT_F'' ''IB_PC_FIRST_F'',
     Enum ''IB_PC_COUNTER_SELECT_F'',
     Enum ''IB_PC_ERR_SYM_F'',
     Enum ''IB_PC_LINK_RECOVERS_F'',
     Enum ''IB_PC_LINK_DOWNED_F'',
     Enum ''IB_PC_ERR_RCV_F'',
     Enum ''IB_PC_ERR_PHYSRCV_F'',
     Enum ''IB_PC_ERR_SWITCH_REL_F'',
     Enum ''IB_PC_XMT_DISCARDS_F'',
     Enum ''IB_PC_ERR_XMTCONSTR_F'',
     Enum ''IB_PC_ERR_RCVCONSTR_F'',
     Enum ''IB_PC_COUNTER_SELECT2_F'',
     Enum ''IB_PC_ERR_LOCALINTEG_F'',
     Enum ''IB_PC_ERR_EXCESS_OVR_F'',
     Enum ''IB_PC_VL15_DROPPED_F'',
     Enum ''IB_PC_XMT_BYTES_F'',
     Enum ''IB_PC_RCV_BYTES_F'',
     Enum ''IB_PC_XMT_PKTS_F'',
     Enum ''IB_PC_RCV_PKTS_F'',
     Enum ''IB_PC_XMT_WAIT_F'',
     Enum ''IB_PC_LAST_F'',
     Enum ''IB_SMINFO_GUID_F'',
     Enum ''IB_SMINFO_KEY_F'',
     Enum ''IB_SMINFO_ACT_F'',
     Enum ''IB_SMINFO_PRIO_F'',
     Enum ''IB_SMINFO_STATE_F'',
     Enum ''IB_SA_RMPP_VERS_F'',
     Enum ''IB_SA_RMPP_TYPE_F'',
     Enum ''IB_SA_RMPP_RESP_F'',
     Enum ''IB_SA_RMPP_FLAGS_F'',
     Enum ''IB_SA_RMPP_STATUS_F'',
     Enum ''IB_SA_RMPP_D1_F'',
     Enum ''IB_SA_RMPP_SEGNUM_F'',
     Enum ''IB_SA_RMPP_D2_F'',
     Enum ''IB_SA_RMPP_LEN_F'',
     Enum ''IB_SA_RMPP_NEWWIN_F'',
     Enum ''IB_SA_MP_NPATH_F'',
     Enum ''IB_SA_MP_NSRC_F'',
     Enum ''IB_SA_MP_NDEST_F'',
     Enum ''IB_SA_MP_GID0_F'',
     Enum ''IB_SA_PR_DGID_F'',
     Enum ''IB_SA_PR_SGID_F'',
     Enum ''IB_SA_PR_DLID_F'',
     Enum ''IB_SA_PR_SLID_F'',
     Enum ''IB_SA_PR_NPATH_F'',
     Enum ''IB_SA_PR_SL_F'',
     Enum ''IB_SA_MCM_MGID_F'',
     Enum ''IB_SA_MCM_PORTGID_F'',
     Enum ''IB_SA_MCM_QKEY_F'',
     Enum ''IB_SA_MCM_MLID_F'',
     Enum ''IB_SA_MCM_SL_F'',
     Enum ''IB_SA_MCM_MTU_F'',
     Enum ''IB_SA_MCM_RATE_F'',
     Enum ''IB_SA_MCM_TCLASS_F'',
     Enum ''IB_SA_MCM_PKEY_F'',
     Enum ''IB_SA_MCM_FLOW_LABEL_F'',
     Enum ''IB_SA_MCM_JOIN_STATE_F'',
     Enum ''IB_SA_MCM_PROXY_JOIN_F'',
     Enum ''IB_SA_SR_ID_F'',
     Enum ''IB_SA_SR_GID_F'',
     Enum ''IB_SA_SR_PKEY_F'',
     Enum ''IB_SA_SR_LEASE_F'',
     Enum ''IB_SA_SR_KEY_F'',
     Enum ''IB_SA_SR_NAME_F'',
     Enum ''IB_SA_SR_DATA_F'',
     Enum ''IB_ATS_SM_NODE_ADDR_F'',
     Enum ''IB_ATS_SM_MAGIC_KEY_F'',
     Enum ''IB_ATS_SM_NODE_TYPE_F'',
     Enum ''IB_ATS_SM_NODE_NAME_F'',
     Enum ''IB_SLTOVL_MAPPING_TABLE_F'']"

definition MAD_FIELDS_3 :: "enumerator list" where
  "MAD_FIELDS_3 = [
     Enum ''IB_VL_ARBITRATION_TABLE_F'',
     Enum ''IB_VEND2_OUI_F'',
     Enum ''IB_VEND2_DATA_F'',
     Enum ''IB_PC_EXT_FIRST_F'',
     EnumEq ''IB_PC_EXT_PORT_SELECT_F'' ''IB_PC_EXT_FIRST_F'',
     Enum ''IB_PC_EXT_COUNTER_SELECT_F'',
     Enum ''IB_PC_EXT_XMT_BYTES_F'',
     Enum ''IB_PC_EXT_RCV_BYTES_F'',
     Enum ''IB_PC_EXT_XMT_PKTS_F'',
     Enum ''IB_PC_EXT_RCV_PKTS_F'',
     Enum ''IB_PC_EXT_XMT_UPKTS_F'',
     Enum ''IB_PC_EXT_RCV_UPKTS_F'',
     Enum ''IB_PC_EXT_XMT_MPKTS_F'',
     Enum ''IB_PC_EXT_RCV_MPKTS_F'',
     Enum ''IB_PC_EXT_LAST_F'',
     Enum ''IB_GUID_GUID0_F'',
     Enum ''IB_CPI_BASEVER_F'',
     Enum ''IB_CPI_CLASSVER_F'',
     Enum ''IB_CPI_CAPMASK_F'',
     Enum ''IB_CPI_CAPMASK2_F'',
     Enum ''IB_CPI_RESP_TIME_VALUE_F'',
     Enum ''IB_CPI_REDIRECT_GID_F'',
     Enum ''IB_CPI_REDIRECT_TC_F'',
     Enum ''IB_CPI_REDIRECT_SL_F'',
     Enum ''IB_CPI_REDIRECT_FL_F'',
     Enum ''IB_CPI_REDIRECT_LID_F'',
     Enum ''IB_CPI_REDIRECT_PKEY_F'',
     Enum ''IB_CPI_REDIRECT_QP_F'',
     Enum ''IB_CPI_REDIRECT_QKEY_F'',
     Enum ''IB_CPI_TRAP_GID_F'',
     Enum ''IB_CPI_TRAP_TC_F'',
     Enum ''IB_CPI_TRAP_SL_F'',
     Enum ''IB_CPI_TRAP_FL_F'',
     Enum ''IB_CPI_TRAP_LID_F'',
     Enum ''IB_CPI_TRAP_PKEY_F'',
     Enum ''IB_CPI_TRAP_HL_F'',
     Enum ''IB_CPI_TRAP_QP_F'',
     Enum ''IB_CPI_TRAP_QKEY_F'',
     Enum ''IB_PC_XMT_DATA_SL_FIRST_F'',
     EnumEq ''IB_PC_XMT_DATA_SL0_F'' ''IB_PC_XMT_DATA_SL_FIRST_F'',
     Enum ''IB_PC_XMT_DATA_SL1_F'',
     Enum ''IB_PC_XMT_DATA_SL2_F'',
     Enum ''IB_PC_XMT_DATA_SL3_F'',
     Enum ''IB_PC_XMT_DATA_SL4_F'',
     Enum ''IB_PC_XMT_DATA_SL5_F'',
     Enum ''IB_PC_XMT_DATA_SL6_F'',
     Enum ''IB_PC_XMT_DATA_SL7_F'',
     Enum ''IB_PC_XMT_DATA_SL8_F'',
     Enum ''IB_PC_XMT_DATA_SL9_F'',
     Enum ''IB_PC_XMT_DATA_SL10_F'',
     Enum ''IB_PC_XMT_DATA_SL11_F'',
     Enum ''IB_PC_XMT_DATA_SL12_F'',
     Enum ''IB_PC_XMT_DATA_SL13_F'',
     Enum ''IB_PC_XMT_DATA_SL14_F'',
     Enum ''IB_PC_XMT_DATA_SL15_F'',
     Enum ''IB_PC_XMT_DATA_SL_LAST_F'',
     Enum ''IB_PC_RCV_DATA_SL_FIRST_F'',
     EnumEq ''IB_PC_RCV_DATA_SL0_F'' ''IB_PC_RCV_DATA_SL_FIRST_F'',
     Enum ''IB_PC_RCV_DATA_SL1_F'',
     Enum ''IB_PC_RCV_DATA_SL2_F'',
     Enum ''IB_PC_RCV_DATA_SL3_F'',
     Enum ''IB_PC_RCV_DATA_SL4_F'',
     Enum ''IB_PC_RCV_DATA_SL5_F'',
     Enum ''IB_PC_RCV_DATA_SL6_F'',
     Enum ''IB_PC_RCV_DATA_SL7_F'',
     Enum ''IB_PC_RCV_DATA_SL8_F'',
     Enum ''IB_PC_RCV_DATA_SL9_F'',
     Enum ''IB_PC_RCV_DATA_SL10_F'',
     Enum ''IB_PC_RCV_DATA_SL11_F'',
     Enum ''IB_PC_RCV_DATA_SL12_F'',
     Enum ''IB_PC_RCV_DATA_SL13_F'',
     Enum ''IB_PC_RCV_DATA_SL14_F'',
     Enum ''IB_PC_RCV_DATA_SL15_F'',
     Enum ''IB_PC_RCV_DATA_SL_LAST_F'',
     Enum ''IB_PC_XMT_INACT_DISC_F'',
     Enum ''IB_PC_XMT_NEIGH_MTU_DISC_F'',
     Enum ''IB_PC_XMT_SW_LIFE_DISC_F'',
     Enum ''IB_PC_XMT_SW_HOL_DISC_F'',
     Enum ''IB_PC_XMT_DISC_LAST_F'',
     Enum ''IB_PC_RCV_LOCAL_PHY_ERR_F'',
     Enum ''IB_PC_RCV_MALFORMED_PKT_ERR_F'',
     Enum ''IB_PC_RCV_BUF_OVR_ERR_F'',
     Enum ''IB_PC_RCV_DLID_MAP_ERR_F'',
     Enum ''IB_PC_RCV_VL_MAP_ERR_F'',
     Enum ''IB_PC_RCV_LOOPING_ERR_F'',
     Enum ''IB_PC_RCV_ERR_LAST_F'',
     Enum ''IB_PSC_OPCODE_F'',
     Enum ''IB_PSC_PORT_SELECT_F'',
     Enum ''IB_PSC_TICK_F'',
     Enum ''IB_PSC_COUNTER_WIDTH_F'',
     Enum ''IB_PSC_COUNTER_MASK0_F'',
     Enum ''IB_PSC_COUNTER_MASKS1TO9_F'',
     Enum ''IB_PSC_COUNTER_MASKS10TO14_F'',
     Enum ''IB_PSC_SAMPLE_MECHS_F'',
     Enum ''IB_PSC_SAMPLE_STATUS_F'',
     Enum ''IB_PSC_OPTION_MASK_F'',
     Enum ''IB_PSC_VENDOR_MASK_F'',
     Enum ''IB_PSC_SAMPLE_START_F'',
     Enum ''IB_PSC_SAMPLE_INTVL_F'',
     Enum ''IB_PSC_TAG_F'',
     Enum ''IB_PSC_COUNTER_SEL0_F'',
     Enum ''IB_PSC_COUNTER_SEL1_F'',
     Enum ''IB_PSC_COUNTER_SEL2_F'',
     Enum ''IB_PSC_COUNTER_SEL3_F'',
     Enum ''IB_PSC_COUNTER_SEL4_F'',
     Enum ''IB_PSC_COUNTER_SEL5_F'',
     Enum ''IB_PSC_COUNTER_SEL6_F'']"

definition MAD_FIELDS_4 :: "enumerator list" where
  "MAD_FIELDS_4 = [
     Enum ''IB_PSC_COUNTER_SEL7_F'',
     Enum ''IB_PSC_COUNTER_SEL8_F'',
     Enum ''IB_PSC_COUNTER_SEL9_F'',
     Enum ''IB_PSC_COUNTER_SEL10_F'',
     Enum ''IB_PSC_COUNTER_SEL11_F'',
     Enum ''IB_PSC_COUNTER_SEL12_F'',
     Enum ''IB_PSC_COUNTER_SEL13_F'',
     Enum ''IB_PSC_COUNTER_SEL14_F'',
     Enum ''IB_PSC_SAMPLES_ONLY_OPT_MASK_F'',
     Enum ''IB_PSC_LAST_F'',
     Enum ''IB_GI_GUID0_F'',
     Enum ''IB_GI_GUID1_F'',
     Enum ''IB_GI_GUID2_F'',
     Enum ''IB_GI_GUID3_F'',
     Enum ''IB_GI_GUID4_F'',
     Enum ''IB_GI_GUID5_F'',
     Enum ''IB_GI_GUID6_F'',
     Enum ''IB_GI_GUID7_F'',
     Enum ''IB_SA_GIR_LID_F'',
     Enum ''IB_SA_GIR_BLOCKNUM_F'',
     Enum ''IB_SA_GIR_GUID0_F'',
     Enum ''IB_SA_GIR_GUID1_F'',
     Enum ''IB_SA_GIR_GUID2_F'',
     Enum ''IB_SA_GIR_GUID3_F'',
     Enum ''IB_SA_GIR_GUID4_F'',
     Enum ''IB_SA_GIR_GUID5_F'',
     Enum ''IB_SA_GIR_GUID6_F'',
     Enum ''IB_SA_GIR_GUID7_F'',
     Enum ''IB_PORT_CAPMASK2_F'',
     Enum ''IB_PORT_LINK_SPEED_EXT_ACTIVE_F'',
     Enum ''IB_PORT_LINK_SPEED_EXT_SUPPORTED_F'',
     Enum ''IB_PORT_LINK_SPEED_EXT_ENABLED_F'',
     Enum ''IB_PORT_LINK_SPEED_EXT_LAST_F'',
     Enum ''IB_PESC_PORT_SELECT_F'',
     Enum ''IB_PESC_COUNTER_SELECT_F'',
     Enum ''IB_PESC_SYNC_HDR_ERR_CTR_F'',
     Enum ''IB_PESC_UNK_BLOCK_CTR_F'',
     Enum ''IB_PESC_ERR_DET_CTR_LANE0_F'',
     Enum ''IB_PESC_ERR_DET_CTR_LANE1_F'',
     Enum ''IB_PESC_ERR_DET_CTR_LANE2_F'',
     Enum ''IB_PESC_ERR_DET_CTR_LANE3_F'',
     Enum ''IB_PESC_ERR_DET_CTR_LANE4_F'',
     Enum ''IB_PESC_ERR_DET_CTR_LANE5_F'',
     Enum ''IB_PESC_ERR_DET_CTR_LANE6_F'',
     Enum ''IB_PESC_ERR_DET_CTR_LANE7_F'',
     Enum ''IB_PESC_ERR_DET_CTR_LANE8_F'',
     Enum ''IB_PESC_ERR_DET_CTR_LANE9_F'',
     Enum ''IB_PESC_ERR_DET_CTR_LANE10_F'',
     Enum ''IB_PESC_ERR_DET_CTR_LANE11_F'',
     Enum ''IB_PESC_FEC_CORR_BLOCK_CTR_LANE0_F'',
     Enum ''IB_PESC_FEC_CORR_BLOCK_CTR_LANE1_F'',
     Enum ''IB_PESC_FEC_CORR_BLOCK_CTR_LANE2_F'',
     Enum ''IB_PESC_FEC_CORR_BLOCK_CTR_LANE3_F'',
     Enum ''IB_PESC_FEC_CORR_BLOCK_CTR_LANE4_F'',
     Enum ''IB_PESC_FEC_CORR_BLOCK_CTR_LANE5_F'',
     Enum ''IB_PESC_FEC_CORR_BLOCK_CTR_LANE6_F'',
     Enum ''IB_PESC_FEC_CORR_BLOCK_CTR_LANE7_F'',
     Enum ''IB_PESC_FEC_CORR_BLOCK_CTR_LANE8_F'',
     Enum ''IB_PESC_FEC_CORR_BLOCK_CTR_LANE9_F'',
     Enum ''IB_PESC_FEC_CORR_BLOCK_CTR_LANE10_F'',
     Enum ''IB_PESC_FEC_CORR_BLOCK_CTR_LANE11_F'',
     Enum ''IB_PESC_FEC_UNCORR_BLOCK_CTR_LANE0_F'',
     Enum ''IB_PESC_FEC_UNCORR_BLOCK_CTR_LANE1_F'',
     Enum ''IB_PESC_FEC_UNCORR_BLOCK_CTR_LANE2_F'',
     Enum ''IB_PESC_FEC_UNCORR_BLOCK_CTR_LANE3_F'',
     Enum ''IB_PESC_FEC_UNCORR_BLOCK_CTR_LANE4_F'',
     Enum ''IB_PESC_FEC_UNCORR_BLOCK_CTR_LANE5_F'',
     Enum ''IB_PESC_FEC_UNCORR_BLOCK_CTR_LANE6_F'',
     Enum ''IB_PESC_FEC_UNCORR_BLOCK_CTR_LANE7_F'',
     Enum ''IB_PESC_FEC_UNCORR_BLOCK_CTR_LANE8_F'',
     Enum ''IB_PESC_FEC_UNCORR_BLOCK_CTR_LANE9_F'',
     Enum ''IB_PESC_FEC_UNCORR_BLOCK_CTR_LANE10_F'',
     Enum ''IB_PESC_FEC_UNCORR_BLOCK_CTR_LANE11_F'',
     Enum ''IB_PESC_LAST_F'',
     Enum ''IB_PC_PORT_OP_RCV_COUNTERS_FIRST_F'',
     EnumEq ''IB_PC_PORT_OP_RCV_PKTS_F'' ''IB_PC_PORT_OP_RCV_COUNTERS_FIRST_F'',
     Enum ''IB_PC_PORT_OP_RCV_DATA_F'',
     Enum ''IB_PC_PORT_OP_RCV_COUNTERS_LAST_F'',
     Enum ''IB_PC_PORT_FLOW_CTL_COUNTERS_FIRST_F'',
     EnumEq ''IB_PC_PORT_XMIT_FLOW_PKTS_F'' ''IB_PC_PORT_FLOW_CTL_COUNTERS_FIRST_F'',
     Enum ''IB_PC_PORT_RCV_FLOW_PKTS_F'',
     Enum ''IB_PC_PORT_FLOW_CTL_COUNTERS_LAST_F'',
     Enum ''IB_PC_PORT_VL_OP_PACKETS_FIRST_F'',
     EnumEq ''IB_PC_PORT_VL_OP_PACKETS0_F'' ''IB_PC_PORT_VL_OP_PACKETS_FIRST_F'',
     Enum ''IB_PC_PORT_VL_OP_PACKETS1_F'',
     Enum ''IB_PC_PORT_VL_OP_PACKETS2_F'',
     Enum ''IB_PC_PORT_VL_OP_PACKETS3_F'',
     Enum ''IB_PC_PORT_VL_OP_PACKETS4_F'',
     Enum ''IB_PC_PORT_VL_OP_PACKETS5_F'',
     Enum ''IB_PC_PORT_VL_OP_PACKETS6_F'',
     Enum ''IB_PC_PORT_VL_OP_PACKETS7_F'',
     Enum ''IB_PC_PORT_VL_OP_PACKETS8_F'',
     Enum ''IB_PC_PORT_VL_OP_PACKETS9_F'',
     Enum ''IB_PC_PORT_VL_OP_PACKETS10_F'',
     Enum ''IB_PC_PORT_VL_OP_PACKETS11_F'',
     Enum ''IB_PC_PORT_VL_OP_PACKETS12_F'',
     Enum ''IB_PC_PORT_VL_OP_PACKETS13_F'',
     Enum ''IB_PC_PORT_VL_OP_PACKETS14_F'',
     Enum ''IB_PC_PORT_VL_OP_PACKETS15_F'',
     Enum ''IB_PC_PORT_VL_OP_PACKETS_LAST_F'',
     Enum ''IB_PC_PORT_VL_OP_DATA_FIRST_F'',
     EnumEq ''IB_PC_PORT_VL_OP_DATA0_F'' ''IB_PC_PORT_VL_OP_DATA_FIRST_F'',
     Enum ''IB_PC_PORT_VL_OP_DATA1_F'',
     Enum ''IB_PC_PORT_VL_OP_DATA2_F'',
     Enum ''IB_PC_PORT_VL_OP_DATA3_F'',
     Enum ''IB_PC_PORT_VL_OP_DATA4_F'',
     Enum ''IB_PC_PORT_VL_OP_DATA5_F'',
     Enum ''IB_PC_PORT_VL_OP_DATA6_F'',
     Enum ''IB_PC_PORT_VL_OP_DATA7_F'',
     Enum ''IB_PC_PORT_VL_OP_DATA8_F'',
     Enum ''IB_PC_PORT_VL_OP_DATA9_F'',
     Enum ''IB_PC_PORT_VL_OP_DATA10_F'',
     Enum ''IB_PC_PORT_VL_OP_DATA11_F'']"

definition MAD_FIELDS_5 :: "enumerator list" where
  "MAD_FIELDS_5 = [
     Enum ''IB_PC_PORT_VL_OP_DATA12_F'',
     Enum ''IB_PC_PORT_VL_OP_DATA13_F'',
     Enum ''IB_PC_PORT_VL_OP_DATA14_F'',
     Enum ''IB_PC_PORT_VL_OP_DATA15_F'',
     Enum ''IB_PC_PORT_VL_OP_DATA_LAST_F'',
     Enum ''IB_PC_PORT_VL_XMIT_FLOW_CTL_UPDATE_ERRORS_FIRST_F'',
     EnumEq ''IB_PC_PORT_VL_XMIT_FLOW_CTL_UPDATE_ERRORS0_F'' ''IB_PC_PORT_VL_XMIT_FLOW_CTL_UPDATE_ERRORS_FIRST_F'',
     Enum ''IB_PC_PORT_VL_XMIT_FLOW_CTL_UPDATE_ERRORS1_F'',
     Enum ''IB_PC_PORT_VL_XMIT_FLOW_CTL_UPDATE_ERRORS2_F'',
     Enum ''IB_PC_PORT_VL_XMIT_FLOW_CTL_UPDATE_ERRORS3_F'',
     Enum ''IB_PC_PORT_VL_XMIT_FLOW_CTL_UPDATE_ERRORS4_F'',
     Enum ''IB_PC_PORT_VL_XMIT_FLOW_CTL_UPDATE_ERRORS5_F'',
     Enum ''IB_PC_PORT_VL_XMIT_FLOW_CTL_UPDATE_ERRORS6_F'',
     Enum ''IB_PC_PORT_VL_XMIT_FLOW_CTL_UPDATE_ERRORS7_F'',
     Enum ''IB_PC_PORT_VL_XMIT_FLOW_CTL_UPDATE_ERRORS8_F'',
     Enum ''IB_PC_PORT_VL_XMIT_FLOW_CTL_UPDATE_ERRORS9_F'',
     Enum ''IB_PC_PORT_VL_XMIT_FLOW_CTL_UPDATE_ERRORS10_F'',
     Enum ''IB_PC_PORT_VL_XMIT_FLOW_CTL_UPDATE_ERRORS11_F'',
     Enum ''IB_PC_PORT_VL_XMIT_FLOW_CTL_UPDATE_ERRORS12_F'',
     Enum ''IB_PC_PORT_VL_XMIT_FLOW_CTL_UPDATE_ERRORS13_F'',
     Enum ''IB_PC_PORT_VL_XMIT_FLOW_CTL_UPDATE_ERRORS14_F'',
     Enum ''IB_PC_PORT_VL_XMIT_FLOW_CTL_UPDATE_ERRORS15_F'',
     Enum ''IB_PC_PORT_VL_XMIT_FLOW_CTL_UPDATE_ERRORS_LAST_F'',
     Enum ''IB_PC_PORT_VL_XMIT_WAIT_COUNTERS_FIRST_F'',
     EnumEq ''IB_PC_PORT_VL_XMIT_WAIT0_F'' ''IB_PC_PORT_VL_XMIT_WAIT_COUNTERS_FIRST_F'',
     Enum ''IB_PC_PORT_VL_XMIT_WAIT1_F'',
     Enum ''IB_PC_PORT_VL_XMIT_WAIT2_F'',
     Enum ''IB_PC_PORT_VL_XMIT_WAIT3_F'',
     Enum ''IB_PC_PORT_VL_XMIT_WAIT4_F'',
     Enum ''IB_PC_PORT_VL_XMIT_WAIT5_F'',
     Enum ''IB_PC_PORT_VL_XMIT_WAIT6_F'',
     Enum ''IB_PC_PORT_VL_XMIT_WAIT7_F'',
     Enum ''IB_PC_PORT_VL_XMIT_WAIT8_F'',
     Enum ''IB_PC_PORT_VL_XMIT_WAIT9_F'',
     Enum ''IB_PC_PORT_VL_XMIT_WAIT10_F'',
     Enum ''IB_PC_PORT_VL_XMIT_WAIT11_F'',
     Enum ''IB_PC_PORT_VL_XMIT_WAIT12_F'',
     Enum ''IB_PC_PORT_VL_XMIT_WAIT13_F'',
     Enum ''IB_PC_PORT_VL_XMIT_WAIT14_F'',
     Enum ''IB_PC_PORT_VL_XMIT_WAIT15_F'',
     Enum ''IB_PC_PORT_VL_XMIT_WAIT_COUNTERS_LAST_F'',
     Enum ''IB_PC_SW_PORT_VL_CONGESTION_FIRST_F'',
     EnumEq ''IB_PC_SW_PORT_VL_CONGESTION0_F'' ''IB_PC_SW_PORT_VL_CONGESTION_FIRST_F'',
     Enum ''IB_PC_SW_PORT_VL_CONGESTION1_F'',
     Enum ''IB_PC_SW_PORT_VL_CONGESTION2_F'',
     Enum ''IB_PC_SW_PORT_VL_CONGESTION3_F'',
     Enum ''IB_PC_SW_PORT_VL_CONGESTION4_F'',
     Enum ''IB_PC_SW_PORT_VL_CONGESTION5_F'',
     Enum ''IB_PC_SW_PORT_VL_CONGESTION6_F'',
     Enum ''IB_PC_SW_PORT_VL_CONGESTION7_F'',
     Enum ''IB_PC_SW_PORT_VL_CONGESTION8_F'',
     Enum ''IB_PC_SW_PORT_VL_CONGESTION9_F'',
     Enum ''IB_PC_SW_PORT_VL_CONGESTION10_F'',
     Enum ''IB_PC_SW_PORT_VL_CONGESTION11_F'',
     Enum ''IB_PC_SW_PORT_VL_CONGESTION12_F'',
     Enum ''IB_PC_SW_PORT_VL_CONGESTION13_F'',
     Enum ''IB_PC_SW_PORT_VL_CONGESTION14_F'',
     Enum ''IB_PC_SW_PORT_VL_CONGESTION15_F'',
     Enum ''IB_PC_SW_PORT_VL_CONGESTION_LAST_F'',
     Enum ''IB_PC_RCV_CON_CTRL_FIRST_F'',
     EnumEq ''IB_PC_RCV_CON_CTRL_PKT_RCV_FECN_F'' ''IB_PC_RCV_CON_CTRL_FIRST_F'',
     Enum ''IB_PC_RCV_CON_CTRL_PKT_RCV_BECN_F'',
     Enum ''IB_PC_RCV_CON_CTRL_LAST_F'',
     Enum ''IB_PC_SL_RCV_FECN_FIRST_F'',
     EnumEq ''IB_PC_SL_RCV_FECN0_F'' ''IB_PC_SL_RCV_FECN_FIRST_F'',
     Enum ''IB_PC_SL_RCV_FECN1_F'',
     Enum ''IB_PC_SL_RCV_FECN2_F'',
     Enum ''IB_PC_SL_RCV_FECN3_F'',
     Enum ''IB_PC_SL_RCV_FECN4_F'',
     Enum ''IB_PC_SL_RCV_FECN5_F'',
     Enum ''IB_PC_SL_RCV_FECN6_F'',
     Enum ''IB_PC_SL_RCV_FECN7_F'',
     Enum ''IB_PC_SL_RCV_FECN8_F'',
     Enum ''IB_PC_SL_RCV_FECN9_F'',
     Enum ''IB_PC_SL_RCV_FECN10_F'',
     Enum ''IB_PC_SL_RCV_FECN11_F'',
     Enum ''IB_PC_SL_RCV_FECN12_F'',
     Enum ''IB_PC_SL_RCV_FECN13_F'',
     Enum ''IB_PC_SL_RCV_FECN14_F'',
     Enum ''IB_PC_SL_RCV_FECN15_F'',
     Enum ''IB_PC_SL_RCV_FECN_LAST_F'',
     Enum ''IB_PC_SL_RCV_BECN_FIRST_F'',
     EnumEq ''IB_PC_SL_RCV_BECN0_F'' ''IB_PC_SL_RCV_BECN_FIRST_F'',
     Enum ''IB_PC_SL_RCV_BECN1_F'',
     Enum ''IB_PC_SL_RCV_BECN2_F'',
     Enum ''IB_PC_SL_RCV_BECN3_F'',
     Enum ''IB_PC_SL_RCV_BECN4_F'',
     Enum ''IB_PC_SL_RCV_BECN5_F'',
     Enum ''IB_PC_SL_RCV_BECN6_F'',
     Enum ''IB_PC_SL_RCV_BECN7_F'',
     Enum ''IB_PC_SL_RCV_BECN8_F'',
     Enum ''IB_PC_SL_RCV_BECN9_F'',
     Enum ''IB_PC_SL_RCV_BECN10_F'',
     Enum ''IB_PC_SL_RCV_BECN11_F'',
     Enum ''IB_PC_SL_RCV_BECN12_F'',
     Enum ''IB_PC_SL_RCV_BECN13_F'',
     Enum ''IB_PC_SL_RCV_BECN14_F'',
     Enum ''IB_PC_SL_RCV_BECN15_F'',
     Enum ''IB_PC_SL_RCV_BECN_LAST_F'',
     Enum ''IB_PC_XMIT_CON_CTRL_FIRST_F'',
     EnumEq ''IB_PC_XMIT_CON_CTRL_TIME_CONG_F'' ''IB_PC_XMIT_CON_CTRL_FIRST_F'',
     Enum ''IB_PC_XMIT_CON_CTRL_LAST_F'',
     Enum ''IB_PC_VL_XMIT_TIME_CONG_FIRST_F'',
     EnumEq ''IB_PC_VL_XMIT_TIME_CONG0_F'' ''IB_PC_VL_XMIT_TIME_CONG_FIRST_F'',
     Enum ''IB_PC_VL_XMIT_TIME_CONG1_F'',
     Enum ''IB_PC_VL_XMIT_TIME_CONG2_F'',
     Enum ''IB_PC_VL_XMIT_TIME_CONG3_F'',
     Enum ''IB_PC_VL_XMIT_TIME_CONG4_F'',
     Enum ''IB_PC_VL_XMIT_TIME_CONG5_F'',
     Enum ''IB_PC_VL_XMIT_TIME_CONG6_F'',
     Enum ''IB_PC_VL_XMIT_TIME_CONG7_F'',
     Enum ''IB_PC_VL_XMIT_TIME_CONG8_F'',
     Enum ''IB_PC_VL_XMIT_TIME_CONG9_F'',
     Enum ''IB_PC_VL_XMIT_TIME_CONG10_F'']"

definition MAD_FIELDS_6 :: "enumerator list" where
  "MAD_FIELDS_6 = [
     Enum ''IB_PC_VL_XMIT_TIME_CONG11_F'',
     Enum ''IB_PC_VL_XMIT_TIME_CONG12_F'',
     Enum ''IB_PC_VL_XMIT_TIME_CONG13_F'',
     Enum ''IB_PC_VL_XMIT_TIME_CONG14_F'',
     Enum ''IB_PC_VL_XMIT_TIME_CONG_LAST_F'',
     Enum ''IB_MLNX_EXT_PORT_STATE_CHG_ENABLE_F'',
     Enum ''IB_MLNX_EXT_PORT_LINK_SPEED_SUPPORTED_F'',
     Enum ''IB_MLNX_EXT_PORT_LINK_SPEED_ENABLED_F'',
     Enum ''IB_MLNX_EXT_PORT_LINK_SPEED_ACTIVE_F'',
     Enum ''IB_MLNX_EXT_PORT_LAST_F'',
     Enum ''IB_CC_CCKEY_F'',
     Enum ''IB_CC_CONGESTION_INFO_FIRST_F'',
     EnumEq ''IB_CC_CONGESTION_INFO_F'' ''IB_CC_CONGESTION_INFO_FIRST_F'',
     Enum ''IB_CC_CONGESTION_INFO_CONTROL_TABLE_CAP_F'',
     Enum ''IB_CC_CONGESTION_INFO_LAST_F'',
     Enum ''IB_CC_CONGESTION_KEY_INFO_FIRST_F'',
     EnumEq ''IB_CC_CONGESTION_KEY_INFO_CC_KEY_F'' ''IB_CC_CONGESTION_KEY_INFO_FIRST_F'',
     Enum ''IB_CC_CONGESTION_KEY_INFO_CC_KEY_PROTECT_BIT_F'',
     Enum ''IB_CC_CONGESTION_KEY_INFO_CC_KEY_LEASE_PERIOD_F'',
     Enum ''IB_CC_CONGESTION_KEY_INFO_CC_KEY_VIOLATIONS_F'',
     Enum ''IB_CC_CONGESTION_KEY_INFO_LAST_F'',
     Enum ''IB_CC_CONGESTION_LOG_FIRST_F'',
     EnumEq ''IB_CC_CONGESTION_LOG_LOGTYPE_F'' ''IB_CC_CONGESTION_LOG_FIRST_F'',
     Enum ''IB_CC_CONGESTION_LOG_CONGESTION_FLAGS_F'',
     Enum ''IB_CC_CONGESTION_LOG_LAST_F'',
     Enum ''IB_CC_CONGESTION_LOG_SWITCH_FIRST_F'',
     EnumEq ''IB_CC_CONGESTION_LOG_SWITCH_LOG_EVENTS_COUNTER_F'' ''IB_CC_CONGESTION_LOG_SWITCH_FIRST_F'',
     Enum ''IB_CC_CONGESTION_LOG_SWITCH_CURRENT_TIME_STAMP_F'',
     Enum ''IB_CC_CONGESTION_LOG_SWITCH_PORTMAP_F'',
     Enum ''IB_CC_CONGESTION_LOG_SWITCH_LAST_F'',
     Enum ''IB_CC_CONGESTION_LOG_ENTRY_SWITCH_FIRST_F'',
     EnumEq ''IB_CC_CONGESTION_LOG_ENTRY_SWITCH_SLID_F'' ''IB_CC_CONGESTION_LOG_ENTRY_SWITCH_FIRST_F'',
     Enum ''IB_CC_CONGESTION_LOG_ENTRY_SWITCH_DLID_F'',
     Enum ''IB_CC_CONGESTION_LOG_ENTRY_SWITCH_SL_F'',
     Enum ''IB_CC_CONGESTION_LOG_ENTRY_SWITCH_TIMESTAMP_F'',
     Enum ''IB_CC_CONGESTION_LOG_ENTRY_SWITCH_LAST_F'',
     Enum ''IB_CC_CONGESTION_LOG_CA_FIRST_F'',
     EnumEq ''IB_CC_CONGESTION_LOG_CA_THRESHOLD_EVENT_COUNTER_F'' ''IB_CC_CONGESTION_LOG_CA_FIRST_F'',
     Enum ''IB_CC_CONGESTION_LOG_CA_THRESHOLD_CONGESTION_EVENT_MAP_F'',
     Enum ''IB_CC_CONGESTION_LOG_CA_CURRENT_TIMESTAMP_F'',
     Enum ''IB_CC_CONGESTION_LOG_CA_LAST_F'',
     Enum ''IB_CC_CONGESTION_LOG_ENTRY_CA_FIRST_F'',
     EnumEq ''IB_CC_CONGESTION_LOG_ENTRY_CA_LOCAL_QP_CN_ENTRY_F'' ''IB_CC_CONGESTION_LOG_ENTRY_CA_FIRST_F'',
     Enum ''IB_CC_CONGESTION_LOG_ENTRY_CA_SL_CN_ENTRY_F'',
     Enum ''IB_CC_CONGESTION_LOG_ENTRY_CA_SERVICE_TYPE_CN_ENTRY_F'',
     Enum ''IB_CC_CONGESTION_LOG_ENTRY_CA_REMOTE_QP_NUMBER_CN_ENTRY_F'',
     Enum ''IB_CC_CONGESTION_LOG_ENTRY_CA_LOCAL_LID_CN_F'',
     Enum ''IB_CC_CONGESTION_LOG_ENTRY_CA_REMOTE_LID_CN_ENTRY_F'',
     Enum ''IB_CC_CONGESTION_LOG_ENTRY_CA_TIMESTAMP_CN_ENTRY_F'',
     Enum ''IB_CC_CONGESTION_LOG_ENTRY_CA_LAST_F'',
     Enum ''IB_CC_SWITCH_CONGESTION_SETTING_FIRST_F'',
     EnumEq ''IB_CC_SWITCH_CONGESTION_SETTING_CONTROL_MAP_F'' ''IB_CC_SWITCH_CONGESTION_SETTING_FIRST_F'',
     Enum ''IB_CC_SWITCH_CONGESTION_SETTING_VICTIM_MASK_F'',
     Enum ''IB_CC_SWITCH_CONGESTION_SETTING_CREDIT_MASK_F'',
     Enum ''IB_CC_SWITCH_CONGESTION_SETTING_THRESHOLD_F'',
     Enum ''IB_CC_SWITCH_CONGESTION_SETTING_PACKET_SIZE_F'',
     Enum ''IB_CC_SWITCH_CONGESTION_SETTING_CS_THRESHOLD_F'',
     Enum ''IB_CC_SWITCH_CONGESTION_SETTING_CS_RETURN_DELAY_F'',
     Enum ''IB_CC_SWITCH_CONGESTION_SETTING_MARKING_RATE_F'',
     Enum ''IB_CC_SWITCH_CONGESTION_SETTING_LAST_F'',
     Enum ''IB_CC_SWITCH_PORT_CONGESTION_SETTING_ELEMENT_FIRST_F'',
     EnumEq ''IB_CC_SWITCH_PORT_CONGESTION_SETTING_ELEMENT_VALID_F'' ''IB_CC_SWITCH_PORT_CONGESTION_SETTING_ELEMENT_FIRST_F'',
     Enum ''IB_CC_SWITCH_PORT_CONGESTION_SETTING_ELEMENT_CONTROL_TYPE_F'',
     Enum ''IB_CC_SWITCH_PORT_CONGESTION_SETTING_ELEMENT_THRESHOLD_F'',
     Enum ''IB_CC_SWITCH_PORT_CONGESTION_SETTING_ELEMENT_PACKET_SIZE_F'',
     Enum ''IB_CC_SWITCH_PORT_CONGESTION_SETTING_ELEMENT_CONG_PARM_MARKING_RATE_F'',
     Enum ''IB_CC_SWITCH_PORT_CONGESTION_SETTING_ELEMENT_LAST_F'',
     Enum ''IB_CC_CA_CONGESTION_SETTING_FIRST_F'',
     EnumEq ''IB_CC_CA_CONGESTION_SETTING_PORT_CONTROL_F'' ''IB_CC_CA_CONGESTION_SETTING_FIRST_F'',
     Enum ''IB_CC_CA_CONGESTION_SETTING_CONTROL_MAP_F'',
     Enum ''IB_CC_CA_CONGESTION_SETTING_LAST_F'',
     Enum ''IB_CC_CA_CONGESTION_ENTRY_FIRST_F'',
     EnumEq ''IB_CC_CA_CONGESTION_ENTRY_CCTI_TIMER_F'' ''IB_CC_CA_CONGESTION_ENTRY_FIRST_F'',
     Enum ''IB_CC_CA_CONGESTION_ENTRY_CCTI_INCREASE_F'',
     Enum ''IB_CC_CA_CONGESTION_ENTRY_TRIGGER_THRESHOLD_F'',
     Enum ''IB_CC_CA_CONGESTION_ENTRY_CCTI_MIN_F'',
     Enum ''IB_CC_CA_CONGESTION_ENTRY_LAST_F'',
     Enum ''IB_CC_CONGESTION_CONTROL_TABLE_FIRST_F'',
     EnumEq ''IB_CC_CONGESTION_CONTROL_TABLE_CCTI_LIMIT_F'' ''IB_CC_CONGESTION_CONTROL_TABLE_FIRST_F'',
     Enum ''IB_CC_CONGESTION_CONTROL_TABLE_LAST_F'',
     Enum ''IB_CC_CONGESTION_CONTROL_TABLE_ENTRY_FIRST_F'',
     EnumEq ''IB_CC_CONGESTION_CONTROL_TABLE_ENTRY_CCT_SHIFT_F'' ''IB_CC_CONGESTION_CONTROL_TABLE_ENTRY_FIRST_F'',
     Enum ''IB_CC_CONGESTION_CONTROL_TABLE_ENTRY_CCT_MULTIPLIER_F'',
     Enum ''IB_CC_CONGESTION_CONTROL_TABLE_ENTRY_LAST_F'']"

definition MAD_FIELDS_7 :: "enumerator list" where
  "MAD_FIELDS_7 = [
     Enum ''IB_CC_TIMESTAMP_FIRST_F'',
     EnumEq ''IB_CC_TIMESTAMP_F'' ''IB_CC_TIMESTAMP_FIRST_F'',
     Enum ''IB_CC_TIMESTAMP_LAST_F'',
     Enum ''IB_SA_NR_FIRST_F'',
     EnumEq ''IB_SA_NR_LID_F'' ''IB_SA_NR_FIRST_F'',
     Enum ''IB_SA_NR_BASEVER_F'',
     Enum ''IB_SA_NR_CLASSVER_F'',
     Enum ''IB_SA_NR_TYPE_F'',
     Enum ''IB_SA_NR_NPORTS_F'',
     Enum ''IB_SA_NR_SYSTEM_GUID_F'',
     Enum ''IB_SA_NR_GUID_F'',
     Enum ''IB_SA_NR_PORT_GUID_F'',
     Enum ''IB_SA_NR_PARTITION_CAP_F'',
     Enum ''IB_SA_NR_DEVID_F'',
     Enum ''IB_SA_NR_REVISION_F'',
     Enum ''IB_SA_NR_LOCAL_PORT_F'',
     Enum ''IB_SA_NR_VENDORID_F'',
     Enum ''IB_SA_NR_NODEDESC_F'',
     Enum ''IB_SA_NR_LAST_F'',
     Enum ''IB_PSR_TAG_F'',
     Enum ''IB_PSR_SAMPLE_STATUS_F'',
     Enum ''IB_PSR_COUNTER0_F'',
     Enum ''IB_PSR_COUNTER1_F'',
     Enum ''IB_PSR_COUNTER2_F'',
     Enum ''IB_PSR_COUNTER3_F'',
     Enum ''IB_PSR_COUNTER4_F'',
     Enum ''IB_PSR_COUNTER5_F'',
     Enum ''IB_PSR_COUNTER6_F'',
     Enum ''IB_PSR_COUNTER7_F'',
     Enum ''IB_PSR_COUNTER8_F'',
     Enum ''IB_PSR_COUNTER9_F'',
     Enum ''IB_PSR_COUNTER10_F'',
     Enum ''IB_PSR_COUNTER11_F'',
     Enum ''IB_PSR_COUNTER12_F'',
     Enum ''IB_PSR_COUNTER13_F'',
     Enum ''IB_PSR_COUNTER14_F'',
     Enum ''IB_PSR_LAST_F'',
     Enum ''IB_PORT_EXT_FIRST_F'',
     EnumEq ''IB_PORT_EXT_CAPMASK_F'' ''IB_PORT_EXT_FIRST_F'',
     Enum ''IB_PORT_EXT_FEC_MODE_ACTIVE_F'',
     Enum ''IB_PORT_EXT_FDR_FEC_MODE_SUPPORTED_F'',
     Enum ''IB_PORT_EXT_FDR_FEC_MODE_ENABLED_F'',
     Enum ''IB_PORT_EXT_EDR_FEC_MODE_SUPPORTED_F'',
     Enum ''IB_PORT_EXT_EDR_FEC_MODE_ENABLED_F'',
     Enum ''IB_PORT_EXT_LAST_F'',
     Enum ''IB_PESC_RSFEC_FIRST_F'',
     EnumEq ''IB_PESC_RSFEC_PORT_SELECT_F'' ''IB_PESC_RSFEC_FIRST_F'',
     Enum ''IB_PESC_RSFEC_COUNTER_SELECT_F'',
     Enum ''IB_PESC_RSFEC_SYNC_HDR_ERR_CTR_F'',
     Enum ''IB_PESC_RSFEC_UNK_BLOCK_CTR_F'',
     Enum ''IB_PESC_RSFEC_FEC_CORR_SYMBOL_CTR_LANE0_F'',
     Enum ''IB_PESC_RSFEC_FEC_CORR_SYMBOL_CTR_LANE1_F'',
     Enum ''IB_PESC_RSFEC_FEC_CORR_SYMBOL_CTR_LANE2_F'',
     Enum ''IB_PESC_RSFEC_FEC_CORR_SYMBOL_CTR_LANE3_F'',
     Enum ''IB_PESC_RSFEC_FEC_CORR_SYMBOL_CTR_LANE4_F'',
     Enum ''IB_PESC_RSFEC_FEC_CORR_SYMBOL_CTR_LANE5_F'',
     Enum ''IB_PESC_RSFEC_FEC_CORR_SYMBOL_CTR_LANE6_F'',
     Enum ''IB_PESC_RSFEC_FEC_CORR_SYMBOL_CTR_LANE7_F'',
     Enum ''IB_PESC_RSFEC_FEC_CORR_SYMBOL_CTR_LANE8_F'',
     Enum ''IB_PESC_RSFEC_FEC_CORR_SYMBOL_CTR_LANE9_F'',
     Enum ''IB_PESC_RSFEC_FEC_CORR_SYMBOL_CTR_LANE10_F'',
     Enum ''IB_PESC_RSFEC_FEC_CORR_SYMBOL_CTR_LANE11_F'',
     Enum ''IB_PESC_PORT_FEC_CORR_BLOCK_CTR_F'',
     Enum ''IB_PESC_PORT_FEC_UNCORR_BLOCK_CTR_F'',
     Enum ''IB_PESC_PORT_FEC_CORR_SYMBOL_CTR_F'',
     Enum ''IB_PESC_RSFEC_LAST_F'',
     Enum ''IB_PC_EXT_COUNTER_SELECT2_F'',
     Enum ''IB_PC_EXT_ERR_SYM_F'',
     Enum ''IB_PC_EXT_LINK_RECOVERS_F'',
     Enum ''IB_PC_EXT_LINK_DOWNED_F'',
     Enum ''IB_PC_EXT_ERR_RCV_F'',
     Enum ''IB_PC_EXT_ERR_PHYSRCV_F'',
     Enum ''IB_PC_EXT_ERR_SWITCH_REL_F'',
     Enum ''IB_PC_EXT_XMT_DISCARDS_F'',
     Enum ''IB_PC_EXT_ERR_XMTCONSTR_F'',
     Enum ''IB_PC_EXT_ERR_RCVCONSTR_F'',
     Enum ''IB_PC_EXT_ERR_LOCALINTEG_F'',
     Enum ''IB_PC_EXT_ERR_EXCESS_OVR_F'',
     Enum ''IB_PC_EXT_VL15_DROPPED_F'',
     Enum ''IB_PC_EXT_XMT_WAIT_F'',
     Enum ''IB_PC_EXT_QP1_DROP_F'',
     Enum ''IB_PC_EXT_ERR_LAST_F'',
     Enum ''IB_PC_QP1_DROP_F'',
     Enum ''IB_PORT_EXT_HDR_FEC_MODE_SUPPORTED_F'',
     Enum ''IB_PORT_EXT_HDR_FEC_MODE_ENABLED_F'',
     Enum ''IB_PORT_EXT_HDR_FEC_MODE_LAST_F'',
     Enum ''IB_FIELD_LAST_'']"

definition MAD_FIELDS :: "enumerator list" where
  "MAD_FIELDS = MAD_FIELDS_1 @ MAD_FIELDS_2 @ MAD_FIELDS_3 @ MAD_FIELDS_4 @ MAD_FIELDS_5 @ MAD_FIELDS_6 @ MAD_FIELDS_7"

lemmas MAD_FIELDS_defs = MAD_FIELDS_1_def MAD_FIELDS_2_def MAD_FIELDS_3_def MAD_FIELDS_4_def MAD_FIELDS_5_def MAD_FIELDS_6_def MAD_FIELDS_7_def

section \<open>The numbers the model uses\<close>

definition IB_NO_FIELD :: nat where [c_eval]: "IB_NO_FIELD = 0"
definition IB_GID_PREFIX_F :: nat where [c_eval]: "IB_GID_PREFIX_F = 1"
definition IB_GID_GUID_F :: nat where [c_eval]: "IB_GID_GUID_F = 2"
definition IB_MAD_METHOD_F :: nat where [c_eval]: "IB_MAD_METHOD_F = 3"
definition IB_MAD_RESPONSE_F :: nat where [c_eval]: "IB_MAD_RESPONSE_F = 4"
definition IB_MAD_CLASSVER_F :: nat where [c_eval]: "IB_MAD_CLASSVER_F = 5"
definition IB_MAD_MGMTCLASS_F :: nat where [c_eval]: "IB_MAD_MGMTCLASS_F = 6"
definition IB_MAD_BASEVER_F :: nat where [c_eval]: "IB_MAD_BASEVER_F = 7"
definition IB_MAD_STATUS_F :: nat where [c_eval]: "IB_MAD_STATUS_F = 8"
definition IB_DRSMP_HOPCNT_F :: nat where [c_eval]: "IB_DRSMP_HOPCNT_F = 9"
definition IB_DRSMP_HOPPTR_F :: nat where [c_eval]: "IB_DRSMP_HOPPTR_F = 10"
definition IB_DRSMP_STATUS_F :: nat where [c_eval]: "IB_DRSMP_STATUS_F = 11"
definition IB_DRSMP_DIRECTION_F :: nat where [c_eval]: "IB_DRSMP_DIRECTION_F = 12"
definition IB_MAD_TRID_F :: nat where [c_eval]: "IB_MAD_TRID_F = 13"
definition IB_MAD_ATTRID_F :: nat where [c_eval]: "IB_MAD_ATTRID_F = 14"
definition IB_MAD_ATTRMOD_F :: nat where [c_eval]: "IB_MAD_ATTRMOD_F = 15"
definition IB_MAD_MKEY_F :: nat where [c_eval]: "IB_MAD_MKEY_F = 16"
definition IB_DRSMP_DRDLID_F :: nat where [c_eval]: "IB_DRSMP_DRDLID_F = 17"
definition IB_DRSMP_DRSLID_F :: nat where [c_eval]: "IB_DRSMP_DRSLID_F = 18"
definition IB_SA_ATTROFFS_F :: nat where [c_eval]: "IB_SA_ATTROFFS_F = 20"
definition IB_SA_COMPMASK_F :: nat where [c_eval]: "IB_SA_COMPMASK_F = 21"
definition IB_SA_DATA_F :: nat where [c_eval]: "IB_SA_DATA_F = 22"
definition IB_SM_DATA_F :: nat where [c_eval]: "IB_SM_DATA_F = 23"
definition IB_DRSMP_PATH_F :: nat where [c_eval]: "IB_DRSMP_PATH_F = 25"
definition IB_DRSMP_RPATH_F :: nat where [c_eval]: "IB_DRSMP_RPATH_F = 26"
definition IB_PORT_FIRST_F :: nat where [c_eval]: "IB_PORT_FIRST_F = 27"
definition IB_PORT_GID_PREFIX_F :: nat where [c_eval]: "IB_PORT_GID_PREFIX_F = 28"
definition IB_PORT_LID_F :: nat where [c_eval]: "IB_PORT_LID_F = 29"
definition IB_PORT_SMLID_F :: nat where [c_eval]: "IB_PORT_SMLID_F = 30"
definition IB_PORT_CAPMASK_F :: nat where [c_eval]: "IB_PORT_CAPMASK_F = 31"
definition IB_PORT_LOCAL_PORT_F :: nat where [c_eval]: "IB_PORT_LOCAL_PORT_F = 34"
definition IB_PORT_LINK_WIDTH_ACTIVE_F :: nat where [c_eval]: "IB_PORT_LINK_WIDTH_ACTIVE_F = 37"
definition IB_PORT_STATE_F :: nat where [c_eval]: "IB_PORT_STATE_F = 39"
definition IB_PORT_PHYS_STATE_F :: nat where [c_eval]: "IB_PORT_PHYS_STATE_F = 40"
definition IB_PORT_LINK_DOWN_DEF_F :: nat where [c_eval]: "IB_PORT_LINK_DOWN_DEF_F = 41"
definition IB_PORT_LMC_F :: nat where [c_eval]: "IB_PORT_LMC_F = 43"
definition IB_PORT_LINK_SPEED_ACTIVE_F :: nat where [c_eval]: "IB_PORT_LINK_SPEED_ACTIVE_F = 44"
definition IB_PORT_SMSL_F :: nat where [c_eval]: "IB_PORT_SMSL_F = 47"
definition IB_PORT_LAST_F :: nat where [c_eval]: "IB_PORT_LAST_F = 74"
definition IB_NODE_FIRST_F :: nat where [c_eval]: "IB_NODE_FIRST_F = 75"
definition IB_NODE_TYPE_F :: nat where [c_eval]: "IB_NODE_TYPE_F = 77"
definition IB_NODE_NPORTS_F :: nat where [c_eval]: "IB_NODE_NPORTS_F = 78"
definition IB_NODE_SYSTEM_GUID_F :: nat where [c_eval]: "IB_NODE_SYSTEM_GUID_F = 79"
definition IB_NODE_GUID_F :: nat where [c_eval]: "IB_NODE_GUID_F = 80"
definition IB_NODE_PORT_GUID_F :: nat where [c_eval]: "IB_NODE_PORT_GUID_F = 81"
definition IB_NODE_DEVID_F :: nat where [c_eval]: "IB_NODE_DEVID_F = 83"
definition IB_NODE_LOCAL_PORT_F :: nat where [c_eval]: "IB_NODE_LOCAL_PORT_F = 85"
definition IB_NODE_VENDORID_F :: nat where [c_eval]: "IB_NODE_VENDORID_F = 86"
definition IB_NODE_LAST_F :: nat where [c_eval]: "IB_NODE_LAST_F = 87"
definition IB_SW_FIRST_F :: nat where [c_eval]: "IB_SW_FIRST_F = 88"
definition IB_SW_ENHANCED_PORT0_F :: nat where [c_eval]: "IB_SW_ENHANCED_PORT0_F = 104"
definition IB_SW_LAST_F :: nat where [c_eval]: "IB_SW_LAST_F = 106"
definition IB_PC_FIRST_F :: nat where [c_eval]: "IB_PC_FIRST_F = 121"
definition IB_PC_PORT_SELECT_F :: nat where [c_eval]: "IB_PC_PORT_SELECT_F = 121"
definition IB_PC_COUNTER_SELECT_F :: nat where [c_eval]: "IB_PC_COUNTER_SELECT_F = 122"
definition IB_PC_COUNTER_SELECT2_F :: nat where [c_eval]: "IB_PC_COUNTER_SELECT2_F = 132"
definition IB_PC_VL15_DROPPED_F :: nat where [c_eval]: "IB_PC_VL15_DROPPED_F = 135"
definition IB_PC_LAST_F :: nat where [c_eval]: "IB_PC_LAST_F = 141"
definition IB_SA_RMPP_VERS_F :: nat where [c_eval]: "IB_SA_RMPP_VERS_F = 147"
definition IB_SA_RMPP_TYPE_F :: nat where [c_eval]: "IB_SA_RMPP_TYPE_F = 148"
definition IB_SA_RMPP_RESP_F :: nat where [c_eval]: "IB_SA_RMPP_RESP_F = 149"
definition IB_SA_RMPP_FLAGS_F :: nat where [c_eval]: "IB_SA_RMPP_FLAGS_F = 150"
definition IB_SA_RMPP_STATUS_F :: nat where [c_eval]: "IB_SA_RMPP_STATUS_F = 151"
definition IB_SA_RMPP_D1_F :: nat where [c_eval]: "IB_SA_RMPP_D1_F = 152"
definition IB_SA_RMPP_D2_F :: nat where [c_eval]: "IB_SA_RMPP_D2_F = 154"
definition IB_SA_PR_DGID_F :: nat where [c_eval]: "IB_SA_PR_DGID_F = 161"
definition IB_SA_PR_SGID_F :: nat where [c_eval]: "IB_SA_PR_SGID_F = 162"
definition IB_SA_PR_DLID_F :: nat where [c_eval]: "IB_SA_PR_DLID_F = 163"
definition IB_SA_PR_SL_F :: nat where [c_eval]: "IB_SA_PR_SL_F = 166"
definition IB_VEND2_OUI_F :: nat where [c_eval]: "IB_VEND2_OUI_F = 192"
definition IB_PC_EXT_FIRST_F :: nat where [c_eval]: "IB_PC_EXT_FIRST_F = 194"
definition IB_PC_EXT_PORT_SELECT_F :: nat where [c_eval]: "IB_PC_EXT_PORT_SELECT_F = 194"
definition IB_PC_EXT_XMT_BYTES_F :: nat where [c_eval]: "IB_PC_EXT_XMT_BYTES_F = 196"
definition IB_PC_EXT_LAST_F :: nat where [c_eval]: "IB_PC_EXT_LAST_F = 204"
definition IB_CPI_BASEVER_F :: nat where [c_eval]: "IB_CPI_BASEVER_F = 206"
definition IB_CPI_REDIRECT_SL_F :: nat where [c_eval]: "IB_CPI_REDIRECT_SL_F = 213"
definition IB_CPI_REDIRECT_LID_F :: nat where [c_eval]: "IB_CPI_REDIRECT_LID_F = 215"
definition IB_CPI_REDIRECT_QP_F :: nat where [c_eval]: "IB_CPI_REDIRECT_QP_F = 217"
definition IB_CPI_REDIRECT_QKEY_F :: nat where [c_eval]: "IB_CPI_REDIRECT_QKEY_F = 218"
definition IB_CPI_TRAP_QKEY_F :: nat where [c_eval]: "IB_CPI_TRAP_QKEY_F = 227"
definition IB_PC_XMT_DATA_SL_FIRST_F :: nat where [c_eval]: "IB_PC_XMT_DATA_SL_FIRST_F = 228"
definition IB_PC_XMT_DATA_SL_LAST_F :: nat where [c_eval]: "IB_PC_XMT_DATA_SL_LAST_F = 244"
definition IB_PC_RCV_DATA_SL_FIRST_F :: nat where [c_eval]: "IB_PC_RCV_DATA_SL_FIRST_F = 245"
definition IB_PC_RCV_DATA_SL_LAST_F :: nat where [c_eval]: "IB_PC_RCV_DATA_SL_LAST_F = 261"
definition IB_PC_XMT_INACT_DISC_F :: nat where [c_eval]: "IB_PC_XMT_INACT_DISC_F = 262"
definition IB_PC_XMT_DISC_LAST_F :: nat where [c_eval]: "IB_PC_XMT_DISC_LAST_F = 266"
definition IB_PC_RCV_LOCAL_PHY_ERR_F :: nat where [c_eval]: "IB_PC_RCV_LOCAL_PHY_ERR_F = 267"
definition IB_PC_RCV_ERR_LAST_F :: nat where [c_eval]: "IB_PC_RCV_ERR_LAST_F = 273"
definition IB_PSC_OPCODE_F :: nat where [c_eval]: "IB_PSC_OPCODE_F = 274"
definition IB_PSC_LAST_F :: nat where [c_eval]: "IB_PSC_LAST_F = 304"
definition IB_PORT_CAPMASK2_F :: nat where [c_eval]: "IB_PORT_CAPMASK2_F = 323"
definition IB_PORT_LINK_SPEED_EXT_ACTIVE_F :: nat where [c_eval]: "IB_PORT_LINK_SPEED_EXT_ACTIVE_F = 324"
definition IB_PORT_LINK_SPEED_EXT_LAST_F :: nat where [c_eval]: "IB_PORT_LINK_SPEED_EXT_LAST_F = 327"
definition IB_PESC_PORT_SELECT_F :: nat where [c_eval]: "IB_PESC_PORT_SELECT_F = 328"
definition IB_PESC_LAST_F :: nat where [c_eval]: "IB_PESC_LAST_F = 368"
definition IB_PC_PORT_OP_RCV_COUNTERS_FIRST_F :: nat where [c_eval]: "IB_PC_PORT_OP_RCV_COUNTERS_FIRST_F = 369"
definition IB_PC_PORT_OP_RCV_COUNTERS_LAST_F :: nat where [c_eval]: "IB_PC_PORT_OP_RCV_COUNTERS_LAST_F = 371"
definition IB_PC_PORT_FLOW_CTL_COUNTERS_FIRST_F :: nat where [c_eval]: "IB_PC_PORT_FLOW_CTL_COUNTERS_FIRST_F = 372"
definition IB_PC_PORT_FLOW_CTL_COUNTERS_LAST_F :: nat where [c_eval]: "IB_PC_PORT_FLOW_CTL_COUNTERS_LAST_F = 374"
definition IB_PC_PORT_VL_OP_PACKETS_FIRST_F :: nat where [c_eval]: "IB_PC_PORT_VL_OP_PACKETS_FIRST_F = 375"
definition IB_PC_PORT_VL_OP_PACKETS_LAST_F :: nat where [c_eval]: "IB_PC_PORT_VL_OP_PACKETS_LAST_F = 391"
definition IB_PC_PORT_VL_OP_DATA_FIRST_F :: nat where [c_eval]: "IB_PC_PORT_VL_OP_DATA_FIRST_F = 392"
definition IB_PC_PORT_VL_OP_DATA_LAST_F :: nat where [c_eval]: "IB_PC_PORT_VL_OP_DATA_LAST_F = 408"
definition IB_PC_PORT_VL_XMIT_FLOW_CTL_UPDATE_ERRORS_FIRST_F :: nat where [c_eval]: "IB_PC_PORT_VL_XMIT_FLOW_CTL_UPDATE_ERRORS_FIRST_F = 409"
definition IB_PC_PORT_VL_XMIT_FLOW_CTL_UPDATE_ERRORS_LAST_F :: nat where [c_eval]: "IB_PC_PORT_VL_XMIT_FLOW_CTL_UPDATE_ERRORS_LAST_F = 425"
definition IB_PC_PORT_VL_XMIT_WAIT_COUNTERS_FIRST_F :: nat where [c_eval]: "IB_PC_PORT_VL_XMIT_WAIT_COUNTERS_FIRST_F = 426"
definition IB_PC_PORT_VL_XMIT_WAIT_COUNTERS_LAST_F :: nat where [c_eval]: "IB_PC_PORT_VL_XMIT_WAIT_COUNTERS_LAST_F = 442"
definition IB_PC_SW_PORT_VL_CONGESTION_FIRST_F :: nat where [c_eval]: "IB_PC_SW_PORT_VL_CONGESTION_FIRST_F = 443"
definition IB_PC_SW_PORT_VL_CONGESTION_LAST_F :: nat where [c_eval]: "IB_PC_SW_PORT_VL_CONGESTION_LAST_F = 459"
definition IB_PC_RCV_CON_CTRL_FIRST_F :: nat where [c_eval]: "IB_PC_RCV_CON_CTRL_FIRST_F = 460"
definition IB_PC_RCV_CON_CTRL_LAST_F :: nat where [c_eval]: "IB_PC_RCV_CON_CTRL_LAST_F = 462"
definition IB_PC_SL_RCV_FECN_FIRST_F :: nat where [c_eval]: "IB_PC_SL_RCV_FECN_FIRST_F = 463"
definition IB_PC_SL_RCV_FECN_LAST_F :: nat where [c_eval]: "IB_PC_SL_RCV_FECN_LAST_F = 479"
definition IB_PC_SL_RCV_BECN_FIRST_F :: nat where [c_eval]: "IB_PC_SL_RCV_BECN_FIRST_F = 480"
definition IB_PC_SL_RCV_BECN_LAST_F :: nat where [c_eval]: "IB_PC_SL_RCV_BECN_LAST_F = 496"
definition IB_PC_XMIT_CON_CTRL_FIRST_F :: nat where [c_eval]: "IB_PC_XMIT_CON_CTRL_FIRST_F = 497"
definition IB_PC_XMIT_CON_CTRL_LAST_F :: nat where [c_eval]: "IB_PC_XMIT_CON_CTRL_LAST_F = 498"
definition IB_PC_VL_XMIT_TIME_CONG_FIRST_F :: nat where [c_eval]: "IB_PC_VL_XMIT_TIME_CONG_FIRST_F = 499"
definition IB_PC_VL_XMIT_TIME_CONG_LAST_F :: nat where [c_eval]: "IB_PC_VL_XMIT_TIME_CONG_LAST_F = 514"
definition IB_MLNX_EXT_PORT_STATE_CHG_ENABLE_F :: nat where [c_eval]: "IB_MLNX_EXT_PORT_STATE_CHG_ENABLE_F = 515"
definition IB_MLNX_EXT_PORT_LINK_SPEED_ACTIVE_F :: nat where [c_eval]: "IB_MLNX_EXT_PORT_LINK_SPEED_ACTIVE_F = 518"
definition IB_MLNX_EXT_PORT_LAST_F :: nat where [c_eval]: "IB_MLNX_EXT_PORT_LAST_F = 519"
definition IB_CC_CCKEY_F :: nat where [c_eval]: "IB_CC_CCKEY_F = 520"
definition IB_CC_CONGESTION_INFO_FIRST_F :: nat where [c_eval]: "IB_CC_CONGESTION_INFO_FIRST_F = 521"
definition IB_CC_CONGESTION_INFO_LAST_F :: nat where [c_eval]: "IB_CC_CONGESTION_INFO_LAST_F = 523"
definition IB_CC_CONGESTION_KEY_INFO_FIRST_F :: nat where [c_eval]: "IB_CC_CONGESTION_KEY_INFO_FIRST_F = 524"
definition IB_CC_CONGESTION_KEY_INFO_LAST_F :: nat where [c_eval]: "IB_CC_CONGESTION_KEY_INFO_LAST_F = 528"
definition IB_CC_CONGESTION_LOG_FIRST_F :: nat where [c_eval]: "IB_CC_CONGESTION_LOG_FIRST_F = 529"
definition IB_CC_CONGESTION_LOG_LAST_F :: nat where [c_eval]: "IB_CC_CONGESTION_LOG_LAST_F = 531"
definition IB_CC_CONGESTION_LOG_SWITCH_FIRST_F :: nat where [c_eval]: "IB_CC_CONGESTION_LOG_SWITCH_FIRST_F = 532"
definition IB_CC_CONGESTION_LOG_SWITCH_LAST_F :: nat where [c_eval]: "IB_CC_CONGESTION_LOG_SWITCH_LAST_F = 535"
definition IB_CC_CONGESTION_LOG_ENTRY_SWITCH_FIRST_F :: nat where [c_eval]: "IB_CC_CONGESTION_LOG_ENTRY_SWITCH_FIRST_F = 536"
definition IB_CC_CONGESTION_LOG_ENTRY_SWITCH_LAST_F :: nat where [c_eval]: "IB_CC_CONGESTION_LOG_ENTRY_SWITCH_LAST_F = 540"
definition IB_CC_CONGESTION_LOG_CA_FIRST_F :: nat where [c_eval]: "IB_CC_CONGESTION_LOG_CA_FIRST_F = 541"
definition IB_CC_CONGESTION_LOG_CA_LAST_F :: nat where [c_eval]: "IB_CC_CONGESTION_LOG_CA_LAST_F = 544"
definition IB_CC_CONGESTION_LOG_ENTRY_CA_FIRST_F :: nat where [c_eval]: "IB_CC_CONGESTION_LOG_ENTRY_CA_FIRST_F = 545"
definition IB_CC_CONGESTION_LOG_ENTRY_CA_LAST_F :: nat where [c_eval]: "IB_CC_CONGESTION_LOG_ENTRY_CA_LAST_F = 552"
definition IB_CC_SWITCH_CONGESTION_SETTING_FIRST_F :: nat where [c_eval]: "IB_CC_SWITCH_CONGESTION_SETTING_FIRST_F = 553"
definition IB_CC_SWITCH_CONGESTION_SETTING_LAST_F :: nat where [c_eval]: "IB_CC_SWITCH_CONGESTION_SETTING_LAST_F = 561"
definition IB_CC_SWITCH_PORT_CONGESTION_SETTING_ELEMENT_FIRST_F :: nat where [c_eval]: "IB_CC_SWITCH_PORT_CONGESTION_SETTING_ELEMENT_FIRST_F = 562"
definition IB_CC_SWITCH_PORT_CONGESTION_SETTING_ELEMENT_LAST_F :: nat where [c_eval]: "IB_CC_SWITCH_PORT_CONGESTION_SETTING_ELEMENT_LAST_F = 567"
definition IB_CC_CA_CONGESTION_SETTING_FIRST_F :: nat where [c_eval]: "IB_CC_CA_CONGESTION_SETTING_FIRST_F = 568"
definition IB_CC_CA_CONGESTION_SETTING_LAST_F :: nat where [c_eval]: "IB_CC_CA_CONGESTION_SETTING_LAST_F = 570"
definition IB_CC_CA_CONGESTION_ENTRY_FIRST_F :: nat where [c_eval]: "IB_CC_CA_CONGESTION_ENTRY_FIRST_F = 571"
definition IB_CC_CA_CONGESTION_ENTRY_LAST_F :: nat where [c_eval]: "IB_CC_CA_CONGESTION_ENTRY_LAST_F = 575"
definition IB_CC_CONGESTION_CONTROL_TABLE_FIRST_F :: nat where [c_eval]: "IB_CC_CONGESTION_CONTROL_TABLE_FIRST_F = 576"
definition IB_CC_CONGESTION_CONTROL_TABLE_LAST_F :: nat where [c_eval]: "IB_CC_CONGESTION_CONTROL_TABLE_LAST_F = 577"
definition IB_CC_CONGESTION_CONTROL_TABLE_ENTRY_FIRST_F :: nat where [c_eval]: "IB_CC_CONGESTION_CONTROL_TABLE_ENTRY_FIRST_F = 578"
definition IB_CC_CONGESTION_CONTROL_TABLE_ENTRY_LAST_F :: nat where [c_eval]: "IB_CC_CONGESTION_CONTROL_TABLE_ENTRY_LAST_F = 580"
definition IB_CC_TIMESTAMP_FIRST_F :: nat where [c_eval]: "IB_CC_TIMESTAMP_FIRST_F = 581"
definition IB_CC_TIMESTAMP_LAST_F :: nat where [c_eval]: "IB_CC_TIMESTAMP_LAST_F = 582"
definition IB_SA_NR_PORT_GUID_F :: nat where [c_eval]: "IB_SA_NR_PORT_GUID_F = 590"
definition IB_PSR_TAG_F :: nat where [c_eval]: "IB_PSR_TAG_F = 598"
definition IB_PSR_LAST_F :: nat where [c_eval]: "IB_PSR_LAST_F = 615"
definition IB_PORT_EXT_FIRST_F :: nat where [c_eval]: "IB_PORT_EXT_FIRST_F = 616"
definition IB_PORT_EXT_FEC_MODE_ACTIVE_F :: nat where [c_eval]: "IB_PORT_EXT_FEC_MODE_ACTIVE_F = 617"
definition IB_PORT_EXT_EDR_FEC_MODE_ENABLED_F :: nat where [c_eval]: "IB_PORT_EXT_EDR_FEC_MODE_ENABLED_F = 621"
definition IB_PORT_EXT_LAST_F :: nat where [c_eval]: "IB_PORT_EXT_LAST_F = 622"
definition IB_PESC_RSFEC_FIRST_F :: nat where [c_eval]: "IB_PESC_RSFEC_FIRST_F = 623"
definition IB_PESC_RSFEC_LAST_F :: nat where [c_eval]: "IB_PESC_RSFEC_LAST_F = 642"
definition IB_PC_EXT_COUNTER_SELECT2_F :: nat where [c_eval]: "IB_PC_EXT_COUNTER_SELECT2_F = 643"
definition IB_PC_EXT_ERR_LAST_F :: nat where [c_eval]: "IB_PC_EXT_ERR_LAST_F = 658"
definition IB_PC_QP1_DROP_F :: nat where [c_eval]: "IB_PC_QP1_DROP_F = 659"
definition IB_PORT_EXT_HDR_FEC_MODE_SUPPORTED_F :: nat where [c_eval]: "IB_PORT_EXT_HDR_FEC_MODE_SUPPORTED_F = 660"
definition IB_PORT_EXT_HDR_FEC_MODE_ENABLED_F :: nat where [c_eval]: "IB_PORT_EXT_HDR_FEC_MODE_ENABLED_F = 661"
definition IB_PORT_EXT_HDR_FEC_MODE_LAST_F :: nat where [c_eval]: "IB_PORT_EXT_HDR_FEC_MODE_LAST_F = 662"
definition IB_FIELD_LAST :: nat where [c_eval]: "IB_FIELD_LAST = 663"

definition field_constants_1 :: "(string \<times> nat) list" where
  "field_constants_1 = [(''IB_NO_FIELD'', IB_NO_FIELD),
     (''IB_GID_PREFIX_F'', IB_GID_PREFIX_F),
     (''IB_GID_GUID_F'', IB_GID_GUID_F),
     (''IB_MAD_METHOD_F'', IB_MAD_METHOD_F),
     (''IB_MAD_RESPONSE_F'', IB_MAD_RESPONSE_F),
     (''IB_MAD_CLASSVER_F'', IB_MAD_CLASSVER_F),
     (''IB_MAD_MGMTCLASS_F'', IB_MAD_MGMTCLASS_F),
     (''IB_MAD_BASEVER_F'', IB_MAD_BASEVER_F),
     (''IB_MAD_STATUS_F'', IB_MAD_STATUS_F),
     (''IB_DRSMP_HOPCNT_F'', IB_DRSMP_HOPCNT_F),
     (''IB_DRSMP_HOPPTR_F'', IB_DRSMP_HOPPTR_F),
     (''IB_DRSMP_STATUS_F'', IB_DRSMP_STATUS_F),
     (''IB_DRSMP_DIRECTION_F'', IB_DRSMP_DIRECTION_F),
     (''IB_MAD_TRID_F'', IB_MAD_TRID_F),
     (''IB_MAD_ATTRID_F'', IB_MAD_ATTRID_F),
     (''IB_MAD_ATTRMOD_F'', IB_MAD_ATTRMOD_F),
     (''IB_MAD_MKEY_F'', IB_MAD_MKEY_F),
     (''IB_DRSMP_DRDLID_F'', IB_DRSMP_DRDLID_F),
     (''IB_DRSMP_DRSLID_F'', IB_DRSMP_DRSLID_F),
     (''IB_SA_ATTROFFS_F'', IB_SA_ATTROFFS_F),
     (''IB_SA_COMPMASK_F'', IB_SA_COMPMASK_F),
     (''IB_SA_DATA_F'', IB_SA_DATA_F),
     (''IB_SM_DATA_F'', IB_SM_DATA_F),
     (''IB_DRSMP_PATH_F'', IB_DRSMP_PATH_F),
     (''IB_DRSMP_RPATH_F'', IB_DRSMP_RPATH_F),
     (''IB_PORT_FIRST_F'', IB_PORT_FIRST_F),
     (''IB_PORT_GID_PREFIX_F'', IB_PORT_GID_PREFIX_F),
     (''IB_PORT_LID_F'', IB_PORT_LID_F),
     (''IB_PORT_SMLID_F'', IB_PORT_SMLID_F),
     (''IB_PORT_CAPMASK_F'', IB_PORT_CAPMASK_F),
     (''IB_PORT_LOCAL_PORT_F'', IB_PORT_LOCAL_PORT_F),
     (''IB_PORT_LINK_WIDTH_ACTIVE_F'', IB_PORT_LINK_WIDTH_ACTIVE_F),
     (''IB_PORT_STATE_F'', IB_PORT_STATE_F),
     (''IB_PORT_PHYS_STATE_F'', IB_PORT_PHYS_STATE_F),
     (''IB_PORT_LINK_DOWN_DEF_F'', IB_PORT_LINK_DOWN_DEF_F),
     (''IB_PORT_LMC_F'', IB_PORT_LMC_F),
     (''IB_PORT_LINK_SPEED_ACTIVE_F'', IB_PORT_LINK_SPEED_ACTIVE_F),
     (''IB_PORT_SMSL_F'', IB_PORT_SMSL_F),
     (''IB_PORT_LAST_F'', IB_PORT_LAST_F),
     (''IB_NODE_FIRST_F'', IB_NODE_FIRST_F),
     (''IB_NODE_TYPE_F'', IB_NODE_TYPE_F),
     (''IB_NODE_NPORTS_F'', IB_NODE_NPORTS_F),
     (''IB_NODE_SYSTEM_GUID_F'', IB_NODE_SYSTEM_GUID_F),
     (''IB_NODE_GUID_F'', IB_NODE_GUID_F),
     (''IB_NODE_PORT_GUID_F'', IB_NODE_PORT_GUID_F),
     (''IB_NODE_DEVID_F'', IB_NODE_DEVID_F),
     (''IB_NODE_LOCAL_PORT_F'', IB_NODE_LOCAL_PORT_F),
     (''IB_NODE_VENDORID_F'', IB_NODE_VENDORID_F),
     (''IB_NODE_LAST_F'', IB_NODE_LAST_F),
     (''IB_SW_FIRST_F'', IB_SW_FIRST_F)]"

definition field_constants_2 :: "(string \<times> nat) list" where
  "field_constants_2 = [(''IB_SW_ENHANCED_PORT0_F'', IB_SW_ENHANCED_PORT0_F),
     (''IB_SW_LAST_F'', IB_SW_LAST_F),
     (''IB_PC_FIRST_F'', IB_PC_FIRST_F),
     (''IB_PC_PORT_SELECT_F'', IB_PC_PORT_SELECT_F),
     (''IB_PC_COUNTER_SELECT_F'', IB_PC_COUNTER_SELECT_F),
     (''IB_PC_COUNTER_SELECT2_F'', IB_PC_COUNTER_SELECT2_F),
     (''IB_PC_VL15_DROPPED_F'', IB_PC_VL15_DROPPED_F),
     (''IB_PC_LAST_F'', IB_PC_LAST_F),
     (''IB_SA_RMPP_VERS_F'', IB_SA_RMPP_VERS_F),
     (''IB_SA_RMPP_TYPE_F'', IB_SA_RMPP_TYPE_F),
     (''IB_SA_RMPP_RESP_F'', IB_SA_RMPP_RESP_F),
     (''IB_SA_RMPP_FLAGS_F'', IB_SA_RMPP_FLAGS_F),
     (''IB_SA_RMPP_STATUS_F'', IB_SA_RMPP_STATUS_F),
     (''IB_SA_RMPP_D1_F'', IB_SA_RMPP_D1_F),
     (''IB_SA_RMPP_D2_F'', IB_SA_RMPP_D2_F),
     (''IB_SA_PR_DGID_F'', IB_SA_PR_DGID_F),
     (''IB_SA_PR_SGID_F'', IB_SA_PR_SGID_F),
     (''IB_SA_PR_DLID_F'', IB_SA_PR_DLID_F),
     (''IB_SA_PR_SL_F'', IB_SA_PR_SL_F)]"

definition field_constants_3 :: "(string \<times> nat) list" where
  "field_constants_3 = [(''IB_VEND2_OUI_F'', IB_VEND2_OUI_F),
     (''IB_PC_EXT_FIRST_F'', IB_PC_EXT_FIRST_F),
     (''IB_PC_EXT_PORT_SELECT_F'', IB_PC_EXT_PORT_SELECT_F),
     (''IB_PC_EXT_XMT_BYTES_F'', IB_PC_EXT_XMT_BYTES_F),
     (''IB_PC_EXT_LAST_F'', IB_PC_EXT_LAST_F),
     (''IB_CPI_BASEVER_F'', IB_CPI_BASEVER_F),
     (''IB_CPI_REDIRECT_SL_F'', IB_CPI_REDIRECT_SL_F),
     (''IB_CPI_REDIRECT_LID_F'', IB_CPI_REDIRECT_LID_F),
     (''IB_CPI_REDIRECT_QP_F'', IB_CPI_REDIRECT_QP_F),
     (''IB_CPI_REDIRECT_QKEY_F'', IB_CPI_REDIRECT_QKEY_F),
     (''IB_CPI_TRAP_QKEY_F'', IB_CPI_TRAP_QKEY_F),
     (''IB_PC_XMT_DATA_SL_FIRST_F'', IB_PC_XMT_DATA_SL_FIRST_F),
     (''IB_PC_XMT_DATA_SL_LAST_F'', IB_PC_XMT_DATA_SL_LAST_F),
     (''IB_PC_RCV_DATA_SL_FIRST_F'', IB_PC_RCV_DATA_SL_FIRST_F),
     (''IB_PC_RCV_DATA_SL_LAST_F'', IB_PC_RCV_DATA_SL_LAST_F),
     (''IB_PC_XMT_INACT_DISC_F'', IB_PC_XMT_INACT_DISC_F),
     (''IB_PC_XMT_DISC_LAST_F'', IB_PC_XMT_DISC_LAST_F),
     (''IB_PC_RCV_LOCAL_PHY_ERR_F'', IB_PC_RCV_LOCAL_PHY_ERR_F),
     (''IB_PC_RCV_ERR_LAST_F'', IB_PC_RCV_ERR_LAST_F),
     (''IB_PSC_OPCODE_F'', IB_PSC_OPCODE_F)]"

definition field_constants_4 :: "(string \<times> nat) list" where
  "field_constants_4 = [(''IB_PSC_LAST_F'', IB_PSC_LAST_F),
     (''IB_PORT_CAPMASK2_F'', IB_PORT_CAPMASK2_F),
     (''IB_PORT_LINK_SPEED_EXT_ACTIVE_F'', IB_PORT_LINK_SPEED_EXT_ACTIVE_F),
     (''IB_PORT_LINK_SPEED_EXT_LAST_F'', IB_PORT_LINK_SPEED_EXT_LAST_F),
     (''IB_PESC_PORT_SELECT_F'', IB_PESC_PORT_SELECT_F),
     (''IB_PESC_LAST_F'', IB_PESC_LAST_F),
     (''IB_PC_PORT_OP_RCV_COUNTERS_FIRST_F'', IB_PC_PORT_OP_RCV_COUNTERS_FIRST_F),
     (''IB_PC_PORT_OP_RCV_COUNTERS_LAST_F'', IB_PC_PORT_OP_RCV_COUNTERS_LAST_F),
     (''IB_PC_PORT_FLOW_CTL_COUNTERS_FIRST_F'', IB_PC_PORT_FLOW_CTL_COUNTERS_FIRST_F),
     (''IB_PC_PORT_FLOW_CTL_COUNTERS_LAST_F'', IB_PC_PORT_FLOW_CTL_COUNTERS_LAST_F),
     (''IB_PC_PORT_VL_OP_PACKETS_FIRST_F'', IB_PC_PORT_VL_OP_PACKETS_FIRST_F),
     (''IB_PC_PORT_VL_OP_PACKETS_LAST_F'', IB_PC_PORT_VL_OP_PACKETS_LAST_F),
     (''IB_PC_PORT_VL_OP_DATA_FIRST_F'', IB_PC_PORT_VL_OP_DATA_FIRST_F)]"

definition field_constants_5 :: "(string \<times> nat) list" where
  "field_constants_5 = [(''IB_PC_PORT_VL_OP_DATA_LAST_F'', IB_PC_PORT_VL_OP_DATA_LAST_F),
     (''IB_PC_PORT_VL_XMIT_FLOW_CTL_UPDATE_ERRORS_FIRST_F'', IB_PC_PORT_VL_XMIT_FLOW_CTL_UPDATE_ERRORS_FIRST_F),
     (''IB_PC_PORT_VL_XMIT_FLOW_CTL_UPDATE_ERRORS_LAST_F'', IB_PC_PORT_VL_XMIT_FLOW_CTL_UPDATE_ERRORS_LAST_F),
     (''IB_PC_PORT_VL_XMIT_WAIT_COUNTERS_FIRST_F'', IB_PC_PORT_VL_XMIT_WAIT_COUNTERS_FIRST_F),
     (''IB_PC_PORT_VL_XMIT_WAIT_COUNTERS_LAST_F'', IB_PC_PORT_VL_XMIT_WAIT_COUNTERS_LAST_F),
     (''IB_PC_SW_PORT_VL_CONGESTION_FIRST_F'', IB_PC_SW_PORT_VL_CONGESTION_FIRST_F),
     (''IB_PC_SW_PORT_VL_CONGESTION_LAST_F'', IB_PC_SW_PORT_VL_CONGESTION_LAST_F),
     (''IB_PC_RCV_CON_CTRL_FIRST_F'', IB_PC_RCV_CON_CTRL_FIRST_F),
     (''IB_PC_RCV_CON_CTRL_LAST_F'', IB_PC_RCV_CON_CTRL_LAST_F),
     (''IB_PC_SL_RCV_FECN_FIRST_F'', IB_PC_SL_RCV_FECN_FIRST_F),
     (''IB_PC_SL_RCV_FECN_LAST_F'', IB_PC_SL_RCV_FECN_LAST_F),
     (''IB_PC_SL_RCV_BECN_FIRST_F'', IB_PC_SL_RCV_BECN_FIRST_F),
     (''IB_PC_SL_RCV_BECN_LAST_F'', IB_PC_SL_RCV_BECN_LAST_F),
     (''IB_PC_XMIT_CON_CTRL_FIRST_F'', IB_PC_XMIT_CON_CTRL_FIRST_F),
     (''IB_PC_XMIT_CON_CTRL_LAST_F'', IB_PC_XMIT_CON_CTRL_LAST_F),
     (''IB_PC_VL_XMIT_TIME_CONG_FIRST_F'', IB_PC_VL_XMIT_TIME_CONG_FIRST_F)]"

definition field_constants_6 :: "(string \<times> nat) list" where
  "field_constants_6 = [(''IB_PC_VL_XMIT_TIME_CONG_LAST_F'', IB_PC_VL_XMIT_TIME_CONG_LAST_F),
     (''IB_MLNX_EXT_PORT_STATE_CHG_ENABLE_F'', IB_MLNX_EXT_PORT_STATE_CHG_ENABLE_F),
     (''IB_MLNX_EXT_PORT_LINK_SPEED_ACTIVE_F'', IB_MLNX_EXT_PORT_LINK_SPEED_ACTIVE_F),
     (''IB_MLNX_EXT_PORT_LAST_F'', IB_MLNX_EXT_PORT_LAST_F),
     (''IB_CC_CCKEY_F'', IB_CC_CCKEY_F),
     (''IB_CC_CONGESTION_INFO_FIRST_F'', IB_CC_CONGESTION_INFO_FIRST_F),
     (''IB_CC_CONGESTION_INFO_LAST_F'', IB_CC_CONGESTION_INFO_LAST_F),
     (''IB_CC_CONGESTION_KEY_INFO_FIRST_F'', IB_CC_CONGESTION_KEY_INFO_FIRST_F),
     (''IB_CC_CONGESTION_KEY_INFO_LAST_F'', IB_CC_CONGESTION_KEY_INFO_LAST_F),
     (''IB_CC_CONGESTION_LOG_FIRST_F'', IB_CC_CONGESTION_LOG_FIRST_F),
     (''IB_CC_CONGESTION_LOG_LAST_F'', IB_CC_CONGESTION_LOG_LAST_F),
     (''IB_CC_CONGESTION_LOG_SWITCH_FIRST_F'', IB_CC_CONGESTION_LOG_SWITCH_FIRST_F),
     (''IB_CC_CONGESTION_LOG_SWITCH_LAST_F'', IB_CC_CONGESTION_LOG_SWITCH_LAST_F),
     (''IB_CC_CONGESTION_LOG_ENTRY_SWITCH_FIRST_F'', IB_CC_CONGESTION_LOG_ENTRY_SWITCH_FIRST_F),
     (''IB_CC_CONGESTION_LOG_ENTRY_SWITCH_LAST_F'', IB_CC_CONGESTION_LOG_ENTRY_SWITCH_LAST_F),
     (''IB_CC_CONGESTION_LOG_CA_FIRST_F'', IB_CC_CONGESTION_LOG_CA_FIRST_F),
     (''IB_CC_CONGESTION_LOG_CA_LAST_F'', IB_CC_CONGESTION_LOG_CA_LAST_F),
     (''IB_CC_CONGESTION_LOG_ENTRY_CA_FIRST_F'', IB_CC_CONGESTION_LOG_ENTRY_CA_FIRST_F),
     (''IB_CC_CONGESTION_LOG_ENTRY_CA_LAST_F'', IB_CC_CONGESTION_LOG_ENTRY_CA_LAST_F),
     (''IB_CC_SWITCH_CONGESTION_SETTING_FIRST_F'', IB_CC_SWITCH_CONGESTION_SETTING_FIRST_F),
     (''IB_CC_SWITCH_CONGESTION_SETTING_LAST_F'', IB_CC_SWITCH_CONGESTION_SETTING_LAST_F),
     (''IB_CC_SWITCH_PORT_CONGESTION_SETTING_ELEMENT_FIRST_F'', IB_CC_SWITCH_PORT_CONGESTION_SETTING_ELEMENT_FIRST_F),
     (''IB_CC_SWITCH_PORT_CONGESTION_SETTING_ELEMENT_LAST_F'', IB_CC_SWITCH_PORT_CONGESTION_SETTING_ELEMENT_LAST_F),
     (''IB_CC_CA_CONGESTION_SETTING_FIRST_F'', IB_CC_CA_CONGESTION_SETTING_FIRST_F),
     (''IB_CC_CA_CONGESTION_SETTING_LAST_F'', IB_CC_CA_CONGESTION_SETTING_LAST_F),
     (''IB_CC_CA_CONGESTION_ENTRY_FIRST_F'', IB_CC_CA_CONGESTION_ENTRY_FIRST_F),
     (''IB_CC_CA_CONGESTION_ENTRY_LAST_F'', IB_CC_CA_CONGESTION_ENTRY_LAST_F),
     (''IB_CC_CONGESTION_CONTROL_TABLE_FIRST_F'', IB_CC_CONGESTION_CONTROL_TABLE_FIRST_F),
     (''IB_CC_CONGESTION_CONTROL_TABLE_LAST_F'', IB_CC_CONGESTION_CONTROL_TABLE_LAST_F),
     (''IB_CC_CONGESTION_CONTROL_TABLE_ENTRY_FIRST_F'', IB_CC_CONGESTION_CONTROL_TABLE_ENTRY_FIRST_F),
     (''IB_CC_CONGESTION_CONTROL_TABLE_ENTRY_LAST_F'', IB_CC_CONGESTION_CONTROL_TABLE_ENTRY_LAST_F)]"

definition field_constants_7 :: "(string \<times> nat) list" where
  "field_constants_7 = [(''IB_CC_TIMESTAMP_FIRST_F'', IB_CC_TIMESTAMP_FIRST_F),
     (''IB_CC_TIMESTAMP_LAST_F'', IB_CC_TIMESTAMP_LAST_F),
     (''IB_SA_NR_PORT_GUID_F'', IB_SA_NR_PORT_GUID_F),
     (''IB_PSR_TAG_F'', IB_PSR_TAG_F),
     (''IB_PSR_LAST_F'', IB_PSR_LAST_F),
     (''IB_PORT_EXT_FIRST_F'', IB_PORT_EXT_FIRST_F),
     (''IB_PORT_EXT_FEC_MODE_ACTIVE_F'', IB_PORT_EXT_FEC_MODE_ACTIVE_F),
     (''IB_PORT_EXT_EDR_FEC_MODE_ENABLED_F'', IB_PORT_EXT_EDR_FEC_MODE_ENABLED_F),
     (''IB_PORT_EXT_LAST_F'', IB_PORT_EXT_LAST_F),
     (''IB_PESC_RSFEC_FIRST_F'', IB_PESC_RSFEC_FIRST_F),
     (''IB_PESC_RSFEC_LAST_F'', IB_PESC_RSFEC_LAST_F),
     (''IB_PC_EXT_COUNTER_SELECT2_F'', IB_PC_EXT_COUNTER_SELECT2_F),
     (''IB_PC_EXT_ERR_LAST_F'', IB_PC_EXT_ERR_LAST_F),
     (''IB_PC_QP1_DROP_F'', IB_PC_QP1_DROP_F),
     (''IB_PORT_EXT_HDR_FEC_MODE_SUPPORTED_F'', IB_PORT_EXT_HDR_FEC_MODE_SUPPORTED_F),
     (''IB_PORT_EXT_HDR_FEC_MODE_ENABLED_F'', IB_PORT_EXT_HDR_FEC_MODE_ENABLED_F),
     (''IB_PORT_EXT_HDR_FEC_MODE_LAST_F'', IB_PORT_EXT_HDR_FEC_MODE_LAST_F),
     (''IB_FIELD_LAST_'', IB_FIELD_LAST)]"

definition field_constants :: "(string \<times> nat) list" where
  "field_constants = field_constants_1 @ field_constants_2 @ field_constants_3 @ field_constants_4 @ field_constants_5 @ field_constants_6 @ field_constants_7"

section \<open>The constants agree with the numbering of C\<close>

fun enum_next :: "enumerator list \<Rightarrow> nat \<Rightarrow> (string \<times> nat) list \<Rightarrow> nat" where
  \<comment> \<open>the number after the last enumerator\<close>
  "enum_next [] cur env = cur"
| "enum_next (Enum n # es) cur env = enum_next es (cur + 1) ((n, cur) # env)"
| "enum_next (EnumEq n m # es) cur env =
     (let v = the (map_of env m) in enum_next es (v + 1) ((n, v) # env))"

lemma enum_values_append:
  "enum_values (xs @ ys) cur env =
     enum_values xs cur env @ enum_values ys (enum_next xs cur env) (rev (enum_values xs cur env) @ env)"
  by (induction xs cur env rule: enum_values.induct) (simp_all add: Let_def)

fun agrees :: "(string \<times> nat) list \<Rightarrow> (string \<times> nat) list \<Rightarrow> bool" where
  "agrees [] ys = True"
| "agrees (x # xs) [] = False"
| "agrees (x # xs) (y # ys) =
     (if snd x = snd y then (if fst x = fst y then agrees xs ys else agrees (x # xs) ys)
      else agrees (x # xs) ys)"

lemma agrees_subseq: "agrees xs ys \<Longrightarrow> subseq xs ys"
  by (induction xs ys rule: agrees.induct) (auto split: if_splits simp: prod_eq_iff)


lemma enum_next_1: "enum_next MAD_FIELDS_1 0 env = 102"
  by (simp add: MAD_FIELDS_1_def)

lemma constants_in_1: "subseq field_constants_1 (enum_values MAD_FIELDS_1 0 env)"
  by (rule agrees_subseq) (simp add: field_constants_1_def MAD_FIELDS_1_def c_eval)

lemma enum_next_2: "enum_next MAD_FIELDS_2 102 env = 191"
  by (simp add: MAD_FIELDS_2_def)

lemma constants_in_2: "subseq field_constants_2 (enum_values MAD_FIELDS_2 102 env)"
  by (rule agrees_subseq) (simp add: field_constants_2_def MAD_FIELDS_2_def c_eval)

lemma enum_next_3: "enum_next MAD_FIELDS_3 191 env = 295"
  by (simp add: MAD_FIELDS_3_def)

lemma constants_in_3: "subseq field_constants_3 (enum_values MAD_FIELDS_3 191 env)"
  by (rule agrees_subseq) (simp add: field_constants_3_def MAD_FIELDS_3_def c_eval)

lemma enum_next_4: "enum_next MAD_FIELDS_4 295 env = 404"
  by (simp add: MAD_FIELDS_4_def)

lemma constants_in_4: "subseq field_constants_4 (enum_values MAD_FIELDS_4 295 env)"
  by (rule agrees_subseq) (simp add: field_constants_4_def MAD_FIELDS_4_def c_eval)

lemma enum_next_5: "enum_next MAD_FIELDS_5 404 env = 510"
  by (simp add: MAD_FIELDS_5_def)

lemma constants_in_5: "subseq field_constants_5 (enum_values MAD_FIELDS_5 404 env)"
  by (rule agrees_subseq) (simp add: field_constants_5_def MAD_FIELDS_5_def c_eval)

lemma enum_next_6: "enum_next MAD_FIELDS_6 510 env = 581"
  by (simp add: MAD_FIELDS_6_def)

lemma constants_in_6: "subseq field_constants_6 (enum_values MAD_FIELDS_6 510 env)"
  by (rule agrees_subseq) (simp add: field_constants_6_def MAD_FIELDS_6_def c_eval)

lemma enum_next_7: "enum_next MAD_FIELDS_7 581 env = 664"
  by (simp add: MAD_FIELDS_7_def)

lemma constants_in_7: "subseq field_constants_7 (enum_values MAD_FIELDS_7 581 env)"
  by (rule agrees_subseq) (simp add: field_constants_7_def MAD_FIELDS_7_def c_eval)


text \<open>
  Property: every field number the model uses as a constant is the number C gives
  to that enumerator: the list of the constants is a sublist of the numbering of
  \<open>enum MAD_FIELDS\<close>, in which \<open>NAME = OTHER\<close> repeats a number and every other
  enumerator is one more than its predecessor.
\<close>
theorem field_constants_agree: "subseq field_constants (enum_values MAD_FIELDS 0 [])"
  unfolding field_constants_def MAD_FIELDS_def enum_values_append
    enum_next_1 enum_next_2 enum_next_3 enum_next_4 enum_next_5 enum_next_6
  by (intro list_emb_append_mono constants_in_1 constants_in_2 constants_in_3 constants_in_4
      constants_in_5 constants_in_6 constants_in_7)

section \<open>Reserved numbers\<close>

definition reserved_name :: "string \<Rightarrow> bool" where
  \<comment> \<open>the enumerators for which the table has no descriptor\<close>
  "reserved_name n \<longleftrightarrow> drop (length n - 6) n = ''LAST_F'' \<or>
     n = ''IB_NO_FIELD'' \<or> n = ''IB_SM_DATA_F'' \<or> n = ''IB_FIELD_LAST_''"

lemma enum_positions_append: "enum_positions (xs @ ys) = enum_positions xs @ enum_positions ys"
  by (induction xs rule: enum_positions.induct) simp_all

lemma reserved_1: "map reserved_name (enum_positions MAD_FIELDS_1) =
    [True, False, False, False, False, False, False, False, False, False, False, False, False,
     False, False, False, False, False, False, False, False, False, False, True, False, False,
     False, False, False, False, False, False, False, False, False, False, False, False, False,
     False, False, False, False, False, False, False, False, False, False, False, False, False,
     False, False, False, False, False, False, False, False, False, False, False, False, False,
     False, False, False, False, False, False, False, False, False, True, False, False, False,
     False, False, False, False, False, False, False, False, False, True, False, False, False,
     False, False, False, False, False, False, False, False, False, False, False]"
  by (simp add: MAD_FIELDS_1_def reserved_name_def)

lemma reserved_2: "map reserved_name (enum_positions MAD_FIELDS_2) =
    [False, False, False, False, True, False, False, False, False, False, False, False, False,
     False, False, False, False, False, False, False, False, False, False, False, False, False,
     False, False, False, False, False, False, False, False, False, False, False, False, False,
     True, False, False, False, False, False, False, False, False, False, False, False, False,
     False, False, False, False, False, False, False, False, False, False, False, False, False,
     False, False, False, False, False, False, False, False, False, False, False, False, False,
     False, False, False, False, False, False, False, False, False, False, False]"
  by (simp add: MAD_FIELDS_2_def reserved_name_def)

lemma reserved_3: "map reserved_name (enum_positions MAD_FIELDS_3) =
    [False, False, False, False, False, False, False, False, False, False, False, False, False,
     True, False, False, False, False, False, False, False, False, False, False, False, False,
     False, False, False, False, False, False, False, False, False, False, False, False, False,
     False, False, False, False, False, False, False, False, False, False, False, False, False,
     False, True, False, False, False, False, False, False, False, False, False, False, False,
     False, False, False, False, False, True, False, False, False, False, True, False, False,
     False, False, False, False, True, False, False, False, False, False, False, False, False,
     False, False, False, False, False, False, False, False, False, False, False, False, False]"
  by (simp add: MAD_FIELDS_3_def reserved_name_def)

lemma reserved_4: "map reserved_name (enum_positions MAD_FIELDS_4) =
    [False, False, False, False, False, False, False, False, False, True, False, False, False,
     False, False, False, False, False, False, False, False, False, False, False, False, False,
     False, False, False, False, False, False, True, False, False, False, False, False, False,
     False, False, False, False, False, False, False, False, False, False, False, False, False,
     False, False, False, False, False, False, False, False, False, False, False, False, False,
     False, False, False, False, False, False, False, False, True, False, False, True, False,
     False, True, False, False, False, False, False, False, False, False, False, False, False,
     False, False, False, False, False, True, False, False, False, False, False, False, False,
     False, False, False, False, False]"
  by (simp add: MAD_FIELDS_4_def reserved_name_def)

lemma reserved_5: "map reserved_name (enum_positions MAD_FIELDS_5) =
    [False, False, False, False, True, False, False, False, False, False, False, False, False,
     False, False, False, False, False, False, False, False, True, False, False, False, False,
     False, False, False, False, False, False, False, False, False, False, False, False, True,
     False, False, False, False, False, False, False, False, False, False, False, False, False,
     False, False, False, True, False, False, True, False, False, False, False, False, False,
     False, False, False, False, False, False, False, False, False, False, True, False, False,
     False, False, False, False, False, False, False, False, False, False, False, False, False,
     False, True, False, True, False, False, False, False, False, False, False, False, False,
     False, False]"
  by (simp add: MAD_FIELDS_5_def reserved_name_def)

lemma reserved_6: "map reserved_name (enum_positions MAD_FIELDS_6) =
    [False, False, False, False, True, False, False, False, False, True, False, False, False,
     True, False, False, False, False, True, False, False, True, False, False, False, True,
     False, False, False, False, True, False, False, False, True, False, False, False, False,
     False, False, False, True, False, False, False, False, False, False, False, False, True,
     False, False, False, False, False, True, False, False, True, False, False, False, False,
     True, False, True, False, False, True]"
  by (simp add: MAD_FIELDS_6_def reserved_name_def)

lemma reserved_7: "map reserved_name (enum_positions MAD_FIELDS_7) =
    [False, True, False, False, False, False, False, False, False, False, False, False, False,
     False, False, False, True, False, False, False, False, False, False, False, False, False,
     False, False, False, False, False, False, False, False, True, False, False, False, False,
     False, False, True, False, False, False, False, False, False, False, False, False, False,
     False, False, False, False, False, False, False, False, False, True, False, False, False,
     False, False, False, False, False, False, False, False, False, False, False, False, True,
     False, False, False, True, True]"
  by (simp add: MAD_FIELDS_7_def reserved_name_def)

lemmas reserved_defs = reserved_1 reserved_2 reserved_3 reserved_4 reserved_5 reserved_6 reserved_7

end
