(* ===== verification/FieldTable.thy ===== *)
theory FieldTable
  imports MadField FieldEnum
begin

text \<open>
  The table \<open>ib_mad_f\<close> of \<open>libibmad/src/fields.c\<close>, entry by entry and in the order of the
  source, cut into seven consecutive pieces (\<open>ib_mad_f_1\<close> to \<open>ib_mad_f_7\<close>). An entry
  \<open>{}\<close> is \<open>no_field\<close>; the macros \<open>BITSOFFS\<close> and \<open>BE_OFFS\<close> stand where
  the source has them, a pair \<open>(off, len)\<close> where it has none.
\<close>

definition ib_mad_f_1 :: "ib_field_t list" where
  "ib_mad_f_1 = [
     no_field,
     mk_field (0, 64) ''GidPrefix'' Dump_rhex,
     mk_field (64, 64) ''GidGuid'' Dump_rhex,
     mk_field (BE_OFFS 0 7) ''MadMethod'' Dump_hex,
     mk_field (BE_OFFS 7 1) ''MadIsResponse'' Dump_uint,
     mk_field (BE_OFFS 8 8) ''MadClassVersion'' Dump_uint,
     mk_field (BE_OFFS 16 8) ''MadMgmtClass'' Dump_uint,
     mk_field (BE_OFFS 24 8) ''MadBaseVersion'' Dump_uint,
     mk_field (BE_OFFS 48 16) ''MadStatus'' Dump_hex,
     mk_field (BE_OFFS 32 8) ''DrSmpHopCnt'' Dump_uint,
     mk_field (BE_OFFS 40 8) ''DrSmpHopPtr'' Dump_uint,
     mk_field (BE_OFFS 48 15) ''DrSmpStatus'' Dump_hex,
     mk_field (BE_OFFS 63 1) ''DrSmpDirection'' Dump_uint,
     mk_field (64, 64) ''MadTRID'' Dump_hex,
     mk_field (BE_OFFS 144 16) ''MadAttr'' Dump_hex,
     mk_field (160, 32) ''MadModifier'' Dump_hex,
     mk_field (192, 64) ''MadMkey'' Dump_hex,
     mk_field (BE_OFFS 256 16) ''DrSmpDLID'' Dump_uint,
     mk_field (BE_OFFS 272 16) ''DrSmpSLID'' Dump_uint,
     mk_field (288, 64) ''SaSMkey'' Dump_hex,
     mk_field (BE_OFFS (46 * 8) 16) ''SaAttrOffs'' Dump_uint,
     mk_field (48 * 8, 64) ''SaCompMask'' Dump_hex,
     mk_field (56 * 8, (256 - 56) * 8) ''SaData'' Dump_hex,
     no_field,
     mk_field (64 * 8, (256 - 64) * 8) ''GsData'' Dump_hex,
     mk_field (1024, 512) ''DrSmpPath'' Dump_hex,
     mk_field (1536, 512) ''DrSmpRetPath'' Dump_hex,
     mk_field (0, 64) ''Mkey'' Dump_hex,
     mk_field (64, 64) ''GidPrefix'' Dump_hex,
     mk_field (BITSOFFS 128 16) ''Lid'' Dump_uint,
     mk_field (BITSOFFS 144 16) ''SMLid'' Dump_uint,
     mk_field (160, 32) ''CapMask'' Dump_portcapmask,
     mk_field (BITSOFFS 192 16) ''DiagCode'' Dump_hex,
     mk_field (BITSOFFS 208 16) ''MkeyLeasePeriod'' Dump_uint,
     mk_field (BITSOFFS 224 8) ''LocalPort'' Dump_uint,
     mk_field (BITSOFFS 232 8) ''LinkWidthEnabled'' Dump_linkwidthen,
     mk_field (BITSOFFS 240 8) ''LinkWidthSupported'' Dump_linkwidthsup,
     mk_field (BITSOFFS 248 8) ''LinkWidthActive'' Dump_linkwidth,
     mk_field (BITSOFFS 256 4) ''LinkSpeedSupported'' Dump_linkspeedsup,
     mk_field (BITSOFFS 260 4) ''LinkState'' Dump_portstate,
     mk_field (BITSOFFS 264 4) ''PhysLinkState'' Dump_physportstate,
     mk_field (BITSOFFS 268 4) ''LinkDownDefState'' Dump_linkdowndefstate,
     mk_field (BITSOFFS 272 2) ''ProtectBits'' Dump_uint,
     mk_field (BITSOFFS 277 3) ''LMC'' Dump_uint,
     mk_field (BITSOFFS 280 4) ''LinkSpeedActive'' Dump_linkspeed,
     mk_field (BITSOFFS 284 4) ''LinkSpeedEnabled'' Dump_linkspeeden,
     mk_field (BITSOFFS 288 4) ''NeighborMTU'' Dump_mtu,
     mk_field (BITSOFFS 292 4) ''SMSL'' Dump_uint,
     mk_field (BITSOFFS 296 4) ''VLCap'' Dump_vlcap,
     mk_field (BITSOFFS 300 4) ''InitType'' Dump_hex,
     mk_field (BITSOFFS 304 8) ''VLHighLimit'' Dump_uint,
     mk_field (BITSOFFS 312 8) ''VLArbHighCap'' Dump_uint,
     mk_field (BITSOFFS 320 8) ''VLArbLowCap'' Dump_uint,
     mk_field (BITSOFFS 328 4) ''InitReply'' Dump_hex,
     mk_field (BITSOFFS 332 4) ''MtuCap'' Dump_mtu,
     mk_field (BITSOFFS 336 3) ''VLStallCount'' Dump_uint,
     mk_field (BITSOFFS 339 5) ''HoqLife'' Dump_uint,
     mk_field (BITSOFFS 344 4) ''OperVLs'' Dump_opervls,
     mk_field (BITSOFFS 348 1) ''PartEnforceInb'' Dump_uint,
     mk_field (BITSOFFS 349 1) ''PartEnforceOutb'' Dump_uint,
     mk_field (BITSOFFS 350 1) ''FilterRawInb'' Dump_uint,
     mk_field (BITSOFFS 351 1) ''FilterRawOutb'' Dump_uint,
     mk_field (BITSOFFS 352 16) ''MkeyViolations'' Dump_uint,
     mk_field (BITSOFFS 368 16) ''PkeyViolations'' Dump_uint,
     mk_field (BITSOFFS 384 16) ''QkeyViolations'' Dump_uint,
     mk_field (BITSOFFS 400 8) ''GuidCap'' Dump_uint,
     mk_field (BITSOFFS 408 1) ''ClientReregister'' Dump_uint,
     mk_field (BITSOFFS 409 2) ''McastPkeyTrapSuppressionEnabled'' Dump_uint,
     mk_field (BITSOFFS 411 5) ''SubnetTimeout'' Dump_uint,
     mk_field (BITSOFFS 419 5) ''RespTimeVal'' Dump_uint,
     mk_field (BITSOFFS 424 4) ''LocalPhysErr'' Dump_uint,
     mk_field (BITSOFFS 428 4) ''OverrunErr'' Dump_uint,
     mk_field (BITSOFFS 432 16) ''MaxCreditHint'' Dump_uint,
     mk_field (BITSOFFS 456 24) ''RoundTrip'' Dump_uint,
     no_field,
     mk_field (BITSOFFS 0 8) ''BaseVers'' Dump_uint,
     mk_field (BITSOFFS 8 8) ''ClassVers'' Dump_uint,
     mk_field (BITSOFFS 16 8) ''NodeType'' Dump_node_type,
     mk_field (BITSOFFS 24 8) ''NumPorts'' Dump_uint,
     mk_field (32, 64) ''SystemGuid'' Dump_hex,
     mk_field (96, 64) ''Guid'' Dump_hex,
     mk_field (160, 64) ''PortGuid'' Dump_hex,
     mk_field (BITSOFFS 224 16) ''PartCap'' Dump_uint,
     mk_field (BITSOFFS 240 16) ''DevId'' Dump_hex,
     mk_field (256, 32) ''Revision'' Dump_hex,
     mk_field (BITSOFFS 288 8) ''LocalPort'' Dump_uint,
     mk_field (BITSOFFS 296 24) ''VendorId'' Dump_hex,
     no_field,
     mk_field (BITSOFFS 0 16) ''LinearFdbCap'' Dump_uint,
     mk_field (BITSOFFS 16 16) ''RandomFdbCap'' Dump_uint,
     mk_field (BITSOFFS 32 16) ''McastFdbCap'' Dump_uint,
     mk_field (BITSOFFS 48 16) ''LinearFdbTop'' Dump_uint,
     mk_field (BITSOFFS 64 8) ''DefPort'' Dump_uint,
     mk_field (BITSOFFS 72 8) ''DefMcastPrimPort'' Dump_uint,
     mk_field (BITSOFFS 80 8) ''DefMcastNotPrimPort'' Dump_uint,
     mk_field (BITSOFFS 88 5) ''LifeTime'' Dump_uint,
     mk_field (BITSOFFS 93 1) ''StateChange'' Dump_uint,
     mk_field (BITSOFFS 94 2) ''OptSLtoVLMapping'' Dump_uint]"

definition ib_mad_f_2 :: "ib_field_t list" where
  "ib_mad_f_2 = [
     mk_field (BITSOFFS 96 16) ''LidsPerPort'' Dump_uint,
     mk_field (BITSOFFS 112 16) ''PartEnforceCap'' Dump_uint,
     mk_field (BITSOFFS 128 1) ''InboundPartEnf'' Dump_uint,
     mk_field (BITSOFFS 129 1) ''OutboundPartEnf'' Dump_uint,
     mk_field (BITSOFFS 130 1) ''FilterRawInbound'' Dump_uint,
     mk_field (BITSOFFS 131 1) ''FilterRawOutbound'' Dump_uint,
     mk_field (BITSOFFS 132 1) ''EnhancedPort0'' Dump_uint,
     mk_field (BITSOFFS 144 16) ''MulticastFDBTop'' Dump_hex,
     no_field,
     mk_field (0, 512) ''LinearForwTbl'' Dump_array,
     mk_field (0, 512) ''MulticastForwTbl'' Dump_array,
     mk_field (0, 64 * 8) ''NodeDesc'' Dump_string,
     mk_field (BITSOFFS 0 1) ''NoticeIsGeneric'' Dump_uint,
     mk_field (BITSOFFS 1 7) ''NoticeType'' Dump_uint,
     mk_field (BITSOFFS 8 24) ''NoticeProducerType'' Dump_node_type,
     mk_field (BITSOFFS 32 16) ''NoticeTrapNumber'' Dump_uint,
     mk_field (BITSOFFS 48 16) ''NoticeIssuerLID'' Dump_uint,
     mk_field (BITSOFFS 64 1) ''NoticeToggle'' Dump_uint,
     mk_field (BITSOFFS 65 15) ''NoticeCount'' Dump_uint,
     mk_field (80, 432) ''NoticeDataDetails'' Dump_array,
     mk_field (BITSOFFS 80 16) ''NoticeDataLID'' Dump_uint,
     mk_field (BITSOFFS 96 16) ''NoticeDataTrap144LID'' Dump_uint,
     mk_field (BITSOFFS 128 32) ''NoticeDataTrap144CapMask'' Dump_uint,
     mk_field (BITSOFFS 8 8) ''PortSelect'' Dump_uint,
     mk_field (BITSOFFS 16 16) ''CounterSelect'' Dump_hex,
     mk_field (BITSOFFS 32 16) ''SymbolErrorCounter'' Dump_uint,
     mk_field (BITSOFFS 48 8) ''LinkErrorRecoveryCounter'' Dump_uint,
     mk_field (BITSOFFS 56 8) ''LinkDownedCounter'' Dump_uint,
     mk_field (BITSOFFS 64 16) ''PortRcvErrors'' Dump_uint,
     mk_field (BITSOFFS 80 16) ''PortRcvRemotePhysicalErrors'' Dump_uint,
     mk_field (BITSOFFS 96 16) ''PortRcvSwitchRelayErrors'' Dump_uint,
     mk_field (BITSOFFS 112 16) ''PortXmitDiscards'' Dump_uint,
     mk_field (BITSOFFS 128 8) ''PortXmitConstraintErrors'' Dump_uint,
     mk_field (BITSOFFS 136 8) ''PortRcvConstraintErrors'' Dump_uint,
     mk_field (BITSOFFS 144 8) ''CounterSelect2'' Dump_hex,
     mk_field (BITSOFFS 152 4) ''LocalLinkIntegrityErrors'' Dump_uint,
     mk_field (BITSOFFS 156 4) ''ExcessiveBufferOverrunErrors'' Dump_uint,
     mk_field (BITSOFFS 176 16) ''VL15Dropped'' Dump_uint,
     mk_field (192, 32) ''PortXmitData'' Dump_uint,
     mk_field (224, 32) ''PortRcvData'' Dump_uint,
     mk_field (256, 32) ''PortXmitPkts'' Dump_uint,
     mk_field (288, 32) ''PortRcvPkts'' Dump_uint,
     mk_field (320, 32) ''PortXmitWait'' Dump_uint,
     no_field,
     mk_field (0, 64) ''SmInfoGuid'' Dump_hex,
     mk_field (64, 64) ''SmInfoKey'' Dump_hex,
     mk_field (128, 32) ''SmActivity'' Dump_uint,
     mk_field (BITSOFFS 160 4) ''SmPriority'' Dump_uint,
     mk_field (BITSOFFS 164 4) ''SmState'' Dump_uint,
     mk_field (BE_OFFS (24 * 8 + 24) 8) ''RmppVers'' Dump_uint,
     mk_field (BE_OFFS (24 * 8 + 16) 8) ''RmppType'' Dump_uint,
     mk_field (BE_OFFS (24 * 8 + 11) 5) ''RmppResp'' Dump_uint,
     mk_field (BE_OFFS (24 * 8 + 8) 3) ''RmppFlags'' Dump_hex,
     mk_field (BE_OFFS (24 * 8 + 0) 8) ''RmppStatus'' Dump_hex,
     mk_field (28 * 8, 32) ''RmppData1'' Dump_hex,
     mk_field (28 * 8, 32) ''RmppSegNum'' Dump_uint,
     mk_field (32 * 8, 32) ''RmppData2'' Dump_hex,
     mk_field (32 * 8, 32) ''RmppPayload'' Dump_uint,
     mk_field (32 * 8, 32) ''RmppNewWin'' Dump_uint,
     mk_field (BITSOFFS 41 7) ''MultiPathNumPath'' Dump_uint,
     mk_field (BITSOFFS 120 8) ''MultiPathNumSrc'' Dump_uint,
     mk_field (BITSOFFS 128 8) ''MultiPathNumDest'' Dump_uint,
     mk_field (192, 128) ''MultiPathGid'' Dump_array,
     mk_field (64, 128) ''PathRecDGid'' Dump_array,
     mk_field (192, 128) ''PathRecSGid'' Dump_array,
     mk_field (BITSOFFS 320 16) ''PathRecDLid'' Dump_uint,
     mk_field (BITSOFFS 336 16) ''PathRecSLid'' Dump_uint,
     mk_field (BITSOFFS 393 7) ''PathRecNumPath'' Dump_uint,
     mk_field (BITSOFFS 428 4) ''PathRecSL'' Dump_uint,
     mk_field (0, 128) ''McastMemMGid'' Dump_array,
     mk_field (128, 128) ''McastMemPortGid'' Dump_array,
     mk_field (256, 32) ''McastMemQkey'' Dump_hex,
     mk_field (BITSOFFS 288 16) ''McastMemMLid'' Dump_hex,
     mk_field (BITSOFFS 352 4) ''McastMemSL'' Dump_uint,
     mk_field (BITSOFFS 306 6) ''McastMemMTU'' Dump_uint,
     mk_field (BITSOFFS 338 6) ''McastMemRate'' Dump_uint,
     mk_field (BITSOFFS 312 8) ''McastMemTClass'' Dump_uint,
     mk_field (BITSOFFS 320 16) ''McastMemPkey'' Dump_uint,
     mk_field (BITSOFFS 356 20) ''McastMemFlowLbl'' Dump_uint,
     mk_field (BITSOFFS 388 4) ''McastMemJoinState'' Dump_uint,
     mk_field (BITSOFFS 392 1) ''McastMemProxyJoin'' Dump_uint,
     mk_field (0, 64) ''ServRecID'' Dump_hex,
     mk_field (64, 128) ''ServRecGid'' Dump_array,
     mk_field (BITSOFFS 192 16) ''ServRecPkey'' Dump_hex,
     mk_field (224, 32) ''ServRecLease'' Dump_hex,
     mk_field (256, 128) ''ServRecKey'' Dump_hex,
     mk_field (384, 512) ''ServRecName'' Dump_string,
     mk_field (896, 512) ''ServRecData'' Dump_array,
     mk_field (12 * 8, 32) ''ATSNodeAddr'' Dump_hex,
     mk_field (BITSOFFS (16 * 8) 16) ''ATSMagicKey'' Dump_hex,
     mk_field (BITSOFFS (18 * 8) 16) ''ATSNodeType'' Dump_hex,
     mk_field (32 * 8, 32 * 8) ''ATSNodeName'' Dump_string]"

definition ib_mad_f_3 :: "ib_field_t list" where
  "ib_mad_f_3 = [
     mk_field (0, 64) ''SLToVLMap'' Dump_hex,
     mk_field (0, 512) ''VLArbTbl'' Dump_array,
     mk_field (BE_OFFS (36 * 8) 24) ''OUI'' Dump_array,
     mk_field (40 * 8, (256 - 40) * 8) ''Vendor2Data'' Dump_array,
     mk_field (BITSOFFS 8 8) ''PortSelect'' Dump_uint,
     mk_field (BITSOFFS 16 16) ''CounterSelect'' Dump_hex,
     mk_field (64, 64) ''PortXmitData'' Dump_uint,
     mk_field (128, 64) ''PortRcvData'' Dump_uint,
     mk_field (192, 64) ''PortXmitPkts'' Dump_uint,
     mk_field (256, 64) ''PortRcvPkts'' Dump_uint,
     mk_field (320, 64) ''PortUnicastXmitPkts'' Dump_uint,
     mk_field (384, 64) ''PortUnicastRcvPkts'' Dump_uint,
     mk_field (448, 64) ''PortMulticastXmitPkts'' Dump_uint,
     mk_field (512, 64) ''PortMulticastRcvPkts'' Dump_uint,
     no_field,
     mk_field (0, 64) ''GUID0'' Dump_hex,
     mk_field (BITSOFFS 0 8) ''BaseVersion'' Dump_uint,
     mk_field (BITSOFFS 8 8) ''ClassVersion'' Dump_uint,
     mk_field (BITSOFFS 16 16) ''CapabilityMask'' Dump_hex,
     mk_field (BITSOFFS 32 27) ''CapabilityMask2'' Dump_hex,
     mk_field (BITSOFFS 59 5) ''RespTimeVal'' Dump_uint,
     mk_field (64, 128) ''RedirectGID'' Dump_array,
     mk_field (BITSOFFS 192 8) ''RedirectTC'' Dump_hex,
     mk_field (BITSOFFS 200 4) ''RedirectSL'' Dump_uint,
     mk_field (BITSOFFS 204 20) ''RedirectFL'' Dump_hex,
     mk_field (BITSOFFS 224 16) ''RedirectLID'' Dump_uint,
     mk_field (BITSOFFS 240 16) ''RedirectPKey'' Dump_hex,
     mk_field (BITSOFFS 264 24) ''RedirectQP'' Dump_hex,
     mk_field (288, 32) ''RedirectQKey'' Dump_hex,
     mk_field (320, 128) ''TrapGID'' Dump_array,
     mk_field (BITSOFFS 448 8) ''TrapTC'' Dump_hex,
     mk_field (BITSOFFS 456 4) ''TrapSL'' Dump_uint,
     mk_field (BITSOFFS 460 20) ''TrapFL'' Dump_hex,
     mk_field (BITSOFFS 480 16) ''TrapLID'' Dump_uint,
     mk_field (BITSOFFS 496 16) ''TrapPKey'' Dump_hex,
     mk_field (BITSOFFS 512 8) ''TrapHL'' Dump_uint,
     mk_field (BITSOFFS 520 24) ''TrapQP'' Dump_hex,
     mk_field (544, 32) ''TrapQKey'' Dump_hex,
     mk_field (32, 32) ''XmtDataSL0'' Dump_uint,
     mk_field (64, 32) ''XmtDataSL1'' Dump_uint,
     mk_field (96, 32) ''XmtDataSL2'' Dump_uint,
     mk_field (128, 32) ''XmtDataSL3'' Dump_uint,
     mk_field (160, 32) ''XmtDataSL4'' Dump_uint,
     mk_field (192, 32) ''XmtDataSL5'' Dump_uint,
     mk_field (224, 32) ''XmtDataSL6'' Dump_uint,
     mk_field (256, 32) ''XmtDataSL7'' Dump_uint,
     mk_field (288, 32) ''XmtDataSL8'' Dump_uint,
     mk_field (320, 32) ''XmtDataSL9'' Dump_uint,
     mk_field (352, 32) ''XmtDataSL10'' Dump_uint,
     mk_field (384, 32) ''XmtDataSL11'' Dump_uint,
     mk_field (416, 32) ''XmtDataSL12'' Dump_uint,
     mk_field (448, 32) ''XmtDataSL13'' Dump_uint,
     mk_field (480, 32) ''XmtDataSL14'' Dump_uint,
     mk_field (512, 32) ''XmtDataSL15'' Dump_uint,
     no_field,
     mk_field (32, 32) ''RcvDataSL0'' Dump_uint,
     mk_field (64, 32) ''RcvDataSL1'' Dump_uint,
     mk_field (96, 32) ''RcvDataSL2'' Dump_uint,
     mk_field (128, 32) ''RcvDataSL3'' Dump_uint,
     mk_field (160, 32) ''RcvDataSL4'' Dump_uint,
     mk_field (192, 32) ''RcvDataSL5'' Dump_uint,
     mk_field (224, 32) ''RcvDataSL6'' Dump_uint,
     mk_field (256, 32) ''RcvDataSL7'' Dump_uint,
     mk_field (288, 32) ''RcvDataSL8'' Dump_uint,
     mk_field (320, 32) ''RcvDataSL9'' Dump_uint,
     mk_field (352, 32) ''RcvDataSL10'' Dump_uint,
     mk_field (384, 32) ''RcvDataSL11'' Dump_uint,
     mk_field (416, 32) ''RcvDataSL12'' Dump_uint,
     mk_field (448, 32) ''RcvDataSL13'' Dump_uint,
     mk_field (480, 32) ''RcvDataSL14'' Dump_uint,
     mk_field (512, 32) ''RcvDataSL15'' Dump_uint,
     no_field,
     mk_field (BITSOFFS 32 16) ''PortInactiveDiscards'' Dump_uint,
     mk_field (BITSOFFS 48 16) ''PortNeighborMTUDiscards'' Dump_uint,
     mk_field (BITSOFFS 64 16) ''PortSwLifetimeLimitDiscards'' Dump_uint,
     mk_field (BITSOFFS 80 16) ''PortSwHOQLifetimeLimitDiscards'' Dump_uint,
     no_field,
     mk_field (BITSOFFS 32 16) ''PortLocalPhysicalErrors'' Dump_uint,
     mk_field (BITSOFFS 48 16) ''PortMalformedPktErrors'' Dump_uint,
     mk_field (BITSOFFS 64 16) ''PortBufferOverrunErrors'' Dump_uint,
     mk_field (BITSOFFS 80 16) ''PortDLIDMappingErrors'' Dump_uint,
     mk_field (BITSOFFS 96 16) ''PortVLMappingErrors'' Dump_uint,
     mk_field (BITSOFFS 112 16) ''PortLoopingErrors'' Dump_uint,
     no_field,
     mk_field (BITSOFFS 0 8) ''OpCode'' Dump_hex,
     mk_field (BITSOFFS 8 8) ''PortSelect'' Dump_uint,
     mk_field (BITSOFFS 16 8) ''Tick'' Dump_hex,
     mk_field (BITSOFFS 29 3) ''CounterWidth'' Dump_uint,
     mk_field (BITSOFFS 34 3) ''CounterMask0'' Dump_hex,
     mk_field (BITSOFFS 37 27) ''CounterMasks1to9'' Dump_hex,
     mk_field (BITSOFFS 65 15) ''CounterMasks10to14'' Dump_hex,
     mk_field (BITSOFFS 80 8) ''SampleMechanisms'' Dump_uint,
     mk_field (BITSOFFS 94 2) ''SampleStatus'' Dump_uint,
     mk_field (96, 64) ''OptionMask'' Dump_hex,
     mk_field (160, 64) ''VendorMask'' Dump_hex,
     mk_field (224, 32) ''SampleStart'' Dump_uint,
     mk_field (256, 32) ''SampleInterval'' Dump_uint,
     mk_field (BITSOFFS 288 16) ''Tag'' Dump_hex,
     mk_field (BITSOFFS 304 16) ''CounterSelect0'' Dump_hex,
     mk_field (BITSOFFS 320 16) ''CounterSelect1'' Dump_hex,
     mk_field (BITSOFFS 336 16) ''CounterSelect2'' Dump_hex,
     mk_field (BITSOFFS 352 16) ''CounterSelect3'' Dump_hex,
     mk_field (BITSOFFS 368 16) ''CounterSelect4'' Dump_hex,
     mk_field (BITSOFFS 384 16) ''CounterSelect5'' Dump_hex,
     mk_field (BITSOFFS 400 16) ''CounterSelect6'' Dump_hex,
     mk_field (BITSOFFS 416 16) ''CounterSelect7'' Dump_hex]"

definition ib_mad_f_4 :: "ib_field_t list" where
  "ib_mad_f_4 = [
     mk_field (BITSOFFS 432 16) ''CounterSelect8'' Dump_hex,
     mk_field (BITSOFFS 448 16) ''CounterSelect9'' Dump_hex,
     mk_field (BITSOFFS 464 16) ''CounterSelect10'' Dump_hex,
     mk_field (BITSOFFS 480 16) ''CounterSelect11'' Dump_hex,
     mk_field (BITSOFFS 496 16) ''CounterSelect12'' Dump_hex,
     mk_field (BITSOFFS 512 16) ''CounterSelect13'' Dump_hex,
     mk_field (BITSOFFS 528 16) ''CounterSelect14'' Dump_hex,
     mk_field (576, 64) ''SamplesOnlyOptionMask'' Dump_hex,
     no_field,
     mk_field (0, 64) ''GUID0'' Dump_hex,
     mk_field (64, 64) ''GUID1'' Dump_hex,
     mk_field (128, 64) ''GUID2'' Dump_hex,
     mk_field (192, 64) ''GUID3'' Dump_hex,
     mk_field (256, 64) ''GUID4'' Dump_hex,
     mk_field (320, 64) ''GUID5'' Dump_hex,
     mk_field (384, 64) ''GUID6'' Dump_hex,
     mk_field (448, 64) ''GUID7'' Dump_hex,
     mk_field (BITSOFFS 0 16) ''Lid'' Dump_uint,
     mk_field (BITSOFFS 16 8) ''BlockNum'' Dump_uint,
     mk_field (64, 64) ''Guid0'' Dump_hex,
     mk_field (128, 64) ''Guid1'' Dump_hex,
     mk_field (192, 64) ''Guid2'' Dump_hex,
     mk_field (256, 64) ''Guid3'' Dump_hex,
     mk_field (320, 64) ''Guid4'' Dump_hex,
     mk_field (384, 64) ''Guid5'' Dump_hex,
     mk_field (448, 64) ''Guid6'' Dump_hex,
     mk_field (512, 64) ''Guid7'' Dump_hex,
     mk_field (BITSOFFS 480 16) ''CapabilityMask2'' Dump_portcapmask2,
     mk_field (BITSOFFS 496 4) ''LinkSpeedExtActive'' Dump_linkspeedext,
     mk_field (BITSOFFS 500 4) ''LinkSpeedExtSupported'' Dump_linkspeedextsup,
     mk_field (BITSOFFS 507 5) ''LinkSpeedExtEnabled'' Dump_linkspeedexten,
     no_field,
     mk_field (BITSOFFS 8 8) ''PortSelect'' Dump_uint,
     mk_field (64, 64) ''CounterSelect'' Dump_hex,
     mk_field (BITSOFFS 128 16) ''SyncHeaderErrorCounter'' Dump_uint,
     mk_field (BITSOFFS 144 16) ''UnknownBlockCounter'' Dump_uint,
     mk_field (BITSOFFS 160 16) ''ErrorDetectionCounterLane0'' Dump_uint,
     mk_field (BITSOFFS 176 16) ''ErrorDetectionCounterLane1'' Dump_uint,
     mk_field (BITSOFFS 192 16) ''ErrorDetectionCounterLane2'' Dump_uint,
     mk_field (BITSOFFS 208 16) ''ErrorDetectionCounterLane3'' Dump_uint,
     mk_field (BITSOFFS 224 16) ''ErrorDetectionCounterLane4'' Dump_uint,
     mk_field (BITSOFFS 240 16) ''ErrorDetectionCounterLane5'' Dump_uint,
     mk_field (BITSOFFS 256 16) ''ErrorDetectionCounterLane6'' Dump_uint,
     mk_field (BITSOFFS 272 16) ''ErrorDetectionCounterLane7'' Dump_uint,
     mk_field (BITSOFFS 288 16) ''ErrorDetectionCounterLane8'' Dump_uint,
     mk_field (BITSOFFS 304 16) ''ErrorDetectionCounterLane9'' Dump_uint,
     mk_field (BITSOFFS 320 16) ''ErrorDetectionCounterLane10'' Dump_uint,
     mk_field (BITSOFFS 336 16) ''ErrorDetectionCounterLane11'' Dump_uint,
     mk_field (352, 32) ''FECCorrectableBlockCtrLane0'' Dump_uint,
     mk_field (384, 32) ''FECCorrectableBlockCtrLane1'' Dump_uint,
     mk_field (416, 32) ''FECCorrectableBlockCtrLane2'' Dump_uint,
     mk_field (448, 32) ''FECCorrectableBlockCtrLane3'' Dump_uint,
     mk_field (480, 32) ''FECCorrectableBlockCtrLane4'' Dump_uint,
     mk_field (512, 32) ''FECCorrectableBlockCtrLane5'' Dump_uint,
     mk_field (544, 32) ''FECCorrectableBlockCtrLane6'' Dump_uint,
     mk_field (576, 32) ''FECCorrectableBlockCtrLane7'' Dump_uint,
     mk_field (608, 32) ''FECCorrectableBlockCtrLane8'' Dump_uint,
     mk_field (640, 32) ''FECCorrectableBlockCtrLane9'' Dump_uint,
     mk_field (672, 32) ''FECCorrectableBlockCtrLane10'' Dump_uint,
     mk_field (704, 32) ''FECCorrectableBlockCtrLane11'' Dump_uint,
     mk_field (736, 32) ''FECUncorrectableBlockCtrLane0'' Dump_uint,
     mk_field (768, 32) ''FECUncorrectableBlockCtrLane1'' Dump_uint,
     mk_field (800, 32) ''FECUncorrectableBlockCtrLane2'' Dump_uint,
     mk_field (832, 32) ''FECUncorrectableBlockCtrLane3'' Dump_uint,
     mk_field (864, 32) ''FECUncorrectableBlockCtrLane4'' Dump_uint,
     mk_field (896, 32) ''FECUncorrectableBlockCtrLane5'' Dump_uint,
     mk_field (928, 32) ''FECUncorrectableBlockCtrLane6'' Dump_uint,
     mk_field (960, 32) ''FECUncorrectableBlockCtrLane7'' Dump_uint,
     mk_field (992, 32) ''FECUncorrectableBlockCtrLane8'' Dump_uint,
     mk_field (1024, 32) ''FECUncorrectableBlockCtrLane9'' Dump_uint,
     mk_field (1056, 32) ''FECUncorrectableBlockCtrLane10'' Dump_uint,
     mk_field (1088, 32) ''FECUncorrectableBlockCtrLane11'' Dump_uint,
     no_field,
     mk_field (32, 32) ''PortOpRcvPkts'' Dump_uint,
     mk_field (64, 32) ''PortOpRcvData'' Dump_uint,
     no_field,
     mk_field (32, 32) ''PortXmitFlowPkts'' Dump_uint,
     mk_field (64, 32) ''PortRcvFlowPkts'' Dump_uint,
     no_field,
     mk_field (BITSOFFS 32 16) ''PortVLOpPackets0'' Dump_uint,
     mk_field (BITSOFFS 48 16) ''PortVLOpPackets1'' Dump_uint,
     mk_field (BITSOFFS 64 16) ''PortVLOpPackets2'' Dump_uint,
     mk_field (BITSOFFS 80 16) ''PortVLOpPackets3'' Dump_uint,
     mk_field (BITSOFFS 96 16) ''PortVLOpPackets4'' Dump_uint,
     mk_field (BITSOFFS 112 16) ''PortVLOpPackets5'' Dump_uint,
     mk_field (BITSOFFS 128 16) ''PortVLOpPackets6'' Dump_uint,
     mk_field (BITSOFFS 144 16) ''PortVLOpPackets7'' Dump_uint,
     mk_field (BITSOFFS 160 16) ''PortVLOpPackets8'' Dump_uint,
     mk_field (BITSOFFS 176 16) ''PortVLOpPackets9'' Dump_uint,
     mk_field (BITSOFFS 192 16) ''PortVLOpPackets10'' Dump_uint,
     mk_field (BITSOFFS 208 16) ''PortVLOpPackets11'' Dump_uint,
     mk_field (BITSOFFS 224 16) ''PortVLOpPackets12'' Dump_uint,
     mk_field (BITSOFFS 240 16) ''PortVLOpPackets13'' Dump_uint,
     mk_field (BITSOFFS 256 16) ''PortVLOpPackets14'' Dump_uint,
     mk_field (BITSOFFS 272 16) ''PortVLOpPackets15'' Dump_uint,
     no_field,
     mk_field (32, 32) ''PortVLOpData0'' Dump_uint,
     mk_field (64, 32) ''PortVLOpData1'' Dump_uint,
     mk_field (96, 32) ''PortVLOpData2'' Dump_uint,
     mk_field (128, 32) ''PortVLOpData3'' Dump_uint,
     mk_field (160, 32) ''PortVLOpData4'' Dump_uint,
     mk_field (192, 32) ''PortVLOpData5'' Dump_uint,
     mk_field (224, 32) ''PortVLOpData6'' Dump_uint,
     mk_field (256, 32) ''PortVLOpData7'' Dump_uint,
     mk_field (288, 32) ''PortVLOpData8'' Dump_uint,
     mk_field (320, 32) ''PortVLOpData9'' Dump_uint,
     mk_field (352, 32) ''PortVLOpData10'' Dump_uint,
     mk_field (384, 32) ''PortVLOpData11'' Dump_uint,
     mk_field (416, 32) ''PortVLOpData12'' Dump_uint,
     mk_field (448, 32) ''PortVLOpData13'' Dump_uint,
     mk_field (480, 32) ''PortVLOpData14'' Dump_uint,
     mk_field (512, 32) ''PortVLOpData15'' Dump_uint,
     no_field,
     mk_field (BITSOFFS 32 2) ''PortVLXmitFlowCtlUpdateErrors0'' Dump_uint]"

definition ib_mad_f_5 :: "ib_field_t list" where
  "ib_mad_f_5 = [
     mk_field (BITSOFFS 34 2) ''PortVLXmitFlowCtlUpdateErrors1'' Dump_uint,
     mk_field (BITSOFFS 36 2) ''PortVLXmitFlowCtlUpdateErrors2'' Dump_uint,
     mk_field (BITSOFFS 38 2) ''PortVLXmitFlowCtlUpdateErrors3'' Dump_uint,
     mk_field (BITSOFFS 40 2) ''PortVLXmitFlowCtlUpdateErrors4'' Dump_uint,
     mk_field (BITSOFFS 42 2) ''PortVLXmitFlowCtlUpdateErrors5'' Dump_uint,
     mk_field (BITSOFFS 44 2) ''PortVLXmitFlowCtlUpdateErrors6'' Dump_uint,
     mk_field (BITSOFFS 46 2) ''PortVLXmitFlowCtlUpdateErrors7'' Dump_uint,
     mk_field (BITSOFFS 48 2) ''PortVLXmitFlowCtlUpdateErrors8'' Dump_uint,
     mk_field (BITSOFFS 50 2) ''PortVLXmitFlowCtlUpdateErrors9'' Dump_uint,
     mk_field (BITSOFFS 52 2) ''PortVLXmitFlowCtlUpdateErrors10'' Dump_uint,
     mk_field (BITSOFFS 54 2) ''PortVLXmitFlowCtlUpdateErrors11'' Dump_uint,
     mk_field (BITSOFFS 56 2) ''PortVLXmitFlowCtlUpdateErrors12'' Dump_uint,
     mk_field (BITSOFFS 58 2) ''PortVLXmitFlowCtlUpdateErrors13'' Dump_uint,
     mk_field (BITSOFFS 60 2) ''PortVLXmitFlowCtlUpdateErrors14'' Dump_uint,
     mk_field (BITSOFFS 62 2) ''PortVLXmitFlowCtlUpdateErrors15'' Dump_uint,
     no_field,
     mk_field (BITSOFFS 32 16) ''PortVLXmitWait0'' Dump_uint,
     mk_field (BITSOFFS 48 16) ''PortVLXmitWait1'' Dump_uint,
     mk_field (BITSOFFS 64 16) ''PortVLXmitWait2'' Dump_uint,
     mk_field (BITSOFFS 80 16) ''PortVLXmitWait3'' Dump_uint,
     mk_field (BITSOFFS 96 16) ''PortVLXmitWait4'' Dump_uint,
     mk_field (BITSOFFS 112 16) ''PortVLXmitWait5'' Dump_uint,
     mk_field (BITSOFFS 128 16) ''PortVLXmitWait6'' Dump_uint,
     mk_field (BITSOFFS 144 16) ''PortVLXmitWait7'' Dump_uint,
     mk_field (BITSOFFS 160 16) ''PortVLXmitWait8'' Dump_uint,
     mk_field (BITSOFFS 176 16) ''PortVLXmitWait9'' Dump_uint,
     mk_field (BITSOFFS 192 16) ''PortVLXmitWait10'' Dump_uint,
     mk_field (BITSOFFS 208 16) ''PortVLXmitWait11'' Dump_uint,
     mk_field (BITSOFFS 224 16) ''PortVLXmitWait12'' Dump_uint,
     mk_field (BITSOFFS 240 16) ''PortVLXmitWait13'' Dump_uint,
     mk_field (BITSOFFS 256 16) ''PortVLXmitWait14'' Dump_uint,
     mk_field (BITSOFFS 272 16) ''PortVLXmitWait15'' Dump_uint,
     no_field,
     mk_field (BITSOFFS 32 16) ''SWPortVLCongestion0'' Dump_uint,
     mk_field (BITSOFFS 48 16) ''SWPortVLCongestion1'' Dump_uint,
     mk_field (BITSOFFS 64 16) ''SWPortVLCongestion2'' Dump_uint,
     mk_field (BITSOFFS 80 16) ''SWPortVLCongestion3'' Dump_uint,
     mk_field (BITSOFFS 96 16) ''SWPortVLCongestion4'' Dump_uint,
     mk_field (BITSOFFS 112 16) ''SWPortVLCongestion5'' Dump_uint,
     mk_field (BITSOFFS 128 16) ''SWPortVLCongestion6'' Dump_uint,
     mk_field (BITSOFFS 144 16) ''SWPortVLCongestion7'' Dump_uint,
     mk_field (BITSOFFS 160 16) ''SWPortVLCongestion8'' Dump_uint,
     mk_field (BITSOFFS 176 16) ''SWPortVLCongestion9'' Dump_uint,
     mk_field (BITSOFFS 192 16) ''SWPortVLCongestion10'' Dump_uint,
     mk_field (BITSOFFS 208 16) ''SWPortVLCongestion11'' Dump_uint,
     mk_field (BITSOFFS 224 16) ''SWPortVLCongestion12'' Dump_uint,
     mk_field (BITSOFFS 240 16) ''SWPortVLCongestion13'' Dump_uint,
     mk_field (BITSOFFS 256 16) ''SWPortVLCongestion14'' Dump_uint,
     mk_field (BITSOFFS 272 16) ''SWPortVLCongestion15'' Dump_uint,
     no_field,
     mk_field (32, 32) ''PortPktRcvFECN'' Dump_uint,
     mk_field (64, 32) ''PortPktRcvBECN'' Dump_uint,
     no_field,
     mk_field (32, 32) ''PortSLRcvFECN0'' Dump_uint,
     mk_field (64, 32) ''PortSLRcvFECN1'' Dump_uint,
     mk_field (96, 32) ''PortSLRcvFECN2'' Dump_uint,
     mk_field (128, 32) ''PortSLRcvFECN3'' Dump_uint,
     mk_field (160, 32) ''PortSLRcvFECN4'' Dump_uint,
     mk_field (192, 32) ''PortSLRcvFECN5'' Dump_uint,
     mk_field (224, 32) ''PortSLRcvFECN6'' Dump_uint,
     mk_field (256, 32) ''PortSLRcvFECN7'' Dump_uint,
     mk_field (288, 32) ''PortSLRcvFECN8'' Dump_uint,
     mk_field (320, 32) ''PortSLRcvFECN9'' Dump_uint,
     mk_field (352, 32) ''PortSLRcvFECN10'' Dump_uint,
     mk_field (384, 32) ''PortSLRcvFECN11'' Dump_uint,
     mk_field (416, 32) ''PortSLRcvFECN12'' Dump_uint,
     mk_field (448, 32) ''PortSLRcvFECN13'' Dump_uint,
     mk_field (480, 32) ''PortSLRcvFECN14'' Dump_uint,
     mk_field (512, 32) ''PortSLRcvFECN15'' Dump_uint,
     no_field,
     mk_field (32, 32) ''PortSLRcvBECN0'' Dump_uint,
     mk_field (64, 32) ''PortSLRcvBECN1'' Dump_uint,
     mk_field (96, 32) ''PortSLRcvBECN2'' Dump_uint,
     mk_field (128, 32) ''PortSLRcvBECN3'' Dump_uint,
     mk_field (160, 32) ''PortSLRcvBECN4'' Dump_uint,
     mk_field (192, 32) ''PortSLRcvBECN5'' Dump_uint,
     mk_field (224, 32) ''PortSLRcvBECN6'' Dump_uint,
     mk_field (256, 32) ''PortSLRcvBECN7'' Dump_uint,
     mk_field (288, 32) ''PortSLRcvBECN8'' Dump_uint,
     mk_field (320, 32) ''PortSLRcvBECN9'' Dump_uint,
     mk_field (352, 32) ''PortSLRcvBECN10'' Dump_uint,
     mk_field (384, 32) ''PortSLRcvBECN11'' Dump_uint,
     mk_field (416, 32) ''PortSLRcvBECN12'' Dump_uint,
     mk_field (448, 32) ''PortSLRcvBECN13'' Dump_uint,
     mk_field (480, 32) ''PortSLRcvBECN14'' Dump_uint,
     mk_field (512, 32) ''PortSLRcvBECN15'' Dump_uint,
     no_field,
     mk_field (32, 32) ''PortXmitTimeCong'' Dump_uint,
     no_field,
     mk_field (32, 32) ''PortVLXmitTimeCong0'' Dump_uint,
     mk_field (64, 32) ''PortVLXmitTimeCong1'' Dump_uint,
     mk_field (96, 32) ''PortVLXmitTimeCong2'' Dump_uint,
     mk_field (128, 32) ''PortVLXmitTimeCong3'' Dump_uint,
     mk_field (160, 32) ''PortVLXmitTimeCong4'' Dump_uint,
     mk_field (192, 32) ''PortVLXmitTimeCong5'' Dump_uint,
     mk_field (224, 32) ''PortVLXmitTimeCong6'' Dump_uint,
     mk_field (256, 32) ''PortVLXmitTimeCong7'' Dump_uint,
     mk_field (288, 32) ''PortVLXmitTimeCong8'' Dump_uint,
     mk_field (320, 32) ''PortVLXmitTimeCong9'' Dump_uint,
     mk_field (352, 32) ''PortVLXmitTimeCong10'' Dump_uint,
     mk_field (384, 32) ''PortVLXmitTimeCong11'' Dump_uint,
     mk_field (416, 32) ''PortVLXmitTimeCong12'' Dump_uint,
     mk_field (448, 32) ''PortVLXmitTimeCong13'' Dump_uint,
     mk_field (480, 32) ''PortVLXmitTimeCong14'' Dump_uint,
     no_field,
     mk_field (BITSOFFS 24 8) ''StateChangeEnable'' Dump_hex,
     mk_field (BITSOFFS 56 8) ''LinkSpeedSupported'' Dump_hex,
     mk_field (BITSOFFS 88 8) ''LinkSpeedEnabled'' Dump_hex,
     mk_field (BITSOFFS 120 8) ''LinkSpeedActive'' Dump_hex,
     no_field]"

definition ib_mad_f_6 :: "ib_field_t list" where
  "ib_mad_f_6 = [
     mk_field (192, 64) ''CC_Key'' Dump_hex,
     mk_field (BITSOFFS 0 16) ''CongestionInfo'' Dump_hex,
     mk_field (BITSOFFS 16 8) ''ControlTableCap'' Dump_uint,
     no_field,
     mk_field (0, 64) ''CC_Key'' Dump_hex,
     mk_field (BITSOFFS 64 1) ''CC_KeyProtectBit'' Dump_uint,
     mk_field (BITSOFFS 80 16) ''CC_KeyLeasePeriod'' Dump_uint,
     mk_field (BITSOFFS 96 16) ''CC_KeyViolations'' Dump_uint,
     no_field,
     mk_field (BITSOFFS 0 8) ''LogType'' Dump_uint,
     mk_field (BITSOFFS 8 8) ''CongestionFlags'' Dump_hex,
     no_field,
     mk_field (BITSOFFS 16 16) ''LogEventsCounter'' Dump_uint,
     mk_field (32, 32) ''CurrentTimeStamp'' Dump_uint,
     mk_field (64, 256) ''PortMap'' Dump_array,
     no_field,
     mk_field (BITSOFFS 0 16) ''SLID'' Dump_uint,
     mk_field (BITSOFFS 16 16) ''DLID'' Dump_uint,
     mk_field (BITSOFFS 32 4) ''SL'' Dump_uint,
     mk_field (64, 32) ''Timestamp'' Dump_uint,
     no_field,
     mk_field (BITSOFFS 16 16) ''ThresholdEventCounter'' Dump_uint,
     mk_field (BITSOFFS 32 16) ''ThresholdCongestionEventMap'' Dump_hex,
     mk_field (BITSOFFS 64 32) ''CurrentTimeStamp'' Dump_uint,
     no_field,
     mk_field (BITSOFFS 0 24) ''Local_QP_CN_Entry'' Dump_uint,
     mk_field (BITSOFFS 24 4) ''SL_CN_Entry'' Dump_uint,
     mk_field (BITSOFFS 28 4) ''Service_Type_CN_Entry'' Dump_hex,
     mk_field (BITSOFFS 32 24) ''Remote_QP_Number_CN_Entry'' Dump_uint,
     mk_field (BITSOFFS 64 16) ''Local_LID_CN'' Dump_uint,
     mk_field (BITSOFFS 80 16) ''Remote_LID_CN_Entry'' Dump_uint,
     mk_field (BITSOFFS 96 32) ''Timestamp_CN_Entry'' Dump_uint,
     no_field,
     mk_field (0, 32) ''Control_Map'' Dump_hex,
     mk_field (32, 256) ''Victim_Mask'' Dump_array,
     mk_field (288, 256) ''Credit_Mask'' Dump_array,
     mk_field (BITSOFFS 544 4) ''Threshold'' Dump_hex,
     mk_field (BITSOFFS 552 8) ''Packet_Size'' Dump_uint,
     mk_field (BITSOFFS 560 4) ''CS_Threshold'' Dump_hex,
     mk_field (BITSOFFS 576 16) ''CS_ReturnDelay'' Dump_hex,
     mk_field (BITSOFFS 592 16) ''Marking_Rate'' Dump_uint,
     no_field,
     mk_field (BITSOFFS 0 1) ''Valid'' Dump_uint,
     mk_field (BITSOFFS 1 1) ''Control_Type'' Dump_uint,
     mk_field (BITSOFFS 4 4) ''Threshold'' Dump_hex,
     mk_field (BITSOFFS 8 8) ''Packet_Size'' Dump_uint,
     mk_field (BITSOFFS 16 16) ''Cong_Parm_Marking_Rate'' Dump_uint,
     no_field,
     mk_field (BITSOFFS 0 16) ''Port_Control'' Dump_hex,
     mk_field (BITSOFFS 16 16) ''Control_Map'' Dump_hex,
     no_field,
     mk_field (BITSOFFS 0 16) ''CCTI_Timer'' Dump_uint,
     mk_field (BITSOFFS 16 8) ''CCTI_Increase'' Dump_uint,
     mk_field (BITSOFFS 24 8) ''Trigger_Threshold'' Dump_uint,
     mk_field (BITSOFFS 32 8) ''CCTI_Min'' Dump_uint,
     no_field,
     mk_field (BITSOFFS 0 16) ''CCTI_Limit'' Dump_uint,
     no_field,
     mk_field (BITSOFFS 0 2) ''CCT_Shift'' Dump_uint,
     mk_field (BITSOFFS 2 14) ''CCT_Multiplier'' Dump_uint,
     no_field,
     mk_field (0, 32) ''Timestamp'' Dump_uint,
     no_field,
     mk_field (BITSOFFS 0 16) ''Lid'' Dump_uint,
     mk_field (BITSOFFS 32 8) ''BaseVers'' Dump_uint,
     mk_field (BITSOFFS 40 8) ''ClassVers'' Dump_uint,
     mk_field (BITSOFFS 48 8) ''NodeType'' Dump_node_type,
     mk_field (BITSOFFS 56 8) ''NumPorts'' Dump_uint,
     mk_field (64, 64) ''SystemGuid'' Dump_hex,
     mk_field (128, 64) ''Guid'' Dump_hex,
     mk_field (192, 64) ''PortGuid'' Dump_hex,
     mk_field (BITSOFFS 256 16) ''PartCap'' Dump_uint,
     mk_field (BITSOFFS 272 16) ''DevId'' Dump_hex,
     mk_field (288, 32) ''Revision'' Dump_hex,
     mk_field (BITSOFFS 320 8) ''LocalPort'' Dump_uint,
     mk_field (BITSOFFS 328 24) ''VendorId'' Dump_hex,
     mk_field (352, 64 * 8) ''NodeDesc'' Dump_string,
     no_field,
     mk_field (BITSOFFS 0 16) ''Tag'' Dump_hex,
     mk_field (BITSOFFS 30 2) ''SampleStatus'' Dump_hex,
     mk_field (32, 32) ''Counter0'' Dump_uint]"

definition ib_mad_f_7 :: "ib_field_t list" where
  "ib_mad_f_7 = [
     mk_field (64, 32) ''Counter1'' Dump_uint,
     mk_field (96, 32) ''Counter2'' Dump_uint,
     mk_field (128, 32) ''Counter3'' Dump_uint,
     mk_field (160, 32) ''Counter4'' Dump_uint,
     mk_field (192, 32) ''Counter5'' Dump_uint,
     mk_field (224, 32) ''Counter6'' Dump_uint,
     mk_field (256, 32) ''Counter7'' Dump_uint,
     mk_field (288, 32) ''Counter8'' Dump_uint,
     mk_field (320, 32) ''Counter9'' Dump_uint,
     mk_field (352, 32) ''Counter10'' Dump_uint,
     mk_field (384, 32) ''Counter11'' Dump_uint,
     mk_field (416, 32) ''Counter12'' Dump_uint,
     mk_field (448, 32) ''Counter13'' Dump_uint,
     mk_field (480, 32) ''Counter14'' Dump_uint,
     no_field,
     mk_field (0, 32) ''CapMask'' Dump_hex,
     mk_field (BITSOFFS 32 16) ''FECModeActive'' Dump_uint,
     mk_field (BITSOFFS 48 16) ''FDRFECModeSupported'' Dump_hex,
     mk_field (BITSOFFS 64 16) ''FDRFECModeEnabled'' Dump_hex,
     mk_field (BITSOFFS 80 16) ''EDRFECModeSupported'' Dump_hex,
     mk_field (BITSOFFS 96 16) ''EDRFECModeEnabled'' Dump_hex,
     no_field,
     mk_field (BITSOFFS 8 8) ''PortSelect'' Dump_uint,
     mk_field (64, 64) ''CounterSelect'' Dump_hex,
     mk_field (BITSOFFS 128 16) ''SyncHeaderErrorCounter'' Dump_uint,
     mk_field (BITSOFFS 144 16) ''UnknownBlockCounter'' Dump_uint,
     mk_field (352, 32) ''FECCorrectableSymbolCtrLane0'' Dump_uint,
     mk_field (384, 32) ''FECCorrectableSymbolCtrLane1'' Dump_uint,
     mk_field (416, 32) ''FECCorrectableSymbolCtrLane2'' Dump_uint,
     mk_field (448, 32) ''FECCorrectableSymbolCtrLane3'' Dump_uint,
     mk_field (480, 32) ''FECCorrectableSymbolCtrLane4'' Dump_uint,
     mk_field (512, 32) ''FECCorrectableSymbolCtrLane5'' Dump_uint,
     mk_field (544, 32) ''FECCorrectableSymbolCtrLane6'' Dump_uint,
     mk_field (576, 32) ''FECCorrectableSymbolCtrLane7'' Dump_uint,
     mk_field (608, 32) ''FECCorrectableSymbolCtrLane8'' Dump_uint,
     mk_field (640, 32) ''FECCorrectableSymbolCtrLane9'' Dump_uint,
     mk_field (672, 32) ''FECCorrectableSymbolCtrLane10'' Dump_uint,
     mk_field (704, 32) ''FECCorrectableSymbolCtrLane11'' Dump_uint,
     mk_field (1120, 32) ''PortFECCorrectableBlockCtr'' Dump_uint,
     mk_field (1152, 32) ''PortFECUncorrectableBlockCtr'' Dump_uint,
     mk_field (1184, 32) ''PortFECCorrectedSymbolCtr'' Dump_uint,
     no_field,
     mk_field (32, 32) ''CounterSelect2'' Dump_hex,
     mk_field (576, 64) ''SymbolErrorCounter'' Dump_uint,
     mk_field (640, 64) ''LinkErrorRecoveryCounter'' Dump_uint,
     mk_field (704, 64) ''LinkDownedCounter'' Dump_uint,
     mk_field (768, 64) ''PortRcvErrors'' Dump_uint,
     mk_field (832, 64) ''PortRcvRemotePhysicalErrors'' Dump_uint,
     mk_field (896, 64) ''PortRcvSwitchRelayErrors'' Dump_uint,
     mk_field (960, 64) ''PortXmitDiscards'' Dump_uint,
     mk_field (1024, 64) ''PortXmitConstraintErrors'' Dump_uint,
     mk_field (1088, 64) ''PortRcvConstraintErrors'' Dump_uint,
     mk_field (1152, 64) ''LocalLinkIntegrityErrors'' Dump_uint,
     mk_field (1216, 64) ''ExcessiveBufferOverrunErrors'' Dump_uint,
     mk_field (1280, 64) ''VL15Dropped'' Dump_uint,
     mk_field (1344, 64) ''PortXmitWait'' Dump_uint,
     mk_field (1408, 64) ''QP1Dropped'' Dump_uint,
     no_field,
     mk_field (160, 16) ''QP1Dropped'' Dump_uint,
     mk_field (112, 16) ''HDRFECModeSupported'' Dump_hex,
     mk_field (128, 16) ''HDRFECModeEnabled'' Dump_hex,
     no_field,
     no_field]"

lemmas ib_mad_f_defs = ib_mad_f_1_def ib_mad_f_2_def ib_mad_f_3_def ib_mad_f_4_def ib_mad_f_5_def ib_mad_f_6_def ib_mad_f_7_def

definition ib_mad_f :: "ib_field_t list" where
  "ib_mad_f = ib_mad_f_1 @ ib_mad_f_2 @ ib_mad_f_3 @ ib_mad_f_4 @ ib_mad_f_5 @ ib_mad_f_6 @ ib_mad_f_7"

lemma length_ib_mad_f_1 [simp]: "length ib_mad_f_1 = 98"
  by (simp add: ib_mad_f_1_def)

lemma length_ib_mad_f_2 [simp]: "length ib_mad_f_2 = 92"
  by (simp add: ib_mad_f_2_def)

lemma length_ib_mad_f_3 [simp]: "length ib_mad_f_3 = 106"
  by (simp add: ib_mad_f_3_def)

lemma length_ib_mad_f_4 [simp]: "length ib_mad_f_4 = 114"
  by (simp add: ib_mad_f_4_def)

lemma length_ib_mad_f_5 [simp]: "length ib_mad_f_5 = 110"
  by (simp add: ib_mad_f_5_def)

lemma length_ib_mad_f_6 [simp]: "length ib_mad_f_6 = 81"
  by (simp add: ib_mad_f_6_def)

lemma length_ib_mad_f_7 [simp]: "length ib_mad_f_7 = 63"
  by (simp add: ib_mad_f_7_def)

lemma length_ib_mad_f: "length ib_mad_f = 664"
  by (simp add: ib_mad_f_def)

definition field_desc :: "nat \<Rightarrow> ib_field_t option" where
  \<comment> \<open>\<open>ib_mad_f + field\<close>; an index outside the table is undefined in C\<close>
  "field_desc field = (if field < length ib_mad_f then Some (ib_mad_f ! field) else None)"

text \<open>The descriptors of the fields that the packet code reads and writes.\<close>

lemma fd_IB_GID_PREFIX_F: "field_desc IB_GID_PREFIX_F =
    Some \<lparr>bitoffs = 0, bitlen = 64, name = ''GidPrefix'', def_dump_fn = Some Dump_rhex\<rparr>"
  by (simp add: field_desc_def length_ib_mad_f c_eval ib_mad_f_def nth_append ib_mad_f_1_def BITSOFFS_def BE_OFFS_def)

lemma fd_IB_GID_GUID_F: "field_desc IB_GID_GUID_F =
    Some \<lparr>bitoffs = 64, bitlen = 64, name = ''GidGuid'', def_dump_fn = Some Dump_rhex\<rparr>"
  by (simp add: field_desc_def length_ib_mad_f c_eval ib_mad_f_def nth_append ib_mad_f_1_def BITSOFFS_def BE_OFFS_def)

lemma fd_IB_MAD_METHOD_F: "field_desc IB_MAD_METHOD_F =
    Some \<lparr>bitoffs = 0, bitlen = 7, name = ''MadMethod'', def_dump_fn = Some Dump_hex\<rparr>"
  by (simp add: field_desc_def length_ib_mad_f c_eval ib_mad_f_def nth_append ib_mad_f_1_def BITSOFFS_def BE_OFFS_def)

lemma fd_IB_MAD_RESPONSE_F: "field_desc IB_MAD_RESPONSE_F =
    Some \<lparr>bitoffs = 7, bitlen = 1, name = ''MadIsResponse'', def_dump_fn = Some Dump_uint\<rparr>"
  by (simp add: field_desc_def length_ib_mad_f c_eval ib_mad_f_def nth_append ib_mad_f_1_def BITSOFFS_def BE_OFFS_def)

lemma fd_IB_MAD_CLASSVER_F: "field_desc IB_MAD_CLASSVER_F =
    Some \<lparr>bitoffs = 8, bitlen = 8, name = ''MadClassVersion'', def_dump_fn = Some Dump_uint\<rparr>"
  by (simp add: field_desc_def length_ib_mad_f c_eval ib_mad_f_def nth_append ib_mad_f_1_def BITSOFFS_def BE_OFFS_def)

lemma fd_IB_MAD_MGMTCLASS_F: "field_desc IB_MAD_MGMTCLASS_F =
    Some \<lparr>bitoffs = 16, bitlen = 8, name = ''MadMgmtClass'', def_dump_fn = Some Dump_uint\<rparr>"
  by (simp add: field_desc_def length_ib_mad_f c_eval ib_mad_f_def nth_append ib_mad_f_1_def BITSOFFS_def BE_OFFS_def)

lemma fd_IB_MAD_BASEVER_F: "field_desc IB_MAD_BASEVER_F =
    Some \<lparr>bitoffs = 24, bitlen = 8, name = ''MadBaseVersion'', def_dump_fn = Some Dump_uint\<rparr>"
  by (simp add: field_desc_def length_ib_mad_f c_eval ib_mad_f_def nth_append ib_mad_f_1_def BITSOFFS_def BE_OFFS_def)

lemma fd_IB_MAD_STATUS_F: "field_desc IB_MAD_STATUS_F =
    Some \<lparr>bitoffs = 48, bitlen = 16, name = ''MadStatus'', def_dump_fn = Some Dump_hex\<rparr>"
  by (simp add: field_desc_def length_ib_mad_f c_eval ib_mad_f_def nth_append ib_mad_f_1_def BITSOFFS_def BE_OFFS_def)

lemma fd_IB_DRSMP_HOPCNT_F: "field_desc IB_DRSMP_HOPCNT_F =
    Some \<lparr>bitoffs = 32, bitlen = 8, name = ''DrSmpHopCnt'', def_dump_fn = Some Dump_uint\<rparr>"
  by (simp add: field_desc_def length_ib_mad_f c_eval ib_mad_f_def nth_append ib_mad_f_1_def BITSOFFS_def BE_OFFS_def)

lemma fd_IB_DRSMP_HOPPTR_F: "field_desc IB_DRSMP_HOPPTR_F =
    Some \<lparr>bitoffs = 40, bitlen = 8, name = ''DrSmpHopPtr'', def_dump_fn = Some Dump_uint\<rparr>"
  by (simp add: field_desc_def length_ib_mad_f c_eval ib_mad_f_def nth_append ib_mad_f_1_def BITSOFFS_def BE_OFFS_def)

lemma fd_IB_DRSMP_STATUS_F: "field_desc IB_DRSMP_STATUS_F =
    Some \<lparr>bitoffs = 48, bitlen = 15, name = ''DrSmpStatus'', def_dump_fn = Some Dump_hex\<rparr>"
  by (simp add: field_desc_def length_ib_mad_f c_eval ib_mad_f_def nth_append ib_mad_f_1_def BITSOFFS_def BE_OFFS_def)

lemma fd_IB_DRSMP_DIRECTION_F: "field_desc IB_DRSMP_DIRECTION_F =
    Some \<lparr>bitoffs = 63, bitlen = 1, name = ''DrSmpDirection'', def_dump_fn = Some Dump_uint\<rparr>"
  by (simp add: field_desc_def length_ib_mad_f c_eval ib_mad_f_def nth_append ib_mad_f_1_def BITSOFFS_def BE_OFFS_def)

lemma fd_IB_MAD_TRID_F: "field_desc IB_MAD_TRID_F =
    Some \<lparr>bitoffs = 64, bitlen = 64, name = ''MadTRID'', def_dump_fn = Some Dump_hex\<rparr>"
  by (simp add: field_desc_def length_ib_mad_f c_eval ib_mad_f_def nth_append ib_mad_f_1_def BITSOFFS_def BE_OFFS_def)

lemma fd_IB_MAD_ATTRID_F: "field_desc IB_MAD_ATTRID_F =
    Some \<lparr>bitoffs = 144, bitlen = 16, name = ''MadAttr'', def_dump_fn = Some Dump_hex\<rparr>"
  by (simp add: field_desc_def length_ib_mad_f c_eval ib_mad_f_def nth_append ib_mad_f_1_def BITSOFFS_def BE_OFFS_def)

lemma fd_IB_MAD_ATTRMOD_F: "field_desc IB_MAD_ATTRMOD_F =
    Some \<lparr>bitoffs = 160, bitlen = 32, name = ''MadModifier'', def_dump_fn = Some Dump_hex\<rparr>"
  by (simp add: field_desc_def length_ib_mad_f c_eval ib_mad_f_def nth_append ib_mad_f_1_def BITSOFFS_def BE_OFFS_def)

lemma fd_IB_MAD_MKEY_F: "field_desc IB_MAD_MKEY_F =
    Some \<lparr>bitoffs = 192, bitlen = 64, name = ''MadMkey'', def_dump_fn = Some Dump_hex\<rparr>"
  by (simp add: field_desc_def length_ib_mad_f c_eval ib_mad_f_def nth_append ib_mad_f_1_def BITSOFFS_def BE_OFFS_def)

lemma fd_IB_DRSMP_DRDLID_F: "field_desc IB_DRSMP_DRDLID_F =
    Some \<lparr>bitoffs = 256, bitlen = 16, name = ''DrSmpDLID'', def_dump_fn = Some Dump_uint\<rparr>"
  by (simp add: field_desc_def length_ib_mad_f c_eval ib_mad_f_def nth_append ib_mad_f_1_def BITSOFFS_def BE_OFFS_def)

lemma fd_IB_DRSMP_DRSLID_F: "field_desc IB_DRSMP_DRSLID_F =
    Some \<lparr>bitoffs = 272, bitlen = 16, name = ''DrSmpSLID'', def_dump_fn = Some Dump_uint\<rparr>"
  by (simp add: field_desc_def length_ib_mad_f c_eval ib_mad_f_def nth_append ib_mad_f_1_def BITSOFFS_def BE_OFFS_def)

lemma fd_IB_SA_ATTROFFS_F: "field_desc IB_SA_ATTROFFS_F =
    Some \<lparr>bitoffs = 368, bitlen = 16, name = ''SaAttrOffs'', def_dump_fn = Some Dump_uint\<rparr>"
  by (simp add: field_desc_def length_ib_mad_f c_eval ib_mad_f_def nth_append ib_mad_f_1_def BITSOFFS_def BE_OFFS_def)

lemma fd_IB_SA_COMPMASK_F: "field_desc IB_SA_COMPMASK_F =
    Some \<lparr>bitoffs = 384, bitlen = 64, name = ''SaCompMask'', def_dump_fn = Some Dump_hex\<rparr>"
  by (simp add: field_desc_def length_ib_mad_f c_eval ib_mad_f_def nth_append ib_mad_f_1_def BITSOFFS_def BE_OFFS_def)

lemma fd_IB_DRSMP_PATH_F: "field_desc IB_DRSMP_PATH_F =
    Some \<lparr>bitoffs = 1024, bitlen = 512, name = ''DrSmpPath'', def_dump_fn = Some Dump_hex\<rparr>"
  by (simp add: field_desc_def length_ib_mad_f c_eval ib_mad_f_def nth_append ib_mad_f_1_def BITSOFFS_def BE_OFFS_def)

lemma fd_IB_DRSMP_RPATH_F: "field_desc IB_DRSMP_RPATH_F =
    Some \<lparr>bitoffs = 1536, bitlen = 512, name = ''DrSmpRetPath'', def_dump_fn = Some Dump_hex\<rparr>"
  by (simp add: field_desc_def length_ib_mad_f c_eval ib_mad_f_def nth_append ib_mad_f_1_def BITSOFFS_def BE_OFFS_def)

lemma fd_IB_PORT_GID_PREFIX_F: "field_desc IB_PORT_GID_PREFIX_F =
    Some \<lparr>bitoffs = 64, bitlen = 64, name = ''GidPrefix'', def_dump_fn = Some Dump_hex\<rparr>"
  by (simp add: field_desc_def length_ib_mad_f c_eval ib_mad_f_def nth_append ib_mad_f_1_def BITSOFFS_def BE_OFFS_def)

lemma fd_IB_PORT_LID_F: "field_desc IB_PORT_LID_F =
    Some \<lparr>bitoffs = 144, bitlen = 16, name = ''Lid'', def_dump_fn = Some Dump_uint\<rparr>"
  by (simp add: field_desc_def length_ib_mad_f c_eval ib_mad_f_def nth_append ib_mad_f_1_def BITSOFFS_def BE_OFFS_def)

lemma fd_IB_PORT_SMLID_F: "field_desc IB_PORT_SMLID_F =
    Some \<lparr>bitoffs = 128, bitlen = 16, name = ''SMLid'', def_dump_fn = Some Dump_uint\<rparr>"
  by (simp add: field_desc_def length_ib_mad_f c_eval ib_mad_f_def nth_append ib_mad_f_1_def BITSOFFS_def BE_OFFS_def)

lemma fd_IB_PORT_CAPMASK_F: "field_desc IB_PORT_CAPMASK_F =
    Some \<lparr>bitoffs = 160, bitlen = 32, name = ''CapMask'', def_dump_fn = Some Dump_portcapmask\<rparr>"
  by (simp add: field_desc_def length_ib_mad_f c_eval ib_mad_f_def nth_append ib_mad_f_1_def BITSOFFS_def BE_OFFS_def)

lemma fd_IB_PORT_LOCAL_PORT_F: "field_desc IB_PORT_LOCAL_PORT_F =
    Some \<lparr>bitoffs = 248, bitlen = 8, name = ''LocalPort'', def_dump_fn = Some Dump_uint\<rparr>"
  by (simp add: field_desc_def length_ib_mad_f c_eval ib_mad_f_def nth_append ib_mad_f_1_def BITSOFFS_def BE_OFFS_def)

lemma fd_IB_PORT_LINK_WIDTH_ACTIVE_F: "field_desc IB_PORT_LINK_WIDTH_ACTIVE_F =
    Some \<lparr>bitoffs = 224, bitlen = 8, name = ''LinkWidthActive'', def_dump_fn = Some Dump_linkwidth\<rparr>"
  by (simp add: field_desc_def length_ib_mad_f c_eval ib_mad_f_def nth_append ib_mad_f_1_def BITSOFFS_def BE_OFFS_def)

lemma fd_IB_PORT_STATE_F: "field_desc IB_PORT_STATE_F =
    Some \<lparr>bitoffs = 280, bitlen = 4, name = ''LinkState'', def_dump_fn = Some Dump_portstate\<rparr>"
  by (simp add: field_desc_def length_ib_mad_f c_eval ib_mad_f_def nth_append ib_mad_f_1_def BITSOFFS_def BE_OFFS_def)

lemma fd_IB_PORT_PHYS_STATE_F: "field_desc IB_PORT_PHYS_STATE_F =
    Some \<lparr>bitoffs = 276, bitlen = 4, name = ''PhysLinkState'', def_dump_fn = Some Dump_physportstate\<rparr>"
  by (simp add: field_desc_def length_ib_mad_f c_eval ib_mad_f_def nth_append ib_mad_f_1_def BITSOFFS_def BE_OFFS_def)

lemma fd_IB_PORT_LMC_F: "field_desc IB_PORT_LMC_F =
    Some \<lparr>bitoffs = 264, bitlen = 3, name = ''LMC'', def_dump_fn = Some Dump_uint\<rparr>"
  by (simp add: field_desc_def length_ib_mad_f c_eval ib_mad_f_def nth_append ib_mad_f_1_def BITSOFFS_def BE_OFFS_def)

lemma fd_IB_PORT_LINK_SPEED_ACTIVE_F: "field_desc IB_PORT_LINK_SPEED_ACTIVE_F =
    Some \<lparr>bitoffs = 260, bitlen = 4, name = ''LinkSpeedActive'', def_dump_fn = Some Dump_linkspeed\<rparr>"
  by (simp add: field_desc_def length_ib_mad_f c_eval ib_mad_f_def nth_append ib_mad_f_1_def BITSOFFS_def BE_OFFS_def)

lemma fd_IB_PORT_SMSL_F: "field_desc IB_PORT_SMSL_F =
    Some \<lparr>bitoffs = 312, bitlen = 4, name = ''SMSL'', def_dump_fn = Some Dump_uint\<rparr>"
  by (simp add: field_desc_def length_ib_mad_f c_eval ib_mad_f_def nth_append ib_mad_f_1_def BITSOFFS_def BE_OFFS_def)

lemma fd_IB_NODE_TYPE_F: "field_desc IB_NODE_TYPE_F =
    Some \<lparr>bitoffs = 8, bitlen = 8, name = ''NodeType'', def_dump_fn = Some Dump_node_type\<rparr>"
  by (simp add: field_desc_def length_ib_mad_f c_eval ib_mad_f_def nth_append ib_mad_f_1_def BITSOFFS_def BE_OFFS_def)

lemma fd_IB_NODE_NPORTS_F: "field_desc IB_NODE_NPORTS_F =
    Some \<lparr>bitoffs = 0, bitlen = 8, name = ''NumPorts'', def_dump_fn = Some Dump_uint\<rparr>"
  by (simp add: field_desc_def length_ib_mad_f c_eval ib_mad_f_def nth_append ib_mad_f_1_def BITSOFFS_def BE_OFFS_def)

lemma fd_IB_NODE_SYSTEM_GUID_F: "field_desc IB_NODE_SYSTEM_GUID_F =
    Some \<lparr>bitoffs = 32, bitlen = 64, name = ''SystemGuid'', def_dump_fn = Some Dump_hex\<rparr>"
  by (simp add: field_desc_def length_ib_mad_f c_eval ib_mad_f_def nth_append ib_mad_f_1_def BITSOFFS_def BE_OFFS_def)

lemma fd_IB_NODE_GUID_F: "field_desc IB_NODE_GUID_F =
    Some \<lparr>bitoffs = 96, bitlen = 64, name = ''Guid'', def_dump_fn = Some Dump_hex\<rparr>"
  by (simp add: field_desc_def length_ib_mad_f c_eval ib_mad_f_def nth_append ib_mad_f_1_def BITSOFFS_def BE_OFFS_def)

lemma fd_IB_NODE_PORT_GUID_F: "field_desc IB_NODE_PORT_GUID_F =
    Some \<lparr>bitoffs = 160, bitlen = 64, name = ''PortGuid'', def_dump_fn = Some Dump_hex\<rparr>"
  by (simp add: field_desc_def length_ib_mad_f c_eval ib_mad_f_def nth_append ib_mad_f_1_def BITSOFFS_def BE_OFFS_def)

lemma fd_IB_NODE_DEVID_F: "field_desc IB_NODE_DEVID_F =
    Some \<lparr>bitoffs = 224, bitlen = 16, name = ''DevId'', def_dump_fn = Some Dump_hex\<rparr>"
  by (simp add: field_desc_def length_ib_mad_f c_eval ib_mad_f_def nth_append ib_mad_f_1_def BITSOFFS_def BE_OFFS_def)

lemma fd_IB_NODE_LOCAL_PORT_F: "field_desc IB_NODE_LOCAL_PORT_F =
    Some \<lparr>bitoffs = 312, bitlen = 8, name = ''LocalPort'', def_dump_fn = Some Dump_uint\<rparr>"
  by (simp add: field_desc_def length_ib_mad_f c_eval ib_mad_f_def nth_append ib_mad_f_1_def BITSOFFS_def BE_OFFS_def)

lemma fd_IB_NODE_VENDORID_F: "field_desc IB_NODE_VENDORID_F =
    Some \<lparr>bitoffs = 288, bitlen = 24, name = ''VendorId'', def_dump_fn = Some Dump_hex\<rparr>"
  by (simp add: field_desc_def length_ib_mad_f c_eval ib_mad_f_def nth_append ib_mad_f_1_def BITSOFFS_def BE_OFFS_def)

lemma fd_IB_SW_ENHANCED_PORT0_F: "field_desc IB_SW_ENHANCED_PORT0_F =
    Some \<lparr>bitoffs = 155, bitlen = 1, name = ''EnhancedPort0'', def_dump_fn = Some Dump_uint\<rparr>"
  by (simp add: field_desc_def length_ib_mad_f c_eval ib_mad_f_def nth_append ib_mad_f_2_def BITSOFFS_def BE_OFFS_def)

lemma fd_IB_PC_PORT_SELECT_F: "field_desc IB_PC_PORT_SELECT_F =
    Some \<lparr>bitoffs = 16, bitlen = 8, name = ''PortSelect'', def_dump_fn = Some Dump_uint\<rparr>"
  by (simp add: field_desc_def length_ib_mad_f c_eval ib_mad_f_def nth_append ib_mad_f_2_def BITSOFFS_def BE_OFFS_def)

lemma fd_IB_PC_COUNTER_SELECT_F: "field_desc IB_PC_COUNTER_SELECT_F =
    Some \<lparr>bitoffs = 0, bitlen = 16, name = ''CounterSelect'', def_dump_fn = Some Dump_hex\<rparr>"
  by (simp add: field_desc_def length_ib_mad_f c_eval ib_mad_f_def nth_append ib_mad_f_2_def BITSOFFS_def BE_OFFS_def)

lemma fd_IB_PC_COUNTER_SELECT2_F: "field_desc IB_PC_COUNTER_SELECT2_F =
    Some \<lparr>bitoffs = 136, bitlen = 8, name = ''CounterSelect2'', def_dump_fn = Some Dump_hex\<rparr>"
  by (simp add: field_desc_def length_ib_mad_f c_eval ib_mad_f_def nth_append ib_mad_f_2_def BITSOFFS_def BE_OFFS_def)

lemma fd_IB_PC_VL15_DROPPED_F: "field_desc IB_PC_VL15_DROPPED_F =
    Some \<lparr>bitoffs = 160, bitlen = 16, name = ''VL15Dropped'', def_dump_fn = Some Dump_uint\<rparr>"
  by (simp add: field_desc_def length_ib_mad_f c_eval ib_mad_f_def nth_append ib_mad_f_2_def BITSOFFS_def BE_OFFS_def)

lemma fd_IB_SA_RMPP_VERS_F: "field_desc IB_SA_RMPP_VERS_F =
    Some \<lparr>bitoffs = 216, bitlen = 8, name = ''RmppVers'', def_dump_fn = Some Dump_uint\<rparr>"
  by (simp add: field_desc_def length_ib_mad_f c_eval ib_mad_f_def nth_append ib_mad_f_2_def BITSOFFS_def BE_OFFS_def)

lemma fd_IB_SA_RMPP_TYPE_F: "field_desc IB_SA_RMPP_TYPE_F =
    Some \<lparr>bitoffs = 208, bitlen = 8, name = ''RmppType'', def_dump_fn = Some Dump_uint\<rparr>"
  by (simp add: field_desc_def length_ib_mad_f c_eval ib_mad_f_def nth_append ib_mad_f_2_def BITSOFFS_def BE_OFFS_def)

lemma fd_IB_SA_RMPP_RESP_F: "field_desc IB_SA_RMPP_RESP_F =
    Some \<lparr>bitoffs = 203, bitlen = 5, name = ''RmppResp'', def_dump_fn = Some Dump_uint\<rparr>"
  by (simp add: field_desc_def length_ib_mad_f c_eval ib_mad_f_def nth_append ib_mad_f_2_def BITSOFFS_def BE_OFFS_def)

lemma fd_IB_SA_RMPP_FLAGS_F: "field_desc IB_SA_RMPP_FLAGS_F =
    Some \<lparr>bitoffs = 200, bitlen = 3, name = ''RmppFlags'', def_dump_fn = Some Dump_hex\<rparr>"
  by (simp add: field_desc_def length_ib_mad_f c_eval ib_mad_f_def nth_append ib_mad_f_2_def BITSOFFS_def BE_OFFS_def)

lemma fd_IB_SA_RMPP_STATUS_F: "field_desc IB_SA_RMPP_STATUS_F =
    Some \<lparr>bitoffs = 192, bitlen = 8, name = ''RmppStatus'', def_dump_fn = Some Dump_hex\<rparr>"
  by (simp add: field_desc_def length_ib_mad_f c_eval ib_mad_f_def nth_append ib_mad_f_2_def BITSOFFS_def BE_OFFS_def)

lemma fd_IB_SA_RMPP_D1_F: "field_desc IB_SA_RMPP_D1_F =
    Some \<lparr>bitoffs = 224, bitlen = 32, name = ''RmppData1'', def_dump_fn = Some Dump_hex\<rparr>"
  by (simp add: field_desc_def length_ib_mad_f c_eval ib_mad_f_def nth_append ib_mad_f_2_def BITSOFFS_def BE_OFFS_def)

lemma fd_IB_SA_RMPP_D2_F: "field_desc IB_SA_RMPP_D2_F =
    Some \<lparr>bitoffs = 256, bitlen = 32, name = ''RmppData2'', def_dump_fn = Some Dump_hex\<rparr>"
  by (simp add: field_desc_def length_ib_mad_f c_eval ib_mad_f_def nth_append ib_mad_f_2_def BITSOFFS_def BE_OFFS_def)

lemma fd_IB_SA_PR_DGID_F: "field_desc IB_SA_PR_DGID_F =
    Some \<lparr>bitoffs = 64, bitlen = 128, name = ''PathRecDGid'', def_dump_fn = Some Dump_array\<rparr>"
  by (simp add: field_desc_def length_ib_mad_f c_eval ib_mad_f_def nth_append ib_mad_f_2_def BITSOFFS_def BE_OFFS_def)

lemma fd_IB_SA_PR_SGID_F: "field_desc IB_SA_PR_SGID_F =
    Some \<lparr>bitoffs = 192, bitlen = 128, name = ''PathRecSGid'', def_dump_fn = Some Dump_array\<rparr>"
  by (simp add: field_desc_def length_ib_mad_f c_eval ib_mad_f_def nth_append ib_mad_f_2_def BITSOFFS_def BE_OFFS_def)

lemma fd_IB_SA_PR_DLID_F: "field_desc IB_SA_PR_DLID_F =
    Some \<lparr>bitoffs = 336, bitlen = 16, name = ''PathRecDLid'', def_dump_fn = Some Dump_uint\<rparr>"
  by (simp add: field_desc_def length_ib_mad_f c_eval ib_mad_f_def nth_append ib_mad_f_2_def BITSOFFS_def BE_OFFS_def)

lemma fd_IB_SA_PR_SL_F: "field_desc IB_SA_PR_SL_F =
    Some \<lparr>bitoffs = 432, bitlen = 4, name = ''PathRecSL'', def_dump_fn = Some Dump_uint\<rparr>"
  by (simp add: field_desc_def length_ib_mad_f c_eval ib_mad_f_def nth_append ib_mad_f_2_def BITSOFFS_def BE_OFFS_def)

lemma fd_IB_VEND2_OUI_F: "field_desc IB_VEND2_OUI_F =
    Some \<lparr>bitoffs = 288, bitlen = 24, name = ''OUI'', def_dump_fn = Some Dump_array\<rparr>"
  by (simp add: field_desc_def length_ib_mad_f c_eval ib_mad_f_def nth_append ib_mad_f_3_def BITSOFFS_def BE_OFFS_def)

lemma fd_IB_CPI_REDIRECT_SL_F: "field_desc IB_CPI_REDIRECT_SL_F =
    Some \<lparr>bitoffs = 212, bitlen = 4, name = ''RedirectSL'', def_dump_fn = Some Dump_uint\<rparr>"
  by (simp add: field_desc_def length_ib_mad_f c_eval ib_mad_f_def nth_append ib_mad_f_3_def BITSOFFS_def BE_OFFS_def)

lemma fd_IB_CPI_REDIRECT_LID_F: "field_desc IB_CPI_REDIRECT_LID_F =
    Some \<lparr>bitoffs = 240, bitlen = 16, name = ''RedirectLID'', def_dump_fn = Some Dump_uint\<rparr>"
  by (simp add: field_desc_def length_ib_mad_f c_eval ib_mad_f_def nth_append ib_mad_f_3_def BITSOFFS_def BE_OFFS_def)

lemma fd_IB_CPI_REDIRECT_QP_F: "field_desc IB_CPI_REDIRECT_QP_F =
    Some \<lparr>bitoffs = 256, bitlen = 24, name = ''RedirectQP'', def_dump_fn = Some Dump_hex\<rparr>"
  by (simp add: field_desc_def length_ib_mad_f c_eval ib_mad_f_def nth_append ib_mad_f_3_def BITSOFFS_def BE_OFFS_def)

lemma fd_IB_CPI_REDIRECT_QKEY_F: "field_desc IB_CPI_REDIRECT_QKEY_F =
    Some \<lparr>bitoffs = 288, bitlen = 32, name = ''RedirectQKey'', def_dump_fn = Some Dump_hex\<rparr>"
  by (simp add: field_desc_def length_ib_mad_f c_eval ib_mad_f_def nth_append ib_mad_f_3_def BITSOFFS_def BE_OFFS_def)

lemma fd_IB_PORT_LINK_SPEED_EXT_ACTIVE_F: "field_desc IB_PORT_LINK_SPEED_EXT_ACTIVE_F =
    Some \<lparr>bitoffs = 492, bitlen = 4, name = ''LinkSpeedExtActive'', def_dump_fn = Some Dump_linkspeedext\<rparr>"
  by (simp add: field_desc_def length_ib_mad_f c_eval ib_mad_f_def nth_append ib_mad_f_4_def BITSOFFS_def BE_OFFS_def)

lemma fd_IB_MLNX_EXT_PORT_LINK_SPEED_ACTIVE_F: "field_desc IB_MLNX_EXT_PORT_LINK_SPEED_ACTIVE_F =
    Some \<lparr>bitoffs = 96, bitlen = 8, name = ''LinkSpeedActive'', def_dump_fn = Some Dump_hex\<rparr>"
  by (simp add: field_desc_def length_ib_mad_f c_eval ib_mad_f_def nth_append ib_mad_f_5_def BITSOFFS_def BE_OFFS_def)

lemma fd_IB_CC_CCKEY_F: "field_desc IB_CC_CCKEY_F =
    Some \<lparr>bitoffs = 192, bitlen = 64, name = ''CC_Key'', def_dump_fn = Some Dump_hex\<rparr>"
  by (simp add: field_desc_def length_ib_mad_f c_eval ib_mad_f_def nth_append ib_mad_f_6_def BITSOFFS_def BE_OFFS_def)

lemma fd_IB_SA_NR_PORT_GUID_F: "field_desc IB_SA_NR_PORT_GUID_F =
    Some \<lparr>bitoffs = 192, bitlen = 64, name = ''PortGuid'', def_dump_fn = Some Dump_hex\<rparr>"
  by (simp add: field_desc_def length_ib_mad_f c_eval ib_mad_f_def nth_append ib_mad_f_6_def BITSOFFS_def BE_OFFS_def)

lemma fd_IB_PORT_EXT_EDR_FEC_MODE_ENABLED_F: "field_desc IB_PORT_EXT_EDR_FEC_MODE_ENABLED_F =
    Some \<lparr>bitoffs = 112, bitlen = 16, name = ''EDRFECModeEnabled'', def_dump_fn = Some Dump_hex\<rparr>"
  by (simp add: field_desc_def length_ib_mad_f c_eval ib_mad_f_def nth_append ib_mad_f_7_def BITSOFFS_def BE_OFFS_def)

lemma fd_IB_PC_EXT_COUNTER_SELECT2_F: "field_desc IB_PC_EXT_COUNTER_SELECT2_F =
    Some \<lparr>bitoffs = 32, bitlen = 32, name = ''CounterSelect2'', def_dump_fn = Some Dump_hex\<rparr>"
  by (simp add: field_desc_def length_ib_mad_f c_eval ib_mad_f_def nth_append ib_mad_f_7_def BITSOFFS_def BE_OFFS_def)

lemma fd_IB_PC_QP1_DROP_F: "field_desc IB_PC_QP1_DROP_F =
    Some \<lparr>bitoffs = 160, bitlen = 16, name = ''QP1Dropped'', def_dump_fn = Some Dump_uint\<rparr>"
  by (simp add: field_desc_def length_ib_mad_f c_eval ib_mad_f_def nth_append ib_mad_f_7_def BITSOFFS_def BE_OFFS_def)

lemma fd_IB_PORT_EXT_HDR_FEC_MODE_SUPPORTED_F: "field_desc IB_PORT_EXT_HDR_FEC_MODE_SUPPORTED_F =
    Some \<lparr>bitoffs = 112, bitlen = 16, name = ''HDRFECModeSupported'', def_dump_fn = Some Dump_hex\<rparr>"
  by (simp add: field_desc_def length_ib_mad_f c_eval ib_mad_f_def nth_append ib_mad_f_7_def BITSOFFS_def BE_OFFS_def)

lemma fd_IB_PORT_EXT_HDR_FEC_MODE_ENABLED_F: "field_desc IB_PORT_EXT_HDR_FEC_MODE_ENABLED_F =
    Some \<lparr>bitoffs = 128, bitlen = 16, name = ''HDRFECModeEnabled'', def_dump_fn = Some Dump_hex\<rparr>"
  by (simp add: field_desc_def length_ib_mad_f c_eval ib_mad_f_def nth_append ib_mad_f_7_def BITSOFFS_def BE_OFFS_def)

lemmas field_descs =
  fd_IB_GID_PREFIX_F
  fd_IB_GID_GUID_F
  fd_IB_MAD_METHOD_F
  fd_IB_MAD_RESPONSE_F
  fd_IB_MAD_CLASSVER_F
  fd_IB_MAD_MGMTCLASS_F
  fd_IB_MAD_BASEVER_F
  fd_IB_MAD_STATUS_F
  fd_IB_DRSMP_HOPCNT_F
  fd_IB_DRSMP_HOPPTR_F
  fd_IB_DRSMP_STATUS_F
  fd_IB_DRSMP_DIRECTION_F
  fd_IB_MAD_TRID_F
  fd_IB_MAD_ATTRID_F
  fd_IB_MAD_ATTRMOD_F
  fd_IB_MAD_MKEY_F
  fd_IB_DRSMP_DRDLID_F
  fd_IB_DRSMP_DRSLID_F
  fd_IB_SA_ATTROFFS_F
  fd_IB_SA_COMPMASK_F
  fd_IB_DRSMP_PATH_F
  fd_IB_DRSMP_RPATH_F
  fd_IB_PORT_GID_PREFIX_F
  fd_IB_PORT_LID_F
  fd_IB_PORT_SMLID_F
  fd_IB_PORT_CAPMASK_F
  fd_IB_PORT_LOCAL_PORT_F
  fd_IB_PORT_LINK_WIDTH_ACTIVE_F
  fd_IB_PORT_STATE_F
  fd_IB_PORT_PHYS_STATE_F
  fd_IB_PORT_LMC_F
  fd_IB_PORT_LINK_SPEED_ACTIVE_F
  fd_IB_PORT_SMSL_F
  fd_IB_NODE_TYPE_F
  fd_IB_NODE_NPORTS_F
  fd_IB_NODE_SYSTEM_GUID_F
  fd_IB_NODE_GUID_F
  fd_IB_NODE_PORT_GUID_F
  fd_IB_NODE_DEVID_F
  fd_IB_NODE_LOCAL_PORT_F
  fd_IB_NODE_VENDORID_F
  fd_IB_SW_ENHANCED_PORT0_F
  fd_IB_PC_PORT_SELECT_F
  fd_IB_PC_COUNTER_SELECT_F
  fd_IB_PC_COUNTER_SELECT2_F
  fd_IB_PC_VL15_DROPPED_F
  fd_IB_SA_RMPP_VERS_F
  fd_IB_SA_RMPP_TYPE_F
  fd_IB_SA_RMPP_RESP_F
  fd_IB_SA_RMPP_FLAGS_F
  fd_IB_SA_RMPP_STATUS_F
  fd_IB_SA_RMPP_D1_F
  fd_IB_SA_RMPP_D2_F
  fd_IB_SA_PR_DGID_F
  fd_IB_SA_PR_SGID_F
  fd_IB_SA_PR_DLID_F
  fd_IB_SA_PR_SL_F
  fd_IB_VEND2_OUI_F
  fd_IB_CPI_REDIRECT_SL_F
  fd_IB_CPI_REDIRECT_LID_F
  fd_IB_CPI_REDIRECT_QP_F
  fd_IB_CPI_REDIRECT_QKEY_F
  fd_IB_PORT_LINK_SPEED_EXT_ACTIVE_F
  fd_IB_MLNX_EXT_PORT_LINK_SPEED_ACTIVE_F
  fd_IB_CC_CCKEY_F
  fd_IB_SA_NR_PORT_GUID_F
  fd_IB_PORT_EXT_EDR_FEC_MODE_ENABLED_F
  fd_IB_PC_EXT_COUNTER_SELECT2_F
  fd_IB_PC_QP1_DROP_F
  fd_IB_PORT_EXT_HDR_FEC_MODE_SUPPORTED_F
  fd_IB_PORT_EXT_HDR_FEC_MODE_ENABLED_F

section \<open>The table is well formed\<close>

definition entry_ok :: "ib_field_t \<Rightarrow> bool" where
  \<comment> \<open>an empty entry; or a field of at most 32 bits that the codec splits exactly and that stays
    inside one 32-bit word; or a field of 64 bits at a word boundary; or an array of whole bytes.
    Every entry lies in a MAD of 256 bytes, its name fits in \<open>char name[32]\<close>, and it has a
    dump function.\<close>
  "entry_ok f \<longleftrightarrow> (bitlen f = 0 \<longrightarrow> f = no_field) \<and>
     (bitlen f \<noteq> 0 \<longrightarrow> bitoffs f + bitlen f \<le> 8 * 256 \<and> length (name f) < 32 \<and> def_dump_fn f \<noteq> None) \<and>
     (bitlen f \<noteq> 0 \<and> bitlen f \<le> 32 \<longrightarrow>
        field_shape f \<and> bitoffs f div 32 = (bitoffs f + bitlen f - 1) div 32) \<and>
     (bitlen f = 64 \<longrightarrow> bitoffs f mod 32 = 0) \<and>
     (32 < bitlen f \<longrightarrow> bitoffs f mod 8 = 0 \<and> bitlen f mod 8 = 0)"

lemmas entry_eval = entry_ok_def field_shape_def single_byte_def bytelen_def prebits_def
  postbits_def BITSOFFS_def BE_OFFS_def no_field_def

lemma entries_ok_1: "list_all entry_ok ib_mad_f_1"
  by (simp add: ib_mad_f_1_def entry_eval)

lemma empty_1: "map (\<lambda>f. bitlen f = 0) ib_mad_f_1 =
    [True, False, False, False, False, False, False, False, False, False, False, False, False,
     False, False, False, False, False, False, False, False, False, False, True, False, False,
     False, False, False, False, False, False, False, False, False, False, False, False, False,
     False, False, False, False, False, False, False, False, False, False, False, False, False,
     False, False, False, False, False, False, False, False, False, False, False, False, False,
     False, False, False, False, False, False, False, False, False, True, False, False, False,
     False, False, False, False, False, False, False, False, False, True, False, False, False,
     False, False, False, False, False, False, False]"
  by (simp add: ib_mad_f_1_def BITSOFFS_def BE_OFFS_def no_field_def)

lemma entries_ok_2: "list_all entry_ok ib_mad_f_2"
  by (simp add: ib_mad_f_2_def entry_eval)

lemma empty_2: "map (\<lambda>f. bitlen f = 0) ib_mad_f_2 =
    [False, False, False, False, False, False, False, False, True, False, False, False, False,
     False, False, False, False, False, False, False, False, False, False, False, False, False,
     False, False, False, False, False, False, False, False, False, False, False, False, False,
     False, False, False, False, True, False, False, False, False, False, False, False, False,
     False, False, False, False, False, False, False, False, False, False, False, False, False,
     False, False, False, False, False, False, False, False, False, False, False, False, False,
     False, False, False, False, False, False, False, False, False, False, False, False, False,
     False]"
  by (simp add: ib_mad_f_2_def BITSOFFS_def BE_OFFS_def no_field_def)

lemma entries_ok_3: "list_all entry_ok ib_mad_f_3"
  by (simp add: ib_mad_f_3_def entry_eval)

lemma empty_3: "map (\<lambda>f. bitlen f = 0) ib_mad_f_3 =
    [False, False, False, False, False, False, False, False, False, False, False, False, False,
     False, True, False, False, False, False, False, False, False, False, False, False, False,
     False, False, False, False, False, False, False, False, False, False, False, False, False,
     False, False, False, False, False, False, False, False, False, False, False, False, False,
     False, False, True, False, False, False, False, False, False, False, False, False, False,
     False, False, False, False, False, False, True, False, False, False, False, True, False,
     False, False, False, False, False, True, False, False, False, False, False, False, False,
     False, False, False, False, False, False, False, False, False, False, False, False, False,
     False, False]"
  by (simp add: ib_mad_f_3_def BITSOFFS_def BE_OFFS_def no_field_def)

lemma entries_ok_4: "list_all entry_ok ib_mad_f_4"
  by (simp add: ib_mad_f_4_def entry_eval)

lemma empty_4: "map (\<lambda>f. bitlen f = 0) ib_mad_f_4 =
    [False, False, False, False, False, False, False, False, True, False, False, False, False,
     False, False, False, False, False, False, False, False, False, False, False, False, False,
     False, False, False, False, False, True, False, False, False, False, False, False, False,
     False, False, False, False, False, False, False, False, False, False, False, False, False,
     False, False, False, False, False, False, False, False, False, False, False, False, False,
     False, False, False, False, False, False, False, True, False, False, True, False, False,
     True, False, False, False, False, False, False, False, False, False, False, False, False,
     False, False, False, False, True, False, False, False, False, False, False, False, False,
     False, False, False, False, False, False, False, False, True, False]"
  by (simp add: ib_mad_f_4_def BITSOFFS_def BE_OFFS_def no_field_def)

lemma entries_ok_5: "list_all entry_ok ib_mad_f_5"
  by (simp add: ib_mad_f_5_def entry_eval)

lemma empty_5: "map (\<lambda>f. bitlen f = 0) ib_mad_f_5 =
    [False, False, False, False, False, False, False, False, False, False, False, False, False,
     False, False, True, False, False, False, False, False, False, False, False, False, False,
     False, False, False, False, False, False, True, False, False, False, False, False, False,
     False, False, False, False, False, False, False, False, False, False, True, False, False,
     True, False, False, False, False, False, False, False, False, False, False, False, False,
     False, False, False, False, True, False, False, False, False, False, False, False, False,
     False, False, False, False, False, False, False, False, True, False, True, False, False,
     False, False, False, False, False, False, False, False, False, False, False, False, False,
     True, False, False, False, False, True]"
  by (simp add: ib_mad_f_5_def BITSOFFS_def BE_OFFS_def no_field_def)

lemma entries_ok_6: "list_all entry_ok ib_mad_f_6"
  by (simp add: ib_mad_f_6_def entry_eval)

lemma empty_6: "map (\<lambda>f. bitlen f = 0) ib_mad_f_6 =
    [False, False, False, True, False, False, False, False, True, False, False, True, False,
     False, False, True, False, False, False, False, True, False, False, False, True, False,
     False, False, False, False, False, False, True, False, False, False, False, False, False,
     False, False, True, False, False, False, False, False, True, False, False, True, False,
     False, False, False, True, False, True, False, False, True, False, True, False, False,
     False, False, False, False, False, False, False, False, False, False, False, False, True,
     False, False, False]"
  by (simp add: ib_mad_f_6_def BITSOFFS_def BE_OFFS_def no_field_def)

lemma entries_ok_7: "list_all entry_ok ib_mad_f_7"
  by (simp add: ib_mad_f_7_def entry_eval)

lemma empty_7: "map (\<lambda>f. bitlen f = 0) ib_mad_f_7 =
    [False, False, False, False, False, False, False, False, False, False, False, False, False,
     False, True, False, False, False, False, False, False, True, False, False, False, False,
     False, False, False, False, False, False, False, False, False, False, False, False, False,
     False, False, True, False, False, False, False, False, False, False, False, False, False,
     False, False, False, False, False, True, False, False, False, True, True]"
  by (simp add: ib_mad_f_7_def BITSOFFS_def BE_OFFS_def no_field_def)

lemmas entries_ok = entries_ok_1 entries_ok_2 entries_ok_3 entries_ok_4 entries_ok_5 entries_ok_6 entries_ok_7
lemmas empty_defs = empty_1 empty_2 empty_3 empty_4 empty_5 empty_6 empty_7

lemma all_entries_ok: "list_all entry_ok ib_mad_f"
  by (simp add: ib_mad_f_def entries_ok del: list_all_iff)

lemma field_desc_ok: "field_desc n = Some f \<Longrightarrow> entry_ok f"
  using all_entries_ok by (auto simp: field_desc_def list_all_length split: if_splits)

lemma reserved_map: "map reserved_name (enum_positions MAD_FIELDS) = map (\<lambda>f. bitlen f = 0) ib_mad_f"
  unfolding MAD_FIELDS_def ib_mad_f_def enum_positions_append map_append reserved_defs empty_defs
  by simp

text \<open>
  Property: the table has exactly one entry for every enumerator (and none after
  \<open>IB_FIELD_LAST_\<close>), and an entry is empty precisely where the enumerator is a reserved one,
  that is \<open>IB_NO_FIELD\<close>, \<open>IB_SM_DATA_F\<close>, a \<open>..._LAST_F\<close> marker or \<open>IB_FIELD_LAST_\<close>:
  the descriptors and the enumeration, which live in two files, are in step.
\<close>
theorem table_matches_enum:
  "length ib_mad_f = IB_FIELD_LAST + 1 \<and>
   map reserved_name (enum_positions MAD_FIELDS) = map (\<lambda>f. f = no_field) ib_mad_f"
proof
  show "length ib_mad_f = IB_FIELD_LAST + 1" by (simp add: length_ib_mad_f c_eval)
  have "(bitlen f = 0) = (f = no_field)" if "f \<in> set ib_mad_f" for f
  proof -
    have "entry_ok f" using that all_entries_ok by (simp add: list_all_iff)
    then show ?thesis by (auto simp: entry_ok_def no_field_def)
  qed
  then show "map reserved_name (enum_positions MAD_FIELDS) = map (\<lambda>f. f = no_field) ib_mad_f"
    by (simp add: reserved_map cong: map_cong)
qed

text \<open>
  Property: every descriptor of the table is one the codec handles: a field of at most
  32 bits is split into head, bytes and tail that add up to it and does not cross a 32-bit word,
  a 64-bit field starts at a word boundary, a longer one is made of whole bytes, all lie in the
  256 bytes of a MAD, and no name overruns \<open>char name[32]\<close>.
\<close>
theorem table_well_formed: "list_all entry_ok ib_mad_f"
  by (rule all_entries_ok)

end
