(* ===== verification/FieldAccess.thy ===== *)
theory FieldAccess
  imports FieldTable
begin

text \<open>
  The field accessors that \<open>libibmad\<close> exports (\<open>mad_get_field\<close> to
  \<open>mad_encode_field\<close> in \<open>fields.c\<close>), which look a descriptor up in \<open>ib_mad_f\<close>
  and pass it to the codec of \<open>MadField\<close>. The contract all the accessors share (what a
  store guarantees to a later load of the same or of another field) is the locale
  \<open>field_store\<close>, interpreted for the bit fields, the 64-bit fields and the arrays.
\<close>

section \<open>The exported accessors\<close>

definition mad_get_field :: "mem \<Rightarrow> nat \<Rightarrow> nat \<Rightarrow> u32 option" where
  "mad_get_field buf base_offs field = do {
     f \<leftarrow> field_desc field;
     get_field buf base_offs f
   }"

definition mad_set_field :: "mem \<Rightarrow> nat \<Rightarrow> nat \<Rightarrow> u32 \<Rightarrow> mem option" where
  "mad_set_field buf base_offs field val = do {
     f \<leftarrow> field_desc field;
     set_field buf base_offs f val
   }"

definition mad_get_field64 :: "endian \<Rightarrow> mem \<Rightarrow> nat \<Rightarrow> nat \<Rightarrow> u64 option" where
  "mad_get_field64 e buf base_offs field = do {
     f \<leftarrow> field_desc field;
     get_field64 e buf base_offs f
   }"

definition mad_set_field64 :: "endian \<Rightarrow> mem \<Rightarrow> nat \<Rightarrow> nat \<Rightarrow> u64 \<Rightarrow> mem option" where
  "mad_set_field64 e buf base_offs field val = do {
     f \<leftarrow> field_desc field;
     set_field64 e buf base_offs f val
   }"

definition mad_set_array :: "mem \<Rightarrow> nat \<Rightarrow> nat \<Rightarrow> mem \<Rightarrow> mem option" where
  "mad_set_array buf base_offs field val = do {
     f \<leftarrow> field_desc field;
     set_array buf base_offs f val
   }"

definition mad_get_array :: "mem \<Rightarrow> nat \<Rightarrow> nat \<Rightarrow> mem \<Rightarrow> mem option" where
  "mad_get_array buf base_offs field val = do {
     f \<leftarrow> field_desc field;
     get_array buf base_offs f val
   }"

text \<open>\<open>val\<close> is the caller's variable; the result is its content after the call.\<close>

definition mad_decode_field :: "endian \<Rightarrow> mem \<Rightarrow> nat \<Rightarrow> mem \<Rightarrow> mem option" where
  "mad_decode_field e buf field val = do {
     f \<leftarrow> field_desc field;
     if field = 0 then do {
       bs \<leftarrow> mem_load buf 0 4;
       mem_store val 0 bs
     } else if bitlen f \<le> 32 then do {
       w \<leftarrow> get_field buf 0 f;
       mem_store val 0 (native_bytes e 4 w)
     } else if bitlen f = 64 then do {
       w \<leftarrow> get_field64 e buf 0 f;
       mem_store val 0 (native_bytes e 8 w)
     } else get_array buf 0 f val
   }"

definition mad_encode_field :: "endian \<Rightarrow> mem \<Rightarrow> nat \<Rightarrow> mem \<Rightarrow> mem option" where
  "mad_encode_field e buf field val = do {
     f \<leftarrow> field_desc field;
     if field = 0 then do {
       bs \<leftarrow> mem_load val 0 4;
       mem_store buf 0 bs
     } else if bitlen f \<le> 32 then do {
       bs \<leftarrow> mem_load val 0 4;
       set_field buf 0 f (native_word e bs)
     } else if bitlen f = 64 then do {
       bs \<leftarrow> mem_load val 0 8;
       set_field64 e buf 0 f (native_word e bs)
     } else set_array buf 0 f val
   }"

definition mad_field_name :: "nat \<Rightarrow> string option" where
  "mad_field_name field = map_option name (field_desc field)"

section \<open>Stores confined to a range of bits\<close>

definition touches :: "mem \<Rightarrow> mem \<Rightarrow> nat \<Rightarrow> nat \<Rightarrow> bool" where
  \<comment> \<open>\<open>p'\<close> differs from \<open>p\<close> in the bits \<open>a\<close> to \<open>b - 1\<close> at most\<close>
  "touches p p' a b \<longleftrightarrow> length p' = length p \<and>
     (\<forall>m < 8 * length p. m < a \<or> b \<le> m \<longrightarrow> buf_bit p' m = buf_bit p m)"

lemma touches_length: "touches p p' a b \<Longrightarrow> length p' = length p"
  by (simp add: touches_def)

lemma touches_refl: "touches p p a b"
  by (simp add: touches_def)

lemma aligned_xor3:
  fixes a n k :: nat
  assumes "4 dvd a" and "4 dvd n"
  shows "a \<le> 3 XOR k \<and> 3 XOR k < a + n \<longleftrightarrow> a \<le> k \<and> k < a + n"
  using xor3_less_iff [OF assms(1), of k] xor3_less_iff [of "a + n" k] assms
  by (auto simp: not_less [symmetric])

lemma xor3_xor3 [simp]: "(3::nat) XOR (3 XOR k) = k"
  by (simp add: xor.assoc [symmetric])

lemma touches_byte:
  assumes "touches p p' x y" and "8 * (a + n) \<le> x \<or> y \<le> 8 * a"
    and "4 dvd a" "4 dvd n" "4 dvd length p" and "a \<le> k" "k < a + n" "k < length p"
  shows "p' ! k = p ! k"
proof (rule bit_word_eqI)
  fix j :: nat assume j: "j < LENGTH(8)"
  let ?m = "8 * (3 XOR k) + j"
  have k: "a \<le> 3 XOR k \<and> 3 XOR k < a + n" using aligned_xor3 assms by blast
  have "3 XOR k < length p" using assms by (simp add: xor3_less)
  then have "?m < 8 * length p" using j by simp
  moreover have "?m < x \<or> y \<le> ?m" using assms(2) k j by auto
  ultimately have "buf_bit p' ?m = buf_bit p ?m" using assms(1) unfolding touches_def by blast
  then show "bit (p' ! k) j = bit (p ! k) j" using j by (simp add: buf_bit_def)
qed

lemma touches_load:
  assumes "touches p p' x y" and "8 * (a + n) \<le> x \<or> y \<le> 8 * a"
    and "4 dvd a" "4 dvd n" "4 dvd length p"
  shows "mem_load p' a n = mem_load p a n"
  using touches_length [OF assms(1)] touches_byte [OF assms]
  by (intro mem_load_nth_eq) auto

lemma mem_store_touches:
  assumes "mem_store p a xs = Some p'" and "4 dvd a" "4 dvd length xs" "4 dvd length p"
  shows "touches p p' (8 * a) (8 * (a + length xs))"
  unfolding touches_def
proof (intro conjI allI impI)
  show "length p' = length p" by (rule length_mem_store [OF assms(1)])
  fix m assume m: "m < 8 * length p" "m < 8 * a \<or> 8 * (a + length xs) \<le> m"
  have len: "3 XOR (m div 8) < length p" using m(1) assms(4) by (simp add: xor3_less)
  have "\<not> (a \<le> m div 8 \<and> m div 8 < a + length xs)" using m(2) by (auto simp: distrib_left)
  then have "\<not> (a \<le> 3 XOR (m div 8) \<and> 3 XOR (m div 8) < a + length xs)"
    using aligned_xor3 [OF assms(2,3)] by blast
  then have "p' ! (3 XOR (m div 8)) = p ! (3 XOR (m div 8))"
    using mem_store_nth [OF assms(1) len] by (simp only: if_False)
  then show "buf_bit p' m = buf_bit p m" by (simp add: buf_bit_def)
qed

lemma touches_trans: "touches p p' a b \<Longrightarrow> touches p' p'' a b \<Longrightarrow> touches p p'' a b"
  by (auto simp: touches_def)

lemma touches_mono: "touches p p' a b \<Longrightarrow> x \<le> a \<Longrightarrow> b \<le> y \<Longrightarrow> touches p p' x y"
  by (auto simp: touches_def)

section \<open>The contract of the accessors\<close>

text \<open>
  \<open>lo\<close> and \<open>hi\<close> delimit the bits a load reads, \<open>lo\<close> and \<open>whi\<close> those a store
  may change, and \<open>norm\<close> is what a load returns after a store (the value cut to the field).
\<close>

locale field_store =
  fixes get :: "'f \<Rightarrow> mem \<Rightarrow> 'v option"
    and put :: "'f \<Rightarrow> mem \<Rightarrow> 'v \<Rightarrow> mem option"
    and lo :: "'f \<Rightarrow> nat" and hi :: "'f \<Rightarrow> nat" and whi :: "'f \<Rightarrow> nat"
    and wf :: "'f \<Rightarrow> nat \<Rightarrow> bool"
    and ok :: "'f \<Rightarrow> 'v \<Rightarrow> bool"
    and norm :: "'f \<Rightarrow> 'v \<Rightarrow> 'v"
  assumes put_get: "wf f (length p) \<Longrightarrow> ok f v \<Longrightarrow>
      \<exists>p'. put f p v = Some p' \<and> get f p' = Some (norm f v) \<and> touches p p' (lo f) (whi f)"
    and get_frame: "wf f (length p) \<Longrightarrow> touches p p' a b \<Longrightarrow> hi f \<le> a \<or> b \<le> lo f \<Longrightarrow>
      get f p' = get f p"
begin

fun put_all :: "('f \<times> 'v) list \<Rightarrow> mem \<Rightarrow> mem option" where
  "put_all [] p = Some p"
| "put_all ((f, v) # xs) p = do { p \<leftarrow> put f p v; put_all xs p }"

definition spares :: "'f \<Rightarrow> 'f \<Rightarrow> bool" where
  \<comment> \<open>a store to \<open>f\<close> does not change what a load of \<open>g\<close> reads\<close>
  "spares f g \<longleftrightarrow> whi f \<le> lo g \<or> hi g \<le> lo f"

lemma put_other:
  assumes "wf f (length p)" "ok f v" "put f p v = Some p'" "wf g (length p)" "spares f g"
  shows "get g p' = get g p"
  using assms put_get [of f p v] get_frame [of g p p' "lo f" "whi f"] by (auto simp: spares_def)

text \<open>A sequence of stores, none of which clobbers an earlier one.\<close>

lemma put_all_get:
  assumes "\<forall>(f, v) \<in> set xs. wf f (length p) \<and> ok f v \<and> a \<le> lo f \<and> whi f \<le> b"
    and "sorted_wrt (\<lambda>(f, _) (g, _). spares g f) xs"
  shows "\<exists>p'. put_all xs p = Some p' \<and> touches p p' a b \<and>
              (\<forall>(f, v) \<in> set xs. get f p' = Some (norm f v)) \<and>
              (\<forall>g. wf g (length p) \<longrightarrow> (\<forall>(f, v) \<in> set xs. spares f g) \<longrightarrow> get g p' = get g p)"
  using assms
proof (induction xs arbitrary: p)
  case Nil
  then show ?case by (simp add: touches_refl)
next
  case (Cons x xs)
  obtain f v where x: "x = (f, v)" by (cases x)
  obtain p1 where p1: "put f p v = Some p1" "get f p1 = Some (norm f v)" "length p1 = length p"
      "touches p p1 a b"
    using put_get [of f p v] Cons.prems(1) x by (auto dest: touches_length intro: touches_mono)
  obtain p' where p': "put_all xs p1 = Some p'" "touches p1 p' a b"
      "\<forall>(f, v) \<in> set xs. get f p' = Some (norm f v)"
    and keep: "\<forall>g. wf g (length p1) \<longrightarrow> (\<forall>(f, v) \<in> set xs. spares f g) \<longrightarrow> get g p' = get g p1"
    using Cons.IH [of p1] Cons.prems p1(3) x by auto
  have "get f p' = get f p1"
  proof (rule keep [rule_format])
    show "wf f (length p1)" using Cons.prems(1) x p1(3) by simp
    fix y assume "y \<in> set xs"
    then show "case y of (g, v) \<Rightarrow> spares g f" using Cons.prems(2) x by auto
  qed
  moreover have "get g p' = get g p"
    if "wf g (length p)" "\<forall>(f, v) \<in> set (x # xs). spares f g" for g
    using that keep p1 x Cons.prems(1) put_other [of f p v p1 g] by auto
  ultimately show ?case
    using p1 p' x touches_trans [OF p1(4) p'(2)] by auto
qed

end

section \<open>The codec satisfies the contract\<close>

definition bf_wf :: "nat \<times> ib_field_t \<Rightarrow> nat \<Rightarrow> bool" where
  "bf_wf bf n \<longleftrightarrow> field_shape (snd bf) \<and> field_in n (fst bf) (snd bf)"

lemma spill_end_ge: "field_end b f \<le> spill_end b f"
  by (simp add: spill_end_def)

lemma set_field_put:
  assumes "field_shape f" "field_in (length p) base f"
  shows "\<exists>p'. set_field p base f v = Some p' \<and> get_field p' base f = Some (take_bit (bitlen f) v) \<and>
              touches p p' (field_start base f) (spill_end base f)"
proof -
  obtain p' where p': "set_field p base f v = Some p'" "length p' = length p"
    and bits: "\<And>m. buf_bit p' m =
                 (if field_start base f \<le> m \<and> m < field_end base f then bit v (m - field_start base f)
                  else if field_end base f \<le> m \<and> m < spill_end base f
                  then buf_bit p m \<or> bit v (m - field_start base f) else buf_bit p m)"
    using set_field_exact [OF assms, of v] by blast
  have "get_field p' base f = Some (take_bit (bitlen f) v)"
    using assms p'(2) by (auto simp: get_field_Some bits field_end_def bit_take_bit_iff)
  moreover have "touches p p' (field_start base f) (spill_end base f)"
    using p'(2) spill_end_ge [of base f] by (auto simp: touches_def bits field_end_def)
  ultimately show ?thesis using p'(1) by blast
qed

lemma get_field_frame:
  assumes "field_shape f" "field_in (length p) base f" "touches p p' a b"
    and "field_end base f \<le> a \<or> b \<le> field_start base f"
  shows "get_field p' base f = get_field p base f"
proof -
  have l: "length p' = length p" using assms(3) by (rule touches_length)
  have "buf_bit p' (field_start base f + j) = buf_bit p (field_start base f + j)" if "j < bitlen f" for j
    using that assms(2-4) by (auto simp: touches_def field_end_def field_in_def)
  then have "get_field p' base f = Some w \<longleftrightarrow> get_field p base f = Some w" for w
    using assms(1,2) l by (auto simp: get_field_Some)
  then show ?thesis by (metis not_None_eq)
qed

interpretation bf: field_store
  "\<lambda>(b, f) p. get_field p b f" "\<lambda>(b, f) p v. set_field p b f v"
  "\<lambda>(b, f). field_start b f" "\<lambda>(b, f). field_end b f" "\<lambda>(b, f). spill_end b f"
  bf_wf "\<lambda>_ _. True" "\<lambda>(b, f). take_bit (bitlen f)"
proof (unfold_locales, goal_cases)
  case (1 f p v)
  then show ?case using set_field_put by (cases f) (simp add: bf_wf_def)
next
  case (2 f p p' a b)
  then show ?case by (cases f) (auto simp: bf_wf_def intro: get_field_frame)
qed

subsection \<open>64-bit fields\<close>

definition q_wf :: "nat \<times> ib_field_t \<Rightarrow> nat \<Rightarrow> bool" where
  "q_wf bf n \<longleftrightarrow> bitlen (snd bf) = 64 \<and> bitoffs (snd bf) mod 32 = 0 \<and> 4 dvd fst bf \<and> 4 dvd n \<and>
     field_end (fst bf) (snd bf) \<le> 8 * n"

lemma htonll_bytes: "native_bytes e 8 (htonll e v) = rev (native_bytes LE 8 v)"
proof (cases e)
  case LE
  have "byte_of k (le_word (rev (native_bytes LE 8 v)) :: u64) = rev (native_bytes LE 8 v) ! k"
    if "k < 8" for k
    using that by (intro bit_word_eqI) (auto simp: bit_byte_of bit_le_word)
  then show ?thesis
    using LE by (intro nth_equalityI) (simp_all add: htonll_def nth_native_bytes)
next
  case BE
  then show ?thesis
    by (intro nth_equalityI) (simp_all add: htonll_def nth_native_bytes rev_nth)
qed

lemma ntohll_htonll: "ntohll e (htonll e v) = v"
proof -
  have "rev (native_bytes LE 8 (htonll LE v)) = native_bytes LE 8 v"
    by (simp add: htonll_bytes)
  then have "ntohll LE (htonll LE v) = le_word (native_bytes LE 8 v)"
    by (simp add: ntohll_def htonll_def [of LE "htonll LE v"])
  also have "\<dots> = v" using native_word_inverse [of 8 LE v] by (simp add: native_word_def)
  finally show ?thesis by (cases e) (simp_all add: ntohll_def htonll_def)
qed

lemma set_field64_store:
  "set_field64 e p b f v = mem_store p (b + bitoffs f div 8) (rev (native_bytes LE 8 v))"
  by (simp add: set_field64_def htonll_bytes)

lemma ntohll_bytes: "length bs = 8 \<Longrightarrow> ntohll e (native_word e bs) = le_word (rev bs)"
proof (cases e)
  case LE
  assume "length bs = 8"
  then have "native_bytes LE 8 (le_word bs :: u64) = bs"
    by (intro nth_equalityI, simp)
       (auto intro!: bit_word_eqI simp: nth_native_bytes bit_byte_of bit_le_word)
  then show ?thesis using LE by (simp add: ntohll_def htonll_def native_word_def)
next
  case BE
  then show ?thesis by (simp add: ntohll_def htonll_def native_word_def)
qed

lemma get_field64_load:
  "get_field64 e p b f = map_option (\<lambda>bs. le_word (rev bs)) (mem_load p (b + bitoffs f div 8) 8)"
  by (cases "mem_load p (b + bitoffs f div 8) 8")
     (simp_all add: get_field64_def ntohll_bytes length_mem_load)

lemma q_wf_byte:
  assumes "q_wf (b, f) n"
  shows "4 dvd b + bitoffs f div 8" and "field_start b f = 8 * (b + bitoffs f div 8)"
    and "field_end b f = 8 * (b + bitoffs f div 8 + 8)" and "b + bitoffs f div 8 + 8 \<le> n"
proof -
  obtain k where k: "bitoffs f = 32 * k" using assms by (auto simp: q_wf_def mod_eq_0_iff_dvd)
  show "4 dvd b + bitoffs f div 8" using assms k by (simp add: q_wf_def)
  show s: "field_start b f = 8 * (b + bitoffs f div 8)" using k by (simp add: field_start_def)
  show e: "field_end b f = 8 * (b + bitoffs f div 8 + 8)"
    using s assms by (simp add: field_end_def q_wf_def)
  show "b + bitoffs f div 8 + 8 \<le> n" using e assms unfolding q_wf_def by simp
qed

interpretation qf: field_store
  "\<lambda>(b, f) p. get_field64 e p b f" "\<lambda>(b, f) p v. set_field64 e' p b f v"
  "\<lambda>(b, f). field_start b f" "\<lambda>(b, f). field_end b f" "\<lambda>(b, f). field_end b f"
  q_wf "\<lambda>_ _. True" "\<lambda>_ v. v"
  for e e' :: endian
proof (unfold_locales, goal_cases)
  case (1 f p v)
  obtain b g where f: "f = (b, g)" by (cases f)
  note w = q_wf_byte [OF 1(1) [unfolded f]]
  let ?bs = "rev (native_bytes LE 8 v)"
  obtain p' where p': "mem_store p (b + bitoffs g div 8) ?bs = Some p'"
    using w(4) by (auto simp: mem_store_def)
  have "mem_load p' (b + bitoffs g div 8) 8 = Some ?bs" using mem_load_store_same [OF p'] by simp
  then have "get_field64 e p' b g = Some v"
    using le_word_inverse [of 8 v] by (simp add: get_field64_load native_bytes_def)
  then show ?case
    using p' mem_store_touches [OF p'] w(1-3) 1(1) by (simp add: f set_field64_store q_wf_def)
next
  case (2 f p p' x y)
  obtain b g where f: "f = (b, g)" by (cases f)
  note w = q_wf_byte [OF 2(1) [unfolded f]]
  have "4 dvd length p" using 2(1) f by (simp add: q_wf_def)
  then show ?case
    using touches_load [OF 2(2), of "b + bitoffs g div 8" 8] 2(3) w(1-3)
    by (simp add: f get_field64_load)
qed

subsection \<open>Arrays\<close>

definition a_wf :: "nat \<times> ib_field_t \<Rightarrow> nat \<Rightarrow> bool" where
  \<comment> \<open>arrays of whole 32-bit words\<close>
  "a_wf bf n \<longleftrightarrow> bitlen (snd bf) mod 32 = 0 \<and> 0 < bitlen (snd bf) \<and> bitoffs (snd bf) mod 32 = 0 \<and>
     4 dvd fst bf \<and> 4 dvd n \<and> field_end (fst bf) (snd bf) \<le> 8 * n"

definition get_array_bytes :: "nat \<times> ib_field_t \<Rightarrow> mem \<Rightarrow> mem option" where
  \<comment> \<open>\<open>get_array\<close> into a variable of exactly the size of the field\<close>
  "get_array_bytes bf p = get_array p (fst bf) (snd bf) (replicate (bitlen (snd bf) div 8) 0)"

lemma a_wf_byte:
  assumes "a_wf (b, f) n"
  shows "4 dvd b + array_offs f div 8" and "field_start b f = 8 * (b + array_offs f div 8)"
    and "field_end b f = 8 * (b + array_offs f div 8 + bitlen f div 8)"
    and "b + array_offs f div 8 + bitlen f div 8 \<le> n" and "4 dvd bitlen f div 8"
proof -
  obtain k where k: "bitoffs f = 32 * k" using assms by (auto simp: a_wf_def mod_eq_0_iff_dvd)
  obtain l where l: "bitlen f = 32 * l" using assms by (auto simp: a_wf_def mod_eq_0_iff_dvd)
  have off: "array_offs f = bitoffs f" using assms l by (auto simp: a_wf_def array_offs_def)
  show "4 dvd b + array_offs f div 8" using assms k by (simp add: a_wf_def off)
  show "4 dvd bitlen f div 8" using l by simp
  show s: "field_start b f = 8 * (b + array_offs f div 8)" using k by (simp add: field_start_def off)
  show e: "field_end b f = 8 * (b + array_offs f div 8 + bitlen f div 8)"
    using s l by (simp add: field_end_def)
  show "b + array_offs f div 8 + bitlen f div 8 \<le> n" using e assms by (simp add: a_wf_def)
qed

lemma get_array_bytes_load:
  "get_array_bytes (b, f) p = mem_load p (b + array_offs f div 8) (bitlen f div 8)"
  by (cases "mem_load p (b + array_offs f div 8) (bitlen f div 8)")
     (simp_all add: get_array_bytes_def get_array_def mem_store_def length_mem_load)

lemma set_array_store:
  "length v = bitlen f div 8 \<Longrightarrow> set_array p b f v = mem_store p (b + array_offs f div 8) v"
  by (simp add: set_array_def mem_load_def)

interpretation af: field_store
  get_array_bytes "\<lambda>(b, f) p v. set_array p b f v"
  "\<lambda>(b, f). field_start b f" "\<lambda>(b, f). field_end b f" "\<lambda>(b, f). field_end b f"
  a_wf "\<lambda>(b, f) v. length v = bitlen f div 8" "\<lambda>_ v. v"
proof (unfold_locales, goal_cases)
  case (1 f p v)
  obtain b g where f: "f = (b, g)" by (cases f)
  note w = a_wf_byte [OF 1(1) [unfolded f]]
  have l: "length v = bitlen g div 8" using 1(2) f by simp
  obtain p' where p': "mem_store p (b + array_offs g div 8) v = Some p'"
    using w(4) l by (auto simp: mem_store_def)
  then show ?case
    using mem_store_touches [OF p'] mem_load_store_same [OF p'] w(1-3,5) l 1(1)
    by (simp add: f set_array_store get_array_bytes_load a_wf_def)
next
  case (2 f p p' x y)
  obtain b g where f: "f = (b, g)" by (cases f)
  note w = a_wf_byte [OF 2(1) [unfolded f]]
  have "4 dvd length p" using 2(1) f by (simp add: a_wf_def)
  then show ?case
    using touches_load [OF 2(2) _ w(1,5)] 2(3) w(2,3) by (simp add: f get_array_bytes_load)
qed

end
