(* ===== verification/FieldCorrect.thy ===== *)
theory FieldCorrect
  imports FieldAccess
begin

text \<open>
  The correctness of the field accessors over the whole table: what a store does to every bit of
  the buffer, what a load reads, round trips, independence of the host byte order, and the two
  places where the table itself describes the wrong bits.
\<close>

lemma desc_shape:
  assumes "field_desc n = Some f" and "0 < bitlen f" and "bitlen f \<le> 32"
  shows "field_shape f"
  using field_desc_ok [OF assms(1)] assms(2,3) by (simp add: entry_ok_def)

section \<open>Stores and loads of the table's bit fields\<close>

lemma get_bytes_num:
  "get_bytes p i 2 v = do { b \<leftarrow> mem_rd p (3 XOR (i + 1)); get_bytes p i 1 (push_bit 8 v OR ucast b) }"
  "get_bytes p i 3 v = do { b \<leftarrow> mem_rd p (3 XOR (i + 2)); get_bytes p i 2 (push_bit 8 v OR ucast b) }"
  "get_bytes p i 4 v = do { b \<leftarrow> mem_rd p (3 XOR (i + 3)); get_bytes p i 3 (push_bit 8 v OR ucast b) }"
  by (simp_all add: numeral_eq_Suc)

lemmas eval_field = get_bytes_num mad_get_field_def field_descs get_field_def prebits_def postbits_def bytelen_def
  field_idx_def Let_def mem_rd_def

text \<open>
  C21: \<open>mad_set_field\<close> of any table field of at most 32 bits, in a buffer
  that holds the field, does not fault, keeps the length, writes bit \<open>k\<close> of the value to bit
  \<open>k\<close> of the field, and leaves every other bit of the buffer as it was, except that for a field
  with a partial last byte the surplus bits of a value that is too wide are or-ed into the rest of
  that byte (up to \<open>spill_end\<close>).
\<close>
theorem mad_set_field_exact:
  assumes "field_desc n = Some f" and "0 < bitlen f" and "bitlen f \<le> 32"
    and "field_in (length p) base f"
  shows "\<exists>p'. mad_set_field p base n v = Some p' \<and> length p' = length p \<and>
              (\<forall>m. buf_bit p' m =
                 (if field_start base f \<le> m \<and> m < field_end base f then bit v (m - field_start base f)
                  else if field_end base f \<le> m \<and> m < spill_end base f
                  then buf_bit p m \<or> bit v (m - field_start base f) else buf_bit p m))"
  using set_field_exact [OF desc_shape [OF assms(1-3)] assms(4), of v] assms(1)
  by (simp add: mad_set_field_def)

theorem mad_set_field_exact_witness:
  "\<exists>p'. mad_set_field (replicate 256 0) 0 IB_DRSMP_STATUS_F 0x1c = Some p' \<and>
        buf_bit p' 50 \<and> \<not> buf_bit p' 63"
proof -
  have f: "field_in (length (replicate 256 0 :: mem)) 0
      \<lparr>bitoffs = 48, bitlen = 15, name = ''DrSmpStatus'', def_dump_fn = Some Dump_hex\<rparr>"
    by (simp add: field_in_def field_end_def field_start_def)
  from mad_set_field_exact [OF fd_IB_DRSMP_STATUS_F _ _ f, of "0x1c"] obtain p' where
    p': "mad_set_field (replicate 256 0) 0 IB_DRSMP_STATUS_F 0x1c = Some p'"
    and bits: "\<And>m. buf_bit p' m = (if 48 \<le> m \<and> m < 63 then bit (0x1c :: u32) (m - 48)
        else if 63 \<le> m \<and> m < 64 then buf_bit (replicate 256 0) m \<or> bit (0x1c :: u32) (m - 48)
        else buf_bit (replicate 256 0) m)"
    by (auto simp: field_start_def field_end_def spill_end_def single_byte_def bytelen_def postbits_def)
  have "buf_bit p' 50" "\<not> buf_bit p' 63"
    unfolding bits by (simp_all add: buf_bit_def)
  with p' show ?thesis by blast
qed

text \<open>
  C28: \<open>mad_get_field\<close> of any table field of at most 32 bits, in a buffer
  that holds the field, does not fault, and bit \<open>k\<close> of its result is bit \<open>k\<close> of the field
  for \<open>k\<close> below the width and 0 above it.
\<close>
theorem mad_get_field_exact:
  assumes "field_desc n = Some f" and "0 < bitlen f" and "bitlen f \<le> 32"
    and "field_in (length p) base f"
  shows "\<exists>w. mad_get_field p base n = Some w \<and>
             (\<forall>k. bit w k \<longleftrightarrow> k < bitlen f \<and> buf_bit p (field_start base f + k))"
  using get_field_bits [OF desc_shape [OF assms(1-3)] assms(4)] assms(1)
  by (simp add: mad_get_field_def)

theorem mad_get_field_exact_witness:
  "\<exists>w. mad_get_field (replicate 64 0xff) 0 IB_PORT_LID_F = Some w \<and> bit w 15 \<and> \<not> bit w 16"
proof -
  have f: "field_in (length (replicate 64 0xff :: mem)) 0
      \<lparr>bitoffs = 144, bitlen = 16, name = ''Lid'', def_dump_fn = Some Dump_uint\<rparr>"
    by (simp add: field_in_def field_end_def field_start_def)
  from mad_get_field_exact [OF fd_IB_PORT_LID_F _ _ f] obtain w where
    w: "mad_get_field (replicate 64 0xff) 0 IB_PORT_LID_F = Some w"
      "\<And>k. bit w k \<longleftrightarrow> k < 16 \<and> buf_bit (replicate 64 0xff) (144 + k)"
    by (auto simp: field_start_def)
  have "buf_bit (replicate 64 0xff) 159" by (simp add: buf_bit_def)
  then have "bit w 15" using w(2) [of 15] by simp
  moreover have "\<not> bit w 16" using w(2) [of 16] by simp
  ultimately show ?thesis using w(1) by blast
qed

text \<open>
  C23: after storing a value that fits a field, reading the field returns the
  value, and reading any field of the table whose bits do not overlap it (at any base offsets)
  returns what it returned before.
\<close>
theorem mad_field_roundtrip:
  assumes "field_desc n = Some f" and "0 < bitlen f" and "bitlen f \<le> 32"
    and "field_in (length p) base f" and "unat v < 2 ^ bitlen f"
  shows "\<exists>p'. mad_set_field p base n v = Some p' \<and> mad_get_field p' base n = Some v \<and>
           (\<forall>m g base'. field_desc m = Some g \<and> 0 < bitlen g \<and> bitlen g \<le> 32 \<and>
              field_in (length p) base' g \<and> disjoint_bits base f base' g \<longrightarrow>
              mad_get_field p' base' m = mad_get_field p base' m)"
proof -
  note sh = desc_shape [OF assms(1-3)]
  from get_set_field_same [OF sh assms(4,5)]
  obtain p' where p': "set_field p base f v = Some p'" "get_field p' base f = Some v" by blast
  have "fits f v" using assms(5) by (simp add: fits_def)
  then have "get_field p' base' g = get_field p base' g"
    if "field_shape g" "field_in (length p) base' g" "disjoint_bits base f base' g" for g base'
    using get_set_field_other [OF sh assms(4) _ that p'(1)] by simp
  then show ?thesis
    using p' assms(1) desc_shape by (auto simp: mad_set_field_def mad_get_field_def)
qed

theorem mad_field_roundtrip_witness:
  "\<exists>p'. mad_set_field (replicate 64 0) 0 IB_PORT_LMC_F 5 = Some p' \<and>
        mad_get_field p' 0 IB_PORT_LMC_F = Some 5"
proof -
  have f: "field_in (length (replicate 64 0 :: mem)) 0
      \<lparr>bitoffs = 264, bitlen = 3, name = ''LMC'', def_dump_fn = Some Dump_uint\<rparr>"
    by (simp add: field_in_def field_end_def field_start_def)
  show ?thesis
    using mad_field_roundtrip [OF fd_IB_PORT_LMC_F _ _ f, of 5] by auto
qed

section \<open>64-bit fields: the wire format does not depend on the host\<close>

lemma desc_q_wf:
  assumes "field_desc n = Some f" "bitlen f = 64" "4 dvd base" "field_in len base f"
  shows "q_wf (base, f) len"
  using field_desc_ok [OF assms(1)] assms(2-) by (simp add: entry_ok_def q_wf_def field_in_def)

text \<open>
  C29: \<open>mad_set_field64\<close> of any 64-bit table field stores the value
  big-endian whatever the byte order of the host, so that a host of any byte order reads back the
  value, and no byte outside the eight changes.
\<close>
theorem mad_field64_wire:
  assumes "field_desc n = Some f" and "bitlen f = 64" and "4 dvd base"
    and "field_in (length p) base f"
  shows "\<exists>p'. mad_set_field64 host p base n v = Some p' \<and>
              mad_get_field64 other p' base n = Some v \<and> length p' = length p \<and>
              (\<forall>k < 8. p' ! (base + bitoffs f div 8 + k) = byte_of (7 - k) v) \<and>
              (\<forall>i < length p. i < base + bitoffs f div 8 \<or> base + bitoffs f div 8 + 8 \<le> i \<longrightarrow>
                 p' ! i = p ! i)"
proof -
  have wf: "q_wf (base, f) (length p)" by (rule desc_q_wf [OF assms])
  from qf.put_get [where f = "(base, f)" and p = p and v = v and e' = host and e = other] wf
  obtain p' where p': "set_field64 host p base f v = Some p'" "get_field64 other p' base f = Some v"
    by auto
  let ?a = "base + bitoffs f div 8"
  have st: "mem_store p ?a (rev (native_bytes LE 8 v)) = Some p'"
    using p'(1) by (simp add: set_field64_store)
  have len: "?a + 8 \<le> length p" by (rule q_wf_byte(4) [OF wf])
  have "p' ! (?a + k) = byte_of (7 - k) v" if "k < 8" for k
    using mem_store_nth [OF st, of "?a + k"] that len by (simp add: rev_nth nth_native_bytes)
  moreover have "p' ! i = p ! i" if "i < length p" "i < ?a \<or> ?a + 8 \<le> i" for i
    using mem_store_nth [OF st that(1)] that(2) by auto
  ultimately show ?thesis
    using p' assms(1) length_mem_store [OF st]
    by (simp add: mad_set_field64_def mad_get_field64_def)
qed

theorem mad_field64_wire_witness:
  "\<exists>p'. mad_set_field64 LE (replicate 16 0) 0 IB_GID_PREFIX_F 0xfe80000000000000 = Some p' \<and>
        mad_get_field64 BE p' 0 IB_GID_PREFIX_F = Some 0xfe80000000000000 \<and> p' ! 0 = 0xfe"
proof -
  have f: "field_in (length (replicate 16 0 :: mem)) 0
      \<lparr>bitoffs = 0, bitlen = 64, name = ''GidPrefix'', def_dump_fn = Some Dump_rhex\<rparr>"
    by (simp add: field_in_def field_end_def field_start_def)
  from mad_field64_wire [OF fd_IB_GID_PREFIX_F _ _ f, of LE "0xfe80000000000000" BE]
  obtain p' where p': "mad_set_field64 LE (replicate 16 0) 0 IB_GID_PREFIX_F 0xfe80000000000000 = Some p'"
      "mad_get_field64 BE p' 0 IB_GID_PREFIX_F = Some 0xfe80000000000000"
      "\<forall>k < 8. p' ! k = byte_of (7 - k) (0xfe80000000000000 :: u64)" by auto
  have "p' ! 0 = 0xfe" using p'(3) by (simp add: byte_of_def)
  with p' show ?thesis by blast
qed

section \<open>Decoding what was encoded\<close>

definition value_bytes :: "ib_field_t \<Rightarrow> nat" where
  \<comment> \<open>the size of the native variable that holds the value of a field\<close>
  "value_bytes f = (if bitlen f \<le> 32 then 4 else if bitlen f = 64 then 8 else bitlen f div 8)"

lemma native_bytes_word:
  assumes "length bs = n" and "LENGTH('a) = 8 * n"
  shows "native_bytes e n (native_word e bs :: 'a::len word) = bs"
proof -
  have le: "map (\<lambda>k. byte_of k (le_word xs :: 'a word)) [0..<n] = xs" if "length xs = n" for xs
    using that assms(2)
    by (intro nth_equalityI, simp) (auto intro!: bit_word_eqI simp: bit_byte_of bit_le_word)
  show ?thesis
  proof (cases e)
    case LE
    then show ?thesis using le assms(1) by (simp add: native_bytes_def native_word_def)
  next
    case BE
    have "map (\<lambda>k. byte_of (n - 1 - k) (le_word (rev bs) :: 'a word)) [0..<n] =
          rev (map (\<lambda>k. byte_of k (le_word (rev bs) :: 'a word)) [0..<n])"
      by (rule nth_equalityI) (simp_all add: rev_nth)
    then show ?thesis
      using BE le [of "rev bs"] assms(1) by (simp add: native_bytes_def native_word_def)
  qed
qed

lemma mem_store_full: "length val = length bs \<Longrightarrow> mem_store val 0 bs = Some bs"
  by (simp add: mem_store_def)

text \<open>
  C27: for every field of the table that has a descriptor, encoding a native
  value into a buffer that holds the field and decoding it again into a variable of the same size
  gives back the value byte for byte, on hosts of both byte orders. The only restriction is the one
  the C type imposes: the value of a field of at most 32 bits must fit its width.
\<close>
theorem mad_decode_encode:
  assumes "field_desc n = Some f" and "n \<noteq> 0" and "0 < bitlen f" and "field_in (length p) 0 f"
    and "length val = value_bytes f" and "length out = value_bytes f"
    and "bitlen f \<le> 32 \<Longrightarrow> unat (native_word host val :: u32) < 2 ^ bitlen f"
  shows "\<exists>p'. mad_encode_field host p n val = Some p' \<and> length p' = length p \<and>
              mad_decode_field host p' n out = Some val"
proof -
  consider "bitlen f \<le> 32" | "bitlen f = 64" | "32 < bitlen f" "bitlen f \<noteq> 64" by linarith
  then show ?thesis
  proof cases
    case 1
    note sh = desc_shape [OF assms(1,3) 1]
    from get_set_field_same [OF sh assms(4) assms(7) [OF 1]] obtain p' where
      "set_field p 0 f (native_word host val) = Some p'" "length p' = length p"
      "get_field p' 0 f = Some (native_word host val)" by blast
    then show ?thesis
      using 1 assms(1,2,5,6) native_bytes_word [of val 4 host, where 'a = 32]
      by (simp add: mad_encode_field_def mad_decode_field_def value_bytes_def mem_load_def mem_store_full)
  next
    case 2
    have "q_wf (0, f) (length p)" by (rule desc_q_wf [OF assms(1) 2 _ assms(4)]) simp
    from qf.put_get [OF this, where v = "native_word host val" and e' = host and e = host] obtain p' where
      "set_field64 host p 0 f (native_word host val) = Some p'"
      "get_field64 host p' 0 f = Some (native_word host val)" "length p' = length p"
      by (auto simp: touches_def)
    then show ?thesis
      using 2 assms(1,2,5,6) native_bytes_word [of val 8 host, where 'a = 64]
      by (simp add: mad_encode_field_def mad_decode_field_def value_bytes_def mem_load_def mem_store_full)
  next
    case 3
    have ok: "bitoffs f mod 8 = 0" "bitlen f mod 8 = 0"
      using field_desc_ok [OF assms(1)] 3 by (simp_all add: entry_ok_def)
    have off: "array_offs f = bitoffs f" using 3 by (simp add: array_offs_def)
    have l: "length val = bitlen f div 8" "length out = bitlen f div 8"
      using 3 assms(5,6) by (simp_all add: value_bytes_def)
    have "bitoffs f div 8 + length val \<le> length p"
      using assms(4) ok l(1) by (auto simp: field_in_def field_end_def field_start_def elim!: dvdE)
    then obtain p' where p': "mem_store p (bitoffs f div 8) val = Some p'" by (simp add: mem_store_def)
    have "set_array p 0 f val = Some p'" using p' l off by (simp add: set_array_store)
    moreover have "get_array p' 0 f out = Some val"
      using mem_load_store_same [OF p'] l off by (simp add: get_array_def mem_store_full)
    ultimately show ?thesis
      using 3 assms(1,2) length_mem_store [OF p']
      by (simp add: mad_encode_field_def mad_decode_field_def)
  qed
qed

theorem mad_decode_encode_witness:
  "\<exists>p'. mad_encode_field LE (replicate 64 0) IB_PORT_SMLID_F [0x34, 0x12, 0, 0] = Some p' \<and>
        mad_decode_field LE p' IB_PORT_SMLID_F [9, 9, 9, 9] = Some [0x34, 0x12, 0, 0]"
proof -
  have f: "field_in (length (replicate 64 0 :: mem)) 0
      \<lparr>bitoffs = 128, bitlen = 16, name = ''SMLid'', def_dump_fn = Some Dump_uint\<rparr>"
    by (simp add: field_in_def field_end_def field_start_def)
  have "unat (native_word LE [0x34, 0x12, 0, 0] :: u32) < 2 ^ 16"
    by (simp add: native_word_def)
  then show ?thesis
    using mad_decode_encode [OF fd_IB_PORT_SMLID_F _ _ f, of "[0x34, 0x12, 0, 0]" "[9, 9, 9, 9]" LE]
    by (auto simp: value_bytes_def c_eval)
qed

section \<open>Where the table describes the wrong bits\<close>

text \<open>
  Property: the descriptor of \<open>QP1Dropped\<close> (the only 16-bit counter
  entry written without \<open>BITSOFFS\<close>) denotes the bits of \<open>VL15Dropped\<close>: on every
  buffer and at every base offset the two fields read the same.
\<close>
theorem qp1_dropped_aliases_vl15:
  "mad_get_field p base IB_PC_QP1_DROP_F = mad_get_field p base IB_PC_VL15_DROPPED_F"
  by (simp add: mad_get_field_def field_descs get_field_def field_idx_def bytelen_def
      prebits_def postbits_def)

text \<open>
  Property: likewise \<open>HDRFECModeSupported\<close>, written as the plain pair
  \<open>112, 16\<close>, denotes the bits of \<open>EDRFECModeEnabled\<close>, so that storing the former
  overwrites the latter.
\<close>
theorem hdr_fec_aliases_edr:
  "mad_get_field p base IB_PORT_EXT_HDR_FEC_MODE_SUPPORTED_F =
     mad_get_field p base IB_PORT_EXT_EDR_FEC_MODE_ENABLED_F \<and>
   mad_set_field p base IB_PORT_EXT_HDR_FEC_MODE_SUPPORTED_F v =
     mad_set_field p base IB_PORT_EXT_EDR_FEC_MODE_ENABLED_F v"
  by (simp add: mad_get_field_def mad_set_field_def field_descs get_field_def set_field_def
      field_idx_def bytelen_def prebits_def postbits_def)

section \<open>The range of a value read\<close>

lemma get_field_small:
  assumes "field_desc n = Some f" "0 < bitlen f" "bitlen f \<le> 32" and "field_in (length data) 0 f"
  shows "\<exists>w. mad_get_field data 0 n = Some w \<and> get_field data 0 f = Some w \<and> unat w < 2 ^ bitlen f"
proof -
  obtain w where w: "get_field data 0 f = Some w" "\<And>j. bit w j \<longleftrightarrow> j < bitlen f \<and> buf_bit data (field_start 0 f + j)"
    using get_field_bits [OF desc_shape [OF assms(1-3)] assms(4)] by blast
  have "take_bit (bitlen f) w = w" using w(2) by (intro bit_word_eqI) (auto simp: bit_simps)
  then have "unat w = take_bit (bitlen f) (unat w)" by (metis unsigned_take_bit_eq)
  then have "unat w < 2 ^ bitlen f" by (metis take_bit_nat_less_exp)
  then show ?thesis using w(1) assms(1) by (simp add: mad_get_field_def)
qed

end
