(* ===== verification/MadTypes.thy ===== *)
theory MadTypes
  imports IbPrelude
begin

text \<open>
  The constants, structures and inline functions of \<open>libibmad/include/infiniband/mad.h\<close> that
  the packet layer shares. An \<open>int\<close> that the code only passes on, masks or stores in a
  field is its 32-bit pattern (\<open>u32\<close>); one that it orders or returns as a status is an HOL
  \<open>int\<close>; \<open>dataoffs\<close> and \<open>datasz\<close>, which every caller sets from the constants
  below, are \<open>nat\<close>.
\<close>

section \<open>Constants\<close>

text \<open>\<open>enum MAD_CLASSES\<close>\<close>

definition IB_SMI_CLASS :: u32 where [c_eval]: "IB_SMI_CLASS = 1"
definition IB_SMI_DIRECT_CLASS :: u32 where [c_eval]: "IB_SMI_DIRECT_CLASS = 0x81"
definition IB_SA_CLASS :: u32 where [c_eval]: "IB_SA_CLASS = 3"
definition IB_PERFORMANCE_CLASS :: u32 where [c_eval]: "IB_PERFORMANCE_CLASS = 4"
definition IB_BOARD_MGMT_CLASS :: u32 where [c_eval]: "IB_BOARD_MGMT_CLASS = 5"
definition IB_DEVICE_MGMT_CLASS :: u32 where [c_eval]: "IB_DEVICE_MGMT_CLASS = 6"
definition IB_CM_CLASS :: u32 where [c_eval]: "IB_CM_CLASS = 7"
definition IB_SNMP_CLASS :: u32 where [c_eval]: "IB_SNMP_CLASS = 8"
definition IB_VENDOR_RANGE1_START_CLASS :: u32 where [c_eval]: "IB_VENDOR_RANGE1_START_CLASS = 9"
definition IB_VENDOR_RANGE1_END_CLASS :: u32 where [c_eval]: "IB_VENDOR_RANGE1_END_CLASS = 0xf"
definition IB_CC_CLASS :: u32 where [c_eval]: "IB_CC_CLASS = 0x21"
definition IB_VENDOR_RANGE2_START_CLASS :: u32 where [c_eval]: "IB_VENDOR_RANGE2_START_CLASS = 0x30"
definition IB_VENDOR_RANGE2_END_CLASS :: u32 where [c_eval]: "IB_VENDOR_RANGE2_END_CLASS = 0x4f"

text \<open>\<open>enum MAD_METHODS\<close>\<close>

definition IB_MAD_METHOD_GET :: u32 where [c_eval]: "IB_MAD_METHOD_GET = 1"
definition IB_MAD_METHOD_SET :: u32 where [c_eval]: "IB_MAD_METHOD_SET = 2"
definition IB_MAD_METHOD_GET_RESPONSE :: u32 where [c_eval]: "IB_MAD_METHOD_GET_RESPONSE = 0x81"
definition IB_MAD_METHOD_SEND :: u32 where [c_eval]: "IB_MAD_METHOD_SEND = 3"
definition IB_MAD_METHOD_TRAP :: u32 where [c_eval]: "IB_MAD_METHOD_TRAP = 5"
definition IB_MAD_METHOD_TRAP_REPRESS :: u32 where [c_eval]: "IB_MAD_METHOD_TRAP_REPRESS = 7"
definition IB_MAD_METHOD_REPORT :: u32 where [c_eval]: "IB_MAD_METHOD_REPORT = 6"
definition IB_MAD_METHOD_REPORT_RESPONSE :: u32 where [c_eval]: "IB_MAD_METHOD_REPORT_RESPONSE = 0x86"
definition IB_MAD_METHOD_GET_TABLE :: u32 where [c_eval]: "IB_MAD_METHOD_GET_TABLE = 0x12"
definition IB_MAD_METHOD_GET_TABLE_RESPONSE :: u32 where [c_eval]: "IB_MAD_METHOD_GET_TABLE_RESPONSE = 0x92"
definition IB_MAD_METHOD_GET_TRACE_TABLE :: u32 where [c_eval]: "IB_MAD_METHOD_GET_TRACE_TABLE = 0x13"
definition IB_MAD_METHOD_GET_TRACE_TABLE_RESPONSE :: u32 where [c_eval]: "IB_MAD_METHOD_GET_TRACE_TABLE_RESPONSE = 0x93"
definition IB_MAD_METHOD_GETMULTI :: u32 where [c_eval]: "IB_MAD_METHOD_GETMULTI = 0x14"
definition IB_MAD_METHOD_GETMULTI_RESPONSE :: u32 where [c_eval]: "IB_MAD_METHOD_GETMULTI_RESPONSE = 0x94"
definition IB_MAD_METHOD_DELETE :: u32 where [c_eval]: "IB_MAD_METHOD_DELETE = 0x15"
definition IB_MAD_METHOD_DELETE_RESPONSE :: u32 where [c_eval]: "IB_MAD_METHOD_DELETE_RESPONSE = 0x95"
definition IB_MAD_RESPONSE :: u32 where [c_eval]: "IB_MAD_RESPONSE = 0x80"

text \<open>\<open>enum MAD_ATTR_ID\<close>\<close>

definition CLASS_PORT_INFO :: u32 where [c_eval]: "CLASS_PORT_INFO = 1"
definition NOTICE :: u32 where [c_eval]: "NOTICE = 2"
definition INFORM_INFO :: u32 where [c_eval]: "INFORM_INFO = 3"

text \<open>\<open>enum MAD_STATUS\<close>\<close>

definition IB_MAD_STS_OK :: u32 where [c_eval]: "IB_MAD_STS_OK = 0"
definition IB_MAD_STS_BUSY :: u32 where [c_eval]: "IB_MAD_STS_BUSY = 1"
definition IB_MAD_STS_REDIRECT :: u32 where [c_eval]: "IB_MAD_STS_REDIRECT = 2"
definition IB_MAD_STS_BAD_BASE_VER_OR_CLASS :: u32 where [c_eval]: "IB_MAD_STS_BAD_BASE_VER_OR_CLASS = 4"
definition IB_MAD_STS_METHOD_NOT_SUPPORTED :: u32 where [c_eval]: "IB_MAD_STS_METHOD_NOT_SUPPORTED = 8"
definition IB_MAD_STS_METHOD_ATTR_NOT_SUPPORTED :: u32 where [c_eval]: "IB_MAD_STS_METHOD_ATTR_NOT_SUPPORTED = 0xc"
definition IB_MAD_STS_INV_ATTR_VALUE :: u32 where [c_eval]: "IB_MAD_STS_INV_ATTR_VALUE = 0x1c"

text \<open>\<open>enum SMI_ATTR_ID\<close>\<close>

definition IB_ATTR_NODE_DESC :: u32 where [c_eval]: "IB_ATTR_NODE_DESC = 0x10"
definition IB_ATTR_NODE_INFO :: u32 where [c_eval]: "IB_ATTR_NODE_INFO = 0x11"
definition IB_ATTR_SWITCH_INFO :: u32 where [c_eval]: "IB_ATTR_SWITCH_INFO = 0x12"
definition IB_ATTR_GUID_INFO :: u32 where [c_eval]: "IB_ATTR_GUID_INFO = 0x14"
definition IB_ATTR_PORT_INFO :: u32 where [c_eval]: "IB_ATTR_PORT_INFO = 0x15"
definition IB_ATTR_PKEY_TBL :: u32 where [c_eval]: "IB_ATTR_PKEY_TBL = 0x16"
definition IB_ATTR_SLVL_TABLE :: u32 where [c_eval]: "IB_ATTR_SLVL_TABLE = 0x17"
definition IB_ATTR_VL_ARBITRATION :: u32 where [c_eval]: "IB_ATTR_VL_ARBITRATION = 0x18"
definition IB_ATTR_LINEARFORWTBL :: u32 where [c_eval]: "IB_ATTR_LINEARFORWTBL = 0x19"
definition IB_ATTR_MULTICASTFORWTBL :: u32 where [c_eval]: "IB_ATTR_MULTICASTFORWTBL = 0x1b"
definition IB_ATTR_LINKSPEEDWIDTHPAIRSTBL :: u32 where [c_eval]: "IB_ATTR_LINKSPEEDWIDTHPAIRSTBL = 0x1c"
definition IB_ATTR_VENDORMADSTBL :: u32 where [c_eval]: "IB_ATTR_VENDORMADSTBL = 0x1d"
definition IB_ATTR_SMINFO :: u32 where [c_eval]: "IB_ATTR_SMINFO = 0x20"
definition IB_ATTR_PORT_INFO_EXT :: u32 where [c_eval]: "IB_ATTR_PORT_INFO_EXT = 0x33"
definition IB_ATTR_LAST :: u32 where [c_eval]: "IB_ATTR_LAST = 0x34"
definition IB_ATTR_MLNX_EXT_PORT_INFO :: u32 where [c_eval]: "IB_ATTR_MLNX_EXT_PORT_INFO = 0xff90"

text \<open>\<open>enum SA_ATTR_ID\<close>\<close>

definition IB_SA_ATTR_NOTICE :: u32 where [c_eval]: "IB_SA_ATTR_NOTICE = 2"
definition IB_SA_ATTR_INFORMINFO :: u32 where [c_eval]: "IB_SA_ATTR_INFORMINFO = 3"
definition IB_SA_ATTR_NODERECORD :: u32 where [c_eval]: "IB_SA_ATTR_NODERECORD = 0x11"
definition IB_SA_ATTR_PORTINFORECORD :: u32 where [c_eval]: "IB_SA_ATTR_PORTINFORECORD = 0x12"
definition IB_SA_ATTR_SL2VLTABLERECORD :: u32 where [c_eval]: "IB_SA_ATTR_SL2VLTABLERECORD = 0x13"
definition IB_SA_ATTR_SWITCHINFORECORD :: u32 where [c_eval]: "IB_SA_ATTR_SWITCHINFORECORD = 0x14"
definition IB_SA_ATTR_LFTRECORD :: u32 where [c_eval]: "IB_SA_ATTR_LFTRECORD = 0x15"
definition IB_SA_ATTR_RFTRECORD :: u32 where [c_eval]: "IB_SA_ATTR_RFTRECORD = 0x16"
definition IB_SA_ATTR_MFTRECORD :: u32 where [c_eval]: "IB_SA_ATTR_MFTRECORD = 0x17"
definition IB_SA_ATTR_SMINFORECORD :: u32 where [c_eval]: "IB_SA_ATTR_SMINFORECORD = 0x18"
definition IB_SA_ATTR_LINKRECORD :: u32 where [c_eval]: "IB_SA_ATTR_LINKRECORD = 0x20"
definition IB_SA_ATTR_GUIDINFORECORD :: u32 where [c_eval]: "IB_SA_ATTR_GUIDINFORECORD = 0x30"
definition IB_SA_ATTR_SERVICERECORD :: u32 where [c_eval]: "IB_SA_ATTR_SERVICERECORD = 0x31"
definition IB_SA_ATTR_PKEYTABLERECORD :: u32 where [c_eval]: "IB_SA_ATTR_PKEYTABLERECORD = 0x33"
definition IB_SA_ATTR_PATHRECORD :: u32 where [c_eval]: "IB_SA_ATTR_PATHRECORD = 0x35"
definition IB_SA_ATTR_VLARBTABLERECORD :: u32 where [c_eval]: "IB_SA_ATTR_VLARBTABLERECORD = 0x36"
definition IB_SA_ATTR_MCRECORD :: u32 where [c_eval]: "IB_SA_ATTR_MCRECORD = 0x38"
definition IB_SA_ATTR_MULTIPATH :: u32 where [c_eval]: "IB_SA_ATTR_MULTIPATH = 0x3a"
definition IB_SA_ATTR_INFORMINFORECORD :: u32 where [c_eval]: "IB_SA_ATTR_INFORMINFORECORD = 0xf3"
definition IB_SA_ATTR_LAST :: u32 where [c_eval]: "IB_SA_ATTR_LAST = 0xf4"

text \<open>\<open>enum GSI_ATTR_ID\<close>\<close>

definition IB_GSI_PORT_SAMPLES_CONTROL :: u32 where [c_eval]: "IB_GSI_PORT_SAMPLES_CONTROL = 0x10"
definition IB_GSI_PORT_SAMPLES_RESULT :: u32 where [c_eval]: "IB_GSI_PORT_SAMPLES_RESULT = 0x11"
definition IB_GSI_PORT_COUNTERS :: u32 where [c_eval]: "IB_GSI_PORT_COUNTERS = 0x12"
definition IB_GSI_PORT_RCV_ERROR_DETAILS :: u32 where [c_eval]: "IB_GSI_PORT_RCV_ERROR_DETAILS = 0x15"
definition IB_GSI_PORT_XMIT_DISCARD_DETAILS :: u32 where [c_eval]: "IB_GSI_PORT_XMIT_DISCARD_DETAILS = 0x16"
definition IB_GSI_PORT_PORT_OP_RCV_COUNTERS :: u32 where [c_eval]: "IB_GSI_PORT_PORT_OP_RCV_COUNTERS = 0x17"
definition IB_GSI_PORT_PORT_FLOW_CTL_COUNTERS :: u32 where [c_eval]: "IB_GSI_PORT_PORT_FLOW_CTL_COUNTERS = 0x18"
definition IB_GSI_PORT_PORT_VL_OP_PACKETS :: u32 where [c_eval]: "IB_GSI_PORT_PORT_VL_OP_PACKETS = 0x19"
definition IB_GSI_PORT_PORT_VL_OP_DATA :: u32 where [c_eval]: "IB_GSI_PORT_PORT_VL_OP_DATA = 0x1a"
definition IB_GSI_PORT_PORT_VL_XMIT_FLOW_CTL_UPDATE_ERRORS :: u32 where [c_eval]: "IB_GSI_PORT_PORT_VL_XMIT_FLOW_CTL_UPDATE_ERRORS = 0x1b"
definition IB_GSI_PORT_PORT_VL_XMIT_WAIT_COUNTERS :: u32 where [c_eval]: "IB_GSI_PORT_PORT_VL_XMIT_WAIT_COUNTERS = 0x1c"
definition IB_GSI_PORT_COUNTERS_EXT :: u32 where [c_eval]: "IB_GSI_PORT_COUNTERS_EXT = 0x1d"
definition IB_GSI_PORT_EXT_SPEEDS_COUNTERS :: u32 where [c_eval]: "IB_GSI_PORT_EXT_SPEEDS_COUNTERS = 0x1f"
definition IB_GSI_SW_PORT_VL_CONGESTION :: u32 where [c_eval]: "IB_GSI_SW_PORT_VL_CONGESTION = 0x30"
definition IB_GSI_PORT_RCV_CON_CTRL :: u32 where [c_eval]: "IB_GSI_PORT_RCV_CON_CTRL = 0x31"
definition IB_GSI_PORT_SL_RCV_FECN :: u32 where [c_eval]: "IB_GSI_PORT_SL_RCV_FECN = 0x32"
definition IB_GSI_PORT_SL_RCV_BECN :: u32 where [c_eval]: "IB_GSI_PORT_SL_RCV_BECN = 0x33"
definition IB_GSI_PORT_XMIT_CON_CTRL :: u32 where [c_eval]: "IB_GSI_PORT_XMIT_CON_CTRL = 0x34"
definition IB_GSI_PORT_VL_XMIT_TIME_CONG :: u32 where [c_eval]: "IB_GSI_PORT_VL_XMIT_TIME_CONG = 0x35"
definition IB_GSI_PORT_XMIT_DATA_SL :: u32 where [c_eval]: "IB_GSI_PORT_XMIT_DATA_SL = 0x36"
definition IB_GSI_PORT_RCV_DATA_SL :: u32 where [c_eval]: "IB_GSI_PORT_RCV_DATA_SL = 0x37"
definition IB_GSI_ATTR_LAST :: u32 where [c_eval]: "IB_GSI_ATTR_LAST = 0x38"

text \<open>\<open>enum BM_ATTR_ID\<close>\<close>

definition IB_BM_ATTR_BKEYINFO :: u32 where [c_eval]: "IB_BM_ATTR_BKEYINFO = 0x10"
definition IB_BM_ATTR_WRITE_VPD :: u32 where [c_eval]: "IB_BM_ATTR_WRITE_VPD = 0x20"
definition IB_BM_ATTR_READ_VPD :: u32 where [c_eval]: "IB_BM_ATTR_READ_VPD = 0x21"
definition IB_BM_ATTR_RESET_IBML :: u32 where [c_eval]: "IB_BM_ATTR_RESET_IBML = 0x22"
definition IB_BM_ATTR_SET_MODULE_PM_CONTROL :: u32 where [c_eval]: "IB_BM_ATTR_SET_MODULE_PM_CONTROL = 0x23"
definition IB_BM_ATTR_GET_MODULE_PM_CONTROL :: u32 where [c_eval]: "IB_BM_ATTR_GET_MODULE_PM_CONTROL = 0x24"
definition IB_BM_ATTR_SET_UNIT_PM_CONTROL :: u32 where [c_eval]: "IB_BM_ATTR_SET_UNIT_PM_CONTROL = 0x25"
definition IB_BM_ATTR_GET_UNIT_PM_CONTROL :: u32 where [c_eval]: "IB_BM_ATTR_GET_UNIT_PM_CONTROL = 0x26"
definition IB_BM_ATTR_SET_IOC_PM_CONTROL :: u32 where [c_eval]: "IB_BM_ATTR_SET_IOC_PM_CONTROL = 0x27"
definition IB_BM_ATTR_GET_IOC_PM_CONTROL :: u32 where [c_eval]: "IB_BM_ATTR_GET_IOC_PM_CONTROL = 0x28"
definition IB_BM_ATTR_SET_MODULE_STATE :: u32 where [c_eval]: "IB_BM_ATTR_SET_MODULE_STATE = 0x29"
definition IB_BM_ATTR_SET_MODULE_ATTENTION :: u32 where [c_eval]: "IB_BM_ATTR_SET_MODULE_ATTENTION = 0x2a"
definition IB_BM_ATTR_GET_MODULE_STATUS :: u32 where [c_eval]: "IB_BM_ATTR_GET_MODULE_STATUS = 0x2b"
definition IB_BM_ATTR_IB2IBML :: u32 where [c_eval]: "IB_BM_ATTR_IB2IBML = 0x2c"
definition IB_BM_ATTR_IB2CME :: u32 where [c_eval]: "IB_BM_ATTR_IB2CME = 0x2d"
definition IB_BM_ATTR_IB2MME :: u32 where [c_eval]: "IB_BM_ATTR_IB2MME = 0x2e"
definition IB_BM_ATTR_OEM :: u32 where [c_eval]: "IB_BM_ATTR_OEM = 0x2f"
definition IB_BM_ATTR_LAST :: u32 where [c_eval]: "IB_BM_ATTR_LAST = 0x30"

text \<open>\<open>enum CC_ATTRI_ID\<close>\<close>

definition IB_CC_ATTR_CONGESTION_INFO :: u32 where [c_eval]: "IB_CC_ATTR_CONGESTION_INFO = 0x11"
definition IB_CC_ATTR_CONGESTION_KEY_INFO :: u32 where [c_eval]: "IB_CC_ATTR_CONGESTION_KEY_INFO = 0x12"
definition IB_CC_ATTR_CONGESTION_LOG :: u32 where [c_eval]: "IB_CC_ATTR_CONGESTION_LOG = 0x13"
definition IB_CC_ATTR_SWITCH_CONGESTION_SETTING :: u32 where [c_eval]: "IB_CC_ATTR_SWITCH_CONGESTION_SETTING = 0x14"
definition IB_CC_ATTR_SWITCH_PORT_CONGESTION_SETTING :: u32 where [c_eval]: "IB_CC_ATTR_SWITCH_PORT_CONGESTION_SETTING = 0x15"
definition IB_CC_ATTR_CA_CONGESTION_SETTING :: u32 where [c_eval]: "IB_CC_ATTR_CA_CONGESTION_SETTING = 0x16"
definition IB_CC_ATTR_CONGESTION_CONTROL_TABLE :: u32 where [c_eval]: "IB_CC_ATTR_CONGESTION_CONTROL_TABLE = 0x17"
definition IB_CC_ATTR_TIMESTAMP :: u32 where [c_eval]: "IB_CC_ATTR_TIMESTAMP = 0x18"

text \<open>\<open>enum RMPP_TYPE_ENUM\<close>\<close>

definition IB_RMPP_TYPE_NONE :: u32 where [c_eval]: "IB_RMPP_TYPE_NONE = 0"
definition IB_RMPP_TYPE_DATA :: u32 where [c_eval]: "IB_RMPP_TYPE_DATA = 1"
definition IB_RMPP_TYPE_ACK :: u32 where [c_eval]: "IB_RMPP_TYPE_ACK = 2"
definition IB_RMPP_TYPE_STOP :: u32 where [c_eval]: "IB_RMPP_TYPE_STOP = 3"
definition IB_RMPP_TYPE_ABORT :: u32 where [c_eval]: "IB_RMPP_TYPE_ABORT = 4"

text \<open>\<open>enum RMPP_FLAGS_ENUM\<close>\<close>

definition IB_RMPP_FLAG_ACTIVE :: u32 where [c_eval]: "IB_RMPP_FLAG_ACTIVE = 1"
definition IB_RMPP_FLAG_FIRST :: u32 where [c_eval]: "IB_RMPP_FLAG_FIRST = 2"
definition IB_RMPP_FLAG_LAST :: u32 where [c_eval]: "IB_RMPP_FLAG_LAST = 4"

text \<open>\<open>enum MAD_NODE_TYPE\<close>\<close>

definition IB_NODE_CA :: u32 where [c_eval]: "IB_NODE_CA = 1"
definition IB_NODE_SWITCH :: u32 where [c_eval]: "IB_NODE_SWITCH = 2"
definition IB_NODE_ROUTER :: u32 where [c_eval]: "IB_NODE_ROUTER = 3"
definition NODE_RNIC :: u32 where [c_eval]: "NODE_RNIC = 4"
definition IB_NODE_MAX :: u32 where [c_eval]: "IB_NODE_MAX = 4"

text \<open>sizes and offsets\<close>

definition IB_MAD_RPC_VERSION_MASK :: u32 where [c_eval]: "IB_MAD_RPC_VERSION_MASK = 0x0f00"
definition IB_MAD_RPC_VERSION1 :: u32 where [c_eval]: "IB_MAD_RPC_VERSION1 = 0x100"
definition IB_SUBNET_PATH_HOPS_MAX :: nat where [c_eval]: "IB_SUBNET_PATH_HOPS_MAX = 64"
definition IB_DEFAULT_SUBN_PREFIX :: u64 where [c_eval]: "IB_DEFAULT_SUBN_PREFIX = 0xfe80000000000000"
definition IB_DEFAULT_QP1_QKEY :: u32 where [c_eval]: "IB_DEFAULT_QP1_QKEY = 0x80010000"
definition IB_MAD_SIZE :: nat where [c_eval]: "IB_MAD_SIZE = 256"
definition IB_SMP_DATA_OFFS :: nat where [c_eval]: "IB_SMP_DATA_OFFS = 64"
definition IB_SMP_DATA_SIZE :: nat where [c_eval]: "IB_SMP_DATA_SIZE = 64"
definition IB_VENDOR_RANGE1_DATA_OFFS :: nat where [c_eval]: "IB_VENDOR_RANGE1_DATA_OFFS = 24"
definition IB_VENDOR_RANGE1_DATA_SIZE :: nat where [c_eval]: "IB_VENDOR_RANGE1_DATA_SIZE = IB_MAD_SIZE - IB_VENDOR_RANGE1_DATA_OFFS"
definition IB_VENDOR_RANGE2_DATA_OFFS :: nat where [c_eval]: "IB_VENDOR_RANGE2_DATA_OFFS = 40"
definition IB_VENDOR_RANGE2_DATA_SIZE :: nat where [c_eval]: "IB_VENDOR_RANGE2_DATA_SIZE = IB_MAD_SIZE - IB_VENDOR_RANGE2_DATA_OFFS"
definition IB_SA_DATA_SIZE :: nat where [c_eval]: "IB_SA_DATA_SIZE = 200"
definition IB_SA_DATA_OFFS :: nat where [c_eval]: "IB_SA_DATA_OFFS = 56"
definition IB_PC_DATA_OFFS :: nat where [c_eval]: "IB_PC_DATA_OFFS = 64"
definition IB_PC_DATA_SZ :: nat where [c_eval]: "IB_PC_DATA_SZ = IB_MAD_SIZE - IB_PC_DATA_OFFS"
definition IB_SA_MCM_RECSZ :: nat where [c_eval]: "IB_SA_MCM_RECSZ = 53"
definition IB_SA_PR_RECSZ :: nat where [c_eval]: "IB_SA_PR_RECSZ = 64"
definition IB_SA_NR_RECSZ :: nat where [c_eval]: "IB_SA_NR_RECSZ = 108"
definition IB_SA_GIR_RECSZ :: nat where [c_eval]: "IB_SA_GIR_RECSZ = 72"
definition IB_BM_DATA_OFFS :: nat where [c_eval]: "IB_BM_DATA_OFFS = 64"
definition IB_BM_DATA_SZ :: nat where [c_eval]: "IB_BM_DATA_SZ = IB_MAD_SIZE - IB_BM_DATA_OFFS"
definition IB_BM_BKEY_OFFS :: nat where [c_eval]: "IB_BM_BKEY_OFFS = 24"
definition IB_BM_BKEY_AND_DATA_SZ :: nat where [c_eval]: "IB_BM_BKEY_AND_DATA_SZ = IB_MAD_SIZE - IB_BM_BKEY_OFFS"
definition IB_CC_DATA_OFFS :: nat where [c_eval]: "IB_CC_DATA_OFFS = 64"
definition IB_CC_DATA_SZ :: nat where [c_eval]: "IB_CC_DATA_SZ = IB_MAD_SIZE - IB_CC_DATA_OFFS"
definition IB_CC_LOG_DATA_OFFS :: nat where [c_eval]: "IB_CC_LOG_DATA_OFFS = 32"
definition IB_CC_LOG_DATA_SZ :: nat where [c_eval]: "IB_CC_LOG_DATA_SZ = IB_MAD_SIZE - IB_CC_LOG_DATA_OFFS"
definition IB_VENDOR_OPENIB_PING_CLASS :: u32 where [c_eval]: "IB_VENDOR_OPENIB_PING_CLASS = IB_VENDOR_RANGE2_START_CLASS + 2"
definition IB_VENDOR_OPENIB_SYSSTAT_CLASS :: u32 where [c_eval]: "IB_VENDOR_OPENIB_SYSSTAT_CLASS = IB_VENDOR_RANGE2_START_CLASS + 3"
definition IB_OPENIB_OUI :: u32 where [c_eval]: "IB_OPENIB_OUI = 0x001405"
definition IB_MIN_UCAST_LID :: int where [c_eval]: "IB_MIN_UCAST_LID = 1"
definition IB_MAX_UCAST_LID :: int where [c_eval]: "IB_MAX_UCAST_LID = 0xc000-1"
definition IB_MIN_MCAST_LID :: int where [c_eval]: "IB_MIN_MCAST_LID = 0xc000"
definition IB_MAX_MCAST_LID :: int where [c_eval]: "IB_MAX_MCAST_LID = 0xffff-1"
definition MAD_DEF_RETRIES :: int where [c_eval]: "MAD_DEF_RETRIES = 3"
definition MAD_DEF_TIMEOUT_MS :: int where [c_eval]: "MAD_DEF_TIMEOUT_MS = 1000"

text \<open>the \<open>errno\<close> values the library sets or tests (Linux)\<close>

definition EIO :: int where [c_eval]: "EIO = 5"
definition ENXIO :: int where [c_eval]: "ENXIO = 6"
definition ENOMEM :: int where [c_eval]: "ENOMEM = 12"
definition ENODEV :: int where [c_eval]: "ENODEV = 19"
definition EINVAL :: int where [c_eval]: "EINVAL = 22"
definition ETIMEDOUT :: int where [c_eval]: "ETIMEDOUT = 110"

section \<open>Structures\<close>

record ib_dr_path_t =
  cnt :: int
  hops :: "u8 list" \<comment> \<open>\<open>uint8_t p[IB_SUBNET_PATH_HOPS_MAX]\<close>\<close>
  drslid :: u16
  drdlid :: u16

text \<open>
  \<open>ib_rpc_t\<close>, \<open>ib_rpc_v1_t\<close> and \<open>ib_rpc_cc_t\<close> have a common prefix, and the code casts
  between them; the record has the fields of the longest.
\<close>

record ib_rpc_t =
  r_mgtclass :: u32
  r_method :: u32
  r_attr_id :: u32
  r_attr_mod :: u32
  r_rstatus :: u32
  r_dataoffs :: nat
  r_datasz :: nat
  r_mkey :: u64
  r_trid :: u64
  r_mask :: u64
  r_recsz :: u32
  r_timeout :: int
  r_oui :: u32
  r_error :: int \<comment> \<open>of \<open>ib_rpc_v1_t\<close>\<close>
  r_cckey :: u64 \<comment> \<open>of \<open>ib_rpc_cc_t\<close>\<close>

definition rpc_zero :: ib_rpc_t where
  \<comment> \<open>\<open>ib_rpc_t rpc = { 0 }\<close>\<close>
  "rpc_zero = \<lparr>r_mgtclass = 0, r_method = 0, r_attr_id = 0, r_attr_mod = 0, r_rstatus = 0,
     r_dataoffs = 0, r_datasz = 0, r_mkey = 0, r_trid = 0, r_mask = 0, r_recsz = 0,
     r_timeout = 0, r_oui = 0, r_error = 0, r_cckey = 0\<rparr>"

record ib_portid_t =
  pt_lid :: int
  pt_drpath :: ib_dr_path_t
  pt_grh_present :: bool
  pt_gid :: "u8 list" \<comment> \<open>16 bytes\<close>
  pt_qp :: u32
  pt_qkey :: u32
  pt_sl :: u8
  pt_pkey_idx :: u32

definition dr_path_zero :: ib_dr_path_t where
  "dr_path_zero = \<lparr>cnt = 0, hops = replicate 64 0, drslid = 0, drdlid = 0\<rparr>"

definition portid_zero :: ib_portid_t where
  \<comment> \<open>\<open>ib_portid_t self = { 0 }\<close>\<close>
  "portid_zero = \<lparr>pt_lid = 0, pt_drpath = dr_path_zero, pt_grh_present = False,
     pt_gid = replicate 16 0, pt_qp = 0, pt_qkey = 0, pt_sl = 0, pt_pkey_idx = 0\<rparr>"

record ib_rmpp_hdr_t =
  rm_type :: u32
  rm_flags :: u32
  rm_status :: u32
  rm_d1 :: u32
  rm_d2 :: u32

text \<open>\<open>struct ibmad_port\<close> of \<open>mad_internal.h\<close>\<close>

record ibmad_port =
  port_id :: int
  class_agents :: "int list" \<comment> \<open>\<open>int class_agents[MAX_CLASS]\<close>\<close>
  mp_timeout :: int
  mp_retries :: int
  smp_mkey :: u64

definition MAX_CLASS :: nat where [c_eval]: "MAX_CLASS = 256"

text \<open>
  The static variables of the library (\<open>mad.c\<close>, \<open>rpc.c\<close>). \<open>g_random\<close> is the value
  \<open>random()\<close> yields when \<open>mad_trid\<close> seeds its counter.
\<close>

record mad_globals =
  g_trid :: u64
  g_random :: u64
  madrpc_retries :: int
  madrpc_timeout :: int

section \<open>Inline functions\<close>

definition ib_portid_set :: "ib_portid_t \<Rightarrow> int \<Rightarrow> u32 \<Rightarrow> u32 \<Rightarrow> ib_portid_t" where
  "ib_portid_set portid lid qp qkey =
     portid\<lparr>pt_lid := lid, pt_qp := qp, pt_qkey := qkey, pt_grh_present := False\<rparr>"

definition mad_is_vendor_range1 :: "u32 \<Rightarrow> bool" where
  "mad_is_vendor_range1 mgmt \<longleftrightarrow> sint mgmt \<ge> 0x9 \<and> sint mgmt \<le> 0xf"

definition mad_is_vendor_range2 :: "u32 \<Rightarrow> bool" where
  "mad_is_vendor_range2 mgmt \<longleftrightarrow> sint mgmt \<ge> 0x30 \<and> sint mgmt \<le> 0x4f"

definition IB_LID_VALID :: "int \<Rightarrow> bool" where
  "IB_LID_VALID lid \<longleftrightarrow> lid \<ge> IB_MIN_UCAST_LID \<and> lid \<le> IB_MAX_UCAST_LID"

definition IB_MLID_VALID :: "int \<Rightarrow> bool" where
  "IB_MLID_VALID lid \<longleftrightarrow> lid \<ge> IB_MIN_MCAST_LID \<and> lid \<le> IB_MAX_MCAST_LID"

lemma lid_ranges_disjoint: "IB_LID_VALID lid \<Longrightarrow> \<not> IB_MLID_VALID lid"
  by (simp add: IB_LID_VALID_def IB_MLID_VALID_def c_eval)

end
