(* ===== verification/MadPacket.thy ===== *)
theory MadPacket
  imports FieldAccess MadTypes
begin

text \<open>
  Building a MAD (\<open>libibmad/src/mad.c\<close>): transaction identifiers, the timeout and retry
  defaults, \<open>mad_encode\<close> and \<open>mad_build_pkt\<close>.

  \<open>mad_encode\<close> returns \<open>None\<close> only for an access outside a buffer; otherwise its first
  component is \<open>Some errno\<close> where the code returns \<open>NULL\<close> and \<open>None\<close> where it
  returns the end of the MAD, and the others are the buffer, the \<open>ib_rpc_t\<close> (in which it may
  store a transaction id) and the static counter. The \<open>umad_set_*\<close> functions of
  \<open>libibumad\<close>, which are not part of the repository, are represented by the arguments they are
  called with: a packet under construction is those arguments together with the 256 bytes of its
  MAD.
\<close>

section \<open>Transaction identifiers and defaults\<close>

definition mad_trid :: "mad_globals \<Rightarrow> u64 \<times> mad_globals" where
  "mad_trid g =
     (let trid = (if g_trid g = 0 then g_random g else g_trid g);
          trid = trid + 1;
          next' = trid AND 0x00000000ffffffff
      in (next', g\<lparr>g_trid := trid\<rparr>))"

definition mad_get_timeout :: "mad_globals \<Rightarrow> ibmad_port \<Rightarrow> int \<Rightarrow> int" where
  "mad_get_timeout g srcport override_ms =
     (if override_ms \<noteq> 0 then override_ms
      else if mp_timeout srcport \<noteq> 0 then mp_timeout srcport else madrpc_timeout g)"

definition mad_get_retries :: "mad_globals \<Rightarrow> ibmad_port \<Rightarrow> int" where
  "mad_get_retries g srcport =
     (if mp_retries srcport \<noteq> 0 then mp_retries srcport else madrpc_retries g)"

section \<open>mad_encode\<close>

text \<open>The statements of \<open>mad_encode\<close>, word by word as the source comments them.\<close>

definition encode_first_word :: "mem \<Rightarrow> ib_rpc_t \<Rightarrow> mem option" where
  "encode_first_word buf rpc = do {
     let is_resp = (r_method rpc AND IB_MAD_RESPONSE \<noteq> 0);
     buf \<leftarrow> mad_set_field buf 0 IB_MAD_METHOD_F (r_method rpc);
     buf \<leftarrow> mad_set_field buf 0 IB_MAD_RESPONSE_F (if is_resp then 1 else 0);
     let mgtclass = r_mgtclass rpc AND 0xff;
     buf \<leftarrow> mad_set_field buf 0 IB_MAD_CLASSVER_F
              (if mgtclass = IB_SA_CLASS \<or> mgtclass = IB_CC_CLASS then 2 else 1);
     buf \<leftarrow> mad_set_field buf 0 IB_MAD_MGMTCLASS_F (r_mgtclass rpc AND 0xff);
     mad_set_field buf 0 IB_MAD_BASEVER_F 1
   }"

definition encode_second_word_dr :: "mem \<Rightarrow> ib_rpc_t \<Rightarrow> ib_dr_path_t \<Rightarrow> mem option" where
  "encode_second_word_dr buf rpc drpath = do {
     let is_resp = (r_method rpc AND IB_MAD_RESPONSE \<noteq> 0);
     buf \<leftarrow> mad_set_field buf 0 IB_DRSMP_HOPCNT_F (word_of_int (cnt drpath));
     buf \<leftarrow> mad_set_field buf 0 IB_DRSMP_HOPPTR_F
              (if is_resp then word_of_int (cnt drpath + 1) else 0);
     buf \<leftarrow> mad_set_field buf 0 IB_DRSMP_STATUS_F (r_rstatus rpc);
     mad_set_field buf 0 IB_DRSMP_DIRECTION_F (if is_resp then 1 else 0)
   }"

definition encode_ids :: "endian \<Rightarrow> mem \<Rightarrow> ib_rpc_t \<Rightarrow> mem option" where
  \<comment> \<open>words 3 to 8: transaction id, attribute id and modifier, M_Key\<close>
  "encode_ids e buf rpc = do {
     buf \<leftarrow> mad_set_field64 e buf 0 IB_MAD_TRID_F (r_trid rpc);
     buf \<leftarrow> mad_set_field buf 0 IB_MAD_ATTRID_F (r_attr_id rpc);
     buf \<leftarrow> mad_set_field buf 0 IB_MAD_ATTRMOD_F (r_attr_mod rpc);
     mad_set_field64 e buf 0 IB_MAD_MKEY_F (r_mkey rpc)
   }"

definition encode_dr :: "mem \<Rightarrow> ib_rpc_t \<Rightarrow> ib_dr_path_t \<Rightarrow> mem option" where
  \<comment> \<open>word 9, and the initial or the return path\<close>
  "encode_dr buf rpc drpath = do {
     let is_resp = (r_method rpc AND IB_MAD_RESPONSE \<noteq> 0);
     buf \<leftarrow> mad_set_field buf 0 IB_DRSMP_DRDLID_F
              (if drdlid drpath \<noteq> 0 then ucast (drdlid drpath) else 0xffff);
     buf \<leftarrow> mad_set_field buf 0 IB_DRSMP_DRSLID_F
              (if drslid drpath \<noteq> 0 then ucast (drslid drpath) else 0xffff);
     if is_resp then mad_set_array buf 0 IB_DRSMP_RPATH_F (hops drpath)
     else mad_set_array buf 0 IB_DRSMP_PATH_F (hops drpath)
   }"

definition encode_class_data :: "endian \<Rightarrow> mem \<Rightarrow> ib_rpc_t \<Rightarrow> mem option \<Rightarrow> mem option" where
  \<comment> \<open>SA component mask, CC key, payload, vendor OUI\<close>
  "encode_class_data e buf rpc data = do {
     buf \<leftarrow> (if r_mgtclass rpc AND 0xff = IB_SA_CLASS
              then mad_set_field64 e buf 0 IB_SA_COMPMASK_F (r_mask rpc) else Some buf);
     buf \<leftarrow> (if r_mgtclass rpc AND 0xff = IB_CC_CLASS
              then mad_set_field64 e buf 0 IB_CC_CCKEY_F (r_cckey rpc) else Some buf);
     buf \<leftarrow> (case data of None \<Rightarrow> Some buf
              | Some d \<Rightarrow> do { bs \<leftarrow> mem_load d 0 (r_datasz rpc); mem_store buf (r_dataoffs rpc) bs });
     if mad_is_vendor_range2 (r_mgtclass rpc AND 0xff)
     then mad_set_field buf 0 IB_VEND2_OUI_F (r_oui rpc) else Some buf
   }"

definition mad_encode ::
    "endian \<Rightarrow> mad_globals \<Rightarrow> mem \<Rightarrow> ib_rpc_t \<Rightarrow> ib_dr_path_t option \<Rightarrow> mem option \<Rightarrow>
     (int option \<times> mem \<times> ib_rpc_t \<times> mad_globals) option" where
  "mad_encode e g buf rpc drpath data = do {
     buf \<leftarrow> encode_first_word buf rpc;
     let dr = (r_mgtclass rpc AND 0xff = IB_SMI_DIRECT_CLASS);
     if dr \<and> drpath = None then Some (Some EINVAL, buf, rpc, g)
     else if dr \<and> cnt (the drpath) \<ge> int IB_SUBNET_PATH_HOPS_MAX then Some (Some EINVAL, buf, rpc, g)
     else do {
       buf \<leftarrow> (if dr then encode_second_word_dr buf rpc (the drpath)
                else mad_set_field buf 0 IB_MAD_STATUS_F (r_rstatus rpc));
       let (rpc, g) = (if r_trid rpc = 0
                       then (let (t, g') = mad_trid g in (rpc\<lparr>r_trid := t\<rparr>, g'))
                       else (rpc, g));
       buf \<leftarrow> encode_ids e buf rpc;
       buf \<leftarrow> (if dr then encode_dr buf rpc (the drpath) else Some buf);
       buf \<leftarrow> encode_class_data e buf rpc data;
       Some (None, buf, rpc, g)
     }
   }"

section \<open>mad_build_pkt\<close>

record umad_pkt =
  um_addr :: "int \<times> u32 \<times> u32 \<times> u32" \<comment> \<open>\<open>umad_set_addr\<close>: dlid, dqp, sl, qkey\<close>
  um_grh :: "(u8 list \<times> u32 \<times> u32 \<times> u32) option"
    \<comment> \<open>\<open>umad_set_grh\<close>: gid, hop limit, traffic class, flow label\<close>
  um_pkey :: u32 \<comment> \<open>\<open>umad_set_pkey\<close>\<close>
  um_mad :: mem \<comment> \<open>the bytes at \<open>umad_get_mad\<close>\<close>

definition encode_rmpp :: "mem \<Rightarrow> ib_rmpp_hdr_t \<Rightarrow> mem option" where
  "encode_rmpp mad rmpp = do {
     mad \<leftarrow> mad_set_field mad 0 IB_SA_RMPP_VERS_F 1;
     mad \<leftarrow> mad_set_field mad 0 IB_SA_RMPP_TYPE_F (rm_type rmpp);
     mad \<leftarrow> mad_set_field mad 0 IB_SA_RMPP_RESP_F 0x3f;
     mad \<leftarrow> mad_set_field mad 0 IB_SA_RMPP_FLAGS_F (rm_flags rmpp);
     mad \<leftarrow> mad_set_field mad 0 IB_SA_RMPP_STATUS_F (rm_status rmpp);
     mad \<leftarrow> mad_set_field mad 0 IB_SA_RMPP_D1_F (rm_d1 rmpp);
     mad_set_field mad 0 IB_SA_RMPP_D2_F (rm_d2 rmpp)
   }"

text \<open>The result is the \<open>int\<close> returned and the packet.\<close>

definition mad_build_pkt ::
    "endian \<Rightarrow> mad_globals \<Rightarrow> umad_pkt \<Rightarrow> ib_rpc_t \<Rightarrow> ib_portid_t \<Rightarrow> ib_rmpp_hdr_t option \<Rightarrow>
     mem option \<Rightarrow> (int \<times> int option \<times> umad_pkt \<times> ib_rpc_t \<times> mad_globals) option" where
  "mad_build_pkt e g umad rpc dport rmpp data = do {
     let class = r_mgtclass rpc AND 0xff;
     let lid_routed = (class \<noteq> IB_SMI_DIRECT_CLASS);
     let is_smi = (class = IB_SMI_CLASS \<or> class = IB_SMI_DIRECT_CLASS);
     let umad =
       (if \<not> is_smi then umad\<lparr>um_addr := (pt_lid dport, pt_qp dport, ucast (pt_sl dport), pt_qkey dport)\<rparr>
        else if lid_routed then umad\<lparr>um_addr := (pt_lid dport, pt_qp dport, 0, 0)\<rparr>
        else if drslid (pt_drpath dport) \<noteq> 0xffff \<and> pt_lid dport > 0
        then umad\<lparr>um_addr := (pt_lid dport, 0, 0, 0)\<rparr>
        else umad\<lparr>um_addr := (0xffff, 0, 0, 0)\<rparr>);
     let umad = (if pt_grh_present dport \<and> \<not> is_smi
                 then umad\<lparr>um_grh := Some (pt_gid dport, 0xff, 0, 0)\<rparr>
                 else umad\<lparr>um_grh := None\<rparr>);
     let umad = umad\<lparr>um_pkey := (if is_smi then 0 else pt_pkey_idx dport)\<rparr>;
     (err, mad, rpc, g) \<leftarrow> mad_encode e g (um_mad umad) rpc
                              (if lid_routed then None else Some (pt_drpath dport)) data;
     case err of Some en \<Rightarrow> Some (-1, Some en, umad\<lparr>um_mad := mad\<rparr>, rpc, g)
     | None \<Rightarrow> do {
         mad \<leftarrow> (if \<not> is_smi \<and> rmpp \<noteq> None then encode_rmpp mad (the rmpp) else Some mad);
         Some (int IB_MAD_SIZE, None, umad\<lparr>um_mad := mad\<rparr>, rpc, g)
       }
   }"

end
