(* ===== verification/MadPacketCorrect.thy ===== *)
theory MadPacketCorrect
  imports MadPacket FieldCorrect
begin

text \<open>
  What \<open>mad_encode\<close> and \<open>mad_build_pkt\<close> put into a packet: totality and memory safety,
  the error cases, and every header field read back. The stores of one word are handled together
  as a sequence of stores of the interpretation \<open>bf\<close> of \<open>field_store\<close>.
\<close>

section \<open>Stores into a MAD\<close>

fun mad_set_fields :: "mem \<Rightarrow> (nat \<times> u32) list \<Rightarrow> mem option" where
  "mad_set_fields p [] = Some p"
| "mad_set_fields p ((n, v) # xs) = do { p \<leftarrow> mad_set_field p 0 n v; mad_set_fields p xs }"

definition field_within :: "nat \<Rightarrow> nat \<Rightarrow> nat \<Rightarrow> bool" where
  \<comment> \<open>a bit field of the table all of whose stores stay in the bits \<open>a\<close> to \<open>b - 1\<close>\<close>
  "field_within a b n = (case field_desc n of None \<Rightarrow> False
     | Some f \<Rightarrow> 0 < bitlen f \<and> bitlen f \<le> 32 \<and> a \<le> bitoffs f \<and> spill_end 0 f \<le> b)"

definition field_spares :: "nat \<Rightarrow> nat \<Rightarrow> bool" where
  "field_spares n m = (spill_end 0 (the (field_desc n)) \<le> bitoffs (the (field_desc m)) \<or>
     field_end 0 (the (field_desc m)) \<le> bitoffs (the (field_desc n)))"

definition width :: "nat \<Rightarrow> nat" where
  "width n = bitlen (the (field_desc n))"

lemma desc_in_mad:
  assumes "field_desc n = Some f" and "0 < bitlen f"
  shows "field_in 256 0 f"
  using field_desc_ok [OF assms(1)] assms(2)
  by (simp add: entry_ok_def field_in_def field_end_def field_start_def)

lemma mad_set_fields_ok:
  assumes "list_all (\<lambda>(n, v). field_within a b n) xs"
    and "sorted_wrt (\<lambda>x y. field_spares (fst y) (fst x)) xs" and "length p = 256"
  shows "\<exists>p'. mad_set_fields p xs = Some p' \<and> touches p p' a b \<and>
              list_all (\<lambda>(n, v). mad_get_field p' 0 n = Some (take_bit (width n) v)) xs"
proof -
  let ?k = "\<lambda>n. (0 :: nat, the (field_desc n))"
  let ?ys = "map (\<lambda>(n, v). (?k n, v)) xs"
  have eq: "bf.put_all (map (\<lambda>(n, v). (?k n, v)) zs) q = mad_set_fields q zs"
    if "list_all (\<lambda>(n, v). field_within a b n) zs" for zs q
    using that
    by (induction zs arbitrary: q)
       (auto simp: mad_set_field_def field_within_def split: option.splits intro!: Option.bind_cong)
  have 1: "\<forall>(f, v) \<in> set ?ys. bf_wf f (length p) \<and> True \<and> a \<le> (case f of (b, f) \<Rightarrow> field_start b f) \<and>
      (case f of (b, f) \<Rightarrow> spill_end b f) \<le> b"
    using assms(1,3) desc_shape desc_in_mad
    by (fastforce simp: list_all_iff field_within_def bf_wf_def field_start_def split: option.splits)
  have spares: "bf.spares (?k m) (?k n) \<longleftrightarrow> field_spares m n" for m n
    by (simp add: bf.spares_def field_spares_def) (simp add: field_start_def)
  have 2: "sorted_wrt (\<lambda>(f, _) (g, _). bf.spares g f) ?ys"
    using assms(2) by (simp add: sorted_wrt_map case_prod_beta spares)
  from bf.put_all_get [OF 1 2] obtain p' where p': "mad_set_fields p xs = Some p'" "touches p p' a b"
      "\<forall>(n, v) \<in> set xs. get_field p' 0 (the (field_desc n)) = Some (take_bit (width n) v)"
    using eq [OF assms(1)] by (fastforce simp: width_def)
  have "list_all (\<lambda>(n, v). mad_get_field p' 0 n = Some (take_bit (width n) v)) xs"
    using p'(3) assms(1)
    by (fastforce simp: list_all_iff mad_get_field_def field_within_def split: option.splits)
  with p' show ?thesis by blast
qed

lemma mad_get_field_keep:
  assumes "touches p p' a b" and "length p = 256" and "field_desc n = Some f"
    and "0 < bitlen f" "bitlen f \<le> 32" and "bitoffs f + bitlen f \<le> a \<or> b \<le> bitoffs f"
  shows "mad_get_field p' 0 n = mad_get_field p 0 n"
  using bf.get_frame [of "(0, f)" p p' a b] assms desc_shape [OF assms(3-5)] desc_in_mad [OF assms(3,4)]
  by (simp add: mad_get_field_def bf_wf_def field_start_def field_end_def)

lemma mad_set_field64_ok:
  assumes "field_desc n = Some f" and "bitlen f = 64" and "length p = 256"
  shows "\<exists>p'. mad_set_field64 e p 0 n v = Some p' \<and> touches p p' (bitoffs f) (bitoffs f + 64) \<and>
              (\<forall>e'. mad_get_field64 e' p' 0 n = Some v)"
proof -
  have wf: "q_wf (0, f) (length p)"
    using desc_q_wf [OF assms(1,2), of 0 "length p"] desc_in_mad [OF assms(1)] assms(2,3) by simp
  obtain p' where p': "set_field64 e p 0 f v = Some p'" "touches p p' (bitoffs f) (bitoffs f + 64)"
    using qf.put_get [OF wf, where v = v and e' = e] assms(2)
    by (auto simp: field_start_def field_end_def)
  have "get_field64 e' p' 0 f = Some v" for e'
    using qf.put_get [OF wf, where v = v and e' = e and e = e'] p'(1) by auto
  with p' assms(1) show ?thesis by (auto simp: mad_set_field64_def mad_get_field64_def)
qed

lemma mad_get_field64_keep:
  assumes "touches p p' a b" and "length p = 256" and "field_desc n = Some f"
    and "bitlen f = 64" and "bitoffs f + bitlen f \<le> a \<or> b \<le> bitoffs f"
  shows "mad_get_field64 e p' 0 n = mad_get_field64 e p 0 n"
proof -
  have "q_wf (0, f) (length p)"
    using desc_q_wf [OF assms(3,4), of 0 "length p"] desc_in_mad [OF assms(3)] assms(2,4) by simp
  from qf.get_frame [OF this assms(1), where e = e] assms show ?thesis
    by (simp add: mad_get_field64_def field_start_def field_end_def)
qed

lemma mad_set_array_ok:
  assumes "field_desc n = Some f" and "bitlen f mod 32 = 0" "bitoffs f mod 32 = 0" "0 < bitlen f"
    and "length p = 256" and "length v = bitlen f div 8"
  shows "\<exists>p'. mad_set_array p 0 n v = Some p' \<and> touches p p' (bitoffs f) (bitoffs f + bitlen f) \<and>
              mem_load p' (bitoffs f div 8) (length v) = Some v"
proof -
  have wf: "a_wf (0, f) (length p)"
    using desc_in_mad [OF assms(1,4)] assms by (simp add: a_wf_def field_in_def)
  have off: "array_offs f = bitoffs f"
    using assms(2,4) by (auto simp: array_offs_def)
  from af.put_get [OF wf, of v] assms show ?thesis
    by (auto simp: mad_set_array_def get_array_bytes_load off field_start_def field_end_def)
qed

lemmas field_geom = field_within_def field_spares_def width_def spill_end_def single_byte_def
  bytelen_def postbits_def field_end_def field_start_def

section \<open>The stages of mad_encode\<close>

definition rpc_class :: "ib_rpc_t \<Rightarrow> u32" where
  "rpc_class rpc = r_mgtclass rpc AND 0xff"

definition class_hdr :: "u32 \<Rightarrow> nat" where
  \<comment> \<open>the bytes of the MAD header of a management class that \<open>mad_encode\<close> fills in\<close>
  "class_hdr class = (if class = IB_SA_CLASS then 56 else if class = IB_CC_CLASS then 32
     else if mad_is_vendor_range2 class then 40 else 24)"

definition encode_args_ok :: "ib_rpc_t \<Rightarrow> ib_dr_path_t option \<Rightarrow> mem option \<Rightarrow> bool" where
  \<comment> \<open>the shape of the arguments: a path array of 64 bytes, and a payload that exists in its
    buffer, lies in the MAD behind the header of its class and consists of whole words (which the
    data offsets and sizes of \<open>mad.h\<close> do)\<close>
  "encode_args_ok rpc drpath data \<longleftrightarrow>
     (case drpath of None \<Rightarrow> True | Some dp \<Rightarrow> length (hops dp) = IB_SUBNET_PATH_HOPS_MAX) \<and>
     (case data of None \<Rightarrow> True | Some d \<Rightarrow>
        class_hdr (rpc_class rpc) \<le> r_dataoffs rpc \<and> 4 dvd r_dataoffs rpc \<and> 4 dvd r_datasz rpc \<and>
        r_dataoffs rpc + r_datasz rpc \<le> IB_MAD_SIZE \<and> r_datasz rpc \<le> length d)"

definition rpc_is_resp :: "ib_rpc_t \<Rightarrow> bool" where
  "rpc_is_resp rpc \<longleftrightarrow> r_method rpc AND IB_MAD_RESPONSE \<noteq> 0"

lemma encode_first_word_ok:
  assumes "length buf = 256"
  shows "\<exists>b. encode_first_word buf rpc = Some b \<and> touches buf b 0 32 \<and>
     mad_get_field b 0 IB_MAD_METHOD_F = Some (take_bit 7 (r_method rpc)) \<and>
     mad_get_field b 0 IB_MAD_RESPONSE_F = Some (if rpc_is_resp rpc then 1 else 0) \<and>
     mad_get_field b 0 IB_MAD_CLASSVER_F =
       Some (if rpc_class rpc = IB_SA_CLASS \<or> rpc_class rpc = IB_CC_CLASS then 2 else 1) \<and>
     mad_get_field b 0 IB_MAD_MGMTCLASS_F = Some (rpc_class rpc) \<and>
     mad_get_field b 0 IB_MAD_BASEVER_F = Some 1"
proof -
  let ?xs = "[(IB_MAD_METHOD_F, r_method rpc), (IB_MAD_RESPONSE_F, if rpc_is_resp rpc then 1 else 0),
     (IB_MAD_CLASSVER_F, if rpc_class rpc = IB_SA_CLASS \<or> rpc_class rpc = IB_CC_CLASS then 2 else 1),
     (IB_MAD_MGMTCLASS_F, rpc_class rpc), (IB_MAD_BASEVER_F, 1)]"
  have eq: "encode_first_word buf rpc = mad_set_fields buf ?xs"
    by (simp add: encode_first_word_def rpc_is_resp_def rpc_class_def Let_def)
  have cl: "take_bit 8 (rpc_class rpc) = rpc_class rpc"
  proof -
    have "rpc_class rpc = take_bit 8 (r_mgtclass rpc)"
      by (simp add: rpc_class_def take_bit_eq_mask mask_eq_exp_minus_1)
    then show ?thesis by simp
  qed
  have "list_all (\<lambda>(n, v). field_within 0 32 n) ?xs" by (simp add: field_geom field_descs)
  moreover have "sorted_wrt (\<lambda>x y. field_spares (fst y) (fst x)) ?xs" by (simp add: field_geom field_descs)
  ultimately show ?thesis
    using mad_set_fields_ok [OF _ _ assms, of 0 32 ?xs] cl unfolding eq
    by (auto simp: width_def field_descs)
qed

lemma encode_second_word_dr_ok:
  assumes "length buf = 256"
  shows "\<exists>b. encode_second_word_dr buf rpc dp = Some b \<and> touches buf b 32 64 \<and>
     mad_get_field b 0 IB_DRSMP_HOPCNT_F = Some (take_bit 8 (word_of_int (cnt dp))) \<and>
     mad_get_field b 0 IB_DRSMP_HOPPTR_F =
       Some (if rpc_is_resp rpc then take_bit 8 (word_of_int (cnt dp + 1)) else 0) \<and>
     mad_get_field b 0 IB_DRSMP_STATUS_F = Some (take_bit 15 (r_rstatus rpc)) \<and>
     mad_get_field b 0 IB_DRSMP_DIRECTION_F = Some (if rpc_is_resp rpc then 1 else 0)"
proof -
  let ?xs = "[(IB_DRSMP_HOPCNT_F, word_of_int (cnt dp)),
     (IB_DRSMP_HOPPTR_F, if rpc_is_resp rpc then word_of_int (cnt dp + 1) else 0),
     (IB_DRSMP_STATUS_F, r_rstatus rpc), (IB_DRSMP_DIRECTION_F, if rpc_is_resp rpc then 1 else 0)]"
  have eq: "encode_second_word_dr buf rpc dp = mad_set_fields buf ?xs"
    by (simp add: encode_second_word_dr_def rpc_is_resp_def Let_def)
  have "list_all (\<lambda>(n, v). field_within 32 64 n) ?xs" by (simp add: field_geom field_descs)
  moreover have "sorted_wrt (\<lambda>x y. field_spares (fst y) (fst x)) ?xs"
    by (simp add: field_geom field_descs)
  ultimately show ?thesis
    using mad_set_fields_ok [OF _ _ assms, of 32 64 ?xs] unfolding eq
    by (auto simp: width_def field_descs)
qed

lemma set_status_ok:
  assumes "length buf = 256"
  shows "\<exists>b. mad_set_field buf 0 IB_MAD_STATUS_F v = Some b \<and> touches buf b 32 64 \<and>
     mad_get_field b 0 IB_MAD_STATUS_F = Some (take_bit 16 v)"
  using mad_set_fields_ok [OF _ _ assms, of 32 64 "[(IB_MAD_STATUS_F, v)]"]
  by (auto simp: field_geom field_descs)

lemma encode_ids_ok:
  assumes "length buf = 256"
  shows "\<exists>b. encode_ids e buf rpc = Some b \<and> touches buf b 64 256 \<and>
     (\<forall>e'. mad_get_field64 e' b 0 IB_MAD_TRID_F = Some (r_trid rpc)) \<and>
     mad_get_field b 0 IB_MAD_ATTRID_F = Some (take_bit 16 (r_attr_id rpc)) \<and>
     mad_get_field b 0 IB_MAD_ATTRMOD_F = Some (r_attr_mod rpc) \<and>
     (\<forall>e'. mad_get_field64 e' b 0 IB_MAD_MKEY_F = Some (r_mkey rpc))"
proof -
  obtain b1 where b1: "mad_set_field64 e buf 0 IB_MAD_TRID_F (r_trid rpc) = Some b1"
      "touches buf b1 64 128" "\<forall>e'. mad_get_field64 e' b1 0 IB_MAD_TRID_F = Some (r_trid rpc)"
    using mad_set_field64_ok [OF fd_IB_MAD_TRID_F _ assms, of e "r_trid rpc"] by auto
  have l1: "length b1 = 256" using touches_length [OF b1(2)] assms by simp
  let ?xs = "[(IB_MAD_ATTRID_F, r_attr_id rpc), (IB_MAD_ATTRMOD_F, r_attr_mod rpc)]"
  have "list_all (\<lambda>(n, v). field_within 128 192 n) ?xs" "sorted_wrt (\<lambda>x y. field_spares (fst y) (fst x)) ?xs"
    by (simp_all add: field_geom field_descs)
  from mad_set_fields_ok [OF this l1] obtain b2 where b2: "mad_set_fields b1 ?xs = Some b2"
      "touches b1 b2 128 192" "mad_get_field b2 0 IB_MAD_ATTRID_F = Some (take_bit 16 (r_attr_id rpc))"
      "mad_get_field b2 0 IB_MAD_ATTRMOD_F = Some (r_attr_mod rpc)"
    by (auto simp: width_def field_descs take_bit_word_eq_self)
  have l2: "length b2 = 256" using touches_length [OF b2(2)] l1 by simp
  obtain b3 where b3: "mad_set_field64 e b2 0 IB_MAD_MKEY_F (r_mkey rpc) = Some b3"
      "touches b2 b3 192 256" "\<forall>e'. mad_get_field64 e' b3 0 IB_MAD_MKEY_F = Some (r_mkey rpc)"
    using mad_set_field64_ok [OF fd_IB_MAD_MKEY_F _ l2, of e "r_mkey rpc"] by auto
  have b2eq: "do { p \<leftarrow> mad_set_field b1 0 IB_MAD_ATTRID_F (r_attr_id rpc);
               mad_set_field p 0 IB_MAD_ATTRMOD_F (r_attr_mod rpc) } = Some b2"
    using b2(1) by simp
  have "encode_ids e buf rpc = Some b3"
    unfolding encode_ids_def
    using b1(1) b2eq b3(1) by (auto simp: Option.bind_eq_Some_conv simp del: mad_set_fields.simps)
  moreover have "touches buf b3 64 256"
    using touches_mono [OF b1(2), of 64 256] touches_mono [OF b2(2), of 64 256]
      touches_mono [OF b3(2), of 64 256] by (auto intro: touches_trans)
  moreover have "mad_get_field64 e' b3 0 IB_MAD_TRID_F = Some (r_trid rpc)" for e'
    using mad_get_field64_keep [OF b2(2) l1 fd_IB_MAD_TRID_F, of e']
      mad_get_field64_keep [OF b3(2) l2 fd_IB_MAD_TRID_F, of e'] b1(3) by simp
  moreover have "mad_get_field b3 0 IB_MAD_ATTRID_F = Some (take_bit 16 (r_attr_id rpc))"
    using mad_get_field_keep [OF b3(2) l2 fd_IB_MAD_ATTRID_F] b2(3) by simp
  moreover have "mad_get_field b3 0 IB_MAD_ATTRMOD_F = Some (r_attr_mod rpc)"
    using mad_get_field_keep [OF b3(2) l2 fd_IB_MAD_ATTRMOD_F] b2(4) by simp
  ultimately show ?thesis using b3(3) by blast
qed

lemma encode_dr_ok:
  assumes "length buf = 256" and "length (hops dp) = 64"
  shows "\<exists>b. encode_dr buf rpc dp = Some b \<and> touches buf b 256 2048 \<and>
     mad_get_field b 0 IB_DRSMP_DRDLID_F = Some (if drdlid dp \<noteq> 0 then ucast (drdlid dp) else 0xffff) \<and>
     mad_get_field b 0 IB_DRSMP_DRSLID_F = Some (if drslid dp \<noteq> 0 then ucast (drslid dp) else 0xffff) \<and>
     mem_load b (if rpc_is_resp rpc then 192 else 128) 64 = Some (hops dp)"
proof -
  have tb: "take_bit 16 (if x \<noteq> 0 then ucast x else 0xffff :: u32)
              = (if x \<noteq> 0 then ucast x else 0xffff)" for x :: u16
  proof -
    have "take_bit 16 (ucast x :: u32) = ucast x"
      by (rule bit_word_eqI) (use bit_imp_le_length [of x] in \<open>auto simp: bit_simps\<close>)
    then show ?thesis by simp
  qed
  let ?xs = "[(IB_DRSMP_DRDLID_F, if drdlid dp \<noteq> 0 then ucast (drdlid dp) else 0xffff),
     (IB_DRSMP_DRSLID_F, if drslid dp \<noteq> 0 then ucast (drslid dp) else 0xffff)]"
  have "list_all (\<lambda>(n, v). field_within 256 288 n) ?xs" "sorted_wrt (\<lambda>x y. field_spares (fst y) (fst x)) ?xs"
    by (simp_all add: field_geom field_descs)
  from mad_set_fields_ok [OF this assms(1)] obtain b1 where b1: "mad_set_fields buf ?xs = Some b1"
      "touches buf b1 256 288"
      "mad_get_field b1 0 IB_DRSMP_DRDLID_F = Some (if drdlid dp \<noteq> 0 then ucast (drdlid dp) else 0xffff)"
      "mad_get_field b1 0 IB_DRSMP_DRSLID_F = Some (if drslid dp \<noteq> 0 then ucast (drslid dp) else 0xffff)"
    using tb by (auto simp: width_def field_descs simp del: mad_set_fields.simps)
  have l1: "length b1 = 256" using touches_length [OF b1(2)] assms by simp
  have "\<exists>b2. (if rpc_is_resp rpc then mad_set_array b1 0 IB_DRSMP_RPATH_F (hops dp)
              else mad_set_array b1 0 IB_DRSMP_PATH_F (hops dp)) = Some b2 \<and>
             touches b1 b2 1024 2048 \<and>
             mem_load b2 (if rpc_is_resp rpc then 192 else 128) 64 = Some (hops dp)"
    using mad_set_array_ok [OF fd_IB_DRSMP_RPATH_F _ _ _ l1, of "hops dp"]
      mad_set_array_ok [OF fd_IB_DRSMP_PATH_F _ _ _ l1, of "hops dp"] assms(2)
      touches_mono [of b1 _ 1536 2048 1024 2048] touches_mono [of b1 _ 1024 1536 1024 2048]
    by auto
  then obtain b2 where b2: "(if rpc_is_resp rpc then mad_set_array b1 0 IB_DRSMP_RPATH_F (hops dp)
              else mad_set_array b1 0 IB_DRSMP_PATH_F (hops dp)) = Some b2"
      "touches b1 b2 1024 2048"
      "mem_load b2 (if rpc_is_resp rpc then 192 else 128) 64 = Some (hops dp)" by blast
  have "encode_dr buf rpc dp = Some b2"
  proof -
    have "encode_dr buf rpc dp = mad_set_fields buf ?xs \<bind>
        (\<lambda>b. if rpc_is_resp rpc then mad_set_array b 0 IB_DRSMP_RPATH_F (hops dp)
              else mad_set_array b 0 IB_DRSMP_PATH_F (hops dp))"
      unfolding encode_dr_def Let_def rpc_is_resp_def [symmetric] by simp
    then show ?thesis using b1(1) b2(1) by (simp del: mad_set_fields.simps)
  qed
  moreover have "touches buf b2 256 2048"
    using touches_mono [OF b1(2), of 256 2048] touches_mono [OF b2(2), of 256 2048]
    by (auto intro: touches_trans)
  ultimately show ?thesis
    using b2(3) b1(3,4) mad_get_field_keep [OF b2(2) l1 fd_IB_DRSMP_DRDLID_F]
      mad_get_field_keep [OF b2(2) l1 fd_IB_DRSMP_DRSLID_F] by auto
qed

definition payload_ok :: "ib_rpc_t \<Rightarrow> mem option \<Rightarrow> nat \<Rightarrow> nat \<Rightarrow> bool" where
  \<comment> \<open>the payload, if there is one, lies in the bytes \<open>lo\<close> to \<open>hi - 1\<close> of the MAD\<close>
  "payload_ok rpc data lo hi \<longleftrightarrow>
     (case data of None \<Rightarrow> True | Some d \<Rightarrow> lo \<le> r_dataoffs rpc \<and> r_dataoffs rpc + r_datasz rpc \<le> hi)"

definition store_payload :: "mem \<Rightarrow> ib_rpc_t \<Rightarrow> mem option \<Rightarrow> mem option" where
  "store_payload buf rpc data = (case data of None \<Rightarrow> Some buf
     | Some d \<Rightarrow> do { bs \<leftarrow> mem_load d 0 (r_datasz rpc); mem_store buf (r_dataoffs rpc) bs })"

lemma store_payload_ok:
  assumes "encode_args_ok rpc drpath data" and "length buf = 256" and "payload_ok rpc data lo hi"
  shows "\<exists>b. store_payload buf rpc data = Some b \<and> touches buf b (8 * lo) (8 * hi) \<and>
     (\<forall>d. data = Some d \<longrightarrow> mem_load b (r_dataoffs rpc) (r_datasz rpc) = Some (take (r_datasz rpc) d))"
proof (cases data)
  case None
  then show ?thesis by (simp add: store_payload_def touches_refl)
next
  case (Some d)
  let ?n = "r_datasz rpc" and ?a = "r_dataoffs rpc"
  have geom: "4 dvd ?a" "4 dvd ?n" "?a + ?n \<le> 256" "?n \<le> length d" "lo \<le> ?a" "?a + ?n \<le> hi"
    using assms(1,3) Some by (auto simp: encode_args_ok_def payload_ok_def c_eval)
  have ld: "mem_load d 0 ?n = Some (take ?n d)"
    using geom by (simp add: mem_load_Some)
  obtain b where b: "mem_store buf ?a (take ?n d) = Some b"
    using geom assms(2) by (auto simp: mem_store_Some)
  have len: "length (take ?n d) = ?n" using geom(4) by simp
  have "touches buf b (8 * ?a) (8 * (?a + ?n))"
    using mem_store_touches [OF b] geom assms(2) unfolding len by simp
  then have "touches buf b (8 * lo) (8 * hi)"
    by (rule touches_mono) (use geom in simp_all)
  moreover have "mem_load b ?a ?n = Some (take ?n d)"
    using mem_load_store_same [OF b] unfolding len .
  ultimately show ?thesis using Some ld b by (simp add: store_payload_def)
qed

lemma encode_class_data_ok:
  assumes "encode_args_ok rpc drpath data" and "length buf = 256" and "payload_ok rpc data lo hi"
    and "class_hdr (rpc_class rpc) \<le> lo" and "hi \<le> 256"
  shows "\<exists>b. encode_class_data e buf rpc data = Some b \<and>
     touches buf b (if class_hdr (rpc_class rpc) = 24 then 8 * lo else 192)
                   (if class_hdr (rpc_class rpc) = 24 then 8 * hi else 2048) \<and>
     (\<forall>d. data = Some d \<longrightarrow> mem_load b (r_dataoffs rpc) (r_datasz rpc) = Some (take (r_datasz rpc) d)) \<and>
     (rpc_class rpc = IB_SA_CLASS \<longrightarrow> (\<forall>e'. mad_get_field64 e' b 0 IB_SA_COMPMASK_F = Some (r_mask rpc))) \<and>
     (rpc_class rpc = IB_CC_CLASS \<longrightarrow> (\<forall>e'. mad_get_field64 e' b 0 IB_CC_CCKEY_F = Some (r_cckey rpc))) \<and>
     (mad_is_vendor_range2 (rpc_class rpc) \<longrightarrow>
        mad_get_field b 0 IB_VEND2_OUI_F = Some (take_bit 24 (r_oui rpc)))"
    proof -
  have eq: "encode_class_data e buf rpc data = do {
     buf \<leftarrow> (if rpc_class rpc = IB_SA_CLASS
              then mad_set_field64 e buf 0 IB_SA_COMPMASK_F (r_mask rpc) else Some buf);
     buf \<leftarrow> (if rpc_class rpc = IB_CC_CLASS
              then mad_set_field64 e buf 0 IB_CC_CCKEY_F (r_cckey rpc) else Some buf);
     buf \<leftarrow> store_payload buf rpc data;
     if mad_is_vendor_range2 (rpc_class rpc)
     then mad_set_field buf 0 IB_VEND2_OUI_F (r_oui rpc) else Some buf }"
    by (simp only: encode_class_data_def rpc_class_def store_payload_def)
  have excl: "mad_is_vendor_range2 IB_SA_CLASS = False" "mad_is_vendor_range2 IB_CC_CLASS = False"
    "(IB_SA_CLASS = IB_CC_CLASS) = False" "(IB_CC_CLASS = IB_SA_CLASS) = False"
    by (simp_all add: mad_is_vendor_range2_def c_eval)
  have excl2: "rpc_class rpc \<noteq> IB_SA_CLASS" "rpc_class rpc \<noteq> IB_CC_CLASS"
    if "mad_is_vendor_range2 (rpc_class rpc)"
    using that excl by auto
  have hdr: "class_hdr IB_SA_CLASS = 56" "class_hdr IB_CC_CLASS = 32"
    by (simp_all add: class_hdr_def excl)
  have hdr2: "class_hdr (rpc_class rpc) = 40" if "mad_is_vendor_range2 (rpc_class rpc)"
    using that excl2 by (simp add: class_hdr_def)
  have lo: "24 \<le> lo" using assms(4) by (simp add: class_hdr_def split: if_splits)
  consider (sa) "rpc_class rpc = IB_SA_CLASS" | (cc) "rpc_class rpc = IB_CC_CLASS"
    | (v2) "mad_is_vendor_range2 (rpc_class rpc)"
    | (other) "rpc_class rpc \<noteq> IB_SA_CLASS" "rpc_class rpc \<noteq> IB_CC_CLASS"
        "\<not> mad_is_vendor_range2 (rpc_class rpc)" by blast
  then show ?thesis
  proof cases
    case sa
    obtain b1 where b1: "mad_set_field64 e buf 0 IB_SA_COMPMASK_F (r_mask rpc) = Some b1"
        "touches buf b1 384 448" "\<forall>e'. mad_get_field64 e' b1 0 IB_SA_COMPMASK_F = Some (r_mask rpc)"
      using mad_set_field64_ok [OF fd_IB_SA_COMPMASK_F _ assms(2), of e "r_mask rpc"] by auto
    have l1: "length b1 = 256" using touches_length [OF b1(2)] assms by simp
    obtain b2 where b2: "store_payload b1 rpc data = Some b2" "touches b1 b2 (8 * lo) (8 * hi)"
      "\<forall>d. data = Some d \<longrightarrow> mem_load b2 (r_dataoffs rpc) (r_datasz rpc) = Some (take (r_datasz rpc) d)"
      using store_payload_ok [OF assms(1) l1 assms(3)] by blast
    have "\<forall>e'. mad_get_field64 e' b2 0 IB_SA_COMPMASK_F = Some (r_mask rpc)"
      using mad_get_field64_keep [OF b2(2) l1 fd_IB_SA_COMPMASK_F] b1(3) assms(4) sa hdr by simp
    moreover have "touches buf b2 192 2048"
      using touches_mono [OF b1(2), of 192 2048] touches_mono [OF b2(2), of 192 2048] lo assms(5)
      by (auto intro: touches_trans)
    ultimately show ?thesis using b1(1) b2(1,3) by (simp add: eq sa excl hdr)
  next
    case cc
    obtain b1 where b1: "mad_set_field64 e buf 0 IB_CC_CCKEY_F (r_cckey rpc) = Some b1"
        "touches buf b1 192 256" "\<forall>e'. mad_get_field64 e' b1 0 IB_CC_CCKEY_F = Some (r_cckey rpc)"
      using mad_set_field64_ok [OF fd_IB_CC_CCKEY_F _ assms(2), of e "r_cckey rpc"] by auto
    have l1: "length b1 = 256" using touches_length [OF b1(2)] assms by simp
    obtain b2 where b2: "store_payload b1 rpc data = Some b2" "touches b1 b2 (8 * lo) (8 * hi)"
      "\<forall>d. data = Some d \<longrightarrow> mem_load b2 (r_dataoffs rpc) (r_datasz rpc) = Some (take (r_datasz rpc) d)"
      using store_payload_ok [OF assms(1) l1 assms(3)] by blast
    have "\<forall>e'. mad_get_field64 e' b2 0 IB_CC_CCKEY_F = Some (r_cckey rpc)"
      using mad_get_field64_keep [OF b2(2) l1 fd_IB_CC_CCKEY_F] b1(3) assms(4) cc hdr by simp
    moreover have "touches buf b2 192 2048"
      using touches_mono [OF b1(2), of 192 2048] touches_mono [OF b2(2), of 192 2048] lo assms(5)
      by (auto intro: touches_trans)
    ultimately show ?thesis using b1(1) b2(1,3) by (simp add: eq cc excl hdr)
  next
    case v2
    obtain b2 where b2: "store_payload buf rpc data = Some b2" "touches buf b2 (8 * lo) (8 * hi)"
      "\<forall>d. data = Some d \<longrightarrow> mem_load b2 (r_dataoffs rpc) (r_datasz rpc) = Some (take (r_datasz rpc) d)"
      using store_payload_ok [OF assms(1-3)] by blast
    have l2: "length b2 = 256" using touches_length [OF b2(2)] assms by simp
    have "list_all (\<lambda>(n, v). field_within 288 320 n) [(IB_VEND2_OUI_F, r_oui rpc)]"
      by (simp add: field_geom field_descs)
    from mad_set_fields_ok [OF this _ l2] obtain b3 where
      b3: "mad_set_field b2 0 IB_VEND2_OUI_F (r_oui rpc) = Some b3" "touches b2 b3 288 320"
        "mad_get_field b3 0 IB_VEND2_OUI_F = Some (take_bit 24 (r_oui rpc))"
      by (auto simp: width_def field_descs)
    have "mem_load b3 (r_dataoffs rpc) (r_datasz rpc) = mem_load b2 (r_dataoffs rpc) (r_datasz rpc)"
      if "data = Some d" for d
      by (rule touches_load [OF b3(2)])
         (use that assms(1) v2 l2 hdr2 in \<open>auto simp: encode_args_ok_def payload_ok_def\<close>)
    then have "\<forall>d. data = Some d \<longrightarrow> mem_load b3 (r_dataoffs rpc) (r_datasz rpc) = Some (take (r_datasz rpc) d)"
      using b2(3) by simp
    moreover have "touches buf b3 192 2048"
      using touches_mono [OF b2(2), of 192 2048] touches_mono [OF b3(2), of 192 2048] lo assms(5)
      by (auto intro: touches_trans)
    ultimately show ?thesis using b2(1) b3(1,3) by (simp add: eq v2 excl2 hdr2)
  next
    case other
    obtain b2 where b2: "store_payload buf rpc data = Some b2" "touches buf b2 (8 * lo) (8 * hi)"
      "\<forall>d. data = Some d \<longrightarrow> mem_load b2 (r_dataoffs rpc) (r_datasz rpc) = Some (take (r_datasz rpc) d)"
      using store_payload_ok [OF assms(1-3)] by blast
    then show ?thesis using other by (auto simp: eq class_hdr_def)
  qed
qed

section \<open>mad_encode\<close>

definition bad_path :: "ib_rpc_t \<Rightarrow> ib_dr_path_t option \<Rightarrow> bool" where
  "bad_path rpc drpath \<longleftrightarrow> rpc_class rpc = IB_SMI_DIRECT_CLASS \<and>
     (case drpath of None \<Rightarrow> True | Some dp \<Rightarrow> 64 \<le> cnt dp)"

definition with_trid :: "mad_globals \<Rightarrow> ib_rpc_t \<Rightarrow> ib_rpc_t \<times> mad_globals" where
  "with_trid g rpc = (if r_trid rpc = 0 then (let (t, g') = mad_trid g in (rpc\<lparr>r_trid := t\<rparr>, g'))
     else (rpc, g))"

lemma with_trid_keeps: "r_mgtclass (fst (with_trid g rpc)) = r_mgtclass rpc"
  "r_method (fst (with_trid g rpc)) = r_method rpc"
  "r_attr_id (fst (with_trid g rpc)) = r_attr_id rpc" "r_attr_mod (fst (with_trid g rpc)) = r_attr_mod rpc"
  "r_rstatus (fst (with_trid g rpc)) = r_rstatus rpc" "r_mkey (fst (with_trid g rpc)) = r_mkey rpc"
  "r_mask (fst (with_trid g rpc)) = r_mask rpc" "r_cckey (fst (with_trid g rpc)) = r_cckey rpc"
  "r_oui (fst (with_trid g rpc)) = r_oui rpc" "r_dataoffs (fst (with_trid g rpc)) = r_dataoffs rpc"
  "r_datasz (fst (with_trid g rpc)) = r_datasz rpc"
  "rpc_class (fst (with_trid g rpc)) = rpc_class rpc"
  "rpc_is_resp (fst (with_trid g rpc)) = rpc_is_resp rpc"
  by (simp_all add: with_trid_def mad_trid_def Let_def rpc_class_def rpc_is_resp_def)

lemma mad_encode_unfold: "mad_encode e g buf rpc drpath data = do {
     b \<leftarrow> encode_first_word buf rpc;
     if bad_path rpc drpath then Some (Some EINVAL, b, rpc, g)
     else do {
       b \<leftarrow> (if rpc_class rpc = IB_SMI_DIRECT_CLASS then encode_second_word_dr b rpc (the drpath)
             else mad_set_field b 0 IB_MAD_STATUS_F (r_rstatus rpc));
       b \<leftarrow> encode_ids e b (fst (with_trid g rpc));
       b \<leftarrow> (if rpc_class rpc = IB_SMI_DIRECT_CLASS
             then encode_dr b (fst (with_trid g rpc)) (the drpath) else Some b);
       b \<leftarrow> encode_class_data e b (fst (with_trid g rpc)) data;
       Some (None, b, fst (with_trid g rpc), snd (with_trid g rpc))
     } }"
proof -
  have c: "r_mgtclass rpc AND 0xff = rpc_class rpc" by (simp add: rpc_class_def)
  show ?thesis
    unfolding mad_encode_def c with_trid_def [symmetric] bad_path_def
    by (cases drpath) (auto simp: Let_def case_prod_beta c_eval intro!: Option.bind_cong)
qed

lemma mad_encode_error:
  assumes "length buf = 256" and "bad_path rpc drpath"
  shows "\<exists>b. mad_encode e g buf rpc drpath data = Some (Some EINVAL, b, rpc, g) \<and> touches buf b 0 32"
  using encode_first_word_ok [OF assms(1), of rpc] assms(2) by (auto simp: mad_encode_unfold)

lemma second_word_ok:
  assumes "length b = 256"
  shows "\<exists>b'. (if rpc_class rpc = IB_SMI_DIRECT_CLASS then encode_second_word_dr b rpc dp
             else mad_set_field b 0 IB_MAD_STATUS_F (r_rstatus rpc)) = Some b' \<and> touches b b' 32 64 \<and>
     (rpc_class rpc \<noteq> IB_SMI_DIRECT_CLASS \<longrightarrow>
        mad_get_field b' 0 IB_MAD_STATUS_F = Some (take_bit 16 (r_rstatus rpc))) \<and>
     (rpc_class rpc = IB_SMI_DIRECT_CLASS \<longrightarrow>
        mad_get_field b' 0 IB_DRSMP_HOPCNT_F = Some (take_bit 8 (word_of_int (cnt dp))) \<and>
        mad_get_field b' 0 IB_DRSMP_HOPPTR_F =
          Some (if rpc_is_resp rpc then take_bit 8 (word_of_int (cnt dp + 1)) else 0) \<and>
        mad_get_field b' 0 IB_DRSMP_STATUS_F = Some (take_bit 15 (r_rstatus rpc)) \<and>
        mad_get_field b' 0 IB_DRSMP_DIRECTION_F = Some (if rpc_is_resp rpc then 1 else 0))"
  using encode_second_word_dr_ok [OF assms, of rpc dp] set_status_ok [OF assms, of "r_rstatus rpc"]
  by (cases "rpc_class rpc = IB_SMI_DIRECT_CLASS") simp_all

definition dr_word :: "u16 \<Rightarrow> u32" where
  "dr_word lid = (if lid \<noteq> 0 then ucast lid else 0xffff)"

lemma dr_part_ok:
  assumes "length b = 256" and "length (hops dp) = 64"
  shows "\<exists>b'. (if rpc_class rpc = IB_SMI_DIRECT_CLASS then encode_dr b rpc dp else Some b) = Some b' \<and>
     touches b b' 256 2048 \<and>
     (rpc_class rpc = IB_SMI_DIRECT_CLASS \<longrightarrow>
        mad_get_field b' 0 IB_DRSMP_DRDLID_F = Some (dr_word (drdlid dp)) \<and>
        mad_get_field b' 0 IB_DRSMP_DRSLID_F = Some (dr_word (drslid dp)) \<and>
        mem_load b' (if rpc_is_resp rpc then 192 else 128) 64 = Some (hops dp))"
  using encode_dr_ok [OF assms, of rpc] by (auto simp: dr_word_def touches_refl)

text \<open>The header fields of an encoded MAD, grouped by the word that holds them.\<close>

definition first_word_as :: "mem \<Rightarrow> ib_rpc_t \<Rightarrow> bool" where
  "first_word_as b rpc \<longleftrightarrow>
     mad_get_field b 0 IB_MAD_METHOD_F = Some (take_bit 7 (r_method rpc)) \<and>
     mad_get_field b 0 IB_MAD_RESPONSE_F = Some (if rpc_is_resp rpc then 1 else 0) \<and>
     mad_get_field b 0 IB_MAD_CLASSVER_F =
       Some (if rpc_class rpc = IB_SA_CLASS \<or> rpc_class rpc = IB_CC_CLASS then 2 else 1) \<and>
     mad_get_field b 0 IB_MAD_MGMTCLASS_F = Some (rpc_class rpc) \<and>
     mad_get_field b 0 IB_MAD_BASEVER_F = Some 1"

definition ids_as :: "mem \<Rightarrow> ib_rpc_t \<Rightarrow> bool" where
  "ids_as b rpc \<longleftrightarrow>
     mad_get_field64 LE b 0 IB_MAD_TRID_F = Some (r_trid rpc) \<and>
     mad_get_field64 BE b 0 IB_MAD_TRID_F = Some (r_trid rpc) \<and>
     mad_get_field b 0 IB_MAD_ATTRID_F = Some (take_bit 16 (r_attr_id rpc)) \<and>
     mad_get_field b 0 IB_MAD_ATTRMOD_F = Some (r_attr_mod rpc)"

definition mkey_as :: "mem \<Rightarrow> u64 \<Rightarrow> bool" where
  "mkey_as b k \<longleftrightarrow> mad_get_field64 LE b 0 IB_MAD_MKEY_F = Some k \<and>
     mad_get_field64 BE b 0 IB_MAD_MKEY_F = Some k"

definition second_word_as :: "mem \<Rightarrow> ib_rpc_t \<Rightarrow> ib_dr_path_t \<Rightarrow> bool" where
  "second_word_as b rpc dp \<longleftrightarrow>
     mad_get_field b 0 IB_DRSMP_HOPCNT_F = Some (take_bit 8 (word_of_int (cnt dp))) \<and>
     mad_get_field b 0 IB_DRSMP_HOPPTR_F =
       Some (if rpc_is_resp rpc then take_bit 8 (word_of_int (cnt dp + 1)) else 0) \<and>
     mad_get_field b 0 IB_DRSMP_STATUS_F = Some (take_bit 15 (r_rstatus rpc)) \<and>
     mad_get_field b 0 IB_DRSMP_DIRECTION_F = Some (if rpc_is_resp rpc then 1 else 0)"

definition dr_part_as :: "mem \<Rightarrow> ib_rpc_t \<Rightarrow> ib_dr_path_t \<Rightarrow> bool" where
  "dr_part_as b rpc dp \<longleftrightarrow>
     mad_get_field b 0 IB_DRSMP_DRDLID_F = Some (dr_word (drdlid dp)) \<and>
     mad_get_field b 0 IB_DRSMP_DRSLID_F = Some (dr_word (drslid dp)) \<and>
     mem_load b (if rpc_is_resp rpc then 192 else 128) 64 = Some (hops dp)"

lemma first_word_keep:
  assumes "touches b b' 32 2048" and "length b = 256"
  shows "first_word_as b' rpc = first_word_as b rpc"
  unfolding first_word_as_def
  using mad_get_field_keep [OF assms fd_IB_MAD_METHOD_F] mad_get_field_keep [OF assms fd_IB_MAD_RESPONSE_F]
    mad_get_field_keep [OF assms fd_IB_MAD_CLASSVER_F] mad_get_field_keep [OF assms fd_IB_MAD_MGMTCLASS_F]
    mad_get_field_keep [OF assms fd_IB_MAD_BASEVER_F] by simp

lemma second_word_keep:
  assumes "touches b b' 64 2048" and "length b = 256"
  shows "second_word_as b' rpc dp = second_word_as b rpc dp"
    and "mad_get_field b' 0 IB_MAD_STATUS_F = mad_get_field b 0 IB_MAD_STATUS_F"
  unfolding second_word_as_def
  using mad_get_field_keep [OF assms fd_IB_DRSMP_HOPCNT_F] mad_get_field_keep [OF assms fd_IB_DRSMP_HOPPTR_F]
    mad_get_field_keep [OF assms fd_IB_DRSMP_STATUS_F] mad_get_field_keep [OF assms fd_IB_DRSMP_DIRECTION_F]
    mad_get_field_keep [OF assms fd_IB_MAD_STATUS_F] by simp_all

lemma ids_keep:
  assumes "touches b b' 192 2048" and "length b = 256"
  shows "ids_as b' rpc = ids_as b rpc"
  unfolding ids_as_def
  using mad_get_field64_keep [OF assms fd_IB_MAD_TRID_F, of LE] mad_get_field64_keep [OF assms fd_IB_MAD_TRID_F, of BE]
    mad_get_field_keep [OF assms fd_IB_MAD_ATTRID_F] mad_get_field_keep [OF assms fd_IB_MAD_ATTRMOD_F]
  by simp

lemma mkey_keep:
  assumes "touches b b' 256 2048" and "length b = 256"
  shows "mkey_as b' k = mkey_as b k"
  unfolding mkey_as_def
  using mad_get_field64_keep [OF assms fd_IB_MAD_MKEY_F, of LE] mad_get_field64_keep [OF assms fd_IB_MAD_MKEY_F, of BE]
  by simp

lemma dr_part_keep:
  assumes "touches b b' 512 1024" and "length b = 256"
  shows "dr_part_as b' rpc dp = dr_part_as b rpc dp"
proof -
  have "mem_load b' (if rpc_is_resp rpc then 192 else 128) 64 = mem_load b (if rpc_is_resp rpc then 192 else 128) 64"
    by (rule touches_load [OF assms(1)]) (use assms(2) in auto)
  then show ?thesis
    unfolding dr_part_as_def
    using mad_get_field_keep [OF assms fd_IB_DRSMP_DRDLID_F] mad_get_field_keep [OF assms fd_IB_DRSMP_DRSLID_F]
    by simp
qed

lemma mad_encode_ok:
  fixes e g rpc
  defines "rpc' \<equiv> fst (with_trid g rpc)"
  assumes len: "length buf = 256" and args: "encode_args_ok rpc drpath data" and "\<not> bad_path rpc drpath"
    and pay: "payload_ok rpc data lo hi" "class_hdr (rpc_class rpc) \<le> lo" "hi \<le> 256"
  shows "\<exists>b. mad_encode e g buf rpc drpath data = Some (None, b, rpc', snd (with_trid g rpc)) \<and>
    length b = 256 \<and> first_word_as b rpc \<and> ids_as b rpc' \<and>
    (rpc_class rpc \<noteq> IB_SMI_DIRECT_CLASS \<longrightarrow>
       mad_get_field b 0 IB_MAD_STATUS_F = Some (take_bit 16 (r_rstatus rpc))) \<and>
    (rpc_class rpc = IB_SMI_DIRECT_CLASS \<longrightarrow> second_word_as b rpc (the drpath)) \<and>
    (rpc_class rpc = IB_SMI_DIRECT_CLASS \<and> 64 \<le> lo \<and> hi \<le> 128 \<longrightarrow> dr_part_as b rpc (the drpath)) \<and>
    (class_hdr (rpc_class rpc) = 24 \<and> 32 \<le> lo \<longrightarrow> mkey_as b (r_mkey rpc)) \<and>
    (\<forall>d. data = Some d \<longrightarrow> mem_load b (r_dataoffs rpc) (r_datasz rpc) = Some (take (r_datasz rpc) d)) \<and>
    (rpc_class rpc = IB_SA_CLASS \<longrightarrow> (\<forall>e'. mad_get_field64 e' b 0 IB_SA_COMPMASK_F = Some (r_mask rpc))) \<and>
    (rpc_class rpc = IB_CC_CLASS \<longrightarrow> (\<forall>e'. mad_get_field64 e' b 0 IB_CC_CCKEY_F = Some (r_cckey rpc))) \<and>
    (mad_is_vendor_range2 (rpc_class rpc) \<longrightarrow>
        mad_get_field b 0 IB_VEND2_OUI_F = Some (take_bit 24 (r_oui rpc)))"
proof -
  note keeps = with_trid_keeps [of g rpc, folded rpc'_def]
  obtain b1 where b1: "encode_first_word buf rpc = Some b1" "touches buf b1 0 32" "first_word_as b1 rpc"
    using encode_first_word_ok [OF len, of rpc] unfolding first_word_as_def by blast
  have l1: "length b1 = 256" using touches_length [OF b1(2)] len by simp
  obtain b2 where b2: "(if rpc_class rpc = IB_SMI_DIRECT_CLASS then encode_second_word_dr b1 rpc (the drpath)
             else mad_set_field b1 0 IB_MAD_STATUS_F (r_rstatus rpc)) = Some b2" "touches b1 b2 32 64"
      "rpc_class rpc \<noteq> IB_SMI_DIRECT_CLASS \<longrightarrow>
         mad_get_field b2 0 IB_MAD_STATUS_F = Some (take_bit 16 (r_rstatus rpc))"
      "rpc_class rpc = IB_SMI_DIRECT_CLASS \<longrightarrow> second_word_as b2 rpc (the drpath)"
    using second_word_ok [OF l1, of rpc "the drpath"] unfolding second_word_as_def by blast
  have l2: "length b2 = 256" using touches_length [OF b2(2)] l1 by simp
  obtain b3 where b3: "encode_ids e b2 rpc' = Some b3" "touches b2 b3 64 256" "ids_as b3 rpc'"
      "mkey_as b3 (r_mkey rpc)"
    using encode_ids_ok [OF l2, of e rpc'] keeps unfolding ids_as_def mkey_as_def by auto
  have l3: "length b3 = 256" using touches_length [OF b3(2)] l2 by simp
  have "\<exists>b4. (if rpc_class rpc = IB_SMI_DIRECT_CLASS then encode_dr b3 rpc' (the drpath) else Some b3) = Some b4 \<and>
      touches b3 b4 256 2048 \<and> (rpc_class rpc = IB_SMI_DIRECT_CLASS \<longrightarrow> dr_part_as b4 rpc (the drpath))"
  proof (cases "rpc_class rpc = IB_SMI_DIRECT_CLASS")
    case True
    then obtain dp where dp: "drpath = Some dp" "length (hops dp) = 64"
      using assms(4) args by (cases drpath) (auto simp: bad_path_def encode_args_ok_def c_eval)
    from dr_part_ok [OF l3 dp(2), of rpc'] True dp show ?thesis
      by (simp add: keeps dr_part_as_def)
  qed (simp add: touches_refl)
  then obtain b4 where b4: "(if rpc_class rpc = IB_SMI_DIRECT_CLASS then encode_dr b3 rpc' (the drpath) else Some b3) = Some b4"
      "touches b3 b4 256 2048" "rpc_class rpc = IB_SMI_DIRECT_CLASS \<longrightarrow> dr_part_as b4 rpc (the drpath)" by blast
  have l4: "length b4 = 256" using touches_length [OF b4(2)] l3 by simp
  have args': "encode_args_ok rpc' drpath data" "payload_ok rpc' data lo hi" "class_hdr (rpc_class rpc') \<le> lo"
    using args pay by (simp_all add: encode_args_ok_def payload_ok_def keeps cong: option.case_cong)
  obtain b5 where b5: "encode_class_data e b4 rpc' data = Some b5"
      "touches b4 b5 (if class_hdr (rpc_class rpc) = 24 then 8 * lo else 192)
                     (if class_hdr (rpc_class rpc) = 24 then 8 * hi else 2048)"
      "\<forall>d. data = Some d \<longrightarrow> mem_load b5 (r_dataoffs rpc) (r_datasz rpc) = Some (take (r_datasz rpc) d)"
      "rpc_class rpc = IB_SA_CLASS \<longrightarrow> (\<forall>e'. mad_get_field64 e' b5 0 IB_SA_COMPMASK_F = Some (r_mask rpc))"
      "rpc_class rpc = IB_CC_CLASS \<longrightarrow> (\<forall>e'. mad_get_field64 e' b5 0 IB_CC_CCKEY_F = Some (r_cckey rpc))"
      "mad_is_vendor_range2 (rpc_class rpc) \<longrightarrow>
        mad_get_field b5 0 IB_VEND2_OUI_F = Some (take_bit 24 (r_oui rpc))"
    using encode_class_data_ok [OF args'(1) l4 args'(2,3) pay(3), of e] unfolding keeps by blast
  have lo: "24 \<le> lo" using pay(2) by (simp add: class_hdr_def split: if_splits)
  have t5: "touches b4 b5 192 2048"
    by (rule touches_mono [OF b5(2)]) (use lo pay(3) in auto)
  have l5: "length b5 = 256" using touches_length [OF b5(2)] l4 by simp
  have fw: "first_word_as b5 rpc"
    using b1(3) first_word_keep [OF touches_mono [OF b2(2)] l1, of rpc]
      first_word_keep [OF touches_mono [OF b3(2)] l2, of rpc]
      first_word_keep [OF touches_mono [OF b4(2)] l3, of rpc]
      first_word_keep [OF touches_mono [OF t5] l4, of rpc] by simp
  have sw: "second_word_as b5 rpc dp = second_word_as b2 rpc dp"
    "mad_get_field b5 0 IB_MAD_STATUS_F = mad_get_field b2 0 IB_MAD_STATUS_F" for dp
    using second_word_keep [OF touches_mono [OF b3(2)] l2]
      second_word_keep [OF touches_mono [OF b4(2)] l3]
      second_word_keep [OF touches_mono [OF t5] l4] by simp_all
  have ids: "ids_as b5 rpc'"
    using b3(3) ids_keep [OF touches_mono [OF b4(2)] l3, of rpc'] ids_keep [OF touches_mono [OF t5] l4, of rpc']
    by simp
  have mk: "mkey_as b5 (r_mkey rpc)" if "class_hdr (rpc_class rpc) = 24" "32 \<le> lo"
  proof -
    have "touches b4 b5 256 2048" by (rule touches_mono [OF b5(2)]) (use that pay(3) in auto)
    then show ?thesis using b3(4) mkey_keep [OF b4(2) l3, of "r_mkey rpc"] mkey_keep [OF _ l4, of b5 "r_mkey rpc"]
      by simp
  qed
  have dr: "dr_part_as b5 rpc (the drpath)" if "rpc_class rpc = IB_SMI_DIRECT_CLASS" "64 \<le> lo" "hi \<le> 128"
  proof -
    have "class_hdr (rpc_class rpc) = 24"
      using that(1) by (simp add: class_hdr_def mad_is_vendor_range2_def c_eval)
    then have "touches b4 b5 512 1024" by (intro touches_mono [OF b5(2)]) (use that in auto)
    then show ?thesis using b4(3) that(1) dr_part_keep [OF _ l4] by simp
  qed
  have "mad_encode e g buf rpc drpath data = Some (None, b5, rpc', snd (with_trid g rpc))"
    unfolding mad_encode_unfold rpc'_def [symmetric] using b1(1) b2(1) b3(1) b4(1) b5(1) assms(4) by simp
  with fw sw ids mk dr b2(3,4) b5 l5 show ?thesis by auto
qed

lemma payload_ok_default:
  assumes "encode_args_ok rpc drpath data"
  shows "payload_ok rpc data (class_hdr (rpc_class rpc)) 256"
  using assms by (auto simp: encode_args_ok_def payload_ok_def c_eval split: option.splits)

lemmas mad_encode_default = mad_encode_ok [OF _ _ _ payload_ok_default order_refl order_refl]

text \<open>
  Property. \<open>mad_encode\<close> never accesses memory outside its buffers. It fails, with
  \<open>EINVAL\<close>, exactly for a directed-route request without a path or with 64 hops or more; then
  the transaction counter and the request are unchanged. Otherwise it succeeds and leaves in the
  request the transaction id it used.
\<close>
theorem mad_encode_outcome:
  assumes "length buf = 256" and "encode_args_ok rpc drpath data"
  shows "\<exists>b. length b = 256 \<and> mad_encode e g buf rpc drpath data =
    Some (if bad_path rpc drpath then (Some EINVAL, b, rpc, g)
          else (None, b, fst (with_trid g rpc), snd (with_trid g rpc)))"
proof (cases "bad_path rpc drpath")
  case True
  then show ?thesis using mad_encode_error [OF assms(1)] assms(1) touches_length by fastforce
next
  case False
  from mad_encode_default [OF assms False assms(2), of e g] obtain b where
    "mad_encode e g buf rpc drpath data = Some (None, b, fst (with_trid g rpc), snd (with_trid g rpc))"
    "length b = 256" by blast
  with False show ?thesis by auto
qed

definition example_rpc :: ib_rpc_t where
  \<comment> \<open>a directed-route \<open>Get(NodeInfo)\<close>\<close>
  "example_rpc = rpc_zero\<lparr>r_mgtclass := IB_SMI_DIRECT_CLASS, r_method := IB_MAD_METHOD_GET,
     r_attr_id := IB_ATTR_NODE_INFO, r_dataoffs := IB_SMP_DATA_OFFS, r_datasz := IB_SMP_DATA_SIZE\<rparr>"

definition example_path :: ib_dr_path_t where
  "example_path = dr_path_zero\<lparr>cnt := 2, hops := [0, 1, 4] @ replicate 61 0\<rparr>"

definition example_globals :: mad_globals where
  "example_globals = \<lparr>g_trid = 41, g_random = 7, madrpc_retries = 3, madrpc_timeout = 1000\<rparr>"

lemma example_encode:
  "encode_args_ok example_rpc (Some example_path) (Some (replicate 64 5))"
  "\<not> bad_path example_rpc (Some example_path)"
  "payload_ok example_rpc (Some (replicate 64 5)) 64 128"
  "rpc_class example_rpc = IB_SMI_DIRECT_CLASS" "length (replicate 256 (0 :: u8)) = 256"
  by (simp_all add: encode_args_ok_def bad_path_def payload_ok_def rpc_class_def class_hdr_def
      mad_is_vendor_range2_def example_rpc_def example_path_def dr_path_zero_def rpc_zero_def c_eval)

theorem mad_encode_outcome_witness:
  "\<exists>b. length b = 256 \<and> mad_encode LE example_globals (replicate 256 0) example_rpc (Some example_path)
       (Some (replicate 64 5)) =
     Some (None, b, example_rpc\<lparr>r_trid := 42\<rparr>, example_globals\<lparr>g_trid := 42\<rparr>)"
  using mad_encode_outcome [OF example_encode(5) example_encode(1), of LE example_globals] example_encode(2)
  by (simp add: with_trid_def mad_trid_def example_globals_def example_rpc_def rpc_zero_def)

text \<open>
  C22. The header of an encoded MAD reads back as requested: the method without
  its response bit and that bit, class version 2 for subnet administration and congestion control
  and 1 otherwise, the management class, base version 1, the 16-bit status of a MAD that is not
  directed, and the transaction id, attribute id and modifier, whatever the payload is.
\<close>
theorem mad_encode_header:
  assumes "length buf = 256" and "encode_args_ok rpc drpath data" and "\<not> bad_path rpc drpath"
  shows "\<exists>b rpc' g'. mad_encode e g buf rpc drpath data = Some (None, b, rpc', g') \<and>
    first_word_as b rpc \<and> ids_as b rpc' \<and> r_attr_id rpc' = r_attr_id rpc \<and> r_attr_mod rpc' = r_attr_mod rpc \<and>
    (r_trid rpc = 0 \<or> r_trid rpc' = r_trid rpc) \<and>
    (rpc_class rpc = IB_SMI_DIRECT_CLASS \<or>
       mad_get_field b 0 IB_MAD_STATUS_F = Some (take_bit 16 (r_rstatus rpc)))"
proof -
  have t: "r_trid rpc = 0 \<or> r_trid (fst (with_trid g rpc)) = r_trid rpc"
    by (simp add: with_trid_def)
  from mad_encode_default [OF assms assms(2), of e g] show ?thesis
    using t with_trid_keeps(3,4) [of g rpc] by blast
qed

theorem mad_encode_header_witness:
  "\<exists>b rpc' g'. mad_encode BE example_globals (replicate 256 0) example_rpc (Some example_path)
       (Some (replicate 64 5)) = Some (None, b, rpc', g') \<and>
     mad_get_field b 0 IB_MAD_METHOD_F = Some 1 \<and> mad_get_field b 0 IB_MAD_MGMTCLASS_F = Some 0x81 \<and>
     mad_get_field b 0 IB_MAD_ATTRID_F = Some 0x11"
  using mad_encode_header [OF example_encode(5) example_encode(1,2), of BE example_globals]
  by (auto simp: first_word_as_def ids_as_def example_rpc_def rpc_zero_def rpc_class_def c_eval)

text \<open>
  C24. In an encoded directed-route MAD whose payload lies in the SMP data area,
  the hop count, hop pointer (0 in a request, one past the last hop in a response), direction
  bit and status are those of the path and the request, a LID of 0 is sent as the permissive LID,
  the whole path array is in the initial path of a request or the return path of a response, and
  the M_Key is the request's.
\<close>
theorem mad_encode_directed:
  assumes "length buf = 256" and "encode_args_ok rpc (Some dp) data"
    and "rpc_class rpc = IB_SMI_DIRECT_CLASS" and "cnt dp < 64" and "payload_ok rpc data 64 128"
  shows "\<exists>b rpc' g'. mad_encode e g buf rpc (Some dp) data = Some (None, b, rpc', g') \<and>
    second_word_as b rpc dp \<and> dr_part_as b rpc dp \<and> mkey_as b (r_mkey rpc)"
proof -
  have "\<not> bad_path rpc (Some dp)" and c: "class_hdr (rpc_class rpc) = 24"
    using assms(3,4) by (simp_all add: bad_path_def class_hdr_def mad_is_vendor_range2_def c_eval)
  from mad_encode_ok [OF assms(1,2) this(1) assms(5), of e g] assms(3) c show ?thesis by auto
qed

theorem mad_encode_directed_witness:
  "\<exists>b rpc' g'. mad_encode LE example_globals (replicate 256 0) example_rpc (Some example_path)
       (Some (replicate 64 5)) = Some (None, b, rpc', g') \<and>
     mad_get_field b 0 IB_DRSMP_HOPCNT_F = Some 2 \<and> mad_get_field b 0 IB_DRSMP_DRSLID_F = Some 0xffff \<and>
     mem_load b 128 64 = Some ([0, 1, 4] @ replicate 61 0)"
  using mad_encode_directed [OF example_encode(5) example_encode(1,4) _ example_encode(3), of LE example_globals]
  by (fastforce simp: second_word_as_def dr_part_as_def dr_word_def example_path_def dr_path_zero_def
      example_rpc_def rpc_zero_def rpc_is_resp_def c_eval)

text \<open>
  Property. The payload is copied unchanged to its place, a subnet administration
  MAD carries the component mask, a congestion control MAD its key and a vendor MAD of range 2 the
  24 bits of its OUI.
\<close>
theorem mad_encode_class_data:
  assumes "length buf = 256" and "encode_args_ok rpc drpath (Some d)" and "\<not> bad_path rpc drpath"
  shows "\<exists>b rpc' g'. mad_encode e g buf rpc drpath (Some d) = Some (None, b, rpc', g') \<and>
    mem_load b (r_dataoffs rpc) (r_datasz rpc) = Some (take (r_datasz rpc) d) \<and>
    (rpc_class rpc \<noteq> IB_SA_CLASS \<or> mad_get_field64 e b 0 IB_SA_COMPMASK_F = Some (r_mask rpc)) \<and>
    (rpc_class rpc \<noteq> IB_CC_CLASS \<or> mad_get_field64 e b 0 IB_CC_CCKEY_F = Some (r_cckey rpc)) \<and>
    (\<not> mad_is_vendor_range2 (rpc_class rpc) \<or>
       mad_get_field b 0 IB_VEND2_OUI_F = Some (take_bit 24 (r_oui rpc)))"
  using mad_encode_default [OF assms assms(2), of e g] by blast

theorem mad_encode_class_data_witness:
  "\<exists>b rpc' g'. mad_encode LE example_globals (replicate 256 0) example_rpc (Some example_path)
       (Some (replicate 64 5)) = Some (None, b, rpc', g') \<and> mem_load b 64 64 = Some (replicate 64 5)"
  using mad_encode_class_data [OF example_encode(5) example_encode(1,2), of LE example_globals]
  by (fastforce simp: example_rpc_def rpc_zero_def c_eval)

section \<open>mad_build_pkt\<close>

definition rmpp_as :: "mem \<Rightarrow> ib_rmpp_hdr_t \<Rightarrow> bool" where
  "rmpp_as b rmpp \<longleftrightarrow>
     mad_get_field b 0 IB_SA_RMPP_VERS_F = Some 1 \<and>
     mad_get_field b 0 IB_SA_RMPP_TYPE_F = Some (take_bit 8 (rm_type rmpp)) \<and>
     mad_get_field b 0 IB_SA_RMPP_RESP_F = Some 0x1f \<and>
     mad_get_field b 0 IB_SA_RMPP_FLAGS_F = Some (take_bit 3 (rm_flags rmpp)) \<and>
     mad_get_field b 0 IB_SA_RMPP_STATUS_F = Some (take_bit 8 (rm_status rmpp)) \<and>
     mad_get_field b 0 IB_SA_RMPP_D1_F = Some (rm_d1 rmpp) \<and>
     mad_get_field b 0 IB_SA_RMPP_D2_F = Some (rm_d2 rmpp)"

lemma encode_rmpp_ok:
  assumes "length buf = 256"
  shows "\<exists>b. encode_rmpp buf rmpp = Some b \<and> touches buf b 192 288 \<and> rmpp_as b rmpp"
proof -
  let ?xs = "[(IB_SA_RMPP_VERS_F, 1), (IB_SA_RMPP_TYPE_F, rm_type rmpp), (IB_SA_RMPP_RESP_F, 0x3f),
    (IB_SA_RMPP_FLAGS_F, rm_flags rmpp), (IB_SA_RMPP_STATUS_F, rm_status rmpp),
    (IB_SA_RMPP_D1_F, rm_d1 rmpp), (IB_SA_RMPP_D2_F, rm_d2 rmpp)]"
  have eq: "encode_rmpp buf rmpp = mad_set_fields buf ?xs" by (simp add: encode_rmpp_def)
  have "list_all (\<lambda>(n, v). field_within 192 288 n) ?xs" "sorted_wrt (\<lambda>x y. field_spares (fst y) (fst x)) ?xs"
    by (simp_all add: field_geom field_descs)
  from mad_set_fields_ok [OF this assms] show ?thesis
    unfolding eq by (auto simp: width_def field_descs rmpp_as_def take_bit_word_eq_self)
qed

definition pkt_smi :: "ib_rpc_t \<Rightarrow> bool" where
  "pkt_smi rpc \<longleftrightarrow> rpc_class rpc = IB_SMI_CLASS \<or> rpc_class rpc = IB_SMI_DIRECT_CLASS"

definition pkt_addr :: "ib_rpc_t \<Rightarrow> ib_portid_t \<Rightarrow> int \<times> u32 \<times> u32 \<times> u32" where
  \<comment> \<open>the destination of a packet: a directed-route SMP goes to the LID where its LID-routed part
    ends, or to the permissive LID when the directed route starts here\<close>
  "pkt_addr rpc dport =
     (if rpc_class rpc = IB_SMI_CLASS then (pt_lid dport, pt_qp dport, 0, 0)
      else if rpc_class rpc = IB_SMI_DIRECT_CLASS
      then (if drslid (pt_drpath dport) \<noteq> 0xffff \<and> pt_lid dport > 0 then pt_lid dport else 0xffff, 0, 0, 0)
      else (pt_lid dport, pt_qp dport, ucast (pt_sl dport), pt_qkey dport))"

definition pkt_path :: "ib_rpc_t \<Rightarrow> ib_portid_t \<Rightarrow> ib_dr_path_t option" where
  "pkt_path rpc dport = (if rpc_class rpc = IB_SMI_DIRECT_CLASS then Some (pt_drpath dport) else None)"

definition addressed :: "umad_pkt \<Rightarrow> ib_rpc_t \<Rightarrow> ib_portid_t \<Rightarrow> umad_pkt" where
  "addressed umad rpc dport = umad\<lparr>um_addr := pkt_addr rpc dport,
     um_grh := (if pt_grh_present dport \<and> \<not> pkt_smi rpc then Some (pt_gid dport, 0xff, 0, 0) else None),
     um_pkey := (if pkt_smi rpc then 0 else pt_pkey_idx dport)\<rparr>"

lemma mad_build_pkt_unfold: "mad_build_pkt e g umad rpc dport rmpp data = do {
     (err, mad, rpc', g) \<leftarrow> mad_encode e g (um_mad umad) rpc (pkt_path rpc dport) data;
     case err of
       Some en \<Rightarrow> Some (-1, Some en, (addressed umad rpc dport)\<lparr>um_mad := mad\<rparr>, rpc', g)
     | None \<Rightarrow> do {
         mad \<leftarrow> (if \<not> pkt_smi rpc \<and> rmpp \<noteq> None then encode_rmpp mad (the rmpp) else Some mad);
         Some (256, None, (addressed umad rpc dport)\<lparr>um_mad := mad\<rparr>, rpc', g)
       } }"
proof -
  have ne: "(IB_SMI_DIRECT_CLASS = IB_SMI_CLASS) = False" "(IB_SMI_CLASS = IB_SMI_DIRECT_CLASS) = False"
    "int IB_MAD_SIZE = 256"
    by (simp_all add: c_eval)
  have "addressed umad rpc dport =
    (let class = rpc_class rpc; lid_routed = (class \<noteq> IB_SMI_DIRECT_CLASS);
     is_smi = (class = IB_SMI_CLASS \<or> class = IB_SMI_DIRECT_CLASS);
     umad =
       (if \<not> is_smi then umad\<lparr>um_addr := (pt_lid dport, pt_qp dport, ucast (pt_sl dport), pt_qkey dport)\<rparr>
        else if lid_routed then umad\<lparr>um_addr := (pt_lid dport, pt_qp dport, 0, 0)\<rparr>
        else if drslid (pt_drpath dport) \<noteq> 0xffff \<and> pt_lid dport > 0
        then umad\<lparr>um_addr := (pt_lid dport, 0, 0, 0)\<rparr>
        else umad\<lparr>um_addr := (0xffff, 0, 0, 0)\<rparr>);
     umad = (if pt_grh_present dport \<and> \<not> is_smi
                 then umad\<lparr>um_grh := Some (pt_gid dport, 0xff, 0, 0)\<rparr>
                 else umad\<lparr>um_grh := None\<rparr>)
     in umad\<lparr>um_pkey := (if is_smi then 0 else pt_pkey_idx dport)\<rparr>)"
    by (auto simp: addressed_def pkt_addr_def pkt_smi_def Let_def ne)
  then show ?thesis
    unfolding mad_build_pkt_def rpc_class_def [symmetric]
    by (auto simp: Let_def pkt_path_def pkt_smi_def ne split: option.splits
        intro!: Option.bind_cong)
qed

lemma bad_path_pkt:
  "bad_path rpc (pkt_path rpc dport) \<longleftrightarrow>
     rpc_class rpc = IB_SMI_DIRECT_CLASS \<and> 64 \<le> cnt (pt_drpath dport)"
  by (auto simp: bad_path_def pkt_path_def)

text \<open>
  Property. \<open>mad_build_pkt\<close> addresses the packet as its class requires: a GRH
  and a partition key only outside the SMI classes, the destination of \<open>pkt_addr\<close>; and it
  returns the size of the MAD, or -1 with \<open>EINVAL\<close> exactly when the directed route has 64 hops
  or more. It never accesses memory outside its buffers.
\<close>
theorem mad_build_pkt_outcome:
  assumes "length (um_mad umad) = 256" and "encode_args_ok rpc (pkt_path rpc dport) data"
  shows "\<exists>mad. length mad = 256 \<and> mad_build_pkt e g umad rpc dport rmpp data =
    Some (if rpc_class rpc = IB_SMI_DIRECT_CLASS \<and> 64 \<le> cnt (pt_drpath dport)
          then (-1, Some EINVAL, (addressed umad rpc dport)\<lparr>um_mad := mad\<rparr>, rpc, g)
          else (256, None, (addressed umad rpc dport)\<lparr>um_mad := mad\<rparr>,
                fst (with_trid g rpc), snd (with_trid g rpc)))"
proof (cases "bad_path rpc (pkt_path rpc dport)")
  case True
  then show ?thesis
    using mad_encode_error [OF assms(1) True, of e g data] touches_length [of "um_mad umad"] assms(1)
    by (fastforce simp: mad_build_pkt_unfold bad_path_pkt)
next
  case False
  from mad_encode_default [OF assms(1,2) False assms(2), of e g] obtain b where
    b: "mad_encode e g (um_mad umad) rpc (pkt_path rpc dport) data =
          Some (None, b, fst (with_trid g rpc), snd (with_trid g rpc))" "length b = 256" by blast
  obtain b' where b': "(if \<not> pkt_smi rpc \<and> rmpp \<noteq> None then encode_rmpp b (the rmpp) else Some b) = Some b'"
      "length b' = 256"
    using encode_rmpp_ok [OF b(2), of "the rmpp"] b(2) touches_length [of b]
    by (metis (no_types, lifting))
  show ?thesis
    unfolding mad_build_pkt_unfold b(1) using b' False by (intro exI [of _ b']) (simp add: bad_path_pkt)
qed

definition example_dport :: ib_portid_t where
  "example_dport = portid_zero\<lparr>pt_lid := 5, pt_drpath := example_path, pt_qp := 1, pt_qkey := 0x80010000\<rparr>"

definition example_sa_rpc :: ib_rpc_t where
  "example_sa_rpc = rpc_zero\<lparr>r_mgtclass := IB_SA_CLASS, r_method := IB_MAD_METHOD_GET,
     r_attr_id := IB_SA_ATTR_PATHRECORD, r_dataoffs := IB_SA_DATA_OFFS, r_datasz := IB_SA_DATA_SIZE\<rparr>"

definition example_pkt :: umad_pkt where
  "example_pkt = \<lparr>um_addr = (0, 0, 0, 0), um_grh = None, um_pkey = 0, um_mad = replicate 256 0\<rparr>"

lemma example_build:
  "encode_args_ok example_sa_rpc (pkt_path example_sa_rpc example_dport) (Some (replicate 200 9))"
  "length (um_mad example_pkt) = 256" "rpc_class example_sa_rpc = IB_SA_CLASS"
  "\<not> bad_path example_sa_rpc (pkt_path example_sa_rpc example_dport)" "\<not> pkt_smi example_sa_rpc"
  by (simp_all add: encode_args_ok_def bad_path_def pkt_path_def pkt_smi_def rpc_class_def class_hdr_def
      mad_is_vendor_range2_def example_sa_rpc_def example_pkt_def rpc_zero_def c_eval)

theorem mad_build_pkt_outcome_witness:
  "\<exists>mad. mad_build_pkt LE example_globals example_pkt example_sa_rpc example_dport None (Some (replicate 200 9)) =
     Some (256, None, example_pkt\<lparr>um_addr := (5, 1, 0, 0x80010000), um_mad := mad\<rparr>,
           example_sa_rpc\<lparr>r_trid := 42\<rparr>, example_globals\<lparr>g_trid := 42\<rparr>)"
  using mad_build_pkt_outcome [OF example_build(2,1), of LE example_globals None] example_build(3,5)
  by (auto simp: with_trid_def mad_trid_def example_globals_def example_sa_rpc_def rpc_zero_def addressed_def
      pkt_addr_def example_dport_def portid_zero_def example_pkt_def c_eval)

text \<open>
  Property. Outside the SMI classes the RMPP header given to \<open>mad_build_pkt\<close> is
  stored field by field and reads back (version 1, the flags cut to 3 bits), it leaves the common
  header alone, and it leaves the payload alone when that begins at byte 36 or later.
\<close>
theorem mad_build_pkt_rmpp:
  assumes "length (um_mad umad) = 256" and "encode_args_ok rpc (pkt_path rpc dport) (Some d)"
    and "\<not> pkt_smi rpc"
  shows "\<exists>umad' rpc' g'. mad_build_pkt e g umad rpc dport (Some rmpp) (Some d) = Some (256, None, umad', rpc', g') \<and>
    rmpp_as (um_mad umad') rmpp \<and> first_word_as (um_mad umad') rpc \<and> ids_as (um_mad umad') rpc' \<and>
    (r_dataoffs rpc < 36 \<or>
       mem_load (um_mad umad') (r_dataoffs rpc) (r_datasz rpc) = Some (take (r_datasz rpc) d))"
proof -
  have nb: "\<not> bad_path rpc (pkt_path rpc dport)" using assms(3) by (simp add: bad_path_pkt pkt_smi_def)
  from mad_encode_default [OF assms(1,2) nb assms(2), of e g] obtain b where
    b: "mad_encode e g (um_mad umad) rpc (pkt_path rpc dport) (Some d) =
          Some (None, b, fst (with_trid g rpc), snd (with_trid g rpc))" "length b = 256"
       "first_word_as b rpc" "ids_as b (fst (with_trid g rpc))"
       "mem_load b (r_dataoffs rpc) (r_datasz rpc) = Some (take (r_datasz rpc) d)" by blast
  obtain b' where b': "encode_rmpp b rmpp = Some b'" "touches b b' 192 288" "rmpp_as b' rmpp"
    using encode_rmpp_ok [OF b(2), of rmpp] by blast
  have "first_word_as b' rpc" "ids_as b' (fst (with_trid g rpc))"
    using b(3,4) first_word_keep [OF touches_mono [OF b'(2)] b(2)] ids_keep [OF touches_mono [OF b'(2)] b(2)]
    by simp_all
  moreover have "mem_load b' (r_dataoffs rpc) (r_datasz rpc) = mem_load b (r_dataoffs rpc) (r_datasz rpc)"
    if "\<not> r_dataoffs rpc < 36"
    by (rule touches_load [OF b'(2)]) (use that assms(2) b(2) in \<open>auto simp: encode_args_ok_def\<close>)
  ultimately show ?thesis
    using b' b(1,5) assms(3) by (cases "with_trid g rpc") (auto simp: mad_build_pkt_unfold)
qed

definition example_rmpp :: ib_rmpp_hdr_t where
  "example_rmpp = \<lparr>rm_type = 1, rm_flags = 1, rm_status = 0, rm_d1 = 1, rm_d2 = 220\<rparr>"

theorem mad_build_pkt_rmpp_witness:
  "\<exists>umad' rpc' g'. mad_build_pkt LE example_globals example_pkt example_sa_rpc example_dport
       (Some example_rmpp) (Some (replicate 200 9)) = Some (256, None, umad', rpc', g') \<and>
     mad_get_field (um_mad umad') 0 IB_SA_RMPP_TYPE_F = Some 1 \<and>
     mad_get_field (um_mad umad') 0 IB_SA_RMPP_D2_F = Some 220 \<and>
     mem_load (um_mad umad') 56 200 = Some (replicate 200 9)"
  using mad_build_pkt_rmpp [OF example_build(2,1,5), of LE example_globals example_rmpp]
  by (fastforce simp: rmpp_as_def example_rmpp_def example_sa_rpc_def rpc_zero_def c_eval)

section \<open>Transaction identifiers\<close>

fun mad_trids :: "mad_globals \<Rightarrow> nat \<Rightarrow> u64 list" where
  \<comment> \<open>what \<open>n\<close> consecutive calls return\<close>
  "mad_trids g 0 = []"
| "mad_trids g (Suc n) = (let (t, g') = mad_trid g in t # mad_trids g' n)"

lemma mad_trids_nth:
  assumes "k < n" and "0 < g_trid g" and "unat (g_trid g) + n < 2 ^ 64"
  shows "mad_trids g n ! k = take_bit 32 (g_trid g + of_nat (Suc k))"
  using assms
proof (induction n arbitrary: g k)
  case (Suc n)
  have step: "mad_trid g = (take_bit 32 (g_trid g + 1), g\<lparr>g_trid := g_trid g + 1\<rparr>)"
    using Suc.prems(2) by (auto simp: mad_trid_def take_bit_eq_mask mask_eq_exp_minus_1 Let_def)
  show ?case
  proof (cases k)
    case 0
    then show ?thesis by (simp add: step)
  next
    case (Suc j)
    have u: "unat (g_trid g + 1) = Suc (unat (g_trid g))"
      using Suc.prems(3) by (simp add: unat_word_ariths)
    have "0 < g_trid g + 1" using u by (metis gr_zeroI nat.simps(3) unat_eq_0 word_gt_0)
    then have "mad_trids (g\<lparr>g_trid := g_trid g + 1\<rparr>) n ! j =
        take_bit 32 (g_trid g + 1 + of_nat (Suc j))"
      using Suc.IH [of j "g\<lparr>g_trid := g_trid g + 1\<rparr>"] Suc.prems Suc u by simp
    then show ?thesis by (simp add: step Suc algebra_simps)
  qed
qed simp

lemma length_mad_trids: "length (mad_trids g n) = n"
  by (induction n arbitrary: g) (simp_all add: case_prod_beta Let_def)

lemma mad_trids_seed:
  "mad_trids g n = mad_trids (g\<lparr>g_trid := (if g_trid g = 0 then g_random g else g_trid g)\<rparr>) n"
  if "g_trid g \<noteq> 0 \<or> g_random g \<noteq> 0"
  using that by (cases n) (auto simp: mad_trid_def Let_def)

lemma shifted_mod_inj:
  fixes a :: nat
  assumes "(a + i) mod m = (a + j) mod m" and "i < m" "j < m"
  shows "i = j"
proof (rule ccontr)
  have less: False if "x < y" "y < m" "(a + y) mod m = (a + x) mod m" for x y
  proof -
    have "m dvd (a + y) - (a + x)" using that by (subst mod_eq_dvd_iff_nat [symmetric]) simp_all
    then show False using that by (simp add: nat_dvd_not_less)
  qed
  assume "i \<noteq> j"
  then show False using less [of i j] less [of j i] assms by (cases i j rule: linorder_cases) auto
qed

text \<open>
  Property. Up to \<open>2\<^sup>3\<^sup>2\<close> consecutive calls of \<open>mad_trid\<close> return
  different identifiers, all of them in the low 32 bits (the kernel uses the others), as long as
  the 64-bit counter does not wrap.
\<close>
theorem mad_trid_distinct:
  assumes "n \<le> 2 ^ 32" and "unat (if g_trid g = 0 then g_random g else g_trid g) + n < 2 ^ 64"
    and "g_trid g \<noteq> 0 \<or> g_random g \<noteq> 0"
  shows "distinct (mad_trids g n) \<and> length (mad_trids g n) = n \<and> list_all (\<lambda>t. unat t < 2 ^ 32) (mad_trids g n)"
proof -
  let ?g = "g\<lparr>g_trid := (if g_trid g = 0 then g_random g else g_trid g)\<rparr>"
  let ?c = "unat (g_trid ?g)"
  have seed: "0 < g_trid ?g" "?c + n < 2 ^ 64"
    using assms(2,3) by (auto simp: word_gt_0)
  have tb: "unat (take_bit 32 (x :: u64)) = unat x mod 2 ^ 32" for x
    unfolding unsigned_take_bit_eq by (rule take_bit_eq_mod)
  have nth: "unat (mad_trids g n ! k) = (?c + Suc k) mod 2 ^ 32" if "k < n" for k
  proof -
    have "unat (of_nat (Suc k) :: u64) = Suc k" using that assms(1) by (simp add: unsigned_of_nat take_bit_nat_eq_self del: of_nat_Suc)
    then have "unat (g_trid ?g + of_nat (Suc k)) = ?c + Suc k"
      using seed(2) that by (simp only: unat_word_ariths) simp
    then show ?thesis
      unfolding mad_trids_seed [OF assms(3)] mad_trids_nth [OF that seed] by (simp only: tb)
  qed
  have "distinct (mad_trids g n)"
    unfolding distinct_conv_nth length_mad_trids
  proof (intro allI impI)
    fix i j assume ij: "i < n" "j < n" "i \<noteq> j"
    show "mad_trids g n ! i \<noteq> mad_trids g n ! j"
    proof
      assume "mad_trids g n ! i = mad_trids g n ! j"
      then have "(Suc ?c + i) mod 2 ^ 32 = (Suc ?c + j) mod 2 ^ 32"
        using nth [OF ij(1)] nth [OF ij(2)] by simp
      then show False using shifted_mod_inj [of "Suc ?c" i "2 ^ 32" j] ij assms(1) by simp
    qed
  qed
  moreover have "list_all (\<lambda>t. unat t < 2 ^ 32) (mad_trids g n)"
    by (auto simp: list_all_length length_mad_trids nth)
  ultimately show ?thesis by (simp add: length_mad_trids)
qed

theorem mad_trid_distinct_witness: "distinct (mad_trids example_globals 4000000000)"
  using mad_trid_distinct [of 4000000000 example_globals] by (simp add: example_globals_def)

end
