(* ===== verification/MadRpc.thy ===== *)
theory MadRpc
  imports MadPacket
begin

text \<open>
  Transactions (\<open>libibmad/src/rpc.c\<close>): sending a MAD, waiting for the response with the same
  transaction id, retrying, following redirections; and the setters of the library's state.

  \<open>umad_send\<close> and \<open>umad_recv\<close> of \<open>libibumad\<close> are not part of the repository. What
  they do in a run is given by the two lists \<open>ms_tx\<close> and \<open>ms_rx\<close> of the state: the
  results of the calls to come, in order. A call that finds its list empty has not returned, and
  a run that makes one is \<open>None\<close>, as is one that accesses memory outside a buffer; so a run
  that never returns is \<open>None\<close> for every finite list of results. \<open>ms_sent\<close> records the
  requests handed to \<open>umad_send\<close>.
\<close>

section \<open>State\<close>

datatype umad_reply =
  RecvError int \<comment> \<open>\<open>umad_recv\<close> fails with this \<open>errno\<close>\<close>
| RecvMad int int mem \<comment> \<open>\<open>umad_status\<close>, the length stored, and the MAD received\<close>

record umad_request =
  rq_port :: int
  rq_agent :: int
  rq_pkt :: umad_pkt
  rq_length :: int
  rq_timeout :: int
  rq_retries :: int

record mad_state =
  ms_g :: mad_globals
  ms_errno :: int
  ms_tx :: "int option list" \<comment> \<open>the \<open>errno\<close> of a failing \<open>umad_send\<close>\<close>
  ms_rx :: "umad_reply list"
  ms_sent :: "umad_request list"
  ms_save :: "mem option" \<comment> \<open>the buffer at \<open>save_mad\<close>, unless that is \<open>NULL\<close>\<close>
  ms_save_len :: int
  ms_saved :: "mem option" \<comment> \<open>the buffer last saved to\<close>

definition umad_send ::
    "mad_state \<Rightarrow> int \<Rightarrow> int \<Rightarrow> umad_pkt \<Rightarrow> int \<Rightarrow> int \<Rightarrow> int \<Rightarrow> (bool \<times> mad_state) option" where
  "umad_send st port agent pkt len tmo retries =
     (let st = st\<lparr>ms_sent := ms_sent st @ [\<lparr>rq_port = port, rq_agent = agent, rq_pkt = pkt,
                   rq_length = len, rq_timeout = tmo, rq_retries = retries\<rparr>]\<rparr>
      in case ms_tx st of [] \<Rightarrow> None
         | None # tx \<Rightarrow> Some (True, st\<lparr>ms_tx := tx\<rparr>)
         | Some en # tx \<Rightarrow> Some (False, st\<lparr>ms_tx := tx, ms_errno := en\<rparr>))"

section \<open>Setters\<close>

definition madrpc_save_mad :: "mad_state \<Rightarrow> mem option \<Rightarrow> int \<Rightarrow> mad_state" where
  "madrpc_save_mad st madbuf len = st\<lparr>ms_save := madbuf, ms_save_len := len\<rparr>"

definition madrpc_set_retries :: "mad_state \<Rightarrow> int \<Rightarrow> int \<times> mad_state" where
  "madrpc_set_retries st retries =
     (let st = (if retries > 0 then st\<lparr>ms_g := (ms_g st)\<lparr>madrpc_retries := retries\<rparr>\<rparr> else st)
      in (madrpc_retries (ms_g st), st))"

definition madrpc_set_timeout :: "mad_state \<Rightarrow> int \<Rightarrow> int \<times> mad_state" where
  "madrpc_set_timeout st timeout = (0, st\<lparr>ms_g := (ms_g st)\<lparr>madrpc_timeout := timeout\<rparr>\<rparr>)"

definition mad_rpc_set_retries :: "ibmad_port \<Rightarrow> int \<Rightarrow> ibmad_port" where
  "mad_rpc_set_retries port retries = port\<lparr>mp_retries := retries\<rparr>"

definition mad_rpc_set_timeout :: "ibmad_port \<Rightarrow> int \<Rightarrow> ibmad_port" where
  "mad_rpc_set_timeout port timeout = port\<lparr>mp_timeout := timeout\<rparr>"

definition mad_rpc_portid :: "ibmad_port \<Rightarrow> int" where
  "mad_rpc_portid srcport = port_id srcport"

definition mad_rpc_class_agent :: "ibmad_port \<Rightarrow> int \<Rightarrow> int" where
  "mad_rpc_class_agent port class =
     (if class < 1 \<or> class \<ge> int MAX_CLASS then -1 else class_agents port ! nat class)"

section \<open>_do_madrpc\<close>

fun recv_match :: "endian \<Rightarrow> u32 \<Rightarrow> umad_reply list \<Rightarrow>
    ((int + int \<times> int \<times> mem) \<times> umad_reply list) option" where
  \<comment> \<open>the inner loop: receive until the low half of the transaction id matches\<close>
  "recv_match e trid [] = None"
| "recv_match e trid (RecvError en # rx) = Some (Inl en, rx)"
| "recv_match e trid (RecvMad status len mad # rx) = do {
     t \<leftarrow> mad_get_field64 e mad 0 IB_MAD_TRID_F;
     if ucast t \<noteq> trid then recv_match e trid rx
     else Some (Inr (status, len, mad), rx)
   }"

text \<open>
  The result of \<open>_do_madrpc\<close> is the value returned, the MAD in \<open>rcvbuf\<close> when there is one,
  and what is stored at \<open>p_error\<close> if anything is.
\<close>

fun send_retries :: "endian \<Rightarrow> mad_state \<Rightarrow> int \<Rightarrow> umad_pkt \<Rightarrow> int \<Rightarrow> int \<Rightarrow> int \<Rightarrow> u32 \<Rightarrow>
    nat \<Rightarrow> int \<Rightarrow> ((int \<times> mem option \<times> int option) \<times> mad_state) option" where
  \<comment> \<open>the outer loop, with the number of rounds left\<close>
  "send_retries e st portid sndbuf agentid len timeout trid 0 status =
     Some ((-1, None, Some ETIMEDOUT), st\<lparr>ms_errno := status\<rparr>)"
| "send_retries e st portid sndbuf agentid len timeout trid (Suc n) status = do {
     (sent, st) \<leftarrow> umad_send st portid agentid sndbuf len timeout 0;
     if \<not> sent then Some ((-1, None, None), st)
     else do {
       (r, rx) \<leftarrow> recv_match e trid (ms_rx st);
       let st = st\<lparr>ms_rx := rx\<rparr>;
       case r of
         Inl en \<Rightarrow> Some ((-1, None, None), st\<lparr>ms_errno := en\<rparr>)
       | Inr (status, rlen, mad) \<Rightarrow>
           if status = 0 then Some ((rlen, Some mad, None), st)
           else if status = ENOMEM then Some ((rlen, Some mad, None), st)
           else send_retries e st portid sndbuf agentid len timeout trid n status
     }
   }"

definition do_madrpc :: "endian \<Rightarrow> mad_state \<Rightarrow> int \<Rightarrow> umad_pkt \<Rightarrow> int \<Rightarrow> int \<Rightarrow> int \<Rightarrow> int \<Rightarrow>
    ((int \<times> mem option \<times> int option) \<times> mad_state) option" where
  "do_madrpc e st portid sndbuf agentid len timeout max_retries = do {
     st \<leftarrow> (case ms_save st of None \<Rightarrow> Some st
       | Some buf \<Rightarrow> do {
           bs \<leftarrow> mem_load (um_mad sndbuf) 0 (size_of_int (if ms_save_len st < len then ms_save_len st else len));
           buf \<leftarrow> mem_store buf 0 bs;
           Some (st\<lparr>ms_save := None, ms_saved := Some buf\<rparr>)
         });
     if max_retries \<le> 0 then Some ((-1, None, Some EINVAL), st\<lparr>ms_errno := EINVAL\<rparr>)
     else do {
       trid \<leftarrow> mad_get_field64 e (um_mad sndbuf) 0 IB_MAD_TRID_F;
       send_retries e st portid sndbuf agentid len timeout (ucast trid) (nat max_retries) 0
     }
   }"

section \<open>Redirection\<close>

definition redirect_port :: "ib_portid_t \<Rightarrow> mem \<Rightarrow> (int \<times> ib_portid_t) option" where
  "redirect_port port mad = do {
     lid \<leftarrow> mad_get_field mad 64 IB_CPI_REDIRECT_LID_F;
     let port = port\<lparr>pt_lid := int_of_u32 lid\<rparr>;
     if pt_lid port = 0 then Some (-1, port)
     else do {
       qp \<leftarrow> mad_get_field mad 64 IB_CPI_REDIRECT_QP_F;
       qkey \<leftarrow> mad_get_field mad 64 IB_CPI_REDIRECT_QKEY_F;
       sl \<leftarrow> mad_get_field mad 64 IB_CPI_REDIRECT_SL_F;
       Some (0, port\<lparr>pt_qp := qp, pt_qkey := qkey, pt_sl := ucast sl\<rparr>)
     }
   }"

section \<open>mad_rpc\<close>

definition rpc_is_v1 :: "ib_rpc_t \<Rightarrow> bool" where
  "rpc_is_v1 rpc \<longleftrightarrow> r_mgtclass rpc AND IB_MAD_RPC_VERSION_MASK = IB_MAD_RPC_VERSION1"

definition set_rpc_error :: "ib_rpc_t \<Rightarrow> int \<Rightarrow> ib_rpc_t" where
  "set_rpc_error rpc err = (if rpc_is_v1 rpc then rpc\<lparr>r_error := err\<rparr> else rpc)"

definition zero_pkt :: umad_pkt where
  "zero_pkt = \<lparr>um_addr = (0, 0, 0, 0), um_grh = None, um_pkey = 0, um_mad = replicate 256 0\<rparr>"

definition class_agent_of :: "ibmad_port \<Rightarrow> ib_rpc_t \<Rightarrow> int" where
  "class_agent_of port rpc = class_agents port ! unat (r_mgtclass rpc AND 0xff)"

datatype rpc_exit =
  BuildFailed
| CallFailed int \<comment> \<open>the value of \<open>error\<close>\<close>
| Answered u32 mem \<comment> \<open>\<open>status\<close> and \<open>mad\<close> at the end of the loop\<close>

fun rpc_loop :: "nat \<Rightarrow> endian \<Rightarrow> mad_state \<Rightarrow> ibmad_port \<Rightarrow> ib_rpc_t \<Rightarrow> ib_portid_t \<Rightarrow> mem option \<Rightarrow>
    (rpc_exit \<times> ib_rpc_t \<times> ib_portid_t \<times> mad_state) option" where
  \<comment> \<open>the loop over redirections; the bound is a device, see \<open>mad_rpc\<close>\<close>
  "rpc_loop 0 e st port rpc dport payload = None"
| "rpc_loop (Suc n) e st port rpc dport payload = do {
     (len, en, sndbuf, rpc, g) \<leftarrow> mad_build_pkt e (ms_g st) zero_pkt rpc dport None payload;
     let st = st\<lparr>ms_g := g, ms_errno := (case en of None \<Rightarrow> ms_errno st | Some x \<Rightarrow> x)\<rparr>;
     if len < 0 then Some (BuildFailed, rpc, dport, st)
     else do {
       ((len, rcvbuf, p_error), st) \<leftarrow> do_madrpc e st (port_id port) sndbuf (class_agent_of port rpc) len
           (mad_get_timeout (ms_g st) port (r_timeout rpc)) (mad_get_retries (ms_g st) port);
       if len < 0 then Some (CallFailed (case p_error of None \<Rightarrow> 0 | Some x \<Rightarrow> x), rpc, dport, st)
       else do {
         mad \<leftarrow> rcvbuf;
         status \<leftarrow> mad_get_field mad 0 IB_DRSMP_STATUS_F;
         if status = IB_MAD_STS_REDIRECT then do {
           (failed, dport) \<leftarrow> redirect_port dport mad;
           if failed \<noteq> 0 then Some (Answered status mad, rpc, dport, st)
           else rpc_loop n e st port rpc dport payload
         } else Some (Answered status mad, rpc, dport, st)
       }
     }
   }"

text \<open>
  A round of the loop that is followed by another consumes a result of \<open>umad_recv\<close>, so
  \<open>length (ms_rx st)\<close> rounds and one more are all that a run with these results can make.
  The value returned is \<open>True\<close> for a pointer to \<open>rcvdata\<close>, whose contents follow, and
  \<open>False\<close> for \<open>NULL\<close>.
\<close>

definition mad_rpc :: "endian \<Rightarrow> mad_state \<Rightarrow> ibmad_port \<Rightarrow> ib_rpc_t \<Rightarrow> ib_portid_t \<Rightarrow>
    mem option \<Rightarrow> mem option \<Rightarrow> (bool \<times> ib_rpc_t \<times> ib_portid_t \<times> mem option \<times> mad_state) option" where
  "mad_rpc e st port rpc dport payload rcvdata = do {
     let rpc = set_rpc_error rpc 0;
     (exit, rpc, dport, st) \<leftarrow> rpc_loop (Suc (length (ms_rx st))) e st port rpc dport payload;
     case exit of
       BuildFailed \<Rightarrow> Some (False, rpc, dport, rcvdata, st)
     | CallFailed error \<Rightarrow> Some (False, set_rpc_error rpc error, dport, rcvdata, st)
     | Answered status mad \<Rightarrow> do {
         let rpc = (set_rpc_error rpc 0)\<lparr>r_rstatus := status\<rparr>;
         if status \<noteq> 0 then Some (False, rpc, dport, rcvdata, st\<lparr>ms_errno := EIO\<rparr>)
         else case rcvdata of
           None \<Rightarrow> Some (False, rpc, dport, None, st)
         | Some buf \<Rightarrow> do {
             bs \<leftarrow> mem_load mad (r_dataoffs rpc) (r_datasz rpc);
             buf \<leftarrow> mem_store buf 0 bs;
             Some (True, rpc, dport, Some buf, st)
           }
       }
   }"

section \<open>mad_rpc_rmpp\<close>

definition read_rmpp :: "mem \<Rightarrow> ib_rmpp_hdr_t \<Rightarrow> (bool \<times> ib_rmpp_hdr_t) option" where
  \<comment> \<open>false: the version is bad\<close>
  "read_rmpp mad rmpp = do {
     flags \<leftarrow> mad_get_field mad 0 IB_SA_RMPP_FLAGS_F;
     let rmpp = rmpp\<lparr>rm_flags := flags\<rparr>;
     vers \<leftarrow> mad_get_field mad 0 IB_SA_RMPP_VERS_F;
     if flags AND 3 \<noteq> 0 \<and> vers \<noteq> 1 then Some (False, rmpp)
     else do {
       type \<leftarrow> mad_get_field mad 0 IB_SA_RMPP_TYPE_F;
       status \<leftarrow> mad_get_field mad 0 IB_SA_RMPP_STATUS_F;
       d1 \<leftarrow> mad_get_field mad 0 IB_SA_RMPP_D1_F;
       d2 \<leftarrow> mad_get_field mad 0 IB_SA_RMPP_D2_F;
       Some (True, rmpp\<lparr>rm_type := type, rm_status := status, rm_d1 := d1, rm_d2 := d2\<rparr>)
     }
   }"

definition mad_rpc_rmpp :: "endian \<Rightarrow> mad_state \<Rightarrow> ibmad_port \<Rightarrow> ib_rpc_t \<Rightarrow> ib_portid_t \<Rightarrow>
    ib_rmpp_hdr_t option \<Rightarrow> mem option \<Rightarrow>
    (bool \<times> ib_rpc_t \<times> ib_rmpp_hdr_t option \<times> mem option \<times> mad_state) option" where
  "mad_rpc_rmpp e st port rpc dport rmpp data = do {
     let rpc = set_rpc_error rpc 0;
     (len, en, sndbuf, rpc, g) \<leftarrow> mad_build_pkt e (ms_g st) zero_pkt rpc dport rmpp data;
     let st = st\<lparr>ms_g := g, ms_errno := (case en of None \<Rightarrow> ms_errno st | Some x \<Rightarrow> x)\<rparr>;
     if len < 0 then Some (False, rpc, rmpp, data, st)
     else do {
       ((len, rcvbuf, p_error), st) \<leftarrow> do_madrpc e st (port_id port) sndbuf (class_agent_of port rpc) len
           (mad_get_timeout (ms_g st) port (r_timeout rpc)) (mad_get_retries (ms_g st) port);
       if len < 0
       then Some (False, set_rpc_error rpc (case p_error of None \<Rightarrow> 0 | Some x \<Rightarrow> x), rmpp, data, st)
       else do {
         let rpc = set_rpc_error rpc 0;
         mad \<leftarrow> rcvbuf;
         status \<leftarrow> mad_get_field mad 0 IB_MAD_STATUS_F;
         if status \<noteq> 0 then Some (False, rpc, rmpp, data, st\<lparr>ms_errno := EIO\<rparr>)
         else do {
           (good, rmpp) \<leftarrow> (case rmpp of None \<Rightarrow> Some (True, None)
              | Some h \<Rightarrow> do { (good, h) \<leftarrow> read_rmpp mad h; Some (good, Some h) });
           if \<not> good then Some (False, rpc, rmpp, data, st)
           else do {
             data \<leftarrow> (case data of None \<Rightarrow> Some None
                | Some buf \<Rightarrow> do {
                    bs \<leftarrow> mem_load mad (r_dataoffs rpc) (r_datasz rpc);
                    buf \<leftarrow> mem_store buf 0 bs;
                    Some (Some buf) });
             recsz \<leftarrow> mad_get_field mad 0 IB_SA_ATTROFFS_F;
             Some (data \<noteq> None, rpc\<lparr>r_recsz := recsz\<rparr>, rmpp, data, st)
           }
         }
       }
     }
   }"

end
