(* ===== verification/MadRpcCorrect.thy ===== *)
theory MadRpcCorrect
  imports MadRpc MadPacketCorrect
begin

text \<open>
  Correctness of transactions: what a caller may conclude from the value \<open>_do_madrpc\<close>,
  \<open>mad_rpc\<close> and \<open>mad_rpc_rmpp\<close> return, how often they send, and that they return when the
  results of \<open>umad_send\<close> and \<open>umad_recv\<close> are those of an answered request. The contract
  the clients rely on is the locale \<open>mad_call\<close>.
\<close>

section \<open>Matching a response\<close>

definition tid32 :: "endian \<Rightarrow> mem \<Rightarrow> u32 option" where
  "tid32 e mad = map_option ucast (mad_get_field64 e mad 0 IB_MAD_TRID_F)"

fun stale :: "endian \<Rightarrow> u32 \<Rightarrow> umad_reply \<Rightarrow> bool" where
  \<comment> \<open>a MAD of another transaction\<close>
  "stale e t (RecvError en) = False"
| "stale e t (RecvMad status len mad) = (case tid32 e mad of None \<Rightarrow> False | Some x \<Rightarrow> x \<noteq> t)"

lemma recv_match_mad:
  assumes "recv_match e t rx = Some (Inr (status, len, mad), rx')"
  shows "\<exists>skipped. rx = skipped @ RecvMad status len mad # rx' \<and> list_all (stale e t) skipped \<and> tid32 e mad = Some t"
  using assms
proof (induction e t rx rule: recv_match.induct)
  case (3 e t s l m rx)
  obtain x where x: "mad_get_field64 e m 0 IB_MAD_TRID_F = Some x"
    using "3.prems" by (auto simp: Option.bind_eq_Some_conv)
  show ?case
  proof (cases "ucast x = t")
    case True
    then show ?thesis using "3.prems" x by (auto simp: tid32_def)
  next
    case False
    then obtain sk where "rx = sk @ RecvMad status len mad # rx'" "list_all (stale e t) sk" "tid32 e mad = Some t"
      using "3.IH" [OF x] "3.prems" x by auto
    then show ?thesis using False x by (intro exI [of _ "RecvMad s l m # sk"]) (simp add: tid32_def)
  qed
qed simp_all

lemma recv_match_error:
  assumes "recv_match e t rx = Some (Inl en, rx')"
  shows "\<exists>skipped. rx = skipped @ RecvError en # rx' \<and> list_all (stale e t) skipped"
  using assms
proof (induction e t rx rule: recv_match.induct)
  case (3 e t s l m rx)
  then obtain x where x: "mad_get_field64 e m 0 IB_MAD_TRID_F = Some x" and ne: "ucast x \<noteq> t"
    by (auto simp: Option.bind_eq_Some_conv split: if_splits)
  then obtain sk where "rx = sk @ RecvError en # rx'" "list_all (stale e t) sk"
    using "3.IH" [OF x] "3.prems" by auto
  then show ?case using x ne by (intro exI [of _ "RecvMad s l m # sk"]) (simp add: tid32_def)
qed simp_all

lemma recv_match_skip:
  assumes "list_all (stale e t) skipped"
  shows "recv_match e t (skipped @ rx) = recv_match e t rx"
  using assms
proof (induction skipped)
  case (Cons r rs)
  then show ?case by (cases r) (auto simp: tid32_def split: option.splits)
qed simp

lemma recv_match_hit:
  "tid32 e mad = Some t \<Longrightarrow> recv_match e t (RecvMad status len mad # rx) = Some (Inr (status, len, mad), rx)"
  by (auto simp: tid32_def)

section \<open>Retries\<close>

definition accepted :: "int \<Rightarrow> bool" where
  \<comment> \<open>the values of \<open>umad_status\<close> that end the retries\<close>
  "accepted status \<longleftrightarrow> status = 0 \<or> status = ENOMEM"

text \<open>
  What a run of \<open>send_retries\<close> may have done: it sent the same request \<open>k\<close> times, consumed a
  part of the replies, and returned either a MAD of its transaction with an accepted status, or -1.
\<close>

definition retried :: "endian \<Rightarrow> mad_state \<Rightarrow> umad_request \<Rightarrow> u32 \<Rightarrow> nat \<Rightarrow>
    (int \<times> mem option \<times> int option) \<times> mad_state \<Rightarrow> bool" where
  "retried e st rq t n out = (case out of ((r, rcv, err), st') \<Rightarrow>
     \<exists>k used. k \<le> n \<and> ms_sent st' = ms_sent st @ replicate k rq \<and> ms_rx st = used @ ms_rx st' \<and>
       ms_g st' = ms_g st \<and>
       (case rcv of
          None \<Rightarrow> r = -1 \<and> (err = None \<or> err = Some ETIMEDOUT \<and> k = n)
        | Some mad \<Rightarrow> err = None \<and> tid32 e mad = Some t \<and>
            (\<exists>status. accepted status \<and> used \<noteq> [] \<and> last used = RecvMad status r mad)))"

lemma send_retries_retried:
  assumes "send_retries e st portid sndbuf agentid len timeout t n status = Some out"
  shows "retried e st \<lparr>rq_port = portid, rq_agent = agentid, rq_pkt = sndbuf, rq_length = len,
           rq_timeout = timeout, rq_retries = 0\<rparr> t n out"
  using assms
proof (induction n arbitrary: st status)
  case 0
  then show ?case by (auto simp: retried_def)
next
  case (Suc n)
  let ?rq = "\<lparr>rq_port = portid, rq_agent = agentid, rq_pkt = sndbuf, rq_length = len, rq_timeout = timeout, rq_retries = 0\<rparr>"
  obtain sent st1 where s1: "umad_send st portid agentid sndbuf len timeout 0 = Some (sent, st1)"
    using Suc.prems by (auto simp: Option.bind_eq_Some_conv)
  then have st1: "ms_sent st1 = ms_sent st @ [?rq]" "ms_rx st1 = ms_rx st" "ms_g st1 = ms_g st"
    by (auto simp: umad_send_def Let_def split: list.splits option.splits)
  show ?case
  proof (cases sent)
    case False
    then show ?thesis using Suc.prems s1 st1
      by (auto simp: retried_def intro!: exI [of _ 1] exI [of _ "[]"])
  next
    case True
    then obtain r rx where r: "recv_match e t (ms_rx st1) = Some (r, rx)"
      using Suc.prems s1 by (auto simp: Option.bind_eq_Some_conv)
    show ?thesis
    proof (cases r)
      case (Inl en)
      from recv_match_error [OF r [unfolded Inl]] obtain sk where "ms_rx st = (sk @ [RecvError en]) @ rx"
        using st1 by auto
      then show ?thesis using Suc.prems s1 st1 True r Inl
        by (auto simp: retried_def intro!: exI [of _ 1] exI [of _ "sk @ [RecvError en]"])
    next
      case (Inr q)
      obtain status' rlen mad where q: "q = (status', rlen, mad)" by (cases q)
      from recv_match_mad [OF r [unfolded Inr q]] obtain sk where
        sk: "ms_rx st = (sk @ [RecvMad status' rlen mad]) @ rx" "tid32 e mad = Some t"
        using st1 by auto
      show ?thesis
      proof (cases "accepted status'")
        case True
        then have "out = ((rlen, Some mad, None), st1\<lparr>ms_rx := rx\<rparr>)"
          using Suc.prems s1 \<open>sent\<close> r Inr q by (auto simp: accepted_def Let_def split: if_splits)
        then show ?thesis using st1 sk True
          by (auto simp: retried_def intro!: exI [of _ 1] exI [of _ "sk @ [RecvMad status' rlen mad]"])
      next
        case False
        then have "send_retries e (st1\<lparr>ms_rx := rx\<rparr>) portid sndbuf agentid len timeout t n status' = Some out"
          using Suc.prems s1 \<open>sent\<close> r Inr q by (auto simp: accepted_def)
        from Suc.IH [OF this] obtain r' rcv err st' k used where
          out: "out = ((r', rcv, err), st')" and "k \<le> n" "ms_sent st' = ms_sent st1 @ replicate k ?rq"
            "rx = used @ ms_rx st'" "ms_g st' = ms_g st1" and
          rcv: "case rcv of None \<Rightarrow> r' = -1 \<and> (err = None \<or> err = Some ETIMEDOUT \<and> k = n)
            | Some mad \<Rightarrow> err = None \<and> tid32 e mad = Some t \<and>
                (\<exists>status. accepted status \<and> used \<noteq> [] \<and> last used = RecvMad status r' mad)"
          by (cases out) (auto simp: retried_def)
        then have "ms_sent st' = ms_sent st @ replicate (Suc k) ?rq" "Suc k \<le> Suc n"
          "ms_rx st = (sk @ RecvMad status' rlen mad # used) @ ms_rx st'" "ms_g st' = ms_g st"
          using st1 sk by simp_all
        then show ?thesis unfolding retried_def out using rcv
          by (auto split: option.splits simp del: replicate_Suc
              intro!: exI [of _ "Suc k"] exI [of _ "sk @ RecvMad status' rlen mad # used"])
      qed
    qed
  qed
qed

text \<open>
  A round of the code: the MADs of other transactions that arrive first, then the answer. \<open>err_round\<close>s
  are those whose answer has a status that makes the code send again (a time-out, in practice).
\<close>

record rpc_round =
  rd_stale :: "umad_reply list"
  rd_status :: int
  rd_len :: int
  rd_mad :: mem

definition round_ok :: "endian \<Rightarrow> u32 \<Rightarrow> rpc_round \<Rightarrow> bool" where
  "round_ok e t rd \<longleftrightarrow> list_all (stale e t) (rd_stale rd) \<and> tid32 e (rd_mad rd) = Some t"

definition round_replies :: "rpc_round \<Rightarrow> umad_reply list" where
  "round_replies rd = rd_stale rd @ [RecvMad (rd_status rd) (rd_len rd) (rd_mad rd)]"

definition after_round :: "mad_state \<Rightarrow> umad_request \<Rightarrow> rpc_round \<Rightarrow> mad_state" where
  "after_round st rq rd = st\<lparr>ms_sent := ms_sent st @ [rq], ms_tx := tl (ms_tx st),
     ms_rx := drop (length (round_replies rd)) (ms_rx st)\<rparr>"

lemma send_retries_round:
  assumes "ms_tx st = None # tx" and "ms_rx st = round_replies rd @ rx" and "round_ok e t rd"
  shows "send_retries e st portid sndbuf agentid len timeout t (Suc n) status =
    (let st' = after_round st \<lparr>rq_port = portid, rq_agent = agentid, rq_pkt = sndbuf, rq_length = len,
                 rq_timeout = timeout, rq_retries = 0\<rparr> rd
     in if accepted (rd_status rd) then Some ((rd_len rd, Some (rd_mad rd), None), st')
        else send_retries e st' portid sndbuf agentid len timeout t n (rd_status rd))"
proof -
  have "recv_match e t (ms_rx st) = Some (Inr (rd_status rd, rd_len rd, rd_mad rd), rx)"
    using assms(2,3) recv_match_skip recv_match_hit by (simp add: round_replies_def round_ok_def)
  then show ?thesis
    using assms(1,2) by (simp add: umad_send_def Let_def accepted_def after_round_def)
qed

definition after_rounds :: "mad_state \<Rightarrow> umad_request \<Rightarrow> rpc_round list \<Rightarrow> mad_state" where
  "after_rounds st rq rds = st\<lparr>ms_sent := ms_sent st @ replicate (length rds) rq,
     ms_tx := drop (length rds) (ms_tx st),
     ms_rx := drop (length (concat (map round_replies rds))) (ms_rx st)\<rparr>"

lemma after_round_rounds:
  "after_rounds (after_round st rq rd) rq rds = after_rounds st rq (rd # rds)"
  by (simp add: after_rounds_def after_round_def drop_Suc add.commute)

lemma after_rounds_Nil: "after_rounds st rq [] = st"
  by (simp add: after_rounds_def)

lemma send_retries_rounds:
  fixes portid agentid len timeout :: int and sndbuf :: umad_pkt
  defines "rq \<equiv> \<lparr>rq_port = portid, rq_agent = agentid, rq_pkt = sndbuf, rq_length = len, rq_timeout = timeout, rq_retries = 0\<rparr>"
  assumes "list_all (\<lambda>rd. round_ok e t rd \<and> \<not> accepted (rd_status rd)) rds"
    and "ms_tx st = replicate (length rds) None @ tx" and "ms_rx st = concat (map round_replies rds) @ rx"
  shows "send_retries e st portid sndbuf agentid len timeout t (length rds + n) status =
    send_retries e (after_rounds st rq rds) portid sndbuf agentid len timeout t n
      (last (status # map rd_status rds))"
  using assms(2-)
proof (induction rds arbitrary: st status)
  case Nil
  then show ?case by (simp add: after_rounds_Nil)
next
  case (Cons rd rds)
  let ?st = "after_round st rq rd"
  have step: "send_retries e st portid sndbuf agentid len timeout t (Suc (length rds + n)) status =
      send_retries e ?st portid sndbuf agentid len timeout t (length rds + n) (rd_status rd)"
    using send_retries_round [of st "replicate (length rds) None @ tx" rd "concat (map round_replies rds) @ rx"]
      Cons.prems by (simp add: rq_def Let_def)
  have "send_retries e ?st portid sndbuf agentid len timeout t (length rds + n) (rd_status rd) =
      send_retries e (after_rounds ?st rq rds) portid sndbuf agentid len timeout t n
        (last (rd_status rd # map rd_status rds))"
    by (rule Cons.IH) (use Cons.prems in \<open>auto simp: after_round_def\<close>)
  then show ?case using step by (simp add: after_round_rounds)
qed

section \<open>_do_madrpc\<close>

definition request :: "int \<Rightarrow> umad_pkt \<Rightarrow> int \<Rightarrow> int \<Rightarrow> int \<Rightarrow> umad_request" where
  "request portid sndbuf agentid len timeout = \<lparr>rq_port = portid, rq_agent = agentid, rq_pkt = sndbuf,
     rq_length = len, rq_timeout = timeout, rq_retries = 0\<rparr>"

lemma do_madrpc_retried:
  assumes "do_madrpc e st portid sndbuf agentid len timeout max_retries = Some ((r, rcv, err), st')"
  shows "if max_retries \<le> 0
    then r = -1 \<and> rcv = None \<and> err = Some EINVAL \<and> ms_errno st' = EINVAL \<and> ms_sent st' = ms_sent st \<and>
      ms_rx st' = ms_rx st \<and> ms_g st' = ms_g st
    else \<exists>t. tid32 e (um_mad sndbuf) = Some t \<and>
      retried e st (request portid sndbuf agentid len timeout) t (nat max_retries) ((r, rcv, err), st')"
proof -
  obtain st1 where st1: "ms_sent st1 = ms_sent st" "ms_rx st1 = ms_rx st" "ms_g st1 = ms_g st" and
    rest: "(if max_retries \<le> 0 then Some ((-1, None, Some EINVAL), st1\<lparr>ms_errno := EINVAL\<rparr>)
     else do {
       trid \<leftarrow> mad_get_field64 e (um_mad sndbuf) 0 IB_MAD_TRID_F;
       send_retries e st1 portid sndbuf agentid len timeout (ucast trid) (nat max_retries) 0
     }) = Some ((r, rcv, err), st')"
  proof (cases "ms_save st")
    case None
    then show ?thesis using that [of st] assms by (simp add: do_madrpc_def)
  next
    case (Some buf)
    then obtain b where "(if max_retries \<le> 0
       then Some ((-1, None, Some EINVAL), st\<lparr>ms_save := None, ms_saved := Some b, ms_errno := EINVAL\<rparr>)
       else do {
         trid \<leftarrow> mad_get_field64 e (um_mad sndbuf) 0 IB_MAD_TRID_F;
         send_retries e (st\<lparr>ms_save := None, ms_saved := Some b\<rparr>) portid sndbuf agentid len timeout
           (ucast trid) (nat max_retries) 0
       }) = Some ((r, rcv, err), st')"
      using assms unfolding do_madrpc_def by (auto simp: Option.bind_eq_Some_conv)
    then show ?thesis using that [of "st\<lparr>ms_save := None, ms_saved := Some b\<rparr>"] by simp
  qed
  show ?thesis
  proof (cases "max_retries \<le> 0")
    case True
    then show ?thesis using rest st1 by auto
  next
    case False
    then obtain x where x: "mad_get_field64 e (um_mad sndbuf) 0 IB_MAD_TRID_F = Some x"
      "send_retries e st1 portid sndbuf agentid len timeout (ucast x) (nat max_retries) 0 = Some ((r, rcv, err), st')"
      using rest by (auto simp: Option.bind_eq_Some_conv)
    from send_retries_retried [OF x(2)] False x(1) st1 show ?thesis
      by (simp add: tid32_def retried_def request_def)
  qed
qed

text \<open>
  C14. Whatever the network does, \<open>_do_madrpc\<close> sends only the request it was
  given, at most \<open>max_retries\<close> times (never if that is not positive: \<open>EINVAL\<close>), and either
  returns -1, with \<open>ETIMEDOUT\<close> only after exactly \<open>max_retries\<close> requests, or a MAD it received
  whose transaction id agrees with the request in the low 32 bits and whose status is accepted.
\<close>
theorem do_madrpc_contract:
  assumes "do_madrpc e st portid sndbuf agentid len timeout max_retries = Some ((r, rcv, err), st')"
  shows "\<exists>k. int k \<le> max 0 max_retries \<and>
    ms_sent st' = ms_sent st @ replicate k (request portid sndbuf agentid len timeout) \<and>
    (max_retries \<le> 0 \<longleftrightarrow> err = Some EINVAL) \<and>
    (err \<noteq> Some ETIMEDOUT \<or> int k = max_retries) \<and>
    (case rcv of None \<Rightarrow> r = -1
     | Some mad \<Rightarrow> err = None \<and> tid32 e mad \<noteq> None \<and> tid32 e mad = tid32 e (um_mad sndbuf) \<and>
         (\<exists>status. accepted status \<and> RecvMad status r mad \<in> set (ms_rx st)))"
proof (cases "max_retries \<le> 0")
  case True
  then show ?thesis using do_madrpc_retried [OF assms] by (intro exI [of _ 0]) (simp add: c_eval)
next
  case False
  then obtain t where t: "tid32 e (um_mad sndbuf) = Some t"
    and "retried e st (request portid sndbuf agentid len timeout) t (nat max_retries) ((r, rcv, err), st')"
    using do_madrpc_retried [OF assms] by auto
  then obtain k used where k: "k \<le> nat max_retries" and
    sent: "ms_sent st' = ms_sent st @ replicate k (request portid sndbuf agentid len timeout)" and
    used: "ms_rx st = used @ ms_rx st'" and
    rcv: "case rcv of None \<Rightarrow> r = -1 \<and> (err = None \<or> err = Some ETIMEDOUT \<and> k = nat max_retries)
      | Some mad \<Rightarrow> err = None \<and> tid32 e mad = Some t \<and>
            (\<exists>status. accepted status \<and> used \<noteq> [] \<and> last used = RecvMad status r mad)"
    unfolding retried_def by auto
  have "RecvMad status r mad \<in> set (ms_rx st)" if "used \<noteq> []" "last used = RecvMad status r mad" for status mad
    using last_in_set [OF that(1)] that(2) used by simp
  then show ?thesis
    using k sent rcv t False
    by (intro exI [of _ k]) (auto simp: c_eval split: option.splits)
qed

lemma le_word_zeros: "le_word (replicate n 0) = 0"
  by (induction n) simp_all

lemma native_bytes_zero: "native_bytes e n (0 :: 'a::len word) = replicate n 0"
  by (rule nth_equalityI) (simp_all add: nth_native_bytes byte_of_def)

lemma tid32_zero: "tid32 e (replicate 256 0) = Some 0"
proof -
  have "native_word e (replicate 8 0) = (0 :: u64)"
    by (cases e) (simp_all add: native_word_def le_word_zeros)
  moreover have "ntohll e 0 = 0"
    by (cases e) (simp_all add: ntohll_def htonll_def native_bytes_zero le_word_zeros)
  ultimately show ?thesis
    by (simp add: tid32_def mad_get_field64_def field_descs get_field64_def mem_load_def)
qed

lemma do_madrpc_start:
  assumes "ms_save st = None" and "tid32 e (um_mad sndbuf) = Some t" and "0 < max_retries"
  shows "do_madrpc e st portid sndbuf agentid len timeout max_retries =
    send_retries e st portid sndbuf agentid len timeout t (nat max_retries) 0"
  using assms by (auto simp: do_madrpc_def tid32_def)

definition failing_rounds :: "endian \<Rightarrow> u32 \<Rightarrow> rpc_round list \<Rightarrow> bool" where
  "failing_rounds e t rds = list_all (\<lambda>rd. round_ok e t rd \<and> \<not> accepted (rd_status rd)) rds"

lemma do_madrpc_rounds:
  assumes "ms_save st = None" and "tid32 e (um_mad sndbuf) = Some t"
    and "failing_rounds e t rds" and "int (length rds) \<le> max_retries" "0 < max_retries"
    and "ms_tx st = replicate (length rds) None @ tx" and "ms_rx st = concat (map round_replies rds) @ rx"
  shows "do_madrpc e st portid sndbuf agentid len timeout max_retries =
    send_retries e (after_rounds st (request portid sndbuf agentid len timeout) rds) portid sndbuf agentid
      len timeout t (nat max_retries - length rds) (last (0 # map rd_status rds))"
proof -
  have n: "nat max_retries = length rds + (nat max_retries - length rds)" using assms(4) by simp
  show ?thesis
    unfolding do_madrpc_start [OF assms(1,2,5)] request_def
    by (subst n, rule send_retries_rounds) (use assms in \<open>simp_all add: failing_rounds_def\<close>)
qed

lemma after_rounds_snoc:
  "after_round (after_rounds st rq rds) rq rd = after_rounds st rq (rds @ [rd])"
  by (simp add: after_rounds_def after_round_def replicate_append_same drop_Suc tl_drop add.commute)

lemma do_madrpc_answer:
  assumes "ms_save st = None" and "tid32 e (um_mad sndbuf) = Some t"
    and "failing_rounds e t rds" and "round_ok e t rd" "accepted (rd_status rd)"
    and "int (length rds) < max_retries"
    and "ms_tx st = replicate (Suc (length rds)) None @ tx"
    and "ms_rx st = concat (map round_replies (rds @ [rd])) @ rx"
  shows "do_madrpc e st portid sndbuf agentid len timeout max_retries =
    Some ((rd_len rd, Some (rd_mad rd), None),
          after_rounds st (request portid sndbuf agentid len timeout) (rds @ [rd]))"
proof -
  let ?rq = "request portid sndbuf agentid len timeout" and ?st = "after_rounds st (request portid sndbuf agentid len timeout) rds"
  have tx: "ms_tx ?st = None # tx"
    using assms(7) by (simp add: after_rounds_def replicate_append_same [symmetric] del: replicate_Suc)
       (simp add: replicate_append_same)
  have rx: "ms_rx ?st = round_replies rd @ rx" using assms(8) by (simp add: after_rounds_def)
  obtain n where n: "nat max_retries - length rds = Suc n"
    using assms(6) by (metis Suc_diff_Suc zless_nat_eq_int_zless)
  have "do_madrpc e st portid sndbuf agentid len timeout max_retries =
      send_retries e ?st portid sndbuf agentid len timeout t (Suc n) (last (0 # map rd_status rds))"
    unfolding n [symmetric]
    by (rule do_madrpc_rounds [where tx = "None # tx"])
       (use assms in \<open>simp_all add: replicate_app_Cons_same\<close>)
  then show ?thesis
    using send_retries_round [OF tx rx assms(4), of portid sndbuf agentid len timeout n] assms(5)
    by (simp add: request_def after_rounds_snoc)
qed

text \<open>
  C26. If fewer than \<open>max_retries\<close> requests time out and the next one is answered,
  however many MADs of other transactions arrive in between, \<open>_do_madrpc\<close> returns the answer
  and has sent the request once for every time-out and once more.
\<close>
theorem do_madrpc_answered:
  assumes "ms_save st = None" and "tid32 e (um_mad sndbuf) = Some t"
    and "failing_rounds e t rds" and "round_ok e t rd" "accepted (rd_status rd)"
    and "int (length rds) < max_retries"
    and "ms_tx st = replicate (Suc (length rds)) None @ tx"
    and "ms_rx st = concat (map round_replies (rds @ [rd])) @ rx"
  shows "\<exists>st'. do_madrpc e st portid sndbuf agentid len timeout max_retries =
      Some ((rd_len rd, Some (rd_mad rd), None), st') \<and>
    ms_sent st' = ms_sent st @ replicate (Suc (length rds)) (request portid sndbuf agentid len timeout) \<and>
    ms_rx st' = rx"
  using do_madrpc_answer [OF assms, of portid agentid len timeout] assms(8)
  by (simp add: after_rounds_def)

text \<open>
  Property. If all of the \<open>max_retries\<close> requests time out, \<open>_do_madrpc\<close> returns
  -1 with \<open>ETIMEDOUT\<close> after sending exactly so many, and \<open>errno\<close> is the last status.
\<close>
theorem do_madrpc_timeout:
  assumes "ms_save st = None" and "tid32 e (um_mad sndbuf) = Some t"
    and "failing_rounds e t rds" and "int (length rds) = max_retries" and "rds \<noteq> []"
    and "ms_tx st = replicate (length rds) None @ tx" and "ms_rx st = concat (map round_replies rds) @ rx"
  shows "\<exists>st'. do_madrpc e st portid sndbuf agentid len timeout max_retries =
      Some ((-1, None, Some ETIMEDOUT), st') \<and> ms_errno st' = rd_status (last rds) \<and>
    ms_sent st' = ms_sent st @ replicate (length rds) (request portid sndbuf agentid len timeout) \<and>
    ms_rx st' = rx"
  using do_madrpc_rounds [OF assms(1-3) _ _ assms(6,7), of max_retries portid agentid len timeout] assms(4,5,7)
  by (auto simp: after_rounds_def last_map)

definition example_state :: mad_state where
  \<comment> \<open>two requests time out (the second after a stray MAD), the third is answered\<close>
  "example_state = \<lparr>ms_g = example_globals, ms_errno = 0, ms_tx = replicate 3 None,
     ms_rx = [RecvMad ETIMEDOUT 256 (replicate 256 0), RecvMad ETIMEDOUT 256 (replicate 256 0),
              RecvMad 0 256 (replicate 256 0)],
     ms_sent = [], ms_save = None, ms_save_len = 256, ms_saved = None\<rparr>"

definition example_round :: "int \<Rightarrow> rpc_round" where
  "example_round status = \<lparr>rd_stale = [], rd_status = status, rd_len = 256, rd_mad = replicate 256 0\<rparr>"

lemma example_rounds:
  "failing_rounds e 0 [example_round ETIMEDOUT, example_round ETIMEDOUT]" "round_ok e 0 (example_round 0)"
  "accepted (rd_status (example_round 0))" "tid32 e (um_mad zero_pkt) = Some 0"
  "ms_save example_state = None" "int (length [example_round ETIMEDOUT, example_round ETIMEDOUT]) < 3"
  "ms_tx example_state = replicate (Suc (length [example_round ETIMEDOUT, example_round ETIMEDOUT])) None @ []"
  "ms_rx example_state =
     concat (map round_replies ([example_round ETIMEDOUT, example_round ETIMEDOUT] @ [example_round 0])) @ []"
  by (simp_all add: failing_rounds_def round_ok_def example_round_def tid32_zero accepted_def zero_pkt_def
      example_state_def round_replies_def c_eval numeral_3_eq_3)

lemmas example_answer = do_madrpc_answer [OF example_rounds(5,4,1-3,6-8)]

theorem do_madrpc_answered_witness:
  "\<exists>st'. do_madrpc LE example_state 0 zero_pkt 1 256 1000 3 = Some ((256, Some (replicate 256 0), None), st') \<and>
     length (ms_sent st') = 3"
  using do_madrpc_answered [OF example_rounds(5,4,1-3,6-8), of LE 0 1 256 1000]
  by (auto simp: example_round_def example_state_def)

theorem do_madrpc_contract_witness:
  "\<exists>k st'. do_madrpc LE example_state 0 zero_pkt 1 256 1000 3 = Some ((256, Some (replicate 256 0), None), st') \<and>
     k \<le> 3 \<and> length (ms_sent st') = k"
proof -
  have run: "do_madrpc LE example_state 0 zero_pkt 1 256 1000 3 =
      Some ((256, Some (replicate 256 0), None), after_rounds example_state (request 0 zero_pkt 1 256 1000)
        ([example_round ETIMEDOUT, example_round ETIMEDOUT] @ [example_round 0]))"
    using example_answer [of LE 0 1 256 1000] by (simp add: example_round_def)
  from do_madrpc_contract [OF run] run show ?thesis by (fastforce simp: example_state_def)
qed

theorem do_madrpc_timeout_witness:
  "\<exists>st'. do_madrpc LE (example_state\<lparr>ms_tx := [None, None], ms_rx := take 2 (ms_rx example_state)\<rparr>) 0 zero_pkt 1 256 1000 2
     = Some ((-1, None, Some ETIMEDOUT), st') \<and> ms_errno st' = ETIMEDOUT \<and> length (ms_sent st') = 2"
proof -
  have "int (length [example_round ETIMEDOUT, example_round ETIMEDOUT]) = 2" by simp
  from do_madrpc_timeout [OF _ example_rounds(4,1) this, where tx = "[]" and rx = "[]" and e = LE
      and st = "example_state\<lparr>ms_tx := [None, None], ms_rx := take 2 (ms_rx example_state)\<rparr>"
      and portid = 0 and agentid = 1 and len = 256 and timeout = 1000]
  show ?thesis by (auto simp: example_state_def example_round_def round_replies_def)
qed

section \<open>mad_rpc\<close>

definition rpc_args_ok :: "ib_rpc_t \<Rightarrow> ib_portid_t \<Rightarrow> mem option \<Rightarrow> bool" where
  "rpc_args_ok rpc dport payload \<longleftrightarrow> encode_args_ok rpc (pkt_path rpc dport) payload"

definition no_path :: "ib_rpc_t \<Rightarrow> ib_portid_t \<Rightarrow> bool" where
  "no_path rpc dport \<longleftrightarrow> rpc_class rpc = IB_SMI_DIRECT_CLASS \<and> 64 \<le> cnt (pt_drpath dport)"

lemma rpc_build:
  assumes "rpc_args_ok rpc dport payload"
  shows "\<exists>mad. mad_build_pkt e g zero_pkt rpc dport rmpp payload =
      Some (if no_path rpc dport then (-1, Some EINVAL, (addressed zero_pkt rpc dport)\<lparr>um_mad := mad\<rparr>, rpc, g)
            else (256, None, (addressed zero_pkt rpc dport)\<lparr>um_mad := mad\<rparr>,
                  fst (with_trid g rpc), snd (with_trid g rpc))) \<and>
    (no_path rpc dport \<or> tid32 e mad = Some (ucast (r_trid (fst (with_trid g rpc)))))"
proof (cases "no_path rpc dport")
  case True
  then have bad: "bad_path rpc (pkt_path rpc dport)" by (simp add: no_path_def bad_path_pkt)
  from mad_encode_error [of "um_mad zero_pkt", OF _ bad, of e g payload] show ?thesis
    using True by (auto simp: mad_build_pkt_unfold zero_pkt_def)
next
  case False
  then have good: "\<not> bad_path rpc (pkt_path rpc dport)" by (simp add: no_path_def bad_path_pkt)
  note args = assms [unfolded rpc_args_ok_def]
  have len: "length (um_mad zero_pkt) = 256" by (simp add: zero_pkt_def)
  from mad_encode_default [OF len args good args, of e g] obtain b where
    b: "mad_encode e g (um_mad zero_pkt) rpc (pkt_path rpc dport) payload =
          Some (None, b, fst (with_trid g rpc), snd (with_trid g rpc))" "length b = 256"
       "ids_as b (fst (with_trid g rpc))" by blast
  have "\<exists>b'. (if \<not> pkt_smi rpc \<and> rmpp \<noteq> None then encode_rmpp b (the rmpp) else Some b) = Some b' \<and>
      ids_as b' (fst (with_trid g rpc))"
  proof (cases "\<not> pkt_smi rpc \<and> rmpp \<noteq> None")
    case True
    obtain b' where "encode_rmpp b (the rmpp) = Some b'" "touches b b' 192 288"
      using encode_rmpp_ok [OF b(2)] by blast
    moreover from this(2) have "touches b b' 192 2048" by (rule touches_mono) simp_all
    ultimately show ?thesis using True b(2,3) ids_keep by auto
  qed (use b in auto)
  then obtain b' where b': "(if \<not> pkt_smi rpc \<and> rmpp \<noteq> None then encode_rmpp b (the rmpp) else Some b) = Some b'"
      "ids_as b' (fst (with_trid g rpc))" by blast
  have "tid32 e b' = Some (ucast (r_trid (fst (with_trid g rpc))))"
    using b'(2) by (cases e) (simp_all add: tid32_def ids_as_def)
  then show ?thesis
    unfolding mad_build_pkt_unfold b(1) using b'(1) False by (intro exI [of _ b']) simp
qed

lemma rpc_args_step:
  assumes "rpc_args_ok rpc dport payload" and "redirect_port dport mad = Some (r, dport')"
  shows "rpc_args_ok (fst (with_trid g rpc)) dport' payload"
proof -
  have "pt_drpath dport' = pt_drpath dport"
    using assms(2) by (auto simp: redirect_port_def Option.bind_eq_Some_conv Let_def split: if_splits)
  then have "pkt_path (fst (with_trid g rpc)) dport' = pkt_path rpc dport"
    by (simp add: pkt_path_def with_trid_keeps)
  then show ?thesis using assms(1)
    by (simp add: rpc_args_ok_def encode_args_ok_def with_trid_keeps cong: option.case_cong)
qed

definition answered_by :: "endian \<Rightarrow> umad_reply list \<Rightarrow> ib_rpc_t \<Rightarrow> u32 \<Rightarrow> mem \<Rightarrow> bool" where
  \<comment> \<open>\<open>mad\<close> is among the replies, accepted, answers \<open>rpc\<close>, and has this MAD status\<close>
  "answered_by e rx rpc status mad \<longleftrightarrow>
     (\<exists>s len. RecvMad s len mad \<in> set rx \<and> accepted s) \<and>
     tid32 e mad = Some (ucast (r_trid rpc)) \<and> mad_get_field mad 0 IB_DRSMP_STATUS_F = Some status"

definition only_trid :: "ib_rpc_t \<Rightarrow> ib_rpc_t \<Rightarrow> bool" where
  "only_trid rpc rpc' \<longleftrightarrow> rpc' = rpc\<lparr>r_trid := r_trid rpc'\<rparr> \<and> (r_trid rpc = 0 \<or> r_trid rpc' = r_trid rpc)"

lemma only_trid_with: "only_trid rpc (fst (with_trid g rpc))"
  by (simp add: only_trid_def with_trid_def case_prod_beta Let_def)

lemma only_trid_trans: "only_trid a b \<Longrightarrow> only_trid b c \<Longrightarrow> only_trid a c"
  unfolding only_trid_def by (metis ib_rpc_t.ext_inject ib_rpc_t.surjective ib_rpc_t.update_convs(9))

text \<open>What one call of \<open>_do_madrpc\<close> in the loop may do to the state.\<close>

lemma do_madrpc_frame:
  assumes "do_madrpc e st portid sndbuf agentid len timeout max_retries = Some ((r, rcv, err), st')"
  shows "(\<exists>used. ms_rx st = used @ ms_rx st') \<and> ms_g st' = ms_g st"
    and "rcv = None \<Longrightarrow> r = -1"
    and "rcv = Some mad \<Longrightarrow> tid32 e mad = tid32 e (um_mad sndbuf) \<and>
      (\<exists>s. accepted s \<and> RecvMad s r mad \<in> set (ms_rx st)) \<and> length (ms_rx st') < length (ms_rx st)"
proof -
  note c = do_madrpc_retried [OF assms]
  show "(\<exists>used. ms_rx st = used @ ms_rx st') \<and> ms_g st' = ms_g st"
    using c by (auto simp: retried_def split: if_splits)
  show "rcv = None \<Longrightarrow> r = -1"
    using c by (auto simp: retried_def split: if_splits)
  assume rcv: "rcv = Some mad"
  then have "\<not> max_retries \<le> 0" using c by (auto split: if_splits)
  with c rcv obtain used s where "ms_rx st = used @ ms_rx st'" "accepted s" "used \<noteq> []"
    "last used = RecvMad s r mad" "tid32 e mad = tid32 e (um_mad sndbuf)"
    by (auto simp: retried_def)
  then show "tid32 e mad = tid32 e (um_mad sndbuf) \<and>
      (\<exists>s. accepted s \<and> RecvMad s r mad \<in> set (ms_rx st)) \<and> length (ms_rx st') < length (ms_rx st)"
    by (metis (no_types, lifting) Un_iff last_in_set length_append length_greater_0_conv less_add_same_cancel2 set_append)
qed

definition rpc_after :: "nat \<Rightarrow> endian \<Rightarrow> ibmad_port \<Rightarrow> ib_rpc_t \<Rightarrow> ib_portid_t \<Rightarrow> mem option \<Rightarrow>
    (int \<times> mem option \<times> int option) \<times> mad_state \<Rightarrow>
    (rpc_exit \<times> ib_rpc_t \<times> ib_portid_t \<times> mad_state) option" where
  \<comment> \<open>what the loop does with the result of \<open>_do_madrpc\<close>\<close>
  "rpc_after n e port rpc dport payload res = (case res of ((len, rcv, err), st) \<Rightarrow>
     if len < 0 then Some (CallFailed (case err of None \<Rightarrow> 0 | Some x \<Rightarrow> x), rpc, dport, st)
     else do {
       mad \<leftarrow> rcv;
       status \<leftarrow> mad_get_field mad 0 IB_DRSMP_STATUS_F;
       if status = IB_MAD_STS_REDIRECT then do {
         (failed, dport) \<leftarrow> redirect_port dport mad;
         if failed \<noteq> 0 then Some (Answered status mad, rpc, dport, st)
         else rpc_loop n e st port rpc dport payload
       } else Some (Answered status mad, rpc, dport, st)
     })"

lemma rpc_loop_step:
  assumes "mad_build_pkt e (ms_g st) zero_pkt rpc dport None payload = Some (256, None, pkt, rpc', g')"
  shows "rpc_loop (Suc n) e st port rpc dport payload = do {
    res \<leftarrow> do_madrpc e (st\<lparr>ms_g := g'\<rparr>) (port_id port) pkt (class_agent_of port rpc') 256
      (mad_get_timeout g' port (r_timeout rpc')) (mad_get_retries g' port);
    rpc_after n e port rpc' dport payload res }"
  using assms by (auto simp: rpc_after_def Let_def intro!: Option.bind_cong)

lemma rpc_loop_result:
  assumes "rpc_loop n e st port rpc dport payload = Some (exit, rpc', dport', st')"
    and "rpc_args_ok rpc dport payload"
  shows "only_trid rpc rpc' \<and> (\<exists>used. ms_rx st = used @ ms_rx st') \<and>
    (case exit of Answered status mad \<Rightarrow> answered_by e (ms_rx st) rpc' status mad | _ \<Rightarrow> True)"
  using assms
proof (induction n arbitrary: st rpc dport)
  case 0
  then show ?case by simp
next
  case (Suc n)
  from rpc_build [OF Suc.prems(2), of e "ms_g st" None] obtain m where
    m: "mad_build_pkt e (ms_g st) zero_pkt rpc dport None payload =
      Some (if no_path rpc dport then (-1, Some EINVAL, (addressed zero_pkt rpc dport)\<lparr>um_mad := m\<rparr>, rpc, ms_g st)
            else (256, None, (addressed zero_pkt rpc dport)\<lparr>um_mad := m\<rparr>,
                  fst (with_trid (ms_g st) rpc), snd (with_trid (ms_g st) rpc)))"
    and tid: "no_path rpc dport \<or> tid32 e m = Some (ucast (r_trid (fst (with_trid (ms_g st) rpc))))" by blast
  show ?case
  proof (cases "no_path rpc dport")
    case True
    then show ?thesis using Suc.prems(1) m by (auto simp: only_trid_def)
  next
    case False
    let ?rpc = "fst (with_trid (ms_g st) rpc)" and ?g = "snd (with_trid (ms_g st) rpc)"
    let ?pkt = "(addressed zero_pkt rpc dport)\<lparr>um_mad := m\<rparr>"
    obtain len rcv err st1 where
      call: "do_madrpc e (st\<lparr>ms_g := ?g\<rparr>) (port_id port) ?pkt (class_agent_of port ?rpc) 256
           (mad_get_timeout ?g port (r_timeout ?rpc)) (mad_get_retries ?g port) = Some ((len, rcv, err), st1)"
      and rest: "rpc_after n e port ?rpc dport payload ((len, rcv, err), st1) = Some (exit, rpc', dport', st')"
      using Suc.prems(1) m False unfolding rpc_loop_step [OF m [unfolded if_not_P [OF False]]]
      by (auto simp: Option.bind_eq_Some_conv simp del: rpc_loop.simps)
    note rest = rest [unfolded rpc_after_def prod.case]
    note frame = do_madrpc_frame [OF call]
    have rx: "\<exists>used. ms_rx st = used @ ms_rx st1" using frame(1) by simp
    show ?thesis
    proof (cases "len < 0")
      case True
      then show ?thesis using rest rx only_trid_with [of rpc "ms_g st"] by auto
    next
      case False
      then obtain mad status where mad: "rcv = Some mad" "mad_get_field mad 0 IB_DRSMP_STATUS_F = Some status"
        using rest by (auto simp: Option.bind_eq_Some_conv)
      have ans: "answered_by e (ms_rx st) ?rpc status mad"
        using frame(3) [OF mad(1)] mad tid \<open>\<not> no_path rpc dport\<close> by (auto simp: answered_by_def)
      from rest False mad consider
          (final) "exit = Answered status mad" "rpc' = ?rpc" "st' = st1"
        | (again) d where "redirect_port dport mad = Some (0, d)"
            "rpc_loop n e st1 port ?rpc d payload = Some (exit, rpc', dport', st')"
        by (auto simp: Option.bind_eq_Some_conv case_prod_beta split: if_splits)
      then show ?thesis
      proof cases
        case final
        then show ?thesis using ans rx only_trid_with [of rpc "ms_g st"] by simp
      next
        case again
        from Suc.IH [OF again(2) rpc_args_step [OF Suc.prems(2) again(1)]]
        have ih: "only_trid ?rpc rpc'" "\<exists>used. ms_rx st1 = used @ ms_rx st'"
          "case exit of Answered status mad \<Rightarrow> answered_by e (ms_rx st1) rpc' status mad | _ \<Rightarrow> True" by blast+
        from ih(3) rx have "case exit of Answered status mad \<Rightarrow> answered_by e (ms_rx st) rpc' status mad | _ \<Rightarrow> True"
          by (auto simp: answered_by_def split: rpc_exit.splits)
        moreover from rx ih(2) have "\<exists>used. ms_rx st = used @ ms_rx st'" by (metis append.assoc)
        ultimately show ?thesis using ih(1) only_trid_trans [OF only_trid_with] by blast
      qed
    qed
  qed
qed

lemma set_rpc_error_keeps:
  "r_trid (set_rpc_error rpc x) = r_trid rpc" "rpc_class (set_rpc_error rpc x) = rpc_class rpc"
  "r_dataoffs (set_rpc_error rpc x) = r_dataoffs rpc" "r_datasz (set_rpc_error rpc x) = r_datasz rpc"
  "rpc_args_ok (set_rpc_error rpc x) dport data = rpc_args_ok rpc dport data"
  by (simp_all add: set_rpc_error_def rpc_args_ok_def encode_args_ok_def pkt_path_def rpc_class_def
      cong: option.case_cong)

lemma only_trid_keeps:
  assumes "only_trid rpc rpc'"
  shows "r_dataoffs rpc' = r_dataoffs rpc" "r_datasz rpc' = r_datasz rpc"
proof -
  have eq: "rpc' = rpc\<lparr>r_trid := r_trid rpc'\<rparr>" using assms by (simp add: only_trid_def)
  show "r_dataoffs rpc' = r_dataoffs rpc" using arg_cong [OF eq, of r_dataoffs] by simp
  show "r_datasz rpc' = r_datasz rpc" using arg_cong [OF eq, of r_datasz] by simp
qed

lemma mad_rpc_result:
  assumes "mad_rpc e st port rpc dport payload rcvdata = Some (ret, rpc', dport', rcv, st')"
    and "rpc_args_ok rpc dport payload"
  shows "if ret then \<exists>mad buf bs out. answered_by e (ms_rx st) rpc' 0 mad \<and> r_rstatus rpc' = 0 \<and>
      rcvdata = Some buf \<and> mem_load mad (r_dataoffs rpc) (r_datasz rpc) = Some bs \<and>
      mem_store buf 0 bs = Some out \<and> rcv = Some out \<and> (r_trid rpc = 0 \<or> r_trid rpc' = r_trid rpc)
    else rcv = rcvdata"
proof -
  let ?rpc = "set_rpc_error rpc 0"
  obtain res where res: "rpc_loop (Suc (length (ms_rx st))) e st port ?rpc dport payload = Some res"
    using assms(1)
    by (cases "rpc_loop (Suc (length (ms_rx st))) e st port ?rpc dport payload")
       (simp_all add: mad_rpc_def Let_def del: rpc_loop.simps)
  obtain exit rpc1 d1 st1 where parts: "res = (exit, rpc1, d1, st1)" by (cases res)
  note loop = res [unfolded parts]
  have rest: "(case exit of
       BuildFailed \<Rightarrow> Some (False, rpc1, d1, rcvdata, st1)
     | CallFailed error \<Rightarrow> Some (False, set_rpc_error rpc1 error, d1, rcvdata, st1)
     | Answered status mad \<Rightarrow> do {
         let rpc = (set_rpc_error rpc1 0)\<lparr>r_rstatus := status\<rparr>;
         if status \<noteq> 0 then Some (False, rpc, d1, rcvdata, st1\<lparr>ms_errno := EIO\<rparr>)
         else case rcvdata of
           None \<Rightarrow> Some (False, rpc, d1, None, st1)
         | Some buf \<Rightarrow> do {
             bs \<leftarrow> mem_load mad (r_dataoffs rpc) (r_datasz rpc);
             buf \<leftarrow> mem_store buf 0 bs;
             Some (True, rpc, d1, Some buf, st1)
           }
       }) = Some (ret, rpc', dport', rcv, st')"
    using assms(1) loop by (simp add: mad_rpc_def Let_def del: rpc_loop.simps)
  from rpc_loop_result [OF loop] assms(2) have res: "only_trid ?rpc rpc1"
    "case exit of Answered status mad \<Rightarrow> answered_by e (ms_rx st) rpc1 status mad | _ \<Rightarrow> True"
    by (simp_all add: set_rpc_error_keeps)
  note off = only_trid_keeps [OF res(1), unfolded set_rpc_error_keeps]
  have trid: "r_trid rpc = 0 \<or> r_trid rpc1 = r_trid rpc"
    using res(1) by (auto simp: only_trid_def set_rpc_error_keeps)
  show ?thesis
  proof (cases exit)
    case (Answered status mad)
    then show ?thesis using rest res(2) off trid
      by (auto simp: Let_def set_rpc_error_keeps Option.bind_eq_Some_conv answered_by_def
          split: if_splits option.splits) (blast+)
  qed (use rest in auto)
qed

text \<open>
  C1. When \<open>mad_rpc\<close> returns its buffer, that buffer begins with the payload of a
  MAD that was received, has the transaction id of the request in its low 32 bits and has MAD
  status 0; the status in the request is 0 too, and the request had its transaction id before or
  had none.
\<close>
theorem mad_rpc_success:
  assumes "mad_rpc e st port rpc dport payload (Some buf) = Some (True, rpc', dport', rcv, st')"
    and "rpc_args_ok rpc dport payload"
  shows "\<exists>s len mad bs. RecvMad s len mad \<in> set (ms_rx st) \<and> accepted s \<and>
    tid32 e mad = Some (ucast (r_trid rpc')) \<and> mad_get_field mad 0 IB_DRSMP_STATUS_F = Some 0 \<and>
    mem_load mad (r_dataoffs rpc) (r_datasz rpc) = Some bs \<and> rcv = mem_store buf 0 bs \<and>
    r_rstatus rpc' = 0 \<and> (r_trid rpc = 0 \<or> r_trid rpc' = r_trid rpc)"
  using mad_rpc_result [OF assms] by (fastforce simp: answered_by_def)

text \<open>
  Property. When \<open>mad_rpc\<close> returns \<open>NULL\<close>, for whatever reason, it has not
  written to the caller's buffer; and it can return anything else only if it was given one.
\<close>
theorem mad_rpc_failure:
  assumes "mad_rpc e st port rpc dport payload rcvdata = Some (ret, rpc', dport', rcv, st')"
    and "rpc_args_ok rpc dport payload"
  shows "(ret \<or> rcv = rcvdata) \<and> (\<not> ret \<or> rcvdata \<noteq> None)"
  using mad_rpc_result [OF assms] by (auto split: if_splits)

section \<open>The contract of a call\<close>

definition replies_ok :: "umad_reply list \<Rightarrow> bool" where
  \<comment> \<open>every MAD received has 256 bytes\<close>
  "replies_ok rx = list_all (\<lambda>r. case r of RecvError _ \<Rightarrow> True | RecvMad _ _ mad \<Rightarrow> length mad = 256) rx"

lemma buf_bit_window:
  assumes "mem_load mad offs n = Some bs" and "mem_store data 0 bs = Some data'"
    and "4 dvd offs" "4 dvd n" "m < 8 * n"
  shows "buf_bit data' m = buf_bit mad (8 * offs + m)"
proof -
  have bs: "offs + n \<le> length mad" "bs = take n (drop offs mad)"
    using assms(1) by (auto simp: mem_load_def split: if_splits)
  have k: "3 XOR (m div 8) < n" using assms(4,5) by (intro xor3_less) (auto simp: less_mult_imp_div_less mult.commute)
  obtain q where q: "offs = 4 * q" using assms(3) by (elim dvdE)
  have x: "(3::nat) XOR (offs + m div 8) = offs + (3 XOR (m div 8))"
  proof -
    have a: "(4 * q + r) div 4 = q + r div 4" "(4 * q + r) mod 4 = r mod 4" for r :: nat
      by (simp_all add: mod_mult_self4)
    show ?thesis unfolding q xor3_eq [of "4 * q + m div 8"] xor3_eq [of "m div 8"] a
      by (simp only: distrib_left add.assoc)
  qed
  have len: "3 XOR (m div 8) < length data'"
    using assms(2) k bs by (auto simp: mem_store_def split: if_splits)
  have "data' ! (3 XOR (m div 8)) = bs ! (3 XOR (m div 8))"
    using mem_store_nth [OF assms(2)] assms(2) k len bs by (auto simp: mem_store_def split: if_splits)
  also have "\<dots> = mad ! (offs + (3 XOR (m div 8)))" using bs k by simp
  finally show ?thesis by (simp add: buf_bit_def x)
qed

lemma get_field_window:
  assumes "mem_load mad offs n = Some bs" and "mem_store data 0 bs = Some data'"
    and "4 dvd offs" "4 dvd n" "4 dvd length mad" "4 dvd length data"
    and "field_shape f" "bitoffs f + bitlen f \<le> 8 * n"
  shows "get_field data' 0 f = get_field mad offs f"
proof -
  have len: "length data' = length data" "n \<le> length data" "offs + n \<le> length mad"
    using assms(1,2) by (auto simp: mem_load_def mem_store_def split: if_splits)
  have ok: "field_in (length data') 0 f" "field_in (length mad) offs f"
    using assms len by (auto simp: field_in_def field_end_def field_start_def)
  have "buf_bit data' (field_start 0 f + j) = buf_bit mad (field_start offs f + j)" if "j < bitlen f" for j
    using buf_bit_window [OF assms(1-4), of "bitoffs f + j"] that assms(8)
    by (simp add: field_start_def add.assoc)
  then have "get_field data' 0 f = Some w \<longleftrightarrow> get_field mad offs f = Some w" for w
    using get_field_Some [OF assms(7) ok(1)] get_field_Some [OF assms(7) ok(2)] by auto
  then show ?thesis by (metis not_None_eq)
qed

text \<open>
  What the clients of a transaction rely on: a call that succeeds has stored the payload of a
  response, received and matched, in the caller's buffer; one that fails has left it alone.
\<close>

locale mad_call =
  fixes call :: "mad_state \<Rightarrow> ib_rpc_t \<Rightarrow> ib_portid_t \<Rightarrow> mem \<Rightarrow> (bool \<times> ib_rpc_t \<times> mem) option"
    and e :: endian and status_field :: nat
  assumes delivered: "call st rpc dport data = Some (True, rpc', data') \<Longrightarrow> rpc_args_ok rpc dport (Some data) \<Longrightarrow>
      \<exists>s len mad bs. RecvMad s len mad \<in> set (ms_rx st) \<and> accepted s \<and>
        tid32 e mad = Some (ucast (r_trid rpc')) \<and> (r_trid rpc = 0 \<or> r_trid rpc' = r_trid rpc) \<and>
        mad_get_field mad 0 status_field = Some 0 \<and>
        mem_load mad (r_dataoffs rpc) (r_datasz rpc) = Some bs \<and> mem_store data 0 bs = Some data'"
    and kept: "call st rpc dport data = Some (False, rpc', data') \<Longrightarrow> rpc_args_ok rpc dport (Some data) \<Longrightarrow>
      data' = data"
begin

lemma length_kept:
  assumes "call st rpc dport data = Some (ret, rpc', data')" and "rpc_args_ok rpc dport (Some data)"
  shows "length data' = length data"
  using assms delivered [of st rpc dport data rpc' data'] kept [of st rpc dport data rpc' data']
  by (cases ret) (auto dest: length_mem_store)

text \<open>A field of the attribute in the buffer is the field of the attribute in the response.\<close>

lemma fields_delivered:
  assumes "call st rpc dport data = Some (True, rpc', data')" and "rpc_args_ok rpc dport (Some data)"
    and "replies_ok (ms_rx st)" and "4 dvd length data"
  shows "\<exists>s len mad. RecvMad s len mad \<in> set (ms_rx st) \<and> accepted s \<and>
    mad_get_field mad 0 status_field = Some 0 \<and>
    tid32 e mad = Some (ucast (r_trid rpc')) \<and> (r_trid rpc = 0 \<or> r_trid rpc' = r_trid rpc) \<and>
    (\<forall>n f. field_desc n = Some f \<longrightarrow> 0 < bitlen f \<longrightarrow> bitlen f \<le> 32 \<longrightarrow>
       bitoffs f + bitlen f \<le> 8 * r_datasz rpc \<longrightarrow>
       mad_get_field data' 0 n = mad_get_field mad (r_dataoffs rpc) n)"
proof -
  from delivered [OF assms(1,2)] obtain s len mad bs where
    mad: "RecvMad s len mad \<in> set (ms_rx st)" "accepted s" "mad_get_field mad 0 status_field = Some 0"
      "tid32 e mad = Some (ucast (r_trid rpc'))" "r_trid rpc = 0 \<or> r_trid rpc' = r_trid rpc"
    and bs: "mem_load mad (r_dataoffs rpc) (r_datasz rpc) = Some bs" "mem_store data 0 bs = Some data'" by blast
  have geom: "4 dvd r_dataoffs rpc" "4 dvd r_datasz rpc"
    using assms(2) by (auto simp: rpc_args_ok_def encode_args_ok_def)
  have "length mad = 256" using assms(3) mad(1) by (fastforce simp: replies_ok_def list_all_iff)
  then have "mad_get_field data' 0 n = mad_get_field mad (r_dataoffs rpc) n"
    if "field_desc n = Some f" "0 < bitlen f" "bitlen f \<le> 32" "bitoffs f + bitlen f \<le> 8 * r_datasz rpc" for n f
    using get_field_window [OF bs geom _ assms(4) desc_shape [OF that(1-3)] that(4)] that(1)
    by (simp add: mad_get_field_def)
  with mad show ?thesis by blast
qed

end

definition rpc_call :: "endian \<Rightarrow> ibmad_port \<Rightarrow> mad_state \<Rightarrow> ib_rpc_t \<Rightarrow> ib_portid_t \<Rightarrow> mem \<Rightarrow> (bool \<times> ib_rpc_t \<times> mem) option" where
  \<comment> \<open>\<open>mad_rpc\<close> with one buffer for the request and the response\<close>
  "rpc_call e port st rpc dport data = map_option (\<lambda>(ret, rpc, _, rcv, _). (ret, rpc, the rcv))
     (mad_rpc e st port rpc dport (Some data) (Some data))"

definition rmpp_call :: "endian \<Rightarrow> ibmad_port \<Rightarrow> mad_state \<Rightarrow> ib_rpc_t \<Rightarrow> ib_portid_t \<Rightarrow> mem \<Rightarrow> (bool \<times> ib_rpc_t \<times> mem) option" where
  \<comment> \<open>\<open>mad_rpc_rmpp\<close> without an RMPP header\<close>
  "rmpp_call e port st rpc dport data = map_option (\<lambda>(ret, rpc, _, rcv, _). (ret, rpc, the rcv))
     (mad_rpc_rmpp e st port rpc dport None (Some data))"

interpretation rpc: mad_call "rpc_call e port" e IB_DRSMP_STATUS_F for e port
proof (unfold_locales, goal_cases)
  case (1 st rpc dport data rpc' data')
  then obtain dport' rcv st' where
    "mad_rpc e st port rpc dport (Some data) (Some data) = Some (True, rpc', dport', rcv, st')" "data' = the rcv"
    by (auto simp: rpc_call_def)
  with mad_rpc_result [OF this(1) 1(2)] show ?case by (fastforce simp: answered_by_def)
next
  case (2 st rpc dport data rpc' data')
  then obtain dport' rcv st' where
    "mad_rpc e st port rpc dport (Some data) (Some data) = Some (False, rpc', dport', rcv, st')" "data' = the rcv"
    by (auto simp: rpc_call_def)
  with mad_rpc_result [OF this(1) 2(2)] show ?case by simp
qed

definition rmpp_rest :: "ib_rpc_t \<Rightarrow> ib_rmpp_hdr_t option \<Rightarrow> mem option \<Rightarrow> (int \<times> mem option \<times> int option) \<times> mad_state \<Rightarrow>
    (bool \<times> ib_rpc_t \<times> ib_rmpp_hdr_t option \<times> mem option \<times> mad_state) option" where
  \<comment> \<open>what \<open>mad_rpc_rmpp\<close> does with the result of \<open>_do_madrpc\<close>\<close>
  "rmpp_rest rpc rmpp data res = (case res of ((len, rcv, err), st) \<Rightarrow>
     if len < 0 then Some (False, set_rpc_error rpc (case err of None \<Rightarrow> 0 | Some x \<Rightarrow> x), rmpp, data, st)
     else do {
       let rpc = set_rpc_error rpc 0;
       mad \<leftarrow> rcv;
       status \<leftarrow> mad_get_field mad 0 IB_MAD_STATUS_F;
       if status \<noteq> 0 then Some (False, rpc, rmpp, data, st\<lparr>ms_errno := EIO\<rparr>)
       else do {
         (good, rmpp) \<leftarrow> (case rmpp of None \<Rightarrow> Some (True, None)
            | Some h \<Rightarrow> do { (good, h) \<leftarrow> read_rmpp mad h; Some (good, Some h) });
         if \<not> good then Some (False, rpc, rmpp, data, st)
         else do {
           data \<leftarrow> (case data of None \<Rightarrow> Some None
              | Some buf \<Rightarrow> do {
                  bs \<leftarrow> mem_load mad (r_dataoffs rpc) (r_datasz rpc);
                  buf \<leftarrow> mem_store buf 0 bs;
                  Some (Some buf) });
           recsz \<leftarrow> mad_get_field mad 0 IB_SA_ATTROFFS_F;
           Some (data \<noteq> None, rpc\<lparr>r_recsz := recsz\<rparr>, rmpp, data, st)
         }
       }
     })"

lemma mad_rpc_rmpp_step:
  assumes "mad_build_pkt e (ms_g st) zero_pkt (set_rpc_error rpc 0) dport rmpp data = Some (256, None, pkt, rpc', g')"
  shows "mad_rpc_rmpp e st port rpc dport rmpp data = do {
    res \<leftarrow> do_madrpc e (st\<lparr>ms_g := g'\<rparr>) (port_id port) pkt (class_agent_of port rpc') 256
      (mad_get_timeout g' port (r_timeout rpc')) (mad_get_retries g' port);
    rmpp_rest rpc' rmpp data res }"
  using assms by (auto simp: mad_rpc_rmpp_def rmpp_rest_def Let_def intro!: Option.bind_cong)

lemma mad_rpc_rmpp_result:
  assumes "mad_rpc_rmpp e st port rpc dport rmpp (Some data) = Some (ret, rpc', rmpp', out, st')"
    and "rpc_args_ok rpc dport (Some data)"
  shows "if ret then \<exists>s len mad bs out'. RecvMad s len mad \<in> set (ms_rx st) \<and> accepted s \<and>
      tid32 e mad = Some (ucast (r_trid rpc')) \<and> (r_trid rpc = 0 \<or> r_trid rpc' = r_trid rpc) \<and>
      mad_get_field mad 0 IB_MAD_STATUS_F = Some 0 \<and> mad_get_field mad 0 IB_SA_ATTROFFS_F = Some (r_recsz rpc') \<and>
      mem_load mad (r_dataoffs rpc) (r_datasz rpc) = Some bs \<and> mem_store data 0 bs = Some out' \<and> out = Some out'
    else out = Some data"
proof -
  let ?req = "set_rpc_error rpc 0"
  have args: "rpc_args_ok ?req dport (Some data)" using assms(2) by (simp add: set_rpc_error_keeps)
  from rpc_build [OF args, of e "ms_g st" rmpp] obtain m where
    m: "mad_build_pkt e (ms_g st) zero_pkt ?req dport rmpp (Some data) =
      Some (if no_path ?req dport then (-1, Some EINVAL, (addressed zero_pkt ?req dport)\<lparr>um_mad := m\<rparr>, ?req, ms_g st)
            else (256, None, (addressed zero_pkt ?req dport)\<lparr>um_mad := m\<rparr>,
                  fst (with_trid (ms_g st) ?req), snd (with_trid (ms_g st) ?req)))"
    and tid: "no_path ?req dport \<or> tid32 e m = Some (ucast (r_trid (fst (with_trid (ms_g st) ?req))))" by blast
  show ?thesis
  proof (cases "no_path ?req dport")
    case True
    then show ?thesis using assms(1) m by (auto simp: mad_rpc_rmpp_def Let_def)
  next
    case False
    let ?rpc = "fst (with_trid (ms_g st) ?req)" and ?g = "snd (with_trid (ms_g st) ?req)"
    let ?pkt = "(addressed zero_pkt ?req dport)\<lparr>um_mad := m\<rparr>"
    obtain len rcv err st1 where
      call: "do_madrpc e (st\<lparr>ms_g := ?g\<rparr>) (port_id port) ?pkt (class_agent_of port ?rpc) 256
           (mad_get_timeout ?g port (r_timeout ?rpc)) (mad_get_retries ?g port) = Some ((len, rcv, err), st1)"
      and rest: "rmpp_rest ?rpc rmpp (Some data) ((len, rcv, err), st1) = Some (ret, rpc', rmpp', out, st')"
      using assms(1) unfolding mad_rpc_rmpp_step [OF m [unfolded if_not_P [OF False]]]
      by (auto simp: Option.bind_eq_Some_conv)
    note rest = rest [unfolded rmpp_rest_def prod.case Let_def]
    show ?thesis
    proof (cases ret)
      case False
      then show ?thesis using rest
        by (auto simp: Option.bind_eq_Some_conv split: if_splits)
    next
      case True
      from rest True obtain mad bs out' where mad: "\<not> len < 0" "rcv = Some mad"
        "mad_get_field mad 0 IB_MAD_STATUS_F = Some 0" "mad_get_field mad 0 IB_SA_ATTROFFS_F = Some (r_recsz rpc')"
        "mem_load mad (r_dataoffs ?rpc) (r_datasz ?rpc) = Some bs" "mem_store data 0 bs = Some out'" "out = Some out'"
        "r_trid rpc' = r_trid ?rpc"
        by (auto simp: Option.bind_eq_Some_conv set_rpc_error_keeps split: if_splits)
      have "r_trid rpc = 0 \<or> r_trid ?rpc = r_trid rpc"
        using only_trid_with [of ?req "ms_g st"] by (simp add: only_trid_def set_rpc_error_keeps)
      moreover have "tid32 e mad = Some (ucast (r_trid ?rpc))" "\<exists>s. accepted s \<and> RecvMad s len mad \<in> set (ms_rx st)"
        using do_madrpc_frame(3) [OF call mad(2)] tid False \<open>\<not> no_path ?req dport\<close> by auto
      ultimately show ?thesis
        using mad True by (simp add: with_trid_keeps set_rpc_error_keeps) blast
    qed
  qed
qed

interpretation rmpp: mad_call "rmpp_call e port" e IB_MAD_STATUS_F for e port
proof (unfold_locales, goal_cases)
  case (1 st rpc dport data rpc' data')
  then obtain h rcv st' where
    "mad_rpc_rmpp e st port rpc dport None (Some data) = Some (True, rpc', h, rcv, st')" "data' = the rcv"
    by (auto simp: rmpp_call_def)
  with mad_rpc_rmpp_result [OF this(1) 1(2)] show ?case by fastforce
next
  case (2 st rpc dport data rpc' data')
  then obtain h rcv st' where
    "mad_rpc_rmpp e st port rpc dport None (Some data) = Some (False, rpc', h, rcv, st')" "data' = the rcv"
    by (auto simp: rmpp_call_def)
  with mad_rpc_rmpp_result [OF this(1) 2(2)] show ?case by simp
qed

text \<open>
  Property. When \<open>mad_rpc_rmpp\<close> returns its buffer, that begins with the payload of
  a received MAD that has the transaction id of the request and MAD status 0, and the record size
  it reports is the attribute offset of that MAD.
\<close>
theorem mad_rpc_rmpp_success:
  assumes "mad_rpc_rmpp e st port rpc dport rmpp (Some data) = Some (True, rpc', rmpp', out, st')"
    and "rpc_args_ok rpc dport (Some data)"
  shows "\<exists>s len mad bs. RecvMad s len mad \<in> set (ms_rx st) \<and> accepted s \<and>
    tid32 e mad = Some (ucast (r_trid rpc')) \<and> (r_trid rpc = 0 \<or> r_trid rpc' = r_trid rpc) \<and>
    mad_get_field mad 0 IB_MAD_STATUS_F = Some 0 \<and> mad_get_field mad 0 IB_SA_ATTROFFS_F = Some (r_recsz rpc') \<and>
    mem_load mad (r_dataoffs rpc) (r_datasz rpc) = Some bs \<and> out = mem_store data 0 bs"
  using mad_rpc_rmpp_result [OF assms] by fastforce

section \<open>Redirection\<close>

lemma mad_get_field_in:
  assumes "field_desc n = Some f" and "0 < bitlen f" "bitlen f \<le> 32" and "4 dvd length p"
    and "8 * base + bitoffs f + bitlen f \<le> 8 * length p"
  shows "\<exists>w. mad_get_field p base n = Some w"
  using get_field_bits [OF desc_shape [OF assms(1-3)], of p base] assms
  by (auto simp: mad_get_field_def field_in_def field_end_def field_start_def)

definition redirects :: "endian \<Rightarrow> u32 \<Rightarrow> mem \<Rightarrow> bool" where
  \<comment> \<open>a response to transaction \<open>t\<close> that redirects to a LID\<close>
  "redirects e t mad \<longleftrightarrow> length mad = 256 \<and> tid32 e mad = Some t \<and>
     mad_get_field mad 0 IB_DRSMP_STATUS_F = Some IB_MAD_STS_REDIRECT \<and>
     mad_get_field mad 64 IB_CPI_REDIRECT_LID_F \<noteq> Some 0"

definition redirected :: "mem \<Rightarrow> ib_portid_t \<Rightarrow> ib_portid_t" where
  "redirected mad dport = dport\<lparr>pt_lid := int_of_u32 (the (mad_get_field mad 64 IB_CPI_REDIRECT_LID_F)),
     pt_qp := the (mad_get_field mad 64 IB_CPI_REDIRECT_QP_F),
     pt_qkey := the (mad_get_field mad 64 IB_CPI_REDIRECT_QKEY_F),
     pt_sl := ucast (the (mad_get_field mad 64 IB_CPI_REDIRECT_SL_F))\<rparr>"

lemma redirect_port_lid:
  assumes "redirects e t mad"
  shows "redirect_port dport mad = Some (0, redirected mad dport)"
proof -
  have len: "length mad = 256" using assms by (simp add: redirects_def)
  obtain l where l: "mad_get_field mad 64 IB_CPI_REDIRECT_LID_F = Some l" "l \<noteq> 0"
    using mad_get_field_in [OF fd_IB_CPI_REDIRECT_LID_F, of mad 64] len assms by (auto simp: redirects_def)
  have "sint l \<noteq> 0" using l(2) by (metis signed_eq_0_iff)
  obtain q where q: "mad_get_field mad 64 IB_CPI_REDIRECT_QP_F = Some q"
    using mad_get_field_in [OF fd_IB_CPI_REDIRECT_QP_F, of mad 64] len by auto
  obtain k where k: "mad_get_field mad 64 IB_CPI_REDIRECT_QKEY_F = Some k"
    using mad_get_field_in [OF fd_IB_CPI_REDIRECT_QKEY_F, of mad 64] len by auto
  obtain s where s: "mad_get_field mad 64 IB_CPI_REDIRECT_SL_F = Some s"
    using mad_get_field_in [OF fd_IB_CPI_REDIRECT_SL_F, of mad 64] len by auto
  show ?thesis using \<open>sint l \<noteq> 0\<close> by (simp add: redirect_port_def redirected_def l q k s int_of_u32_def)
qed

fun route :: "ib_rpc_t \<Rightarrow> ib_portid_t \<Rightarrow> mem list \<Rightarrow> (int \<times> u32 \<times> u32 \<times> u32) list" where
  \<comment> \<open>the destinations of the requests when these redirections arrive\<close>
  "route rpc dport [] = [pkt_addr rpc dport]"
| "route rpc dport (mad # mads) = pkt_addr rpc dport # route rpc (redirected mad dport) mads"

definition call_rounds :: "mem \<Rightarrow> rpc_round" where
  "call_rounds mad = \<lparr>rd_stale = [], rd_status = 0, rd_len = 256, rd_mad = mad\<rparr>"

lemma redirected_keeps:
  "no_path rpc (redirected mad dport) = no_path rpc dport"
  "rpc_args_ok rpc (redirected mad dport) payload = rpc_args_ok rpc dport payload"
  by (simp_all add: redirected_def no_path_def rpc_args_ok_def pkt_path_def)

lemma do_madrpc_once:
  assumes "ms_save st = None" and "tid32 e (um_mad pkt) = Some t" and "tid32 e mad = Some t"
    and "0 < max_retries" and "ms_tx st = None # tx" and "ms_rx st = RecvMad 0 256 mad # rx"
  shows "do_madrpc e st portid pkt agentid len timeout max_retries =
    Some ((256, Some mad, None), st\<lparr>ms_sent := ms_sent st @ [request portid pkt agentid len timeout],
      ms_tx := tx, ms_rx := rx\<rparr>)"
  using do_madrpc_answer [OF assms(1,2), of "[]" "call_rounds mad" max_retries tx rx portid agentid len timeout] assms(3-)
  by (simp add: failing_rounds_def round_ok_def call_rounds_def accepted_def round_replies_def after_rounds_def)

lemma rpc_loop_redirects:
  assumes "rpc_args_ok rpc dport payload" and "\<not> no_path rpc dport" and "r_trid rpc \<noteq> 0"
    and "0 < mad_get_retries (ms_g st) port" and "ms_save st = None"
    and "list_all (redirects e (ucast (r_trid rpc))) mads"
    and "tid32 e mad = Some (ucast (r_trid rpc))" "mad_get_field mad 0 IB_DRSMP_STATUS_F = Some status"
      "status \<noteq> IB_MAD_STS_REDIRECT"
    and "ms_tx st = replicate (Suc (length mads)) None @ tx"
    and "ms_rx st = map (RecvMad 0 256) (mads @ [mad]) @ rx" and "length mads < n"
  shows "\<exists>reqs st'. rpc_loop n e st port rpc dport payload =
      Some (Answered status mad, rpc, fold redirected mads dport, st') \<and>
    ms_sent st' = ms_sent st @ reqs \<and> map (um_addr \<circ> rq_pkt) reqs = route rpc dport mads \<and> ms_rx st' = rx"
  using assms
proof (induction mads arbitrary: st dport n)
  case Nil
  obtain m where n: "n = Suc m" using Nil.prems(12) by (cases n) auto
  have wt: "with_trid (ms_g st) rpc = (rpc, ms_g st)" using Nil.prems(3) by (simp add: with_trid_def)
  from rpc_build [OF Nil.prems(1), of e "ms_g st" None] Nil.prems(2) wt obtain p where
    p: "mad_build_pkt e (ms_g st) zero_pkt rpc dport None payload =
      Some (256, None, (addressed zero_pkt rpc dport)\<lparr>um_mad := p\<rparr>, rpc, ms_g st)"
      "tid32 e p = Some (ucast (r_trid rpc))" by auto
  show ?case
    using do_madrpc_once [of "st\<lparr>ms_g := ms_g st\<rparr>" e "(addressed zero_pkt rpc dport)\<lparr>um_mad := p\<rparr>" _ mad
        "mad_get_retries (ms_g st) port" tx rx "port_id port" "class_agent_of port rpc" 256
        "mad_get_timeout (ms_g st) port (r_timeout rpc)"] p(2) Nil.prems
    unfolding n rpc_loop_step [OF p(1)]
    by (simp add: rpc_after_def request_def addressed_def)
next
  case (Cons x mads)
  obtain m where n: "n = Suc m" using Cons.prems(12) by (cases n) auto
  have wt: "with_trid (ms_g st) rpc = (rpc, ms_g st)" using Cons.prems(3) by (simp add: with_trid_def)
  from rpc_build [OF Cons.prems(1), of e "ms_g st" None] Cons.prems(2) wt obtain p where
    p: "mad_build_pkt e (ms_g st) zero_pkt rpc dport None payload =
      Some (256, None, (addressed zero_pkt rpc dport)\<lparr>um_mad := p\<rparr>, rpc, ms_g st)"
      "tid32 e p = Some (ucast (r_trid rpc))" by auto
  let ?rq = "request (port_id port) ((addressed zero_pkt rpc dport)\<lparr>um_mad := p\<rparr>) (class_agent_of port rpc) 256
     (mad_get_timeout (ms_g st) port (r_timeout rpc))"
  let ?st = "st\<lparr>ms_g := ms_g st, ms_sent := ms_sent st @ [?rq], ms_tx := replicate (Suc (length mads)) None @ tx,
     ms_rx := map (RecvMad 0 256) (mads @ [mad]) @ rx\<rparr>"
  have x: "redirects e (ucast (r_trid rpc)) x" using Cons.prems(6) by simp
  then have xs: "tid32 e x = Some (ucast (r_trid rpc))" "mad_get_field x 0 IB_DRSMP_STATUS_F = Some IB_MAD_STS_REDIRECT"
    by (simp_all add: redirects_def)
  have "rpc_loop n e st port rpc dport payload = rpc_loop m e ?st port rpc (redirected x dport) payload"
    using do_madrpc_once [of "st\<lparr>ms_g := ms_g st\<rparr>" e "(addressed zero_pkt rpc dport)\<lparr>um_mad := p\<rparr>" _ x
        "mad_get_retries (ms_g st) port" "replicate (Suc (length mads)) None @ tx"
        "map (RecvMad 0 256) (mads @ [mad]) @ rx" "port_id port" "class_agent_of port rpc" 256
        "mad_get_timeout (ms_g st) port (r_timeout rpc)"] p(2) xs Cons.prems(4,5,10,11)
    unfolding n rpc_loop_step [OF p(1)]
    by (simp add: rpc_after_def redirect_port_lid [OF x] del: rpc_loop.simps)
  moreover have "\<exists>reqs st'. rpc_loop m e ?st port rpc (redirected x dport) payload =
      Some (Answered status mad, rpc, fold redirected mads (redirected x dport), st') \<and>
    ms_sent st' = ms_sent ?st @ reqs \<and> map (um_addr \<circ> rq_pkt) reqs = route rpc (redirected x dport) mads \<and> ms_rx st' = rx"
    by (rule Cons.IH) (use Cons.prems n in \<open>auto simp: redirected_keeps\<close>)
  ultimately obtain reqs st' where "rpc_loop n e st port rpc dport payload =
      Some (Answered status mad, rpc, fold redirected mads (redirected x dport), st')"
    "ms_sent st' = ms_sent st @ (?rq # reqs)" "map (um_addr \<circ> rq_pkt) reqs = route rpc (redirected x dport) mads"
    "ms_rx st' = rx" by auto
  then show ?case by (intro exI [of _ "?rq # reqs"] exI [of _ st']) (simp add: request_def addressed_def comp_def)
qed

lemma mad_rpc_chain:
  assumes "rpc_args_ok rpc dport payload" and "\<not> no_path rpc dport" and "r_trid rpc \<noteq> 0"
    and "0 < mad_get_retries (ms_g st) port" and "ms_save st = None"
    and "list_all (redirects e (ucast (r_trid rpc))) mads"
    and "tid32 e mad = Some (ucast (r_trid rpc))" "mad_get_field mad 0 IB_DRSMP_STATUS_F = Some 0"
    and "mem_load mad (r_dataoffs rpc) (r_datasz rpc) = Some bs" "mem_store buf 0 bs = Some out"
    and "ms_tx st = replicate (Suc (length mads)) None @ tx"
    and "ms_rx st = map (RecvMad 0 256) (mads @ [mad]) @ rx"
  shows "\<exists>reqs rpc' st'. mad_rpc e st port rpc dport payload (Some buf) =
      Some (True, rpc', fold redirected mads dport, Some out, st') \<and> r_rstatus rpc' = 0 \<and>
    ms_sent st' = ms_sent st @ reqs \<and> map (um_addr \<circ> rq_pkt) reqs = route rpc dport mads"
proof -
  let ?req = "set_rpc_error rpc 0"
  have keep: "route ?req d ms = route rpc d ms" for d ms
    by (induction ms arbitrary: d) (simp_all add: pkt_addr_def set_rpc_error_keeps)
  have np: "no_path ?req dport = no_path rpc dport" by (simp add: no_path_def set_rpc_error_keeps)
  have "\<exists>reqs st'. rpc_loop (Suc (length (ms_rx st))) e st port ?req dport payload =
      Some (Answered 0 mad, ?req, fold redirected mads dport, st') \<and>
    ms_sent st' = ms_sent st @ reqs \<and> map (um_addr \<circ> rq_pkt) reqs = route ?req dport mads \<and> ms_rx st' = rx"
    by (rule rpc_loop_redirects [where tx = tx])
       (use assms in \<open>simp_all add: set_rpc_error_keeps np c_eval\<close>)
  then obtain reqs st' where "rpc_loop (Suc (length (ms_rx st))) e st port ?req dport payload =
      Some (Answered 0 mad, ?req, fold redirected mads dport, st')" "ms_sent st' = ms_sent st @ reqs"
      "map (um_addr \<circ> rq_pkt) reqs = route rpc dport mads" unfolding keep by blast
  then show ?thesis using assms(9,10)
    by (simp add: mad_rpc_def Let_def set_rpc_error_keeps del: rpc_loop.simps)
qed

text \<open>
  C25. Each response that redirects makes \<open>mad_rpc\<close> repeat the request, with the
  same transaction id, to the LID, QP, SL and Q_Key of the response, any number of times; the MAD
  that ends the chain is the one the caller gets, and \<open>dport\<close> is left at the last address.
\<close>
theorem mad_rpc_follows_redirects:
  assumes "rpc_args_ok rpc dport payload" and "\<not> no_path rpc dport" and "r_trid rpc \<noteq> 0"
    and "0 < mad_get_retries (ms_g st) port" and "ms_save st = None"
    and "list_all (redirects e (ucast (r_trid rpc))) mads"
    and "tid32 e mad = Some (ucast (r_trid rpc))" "mad_get_field mad 0 IB_DRSMP_STATUS_F = Some 0"
    and "mem_load mad (r_dataoffs rpc) (r_datasz rpc) = Some bs" "mem_store buf 0 bs = Some out"
    and "ms_tx st = replicate (Suc (length mads)) None @ tx"
    and "ms_rx st = map (RecvMad 0 256) (mads @ [mad]) @ rx"
  shows "\<exists>reqs rpc' st'. mad_rpc e st port rpc dport payload (Some buf) =
      Some (True, rpc', fold redirected mads dport, Some out, st') \<and> r_rstatus rpc' = 0 \<and>
    ms_sent st' = ms_sent st @ reqs \<and> map (um_addr \<circ> rq_pkt) reqs = route rpc dport mads"
  by (rule mad_rpc_chain [OF assms])

definition example_redirect :: mem where
  \<comment> \<open>a response to transaction 42 that redirects to LID 7, QP 1\<close>
  "example_redirect = replicate 5 0 @ [2] @ replicate 9 0 @ [42] @ replicate 77 0 @ [7] @ replicate 5 0 @ [1] @
     replicate 156 0"

definition example_answer_mad :: mem where
  "example_answer_mad = replicate 15 0 @ [42] @ replicate 240 0"

lemma example_redirects: "redirects BE 42 example_redirect"
proof -
  have len: "length example_redirect = 256" by (simp add: example_redirect_def)
  have t: "tid32 BE example_redirect = Some 42"
    by (simp add: tid32_def mad_get_field64_def field_descs get_field64_def mem_load_def example_redirect_def
        native_word_def ntohll_def htonll_def le_word_zeros)
  have s: "mad_get_field example_redirect 0 IB_DRSMP_STATUS_F = Some 2"
    by (simp add: eval_field example_redirect_def nth_append)
  have l: "mad_get_field example_redirect 64 IB_CPI_REDIRECT_LID_F = Some 7"
    by (simp add: eval_field example_redirect_def nth_append)
  show ?thesis unfolding redirects_def s l by (simp add: len t IB_MAD_STS_REDIRECT_def)
qed

lemma example_redirected:
  "redirected example_redirect d = d\<lparr>pt_lid := 7, pt_qp := 1, pt_qkey := 0, pt_sl := 0\<rparr>"
proof -
  have "mad_get_field example_redirect 64 IB_CPI_REDIRECT_LID_F = Some 7"
    "mad_get_field example_redirect 64 IB_CPI_REDIRECT_SL_F = Some 0"
    by (simp_all add: eval_field example_redirect_def nth_append)
  moreover have "mad_get_field example_redirect 64 IB_CPI_REDIRECT_QP_F = Some 1"
    "mad_get_field example_redirect 64 IB_CPI_REDIRECT_QKEY_F = Some 0"
    by (simp_all add: eval_field example_redirect_def nth_append)
  ultimately show ?thesis by (simp add: redirected_def int_of_u32_def)
qed

definition example_ping :: ib_rpc_t where
  \<comment> \<open>\<open>Get(ClassPortInfo)\<close> of the performance class\<close>
  "example_ping = rpc_zero\<lparr>r_mgtclass := IB_PERFORMANCE_CLASS, r_method := IB_MAD_METHOD_GET,
     r_attr_id := CLASS_PORT_INFO, r_dataoffs := IB_PC_DATA_OFFS, r_datasz := IB_PC_DATA_SZ, r_trid := 42\<rparr>"

definition example_port :: ibmad_port where
  "example_port = \<lparr>port_id = 0, class_agents = replicate 256 1, mp_timeout = 0, mp_retries = 0, smp_mkey = 0\<rparr>"

definition example_redirect_state :: mad_state where
  "example_redirect_state = example_state\<lparr>ms_tx := [None, None],
     ms_rx := [RecvMad 0 256 example_redirect, RecvMad 0 256 example_answer_mad]\<rparr>"

lemma example_answer_mad: "tid32 BE example_answer_mad = Some 42"
  "mad_get_field example_answer_mad 0 IB_DRSMP_STATUS_F = Some 0"
  "mem_load example_answer_mad 64 192 = Some (replicate 192 0)"
proof -
  show "tid32 BE example_answer_mad = Some 42"
    by (simp add: tid32_def mad_get_field64_def field_descs get_field64_def mem_load_def example_answer_mad_def
        native_word_def ntohll_def htonll_def le_word_zeros)
  show "mad_get_field example_answer_mad 0 IB_DRSMP_STATUS_F = Some 0"
    by (simp add: eval_field example_answer_mad_def nth_append)
  show "mem_load example_answer_mad 64 192 = Some (replicate 192 0)"
    by (simp add: mem_load_def example_answer_mad_def)
qed

lemma example_ping_ok: "rpc_args_ok example_ping example_dport (Some (replicate 192 7))"
  "\<not> no_path example_ping example_dport"
  by (simp_all add: rpc_args_ok_def encode_args_ok_def no_path_def pkt_path_def rpc_class_def class_hdr_def
      mad_is_vendor_range2_def example_ping_def rpc_zero_def c_eval)

theorem mad_rpc_follows_redirects_witness:
  "\<exists>reqs rpc' dport' st'. mad_rpc BE example_redirect_state example_port example_ping example_dport
       (Some (replicate 192 7)) (Some (replicate 192 7)) = Some (True, rpc', dport', Some (replicate 192 0), st') \<and>
     pt_lid dport' = 7 \<and> ms_sent st' = reqs \<and>
     map (um_addr \<circ> rq_pkt) reqs = [(5, 1, 0, 0x80010000), (7, 1, 0, 0)]"
proof -
  have c: "rpc_class example_ping = 4" by (simp add: rpc_class_def example_ping_def rpc_zero_def c_eval)
  have r: "route example_ping example_dport [example_redirect] = [(5, 1, 0, 0x80010000), (7, 1, 0, 0)]"
    by (simp add: example_redirected pkt_addr_def c example_dport_def portid_zero_def c_eval)
  have "mem_store (replicate 192 7) 0 (replicate 192 0) = Some (replicate 192 (0 :: u8))"
    by (simp add: mem_store_def)
  then have "\<exists>reqs rpc' st'. mad_rpc BE example_redirect_state example_port example_ping example_dport
       (Some (replicate 192 7)) (Some (replicate 192 7)) =
       Some (True, rpc', fold redirected [example_redirect] example_dport, Some (replicate 192 0), st') \<and>
     r_rstatus rpc' = 0 \<and> ms_sent st' = ms_sent example_redirect_state @ reqs \<and>
     map (um_addr \<circ> rq_pkt) reqs = route example_ping example_dport [example_redirect]"
    using example_answer_mad
    by (intro mad_rpc_follows_redirects [OF example_ping_ok, where tx = "[]" and rx = "[]"
          and mad = example_answer_mad and bs = "replicate 192 0"])
       (simp_all add: example_redirects example_ping_def rpc_zero_def example_redirect_state_def example_state_def
          mad_get_retries_def example_port_def example_globals_def c_eval)
  then show ?thesis unfolding r by (auto simp: example_redirected example_redirect_state_def example_state_def)
qed

lemma rpc_loop_bound:
  assumes "length (ms_rx st) < n" "length (ms_rx st) < m"
  shows "rpc_loop n e st port rpc dport payload = rpc_loop m e st port rpc dport payload"
  using assms
proof (induction n arbitrary: m st rpc dport)
  case (Suc n)
  obtain m' where m: "m = Suc m'" using Suc.prems(2) by (cases m) auto
  have "rpc_loop n e st' port rpc' dport' payload = rpc_loop m' e st' port rpc' dport' payload"
    if "do_madrpc e (st\<lparr>ms_g := g, ms_errno := en\<rparr>) a b c d t r = Some ((len, Some mad, err), st')"
    for st' rpc' dport' g en a b c d t r len mad err
    using do_madrpc_frame(3) [OF that, of mad] Suc.prems m by (intro Suc.IH) auto
  then show ?case unfolding m
    by (auto simp: Let_def intro!: Option.bind_cong)
qed simp

text \<open>
  Property. The loop of \<open>mad_rpc\<close> makes at most one round per result of
  \<open>umad_recv\<close> and one more: with a larger bound the model gives the same result, whatever the
  arguments, so a run is undefined only if it faults or still waits for \<open>libibumad\<close>.
\<close>
theorem mad_rpc_bounded:
  "rpc_loop (Suc (length (ms_rx st) + k)) e st port rpc dport payload =
   rpc_loop (Suc (length (ms_rx st))) e st port rpc dport payload"
  by (rule rpc_loop_bound) simp_all

section \<open>Runs that succeed\<close>

lemma example_run:
  "\<exists>rpc' dport' st'. mad_rpc BE example_redirect_state example_port example_ping example_dport
       (Some (replicate 192 7)) (Some (replicate 192 7)) = Some (True, rpc', dport', Some (replicate 192 0), st')"
proof -
  have "mem_store (replicate 192 7) 0 (replicate 192 0) = Some (replicate 192 (0 :: u8))"
    by (simp add: mem_store_def)
  then have "\<exists>reqs rpc' st'. mad_rpc BE example_redirect_state example_port example_ping example_dport
       (Some (replicate 192 7)) (Some (replicate 192 7)) =
       Some (True, rpc', fold redirected [example_redirect] example_dport, Some (replicate 192 0), st') \<and>
     r_rstatus rpc' = 0 \<and> ms_sent st' = ms_sent example_redirect_state @ reqs \<and>
     map (um_addr \<circ> rq_pkt) reqs = route example_ping example_dport [example_redirect]"
    using example_answer_mad
    by (intro mad_rpc_chain [OF example_ping_ok, where tx = "[]" and rx = "[]"
          and mad = example_answer_mad and bs = "replicate 192 0"])
       (simp_all add: example_redirects example_ping_def rpc_zero_def example_redirect_state_def example_state_def
          mad_get_retries_def example_port_def example_globals_def c_eval)
  then show ?thesis by blast
qed

theorem mad_rpc_success_witness:
  "\<exists>mad (rpc' :: ib_rpc_t). RecvMad 0 256 mad \<in> set (ms_rx example_redirect_state) \<and> tid32 BE mad = Some (ucast (r_trid rpc')) \<and>
     r_rstatus rpc' = 0 \<and> mem_load mad 64 192 = Some (replicate 192 0)"
proof -
  obtain rpc' d st' where "mad_rpc BE example_redirect_state example_port example_ping example_dport
       (Some (replicate 192 7)) (Some (replicate 192 7)) = Some (True, rpc', d, Some (replicate 192 0), st')"
    using example_run by blast
  from mad_rpc_success [OF this example_ping_ok(1)] obtain s len mad bs where
    m: "RecvMad s len mad \<in> set (ms_rx example_redirect_state)" "tid32 BE mad = Some (ucast (r_trid rpc'))"
      "r_rstatus rpc' = 0" "mem_load mad 64 192 = Some bs" "Some (replicate 192 0) = mem_store (replicate 192 7) 0 bs"
    by (auto simp: example_ping_def rpc_zero_def c_eval)
  from m(5) have "bs = replicate 192 0"
    using length_mem_load [OF m(4)] by (simp add: mem_store_def)
  moreover have "s = 0" "len = 256" using m(1) by (auto simp: example_redirect_state_def)
  ultimately show ?thesis using m(1-4) by blast
qed

definition far_dport :: ib_portid_t where
  \<comment> \<open>a directed route of 64 hops\<close>
  "far_dport = portid_zero\<lparr>pt_drpath := dr_path_zero\<lparr>cnt := 64\<rparr>\<rparr>"

lemma far_ok: "rpc_args_ok example_rpc far_dport (Some (replicate 64 5))" "no_path example_rpc far_dport"
  "set_rpc_error example_rpc 0 = example_rpc"
  by (simp_all add: rpc_args_ok_def encode_args_ok_def no_path_def pkt_path_def rpc_class_def class_hdr_def
      far_dport_def dr_path_zero_def mad_is_vendor_range2_def example_rpc_def rpc_zero_def set_rpc_error_def
      rpc_is_v1_def c_eval)

theorem mad_rpc_failure_witness:
  "\<exists>rpc' dport' st'. mad_rpc LE example_state example_port example_rpc far_dport (Some (replicate 64 5))
       (Some (replicate 64 9)) = Some (False, rpc', dport', Some (replicate 64 9), st') \<and> ms_errno st' = EINVAL"
proof -
  obtain m where "mad_build_pkt LE (ms_g example_state) zero_pkt example_rpc far_dport None (Some (replicate 64 5)) =
      Some (-1, Some EINVAL, m, example_rpc, ms_g example_state)"
    using rpc_build [OF far_ok(1), of LE "ms_g example_state" None] far_ok(2) by auto
  then obtain rpc' dport' rcv st' where
    run: "mad_rpc LE example_state example_port example_rpc far_dport (Some (replicate 64 5))
       (Some (replicate 64 9)) = Some (False, rpc', dport', rcv, st')" "ms_errno st' = EINVAL"
    by (simp add: mad_rpc_def far_ok(3))
  from mad_rpc_failure [OF run(1) far_ok(1)] run show ?thesis by auto
qed

lemma mad_rpc_rmpp_answer:
  assumes "rpc_args_ok rpc dport (Some data)" and "\<not> no_path rpc dport" and "r_trid rpc \<noteq> 0"
    and "0 < mad_get_retries (ms_g st) port" and "ms_save st = None"
    and "tid32 e mad = Some (ucast (r_trid rpc))" "mad_get_field mad 0 IB_MAD_STATUS_F = Some 0"
    and "mad_get_field mad 0 IB_SA_ATTROFFS_F = Some sz"
    and "mem_load mad (r_dataoffs rpc) (r_datasz rpc) = Some bs" "mem_store data 0 bs = Some out"
    and "ms_tx st = None # tx" and "ms_rx st = RecvMad 0 256 mad # rx"
  shows "\<exists>rpc' st'. mad_rpc_rmpp e st port rpc dport None (Some data) =
      Some (True, rpc', None, Some out, st') \<and> r_recsz rpc' = sz \<and>
      length (ms_sent st') = Suc (length (ms_sent st))"
proof -
  let ?req = "set_rpc_error rpc 0"
  have wt: "with_trid (ms_g st) ?req = (?req, ms_g st)" using assms(3) by (simp add: with_trid_def set_rpc_error_keeps)
  have args: "rpc_args_ok ?req dport (Some data)" "\<not> no_path ?req dport"
    using assms(1,2) by (simp_all add: set_rpc_error_keeps no_path_def)
  from rpc_build [OF args(1), of e "ms_g st" None] args(2) wt obtain p where
    p: "mad_build_pkt e (ms_g st) zero_pkt ?req dport None (Some data) =
      Some (256, None, (addressed zero_pkt ?req dport)\<lparr>um_mad := p\<rparr>, ?req, ms_g st)"
      "tid32 e p = Some (ucast (r_trid rpc))" by (auto simp: set_rpc_error_keeps)
  show ?thesis
    using do_madrpc_once [of "st\<lparr>ms_g := ms_g st\<rparr>" e "(addressed zero_pkt ?req dport)\<lparr>um_mad := p\<rparr>" _ mad
        "mad_get_retries (ms_g st) port" tx rx "port_id port" "class_agent_of port ?req" 256
        "mad_get_timeout (ms_g st) port (r_timeout ?req)"] p(2) assms
    unfolding mad_rpc_rmpp_step [OF p(1)]
    by (simp add: rmpp_rest_def set_rpc_error_keeps)
qed

theorem mad_rpc_rmpp_success_witness:
  "\<exists>rpc' st' mad. mad_rpc_rmpp BE (example_redirect_state\<lparr>ms_rx := [RecvMad 0 256 example_answer_mad]\<rparr>) example_port
       example_ping example_dport None (Some (replicate 192 7)) = Some (True, rpc', None, Some (replicate 192 0), st') \<and>
     tid32 BE mad = Some 42 \<and> mem_load mad 64 192 = Some (replicate 192 0)"
proof -
  let ?st = "example_redirect_state\<lparr>ms_rx := [RecvMad 0 256 example_answer_mad]\<rparr>"
  have "mem_store (replicate 192 7) 0 (replicate 192 0) = Some (replicate 192 (0 :: u8))"
    by (simp add: mem_store_def)
  moreover have "mad_get_field example_answer_mad 0 IB_MAD_STATUS_F = Some 0"
    "mad_get_field example_answer_mad 0 IB_SA_ATTROFFS_F = Some 0"
    by (simp_all add: eval_field example_answer_mad_def nth_append)
  ultimately have "\<exists>rpc' st'. mad_rpc_rmpp BE ?st example_port example_ping example_dport None (Some (replicate 192 7)) =
      Some (True, rpc', None, Some (replicate 192 0), st') \<and> r_recsz rpc' = 0 \<and>
      length (ms_sent st') = Suc (length (ms_sent ?st))"
    using example_answer_mad
    by (intro mad_rpc_rmpp_answer [OF example_ping_ok, where tx = "[None]" and rx = "[]"
          and mad = example_answer_mad and bs = "replicate 192 0"])
       (simp_all add: example_ping_def rpc_zero_def example_redirect_state_def example_state_def
          mad_get_retries_def example_port_def example_globals_def c_eval)
  then obtain rpc' st' where run: "mad_rpc_rmpp BE ?st example_port example_ping example_dport None
      (Some (replicate 192 7)) = Some (True, rpc', None, Some (replicate 192 0), st')" by blast
  from mad_rpc_rmpp_success [OF run example_ping_ok(1)] obtain mad bs where
    m: "tid32 BE mad = Some (ucast (r_trid rpc'))" "r_trid rpc' = 42" "mem_load mad 64 192 = Some bs"
      "Some (replicate 192 0) = mem_store (replicate 192 7) 0 bs"
    by (auto simp: example_ping_def rpc_zero_def c_eval)
  from m(4) have "bs = replicate 192 0"
    using length_mem_load [OF m(3)] by (simp add: mem_store_def)
  with run m show ?thesis by auto
qed

end
