(* ===== verification/MadClients.thy ===== *)
theory MadClients
  imports MadRpcCorrect
begin

text \<open>
  The attribute calls of the management classes: subnet management (\<open>smp.c\<close>), subnet
  administration (\<open>sa.c\<close>), performance (\<open>gs.c\<close>), congestion control (\<open>cc.c\<close>),
  board management (\<open>bm.c\<close>) and vendor classes (\<open>vendor.c\<close>), with \<open>mad_send_via\<close>
  of \<open>serv.c\<close>. Each builds a request and hands it to \<open>mad_rpc\<close> or
  \<open>mad_rpc_rmpp\<close>. The results begin with whether the pointer returned is non-\<open>NULL\<close>;
  the caller's structures follow as they are after the call, then the state.
\<close>

section \<open>Subnet management packets\<close>

definition smp_mkey_set :: "ibmad_port \<Rightarrow> u64 \<Rightarrow> ibmad_port" where
  "smp_mkey_set srcport mkey = srcport\<lparr>smp_mkey := mkey\<rparr>"

definition smp_mkey_get :: "ibmad_port \<Rightarrow> u64" where
  "smp_mkey_get srcport = smp_mkey srcport"

definition smp_mgtclass :: "ib_portid_t \<Rightarrow> u32" where
  "smp_mgtclass portid =
     (if pt_lid portid \<le> 0 \<or> drslid (pt_drpath portid) = 0xffff \<or> drdlid (pt_drpath portid) = 0xffff
      then IB_SMI_DIRECT_CLASS else IB_SMI_CLASS)"

definition smp_set_status_via :: "endian \<Rightarrow> mad_state \<Rightarrow> mem \<Rightarrow> ib_portid_t \<Rightarrow> u32 \<Rightarrow> u32 \<Rightarrow> int \<Rightarrow>
    ibmad_port \<Rightarrow> (bool \<times> mem \<times> ib_portid_t \<times> u32 \<times> mad_state) option" where
  "smp_set_status_via e st data portid attrid amod timeout srcport = do {
     let rpc = rpc_zero\<lparr>r_mgtclass := smp_mgtclass portid, r_method := IB_MAD_METHOD_SET,
       r_attr_id := attrid, r_attr_mod := amod, r_timeout := timeout, r_datasz := IB_SMP_DATA_SIZE,
       r_dataoffs := IB_SMP_DATA_OFFS, r_mkey := smp_mkey srcport\<rparr>;
     (res, rpc, portid, data', st) \<leftarrow>
       mad_rpc e st srcport rpc (portid\<lparr>pt_sl := 0, pt_qp := 0\<rparr>) (Some data) (Some data);
     data' \<leftarrow> data';
     Some (res, data', portid, r_rstatus rpc, st)
   }"

definition smp_query_status_via :: "endian \<Rightarrow> mad_state \<Rightarrow> mem \<Rightarrow> ib_portid_t \<Rightarrow> u32 \<Rightarrow> u32 \<Rightarrow> int \<Rightarrow>
    ibmad_port \<Rightarrow> (bool \<times> mem \<times> ib_portid_t \<times> u32 \<times> mad_state) option" where
  "smp_query_status_via e st rcvbuf portid attrid amod timeout srcport = do {
     let rpc = rpc_zero\<lparr>r_method := IB_MAD_METHOD_GET, r_attr_id := attrid, r_attr_mod := amod,
       r_timeout := timeout, r_datasz := IB_SMP_DATA_SIZE, r_dataoffs := IB_SMP_DATA_OFFS,
       r_mkey := smp_mkey srcport, r_mgtclass := smp_mgtclass portid\<rparr>;
     (res, rpc, portid, rcvbuf', st) \<leftarrow>
       mad_rpc e st srcport rpc (portid\<lparr>pt_sl := 0, pt_qp := 0\<rparr>) (Some rcvbuf) (Some rcvbuf);
     rcvbuf' \<leftarrow> rcvbuf';
     Some (res, rcvbuf', portid, r_rstatus rpc, st)
   }"

definition smp_set_via :: "endian \<Rightarrow> mad_state \<Rightarrow> mem \<Rightarrow> ib_portid_t \<Rightarrow> u32 \<Rightarrow> u32 \<Rightarrow> int \<Rightarrow>
    ibmad_port \<Rightarrow> (bool \<times> mem \<times> ib_portid_t \<times> mad_state) option" where
  "smp_set_via e st data portid attrid amod timeout srcport =
     map_option (\<lambda>(res, data, portid, _, st). (res, data, portid, st))
       (smp_set_status_via e st data portid attrid amod timeout srcport)"

definition smp_query_via :: "endian \<Rightarrow> mad_state \<Rightarrow> mem \<Rightarrow> ib_portid_t \<Rightarrow> u32 \<Rightarrow> u32 \<Rightarrow> int \<Rightarrow>
    ibmad_port \<Rightarrow> (bool \<times> mem \<times> ib_portid_t \<times> mad_state) option" where
  "smp_query_via e st rcvbuf portid attrid amod timeout srcport =
     map_option (\<lambda>(res, data, portid, _, st). (res, data, portid, st))
       (smp_query_status_via e st rcvbuf portid attrid amod timeout srcport)"

section \<open>Subnet administration\<close>

record ib_sa_call_t =
  sa_attrid :: u32
  sa_mod :: u32
  sa_mask :: u64
  sa_method :: u32
  sa_trid :: u64
  sa_recsz :: u32

definition sa_zero :: ib_sa_call_t where
  "sa_zero = \<lparr>sa_attrid = 0, sa_mod = 0, sa_mask = 0, sa_method = 0, sa_trid = 0, sa_recsz = 0\<rparr>"

definition gsi_address :: "ib_portid_t \<Rightarrow> ib_portid_t" where
  \<comment> \<open>\<open>portid->qp = 1; if (!portid->qkey) portid->qkey = IB_DEFAULT_QP1_QKEY;\<close>\<close>
  "gsi_address portid = portid\<lparr>pt_qp := 1,
     pt_qkey := (if pt_qkey portid = 0 then IB_DEFAULT_QP1_QKEY else pt_qkey portid)\<rparr>"

definition sa_rpc_call :: "endian \<Rightarrow> mad_state \<Rightarrow> ibmad_port \<Rightarrow> mem \<Rightarrow> ib_portid_t \<Rightarrow> ib_sa_call_t \<Rightarrow> int \<Rightarrow>
    (bool \<times> mem \<times> ib_portid_t \<times> ib_sa_call_t \<times> mad_state) option" where
  "sa_rpc_call e st port rcvbuf portid sa timeout =
     (if pt_lid portid \<le> 0 then Some (False, rcvbuf, portid, sa, st)
      else do {
        let rpc = rpc_zero\<lparr>r_mgtclass := IB_SA_CLASS, r_method := sa_method sa, r_attr_id := sa_attrid sa,
          r_attr_mod := sa_mod sa, r_mask := sa_mask sa, r_timeout := timeout,
          r_datasz := IB_SA_DATA_SIZE, r_dataoffs := IB_SA_DATA_OFFS, r_trid := sa_trid sa\<rparr>;
        let portid = gsi_address portid;
        (p, rpc, _, rcvbuf', st) \<leftarrow> mad_rpc_rmpp e st port rpc portid None (Some rcvbuf);
        rcvbuf' \<leftarrow> rcvbuf';
        Some (p, rcvbuf', portid, sa\<lparr>sa_recsz := r_recsz rpc\<rparr>, st)
      })"

definition IB_PR_COMPMASK_DGID :: u64 where [c_eval]: "IB_PR_COMPMASK_DGID = push_bit 2 1"
definition IB_PR_COMPMASK_SGID :: u64 where [c_eval]: "IB_PR_COMPMASK_SGID = push_bit 3 1"
definition IB_PR_DEF_MASK :: u64 where [c_eval]: "IB_PR_DEF_MASK = IB_PR_COMPMASK_DGID OR IB_PR_COMPMASK_SGID"
definition IB_NR_COMPMASK_PORTGUID :: u64 where [c_eval]: "IB_NR_COMPMASK_PORTGUID = push_bit 8 1"
definition IB_NR_DEF_MASK :: u64 where [c_eval]: "IB_NR_DEF_MASK = IB_NR_COMPMASK_PORTGUID"

text \<open>
  \<open>ib_path_query_via\<close> decodes the DLID into an \<open>int\<close>, four native bytes: \<open>dlid\<close> is
  what \<open>mad_decode_field\<close> leaves there.
\<close>

definition ib_path_query_via :: "endian \<Rightarrow> mad_state \<Rightarrow> ibmad_port \<Rightarrow> mem \<Rightarrow> mem \<Rightarrow> ib_portid_t \<Rightarrow> mem \<Rightarrow>
    (int \<times> ib_portid_t \<times> mem \<times> mad_state) option" where
  "ib_path_query_via e st srcport srcgid destgid sm_id buf = do {
     let (trid, g) = mad_trid (ms_g st);
     let st = st\<lparr>ms_g := g\<rparr>;
     let sa = sa_zero\<lparr>sa_method := IB_MAD_METHOD_GET, sa_attrid := IB_SA_ATTR_PATHRECORD,
       sa_mask := IB_PR_DEF_MASK, sa_trid := trid\<rparr>;
     buf \<leftarrow> mem_store buf 0 (replicate IB_SA_PR_RECSZ 0);
     buf \<leftarrow> mad_encode_field e buf IB_SA_PR_DGID_F destgid;
     buf \<leftarrow> mad_encode_field e buf IB_SA_PR_SGID_F srcgid;
     (p, buf, sm_id, sa, st) \<leftarrow> sa_rpc_call e st srcport buf sm_id sa 0;
     if \<not> p then Some (-1, sm_id, buf, st)
     else do {
       dlid \<leftarrow> mad_decode_field e buf IB_SA_PR_DLID_F (replicate 4 0);
       Some (int_of_u32 (native_word e dlid), sm_id, buf, st)
     }
   }"

definition ib_node_query_via :: "endian \<Rightarrow> mad_state \<Rightarrow> ibmad_port \<Rightarrow> u64 \<Rightarrow> ib_portid_t \<Rightarrow> mem \<Rightarrow>
    (int \<times> ib_portid_t \<times> mem \<times> mad_state) option" where
  "ib_node_query_via e st srcport guid sm_id buf = do {
     let (trid, g) = mad_trid (ms_g st);
     let st = st\<lparr>ms_g := g\<rparr>;
     let sa = sa_zero\<lparr>sa_method := IB_MAD_METHOD_GET, sa_attrid := IB_SA_ATTR_NODERECORD,
       sa_mask := IB_NR_DEF_MASK, sa_trid := trid\<rparr>;
     buf \<leftarrow> mem_store buf 0 (replicate IB_SA_NR_RECSZ 0);
     buf \<leftarrow> mad_encode_field e buf IB_SA_NR_PORT_GUID_F (native_bytes e 8 guid);
     (p, buf, sm_id, sa, st) \<leftarrow> sa_rpc_call e st srcport buf sm_id sa 0;
     Some (if \<not> p then -1 else 0, sm_id, buf, st)
   }"

section \<open>Performance management\<close>

definition gs_address :: "ib_portid_t \<Rightarrow> ib_portid_t" where
  \<comment> \<open>\<open>if (!dest->qp) dest->qp = 1; if (!dest->qkey) dest->qkey = IB_DEFAULT_QP1_QKEY;\<close>\<close>
  "gs_address dest = dest\<lparr>pt_qp := (if pt_qp dest = 0 then 1 else pt_qp dest),
     pt_qkey := (if pt_qkey dest = 0 then IB_DEFAULT_QP1_QKEY else pt_qkey dest)\<rparr>"

definition pma_query_via :: "endian \<Rightarrow> mad_state \<Rightarrow> mem \<Rightarrow> ib_portid_t \<Rightarrow> u32 \<Rightarrow> int \<Rightarrow> u32 \<Rightarrow> ibmad_port \<Rightarrow>
    (bool \<times> mem \<times> ib_portid_t \<times> mad_state) option" where
  "pma_query_via e st rcvbuf dest port timeout attrid srcport =
     (if pt_lid dest = -1 then Some (False, rcvbuf, dest, st)
      else do {
        rcvbuf \<leftarrow> mad_set_field rcvbuf 0 IB_PC_PORT_SELECT_F port;
        let rpc = rpc_zero\<lparr>r_mgtclass := IB_PERFORMANCE_CLASS OR IB_MAD_RPC_VERSION1,
          r_method := IB_MAD_METHOD_GET, r_attr_id := attrid, r_attr_mod := 0, r_timeout := timeout,
          r_datasz := IB_PC_DATA_SZ, r_dataoffs := IB_PC_DATA_OFFS\<rparr>;
        (p_ret, rpc, dest, rcvbuf', st) \<leftarrow> mad_rpc e st srcport rpc (gs_address dest) (Some rcvbuf) (Some rcvbuf);
        rcvbuf' \<leftarrow> rcvbuf';
        Some (p_ret, rcvbuf', dest, st\<lparr>ms_errno := r_error rpc\<rparr>)
      })"

definition performance_reset_via :: "endian \<Rightarrow> mad_state \<Rightarrow> mem \<Rightarrow> ib_portid_t \<Rightarrow> u32 \<Rightarrow> u32 \<Rightarrow> int \<Rightarrow> u32 \<Rightarrow>
    ibmad_port \<Rightarrow> (bool \<times> mem \<times> ib_portid_t \<times> mad_state) option" where
  "performance_reset_via e st rcvbuf dest port cmask timeout attrid srcport =
     (if pt_lid dest = -1 then Some (False, rcvbuf, dest, st)
      else do {
        let cmask = (if cmask = 0 then -1 else cmask);
        let rpc = rpc_zero\<lparr>r_mgtclass := IB_PERFORMANCE_CLASS OR IB_MAD_RPC_VERSION1,
          r_method := IB_MAD_METHOD_SET, r_attr_id := attrid\<rparr>;
        rcvbuf \<leftarrow> mem_store rcvbuf 0 (replicate IB_MAD_SIZE 0);
        rcvbuf \<leftarrow> mad_set_field rcvbuf 0 IB_PC_PORT_SELECT_F port;
        rcvbuf \<leftarrow> mad_set_field rcvbuf 0 IB_PC_COUNTER_SELECT_F cmask;
        let cmask = drop_bit 16 cmask;
        rcvbuf \<leftarrow> (if attrid = IB_GSI_PORT_COUNTERS_EXT
                  then mad_set_field rcvbuf 0 IB_PC_EXT_COUNTER_SELECT2_F cmask
                  else mad_set_field rcvbuf 0 IB_PC_COUNTER_SELECT2_F cmask);
        let rpc = rpc\<lparr>r_attr_mod := 0, r_timeout := timeout, r_datasz := IB_PC_DATA_SZ,
          r_dataoffs := IB_PC_DATA_OFFS\<rparr>;
        (p_ret, rpc, dest, rcvbuf', st) \<leftarrow> mad_rpc e st srcport rpc (gs_address dest) (Some rcvbuf) (Some rcvbuf);
        rcvbuf' \<leftarrow> rcvbuf';
        Some (p_ret, rcvbuf', dest, st\<lparr>ms_errno := r_error rpc\<rparr>)
      })"

section \<open>Congestion control\<close>

definition cc_rpc :: "u32 \<Rightarrow> u32 \<Rightarrow> u32 \<Rightarrow> int \<Rightarrow> u64 \<Rightarrow> ib_rpc_t" where
  \<comment> \<open>the request both calls of \<open>cc.c\<close> fill in\<close>
  "cc_rpc method attrid amod timeout cckey = rpc_zero\<lparr>r_method := method, r_attr_id := attrid,
     r_attr_mod := amod, r_timeout := timeout,
     r_datasz := (if attrid = IB_CC_ATTR_CONGESTION_LOG then IB_CC_LOG_DATA_SZ else IB_CC_DATA_SZ),
     r_dataoffs := (if attrid = IB_CC_ATTR_CONGESTION_LOG then IB_CC_LOG_DATA_OFFS else IB_CC_DATA_OFFS),
     r_mgtclass := IB_CC_CLASS, r_cckey := cckey\<rparr>"

definition cc_query_status_via :: "endian \<Rightarrow> mad_state \<Rightarrow> mem \<Rightarrow> ib_portid_t \<Rightarrow> u32 \<Rightarrow> u32 \<Rightarrow> int \<Rightarrow>
    ibmad_port \<Rightarrow> u64 \<Rightarrow> (bool \<times> mem \<times> ib_portid_t \<times> u32 \<times> mad_state) option" where
  "cc_query_status_via e st rcvbuf portid attrid amod timeout srcport cckey = do {
     (res, rpc, portid, rcvbuf', st) \<leftarrow>
       mad_rpc e st srcport (cc_rpc IB_MAD_METHOD_GET attrid amod timeout cckey) (gsi_address portid)
         (Some rcvbuf) (Some rcvbuf);
     rcvbuf' \<leftarrow> rcvbuf';
     Some (res, rcvbuf', portid, r_rstatus rpc, st)
   }"

definition cc_config_status_via :: "endian \<Rightarrow> mad_state \<Rightarrow> mem \<Rightarrow> mem \<Rightarrow> ib_portid_t \<Rightarrow> u32 \<Rightarrow> u32 \<Rightarrow> int \<Rightarrow>
    ibmad_port \<Rightarrow> u64 \<Rightarrow> (bool \<times> mem \<times> ib_portid_t \<times> u32 \<times> mad_state) option" where
  "cc_config_status_via e st payload rcvbuf portid attrid amod timeout srcport cckey = do {
     (res, rpc, portid, rcvbuf', st) \<leftarrow>
       mad_rpc e st srcport (cc_rpc IB_MAD_METHOD_SET attrid amod timeout cckey) (gsi_address portid)
         (Some payload) (Some rcvbuf);
     rcvbuf' \<leftarrow> rcvbuf';
     Some (res, rcvbuf', portid, r_rstatus rpc, st)
   }"

section \<open>Sending without a response\<close>

definition mad_send_via :: "endian \<Rightarrow> mad_state \<Rightarrow> ib_rpc_t \<Rightarrow> ib_portid_t \<Rightarrow> ib_rmpp_hdr_t option \<Rightarrow> mem option \<Rightarrow>
    ibmad_port \<Rightarrow> (int \<times> ib_rpc_t \<times> mad_state) option" where
  "mad_send_via e st rpc dport rmpp data srcport = do {
     (r, en, umad, rpc, g) \<leftarrow> mad_build_pkt e (ms_g st) zero_pkt rpc dport rmpp data;
     let st = st\<lparr>ms_g := g, ms_errno := (case en of None \<Rightarrow> ms_errno st | Some x \<Rightarrow> x)\<rparr>;
     if r < 0 then Some (-1, rpc, st)
     else do {
       (sent, st) \<leftarrow> umad_send st (port_id srcport) (class_agent_of srcport rpc) umad (int IB_MAD_SIZE)
                       (mad_get_timeout (ms_g st) srcport (r_timeout rpc)) 0;
       Some (if \<not> sent then -1 else 0, rpc, st)
     }
   }"

definition response_expected :: "u32 \<Rightarrow> bool" where
  \<comment> \<open>the same in \<open>vendor.c\<close> and \<open>bm.c\<close>\<close>
  "response_expected method \<longleftrightarrow> method = IB_MAD_METHOD_GET \<or> method = IB_MAD_METHOD_SET \<or>
     method = IB_MAD_METHOD_TRAP"

section \<open>Vendor classes\<close>

record ib_vendor_call_t =
  vc_method :: u32
  vc_mgmt_class :: u32
  vc_attrid :: u32
  vc_mod :: u32
  vc_oui :: u32
  vc_timeout :: int

definition vendor_rpc :: "ib_vendor_call_t \<Rightarrow> ib_rpc_t" where
  "vendor_rpc call =
     (let range1 = mad_is_vendor_range1 (vc_mgmt_class call) in
      rpc_zero\<lparr>r_mgtclass := vc_mgmt_class call OR IB_MAD_RPC_VERSION1, r_method := vc_method call,
        r_attr_id := vc_attrid call, r_attr_mod := vc_mod call,
        r_timeout := (if response_expected (vc_method call) then vc_timeout call else 0),
        r_datasz := (if range1 then IB_VENDOR_RANGE1_DATA_SIZE else IB_VENDOR_RANGE2_DATA_SIZE),
        r_dataoffs := (if range1 then IB_VENDOR_RANGE1_DATA_OFFS else IB_VENDOR_RANGE2_DATA_OFFS),
        r_oui := (if \<not> range1 then vc_oui call else 0)\<rparr>)"

definition ib_vendor_call_via :: "endian \<Rightarrow> mad_state \<Rightarrow> mem \<Rightarrow> ib_portid_t \<Rightarrow> ib_vendor_call_t \<Rightarrow> ibmad_port \<Rightarrow>
    (bool \<times> mem \<times> ib_portid_t \<times> mad_state) option" where
  "ib_vendor_call_via e st data portid call srcport =
     (if pt_lid portid \<le> 0 then Some (False, data, portid, st)
      else if \<not> mad_is_vendor_range1 (vc_mgmt_class call) \<and> \<not> mad_is_vendor_range2 (vc_mgmt_class call)
      then Some (False, data, portid, st)
      else do {
        let rpc = vendor_rpc call;
        let portid = gsi_address portid;
        if response_expected (vc_method call) then do {
          (p_ret, rpc, _, data', st) \<leftarrow> mad_rpc_rmpp e st srcport rpc portid None (Some data);
          data' \<leftarrow> data';
          Some (p_ret, data', portid, st\<lparr>ms_errno := r_error rpc\<rparr>)
        } else do {
          (r, _, st) \<leftarrow> mad_send_via e st rpc portid None (Some data) srcport;
          Some (\<not> r < 0, data, portid, st)
        }
      })"

section \<open>Board management\<close>

record ib_bm_call_t =
  bm_method :: u32
  bm_attrid :: u32
  bm_mod :: u32
  bm_timeout :: int
  bm_bkey :: u64

definition bm_call_via :: "endian \<Rightarrow> mad_state \<Rightarrow> mem \<Rightarrow> ib_portid_t \<Rightarrow> ib_bm_call_t \<Rightarrow> ibmad_port \<Rightarrow>
    (bool \<times> mem \<times> ib_portid_t \<times> mad_state) option" where
  "bm_call_via e st data portid call srcport =
     (if pt_lid portid \<le> 0 then Some (False, data, portid, st)
      else do {
        let resp_expected = response_expected (bm_method call);
        let rpc = rpc_zero\<lparr>r_mgtclass := IB_BOARD_MGMT_CLASS, r_method := bm_method call,
          r_attr_id := bm_attrid call, r_attr_mod := bm_mod call,
          r_timeout := (if resp_expected then bm_timeout call else 0),
          r_datasz := IB_BM_BKEY_AND_DATA_SZ, r_dataoffs := IB_BM_BKEY_OFFS\<rparr>;
        bs \<leftarrow> mem_load data 0 IB_BM_DATA_SZ;
        let bm_data = native_bytes e 8 (htonll e (bm_bkey call)) @ replicate 32 0 @ bs;
        let portid = gsi_address portid;
        (ok, portid, bm_data, st) \<leftarrow> (if resp_expected then do {
             (r, _, portid, bm_data', st) \<leftarrow> mad_rpc e st srcport rpc portid (Some bm_data) (Some bm_data);
             bm_data' \<leftarrow> bm_data';
             Some (r, portid, bm_data', st)
           } else do {
             (r, _, st) \<leftarrow> mad_send_via e st rpc portid None (Some bm_data) srcport;
             Some (\<not> r < 0, portid, bm_data, st)
           });
        if \<not> ok then Some (False, data, portid, st)
        else do {
          bs \<leftarrow> mem_load bm_data 40 IB_BM_DATA_SZ;
          data \<leftarrow> mem_store data 0 bs;
          Some (True, data, portid, st)
        }
      })"

end
