(* ===== verification/MadClientsCorrect.thy ===== *)
theory MadClientsCorrect
  imports MadClients
begin

text \<open>
  What the attribute calls return. They are clients of the contract \<open>mad_call\<close>: whatever the
  network does, a buffer they return holds the attribute of a response to their request. A second
  group of properties describes the run in which the request is answered at once.
\<close>

section \<open>A request that is answered at once\<close>

lemma with_trid_retries: "mad_get_retries (snd (with_trid g rpc)) port = mad_get_retries g port"
  by (simp add: with_trid_def mad_trid_def mad_get_retries_def Let_def)

definition request_tid :: "mad_state \<Rightarrow> ib_rpc_t \<Rightarrow> u32" where
  \<comment> \<open>the low half of the transaction id the request will have\<close>
  "request_tid st rpc = ucast (r_trid (fst (with_trid (ms_g st) rpc)))"

lemma set_rpc_error_trid: "with_trid g (set_rpc_error rpc x) =
    (set_rpc_error (fst (with_trid g rpc)) x, snd (with_trid g rpc))"
proof -
  have v: "rpc_is_v1 (rpc\<lparr>r_trid := t\<rparr>) = rpc_is_v1 rpc" for t by (simp add: rpc_is_v1_def)
  have e: "set_rpc_error (rpc\<lparr>r_trid := t\<rparr>) x = (set_rpc_error rpc x)\<lparr>r_trid := t\<rparr>" for t
    by (simp add: set_rpc_error_def v)
  show ?thesis
    by (cases "r_trid rpc = 0") (simp_all add: with_trid_def set_rpc_error_keeps case_prod_beta e)
qed

lemma rpc_is_v1_keeps: "rpc_is_v1 (fst (with_trid g rpc)) = rpc_is_v1 rpc"
  "rpc_is_v1 (set_rpc_error rpc x) = rpc_is_v1 rpc"
  "r_error (set_rpc_error rpc x) = (if rpc_is_v1 rpc then x else r_error rpc)"
  by (simp_all add: rpc_is_v1_def with_trid_keeps set_rpc_error_def)

lemma mad_rpc_single:
  assumes "rpc_args_ok rpc dport payload" and "\<not> no_path rpc dport"
    and "0 < mad_get_retries (ms_g st) port" and "ms_save st = None"
    and "tid32 e mad = Some (request_tid st rpc)" "mad_get_field mad 0 IB_DRSMP_STATUS_F = Some status"
      "status \<noteq> IB_MAD_STS_REDIRECT"
    and "ms_tx st = None # tx" and "ms_rx st = RecvMad 0 256 mad # rx"
  shows "\<exists>rpc' st' rq. mad_rpc e st port rpc dport payload (Some buf) =
      (if status \<noteq> 0 then Some (False, rpc', dport, Some buf, st'\<lparr>ms_errno := EIO\<rparr>)
       else do { bs \<leftarrow> mem_load mad (r_dataoffs rpc) (r_datasz rpc);
                 out \<leftarrow> mem_store buf 0 bs;
                 Some (True, rpc', dport, Some out, st') }) \<and>
    r_rstatus rpc' = status \<and> (rpc_is_v1 rpc \<longrightarrow> r_error rpc' = 0) \<and>
    ms_sent st' = ms_sent st @ [rq] \<and> um_addr (rq_pkt rq) = pkt_addr rpc dport"
proof -
  let ?req = "set_rpc_error rpc 0"
  let ?rpc = "fst (with_trid (ms_g st) ?req)" and ?g = "snd (with_trid (ms_g st) ?req)"
  have args: "rpc_args_ok ?req dport payload" "\<not> no_path ?req dport"
    using assms(1,2) by (simp_all add: set_rpc_error_keeps no_path_def)
  from rpc_build [OF args(1), of e "ms_g st" None] args(2) obtain p where
    p: "mad_build_pkt e (ms_g st) zero_pkt ?req dport None payload =
      Some (256, None, (addressed zero_pkt ?req dport)\<lparr>um_mad := p\<rparr>, ?rpc, ?g)"
      "tid32 e p = Some (request_tid st rpc)"
    by (auto simp: request_tid_def set_rpc_error_keeps set_rpc_error_trid)
  let ?rq = "request (port_id port) ((addressed zero_pkt ?req dport)\<lparr>um_mad := p\<rparr>) (class_agent_of port ?rpc) 256
     (mad_get_timeout ?g port (r_timeout ?rpc))"
  let ?st = "st\<lparr>ms_g := ?g, ms_sent := ms_sent st @ [?rq], ms_tx := tx, ms_rx := rx\<rparr>"
  have call: "do_madrpc e (st\<lparr>ms_g := ?g\<rparr>) (port_id port) ((addressed zero_pkt ?req dport)\<lparr>um_mad := p\<rparr>)
       (class_agent_of port ?rpc) 256 (mad_get_timeout ?g port (r_timeout ?rpc)) (mad_get_retries ?g port) =
     Some ((256, Some mad, None), ?st)"
    using do_madrpc_once [of "st\<lparr>ms_g := ?g\<rparr>" e "(addressed zero_pkt ?req dport)\<lparr>um_mad := p\<rparr>"
        "request_tid st rpc" mad "mad_get_retries ?g port" tx rx] p(2) assms(3-5,8,9)
    by (simp add: with_trid_retries)
  have loop: "rpc_loop (Suc (length (ms_rx st))) e st port ?req dport payload = Some (Answered status mad, ?rpc, dport, ?st)"
    unfolding rpc_loop_step [OF p(1)] call using assms(6,7) by (simp add: rpc_after_def)
  have addr: "pkt_addr ?req dport = pkt_addr rpc dport" by (simp add: pkt_addr_def set_rpc_error_keeps)
  have off: "r_dataoffs ?rpc = r_dataoffs rpc" "r_datasz ?rpc = r_datasz rpc"
    by (simp_all add: with_trid_keeps set_rpc_error_keeps)
  let ?rpc' = "(set_rpc_error ?rpc 0)\<lparr>r_rstatus := status\<rparr>"
  have "mad_rpc e st port rpc dport payload (Some buf) =
      (if status \<noteq> 0 then Some (False, ?rpc', dport, Some buf, ?st\<lparr>ms_errno := EIO\<rparr>)
       else do { bs \<leftarrow> mem_load mad (r_dataoffs rpc) (r_datasz rpc);
                 out \<leftarrow> mem_store buf 0 bs;
                 Some (True, ?rpc', dport, Some out, ?st) })"
    unfolding mad_rpc_def loop Let_def by (simp add: off set_rpc_error_keeps)
  moreover have "r_rstatus ?rpc' = status" "rpc_is_v1 rpc \<longrightarrow> r_error ?rpc' = 0"
    by (simp_all add: rpc_is_v1_keeps)
  moreover have "ms_sent ?st = ms_sent st @ [?rq]" "um_addr (rq_pkt ?rq) = pkt_addr rpc dport"
    using addr by (simp_all add: request_def addressed_def)
  ultimately show ?thesis by blast
qed

section \<open>Subnet management\<close>

definition smp_rpc :: "u32 \<Rightarrow> u32 \<Rightarrow> u32 \<Rightarrow> int \<Rightarrow> ibmad_port \<Rightarrow> ib_portid_t \<Rightarrow> ib_rpc_t" where
  "smp_rpc method attrid amod timeout srcport portid = rpc_zero\<lparr>r_mgtclass := smp_mgtclass portid,
     r_method := method, r_attr_id := attrid, r_attr_mod := amod, r_timeout := timeout,
     r_datasz := IB_SMP_DATA_SIZE, r_dataoffs := IB_SMP_DATA_OFFS, r_mkey := smp_mkey srcport\<rparr>"

definition smp_dest :: "ib_portid_t \<Rightarrow> ib_portid_t" where
  "smp_dest portid = portid\<lparr>pt_sl := 0, pt_qp := 0\<rparr>"

lemma smp_query_status_eq: "smp_query_status_via e st buf portid attrid amod timeout srcport = do {
    (res, rpc, portid, out, st) \<leftarrow>
      mad_rpc e st srcport (smp_rpc IB_MAD_METHOD_GET attrid amod timeout srcport portid) (smp_dest portid)
        (Some buf) (Some buf);
    out \<leftarrow> out;
    Some (res, out, portid, r_rstatus rpc, st) }"
proof -
  have "rpc_zero\<lparr>r_method := IB_MAD_METHOD_GET, r_attr_id := attrid, r_attr_mod := amod, r_timeout := timeout,
      r_datasz := IB_SMP_DATA_SIZE, r_dataoffs := IB_SMP_DATA_OFFS, r_mkey := smp_mkey srcport,
      r_mgtclass := smp_mgtclass portid\<rparr> = smp_rpc IB_MAD_METHOD_GET attrid amod timeout srcport portid"
    by (simp add: smp_rpc_def)
  then show ?thesis by (simp add: smp_query_status_via_def smp_dest_def)
qed

lemma smp_set_status_eq: "smp_set_status_via e st buf portid attrid amod timeout srcport = do {
    (res, rpc, portid, out, st) \<leftarrow>
      mad_rpc e st srcport (smp_rpc IB_MAD_METHOD_SET attrid amod timeout srcport portid) (smp_dest portid)
        (Some buf) (Some buf);
    out \<leftarrow> out;
    Some (res, out, portid, r_rstatus rpc, st) }"
  by (simp add: smp_set_status_via_def smp_dest_def smp_rpc_def)

lemma smp_class_cases: "rpc_class (smp_rpc m a d t s p) = smp_mgtclass p"
  "class_hdr (smp_mgtclass p) = 24"
  by (simp_all add: smp_rpc_def rpc_class_def smp_mgtclass_def class_hdr_def mad_is_vendor_range2_def c_eval)

lemma smp_args:
  assumes "length data = 64" and "length (hops (pt_drpath portid)) = 64"
  shows "rpc_args_ok (smp_rpc m a d t s portid) (smp_dest portid) (Some data)"
  using assms
  by (simp add: rpc_args_ok_def encode_args_ok_def pkt_path_def smp_class_cases smp_dest_def)
     (simp add: smp_rpc_def c_eval)

lemma smp_rpc_fields: "r_dataoffs (smp_rpc m a d t s p) = 64" "r_datasz (smp_rpc m a d t s p) = 64"
  "r_trid (smp_rpc m a d t s p) = 0"
  by (simp_all add: smp_rpc_def rpc_zero_def c_eval)

lemma smp_no_path: "no_path (smp_rpc m a d t s portid) (smp_dest portid) \<longleftrightarrow>
    smp_mgtclass portid = IB_SMI_DIRECT_CLASS \<and> 64 \<le> cnt (pt_drpath portid)"
  by (simp add: no_path_def smp_class_cases smp_dest_def)

lemma smp_query_answer:
  assumes "length buf = 64" and "length (hops (pt_drpath portid)) = 64" and "cnt (pt_drpath portid) < 64"
    and "0 < mad_get_retries (ms_g st) srcport" and "ms_save st = None"
    and "tid32 e mad = Some (ucast (fst (mad_trid (ms_g st))))" and "length mad = 256"
    and "mad_get_field mad 0 IB_DRSMP_STATUS_F = Some status" "status \<noteq> IB_MAD_STS_REDIRECT"
    and "ms_tx st = None # tx" and "ms_rx st = RecvMad 0 256 mad # rx"
  shows "\<exists>st' rq. smp_query_status_via e st buf portid attrid amod timeout srcport =
      Some (status = 0, if status = 0 then take 64 (drop 64 mad) else buf, smp_dest portid, status, st') \<and>
    ms_sent st' = ms_sent st @ [rq] \<and>
    um_addr (rq_pkt rq) = pkt_addr (smp_rpc IB_MAD_METHOD_GET attrid amod timeout srcport portid) (smp_dest portid)"
proof -
  let ?rpc = "smp_rpc IB_MAD_METHOD_GET attrid amod timeout srcport portid"
  have np: "\<not> no_path ?rpc (smp_dest portid)" using assms(3) by (simp add: smp_no_path)
  have tid: "request_tid st ?rpc = ucast (fst (mad_trid (ms_g st)))"
    by (simp add: request_tid_def with_trid_def smp_rpc_fields case_prod_beta)
  have ld: "mem_load mad 64 64 = Some (take 64 (drop 64 mad))" using assms(7) by (simp add: mem_load_def)
  have sto: "mem_store buf 0 (take 64 (drop 64 mad)) = Some (take 64 (drop 64 mad))"
    using assms(1,7) by (simp add: mem_store_def)
  have t: "tid32 e mad = Some (request_tid st ?rpc)" using assms(6) tid by simp
  from mad_rpc_single [OF smp_args [OF assms(1,2)] np assms(4,5) t assms(8,9,10,11), where buf = buf]
  obtain rpc' st' rq where run: "mad_rpc e st srcport ?rpc (smp_dest portid) (Some buf) (Some buf) =
      (if status \<noteq> 0 then Some (False, rpc', smp_dest portid, Some buf, st'\<lparr>ms_errno := EIO\<rparr>)
       else do { bs \<leftarrow> mem_load mad (r_dataoffs ?rpc) (r_datasz ?rpc);
                 out \<leftarrow> mem_store buf 0 bs;
                 Some (True, rpc', smp_dest portid, Some out, st') })"
    "r_rstatus rpc' = status" "ms_sent st' = ms_sent st @ [rq]" "um_addr (rq_pkt rq) = pkt_addr ?rpc (smp_dest portid)"
    by blast
  show ?thesis
  proof (cases "status = 0")
    case True
    then show ?thesis using run(2-4)
      by (intro exI [of _ st'] exI [of _ rq]) (simp add: smp_query_status_eq run(1) smp_rpc_fields ld sto)
  next
    case False
    then show ?thesis using run(2-4)
      by (intro exI [of _ "st'\<lparr>ms_errno := EIO\<rparr>"] exI [of _ rq]) (simp add: smp_query_status_eq run(1))
  qed
qed

text \<open>
  C30. When \<open>smp_query_status_via\<close> (and so \<open>smp_query_via\<close>) returns its
  buffer, there is a received and accepted MAD with status 0 such that every field of at most 32
  bits that lies in the SMP data area reads the same from the buffer as from the data area of that
  MAD; otherwise the buffer is as it was.
\<close>
theorem smp_query_delivers:
  assumes "smp_query_status_via e st buf portid attrid amod timeout srcport = Some (res, out, portid', rstatus, st')"
    and "length buf = 64" and "length (hops (pt_drpath portid)) = 64" and "replies_ok (ms_rx st)"
  shows "if res then \<exists>s len mad. RecvMad s len mad \<in> set (ms_rx st) \<and> accepted s \<and>
      mad_get_field mad 0 IB_DRSMP_STATUS_F = Some 0 \<and>
      (\<forall>n f. field_desc n = Some f \<and> 0 < bitlen f \<and> bitlen f \<le> 32 \<and> bitoffs f + bitlen f \<le> 512 \<longrightarrow>
         mad_get_field out 0 n = mad_get_field mad 64 n)
    else out = buf"
proof -
  let ?rpc = "smp_rpc IB_MAD_METHOD_GET attrid amod timeout srcport portid"
  note args = smp_args [OF assms(2,3)]
  from assms(1) obtain rpc' where call: "rpc_call e srcport st ?rpc (smp_dest portid) buf = Some (res, rpc', out)"
    by (auto simp: smp_query_status_eq rpc_call_def Option.bind_eq_Some_conv)
  show ?thesis
  proof (cases res)
    case True
    with call have "rpc_call e srcport st ?rpc (smp_dest portid) buf = Some (True, rpc', out)" by simp
    from rpc.fields_delivered [OF this args assms(4)] assms(2) show ?thesis
      using True by (fastforce simp: smp_rpc_fields)
  next
    case False
    with call have "rpc_call e srcport st ?rpc (smp_dest portid) buf = Some (False, rpc', out)" by simp
    from rpc.kept [OF this args] False show ?thesis by simp
  qed
qed

text \<open>
  Property. An SMP query whose response arrives returns at once: one request, to the
  destination its class requires, \<open>rstatus\<close> is the status of the response, and the buffer
  returned holds the 64 bytes of its data area if that status is 0.
\<close>
theorem smp_query_answered:
  assumes "length buf = 64" and "length (hops (pt_drpath portid)) = 64" and "cnt (pt_drpath portid) < 64"
    and "0 < mad_get_retries (ms_g st) srcport" and "ms_save st = None"
    and "tid32 e mad = Some (ucast (fst (mad_trid (ms_g st))))" and "length mad = 256"
    and "mad_get_field mad 0 IB_DRSMP_STATUS_F = Some status" "status \<noteq> IB_MAD_STS_REDIRECT"
    and "ms_tx st = None # tx" and "ms_rx st = RecvMad 0 256 mad # rx"
  shows "\<exists>st' rq. smp_query_status_via e st buf portid attrid amod timeout srcport =
      Some (status = 0, if status = 0 then take 64 (drop 64 mad) else buf, smp_dest portid, status, st') \<and>
    ms_sent st' = ms_sent st @ [rq] \<and>
    um_addr (rq_pkt rq) =
      (if 0 < pt_lid portid \<and> drslid (pt_drpath portid) \<noteq> 0xffff
       then (pt_lid portid, 0, 0, 0) else (0xffff, 0, 0, 0))"
proof -
  have "pkt_addr (smp_rpc IB_MAD_METHOD_GET attrid amod timeout srcport portid) (smp_dest portid) =
      (if 0 < pt_lid portid \<and> drslid (pt_drpath portid) \<noteq> 0xffff
       then (pt_lid portid, 0, 0, 0) else (0xffff, 0, 0, 0))"
    by (auto simp: pkt_addr_def smp_class_cases smp_mgtclass_def smp_dest_def c_eval)
  with smp_query_answer [OF assms, of attrid amod timeout] show ?thesis by simp
qed

definition example_smp_state :: mad_state where
  "example_smp_state = example_state\<lparr>ms_tx := [None], ms_rx := [RecvMad 0 256 example_answer_mad]\<rparr>"

lemma example_smp_run:
  "length (replicate 64 (9 :: u8)) = 64" "length (hops (pt_drpath portid_zero)) = 64" "cnt (pt_drpath portid_zero) < 64"
  "0 < mad_get_retries (ms_g example_smp_state) example_port" "ms_save example_smp_state = None"
  "tid32 BE example_answer_mad = Some (ucast (fst (mad_trid (ms_g example_smp_state))))" "length example_answer_mad = 256"
  "mad_get_field example_answer_mad 0 IB_DRSMP_STATUS_F = Some 0" "0 \<noteq> IB_MAD_STS_REDIRECT"
  "ms_tx example_smp_state = None # []" "ms_rx example_smp_state = RecvMad 0 256 example_answer_mad # []"
  "take 64 (drop 64 example_answer_mad) = replicate 64 0" "replies_ok (ms_rx example_smp_state)"
proof -
  show "tid32 BE example_answer_mad = Some (ucast (fst (mad_trid (ms_g example_smp_state))))"
    using example_answer_mad(1)
    by (simp add: example_smp_state_def example_state_def example_globals_def mad_trid_def)
  show len: "length example_answer_mad = 256" by (simp add: example_answer_mad_def)
  show "mad_get_field example_answer_mad 0 IB_DRSMP_STATUS_F = Some 0" by (rule example_answer_mad(2))
  show "take 64 (drop 64 example_answer_mad) = replicate 64 0" by (simp add: example_answer_mad_def)
  show "replies_ok (ms_rx example_smp_state)" using len by (simp add: replies_ok_def example_smp_state_def)
qed (simp_all add: portid_zero_def dr_path_zero_def mad_get_retries_def example_smp_state_def example_state_def
      example_globals_def example_port_def c_eval)

lemmas example_smp = smp_query_answer [OF example_smp_run(1-11)]

theorem smp_query_answered_witness:
  "\<exists>st' rq. smp_query_status_via BE example_smp_state (replicate 64 9) portid_zero IB_ATTR_NODE_INFO 0 0 example_port =
      Some (True, replicate 64 0, smp_dest portid_zero, 0, st') \<and> ms_sent st' = [rq] \<and>
     um_addr (rq_pkt rq) = (0xffff, 0, 0, 0)"
  using smp_query_answered [OF example_smp_run(1-11), of IB_ATTR_NODE_INFO 0 0] example_smp_run(12)
  by (simp add: portid_zero_def example_smp_state_def example_state_def)

theorem smp_query_delivers_witness:
  "\<exists>out st' mad. smp_query_status_via BE example_smp_state (replicate 64 9) portid_zero IB_ATTR_NODE_INFO 0 0 example_port =
      Some (True, out, smp_dest portid_zero, 0, st') \<and> RecvMad 0 256 mad \<in> set (ms_rx example_smp_state) \<and>
     mad_get_field out 0 IB_NODE_TYPE_F = mad_get_field mad 64 IB_NODE_TYPE_F"
proof -
  obtain out st' where run: "smp_query_status_via BE example_smp_state (replicate 64 9) portid_zero IB_ATTR_NODE_INFO 0 0
      example_port = Some (True, out, smp_dest portid_zero, 0, st')"
    using example_smp [of IB_ATTR_NODE_INFO 0 0] by auto
  from smp_query_delivers [OF run example_smp_run(1,2,13)] obtain s len mad where
    mad: "RecvMad s len mad \<in> set (ms_rx example_smp_state)"
      "\<forall>n f. field_desc n = Some f \<and> 0 < bitlen f \<and> bitlen f \<le> 32 \<and> bitoffs f + bitlen f \<le> 512 \<longrightarrow>
         mad_get_field out 0 n = mad_get_field mad 64 n" by auto
  have "mad_get_field out 0 IB_NODE_TYPE_F = mad_get_field mad 64 IB_NODE_TYPE_F"
    by (rule mad(2) [rule_format, OF conjI, OF fd_IB_NODE_TYPE_F]) simp
  moreover have "s = 0" "len = 256" using mad(1) by (auto simp: example_smp_state_def)
  ultimately show ?thesis using run mad(1) by blast
qed

section \<open>Subnet administration\<close>

definition sa_rpc :: "ib_sa_call_t \<Rightarrow> int \<Rightarrow> ib_rpc_t" where
  "sa_rpc sa timeout = rpc_zero\<lparr>r_mgtclass := IB_SA_CLASS, r_method := sa_method sa, r_attr_id := sa_attrid sa,
     r_attr_mod := sa_mod sa, r_mask := sa_mask sa, r_timeout := timeout,
     r_datasz := IB_SA_DATA_SIZE, r_dataoffs := IB_SA_DATA_OFFS, r_trid := sa_trid sa\<rparr>"

lemma sa_args:
  assumes "200 \<le> length buf"
  shows "rpc_args_ok (sa_rpc sa timeout) dport (Some buf)"
  using assms
  by (simp add: rpc_args_ok_def encode_args_ok_def pkt_path_def rpc_class_def sa_rpc_def class_hdr_def c_eval)

lemma sa_rpc_call_result:
  assumes "sa_rpc_call e st port buf portid sa timeout = Some (ret, out, portid', sa', st')"
    and "200 \<le> length buf"
  shows "(ret \<longrightarrow> (\<exists>rpc'. rmpp_call e port st (sa_rpc sa timeout) (gsi_address portid) buf = Some (True, rpc', out)) \<and>
            0 < pt_lid portid) \<and> (\<not> ret \<longrightarrow> out = buf)"
proof (cases "pt_lid portid \<le> 0")
  case True
  then show ?thesis using assms(1) by (simp add: sa_rpc_call_def)
next
  case False
  then obtain rpc' where call: "rmpp_call e port st (sa_rpc sa timeout) (gsi_address portid) buf = Some (ret, rpc', out)"
    using assms(1) by (auto simp: sa_rpc_call_def rmpp_call_def sa_rpc_def Option.bind_eq_Some_conv Let_def)
  show ?thesis
  proof (cases ret)
    case True
    then show ?thesis using call False by simp
  next
    case ret: False
    with call have "rmpp_call e port st (sa_rpc sa timeout) (gsi_address portid) buf = Some (False, rpc', out)" by simp
    from rmpp.kept [OF this sa_args [OF assms(2)]] ret show ?thesis by simp
  qed
qed

lemma encode_array_length:
  assumes "mad_encode_field e buf n val = Some buf'" and "field_desc n = Some f" and "bitlen f = 128" "n \<noteq> 0"
  shows "length buf' = length buf"
  using assms by (auto simp: mad_encode_field_def set_array_def Option.bind_eq_Some_conv dest: length_mem_store)

text \<open>
  C33. \<open>ib_path_query_via\<close> returns -1 or the DLID field of the path record in
  a received MAD that has status 0 and the transaction id drawn for the query (unless that is 0, for
  which \<open>mad_encode\<close> would draw another).
\<close>
theorem path_query_dlid:
  assumes "ib_path_query_via e st srcport srcgid destgid sm_id buf = Some (r, sm', out, st')"
    and "length buf = 200" and "replies_ok (ms_rx st)"
  shows "r = -1 \<or> (\<exists>s len mad w. RecvMad s len mad \<in> set (ms_rx st) \<and> accepted s \<and>
    mad_get_field mad 0 IB_MAD_STATUS_F = Some 0 \<and>
    (fst (mad_trid (ms_g st)) = 0 \<or> tid32 e mad = Some (ucast (fst (mad_trid (ms_g st))))) \<and>
    mad_get_field mad 56 IB_SA_PR_DLID_F = Some w \<and> r = sint w)"
proof -
  let ?t = "fst (mad_trid (ms_g st))" and ?st = "st\<lparr>ms_g := snd (mad_trid (ms_g st))\<rparr>"
  let ?sa = "sa_zero\<lparr>sa_method := IB_MAD_METHOD_GET, sa_attrid := IB_SA_ATTR_PATHRECORD,
       sa_mask := IB_PR_DEF_MASK, sa_trid := ?t\<rparr>"
  obtain b0 b1 b2 p out1 sm1 sa1 st1 where b: "mem_store buf 0 (replicate IB_SA_PR_RECSZ 0) = Some b0"
      "mad_encode_field e b0 IB_SA_PR_DGID_F destgid = Some b1" "mad_encode_field e b1 IB_SA_PR_SGID_F srcgid = Some b2"
    and call: "sa_rpc_call e ?st srcport b2 sm_id ?sa 0 = Some (p, out1, sm1, sa1, st1)"
    and rest: "(if \<not> p then Some (-1, sm1, out1, st1)
     else do {
       dlid \<leftarrow> mad_decode_field e out1 IB_SA_PR_DLID_F (replicate 4 0);
       Some (int_of_u32 (native_word e dlid), sm1, out1, st1)
     }) = Some (r, sm', out, st')"
    using assms(1)
    by (cases "mad_trid (ms_g st)") (auto simp: ib_path_query_via_def Option.bind_eq_Some_conv Let_def)
  have "length b1 = 200" "length b2 = 200"
    using length_mem_store [OF b(1)] encode_array_length [OF b(2) fd_IB_SA_PR_DGID_F]
      encode_array_length [OF b(3) fd_IB_SA_PR_SGID_F] assms(2) by (simp_all add: c_eval)
  then have len: "200 \<le> length b2" "4 dvd length b2" by simp_all
  show ?thesis
  proof (cases p)
    case False
    then show ?thesis using rest by simp
  next
    case True
    then obtain rpc' where rc: "rmpp_call e srcport ?st (sa_rpc ?sa 0) (gsi_address sm_id) b2 = Some (True, rpc', out1)"
      using sa_rpc_call_result [OF call len(1)] by blast
    have fields: "r_dataoffs (sa_rpc ?sa 0) = 56" "r_datasz (sa_rpc ?sa 0) = 200" "r_trid (sa_rpc ?sa 0) = ?t"
      by (simp_all add: sa_rpc_def c_eval)
    from rmpp.fields_delivered [OF rc sa_args [OF len(1)] _ len(2)] assms(3) obtain s l mad where
      mad: "RecvMad s l mad \<in> set (ms_rx st)" "accepted s" "mad_get_field mad 0 IB_MAD_STATUS_F = Some 0"
        "tid32 e mad = Some (ucast (r_trid rpc'))" "?t = 0 \<or> r_trid rpc' = ?t"
      and eq: "mad_get_field out1 0 IB_SA_PR_DLID_F = mad_get_field mad 56 IB_SA_PR_DLID_F"
      unfolding fields using fd_IB_SA_PR_DLID_F by fastforce
    obtain dlid where d: "mad_decode_field e out1 IB_SA_PR_DLID_F (replicate 4 0) = Some dlid"
        "r = int_of_u32 (native_word e dlid)"
      using rest True by (auto simp: Option.bind_eq_Some_conv)
    have nz: "IB_SA_PR_DLID_F \<noteq> 0" by (simp add: c_eval)
    from d obtain w where w: "mad_get_field out1 0 IB_SA_PR_DLID_F = Some w" "mem_store (replicate 4 0) 0 (native_bytes e 4 w) = Some dlid"
      by (auto simp: mad_decode_field_def mad_get_field_def fd_IB_SA_PR_DLID_F Option.bind_eq_Some_conv nz)
    then have "dlid = native_bytes e 4 w" by (simp add: mem_store_def)
    then have "r = sint w" using d(2) by (simp add: int_of_u32_def)
    moreover have "mad_get_field mad 56 IB_SA_PR_DLID_F = Some w" using eq w(1) by simp
    moreover have "?t = 0 \<or> tid32 e mad = Some (ucast ?t)" using mad(4,5) by auto
    ultimately show ?thesis using mad(1-3) by blast
  qed
qed

lemma example_path_query:
  "\<exists>sm st' out. ib_path_query_via BE example_smp_state example_port (replicate 16 1) (replicate 16 2)
      (portid_zero\<lparr>pt_lid := 5\<rparr>) (replicate 200 0) = Some (0, sm, out, st')"
proof -
  let ?st = "example_smp_state\<lparr>ms_g := snd (mad_trid (ms_g example_smp_state))\<rparr>"
  let ?sa = "sa_zero\<lparr>sa_method := IB_MAD_METHOD_GET, sa_attrid := IB_SA_ATTR_PATHRECORD,
       sa_mask := IB_PR_DEF_MASK, sa_trid := 42\<rparr>"
  have t: "mad_trid (ms_g example_smp_state) = (42, example_globals\<lparr>g_trid := 42\<rparr>)"
    by (simp add: example_smp_state_def example_state_def example_globals_def mad_trid_def)
  have nz: "IB_SA_PR_DGID_F \<noteq> 0" "IB_SA_PR_SGID_F \<noteq> 0" "IB_SA_PR_DLID_F \<noteq> 0" by (simp_all add: c_eval)
  obtain b0 :: mem where b0: "mem_store (replicate 200 0) 0 (replicate IB_SA_PR_RECSZ 0) = Some b0" "length b0 = 200"
    by (simp add: mem_store_def c_eval)
  obtain b1 where b1: "mad_encode_field BE b0 IB_SA_PR_DGID_F (replicate 16 2) = Some b1" "length b1 = 200"
    using b0(2) by (simp add: mad_encode_field_def field_descs nz set_array_def array_offs_def mem_load_def mem_store_def)
  obtain b2 where b2: "mad_encode_field BE b1 IB_SA_PR_SGID_F (replicate 16 1) = Some b2" "length b2 = 200"
    using b1(2) by (simp add: mad_encode_field_def field_descs nz set_array_def array_offs_def mem_load_def mem_store_def)
  let ?out = "replicate 200 (0 :: u8)"
  have st: "mem_load example_answer_mad 56 200 = Some ?out" "mem_store b2 0 ?out = Some ?out"
    using b2(2) by (simp_all add: mem_load_def mem_store_def example_answer_mad_def)
  have f: "mad_get_field example_answer_mad 0 IB_MAD_STATUS_F = Some 0"
    "mad_get_field example_answer_mad 0 IB_SA_ATTROFFS_F = Some 0"
    by (simp_all add: eval_field example_answer_mad_def nth_append)
  have np: "\<not> no_path (sa_rpc ?sa 0) (gsi_address (portid_zero\<lparr>pt_lid := 5\<rparr>))"
    by (simp add: no_path_def rpc_class_def sa_rpc_def c_eval)
  have "\<exists>rpc' st'. mad_rpc_rmpp BE ?st example_port (sa_rpc ?sa 0) (gsi_address (portid_zero\<lparr>pt_lid := 5\<rparr>)) None (Some b2) =
      Some (True, rpc', None, Some ?out, st') \<and> r_recsz rpc' = 0 \<and>
      length (ms_sent st') = Suc (length (ms_sent ?st))"
    using f example_smp_run(4,5) example_answer_mad(1) b2(2) st
    by (intro mad_rpc_rmpp_answer [OF sa_args np, where tx = "[]" and rx = "[]"
          and mad = example_answer_mad and bs = ?out])
       (simp_all add: sa_rpc_def mad_trid_def example_smp_state_def mad_get_retries_def example_port_def example_globals_def
          example_state_def c_eval)
  then obtain rpc' st' where "mad_rpc_rmpp BE ?st example_port (sa_rpc ?sa 0) (gsi_address (portid_zero\<lparr>pt_lid := 5\<rparr>))
      None (Some b2) = Some (True, rpc', None, Some ?out, st')" by blast
  then have call: "sa_rpc_call BE ?st example_port b2 (portid_zero\<lparr>pt_lid := 5\<rparr>) ?sa 0 =
      Some (True, ?out, gsi_address (portid_zero\<lparr>pt_lid := 5\<rparr>), ?sa\<lparr>sa_recsz := r_recsz rpc'\<rparr>, st')"
    by (simp add: sa_rpc_call_def sa_rpc_def)
  have "mad_get_field ?out 0 IB_SA_PR_DLID_F = Some 0" by (simp add: eval_field)
  then have "mad_decode_field BE ?out IB_SA_PR_DLID_F (replicate 4 0) = Some (native_bytes BE 4 (0 :: u32))"
    by (simp add: mad_decode_field_def mad_get_field_def field_descs nz mem_store_def)
  then show ?thesis using call b0(1) b1(1) b2(1)
    by (simp add: ib_path_query_via_def t int_of_u32_def native_word32_inverse)
qed

theorem path_query_dlid_witness:
  "\<exists>sm out st'. ib_path_query_via BE example_smp_state example_port (replicate 16 1) (replicate 16 2)
      (portid_zero\<lparr>pt_lid := 5\<rparr>) (replicate 200 0) = Some (0, sm, out, st') \<and>
    (\<exists>s len mad. RecvMad s len mad \<in> set (ms_rx example_smp_state) \<and> mad_get_field mad 56 IB_SA_PR_DLID_F = Some 0)"
proof -
  obtain sm out st' where run: "ib_path_query_via BE example_smp_state example_port (replicate 16 1) (replicate 16 2)
      (portid_zero\<lparr>pt_lid := 5\<rparr>) (replicate 200 0) = Some (0, sm, out, st')"
    using example_path_query by blast
  from path_query_dlid [OF run _ example_smp_run(13)] run show ?thesis
    by (fastforce simp: signed_eq_0_iff)
qed

section \<open>Performance management\<close>

definition pma_rpc :: "u32 \<Rightarrow> int \<Rightarrow> ib_rpc_t" where
  "pma_rpc attrid timeout = rpc_zero\<lparr>r_mgtclass := IB_PERFORMANCE_CLASS OR IB_MAD_RPC_VERSION1,
     r_method := IB_MAD_METHOD_GET, r_attr_id := attrid, r_attr_mod := 0, r_timeout := timeout,
     r_datasz := IB_PC_DATA_SZ, r_dataoffs := IB_PC_DATA_OFFS\<rparr>"

lemma pma_rpc_facts: "rpc_class (pma_rpc a t) = IB_PERFORMANCE_CLASS" "rpc_is_v1 (pma_rpc a t)"
  "r_trid (pma_rpc a t) = 0" "\<not> no_path (pma_rpc a t) d"
  "192 \<le> length buf \<Longrightarrow> rpc_args_ok (pma_rpc a t) d (Some buf)"
  by (simp_all add: pma_rpc_def rpc_class_def rpc_is_v1_def rpc_zero_def no_path_def rpc_args_ok_def
      encode_args_ok_def pkt_path_def class_hdr_def mad_is_vendor_range2_def c_eval)

text \<open>
  Property. When a performance query is answered with an error status, \<open>mad_rpc\<close>
  sets \<open>errno\<close> to \<open>EIO\<close>, but \<open>pma_query_via\<close> then stores \<open>rpc.error\<close> there, which
  records only failures of \<open>_do_madrpc\<close>: the caller sees \<open>NULL\<close> and \<open>errno\<close> 0.
\<close>
theorem pma_query_hides_errno:
  assumes "length buf = 256" and "pt_lid dest \<noteq> -1"
    and "0 < mad_get_retries (ms_g st) srcport" and "ms_save st = None"
    and "tid32 e mad = Some (ucast (fst (mad_trid (ms_g st))))"
    and "mad_get_field mad 0 IB_DRSMP_STATUS_F = Some status" "status \<noteq> IB_MAD_STS_REDIRECT" "status \<noteq> 0"
    and "ms_tx st = None # tx" and "ms_rx st = RecvMad 0 256 mad # rx"
  shows "\<exists>out dest' st'. pma_query_via e st buf dest port timeout attrid srcport = Some (False, out, dest', st') \<and>
    ms_errno st' = 0"
proof -
  obtain b where b: "mad_set_field buf 0 IB_PC_PORT_SELECT_F port = Some b" "length b = 256"
    using mad_set_fields_ok [of 0 2048 "[(IB_PC_PORT_SELECT_F, port)]" buf] assms(1) touches_length [of buf]
    by (fastforce simp: field_geom field_descs)
  let ?rpc = "pma_rpc attrid timeout"
  have t: "tid32 e mad = Some (request_tid st ?rpc)"
    using assms(5) by (simp add: request_tid_def with_trid_def pma_rpc_facts case_prod_beta)
  have args: "rpc_args_ok ?rpc (gs_address dest) (Some b)" using b(2) by (simp add: pma_rpc_facts)
  from mad_rpc_single [OF args pma_rpc_facts(4) assms(3,4) t assms(6,7,9,10), of b] assms(8)
  obtain rpc' st' where "mad_rpc e st srcport ?rpc (gs_address dest) (Some b) (Some b) =
      Some (False, rpc', gs_address dest, Some b, st'\<lparr>ms_errno := EIO\<rparr>)" "r_error rpc' = 0"
    using pma_rpc_facts(2) by auto
  then show ?thesis
    using b(1) assms(2) unfolding pma_rpc_def by (simp add: pma_query_via_def)
qed

definition example_bad_status :: mem where
  \<comment> \<open>a response to transaction 42 with status \<open>0x1c\<close>, invalid attribute value\<close>
  "example_bad_status = replicate 5 0 @ [0x1c] @ replicate 9 0 @ [42] @ replicate 240 0"

theorem pma_query_hides_errno_witness:
  "\<exists>out dest' st'. pma_query_via BE (example_smp_state\<lparr>ms_rx := [RecvMad 0 256 example_bad_status]\<rparr>) (replicate 256 0)
      example_dport 1 0 IB_GSI_PORT_COUNTERS example_port = Some (False, out, dest', st') \<and> ms_errno st' = 0"
proof (rule pma_query_hides_errno [where tx = "[]" and rx = "[]" and mad = example_bad_status and status = "0x1c"])
  show "tid32 BE example_bad_status =
      Some (ucast (fst (mad_trid (ms_g (example_smp_state\<lparr>ms_rx := [RecvMad 0 256 example_bad_status]\<rparr>)))))"
    by (simp add: tid32_def mad_get_field64_def field_descs get_field64_def mem_load_def example_bad_status_def
        native_word_def ntohll_def htonll_def le_word_zeros mad_trid_def example_smp_state_def example_state_def
        example_globals_def)
  show "mad_get_field example_bad_status 0 IB_DRSMP_STATUS_F = Some 0x1c"
    by (simp add: eval_field example_bad_status_def nth_append)
qed (use example_smp_run(4,5,10) in \<open>simp_all add: example_dport_def portid_zero_def example_smp_state_def
      IB_MAD_STS_REDIRECT_def\<close>)

end
