(* ===== verification/MadServ.thy ===== *)
theory MadServ
  imports MadClients
begin

text \<open>
  The server side (\<open>mad_respond_via\<close>, \<open>mad_receive_via\<close> of \<open>serv.c\<close>) and the registration
  of management agents (\<open>register.c\<close>, \<open>mad_rpc_open_port\<close> of \<open>rpc.c\<close>).
\<close>

section \<open>Answering a request\<close>

text \<open>The address of a received MAD, in network byte order, as \<open>libibumad\<close> delivers it.\<close>

record ib_mad_addr_t =
  ma_qpn :: u32
  ma_qkey :: u32
  ma_lid :: u16
  ma_sl :: u8

definition ntohs :: "endian \<Rightarrow> u16 \<Rightarrow> u16" where
  "ntohs e x = le_word (rev (native_bytes e 2 x))"

definition ntohl :: "endian \<Rightarrow> u32 \<Rightarrow> u32" where
  "ntohl e x = le_word (rev (native_bytes e 4 x))"

definition respond_rpc :: "endian \<Rightarrow> mem \<Rightarrow> u32 \<Rightarrow> ib_rpc_t option" where
  \<comment> \<open>the response \<open>mad_respond_via\<close> fills in from the request\<close>
  "respond_rpc e mad rstatus = do {
     mgtclass \<leftarrow> mad_get_field mad 0 IB_MAD_MGMTCLASS_F;
     method \<leftarrow> mad_get_field mad 0 IB_MAD_METHOD_F;
     let method = (if method = IB_MAD_METHOD_SET then IB_MAD_METHOD_GET else method);
     let method = (if method \<noteq> IB_MAD_METHOD_SEND then method OR IB_MAD_RESPONSE else method);
     id \<leftarrow> mad_get_field mad 0 IB_MAD_ATTRID_F;
     amod \<leftarrow> mad_get_field mad 0 IB_MAD_ATTRMOD_F;
     recsz \<leftarrow> (if mgtclass = IB_SA_CLASS then mad_get_field mad 0 IB_SA_ATTROFFS_F else Some 0);
     oui \<leftarrow> (if mad_is_vendor_range2 mgtclass then mad_get_field mad 0 IB_VEND2_OUI_F else Some 0);
     trid \<leftarrow> mad_get_field64 e mad 0 IB_MAD_TRID_F;
     Some (rpc_zero\<lparr>r_mgtclass := mgtclass, r_method := method, r_attr_id := id, r_attr_mod := amod,
       r_recsz := recsz, r_oui := oui, r_trid := trid, r_rstatus := rstatus\<rparr>)
   }"

definition respond_port :: "ib_rpc_t \<Rightarrow> ib_portid_t \<Rightarrow> ib_portid_t" where
  "respond_port rpc portid =
     (let is_smi = (r_mgtclass rpc = IB_SMI_CLASS \<or> r_mgtclass rpc = IB_SMI_DIRECT_CLASS);
          portid = (if is_smi then portid\<lparr>pt_qp := 0\<rparr>
                    else if pt_qp portid = 0 then portid\<lparr>pt_qp := 1\<rparr> else portid)
      in if pt_qkey portid = 0 \<and> pt_qp portid = 1
         then portid\<lparr>pt_qkey := IB_DEFAULT_QP1_QKEY\<rparr> else portid)"

definition reply_port :: "endian \<Rightarrow> ib_mad_addr_t \<Rightarrow> ib_portid_t" where
  "reply_port e mad_addr = portid_zero\<lparr>pt_lid := uint (ntohs e (ma_lid mad_addr)),
     pt_qp := ntohl e (ma_qpn mad_addr), pt_qkey := ntohl e (ma_qkey mad_addr), pt_sl := ma_sl mad_addr\<rparr>"

text \<open>
  \<open>mad_addr\<close> is what \<open>umad_get_mad_addr\<close> returns for the buffer. The result is the value
  returned, the buffer, the caller's \<open>portid\<close> and the state.
\<close>

definition mad_respond_via :: "endian \<Rightarrow> mad_state \<Rightarrow> umad_pkt \<Rightarrow> ib_mad_addr_t option \<Rightarrow> ib_portid_t option \<Rightarrow>
    u32 \<Rightarrow> ibmad_port \<Rightarrow> (int \<times> umad_pkt \<times> ib_portid_t option \<times> mad_state) option" where
  "mad_respond_via e st umad mad_addr portid rstatus srcport =
     (case (portid, mad_addr) of
        (None, None) \<Rightarrow> Some (-1, umad, None, st\<lparr>ms_errno := EINVAL\<rparr>)
      | _ \<Rightarrow> do {
        let p = (case portid of Some p \<Rightarrow> p | None \<Rightarrow> reply_port e (the mad_addr));
        rpc \<leftarrow> respond_rpc e (um_mad umad) rstatus;
        let p = respond_port rpc p;
        let out = map_option (\<lambda>_. p) portid;
        (r, en, umad, rpc, g) \<leftarrow> mad_build_pkt e (ms_g st) umad rpc p None None;
        let st = st\<lparr>ms_g := g, ms_errno := (case en of None \<Rightarrow> ms_errno st | Some x \<Rightarrow> x)\<rparr>;
        if r < 0 then Some (-1, umad, out, st)
        else do {
          (sent, st) \<leftarrow> umad_send st (port_id srcport) (class_agents srcport ! unat (r_mgtclass rpc)) umad
             (int IB_MAD_SIZE) (mad_get_timeout (ms_g st) srcport (r_timeout rpc)) 0;
          Some (if \<not> sent then -1 else 0, umad, out, st)
        }
      })"

definition mad_receive_via :: "mad_state \<Rightarrow> (mem option \<times> mad_state) option" where
  \<comment> \<open>the MAD received, or \<open>NULL\<close>; the time-out only matters to \<open>umad_recv\<close>\<close>
  "mad_receive_via st = (case ms_rx st of [] \<Rightarrow> None
     | RecvError en # rx \<Rightarrow> Some (None, st\<lparr>ms_rx := rx, ms_errno := en\<rparr>)
     | RecvMad _ _ mad # rx \<Rightarrow> Some (Some mad, st\<lparr>ms_rx := rx\<rparr>))"

section \<open>Registering agents\<close>

definition mgmt_class_vers :: "int \<Rightarrow> int" where
  "mgmt_class_vers mgmt_class =
     (if (mgmt_class \<ge> uint IB_VENDOR_RANGE1_START_CLASS \<and> mgmt_class \<le> uint IB_VENDOR_RANGE1_END_CLASS) \<or>
         (mgmt_class \<ge> uint IB_VENDOR_RANGE2_START_CLASS \<and> mgmt_class \<le> uint IB_VENDOR_RANGE2_END_CLASS) then 1
      else if mgmt_class = uint IB_SMI_CLASS \<or> mgmt_class = uint IB_SMI_DIRECT_CLASS then 1
      else if mgmt_class = uint IB_SA_CLASS then 2
      else if mgmt_class = uint IB_PERFORMANCE_CLASS then 1
      else if mgmt_class = uint IB_DEVICE_MGMT_CLASS then 1
      else if mgmt_class = uint IB_CC_CLASS then 2
      else if mgmt_class = uint IB_BOARD_MGMT_CLASS then 1
      else 0)"

definition mad_class_agent :: "ibmad_port \<Rightarrow> int \<Rightarrow> int" where
  \<comment> \<open>of the library's default port\<close>
  "mad_class_agent ibmp mgmt = (if mgmt < 1 \<or> mgmt \<ge> int MAX_CLASS then -1 else class_agents ibmp ! nat mgmt)"

definition agents_set :: "ibmad_port \<Rightarrow> int \<Rightarrow> int \<Rightarrow> ibmad_port option" where
  \<comment> \<open>\<open>srcport->class_agents[mgmt] = agent\<close>\<close>
  "agents_set port mgmt agent =
     (if 0 \<le> mgmt \<and> nat mgmt < length (class_agents port)
      then Some (port\<lparr>class_agents := (class_agents port)[nat mgmt := agent]\<rparr>) else None)"

definition agents_get :: "ibmad_port \<Rightarrow> int \<Rightarrow> int option" where
  "agents_get port mgmt =
     (if 0 \<le> mgmt \<and> nat mgmt < length (class_agents port) then Some (class_agents port ! nat mgmt) else None)"

text \<open>
  The calls of \<open>umad_register\<close> and \<open>umad_register_oui\<close> that a run makes, with their arguments, and
  their results to come: the agent id or a negative value.
\<close>

record reg_call =
  rc_port :: int
  rc_class :: int
  rc_vers :: "int option" \<comment> \<open>not an argument of \<open>umad_register_oui\<close>\<close>
  rc_rmpp :: u8
  rc_oui :: "(u8 \<times> u8 \<times> u8) option"

record reg_state =
  rg_results :: "int list"
  rg_calls :: "reg_call list"
  rg_errno :: int

definition do_register :: "reg_state \<Rightarrow> reg_call \<Rightarrow> (int \<times> reg_state) option" where
  "do_register rs c = (case rg_results rs of [] \<Rightarrow> None
     | r # res \<Rightarrow> Some (r, rs\<lparr>rg_results := res, rg_calls := rg_calls rs @ [c]\<rparr>))"

definition mad_register_port_client :: "reg_state \<Rightarrow> int \<Rightarrow> int \<Rightarrow> u8 \<Rightarrow> (int \<times> reg_state) option" where
  "mad_register_port_client rs portid mgmt rmpp_version =
     (let vers = mgmt_class_vers mgmt in
      if vers \<le> 0 then Some (-1, rs)
      else do_register rs \<lparr>rc_port = portid, rc_class = mgmt, rc_vers = Some vers, rc_rmpp = rmpp_version,
             rc_oui = None\<rparr>)"

definition mad_register_client_via :: "reg_state \<Rightarrow> int \<Rightarrow> u8 \<Rightarrow> ibmad_port option \<Rightarrow>
    (int \<times> ibmad_port option \<times> reg_state) option" where
  "mad_register_client_via rs mgmt rmpp_version srcport =
     (case srcport of None \<Rightarrow> Some (-1, None, rs)
      | Some port \<Rightarrow> do {
          (agent, rs) \<leftarrow> mad_register_port_client rs (mad_rpc_portid port) mgmt rmpp_version;
          if agent < 0 then Some (agent, Some port, rs)
          else do {
            port \<leftarrow> agents_set port mgmt agent;
            Some (0, Some port, rs)
          }
        })"

definition mad_register_server_via :: "reg_state \<Rightarrow> int \<Rightarrow> u8 \<Rightarrow> u32 \<Rightarrow> ibmad_port option \<Rightarrow>
    (int \<times> ibmad_port option \<times> reg_state) option" where
  "mad_register_server_via rs mgmt rmpp_version class_oui srcport =
     (case srcport of None \<Rightarrow> Some (-1, None, rs)
      | Some port \<Rightarrow> do {
          old \<leftarrow> agents_get port mgmt;
          if old \<ge> 0 then Some (-1, srcport, rs)
          else let vers = mgmt_class_vers mgmt in
          if vers \<le> 0 then Some (-1, srcport, rs)
          else do {
            (agent, rs) \<leftarrow>
              (if mgmt \<ge> uint IB_VENDOR_RANGE2_START_CLASS \<and> mgmt \<le> uint IB_VENDOR_RANGE2_END_CLASS
               then do_register rs \<lparr>rc_port = port_id port, rc_class = mgmt, rc_vers = None, rc_rmpp = rmpp_version,
                      rc_oui = Some (ucast (drop_bit 16 class_oui AND 0xff), ucast (drop_bit 8 class_oui AND 0xff),
                                     ucast (class_oui AND 0xff))\<rparr>
               else do_register rs \<lparr>rc_port = port_id port, rc_class = mgmt, rc_vers = Some vers,
                      rc_rmpp = rmpp_version, rc_oui = None\<rparr>);
            if agent < 0 then Some (-1, srcport, rs)
            else do {
              port \<leftarrow> agents_set port mgmt agent;
              Some (agent, Some port, rs)
            }
          }
        })"

section \<open>Opening a port\<close>

definition blank_port :: "int \<Rightarrow> ibmad_port" where
  \<comment> \<open>zeroed, the descriptor stored, the agents set to -1\<close>
  "blank_port fd = \<lparr>port_id = fd, class_agents = replicate MAX_CLASS (-1), mp_timeout = 0, mp_retries = 0,
     smp_mkey = 0\<rparr>"

fun open_classes :: "reg_state \<Rightarrow> int list \<Rightarrow> int \<Rightarrow> ibmad_port \<Rightarrow> (ibmad_port option \<times> reg_state) option" where
  \<comment> \<open>the loop over the classes: their array, the count left, the port. A count that does not run out
    before the array does reads past its end.\<close>
  "open_classes rs classes n p =
     (if n = 0 then Some (Some p, rs)
      else case classes of [] \<Rightarrow> None
      | mgmt # classes \<Rightarrow> do {
          let rmpp_version = (if mgmt = uint IB_SA_CLASS then 1 else 0);
          (failed, q, rs) \<leftarrow>
            (if mgmt < 0 \<or> mgmt \<ge> int MAX_CLASS then Some (True, Some p, rs)
             else do { (r, q, rs) \<leftarrow> mad_register_client_via rs mgmt rmpp_version (Some p); Some (r < 0, q, rs) });
          q \<leftarrow> q;
          if failed then Some (None, rs\<lparr>rg_errno := (if rg_errno rs = 0 then EINVAL else rg_errno rs)\<rparr>)
          else open_classes rs classes (n - 1) q
        })"

text \<open>
  \<open>umad_init\<close>, \<open>malloc\<close> and \<open>umad_open_port\<close> are represented by what they return: whether the first
  two succeed and the descriptor or a negative value.
\<close>

definition mad_rpc_open_port :: "reg_state \<Rightarrow> bool \<Rightarrow> bool \<Rightarrow> int \<Rightarrow> int list \<Rightarrow> int \<Rightarrow>
    (ibmad_port option \<times> reg_state) option" where
  "mad_rpc_open_port rs init_ok alloc_ok fd mgmt_classes num_classes =
     (if num_classes \<ge> int MAX_CLASS then Some (None, rs\<lparr>rg_errno := EINVAL\<rparr>)
      else if \<not> init_ok then Some (None, rs\<lparr>rg_errno := ENODEV\<rparr>)
      else if \<not> alloc_ok then Some (None, rs\<lparr>rg_errno := ENOMEM\<rparr>)
      else if fd < 0 then Some (None, rs\<lparr>rg_errno := (if rg_errno rs = 0 then EIO else rg_errno rs)\<rparr>)
      else open_classes rs mgmt_classes num_classes (blank_port fd))"

end
