(* ===== verification/MadServCorrect.thy ===== *)
theory MadServCorrect
  imports MadServ MadClientsCorrect
begin

text \<open>
  A response answers its request: same transaction, attribute and class, the response bit, the
  sender's address. Registration keeps the table of agents in shape, and the class versions it
  announces are the ones \<open>mad_encode\<close> puts into requests.
\<close>

section \<open>Responses\<close>

lemma mad_get_field_bits:
  assumes "field_desc n = Some f" and "0 < bitlen f" "bitlen f \<le> 32" and "length mad = 256"
  shows "\<exists>w. mad_get_field mad 0 n = Some w \<and> take_bit (bitlen f) w = w"
proof -
  note shape = desc_shape [OF assms(1-3)]
  have ok: "field_in (length mad) 0 f" using desc_in_mad [OF assms(1,2)] assms(4) by simp
  from get_field_bits [OF shape ok] obtain w where
    "get_field mad 0 f = Some w" "\<forall>j. bit w j \<longleftrightarrow> j < bitlen f \<and> buf_bit mad (field_start 0 f + j)" by blast
  moreover from this(2) have "take_bit (bitlen f) w = w"
    by (intro bit_eqI) (simp add: bit_take_bit_iff)
  ultimately show ?thesis using assms(1) by (simp add: mad_get_field_def)
qed

definition response_method :: "u32 \<Rightarrow> u32" where
  \<comment> \<open>the method of a response, without the response bit\<close>
  "response_method m = (if m = IB_MAD_METHOD_SET then IB_MAD_METHOD_GET else m)"

definition answers :: "mem \<Rightarrow> mem \<Rightarrow> u32 \<Rightarrow> bool" where
  \<comment> \<open>\<open>b\<close> is a response to \<open>a\<close> with this status\<close>
  "answers b a status \<longleftrightarrow>
     mad_get_field b 0 IB_MAD_MGMTCLASS_F = mad_get_field a 0 IB_MAD_MGMTCLASS_F \<and>
     mad_get_field b 0 IB_MAD_METHOD_F = map_option response_method (mad_get_field a 0 IB_MAD_METHOD_F) \<and>
     mad_get_field b 0 IB_MAD_RESPONSE_F =
       map_option (\<lambda>m. if m = IB_MAD_METHOD_SEND then 0 else 1) (mad_get_field a 0 IB_MAD_METHOD_F) \<and>
     mad_get_field b 0 IB_MAD_ATTRID_F = mad_get_field a 0 IB_MAD_ATTRID_F \<and>
     mad_get_field b 0 IB_MAD_ATTRMOD_F = mad_get_field a 0 IB_MAD_ATTRMOD_F \<and>
     (mad_get_field a 0 IB_MAD_MGMTCLASS_F = Some IB_SMI_DIRECT_CLASS \<or>
        mad_get_field b 0 IB_MAD_STATUS_F = Some (take_bit 16 status))"

lemma take_bit_8_and: "take_bit 8 (c :: u32) = c \<Longrightarrow> c AND 0xff = c"
  using take_bit_eq_mask [of 8 c] by (simp add: mask_eq_exp_minus_1)

lemma mad_get_field64_in:
  assumes "length mad = 256" and "field_desc n = Some f" and "bitoffs f div 8 + 8 \<le> 256"
  shows "\<exists>w. mad_get_field64 e mad 0 n = Some w"
  using assms by (simp add: mad_get_field64_def get_field64_def mem_load_def)

lemma respond_rpc_some:
  assumes "length mad = 256"
  shows "\<exists>rpc c m. respond_rpc e mad status = Some rpc \<and>
    mad_get_field mad 0 IB_MAD_MGMTCLASS_F = Some c \<and> take_bit 8 c = c \<and> r_mgtclass rpc = c \<and>
    mad_get_field mad 0 IB_MAD_METHOD_F = Some m \<and> take_bit 7 m = m \<and>
    r_method rpc = (if response_method m \<noteq> IB_MAD_METHOD_SEND then response_method m OR IB_MAD_RESPONSE
                    else response_method m) \<and>
    (\<exists>a. mad_get_field mad 0 IB_MAD_ATTRID_F = Some a \<and> take_bit 16 a = a \<and> r_attr_id rpc = a) \<and>
    mad_get_field mad 0 IB_MAD_ATTRMOD_F = Some (r_attr_mod rpc) \<and>
    mad_get_field64 e mad 0 IB_MAD_TRID_F = Some (r_trid rpc) \<and> r_rstatus rpc = status"
proof -
  obtain c where c: "mad_get_field mad 0 IB_MAD_MGMTCLASS_F = Some c" "take_bit 8 c = c"
    using mad_get_field_bits [OF fd_IB_MAD_MGMTCLASS_F _ _ assms] by auto
  obtain m where m: "mad_get_field mad 0 IB_MAD_METHOD_F = Some m" "take_bit 7 m = m"
    using mad_get_field_bits [OF fd_IB_MAD_METHOD_F _ _ assms] by auto
  obtain a where a: "mad_get_field mad 0 IB_MAD_ATTRID_F = Some a" "take_bit 16 a = a"
    using mad_get_field_bits [OF fd_IB_MAD_ATTRID_F _ _ assms] by auto
  obtain am where am: "mad_get_field mad 0 IB_MAD_ATTRMOD_F = Some am"
    using mad_get_field_bits [OF fd_IB_MAD_ATTRMOD_F _ _ assms] by auto
  obtain rs where rs: "(if c = IB_SA_CLASS then mad_get_field mad 0 IB_SA_ATTROFFS_F else Some 0) = Some rs"
    using mad_get_field_bits [OF fd_IB_SA_ATTROFFS_F _ _ assms] by (cases "c = IB_SA_CLASS") auto
  obtain ou where ou: "(if mad_is_vendor_range2 c then mad_get_field mad 0 IB_VEND2_OUI_F else Some 0) = Some ou"
    using mad_get_field_bits [OF fd_IB_VEND2_OUI_F _ _ assms] by (cases "mad_is_vendor_range2 c") auto
  obtain t where t: "mad_get_field64 e mad 0 IB_MAD_TRID_F = Some t"
    using mad_get_field64_in [OF assms fd_IB_MAD_TRID_F] by auto
  show ?thesis
    using c m a am t unfolding respond_rpc_def c(1) m(1) a(1) am t Option.bind.simps Let_def rs ou
    by (simp add: response_method_def)
qed

text \<open>
  The sender of a request, in terms of the bytes on the wire: \<open>libibumad\<close> hands over LID, QP and Q_Key most significant byte
  first, whatever the byte order of the host. The address of a response is stated from these values, the class of the request and the
  rules for management packets (QP 0 for SMPs; QP 1 when none is known, and its well-known Q_Key).
\<close>

definition sent_from :: "endian \<Rightarrow> ib_mad_addr_t \<Rightarrow> u16 \<Rightarrow> u32 \<Rightarrow> u32 \<Rightarrow> u8 \<Rightarrow> bool" where
  "sent_from e a lid qp qkey sl \<longleftrightarrow>
     native_bytes e 2 (ma_lid a) = [byte_of 1 lid, byte_of 0 lid] \<and>
     native_bytes e 4 (ma_qpn a) = [byte_of 3 qp, byte_of 2 qp, byte_of 1 qp, byte_of 0 qp] \<and>
     native_bytes e 4 (ma_qkey a) = [byte_of 3 qkey, byte_of 2 qkey, byte_of 1 qkey, byte_of 0 qkey] \<and> ma_sl a = sl"

definition sender_address :: "u32 \<Rightarrow> u16 \<Rightarrow> u32 \<Rightarrow> u32 \<Rightarrow> u8 \<Rightarrow> int \<times> u32 \<times> u32 \<times> u32" where
  \<comment> \<open>LID, QP, SL and Q_Key to which a response of this class goes\<close>
  "sender_address class lid qp qkey sl =
     (if class = IB_SMI_CLASS then (uint lid, 0, 0, 0)
      else if class = IB_SMI_DIRECT_CLASS then (if lid = 0 then 0xffff else uint lid, 0, 0, 0)
      else (uint lid, if qp = 0 then 1 else qp, ucast sl,
            if qkey = 0 \<and> (qp = 0 \<or> qp = 1) then 0x80010000 else qkey))"

lemma sent_from_values:
  assumes "sent_from e a lid qp qkey sl"
  shows "ntohs e (ma_lid a) = lid" "ntohl e (ma_qpn a) = qp" "ntohl e (ma_qkey a) = qkey" "ma_sl a = sl"
proof -
  have l: "le_word [byte_of 0 x, byte_of 1 x, byte_of 2 x, byte_of 3 x] = x" for x :: u32
    using le_word_inverse [of 4 x] by (simp add: upt_rec eval_nat_numeral)
  have s: "le_word [byte_of 0 x, byte_of 1 x] = x" for x :: u16
    using le_word_inverse [of 2 x] by (simp add: upt_rec eval_nat_numeral)
  show "ntohs e (ma_lid a) = lid" "ntohl e (ma_qpn a) = qp" "ntohl e (ma_qkey a) = qkey" "ma_sl a = sl"
    using assms l [of qp] l [of qkey] s [of lid] by (simp_all add: sent_from_def ntohs_def ntohl_def del: le_word.simps)
qed

lemma respond_address:
  assumes "sent_from e a lid qp qkey sl" and "rpc_class rpc = r_mgtclass rpc"
  shows "pkt_addr rpc (respond_port rpc (reply_port e a)) = sender_address (r_mgtclass rpc) lid qp qkey sl"
proof -
  note v = sent_from_values [OF assms(1)]
  have "uint lid > 0 \<longleftrightarrow> lid \<noteq> 0" using uint_ge_0 [of lid] by (simp add: uint_0_iff less_le)
  then show ?thesis
    by (auto simp: pkt_addr_def assms(2) sender_address_def respond_port_def reply_port_def v Let_def portid_zero_def dr_path_zero_def c_eval)
qed

text \<open>
  C32 (functional): \<open>mad_respond_via\<close> without an explicit address turns the request in its buffer into a response
  with the status given and sends it once. The response carries the class, the attribute and its modifier and the transaction id
  (unless that is 0) of the request, the method of the request (GetResp for a Set) and, unless the method is Send, the response bit; it goes
  to the LID, QP, SL and Q_Key that the bytes of the sender's address denote, on hosts of either byte order.
\<close>
theorem respond_answers:
  assumes "length (um_mad umad) = 256" and "ms_tx st = None # tx" and "sent_from e a lid qp qkey sl"
    and "mad_get_field (um_mad umad) 0 IB_MAD_MGMTCLASS_F = Some class"
  shows "\<exists>umad' st' rq. mad_respond_via e st umad (Some a) None status srcport = Some (0, umad', None, st') \<and>
    answers (um_mad umad') (um_mad umad) status \<and>
    (tid32 e (um_mad umad') = tid32 e (um_mad umad) \<or> mad_get_field64 e (um_mad umad) 0 IB_MAD_TRID_F = Some 0) \<and>
    ms_sent st' = ms_sent st @ [rq] \<and> rq_pkt rq = umad' \<and>
    um_addr umad' = sender_address class lid qp qkey sl"
proof -
  from respond_rpc_some [OF assms(1), of e status] obtain rpc c m where rpc:
    "respond_rpc e (um_mad umad) status = Some rpc" "mad_get_field (um_mad umad) 0 IB_MAD_MGMTCLASS_F = Some c"
    "take_bit 8 c = c" "r_mgtclass rpc = c" "mad_get_field (um_mad umad) 0 IB_MAD_METHOD_F = Some m" "take_bit 7 m = m"
    "r_method rpc = (if response_method m \<noteq> IB_MAD_METHOD_SEND then response_method m OR IB_MAD_RESPONSE
                    else response_method m)"
    "mad_get_field (um_mad umad) 0 IB_MAD_ATTRID_F = Some (r_attr_id rpc)" "take_bit 16 (r_attr_id rpc) = r_attr_id rpc"
    "mad_get_field (um_mad umad) 0 IB_MAD_ATTRMOD_F = Some (r_attr_mod rpc)"
    "mad_get_field64 e (um_mad umad) 0 IB_MAD_TRID_F = Some (r_trid rpc)" "r_rstatus rpc = status"
    by blast
  let ?p = "respond_port rpc (reply_port e a)"
  have cl: "rpc_class rpc = c" using take_bit_8_and [OF rpc(3)] rpc(4) by (simp add: rpc_class_def)
  have path: "pt_drpath ?p = dr_path_zero"
    by (simp add: respond_port_def reply_port_def portid_zero_def Let_def)
  have args: "encode_args_ok rpc (pkt_path rpc ?p) None"
    by (simp add: encode_args_ok_def pkt_path_def path dr_path_zero_def c_eval)
  have good: "\<not> bad_path rpc (pkt_path rpc ?p)" by (simp add: bad_path_pkt path dr_path_zero_def)
  obtain r g' where wt: "with_trid (ms_g st) rpc = (r, g')" by fastforce
  from mad_encode_default [OF assms(1) args good args, of e "ms_g st"] obtain b where
    b: "mad_encode e (ms_g st) (um_mad umad) rpc (pkt_path rpc ?p) None = Some (None, b, r, g')" "length b = 256"
      "first_word_as b rpc" "ids_as b r"
      "rpc_class rpc \<noteq> IB_SMI_DIRECT_CLASS \<longrightarrow> mad_get_field b 0 IB_MAD_STATUS_F = Some (take_bit 16 status)"
    unfolding rpc(12) wt by auto
  let ?u = "(addressed umad rpc ?p)\<lparr>um_mad := b\<rparr>"
  have build: "mad_build_pkt e (ms_g st) umad rpc ?p None None = Some (256, None, ?u, r, g')"
    by (simp add: mad_build_pkt_unfold b(1))
  have m7: "take_bit 7 (r_method rpc) = response_method m"
  proof -
    have "take_bit 7 (response_method m) = response_method m"
      using rpc(6) by (simp add: response_method_def c_eval)
    then show ?thesis by (simp add: rpc(7) take_bit_or c_eval)
  qed
  have resp: "rpc_is_resp rpc \<longleftrightarrow> m \<noteq> IB_MAD_METHOD_SEND"
  proof (cases "m = IB_MAD_METHOD_SEND")
    case True
    then show ?thesis by (simp add: rpc_is_resp_def rpc(7) response_method_def c_eval)
  next
    case False
    then have "response_method m \<noteq> IB_MAD_METHOD_SEND" by (auto simp: response_method_def c_eval)
    moreover have "(x OR 0x80) AND 0x80 \<noteq> (0 :: u32)" for x
    proof
      assume "(x OR 0x80) AND 0x80 = 0"
      then have "bit ((x OR 0x80) AND (0x80 :: u32)) 7 = bit (0 :: u32) 7" by (rule arg_cong)
      then show False by (simp add: bit_simps)
    qed
    ultimately show ?thesis using False by (simp add: rpc_is_resp_def rpc(7) IB_MAD_RESPONSE_def)
  qed
  have ans: "answers b (um_mad umad) status"
    using b(3-5) cl rpc(2,5,8-10) m7 resp with_trid_keeps(3,4) [of "ms_g st" rpc] wt
    by (auto simp: answers_def first_word_as_def ids_as_def)
  have addr: "pkt_addr rpc ?p = sender_address class lid qp qkey sl"
    using respond_address [OF assms(3), of rpc] cl rpc(2,4) assms(4) by simp
  have tid: "tid32 e b = tid32 e (um_mad umad) \<or> mad_get_field64 e (um_mad umad) 0 IB_MAD_TRID_F = Some 0"
    using b(4) rpc(11) wt by (cases "r_trid rpc = 0"; cases e) (simp_all add: tid32_def ids_as_def with_trid_def)
  show ?thesis
    using assms(2) ans tid addr
    by (simp add: mad_respond_via_def rpc(1) build umad_send_def Let_def addressed_def)
qed

theorem respond_answers_witness:
  "\<exists>umad' st' rq. mad_respond_via LE example_state zero_pkt (Some \<lparr>ma_qpn = 0x02000000, ma_qkey = 0, ma_lid = 0x700, ma_sl = 3\<rparr>)
      None 0 example_port = Some (0, umad', None, st') \<and> answers (um_mad umad') (replicate 256 0) 0 \<and>
    ms_sent st' = [rq] \<and> rq_pkt rq = umad' \<and> um_addr umad' = (7, 2, 3, 0)"
proof -
  have fr: "sent_from LE \<lparr>ma_qpn = 0x02000000, ma_qkey = 0, ma_lid = 0x700, ma_sl = 3\<rparr> 7 2 0 3"
    by (simp add: sent_from_def native_bytes_def upt_rec byte_of_def)
  have "mad_get_field (um_mad zero_pkt) 0 IB_MAD_MGMTCLASS_F = Some 0"
    by (simp add: zero_pkt_def mad_get_field_def fd_IB_MAD_MGMTCLASS_F get_field_def prebits_def postbits_def bytelen_def field_idx_def mem_rd_def Let_def)
  note answer = respond_answers [OF _ _ fr this, of example_state "[None, None]" 0 example_port]
  have "um_mad zero_pkt = replicate 256 0" "ms_tx example_state = [None, None, None]" "ms_sent example_state = []"
    by (simp_all add: zero_pkt_def example_state_def numeral_3_eq_3)
  moreover have "sender_address 0 7 2 0 3 = (7, 2, 3, 0)" by (simp add: sender_address_def c_eval)
  ultimately show ?thesis using answer by fastforce
qed

section \<open>Registration\<close>

lemma class_vers_range: "0 < mgmt_class_vers c \<Longrightarrow> 0 \<le> c \<and> c < 256"
  by (auto simp: mgmt_class_vers_def c_eval split: if_splits)

lemma register_client:
  assumes "length (class_agents port) = 256" and "rg_results rs = r # res"
  shows "\<exists>rs'. mad_register_client_via rs mgmt v (Some port) = Some
    (if mgmt_class_vers mgmt \<le> 0 then (-1, Some port, rs)
     else if r < 0 then (r, Some port, rs')
     else (0, Some (port\<lparr>class_agents := (class_agents port)[nat mgmt := r]\<rparr>), rs'))"
  using assms class_vers_range [of mgmt]
  by (cases "0 < mgmt_class_vers mgmt")
     (auto simp: mad_register_client_via_def mad_register_port_client_def do_register_def agents_set_def Let_def)

text \<open>
  Property. For a class number outside the table of agents
  \<open>mad_register_client_via\<close> returns -1, because it asks for the class version first;
  \<open>mad_register_server_via\<close> reads \<open>class_agents[mgmt]\<close> first, outside the array.
\<close>
theorem register_out_of_range:
  assumes "mgmt < 0 \<or> 256 \<le> mgmt" and "length (class_agents port) = 256"
  shows "mad_register_client_via rs mgmt v (Some port) = Some (-1, Some port, rs) \<and>
    mad_register_server_via rs mgmt v oui (Some port) = None"
proof -
  have "\<not> 0 < mgmt_class_vers mgmt" using class_vers_range [of mgmt] assms(1) by auto
  then show ?thesis using assms
    by (auto simp: mad_register_client_via_def mad_register_port_client_def mad_register_server_via_def
        agents_get_def Let_def)
qed

theorem register_out_of_range_witness:
  "mad_register_client_via \<lparr>rg_results = [5], rg_calls = [], rg_errno = 0\<rparr> 256 0 (Some example_port) = Some (-1, Some example_port, \<lparr>rg_results = [5], rg_calls = [], rg_errno = 0\<rparr>) \<and>
   mad_register_server_via \<lparr>rg_results = [5], rg_calls = [], rg_errno = 0\<rparr> 256 0 0 (Some example_port) = None"
  using register_out_of_range [of 256 example_port] by (simp add: example_port_def)

lemma open_classes_agents:
  assumes "open_classes rs classes n p = Some (Some q, rs')" and "length (class_agents p) = 256"
  shows "0 \<le> n \<and> length (class_agents q) = 256 \<and> port_id q = port_id p \<and> mp_retries q = mp_retries p \<and>
    (\<forall>c < 256. 0 \<le> class_agents q ! c \<longleftrightarrow> 0 \<le> class_agents p ! c \<or> int c \<in> set (take (nat n) classes)) \<and>
    list_all (\<lambda>c. 0 < mgmt_class_vers c) (take (nat n) classes)"
  using assms
proof (induction classes arbitrary: rs n p)
  case Nil
  then show ?case by (auto split: if_splits)
next
  case (Cons m ms)
  show ?case
  proof (cases "n = 0")
    case True
    then show ?thesis using Cons.prems by auto
  next
    case False
    let ?v = "if m = uint IB_SA_CLASS then 1 else 0 :: u8"
    obtain r q1 rs1 where reg: "mad_register_client_via rs m ?v (Some p) = Some (r, q1, rs1)" "\<not> r < 0"
      "0 \<le> m" "m < 256" and rest: "\<And>q2. q1 = Some q2 \<Longrightarrow> open_classes rs1 ms (n - 1) q2 = Some (Some q, rs')"
      and some: "q1 \<noteq> None"
      using Cons.prems(1) False
      by (fastforce simp: Option.bind_eq_Some_conv c_eval split: if_splits)
    obtain a res where a: "mgmt_class_vers m > 0" "rg_results rs = a # res" "\<not> a < 0"
      using reg(1,2) by (auto simp: mad_register_client_via_def mad_register_port_client_def do_register_def Let_def
          Option.bind_eq_Some_conv split: if_splits list.splits)
    let ?p = "p\<lparr>class_agents := (class_agents p)[nat m := a]\<rparr>"
    have "q1 = Some ?p"
      using register_client [OF Cons.prems(2) a(2), of m ?v] reg(1) a by auto
    from Cons.IH [OF rest [OF this]] Cons.prems(2) have ih: "0 \<le> n - 1" "length (class_agents q) = 256"
      "port_id q = port_id p" "mp_retries q = mp_retries p"
      "\<forall>c < 256. 0 \<le> class_agents q ! c \<longleftrightarrow> 0 \<le> class_agents ?p ! c \<or> int c \<in> set (take (nat (n - 1)) ms)"
      "list_all (\<lambda>c. 0 < mgmt_class_vers c) (take (nat (n - 1)) ms)" by simp_all
    have n: "nat n = Suc (nat (n - 1))" using ih(1) by simp
    have "0 \<le> class_agents q ! c \<longleftrightarrow> 0 \<le> class_agents p ! c \<or> int c \<in> set (take (nat n) (m # ms))" if "c < 256" for c
      using ih(5) that a(3) reg(3) Cons.prems(2) unfolding n by (cases "int c = m") (auto simp: nth_list_update)
    then show ?thesis using ih a(1) unfolding n by simp
  qed
qed

text \<open>
  Property. A port that \<open>mad_rpc_open_port\<close> returns has a table of 256 agents in which
  exactly the requested classes have one, every one of them is a class with a known version, and
  the retries are those of the library; more than 255 classes or a negative count never give a port.
\<close>
theorem open_port_agents:
  assumes "mad_rpc_open_port rs init_ok alloc_ok fd classes n = Some (Some p, rs')"
  shows "0 \<le> n \<and> n < 256 \<and> port_id p = fd \<and> length (class_agents p) = 256 \<and> mp_retries p = 0 \<and>
    (\<forall>c < 256. 0 \<le> class_agents p ! c \<longleftrightarrow> int c \<in> set (take (nat n) classes)) \<and>
    list_all (\<lambda>c. 0 < mgmt_class_vers c) (take (nat n) classes)"
proof -
  have n: "n < 256" "open_classes rs classes n (blank_port fd) = Some (Some p, rs')"
    using assms by (auto simp: mad_rpc_open_port_def c_eval split: if_splits)
  from open_classes_agents [OF n(2)] n(1) show ?thesis by (simp add: blank_port_def c_eval)
qed

theorem open_port_agents_witness:
  "\<exists>p rs'. mad_rpc_open_port \<lparr>rg_results = [5, 6], rg_calls = [], rg_errno = 0\<rparr> True True 3 [1, 3] 2 = Some (Some p, rs') \<and>
     class_agents p ! 1 \<ge> 0 \<and> \<not> class_agents p ! 4 \<ge> 0"
proof -
  obtain p rs' where run: "mad_rpc_open_port \<lparr>rg_results = [5, 6], rg_calls = [], rg_errno = 0\<rparr> True True 3 [1, 3] 2 =
      Some (Some p, rs')"
    by (simp add: mad_rpc_open_port_def mad_register_client_via_def mad_register_port_client_def do_register_def
        agents_set_def blank_port_def mgmt_class_vers_def c_eval)
  from open_port_agents [OF run] have "class_agents p ! 1 \<ge> 0" "\<not> class_agents p ! 4 \<ge> 0"
    by (simp_all add: numeral_2_eq_2)
  with run show ?thesis by blast
qed

text \<open>
  Property. A class for which the library registers an agent is announced to
  \<open>umad_register\<close> with the class version that \<open>mad_encode\<close> puts into its MADs.
\<close>
theorem class_versions_agree:
  assumes "length buf = 256" and "encode_args_ok rpc drpath data" and "\<not> bad_path rpc drpath"
    and "0 < mgmt_class_vers (uint (rpc_class rpc))"
  shows "\<exists>b rpc' g'. mad_encode e g buf rpc drpath data = Some (None, b, rpc', g') \<and>
    mad_get_field b 0 IB_MAD_CLASSVER_F = Some (word_of_int (mgmt_class_vers (uint (rpc_class rpc))))"
proof -
  have "mgmt_class_vers (uint (rpc_class rpc)) =
      (if rpc_class rpc = IB_SA_CLASS \<or> rpc_class rpc = IB_CC_CLASS then 2 else 1)"
  proof (cases "rpc_class rpc = IB_SA_CLASS \<or> rpc_class rpc = IB_CC_CLASS")
    case True
    then show ?thesis by (auto simp: mgmt_class_vers_def c_eval)
  next
    case False
    then have "uint (rpc_class rpc) \<noteq> uint IB_SA_CLASS" "uint (rpc_class rpc) \<noteq> uint IB_CC_CLASS"
      by (simp_all add: word_uint_eq_iff [symmetric])
    then show ?thesis using assms(4) False unfolding mgmt_class_vers_def by (auto split: if_splits)
  qed
  moreover obtain b rpc' g' where "mad_encode e g buf rpc drpath data = Some (None, b, rpc', g')" "first_word_as b rpc"
    using mad_encode_default [OF assms(1-3) assms(2), of e g] by blast
  ultimately show ?thesis by (auto simp: first_word_as_def)
qed

theorem class_versions_agree_witness:
  "\<exists>b rpc' g'. mad_encode LE example_globals (replicate 256 0) example_rpc (Some example_path)
       (Some (replicate 64 5)) = Some (None, b, rpc', g') \<and> mad_get_field b 0 IB_MAD_CLASSVER_F = Some 1"
  using class_versions_agree [OF example_encode(5) example_encode(1,2), of LE example_globals]
  by (simp add: example_encode(4) mgmt_class_vers_def c_eval)

end
