(* ===== verification/CString.thy ===== *)
theory CString
  imports IbPrelude "HOL-Library.Char_ord"
begin

text \<open>
  The parts of the C library the string handling uses: character buffers and \<open>snprintf\<close>,
  decimal output, and the \<open>strtol\<close> family. A C string argument is the list of its characters
  without the terminator; a buffer is the list of all its characters, and an access outside it is
  \<open>None\<close>.
\<close>

section \<open>Buffers\<close>

type_synonym cbuf = "char list"

definition NUL :: char where
  "NUL = CHR 0x00"

definition c_snprintf :: "cbuf \<Rightarrow> nat \<Rightarrow> nat \<Rightarrow> string \<Rightarrow> cbuf option" where
  \<comment> \<open>\<open>snprintf(buf + off, n, ...)\<close> that produces the text \<open>s\<close>; it returns the length of \<open>s\<close>\<close>
  "c_snprintf buf off n s = (if n = 0 then Some buf else mem_store buf off (take (n - 1) s @ [NUL]))"

definition c_str :: "cbuf \<Rightarrow> string" where
  \<comment> \<open>the string a buffer holds\<close>
  "c_str buf = takeWhile (\<lambda>c. c \<noteq> NUL) buf"

definition c_strlen :: "cbuf \<Rightarrow> nat \<Rightarrow> nat option" where
  \<comment> \<open>\<open>strlen(buf + off)\<close>: there must be a terminator\<close>
  "c_strlen buf off = (if NUL \<in> set (drop off buf) then Some (length (c_str (drop off buf))) else None)"

lemma c_str_store:
  assumes "NUL \<notin> set s" and "length s < length buf"
  shows "\<exists>buf'. mem_store buf 0 (s @ [NUL]) = Some buf' \<and> c_str buf' = s \<and> length buf' = length buf"
  using assms by (cases buf) (auto simp: mem_store_def c_str_def takeWhile_append)

section \<open>Writing inside a window\<close>

definition within :: "nat \<Rightarrow> nat \<Rightarrow> cbuf \<Rightarrow> cbuf \<Rightarrow> bool" where
  \<comment> \<open>nothing changes outside the \<open>n\<close> characters at \<open>off\<close>\<close>
  "within off n buf buf' \<longleftrightarrow>
     length buf' = length buf \<and> take off buf' = take off buf \<and> drop (off + n) buf' = drop (off + n) buf"

lemma within_refl: "within off n buf buf"
  by (simp add: within_def)

lemma within_trans: "within off n a b \<Longrightarrow> within off n b c \<Longrightarrow> within off n a c"
  by (simp add: within_def)

lemma within_length: "within off n buf buf' \<Longrightarrow> length buf' = length buf"
  by (simp add: within_def)

lemma within_mono:
  assumes "within a m buf buf'" and "off \<le> a" "a + m \<le> off + n"
  shows "within off n buf buf'"
proof -
  have w: "length buf' = length buf" "take a buf' = take a buf" "drop (a + m) buf' = drop (a + m) buf"
    using assms(1) by (simp_all add: within_def)
  have t: "take off xs = take off (take a xs)" for xs :: cbuf using assms(2) by (simp add: min_def)
  have d: "drop (off + n) xs = drop (off + n - (a + m)) (drop (a + m) xs)" for xs :: cbuf using assms(3) by simp
  show ?thesis
    unfolding within_def by (simp add: w(1) t [of buf'] t [of buf] d [of buf'] d [of buf] w(2,3) del: take_take drop_drop)
qed

lemma within_store: "mem_store buf off xs = Some buf' \<Longrightarrow> within off (length xs) buf buf'"
  by (auto simp: mem_simps within_def)

lemma within_wr: "mem_wr buf i c = Some buf' \<Longrightarrow> within i 1 buf buf'"
  by (auto simp: mem_simps within_def)

definition holds :: "cbuf \<Rightarrow> nat \<Rightarrow> string \<Rightarrow> bool" where
  \<comment> \<open>the text \<open>s\<close> and its terminator are at \<open>off\<close>\<close>
  "holds buf off s \<longleftrightarrow> off + length s < length buf \<and> take (Suc (length s)) (drop off buf) = s @ [NUL]"

lemma holds_prefix:
  assumes "holds buf off s"
  shows "take (length s) (drop off buf) = s"
proof -
  have "take (length s) (take (Suc (length s)) (drop off buf)) = take (length s) (s @ [NUL])"
    using assms by (simp add: holds_def)
  then show ?thesis by (simp add: min_def)
qed

lemma holds_strlen:
  assumes "holds buf off s" and "NUL \<notin> set s"
  shows "c_strlen buf off = Some (length s)" "c_str (drop off buf) = s"
proof -
  obtain r where d: "drop off buf = s @ NUL # r"
    using assms(1) append_take_drop_id [of "Suc (length s)" "drop off buf"]
    by (auto simp: holds_def intro: that [OF sym])
  show "c_str (drop off buf) = s"
    using assms(2) unfolding d c_str_def by (induction s) auto
  then show "c_strlen buf off = Some (length s)" by (simp add: c_strlen_def d)
qed

lemma mem_store_append:
  assumes "mem_store buf (off + length s) xs = Some buf'" and "take (length s) (drop off buf) = s"
  shows "take (length s + length xs) (drop off buf') = s @ xs"
proof -
  have b: "off + length s + length xs \<le> length buf" "buf' = take (off + length s) buf @ xs @ drop (off + length s + length xs) buf"
    using assms(1) by (auto simp: mem_store_def split: if_splits)
  have t: "take (off + length s) buf = take off buf @ s"
    using assms(2) by (simp add: take_add)
  show ?thesis using b(1) unfolding b(2) t by simp
qed

lemma snprintf_append:
  assumes "take (length s) (drop off buf) = s" and "length s < sz" and "off + sz \<le> length buf"
  shows "\<exists>buf'. c_snprintf buf (off + length s) (sz - length s) t = Some buf' \<and> holds buf' off (take (sz - 1) (s @ t)) \<and>
    within off sz buf buf'"
proof -
  let ?xs = "take (sz - length s - 1) t @ [NUL]"
  have "off + length s + length ?xs \<le> length buf" using assms(2,3) by auto
  then obtain buf' where b: "mem_store buf (off + length s) ?xs = Some buf'" by (simp add: mem_store_def)
  have tk: "take (sz - 1) (s @ t) = s @ take (sz - length s - 1) t" using assms(2) by (simp add: diff_right_commute)
  have r: "take (length s + length ?xs) (drop off buf') = s @ ?xs" by (rule mem_store_append [OF b assms(1)])
  have w: "within off sz buf buf'" by (rule within_mono [OF within_store [OF b]]) (use assms(2) in auto)
  have "holds buf' off (take (sz - 1) (s @ t))"
    unfolding tk holds_def using r within_length [OF w] assms(2,3) by auto
  then show ?thesis using b w assms(2) by (auto simp: c_snprintf_def)
qed

section \<open>Decimal numbers\<close>

definition digit_char :: "nat \<Rightarrow> char" where
  "digit_char d = char_of (48 + d)"

fun dec :: "nat \<Rightarrow> string" where
  "dec n = (if n < 10 then [digit_char n] else dec (n div 10) @ [digit_char (n mod 10)])"

declare dec.simps [simp del]

definition dec_int :: "int \<Rightarrow> string" where
  \<comment> \<open>\<open>%d\<close>\<close>
  "dec_int i = (if i < 0 then CHR ''-'' # dec (nat (- i)) else dec (nat i))"

definition char_digit :: "char \<Rightarrow> nat option" where
  \<comment> \<open>the value of a character as a digit of base 36\<close>
  "char_digit c =
     (let n = of_char c :: nat in
      if 48 \<le> n \<and> n \<le> 57 then Some (n - 48)
      else if 97 \<le> n \<and> n \<le> 122 then Some (n - 87)
      else if 65 \<le> n \<and> n \<le> 90 then Some (n - 55) else None)"

definition is_digit :: "nat \<Rightarrow> char \<Rightarrow> bool" where
  "is_digit base c = (case char_digit c of None \<Rightarrow> False | Some d \<Rightarrow> d < base)"

lemma char_digit_char: "d < 10 \<Longrightarrow> char_digit (digit_char d) = Some d"
  by (simp add: char_digit_def digit_char_def)

lemma is_digit_char: "d < 10 \<Longrightarrow> is_digit 10 (digit_char d)"
  by (simp add: is_digit_def char_digit_char)

definition digits_value :: "nat \<Rightarrow> string \<Rightarrow> nat" where
  "digits_value base s = foldl (\<lambda>v c. base * v + (case char_digit c of None \<Rightarrow> 0 | Some d \<Rightarrow> d)) 0 s"

lemma dec_digits: "list_all (is_digit 10) (dec n)"
proof (induction n rule: dec.induct)
  case (1 n)
  then show ?case by (subst dec.simps) (simp add: is_digit_char)
qed

lemma dec_nonempty: "dec n \<noteq> []"
  by (subst dec.simps) simp

lemma dec_value: "digits_value 10 (dec n) = n"
proof (induction n rule: dec.induct)
  case (1 n)
  show ?case
  proof (cases "n < 10")
    case True
    then show ?thesis by (subst dec.simps) (simp add: digits_value_def char_digit_char)
  next
    case False
    then show ?thesis using 1 by (subst dec.simps) (simp add: digits_value_def char_digit_char)
  qed
qed

section \<open>Reading numbers\<close>

definition is_space :: "char \<Rightarrow> bool" where
  "is_space c \<longleftrightarrow> (let n = of_char c :: nat in n = 32 \<or> (9 \<le> n \<and> n \<le> 13))"

definition scan_digits :: "nat \<Rightarrow> string \<Rightarrow> (nat \<times> string) option" where
  \<comment> \<open>the value of the longest run of digits and what follows, if there is a digit\<close>
  "scan_digits base s = (let ds = takeWhile (is_digit base) s in
     if ds = [] then None else Some (digits_value base ds, dropWhile (is_digit base) s))"

definition scan_number :: "nat \<Rightarrow> string \<Rightarrow> (nat \<times> string) option" where
  \<comment> \<open>base 0 is found from the prefix, as \<open>strtol\<close> does\<close>
  "scan_number base s =
     (let hex = (base = 0 \<or> base = 16) \<and> length s > 2 \<and> s ! 0 = CHR ''0'' \<and> (s ! 1 = CHR ''x'' \<or> s ! 1 = CHR ''X'') \<and>
                is_digit 16 (s ! 2)
      in if hex then scan_digits 16 (drop 2 s)
         else if base = 0 then scan_digits (if s \<noteq> [] \<and> s ! 0 = CHR ''0'' then 8 else 10) s
         else scan_digits base s)"

definition scan_signed :: "nat \<Rightarrow> string \<Rightarrow> int \<times> string" where
  \<comment> \<open>the value, before it is cut to a type, and the end pointer\<close>
  "scan_signed base s =
     (let t = dropWhile is_space s;
          neg = (t \<noteq> [] \<and> hd t = CHR ''-'');
          t = (if t \<noteq> [] \<and> (hd t = CHR ''-'' \<or> hd t = CHR ''+'') then tl t else t)
      in case scan_number base t of None \<Rightarrow> (0, s)
         | Some (v, rest) \<Rightarrow> (if neg then - int v else int v, rest))"

definition c_strtol :: "nat \<Rightarrow> string \<Rightarrow> int \<times> string" where
  \<comment> \<open>clamped to a 64-bit \<open>long\<close>\<close>
  "c_strtol base s = (let (v, rest) = scan_signed base s in (max (- (2 ^ 63)) (min (2 ^ 63 - 1) v), rest))"

definition c_strtoull :: "nat \<Rightarrow> string \<Rightarrow> u64 \<times> string" where
  "c_strtoull base s = (let (v, rest) = scan_signed base s in
     (if \<bar>v\<bar> > 2 ^ 64 - 1 then -1 else word_of_int v, rest))"

definition c_atoi :: "string \<Rightarrow> int" where
  \<comment> \<open>\<open>(int) strtol(s, NULL, 10)\<close>\<close>
  "c_atoi s = int_of_u32 (word_of_int (fst (c_strtol 10 s)))"

lemma dec_plain: "dropWhile is_space (dec n @ rest) = dec n @ rest" "hd (dec n) \<noteq> CHR ''-''" "hd (dec n) \<noteq> CHR ''+''"
proof -
  have hd: "is_digit 10 (hd (dec n))" "dec n \<noteq> []"
    using dec_digits [of n] dec_nonempty [of n] by (auto simp: list_all_iff)
  then have c: "48 \<le> (of_char (hd (dec n)) :: nat) \<and> (of_char (hd (dec n)) :: nat) \<le> 57"
    by (auto simp: is_digit_def char_digit_def Let_def split: if_splits)
  then show "hd (dec n) \<noteq> CHR ''-''" "hd (dec n) \<noteq> CHR ''+''" by auto
  have "\<not> is_space (hd (dec n))" using c by (auto simp: is_space_def Let_def)
  then show "dropWhile is_space (dec n @ rest) = dec n @ rest" using hd(2) by (cases "dec n") auto
qed

lemma scan_signed_dec:
  "scan_signed base (dec n @ rest) =
     (case scan_number base (dec n @ rest) of None \<Rightarrow> (0, dec n @ rest) | Some (v, rest) \<Rightarrow> (int v, rest))"
  using dec_plain [of n] dec_nonempty [of n] by (auto simp add: scan_signed_def Let_def hd_append2 split: option.split)

lemma scan_dec:
  assumes "rest = [] \<or> \<not> is_digit 10 (hd rest)"
  shows "scan_signed 10 (dec n @ rest) = (int n, rest)"
proof -
  have tw: "takeWhile (is_digit 10) (dec n @ rest) = dec n" "dropWhile (is_digit 10) (dec n @ rest) = rest"
  proof -
    have r: "takeWhile (is_digit 10) rest = []" "dropWhile (is_digit 10) rest = rest"
      using assms by (cases rest; simp)+
    show "takeWhile (is_digit 10) (dec n @ rest) = dec n" "dropWhile (is_digit 10) (dec n @ rest) = rest"
      using dec_digits [of n] r
      by (simp_all add: list_all_iff takeWhile_append2 dropWhile_append2)
  qed
  show ?thesis
    using dec_nonempty [of n] by (simp add: scan_signed_dec scan_number_def scan_digits_def tw dec_value)
qed

lemma hd_dec: "0 < n \<Longrightarrow> hd (dec n) \<noteq> CHR ''0''"
proof (induction n rule: dec.induct)
  case (1 n)
  show ?case
  proof (cases "n < 10")
    case True
    then have "char_digit (hd (dec n)) = Some n" by (subst dec.simps) (simp add: char_digit_char)
    moreover have "char_digit (CHR ''0'') = Some 0" by (simp add: char_digit_def)
    ultimately show ?thesis using 1(2) by auto
  next
    case False
    then show ?thesis using 1 dec_nonempty [of "n div 10"] by (subst dec.simps) simp
  qed
qed

lemma dec_0: "dec 0 = ''0''"
  by (subst dec.simps) (simp add: digit_char_def char_of_def bit_0)

lemma scan_dec_auto: "scan_signed 0 (dec n) = (int n, [])"
proof (cases "n = 0")
  case True
  then show ?thesis
    by (simp add: dec_0 scan_signed_def is_space_def scan_number_def scan_digits_def is_digit_def char_digit_def
        digits_value_def)
next
  case False
  then have "scan_number 0 (dec n) = scan_number 10 (dec n)"
    using hd_dec [of n] dec_nonempty [of n] by (simp add: scan_number_def hd_conv_nth Let_def)
  then show ?thesis
    using scan_dec [of "[]" n] scan_signed_dec [of 0 n "[]"] scan_signed_dec [of 10 n "[]"] by simp
qed

lemma atoi_dec: "n < 2 ^ 31 \<Longrightarrow> c_atoi (dec n) = int n"
  using scan_dec [of "[]" n]
  by (simp add: c_atoi_def c_strtol_def int_of_u32_def signed_of_nat signed_take_bit_int_eq_self)

end
