(* ===== verification/PortId.thy ===== *)
theory PortId
  imports CString MadTypes
begin

text \<open>
  Directed routes as text (\<open>libibmad/src/portid.c\<close>): \<open>str2drpath\<close> reads a comma separated
  list of port numbers, \<open>drpath2str\<close> and \<open>portid2str\<close> print a route and an address.
\<close>

section \<open>portid2portnum\<close>

definition portid2portnum :: "ib_portid_t \<Rightarrow> int option" where
  "portid2portnum portid =
     (if pt_lid portid > 0 then Some (-1)
      else if cnt (pt_drpath portid) = 0 then Some 0
      else do {
        b \<leftarrow> (if cnt (pt_drpath portid) < 0 then None else mem_rd (hops (pt_drpath portid)) (nat (cnt (pt_drpath portid) - 1)));
        Some (uint b)
      })"

section \<open>str2drpath\<close>

function parse_hops :: "u8 list \<Rightarrow> int \<Rightarrow> string \<Rightarrow> (u8 list \<times> int) option" where
  \<comment> \<open>the loop: the array, \<open>cnt\<close>, and the rest of the string\<close>
  "parse_hops p n str =
     (if str = [] then Some (p, n)
      else let comp = takeWhile (\<lambda>c. c \<noteq> CHR '','') str; rest = dropWhile (\<lambda>c. c \<noteq> CHR '','') str in
      do {
        p \<leftarrow> mem_wr p (nat (n + 1)) (word_of_int (c_atoi comp));
        if rest = [] then Some (p, n + 1) else parse_hops p (n + 1) (tl rest)
      })"
  by pat_completeness auto
termination
  by (relation "measure (\<lambda>(p, n, str). length str)")
     (auto simp: length_dropWhile_le less_le_trans Suc_le_eq
       intro!: diff_less [THEN less_le_trans] dest: arg_cong [where f = length])

declare parse_hops.simps [simp del]

definition str2drpath :: "bool \<Rightarrow> ib_dr_path_t \<Rightarrow> string option \<Rightarrow> int \<Rightarrow> int \<Rightarrow> (int \<times> ib_dr_path_t) option" where
  \<comment> \<open>\<open>dup_ok\<close>: whether \<open>strdup\<close> succeeds. A write past the 64 ports is \<open>None\<close>.\<close>
  "str2drpath dup_ok path routepath slid dlid = do {
     (p, n) \<leftarrow> (case routepath of Some s \<Rightarrow> (if dup_ok then parse_hops (hops path) (-1) s else Some (hops path, -1))
               | None \<Rightarrow> Some (hops path, -1));
     Some (n, path\<lparr>cnt := n, hops := p, drdlid := (if dlid \<noteq> 0 then word_of_int dlid else 0xffff),
              drslid := (if slid \<noteq> 0 then word_of_int slid else 0xffff)\<rparr>)
   }"

section \<open>drpath2str and portid2str\<close>

fun print_hops :: "u8 list \<Rightarrow> cbuf \<Rightarrow> nat \<Rightarrow> nat \<Rightarrow> nat list \<Rightarrow> nat \<Rightarrow> cbuf option" where
  \<comment> \<open>the loop over the indices that are left; the buffer is at \<open>off\<close>, the text so far has \<open>rc\<close> characters\<close>
  "print_hops p buf off sz [] rc = Some buf"
| "print_hops p buf off sz (i # is) rc = do {
     b \<leftarrow> mem_rd p i;
     let s = '','' @ dec (unat b);
     buf \<leftarrow> c_snprintf buf (off + rc) (sz - rc) s;
     if rc + length s \<ge> sz then Some buf else print_hops p buf off sz is (rc + length s)
   }"

definition route_head :: "ib_dr_path_t \<Rightarrow> u8 \<Rightarrow> string" where
  \<comment> \<open>\<open>"slid %u; dlid %u; %d"\<close>\<close>
  "route_head path p0 = ''slid '' @ dec (unat (drslid path)) @ ''; dlid '' @ dec (unat (drdlid path)) @ ''; '' @
     dec (unat p0)"

definition drpath2str :: "ib_dr_path_t \<Rightarrow> cbuf \<Rightarrow> nat \<Rightarrow> nat \<Rightarrow> cbuf option" where
  \<comment> \<open>into the \<open>sz\<close> characters at \<open>off\<close> of a buffer\<close>
  "drpath2str path buf off sz = do {
     p0 \<leftarrow> mem_rd (hops path) 0;
     let s = route_head path p0;
     buf \<leftarrow> c_snprintf buf off sz s;
     if length s \<ge> sz then Some buf
     else print_hops (hops path) buf off sz [1..<Suc (nat (cnt path))] (length s)
   }"

definition portid2str :: "(u8 list \<Rightarrow> string option) \<Rightarrow> cbuf \<Rightarrow> ib_portid_t \<Rightarrow> cbuf option" where
  \<comment> \<open>\<open>inet_ntop\<close>: the text of a GID, if the conversion succeeds; \<open>buf\<close> is the static buffer. A
    \<open>sprintf\<close> stores its text and a terminator without regard to the sz of the buffer.\<close>
  "portid2str inet_ntop buf portid = do {
     let lid_part = (if pt_lid portid > 0
        then ''Lid '' @ dec_int (pt_lid portid) @
             (if pt_grh_present portid then (case inet_ntop (pt_gid portid) of None \<Rightarrow> [] | Some g \<Rightarrow> '' Gid '' @ g) else [])
        else []);
     if pt_lid portid > 0 \<and> cnt (pt_drpath portid) = 0 then mem_store buf 0 (lid_part @ [NUL])
     else do {
       let s = lid_part @ (if pt_lid portid > 0 then '' '' else []) @ ''DR path '';
       buf \<leftarrow> mem_store buf 0 (s @ [NUL]);
       drpath2str (pt_drpath portid) buf (length s) (length buf - length s)
     }
   }"

section \<open>Reading back a list of ports\<close>

fun route_text :: "nat list \<Rightarrow> string" where
  "route_text [] = []"
| "route_text [p] = dec p"
| "route_text (p # q # ps) = dec p @ '','' @ route_text (q # ps)"

lemma dec_no_comma: "c \<in> set (dec n) \<Longrightarrow> c \<noteq> CHR '','' \<and> c \<noteq> NUL"
  using dec_digits [of n] by (auto simp: list_all_iff is_digit_def char_digit_def NUL_def Let_def)

lemma comma_split:
  "takeWhile (\<lambda>c. c \<noteq> CHR '','') (dec n) = dec n" "dropWhile (\<lambda>c. c \<noteq> CHR '','') (dec n) = []"
  "takeWhile (\<lambda>c. c \<noteq> CHR '','') (dec n @ CHR '','' # s) = dec n"
  "dropWhile (\<lambda>c. c \<noteq> CHR '','') (dec n @ CHR '','' # s) = CHR '','' # s"
proof -
  have nc: "\<And>c. c \<in> set (dec n) \<Longrightarrow> c \<noteq> CHR '',''" using dec_no_comma by blast
  show "takeWhile (\<lambda>c. c \<noteq> CHR '','') (dec n) = dec n" using nc by (simp add: takeWhile_eq_all_conv)
  show "dropWhile (\<lambda>c. c \<noteq> CHR '','') (dec n) = []" using nc by (simp add: dropWhile_eq_Nil_conv)
  show "takeWhile (\<lambda>c. c \<noteq> CHR '','') (dec n @ CHR '','' # s) = dec n" using nc by (simp add: takeWhile_append2)
  show "dropWhile (\<lambda>c. c \<noteq> CHR '','') (dec n @ CHR '','' # s) = CHR '','' # s" using nc by (simp add: dropWhile_append2)
qed

lemma atoi_port: "n < 256 \<Longrightarrow> word_of_int (c_atoi (dec n)) = (word_of_nat n :: u8)"
  by (simp add: atoi_dec)

lemma parse_hops_text:
  assumes "list_all (\<lambda>x. x < 256) ps" and "ps \<noteq> []" and "k \<le> length p"
  shows "parse_hops p (int k - 1) (route_text ps) =
    (if k + length ps \<le> length p
     then Some (take k p @ map word_of_nat ps @ drop (k + length ps) p, int k + int (length ps) - 1) else None)"
  using assms
proof (induction ps arbitrary: p k rule: route_text.induct)
  case (2 x)
  then show ?case
    by (subst parse_hops.simps)
       (auto simp: dec_nonempty comma_split mem_wr_def atoi_port upd_conv_take_nth_drop Let_def)
next
  case (3 x y ps)
  let ?v = "word_of_nat x :: u8"
  have ne: "dec x @ '','' @ route_text (y # ps) \<noteq> []" by simp
  show ?case
  proof (cases "k < length p")
    case False
    then show ?thesis
      by (subst parse_hops.simps) (simp add: comma_split mem_wr_def Let_def)
  next
    case True
    then have step: "parse_hops p (int k - 1) (route_text (x # y # ps)) =
        parse_hops (p[k := ?v]) (int (Suc k) - 1) (route_text (y # ps))"
      using "3.prems"(1) by (subst parse_hops.simps) (simp add: comma_split mem_wr_def atoi_port Let_def)
    have "parse_hops (p[k := ?v]) (int (Suc k) - 1) (route_text (y # ps)) =
      (if Suc k + length (y # ps) \<le> length (p[k := ?v])
       then Some (take (Suc k) (p[k := ?v]) @ map word_of_nat (y # ps) @ drop (Suc k + length (y # ps)) (p[k := ?v]),
                  int (Suc k) + int (length (y # ps)) - 1) else None)"
      by (rule "3.IH") (use "3.prems" True in auto)
    then show ?thesis using step True by (auto simp: take_Suc_conv_app_nth)
  qed
qed simp

text \<open>
  C31. From the decimal port numbers of a route of 1 to 64 ports, separated by
  commas, \<open>str2drpath\<close> stores exactly those ports, sets \<open>cnt\<close> to the index of the last, and
  fills the LIDs in, with the permissive LID for 0.
\<close>
theorem str2drpath_reads:
  assumes "list_all (\<lambda>x. x < 256) ps" and "1 \<le> length ps" "length ps \<le> 64" and "length (hops path) = 64"
  shows "str2drpath True path (Some (route_text ps)) slid dlid = Some (int (length ps) - 1,
    path\<lparr>cnt := int (length ps) - 1, hops := map word_of_nat ps @ drop (length ps) (hops path),
      drdlid := (if dlid \<noteq> 0 then word_of_int dlid else 0xffff),
      drslid := (if slid \<noteq> 0 then word_of_int slid else 0xffff)\<rparr>)"
proof -
  have "ps \<noteq> []" using assms(2) by auto
  from parse_hops_text [OF assms(1) this, of 0 "hops path"] assms(3,4) show ?thesis
    by (simp add: str2drpath_def)
qed

lemma digit_chars: "digit_char 0 = CHR ''0''" "digit_char (Suc 0) = CHR ''1''" "digit_char 4 = CHR ''4''"
  by (simp_all add: digit_char_def char_of_eq_iff)

theorem str2drpath_reads_witness:
  "str2drpath True dr_path_zero (Some ''0,1,14'') 0 0 =
     Some (2, dr_path_zero\<lparr>cnt := 2, hops := [0, 1, 14] @ replicate 61 0, drdlid := 0xffff, drslid := 0xffff\<rparr>)"
proof -
  have "route_text [0, 1, 14] = ''0,1,14''"
    by (simp add: dec.simps [of 0] dec.simps [of "Suc 0"] dec.simps [of 14] digit_chars)
  then show ?thesis
    using str2drpath_reads [of "[0, 1, 14]" dr_path_zero 0 0] by (simp add: dr_path_zero_def)
qed

text \<open>
  C36. \<open>str2drpath\<close> does not bound the number of ports: a list of more than 64
  makes it write past the end of the array.
\<close>
theorem str2drpath_overflow:
  assumes "list_all (\<lambda>x. x < 256) ps" and "64 < length ps" and "length (hops path) = 64"
  shows "str2drpath True path (Some (route_text ps)) slid dlid = None"
proof -
  have "ps \<noteq> []" using assms(2) by auto
  from parse_hops_text [OF assms(1) this, of 0 "hops path"] assms(2,3) show ?thesis
    by (simp add: str2drpath_def)
qed

theorem str2drpath_overflow_witness:
  "str2drpath True dr_path_zero (Some (route_text (replicate 65 1))) 0 0 = None"
  by (rule str2drpath_overflow) (simp_all add: dr_path_zero_def list_all_iff)

section \<open>Printing\<close>

definition hop_text :: "u8 list \<Rightarrow> nat list \<Rightarrow> string" where
  "hop_text p is = concat (map (\<lambda>i. '','' @ dec (unat (p ! i))) is)"

lemma print_hops_text:
  assumes "holds buf off s" and "length s < sz" and "off + sz \<le> length buf" and "list_all (\<lambda>i. i < length p) is"
  shows "\<exists>buf'. print_hops p buf off sz is (length s) = Some buf' \<and> holds buf' off (take (sz - 1) (s @ hop_text p is)) \<and>
    within off sz buf buf'"
  using assms
proof (induction "is" arbitrary: buf s)
  case Nil
  then show ?case by (simp add: hop_text_def within_refl)
next
  case (Cons i "is")
  let ?t = "'','' @ dec (unat (p ! i))"
  obtain b where b: "c_snprintf buf (off + length s) (sz - length s) ?t = Some b" "holds b off (take (sz - 1) (s @ ?t))"
      "within off sz buf b"
    using snprintf_append [OF holds_prefix [OF Cons.prems(1)] Cons.prems(2,3)] by blast
  have rd: "mem_rd p i = Some (p ! i)" using Cons.prems(4) by (simp add: mem_rd_def)
  show ?case
  proof (cases "sz \<le> length (s @ ?t)")
    case True
    then have "sz - 1 - length (s @ ?t) = 0" by simp
    then have "take (sz - 1) ((s @ ?t) @ hop_text p is) = take (sz - 1) (s @ ?t)"
      unfolding take_append [of _ "s @ ?t"] by simp
    moreover have "(s @ ?t) @ hop_text p is = s @ hop_text p (i # is)" by (simp add: hop_text_def)
    ultimately have "take (sz - 1) (s @ hop_text p (i # is)) = take (sz - 1) (s @ ?t)" by simp
    then show ?thesis using b rd True by (auto simp: Let_def)
  next
    case False
    then have full: "holds b off (s @ ?t)" using b(2) by simp
    have "\<exists>buf'. print_hops p b off sz is (length (s @ ?t)) = Some buf' \<and>
        holds buf' off (take (sz - 1) ((s @ ?t) @ hop_text p is)) \<and> within off sz b buf'"
      by (rule Cons.IH [OF full]) (use False Cons.prems b in \<open>auto simp: within_length\<close>)
    then show ?thesis using b rd False by (auto simp: Let_def hop_text_def add.assoc intro: within_trans)
  qed
qed

text \<open>
  Property. \<open>drpath2str\<close> writes only to the \<open>sz\<close> characters it is given, and
  leaves there the whole text of the route if it fits and the longest terminated prefix otherwise.
\<close>
theorem drpath2str_bounded:
  assumes "0 < sz" and "off + sz \<le> length buf" and "cnt path < 64" and "length (hops path) = 64"
  shows "\<exists>buf'. drpath2str path buf off sz = Some buf' \<and> within off sz buf buf' \<and>
    holds buf' off (take (sz - 1) (route_head path (hops path ! 0) @ hop_text (hops path) [1..<Suc (nat (cnt path))]))"
proof -
  let ?h = "route_head path (hops path ! 0)" and ?is = "[1..<Suc (nat (cnt path))]"
  obtain b where b: "c_snprintf buf off sz ?h = Some b" "holds b off (take (sz - 1) ?h)" "within off sz buf b"
    using snprintf_append [of "[]" off buf sz ?h] assms(1,2) by auto
  have rd: "mem_rd (hops path) 0 = Some (hops path ! 0)" using assms(4) by (simp add: mem_rd_def)
  show ?thesis
  proof (cases "sz \<le> length ?h")
    case True
    then show ?thesis using b rd by (simp add: drpath2str_def Let_def)
  next
    case False
    then have "holds b off ?h" using b(2) by simp
    moreover have "list_all (\<lambda>i. i < length (hops path)) ?is" using assms(3,4) by (auto simp: list_all_iff)
    ultimately show ?thesis
      using print_hops_text [of b off ?h sz "hops path" ?is] False b rd assms(2)
      by (auto simp: drpath2str_def Let_def within_length simp del: upt_Suc intro: within_trans)
  qed
qed

theorem drpath2str_bounded_witness:
  "\<exists>buf'. drpath2str (dr_path_zero\<lparr>cnt := 1, hops := [0, 4] @ replicate 62 0\<rparr>) (replicate 16 NUL) 4 8 = Some buf' \<and>
     holds buf' 4 ''slid 0;''"
proof -
  have "take 7 (route_head (dr_path_zero\<lparr>cnt := 1, hops := [0, 4] @ replicate 62 0\<rparr>) 0 @ x) = ''slid 0;''" for x
    by (simp add: route_head_def dr_path_zero_def dec.simps [of 0] digit_chars)
  then show ?thesis
    using drpath2str_bounded [of 8 4 "replicate 16 NUL" "dr_path_zero\<lparr>cnt := 1, hops := [0, 4] @ replicate 62 0\<rparr>"]
    by auto
qed

end
