(* ===== verification/MadResolve.thy ===== *)
theory MadResolve
  imports MadClientsCorrect PortId
begin

text \<open>
  Address resolution (\<open>libibmad/src/resolve.c\<close>): the subnet manager's LID, a LID from a GID or
  GUID, the local port, and an address given as text. \<open>junk\<close> is the content of the uninitialised
  local buffers, which the queries send and then overwrite.

  The service level is decoded with \<open>mad_decode_field(..., &portid->sl)\<close>, which stores four
  native bytes at a \<open>uint8_t\<close>: the first of them is the new \<open>sl\<close>, the others go to the
  padding behind it.
\<close>

section \<open>Decoding into C variables\<close>

definition decode_int :: "endian \<Rightarrow> mem \<Rightarrow> nat \<Rightarrow> int option" where
  \<comment> \<open>\<open>mad_decode_field(buf, field, &i)\<close> for an \<open>int i\<close>\<close>
  "decode_int e buf field =
     map_option (\<lambda>bs. int_of_u32 (native_word e bs)) (mad_decode_field e buf field (replicate 4 0))"

definition decode_u64 :: "endian \<Rightarrow> mem \<Rightarrow> nat \<Rightarrow> u64 option" where
  "decode_u64 e buf field = map_option (native_word e) (mad_decode_field e buf field (replicate 8 0))"

definition decode_sl :: "endian \<Rightarrow> mem \<Rightarrow> nat \<Rightarrow> u8 \<Rightarrow> u8 option" where
  \<comment> \<open>\<open>mad_decode_field(buf, field, &portid->sl)\<close>: the \<open>sl\<close> byte and the padding behind it\<close>
  "decode_sl e buf field sl = map_option hd (mad_decode_field e buf field [sl, 0, 0, 0])"

section \<open>Resolving\<close>

definition ib_resolve_smlid_via :: "endian \<Rightarrow> mem \<Rightarrow> mad_state \<Rightarrow> ibmad_port \<Rightarrow>
    (int \<times> ib_portid_t \<times> mad_state) option" where
  "ib_resolve_smlid_via e junk st srcport = do {
     let sm_id = portid_zero;
     (ok, portinfo, self, st) \<leftarrow> smp_query_via e st junk portid_zero IB_ATTR_PORT_INFO 0 0 srcport;
     if \<not> ok then Some (-1, sm_id, st)
     else do {
       lid \<leftarrow> decode_int e portinfo IB_PORT_SMLID_F;
       if \<not> IB_LID_VALID lid then Some (-1, sm_id, st\<lparr>ms_errno := ENXIO\<rparr>)
       else do {
         sl \<leftarrow> decode_sl e portinfo IB_PORT_SMSL_F (pt_sl sm_id);
         Some (0, ib_portid_set (sm_id\<lparr>pt_sl := sl\<rparr>) lid 0 0, st)
       }
     }
   }"

definition with_sm :: "endian \<Rightarrow> mem \<Rightarrow> mad_state \<Rightarrow> ibmad_port \<Rightarrow> ib_portid_t option \<Rightarrow>
    (bool \<times> ib_portid_t \<times> mad_state) option" where
  \<comment> \<open>\<open>if (!sm_id) sm_id = &sm_portid; if (!IB_LID_VALID(sm_id->lid)) ...\<close>: false for failure\<close>
  "with_sm e junk st srcport sm_id =
     (let sm = (case sm_id of None \<Rightarrow> portid_zero | Some s \<Rightarrow> s) in
      if IB_LID_VALID (pt_lid sm) then Some (True, sm, st)
      else map_option (\<lambda>(r, sm, st). (\<not> r < 0, sm, st)) (ib_resolve_smlid_via e junk st srcport))"

definition ib_resolve_gid_via :: "endian \<Rightarrow> mem \<Rightarrow> mad_state \<Rightarrow> ib_portid_t \<Rightarrow> u8 list \<Rightarrow> ib_portid_t option \<Rightarrow>
    ibmad_port \<Rightarrow> (int \<times> ib_portid_t \<times> ib_portid_t \<times> mad_state) option" where
  "ib_resolve_gid_via e junk st portid gid sm_id srcport = do {
     (ok, sm, st) \<leftarrow> with_sm e junk st srcport sm_id;
     if \<not> ok then Some (-1, portid, sm, st)
     else do {
       (lid, sm, _, st) \<leftarrow> ib_path_query_via e st srcport gid gid sm (replicate IB_SA_DATA_SIZE 0);
       Some (if lid < 0 then -1 else 0, portid\<lparr>pt_lid := lid\<rparr>, sm, st)
     }
   }"

definition ib_resolve_guid_via :: "endian \<Rightarrow> mem \<Rightarrow> mad_state \<Rightarrow> ib_portid_t \<Rightarrow> u64 option \<Rightarrow> ib_portid_t option \<Rightarrow>
    ibmad_port \<Rightarrow> (int \<times> ib_portid_t \<times> ib_portid_t \<times> mad_state) option" where
  "ib_resolve_guid_via e junk st portid guid sm_id srcport = do {
     (ok, sm, st) \<leftarrow> with_sm e junk st srcport sm_id;
     if \<not> ok then Some (-1, portid, sm, st)
     else do {
       (ok, nodeinfo, _, st) \<leftarrow> smp_query_via e st junk portid_zero IB_ATTR_NODE_INFO 0 0 srcport;
       if \<not> ok then Some (-1, portid, sm, st)
       else do {
         selfguid \<leftarrow> decode_u64 e nodeinfo IB_NODE_PORT_GUID_F;
         selfgid \<leftarrow> mad_set_field64 e (replicate 16 0) 0 IB_GID_PREFIX_F IB_DEFAULT_SUBN_PREFIX;
         selfgid \<leftarrow> mad_set_field64 e selfgid 0 IB_GID_GUID_F selfguid;
         prefix \<leftarrow> mem_load (pt_gid portid) 0 8;
         gid \<leftarrow> (if native_word e prefix = (0 :: u64)
                then mad_set_field64 e (pt_gid portid) 0 IB_GID_PREFIX_F IB_DEFAULT_SUBN_PREFIX
                else Some (pt_gid portid));
         gid \<leftarrow> (case guid of None \<Rightarrow> Some gid | Some g \<Rightarrow> mad_set_field64 e gid 0 IB_GID_GUID_F g);
         (lid, sm, buf, st) \<leftarrow> ib_path_query_via e st srcport selfgid gid sm (replicate IB_SA_DATA_SIZE 0);
         let portid = portid\<lparr>pt_gid := gid, pt_lid := lid\<rparr>;
         if lid < 0 then Some (-1, portid, sm, st)
         else do {
           sl \<leftarrow> decode_sl e buf IB_SA_PR_SL_F (pt_sl portid);
           Some (0, portid\<lparr>pt_sl := sl\<rparr>, sm, st)
         }
       }
     }
   }"

definition ib_resolve_self_via :: "endian \<Rightarrow> mem \<Rightarrow> mad_state \<Rightarrow> ib_portid_t \<Rightarrow> u8 list option \<Rightarrow> ibmad_port \<Rightarrow>
    (int \<times> ib_portid_t \<times> int \<times> u8 list option \<times> mad_state) option" where
  \<comment> \<open>the third component is what is stored at \<open>portnum\<close> unless that is \<open>NULL\<close>\<close>
  "ib_resolve_self_via e junk st portid gid srcport = do {
     (ok, nodeinfo, self, st) \<leftarrow> smp_query_via e st junk portid_zero IB_ATTR_NODE_INFO 0 0 srcport;
     if \<not> ok then Some (-1, portid, 0, gid, st)
     else do {
       (ok, portinfo, self, st) \<leftarrow> smp_query_via e st junk self IB_ATTR_PORT_INFO 0 0 srcport;
       if \<not> ok then Some (-1, portid, 0, gid, st)
       else do {
         lid \<leftarrow> decode_int e portinfo IB_PORT_LID_F;
         sl \<leftarrow> decode_sl e portinfo IB_PORT_SMSL_F (pt_sl portid);
         prefix \<leftarrow> decode_u64 e portinfo IB_PORT_GID_PREFIX_F;
         guid \<leftarrow> decode_u64 e nodeinfo IB_NODE_PORT_GUID_F;
         portnum \<leftarrow> decode_int e nodeinfo IB_NODE_LOCAL_PORT_F;
         gid \<leftarrow> (case gid of None \<Rightarrow> Some None
            | Some g \<Rightarrow> do {
                g \<leftarrow> mad_encode_field e g IB_GID_PREFIX_F (native_bytes e 8 prefix);
                g \<leftarrow> mad_encode_field e g IB_GID_GUID_F (native_bytes e 8 guid);
                Some (Some g) });
         Some (0, portid\<lparr>pt_lid := lid, pt_sl := sl\<rparr>, portnum, gid, st)
       }
     }
   }"

section \<open>An address given as text\<close>

datatype MAD_DEST = IB_DEST_LID | IB_DEST_DRPATH | IB_DEST_GUID | IB_DEST_DRSLID | IB_DEST_GID | IB_DEST_other

definition to_int :: "int \<Rightarrow> int" where
  \<comment> \<open>conversion of a \<open>long\<close> to \<open>int\<close>\<close>
  "to_int v = int_of_u32 (word_of_int v)"

text \<open>
  \<open>inet_pton\<close> is represented by the GID it yields, if any. After \<open>strtol\<close> the code steps over one
  character; when the end of the string has been reached, that leaves a pointer past the
  terminator, and reading there is a fault.
\<close>

definition ib_resolve_portid_str_via :: "endian \<Rightarrow> mem \<Rightarrow> (string \<Rightarrow> u8 list option) \<Rightarrow> mad_state \<Rightarrow> string \<Rightarrow>
    MAD_DEST \<Rightarrow> ib_portid_t option \<Rightarrow> ibmad_port \<Rightarrow> (int \<times> ib_portid_t \<times> mad_state) option" where
  "ib_resolve_portid_str_via e junk inet_pton st addr_str dest_type sm_id srcport =
     (let portid = portid_zero; inval = st\<lparr>ms_errno := EINVAL\<rparr> in
      case dest_type of
        IB_DEST_LID \<Rightarrow>
          (let lid = to_int (fst (c_strtol 0 addr_str)) in
           if \<not> IB_LID_VALID lid then Some (-1, portid, inval)
           else Some (0, ib_portid_set portid lid 0 0, st))
      | IB_DEST_DRPATH \<Rightarrow> do {
          (r, path) \<leftarrow> str2drpath True (pt_drpath portid) (Some addr_str) 0 0;
          let portid = portid\<lparr>pt_drpath := path\<rparr>;
          Some (if r < 0 then (-1, portid, inval) else (0, portid, st)) }
      | IB_DEST_GUID \<Rightarrow>
          (let guid = fst (c_strtoull 0 addr_str) in
           if guid = 0 then Some (-1, portid, inval)
           else map_option (\<lambda>(r, portid, _, st). (r, portid, st))
                  (ib_resolve_guid_via e junk st portid (Some guid) sm_id srcport))
      | IB_DEST_DRSLID \<Rightarrow>
          (let (v, rest) = c_strtol 0 addr_str; lid = to_int v in
           if \<not> IB_LID_VALID lid then Some (-1, portid, inval)
           else do {
             let portid = ib_portid_set portid lid 0 0;
             (r, selfportid, _, _, st) \<leftarrow> ib_resolve_self_via e junk st portid_zero None srcport;
             if r < 0 then Some (-1, portid, st)
             else do {
               routepath \<leftarrow> (if rest = [] then None else Some (tl rest));
               (r, path) \<leftarrow> str2drpath True (pt_drpath portid) (Some routepath) (pt_lid selfportid) 0;
               let portid = portid\<lparr>pt_drpath := path\<rparr>;
               Some (if r < 0 then (-1, portid, st\<lparr>ms_errno := EINVAL\<rparr>) else (0, portid, st))
             }
           })
      | IB_DEST_GID \<Rightarrow>
          (case inet_pton addr_str of None \<Rightarrow> Some (-1, portid, st)
           | Some gid \<Rightarrow> map_option (\<lambda>(r, portid, _, st). (r, portid, st))
                           (ib_resolve_gid_via e junk st portid gid sm_id srcport))
      | IB_DEST_other \<Rightarrow> Some (-1, portid, inval))"

end
