(* ===== verification/MadResolveCorrect.thy ===== *)
theory MadResolveCorrect
  imports MadResolve
begin

text \<open>
  What resolution yields: the LID and service level of the subnet manager are those of the local
  \<open>PortInfo\<close>, with the exception that the service level is lost on a big-endian host; an
  address given as a decimal LID; a directed route behind a LID that is not there.
\<close>

section \<open>Decoding\<close>

lemma mem_store_all: "length xs = length p \<Longrightarrow> mem_store p 0 xs = Some xs"
  by (simp add: mem_store_def)

lemma decode_small:
  assumes "field_desc n = Some f" and "0 < bitlen f" "bitlen f \<le> 32" and "n \<noteq> 0" and "length val = 4"
  shows "mad_decode_field e buf n val = map_option (native_bytes e 4) (mad_get_field buf 0 n)"
  using assms
  by (cases "get_field buf 0 f") (simp_all add: mad_decode_field_def mad_get_field_def mem_store_all)

lemma decode_int_field:
  assumes "field_desc n = Some f" and "0 < bitlen f" "bitlen f \<le> 32" and "n \<noteq> 0"
  shows "decode_int e buf n = map_option sint (mad_get_field buf 0 n)"
  by (cases "mad_get_field buf 0 n")
     (simp_all add: decode_int_def decode_small [OF assms] int_of_u32_def native_word32_inverse)

lemma hd_native_bytes: "hd (native_bytes e 4 w) = (case e of LE \<Rightarrow> byte_of 0 w | BE \<Rightarrow> byte_of 3 w)"
proof -
  have "native_bytes e 4 w \<noteq> []" by (metis length_native_bytes list.size(3) zero_neq_numeral)
  then have "hd (native_bytes e 4 w) = native_bytes e 4 w ! 0" by (simp add: hd_conv_nth)
  then show ?thesis by (cases e) (simp_all add: nth_native_bytes)
qed

lemma byte_of_0: "byte_of 0 (w :: u32) = ucast w"
  by (rule bit_word_eqI) (simp add: bit_byte_of bit_simps)

lemma byte_of_3: "unat w < 256 \<Longrightarrow> byte_of 3 (w :: u32) = 0"
proof -
  assume "unat w < 256"
  then have "drop_bit 24 w = 0"
    by (intro word_unat_eq_iff [THEN iffD2]) (simp only: unat_drop_bit_eq, simp add: drop_bit_eq_div)
  then show ?thesis by (simp add: byte_of_def)
qed

lemma smsl_small:
  assumes "mad_get_field buf 0 IB_PORT_SMSL_F = Some w"
  shows "unat w < 256"
proof -
  obtain b where "w = ucast (b :: u8) AND c_ones 4"
    using assms
    by (auto simp: mad_get_field_def field_descs get_field_def Let_def bytelen_def prebits_def
        Option.bind_eq_Some_conv split: if_splits)
  then have "unat w = take_bit 4 (unat b)"
    by (simp add: c_ones_mask take_bit_eq_mask [symmetric] unsigned_take_bit_eq unsigned_ucast_eq take_bit_take_bit)
  then have "unat w < 16" by (simp add: take_bit_eq_mod)
  then show ?thesis by simp
qed

lemma decode_sl_field:
  "decode_sl e buf IB_PORT_SMSL_F sl =
     map_option (\<lambda>w. case e of LE \<Rightarrow> ucast w | BE \<Rightarrow> 0) (mad_get_field buf 0 IB_PORT_SMSL_F)"
proof -
  have nz: "IB_PORT_SMSL_F \<noteq> 0" by (simp add: c_eval)
  have d: "mad_decode_field e buf IB_PORT_SMSL_F [sl, 0, 0, 0] =
      map_option (native_bytes e 4) (mad_get_field buf 0 IB_PORT_SMSL_F)"
    by (rule decode_small [OF fd_IB_PORT_SMSL_F _ _ nz]) simp_all
  show ?thesis
    unfolding decode_sl_def d
    by (cases "mad_get_field buf 0 IB_PORT_SMSL_F"; cases e)
       (simp_all add: hd_native_bytes byte_of_0 byte_of_3 smsl_small)
qed


section \<open>The subnet manager\<close>

text \<open>
  C35. \<open>ib_resolve_smlid_via\<close> succeeds only with a \<open>PortInfo\<close> of
  the local port whose SM LID is a unicast LID; the address it returns has that LID and no QP. Its
  service level is the one of the \<open>PortInfo\<close> on a little-endian host and 0, whatever the
  \<open>PortInfo\<close> says, on a big-endian host: \<open>mad_decode_field\<close> stores an \<open>int\<close> where the
  code has a \<open>uint8_t\<close>.
\<close>
theorem resolve_smlid_result:
  assumes "ib_resolve_smlid_via e junk st srcport = Some (r, sm, st')"
  shows "if r = 0
    then \<exists>info self lid sl. smp_query_via e st junk portid_zero IB_ATTR_PORT_INFO 0 0 srcport = Some (True, info, self, st') \<and>
      mad_get_field info 0 IB_PORT_SMLID_F = Some lid \<and> mad_get_field info 0 IB_PORT_SMSL_F = Some sl \<and>
      0 < sint lid \<and> sint lid \<le> 0xbfff \<and>
      sm = portid_zero\<lparr>pt_lid := sint lid, pt_sl := (case e of LE \<Rightarrow> ucast sl | BE \<Rightarrow> 0)\<rparr>
    else r = -1 \<and> sm = portid_zero"
proof -
  have nz: "IB_PORT_SMLID_F \<noteq> 0" by (simp add: c_eval)
  note lid = decode_int_field [OF fd_IB_PORT_SMLID_F _ _ nz, simplified]
  show ?thesis
    using assms
    by (auto simp: ib_resolve_smlid_via_def Let_def lid decode_sl_field Option.bind_eq_Some_conv ib_portid_set_def
        IB_LID_VALID_def portid_zero_def IB_MIN_UCAST_LID_def IB_MAX_UCAST_LID_def split: if_splits)
qed

definition example_portinfo :: mem where
  \<comment> \<open>the answer to transaction 42: a \<open>PortInfo\<close> with SM LID 7 and SM service level 3\<close>
  "example_portinfo = replicate 15 0 @ [42] @ replicate 67 0 @ [7] @ replicate 16 0 @ [3] @ replicate 155 0"

definition example_portinfo_state :: mad_state where
  "example_portinfo_state = example_smp_state\<lparr>ms_rx := [RecvMad 0 256 example_portinfo]\<rparr>"

lemma example_portinfo_query:
  "\<exists>st'. smp_query_via BE example_portinfo_state (replicate 64 0) portid_zero IB_ATTR_PORT_INFO 0 0 example_port =
     Some (True, take 64 (drop 64 example_portinfo), smp_dest portid_zero, st')"
proof -
  have t: "tid32 BE example_portinfo = Some (ucast (fst (mad_trid (ms_g example_portinfo_state))))"
    by (simp add: tid32_def mad_get_field64_def field_descs get_field64_def mem_load_def example_portinfo_def
        native_word_def ntohll_def htonll_def le_word_zeros mad_trid_def example_portinfo_state_def
        example_smp_state_def example_state_def example_globals_def)
  have f: "mad_get_field example_portinfo 0 IB_DRSMP_STATUS_F = Some 0"
    by (simp add: eval_field example_portinfo_def nth_append)
  have g: "0 < mad_get_retries (ms_g example_portinfo_state) example_port" "ms_save example_portinfo_state = None"
    "ms_tx example_portinfo_state = None # []" "ms_rx example_portinfo_state = RecvMad 0 256 example_portinfo # []"
    using example_smp_run(4,5,10) by (simp_all add: example_portinfo_state_def)
  have l: "length example_portinfo = 256" by (simp add: example_portinfo_def)
  have b: "length (replicate 64 0 :: mem) = 64" by simp
  from smp_query_answer [OF b example_smp_run(2,3) g(1,2) t l f example_smp_run(9) g(3,4), of IB_ATTR_PORT_INFO 0 0]
  show ?thesis by (auto simp: smp_query_via_def)
qed

theorem resolve_smlid_result_witness:
  "\<exists>st' sm. ib_resolve_smlid_via BE (replicate 64 0) example_portinfo_state example_port = Some (0, sm, st') \<and>
     pt_lid sm = 7 \<and> pt_sl sm = 0 \<and> mad_get_field (take 64 (drop 64 example_portinfo)) 0 IB_PORT_SMSL_F = Some 3"
proof -
  let ?info = "take 64 (drop 64 example_portinfo)"
  obtain st' where q: "smp_query_via BE example_portinfo_state (replicate 64 0) portid_zero IB_ATTR_PORT_INFO 0 0 example_port =
      Some (True, ?info, smp_dest portid_zero, st')"
    using example_portinfo_query by blast
  have f: "mad_get_field ?info 0 IB_PORT_SMLID_F = Some 7" "mad_get_field ?info 0 IB_PORT_SMSL_F = Some 3"
    by (simp_all add: eval_field example_portinfo_def nth_append c_ones_def)
  have nz: "IB_PORT_SMLID_F \<noteq> 0" by (simp add: c_eval)
  note lid = decode_int_field [OF fd_IB_PORT_SMLID_F _ _ nz, simplified]
  obtain sm where run: "ib_resolve_smlid_via BE (replicate 64 0) example_portinfo_state example_port = Some (0, sm, st')"
    using q f by (simp add: ib_resolve_smlid_via_def lid decode_sl_field IB_LID_VALID_def IB_MIN_UCAST_LID_def
        IB_MAX_UCAST_LID_def)
  from resolve_smlid_result [OF run] q f run show ?thesis by (auto simp: portid_zero_def)
qed

section \<open>Addresses given as text\<close>

lemma strtol_dec: "n < 2 ^ 31 \<Longrightarrow> fst (c_strtol 0 (dec n)) = int n"
  by (simp add: c_strtol_def scan_dec_auto)

text \<open>
  Property. A decimal LID is resolved without any packet: the unicast LIDs give the
  address with that LID, every other number gives \<open>EINVAL\<close>.
\<close>
theorem resolve_lid_text:
  assumes "n < 2 ^ 31"
  shows "ib_resolve_portid_str_via e junk inet_pton st (dec n) IB_DEST_LID sm_id srcport =
    Some (if 0 < n \<and> n \<le> 0xbfff then (0, portid_zero\<lparr>pt_lid := int n\<rparr>, st)
          else (-1, portid_zero, st\<lparr>ms_errno := EINVAL\<rparr>))"
proof -
  have "to_int (int n) = int n"
    using assms by (simp add: to_int_def int_of_u32_def signed_of_nat signed_take_bit_int_eq_self)
  then show ?thesis
    using strtol_dec [OF assms]
    by (simp add: ib_resolve_portid_str_via_def IB_LID_VALID_def IB_MIN_UCAST_LID_def IB_MAX_UCAST_LID_def
        ib_portid_set_def portid_zero_def Let_def)
qed

theorem resolve_lid_text_witness:
  "ib_resolve_portid_str_via LE [] (\<lambda>_. None) example_smp_state ''49152'' IB_DEST_LID None example_port =
     Some (-1, portid_zero, example_smp_state\<lparr>ms_errno := EINVAL\<rparr>)"
proof -
  have "dec 49152 = ''49152''" by (simp add: dec.simps digit_char_def char_of_def bit_0)
  then show ?thesis using resolve_lid_text [of 49152] by simp
qed

end
