(* ===== verification/MadDump.thy ===== *)
theory MadDump
  imports FieldCorrect CString
begin

text \<open>
  Rendering of attributes as text (\<open>libibmad/src/dump.c\<close> and the printing entry points of
  \<open>fields.c\<close>). A dump function writes into a character buffer: \<open>buf\<close> is the whole object, \<open>off\<close>
  the position of the C pointer in it and \<open>bufsz\<close> the size the function is told. A write outside
  the object is \<open>None\<close>; so is the use of a value that is shorter than what is read. The functions that
  call \<open>sprintf\<close> do not look at \<open>bufsz\<close>. Warnings on \<open>stderr\<close> are left out.
\<close>

type_synonym dumper = "endian \<Rightarrow> cbuf \<Rightarrow> nat \<Rightarrow> int \<Rightarrow> mem \<Rightarrow> int \<Rightarrow> cbuf option"

section \<open>What the functions share\<close>

definition snp :: "cbuf \<Rightarrow> nat \<Rightarrow> int \<Rightarrow> string \<Rightarrow> cbuf option" where
  \<comment> \<open>\<open>snprintf(buf, sz, ...)\<close>: the \<open>int\<close> size becomes a \<open>size_t\<close>\<close>
  "snp buf off sz s = c_snprintf buf off (size_of_int sz) s"

definition c_sprintf :: "cbuf \<Rightarrow> nat \<Rightarrow> string \<Rightarrow> cbuf option" where
  "c_sprintf buf off s = mem_store buf off (s @ [NUL])"

definition put_char :: "cbuf \<Rightarrow> int \<Rightarrow> char \<Rightarrow> cbuf option" where
  \<comment> \<open>\<open>buf[i] = c\<close>\<close>
  "put_char buf i c = (if i < 0 then None else mem_wr buf (nat i) c)"

definition val_u32 :: "endian \<Rightarrow> mem \<Rightarrow> u32 option" where
  \<comment> \<open>\<open>*(uint32_t *) val\<close>\<close>
  "val_u32 e val = map_option (native_word e) (mem_load val 0 4)"

definition val_u64 :: "endian \<Rightarrow> mem \<Rightarrow> u64 option" where
  "val_u64 e val = map_option (native_word e) (mem_load val 0 8)"

definition val_int :: "endian \<Rightarrow> mem \<Rightarrow> int option" where
  \<comment> \<open>\<open>*(int *) val\<close>\<close>
  "val_int e val = map_option int_of_u32 (val_u32 e val)"

definition hex_digit :: "bool \<Rightarrow> nat \<Rightarrow> char" where
  \<comment> \<open>upper or lower case\<close>
  "hex_digit up d = char_of (if d < 10 then 48 + d else if up then 55 + d else 87 + d)"

fun hex :: "bool \<Rightarrow> nat \<Rightarrow> string" where
  \<comment> \<open>\<open>%x\<close>, \<open>%X\<close>\<close>
  "hex up n = (if n < 16 then [hex_digit up n] else hex up (n div 16) @ [hex_digit up (n mod 16)])"

declare hex.simps [simp del]

definition pad0 :: "nat \<Rightarrow> string \<Rightarrow> string" where
  \<comment> \<open>a field width with the flag 0\<close>
  "pad0 w s = replicate (w - length s) CHR ''0'' @ s"

section \<open>Numbers\<close>

definition mad_dump_int :: dumper where
  "mad_dump_int e buf off bufsz val valsz =
     (if valsz = 1 then do { v \<leftarrow> val_u32 e val; snp buf off bufsz (dec (unat (v AND 0xff))) }
      else if valsz = 2 then do { v \<leftarrow> val_u32 e val; snp buf off bufsz (dec (unat (v AND 0xffff))) }
      else if valsz = 3 \<or> valsz = 4 then do { v \<leftarrow> val_u32 e val; snp buf off bufsz (dec_int (int_of_u32 v)) }
      else if 5 \<le> valsz \<and> valsz \<le> 8 then do { v \<leftarrow> val_u64 e val; snp buf off bufsz (dec (unat v)) }
      else put_char buf (int off) NUL)"

definition mad_dump_uint :: dumper where
  "mad_dump_uint e buf off bufsz val valsz =
     (if valsz = 1 then do { v \<leftarrow> val_u32 e val; snp buf off bufsz (dec (unat (v AND 0xff))) }
      else if valsz = 2 then do { v \<leftarrow> val_u32 e val; snp buf off bufsz (dec (unat (v AND 0xffff))) }
      else if valsz = 3 \<or> valsz = 4 then do { v \<leftarrow> val_u32 e val; snp buf off bufsz (dec (unat v)) }
      else if 5 \<le> valsz \<and> valsz \<le> 8 then do { v \<leftarrow> val_u64 e val; snp buf off bufsz (dec (unat v)) }
      else put_char buf (int off) NUL)"

definition hex_value :: "endian \<Rightarrow> mem \<Rightarrow> int \<Rightarrow> nat option" where
  \<comment> \<open>the argument of the hexadecimal conversions, masked to the size\<close>
  "hex_value e val valsz =
     (if valsz = 1 then map_option (\<lambda>v. unat (v AND 0xff)) (val_u32 e val)
      else if valsz = 2 then map_option (\<lambda>v. unat (v AND 0xffff)) (val_u32 e val)
      else if valsz = 3 then map_option (\<lambda>v. unat (v AND 0xffffff)) (val_u32 e val)
      else if valsz = 4 then map_option unat (val_u32 e val)
      else if valsz = 5 then map_option (\<lambda>v. unat (v AND 0xffffffffff)) (val_u64 e val)
      else if valsz = 6 then map_option (\<lambda>v. unat (v AND 0xffffffffffff)) (val_u64 e val)
      else if valsz = 7 then map_option (\<lambda>v. unat (v AND 0xffffffffffffff)) (val_u64 e val)
      else map_option unat (val_u64 e val))"

definition mad_dump_hex :: dumper where
  "mad_dump_hex e buf off bufsz val valsz =
     (if 1 \<le> valsz \<and> valsz \<le> 8
      then do { v \<leftarrow> hex_value e val valsz; snp buf off bufsz (''0x'' @ pad0 (nat (2 * valsz)) (hex False v)) }
      else put_char buf (int off) NUL)"

definition mad_dump_rhex :: dumper where
  "mad_dump_rhex e buf off bufsz val valsz =
     (if 1 \<le> valsz \<and> valsz \<le> 8
      then do { v \<leftarrow> hex_value e val valsz; snp buf off bufsz (pad0 (nat (2 * valsz)) (hex False v)) }
      else put_char buf (int off) NUL)"

definition mad_dump_bitfield :: dumper where
  "mad_dump_bitfield e buf off bufsz val valsz = do {
     v \<leftarrow> val_u32 e val;
     snp buf off bufsz (''0x'' @ hex False (unat v))
   }"

section \<open>Enumerations\<close>

definition linkwidth_text :: "int \<Rightarrow> string" where
  "linkwidth_text width = (
     if width = 1 then ''1X'' else
     if width = 2 then ''4X'' else
     if width = 4 then ''8X'' else
     if width = 8 then ''12X'' else
     if width = 16 then ''2X'' else
     ''undefined ('' @ dec_int width @ '')'')"

definition mad_dump_linkwidth :: dumper where
  "mad_dump_linkwidth e buf off bufsz val valsz = do {
     width \<leftarrow> val_int e val;
     snp buf off bufsz (linkwidth_text width)
   }"

definition linkspeed_text :: "int \<Rightarrow> string" where
  "linkspeed_text speed = (
     if speed = 0 then ''Extended speed'' else
     if speed = 1 then ''2.5 Gbps'' else
     if speed = 2 then ''5.0 Gbps'' else
     if speed = 4 then ''10.0 Gbps'' else
     ''undefined ('' @ dec_int speed @ '')'')"

definition mad_dump_linkspeed :: dumper where
  "mad_dump_linkspeed e buf off bufsz val valsz = do {
     speed \<leftarrow> val_int e val;
     snp buf off bufsz (linkspeed_text speed)
   }"

definition linkspeedext_text :: "int \<Rightarrow> string" where
  "linkspeedext_text speed = (
     if speed = 0 then ''No Extended Speed'' else
     if speed = 1 then ''14.0625 Gbps'' else
     if speed = 2 then ''25.78125 Gbps'' else
     if speed = 4 then ''53.125 Gbps'' else
     ''undefined ('' @ dec_int speed @ '')'')"

definition mad_dump_linkspeedext :: dumper where
  "mad_dump_linkspeedext e buf off bufsz val valsz = do {
     speed \<leftarrow> val_int e val;
     snp buf off bufsz (linkspeedext_text speed)
   }"

definition portstate_text :: "int \<Rightarrow> string" where
  "portstate_text state = (
     if state = 0 then ''NoChange'' else
     if state = 1 then ''Down'' else
     if state = 2 then ''Initialize'' else
     if state = 3 then ''Armed'' else
     if state = 4 then ''Active'' else
     ''?('' @ dec_int state @ '')'')"

definition mad_dump_portstate :: dumper where
  "mad_dump_portstate e buf off bufsz val valsz = do {
     state \<leftarrow> val_int e val;
     snp buf off bufsz (portstate_text state)
   }"

definition linkdowndefstate_text :: "int \<Rightarrow> string" where
  "linkdowndefstate_text state = (
     if state = 0 then ''NoChange'' else
     if state = 1 then ''Sleep'' else
     if state = 2 then ''Polling'' else
     ''?('' @ dec_int state @ '')'')"

definition mad_dump_linkdowndefstate :: dumper where
  "mad_dump_linkdowndefstate e buf off bufsz val valsz = do {
     state \<leftarrow> val_int e val;
     snp buf off bufsz (linkdowndefstate_text state)
   }"

definition physportstate_text :: "int \<Rightarrow> string" where
  "physportstate_text state = (
     if state = 0 then ''NoChange'' else
     if state = 1 then ''Sleep'' else
     if state = 2 then ''Polling'' else
     if state = 3 then ''Disabled'' else
     if state = 4 then ''PortConfigurationTraining'' else
     if state = 5 then ''LinkUp'' else
     if state = 6 then ''LinkErrorRecovery'' else
     if state = 7 then ''PhyTest'' else
     ''?('' @ dec_int state @ '')'')"

definition mad_dump_physportstate :: dumper where
  "mad_dump_physportstate e buf off bufsz val valsz = do {
     state \<leftarrow> val_int e val;
     snp buf off bufsz (physportstate_text state)
   }"

definition mtu_text :: "int \<Rightarrow> string" where
  "mtu_text mtu = (
     if mtu = 1 then ''256'' else
     if mtu = 2 then ''512'' else
     if mtu = 3 then ''1024'' else
     if mtu = 4 then ''2048'' else
     if mtu = 5 then ''4096'' else
     ''?('' @ dec_int mtu @ '')'')"

definition mad_dump_mtu :: dumper where
  "mad_dump_mtu e buf off bufsz val valsz = do {
     mtu \<leftarrow> val_int e val;
     snp buf off bufsz (mtu_text mtu)
   }"

definition vlcap_text :: "int \<Rightarrow> string" where
  "vlcap_text vlcap = (
     if vlcap = 1 then ''VL0'' else
     if vlcap = 2 then ''VL0-1'' else
     if vlcap = 3 then ''VL0-3'' else
     if vlcap = 4 then ''VL0-7'' else
     if vlcap = 5 then ''VL0-14'' else
     ''?('' @ dec_int vlcap @ '')'')"

definition mad_dump_vlcap :: dumper where
  "mad_dump_vlcap e buf off bufsz val valsz = do {
     vlcap \<leftarrow> val_int e val;
     snp buf off bufsz (vlcap_text vlcap)
   }"

definition opervls_text :: "int \<Rightarrow> string" where
  "opervls_text opervls = (
     if opervls = 0 then ''No change'' else
     if opervls = 1 then ''VL0'' else
     if opervls = 2 then ''VL0-1'' else
     if opervls = 3 then ''VL0-3'' else
     if opervls = 4 then ''VL0-7'' else
     if opervls = 5 then ''VL0-14'' else
     ''?('' @ dec_int opervls @ '')'')"

definition mad_dump_opervls :: dumper where
  "mad_dump_opervls e buf off bufsz val valsz = do {
     opervls \<leftarrow> val_int e val;
     snp buf off bufsz (opervls_text opervls)
   }"

definition node_type_text :: "int \<Rightarrow> string" where
  "node_type_text nodetype = (
     if nodetype = 1 then ''Channel Adapter'' else
     if nodetype = 2 then ''Switch'' else
     if nodetype = 3 then ''Router'' else
     ''?('' @ dec_int nodetype @ '')?'')"

definition mad_dump_node_type :: dumper where
  "mad_dump_node_type e buf off bufsz val valsz = do {
     nodetype \<leftarrow> val_int e val;
     snp buf off bufsz (node_type_text nodetype)
   }"

section \<open>Sets of link widths and speeds\<close>

definition put_if :: "bool \<Rightarrow> cbuf \<Rightarrow> nat \<Rightarrow> int \<Rightarrow> int \<Rightarrow> string \<Rightarrow> (cbuf \<times> int) option" where
  \<comment> \<open>\<open>if (c) n += snprintf(buf + n, bufsz - n, t);\<close>\<close>
  "put_if c buf off bufsz n t =
     (if c then map_option (\<lambda>buf. (buf, n + int (length t))) (snp buf (off + nat n) (bufsz - n) t)
      else Some (buf, n))"

definition undefined_text :: "int \<Rightarrow> string" where
  "undefined_text v = ''undefined ('' @ dec_int v @ '')''"

definition dump_linkwidth :: "cbuf \<Rightarrow> nat \<Rightarrow> int \<Rightarrow> int \<Rightarrow> cbuf option" where
  "dump_linkwidth buf off bufsz width = do {
     (buf, n) \<leftarrow> put_if (bit width 0) buf off bufsz 0 ''1X or '';
     (buf, n) \<leftarrow> put_if (n < bufsz \<and> bit width 1) buf off bufsz n ''4X or '';
     (buf, n) \<leftarrow> put_if (n < bufsz \<and> bit width 2) buf off bufsz n ''8X or '';
     (buf, n) \<leftarrow> put_if (n < bufsz \<and> bit width 3) buf off bufsz n ''12X or '';
     (buf, n) \<leftarrow> put_if (n < bufsz \<and> bit width 4) buf off bufsz n ''2X or '';
     if n \<ge> bufsz then Some buf
     else if width = 0 \<or> drop_bit 5 width \<noteq> 0 then snp buf (off + nat n) (bufsz - n) (undefined_text width)
     else if bufsz > 3 then put_char buf (int off + n - 4) NUL
     else Some buf
   }"

definition iba_extension :: string where
  "iba_extension = '' (IBA extension)''"

definition mad_dump_linkwidthsup :: dumper where
  "mad_dump_linkwidthsup e buf off bufsz val valsz = do {
     width \<leftarrow> val_int e val;
     buf \<leftarrow> dump_linkwidth buf off bufsz width;
     if width \<in> {1, 3, 7, 11, 15, 17, 19, 23, 27, 31} then Some buf
     else if drop_bit 5 width = 0 then do {
       n \<leftarrow> c_strlen buf off;
       snp buf (off + n) (bufsz - int n) iba_extension
     } else Some buf
   }"

definition mad_dump_linkwidthen :: dumper where
  "mad_dump_linkwidthen e buf off bufsz val valsz = do {
     width \<leftarrow> val_int e val;
     dump_linkwidth buf off bufsz width
   }"

definition dump_linkspeed :: "cbuf \<Rightarrow> nat \<Rightarrow> int \<Rightarrow> int \<Rightarrow> cbuf option" where
  "dump_linkspeed buf off bufsz speed = do {
     (buf, n) \<leftarrow> put_if (bit speed 0) buf off bufsz 0 ''2.5 Gbps or '';
     (buf, n) \<leftarrow> put_if (n < bufsz \<and> bit speed 1) buf off bufsz n ''5.0 Gbps or '';
     (buf, n) \<leftarrow> put_if (n < bufsz \<and> bit speed 2) buf off bufsz n ''10.0 Gbps or '';
     if n \<ge> bufsz then Some buf
     else do {
       (buf, n) \<leftarrow>
         (if speed = 0 \<or> drop_bit 3 speed \<noteq> 0 then put_if True buf off bufsz n (undefined_text speed)
          else if bufsz > 3 then map_option (\<lambda>buf. (buf, n - 4)) (put_char buf (int off + n - 4) NUL)
          else Some (buf, n));
       if n \<ge> bufsz then Some buf
       else if speed \<in> {1, 3, 5, 7} then Some buf
       else if drop_bit 3 speed = 0 then snp buf (off + nat n) (bufsz - n) iba_extension
       else Some buf
     }
   }"

definition mad_dump_linkspeedsup :: dumper where
  "mad_dump_linkspeedsup e buf off bufsz val valsz = do {
     speed \<leftarrow> val_int e val;
     dump_linkspeed buf off bufsz speed
   }"

definition mad_dump_linkspeeden :: dumper where
  "mad_dump_linkspeeden e buf off bufsz val valsz = do {
     speed \<leftarrow> val_int e val;
     dump_linkspeed buf off bufsz speed
   }"

definition dump_linkspeedext :: "cbuf \<Rightarrow> nat \<Rightarrow> int \<Rightarrow> int \<Rightarrow> cbuf option" where
  "dump_linkspeedext buf off bufsz speed =
     (if speed = 0 then c_sprintf buf off (dec_int speed)
      else do {
        (buf, n) \<leftarrow> put_if (bit speed 0) buf off bufsz 0 ''14.0625 Gbps or '';
        (buf, n) \<leftarrow> put_if (n < bufsz \<and> bit speed 1) buf off bufsz n ''25.78125 Gbps or '';
        (buf, n) \<leftarrow> put_if (n < bufsz \<and> bit speed 2) buf off bufsz n ''53.125 Gbps or '';
        if n \<ge> bufsz then (if bufsz > 3 then put_char buf (int off + n - 4) NUL else Some buf)
        else if drop_bit 3 speed \<noteq> 0 then snp buf (off + nat n) (bufsz - n) (undefined_text speed)
        else if bufsz > 3 then put_char buf (int off + n - 4) NUL
        else Some buf
      })"

definition mad_dump_linkspeedextsup :: dumper where
  "mad_dump_linkspeedextsup e buf off bufsz val valsz = do {
     speed \<leftarrow> val_int e val;
     dump_linkspeedext buf off bufsz speed
   }"

definition mad_dump_linkspeedexten :: dumper where
  "mad_dump_linkspeedexten e buf off bufsz val valsz = do {
     speed \<leftarrow> val_int e val;
     if speed = 30 then c_sprintf buf off ''Extended link speeds disabled''
     else dump_linkspeedext buf off bufsz speed
   }"

section \<open>Capability masks\<close>

definition portcapmask_bits :: "(nat \<times> string) list" where
  "portcapmask_bits = [
     (1, ''IsSM''),
     (2, ''IsNoticeSupported''),
     (3, ''IsTrapSupported''),
     (4, ''IsOptionalIPDSupported''),
     (5, ''IsAutomaticMigrationSupported''),
     (6, ''IsSLMappingSupported''),
     (7, ''IsMKeyNVRAM''),
     (8, ''IsPKeyNVRAM''),
     (9, ''IsLedInfoSupported''),
     (10, ''IsSMdisabled''),
     (11, ''IsSystemImageGUIDsupported''),
     (12, ''IsPkeySwitchExternalPortTrapSupported''),
     (14, ''IsExtendedSpeedsSupported''),
     (15, ''IsCapabilityMask2Supported''),
     (16, ''IsCommunicatonManagementSupported''),
     (17, ''IsSNMPTunnelingSupported''),
     (18, ''IsReinitSupported''),
     (19, ''IsDeviceManagementSupported''),
     (20, ''IsVendorClassSupported''),
     (21, ''IsDRNoticeSupported''),
     (22, ''IsCapabilityMaskNoticeSupported''),
     (23, ''IsBootManagementSupported''),
     (24, ''IsLinkRoundTripLatencySupported''),
     (25, ''IsClientRegistrationSupported''),
     (26, ''IsOtherLocalChangesNoticeSupported''),
     (27, ''IsLinkSpeedWidthPairsTableSupported''),
     (28, ''IsVendorSpecificMadsTableSupported''),
     (29, ''IsMcastPkeyTrapSuppressionSupported''),
     (30, ''IsMulticastFDBTopSupported''),
     (31, ''IsHierarchyInfoSupported'')]"

definition portcapmask2_bits :: "(nat \<times> string) list" where
  "portcapmask2_bits = [
     (0, ''IsSetNodeDescriptionSupported''),
     (1, ''IsPortInfoExtendedSupported''),
     (2, ''IsVirtualizationSupported''),
     (3, ''IsSwitchPortStateTableSupported''),
     (4, ''IsLinkWidth2xSupported''),
     (5, ''IsLinkSpeedHDRSupported'')]"

fun sprintf_all :: "cbuf \<Rightarrow> nat \<Rightarrow> string list \<Rightarrow> (cbuf \<times> nat) option" where
  \<comment> \<open>\<open>s += sprintf(s, ...)\<close> for each text\<close>
  "sprintf_all buf off [] = Some (buf, off)"
| "sprintf_all buf off (t # ts) = do {
     buf \<leftarrow> c_sprintf buf off t;
     sprintf_all buf (off + length t) ts
   }"

definition NL :: char where
  "NL = CHR 0x0A"

definition TABS :: string where
  "TABS = replicate 4 (CHR 0x09)"

definition capmask_lines :: "(nat \<times> string) list \<Rightarrow> u32 \<Rightarrow> string list" where
  "capmask_lines bits m = (''0x'' @ hex False (unat m) @ [NL]) #
     map (\<lambda>(b, t). TABS @ t @ [NL]) (filter (\<lambda>(b, t). bit m b) bits)"

definition dump_capmask :: "(nat \<times> string) list \<Rightarrow> cbuf \<Rightarrow> nat \<Rightarrow> u32 \<Rightarrow> cbuf option" where
  "dump_capmask bits buf off m = do {
     (buf, s) \<leftarrow> sprintf_all buf off (capmask_lines bits m);
     if s \<noteq> off then put_char buf (int s - 1) NUL else Some buf
   }"

definition mad_dump_portcapmask :: dumper where
  "mad_dump_portcapmask e buf off bufsz val valsz = do {
     m \<leftarrow> val_u32 e val;
     dump_capmask portcapmask_bits buf off m
   }"

definition mad_dump_portcapmask2 :: dumper where
  "mad_dump_portcapmask2 e buf off bufsz val valsz = do {
     m \<leftarrow> val_u32 e val;
     dump_capmask portcapmask2_bits buf off m
   }"

section \<open>Arrays, strings and tables\<close>

fun sprintf_bytes :: "cbuf \<Rightarrow> nat \<Rightarrow> u8 list \<Rightarrow> cbuf option" where
  "sprintf_bytes buf off [] = Some buf"
| "sprintf_bytes buf off (b # bs) = do {
     buf \<leftarrow> c_sprintf buf off (pad0 2 (hex False (unat b)));
     sprintf_bytes buf (off + 2) bs
   }"

definition mad_dump_array :: dumper where
  "mad_dump_array e buf off bufsz val valsz = do {
     let valsz = (if bufsz < valsz * 2 then bufsz div 2 else valsz);
     bs \<leftarrow> mem_load val 0 (nat valsz);
     sprintf_bytes buf off bs
   }"

definition chars :: "mem \<Rightarrow> string" where
  "chars bs = map (\<lambda>b. char_of (unat b)) bs"

definition c_string :: "mem \<Rightarrow> string option" where
  \<comment> \<open>a \<open>%s\<close> argument: reading stops at a terminator, and there must be one\<close>
  "c_string bs = (if 0 \<in> set bs then Some (chars (takeWhile (\<lambda>b. b \<noteq> 0) bs)) else None)"

definition mad_dump_string :: dumper where
  "mad_dump_string e buf off bufsz val valsz = do {
     let valsz = (if bufsz < valsz then bufsz else valsz);
     s \<leftarrow> c_string val;
     snp buf off valsz (CHR 0x27 # s @ [CHR 0x27])
   }"

definition ib_slvl_get_i :: "mem \<Rightarrow> nat \<Rightarrow> u8 option" where
  "ib_slvl_get_i tbl i = do {
     b \<leftarrow> mem_rd tbl (i div 2);
     Some (drop_bit (if even i then 4 else 0) b AND 0xf)
   }"

definition ib_vl_arb_get_vl :: "u8 \<Rightarrow> u8" where
  "ib_vl_arb_get_vl res_vl = res_vl AND 0x0F"

fun sltovl_loop :: "cbuf \<Rightarrow> nat \<Rightarrow> int \<Rightarrow> mem \<Rightarrow> int \<Rightarrow> nat list \<Rightarrow> (cbuf \<times> int) option" where
  \<comment> \<open>the loop over the service levels that are left\<close>
  "sltovl_loop buf off bufsz tbl n [] = Some (buf, n)"
| "sltovl_loop buf off bufsz tbl n (i # is) = do {
     vl \<leftarrow> ib_slvl_get_i tbl i;
     let t = (if vl < 10 then '' '' else []) @ dec (unat vl) @ ''|'';
     (buf, n) \<leftarrow> put_if True buf off bufsz n t;
     if n \<ge> bufsz then Some (buf, n) else sltovl_loop buf off bufsz tbl n is
   }"

definition mad_dump_sltovl :: dumper where
  "mad_dump_sltovl e buf off bufsz val valsz = do {
     (buf, n) \<leftarrow> put_if True buf off bufsz 0 ''|'';
     (buf, n) \<leftarrow> sltovl_loop buf off bufsz val n [0..<16];
     snp buf (off + nat n) (bufsz - n) [NL]
   }"

definition vlarb_cell :: "u8 \<Rightarrow> string" where
  \<comment> \<open>\<open>"0x%-2X|"\<close>\<close>
  "vlarb_cell b = (let h = hex True (unat b) in ''0x'' @ h @ replicate (2 - length h) CHR '' '' @ ''|'')"

fun vlarb_loop :: "cbuf \<Rightarrow> nat \<Rightarrow> int \<Rightarrow> (u8 \<Rightarrow> u8) \<Rightarrow> nat \<Rightarrow> mem \<Rightarrow> int \<Rightarrow> nat list \<Rightarrow>
    (bool \<times> cbuf \<times> int) option" where
  \<comment> \<open>one row: byte \<open>k\<close> of the entries that are left, which have two bytes each; true: the function has returned\<close>
  "vlarb_loop buf off bufsz g k tbl n [] = Some (False, buf, n)"
| "vlarb_loop buf off bufsz g k tbl n (i # is) = do {
     b \<leftarrow> mem_rd tbl (2 * i + k);
     (buf, n) \<leftarrow> put_if True buf off bufsz n (vlarb_cell (g b));
     if n \<ge> bufsz then Some (True, buf, n) else vlarb_loop buf off bufsz g k tbl n is
   }"

definition mad_dump_vlarbitration :: dumper where
  "mad_dump_vlarbitration e buf off bufsz val num = do {
     let num = int_of_u32 (word_of_nat (size_of_int num div 2));
     (buf, n) \<leftarrow> put_if True buf off bufsz 0 ([NL] @ ''VL    : |'');
     if n \<ge> bufsz then Some buf
     else do {
       (ret, buf, n) \<leftarrow> vlarb_loop buf off bufsz ib_vl_arb_get_vl 0 val n [0..<nat num];
       if ret then Some buf
       else do {
         (buf, n) \<leftarrow> put_if True buf off bufsz n ([NL] @ ''WEIGHT: |'');
         if n \<ge> bufsz then Some buf
         else do {
           (ret, buf, n) \<leftarrow> vlarb_loop buf off bufsz (\<lambda>b. b) 1 val n [0..<nat num];
           if ret then Some buf else snp buf (off + nat n) (bufsz - n) [NL]
         }
       }
     }
   }"

definition mad_dump_nodedesc :: dumper where
  \<comment> \<open>\<open>strncpy\<close> copies up to a terminator and fills the rest with zeros\<close>
  "mad_dump_nodedesc e buf off bufsz val valsz = do {
     let n = size_of_int bufsz;
     s \<leftarrow> (if 0 \<in> set (take n val) then Some (chars (takeWhile (\<lambda>b. b \<noteq> 0) val))
          else if n \<le> length val then Some (chars (take n val)) else None);
     buf \<leftarrow> mem_store buf off (s @ replicate (n - length s) NUL);
     if valsz < bufsz then put_char buf (int off + valsz) NUL else Some buf
   }"

section \<open>The dump function of a field\<close>

fun run_dump :: "dump_fn \<Rightarrow> dumper" where
  "run_dump Dump_uint = mad_dump_uint"
| "run_dump Dump_hex = mad_dump_hex"
| "run_dump Dump_rhex = mad_dump_rhex"
| "run_dump Dump_bitfield = mad_dump_bitfield"
| "run_dump Dump_array = mad_dump_array"
| "run_dump Dump_string = mad_dump_string"
| "run_dump Dump_linkwidth = mad_dump_linkwidth"
| "run_dump Dump_linkwidthsup = mad_dump_linkwidthsup"
| "run_dump Dump_linkwidthen = mad_dump_linkwidthen"
| "run_dump Dump_linkdowndefstate = mad_dump_linkdowndefstate"
| "run_dump Dump_linkspeed = mad_dump_linkspeed"
| "run_dump Dump_linkspeedsup = mad_dump_linkspeedsup"
| "run_dump Dump_linkspeeden = mad_dump_linkspeeden"
| "run_dump Dump_linkspeedext = mad_dump_linkspeedext"
| "run_dump Dump_linkspeedextsup = mad_dump_linkspeedextsup"
| "run_dump Dump_linkspeedexten = mad_dump_linkspeedexten"
| "run_dump Dump_portstate = mad_dump_portstate"
| "run_dump Dump_physportstate = mad_dump_physportstate"
| "run_dump Dump_portcapmask = mad_dump_portcapmask"
| "run_dump Dump_portcapmask2 = mad_dump_portcapmask2"
| "run_dump Dump_mtu = mad_dump_mtu"
| "run_dump Dump_vlcap = mad_dump_vlcap"
| "run_dump Dump_opervls = mad_dump_opervls"
| "run_dump Dump_node_type = mad_dump_node_type"

definition mad_dump_val_fn :: "endian \<Rightarrow> dump_fn option \<Rightarrow> nat \<Rightarrow> cbuf \<Rightarrow> nat \<Rightarrow> int \<Rightarrow> mem \<Rightarrow> cbuf option" where
  \<comment> \<open>\<open>_mad_dump_val\<close>: the function pointer and the bit length of the descriptor\<close>
  "mad_dump_val_fn e fn len buf off bufsz val = do {
     fn \<leftarrow> fn;
     buf \<leftarrow> run_dump fn e buf off bufsz val (int ((len + 7) div 8));
     put_char buf (int off + bufsz - 1) NUL
   }"

definition dots :: "string \<Rightarrow> string option" where
  \<comment> \<open>the local array is filled only for a name of less than 32 characters\<close>
  "dots nm = (if length nm < 32 then Some (replicate (32 - length nm) CHR ''.'') else None)"

definition mad_dump_field_fn :: "endian \<Rightarrow> dump_fn option \<Rightarrow> nat \<Rightarrow> string \<Rightarrow> cbuf \<Rightarrow> nat \<Rightarrow> int \<Rightarrow> mem \<Rightarrow>
    cbuf option option" where
  \<comment> \<open>\<open>_mad_dump_field\<close>; \<open>Some None\<close> is the result \<open>NULL\<close>\<close>
  "mad_dump_field_fn e fn len nm buf off bufsz val =
     (if bufsz \<le> 32 then Some None
      else do {
        ds \<leftarrow> dots nm;
        let s = nm @ '':'' @ ds;
        buf \<leftarrow> snp buf off bufsz s;
        buf \<leftarrow> mad_dump_val_fn e fn len buf (off + length s) (bufsz - int (length s)) val;
        buf \<leftarrow> put_char buf (int off + bufsz - 1) NUL;
        Some (Some buf)
      })"

definition mad_dump_field :: "endian \<Rightarrow> nat \<Rightarrow> cbuf \<Rightarrow> nat \<Rightarrow> int \<Rightarrow> mem \<Rightarrow> cbuf option option" where
  "mad_dump_field e field buf off bufsz val =
     (if field \<le> IB_NO_FIELD \<or> field \<ge> IB_FIELD_LAST then Some None
      else do {
        f \<leftarrow> field_desc field;
        mad_dump_field_fn e (def_dump_fn f) (bitlen f) (name f) buf off bufsz val
      })"

definition mad_dump_val :: "endian \<Rightarrow> nat \<Rightarrow> cbuf \<Rightarrow> nat \<Rightarrow> int \<Rightarrow> mem \<Rightarrow> cbuf option option" where
  "mad_dump_val e field buf off bufsz val =
     (if field \<le> IB_NO_FIELD \<or> field \<ge> IB_FIELD_LAST then Some None
      else do {
        f \<leftarrow> field_desc field;
        map_option Some (mad_dump_val_fn e (def_dump_fn f) (bitlen f) buf off bufsz val)
      })"

text \<open>The printing variants return what they print on \<open>stdout\<close>; \<open>buf\<close> is their local array of 512.\<close>

definition mad_dump_print :: "endian \<Rightarrow> dump_fn option \<Rightarrow> string \<Rightarrow> mem \<Rightarrow> nat \<Rightarrow> cbuf \<Rightarrow> string option" where
  \<comment> \<open>\<open>_mad_dump\<close>\<close>
  "mad_dump_print e fn nm val valsz buf = do {
     r \<leftarrow> mad_dump_field_fn e fn (valsz * 8) nm buf 0 512 val;
     buf \<leftarrow> r;
     Some (c_str buf @ [NL])
   }"

definition mad_print_field :: "endian \<Rightarrow> nat \<Rightarrow> string option \<Rightarrow> mem \<Rightarrow> cbuf \<Rightarrow> (int \<times> string) option" where
  "mad_print_field e field nm val buf =
     (if field \<le> IB_NO_FIELD \<or> field \<ge> IB_FIELD_LAST then Some (-1, [])
      else do {
        f \<leftarrow> field_desc field;
        s \<leftarrow> mad_dump_print e (def_dump_fn f) (case nm of Some n \<Rightarrow> n | None \<Rightarrow> name f) val ((bitlen f + 7) div 8) buf;
        Some (int (length s), s)
      })"

section \<open>Ranges of fields\<close>

fun dump_fields_loop :: "endian \<Rightarrow> cbuf \<Rightarrow> nat \<Rightarrow> int \<Rightarrow> mem \<Rightarrow> mem \<Rightarrow> nat list \<Rightarrow> (cbuf \<times> nat option) option" where
  \<comment> \<open>the loop of \<open>_dump_fields\<close>: \<open>s\<close>, the size left, the data, the local array \<open>val\<close> and the fields to come.
    The result is \<open>None\<close> for the return value -1 and the position otherwise.\<close>
  "dump_fields_loop e buf s bufsz data val [] = Some (buf, Some s)"
| "dump_fields_loop e buf s bufsz data val (field # fs) =
     (if bufsz \<le> 0 then Some (buf, Some s)
      else do {
        val \<leftarrow> mad_decode_field e data field val;
        r \<leftarrow> mad_dump_field e field buf s (bufsz - 1) val;
        case r of None \<Rightarrow> Some (buf, None)
        | Some buf \<Rightarrow> do {
            n \<leftarrow> c_strlen buf s;
            buf \<leftarrow> mem_wr buf (s + n) NL;
            buf \<leftarrow> mem_wr buf (s + n + 1) NUL;
            dump_fields_loop e buf (s + n + 1) (bufsz - int (n + 1)) data val fs
          }
      })"

definition dump_fields :: "endian \<Rightarrow> cbuf \<Rightarrow> nat \<Rightarrow> int \<Rightarrow> mem \<Rightarrow> nat \<Rightarrow> nat \<Rightarrow> (cbuf \<times> int) option" where
  \<comment> \<open>\<open>_dump_fields\<close>. What the local array holds at first is overwritten before it is read: every field of
    less than 128 bits fills the word that its dump function reads.\<close>
  "dump_fields e buf off bufsz data start end = do {
     (buf, r) \<leftarrow> dump_fields_loop e buf off bufsz data (replicate 64 0) [start..<end];
     Some (buf, case r of None \<Rightarrow> -1 | Some s \<Rightarrow> int s - int off)
   }"

definition mad_dump_fields :: "endian \<Rightarrow> cbuf \<Rightarrow> nat \<Rightarrow> int \<Rightarrow> mem \<Rightarrow> int \<Rightarrow> nat \<Rightarrow> nat \<Rightarrow> cbuf option" where
  "mad_dump_fields e buf off bufsz val valsz start end = map_option fst (dump_fields e buf off bufsz val start end)"

fun dump_ranges :: "endian \<Rightarrow> cbuf \<Rightarrow> nat \<Rightarrow> int \<Rightarrow> mem \<Rightarrow> (nat \<times> nat) list \<Rightarrow> cbuf option" where
  \<comment> \<open>ranges one after the other, each in what the ones before it left of the buffer, until one returns -1\<close>
  "dump_ranges e buf off bufsz val [] = Some buf"
| "dump_ranges e buf off bufsz val ((a, b) # rs) = do {
     (buf, cnt) \<leftarrow> dump_fields e buf off bufsz val a b;
     if cnt < 0 then Some buf else dump_ranges e buf (off + nat cnt) (bufsz - cnt) val rs
   }"

section \<open>Attributes\<close>

definition mad_dump_nodeinfo :: dumper where
  "mad_dump_nodeinfo e buf off bufsz val valsz = dump_ranges e buf off bufsz val [(IB_NODE_FIRST_F, IB_NODE_LAST_F)]"

definition mad_dump_portinfo :: dumper where
  "mad_dump_portinfo e buf off bufsz val valsz = dump_ranges e buf off bufsz val [(IB_PORT_FIRST_F, IB_PORT_LAST_F), (IB_PORT_CAPMASK2_F, IB_PORT_LINK_SPEED_EXT_LAST_F)]"

definition mad_dump_portstates :: dumper where
  "mad_dump_portstates e buf off bufsz val valsz = dump_ranges e buf off bufsz val [(IB_PORT_STATE_F, IB_PORT_LINK_DOWN_DEF_F)]"

definition mad_dump_switchinfo :: dumper where
  "mad_dump_switchinfo e buf off bufsz val valsz = dump_ranges e buf off bufsz val [(IB_SW_FIRST_F, IB_SW_LAST_F)]"

definition mad_dump_perfcounters :: dumper where
  "mad_dump_perfcounters e buf off bufsz val valsz = dump_ranges e buf off bufsz val [(IB_PC_FIRST_F, IB_PC_VL15_DROPPED_F), (IB_PC_QP1_DROP_F, IB_PC_QP1_DROP_F + 1), (IB_PC_VL15_DROPPED_F, IB_PC_LAST_F)]"

definition mad_dump_perfcounters_ext :: dumper where
  "mad_dump_perfcounters_ext e buf off bufsz val valsz = dump_ranges e buf off bufsz val [(IB_PC_EXT_FIRST_F, IB_PC_EXT_LAST_F), (IB_PC_EXT_COUNTER_SELECT2_F, IB_PC_EXT_ERR_LAST_F)]"

definition mad_dump_perfcounters_xmt_sl :: dumper where
  "mad_dump_perfcounters_xmt_sl e buf off bufsz val valsz = dump_ranges e buf off bufsz val [(IB_PC_EXT_PORT_SELECT_F, IB_PC_EXT_XMT_BYTES_F), (IB_PC_XMT_DATA_SL_FIRST_F, IB_PC_XMT_DATA_SL_LAST_F)]"

definition mad_dump_perfcounters_rcv_sl :: dumper where
  "mad_dump_perfcounters_rcv_sl e buf off bufsz val valsz = dump_ranges e buf off bufsz val [(IB_PC_EXT_PORT_SELECT_F, IB_PC_EXT_XMT_BYTES_F), (IB_PC_RCV_DATA_SL_FIRST_F, IB_PC_RCV_DATA_SL_LAST_F)]"

definition mad_dump_perfcounters_xmt_disc :: dumper where
  "mad_dump_perfcounters_xmt_disc e buf off bufsz val valsz = dump_ranges e buf off bufsz val [(IB_PC_EXT_PORT_SELECT_F, IB_PC_EXT_XMT_BYTES_F), (IB_PC_XMT_INACT_DISC_F, IB_PC_XMT_DISC_LAST_F)]"

definition mad_dump_perfcounters_rcv_err :: dumper where
  "mad_dump_perfcounters_rcv_err e buf off bufsz val valsz = dump_ranges e buf off bufsz val [(IB_PC_EXT_PORT_SELECT_F, IB_PC_EXT_XMT_BYTES_F), (IB_PC_RCV_LOCAL_PHY_ERR_F, IB_PC_RCV_ERR_LAST_F)]"

definition mad_dump_portsamples_control :: dumper where
  "mad_dump_portsamples_control e buf off bufsz val valsz = dump_ranges e buf off bufsz val [(IB_PSC_OPCODE_F, IB_PSC_LAST_F)]"

definition mad_dump_portsamples_result :: dumper where
  "mad_dump_portsamples_result e buf off bufsz val valsz = dump_ranges e buf off bufsz val [(IB_PSR_TAG_F, IB_PSR_LAST_F)]"

definition mad_dump_port_ext_speeds_counters_rsfec_active :: dumper where
  "mad_dump_port_ext_speeds_counters_rsfec_active e buf off bufsz val valsz = dump_ranges e buf off bufsz val [(IB_PESC_RSFEC_FIRST_F, IB_PESC_RSFEC_LAST_F)]"

definition mad_dump_port_ext_speeds_counters :: dumper where
  "mad_dump_port_ext_speeds_counters e buf off bufsz val valsz = dump_ranges e buf off bufsz val [(IB_PESC_PORT_SELECT_F, IB_PESC_LAST_F)]"

definition mad_dump_perfcounters_port_op_rcv_counters :: dumper where
  "mad_dump_perfcounters_port_op_rcv_counters e buf off bufsz val valsz = dump_ranges e buf off bufsz val [(IB_PC_EXT_PORT_SELECT_F, IB_PC_EXT_XMT_BYTES_F), (IB_PC_PORT_OP_RCV_COUNTERS_FIRST_F, IB_PC_PORT_OP_RCV_COUNTERS_LAST_F)]"

definition mad_dump_perfcounters_port_flow_ctl_counters :: dumper where
  "mad_dump_perfcounters_port_flow_ctl_counters e buf off bufsz val valsz = dump_ranges e buf off bufsz val [(IB_PC_EXT_PORT_SELECT_F, IB_PC_EXT_XMT_BYTES_F), (IB_PC_PORT_FLOW_CTL_COUNTERS_FIRST_F, IB_PC_PORT_FLOW_CTL_COUNTERS_LAST_F)]"

definition mad_dump_perfcounters_port_vl_op_packet :: dumper where
  "mad_dump_perfcounters_port_vl_op_packet e buf off bufsz val valsz = dump_ranges e buf off bufsz val [(IB_PC_EXT_PORT_SELECT_F, IB_PC_EXT_XMT_BYTES_F), (IB_PC_PORT_VL_OP_PACKETS_FIRST_F, IB_PC_PORT_VL_OP_PACKETS_LAST_F)]"

definition mad_dump_perfcounters_port_vl_op_data :: dumper where
  "mad_dump_perfcounters_port_vl_op_data e buf off bufsz val valsz = dump_ranges e buf off bufsz val [(IB_PC_EXT_PORT_SELECT_F, IB_PC_EXT_XMT_BYTES_F), (IB_PC_PORT_VL_OP_DATA_FIRST_F, IB_PC_PORT_VL_OP_DATA_LAST_F)]"

definition mad_dump_perfcounters_port_vl_xmit_flow_ctl_update_errors :: dumper where
  "mad_dump_perfcounters_port_vl_xmit_flow_ctl_update_errors e buf off bufsz val valsz = dump_ranges e buf off bufsz val [(IB_PC_EXT_PORT_SELECT_F, IB_PC_EXT_XMT_BYTES_F), (IB_PC_PORT_VL_XMIT_FLOW_CTL_UPDATE_ERRORS_FIRST_F, IB_PC_PORT_VL_XMIT_FLOW_CTL_UPDATE_ERRORS_LAST_F)]"

definition mad_dump_perfcounters_port_vl_xmit_wait_counters :: dumper where
  "mad_dump_perfcounters_port_vl_xmit_wait_counters e buf off bufsz val valsz = dump_ranges e buf off bufsz val [(IB_PC_EXT_PORT_SELECT_F, IB_PC_EXT_XMT_BYTES_F), (IB_PC_PORT_VL_XMIT_WAIT_COUNTERS_FIRST_F, IB_PC_PORT_VL_XMIT_WAIT_COUNTERS_LAST_F)]"

definition mad_dump_perfcounters_sw_port_vl_congestion :: dumper where
  "mad_dump_perfcounters_sw_port_vl_congestion e buf off bufsz val valsz = dump_ranges e buf off bufsz val [(IB_PC_EXT_PORT_SELECT_F, IB_PC_EXT_XMT_BYTES_F), (IB_PC_SW_PORT_VL_CONGESTION_FIRST_F, IB_PC_SW_PORT_VL_CONGESTION_LAST_F)]"

definition mad_dump_perfcounters_rcv_con_ctrl :: dumper where
  "mad_dump_perfcounters_rcv_con_ctrl e buf off bufsz val valsz = dump_ranges e buf off bufsz val [(IB_PC_EXT_PORT_SELECT_F, IB_PC_EXT_XMT_BYTES_F), (IB_PC_RCV_CON_CTRL_FIRST_F, IB_PC_RCV_CON_CTRL_LAST_F)]"

definition mad_dump_perfcounters_sl_rcv_fecn :: dumper where
  "mad_dump_perfcounters_sl_rcv_fecn e buf off bufsz val valsz = dump_ranges e buf off bufsz val [(IB_PC_EXT_PORT_SELECT_F, IB_PC_EXT_XMT_BYTES_F), (IB_PC_SL_RCV_FECN_FIRST_F, IB_PC_SL_RCV_FECN_LAST_F)]"

definition mad_dump_perfcounters_sl_rcv_becn :: dumper where
  "mad_dump_perfcounters_sl_rcv_becn e buf off bufsz val valsz = dump_ranges e buf off bufsz val [(IB_PC_EXT_PORT_SELECT_F, IB_PC_EXT_XMT_BYTES_F), (IB_PC_SL_RCV_BECN_FIRST_F, IB_PC_SL_RCV_BECN_LAST_F)]"

definition mad_dump_perfcounters_xmit_con_ctrl :: dumper where
  "mad_dump_perfcounters_xmit_con_ctrl e buf off bufsz val valsz = dump_ranges e buf off bufsz val [(IB_PC_EXT_PORT_SELECT_F, IB_PC_EXT_XMT_BYTES_F), (IB_PC_XMIT_CON_CTRL_FIRST_F, IB_PC_XMIT_CON_CTRL_LAST_F)]"

definition mad_dump_perfcounters_vl_xmit_time_cong :: dumper where
  "mad_dump_perfcounters_vl_xmit_time_cong e buf off bufsz val valsz = dump_ranges e buf off bufsz val [(IB_PC_EXT_PORT_SELECT_F, IB_PC_EXT_XMT_BYTES_F), (IB_PC_VL_XMIT_TIME_CONG_FIRST_F, IB_PC_VL_XMIT_TIME_CONG_LAST_F)]"

definition mad_dump_mlnx_ext_port_info :: dumper where
  "mad_dump_mlnx_ext_port_info e buf off bufsz val valsz = dump_ranges e buf off bufsz val [(IB_MLNX_EXT_PORT_STATE_CHG_ENABLE_F, IB_MLNX_EXT_PORT_LAST_F)]"

definition mad_dump_cc_congestioninfo :: dumper where
  "mad_dump_cc_congestioninfo e buf off bufsz val valsz = dump_ranges e buf off bufsz val [(IB_CC_CONGESTION_INFO_FIRST_F, IB_CC_CONGESTION_INFO_LAST_F)]"

definition mad_dump_cc_congestionkeyinfo :: dumper where
  "mad_dump_cc_congestionkeyinfo e buf off bufsz val valsz = dump_ranges e buf off bufsz val [(IB_CC_CONGESTION_KEY_INFO_FIRST_F, IB_CC_CONGESTION_KEY_INFO_LAST_F)]"

definition mad_dump_cc_congestionlog :: dumper where
  "mad_dump_cc_congestionlog e buf off bufsz val valsz = dump_ranges e buf off bufsz val [(IB_CC_CONGESTION_LOG_FIRST_F, IB_CC_CONGESTION_LOG_LAST_F)]"

definition mad_dump_cc_congestionlogswitch :: dumper where
  "mad_dump_cc_congestionlogswitch e buf off bufsz val valsz = dump_ranges e buf off bufsz val [(IB_CC_CONGESTION_LOG_SWITCH_FIRST_F, IB_CC_CONGESTION_LOG_SWITCH_LAST_F)]"

definition mad_dump_cc_congestionlogentryswitch :: dumper where
  "mad_dump_cc_congestionlogentryswitch e buf off bufsz val valsz = dump_ranges e buf off bufsz val [(IB_CC_CONGESTION_LOG_ENTRY_SWITCH_FIRST_F, IB_CC_CONGESTION_LOG_ENTRY_SWITCH_LAST_F)]"

definition mad_dump_cc_congestionlogca :: dumper where
  "mad_dump_cc_congestionlogca e buf off bufsz val valsz = dump_ranges e buf off bufsz val [(IB_CC_CONGESTION_LOG_CA_FIRST_F, IB_CC_CONGESTION_LOG_CA_LAST_F)]"

definition mad_dump_cc_congestionlogentryca :: dumper where
  "mad_dump_cc_congestionlogentryca e buf off bufsz val valsz = dump_ranges e buf off bufsz val [(IB_CC_CONGESTION_LOG_ENTRY_CA_FIRST_F, IB_CC_CONGESTION_LOG_ENTRY_CA_LAST_F)]"

definition mad_dump_cc_switchcongestionsetting :: dumper where
  "mad_dump_cc_switchcongestionsetting e buf off bufsz val valsz = dump_ranges e buf off bufsz val [(IB_CC_SWITCH_CONGESTION_SETTING_FIRST_F, IB_CC_SWITCH_CONGESTION_SETTING_LAST_F)]"

definition mad_dump_cc_switchportcongestionsettingelement :: dumper where
  "mad_dump_cc_switchportcongestionsettingelement e buf off bufsz val valsz = dump_ranges e buf off bufsz val [(IB_CC_SWITCH_PORT_CONGESTION_SETTING_ELEMENT_FIRST_F, IB_CC_SWITCH_PORT_CONGESTION_SETTING_ELEMENT_LAST_F)]"

definition mad_dump_cc_cacongestionsetting :: dumper where
  "mad_dump_cc_cacongestionsetting e buf off bufsz val valsz = dump_ranges e buf off bufsz val [(IB_CC_CA_CONGESTION_SETTING_FIRST_F, IB_CC_CA_CONGESTION_SETTING_LAST_F)]"

definition mad_dump_cc_cacongestionentry :: dumper where
  "mad_dump_cc_cacongestionentry e buf off bufsz val valsz = dump_ranges e buf off bufsz val [(IB_CC_CA_CONGESTION_ENTRY_FIRST_F, IB_CC_CA_CONGESTION_ENTRY_LAST_F)]"

definition mad_dump_cc_congestioncontroltable :: dumper where
  "mad_dump_cc_congestioncontroltable e buf off bufsz val valsz = dump_ranges e buf off bufsz val [(IB_CC_CONGESTION_CONTROL_TABLE_FIRST_F, IB_CC_CONGESTION_CONTROL_TABLE_LAST_F)]"

definition mad_dump_cc_congestioncontroltableentry :: dumper where
  "mad_dump_cc_congestioncontroltableentry e buf off bufsz val valsz = dump_ranges e buf off bufsz val [(IB_CC_CONGESTION_CONTROL_TABLE_ENTRY_FIRST_F, IB_CC_CONGESTION_CONTROL_TABLE_ENTRY_LAST_F)]"

definition mad_dump_cc_timestamp :: dumper where
  "mad_dump_cc_timestamp e buf off bufsz val valsz = dump_ranges e buf off bufsz val [(IB_CC_TIMESTAMP_FIRST_F, IB_CC_TIMESTAMP_LAST_F)]"

definition mad_dump_classportinfo :: dumper where
  "mad_dump_classportinfo e buf off bufsz val valsz = dump_ranges e buf off bufsz val [(IB_CPI_BASEVER_F, IB_CPI_TRAP_QKEY_F + 1)]"

definition mad_dump_portinfo_ext :: dumper where
  "mad_dump_portinfo_ext e buf off bufsz val valsz = dump_ranges e buf off bufsz val [(IB_PORT_EXT_FIRST_F, IB_PORT_EXT_LAST_F), (IB_PORT_EXT_HDR_FEC_MODE_SUPPORTED_F, IB_PORT_EXT_HDR_FEC_MODE_LAST_F)]"

section \<open>Hexadecimal dumps\<close>

fun xdump_loop :: "u8 list \<Rightarrow> nat \<Rightarrow> string" where
  \<comment> \<open>the bytes that are left and \<open>i\<close>, their position\<close>
  "xdump_loop [] i = (if i mod 16 \<noteq> 0 then [NL] else [])"
| "xdump_loop [b] i = [hex_digit False (unat b div 16), hex_digit False (unat b mod 16)] @ (if (i + 1) mod 16 \<noteq> 0 then [NL] else [])"
| "xdump_loop (b # c # bs) i =
     [hex_digit False (unat b div 16), hex_digit False (unat b mod 16),
      hex_digit False (unat c div 16), hex_digit False (unat c mod 16),
      if (i + 2) mod 16 \<noteq> 0 then CHR '' '' else NL] @ xdump_loop bs (i + 2)"

definition xdump :: "string option \<Rightarrow> mem \<Rightarrow> nat \<Rightarrow> string option" where
  \<comment> \<open>what is written to the file\<close>
  "xdump msg p sz = do {
     bs \<leftarrow> mem_load p 0 sz;
     Some ((case msg of None \<Rightarrow> [] | Some m \<Rightarrow> m) @ xdump_loop bs 0)
   }"

end
