(* ===== verification/MadDumpCorrect.thy ===== *)
theory MadDumpCorrect
  imports MadDump
begin

text \<open>
  What the dump functions write: the text of the value, cut to the size they are given and terminated,
  and nothing outside that size, for the functions that use \<open>snprintf\<close>; and where the others write
  past it.
\<close>

section \<open>Bounded writes\<close>

lemma size_of_int_small: "0 \<le> z \<Longrightarrow> z < 2 ^ 31 \<Longrightarrow> size_of_int z = nat z"
  by (rule size_of_int_nonneg) simp_all

definition prefix_at :: "cbuf \<Rightarrow> nat \<Rightarrow> string \<Rightarrow> bool" where
  \<comment> \<open>the characters at \<open>off\<close> begin with \<open>s\<close>\<close>
  "prefix_at buf off s \<longleftrightarrow> take (length s) (drop off buf) = s"

lemma prefix_at_Nil: "prefix_at buf off []"
  by (simp add: prefix_at_def)

lemma holds_prefix_at: "holds buf off s \<Longrightarrow> prefix_at buf off s"
  by (simp add: prefix_at_def holds_prefix)

lemma snp_append:
  assumes "prefix_at buf off s" and "n = int (length s)" and "n < sz" and "sz < 2 ^ 31" and "off + nat sz \<le> length buf"
  shows "\<exists>buf'. snp buf (off + nat n) (sz - n) t = Some buf' \<and> holds buf' off (take (nat sz - 1) (s @ t)) \<and>
    within off (nat sz) buf buf'"
proof -
  have "size_of_int (sz - n) = nat sz - length s"
    using assms(2-4) size_of_int_small [of "sz - n"] by (simp add: nat_diff_distrib)
  then show ?thesis
    using snprintf_append [of s off buf "nat sz" t] assms by (simp add: snp_def prefix_at_def)
qed

lemma snp_once:
  assumes "0 < sz" and "sz < 2 ^ 31" and "off + nat sz \<le> length buf"
  shows "\<exists>buf'. snp buf off sz t = Some buf' \<and> holds buf' off (take (nat sz - 1) t) \<and> within off (nat sz) buf buf'"
  using snp_append [OF prefix_at_Nil, of 0 sz off buf t] assms by simp

lemma take_long: "m \<le> length t \<Longrightarrow> take m (t @ u) = take m t"
  by simp

text \<open>
  The accumulation \<open>n += snprintf(buf + n, bufsz - n, t)\<close>: afterwards \<open>n\<close> is the length of the text so far,
  and the buffer holds the text as far as it fits.
\<close>

definition so_far :: "cbuf \<Rightarrow> cbuf \<Rightarrow> nat \<Rightarrow> int \<Rightarrow> int \<Rightarrow> string \<Rightarrow> bool" where
  "so_far buf0 buf off bufsz n s \<longleftrightarrow> within off (nat bufsz) buf0 buf \<and> n = int (length s) \<and>
     (n < bufsz \<longrightarrow> prefix_at buf off s) \<and> (s \<noteq> [] \<longrightarrow> holds buf off (take (nat bufsz - 1) s))"

lemma so_far_start: "so_far buf buf off bufsz 0 []"
  by (simp add: so_far_def within_refl prefix_at_Nil)

lemma put_if_so_far:
  assumes "so_far buf0 buf off bufsz n s" and "0 < bufsz" "bufsz < 2 ^ 31" "off + nat bufsz \<le> length buf0"
    and "c \<Longrightarrow> n < bufsz" and "t \<noteq> []"
  shows "\<exists>buf' n'. put_if c buf off bufsz n t = Some (buf', n') \<and> so_far buf0 buf' off bufsz n' (if c then s @ t else s)"
proof (cases c)
  case False
  then show ?thesis using assms(1) by (simp add: put_if_def)
next
  case True
  have len: "length buf = length buf0" using assms(1) by (auto simp: so_far_def dest: within_length)
  have n: "n < bufsz" using assms(5) True by simp
  obtain buf' where b: "snp buf (off + nat n) (bufsz - n) t = Some buf'" "holds buf' off (take (nat bufsz - 1) (s @ t))"
      "within off (nat bufsz) buf buf'"
    using snp_append [of buf off s n bufsz t] assms(1-4) n len by (auto simp: so_far_def)
  have "prefix_at buf' off (s @ t)" if "n + int (length t) < bufsz"
  proof -
    have "take (nat bufsz - 1) (s @ t) = s @ t" using that assms(1) by (simp add: so_far_def)
    then show ?thesis using holds_prefix_at [OF b(2)] by simp
  qed
  then show ?thesis
    using assms(1,6) True b by (auto simp: put_if_def so_far_def intro: within_trans)
qed

lemma so_far_end:
  assumes "so_far buf0 buf off bufsz n s" and "n < bufsz" "bufsz < 2 ^ 31" "off + nat bufsz \<le> length buf0"
  shows "\<exists>buf'. snp buf (off + nat n) (bufsz - n) t = Some buf' \<and> within off (nat bufsz) buf0 buf' \<and>
    holds buf' off (take (nat bufsz - 1) (s @ t))"
proof -
  have w: "within off (nat bufsz) buf0 buf" using assms(1) by (simp add: so_far_def)
  obtain buf' where "snp buf (off + nat n) (bufsz - n) t = Some buf'" "holds buf' off (take (nat bufsz - 1) (s @ t))"
      "within off (nat bufsz) buf buf'"
    using snp_append [of buf off s n bufsz t] assms within_length [OF w] by (auto simp: so_far_def)
  then show ?thesis using within_trans [OF w] by blast
qed

lemma so_far_cut:
  \<comment> \<open>the final \<open>buf[n - 4] = 0\<close>, which drops the last \<open>" or "\<close>\<close>
  assumes "so_far buf0 buf off bufsz n (s @ u)" and "n < bufsz" "off + nat bufsz \<le> length buf0" and "length u = 4"
  shows "\<exists>buf'. put_char buf (int off + n - 4) NUL = Some buf' \<and> within off (nat bufsz) buf0 buf' \<and> holds buf' off s"
proof -
  have f: "within off (nat bufsz) buf0 buf" "n = int (length s) + 4" "take (length (s @ u)) (drop off buf) = s @ u"
    using assms(1,2,4) by (simp_all add: so_far_def prefix_at_def)
  have len: "length buf = length buf0" by (rule within_length [OF f(1)])
  have idx: "nat (int off + n - 4) = off + length s" "off + length s < length buf"
    using f(2) assms(2,3) len by linarith+
  let ?b = "buf[off + length s := NUL]"
  have "put_char buf (int off + n - 4) NUL = Some ?b"
    using idx f(2) by (simp add: put_char_def mem_wr_def)
  moreover have "within off (nat bufsz) buf0 ?b"
    by (rule within_trans [OF f(1)], rule within_mono [OF within_wr [of buf "off + length s" NUL]])
       (use idx(2) f(2) assms(2) in \<open>auto simp: mem_wr_def\<close>)
  moreover have "holds ?b off s"
  proof -
    have "take (length s) (drop off buf) = s" using f(3) by (metis append_eq_conv_conj length_append take_take min.absorb1 le_add1)
    moreover have "drop off ?b = (drop off buf)[length s := NUL]" by (simp add: drop_update_swap)
    moreover have "length s < length (drop off buf)" using idx(2) by simp
    ultimately show ?thesis using idx(2) by (simp add: holds_def take_Suc_conv_app_nth)
  qed
  ultimately show ?thesis by blast
qed

section \<open>Sets of flags\<close>

fun or_join :: "string list \<Rightarrow> string" where
  "or_join [] = []"
| "or_join [t] = t"
| "or_join (t # u # ts) = t @ '' or '' @ or_join (u # ts)"

definition or_list :: "string list \<Rightarrow> string" where
  "or_list ts = concat (map (\<lambda>t. t @ '' or '') ts)"

lemma or_list_join: "ts \<noteq> [] \<Longrightarrow> or_list ts = or_join ts @ '' or ''"
  by (induction ts rule: or_join.induct) (simp_all add: or_list_def)

definition flags_of :: "(nat \<times> string) list \<Rightarrow> int \<Rightarrow> string list" where
  "flags_of fs v = map snd (filter (\<lambda>(k, t). bit v k) fs)"

definition linkwidths :: "(nat \<times> string) list" where
  "linkwidths = [(0, ''1X''), (1, ''4X''), (2, ''8X''), (3, ''12X''), (4, ''2X'')]"

definition linkwidth_set_text :: "int \<Rightarrow> string" where
  \<comment> \<open>what \<open>dump_linkwidth\<close> is to print\<close>
  "linkwidth_set_text v =
     (if v = 0 then undefined_text 0
      else if drop_bit 5 v \<noteq> 0 then or_list (flags_of linkwidths v) @ undefined_text v
      else or_join (flags_of linkwidths v))"

fun put_flags :: "cbuf \<Rightarrow> nat \<Rightarrow> int \<Rightarrow> int \<Rightarrow> int \<Rightarrow> (nat \<times> string) list \<Rightarrow> (cbuf \<times> int) option" where
  "put_flags buf off bufsz n v [] = Some (buf, n)"
| "put_flags buf off bufsz n v ((k, t) # fs) = do {
     (buf, n) \<leftarrow> put_if (n < bufsz \<and> bit v k) buf off bufsz n (t @ '' or '');
     put_flags buf off bufsz n v fs
   }"

lemma put_flags_so_far:
  assumes "so_far buf0 buf off bufsz n (or_list ts)" and "0 < bufsz" "bufsz < 2 ^ 31" "off + nat bufsz \<le> length buf0"
  shows "\<exists>buf' n' us. put_flags buf off bufsz n v fs = Some (buf', n') \<and> so_far buf0 buf' off bufsz n' (or_list (ts @ us)) \<and>
    (n' < bufsz \<longrightarrow> us = flags_of fs v) \<and> n' \<le> int (length (or_list (ts @ flags_of fs v))) \<and>
    (bufsz \<le> n' \<longrightarrow> take (nat bufsz - 1) (or_list (ts @ us)) = take (nat bufsz - 1) (or_list (ts @ flags_of fs v)))"
  using assms(1)
proof (induction fs arbitrary: buf n ts)
  case Nil
  then show ?case by (intro exI [of _ buf] exI [of _ n] exI [of _ "[]"]) (simp add: flags_of_def so_far_def)
next
  case (Cons f fs)
  obtain k t where f: "f = (k, t)" by fastforce
  let ?c = "n < bufsz \<and> bit v k"
  have app: "or_list (ts @ [t]) = or_list ts @ t @ '' or ''" by (simp add: or_list_def)
  obtain b m where put: "put_if ?c buf off bufsz n (t @ '' or '') = Some (b, m)"
      and sf: "so_far buf0 b off bufsz m (if ?c then or_list (ts @ [t]) else or_list ts)"
    using put_if_so_far [OF Cons.prems assms(2-4), of ?c "t @ '' or ''"] unfolding app by auto
  show ?case
  proof (cases "n < bufsz")
    case True
    let ?ts = "if bit v k then ts @ [t] else ts"
    have "so_far buf0 b off bufsz m (or_list ?ts)" using sf True by (auto split: if_splits)
    from Cons.IH [OF this] obtain buf' n' us where ih: "put_flags b off bufsz m v fs = Some (buf', n')"
        "so_far buf0 buf' off bufsz n' (or_list (?ts @ us))" "n' < bufsz \<longrightarrow> us = flags_of fs v" "n' \<le> int (length (or_list (?ts @ flags_of fs v)))"
        "bufsz \<le> n' \<longrightarrow> take (nat bufsz - 1) (or_list (?ts @ us)) = take (nat bufsz - 1) (or_list (?ts @ flags_of fs v))"
      by blast
    have e: "?ts @ us = ts @ (if bit v k then t # us else us)"
      "?ts @ flags_of fs v = ts @ flags_of (f # fs) v" by (auto simp: flags_of_def f)
    show ?thesis using put ih unfolding e
      by (intro exI [of _ buf'] exI [of _ n'] exI [of _ "if bit v k then t # us else us"]) (auto simp: f flags_of_def)
  next
    case False
    then have b: "b = buf" "m = n" using put by (simp_all add: put_if_def)
    from Cons.IH [OF Cons.prems] obtain buf' n' us where ih: "put_flags buf off bufsz n v fs = Some (buf', n')"
        "so_far buf0 buf' off bufsz n' (or_list (ts @ us))" by blast
    have stuck: "put_flags buf off bufsz n v fs = Some (buf, n)" for fs
      using False by (induction fs) (auto simp: put_if_def)
    have n: "n = int (length (or_list ts))" using Cons.prems by (simp add: so_far_def)
    have tk: "take (nat bufsz - 1) (or_list (ts @ us)) = take (nat bufsz - 1) (or_list ts)" for us
      using False n by (simp add: or_list_def)
    have tk: "take (nat bufsz - 1) (or_list (ts @ [])) = take (nat bufsz - 1) (or_list (ts @ us))" for us
      using tk [of us] by simp
    show ?thesis
      using stuck False Cons.prems tk n
      by (intro exI [of _ buf] exI [of _ n] exI [of _ "[]"]) (simp add: f put_if_def or_list_def)
  qed
qed

lemma put_flags_result:
  assumes "0 < bufsz" "bufsz < 2 ^ 31" "off + nat bufsz \<le> length buf"
  shows "\<exists>b n. put_flags buf off bufsz 0 v fs = Some (b, n) \<and> within off (nat bufsz) buf b \<and>
    (if int (length (or_list (flags_of fs v))) < bufsz
     then n < bufsz \<and> so_far buf b off bufsz n (or_list (flags_of fs v))
     else bufsz \<le> n \<and> holds b off (take (nat bufsz - 1) (or_list (flags_of fs v))))"
proof -
  have start: "so_far buf buf off bufsz 0 (or_list [])" using so_far_start by (simp add: or_list_def)
  obtain b n us where f: "put_flags buf off bufsz 0 v fs = Some (b, n)"
      "so_far buf b off bufsz n (or_list us)" "n < bufsz \<longrightarrow> us = flags_of fs v"
      "n \<le> int (length (or_list (flags_of fs v)))"
      "bufsz \<le> n \<longrightarrow> take (nat bufsz - 1) (or_list us) = take (nat bufsz - 1) (or_list (flags_of fs v))"
    using put_flags_so_far [OF start assms, of v fs] by auto
  have w: "within off (nat bufsz) buf b" "n = int (length (or_list us))" using f(2) by (simp_all add: so_far_def)
  show ?thesis
  proof (cases "n < bufsz")
    case True
    then show ?thesis using f(1-3) w by auto
  next
    case False
    then have "or_list us \<noteq> []" using w(2) assms(1) by auto
    then have "holds b off (take (nat bufsz - 1) (or_list (flags_of fs v)))"
      using f(2,5) False by (simp add: so_far_def)
    then show ?thesis using f(1,4) w(1) False by auto
  qed
qed

lemma small_bits:
  assumes "drop_bit m (v :: int) = 0" and "v \<noteq> 0"
  shows "\<exists>k < m. bit v k"
proof (rule ccontr)
  assume n: "\<not> (\<exists>k < m. bit v k)"
  have "\<not> bit v k" for k
  proof (cases "k < m")
    case True
    then show ?thesis using n by blast
  next
    case False
    then have "bit v k = bit (drop_bit m v) (k - m)" by (simp add: bit_simps)
    then show ?thesis using assms(1) by simp
  qed
  then have "v = 0" by (simp add: bit_eq_iff)
  then show False using assms(2) by simp
qed

lemma flags_nonempty:
  assumes "drop_bit m (v :: int) = 0" and "v \<noteq> 0" and "set [0..<m] \<subseteq> set (map fst fs)"
  shows "flags_of fs v \<noteq> []"
proof -
  obtain k where "k < m" "bit v k" using small_bits [OF assms(1,2)] by blast
  moreover then obtain t where "(k, t) \<in> set fs" using assms(3) by fastforce
  ultimately show ?thesis by (force simp: flags_of_def filter_empty_conv)
qed

lemma dump_linkwidth_flags:
  assumes "0 < bufsz"
  shows "dump_linkwidth buf off bufsz width = do {
     (buf, n) \<leftarrow> put_flags buf off bufsz 0 width linkwidths;
     if n \<ge> bufsz then Some buf
     else if width = 0 \<or> drop_bit 5 width \<noteq> 0 then snp buf (off + nat n) (bufsz - n) (undefined_text width)
     else if bufsz > 3 then put_char buf (int off + n - 4) NUL
     else Some buf
   }"
  using assms by (simp add: dump_linkwidth_def linkwidths_def case_prod_beta cong: Option.bind_cong)

lemma dump_linkwidth_text:
  assumes "0 < bufsz" "bufsz < 2 ^ 31" "off + nat bufsz \<le> length buf"
  shows "\<exists>buf'. dump_linkwidth buf off bufsz v = Some buf' \<and> within off (nat bufsz) buf buf' \<and>
    holds buf' off (take (nat bufsz - 1)
      (if int (length (or_list (flags_of linkwidths v))) < bufsz then linkwidth_set_text v
       else or_list (flags_of linkwidths v)))"
proof -
  let ?F = "flags_of linkwidths v"
  obtain b n where f: "put_flags buf off bufsz 0 v linkwidths = Some (b, n)" "within off (nat bufsz) buf b"
      "if int (length (or_list ?F)) < bufsz then n < bufsz \<and> so_far buf b off bufsz n (or_list ?F)
       else bufsz \<le> n \<and> holds b off (take (nat bufsz - 1) (or_list ?F))"
    using put_flags_result [OF assms, of v linkwidths] by blast
  note d = dump_linkwidth_flags [OF assms(1), of buf off v, unfolded f(1)]
  show ?thesis
  proof (cases "int (length (or_list ?F)) < bufsz")
    case False
    then show ?thesis using f d by auto
  next
    case True
    then have n: "n < bufsz" and sf: "so_far buf b off bufsz n (or_list ?F)" using f(3) by simp_all
    show ?thesis
    proof (cases "v = 0 \<or> drop_bit 5 v \<noteq> 0")
      case v: True
      then have "linkwidth_set_text v = or_list ?F @ undefined_text v"
        by (auto simp: linkwidth_set_text_def flags_of_def linkwidths_def or_list_def)
      then show ?thesis using so_far_end [OF sf n assms(2,3), of "undefined_text v"] True d n v by auto
    next
      case v: False
      then have ne: "?F \<noteq> []" by (intro flags_nonempty [of 5]) (auto simp: linkwidths_def)
      then have oj: "or_list ?F = or_join ?F @ '' or ''" by (rule or_list_join)
      then have long: "3 < bufsz" using True by simp
      have tx: "linkwidth_set_text v = or_join ?F" using v by (simp add: linkwidth_set_text_def)
      have "take (nat bufsz - 1) (or_join ?F) = or_join ?F" using True oj by simp
      then show ?thesis
        using so_far_cut [OF sf [unfolded oj] n assms(3)] True d n v tx long by auto
    qed
  qed
qed

lemma holds_wf: "holds buf off s \<Longrightarrow> off + length s < length buf"
  by (simp add: holds_def)

lemma dec_no_NUL: "NUL \<notin> set (dec n)"
  using dec_digits [of n] by (auto simp: list_all_iff is_digit_def char_digit_def NUL_def Let_def)

lemma undefined_no_NUL: "NUL \<notin> set (undefined_text v)"
  using dec_no_NUL by (auto simp: undefined_text_def dec_int_def NUL_def)

lemma or_list_no_NUL: "(\<And>k t. (k, t) \<in> set fs \<Longrightarrow> NUL \<notin> set t) \<Longrightarrow> NUL \<notin> set (or_list (flags_of fs v))"
  by (auto simp: or_list_def flags_of_def) (auto simp: NUL_def)

lemma or_join_no_NUL:
  assumes "\<And>k t. (k, t) \<in> set fs \<Longrightarrow> NUL \<notin> set t"
  shows "NUL \<notin> set (or_join (flags_of fs v))"
proof (cases "flags_of fs v = []")
  case True
  then show ?thesis by simp
next
  case False
  then have "set (or_join (flags_of fs v)) \<subseteq> set (or_list (flags_of fs v))"
    by (auto simp: or_list_join)
  then show ?thesis using or_list_no_NUL [of fs v] assms by blast
qed

lemma linkwidths_no_NUL: "(k, t) \<in> set linkwidths \<Longrightarrow> NUL \<notin> set t"
  by (auto simp: linkwidths_def NUL_def)

lemma linkwidth_no_NUL: "NUL \<notin> set (linkwidth_set_text v)"
  using or_list_no_NUL [OF linkwidths_no_NUL] or_join_no_NUL [OF linkwidths_no_NUL] undefined_no_NUL
  by (simp add: linkwidth_set_text_def)

definition linkwidthsup_text :: "int \<Rightarrow> string" where
  "linkwidthsup_text v = linkwidth_set_text v @
     (if drop_bit 5 v = 0 \<and> v \<notin> {1, 3, 7, 11, 15, 17, 19, 23, 27, 31} then iba_extension else [])"

text \<open>What a dump leaves in the buffer: some text that fits, and the given one if there is room for it.\<close>

definition dumped :: "cbuf \<Rightarrow> cbuf \<Rightarrow> nat \<Rightarrow> int \<Rightarrow> string \<Rightarrow> bool" where
  "dumped buf buf' off bufsz s \<longleftrightarrow> within off (nat bufsz) buf buf' \<and>
     (\<exists>t. holds buf' off t \<and> int (length t) < bufsz \<and> (int (length s) + 4 < bufsz \<longrightarrow> t = s))"

lemma dumpedI:
  assumes "within off (nat bufsz) buf buf'" and "holds buf' off (take (nat bufsz - 1) t)" and "0 < bufsz"
    and "int (length s) + 4 < bufsz \<Longrightarrow> t = s"
  shows "dumped buf buf' off bufsz s"
  unfolding dumped_def
  by (intro conjI exI [of _ "take (nat bufsz - 1) t"]) (use assms in auto)

lemma dump_snp:
  assumes "0 < bufsz" "bufsz < 2 ^ 31" "off + nat bufsz \<le> length buf"
  shows "\<exists>buf'. snp buf off bufsz t = Some buf' \<and> dumped buf buf' off bufsz t"
  using snp_once [OF assms, of t] assms(1) by (blast intro: dumpedI)

lemma or_list_fits:
  assumes "drop_bit m v = 0" "v \<noteq> 0" and "set [0..<m] \<subseteq> set (map fst fs)"
  shows "length (or_list (flags_of fs v)) = length (or_join (flags_of fs v)) + 4"
  using or_list_join [OF flags_nonempty [OF assms]] by simp

lemma linkwidth_fits:
  "length (or_list (flags_of linkwidths v)) \<le> length (linkwidth_set_text v) + 4"
proof (cases "v = 0 \<or> drop_bit 5 v \<noteq> 0")
  case True
  then show ?thesis by (auto simp: linkwidth_set_text_def flags_of_def linkwidths_def or_list_def)
next
  case False
  then have "length (or_list (flags_of linkwidths v)) = length (or_join (flags_of linkwidths v)) + 4"
    by (intro or_list_fits [of 5]) (auto simp: linkwidths_def)
  then show ?thesis using False by (simp add: linkwidth_set_text_def)
qed

lemma dump_linkwidth_dumped:
  assumes "0 < bufsz" "bufsz < 2 ^ 31" "off + nat bufsz \<le> length buf"
  shows "\<exists>buf'. dump_linkwidth buf off bufsz v = Some buf' \<and> dumped buf buf' off bufsz (linkwidth_set_text v)"
proof -
  let ?t = "if int (length (or_list (flags_of linkwidths v))) < bufsz then linkwidth_set_text v
       else or_list (flags_of linkwidths v)"
  obtain buf' where b: "dump_linkwidth buf off bufsz v = Some buf'" "within off (nat bufsz) buf buf'"
      "holds buf' off (take (nat bufsz - 1) ?t)"
    using dump_linkwidth_text [OF assms, of v] by blast
  have "dumped buf buf' off bufsz (linkwidth_set_text v)"
    by (rule dumpedI [OF b(2,3) assms(1)]) (use linkwidth_fits [of v] in auto)
  then show ?thesis using b(1) by blast
qed

lemma mad_dump_linkwidthsup_dumped:
  assumes "0 < bufsz" "bufsz < 2 ^ 31" "off + nat bufsz \<le> length buf" and "val_int e val = Some v"
  shows "\<exists>buf'. mad_dump_linkwidthsup e buf off bufsz val valsz = Some buf' \<and>
    dumped buf buf' off bufsz (linkwidthsup_text v)"
proof -
  let ?W = "{1, 3, 7, 11, 15, 17, 19, 23, 27, 31} :: int set"
  let ?t = "if int (length (or_list (flags_of linkwidths v))) < bufsz then linkwidth_set_text v
       else or_list (flags_of linkwidths v)"
  let ?s = "take (nat bufsz - 1) ?t"
  obtain b where b: "dump_linkwidth buf off bufsz v = Some b" "within off (nat bufsz) buf b" "holds b off ?s"
    using dump_linkwidth_text [OF assms(1-3), of v] by blast
  have t: "?t = linkwidth_set_text v" if "int (length (linkwidthsup_text v)) + 4 < bufsz"
    using that linkwidth_fits [of v] by (auto simp: linkwidthsup_text_def split: if_splits)
  show ?thesis
  proof (cases "v \<in> ?W \<or> drop_bit 5 v \<noteq> 0")
    case True
    then have "linkwidthsup_text v = linkwidth_set_text v" by (auto simp: linkwidthsup_text_def)
    moreover have "mad_dump_linkwidthsup e buf off bufsz val valsz = Some b"
      using True b(1) assms(4) unfolding mad_dump_linkwidthsup_def by auto
    ultimately show ?thesis using dumpedI [OF b(2,3) assms(1), of "linkwidthsup_text v"] t by auto
  next
    case False
    have nn: "NUL \<notin> set ?s"
      using linkwidth_no_NUL [of v] or_list_no_NUL [of linkwidths v, OF linkwidths_no_NUL] in_set_takeD [of NUL "nat bufsz - 1" ?t]
      by (auto split: if_splits)
    have len: "length b = length buf" by (rule within_length [OF b(2)])
    have n: "int (length ?s) < bufsz" using assms(1) by auto
    obtain b' where b': "snp b (off + length ?s) (bufsz - int (length ?s)) iba_extension = Some b'"
        "holds b' off (take (nat bufsz - 1) (?s @ iba_extension))" "within off (nat bufsz) b b'"
      using snp_append [OF holds_prefix_at [OF b(3)] refl n assms(2), of iba_extension] assms(3) len by auto
    have "mad_dump_linkwidthsup e buf off bufsz val valsz = Some b'"
      using False b(1) b'(1) assms(4) holds_strlen(1) [OF b(3) nn] unfolding mad_dump_linkwidthsup_def by auto
    moreover have "dumped buf b' off bufsz (linkwidthsup_text v)"
    proof (rule dumpedI [OF within_trans [OF b(2) b'(3)] b'(2) assms(1)])
      assume *: "int (length (linkwidthsup_text v)) + 4 < bufsz"
      then have "?s = linkwidth_set_text v" using t [OF *] by (auto simp: linkwidthsup_text_def)
      then show "?s @ iba_extension = linkwidthsup_text v" using False by (auto simp: linkwidthsup_text_def)
    qed
    ultimately show ?thesis by blast
  qed
qed

definition linkspeeds :: "(nat \<times> string) list" where
  "linkspeeds = [(0, ''2.5 Gbps''), (1, ''5.0 Gbps''), (2, ''10.0 Gbps'')]"

definition linkspeed_set_text :: "int \<Rightarrow> string" where
  "linkspeed_set_text v =
     (if v = 0 then undefined_text 0 @ iba_extension
      else if drop_bit 3 v \<noteq> 0 then or_list (flags_of linkspeeds v) @ undefined_text v
      else or_join (flags_of linkspeeds v) @ (if v \<in> {1, 3, 5, 7} then [] else iba_extension))"

lemma dump_linkspeed_flags:
  assumes "0 < bufsz"
  shows "dump_linkspeed buf off bufsz speed = do {
     (buf, n) \<leftarrow> put_flags buf off bufsz 0 speed linkspeeds;
     if n \<ge> bufsz then Some buf
     else do {
       (buf, n) \<leftarrow>
         (if speed = 0 \<or> drop_bit 3 speed \<noteq> 0 then put_if True buf off bufsz n (undefined_text speed)
          else if bufsz > 3 then map_option (\<lambda>buf. (buf, n - 4)) (put_char buf (int off + n - 4) NUL)
          else Some (buf, n));
       if n \<ge> bufsz then Some buf
       else if speed \<in> {1, 3, 5, 7} then Some buf
       else if drop_bit 3 speed = 0 then snp buf (off + nat n) (bufsz - n) iba_extension
       else Some buf
     }
   }"
  using assms by (simp add: dump_linkspeed_def linkspeeds_def case_prod_beta cong: Option.bind_cong)

lemma dump_linkspeed_dumped:
  assumes "0 < bufsz" "bufsz < 2 ^ 31" "off + nat bufsz \<le> length buf"
  shows "\<exists>buf'. dump_linkspeed buf off bufsz v = Some buf' \<and> dumped buf buf' off bufsz (linkspeed_set_text v)"
proof -
  let ?F = "flags_of linkspeeds v" and ?S = "{1, 3, 5, 7} :: int set"
  obtain b n where f: "put_flags buf off bufsz 0 v linkspeeds = Some (b, n)" "within off (nat bufsz) buf b"
      "if int (length (or_list ?F)) < bufsz then n < bufsz \<and> so_far buf b off bufsz n (or_list ?F)
       else bufsz \<le> n \<and> holds b off (take (nat bufsz - 1) (or_list ?F))"
    using put_flags_result [OF assms, of v linkspeeds] by blast
  note d = dump_linkspeed_flags [OF assms(1), of buf off v, unfolded f(1)]
  have len: "length b = length buf" by (rule within_length [OF f(2)])
  have S: "drop_bit 3 v = 0" "v \<noteq> 0" if "v \<in> ?S" using that by auto
  show ?thesis
  proof (cases "v = 0 \<or> drop_bit 3 v \<noteq> 0")
    case v: True
    then have nS: "v \<notin> ?S" using S by blast
    have F0: "or_list ?F = []" if "v = 0" using that by (simp add: flags_of_def linkspeeds_def or_list_def)
    show ?thesis
    proof (cases "int (length (or_list ?F)) < bufsz")
      case False
      then have "dumped buf b off bufsz (linkspeed_set_text v)"
        using f(2,3) assms(1) v F0 by (intro dumpedI [where t = "or_list ?F"]) (auto simp: linkspeed_set_text_def)
      then show ?thesis using False f(3) d by simp
    next
      case True
      then have n: "n < bufsz" and sf: "so_far buf b off bufsz n (or_list ?F)" using f(3) by simp_all
      obtain b' m where put: "put_if True b off bufsz n (undefined_text v) = Some (b', m)"
          and sf': "so_far buf b' off bufsz m (or_list ?F @ undefined_text v)"
        using put_if_so_far [OF sf assms, of True "undefined_text v"] n by (auto simp: undefined_text_def)
      have h: "holds b' off (take (nat bufsz - 1) (or_list ?F @ undefined_text v))" "within off (nat bufsz) buf b'"
          "m = int (length (or_list ?F @ undefined_text v))"
        using sf' by (simp_all add: so_far_def undefined_text_def)
      show ?thesis
      proof (cases "m < bufsz \<and> v = 0")
        case ext: True
        obtain b'' where e: "snp b' (off + nat m) (bufsz - m) iba_extension = Some b''" "within off (nat bufsz) buf b''"
            "holds b'' off (take (nat bufsz - 1) ((or_list ?F @ undefined_text v) @ iba_extension))"
          using so_far_end [OF sf' _ assms(2,3), of iba_extension] ext by blast
        have "dumped buf b'' off bufsz (linkspeed_set_text v)"
          by (rule dumpedI [OF e(2,3) assms(1)]) (use ext F0 in \<open>simp add: linkspeed_set_text_def\<close>)
        then show ?thesis using d n v put ext e(1) by simp
      next
        case False
        have "dumped buf b' off bufsz (linkspeed_set_text v)"
          by (rule dumpedI [OF h(2,1) assms(1)]) (use False F0 h(3) v in \<open>auto simp: linkspeed_set_text_def\<close>)
        then show ?thesis using d n v put nS False by auto
      qed
    qed
  next
    case v: False
    then have oj: "or_list ?F = or_join ?F @ '' or ''"
      by (intro or_list_join flags_nonempty [of 3]) (auto simp: linkspeeds_def)
    show ?thesis
    proof (cases "int (length (or_list ?F)) < bufsz")
      case False
      then have "dumped buf b off bufsz (linkspeed_set_text v)"
        using f(2,3) assms(1) v oj by (intro dumpedI [where t = "or_list ?F"]) (auto simp: linkspeed_set_text_def)
      then show ?thesis using False f(3) d by simp
    next
      case True
      then have n: "n < bufsz" and sf: "so_far buf b off bufsz n (or_list ?F)" using f(3) by simp_all
      then have long: "3 < bufsz" "n = int (length (or_join ?F)) + 4" using True oj by (simp_all add: so_far_def)
      obtain b' where cut: "put_char b (int off + n - 4) NUL = Some b'" "within off (nat bufsz) buf b'" "holds b' off (or_join ?F)"
        using so_far_cut [OF sf [unfolded oj] n assms(3)] by auto
      show ?thesis
      proof (cases "v \<in> ?S")
        case in_S: True
        have "dumped buf b' off bufsz (linkspeed_set_text v)"
          unfolding dumped_def
          by (intro conjI exI [of _ "or_join ?F"]) (use cut long n v in_S in \<open>auto simp: linkspeed_set_text_def\<close>)
        then show ?thesis using d n v cut long in_S by auto
      next
        case nS: False
        have m: "n - 4 = int (length (or_join ?F))" "n - 4 < bufsz" using long n by simp_all
        obtain b'' where e: "snp b' (off + nat (n - 4)) (bufsz - (n - 4)) iba_extension = Some b''"
            "holds b'' off (take (nat bufsz - 1) (or_join ?F @ iba_extension))" "within off (nat bufsz) b' b''"
          using snp_append [OF holds_prefix_at [OF cut(3)] m assms(2), of iba_extension] assms(3)
            within_length [OF cut(2)] by auto
        have "dumped buf b'' off bufsz (linkspeed_set_text v)"
          by (rule dumpedI [OF within_trans [OF cut(2) e(3)] e(2) assms(1)]) (use v nS in \<open>auto simp: linkspeed_set_text_def\<close>)
        then show ?thesis using d n v cut(1) long(1) nS m(2) e(1) by auto
      qed
    qed
  qed
qed

section \<open>The text of a value\<close>

definition value_text :: "dump_fn \<Rightarrow> nat \<Rightarrow> u32 \<Rightarrow> string" where
  \<comment> \<open>of a value of \<open>n\<close> bytes, for the functions that keep to their buffer\<close>
  "value_text d n w = (let v = sint w in case d of
      Dump_uint \<Rightarrow> dec (unat w)
    | Dump_hex \<Rightarrow> ''0x'' @ pad0 (2 * n) (hex False (unat w))
    | Dump_rhex \<Rightarrow> pad0 (2 * n) (hex False (unat w))
    | Dump_bitfield \<Rightarrow> ''0x'' @ hex False (unat w)
    | Dump_linkwidth \<Rightarrow> linkwidth_text v
    | Dump_linkwidthsup \<Rightarrow> linkwidthsup_text v
    | Dump_linkwidthen \<Rightarrow> linkwidth_set_text v
    | Dump_linkdowndefstate \<Rightarrow> linkdowndefstate_text v
    | Dump_linkspeed \<Rightarrow> linkspeed_text v
    | Dump_linkspeedsup \<Rightarrow> linkspeed_set_text v
    | Dump_linkspeeden \<Rightarrow> linkspeed_set_text v
    | Dump_linkspeedext \<Rightarrow> linkspeedext_text v
    | Dump_portstate \<Rightarrow> portstate_text v
    | Dump_physportstate \<Rightarrow> physportstate_text v
    | Dump_mtu \<Rightarrow> mtu_text v
    | Dump_vlcap \<Rightarrow> vlcap_text v
    | Dump_opervls \<Rightarrow> opervls_text v
    | Dump_node_type \<Rightarrow> node_type_text v
    | _ \<Rightarrow> [])"

definition keeps_to_buffer :: "dump_fn \<Rightarrow> bool" where
  "keeps_to_buffer d \<longleftrightarrow> d \<notin> {Dump_array, Dump_string, Dump_linkspeedextsup, Dump_linkspeedexten, Dump_portcapmask,
     Dump_portcapmask2}"

lemma mask_bytes:
  assumes "unat (w :: u32) < 2 ^ (8 * n)"
  shows "n = 1 \<Longrightarrow> w AND 0xff = w" "n = 2 \<Longrightarrow> w AND 0xffff = w" "n = 3 \<Longrightarrow> w AND 0xffffff = w"
proof -
  have t: "w AND mask k = w" if "unat w < 2 ^ k" for k
    using that by (intro word_unat_eq_iff [THEN iffD2])
      (simp add: take_bit_eq_mask [symmetric] unsigned_take_bit_eq take_bit_nat_eq_self)
  show "n = 1 \<Longrightarrow> w AND 0xff = w" "n = 2 \<Longrightarrow> w AND 0xffff = w" "n = 3 \<Longrightarrow> w AND 0xffffff = w"
    using t [of 8] t [of 16] t [of 24] assms by (simp_all add: mask_eq_exp_minus_1)
qed

lemma run_dump_dumped:
  assumes "0 < bufsz" "bufsz < 2 ^ 31" "off + nat bufsz \<le> length buf" and "keeps_to_buffer d"
    and "val_u32 e val = Some w" and "0 < n" "n \<le> 4" "unat w < 2 ^ (8 * n)"
  shows "\<exists>buf'. run_dump d e buf off bufsz val (int n) = Some buf' \<and> dumped buf buf' off bufsz (value_text d n w)"
proof -
  have v: "val_int e val = Some (sint w)" using assms(5) by (simp add: val_int_def int_of_u32_def)
  have n: "n = 1 \<or> n = 2 \<or> n = 3 \<or> n = 4" using assms(6,7) by linarith
  note m = mask_bytes [OF assms(8)]
  note s = dump_snp [OF assms(1-3)] 
  show ?thesis
    using assms(4) n m assms(5) v s dump_linkwidth_dumped [OF assms(1-3)] dump_linkspeed_dumped [OF assms(1-3)]
      mad_dump_linkwidthsup_dumped [OF assms(1-3) v]
    by (cases d) (auto simp: keeps_to_buffer_def value_text_def mad_dump_uint_def mad_dump_hex_def mad_dump_rhex_def
      mad_dump_bitfield_def hex_value_def mad_dump_linkwidth_def mad_dump_linkwidthen_def mad_dump_linkspeed_def mad_dump_linkspeedsup_def
      mad_dump_linkspeeden_def mad_dump_linkspeedext_def mad_dump_portstate_def mad_dump_physportstate_def
      mad_dump_linkdowndefstate_def mad_dump_mtu_def mad_dump_vlcap_def mad_dump_opervls_def mad_dump_node_type_def
      nat_mult_distrib Let_def)
qed

section \<open>The line of a field\<close>

lemma length_dots: "dots nm = Some ds \<Longrightarrow> length (nm @ '':'' @ ds) = 33"
  by (auto simp: dots_def split: if_splits)

lemma holds_keep:
  \<comment> \<open>writing a terminator behind the text\<close>
  assumes "holds buf off t" and "off + length t < i" "i < length buf"
  shows "holds (buf[i := NUL]) off t"
proof -
  have "take (Suc (length t)) (drop off (buf[i := NUL])) = take (Suc (length t)) (drop off buf)"
    using assms(2) by (intro nth_equalityI) auto
  then show ?thesis using assms(1,3) by (simp add: holds_def)
qed

lemma holds_last:
  assumes "holds buf off t" and "int (length t) < bufsz" and "off + nat bufsz \<le> length buf" 
  shows "\<exists>buf'. put_char buf (int off + bufsz - 1) NUL = Some buf' \<and> holds buf' off t \<and> within off (nat bufsz) buf buf'"
proof -
  let ?i = "nat (int off + bufsz - 1)"
  have i: "?i = off + nat bufsz - 1" "0 < nat bufsz" "?i < length buf" using assms(2,3) by linarith+
  have p: "put_char buf (int off + bufsz - 1) NUL = Some (buf[?i := NUL])"
    using i assms(2) by (simp add: put_char_def mem_wr_def)
  have w: "within off (nat bufsz) buf (buf[?i := NUL])"
    by (rule within_mono [OF within_wr [of buf ?i NUL]]) (use i in \<open>auto simp: mem_wr_def\<close>)
  have "holds (buf[?i := NUL]) off t"
  proof (cases "?i = off + length t")
    case True
    have "take (Suc (length t)) (drop off buf) ! length t = NUL" using assms(1) by (simp add: holds_def)
    then have "buf ! ?i = NUL" using True holds_wf [OF assms(1)] by simp
    then have "buf[?i := NUL] = buf" by (metis list_update_id)
    then show ?thesis using assms(1) by simp
  next
    case False
    then show ?thesis using holds_keep [OF assms(1)] i assms(2) by auto
  qed
  then show ?thesis using p w by blast
qed

definition dumps :: "endian \<Rightarrow> dump_fn \<Rightarrow> mem \<Rightarrow> nat \<Rightarrow> string \<Rightarrow> bool" where
  \<comment> \<open>the function prints the text of this value in any buffer, and leaves a buffer of no size alone\<close>
  "dumps e d val len s \<longleftrightarrow>
     (\<forall>buf off bufsz. 0 < bufsz \<and> bufsz < 2 ^ 31 \<and> off + nat bufsz \<le> length buf \<longrightarrow>
        (\<exists>buf'. run_dump d e buf off bufsz val (int ((len + 7) div 8)) = Some buf' \<and> dumped buf buf' off bufsz s)) \<and>
     (d \<noteq> Dump_linkwidthsup \<longrightarrow> (\<forall>buf off. run_dump d e buf off 0 val (int ((len + 7) div 8)) = Some buf))"

lemma snp_zero: "snp buf off 0 t = Some buf"
  by (simp add: snp_def size_of_int_def c_snprintf_def)

lemma put_flags_zero: "put_if c buf off 0 0 t = Some (buf, if c then int (length t) else 0)"
  by (simp add: put_if_def snp_zero)

lemma dump_sets_zero: "dump_linkwidth buf off 0 v = Some buf" "dump_linkspeed buf off 0 v = Some buf"
proof -
  have *: "put_if (n < 0 \<and> c) buf off 0 n t = Some (buf, n)" if "0 \<le> n" for n c t
    using that by (simp add: put_if_def)
  show "dump_linkwidth buf off 0 v = Some buf" "dump_linkspeed buf off 0 v = Some buf"
    by (simp_all add: dump_linkwidth_def dump_linkspeed_def put_flags_zero *)
qed

lemma dumps_small:
  assumes "keeps_to_buffer d" and "val_u32 e val = Some w" and "0 < len" "len \<le> 32" "unat w < 2 ^ len"
  shows "dumps e d val len (value_text d ((len + 7) div 8) w)"
proof -
  let ?n = "(len + 7) div 8"
  have n: "0 < ?n" "?n \<le> 4" "len \<le> 8 * ?n" using assms(3,4) by auto
  have w: "unat w < 2 ^ (8 * ?n)" using assms(5) n(3) power_increasing [of len "8 * ?n" "2 :: nat"] by linarith
  have v: "val_int e val = Some (sint w)" using assms(2) by (simp add: val_int_def int_of_u32_def)
  have n': "?n = 1 \<or> ?n = 2 \<or> ?n = 3 \<or> ?n = 4" using n by linarith
  have "run_dump d e buf off 0 val (int ?n) = Some buf" if "d \<noteq> Dump_linkwidthsup" for buf off
    using that assms(1,2) v n'
    by (cases d) (auto simp: keeps_to_buffer_def snp_zero mad_dump_uint_def mad_dump_hex_def mad_dump_rhex_def
      mad_dump_bitfield_def hex_value_def mad_dump_linkwidth_def mad_dump_linkwidthen_def mad_dump_linkspeed_def mad_dump_linkspeedsup_def
      mad_dump_linkspeeden_def mad_dump_linkspeedext_def mad_dump_portstate_def mad_dump_physportstate_def
      mad_dump_linkdowndefstate_def mad_dump_mtu_def mad_dump_vlcap_def mad_dump_opervls_def mad_dump_node_type_def
      dump_sets_zero)
  then show ?thesis
    unfolding dumps_def using run_dump_dumped [OF _ _ _ assms(1,2) n(1,2) w] by blast
qed

definition value_text64 :: "dump_fn \<Rightarrow> u64 \<Rightarrow> string" where
  "value_text64 d w = (case d of Dump_uint \<Rightarrow> dec (unat w) | Dump_hex \<Rightarrow> ''0x'' @ pad0 16 (hex False (unat w))
     | Dump_rhex \<Rightarrow> pad0 16 (hex False (unat w)) | _ \<Rightarrow> [])"

lemma dumps_64:
  assumes "d \<in> {Dump_uint, Dump_hex, Dump_rhex}" and "val_u64 e val = Some w"
  shows "dumps e d val 64 (value_text64 d w)"
  using assms dump_snp
  by (auto simp: dumps_def snp_zero value_text64_def mad_dump_uint_def mad_dump_hex_def mad_dump_rhex_def hex_value_def)

lemma mad_dump_val_fn_dumped:
  assumes "0 < bufsz" "bufsz < 2 ^ 31" "off + nat bufsz \<le> length buf" and "dumps e d val len s"
  shows "\<exists>buf'. mad_dump_val_fn e (Some d) len buf off bufsz val = Some buf' \<and> dumped buf buf' off bufsz s"
proof -
  obtain b where b: "run_dump d e buf off bufsz val (int ((len + 7) div 8)) = Some b" "dumped buf b off bufsz s"
    using assms unfolding dumps_def by blast
  then obtain t where t: "within off (nat bufsz) buf b" "holds b off t" "int (length t) < bufsz"
      "int (length s) + 4 < bufsz \<longrightarrow> t = s" by (auto simp: dumped_def)
  obtain b' where "put_char b (int off + bufsz - 1) NUL = Some b'" "holds b' off t" "within off (nat bufsz) b b'"
    using holds_last [OF t(2,3)] assms(3) within_length [OF t(1)] by auto
  then show ?thesis using b(1) t within_trans [OF t(1)] by (auto simp: mad_dump_val_fn_def dumped_def)
qed

lemma holds_join:
  assumes "prefix_at b off h" and "within (off + length h) m b c" and "holds c (off + length h) t"
  shows "holds c off (h @ t)"
proof -
  let ?k = "length h"
  have "take (?k + Suc (length t)) (drop off c) = take ?k (drop off c) @ take (Suc (length t)) (drop ?k (drop off c))"
    by (rule take_add)
  moreover have "take ?k (drop off c) = take ?k (drop off b)"
  proof -
    have "take (off + ?k) c = take (off + ?k) b" using assms(2) by (simp add: within_def)
    then have "drop off (take (off + ?k) c) = drop off (take (off + ?k) b)" by simp
    then show ?thesis by (simp add: drop_take)
  qed
  moreover have "take ?k (drop off b) = h" using assms(1) by (simp add: prefix_at_def)
  moreover have "take (Suc (length t)) (drop ?k (drop off c)) = t @ [NUL]" using assms(3) by (simp add: holds_def add.commute)
  ultimately show ?thesis
    using holds_wf [OF assms(3)] by (simp add: holds_def add.commute add.left_commute)
qed

lemma mad_dump_field_fn_dumped:
  assumes "33 < bufsz" "bufsz < 2 ^ 31" "off + nat bufsz \<le> length buf" and "dumps e d val len v" and "length nm < 32"
  shows "\<exists>buf'. mad_dump_field_fn e (Some d) len nm buf off bufsz val = Some (Some buf') \<and>
    dumped buf buf' off bufsz (nm @ '':'' @ replicate (32 - length nm) CHR ''.'' @ v)"
proof -
  let ?h = "nm @ '':'' @ replicate (32 - length nm) CHR ''.''"
  have ds: "dots nm = Some (replicate (32 - length nm) CHR ''.'')" using assms(5) by (simp add: dots_def)
  then have h: "length ?h = 33" by (rule length_dots)
  obtain b where b: "snp buf off bufsz ?h = Some b" "holds b off (take (nat bufsz - 1) ?h)" "within off (nat bufsz) buf b"
    using snp_once [of bufsz off buf ?h] assms(1-3) by auto
  have hb: "prefix_at b off ?h" using b(2) h assms(1) by (intro holds_prefix_at) auto
  have win: "0 < bufsz - 33" "bufsz - 33 < 2 ^ 31" "off + 33 + nat (bufsz - 33) \<le> length b"
    using assms(1-3) within_length [OF b(3)] by auto
  obtain c where c: "mad_dump_val_fn e (Some d) len b (off + 33) (bufsz - 33) val = Some c"
      "dumped b c (off + 33) (bufsz - 33) v"
    using mad_dump_val_fn_dumped [OF win assms(4)] by blast
  then obtain t where t: "within (off + 33) (nat (bufsz - 33)) b c" "holds c (off + 33) t" "int (length t) < bufsz - 33"
      "int (length v) + 4 < bufsz - 33 \<longrightarrow> t = v" by (auto simp: dumped_def)
  have all: "holds c off (?h @ t)" by (rule holds_join [OF hb, unfolded h, OF t(1,2)])
  have wc: "within off (nat bufsz) buf c"
    by (rule within_trans [OF b(3) within_mono [OF t(1)]]) (use assms(1) in auto)
  have lt: "int (length (?h @ t)) < bufsz" unfolding length_append [of ?h t] h using t(3) by linarith
  obtain z where z: "put_char c (int off + bufsz - 1) NUL = Some z" "holds z off (?h @ t)" "within off (nat bufsz) c z"
    using holds_last [OF all lt] assms(3) within_length [OF wc] by auto
  have "int (length (?h @ v)) = 33 + int (length v)" unfolding length_append [of ?h v] h by simp
  then have "dumped buf z off bufsz (?h @ v)"
    unfolding dumped_def using within_trans [OF wc z(3)] z(2) lt t(4) by (intro conjI exI [of _ "?h @ t"]) auto
  then have "dumped buf z off bufsz (nm @ '':'' @ replicate (32 - length nm) CHR ''.'' @ v)" by simp
  moreover have "mad_dump_field_fn e (Some d) len nm buf off bufsz val = Some (Some z)"
    using assms(1) ds b(1) c(1) z(1) h by (simp add: mad_dump_field_fn_def Let_def add.commute [of off 33])
  ultimately show ?thesis by blast
qed

lemma val_u32_native: "length rest = k \<Longrightarrow> val_u32 e (native_bytes e 4 (w :: u32) @ rest) = Some w"
  by (simp add: val_u32_def mem_load_def native_word32_inverse)

lemma val_u64_native: "val_u64 e (native_bytes e 8 (w :: u64) @ rest) = Some w"
  by (simp add: val_u64_def mem_load_def native_word64_inverse)

lemma decode_small_bytes:
  assumes "field_desc n = Some f" "0 < bitlen f" "bitlen f \<le> 32" "n \<noteq> 0" and "get_field data 0 f = Some w" and "4 \<le> length val"
  shows "mad_decode_field e data n val = Some (native_bytes e 4 w @ drop 4 val)"
  using assms by (simp add: mad_decode_field_def mem_store_def)

lemma field_number: "field_desc n = Some f \<Longrightarrow> bitlen f \<noteq> 0 \<Longrightarrow> 0 < n \<and> n < IB_FIELD_LAST"
proof -
  assume d: "field_desc n = Some f" and ne: "bitlen f \<noteq> 0"
  have "field_desc 0 = Some no_field"
    by (simp add: field_desc_def length_ib_mad_f ib_mad_f_def nth_append ib_mad_f_1_def)
  moreover have "field_desc 663 = Some no_field"
    by (simp add: field_desc_def length_ib_mad_f ib_mad_f_def nth_append ib_mad_f_7_def)
  ultimately have "n \<noteq> 0" "n \<noteq> 663" using d ne by (metis no_field_def ib_field_t.select_convs(2) option.inject)+
  moreover have "n < 664" using d by (simp add: field_desc_def length_ib_mad_f split: if_splits)
  ultimately show ?thesis by (simp add: IB_FIELD_LAST_def)
qed

text \<open>
  Property. Decoding a field of at most 32 bits and dumping it writes the line
  \<open>name:....value\<close>, with the name and the dots taking 33 characters, for every field whose dump function
  keeps to its buffer: nothing outside the \<open>bufsz\<close> characters changes, a terminated text is left there, and
  it is the whole line when the line and four characters more fit (\<open>dumped\<close>).
\<close>
theorem mad_dump_field_text:
  assumes "field_desc n = Some f" "0 < bitlen f" "bitlen f \<le> 32" and "def_dump_fn f = Some d" "keeps_to_buffer d"
    and "field_in (length data) 0 f" and "4 \<le> length tmp"
    and "33 < bufsz" "bufsz < 2 ^ 31" "off + nat bufsz \<le> length buf"
  shows "\<exists>w val buf'. mad_get_field data 0 n = Some w \<and> mad_decode_field e data n tmp = Some val \<and>
    mad_dump_field e n buf off bufsz val = Some (Some buf') \<and>
    dumped buf buf' off bufsz (name f @ '':'' @ replicate (32 - length (name f)) CHR ''.'' @
      value_text d ((bitlen f + 7) div 8) w)"
proof -
  obtain w where w: "mad_get_field data 0 n = Some w" "get_field data 0 f = Some w" "unat w < 2 ^ bitlen f"
    using get_field_small [OF assms(1-3,6)] by blast
  have n: "0 < n" "n < IB_FIELD_LAST" using field_number [OF assms(1)] assms(2) by simp_all
  let ?val = "native_bytes e 4 w @ drop 4 tmp"
  have dec: "mad_decode_field e data n tmp = Some ?val"
    using n by (intro decode_small_bytes [OF assms(1-3) _ w(2) assms(7)]) simp
  have nm: "length (name f) < 32" using field_desc_ok [OF assms(1)] assms(2) by (simp add: entry_ok_def)
  obtain buf' where "mad_dump_field_fn e (Some d) (bitlen f) (name f) buf off bufsz ?val = Some (Some buf')"
      "dumped buf buf' off bufsz (name f @ '':'' @ replicate (32 - length (name f)) CHR ''.'' @
         value_text d ((bitlen f + 7) div 8) w)"
    using mad_dump_field_fn_dumped [OF assms(8-10) dumps_small [OF assms(5) val_u32_native [OF refl] assms(2,3) w(3)] nm] by blast
  moreover have "mad_dump_field e n buf off bufsz ?val =
      mad_dump_field_fn e (Some d) (bitlen f) (name f) buf off bufsz ?val"
    using n assms(1,4) by (simp add: mad_dump_field_def IB_NO_FIELD_def)
  ultimately show ?thesis using w(1) dec by auto
qed

theorem mad_dump_field_text_witness:
  "\<exists>val buf'. mad_decode_field BE (replicate 64 0) IB_PORT_LID_F (replicate 64 0) = Some val \<and>
    mad_dump_field BE IB_PORT_LID_F (replicate 64 NUL) 0 64 val = Some (Some buf') \<and>
    holds buf' 0 ''Lid:.............................0''"
proof -
  have f: "field_in (length (replicate 64 0 :: mem)) 0
      \<lparr>bitoffs = 144, bitlen = 16, name = ''Lid'', def_dump_fn = Some Dump_uint\<rparr>"
    by (simp add: field_in_def field_end_def field_start_def)
  have g: "mad_get_field (replicate 64 0) 0 IB_PORT_LID_F = Some 0" by (simp add: eval_field)
  have s: "replicate 29 CHR ''.'' = ''.............................''" by (simp add: numeral_eq_Suc)
  show ?thesis
    using mad_dump_field_text [OF fd_IB_PORT_LID_F _ _ _ _ f, of Dump_uint "replicate 64 0" 64 0 "replicate 64 NUL" BE] g
    by (auto simp: keeps_to_buffer_def dumped_def value_text_def dec_0 s)
qed

section \<open>Reading a number back\<close>

lemma hex_digit_value: "d < 16 \<Longrightarrow> char_digit (hex_digit False d) = Some d"
  by (simp add: char_digit_def hex_digit_def)

lemma is_digit_hex: "d < 16 \<Longrightarrow> is_digit 16 (hex_digit False d)"
  by (simp add: is_digit_def hex_digit_value)

lemma hex_digits: "list_all (is_digit 16) (hex False n)"
proof (induction False n rule: hex.induct)
  case (1 n)
  then show ?case by (subst hex.simps) (simp add: is_digit_hex)
qed

lemma hex_value_digits: "digits_value 16 (hex False n) = n"
proof (induction False n rule: hex.induct)
  case (1 n)
  show ?case
  proof (cases "n < 16")
    case True
    then show ?thesis by (subst hex.simps) (simp add: digits_value_def hex_digit_value)
  next
    case False
    then show ?thesis using 1 by (subst hex.simps) (simp add: digits_value_def hex_digit_value)
  qed
qed

lemma hex_nonempty: "hex b n \<noteq> []"
  by (subst hex.simps) simp

lemma hex_length: "0 < k \<Longrightarrow> n < 16 ^ k \<Longrightarrow> length (hex b n) \<le> k"
proof (induction b n arbitrary: k rule: hex.induct)
  case (1 b n)
  show ?case
  proof (cases "n < 16")
    case True
    then show ?thesis using 1(2) by (subst hex.simps) simp
  next
    case False
    then obtain j where j: "k = Suc j" "0 < j" using 1(2,3) by (cases k; cases "k - 1") auto
    then have "n div 16 < 16 ^ j" using 1(3) by (simp add: less_mult_imp_div_less)
    then show ?thesis using False 1(1) j by (subst hex.simps) simp
  qed
qed

lemma digits_value_pad: "digits_value 16 (replicate k CHR ''0'' @ s) = digits_value 16 s"
proof -
  have "foldl (\<lambda>v c. 16 * v + (case char_digit c of None \<Rightarrow> 0 | Some d \<Rightarrow> d)) 0 (replicate k CHR ''0'') = 0"
    by (induction k) (simp_all add: char_digit_def)
  then show ?thesis by (simp add: digits_value_def)
qed

lemma strtoull_hex:
  assumes "0 < k" and "v < 2 ^ 64"
  shows "c_strtoull 0 (''0x'' @ pad0 k (hex False v)) = (word_of_nat v, [])"
proof -
  let ?d = "pad0 k (hex False v)"
  have "is_digit 16 CHR ''0''" by (simp add: is_digit_def char_digit_def)
  then have d: "list_all (is_digit 16) ?d" "?d \<noteq> []" "digits_value 16 ?d = v"
    using hex_digits [of v] hex_nonempty [of False v]
    by (auto simp: pad0_def digits_value_pad hex_value_digits list_all_iff)
  then have tw: "takeWhile (is_digit 16) ?d = ?d" "dropWhile (is_digit 16) ?d = []"
    by (simp_all add: list_all_iff)
  have "is_digit 16 (?d ! 0)" using d by (simp add: list_all_length)
  then have "scan_signed 0 (''0x'' @ ?d) = (int v, [])"
    using d(2,3) by (simp add: scan_signed_def is_space_def scan_number_def scan_digits_def tw)
  then show ?thesis using assms(2) by (simp add: c_strtoull_def)
qed

text \<open>
  Property. What \<open>mad_dump_hex\<close> prints for a value of 1 to 8 bytes, in a buffer with room for
  it, is read back by \<open>strtoull\<close> with automatic base, as the tools do with their arguments.
\<close>
theorem dump_hex_reads_back:
  assumes "0 < n" "n \<le> 8" and "hex_value e val (int n) = Some v" and "v < 256 ^ n"
    and "2 * int n + 2 < bufsz" "bufsz < 2 ^ 31" "off + nat bufsz \<le> length buf"
  shows "\<exists>buf'. mad_dump_hex e buf off bufsz val (int n) = Some buf' \<and>
    c_strtoull 0 (c_str (drop off buf')) = (word_of_nat v, [])"
proof -
  let ?t = "''0x'' @ pad0 (2 * n) (hex False v)"
  have v: "v < 16 ^ (2 * n)" using assms(4) by (simp add: power_mult)
  have len: "length ?t = 2 * n + 2"
    using hex_length [OF _ v, of False] assms(1) by (simp add: pad0_def)
  obtain b where b: "snp buf off bufsz ?t = Some b" "holds b off (take (nat bufsz - 1) ?t)"
    using snp_once [of bufsz off buf ?t] assms(5-7) by auto
  have full: "take (nat bufsz - 1) ?t = ?t" using assms(5) len by (intro take_all) linarith
  have "NUL \<notin> set ?t"
    using hex_digits [of v] by (auto simp: pad0_def list_all_iff is_digit_def char_digit_def NUL_def)
  then have "c_str (drop off b) = ?t" using holds_strlen(2) [OF b(2) [unfolded full]] by simp
  moreover have "mad_dump_hex e buf off bufsz val (int n) = Some b"
    using assms(1-3) b(1) by (simp add: mad_dump_hex_def nat_mult_distrib)
  moreover have "v < 2 ^ 64"
  proof -
    have "(256 :: nat) ^ n \<le> 256 ^ 8" using assms(2) by (intro power_increasing) simp_all
    then show ?thesis using assms(4) by simp
  qed
  ultimately show ?thesis using strtoull_hex [of "2 * n" v] assms(1) by auto
qed

theorem dump_hex_reads_back_witness:
  "\<exists>buf'. mad_dump_hex BE (replicate 16 NUL) 0 16 [0, 0, 0x1c, 7] 2 = Some buf' \<and>
    c_strtoull 0 (c_str buf') = (0x1c07, [])"
proof -
  have "hex_value BE [0, 0, 0x1c, 7] (int 2) = Some 0x1c07"
    by (simp add: hex_value_def val_u32_def mem_load_def native_word_def)
  from dump_hex_reads_back [OF _ _ this, of 16 0 "replicate 16 NUL"] show ?thesis by simp
qed

section \<open>Whole attributes\<close>

definition field_line :: "endian \<Rightarrow> mem \<Rightarrow> nat \<Rightarrow> string" where
  \<comment> \<open>the line of a field of the attribute in \<open>data\<close>\<close>
  "field_line e data n = (case field_desc n of None \<Rightarrow> []
     | Some f \<Rightarrow> (case def_dump_fn f of None \<Rightarrow> []
         | Some d \<Rightarrow> name f @ '':'' @ replicate (32 - length (name f)) CHR ''.'' @
             (if bitlen f \<le> 32 then value_text d ((bitlen f + 7) div 8) (the (mad_get_field data 0 n))
              else value_text64 d (the (mad_get_field64 e data 0 n)))))"

definition line_ok :: "nat \<Rightarrow> nat \<Rightarrow> bool" where
  \<comment> \<open>a field that fits in \<open>len\<close> bytes and is printed by a function that keeps to its buffer: a number of at most 32 bits or of 64.
    Left out are \<open>mad_dump_linkwidthsup\<close>, whose second \<open>snprintf\<close> gets a negative size when no room is left (\<open>linkwidthsup_overrun\<close>),
    \<open>mad_dump_string\<close>, which is told the size of the value for that of the buffer, arrays and capability masks (\<open>dump_overruns\<close>)\<close>
  "line_ok len n = (case field_desc n of None \<Rightarrow> False
     | Some f \<Rightarrow> field_in len 0 f \<and> NUL \<notin> set (name f) \<and> (case def_dump_fn f of None \<Rightarrow> False
         | Some d \<Rightarrow> d \<noteq> Dump_linkwidthsup \<and> (0 < bitlen f \<and> bitlen f \<le> 32 \<and> keeps_to_buffer d \<or>
             bitlen f = 64 \<and> d \<in> {Dump_uint, Dump_hex, Dump_rhex})))"

lemma hex_no_NUL: "NUL \<notin> set (hex False n)"
  using hex_digits [of n] by (auto simp: list_all_iff is_digit_def char_digit_def NUL_def)

lemma linkspeeds_no_NUL: "(k, t) \<in> set linkspeeds \<Longrightarrow> NUL \<notin> set t"
  by (auto simp: linkspeeds_def NUL_def)

lemma linkspeed_no_NUL: "NUL \<notin> set (linkspeed_set_text v)"
  using or_list_no_NUL [of linkspeeds v, OF linkspeeds_no_NUL] or_join_no_NUL [of linkspeeds v, OF linkspeeds_no_NUL]
    undefined_no_NUL
  by (auto simp: linkspeed_set_text_def iba_extension_def NUL_def)

lemma dec_int_no_NUL: "NUL \<notin> set (dec_int v)"
  using dec_no_NUL by (auto simp: dec_int_def NUL_def)

lemma value_no_NUL: "NUL \<notin> set (value_text d n w)"
proof -
  have c: "NUL \<noteq> CHR ''0''" "NUL \<noteq> CHR ''x''" by (simp_all add: NUL_def)
  have d: "CHR 0x00 \<notin> set (dec_int v)" for v using dec_int_no_NUL [of v] by (simp add: NUL_def)
  have "NUL \<notin> set (linkwidth_text v)" "NUL \<notin> set (linkdowndefstate_text v)" "NUL \<notin> set (linkspeed_text v)"
    "NUL \<notin> set (linkspeedext_text v)" "NUL \<notin> set (portstate_text v)" "NUL \<notin> set (physportstate_text v)"
    "NUL \<notin> set (mtu_text v)" "NUL \<notin> set (vlcap_text v)" "NUL \<notin> set (opervls_text v)" "NUL \<notin> set (node_type_text v)" for v
    by (simp_all add: NUL_def d linkwidth_text_def linkdowndefstate_text_def linkspeed_text_def linkspeedext_text_def
        portstate_text_def physportstate_text_def mtu_text_def vlcap_text_def opervls_text_def node_type_text_def)
  moreover have "NUL \<notin> set (linkwidthsup_text v)" for v
    using linkwidth_no_NUL by (simp add: linkwidthsup_text_def iba_extension_def NUL_def)
  ultimately show ?thesis
    using c hex_no_NUL dec_no_NUL linkwidth_no_NUL linkspeed_no_NUL
    by (cases d) (auto simp: value_text_def Let_def pad0_def)
qed

lemma value64_no_NUL: "NUL \<notin> set (value_text64 d w)"
  using hex_no_NUL dec_no_NUL by (cases d) (auto simp: value_text64_def pad0_def NUL_def)

lemma line_no_NUL: "line_ok len n \<Longrightarrow> NUL \<notin> set (field_line e data n)"
  using value_no_NUL value64_no_NUL
  by (auto simp: line_ok_def field_line_def split: option.splits) (auto simp: NUL_def)

lemma line_printed:
  assumes "line_ok (length data) n" and "length tmp = 64"
  shows "\<exists>val f d s. field_desc n = Some f \<and> def_dump_fn f = Some d \<and> mad_decode_field e data n tmp = Some val \<and> length val = 64 \<and>
    dumps e d val (bitlen f) s \<and> d \<noteq> Dump_linkwidthsup \<and> length (name f) < 32 \<and> 0 < n \<and> n < IB_FIELD_LAST \<and>
    field_line e data n = name f @ '':'' @ replicate (32 - length (name f)) CHR ''.'' @ s"
proof -
  obtain f d where f: "field_desc n = Some f" "def_dump_fn f = Some d" "field_in (length data) 0 f" "d \<noteq> Dump_linkwidthsup"
      "0 < bitlen f \<and> bitlen f \<le> 32 \<and> keeps_to_buffer d \<or> bitlen f = 64 \<and> d \<in> {Dump_uint, Dump_hex, Dump_rhex}"
    using assms(1) by (auto simp: line_ok_def split: option.splits)
  have ne: "bitlen f \<noteq> 0" using f(5) by auto
  have n: "0 < n" "n < IB_FIELD_LAST" using field_number [OF f(1) ne] by simp_all
  have nm: "length (name f) < 32" using field_desc_ok [OF f(1)] ne by (simp add: entry_ok_def)
  show ?thesis
  proof (cases "bitlen f = 64")
    case False
    then have s: "0 < bitlen f" "bitlen f \<le> 32" "keeps_to_buffer d" using f(5) by auto
    obtain w where w: "mad_get_field data 0 n = Some w" "get_field data 0 f = Some w" "unat w < 2 ^ bitlen f"
      using get_field_small [OF f(1) s(1,2) f(3)] by blast
    let ?val = "native_bytes e 4 w @ drop 4 tmp"
    have "mad_decode_field e data n tmp = Some ?val"
      using n assms(2) by (intro decode_small_bytes [OF f(1) s(1,2) _ w(2)]) simp_all
    then show ?thesis
      using f(1,2,4) n nm s w(1) assms(2) dumps_small [OF s(3) val_u32_native [OF refl] s(1,2) w(3), of e "drop 4 tmp"]
      by (intro exI [of _ ?val] exI [of _ f] exI [of _ d]) (auto simp: field_line_def)
  next
    case True
    then have d: "d \<in> {Dump_uint, Dump_hex, Dump_rhex}" using f(5) by auto
    have "0 + bitoffs f div 8 + 8 \<le> length data"
      using f(3) True by (auto simp: field_in_def field_end_def field_start_def)
    then obtain w where w: "get_field64 e data 0 f = Some w" by (simp add: get_field64_def mem_load_def)
    let ?val = "native_bytes e 8 w @ drop 8 tmp"
    have "mad_decode_field e data n tmp = Some ?val"
      using n assms(2) f(1) True w by (simp add: mad_decode_field_def mem_store_def)
    then show ?thesis
      using f(1,2,4) n nm True w assms(2) dumps_64 [OF d val_u64_native, of e w "drop 8 tmp"]
      by (intro exI [of _ ?val] exI [of _ f] exI [of _ d]) (auto simp: field_line_def mad_get_field64_def)
  qed
qed

lemma mad_dump_field_fn_33:
  assumes "off + 33 \<le> length buf" and "dumps e d val len s" "d \<noteq> Dump_linkwidthsup" and "length nm < 32"
  shows "\<exists>buf'. mad_dump_field_fn e (Some d) len nm buf off 33 val = Some (Some buf') \<and>
    within off 33 buf buf' \<and> (\<exists>t. holds buf' off t \<and> int (length t) < 33)"
proof -
  let ?h = "nm @ '':'' @ replicate (32 - length nm) CHR ''.''"
  have ds: "dots nm = Some (replicate (32 - length nm) CHR ''.'')" using assms(4) by (simp add: dots_def)
  then have h: "length ?h = 33" by (rule length_dots)
  obtain b where b: "snp buf off 33 ?h = Some b" "holds b off (take 32 ?h)" "within off 33 buf b"
    using snp_once [of 33 off buf ?h] assms(1) by auto
  have t: "int (length (take 32 ?h)) < 33" using h by simp
  obtain c where c: "put_char b (int off + 33 - 1) NUL = Some c" "holds c off (take 32 ?h)" "within off 33 b c"
    using holds_last [OF b(2) t] assms(1) within_length [OF b(3)] by auto
  obtain z where z: "put_char c (int off + 33 - 1) NUL = Some z" "holds z off (take 32 ?h)" "within off 33 c z"
    using holds_last [OF c(2) t] assms(1) within_length [OF b(3)] within_length [OF c(3)] by auto
  have run: "run_dump d e b (33 + off) 0 val (int ((len + 7) div 8)) = Some b"
    using assms(2,3) by (simp add: dumps_def)
  have "mad_dump_field_fn e (Some d) len nm buf off 33 val = Some (Some z)"
    using ds b(1) c(1) z(1) h run by (simp add: mad_dump_field_fn_def mad_dump_val_fn_def Let_def)
  then show ?thesis using within_trans [OF within_trans [OF b(3) c(3)] z(3)] z(2) t by blast
qed

lemma holds_strlen_le: "holds buf off t \<Longrightarrow> \<exists>m \<le> length t. c_strlen buf off = Some m"
proof -
  assume "holds buf off t"
  then obtain r where d: "drop off buf = t @ NUL # r"
    using append_take_drop_id [of "Suc (length t)" "drop off buf"] by (auto simp: holds_def intro: that [OF sym])
  have "length (takeWhile (\<lambda>c. c \<noteq> NUL) (t @ NUL # r)) \<le> length t" by (induction t) auto
  then show ?thesis by (auto simp: c_strlen_def c_str_def d)
qed

lemma line_dumped:
  assumes "line_ok (length data) n" and "length tmp = 64" and "32 < bufsz" "bufsz < 2 ^ 31" "off + nat bufsz \<le> length buf"
  shows "\<exists>val buf'. mad_decode_field e data n tmp = Some val \<and> length val = 64 \<and>
    mad_dump_field e n buf off bufsz val = Some (Some buf') \<and> dumped buf buf' off bufsz (field_line e data n)"
proof -
  obtain val f d s where l: "field_desc n = Some f" "def_dump_fn f = Some d" "mad_decode_field e data n tmp = Some val"
      "length val = 64" "dumps e d val (bitlen f) s" "d \<noteq> Dump_linkwidthsup" "length (name f) < 32" "0 < n" "n < IB_FIELD_LAST"
      "field_line e data n = name f @ '':'' @ replicate (32 - length (name f)) CHR ''.'' @ s"
    using line_printed [OF assms(1,2)] by blast
  have fn: "mad_dump_field e n buf off bufsz val = mad_dump_field_fn e (Some d) (bitlen f) (name f) buf off bufsz val"
    using l(1,2,8,9) by (simp add: mad_dump_field_def IB_NO_FIELD_def)
  show ?thesis
  proof (cases "bufsz = 33")
    case False
    then show ?thesis
      using mad_dump_field_fn_dumped [OF _ assms(4,5) l(5,7)] assms(3) fn l(3,4,10) by auto
  next
    case True
    then have win: "off + 33 \<le> length buf" using assms(5) by simp
    obtain b where b: "mad_dump_field_fn e (Some d) (bitlen f) (name f) buf off bufsz val = Some (Some b)"
        "within off (nat bufsz) buf b" "\<exists>t. holds b off t \<and> int (length t) < bufsz"
      using mad_dump_field_fn_33 [OF win l(5-7)] unfolding True by (metis nat_numeral)
    have "length (field_line e data n) \<ge> 33" using l(7,10) by simp
    then have "dumped buf b off bufsz (field_line e data n)" using b(2,3) True by (auto simp: dumped_def)
    then show ?thesis using b(1) fn l(3,4) by auto
  qed
qed

definition lines :: "endian \<Rightarrow> mem \<Rightarrow> nat list \<Rightarrow> string" where
  "lines e data ns = concat (map (\<lambda>n. field_line e data n @ [NL]) ns)"

lemma put_line_end:
  assumes "holds b off t" and "c_strlen b off = Some m" "m \<le> length t" and "off + length t + 1 < length b"
  shows "\<exists>c. mem_wr b (off + m) NL = Some c \<and> (\<exists>z. mem_wr c (off + m + 1) NUL = Some z \<and>
     within off (length t + 2) b z \<and> (m = length t \<longrightarrow> holds z off (t @ [NL])))"
proof -
  let ?c = "b[off + m := NL]" and ?z = "b[off + m := NL, off + m + 1 := NUL]"
  have c: "mem_wr b (off + m) NL = Some ?c" "mem_wr ?c (off + m + 1) NUL = Some ?z"
    using assms(3,4) by (simp_all add: mem_wr_def)
  have "within off (length t + 2) b ?c"
    by (rule within_mono [OF within_wr [OF c(1)]]) (use assms(3) in auto)
  moreover have "within off (length t + 2) ?c ?z"
    by (rule within_mono [OF within_wr [OF c(2)]]) (use assms(3) in auto)
  ultimately have w: "within off (length t + 2) b ?z" by (rule within_trans)
  have "holds ?z off (t @ [NL])" if m: "m = length t"
  proof -
    have "take (Suc (Suc (length t))) (drop off ?z) = (t @ [NL]) @ [NUL]"
    proof (rule nth_equalityI)
      show "length (take (Suc (Suc (length t))) (drop off ?z)) = length ((t @ [NL]) @ [NUL])" using assms(4) by simp
      fix i assume "i < length (take (Suc (Suc (length t))) (drop off ?z))"
      then have i: "i < Suc (Suc (length t))" by simp
      have "b ! (off + i) = t ! i" if "i < length t"
      proof -
        have "take (length t) (drop off b) ! i = t ! i" using holds_prefix [OF assms(1)] by simp
        then show ?thesis using that assms(4) by simp
      qed
      then show "take (Suc (Suc (length t))) (drop off ?z) ! i = ((t @ [NL]) @ [NUL]) ! i"
        using i assms(4) m by (auto simp: nth_append nth_list_update less_Suc_eq)
    qed
    then show ?thesis using assms(4) by (simp add: holds_def)
  qed
  then show ?thesis using c w by blast
qed

lemma dump_fields_loop_lines:
  assumes "list_all (line_ok (length data)) ns" and "length tmp = 64"
    and "0 \<le> bufsz" "bufsz < 2 ^ 31" "s + nat bufsz \<le> length buf"
  shows "\<exists>buf' r. dump_fields_loop e buf s bufsz data tmp ns = Some (buf', r) \<and> within s (nat bufsz) buf buf' \<and>
    (\<forall>s'. r = Some s' \<longrightarrow> s \<le> s' \<and> int s' \<le> int s + bufsz) \<and>
    (int (length (lines e data ns)) + 6 < bufsz \<longrightarrow> r = Some (s + length (lines e data ns)) \<and>
       (ns \<noteq> [] \<longrightarrow> holds buf' s (lines e data ns)))"
  using assms
proof (induction ns arbitrary: buf s bufsz tmp)
  case Nil
  then show ?case by (simp add: within_refl lines_def)
next
  case (Cons n ns)
  let ?T = "field_line e data n"
  have all: "lines e data (n # ns) = ?T @ NL # lines e data ns" by (simp add: lines_def)
  have ok: "line_ok (length data) n" using Cons.prems(1) by simp
  show ?case
  proof (cases "bufsz \<le> 33")
    case True
    have "bufsz \<le> 0 \<or> dump_fields_loop e buf s bufsz data tmp (n # ns) = Some (buf, None)"
      using True line_printed [OF ok Cons.prems(2), of e] by (auto simp: mad_dump_field_def mad_dump_field_fn_def IB_NO_FIELD_def)
    moreover have "\<not> int (length (lines e data (n # ns))) + 6 < bufsz"
    proof -
      have "33 \<le> length ?T" using line_printed [OF ok Cons.prems(2), of e] by auto
      then show ?thesis using True unfolding all by simp
    qed
    ultimately show ?thesis using Cons.prems(3) by (auto simp: within_refl)
  next
    case False
    then have z: "32 < bufsz - 1" "bufsz - 1 < 2 ^ 31" "s + nat (bufsz - 1) \<le> length buf" using Cons.prems(4,5) by auto
    obtain val b where b: "mad_decode_field e data n tmp = Some val" "length val = 64"
        "mad_dump_field e n buf s (bufsz - 1) val = Some (Some b)" "dumped buf b s (bufsz - 1) ?T"
      using line_dumped [OF ok Cons.prems(2) z] by blast
    then obtain t where t: "within s (nat (bufsz - 1)) buf b" "holds b s t" "int (length t) < bufsz - 1"
        "int (length ?T) + 4 < bufsz - 1 \<longrightarrow> t = ?T" by (auto simp: dumped_def)
    obtain m where m: "m \<le> length t" "c_strlen b s = Some m" using holds_strlen_le [OF t(2)] by blast
    have len: "length b = length buf" by (rule within_length [OF t(1)])
    have room: "s + length t + 1 < length b" using t(3) Cons.prems(5) len by linarith
    obtain c z where cz: "mem_wr b (s + m) NL = Some c" "mem_wr c (s + m + 1) NUL = Some z" "within s (length t + 2) b z"
        "m = length t \<longrightarrow> holds z s (t @ [NL])"
      using put_line_end [OF t(2) m(2,1) room] by blast
    have wz: "within s (nat bufsz) buf z"
      by (rule within_trans [OF within_mono [OF t(1)] within_mono [OF cz(3)]]) (use t(3) in auto)
    let ?s = "s + m + 1" and ?z = "bufsz - int (m + 1)"
    have q: "0 \<le> ?z" "?z < 2 ^ 31" "?s + nat ?z \<le> length z"
      using m(1) t(3) Cons.prems(4,5) within_length [OF wz] by auto
    obtain buf' r where ih: "dump_fields_loop e z ?s ?z data val ns = Some (buf', r)" "within ?s (nat ?z) z buf'"
        "\<forall>s'. r = Some s' \<longrightarrow> ?s \<le> s' \<and> int s' \<le> int ?s + ?z"
        "int (length (lines e data ns)) + 6 < ?z \<longrightarrow> r = Some (?s + length (lines e data ns)) \<and>
           (ns \<noteq> [] \<longrightarrow> holds buf' ?s (lines e data ns))"
      using Cons.IH [OF _ b(2) q] Cons.prems(1) by auto
    have run: "dump_fields_loop e buf s bufsz data tmp (n # ns) = Some (buf', r)"
      using False b(1,3) m(2) cz(1,2) ih(1) by simp
    have w: "within s (nat bufsz) buf buf'"
      by (rule within_trans [OF wz within_mono [OF ih(2)]]) (use m(1) t(3) in auto)
    have "r = Some (s + length (lines e data (n # ns))) \<and> holds buf' s (lines e data (n # ns))"
      if big: "int (length (lines e data (n # ns))) + 6 < bufsz"
    proof -
      have tT: "t = ?T" using big t(4) unfolding all by simp
      then have mT: "m = length ?T" using holds_strlen(1) [OF t(2)] line_no_NUL [OF ok, of e data] m(2) by simp
      have h: "holds z s (?T @ [NL])" using cz(4) tT mT by simp
      have rest: "r = Some (?s + length (lines e data ns))" "ns \<noteq> [] \<longrightarrow> holds buf' ?s (lines e data ns)"
        using ih(4) big mT unfolding all by auto
      show ?thesis
      proof (cases "ns = []")
        case True
        then have "buf' = z" using ih(1) by simp
        then show ?thesis using h rest(1) mT True unfolding all by (simp add: lines_def)
      next
        case False
        have "holds buf' s ((?T @ [NL]) @ lines e data ns)"
          using holds_join [OF holds_prefix_at [OF h], of "nat ?z" buf' "lines e data ns"] ih(2) rest(2) False mT by simp
        then show ?thesis using rest(1) mT unfolding all by simp
      qed
    qed
    then show ?thesis using run w ih(3) m(1) t(3) by auto
  qed
qed

text \<open>
  C34 (bounds): \<open>_dump_fields\<close>, over a range of numeric fields of at most 32 or of 64 bits whose dump functions keep
  to their buffer (\<open>line_ok\<close>; not \<open>mad_dump_linkwidthsup\<close>, which does not, and not strings, arrays and capability masks),
  writes only to the \<open>bufsz\<close> characters it is given, whatever \<open>bufsz\<close> is, and returns -1 or a count of at most
  \<open>bufsz\<close>; when the lines of all the fields fit with at least seven characters to spare, it leaves exactly these lines there,
  terminated, and returns their length.
\<close>
theorem dump_fields_lines:
  assumes "list_all (line_ok (length data)) [start..<end]"
    and "0 \<le> bufsz" "bufsz < 2 ^ 31" "off + nat bufsz \<le> length buf"
  shows "\<exists>buf' r. dump_fields e buf off bufsz data start end = Some (buf', r) \<and> within off (nat bufsz) buf buf' \<and>
    -1 \<le> r \<and> r \<le> bufsz \<and>
    (start < end \<and> int (length (lines e data [start..<end])) + 6 < bufsz \<longrightarrow>
       r = int (length (lines e data [start..<end])) \<and> holds buf' off (lines e data [start..<end]))"
proof -
  obtain buf' r where l: "dump_fields_loop e buf off bufsz data (replicate 64 0) [start..<end] = Some (buf', r)"
      "within off (nat bufsz) buf buf'" "\<forall>s'. r = Some s' \<longrightarrow> off \<le> s' \<and> int s' \<le> int off + bufsz"
      "int (length (lines e data [start..<end])) + 6 < bufsz \<longrightarrow> r = Some (off + length (lines e data [start..<end])) \<and>
         ([start..<end] \<noteq> [] \<longrightarrow> holds buf' off (lines e data [start..<end]))"
    using dump_fields_loop_lines [OF assms(1) _ assms(2-4), of "replicate 64 0" e] by auto
  show ?thesis
    unfolding dump_fields_def l(1) using l(2-4) assms(2) by (cases r) auto
qed

theorem dump_fields_lines_witness:
  "\<exists>buf'. dump_fields LE (replicate 200 NUL) 0 200 (replicate 64 0) IB_NODE_FIRST_F (IB_NODE_FIRST_F + 2) = Some (buf', 70) \<and>
     holds buf' 0 (lines LE (replicate 64 0) [IB_NODE_FIRST_F, IB_NODE_FIRST_F + 1])"
proof -
  let ?d = "replicate 64 (0 :: u8)" and ?F = IB_NODE_FIRST_F
  have r: "[?F..<?F + 2] = [?F, ?F + 1]" by (simp add: upt_rec)
  have f: "field_desc ?F = Some \<lparr>bitoffs = 24, bitlen = 8, name = ''BaseVers'', def_dump_fn = Some Dump_uint\<rparr>"
    "field_desc (Suc ?F) = Some \<lparr>bitoffs = 16, bitlen = 8, name = ''ClassVers'', def_dump_fn = Some Dump_uint\<rparr>"
    by (simp_all add: field_desc_def length_ib_mad_f c_eval ib_mad_f_def nth_append ib_mad_f_1_def BITSOFFS_def BE_OFFS_def)
  have ok: "list_all (line_ok (length ?d)) [?F..<?F + 2]"
    unfolding r by (simp add: line_ok_def f field_in_def field_end_def field_start_def keeps_to_buffer_def NUL_def)
  have g: "mad_get_field ?d 0 ?F = Some 0" "mad_get_field ?d 0 (Suc ?F) = Some 0"
    by (simp_all add: mad_get_field_def f get_field_def prebits_def postbits_def bytelen_def field_idx_def mem_rd_def Let_def)
  have l: "length (lines LE ?d [?F, Suc ?F]) = 70"
    by (simp add: lines_def field_line_def f g value_text_def dec_0)
  have b: "0 + nat 200 \<le> length (replicate 200 NUL)" by simp
  from dump_fields_lines [OF ok _ _ b, of LE] show ?thesis
    unfolding r by (auto simp: l)
qed

section \<open>Writes past the end\<close>

lemma sprintf_bytes_overrun:
  assumes "bs \<noteq> []" and "length buf \<le> off + 2 * length bs"
  shows "sprintf_bytes buf off bs = None"
  using assms
proof (induction bs arbitrary: buf off)
  case Nil
  then show ?case by simp
next
  case (Cons b bs)
  have "unat b < 16 ^ 2" using unsigned_less [of b, where 'a = nat] by simp
  then have len: "length (pad0 2 (hex False (unat b))) = 2"
    using hex_length [of 2 "unat b" False] by (simp add: pad0_def)
  show ?case
  proof (cases "c_sprintf buf off (pad0 2 (hex False (unat b)))")
    case None
    then show ?thesis by simp
  next
    case (Some c)
    then have "length c = length buf" "off + 3 \<le> length buf"
      using len by (auto simp: c_sprintf_def mem_simps)
    then show ?thesis using Some Cons by (cases "bs = []") auto
  qed
qed

lemma sltovl_cell:
  "length ((if (b AND 0xf :: u8) < 10 then '' '' else []) @ dec (unat (b AND 0xf)) @ ''|'') = 3"
proof -
  have "unat (b AND 0xf) \<le> unat (0xf :: u8)" by (intro word_le_nat_alt [THEN iffD1] word_and_le1)
  then have "unat (b AND 0xf) < 16" by simp
  moreover have "(b AND 0xf :: u8) < 10 \<longleftrightarrow> unat (b AND 0xf) < 10" by (simp add: word_less_nat_alt)
  ultimately show ?thesis by (simp add: dec.simps [of "unat (b AND 0xf)"] dec.simps [of "unat (b AND 0xf) div 10"])
qed

lemma sltovl_overrun:
  assumes "length tbl = 8" and "length buf = 5"
  shows "mad_dump_sltovl e buf 0 5 tbl 8 = None"
proof -
  have r: "ib_slvl_get_i tbl i = Some (drop_bit (if even i then 4 else 0) (tbl ! (i div 2)) AND 0xf)" if "i < 16" for i
    using that assms(1) by (simp add: ib_slvl_get_i_def mem_rd_def)
  have p: "\<exists>b'. put_if True b 0 5 n t = Some (b', n + int (length t)) \<and> length b' = 5" if "length b = 5" "0 \<le> n" "n < 5" for b n t
  proof -
    have "size_of_int (5 - n) = nat (5 - n)" using that(2,3) by (intro size_of_int_small) simp_all
    moreover have "nat n + Suc (min (length t) (nat (5 - n) - 1)) \<le> 5" using that(2,3) by linarith
    ultimately show ?thesis using that
      by (auto simp: put_if_def snp_def c_snprintf_def mem_store_def min.commute)
  qed
  obtain b1 where b1: "put_if True buf 0 5 0 ''|'' = Some (b1, 1)" "length b1 = 5"
    using p [of buf 0 "''|''"] assms(2) by auto
  let ?t = "\<lambda>i. (let vl = drop_bit (if even i then 4 else 0) (tbl ! (i div 2)) AND (0xf :: u8) in
     (if vl < 10 then '' '' else []) @ dec (unat vl) @ ''|'')"
  have len: "length (?t i) = 3" for i unfolding Let_def by (rule sltovl_cell)
  obtain b2 where b2: "put_if True b1 0 5 1 (?t 0) = Some (b2, 4)" "length b2 = 5"
    using p [OF b1(2), of 1 "?t 0"] len [of 0] by auto
  obtain b3 where b3: "put_if True b2 0 5 4 (?t 1) = Some (b3, 7)" "length b3 = 5"
    using p [OF b2(2), of 4 "?t 1"] len [of 1] by auto
  have "sltovl_loop b1 0 5 tbl 1 (0 # 1 # is) = Some (b3, 7)" for "is"
    using b2(1) b3(1) by (simp add: r Let_def)
  moreover have "[0..<16] = 0 # 1 # [2..<16]" by (simp add: upt_rec)
  ultimately have loop: "sltovl_loop b1 0 5 tbl 1 [0..<16] = Some (b3, 7)" by metis
  have "snp b3 (0 + nat 7) (5 - 7) [NL] = None"
    using b3(2) size_of_int_neg [of "- 2"] by (simp add: snp_def c_snprintf_def mem_store_def)
  then show ?thesis unfolding mad_dump_sltovl_def b1(1) Option.bind.simps prod.case loop .
qed

text \<open>
  Property. Three functions write outside a buffer of exactly the size they are told:
  \<open>mad_dump_array\<close> puts its terminator behind \<open>2 * valsz\<close> characters; \<open>mad_dump_sltovl\<close> leaves its loop with
  \<open>n\<close> larger than \<open>bufsz\<close> and prints the final newline with a negative size; \<open>mad_dump_portcapmask\<close> does not
  look at the size.
\<close>
theorem dump_overruns:
  assumes "0 < n" and "length val = n" and "length buf = 2 * n" and "length tbl = 8" "length sbuf = 5"
    and "length cbuf \<le> 10"
  shows "mad_dump_array e buf 0 (int (2 * n)) val (int n) = None \<and>
    mad_dump_sltovl e sbuf 0 5 tbl 8 = None \<and>
    mad_dump_portcapmask e cbuf 0 (int (length cbuf)) [0xff, 0xff, 0xff, 0xff] 4 = None"
proof (intro conjI)
  show "mad_dump_array e buf 0 (int (2 * n)) val (int n) = None"
    using sprintf_bytes_overrun [of val buf 0] assms(1-3) by (auto simp: mad_dump_array_def mem_load_def)
  show "mad_dump_sltovl e sbuf 0 5 tbl 8 = None" by (rule sltovl_overrun [OF assms(4,5)])
  have "val_u32 e [0xff, 0xff, 0xff, 0xff] = Some 0xffffffff"
    by (cases e) (simp_all add: val_u32_def mem_load_def native_word_def)
  then show "mad_dump_portcapmask e cbuf 0 (int (length cbuf)) [0xff, 0xff, 0xff, 0xff] 4 = None"
    using assms(6) by (simp add: mad_dump_portcapmask_def dump_capmask_def capmask_lines_def c_sprintf_def mem_store_def hex.simps)
qed

theorem dump_overruns_witness:
  "mad_dump_array LE [NUL, NUL, NUL, NUL] 0 4 [1, 2] 2 = None"
  using dump_overruns [of 2 "[1, 2]" "[NUL, NUL, NUL, NUL]" "replicate 8 0" "replicate 5 NUL" "[]" LE] by simp

text \<open>
  Property (error): when no room is left, \<open>mad_dump_linkwidthsup\<close> prints nothing of the width, measures the text that is
  there from before, and adds to it with the negative size \<open>bufsz - strlen(buf)\<close>, which is a huge \<open>size_t\<close>: it writes outside the
  buffer. \<open>_dump_fields\<close> calls it so when exactly 34 characters are left.
\<close>
theorem linkwidthsup_overrun:
  assumes "val_int e val = Some 2" and "NUL \<notin> set s" and "s \<noteq> []" "length s < 2 ^ 31" and "buf = pre @ s @ [NUL] @ post" and "length post < 16"
  shows "mad_dump_linkwidthsup e buf (length pre) 0 val 4 = None"
proof -
  have n: "c_strlen buf (length pre) = Some (length s)"
    using assms(2,5) by (simp add: c_strlen_def c_str_def takeWhile_append)
  have sz: "size_of_int (- int (length s)) = 2 ^ 64 - length s"
    unfolding size_of_int_def unat_eq_nat_uint uint_word_of_int using assms(3,4)
    by (simp add: take_bit_eq_mod zmod_zminus1_eq_if nat_diff_distrib)
  then have "16 < size_of_int (- int (length s))" using assms(4) by simp
  then have "mem_store buf (length pre + length s) (take (size_of_int (- int (length s)) - 1) iba_extension @ [NUL]) = None"
    using assms(5,6) by (simp add: mem_store_def iba_extension_def)
  then show ?thesis
    using n assms(1) sz assms(4) by (simp add: mad_dump_linkwidthsup_def dump_linkwidth_def put_if_def snp_def c_snprintf_def)
qed

theorem linkwidthsup_overrun_witness: "mad_dump_linkwidthsup LE [CHR ''x'', NUL] 0 0 [2, 0, 0, 0] 4 = None"
  using linkwidthsup_overrun [of LE "[2, 0, 0, 0]" "''x''" "[CHR ''x'', NUL]" "[]" "[]"]
  by (simp add: val_int_def val_u32_def mem_load_def native_word_def NUL_def int_of_u32_def)

end
