(* ===== verification/SmpEngine.thy ===== *)
theory SmpEngine
  imports MadRpc
begin

text \<open>
  The engine that sends subnet management packets in parallel
  (\<open>libibnetdisc/src/query_smp.c\<close>, structures in \<open>internal.h\<close>): at most
  \<open>max_smps\<close> packets are on the wire, the others wait in a linked list, and the completion
  of each is a callback that may issue more.

  The code works on shared structures, so the model has a store: a pointer is an address
  (\<open>ptr\<close>), \<open>NULL\<close> is \<open>None\<close>, and \<open>w_smps\<close> maps the address of every live
  \<open>ibnd_smp_t\<close> to its contents. An access to a structure that is not live, or through
  \<open>NULL\<close>, is \<open>None\<close>, as is a run that needs more results of \<open>umad_send\<close> or
  \<open>umad_recv\<close> than the state holds (see \<open>MadRpc\<close>).

  \<open>cl_qmap\<close> of \<open>complib\<close> is not part of the repository: its operations are the
  argument \<open>qm\<close> of the functions that call it. The callback and its data are a value of
  type \<open>'k\<close>, and what a callback does is the argument \<open>cb\<close>.
\<close>

type_synonym ptr = nat

section \<open>cl_qmap\<close>

record 'm qmap_ops =
  qm_init :: 'm
  qm_count :: "'m \<Rightarrow> nat"
  qm_insert :: "'m \<Rightarrow> u64 \<Rightarrow> ptr \<Rightarrow> 'm" \<comment> \<open>an item already present for the key stays\<close>
  qm_remove :: "'m \<Rightarrow> u64 \<Rightarrow> ptr option \<times> 'm" \<comment> \<open>\<open>None\<close> for \<open>cl_qmap_end\<close>\<close>
  qm_get :: "'m \<Rightarrow> u64 \<Rightarrow> ptr option"
  qm_head :: "'m \<Rightarrow> ptr option"
  qm_remove_item :: "'m \<Rightarrow> ptr \<Rightarrow> 'm"

definition qmap_laws :: "'m qmap_ops \<Rightarrow> ('m \<Rightarrow> u64 \<rightharpoonup> ptr) \<Rightarrow> bool" where
  \<comment> \<open>the documented behaviour, \<open>sem\<close> being the map an object stands for\<close>
  "qmap_laws qm sem \<longleftrightarrow>
     sem (qm_init qm) = Map.empty \<and>
     (\<forall>m. finite (dom (sem m)) \<and> qm_count qm m = card (dom (sem m))) \<and>
     (\<forall>m k p. sem (qm_insert qm m k p) = (if k \<in> dom (sem m) then sem m else (sem m)(k \<mapsto> p))) \<and>
     (\<forall>m k. fst (qm_remove qm m k) = sem m k \<and> sem (snd (qm_remove qm m k)) = (sem m)(k := None)) \<and>
     (\<forall>m k. qm_get qm m k = sem m k) \<and>
     (\<forall>m. case qm_head qm m of None \<Rightarrow> sem m = Map.empty | Some p \<Rightarrow> p \<in> ran (sem m)) \<and>
     (\<forall>m k p. sem m k = Some p \<longrightarrow> (\<forall>j. sem m j = Some p \<longrightarrow> j = k) \<longrightarrow>
        sem (qm_remove_item qm m p) = (sem m)(k := None))"

section \<open>State\<close>

text \<open>\<open>struct ibnd_config\<close>, less its padding\<close>

record ibnd_config_t =
  cf_max_smps :: u32
  cf_show_progress :: u32
  cf_max_hops :: u32
  cf_debug :: u32
  cf_timeout_ms :: u32
  cf_retries :: u32
  cf_flags :: u32
  cf_mkey :: u64

text \<open>\<open>struct ibnd_smp\<close>; \<open>sm_cb\<close> is \<open>cb\<close> together with \<open>cb_data\<close>\<close>

record 'k ibnd_smp_t =
  qnext :: "ptr option"
  sm_cb :: 'k
  sm_path :: ib_portid_t
  sm_rpc :: ib_rpc_t

text \<open>\<open>struct smp_engine\<close>, less \<open>user_data\<close>, which the callbacks find in the state\<close>

record 'm smp_engine_t =
  umad_fd :: int
  smi_agent :: int
  smi_dir_agent :: int
  smp_queue_head :: "ptr option"
  smp_queue_tail :: "ptr option"
  smps_on_wire :: 'm
  eng_cfg :: ibnd_config_t
  total_smps :: u32

text \<open>
  The engine with what it works on. The addresses are handed out in order: \<open>w_next\<close> is the
  next one, and \<open>w_alloc\<close> says of each whether the allocation that would return it succeeds.
\<close>

record ('m, 'k) smp_world = "'m smp_engine_t" +
  w_ms :: mad_state
  w_smps :: "ptr \<rightharpoonup> 'k ibnd_smp_t"
  w_next :: ptr
  w_alloc :: "ptr \<Rightarrow> bool"
  w_port_open :: bool \<comment> \<open>\<open>umad_open_port\<close> has succeeded and \<open>umad_close_port\<close> not been called\<close>

definition free_smp :: "ptr \<Rightarrow> ('m, 'k, 'z) smp_world_scheme \<Rightarrow> ('m, 'k, 'z) smp_world_scheme option" where
  "free_smp smp w = (case w_smps w smp of None \<Rightarrow> None
     | Some _ \<Rightarrow> Some (w\<lparr>w_smps := (w_smps w)(smp := None)\<rparr>))"

section \<open>The queue\<close>

definition queue_smp :: "ptr \<Rightarrow> ('m, 'k, 'z) smp_world_scheme \<Rightarrow> ('m, 'k, 'z) smp_world_scheme option" where
  "queue_smp smp w = do {
     s \<leftarrow> w_smps w smp;
     let w = w\<lparr>w_smps := (w_smps w)(smp \<mapsto> s\<lparr>qnext := None\<rparr>)\<rparr>;
     case smp_queue_head w of
       None \<Rightarrow> Some (w\<lparr>smp_queue_head := Some smp, smp_queue_tail := Some smp\<rparr>)
     | Some _ \<Rightarrow> do {
         tail \<leftarrow> smp_queue_tail w;
         t \<leftarrow> w_smps w tail;
         Some (w\<lparr>w_smps := (w_smps w)(tail \<mapsto> t\<lparr>qnext := Some smp\<rparr>), smp_queue_tail := Some smp\<rparr>)
       }
   }"

definition get_smp :: "('m, 'k, 'z) smp_world_scheme \<Rightarrow> (ptr option \<times> ('m, 'k, 'z) smp_world_scheme) option" where
  "get_smp w =
     (let tail = smp_queue_tail w; rc = smp_queue_head w in
      case rc of None \<Rightarrow> Some (rc, w)
      | Some head \<Rightarrow> do {
          let w = (if tail = Some head then w\<lparr>smp_queue_tail := None\<rparr> else w);
          s \<leftarrow> w_smps w head;
          Some (rc, w\<lparr>smp_queue_head := qnext s\<rparr>)
        })"

section \<open>Sending\<close>

text \<open>A failing \<open>umad_send\<close> returns \<open>-EIO\<close>, with the reason in \<open>errno\<close>.\<close>

definition send_smp :: "endian \<Rightarrow> ptr \<Rightarrow> ('m, 'k, 'z) smp_world_scheme \<Rightarrow>
    (int \<times> ('m, 'k, 'z) smp_world_scheme) option" where
  "send_smp e smp w = do {
     s \<leftarrow> w_smps w smp;
     let rpc = sm_rpc s;
     if r_mgtclass rpc \<noteq> IB_SMI_CLASS \<and> r_mgtclass rpc \<noteq> IB_SMI_DIRECT_CLASS then Some (- EIO, w)
     else do {
       let agent = (if r_mgtclass rpc = IB_SMI_CLASS then smi_agent w else smi_dir_agent w);
       (rc, en, umad, rpc, g) \<leftarrow> mad_build_pkt e (ms_g (w_ms w)) zero_pkt rpc (sm_path s) None None;
       let ms = (w_ms w)\<lparr>ms_g := g, ms_errno := (case en of None \<Rightarrow> ms_errno (w_ms w) | Some x \<Rightarrow> x)\<rparr>;
       let w = w\<lparr>w_smps := (w_smps w)(smp \<mapsto> s\<lparr>sm_rpc := rpc\<rparr>), w_ms := ms\<rparr>;
       if rc < 0 then Some (rc, w)
       else do {
         (sent, ms) \<leftarrow> umad_send (w_ms w) (umad_fd w) agent umad (int IB_MAD_SIZE)
            (int_of_u32 (cf_timeout_ms (eng_cfg w))) (int_of_u32 (cf_retries (eng_cfg w)));
         Some (if \<not> sent then - EIO else 0, w\<lparr>w_ms := ms\<rparr>)
       }
     }
   }"

text \<open>
  Every round of the loop takes a result of \<open>umad_send\<close> or is the last, so one round more
  than there are results is enough.
\<close>

fun queue_loop :: "nat \<Rightarrow> 'm qmap_ops \<Rightarrow> endian \<Rightarrow> ('m, 'k, 'z) smp_world_scheme \<Rightarrow>
    (int \<times> ('m, 'k, 'z) smp_world_scheme) option" where
  "queue_loop 0 qm e w = None"
| "queue_loop (Suc n) qm e w =
     (if qm_count qm (smps_on_wire w) < unat (cf_max_smps (eng_cfg w)) then do {
        (smp, w) \<leftarrow> get_smp w;
        case smp of None \<Rightarrow> Some (0, w)
        | Some smp \<Rightarrow> do {
            (rc, w) \<leftarrow> send_smp e smp w;
            if rc \<noteq> 0 then do { w \<leftarrow> free_smp smp w; Some (rc, w) }
            else do {
              s \<leftarrow> w_smps w smp;
              queue_loop n qm e
                (w\<lparr>smps_on_wire := qm_insert qm (smps_on_wire w) (ucast (ucast (r_trid (sm_rpc s)) :: u32)) smp,
                   total_smps := total_smps w + 1\<rparr>)
            }
          }
      } else Some (0, w))"

definition process_smp_queue :: "'m qmap_ops \<Rightarrow> endian \<Rightarrow> ('m, 'k, 'z) smp_world_scheme \<Rightarrow>
    (int \<times> ('m, 'k, 'z) smp_world_scheme) option" where
  "process_smp_queue qm e w = queue_loop (Suc (length (ms_tx (w_ms w)))) qm e w"

text \<open>\<open>issue_smp\<close> returns also \<open>*portid\<close> as it leaves it.\<close>

definition smp_request :: "ibnd_config_t \<Rightarrow> u64 \<Rightarrow> ib_portid_t \<Rightarrow> u32 \<Rightarrow> u32 \<Rightarrow> ib_rpc_t" where
  \<comment> \<open>\<open>smp->rpc\<close>, for the transaction id drawn\<close>
  "smp_request cfg trid portid attrid amod = rpc_zero\<lparr>r_method := IB_MAD_METHOD_GET, r_attr_id := attrid,
     r_attr_mod := amod, r_timeout := int_of_u32 (cf_timeout_ms cfg), r_datasz := IB_SMP_DATA_SIZE,
     r_dataoffs := IB_SMP_DATA_OFFS, r_trid := trid, r_mkey := cf_mkey cfg,
     r_mgtclass := (if pt_lid portid \<le> 0 \<or> drslid (pt_drpath portid) = 0xffff \<or> drdlid (pt_drpath portid) = 0xffff
                    then IB_SMI_DIRECT_CLASS else IB_SMI_CLASS)\<rparr>"

definition issue_smp :: "'m qmap_ops \<Rightarrow> endian \<Rightarrow> ib_portid_t \<Rightarrow> u32 \<Rightarrow> u32 \<Rightarrow> 'k \<Rightarrow>
    ('m, 'k, 'z) smp_world_scheme \<Rightarrow> (int \<times> ib_portid_t \<times> ('m, 'k, 'z) smp_world_scheme) option" where
  "issue_smp qm e portid attrid amod cb w =
     (let smp = w_next w; w = w\<lparr>w_next := Suc smp\<rparr> in
      if \<not> w_alloc w smp then Some (- ENOMEM, portid, w)
      else do {
        let (trid, g) = mad_trid (ms_g (w_ms w));
        let w = w\<lparr>w_ms := (w_ms w)\<lparr>ms_g := g\<rparr>, w_smps := (w_smps w)(smp \<mapsto> \<lparr>qnext = None, sm_cb = cb,
          sm_path = portid, sm_rpc = smp_request (eng_cfg w) trid portid attrid amod\<rparr>)\<rparr>;
        let portid = portid\<lparr>pt_sl := 0, pt_qp := 0\<rparr>;
        w \<leftarrow> queue_smp smp w;
        (rc, w) \<leftarrow> process_smp_queue qm e w;
        Some (rc, portid, w)
      })"

section \<open>Receiving\<close>

text \<open>
  \<open>cb\<close> runs the callback of the packet at an address on the MAD received;
  \<open>epi_err\<close> is \<open>mlnx_ext_port_info_err\<close>, which the engine calls when that query fails.
\<close>

type_synonym ('m, 'k, 'z) completion =
  "'k \<Rightarrow> ptr \<Rightarrow> mem \<Rightarrow> ('m, 'k, 'z) smp_world_scheme \<Rightarrow> (int \<times> ('m, 'k, 'z) smp_world_scheme) option"

definition complete_smp :: "('m, 'k, 'z) completion \<Rightarrow> ('m, 'k, 'z) completion \<Rightarrow> ptr \<Rightarrow> int \<Rightarrow> mem \<Rightarrow>
    ('m, 'k, 'z) smp_world_scheme \<Rightarrow> (int \<times> ('m, 'k, 'z) smp_world_scheme) option" where
  \<comment> \<open>what is done with a response, by the status of its delivery and its own\<close>
  "complete_smp cb epi_err smp status mad w = do {
     s \<leftarrow> w_smps w smp;
     let failed = (if r_attr_id (sm_rpc s) = IB_ATTR_MLNX_EXT_PORT_INFO then epi_err (sm_cb s) smp mad w
                   else Some (0, w));
     if status \<noteq> 0 then failed
     else do {
       status \<leftarrow> mad_get_field mad 0 IB_DRSMP_STATUS_F;
       if status \<noteq> 0 then failed else cb (sm_cb s) smp mad w
     }
   }"

definition process_one_recv :: "'m qmap_ops \<Rightarrow> endian \<Rightarrow> ('m, 'k, 'z) completion \<Rightarrow> ('m, 'k, 'z) completion \<Rightarrow>
    ('m, 'k, 'z) smp_world_scheme \<Rightarrow> (int \<times> ('m, 'k, 'z) smp_world_scheme) option" where
  "process_one_recv qm e cb epi_err w =
     (case ms_rx (w_ms w) of [] \<Rightarrow> None
      | RecvError en # rx \<Rightarrow> Some (-1, w\<lparr>w_ms := (w_ms w)\<lparr>ms_rx := rx, ms_errno := en\<rparr>\<rparr>)
      | RecvMad status len mad # rx \<Rightarrow> do {
          let w = w\<lparr>w_ms := (w_ms w)\<lparr>ms_rx := rx\<rparr>\<rparr>;
          trid \<leftarrow> mad_get_field64 e mad 0 IB_MAD_TRID_F;
          let trid = (ucast trid :: u32);
          let (item, m) = qm_remove qm (smps_on_wire w) (ucast trid);
          let w = w\<lparr>smps_on_wire := m\<rparr>;
          case item of None \<Rightarrow> Some (-1, w)
          | Some smp \<Rightarrow> do {
              (rc, w) \<leftarrow> process_smp_queue qm e w;
              (rc, w) \<leftarrow> (if rc \<noteq> 0 then Some (rc, w) else complete_smp cb epi_err smp status mad w);
              w \<leftarrow> free_smp smp w;
              Some (rc, w)
            }
        })"

text \<open>Every round takes a result of \<open>umad_recv\<close>.\<close>

fun mads_loop :: "nat \<Rightarrow> 'm qmap_ops \<Rightarrow> endian \<Rightarrow> ('m, 'k, 'z) completion \<Rightarrow> ('m, 'k, 'z) completion \<Rightarrow>
    ('m, 'k, 'z) smp_world_scheme \<Rightarrow> (int \<times> ('m, 'k, 'z) smp_world_scheme) option" where
  "mads_loop 0 qm e cb epi_err w = None"
| "mads_loop (Suc n) qm e cb epi_err w =
     (if qm_head qm (smps_on_wire w) = None then Some (0, w)
      else do {
        (rc, w) \<leftarrow> process_one_recv qm e cb epi_err w;
        if rc \<noteq> 0 then Some (rc, w) else mads_loop n qm e cb epi_err w
      })"

definition process_mads :: "'m qmap_ops \<Rightarrow> endian \<Rightarrow> ('m, 'k, 'z) completion \<Rightarrow> ('m, 'k, 'z) completion \<Rightarrow>
    ('m, 'k, 'z) smp_world_scheme \<Rightarrow> (int \<times> ('m, 'k, 'z) smp_world_scheme) option" where
  "process_mads qm e cb epi_err w = mads_loop (Suc (length (ms_rx (w_ms w)))) qm e cb epi_err w"

section \<open>Setting up and tearing down\<close>

text \<open>
  The calls to \<open>libibumad\<close> are represented by what they return: whether \<open>umad_init\<close>
  succeeds, the descriptor of \<open>umad_open_port\<close> and the results of the two registrations.
\<close>

definition config_zero :: ibnd_config_t where
  "config_zero = \<lparr>cf_max_smps = 0, cf_show_progress = 0, cf_max_hops = 0, cf_debug = 0, cf_timeout_ms = 0,
     cf_retries = 0, cf_flags = 0, cf_mkey = 0\<rparr>"

definition smp_engine_init :: "'m qmap_ops \<Rightarrow> bool \<Rightarrow> int \<Rightarrow> int \<Rightarrow> int \<Rightarrow> ibnd_config_t \<Rightarrow>
    ('m, 'k, 'z) smp_world_scheme \<Rightarrow> int \<times> ('m, 'k, 'z) smp_world_scheme" where
  \<comment> \<open>\<open>memset(engine, 0, sizeof(*engine))\<close> first: the map without items and the configuration without settings stand for the
      zeroed members\<close>
  "smp_engine_init qm init_ok fd agent dir_agent cfg w =
     (let w = w\<lparr>umad_fd := 0, smi_agent := 0, smi_dir_agent := 0, smp_queue_head := None,
        smp_queue_tail := None, smps_on_wire := qm_init qm, eng_cfg := config_zero, total_smps := 0\<rparr> in
      if \<not> init_ok then (- EIO, w)
      else let w = w\<lparr>umad_fd := fd\<rparr> in
      if fd < 0 then (- EIO, w)
      else let w = w\<lparr>w_port_open := True, smi_agent := agent\<rparr> in
      if agent < 0 then (- EIO, w\<lparr>w_port_open := False\<rparr>)
      else let w = w\<lparr>smi_dir_agent := dir_agent\<rparr> in
      if dir_agent < 0 then (- EIO, w\<lparr>w_port_open := False\<rparr>)
      else (0, w\<lparr>smps_on_wire := qm_init qm, eng_cfg := cfg\<rparr>))"

fun drop_queued :: "nat \<Rightarrow> ('m, 'k, 'z) smp_world_scheme \<Rightarrow> ('m, 'k, 'z) smp_world_scheme option" where
  \<comment> \<open>\<open>for ( ; smp; smp = get_smp(engine)) free(smp);\<close>\<close>
  "drop_queued 0 w = None"
| "drop_queued (Suc n) w = do {
     (smp, w) \<leftarrow> get_smp w;
     case smp of None \<Rightarrow> Some w
     | Some smp \<Rightarrow> do { w \<leftarrow> free_smp smp w; drop_queued n w }
   }"

fun drop_wire :: "nat \<Rightarrow> 'm qmap_ops \<Rightarrow> ('m, 'k, 'z) smp_world_scheme \<Rightarrow> ('m, 'k, 'z) smp_world_scheme option" where
  "drop_wire 0 qm w = None"
| "drop_wire (Suc n) qm w =
     (case qm_head qm (smps_on_wire w) of None \<Rightarrow> Some w
      | Some item \<Rightarrow> do {
          w \<leftarrow> free_smp item (w\<lparr>smps_on_wire := qm_remove_item qm (smps_on_wire w) item\<rparr>);
          drop_wire n qm w
        })"

text \<open>
  There are at most as many packets as addresses have been handed out, and the map holds
  \<open>qm_count\<close> items.
\<close>

definition smp_engine_destroy :: "'m qmap_ops \<Rightarrow> ('m, 'k, 'z) smp_world_scheme \<Rightarrow>
    ('m, 'k, 'z) smp_world_scheme option" where
  "smp_engine_destroy qm w = do {
     w \<leftarrow> drop_queued (Suc (w_next w)) w;
     w \<leftarrow> drop_wire (Suc (qm_count qm (smps_on_wire w))) qm w;
     Some (w\<lparr>w_port_open := False\<rparr>)
   }"

end
