(* ===== verification/Fabric.thy ===== *)
theory Fabric
  imports SmpEngine MadResolve
begin

text \<open>
  The fabric object of \<open>libibnetdisc\<close> (\<open>infiniband/ibnetdisc.h\<close>, \<open>internal.h\<close>, and
  the functions of \<open>ibnetdisc.c\<close> that work on it): nodes, ports and chassis linked by
  pointers, the hash tables and lists through which they are found, and the map from LIDs to ports.

  As in \<open>SmpEngine\<close>, a pointer is an address, the maps \<open>st_nodes\<close>, \<open>st_ports\<close>,
  \<open>st_items\<close> and \<open>st_chassis\<close> hold the structures that are live, and an access to
  another address, through \<open>NULL\<close> or outside an array is \<open>None\<close>. A walk along a linked list
  makes at most one step more than addresses have been handed out; a walk that is longer is in a
  cycle and never ends, and is \<open>None\<close> too.
\<close>

section \<open>Structures\<close>

text \<open>\<open>struct ibnd_node\<close>\<close>

record ibnd_node_t =
  nd_next :: "ptr option"
  path_portid :: ib_portid_t
  smalid :: u16
  smalmc :: u8
  smaenhsp0 :: int
  switchinfo :: mem
  nd_guid :: u64
  nd_type :: int
  numports :: int
  nd_info :: mem
  nodedesc :: mem
  ports :: "ptr option list"
  next_chassis_node :: "ptr option"
  nd_chassis :: "ptr option"
  ch_type :: u8
  ch_type_str :: mem \<comment> \<open>\<open>CHASSIS_TYPE_SIZE\<close> characters\<close>
  ch_anafanum :: u8
  ch_slotnum :: u8
  ch_slot :: u8
  ch_found :: u8
  nd_htnext :: "ptr option"
  type_next :: "ptr option"

text \<open>\<open>struct ibnd_port\<close>\<close>

record ibnd_port_t =
  po_guid :: u64
  portnum :: int
  ext_portnum :: int
  po_node :: "ptr option"
  remoteport :: "ptr option"
  base_lid :: u16
  lmc :: u8
  po_info :: mem
  ext_info :: mem
  po_htnext :: "ptr option"

text \<open>\<open>struct ibnd_chassis\<close>\<close>

record ibnd_chassis_t =
  chs_next :: "ptr option"
  chassisguid :: u64
  chassisnum :: u8
  nodecount :: u8
  chs_nodes :: "ptr option"
  spinenode :: "ptr option list"
  linenode :: "ptr option list"

definition SPINES_MAX_NUM :: nat where [c_eval]: "SPINES_MAX_NUM = 18"
definition LINES_MAX_NUM :: nat where [c_eval]: "LINES_MAX_NUM = 36"
definition CHASSIS_TYPE_SIZE :: nat where [c_eval]: "CHASSIS_TYPE_SIZE = 20"
definition HTSZ :: nat where [c_eval]: "HTSZ = 137"
definition IBND_CONFIG_MLX_EPI :: u32 where [c_eval]: "IBND_CONFIG_MLX_EPI = push_bit 0 1"

text \<open>What \<open>calloc\<close> makes of them.\<close>

definition node_zero :: ibnd_node_t where
  "node_zero = \<lparr>nd_next = None, path_portid = portid_zero, smalid = 0, smalmc = 0, smaenhsp0 = 0,
     switchinfo = replicate 64 0, nd_guid = 0, nd_type = 0, numports = 0, nd_info = replicate 64 0,
     nodedesc = replicate 64 0, ports = [], next_chassis_node = None, nd_chassis = None, ch_type = 0,
     ch_type_str = replicate 20 0, ch_anafanum = 0, ch_slotnum = 0, ch_slot = 0, ch_found = 0,
     nd_htnext = None, type_next = None\<rparr>"

definition port_zero :: ibnd_port_t where
  "port_zero = \<lparr>po_guid = 0, portnum = 0, ext_portnum = 0, po_node = None, remoteport = None, base_lid = 0,
     lmc = 0, po_info = replicate 64 0, ext_info = replicate 64 0, po_htnext = None\<rparr>"

definition chassis_zero :: ibnd_chassis_t where
  "chassis_zero = \<lparr>chs_next = None, chassisguid = 0, chassisnum = 0, nodecount = 0, chs_nodes = None,
     spinenode = replicate (SPINES_MAX_NUM + 1) None, linenode = replicate (LINES_MAX_NUM + 1) None\<rparr>"

text \<open>
  \<open>struct ibnd_fabric\<close> and \<open>f_internal_t\<close>, with the structures that are live and the
  allocator: \<open>st_next\<close> is the next address, \<open>st_alloc\<close> says which allocations succeed.
\<close>

record 'm fabric =
  from_node :: "ptr option"
  from_portnum :: int
  fb_nodes :: "ptr option"
  fb_chassis :: "ptr option"
  maxhops_discovered :: u32
  total_mads_used :: u32
  nodestbl :: "ptr option list"
  portstbl :: "ptr option list"
  switches :: "ptr option"
  ch_adapters :: "ptr option"
  routers :: "ptr option"
  lid2guid :: 'm
  st_nodes :: "ptr \<rightharpoonup> ibnd_node_t"
  st_ports :: "ptr \<rightharpoonup> ibnd_port_t"
  st_items :: "ptr \<rightharpoonup> ptr" \<comment> \<open>\<open>struct lid2guid_item\<close>: its \<open>port\<close>\<close>
  st_chassis :: "ptr \<rightharpoonup> ibnd_chassis_t"
  st_next :: ptr
  st_alloc :: "ptr \<Rightarrow> bool"

definition new_addr :: "'m fabric \<Rightarrow> ptr option \<times> 'm fabric" where
  "new_addr f = (if st_alloc f (st_next f) then Some (st_next f) else None, f\<lparr>st_next := Suc (st_next f)\<rparr>)"

definition upd_node :: "ptr \<Rightarrow> (ibnd_node_t \<Rightarrow> ibnd_node_t) \<Rightarrow> 'm fabric \<Rightarrow> 'm fabric option" where
  "upd_node p g f = (case st_nodes f p of None \<Rightarrow> None | Some n \<Rightarrow> Some (f\<lparr>st_nodes := (st_nodes f)(p \<mapsto> g n)\<rparr>))"

definition upd_port :: "ptr \<Rightarrow> (ibnd_port_t \<Rightarrow> ibnd_port_t) \<Rightarrow> 'm fabric \<Rightarrow> 'm fabric option" where
  "upd_port p g f = (case st_ports f p of None \<Rightarrow> None | Some x \<Rightarrow> Some (f\<lparr>st_ports := (st_ports f)(p \<mapsto> g x)\<rparr>))"

definition node_port :: "ibnd_node_t \<Rightarrow> nat \<Rightarrow> ptr option option" where
  \<comment> \<open>\<open>node->ports[i]\<close>\<close>
  "node_port n i = mem_rd (ports n) i"

section \<open>Linked lists\<close>

fun walk :: "nat \<Rightarrow> (ptr \<Rightarrow> ptr option option) \<Rightarrow> (ptr \<Rightarrow> 's \<Rightarrow> (bool \<times> 's) option) \<Rightarrow> ptr option \<Rightarrow> 's \<Rightarrow>
    (ptr option \<times> 's) option" where
  \<comment> \<open>\<open>for (p = x; p; p = p->next) body\<close>, where the body may end the loop; the result is where\<close>
  "walk n next body None s = Some (None, s)"
| "walk 0 next body (Some p) s = None"
| "walk (Suc n) next body (Some p) s = do {
     (stop, s) \<leftarrow> body p s;
     if stop then Some (Some p, s) else do { x \<leftarrow> next p; walk n next body x s }
   }"

definition find_chain :: "nat \<Rightarrow> (ptr \<Rightarrow> ptr option option) \<Rightarrow> (ptr \<Rightarrow> bool option) \<Rightarrow> ptr option \<Rightarrow> ptr option option" where
  \<comment> \<open>\<open>for (p = x; p; p = p->next) if (test(p)) return p; return NULL;\<close>\<close>
  "find_chain n next test x =
     map_option fst (walk n next (\<lambda>p _. map_option (\<lambda>b. (b, ())) (test p)) x ())"

definition node_next :: "(ibnd_node_t \<Rightarrow> ptr option) \<Rightarrow> 'm fabric \<Rightarrow> ptr \<Rightarrow> ptr option option" where
  "node_next sel f p = map_option sel (st_nodes f p)"

definition port_next :: "'m fabric \<Rightarrow> ptr \<Rightarrow> ptr option option" where
  "port_next f p = map_option po_htnext (st_ports f p)"

section \<open>Hash tables\<close>

definition HASHGUID :: "u64 \<Rightarrow> u32" where
  "HASHGUID guid = (ucast guid * 101) XOR (ucast (drop_bit 32 guid) * 103)"

definition hash_idx :: "u64 \<Rightarrow> nat" where
  \<comment> \<open>\<open>HASHGUID(guid) % HTSZ\<close>\<close>
  "hash_idx guid = unat (HASHGUID guid) mod HTSZ"

definition ibnd_find_node_guid :: "'m fabric \<Rightarrow> u64 \<Rightarrow> ptr option option" where
  "ibnd_find_node_guid f guid = do {
     x \<leftarrow> mem_rd (nodestbl f) (hash_idx guid);
     find_chain (Suc (st_next f)) (node_next nd_htnext f)
       (\<lambda>p. map_option (\<lambda>n. nd_guid n = guid) (st_nodes f p)) x
   }"

definition ibnd_find_port_guid :: "'m fabric \<Rightarrow> u64 \<Rightarrow> ptr option option" where
  "ibnd_find_port_guid f guid = do {
     x \<leftarrow> mem_rd (portstbl f) (hash_idx guid);
     find_chain (Suc (st_next f)) (port_next f) (\<lambda>p. map_option (\<lambda>x. po_guid x = guid) (st_ports f p)) x
   }"

definition add_to_nodeguid_hash :: "ptr \<Rightarrow> 'm fabric \<Rightarrow> (int \<times> 'm fabric) option" where
  \<comment> \<open>1: the node is in the table already\<close>
  "add_to_nodeguid_hash node f = do {
     n \<leftarrow> st_nodes f node;
     let i = hash_idx (nd_guid n);
     x \<leftarrow> mem_rd (nodestbl f) i;
     dup \<leftarrow> find_chain (Suc (st_next f)) (node_next nd_htnext f) (\<lambda>p. Some (p = node)) x;
     if dup \<noteq> None then Some (1, f)
     else Some (0, f\<lparr>st_nodes := (st_nodes f)(node \<mapsto> n\<lparr>nd_htnext := x\<rparr>), nodestbl := (nodestbl f)[i := Some node]\<rparr>)
   }"

definition add_to_portguid_hash :: "ptr \<Rightarrow> 'm fabric \<Rightarrow> (int \<times> 'm fabric) option" where
  "add_to_portguid_hash port f = do {
     p \<leftarrow> st_ports f port;
     let i = hash_idx (po_guid p);
     x \<leftarrow> mem_rd (portstbl f) i;
     dup \<leftarrow> find_chain (Suc (st_next f)) (port_next f) (\<lambda>q. Some (q = port)) x;
     if dup \<noteq> None then Some (1, f)
     else Some (0, f\<lparr>st_ports := (st_ports f)(port \<mapsto> p\<lparr>po_htnext := x\<rparr>), portstbl := (portstbl f)[i := Some port]\<rparr>)
   }"

definition add_to_type_list :: "ptr \<Rightarrow> 'm fabric \<Rightarrow> 'm fabric option" where
  "add_to_type_list node f = do {
     n \<leftarrow> st_nodes f node;
     let put = (\<lambda>x. (st_nodes f)(node \<mapsto> n\<lparr>type_next := x\<rparr>));
     if nd_type n = uint IB_NODE_CA
     then Some (f\<lparr>st_nodes := put (ch_adapters f), ch_adapters := Some node\<rparr>)
     else if nd_type n = uint IB_NODE_SWITCH
     then Some (f\<lparr>st_nodes := put (switches f), switches := Some node\<rparr>)
     else if nd_type n = uint IB_NODE_ROUTER
     then Some (f\<lparr>st_nodes := put (routers f), routers := Some node\<rparr>)
     else Some f
   }"

section \<open>LIDs\<close>

definition create_lid2guid :: "'m qmap_ops \<Rightarrow> 'm fabric \<Rightarrow> 'm fabric" where
  "create_lid2guid qm f = f\<lparr>lid2guid := qm_init qm\<rparr>"

definition add_lid :: "'m qmap_ops \<Rightarrow> ptr \<Rightarrow> u16 \<Rightarrow> 'm fabric \<Rightarrow> 'm fabric" where
  \<comment> \<open>the body of the loop: an item is inserted if it can be allocated\<close>
  "add_lid qm port lid f =
     (case new_addr f of (None, f) \<Rightarrow> f
      | (Some a, f) \<Rightarrow> f\<lparr>st_items := (st_items f)(a \<mapsto> port), lid2guid := qm_insert qm (lid2guid f) (ucast lid) a\<rparr>)"

text \<open>
  The counter \<open>lid\<close> is a \<open>uint16_t\<close> and wraps; after 65536 rounds it has taken every value,
  and the loop never ends.
\<close>

fun lid_loop :: "nat \<Rightarrow> 'm qmap_ops \<Rightarrow> ptr \<Rightarrow> u16 \<Rightarrow> int \<Rightarrow> 'm fabric \<Rightarrow> 'm fabric option" where
  "lid_loop 0 qm port lid hi f = None"
| "lid_loop (Suc n) qm port lid hi f =
     (if uint lid \<le> hi then lid_loop n qm port (lid + 1) hi (add_lid qm port lid f) else Some f)"

definition add_to_portlid_hash :: "'m qmap_ops \<Rightarrow> ptr \<Rightarrow> 'm fabric \<Rightarrow> 'm fabric option" where
  "add_to_portlid_hash qm port f = do {
     p \<leftarrow> st_ports f port;
     if unat (lmc p) \<ge> 31 then None \<comment> \<open>\<open>1 << lmc\<close> overflows\<close>
     else do {
       let lid_mask = (word_of_int (2 ^ unat (lmc p) - 1) :: u16);
       if base_lid p > 0 \<and> base_lid p \<le> 0xbfff
       then lid_loop 65537 qm port (base_lid p) (uint (base_lid p) + uint lid_mask) f
       else Some f
     }
   }"

definition ibnd_find_port_lid :: "'m qmap_ops \<Rightarrow> 'm fabric \<Rightarrow> u16 \<Rightarrow> ptr option" where
  \<comment> \<open>for a LID that is not in the map the code reads the item behind \<open>cl_qmap_end\<close>\<close>
  "ibnd_find_port_lid qm f lid = do { a \<leftarrow> qm_get qm (lid2guid f) (ucast lid); st_items f a }"

section \<open>Links and routes\<close>

definition link_ports :: "ptr \<Rightarrow> ptr \<Rightarrow> 'm fabric \<Rightarrow> 'm fabric option" where
  "link_ports port rport f = do {
     p \<leftarrow> st_ports f port;
     f \<leftarrow> (case remoteport p of None \<Rightarrow> Some f | Some x \<Rightarrow> upd_port x (\<lambda>x. x\<lparr>remoteport := None\<rparr>) f);
     q \<leftarrow> st_ports f rport;
     f \<leftarrow> (case remoteport q of None \<Rightarrow> Some f | Some x \<Rightarrow> upd_port x (\<lambda>x. x\<lparr>remoteport := None\<rparr>) f);
     f \<leftarrow> upd_port port (\<lambda>x. x\<lparr>remoteport := Some rport\<rparr>) f;
     upd_port rport (\<lambda>x. x\<lparr>remoteport := Some port\<rparr>) f
   }"

fun route_loop :: "'m fabric \<Rightarrow> u8 list \<Rightarrow> ptr option \<Rightarrow> ptr option \<Rightarrow> ptr option option" where
  \<comment> \<open>the loop of \<open>ibnd_find_port_dr\<close> over the hops that are left: the node reached and \<open>rc\<close>\<close>
  "route_loop f [] cur rc = Some rc"
| "route_loop f (h # hs) cur rc =
     (if h = 0 then route_loop f hs cur rc
      else do {
        c \<leftarrow> cur;
        n \<leftarrow> st_nodes f c;
        if ports n = [] then Some None
        else do {
          p \<leftarrow> node_port n (unat h);
          p \<leftarrow> p;
          x \<leftarrow> st_ports f p;
          case remoteport x of None \<Rightarrow> Some None
          | Some r \<Rightarrow> do { y \<leftarrow> st_ports f r; route_loop f hs (po_node y) (Some r) }
        }
      })"

definition ibnd_find_port_dr :: "bool \<Rightarrow> u8 list \<Rightarrow> 'm fabric \<Rightarrow> string option \<Rightarrow> ptr option option" where
  \<comment> \<open>\<open>junk\<close>: the content of the uninitialised array of the route\<close>
  "ibnd_find_port_dr dup_ok junk f dr_str =
     (case dr_str of None \<Rightarrow> Some None
      | Some s \<Rightarrow> do {
          (r, path) \<leftarrow> str2drpath dup_ok (dr_path_zero\<lparr>hops := junk\<rparr>) (Some s) 0 0;
          if r = -1 then Some None
          else do {
            hs \<leftarrow> mem_load (hops path) 0 (nat (cnt path + 1));
            route_loop f hs (from_node f) None
          }
        })"

definition ibnd_find_node_dr :: "bool \<Rightarrow> u8 list \<Rightarrow> 'm fabric \<Rightarrow> string option \<Rightarrow> ptr option option" where
  "ibnd_find_node_dr dup_ok junk f dr_str = do {
     rc \<leftarrow> ibnd_find_port_dr dup_ok junk f dr_str;
     p \<leftarrow> rc; \<comment> \<open>\<open>rc->node\<close>, also when \<open>rc\<close> is \<open>NULL\<close>\<close>
     x \<leftarrow> st_ports f p;
     Some (po_node x)
   }"

section \<open>Visiting nodes and ports\<close>

definition ibnd_iter_nodes :: "(ptr \<Rightarrow> 's \<Rightarrow> 's option) \<Rightarrow> 'm fabric \<Rightarrow> 's \<Rightarrow> 's option" where
  "ibnd_iter_nodes func f s = map_option snd
     (walk (Suc (st_next f)) (node_next nd_next f) (\<lambda>p s. map_option (Pair False) (func p s)) (fb_nodes f) s)"

definition ibnd_iter_nodes_type :: "(ptr \<Rightarrow> 's \<Rightarrow> 's option) \<Rightarrow> int \<Rightarrow> 'm fabric \<Rightarrow> 's \<Rightarrow> 's option" where
  "ibnd_iter_nodes_type func node_type f s =
     (let list = (if node_type = uint IB_NODE_SWITCH then switches f
                  else if node_type = uint IB_NODE_CA then ch_adapters f
                  else if node_type = uint IB_NODE_ROUTER then routers f else None)
      in map_option snd
        (walk (Suc (st_next f)) (node_next type_next f) (\<lambda>p s. map_option (Pair False) (func p s)) list s))"

fun iter_buckets :: "(ptr \<Rightarrow> 's \<Rightarrow> 's option) \<Rightarrow> 'm fabric \<Rightarrow> ptr option list \<Rightarrow> 's \<Rightarrow> 's option" where
  "iter_buckets func f [] s = Some s"
| "iter_buckets func f (x # xs) s = do {
     (_, s) \<leftarrow> walk (Suc (st_next f)) (port_next f) (\<lambda>p s. map_option (Pair False) (func p s)) x s;
     iter_buckets func f xs s
   }"

definition ibnd_iter_ports :: "(ptr \<Rightarrow> 's \<Rightarrow> 's option) \<Rightarrow> 'm fabric \<Rightarrow> 's \<Rightarrow> 's option" where
  "ibnd_iter_ports func f s = do {
     tbl \<leftarrow> mem_load (portstbl f) 0 HTSZ;
     iter_buckets func f tbl s
   }"

section \<open>Making and destroying a fabric\<close>

definition allocate_fabric_internal :: "'m qmap_ops \<Rightarrow> (ptr \<Rightarrow> bool) \<Rightarrow> 'm fabric" where
  \<comment> \<open>when \<open>calloc\<close> succeeds\<close>
  "allocate_fabric_internal qm alloc = create_lid2guid qm
     \<lparr>from_node = None, from_portnum = 0, fb_nodes = None, fb_chassis = None, maxhops_discovered = 0,
      total_mads_used = 0, nodestbl = replicate HTSZ None, portstbl = replicate HTSZ None,
      switches = None, ch_adapters = None, routers = None, lid2guid = qm_init qm,
      st_nodes = Map.empty, st_ports = Map.empty, st_items = Map.empty, st_chassis = Map.empty,
      st_next = 0, st_alloc = alloc\<rparr>"

definition free_port :: "ptr option \<Rightarrow> 'm fabric \<Rightarrow> 'm fabric option" where
  "free_port p f = (case p of None \<Rightarrow> Some f
     | Some a \<Rightarrow> (case st_ports f a of None \<Rightarrow> None | Some _ \<Rightarrow> Some (f\<lparr>st_ports := (st_ports f)(a := None)\<rparr>)))"

fun free_ports :: "ptr option list \<Rightarrow> 'm fabric \<Rightarrow> 'm fabric option" where
  "free_ports [] f = Some f"
| "free_ports (p # ps) f = do { f \<leftarrow> free_port p f; free_ports ps f }"

definition destroy_node :: "ptr \<Rightarrow> 'm fabric \<Rightarrow> 'm fabric option" where
  "destroy_node node f = do {
     n \<leftarrow> st_nodes f node;
     f \<leftarrow> (if ports n = [] then Some f
           else do { ps \<leftarrow> mem_load (ports n) 0 (nat (numports n + 1)); free_ports ps f });
     Some (f\<lparr>st_nodes := (st_nodes f)(node := None)\<rparr>)
   }"

fun destroy_lid_items :: "nat \<Rightarrow> 'm qmap_ops \<Rightarrow> 'm fabric \<Rightarrow> 'm fabric option" where
  "destroy_lid_items 0 qm f = None"
| "destroy_lid_items (Suc n) qm f =
     (case qm_head qm (lid2guid f) of None \<Rightarrow> Some f
      | Some a \<Rightarrow> (case st_items f a of None \<Rightarrow> None
          | Some _ \<Rightarrow> destroy_lid_items n qm
              (f\<lparr>lid2guid := qm_remove_item qm (lid2guid f) a, st_items := (st_items f)(a := None)\<rparr>)))"

definition destroy_lid2guid :: "'m qmap_ops \<Rightarrow> 'm fabric \<Rightarrow> 'm fabric option" where
  "destroy_lid2guid qm f = destroy_lid_items (Suc (qm_count qm (lid2guid f))) qm f"

fun destroy_chassis_list :: "nat \<Rightarrow> ptr option \<Rightarrow> 'm fabric \<Rightarrow> 'm fabric option" where
  "destroy_chassis_list n None f = Some f"
| "destroy_chassis_list 0 (Some ch) f = None"
| "destroy_chassis_list (Suc n) (Some ch) f = do {
     c \<leftarrow> st_chassis f ch;
     destroy_chassis_list n (chs_next c) (f\<lparr>st_chassis := (st_chassis f)(ch := None)\<rparr>)
   }"

fun destroy_node_list :: "nat \<Rightarrow> ptr option \<Rightarrow> 'm fabric \<Rightarrow> 'm fabric option" where
  "destroy_node_list n None f = Some f"
| "destroy_node_list 0 (Some node) f = None"
| "destroy_node_list (Suc n) (Some node) f = do {
     x \<leftarrow> st_nodes f node;
     f \<leftarrow> destroy_node node f;
     destroy_node_list n (nd_next x) f
   }"

definition ibnd_destroy_fabric :: "'m qmap_ops \<Rightarrow> 'm fabric \<Rightarrow> 'm fabric option" where
  \<comment> \<open>the structures that are live after it\<close>
  "ibnd_destroy_fabric qm f = do {
     f \<leftarrow> destroy_chassis_list (Suc (st_next f)) (fb_chassis f) f;
     f \<leftarrow> destroy_node_list (Suc (st_next f)) (fb_nodes f) f;
     destroy_lid2guid qm f
   }"

section \<open>Configuration\<close>

definition DEFAULT_MAX_SMP_ON_WIRE :: u32 where [c_eval]: "DEFAULT_MAX_SMP_ON_WIRE = 2"
definition DEFAULT_TIMEOUT :: u32 where [c_eval]: "DEFAULT_TIMEOUT = 1000"
definition DEFAULT_RETRIES :: u32 where [c_eval]: "DEFAULT_RETRIES = 3"

definition set_config :: "ibnd_config_t \<Rightarrow> ibnd_config_t option \<Rightarrow> ibnd_config_t" where
  \<comment> \<open>\<open>config\<close> is never \<open>NULL\<close> in the only call\<close>
  "set_config config cfg =
     (let config = (case cfg of None \<Rightarrow> config | Some c \<Rightarrow> c);
          config = (if cf_max_smps config = 0 then config\<lparr>cf_max_smps := DEFAULT_MAX_SMP_ON_WIRE\<rparr> else config);
          config = (if cf_timeout_ms config = 0 then config\<lparr>cf_timeout_ms := DEFAULT_TIMEOUT\<rparr> else config)
      in if cf_retries config = 0 then config\<lparr>cf_retries := DEFAULT_RETRIES\<rparr> else config)"

end
