(* ===== verification/Chassis.thy ===== *)
theory Chassis
  imports Fabric CString
begin

text \<open>
  Grouping the nodes of a fabric into chassis (\<open>libibnetdisc/src/chassis.c\<close>): Voltaire and
  Mellanox switches are recognised by their device and placed in slots by their wiring or their
  description, all other nodes are grouped by the GUID of their system image. Nodes, ports and
  chassis are those of \<open>Fabric\<close>, with the same conventions: an access outside a table, to a
  structure that is not live or through \<open>NULL\<close> is \<open>None\<close>. Messages have no model.
\<close>

section \<open>Constants\<close>

definition VTR_DEVID_IB_FC_ROUTER :: u32 where [c_eval]: "VTR_DEVID_IB_FC_ROUTER = 0x5a00"
definition VTR_DEVID_IB_IP_ROUTER :: u32 where [c_eval]: "VTR_DEVID_IB_IP_ROUTER = 0x5a01"
definition VTR_DEVID_SLB24 :: u32 where [c_eval]: "VTR_DEVID_SLB24 = 0x5a09"
definition VTR_DEVID_SFB12 :: u32 where [c_eval]: "VTR_DEVID_SFB12 = 0x5a08"
definition VTR_DEVID_SFB4 :: u32 where [c_eval]: "VTR_DEVID_SFB4 = 0x5a0b"
definition VTR_DEVID_SLB8 :: u32 where [c_eval]: "VTR_DEVID_SLB8 = 0x5a0d"
definition VTR_DEVID_SFB12_DDR :: u32 where [c_eval]: "VTR_DEVID_SFB12_DDR = 0x5a32"
definition VTR_DEVID_SFB4_DDR :: u32 where [c_eval]: "VTR_DEVID_SFB4_DDR = 0x5a33"
definition VTR_DEVID_SLB24_DDR :: u32 where [c_eval]: "VTR_DEVID_SLB24_DDR = 0x5a34"
definition VTR_DEVID_SFB2012 :: u32 where [c_eval]: "VTR_DEVID_SFB2012 = 0x5a37"
definition VTR_DEVID_SLB2024 :: u32 where [c_eval]: "VTR_DEVID_SLB2024 = 0x5a38"
definition VTR_DEVID_SFB2004 :: u32 where [c_eval]: "VTR_DEVID_SFB2004 = 0x5a40"
definition VTR_DEVID_SRB2004 :: u32 where [c_eval]: "VTR_DEVID_SRB2004 = 0x5a42"
definition VTR_DEVID_SLB4018 :: u32 where [c_eval]: "VTR_DEVID_SLB4018 = 0x5a5b"
definition VTR_DEVID_SFB4700 :: u32 where [c_eval]: "VTR_DEVID_SFB4700 = 0x5a5c"
definition VTR_DEVID_SFB4700X2 :: u32 where [c_eval]: "VTR_DEVID_SFB4700X2 = 0x5a5d"
definition VTR_DEVID_SFB4200 :: u32 where [c_eval]: "VTR_DEVID_SFB4200 = 0x5a60"
definition MLX_DEVID_IS4 :: u32 where [c_eval]: "MLX_DEVID_IS4 = 0xbd36"
definition VTR_VENDOR_ID :: u32 where [c_eval]: "VTR_VENDOR_ID = 0x8f1"
definition MLX_VENDOR_ID :: u32 where [c_eval]: "MLX_VENDOR_ID = 0x2c9"
definition TS_VENDOR_ID :: u32 where [c_eval]: "TS_VENDOR_ID = 0x5ad"
definition SS_VENDOR_ID :: u32 where [c_eval]: "SS_VENDOR_ID = 0x66a"
definition XS_VENDOR_ID :: u32 where [c_eval]: "XS_VENDOR_ID = 0x1397"
definition UNRESOLVED_CT :: u8 where [c_eval]: "UNRESOLVED_CT = 0"
definition ISR9288_CT :: u8 where [c_eval]: "ISR9288_CT = 1"
definition ISR9096_CT :: u8 where [c_eval]: "ISR9096_CT = 2"
definition ISR2012_CT :: u8 where [c_eval]: "ISR2012_CT = 3"
definition ISR2004_CT :: u8 where [c_eval]: "ISR2004_CT = 4"
definition ISR4700_CT :: u8 where [c_eval]: "ISR4700_CT = 5"
definition ISR4200_CT :: u8 where [c_eval]: "ISR4200_CT = 6"
definition UNRESOLVED_CS :: u8 where [c_eval]: "UNRESOLVED_CS = 0"
definition LINE_CS :: u8 where [c_eval]: "LINE_CS = 1"
definition SPINE_CS :: u8 where [c_eval]: "SPINE_CS = 2"
definition SRBD_CS :: u8 where [c_eval]: "SRBD_CS = 3"

definition ChassisTypeStr :: "string list" where
  "ChassisTypeStr = ['''', ''ISR9288'', ''ISR9096'', ''ISR2012'', ''ISR2004'', ''ISR4700'', ''ISR4200'']"

definition ChassisSlotTypeStr :: "string list" where
  "ChassisSlotTypeStr = ['''', ''Line'', ''Spine'', ''SRBD'']"

section \<open>Loops\<close>

fun for_each :: "('a \<Rightarrow> 's \<Rightarrow> (int \<times> 's) option) \<Rightarrow> 'a list \<Rightarrow> 's \<Rightarrow> (int \<times> 's) option" where
  \<comment> \<open>the body ends the loop with a value other than 0\<close>
  "for_each body [] s = Some (0, s)"
| "for_each body (x # xs) s = do {
     (rc, s) \<leftarrow> body x s;
     if rc \<noteq> 0 then Some (rc, s) else for_each body xs s
   }"

definition ports_of :: "ibnd_node_t \<Rightarrow> nat list" where
  \<comment> \<open>\<open>for (p = 1; p <= node->numports; p++)\<close>\<close>
  "ports_of n = [1..<Suc (nat (numports n))]"

definition port_at :: "ptr \<Rightarrow> nat \<Rightarrow> 'm fabric \<Rightarrow> ptr option option" where
  "port_at node p f = do { n \<leftarrow> st_nodes f node; node_port n p }"

definition upd_chassis :: "ptr \<Rightarrow> (ibnd_chassis_t \<Rightarrow> ibnd_chassis_t) \<Rightarrow> 'm fabric \<Rightarrow> 'm fabric option" where
  "upd_chassis c g f = (case st_chassis f c of None \<Rightarrow> None
     | Some x \<Rightarrow> Some (f\<lparr>st_chassis := (st_chassis f)(c \<mapsto> g x)\<rparr>))"

section \<open>What a caller asks\<close>

definition vendid :: "ibnd_node_t \<Rightarrow> u32 option" where
  "vendid n = mad_get_field (nd_info n) 0 IB_NODE_VENDORID_F"

definition devid :: "ibnd_node_t \<Rightarrow> u32 option" where
  "devid n = mad_get_field (nd_info n) 0 IB_NODE_DEVID_F"

definition mem_str :: "mem \<Rightarrow> string option" where
  \<comment> \<open>the string at the start of a buffer, which must have a terminator\<close>
  "mem_str d = (if 0 \<in> set d then Some (map (\<lambda>b. char_of (unat b)) (takeWhile (\<lambda>b. b \<noteq> 0) d)) else None)"

definition ibnd_get_chassis_type :: "'m fabric \<Rightarrow> ptr option \<Rightarrow> string option option" where
  \<comment> \<open>the text returned; \<open>NULL\<close> is \<open>Some None\<close>\<close>
  "ibnd_get_chassis_type f node = (case node of None \<Rightarrow> Some None
     | Some node \<Rightarrow> do {
         n \<leftarrow> st_nodes f node;
         if nd_chassis n = None then Some None
         else do {
           v \<leftarrow> vendid n;
           if v = VTR_VENDOR_ID
           then (if ch_type n = UNRESOLVED_CT \<or> ch_type n > ISR4200_CT then Some None
                 else map_option Some (mem_rd ChassisTypeStr (unat (ch_type n))))
           else if v = MLX_VENDOR_ID
           then do {
             c \<leftarrow> mem_rd (ch_type_str n) 0;
             if c = 0 then Some None else map_option Some (mem_str (ch_type_str n))
           } else Some None
         }
       })"

definition ibnd_get_chassis_slot_str :: "'m fabric \<Rightarrow> ptr option \<Rightarrow> cbuf option \<Rightarrow> nat \<Rightarrow> cbuf option option" where
  \<comment> \<open>the buffer as it is returned\<close>
  "ibnd_get_chassis_slot_str f node str size' = (case node of None \<Rightarrow> Some None
     | Some node \<Rightarrow> do {
         n \<leftarrow> st_nodes f node;
         v \<leftarrow> vendid n;
         if v \<noteq> VTR_VENDOR_ID \<and> v \<noteq> MLX_VENDOR_ID then Some None
         else if nd_chassis n = None then Some None
         else if ch_slot n = UNRESOLVED_CS \<or> ch_slot n > SRBD_CS then Some None
         else (case str of None \<Rightarrow> Some None
           | Some buf \<Rightarrow> do {
               t \<leftarrow> mem_rd ChassisSlotTypeStr (unat (ch_slot n));
               map_option Some (c_snprintf buf 0 size' (t @ '' '' @ dec (unat (ch_slotnum n)) @ '' Chip '' @ dec (unat (ch_anafanum n))))
             })
       })"

definition chassis_next :: "'m fabric \<Rightarrow> ptr \<Rightarrow> ptr option option" where
  "chassis_next f c = map_option chs_next (st_chassis f c)"

definition find_chassisnum :: "'m fabric \<Rightarrow> u8 \<Rightarrow> ptr option option" where
  "find_chassisnum f num = find_chain (Suc (st_next f)) (chassis_next f)
     (\<lambda>c. map_option (\<lambda>x. chassisnum x = num) (st_chassis f c)) (fb_chassis f)"

definition ibnd_get_chassis_guid :: "'m fabric \<Rightarrow> u8 \<Rightarrow> u64 option" where
  "ibnd_get_chassis_guid f num = do {
     c \<leftarrow> find_chassisnum f num;
     case c of None \<Rightarrow> Some 0 | Some c \<Rightarrow> map_option chassisguid (st_chassis f c)
   }"

section \<open>System image GUIDs\<close>

definition topspin_chassisguid :: "u64 \<Rightarrow> u64" where
  "topspin_chassisguid guid = guid AND 0xffffffff00ffffff"

definition ibnd_is_xsigo_guid :: "u64 \<Rightarrow> bool" where
  "ibnd_is_xsigo_guid guid \<longleftrightarrow> guid AND 0xffffff0000000000 = 0x0013970000000000"

definition is_xsigo_leafone :: "u64 \<Rightarrow> bool" where
  "is_xsigo_leafone guid \<longleftrightarrow> guid AND 0xffffffffff000000 = 0x0013970102000000"

definition ibnd_is_xsigo_hca :: "u64 \<Rightarrow> bool" where
  "ibnd_is_xsigo_hca guid \<longleftrightarrow> guid AND 0xffffffff00000000 = 0x0013970200000000"

definition ibnd_is_xsigo_tca :: "u64 \<Rightarrow> bool" where
  "ibnd_is_xsigo_tca guid \<longleftrightarrow> guid AND 0xffffffff00000000 = 0x0013970300000000"

definition is_xsigo_ca :: "u64 \<Rightarrow> bool" where
  "is_xsigo_ca guid \<longleftrightarrow> ibnd_is_xsigo_hca guid \<or> ibnd_is_xsigo_tca guid"

definition is_xsigo_switch :: "u64 \<Rightarrow> bool" where
  "is_xsigo_switch guid \<longleftrightarrow> guid AND 0xffffffff00000000 = 0x0013970100000000"

definition xsigo_chassisguid :: "endian \<Rightarrow> 'm fabric \<Rightarrow> ibnd_node_t \<Rightarrow> u64 option" where
  "xsigo_chassisguid e f n = do {
     sysimgguid \<leftarrow> mad_get_field64 e (nd_info n) 0 IB_NODE_SYSTEM_GUID_F;
     if \<not> is_xsigo_ca sysimgguid
     then Some (if is_xsigo_switch sysimgguid then sysimgguid AND 0xffffffff00ffffff else sysimgguid)
     else if ports n = [] then Some 0
     else do {
       p1 \<leftarrow> node_port n 1;
       case p1 of None \<Rightarrow> Some 0
       | Some p1 \<Rightarrow> do {
           x \<leftarrow> st_ports f p1;
           case remoteport x of None \<Rightarrow> Some sysimgguid
           | Some r \<Rightarrow> do {
               y \<leftarrow> st_ports f r;
               m \<leftarrow> po_node y;
               m \<leftarrow> st_nodes f m;
               remote_sysimgguid \<leftarrow> mad_get_field64 e (nd_info m) 0 IB_NODE_SYSTEM_GUID_F;
               Some (if is_xsigo_leafone remote_sysimgguid then remote_sysimgguid AND 0xffffffff00ffffff else sysimgguid)
             }
         }
     }
   }"

definition get_chassisguid :: "endian \<Rightarrow> 'm fabric \<Rightarrow> ibnd_node_t \<Rightarrow> u64 option" where
  "get_chassisguid e f n = do {
     v \<leftarrow> vendid n;
     sysimgguid \<leftarrow> mad_get_field64 e (nd_info n) 0 IB_NODE_SYSTEM_GUID_F;
     if v = TS_VENDOR_ID \<or> v = SS_VENDOR_ID then Some (topspin_chassisguid sysimgguid)
     else if v = XS_VENDOR_ID \<or> ibnd_is_xsigo_guid sysimgguid then xsigo_chassisguid e f n
     else Some sysimgguid
   }"

definition find_chassisguid :: "endian \<Rightarrow> 'm fabric \<Rightarrow> ibnd_node_t \<Rightarrow> ptr option option" where
  "find_chassisguid e f n = do {
     chguid \<leftarrow> get_chassisguid e f n;
     find_chain (Suc (st_next f)) (chassis_next f)
       (\<lambda>c. map_option (\<lambda>x. chassisguid x = chguid) (st_chassis f c)) (fb_chassis f)
   }"

section \<open>Devices\<close>

text \<open>The predicates read the device id of a node; here they are on the id.\<close>

definition is_router :: "u32 \<Rightarrow> bool" where
  "is_router d \<longleftrightarrow> d = VTR_DEVID_IB_FC_ROUTER \<or> d = VTR_DEVID_IB_IP_ROUTER"

definition is_spine_9096 :: "u32 \<Rightarrow> bool" where
  "is_spine_9096 d \<longleftrightarrow> d = VTR_DEVID_SFB4 \<or> d = VTR_DEVID_SFB4_DDR"

definition is_spine_9288 :: "u32 \<Rightarrow> bool" where
  "is_spine_9288 d \<longleftrightarrow> d = VTR_DEVID_SFB12 \<or> d = VTR_DEVID_SFB12_DDR"

definition is_spine_2004 :: "u32 \<Rightarrow> bool" where
  "is_spine_2004 d \<longleftrightarrow> d = VTR_DEVID_SFB2004"

definition is_spine_2012 :: "u32 \<Rightarrow> bool" where
  "is_spine_2012 d \<longleftrightarrow> d = VTR_DEVID_SFB2012"

definition is_spine_4700 :: "u32 \<Rightarrow> bool" where
  "is_spine_4700 d \<longleftrightarrow> d = VTR_DEVID_SFB4700"

definition is_spine_4700x2 :: "u32 \<Rightarrow> bool" where
  "is_spine_4700x2 d \<longleftrightarrow> d = VTR_DEVID_SFB4700X2"

definition is_spine_4200 :: "u32 \<Rightarrow> bool" where
  "is_spine_4200 d \<longleftrightarrow> d = VTR_DEVID_SFB4200"

definition is_spine :: "u32 \<Rightarrow> bool" where
  "is_spine d \<longleftrightarrow> is_spine_9096 d \<or> is_spine_9288 d \<or> is_spine_2004 d \<or> is_spine_2012 d \<or>
     is_spine_4700 d \<or> is_spine_4700x2 d \<or> is_spine_4200 d"

definition is_line_24 :: "u32 \<Rightarrow> bool" where
  "is_line_24 d \<longleftrightarrow> d = VTR_DEVID_SLB24 \<or> d = VTR_DEVID_SLB24_DDR \<or> d = VTR_DEVID_SRB2004"

definition is_line_8 :: "u32 \<Rightarrow> bool" where
  "is_line_8 d \<longleftrightarrow> d = VTR_DEVID_SLB8"

definition is_line_2024 :: "u32 \<Rightarrow> bool" where
  "is_line_2024 d \<longleftrightarrow> d = VTR_DEVID_SLB2024"

definition is_line_4700 :: "u32 \<Rightarrow> bool" where
  "is_line_4700 d \<longleftrightarrow> d = VTR_DEVID_SLB4018"

definition is_line :: "u32 \<Rightarrow> bool" where
  "is_line d \<longleftrightarrow> is_line_24 d \<or> is_line_8 d \<or> is_line_2024 d \<or> is_line_4700 d"

section \<open>Slot tables\<close>

definition line_slot_2_sfb4 :: "u8 list" where
  "line_slot_2_sfb4 = [0,
      1, 1, 1, 1, 1, 1, 2, 2, 2, 2, 2, 2, 3, 3, 3, 3, 3, 3,
      4, 4, 4, 4, 4, 4, 0, 0, 0, 0, 0, 0, 0, 0, 0, 0, 0, 0]"

definition anafa_line_slot_2_sfb4 :: "u8 list" where
  "anafa_line_slot_2_sfb4 = [0,
      1, 1, 1, 2, 2, 2, 1, 1, 1, 2, 2, 2, 1, 1, 1, 2, 2, 2,
      1, 1, 1, 2, 2, 2, 0, 0, 0, 0, 0, 0, 0, 0, 0, 0, 0, 0]"

definition line_slot_2_sfb12 :: "u8 list" where
  "line_slot_2_sfb12 = [0,
      1, 1, 2, 2, 3, 3, 4, 4, 5, 5, 6, 6, 7, 7, 8, 8, 9, 9,
      10, 10, 11, 11, 12, 12, 0, 0, 0, 0, 0, 0, 0, 0, 0, 0, 0, 0]"

definition anafa_line_slot_2_sfb12 :: "u8 list" where
  "anafa_line_slot_2_sfb12 = [0,
      1, 2, 1, 2, 1, 2, 1, 2, 1, 2, 1, 2, 1, 2, 1, 2, 1, 2,
      1, 2, 1, 2, 1, 2, 0, 0, 0, 0, 0, 0, 0, 0, 0, 0, 0, 0]"

definition line_slot_2_sfb18 :: "u8 list" where
  "line_slot_2_sfb18 = [0,
      1, 1, 2, 2, 3, 3, 4, 4, 5, 5, 6, 6, 7, 7, 8, 8, 9, 9,
      10, 10, 11, 11, 12, 12, 13, 13, 14, 14, 15, 15, 16, 16, 17, 17, 18, 18]"

definition anafa_line_slot_2_sfb18 :: "u8 list" where
  "anafa_line_slot_2_sfb18 = [0,
      1, 1, 1, 1, 1, 1, 1, 1, 1, 1, 1, 1, 1, 1, 1, 1, 1, 1,
      1, 1, 1, 1, 1, 1, 1, 1, 1, 1, 1, 1, 1, 1, 1, 1, 1, 1]"

definition line_slot_2_sfb18x2 :: "u8 list" where
  "line_slot_2_sfb18x2 = [0,
      1, 2, 3, 4, 5, 6, 7, 8, 9, 10, 11, 12, 13, 14, 15, 16, 17, 18,
      0, 0, 0, 0, 0, 0, 0, 0, 0, 0, 0, 0, 0, 0, 0, 0, 0, 0]"

definition anafa_line_slot_2_sfb18x2 :: "u8 list" where
  "anafa_line_slot_2_sfb18x2 = [0,
      1, 1, 1, 1, 1, 1, 1, 1, 1, 1, 1, 1, 1, 1, 1, 1, 1, 1,
      0, 0, 0, 0, 0, 0, 0, 0, 0, 0, 0, 0, 0, 0, 0, 0, 0, 0]"

definition line_slot_2_sfb4200 :: "u8 list" where
  "line_slot_2_sfb4200 = [0,
      1, 1, 1, 1, 2, 2, 2, 2, 3, 3, 3, 3, 4, 4, 4, 4, 5, 5,
      5, 5, 6, 6, 6, 6, 7, 7, 7, 7, 8, 8, 8, 8, 9, 9, 9, 9]"

definition anafa_line_slot_2_sfb4200 :: "u8 list" where
  "anafa_line_slot_2_sfb4200 = [0,
      1, 1, 1, 1, 1, 1, 1, 1, 1, 1, 1, 1, 1, 1, 1, 1, 1, 1,
      1, 1, 1, 1, 1, 1, 1, 1, 1, 1, 1, 1, 1, 1, 1, 1, 1, 1]"

definition ipr_slot_2_sfb4_port :: "u8 list" where
  "ipr_slot_2_sfb4_port = [0,
      3, 2, 1, 3, 2, 1, 3, 2, 1, 3, 2, 1, 3, 2, 1, 3, 2, 1,
      3, 2, 1, 3, 2, 1, 0, 0, 0, 0, 0, 0, 0, 0, 0, 0, 0, 0]"

definition spine12_slot_2_slb :: "u8 list" where
  "spine12_slot_2_slb = [0,
      1, 1, 1, 2, 2, 2, 3, 3, 3, 4, 4, 4, 0, 0, 0, 0, 0, 0,
      0, 0, 0, 0, 0, 0, 0, 0, 0, 0, 0, 0, 0, 0, 0, 0, 0, 0]"

definition anafa_spine12_slot_2_slb :: "u8 list" where
  "anafa_spine12_slot_2_slb = [0,
      1, 2, 3, 1, 2, 3, 1, 2, 3, 1, 2, 3, 0, 0, 0, 0, 0, 0,
      0, 0, 0, 0, 0, 0, 0, 0, 0, 0, 0, 0, 0, 0, 0, 0, 0, 0]"

definition spine4_slot_2_slb :: "u8 list" where
  "spine4_slot_2_slb = [0,
      1, 1, 1, 2, 2, 2, 3, 3, 3, 4, 4, 4, 0, 0, 0, 0, 0, 0,
      0, 0, 0, 0, 0, 0, 0, 0, 0, 0, 0, 0, 0, 0, 0, 0, 0, 0]"

definition anafa_spine4_slot_2_slb :: "u8 list" where
  "anafa_spine4_slot_2_slb = [0,
      1, 1, 1, 1, 1, 1, 1, 1, 1, 1, 1, 1, 0, 0, 0, 0, 0, 0,
      0, 0, 0, 0, 0, 0, 0, 0, 0, 0, 0, 0, 0, 0, 0, 0, 0, 0]"

definition spine18_slot_2_slb :: "u8 list" where
  "spine18_slot_2_slb = [0,
      1, 1, 2, 2, 3, 3, 4, 4, 5, 5, 6, 6, 7, 7, 8, 8, 9, 9,
      0, 0, 0, 0, 0, 0, 0, 0, 0, 0, 0, 0, 0, 0, 0, 0, 0, 0]"

definition anafa_spine18_slot_2_slb :: "u8 list" where
  "anafa_spine18_slot_2_slb = [0,
      1, 1, 1, 1, 1, 1, 1, 1, 1, 1, 1, 1, 1, 1, 1, 1, 1, 1,
      0, 0, 0, 0, 0, 0, 0, 0, 0, 0, 0, 0, 0, 0, 0, 0, 0, 0]"

definition anafa_spine18x2_slot_2_slb :: "u8 list" where
  "anafa_spine18x2_slot_2_slb = [0,
      2, 1, 2, 1, 2, 1, 2, 1, 2, 1, 2, 1, 2, 1, 2, 1, 2, 1,
      0, 0, 0, 0, 0, 0, 0, 0, 0, 0, 0, 0, 0, 0, 0, 0, 0, 0]"

definition sfb4200_slot_2_slb :: "u8 list" where
  "sfb4200_slot_2_slb = [0,
      1, 1, 1, 1, 0, 0, 2, 2, 2, 2, 3, 3, 3, 3, 4, 4, 4, 4,
      0, 0, 0, 0, 0, 0, 0, 0, 0, 0, 0, 0, 0, 0, 0, 0, 0, 0]"

definition anafa_sfb4200_slot_2_slb :: "u8 list" where
  "anafa_sfb4200_slot_2_slb = [0,
      1, 1, 1, 1, 1, 1, 1, 1, 1, 1, 1, 1, 1, 1, 1, 1, 1, 1,
      0, 0, 0, 0, 0, 0, 0, 0, 0, 0, 0, 0, 0, 0, 0, 0, 0, 0]"

section \<open>Slots of Voltaire boards\<close>

definition table_at :: "'a list \<Rightarrow> int \<Rightarrow> 'a option" where
  \<comment> \<open>\<open>table[portnum]\<close>\<close>
  "table_at t i = (if i < 0 then None else mem_rd t (nat i))"

definition slot_from :: "u8 \<Rightarrow> u8 list \<Rightarrow> u8 list \<Rightarrow> int \<Rightarrow> ibnd_node_t \<Rightarrow> ibnd_node_t option" where
  \<comment> \<open>type, slot and chip of a board, from the tables\<close>
  "slot_from ct slot_tab anafa_tab pn n = do {
     s \<leftarrow> table_at slot_tab pn;
     a \<leftarrow> table_at anafa_tab pn;
     Some (n\<lparr>ch_type := ct, ch_slotnum := s, ch_anafanum := a\<rparr>)
   }"

definition sfb_slot :: "u32 \<Rightarrow> int \<Rightarrow> ibnd_node_t \<Rightarrow> ibnd_node_t option" where
  \<comment> \<open>by the device of the board and the port of the line board\<close>
  "sfb_slot d p n =
     (if is_spine_9096 d then slot_from ISR9096_CT spine4_slot_2_slb anafa_spine4_slot_2_slb p n
      else if is_spine_9288 d then slot_from ISR9288_CT spine12_slot_2_slb anafa_spine12_slot_2_slb p n
      else if is_spine_2012 d then slot_from ISR2012_CT spine12_slot_2_slb anafa_spine12_slot_2_slb p n
      else if is_spine_2004 d then slot_from ISR2004_CT spine4_slot_2_slb anafa_spine4_slot_2_slb p n
      else if is_spine_4700 d then slot_from ISR4700_CT spine18_slot_2_slb anafa_spine18_slot_2_slb p n
      else if is_spine_4700x2 d then slot_from ISR4700_CT spine18_slot_2_slb anafa_spine18x2_slot_2_slb p n
      else if is_spine_4200 d then slot_from ISR4200_CT sfb4200_slot_2_slb anafa_sfb4200_slot_2_slb p n
      else Some n)"

definition get_sfb_slot :: "ptr \<Rightarrow> ptr \<Rightarrow> 'm fabric \<Rightarrow> 'm fabric option" where
  "get_sfb_slot node lineport f = do {
     n \<leftarrow> st_nodes f node;
     lp \<leftarrow> st_ports f lineport;
     d \<leftarrow> devid n;
     n \<leftarrow> sfb_slot d (portnum lp) (n\<lparr>ch_slot := SPINE_CS\<rparr>);
     Some (f\<lparr>st_nodes := (st_nodes f)(node \<mapsto> n)\<rparr>)
   }"

definition port_node :: "'m fabric \<Rightarrow> ptr \<Rightarrow> (ibnd_port_t \<times> ibnd_node_t) option" where
  \<comment> \<open>a port and \<open>*port->node\<close>\<close>
  "port_node f port = do { p \<leftarrow> st_ports f port; m \<leftarrow> po_node p; n \<leftarrow> st_nodes f m; Some (p, n) }"

definition guess_anafa :: "u64 \<Rightarrow> u8" where
  \<comment> \<open>by the order of the node GUIDs on an sFB-12 module\<close>
  "guess_anafa guid = (let g = guid mod 4 in if g = 3 then 1 else if g = 1 then 3 else 2)"

definition router_slot :: "u32 \<Rightarrow> u64 \<Rightarrow> int \<Rightarrow> ibnd_node_t \<Rightarrow> ibnd_node_t option" where
  \<comment> \<open>by the device and the GUID of the spine board and its port\<close>
  "router_slot d guid p n =
     (if is_spine_9096 d then slot_from ISR9096_CT line_slot_2_sfb4 ipr_slot_2_sfb4_port p n
      else if is_spine_9288 d then do {
        s \<leftarrow> table_at line_slot_2_sfb12 p;
        Some (n\<lparr>ch_type := ISR9288_CT, ch_slotnum := s, ch_anafanum := guess_anafa guid\<rparr>)
      } else if is_spine_2012 d then do {
        s \<leftarrow> table_at line_slot_2_sfb12 p;
        Some (n\<lparr>ch_type := ISR2012_CT, ch_slotnum := s, ch_anafanum := guess_anafa guid\<rparr>)
      } else if is_spine_2004 d then slot_from ISR2004_CT line_slot_2_sfb4 ipr_slot_2_sfb4_port p n
      else Some n)"

definition get_router_slot :: "ptr \<Rightarrow> ptr \<Rightarrow> 'm fabric \<Rightarrow> 'm fabric option" where
  "get_router_slot node spineport f = do {
     n \<leftarrow> st_nodes f node;
     (sp, sn) \<leftarrow> port_node f spineport;
     d \<leftarrow> devid sn;
     n \<leftarrow> router_slot d (nd_guid sn) (portnum sp) (n\<lparr>ch_found := 1, ch_slot := SRBD_CS\<rparr>);
     Some (f\<lparr>st_nodes := (st_nodes f)(node \<mapsto> n)\<rparr>)
   }"

definition slb_slot :: "u32 \<Rightarrow> int \<Rightarrow> ibnd_node_t \<Rightarrow> ibnd_node_t option" where
  \<comment> \<open>by the device of the spine board and its port\<close>
  "slb_slot d p n =
     (if is_spine_9096 d then slot_from ISR9096_CT line_slot_2_sfb4 anafa_line_slot_2_sfb4 p n
      else if is_spine_9288 d then slot_from ISR9288_CT line_slot_2_sfb12 anafa_line_slot_2_sfb12 p n
      else if is_spine_2012 d then slot_from ISR2012_CT line_slot_2_sfb12 anafa_line_slot_2_sfb12 p n
      else if is_spine_2004 d then slot_from ISR2004_CT line_slot_2_sfb4 anafa_line_slot_2_sfb4 p n
      else if is_spine_4700 d then slot_from ISR4700_CT line_slot_2_sfb18 anafa_line_slot_2_sfb18 p n
      else if is_spine_4700x2 d then slot_from ISR4700_CT line_slot_2_sfb18x2 anafa_line_slot_2_sfb18x2 p n
      else if is_spine_4200 d then slot_from ISR4200_CT line_slot_2_sfb4200 anafa_line_slot_2_sfb4200 p n
      else Some n)"

definition get_slb_slot :: "ptr \<Rightarrow> ptr \<Rightarrow> 'm fabric \<Rightarrow> 'm fabric option" where
  "get_slb_slot node spineport f = do {
     n \<leftarrow> st_nodes f node;
     (sp, sn) \<leftarrow> port_node f spineport;
     d \<leftarrow> devid sn;
     n \<leftarrow> slb_slot d (portnum sp) (n\<lparr>ch_slot := LINE_CS\<rparr>);
     Some (f\<lparr>st_nodes := (st_nodes f)(node \<mapsto> n)\<rparr>)
   }"

section \<open>Mellanox switches\<close>

definition scan_to :: "u8 list \<Rightarrow> mem \<Rightarrow> nat \<Rightarrow> nat option" where
  \<comment> \<open>\<open>for ( ; *iter is none of stops and not 0; iter++);\<close> from the offset \<open>i\<close>\<close>
  "scan_to stops d i =
     (let j = i + length (takeWhile (\<lambda>c. c \<notin> set stops \<and> c \<noteq> 0) (drop i d))
      in if j < length d then Some j else None)"

definition atoi_at :: "mem \<Rightarrow> nat \<Rightarrow> int option" where
  \<comment> \<open>\<open>atoi(d + i)\<close>: the number must end inside the buffer\<close>
  "atoi_at d i =
     (let s = map (\<lambda>b. char_of (unat b)) (takeWhile (\<lambda>b. b \<noteq> 0) (drop i d));
          t = dropWhile is_space s;
          t = (if t \<noteq> [] \<and> (hd t = CHR ''-'' \<or> hd t = CHR ''+'') then tl t else t)
      in if 0 \<in> set (drop i d) \<or> dropWhile (is_digit 10) t \<noteq> [] then Some (c_atoi s) else None)"

text \<open>
  A description is \<open>MF0;<system name>:<system type>/<slot name>[:<board type>]/U<node index>\<close>. The
  result is the copy with its parts cut by terminators, and where the type, the slot name and the
  index are; \<open>Some None\<close> if it has another format.
\<close>

definition cut_part :: "u8 list \<Rightarrow> mem \<Rightarrow> nat \<Rightarrow> (u8 \<times> mem \<times> nat) option option" where
  \<comment> \<open>ends the part that starts at \<open>i\<close> with a terminator: what ended it and where the next part
    starts, \<open>Some None\<close> if the string ends first\<close>
  "cut_part stops d i = do {
     i \<leftarrow> scan_to stops d i;
     c \<leftarrow> mem_rd d i;
     if c = 0 then Some None else do { d \<leftarrow> mem_wr d i 0; Some (Some (c, d, Suc i)) }
   }"

definition mlx_desc :: "mem \<Rightarrow> (mem \<times> nat \<times> nat \<times> nat) option option" where
  "mlx_desc d = do {
     magic \<leftarrow> mem_load d 0 4;
     if magic \<noteq> [77, 70, 48, 59] then Some None
     else do {
       r \<leftarrow> cut_part [58] d 4;
       case r of None \<Rightarrow> Some None
       | Some (_, d, system_type) \<Rightarrow> do {
           r \<leftarrow> cut_part [47] d system_type;
           case r of None \<Rightarrow> Some None
           | Some (_, d, system_slot_name) \<Rightarrow> do {
               r \<leftarrow> cut_part [47, 58] d system_slot_name;
               r \<leftarrow> (case r of None \<Rightarrow> Some None
                    | Some (c, d, i) \<Rightarrow> if c = 58 then cut_part [47] d i else Some (Some (c, d, i)));
               case r of None \<Rightarrow> Some None
               | Some (_, d, node_index) \<Rightarrow> do {
                   c \<leftarrow> mem_rd d node_index;
                   Some (if c \<noteq> 85 then None else Some (d, system_type, system_slot_name, node_index))
                 }
             }
         }
     }
   }"

definition ext_port_step :: "ptr \<Rightarrow> nat \<Rightarrow> 'm fabric \<Rightarrow> (int \<times> 'm fabric) option" where
  \<comment> \<open>ports 1 to 18 of a line board are external ports of the same number\<close>
  "ext_port_step node p f = do {
     port \<leftarrow> port_at node p f;
     case port of None \<Rightarrow> Some (0, f)
     | Some a \<Rightarrow> map_option (Pair 0) (upd_port a (\<lambda>x. x\<lparr>ext_portnum := int p\<rparr>) f)
   }"

definition str_n_cpy :: "mem \<Rightarrow> mem \<Rightarrow> nat \<Rightarrow> mem option" where
  \<comment> \<open>\<open>strncpy(dst, src, n)\<close> for a terminated \<open>src\<close>\<close>
  "str_n_cpy dst src n =
     (let s = take n (takeWhile (\<lambda>b. b \<noteq> 0) src) in mem_store dst 0 (s @ replicate (n - length s) 0))"

definition fill_mellanox_chassis_record :: "ptr \<Rightarrow> 'm fabric \<Rightarrow> (int \<times> 'm fabric) option" where
  "fill_mellanox_chassis_record node f = do {
     n \<leftarrow> st_nodes f node;
     let put = (\<lambda>n. f\<lparr>st_nodes := (st_nodes f)(node \<mapsto> n)\<rparr>);
     if ch_found n \<noteq> 0 then Some (0, f)
     else do {
       dev_id \<leftarrow> devid n;
       if dev_id \<noteq> MLX_DEVID_IS4 then Some (0, f)
       else do {
         r \<leftarrow> mlx_desc (nodedesc n);
         case r of None \<Rightarrow> Some (0, f)
         | Some (d, system_type, system_slot_name, node_index) \<Rightarrow> do {
             anafa \<leftarrow> atoi_at d (Suc node_index);
             let n = n\<lparr>ch_anafanum := word_of_int anafa\<rparr>;
             c \<leftarrow> mem_rd d system_slot_name;
             if c \<noteq> 76 \<and> c \<noteq> 83 then Some (0, put n)
             else do {
               let slot = (if c = 76 then LINE_CS else SPINE_CS);
               num \<leftarrow> atoi_at d (Suc system_slot_name);
               let n = n\<lparr>ch_slot := slot, ch_found := 1, ch_slotnum := word_of_int num\<rparr>;
               if (slot = LINE_CS \<and> unat (ch_slotnum n) > LINES_MAX_NUM + 1) \<or>
                  (slot = SPINE_CS \<and> unat (ch_slotnum n) > SPINES_MAX_NUM + 1)
               then Some (0, put (n\<lparr>ch_slotnum := 0\<rparr>))
               else do {
                 t \<leftarrow> str_n_cpy (ch_type_str n) (drop system_type d) (CHASSIS_TYPE_SIZE - 1);
                 let n = n\<lparr>ch_type_str := t\<rparr>;
                 if slot = LINE_CS
                 then for_each (ext_port_step node) [1..<Suc (nat (min (numports n) 18))] (put n)
                 else Some (0, put n)
               }
             }
           }
       }
     }
   }"

definition insert_mellanox_line_and_spine :: "ptr \<Rightarrow> ptr \<Rightarrow> 'm fabric \<Rightarrow> 'm fabric option" where
  "insert_mellanox_line_and_spine node chassis f = do {
     n \<leftarrow> st_nodes f node;
     let i = unat (ch_slotnum n);
     if ch_slot n = LINE_CS then do {
       c \<leftarrow> st_chassis f chassis;
       x \<leftarrow> mem_rd (linenode c) i;
       if x \<noteq> None then Some f
       else do {
         f \<leftarrow> upd_chassis chassis (\<lambda>c. c\<lparr>linenode := (linenode c)[i := Some node]\<rparr>) f;
         upd_node node (\<lambda>n. n\<lparr>nd_chassis := Some chassis\<rparr>) f
       }
     } else if ch_slot n = SPINE_CS then do {
       c \<leftarrow> st_chassis f chassis;
       x \<leftarrow> mem_rd (spinenode c) i;
       if x \<noteq> None then Some f
       else do {
         f \<leftarrow> upd_chassis chassis (\<lambda>c. c\<lparr>spinenode := (spinenode c)[i := Some node]\<rparr>) f;
         upd_node node (\<lambda>n. n\<lparr>nd_chassis := Some chassis\<rparr>) f
       }
     } else Some f
   }"

section \<open>External ports of Voltaire boards\<close>

definition int2ext_map_slb24 :: "int list list" where
  "int2ext_map_slb24 = [[0, 0, 0, 0, 0, 0, 0, 0, 0, 0, 0, 0, 0, 6, 5, 4, 18, 17, 16, 1, 2, 3, 13, 14, 15],
     [0, 0, 0, 0, 0, 0, 0, 0, 0, 0, 0, 0, 0, 12, 11, 10, 24, 23, 22, 7, 8, 9, 19, 20, 21]]"

definition int2ext_map_slb8 :: "int list list" where
  "int2ext_map_slb8 = [[0, 0, 0, 0, 0, 0, 0, 0, 0, 0, 0, 0, 0, 2, 2, 2, 6, 6, 6, 1, 1, 1, 5, 5, 5],
     [0, 0, 0, 0, 0, 0, 0, 0, 0, 0, 0, 0, 0, 4, 4, 4, 8, 8, 8, 3, 3, 3, 7, 7, 7]]"

definition int2ext_map_slb2024 :: "int list list" where
  "int2ext_map_slb2024 = [[0, 0, 0, 0, 0, 0, 0, 0, 0, 0, 0, 0, 0, 13, 14, 15, 16, 17, 18, 19, 20, 21, 22, 23, 24],
     [0, 0, 0, 0, 0, 0, 0, 0, 0, 0, 0, 0, 0, 1, 2, 3, 4, 5, 6, 7, 8, 9, 10, 11, 12]]"

definition int2ext_map_sfb4700x2 :: "int list list" where
  "int2ext_map_sfb4700x2 = [[0, 0, 0, 0, 0, 0, 0, 0, 0, 0, 0, 0, 0, 0, 0, 0, 0, 0, 0, 7, 7, 7, 8, 8, 8, 9, 9, 9, 10, 10, 10, 11, 11, 11, 12, 12, 12],
     [0, 0, 0, 0, 0, 0, 0, 0, 0, 0, 0, 0, 0, 0, 0, 0, 0, 0, 0, 1, 1, 1, 2, 2, 2, 3, 3, 3, 4, 4, 4, 5, 5, 5, 6, 6, 6]]"

definition int2ext_map_slb4018 :: "int list" where
  "int2ext_map_slb4018 = [0,
      0, 0, 0, 0, 0, 0, 0, 0, 0, 0, 0, 0, 0, 0, 0, 0, 0, 0,
      1, 2, 3, 4, 5, 6, 7, 8, 9, 10, 11, 12, 13, 14, 15, 16, 17, 18]"

definition table2_at :: "int list list \<Rightarrow> nat \<Rightarrow> int \<Rightarrow> int option" where
  \<comment> \<open>\<open>table[chipnum][portnum]\<close>\<close>
  "table2_at t i j = do { row \<leftarrow> mem_rd t i; table_at row j }"

definition ext_port_of :: "u32 \<Rightarrow> u8 \<Rightarrow> u8 \<Rightarrow> int \<Rightarrow> int option" where
  \<comment> \<open>what \<open>voltaire_portmap\<close> stores, for the device, \<open>ch_found\<close> and \<open>ch_anafanum\<close> of the node\<close>
  "ext_port_of d found anafa p =
     (if found = 0 \<or> (\<not> is_line d \<and> \<not> is_spine_4700x2 d) then Some 0
      else if ((is_line_4700 d \<or> is_spine_4700x2 d) \<and> (p < 19 \<or> p > 36)) \<or>
              ((\<not> is_line_4700 d \<and> \<not> is_spine_4700x2 d) \<and> (p < 13 \<or> p > 24)) then Some 0
      else if anafa < 1 \<or> anafa > 2 then Some 0
      else let chipnum = unat anafa - 1 in
        if is_line_24 d then table2_at int2ext_map_slb24 chipnum p
        else if is_line_2024 d then table2_at int2ext_map_slb2024 chipnum p
        else if is_line_4700 d then table_at int2ext_map_slb4018 p
        else if is_spine_4700x2 d then table2_at int2ext_map_sfb4700x2 chipnum p
        else table2_at int2ext_map_slb8 chipnum p)"

definition voltaire_portmap :: "ptr \<Rightarrow> 'm fabric \<Rightarrow> 'm fabric option" where
  "voltaire_portmap port f = do {
     (p, n) \<leftarrow> port_node f port;
     d \<leftarrow> devid n;
     x \<leftarrow> ext_port_of d (ch_found n) (ch_anafanum n) (portnum p);
     upd_port port (\<lambda>p. p\<lparr>ext_portnum := x\<rparr>) f
   }"

section \<open>Voltaire switches\<close>

definition router_port_step :: "ptr \<Rightarrow> nat \<Rightarrow> 'm fabric \<Rightarrow> (int \<times> 'm fabric) option" where
  \<comment> \<open>\<open>port->remoteport\<close> is not compared with \<open>NULL\<close>\<close>
  "router_port_step node p f = do {
     port \<leftarrow> port_at node p f;
     case port of None \<Rightarrow> Some (0, f)
     | Some a \<Rightarrow> do {
         x \<leftarrow> st_ports f a;
         r \<leftarrow> remoteport x;
         (_, m) \<leftarrow> port_node f r;
         d \<leftarrow> devid m;
         if is_spine d then map_option (Pair 0) (get_router_slot node r f) else Some (0, f)
       }
   }"

definition spine_port_step :: "ptr \<Rightarrow> bool \<Rightarrow> nat \<Rightarrow> 'm fabric \<Rightarrow> (int \<times> 'm fabric) option" where
  "spine_port_step node is_4700x2 p f = do {
     port \<leftarrow> port_at node p f;
     case port of None \<Rightarrow> Some (0, f)
     | Some a \<Rightarrow> do {
         x \<leftarrow> st_ports f a;
         case remoteport x of None \<Rightarrow> Some (0, f)
         | Some r \<Rightarrow>
             if is_4700x2 \<and> portnum x > 18 then Some (0, f)
             else do {
               y \<leftarrow> st_ports f r;
               remnode \<leftarrow> po_node y;
               m \<leftarrow> st_nodes f remnode;
               if nd_type m \<noteq> uint IB_NODE_SWITCH
               then (if ch_found m = 0 then map_option (Pair 0) (get_router_slot remnode a f) else Some (0, f))
               else do {
                 n \<leftarrow> st_nodes f node;
                 if ch_type n = 0 then map_option (Pair 0) (get_sfb_slot node r f) else Some (0, f)
               }
             }
       }
   }"

definition line_port_step :: "ptr \<Rightarrow> bool \<Rightarrow> nat \<Rightarrow> 'm fabric \<Rightarrow> (int \<times> 'm fabric) option" where
  \<comment> \<open>the loop ends with the first port that is wired to a spine board: 1\<close>
  "line_port_step node is_4700_line p f = do {
     port \<leftarrow> port_at node p f;
     case port of None \<Rightarrow> Some (0, f)
     | Some a \<Rightarrow> do {
         x \<leftarrow> st_ports f a;
         case remoteport x of None \<Rightarrow> Some (0, f)
         | Some r \<Rightarrow>
             if (is_4700_line \<and> portnum x > 18) \<or> (\<not> is_4700_line \<and> portnum x > 12) then Some (0, f)
             else map_option (Pair 1) (get_slb_slot node r f)
       }
   }"

definition map_port_step :: "ptr \<Rightarrow> nat \<Rightarrow> 'm fabric \<Rightarrow> (int \<times> 'm fabric) option" where
  "map_port_step node p f = do {
     port \<leftarrow> port_at node p f;
     case port of None \<Rightarrow> Some (0, f) | Some a \<Rightarrow> map_option (Pair 0) (voltaire_portmap a f)
   }"

definition fill_voltaire_chassis_record :: "ptr \<Rightarrow> 'm fabric \<Rightarrow> (int \<times> 'm fabric) option" where
  "fill_voltaire_chassis_record node f = do {
     n \<leftarrow> st_nodes f node;
     if ch_found n \<noteq> 0 then Some (0, f)
     else do {
       f \<leftarrow> upd_node node (\<lambda>n. n\<lparr>ch_found := 1\<rparr>) f;
       d \<leftarrow> devid n;
       (_, f) \<leftarrow> (if is_router d then for_each (router_port_step node) (ports_of n) f
                  else if is_spine d then for_each (spine_port_step node (is_spine_4700x2 d)) (ports_of n) f
                  else if is_line d then for_each (line_port_step node (is_line_4700 d)) (ports_of n) f
                  else Some (0, f));
       for_each (map_port_step node) (ports_of n) f
     }
   }"

section \<open>Chassis\<close>

definition get_line_index :: "ibnd_node_t \<Rightarrow> int option" where
  "get_line_index n = do {
     d \<leftarrow> devid n;
     let retval = (if is_line_4700 d then uint (ch_slotnum n) else 3 * (uint (ch_slotnum n) - 1) + uint (ch_anafanum n));
     Some (if retval > int LINES_MAX_NUM \<or> retval < 1 then -1 else retval)
   }"

definition get_spine_index :: "ibnd_node_t \<Rightarrow> int option" where
  "get_spine_index n = do {
     d \<leftarrow> devid n;
     let retval = (if is_spine_9288 d \<or> is_spine_2012 d then 3 * (uint (ch_slotnum n) - 1) + uint (ch_anafanum n)
                   else if is_spine_4700 d \<or> is_spine_4700x2 d then 2 * (uint (ch_slotnum n) - 1) + uint (ch_anafanum n)
                   else uint (ch_slotnum n));
     Some (if retval > int SPINES_MAX_NUM \<or> retval < 1 then -1 else retval)
   }"

definition insert_line_router :: "ptr \<Rightarrow> ptr \<Rightarrow> 'm fabric \<Rightarrow> (int \<times> 'm fabric) option" where
  "insert_line_router node chassis f = do {
     n \<leftarrow> st_nodes f node;
     i \<leftarrow> get_line_index n;
     if i < 0 then Some (i, f)
     else do {
       c \<leftarrow> st_chassis f chassis;
       x \<leftarrow> table_at (linenode c) i;
       if x \<noteq> None then Some (0, f)
       else do {
         f \<leftarrow> upd_chassis chassis (\<lambda>c. c\<lparr>linenode := (linenode c)[nat i := Some node]\<rparr>) f;
         f \<leftarrow> upd_node node (\<lambda>n. n\<lparr>nd_chassis := Some chassis\<rparr>) f;
         Some (0, f)
       }
     }
   }"

definition insert_spine :: "ptr \<Rightarrow> ptr \<Rightarrow> 'm fabric \<Rightarrow> (int \<times> 'm fabric) option" where
  "insert_spine node chassis f = do {
     n \<leftarrow> st_nodes f node;
     i \<leftarrow> get_spine_index n;
     if i < 0 then Some (i, f)
     else do {
       c \<leftarrow> st_chassis f chassis;
       x \<leftarrow> table_at (spinenode c) i;
       if x \<noteq> None then Some (0, f)
       else do {
         f \<leftarrow> upd_chassis chassis (\<lambda>c. c\<lparr>spinenode := (spinenode c)[nat i := Some node]\<rparr>) f;
         f \<leftarrow> upd_node node (\<lambda>n. n\<lparr>nd_chassis := Some chassis\<rparr>) f;
         Some (0, f)
       }
     }
   }"

definition wired_step :: "(ptr \<Rightarrow> 'm fabric \<Rightarrow> (int \<times> 'm fabric) option) \<Rightarrow> (int \<Rightarrow> bool) \<Rightarrow> ptr \<Rightarrow> nat \<Rightarrow>
    'm fabric \<Rightarrow> (int \<times> 'm fabric) option" where
  \<comment> \<open>what the loops over the ports of a board do with the node wired to port \<open>p\<close>, unless the number
    of the port is to be skipped\<close>
  "wired_step act skip node p f = do {
     port \<leftarrow> port_at node p f;
     case port of None \<Rightarrow> Some (0, f)
     | Some a \<Rightarrow> do {
         x \<leftarrow> st_ports f a;
         case remoteport x of None \<Rightarrow> Some (0, f)
         | Some r \<Rightarrow>
             if skip (portnum x) then Some (0, f)
             else do {
               y \<leftarrow> st_ports f r;
               remnode \<leftarrow> po_node y;
               m \<leftarrow> st_nodes f remnode;
               if ch_found m = 0 then Some (0, f) else act remnode f
             }
       }
   }"

definition line_pass_step :: "ptr \<Rightarrow> nat \<Rightarrow> 'm fabric \<Rightarrow> (int \<times> 'm fabric) option" where
  \<comment> \<open>the spine boards wired to the line board in slot \<open>i\<close>\<close>
  "line_pass_step chassis i f = do {
     c \<leftarrow> st_chassis f chassis;
     x \<leftarrow> mem_rd (linenode c) i;
     case x of None \<Rightarrow> Some (0, f)
     | Some node \<Rightarrow> do {
         n \<leftarrow> st_nodes f node;
         d \<leftarrow> devid n;
         if \<not> is_line d then Some (0, f)
         else do {
           (rc, f) \<leftarrow> for_each (wired_step (\<lambda>remnode. insert_spine remnode chassis)
                        (\<lambda>p. (is_line_4700 d \<and> p > 18) \<or> (\<not> is_line_4700 d \<and> p > 12)) node) (ports_of n) f;
           Some (if rc \<noteq> 0 then -1 else 0, f)
         }
       }
   }"

definition pass_on_lines_catch_spines :: "ptr \<Rightarrow> 'm fabric \<Rightarrow> (int \<times> 'm fabric) option" where
  "pass_on_lines_catch_spines chassis f = for_each (line_pass_step chassis) [1..<Suc LINES_MAX_NUM] f"

definition spine_pass_step :: "ptr \<Rightarrow> nat \<Rightarrow> 'm fabric \<Rightarrow> (int \<times> 'm fabric) option" where
  "spine_pass_step chassis i f = do {
     c \<leftarrow> st_chassis f chassis;
     x \<leftarrow> mem_rd (spinenode c) i;
     case x of None \<Rightarrow> Some (0, f)
     | Some node \<Rightarrow> do {
         n \<leftarrow> st_nodes f node;
         d \<leftarrow> devid n;
         (rc, f) \<leftarrow> for_each (wired_step (\<lambda>remnode. insert_line_router remnode chassis)
                      (\<lambda>p. is_spine_4700x2 d \<and> p > 18) node) (ports_of n) f;
         Some (if rc \<noteq> 0 then -1 else 0, f)
       }
   }"

definition pass_on_spines_catch_lines :: "ptr \<Rightarrow> 'm fabric \<Rightarrow> (int \<times> 'm fabric) option" where
  "pass_on_spines_catch_lines chassis f = for_each (spine_pass_step chassis) [1..<Suc SPINES_MAX_NUM] f"

definition first_spine :: "ibnd_chassis_t \<Rightarrow> ptr option" where
  \<comment> \<open>the first slot from 1 that is not empty\<close>
  "first_spine c = (case find (\<lambda>x. x \<noteq> None) (drop 1 (spinenode c)) of None \<Rightarrow> None | Some x \<Rightarrow> x)"

definition pass_on_spines_interpolate_chguid :: "ptr \<Rightarrow> 'm fabric \<Rightarrow> 'm fabric option" where
  "pass_on_spines_interpolate_chguid chassis f = do {
     c \<leftarrow> st_chassis f chassis;
     case first_spine c of None \<Rightarrow> Some f
     | Some node \<Rightarrow> do {
         n \<leftarrow> st_nodes f node;
         upd_chassis chassis (\<lambda>c. c\<lparr>chassisguid := nd_guid n - 1\<rparr>) f
       }
   }"

definition first_lines_step :: "ptr \<Rightarrow> ptr \<Rightarrow> nat \<Rightarrow> 'm fabric \<Rightarrow> (int \<times> 'm fabric) option" where
  \<comment> \<open>the result of \<open>insert_line_router\<close> is ignored\<close>
  "first_lines_step node chassis p f = do {
     n \<leftarrow> st_nodes f node;
     d \<leftarrow> devid n;
     wired_step (\<lambda>remnode f. map_option (\<lambda>(_, f). (0, f)) (insert_line_router remnode chassis f))
       (\<lambda>p. is_spine_4700x2 d \<and> p > 18) node p f
   }"

definition and_then :: "(int \<times> 's) option \<Rightarrow> ('s \<Rightarrow> (int \<times> 's) option) \<Rightarrow> (int \<times> 's) option" where
  \<comment> \<open>\<open>if (...) return -1;\<close>\<close>
  "and_then r k = do { (rc, s) \<leftarrow> r; if rc \<noteq> 0 then Some (-1, s) else k s }"

definition build_chassis :: "ptr \<Rightarrow> ptr \<Rightarrow> 'm fabric \<Rightarrow> (int \<times> 'm fabric) option" where
  "build_chassis node chassis f =
     and_then (insert_spine node chassis f) (\<lambda>f. do {
       n \<leftarrow> st_nodes f node;
       (_, f) \<leftarrow> for_each (first_lines_step node chassis) (ports_of n) f;
       and_then (pass_on_lines_catch_spines chassis f) (\<lambda>f.
       and_then (pass_on_spines_catch_lines chassis f) (\<lambda>f.
       and_then (pass_on_lines_catch_spines chassis f) (\<lambda>f.
       and_then (pass_on_spines_catch_lines chassis f) (\<lambda>f.
         map_option (Pair 0) (pass_on_spines_interpolate_chguid chassis f)))))
     })"

section \<open>Grouping\<close>

text \<open>\<open>chassis_scan_t\<close> with the fabric and the counter of \<open>group_nodes\<close>\<close>

record 'm chassis_scan_t =
  first_chassis :: "ptr option"
  current_chassis :: "ptr option"
  last_chassis :: "ptr option"
  next_num :: int
  gr_fab :: "'m fabric"

definition add_chassis :: "'m chassis_scan_t \<Rightarrow> (int \<times> 'm chassis_scan_t) option" where
  "add_chassis s = (case new_addr (gr_fab s) of
       (None, f) \<Rightarrow> Some (-1, s\<lparr>current_chassis := None, gr_fab := f\<rparr>)
     | (Some a, f) \<Rightarrow>
         let f = f\<lparr>st_chassis := (st_chassis f)(a \<mapsto> chassis_zero)\<rparr> in
         case first_chassis s of
           None \<Rightarrow> Some (0, s\<lparr>current_chassis := Some a, first_chassis := Some a, last_chassis := Some a, gr_fab := f\<rparr>)
         | Some _ \<Rightarrow> do {
             l \<leftarrow> last_chassis s;
             f \<leftarrow> upd_chassis l (\<lambda>c. c\<lparr>chs_next := Some a\<rparr>) f;
             Some (0, s\<lparr>current_chassis := Some a, last_chassis := Some a, gr_fab := f\<rparr>)
           })"

definition add_node_to_chassis :: "ptr \<Rightarrow> ptr \<Rightarrow> 'm fabric \<Rightarrow> 'm fabric option" where
  "add_node_to_chassis chassis node f = do {
     c \<leftarrow> st_chassis f chassis;
     f \<leftarrow> upd_node node (\<lambda>n. n\<lparr>nd_chassis := Some chassis, next_chassis_node := chs_nodes c\<rparr>) f;
     upd_chassis chassis (\<lambda>c. c\<lparr>chs_nodes := Some node\<rparr>) f
   }"

fun node_loop :: "nat \<Rightarrow> (ibnd_node_t \<Rightarrow> ptr option) \<Rightarrow> (ptr \<Rightarrow> 'm chassis_scan_t \<Rightarrow> (int \<times> 'm chassis_scan_t) option) \<Rightarrow>
    ptr option \<Rightarrow> 'm chassis_scan_t \<Rightarrow> (int \<times> 'm chassis_scan_t) option" where
  \<comment> \<open>\<open>for (node = x; node; node = next(node))\<close>\<close>
  "node_loop k next body None s = Some (0, s)"
| "node_loop 0 next body (Some node) s = None"
| "node_loop (Suc k) next body (Some node) s = do {
     (rc, s) \<leftarrow> body node s;
     if rc \<noteq> 0 then Some (rc, s)
     else do { n \<leftarrow> st_nodes (gr_fab s) node; node_loop k next body (next n) s }
   }"

definition in_scan :: "(int \<times> 'm fabric) option \<Rightarrow> 'm chassis_scan_t \<Rightarrow> (int \<times> 'm chassis_scan_t) option" where
  "in_scan r s = map_option (\<lambda>(rc, f). (rc, s\<lparr>gr_fab := f\<rparr>)) r"

definition record_pass :: "ptr \<Rightarrow> 'm chassis_scan_t \<Rightarrow> (int \<times> 'm chassis_scan_t) option" where
  "record_pass node s = do {
     n \<leftarrow> st_nodes (gr_fab s) node;
     v \<leftarrow> vendid n;
     if v = VTR_VENDOR_ID then in_scan (fill_voltaire_chassis_record node (gr_fab s)) s
     else if v = MLX_VENDOR_ID then in_scan (fill_mellanox_chassis_record node (gr_fab s)) s
     else Some (0, s)
   }"

definition in_numbered_chassis :: "'m fabric \<Rightarrow> ibnd_node_t \<Rightarrow> bool option" where
  \<comment> \<open>\<open>node->chassis && node->chassis->chassisnum\<close>\<close>
  "in_numbered_chassis f n = (case nd_chassis n of None \<Rightarrow> Some False
     | Some c \<Rightarrow> map_option (\<lambda>c. chassisnum c \<noteq> 0) (st_chassis f c))"

definition voltaire_pass :: "ptr \<Rightarrow> 'm chassis_scan_t \<Rightarrow> (int \<times> 'm chassis_scan_t) option" where
  "voltaire_pass node s = do {
     n \<leftarrow> st_nodes (gr_fab s) node;
     v \<leftarrow> vendid n;
     d \<leftarrow> devid n;
     if v \<noteq> VTR_VENDOR_ID \<or> ch_found n = 0 then Some (0, s)
     else do {
       numbered \<leftarrow> in_numbered_chassis (gr_fab s) n;
       if numbered \<or> \<not> is_spine d then Some (0, s)
       else do {
         (rc, s) \<leftarrow> add_chassis s;
         if rc \<noteq> 0 then Some (-1, s)
         else do {
           ch \<leftarrow> current_chassis s;
           let num = next_num s + 1;
           f \<leftarrow> upd_chassis ch (\<lambda>c. c\<lparr>chassisnum := word_of_int num\<rparr>) (gr_fab s);
           in_scan (build_chassis node ch f) (s\<lparr>next_num := num\<rparr>)
         }
       }
     }
   }"

definition count_pass :: "endian \<Rightarrow> ptr \<Rightarrow> 'm chassis_scan_t \<Rightarrow> (int \<times> 'm chassis_scan_t) option" where
  "count_pass e node s = do {
     n \<leftarrow> st_nodes (gr_fab s) node;
     v \<leftarrow> vendid n;
     sysimgguid \<leftarrow> mad_get_field64 e (nd_info n) 0 IB_NODE_SYSTEM_GUID_F;
     if v = VTR_VENDOR_ID \<or> sysimgguid = 0 then Some (0, s)
     else do {
       chassis \<leftarrow> find_chassisguid e (gr_fab s) n;
       case chassis of
         Some c \<Rightarrow> in_scan (map_option (Pair 0) (upd_chassis c (\<lambda>c. c\<lparr>nodecount := nodecount c + 1\<rparr>) (gr_fab s))) s
       | None \<Rightarrow> do {
           (rc, s) \<leftarrow> add_chassis s;
           if rc \<noteq> 0 then Some (-1, s)
           else do {
             ch \<leftarrow> current_chassis s;
             guid \<leftarrow> get_chassisguid e (gr_fab s) n;
             f \<leftarrow> upd_chassis ch (\<lambda>c. c\<lparr>chassisguid := guid, nodecount := 1\<rparr>) (gr_fab s);
             Some (0, s\<lparr>gr_fab := (if fb_chassis f = None then f\<lparr>fb_chassis := first_chassis s\<rparr> else f)\<rparr>)
           }
         }
     }
   }"

definition number_chassis :: "ptr \<Rightarrow> 'm chassis_scan_t \<Rightarrow> 'm chassis_scan_t option" where
  \<comment> \<open>\<open>if (!chassis->chassisnum) chassis->chassisnum = ++chassisnum;\<close>\<close>
  "number_chassis ch s = do {
     c \<leftarrow> st_chassis (gr_fab s) ch;
     if chassisnum c \<noteq> 0 then Some s
     else do {
       let num = next_num s + 1;
       f \<leftarrow> upd_chassis ch (\<lambda>c. c\<lparr>chassisnum := word_of_int num\<rparr>) (gr_fab s);
       Some (s\<lparr>gr_fab := f, next_num := num\<rparr>)
     }
   }"

definition member_pass :: "endian \<Rightarrow> ptr \<Rightarrow> 'm chassis_scan_t \<Rightarrow> (int \<times> 'm chassis_scan_t) option" where
  "member_pass e node s = do {
     n \<leftarrow> st_nodes (gr_fab s) node;
     v \<leftarrow> vendid n;
     sysimgguid \<leftarrow> mad_get_field64 e (nd_info n) 0 IB_NODE_SYSTEM_GUID_F;
     if v = VTR_VENDOR_ID \<or> sysimgguid = 0 then Some (0, s)
     else do {
       chassis \<leftarrow> find_chassisguid e (gr_fab s) n;
       case chassis of None \<Rightarrow> Some (0, s)
       | Some ch \<Rightarrow> do {
           c \<leftarrow> st_chassis (gr_fab s) ch;
           if nodecount c \<le> 1 then Some (0, s)
           else do {
             s \<leftarrow> number_chassis ch s;
             if ch_found n = 0 then do {
               f \<leftarrow> upd_node node (\<lambda>n. n\<lparr>ch_found := 1\<rparr>) (gr_fab s);
               in_scan (map_option (Pair 0) (add_node_to_chassis ch node f)) s
             } else if v = MLX_VENDOR_ID
             then in_scan (map_option (Pair 0) (insert_mellanox_line_and_spine node ch (gr_fab s))) s
             else Some (0, s)
           }
         }
     }
   }"

definition group_nodes :: "endian \<Rightarrow> 'm fabric \<Rightarrow> (int \<times> 'm fabric) option" where
  "group_nodes e f = do {
     let k = Suc (st_next f);
     let s = \<lparr>first_chassis = None, current_chassis = None, last_chassis = None, next_num = 0, gr_fab = f\<rparr>;
     (rc, s) \<leftarrow> and_then (node_loop k type_next record_pass (switches f) s) (\<lambda>s.
               and_then (node_loop k type_next voltaire_pass (switches (gr_fab s)) s) (\<lambda>s.
               and_then (node_loop k nd_next (count_pass e) (fb_nodes (gr_fab s)) s) (\<lambda>s.
               and_then (node_loop k nd_next (member_pass e) (fb_nodes (gr_fab s)) s) (\<lambda>s. Some (0, s)))));
     if rc = 0 then Some (0, (gr_fab s)\<lparr>fb_chassis := first_chassis s\<rparr>)
     else do {
       f \<leftarrow> destroy_chassis_list (Suc (st_next (gr_fab s))) (first_chassis s) (gr_fab s);
       Some (-1, f\<lparr>fb_chassis := None\<rparr>)
     }
   }"

end
