(* ===== verification/Discover.thy ===== *)
theory Discover
  imports Fabric
begin

text \<open>
  Discovering the fabric (\<open>libibnetdisc/src/ibnetdisc.c\<close>): every response to a query adds to the
  fabric object and issues the queries that follow from it. A node is asked for its NodeInfo over the
  directed route on which it was reached; a switch then for its description, SwitchInfo and the
  PortInfo of every port, another node for the PortInfo of the port reached; and from every port
  whose link is up the route is extended to the node behind it.

  The state is that of the engine (\<open>SmpEngine\<close>) with the fabric object. A callback and its data
  are a value of the type \<open>completion\<close>; \<open>struct ni_cbdata\<close> is part of the value. Debugging
  and progress output has no model, but the accesses \<open>debug_port\<close> makes have.
\<close>

section \<open>State\<close>

datatype completion =
  RecvNodeInfo "(ptr \<times> nat) option" \<comment> \<open>\<open>struct ni_cbdata\<close>: the node and port the query left from\<close>
| RecvNodeDesc ptr
| RecvSwitchInfo ptr
| RecvPortInfo ptr
| RecvPort0Info ptr
| RecvMlnxExtPortInfo ptr

text \<open>The engine, and \<open>ibnd_scan_t\<close>, which is its \<open>user_data\<close>; \<open>scan->cfg\<close> is the engine's.\<close>

record 'm discovery = "('m, completion) smp_world" +
  d_fab :: "'m fabric"
  d_selfportid :: ib_portid_t
  d_initial_hops :: u32

definition on_fab :: "('m fabric \<Rightarrow> 'm fabric option) \<Rightarrow> 'm discovery \<Rightarrow> 'm discovery option" where
  "on_fab g w = map_option (\<lambda>f. w\<lparr>d_fab := f\<rparr>) (g (d_fab w))"

definition issue_from :: "'m qmap_ops \<Rightarrow> endian \<Rightarrow> ptr \<Rightarrow> u32 \<Rightarrow> u32 \<Rightarrow> completion \<Rightarrow> 'm discovery \<Rightarrow>
    (int \<times> 'm discovery) option" where
  \<comment> \<open>\<open>issue_smp(engine, &smp->path, ...)\<close>\<close>
  "issue_from qm e smp attrid amod cb w = do {
     s \<leftarrow> w_smps w smp;
     (rc, path, w) \<leftarrow> issue_smp qm e (sm_path s) attrid amod cb w;
     s \<leftarrow> w_smps w smp;
     Some (rc, w\<lparr>w_smps := (w_smps w)(smp \<mapsto> s\<lparr>sm_path := path\<rparr>)\<rparr>)
   }"

text \<open>Values of \<open>iba/ib_types.h\<close>, in host byte order\<close>

definition IB_PORT_PHYS_STATE_LINKUP :: u32 where [c_eval]: "IB_PORT_PHYS_STATE_LINKUP = 5"
definition IB_LINK_SPEED_ACTIVE_10 :: u32 where [c_eval]: "IB_LINK_SPEED_ACTIVE_10 = 4"
definition IB_LINK_SPEED_EXT_ACTIVE_NONE :: u32 where [c_eval]: "IB_LINK_SPEED_EXT_ACTIVE_NONE = 0"
definition IB_PORT_CAP_HAS_EXT_SPEEDS :: u32 where [c_eval]: "IB_PORT_CAP_HAS_EXT_SPEEDS = 0x4000"

section \<open>Queries\<close>

definition query_switch_info :: "'m qmap_ops \<Rightarrow> endian \<Rightarrow> ptr \<Rightarrow> ptr \<Rightarrow> 'm discovery \<Rightarrow> (int \<times> 'm discovery) option" where
  "query_switch_info qm e smp node w = do {
     w \<leftarrow> on_fab (upd_node node (\<lambda>n. n\<lparr>smaenhsp0 := 0\<rparr>)) w;
     issue_from qm e smp IB_ATTR_SWITCH_INFO 0 (RecvSwitchInfo node) w
   }"

definition query_node_desc :: "'m qmap_ops \<Rightarrow> endian \<Rightarrow> ptr \<Rightarrow> ptr \<Rightarrow> 'm discovery \<Rightarrow> (int \<times> 'm discovery) option" where
  "query_node_desc qm e smp node w = issue_from qm e smp IB_ATTR_NODE_DESC 0 (RecvNodeDesc node) w"

definition query_port_info :: "'m qmap_ops \<Rightarrow> endian \<Rightarrow> ptr \<Rightarrow> ptr \<Rightarrow> nat \<Rightarrow> 'm discovery \<Rightarrow> (int \<times> 'm discovery) option" where
  "query_port_info qm e smp node num w =
     issue_from qm e smp IB_ATTR_PORT_INFO (word_of_nat num)
       (if num \<noteq> 0 then RecvPortInfo node else RecvPort0Info node) w"

definition query_mlnx_ext_port_info :: "'m qmap_ops \<Rightarrow> endian \<Rightarrow> ptr \<Rightarrow> ptr \<Rightarrow> nat \<Rightarrow> 'm discovery \<Rightarrow>
    (int \<times> 'm discovery) option" where
  "query_mlnx_ext_port_info qm e smp node num w =
     issue_from qm e smp IB_ATTR_MLNX_EXT_PORT_INFO (word_of_nat num) (RecvMlnxExtPortInfo node) w"

definition query_node_info :: "'m qmap_ops \<Rightarrow> endian \<Rightarrow> ib_portid_t \<Rightarrow> (ptr \<times> nat) option \<Rightarrow> 'm discovery \<Rightarrow>
    (int \<times> 'm discovery) option" where
  "query_node_info qm e portid cbdata w =
     map_option (\<lambda>(rc, _, w). (rc, w)) (issue_smp qm e portid IB_ATTR_NODE_INFO 0 (RecvNodeInfo cbdata) w)"

section \<open>Routes\<close>

definition add_port_to_dpath :: "ib_dr_path_t \<Rightarrow> nat \<Rightarrow> (int \<times> ib_dr_path_t) option" where
  "add_port_to_dpath path nextport =
     (if size_of_int (cnt path) > 64 - 2 then Some (-1, path)
      else do {
        let path = path\<lparr>cnt := cnt path + 1\<rparr>;
        p \<leftarrow> mem_wr (hops path) (nat (cnt path)) (word_of_nat nextport);
        Some (cnt path, path\<lparr>hops := p\<rparr>)
      })"

definition hops_exhausted :: "'m discovery \<Rightarrow> bool" where
  \<comment> \<open>\<open>scan->cfg->max_hops && f_int->fabric.maxhops_discovered > scan->cfg->max_hops\<close>\<close>
  "hops_exhausted w \<longleftrightarrow>
     cf_max_hops (eng_cfg w) \<noteq> 0 \<and> maxhops_discovered (d_fab w) > cf_max_hops (eng_cfg w)"

definition deeper :: "'m discovery \<Rightarrow> 'm discovery" where
  \<comment> \<open>\<open>f_int->fabric.maxhops_discovered++\<close>\<close>
  "deeper w = w\<lparr>d_fab := (d_fab w)\<lparr>maxhops_discovered := maxhops_discovered (d_fab w) + 1\<rparr>\<rparr>"

definition retract_dpath :: "ib_portid_t \<Rightarrow> 'm discovery \<Rightarrow> (int \<times> ib_portid_t \<times> 'm discovery) option" where
  "retract_dpath portid w =
     (if hops_exhausted w then Some (0, portid, w)
      else do {
        let w = deeper w;
        let dr = pt_drpath portid;
        p \<leftarrow> (if cnt dr < 0 then None else mem_wr (hops dr) (nat (cnt dr)) 0);
        Some (1, portid\<lparr>pt_drpath := dr\<lparr>hops := p, cnt := cnt dr - 1\<rparr>\<rparr>, w)
      })"

definition extend_dpath :: "ib_portid_t \<Rightarrow> nat \<Rightarrow> 'm discovery \<Rightarrow> (int \<times> ib_portid_t \<times> 'm discovery) option" where
  "extend_dpath portid nextport w =
     (if hops_exhausted w then Some (0, portid, w)
      else do {
        let portid = (if pt_lid portid \<noteq> 0
                      then portid\<lparr>pt_drpath := (pt_drpath portid)\<lparr>drslid := word_of_int (pt_lid (d_selfportid w)),
                                                              drdlid := 0xFFFF\<rparr>\<rparr>
                      else portid);
        (rc, path) \<leftarrow> add_port_to_dpath (pt_drpath portid) nextport;
        let portid = portid\<lparr>pt_drpath := path\<rparr>;
        if rc < 0 then Some (-1, portid, w)
        else let w = (if word_of_int (cnt path) - d_initial_hops w > maxhops_discovered (d_fab w)
                      then deeper w else w)
             in Some (1, portid, w)
      })"

section \<open>Ports\<close>

definition ext_speed_info :: "'m fabric \<Rightarrow> ibnd_port_t \<Rightarrow> mem option" where
  \<comment> \<open>the PortInfo that holds the capability mask: that of port 0 for a switch\<close>
  "ext_speed_info f p = do {
     node \<leftarrow> po_node p;
     n \<leftarrow> st_nodes f node;
     if nd_type n = uint IB_NODE_SWITCH then do {
       p0 \<leftarrow> node_port n 0;
       a \<leftarrow> p0;
       map_option po_info (st_ports f a)
     } else Some (po_info p)
   }"

definition ext_speed :: "'m fabric \<Rightarrow> ibnd_port_t \<Rightarrow> u32 option" where
  \<comment> \<open>\<open>espeed\<close>: 0 unless the capability mask has extended speeds\<close>
  "ext_speed f p = do {
     info \<leftarrow> ext_speed_info f p;
     cap_mask \<leftarrow> mad_get_field info 0 IB_PORT_CAPMASK_F;
     if cap_mask AND IB_PORT_CAP_HAS_EXT_SPEEDS \<noteq> 0
     then mad_get_field (po_info p) 0 IB_PORT_LINK_SPEED_EXT_ACTIVE_F else Some 0
   }"

definition debug_port :: "'m fabric \<Rightarrow> ptr \<Rightarrow> unit option" where
  \<comment> \<open>the accesses of \<open>debug_port\<close>, which happen whether or not anything is printed\<close>
  "debug_port f port = do {
     p \<leftarrow> st_ports f port;
     _ \<leftarrow> mad_get_field (po_info p) 0 IB_PORT_LINK_WIDTH_ACTIVE_F;
     _ \<leftarrow> mad_get_field (po_info p) 0 IB_PORT_LINK_SPEED_ACTIVE_F;
     _ \<leftarrow> mad_get_field (ext_info p) 0 IB_MLNX_EXT_PORT_LINK_SPEED_ACTIVE_F;
     _ \<leftarrow> ext_speed f p;
     Some ()
   }"

definition is_mlnx_ext_port_info_supported :: "'m fabric \<Rightarrow> ibnd_port_t \<Rightarrow> bool option" where
  "is_mlnx_ext_port_info_supported f port = do {
     node \<leftarrow> po_node port;
     n \<leftarrow> st_nodes f node;
     d \<leftarrow> mad_get_field (nd_info n) 0 IB_NODE_DEVID_F;
     vendorid \<leftarrow> mad_get_field (nd_info n) 0 IB_NODE_VENDORID_F;
     let devid = (ucast d :: u16);
     Some (
       if (devid \<ge> 0xc738 \<and> devid \<le> 0xc73b) \<or> devid = 0xc839 \<or> devid = 0xcb20 \<or> devid = 0xcf08 \<or>
          devid = 0xcf09 \<or> devid = 0xd2f0 \<or>
          (vendorid = 0x119f \<and>
            (devid = 0x1b02 \<or> devid = 0x1b50 \<or> devid = 0x1ba0 \<or> (devid \<ge> 0x1bd0 \<and> devid \<le> 0x1bd5) \<or>
             devid = 0x1bf0))
       then True
       else (devid \<ge> 0x1003 \<and> devid \<le> 0x101b) \<or> devid = 0xa2d2 \<or>
          (vendorid = 0x119f \<and>
            (devid = 0x1b33 \<or> devid = 0x1b73 \<or> devid = 0x1b40 \<or> devid = 0x1b41 \<or> devid = 0x1b60 \<or>
             devid = 0x1b61 \<or> devid = 0x1b83 \<or> devid = 0x1b93 \<or> devid = 0x1b94 \<or> devid = 0x1bb4 \<or>
             devid = 0x1bb5 \<or> (devid \<ge> 0x1bc4 \<and> devid \<le> 0x1bc6))))
   }"

definition peer_wanted :: "'m fabric \<Rightarrow> ptr \<Rightarrow> ptr \<Rightarrow> nat \<Rightarrow> nat \<Rightarrow> bool option" where
  \<comment> \<open>whether the node behind a port is to be queried: the link is up, and the port is an external
    port of a switch or the one the discovery started from\<close>
  "peer_wanted f node port port_num local_port = do {
     p \<leftarrow> st_ports f port;
     if port_num = 0 then Some False
     else do {
       phys \<leftarrow> mad_get_field (po_info p) 0 IB_PORT_PHYS_STATE_F;
       if phys \<noteq> IB_PORT_PHYS_STATE_LINKUP then Some False
       else do {
         n \<leftarrow> st_nodes f node;
         Some ((nd_type n = uint IB_NODE_SWITCH \<and> port_num \<noteq> local_port) \<or>
               (from_node f = Some node \<and> from_portnum f = int port_num))
       }
     }
   }"

definition query_peer :: "'m qmap_ops \<Rightarrow> endian \<Rightarrow> ptr \<Rightarrow> ptr \<Rightarrow> nat \<Rightarrow> 'm discovery \<Rightarrow> 'm discovery option" where
  \<comment> \<open>the route to the node behind a port, and the query; the result of \<open>malloc\<close> for the \<open>ni_cbdata\<close> is not
      tested before the node is stored through it\<close>
  "query_peer qm e smp node port_num w = do {
     s \<leftarrow> w_smps w smp;
     n \<leftarrow> st_nodes (d_fab w) node;
     let path = sm_path s;
     (rc, path, w) \<leftarrow>
       (if nd_type n \<noteq> uint IB_NODE_SWITCH \<and> from_node (d_fab w) = Some node \<and> cnt (pt_drpath path) > 1
        then retract_dpath path w
        else if pt_lid path = 0 \<or> nd_type n = uint IB_NODE_SWITCH
        then extend_dpath path port_num w
        else Some (0, path, w));
     if rc > 0 then (case new_addr (d_fab w) of (None, _) \<Rightarrow> None
       | (Some _, f) \<Rightarrow> map_option snd (query_node_info qm e path (Some (node, port_num)) (w\<lparr>d_fab := f\<rparr>)))
     else Some w
   }"

section \<open>Responses\<close>

definition recv_switch_info :: "endian \<Rightarrow> ptr \<Rightarrow> mem \<Rightarrow> 'm discovery \<Rightarrow> (int \<times> 'm discovery) option" where
  "recv_switch_info e node mad w = do {
     info \<leftarrow> mem_load mad IB_SMP_DATA_OFFS 64;
     enh \<leftarrow> decode_int e info IB_SW_ENHANCED_PORT0_F;
     w \<leftarrow> on_fab (upd_node node (\<lambda>n. n\<lparr>switchinfo := info, smaenhsp0 := enh\<rparr>)) w;
     Some (0, w)
   }"

definition recv_node_desc :: "ptr \<Rightarrow> mem \<Rightarrow> 'm discovery \<Rightarrow> (int \<times> 'm discovery) option" where
  "recv_node_desc node mad w = do {
     desc \<leftarrow> mem_load mad IB_SMP_DATA_OFFS 64;
     w \<leftarrow> on_fab (upd_node node (\<lambda>n. n\<lparr>nodedesc := desc\<rparr>)) w;
     Some (0, w)
   }"

definition mad_port_num :: "mem \<Rightarrow> nat option" where
  \<comment> \<open>\<open>(uint8_t) mad_get_field(mad, 0, IB_MAD_ATTRMOD_F)\<close>\<close>
  "mad_port_num mad = map_option (\<lambda>v. unat (ucast v :: u8)) (mad_get_field mad 0 IB_MAD_ATTRMOD_F)"

definition ext_port_known :: "'m qmap_ops \<Rightarrow> endian \<Rightarrow> ptr \<Rightarrow> ptr \<Rightarrow> ptr \<Rightarrow> nat \<Rightarrow> 'm discovery \<Rightarrow>
    (int \<times> 'm discovery) option" where
  \<comment> \<open>how \<open>recv_mlnx_ext_port_info\<close> and \<open>mlnx_ext_port_info_err\<close> go on\<close>
  "ext_port_known qm e smp node port port_num w = do {
     p \<leftarrow> st_ports (d_fab w) port;
     local_port \<leftarrow> mad_get_field (po_info p) 0 IB_PORT_LOCAL_PORT_F;
     _ \<leftarrow> debug_port (d_fab w) port;
     wanted \<leftarrow> peer_wanted (d_fab w) node port port_num (unat (ucast local_port :: u8));
     w \<leftarrow> (if wanted then query_peer qm e smp node port_num w else Some w);
     Some (0, w)
   }"

definition mlnx_ext_port_info_err :: "'m qmap_ops \<Rightarrow> endian \<Rightarrow> ptr \<Rightarrow> ptr \<Rightarrow> mem \<Rightarrow> 'm discovery \<Rightarrow>
    (int \<times> 'm discovery) option" where
  "mlnx_ext_port_info_err qm e smp node mad w = do {
     port_num \<leftarrow> mad_port_num mad;
     n \<leftarrow> st_nodes (d_fab w) node;
     port \<leftarrow> node_port n port_num;
     case port of None \<Rightarrow> Some (-1, w) | Some port \<Rightarrow> ext_port_known qm e smp node port port_num w
   }"

definition recv_mlnx_ext_port_info :: "'m qmap_ops \<Rightarrow> endian \<Rightarrow> ptr \<Rightarrow> ptr \<Rightarrow> mem \<Rightarrow> 'm discovery \<Rightarrow>
    (int \<times> 'm discovery) option" where
  "recv_mlnx_ext_port_info qm e smp node mad w = do {
     port_num \<leftarrow> mad_port_num mad;
     n \<leftarrow> st_nodes (d_fab w) node;
     port \<leftarrow> node_port n port_num;
     case port of None \<Rightarrow> Some (-1, w)
     | Some port \<Rightarrow> do {
         info \<leftarrow> mem_load mad IB_SMP_DATA_OFFS 64;
         w \<leftarrow> on_fab (upd_port port (\<lambda>p. p\<lparr>ext_info := info\<rparr>)) w;
         ext_port_known qm e smp node port port_num w
       }
   }"

definition find_or_add_port :: "endian \<Rightarrow> ptr \<Rightarrow> nat \<Rightarrow> 'm fabric \<Rightarrow> (ptr option \<times> 'm fabric) option" where
  \<comment> \<open>\<open>port = node->ports[port_num]\<close>, made if there is none; \<open>None\<close> in it: no memory\<close>
  "find_or_add_port e node port_num f = do {
     n \<leftarrow> st_nodes f node;
     port \<leftarrow> node_port n port_num;
     case port of Some p \<Rightarrow> Some (Some p, f)
     | None \<Rightarrow> (case new_addr f of (None, f) \<Rightarrow> Some (None, f)
        | (Some a, f) \<Rightarrow> do {
            guid \<leftarrow> mad_get_field64 e (nd_info n) 0 IB_NODE_PORT_GUID_F;
            Some (Some a, f\<lparr>st_ports := (st_ports f)(a \<mapsto> port_zero\<lparr>po_guid := guid\<rparr>),
              st_nodes := (st_nodes f)(node \<mapsto> n\<lparr>ports := (ports n)[port_num := Some a]\<rparr>)\<rparr>)
          })
   }"

definition store_port_info :: "ptr \<Rightarrow> ptr \<Rightarrow> nat \<Rightarrow> mem \<Rightarrow> 'm fabric \<Rightarrow> 'm fabric option" where
  \<comment> \<open>what \<open>recv_port_info\<close> keeps of a PortInfo; the ports of a switch have the LID of its port 0\<close>
  "store_port_info node port port_num info f = do {
     lid \<leftarrow> mad_get_field info 0 IB_PORT_LID_F;
     l \<leftarrow> mad_get_field info 0 IB_PORT_LMC_F;
     f \<leftarrow> upd_port port (\<lambda>p. p\<lparr>po_info := info, po_node := Some node, portnum := int port_num, ext_portnum := 0,
            base_lid := ucast lid, lmc := ucast l\<rparr>) f;
     n \<leftarrow> st_nodes f node;
     if port_num = 0 then upd_node node (\<lambda>n. n\<lparr>smalid := ucast lid, smalmc := ucast l\<rparr>) f
     else if nd_type n = uint IB_NODE_SWITCH then upd_port port (\<lambda>p. p\<lparr>base_lid := smalid n, lmc := smalmc n\<rparr>) f
     else Some f
   }"

definition wants_mlnx_ext_info :: "'m discovery \<Rightarrow> ptr \<Rightarrow> bool option" where
  \<comment> \<open>the link is up at QDR on hardware that may run FDR10, and asking is configured\<close>
  "wants_mlnx_ext_info w port = do {
     p \<leftarrow> st_ports (d_fab w) port;
     if cf_flags (eng_cfg w) AND IBND_CONFIG_MLX_EPI = 0 then Some False
     else do {
       supported \<leftarrow> is_mlnx_ext_port_info_supported (d_fab w) p;
       if \<not> supported then Some False
       else do {
         phystate \<leftarrow> mad_get_field (po_info p) 0 IB_PORT_PHYS_STATE_F;
         ispeed \<leftarrow> mad_get_field (po_info p) 0 IB_PORT_LINK_SPEED_ACTIVE_F;
         espeed \<leftarrow> ext_speed (d_fab w) p;
         Some (phystate = IB_PORT_PHYS_STATE_LINKUP \<and> ispeed = IB_LINK_SPEED_ACTIVE_10 \<and>
               espeed = IB_LINK_SPEED_EXT_ACTIVE_NONE)
       }
     }
   }"

definition recv_port_info :: "'m qmap_ops \<Rightarrow> endian \<Rightarrow> ptr \<Rightarrow> ptr \<Rightarrow> mem \<Rightarrow> 'm discovery \<Rightarrow>
    (int \<times> 'm discovery) option" where
  "recv_port_info qm e smp node mad w = do {
     port_num \<leftarrow> mad_port_num mad;
     info \<leftarrow> mem_load mad IB_SMP_DATA_OFFS 64;
     local_port \<leftarrow> mad_get_field info 0 IB_PORT_LOCAL_PORT_F;
     (port, f) \<leftarrow> find_or_add_port e node port_num (d_fab w);
     let w = w\<lparr>d_fab := f\<rparr>;
     case port of None \<Rightarrow> Some (-1, w)
     | Some port \<Rightarrow> do {
         w \<leftarrow> on_fab (store_port_info node port port_num info) w;
         w \<leftarrow> on_fab (\<lambda>f. map_option snd (add_to_portguid_hash port f)) w;
         w \<leftarrow> on_fab (add_to_portlid_hash qm port) w;
         ext \<leftarrow> wants_mlnx_ext_info w port;
         if ext then do { (_, w) \<leftarrow> query_mlnx_ext_port_info qm e smp node port_num w; Some (0, w) }
         else do {
           _ \<leftarrow> debug_port (d_fab w) port;
           wanted \<leftarrow> peer_wanted (d_fab w) node port port_num (unat (ucast local_port :: u8));
           w \<leftarrow> (if wanted then query_peer qm e smp node port_num w else Some w);
           Some (0, w)
         }
       }
   }"

fun query_ports :: "'m qmap_ops \<Rightarrow> endian \<Rightarrow> ptr \<Rightarrow> ptr \<Rightarrow> nat list \<Rightarrow> 'm discovery \<Rightarrow> 'm discovery option" where
  "query_ports qm e smp node [] w = Some w"
| "query_ports qm e smp node (i # is) w = do {
     (_, w) \<leftarrow> query_port_info qm e smp node i w;
     query_ports qm e smp node is w
   }"

definition recv_port0_info :: "'m qmap_ops \<Rightarrow> endian \<Rightarrow> ptr \<Rightarrow> ptr \<Rightarrow> mem \<Rightarrow> 'm discovery \<Rightarrow>
    (int \<times> 'm discovery) option" where
  "recv_port0_info qm e smp node mad w = do {
     (status, w) \<leftarrow> recv_port_info qm e smp node mad w;
     n \<leftarrow> st_nodes (d_fab w) node;
     w \<leftarrow> query_ports qm e smp node [1..<Suc (nat (numports n))] w;
     Some (status, w)
   }"

definition create_node :: "endian \<Rightarrow> ib_portid_t \<Rightarrow> mem \<Rightarrow> 'm fabric \<Rightarrow> (ptr option \<times> 'm fabric) option" where
  "create_node e path node_info f = (case new_addr f of (None, f) \<Rightarrow> Some (None, f)
     | (Some a, f) \<Rightarrow> do {
         guid \<leftarrow> decode_u64 e node_info IB_NODE_GUID_F;
         type \<leftarrow> decode_int e node_info IB_NODE_TYPE_F;
         nports \<leftarrow> decode_int e node_info IB_NODE_NPORTS_F;
         case new_addr f of (None, f) \<Rightarrow> Some (None, f)
         | (Some _, f) \<Rightarrow> do {
             let f = f\<lparr>st_nodes := (st_nodes f)(a \<mapsto> node_zero\<lparr>nd_guid := guid, nd_type := type, numports := nports,
                 ports := replicate (nat (nports + 1)) None, path_portid := path, nd_info := node_info\<rparr>)\<rparr>;
             (_, f) \<leftarrow> add_to_nodeguid_hash a f;
             f \<leftarrow> upd_node a (\<lambda>n. n\<lparr>nd_next := fb_nodes f\<rparr>) f;
             f \<leftarrow> add_to_type_list a (f\<lparr>fb_nodes := Some a\<rparr>);
             Some (Some a, f)
           }
       })"

definition find_or_add_node :: "endian \<Rightarrow> ib_portid_t \<Rightarrow> mem \<Rightarrow> u64 \<Rightarrow> 'm fabric \<Rightarrow>
    ((ptr \<times> bool) option \<times> 'm fabric) option" where
  \<comment> \<open>the node of a GUID and whether it is new\<close>
  "find_or_add_node e path node_info guid f = do {
     x \<leftarrow> ibnd_find_node_guid f guid;
     case x of Some node \<Rightarrow> Some (Some (node, False), f)
     | None \<Rightarrow> do { (r, f) \<leftarrow> create_node e path node_info f; Some (map_option (\<lambda>a. (a, True)) r, f) }
   }"

definition shell_port :: "ptr \<Rightarrow> nat \<Rightarrow> 'm fabric \<Rightarrow> (ptr option \<times> 'm fabric) option" where
  \<comment> \<open>the port a node was reached on, a shell if it has not been seen\<close>
  "shell_port node port_num f = do {
     n \<leftarrow> st_nodes f node;
     port \<leftarrow> node_port n port_num;
     case port of Some p \<Rightarrow> Some (Some p, f)
     | None \<Rightarrow> (case new_addr f of (None, f) \<Rightarrow> Some (None, f)
        | (Some a, f) \<Rightarrow>
            Some (Some a, f\<lparr>st_ports := (st_ports f)(a \<mapsto> port_zero\<lparr>po_node := Some node, portnum := int port_num\<rparr>),
              st_nodes := (st_nodes f)(node \<mapsto> n\<lparr>ports := (ports n)[port_num := Some a]\<rparr>)\<rparr>))
   }"

definition connect :: "ptr \<Rightarrow> ptr \<Rightarrow> nat \<Rightarrow> (ptr \<times> nat) option \<Rightarrow> 'm fabric \<Rightarrow> (int \<times> 'm fabric) option" where
  \<comment> \<open>the start node is remembered; another one is linked to the port the query left from\<close>
  "connect node port port_num rem f =
     (case rem of None \<Rightarrow> Some (0, f\<lparr>from_node := Some node, from_portnum := int port_num\<rparr>)
      | Some (rem_node, rem_port_num) \<Rightarrow> do {
          rn \<leftarrow> st_nodes f rem_node;
          rp \<leftarrow> node_port rn rem_port_num;
          case rp of None \<Rightarrow> Some (-1, f)
          | Some rport \<Rightarrow> do { f \<leftarrow> link_ports port rport f; Some (0, f) }
        })"

definition query_found :: "'m qmap_ops \<Rightarrow> endian \<Rightarrow> ptr \<Rightarrow> ptr \<Rightarrow> nat \<Rightarrow> bool \<Rightarrow> 'm discovery \<Rightarrow> 'm discovery option" where
  \<comment> \<open>what is asked of a node once its NodeInfo is there\<close>
  "query_found qm e smp node port_num node_is_new w = do {
     w \<leftarrow> (if node_is_new then do {
              (_, w) \<leftarrow> query_node_desc qm e smp node w;
              n \<leftarrow> st_nodes (d_fab w) node;
              if nd_type n = uint IB_NODE_SWITCH then do {
                (_, w) \<leftarrow> query_switch_info qm e smp node w;
                (_, w) \<leftarrow> query_port_info qm e smp node 0 w;
                Some w
              } else Some w
            } else Some w);
     n \<leftarrow> st_nodes (d_fab w) node;
     if nd_type n \<noteq> uint IB_NODE_SWITCH then map_option snd (query_port_info qm e smp node port_num w)
     else Some w
   }"

definition recv_node_info :: "'m qmap_ops \<Rightarrow> endian \<Rightarrow> ptr \<Rightarrow> (ptr \<times> nat) option \<Rightarrow> mem \<Rightarrow> 'm discovery \<Rightarrow>
    (int \<times> 'm discovery) option" where
  "recv_node_info qm e smp cbdata mad w = do {
     node_info \<leftarrow> mem_load mad IB_SMP_DATA_OFFS 64;
     node_guid \<leftarrow> mad_get_field64 e node_info 0 IB_NODE_GUID_F;
     port_guid \<leftarrow> mad_get_field64 e node_info 0 IB_NODE_PORT_GUID_F;
     v \<leftarrow> mad_get_field node_info 0 IB_NODE_LOCAL_PORT_F;
     let port_num = unat v;
     s \<leftarrow> w_smps w smp;
     (r, f) \<leftarrow> find_or_add_node e (sm_path s) node_info node_guid (d_fab w);
     case r of None \<Rightarrow> Some (-1, w\<lparr>d_fab := f\<rparr>)
     | Some (node, node_is_new) \<Rightarrow> do {
         (port, f) \<leftarrow> shell_port node port_num f;
         case port of None \<Rightarrow> Some (-1, w\<lparr>d_fab := f\<rparr>)
         | Some port \<Rightarrow> do {
             f \<leftarrow> upd_port port (\<lambda>p. p\<lparr>po_guid := port_guid\<rparr>) f;
             (rc, f) \<leftarrow> connect node port port_num cbdata f;
             let w = w\<lparr>d_fab := f\<rparr>;
             if rc < 0 then Some (-1, w)
             else do {
               w \<leftarrow> query_found qm e smp node port_num node_is_new w;
               Some (0, w)
             }
           }
       }
   }"

section \<open>The callbacks\<close>

definition run_completion :: "'m qmap_ops \<Rightarrow> endian \<Rightarrow> completion \<Rightarrow> ptr \<Rightarrow> mem \<Rightarrow> 'm discovery \<Rightarrow>
    (int \<times> 'm discovery) option" where
  "run_completion qm e k smp mad w = (case k of
       RecvNodeInfo cbdata \<Rightarrow> recv_node_info qm e smp cbdata mad w
     | RecvNodeDesc node \<Rightarrow> recv_node_desc node mad w
     | RecvSwitchInfo node \<Rightarrow> recv_switch_info e node mad w
     | RecvPortInfo node \<Rightarrow> recv_port_info qm e smp node mad w
     | RecvPort0Info node \<Rightarrow> recv_port0_info qm e smp node mad w
     | RecvMlnxExtPortInfo node \<Rightarrow> recv_mlnx_ext_port_info qm e smp node mad w)"

definition run_epi_err :: "'m qmap_ops \<Rightarrow> endian \<Rightarrow> completion \<Rightarrow> ptr \<Rightarrow> mem \<Rightarrow> 'm discovery \<Rightarrow>
    (int \<times> 'm discovery) option" where
  \<comment> \<open>\<open>mlnx_ext_port_info_err\<close> takes its data for a node, as it is in the one query it is called for\<close>
  "run_epi_err qm e k smp mad w = (case k of
       RecvMlnxExtPortInfo node \<Rightarrow> mlnx_ext_port_info_err qm e smp node mad w
     | _ \<Rightarrow> None)"

end
