(* ===== verification/SmpEngineCorrect.thy ===== *)
theory SmpEngineCorrect
  imports SmpEngine MadRpcCorrect
begin

text \<open>
  What the engine guarantees: the linked list is a first-in first-out queue; no operation
  touches a packet that is not live; at most \<open>max_smps\<close> packets are on the wire; packets are
  sent in the order they were issued; a callback only sees a response with the transaction id
  of its own request; the loops return; tearing down frees every packet.
\<close>

section \<open>A contract for queues\<close>

datatype 'p fifo_op = Put 'p | Get

fun fifo_spec :: "'p fifo_op list \<Rightarrow> 'p list \<Rightarrow> 'p option list \<times> 'p list" where
  \<comment> \<open>what the gets return, and what is left\<close>
  "fifo_spec [] q = ([], q)"
| "fifo_spec (Put p # ops) q = fifo_spec ops (q @ [p])"
| "fifo_spec (Get # ops) [] = (let (r, q') = fifo_spec ops [] in (None # r, q'))"
| "fifo_spec (Get # ops) (p # q) = (let (r, q') = fifo_spec ops q in (Some p # r, q'))"

fun fifo_ok :: "'p set \<Rightarrow> 'p fifo_op list \<Rightarrow> 'p list \<Rightarrow> bool" where
  \<comment> \<open>only live packets that are not queued are put\<close>
  "fifo_ok live [] q = True"
| "fifo_ok live (Put p # ops) q \<longleftrightarrow> p \<in> live \<and> p \<notin> set q \<and> fifo_ok live ops (q @ [p])"
| "fifo_ok live (Get # ops) q = fifo_ok live ops (tl q)"

fun fifo_run :: "('p \<Rightarrow> 's \<Rightarrow> 's option) \<Rightarrow> ('s \<Rightarrow> ('p option \<times> 's) option) \<Rightarrow> 'p fifo_op list \<Rightarrow> 's \<Rightarrow>
    ('p option list \<times> 's) option" where
  "fifo_run put get [] s = Some ([], s)"
| "fifo_run put get (Put p # ops) s = do { s \<leftarrow> put p s; fifo_run put get ops s }"
| "fifo_run put get (Get # ops) s = do {
     (x, s) \<leftarrow> get s;
     (r, s) \<leftarrow> fifo_run put get ops s;
     Some (x # r, s)
   }"

locale fifo =
  fixes live :: "'s \<Rightarrow> 'p set" and repr :: "'s \<Rightarrow> 'p list \<Rightarrow> bool"
    and put :: "'p \<Rightarrow> 's \<Rightarrow> 's option" and get :: "'s \<Rightarrow> ('p option \<times> 's) option"
  assumes put: "repr s q \<Longrightarrow> p \<in> live s \<Longrightarrow> p \<notin> set q \<Longrightarrow>
      \<exists>s'. put p s = Some s' \<and> repr s' (q @ [p]) \<and> live s' = live s"
    and get_empty: "repr s [] \<Longrightarrow> get s = Some (None, s)"
    and get: "repr s (p # q) \<Longrightarrow> \<exists>s'. get s = Some (Some p, s') \<and> repr s' q \<and> live s' = live s"
begin

lemma run_refines:
  assumes "repr s q" and "fifo_ok (live s) ops q"
  shows "\<exists>s'. fifo_run put get ops s = Some (fst (fifo_spec ops q), s') \<and> repr s' (snd (fifo_spec ops q)) \<and>
    live s' = live s"
  using assms
proof (induction ops q arbitrary: s rule: fifo_spec.induct)
  case (2 p ops q)
  then obtain s1 where "put p s = Some s1" "repr s1 (q @ [p])" "live s1 = live s"
    using put [of s q p] by auto
  with 2 show ?case by fastforce
next
  case (3 ops)
  then have "get s = Some (None, s)" by (intro get_empty)
  with 3(1) [of s] 3(2,3) show ?case by (fastforce split: prod.splits)
next
  case (4 ops p q)
  then obtain s1 where "get s = Some (Some p, s1)" "repr s1 q" "live s1 = live s"
    using get [of s p q] by auto
  with 4 show ?case using 4(1) [of s1] by (fastforce split: prod.splits)
qed simp

lemma drain:
  assumes "repr s q"
  shows "\<exists>s'. fifo_run put get (replicate (length q) Get) s = Some (map Some q, s') \<and> repr s' []"
proof -
  have "fifo_spec (replicate (length q) Get) q = (map Some q, [])" for q :: "'p list"
    by (induction q) auto
  moreover have "fifo_ok (live s) (replicate (length q) Get) q" for q :: "'p list"
    by (induction q) auto
  ultimately show ?thesis using run_refines [OF assms, of "replicate (length q) Get"] by auto
qed

end

section \<open>The linked list is a queue\<close>

fun linked :: "(ptr \<rightharpoonup> 'k ibnd_smp_t) \<Rightarrow> ptr option \<Rightarrow> ptr list \<Rightarrow> bool" where
  "linked h x [] \<longleftrightarrow> x = None"
| "linked h x (p # q) \<longleftrightarrow> x = Some p \<and> (\<exists>s. h p = Some s \<and> linked h (qnext s) q)"

definition is_queue :: "('m, 'k, 'z) smp_world_scheme \<Rightarrow> ptr list \<Rightarrow> bool" where
  "is_queue w q \<longleftrightarrow> distinct q \<and> linked (w_smps w) (smp_queue_head w) q \<and>
     (q \<noteq> [] \<longrightarrow> smp_queue_tail w = Some (last q))"

lemma linked_live: "linked h x q \<Longrightarrow> set q \<subseteq> dom h"
  by (induction q arbitrary: x) auto

lemma linked_cong: "linked h x q \<Longrightarrow> (\<And>p. p \<in> set q \<Longrightarrow> map_option qnext (h' p) = map_option qnext (h p)) \<Longrightarrow>
    linked h' x q"
proof (induction q arbitrary: x)
  case (Cons p q)
  then obtain s where s: "x = Some p" "h p = Some s" "linked h (qnext s) q" by auto
  then obtain s' where "h' p = Some s'" "qnext s' = qnext s" using Cons.prems(2) [of p] by auto
  with s Cons show ?case by auto
qed simp

lemma linked_upd: "p \<notin> set q \<Longrightarrow> linked (h(p := v)) x q = linked h x q"
  by (induction q arbitrary: x) auto

lemma linked_snoc:
  assumes "linked h x q" and "q \<noteq> []" and "distinct q" and "p \<notin> set q" and "h p = Some s" and "qnext s = None"
    and "h (last q) = Some t"
  shows "linked (h(last q \<mapsto> t\<lparr>qnext := Some p\<rparr>)) x (q @ [p])"
  using assms
proof (induction q arbitrary: x)
  case (Cons a q)
  show ?case
  proof (cases "q = []")
    case True
    with Cons.prems show ?thesis by auto
  next
    case False
    then have l: "last q \<in> set q" by simp
    then obtain u where u: "x = Some a" "h a = Some u" "linked h (qnext u) q" "a \<noteq> last q"
      using Cons.prems by auto
    then have "linked (h(last q \<mapsto> t\<lparr>qnext := Some p\<rparr>)) (qnext u) (q @ [p])"
      using Cons.prems False u by (intro Cons.IH) simp_all
    with u False show ?thesis by (simp del: fun_upd_apply add: fun_upd_other)
  qed
qed simp

definition body :: "'k ibnd_smp_t \<Rightarrow> 'k \<times> ib_portid_t \<times> ib_rpc_t" where
  "body s = (sm_cb s, sm_path s, sm_rpc s)"

definition relinked :: "('m, 'k, 'z) smp_world_scheme \<Rightarrow> ('m, 'k, 'z) smp_world_scheme \<Rightarrow> bool" where
  \<comment> \<open>only the links of the queue differ\<close>
  "relinked w w' \<longleftrightarrow>
     w' = w\<lparr>w_smps := w_smps w', smp_queue_head := smp_queue_head w', smp_queue_tail := smp_queue_tail w'\<rparr> \<and>
     map_option body \<circ> w_smps w' = map_option body \<circ> w_smps w"

lemma relinked_frame:
  assumes "relinked w w'"
  shows "dom (w_smps w') = dom (w_smps w)" "w_ms w' = w_ms w" "w_next w' = w_next w" "w_alloc w' = w_alloc w"
    "smps_on_wire w' = smps_on_wire w" "eng_cfg w' = eng_cfg w" "total_smps w' = total_smps w"
    "umad_fd w' = umad_fd w" "smi_agent w' = smi_agent w" "smi_dir_agent w' = smi_dir_agent w"
    "smp_world.more w' = smp_world.more w" "w_port_open w' = w_port_open w"
proof -
  have "map_option body (w_smps w' a) = map_option body (w_smps w a)" for a
    using assms by (simp add: relinked_def fun_eq_iff)
  then have "w_smps w' a = None \<longleftrightarrow> w_smps w a = None" for a
    by (metis map_option_is_None)
  then show "dom (w_smps w') = dom (w_smps w)" by (simp add: dom_def)
  have eq: "w' = w\<lparr>w_smps := w_smps w', smp_queue_head := smp_queue_head w', smp_queue_tail := smp_queue_tail w'\<rparr>"
    using assms by (simp add: relinked_def)
  show "w_ms w' = w_ms w" "w_next w' = w_next w" "w_alloc w' = w_alloc w"
    "smps_on_wire w' = smps_on_wire w" "eng_cfg w' = eng_cfg w" "total_smps w' = total_smps w"
    "umad_fd w' = umad_fd w" "smi_agent w' = smi_agent w" "smi_dir_agent w' = smi_dir_agent w"
    "smp_world.more w' = smp_world.more w" "w_port_open w' = w_port_open w"
    by (subst eq, simp)+
qed

lemma relinked_body:
  assumes "relinked w w'" and "w_smps w p = Some s"
  obtains s' where "w_smps w' p = Some s'" "sm_cb s' = sm_cb s" "sm_path s' = sm_path s" "sm_rpc s' = sm_rpc s"
proof -
  have "map_option body (w_smps w' p) = Some (body s)"
    using assms by (simp add: relinked_def fun_eq_iff)
  then show thesis using that by (auto simp: body_def)
qed

lemma queue_smp_queues:
  assumes "is_queue w q" and "w_smps w p = Some s" and "p \<notin> set q"
  shows "\<exists>w'. queue_smp p w = Some w' \<and> is_queue w' (q @ [p]) \<and> relinked w w' \<and>
    (\<forall>a. a \<notin> insert p (set q) \<longrightarrow> w_smps w' a = w_smps w a)"
proof (cases "q = []")
  case True
  then have "smp_queue_head w = None" using assms(1) by (simp add: is_queue_def)
  then show ?thesis using assms True by (auto simp: queue_smp_def is_queue_def relinked_def body_def fun_eq_iff)
next
  case False
  obtain b q' where bq: "q = b # q'" using False by (cases q) auto
  have h: "smp_queue_head w = Some b" "smp_queue_tail w = Some (last q)" "last q \<noteq> p"
    using assms last_in_set [OF False] by (auto simp: is_queue_def bq)
  obtain t where t: "w_smps w (last q) = Some t"
    using assms(1) last_in_set [OF False] linked_live [of "w_smps w" "smp_queue_head w" q] by (auto simp: is_queue_def)
  let ?h = "(w_smps w)(p \<mapsto> s\<lparr>qnext := None\<rparr>)"
  have "linked (?h(last q \<mapsto> t\<lparr>qnext := Some p\<rparr>)) (smp_queue_head w) (q @ [p])"
    using assms False h t by (intro linked_snoc [where s = "s\<lparr>qnext := None\<rparr>"]) (auto simp: is_queue_def linked_upd)
  then show ?thesis
    using assms False h t last_in_set [OF False] by (auto simp: queue_smp_def is_queue_def relinked_def body_def fun_eq_iff)
qed

lemma get_smp_empty: "is_queue w [] \<Longrightarrow> get_smp w = Some (None, w)"
  by (simp add: is_queue_def get_smp_def)

lemma get_smp_gets:
  assumes "is_queue w (p # q)"
  shows "\<exists>w'. get_smp w = Some (Some p, w') \<and> is_queue w' q \<and> relinked w w' \<and> w_smps w' = w_smps w"
proof -
  obtain s where s: "smp_queue_head w = Some p" "w_smps w p = Some s" "linked (w_smps w) (qnext s) q"
      "distinct q" "p \<notin> set q" "smp_queue_tail w = Some (last (p # q))"
    using assms by (auto simp: is_queue_def)
  then show ?thesis by (cases q) (auto simp: get_smp_def is_queue_def relinked_def)
qed

interpretation smps: fifo "\<lambda>w. dom (w_smps w)" is_queue queue_smp get_smp
proof unfold_locales
  fix w :: "('a, 'b, 'c) smp_world_scheme" and q p
  show "get_smp w = Some (None, w)" if "is_queue w []"
    using that by (rule get_smp_empty)
  show "\<exists>w'. get_smp w = Some (Some p, w') \<and> is_queue w' q \<and> dom (w_smps w') = dom (w_smps w)"
    if "is_queue w (p # q)"
    using get_smp_gets [OF that] relinked_frame(1) [of w] by blast
  show "\<exists>w'. queue_smp p w = Some w' \<and> is_queue w' (q @ [p]) \<and> dom (w_smps w') = dom (w_smps w)"
    if "is_queue w q" "p \<in> dom (w_smps w)" "p \<notin> set q"
    using queue_smp_queues [OF that(1) _ that(3)] relinked_frame(1) [of w] that(2) by blast
qed

text \<open>
  Property: the linked list of packets implements a queue. From any state in which
  the list holds \<open>q\<close>, every sequence of \<open>queue_smp\<close> and \<open>get_smp\<close> that only queues
  live packets not queued already runs without an invalid access, its \<open>get_smp\<close>s return what
  those of a first-in first-out queue would, \<open>NULL\<close> when it is empty, and the list then holds
  what that queue would.
\<close>

theorem smp_queue_refines:
  fixes w :: "('m, 'k, 'z) smp_world_scheme"
  assumes "is_queue w q" and "fifo_ok (dom (w_smps w)) ops q"
  shows "\<exists>w'. fifo_run queue_smp get_smp ops w = Some (fst (fifo_spec ops q), w') \<and>
    is_queue w' (snd (fifo_spec ops q)) \<and> dom (w_smps w') = dom (w_smps w)"
  by (rule smps.run_refines [OF assms])

section \<open>The packet sent\<close>

definition sendable :: "'k ibnd_smp_t \<Rightarrow> bool" where
  \<comment> \<open>what \<open>issue_smp\<close> makes of a path of at most 63 hops and a transaction id\<close>
  "sendable s \<longleftrightarrow> (r_mgtclass (sm_rpc s) = IB_SMI_CLASS \<or> r_mgtclass (sm_rpc s) = IB_SMI_DIRECT_CLASS) \<and>
     length (hops (pt_drpath (sm_path s))) = 64 \<and>
     (r_mgtclass (sm_rpc s) = IB_SMI_DIRECT_CLASS \<longrightarrow> cnt (pt_drpath (sm_path s)) < 64) \<and>
     r_trid (sm_rpc s) \<noteq> 0"

definition smp_mad_as :: "mem \<Rightarrow> ib_rpc_t \<Rightarrow> ib_portid_t \<Rightarrow> bool" where
  \<comment> \<open>the MAD of a request: common header, M_Key and, for a directed route, the route\<close>
  "smp_mad_as mad rpc path \<longleftrightarrow> length mad = 256 \<and> first_word_as mad rpc \<and> ids_as mad rpc \<and> mkey_as mad (r_mkey rpc) \<and>
     (r_mgtclass rpc = IB_SMI_DIRECT_CLASS \<longrightarrow>
        second_word_as mad rpc (pt_drpath path) \<and> dr_part_as mad rpc (pt_drpath path))"

definition request_of :: "('m, 'k, 'z) smp_world_scheme \<Rightarrow> ib_rpc_t \<Rightarrow> ib_portid_t \<Rightarrow> umad_request \<Rightarrow> bool" where
  \<comment> \<open>\<open>rq\<close> is the request the engine makes for a packet\<close>
  "request_of w rpc path rq \<longleftrightarrow> (\<exists>mad. smp_mad_as mad rpc path \<and>
     rq = \<lparr>rq_port = umad_fd w, rq_agent = (if r_mgtclass rpc = IB_SMI_CLASS then smi_agent w else smi_dir_agent w),
       rq_pkt = (addressed zero_pkt rpc path)\<lparr>um_mad := mad\<rparr>, rq_length = 256,
       rq_timeout = int_of_u32 (cf_timeout_ms (eng_cfg w)), rq_retries = int_of_u32 (cf_retries (eng_cfg w))\<rparr>)"

lemma smp_build:
  assumes "sendable s"
  shows "\<exists>mad. mad_build_pkt e g zero_pkt (sm_rpc s) (sm_path s) None None =
      Some (256, None, (addressed zero_pkt (sm_rpc s) (sm_path s))\<lparr>um_mad := mad\<rparr>, sm_rpc s, g) \<and>
    smp_mad_as mad (sm_rpc s) (sm_path s)"
proof -
  let ?rpc = "sm_rpc s" and ?dp = "pkt_path (sm_rpc s) (sm_path s)"
  have cl: "rpc_class ?rpc = r_mgtclass ?rpc"
    using assms by (auto simp: sendable_def rpc_class_def c_eval)
  have t: "with_trid g ?rpc = (?rpc, g)" using assms by (simp add: sendable_def with_trid_def)
  have len: "length (um_mad zero_pkt) = 256" by (simp add: zero_pkt_def)
  have args: "encode_args_ok ?rpc ?dp None"
    using assms by (simp add: encode_args_ok_def sendable_def pkt_path_def c_eval)
  have good: "\<not> bad_path ?rpc ?dp" using assms cl by (auto simp: sendable_def bad_path_pkt)
  have hdr: "class_hdr (rpc_class ?rpc) = 24"
    using assms unfolding cl by (auto simp: sendable_def class_hdr_def mad_is_vendor_range2_def c_eval)
  have pay: "payload_ok ?rpc None 64 128" by (simp add: payload_ok_def)
  from mad_encode_ok [OF len args good pay, of e g] obtain b where
    b: "mad_encode e g (um_mad zero_pkt) ?rpc ?dp None = Some (None, b, ?rpc, g)" "length b = 256"
      "first_word_as b ?rpc" "ids_as b ?rpc" "mkey_as b (r_mkey ?rpc)"
      "rpc_class ?rpc = IB_SMI_DIRECT_CLASS \<longrightarrow> second_word_as b ?rpc (the ?dp) \<and> dr_part_as b ?rpc (the ?dp)"
    unfolding t hdr by auto
  have smi: "pkt_smi ?rpc" using assms by (simp add: pkt_smi_def cl sendable_def)
  show ?thesis
    unfolding mad_build_pkt_unfold b(1) using b(2-6) smi cl
    by (intro exI [of _ b]) (auto simp: smp_mad_as_def pkt_path_def)
qed

lemma send_smp_sends:
  assumes "w_smps w p = Some s" and "sendable s" and "ms_tx (w_ms w) = r # tx"
  shows "\<exists>ms rq. send_smp e p w = Some (if r = None then 0 else - EIO, w\<lparr>w_ms := ms\<rparr>) \<and>
    request_of w (sm_rpc s) (sm_path s) rq \<and> ms_sent ms = ms_sent (w_ms w) @ [rq] \<and> ms_tx ms = tx \<and>
    ms_g ms = ms_g (w_ms w) \<and> ms_rx ms = ms_rx (w_ms w)"
proof -
  from smp_build [OF assms(2), of e "ms_g (w_ms w)"] obtain mad where
    b: "mad_build_pkt e (ms_g (w_ms w)) zero_pkt (sm_rpc s) (sm_path s) None None =
      Some (256, None, (addressed zero_pkt (sm_rpc s) (sm_path s))\<lparr>um_mad := mad\<rparr>, sm_rpc s, ms_g (w_ms w))"
      "smp_mad_as mad (sm_rpc s) (sm_path s)" by blast
  have cls: "r_mgtclass (sm_rpc s) = IB_SMI_CLASS \<or> r_mgtclass (sm_rpc s) = IB_SMI_DIRECT_CLASS"
    using assms(2) by (simp add: sendable_def)
  have id: "(w_smps w)(p \<mapsto> s) = w_smps w" using assms(1) by (simp add: fun_upd_idem)
  have k: "int IB_MAD_SIZE = 256" by (simp add: c_eval)
  let ?rq = "\<lparr>rq_port = umad_fd w, rq_agent = (if r_mgtclass (sm_rpc s) = IB_SMI_CLASS then smi_agent w else smi_dir_agent w),
       rq_pkt = (addressed zero_pkt (sm_rpc s) (sm_path s))\<lparr>um_mad := mad\<rparr>, rq_length = 256,
       rq_timeout = int_of_u32 (cf_timeout_ms (eng_cfg w)), rq_retries = int_of_u32 (cf_retries (eng_cfg w))\<rparr>"
  let ?ms = "(w_ms w)\<lparr>ms_sent := ms_sent (w_ms w) @ [?rq], ms_tx := tx,
       ms_errno := (case r of None \<Rightarrow> ms_errno (w_ms w) | Some en \<Rightarrow> en)\<rparr>"
  have "send_smp e p w = Some (if r = None then 0 else - EIO, w\<lparr>w_ms := ?ms\<rparr>)"
    using cls assms(1,3) by (cases r) (auto simp: send_smp_def b(1) Let_def umad_send_def id k)
  moreover have "request_of w (sm_rpc s) (sm_path s) ?rq" using b(2) by (auto simp: request_of_def)
  ultimately show ?thesis by (intro exI [of _ ?ms] exI [of _ ?rq]) simp
qed

section \<open>The invariant of the engine\<close>

definition smp_key :: "'k ibnd_smp_t \<Rightarrow> u64" where
  \<comment> \<open>the key of a packet on the wire\<close>
  "smp_key s = ucast (ucast (r_trid (sm_rpc s)) :: u32)"

lemma ucast64_inject:
  assumes "(ucast (a :: u32) :: u64) = ucast (b :: u32)"
  shows "a = b"
proof (rule bit_word_eqI)
  fix n
  assume "n < LENGTH(32)"
  then show "bit a n \<longleftrightarrow> bit b n"
    using arg_cong [OF assms, of "\<lambda>x. bit x n"] by (simp add: bit_simps)
qed

text \<open>
  \<open>sem\<close> is what the map of packets on the wire stands for, \<open>q\<close> what the queue holds, and
  \<open>cur\<close> the live packets the engine is working on: they are neither queued nor on the wire.
\<close>

definition wire_ok :: "(u64 \<rightharpoonup> ptr) \<Rightarrow> (ptr \<rightharpoonup> 'k ibnd_smp_t) \<Rightarrow> bool" where
  "wire_ok wire h \<longleftrightarrow> (\<forall>k p. wire k = Some p \<longrightarrow> (\<exists>s. h p = Some s \<and> k = smp_key s))"

definition engine_ok :: "('m \<Rightarrow> u64 \<rightharpoonup> ptr) \<Rightarrow> ('m, 'k, 'z) smp_world_scheme \<Rightarrow> ptr list \<Rightarrow> ptr set \<Rightarrow> bool" where
  "engine_ok sem w q cur \<longleftrightarrow> is_queue w q \<and> wire_ok (sem (smps_on_wire w)) (w_smps w) \<and>
     card (dom (sem (smps_on_wire w))) \<le> unat (cf_max_smps (eng_cfg w)) \<and>
     set q \<inter> ran (sem (smps_on_wire w)) = {} \<and> cur \<subseteq> dom (w_smps w) \<and>
     cur \<inter> (set q \<union> ran (sem (smps_on_wire w))) = {} \<and> (\<forall>p \<in> dom (w_smps w). p < w_next w)"

definition same_setup :: "('m, 'k, 'z) smp_world_scheme \<Rightarrow> ('m, 'k, 'z) smp_world_scheme \<Rightarrow> bool" where
  \<comment> \<open>what sending and queueing never change\<close>
  "same_setup w w' \<longleftrightarrow> eng_cfg w' = eng_cfg w \<and> umad_fd w' = umad_fd w \<and> smi_agent w' = smi_agent w \<and>
     smi_dir_agent w' = smi_dir_agent w \<and> w_alloc w' = w_alloc w \<and> w_port_open w' = w_port_open w \<and>
     ms_rx (w_ms w') = ms_rx (w_ms w) \<and> smp_world.more w' = smp_world.more w"

lemma same_setup_refl [simp]: "same_setup w w"
  by (simp add: same_setup_def)

lemma same_setup_trans: "same_setup a b \<Longrightarrow> same_setup b c \<Longrightarrow> same_setup a c"
  by (simp add: same_setup_def)

lemma wire_ok_inj: "wire_ok wire h \<Longrightarrow> wire k = Some p \<Longrightarrow> wire j = Some p \<Longrightarrow> k = j"
  unfolding wire_ok_def by (metis option.inject)

lemma wire_ok_ran: "wire_ok wire h \<Longrightarrow> ran wire \<subseteq> dom h"
  unfolding wire_ok_def ran_def by blast

lemma ran_remove:
  assumes "m k = Some p" and "\<And>j. m j = Some p \<Longrightarrow> j = k"
  shows "ran (m(k := None)) = ran m - {p}"
proof (intro set_eqI iffI)
  fix x
  assume "x \<in> ran m - {p}"
  then obtain j where "m j = Some x" "x \<noteq> p" by (auto simp: ran_def)
  moreover from this have "j \<noteq> k" using assms(1) by auto
  ultimately show "x \<in> ran (m(k := None))" by (auto simp: ran_def intro!: exI [of _ j])
qed (use assms(2) in \<open>auto simp: ran_def split: if_splits\<close>)

lemma wire_ok_cong:
  assumes "wire_ok wire h" and "\<And>p. p \<in> ran wire \<Longrightarrow> map_option (sm_rpc) (h' p) = map_option sm_rpc (h p)"
  shows "wire_ok wire h'"
  unfolding wire_ok_def
proof (intro allI impI)
  fix k p
  assume k: "wire k = Some p"
  then obtain s where s: "h p = Some s" "k = smp_key s" using assms(1) by (auto simp: wire_ok_def)
  moreover have "p \<in> ran wire" using k by (auto simp: ran_def)
  ultimately show "\<exists>s. h' p = Some s \<and> k = smp_key s"
    using assms(2) [of p] by (auto simp: smp_key_def)
qed

lemma relinked_rpc:
  assumes "relinked w w'"
  shows "map_option sm_rpc (w_smps w' p) = map_option sm_rpc (w_smps w p)"
proof -
  have "map_option body (w_smps w' p) = map_option body (w_smps w p)"
    using assms by (simp add: relinked_def fun_eq_iff)
  then have "map_option (snd \<circ> snd) (map_option body (w_smps w' p)) = map_option (snd \<circ> snd) (map_option body (w_smps w p))"
    by simp
  then show ?thesis by (simp add: option.map_comp body_def comp_def)
qed

lemma relinked_setup: "relinked w w' \<Longrightarrow> same_setup w w'"
  by (simp add: same_setup_def relinked_frame)

lemma engine_ok_get:
  assumes "engine_ok sem w (p # q) cur"
  obtains w' where "get_smp w = Some (Some p, w')" "engine_ok sem w' q (insert p cur)" "relinked w w'"
    "w_smps w' = w_smps w"
proof -
  obtain w' where w': "get_smp w = Some (Some p, w')" "is_queue w' q" "relinked w w'" "w_smps w' = w_smps w"
    using get_smp_gets [of w p q] assms by (auto simp: engine_ok_def)
  note f = relinked_frame [OF w'(3)]
  have "wire_ok (sem (smps_on_wire w)) (w_smps w')"
    using assms by (intro wire_ok_cong [OF _ relinked_rpc [OF w'(3)]]) (simp add: engine_ok_def)
  moreover have "p \<in> dom (w_smps w)" "p \<notin> set q"
    using assms linked_live [of "w_smps w" "smp_queue_head w" "p # q"] by (auto simp: engine_ok_def is_queue_def)
  ultimately have "engine_ok sem w' q (insert p cur)"
    using assms w'(2) by (auto simp: engine_ok_def f)
  with w' that show thesis by blast
qed

lemma engine_ok_put:
  assumes "engine_ok sem w q (insert p cur)" and "p \<notin> cur"
  obtains w' where "queue_smp p w = Some w'" "engine_ok sem w' (q @ [p]) cur" "relinked w w'"
    "\<And>a. a \<in> cur \<Longrightarrow> w_smps w' a = w_smps w a"
proof -
  obtain s where s: "w_smps w p = Some s" "p \<notin> set q" using assms by (auto simp: engine_ok_def)
  then obtain w' where w': "queue_smp p w = Some w'" "is_queue w' (q @ [p])" "relinked w w'"
      "\<forall>a. a \<notin> insert p (set q) \<longrightarrow> w_smps w' a = w_smps w a"
    using queue_smp_queues [of w q p s] assms by (auto simp: engine_ok_def)
  note f = relinked_frame [OF w'(3)]
  have "wire_ok (sem (smps_on_wire w)) (w_smps w')"
    using assms by (intro wire_ok_cong [OF _ relinked_rpc [OF w'(3)]]) (simp add: engine_ok_def)
  then have "engine_ok sem w' (q @ [p]) cur"
    using assms w'(2) by (auto simp: engine_ok_def f)
  moreover have "w_smps w' a = w_smps w a" if "a \<in> cur" for a
    using w'(4) that assms by (auto simp: engine_ok_def)
  ultimately show thesis using w'(1,3) that by blast
qed

lemma engine_ok_upd:
  \<comment> \<open>changing packets the engine is working on, or freeing them\<close>
  assumes "engine_ok sem w q cur" and "\<And>p. p \<notin> cur \<Longrightarrow> w_smps w' p = w_smps w p" and "cur' \<subseteq> cur"
    and "cur' \<subseteq> dom (w_smps w')" and "dom (w_smps w') \<subseteq> dom (w_smps w)"
    and "smp_queue_head w' = smp_queue_head w" "smp_queue_tail w' = smp_queue_tail w"
    and "smps_on_wire w' = smps_on_wire w" "eng_cfg w' = eng_cfg w" "w_next w' = w_next w"
  shows "engine_ok sem w' q cur'"
proof -
  have "linked (w_smps w') (smp_queue_head w) q"
  proof (rule linked_cong)
    show "linked (w_smps w) (smp_queue_head w) q" using assms(1) by (simp add: engine_ok_def is_queue_def)
    fix p
    assume "p \<in> set q"
    then have "p \<notin> cur" using assms(1) by (auto simp: engine_ok_def)
    then show "map_option qnext (w_smps w' p) = map_option qnext (w_smps w p)" using assms(2) by simp
  qed
  then have "is_queue w' q" using assms(1,6,7) by (simp add: engine_ok_def is_queue_def)
  moreover have "wire_ok (sem (smps_on_wire w)) (w_smps w')"
  proof (rule wire_ok_cong)
    show "wire_ok (sem (smps_on_wire w)) (w_smps w)" using assms(1) by (simp add: engine_ok_def)
    fix p
    assume "p \<in> ran (sem (smps_on_wire w))"
    then have "p \<notin> cur" using assms(1) by (auto simp: engine_ok_def)
    then show "map_option sm_rpc (w_smps w' p) = map_option sm_rpc (w_smps w p)" using assms(2) by simp
  qed
  ultimately show ?thesis
    using assms(1,3-5,8-10) unfolding engine_ok_def by (simp add: disjoint_iff) blast
qed

lemma engine_ok_free:
  assumes "engine_ok sem w q cur" and "p \<in> cur"
  obtains w' where "free_smp p w = Some w'" "engine_ok sem w' q (cur - {p})" "w' = w\<lparr>w_smps := (w_smps w)(p := None)\<rparr>"
proof -
  obtain s where s: "w_smps w p = Some s" using assms by (auto simp: engine_ok_def)
  have "engine_ok sem (w\<lparr>w_smps := (w_smps w)(p := None)\<rparr>) q (cur - {p})"
    by (rule engine_ok_upd [OF assms(1)]) (use assms in \<open>auto simp: engine_ok_def\<close>)
  with s that show thesis by (simp add: free_smp_def)
qed

lemma send_smp_keeps:
  assumes "engine_ok sem w q cur" and "p \<in> cur" and "send_smp e p w = Some (rc, w')"
  shows "engine_ok sem w' q cur" "same_setup w w'" "dom (w_smps w') = dom (w_smps w)" "w_next w' = w_next w"
    "smps_on_wire w' = smps_on_wire w" "\<And>a. a \<noteq> p \<Longrightarrow> w_smps w' a = w_smps w a"
    "smp_queue_head w' = smp_queue_head w" "smp_queue_tail w' = smp_queue_tail w"
proof -
  obtain s where s: "w_smps w p = Some s" using assms by (auto simp: engine_ok_def)
  have tx: "ms_rx ms' = ms_rx ms" if "umad_send ms a b c d f g = Some (x, ms')" for ms a b c d f g x ms'
    using that by (auto simp: umad_send_def Let_def split: list.splits option.splits)
  have f: "same_setup w w' \<and> dom (w_smps w') = dom (w_smps w) \<and> w_next w' = w_next w \<and>
      smps_on_wire w' = smps_on_wire w \<and> (\<forall>a. a \<noteq> p \<longrightarrow> w_smps w' a = w_smps w a) \<and>
      smp_queue_head w' = smp_queue_head w \<and> smp_queue_tail w' = smp_queue_tail w"
    using assms(3) s
    by (auto simp: send_smp_def Let_def same_setup_def split: if_splits Option.bind_splits dest!: tx)
  then show "same_setup w w'" "dom (w_smps w') = dom (w_smps w)" "w_next w' = w_next w"
    "smps_on_wire w' = smps_on_wire w" "\<And>a. a \<noteq> p \<Longrightarrow> w_smps w' a = w_smps w a"
    "smp_queue_head w' = smp_queue_head w" "smp_queue_tail w' = smp_queue_tail w" by auto
  show "engine_ok sem w' q cur"
    by (rule engine_ok_upd [OF assms(1)]) (use f assms(1,2) in \<open>auto simp: engine_ok_def same_setup_def\<close>)
qed

lemma qmap_lawsD:
  assumes "qmap_laws qm sem"
  shows qmap_laws_init: "sem (qm_init qm) = Map.empty"
    and qmap_laws_finite: "finite (dom (sem m))"
    and qmap_laws_count: "qm_count qm m = card (dom (sem m))"
    and qmap_laws_insert: "sem (qm_insert qm m k p) = (if k \<in> dom (sem m) then sem m else (sem m)(k \<mapsto> p))"
    and qmap_laws_remove: "fst (qm_remove qm m k) = sem m k" "sem (snd (qm_remove qm m k)) = (sem m)(k := None)"
    and qmap_laws_get: "qm_get qm m k = sem m k"
  using assms unfolding qmap_laws_def by blast+

lemma qmap_laws_head:
  assumes "qmap_laws qm sem"
  shows "case qm_head qm m of None \<Rightarrow> sem m = Map.empty | Some p \<Rightarrow> p \<in> ran (sem m)"
  using assms unfolding qmap_laws_def by blast

lemma qmap_laws_remove_item:
  assumes "qmap_laws qm sem" and "sem m k = Some p" and "\<And>j. sem m j = Some p \<Longrightarrow> j = k"
  shows "sem (qm_remove_item qm m p) = (sem m)(k := None)"
  using assms unfolding qmap_laws_def by blast

lemma engine_ok_insert:
  assumes "qmap_laws qm sem" and "engine_ok sem w q cur" and "p \<in> cur" and "w_smps w p = Some s"
    and "card (dom (sem (smps_on_wire w))) < unat (cf_max_smps (eng_cfg w))"
  shows "engine_ok sem (w\<lparr>smps_on_wire := qm_insert qm (smps_on_wire w) (smp_key s) p, total_smps := n\<rparr>) q (cur - {p})"
proof (cases "smp_key s \<in> dom (sem (smps_on_wire w))")
  case True
  then show ?thesis
    using assms(2) by (auto simp: engine_ok_def qmap_laws_insert [OF assms(1)] is_queue_def)
next
  case False
  have w: "wire_ok ((sem (smps_on_wire w))(smp_key s \<mapsto> p)) (w_smps w)"
    using assms(2,4) by (auto simp: engine_ok_def wire_ok_def)
  have r: "ran ((sem (smps_on_wire w))(smp_key s \<mapsto> p)) = insert p (ran (sem (smps_on_wire w)))"
    using False by (simp add: domIff ran_map_upd)
  show ?thesis
    using assms(2,3,5) w False
    by (auto simp: engine_ok_def qmap_laws_insert [OF assms(1)] r is_queue_def card_insert_if qmap_laws_finite [OF assms(1)])
qed

section \<open>Sending what is queued\<close>

definition room :: "('m \<Rightarrow> u64 \<rightharpoonup> ptr) \<Rightarrow> ('m, 'k, 'z) smp_world_scheme \<Rightarrow> nat" where
  "room sem w = unat (cf_max_smps (eng_cfg w)) - card (dom (sem (smps_on_wire w)))"

definition busy :: "('m \<Rightarrow> u64 \<rightharpoonup> ptr) \<Rightarrow> ('m, 'k, 'z) smp_world_scheme \<Rightarrow> ptr list \<Rightarrow> bool" where
  \<comment> \<open>nothing waits while there is room\<close>
  "busy sem w q \<longleftrightarrow> q = [] \<or> room sem w = 0"

lemma queue_loop_keeps:
  assumes "qmap_laws qm sem" and "engine_ok sem w q cur" and "queue_loop n qm e w = Some (rc, w')"
  shows "\<exists>q'. engine_ok sem w' q' cur \<and> same_setup w w' \<and> w_next w' = w_next w \<and>
    (\<forall>p \<in> cur. w_smps w' p = w_smps w p) \<and> (rc = 0 \<or> length q \<le> 1 \<or> busy sem w q \<longrightarrow> busy sem w' q')"
  using assms(2,3)
proof (induction n arbitrary: w q)
  case (Suc n)
  show ?case
  proof (cases "qm_count qm (smps_on_wire w) < unat (cf_max_smps (eng_cfg w))")
    case False
    then have "room sem w = 0" by (simp add: room_def qmap_laws_count [OF assms(1)])
    with False Suc.prems show ?thesis by (auto simp: busy_def)
  next
    case room: True
    then have "room sem w \<noteq> 0" by (simp add: room_def qmap_laws_count [OF assms(1)])
    then have one: "length q \<le> 1" if "length q \<le> 1 \<or> busy sem w q"
      using that by (auto simp: busy_def)
    show ?thesis
    proof (cases q)
      case Nil
      then have "get_smp w = Some (None, w)" using Suc.prems by (intro get_smp_empty) (simp add: engine_ok_def)
      with room Suc.prems Nil show ?thesis by (auto simp: busy_def)
    next
      case (Cons p q1)
      have pn: "p \<notin> cur" "p \<in> dom (w_smps w)"
        using Suc.prems(1) Cons linked_live [of "w_smps w" "smp_queue_head w" q] by (auto simp: engine_ok_def is_queue_def)
      obtain w1 where w1: "get_smp w = Some (Some p, w1)" "engine_ok sem w1 q1 (insert p cur)" "relinked w w1"
          "w_smps w1 = w_smps w"
        using engine_ok_get Suc.prems(1) unfolding Cons by blast
      obtain rc1 w2 where w2: "send_smp e p w1 = Some (rc1, w2)"
        using Suc.prems(2) room w1(1) by (cases "send_smp e p w1") auto
      note k2 = send_smp_keeps [OF w1(2) insertI1 w2]
      have keep: "w_smps w2 a = w_smps w a" if "a \<in> cur" for a
        using that pn(1) k2(6) [of a] w1(4) by metis
      have su: "same_setup w w2" by (rule same_setup_trans [OF relinked_setup [OF w1(3)] k2(2)])
      show ?thesis
      proof (cases "rc1 = 0")
        case False
        obtain w3 where w3: "free_smp p w2 = Some w3" "engine_ok sem w3 q1 (insert p cur - {p})"
            "w3 = w2\<lparr>w_smps := (w_smps w2)(p := None)\<rparr>"
          using engine_ok_free [OF k2(1) insertI1] by blast
        then show ?thesis
          using Suc.prems(2) room w1(1) w2 False k2(4) pn(1) keep su relinked_frame(3) [OF w1(3)]
            Cons one by (auto simp: same_setup_def busy_def intro!: exI [of _ q1])
      next
        case True
        have "p \<in> dom (w_smps w2)" unfolding k2(3) using w1(2) by (simp add: engine_ok_def)
        then obtain s where s: "w_smps w2 p = Some s" by blast
        have room2: "card (dom (sem (smps_on_wire w2))) < unat (cf_max_smps (eng_cfg w2))"
          using room relinked_frame [OF w1(3)] k2(2,5) by (simp add: qmap_laws_count [OF assms(1)] same_setup_def)
        let ?w3 = "w2\<lparr>smps_on_wire := qm_insert qm (smps_on_wire w2) (smp_key s) p, total_smps := total_smps w2 + 1\<rparr>"
        have "engine_ok sem ?w3 q1 (insert p cur - {p})"
          by (rule engine_ok_insert [OF assms(1) k2(1) insertI1 s room2])
        then have "engine_ok sem ?w3 q1 cur" using pn by simp
        moreover have "queue_loop n qm e ?w3 = Some (rc, w')"
          using Suc.prems(2) room w1(1) w2 True s by (simp add: smp_key_def)
        ultimately have "\<exists>q'. engine_ok sem w' q' cur \<and> same_setup ?w3 w' \<and> w_next w' = w_next ?w3 \<and>
            (\<forall>p \<in> cur. w_smps w' p = w_smps ?w3 p) \<and> (rc = 0 \<or> length q1 \<le> 1 \<or> busy sem ?w3 q1 \<longrightarrow> busy sem w' q')"
            by (rule Suc.IH)
        moreover have "length q1 \<le> 1" if "length q \<le> 1 \<or> busy sem w q" using one [OF that] Cons by simp
        ultimately show ?thesis
          using k2(4) keep su relinked_frame(3) [OF w1(3)] by (auto simp: same_setup_def)
      qed
    qed
  qed
qed simp

lemma process_smp_queue_keeps:
  assumes "qmap_laws qm sem" and "engine_ok sem w q cur" and "process_smp_queue qm e w = Some (rc, w')"
  shows "\<exists>q'. engine_ok sem w' q' cur \<and> same_setup w w' \<and> w_next w' = w_next w \<and>
    (\<forall>p \<in> cur. w_smps w' p = w_smps w p) \<and> (rc = 0 \<or> length q \<le> 1 \<or> busy sem w q \<longrightarrow> busy sem w' q')"
  using queue_loop_keeps [OF assms(1,2)] assms(3) unfolding process_smp_queue_def by blast

text \<open>
  What the engine promises of a queue, without its data structures: with room for \<open>n\<close> packets,
  they are sent in order until there is no room, the queue is empty or a send fails. The result is
  the value returned, the packets tried, the packets that went on the wire, and what is left of
  the queue and of the results of \<open>umad_send\<close>.
\<close>

fun queue_spec :: "nat \<Rightarrow> int option list \<Rightarrow> 'p list \<Rightarrow> (int \<times> 'p list \<times> 'p list \<times> 'p list \<times> int option list) option" where
  "queue_spec 0 tx q = Some (0, [], [], q, tx)"
| "queue_spec (Suc n) tx [] = Some (0, [], [], [], tx)"
| "queue_spec (Suc n) [] (p # q) = None"
| "queue_spec (Suc n) (None # tx) (p # q) = do {
     (rc, tried, sent, rest, tx') \<leftarrow> queue_spec n tx q;
     Some (rc, p # tried, p # sent, rest, tx')
   }"
| "queue_spec (Suc n) (Some en # tx) (p # q) = Some (- EIO, [p], [], q, tx)"

definition queue_ready :: "('m \<Rightarrow> u64 \<rightharpoonup> ptr) \<Rightarrow> ('m, 'k, 'z) smp_world_scheme \<Rightarrow> ptr list \<Rightarrow> bool" where
  \<comment> \<open>what is queued can be sent, under transaction ids that are not in use\<close>
  "queue_ready sem w q \<longleftrightarrow> (\<forall>p \<in> set q. \<exists>s. w_smps w p = Some s \<and> sendable s) \<and>
     distinct (map (\<lambda>p. smp_key (the (w_smps w p))) q) \<and>
     (\<forall>p \<in> set q. smp_key (the (w_smps w p)) \<notin> dom (sem (smps_on_wire w)))"

definition requests_of :: "('m, 'k, 'z) smp_world_scheme \<Rightarrow> ptr list \<Rightarrow> umad_request list \<Rightarrow> bool" where
  "requests_of w ps rqs \<longleftrightarrow>
     list_all2 (\<lambda>p rq. request_of w (sm_rpc (the (w_smps w p))) (sm_path (the (w_smps w p))) rq) ps rqs"

lemma requests_of_cong:
  assumes "same_setup w w'" and "\<And>p. p \<in> set ps \<Longrightarrow> w_smps w' p = w_smps w p"
  shows "requests_of w' ps rqs = requests_of w ps rqs"
  unfolding requests_of_def
  by (rule list.rel_cong) (use assms in \<open>auto simp: request_of_def same_setup_def\<close>)

lemma queue_spec_tried: "queue_spec n tx q = Some (rc, tried, sent, rest, tx') \<Longrightarrow>
    tried @ rest = q \<and> (if rc = 0 then sent = tried else tried = sent @ [last tried])"
  by (induction n tx q arbitrary: rc tried sent rest tx' rule: queue_spec.induct)
    (auto simp: EIO_def split: Option.bind_splits if_splits)

lemma queue_spec_sub: "queue_spec n tx q = Some (rc, tried, sent, rest, tx') \<Longrightarrow>
    set sent \<subseteq> set tried \<and> set tried \<subseteq> set q"
  by (induction n tx q arbitrary: rc tried sent rest tx' rule: queue_spec.induct)
    (fastforce split: Option.bind_splits)+

lemma queue_loop_refines:
  assumes "qmap_laws qm sem" and "engine_ok sem w q cur" and "queue_ready sem w q"
    and "queue_spec (room sem w) (ms_tx (w_ms w)) q = Some (rc, tried, sent, rest, tx')"
    and "length (ms_tx (w_ms w)) < n"
  shows "\<exists>w' rqs. queue_loop n qm e w = Some (rc, w') \<and> engine_ok sem w' rest cur \<and>
    ms_tx (w_ms w') = tx' \<and> ms_sent (w_ms w') = ms_sent (w_ms w) @ rqs \<and> requests_of w tried rqs \<and>
    sem (smps_on_wire w') = sem (smps_on_wire w) ++ map_of (map (\<lambda>p. (smp_key (the (w_smps w p)), p)) sent) \<and>
    (\<forall>p. p \<in> set sent \<or> p \<notin> set q \<longrightarrow> w_smps w' p = w_smps w p) \<and>
    dom (w_smps w') = dom (w_smps w) - (set tried - set sent) \<and>
    total_smps w' = total_smps w + of_nat (length sent)"
  using assms(2-)
proof (induction n arbitrary: w q tried sent)
  case (Suc n)
  have cnt: "qm_count qm (smps_on_wire w) < unat (cf_max_smps (eng_cfg w)) \<longleftrightarrow> room sem w \<noteq> 0"
    by (auto simp: room_def qmap_laws_count [OF assms(1)])
  show ?case
  proof (cases "room sem w")
    case 0
    with Suc.prems cnt show ?thesis by (auto simp: requests_of_def intro!: exI [of _ w])
  next
    case (Suc m)
    show ?thesis
    proof (cases q)
      case Nil
      then have "get_smp w = Some (None, w)" using Suc.prems by (intro get_smp_empty) (simp add: engine_ok_def)
      with Suc.prems cnt Suc Nil show ?thesis by (auto simp: requests_of_def intro!: exI [of _ w])
    next
      case (Cons p q1)
      obtain w1 where w1: "get_smp w = Some (Some p, w1)" "engine_ok sem w1 q1 (insert p cur)" "relinked w w1"
          "w_smps w1 = w_smps w"
        using engine_ok_get Suc.prems(1) unfolding Cons by blast
      note f1 = relinked_frame [OF w1(3)]
      obtain s where s: "w_smps w p = Some s" "sendable s"
        using Suc.prems(2) Cons by (auto simp: queue_ready_def)
      have pq: "p \<notin> cur" "p \<notin> set q1"
        using Suc.prems(1) Cons by (auto simp: engine_ok_def is_queue_def)
      obtain r tx where tx: "ms_tx (w_ms w) = r # tx"
        using Suc.prems(3) Suc Cons by (cases "ms_tx (w_ms w)") auto
      obtain ms rq where ms: "send_smp e p w1 = Some (if r = None then 0 else - EIO, w1\<lparr>w_ms := ms\<rparr>)"
          "request_of w1 (sm_rpc s) (sm_path s) rq" "ms_sent ms = ms_sent (w_ms w) @ [rq]" "ms_tx ms = tx" "ms_rx ms = ms_rx (w_ms w)"
        using send_smp_sends [of w1 p s r tx e] s tx w1(4) f1(2) by auto
      let ?w2 = "w1\<lparr>w_ms := ms\<rparr>"
      have ok2: "engine_ok sem ?w2 q1 (insert p cur)"
        by (rule engine_ok_upd [OF w1(2)]) (use w1(2) in \<open>auto simp: engine_ok_def\<close>)
      have req: "request_of w (sm_rpc s) (sm_path s) rq"
        using ms(2) by (auto simp: request_of_def f1)
      show ?thesis
      proof (cases r)
        case (Some en)
        then have sp: "rc = - EIO" "tried = [p]" "sent = []" "rest = q1" "tx' = tx"
          using Suc.prems(3) Suc Cons tx by auto
        obtain w3 where w3: "free_smp p ?w2 = Some w3" "engine_ok sem w3 q1 (insert p cur - {p})"
            "w3 = ?w2\<lparr>w_smps := (w_smps ?w2)(p := None)\<rparr>"
          using engine_ok_free [OF ok2 insertI1] by blast
        have "queue_loop (Suc n) qm e w = Some (rc, w3)"
          using Suc cnt w1(1) ms(1) Some sp(1) w3(1) by (simp add: EIO_def)
        moreover have "engine_ok sem w3 rest cur" using w3(2) pq(1) sp(4) by simp
        moreover have "ms_tx (w_ms w3) = tx'" "ms_sent (w_ms w3) = ms_sent (w_ms w) @ [rq]"
          "dom (w_smps w3) = dom (w_smps w) - (set tried - set sent)"
          "total_smps w3 = total_smps w + of_nat (length sent)"
          using w3(3) ms(3,4) sp w1(4) f1(7) by simp_all
        moreover have "requests_of w tried [rq]" using req s(1) sp(2) by (simp add: requests_of_def)
        moreover have "sem (smps_on_wire w3) = sem (smps_on_wire w) ++ map_of (map (\<lambda>p. (smp_key (the (w_smps w p)), p)) sent)"
          using w3(3) sp(3) f1(5) by simp
        moreover have "\<forall>a. a \<in> set sent \<or> a \<notin> set q \<longrightarrow> w_smps w3 a = w_smps w a"
          using w3(3) sp(3) w1(4) Cons by simp
        ultimately show ?thesis by blast
      next
        case None
        then obtain tried1 sent1 where sp: "queue_spec m tx q1 = Some (rc, tried1, sent1, rest, tx')"
            "tried = p # tried1" "sent = p # sent1"
          using Suc.prems(3) Suc Cons tx by (auto split: Option.bind_splits)
        let ?w3 = "?w2\<lparr>smps_on_wire := qm_insert qm (smps_on_wire ?w2) (smp_key s) p, total_smps := total_smps ?w2 + 1\<rparr>"
        have fresh: "smp_key s \<notin> dom (sem (smps_on_wire w))"
          using Suc.prems(2) Cons s by (auto simp: queue_ready_def)
        have ok3: "engine_ok sem ?w3 q1 (insert p cur - {p})"
          by (rule engine_ok_insert [OF assms(1) ok2 insertI1])
            (use s w1(4) Suc in \<open>auto simp: room_def f1\<close>)
        have wire3: "sem (smps_on_wire ?w3) = (sem (smps_on_wire w))(smp_key s \<mapsto> p)"
          using fresh by (simp add: f1 qmap_laws_insert [OF assms(1)])
        have ready3: "queue_ready sem ?w3 q1"
          using Suc.prems(2) Cons s w1(4) unfolding queue_ready_def wire3 by (auto simp: image_iff)
        have "card (insert (smp_key s) (dom (sem (smps_on_wire w)))) = Suc (card (dom (sem (smps_on_wire w))))"
          using fresh qmap_laws_finite [OF assms(1)] by simp
        then have "room sem ?w3 = m" using Suc unfolding room_def wire3 by (simp add: f1)
        moreover have "queue_loop (Suc n) qm e w = queue_loop n qm e ?w3"
          using Suc cnt w1(1,4) ms(1) None s by (simp add: smp_key_def)
        moreover have "length (ms_tx (w_ms ?w3)) < n" using Suc.prems(4) tx ms(4) by simp
        moreover have "insert p cur - {p} = cur" using pq by simp
        ultimately obtain w' rqs where ih: "queue_loop (Suc n) qm e w = Some (rc, w')" "engine_ok sem w' rest cur"
            "ms_tx (w_ms w') = tx'" "ms_sent (w_ms w') = ms_sent (w_ms ?w3) @ rqs" "requests_of ?w3 tried1 rqs"
            "sem (smps_on_wire w') = sem (smps_on_wire ?w3) ++ map_of (map (\<lambda>p. (smp_key (the (w_smps ?w3 p)), p)) sent1)"
            "\<forall>p. p \<in> set sent1 \<or> p \<notin> set q1 \<longrightarrow> w_smps w' p = w_smps ?w3 p"
            "dom (w_smps w') = dom (w_smps ?w3) - (set tried1 - set sent1)"
            "total_smps w' = total_smps ?w3 + of_nat (length sent1)"
          using Suc.IH [of ?w3 q1 tried1 sent1] ok3 ready3 sp(1) ms(4) by auto
        have t1: "set sent1 \<subseteq> set tried1" "set tried1 \<subseteq> set q1"
          using queue_spec_sub [OF sp(1)] by blast+
        have su: "same_setup w ?w3" using relinked_setup [OF w1(3)] ms(5) f1(2) by (simp add: same_setup_def)
        have "requests_of w tried (rq # rqs)"
          using ih(5) req s w1(4) requests_of_cong [OF su] by (simp add: requests_of_def sp(2))
        moreover have "sem (smps_on_wire w') = sem (smps_on_wire w) ++ map_of (map (\<lambda>p. (smp_key (the (w_smps w p)), p)) sent)"
        proof -
          have "smp_key s \<noteq> smp_key (the (w_smps w a))" if "a \<in> set sent1" for a
            using Suc.prems(2) Cons s that t1 by (auto simp: queue_ready_def)
          then have "smp_key s \<notin> dom (map_of (map (\<lambda>p. (smp_key (the (w_smps w p)), p)) sent1))"
            unfolding dom_map_of_conv_image_fst set_map image_image fst_conv by blast
          then show ?thesis
            unfolding ih(6) wire3 sp(3) using s(1) w1(4) by (simp add: map_add_upd_left)
        qed
        moreover have "\<forall>a. a \<in> set sent \<or> a \<notin> set q \<longrightarrow> w_smps w' a = w_smps w a"
          using ih(7) sp(3) w1(4) pq(2) Cons by auto
        moreover have "dom (w_smps w') = dom (w_smps w) - (set tried - set sent)"
          using ih(8) sp(2,3) w1(4) pq(2) t1 by auto
        moreover have "ms_sent (w_ms w') = ms_sent (w_ms w) @ rq # rqs"
          "total_smps w' = total_smps w + of_nat (length sent)"
          using ih(4,9) ms(3) sp(3) f1(7) by simp_all
        ultimately show ?thesis using ih(1-3) by blast
      qed
    qed
  qed
qed simp

text \<open>
  C10: \<open>process_smp_queue\<close> implements \<open>queue_spec\<close>. When the
  packets queued can be sent under transaction ids that are not in use, then, for every outcome of
  the sends, the packets tried are handed to \<open>umad_send\<close> in the order they were queued, each as
  the MAD of its own request on the agent of its class, until there are \<open>max_smps\<close> on the wire,
  the queue is empty or a send fails; exactly those sent join the wire under their transaction ids,
  only a packet whose send failed is freed, and the value returned is 0 or the error of the send.
\<close>

theorem process_smp_queue_refines:
  fixes w :: "('m, 'k, 'z) smp_world_scheme"
  assumes "qmap_laws qm sem" and "engine_ok sem w q cur" and "queue_ready sem w q"
    and "queue_spec (room sem w) (ms_tx (w_ms w)) q = Some (rc, tried, sent, rest, tx')"
  shows "\<exists>w' rqs. process_smp_queue qm e w = Some (rc, w') \<and> engine_ok sem w' rest cur \<and>
    ms_tx (w_ms w') = tx' \<and> ms_sent (w_ms w') = ms_sent (w_ms w) @ rqs \<and> requests_of w tried rqs \<and>
    sem (smps_on_wire w') = sem (smps_on_wire w) ++ map_of (map (\<lambda>p. (smp_key (the (w_smps w p)), p)) sent) \<and>
    (\<forall>p. p \<in> set sent \<or> p \<notin> set q \<longrightarrow> w_smps w' p = w_smps w p) \<and>
    dom (w_smps w') = dom (w_smps w) - (set tried - set sent) \<and>
    total_smps w' = total_smps w + of_nat (length sent)"
  unfolding process_smp_queue_def by (rule queue_loop_refines [OF assms]) simp

section \<open>Issuing a packet\<close>

lemma issue_smp_keeps:
  assumes "qmap_laws qm sem" and "engine_ok sem w q cur" and "issue_smp qm e portid attrid amod cb w = Some (rc, portid', w')"
  shows "\<exists>q'. engine_ok sem w' q' cur \<and> same_setup w w' \<and> (\<forall>p \<in> cur. w_smps w' p = w_smps w p) \<and>
    (busy sem w q \<longrightarrow> busy sem w' q')"
proof (cases "w_alloc w (w_next w)")
  case False
  have "engine_ok sem (w\<lparr>w_next := Suc (w_next w)\<rparr>) q cur"
    using assms(2) unfolding engine_ok_def by (simp add: is_queue_def) (meson less_SucI)
  with False assms(3) show ?thesis by (auto simp: issue_smp_def Let_def same_setup_def busy_def room_def)
next
  case True
  let ?p = "w_next w"
  obtain trid g where t: "mad_trid (ms_g (w_ms w)) = (trid, g)" by fastforce
  let ?s = "\<lparr>qnext = None, sm_cb = cb, sm_path = portid, sm_rpc = smp_request (eng_cfg w) trid portid attrid amod\<rparr>"
  let ?w1 = "w\<lparr>w_next := Suc ?p, w_ms := (w_ms w)\<lparr>ms_g := g\<rparr>, w_smps := (w_smps w)(?p \<mapsto> ?s)\<rparr>"
  have new: "?p \<notin> dom (w_smps w)" using assms(2) by (auto simp: engine_ok_def)
  have pq: "?p \<notin> set q" "?p \<notin> cur" "?p \<notin> ran (sem (smps_on_wire w))"
  proof -
    have "set q \<subseteq> dom (w_smps w)" "ran (sem (smps_on_wire w)) \<subseteq> dom (w_smps w)" "cur \<subseteq> dom (w_smps w)"
      using assms(2) linked_live wire_ok_ran unfolding engine_ok_def is_queue_def by blast+
    then show "?p \<notin> set q" "?p \<notin> cur" "?p \<notin> ran (sem (smps_on_wire w))" using new by blast+
  qed
  have wire: "wire_ok (sem (smps_on_wire w)) (w_smps ?w1)"
  proof (rule wire_ok_cong)
    show "wire_ok (sem (smps_on_wire w)) (w_smps w)" using assms(2) by (simp add: engine_ok_def)
    fix a
    assume "a \<in> ran (sem (smps_on_wire w))"
    then have "a \<noteq> ?p" using pq(3) by blast
    then show "map_option sm_rpc (w_smps ?w1 a) = map_option sm_rpc (w_smps w a)" by simp
  qed
  have lt: "a < Suc ?p" if "a \<in> dom (w_smps ?w1)" for a
  proof (cases "a = ?p")
    case False
    then have "a \<in> dom (w_smps w)" using that by simp
    then have "a < ?p" using assms(2) unfolding engine_ok_def by blast
    then show ?thesis by simp
  qed simp
  have ok1: "engine_ok sem ?w1 q (insert ?p cur)"
    unfolding engine_ok_def
  proof (intro conjI)
    show "is_queue ?w1 q" using assms(2) pq(1) by (simp add: engine_ok_def is_queue_def linked_upd)
    show "wire_ok (sem (smps_on_wire ?w1)) (w_smps ?w1)" using wire by simp
    show "insert ?p cur \<subseteq> dom (w_smps ?w1)" using assms(2) by (auto simp: engine_ok_def)
    show "insert ?p cur \<inter> (set q \<union> ran (sem (smps_on_wire ?w1))) = {}" using assms(2) pq by (auto simp: engine_ok_def)
    show "\<forall>a \<in> dom (w_smps ?w1). a < w_next ?w1" using lt by simp
  qed (use assms(2) in \<open>simp_all add: engine_ok_def\<close>)
  obtain w2 where w2: "queue_smp ?p ?w1 = Some w2" "engine_ok sem w2 (q @ [?p]) cur" "relinked ?w1 w2"
      "\<And>a. a \<in> cur \<Longrightarrow> w_smps w2 a = w_smps ?w1 a"
    using engine_ok_put [OF ok1 pq(2)] by blast
  obtain w3 where w3: "process_smp_queue qm e w2 = Some (rc, w')"
    using assms(3) True t w2(1) by (auto simp: issue_smp_def Let_def split: Option.bind_splits)
  from process_smp_queue_keeps [OF assms(1) w2(2) this] obtain q' where
    q': "engine_ok sem w' q' cur" "same_setup w2 w'" "w_next w' = w_next w2" "\<forall>p \<in> cur. w_smps w' p = w_smps w2 p"
      "rc = 0 \<or> length (q @ [?p]) \<le> 1 \<or> busy sem w2 (q @ [?p]) \<longrightarrow> busy sem w' q'"
    by blast
  have "same_setup w w2" using relinked_setup [OF w2(3)] by (simp add: same_setup_def)
  then have "same_setup w w'" using q'(2) by (rule same_setup_trans)
  moreover have "busy sem w' q'" if "busy sem w q"
  proof -
    have "room sem w2 = room sem w" using relinked_frame [OF w2(3)] by (simp add: room_def)
    then show ?thesis using q'(5) that by (auto simp: busy_def)
  qed
  moreover have "w_smps w2 a = w_smps w a" if "a \<in> cur" for a
    using w2(4) [OF that] pq(2) that by auto
  ultimately show ?thesis using q'(1,4) by auto
qed

section \<open>Receiving\<close>

text \<open>
  What the engine relies on in a callback: it keeps the engine's invariant, with the packet it is
  given still live, and leaves the results of \<open>umad_recv\<close> and the configuration alone.
  \<open>issue_smp\<close>, through which callbacks act on the engine, does. \<open>I\<close> is an invariant of what
  the callbacks work on themselves: it may speak of that and of the callbacks that are still to run,
  and each callback keeps it.
\<close>

definition live_cbs :: "('m, 'k, 'z) smp_world_scheme \<Rightarrow> 'k set" where
  \<comment> \<open>the callbacks of the live packets, with their data\<close>
  "live_cbs w = sm_cb ` ran (w_smps w)"

definition fewer_cbs :: "('m, 'k, 'z) smp_world_scheme \<Rightarrow> ('m, 'k, 'z) smp_world_scheme \<Rightarrow> bool" where
  "fewer_cbs w w' \<longleftrightarrow> live_cbs w' \<subseteq> live_cbs w \<and> smp_world.more w' = smp_world.more w"

definition user_inv :: "(('m, 'k, 'z) smp_world_scheme \<Rightarrow> bool) \<Rightarrow> bool" where
  "user_inv I \<longleftrightarrow> (\<forall>w w'. I w \<and> fewer_cbs w w' \<longrightarrow> I w')"

definition callback_ok :: "('m \<Rightarrow> u64 \<rightharpoonup> ptr) \<Rightarrow> (('m, 'k, 'z) smp_world_scheme \<Rightarrow> bool) \<Rightarrow> ('m, 'k, 'z) completion \<Rightarrow> bool" where
  "callback_ok sem I cb \<longleftrightarrow> (\<forall>s smp mad w q cur rc w'. engine_ok sem w q cur \<and> busy sem w q \<and> smp \<in> cur \<and>
     w_smps w smp = Some s \<and> I w \<and> cb (sm_cb s) smp mad w = Some (rc, w') \<longrightarrow>
     (\<exists>q'. engine_ok sem w' q' cur \<and> busy sem w' q') \<and> ms_rx (w_ms w') = ms_rx (w_ms w) \<and>
     eng_cfg w' = eng_cfg w \<and> I w')"

lemma fewer_cbs_refl [simp]: "fewer_cbs w w"
  by (simp add: fewer_cbs_def)

lemma fewer_cbs_trans: "fewer_cbs a b \<Longrightarrow> fewer_cbs b c \<Longrightarrow> fewer_cbs a c"
  by (auto simp: fewer_cbs_def)

lemma fewer_cbsI:
  assumes "\<And>p s'. w_smps w' p = Some s' \<Longrightarrow> \<exists>p s. w_smps w p = Some s \<and> sm_cb s = sm_cb s'"
    and "smp_world.more w' = smp_world.more w"
  shows "fewer_cbs w w'"
proof -
  have "k \<in> live_cbs w" if "k \<in> live_cbs w'" for k
  proof -
    from that obtain s' where "s' \<in> ran (w_smps w')" "k = sm_cb s'" unfolding live_cbs_def by blast
    then obtain p where "w_smps w' p = Some s'" "k = sm_cb s'" unfolding ran_def by blast
    then show ?thesis using assms(1) unfolding live_cbs_def ran_def by (metis (mono_tags, lifting) image_eqI mem_Collect_eq)
  qed
  then show ?thesis using assms(2) by (auto simp: fewer_cbs_def)
qed

lemma get_smp_cbs: "get_smp w = Some (r, w') \<Longrightarrow> fewer_cbs w w'"
  by (rule fewer_cbsI)
    (fastforce simp: get_smp_def Let_def split: option.splits if_splits Option.bind_splits)+

lemma free_smp_cbs: "free_smp p w = Some w' \<Longrightarrow> fewer_cbs w w'"
  by (rule fewer_cbsI) (fastforce simp: free_smp_def split: option.splits if_splits)+

lemma send_smp_cbs: "send_smp e p w = Some (rc, w') \<Longrightarrow> fewer_cbs w w'"
  by (rule fewer_cbsI)
    (fastforce simp: send_smp_def Let_def split: if_splits Option.bind_splits)+

lemma queue_loop_cbs: "queue_loop n qm e w = Some (rc, w') \<Longrightarrow> fewer_cbs w w'"
proof (induction n arbitrary: w)
  case (Suc n)
  show ?case
  proof (cases "qm_count qm (smps_on_wire w) < unat (cf_max_smps (eng_cfg w))")
    case True
    then obtain r w1 where w1: "get_smp w = Some (r, w1)" using Suc.prems by (auto split: Option.bind_splits)
    show ?thesis
    proof (cases r)
      case None
      then show ?thesis using Suc.prems True w1 get_smp_cbs [OF w1] by simp
    next
      case (Some p)
      obtain rc2 w2 where w2: "send_smp e p w1 = Some (rc2, w2)"
        using Suc.prems True w1 Some by (auto split: Option.bind_splits)
      have k: "fewer_cbs w w2" by (rule fewer_cbs_trans [OF get_smp_cbs [OF w1] send_smp_cbs [OF w2]])
      show ?thesis
      proof (cases "rc2 = 0")
        case False
        then show ?thesis
          using Suc.prems True w1 Some w2 fewer_cbs_trans [OF k free_smp_cbs] by (auto split: Option.bind_splits)
      next
        case rc2: True
        then obtain s where s: "w_smps w2 p = Some s" "queue_loop n qm e
            (w2\<lparr>smps_on_wire := qm_insert qm (smps_on_wire w2) (smp_key s) p, total_smps := total_smps w2 + 1\<rparr>) = Some (rc, w')"
          using Suc.prems True w1 Some w2 by (auto simp: smp_key_def split: Option.bind_splits)
        have "fewer_cbs w2 (w2\<lparr>smps_on_wire := qm_insert qm (smps_on_wire w2) (smp_key s) p, total_smps := total_smps w2 + 1\<rparr>)"
          by (simp add: fewer_cbs_def live_cbs_def)
        from fewer_cbs_trans [OF k fewer_cbs_trans [OF this Suc.IH [OF s(2)]]] show ?thesis .
      qed
    qed
  qed (use Suc.prems in simp)
qed simp

lemma process_smp_queue_cbs: "process_smp_queue qm e w = Some (rc, w') \<Longrightarrow> fewer_cbs w w'"
  unfolding process_smp_queue_def by (rule queue_loop_cbs)

lemma queue_smp_cbs: "queue_smp p w = Some w' \<Longrightarrow> fewer_cbs w w'"
  by (rule fewer_cbsI)
    (fastforce simp: queue_smp_def Let_def split: if_splits option.splits Option.bind_splits)+

lemma issue_smp_cbs:
  assumes "issue_smp qm e portid attrid amod cb w = Some (rc, portid', w')"
  shows "live_cbs w' \<subseteq> insert cb (live_cbs w) \<and> smp_world.more w' = smp_world.more w"
proof (cases "w_alloc w (w_next w)")
  case False
  then show ?thesis using assms by (auto simp: issue_smp_def Let_def live_cbs_def)
next
  case True
  let ?p = "w_next w"
  obtain trid g where t: "mad_trid (ms_g (w_ms w)) = (trid, g)" by fastforce
  let ?s = "\<lparr>qnext = None, sm_cb = cb, sm_path = portid, sm_rpc = smp_request (eng_cfg w) trid portid attrid amod\<rparr>"
  let ?w1 = "w\<lparr>w_next := Suc ?p, w_ms := (w_ms w)\<lparr>ms_g := g\<rparr>, w_smps := (w_smps w)(?p \<mapsto> ?s)\<rparr>"
  obtain w2 where w2: "queue_smp ?p ?w1 = Some w2" "process_smp_queue qm e w2 = Some (rc, w')"
    using assms True t by (auto simp: issue_smp_def Let_def split: Option.bind_splits)
  have "fewer_cbs ?w1 w'" by (rule fewer_cbs_trans [OF queue_smp_cbs [OF w2(1)] process_smp_queue_cbs [OF w2(2)]])
  moreover have "live_cbs ?w1 \<subseteq> insert cb (live_cbs w)"
    by (auto simp: live_cbs_def ran_def split: if_splits)
  ultimately show ?thesis by (auto simp: fewer_cbs_def)
qed

lemma user_invD: "user_inv I \<Longrightarrow> I w \<Longrightarrow> fewer_cbs w w' \<Longrightarrow> I w'"
  unfolding user_inv_def by blast

lemma engine_ok_remove:
  assumes "qmap_laws qm sem" and "engine_ok sem w q cur" and "sem (smps_on_wire w) k = Some p"
  shows "engine_ok sem (w\<lparr>smps_on_wire := snd (qm_remove qm (smps_on_wire w) k)\<rparr>) q (insert p cur)" "p \<notin> cur"
    "p \<in> dom (w_smps w)"
proof -
  have pr: "p \<in> ran (sem (smps_on_wire w))" using assms(3) by (auto simp: ran_def)
  then show "p \<notin> cur" using assms(2) by (auto simp: engine_ok_def)
  show "p \<in> dom (w_smps w)" using assms(2,3) unfolding engine_ok_def wire_ok_def by blast
  have r: "ran ((sem (smps_on_wire w))(k := None)) = ran (sem (smps_on_wire w)) - {p}"
  proof (rule ran_remove)
    show "j = k" if "sem (smps_on_wire w) j = Some p" for j
      using assms(2,3) that unfolding engine_ok_def by (metis wire_ok_inj)
  qed (rule assms(3))
  have "card (dom (sem (smps_on_wire w)) - {k}) \<le> card (dom (sem (smps_on_wire w)))"
    by (rule card_mono) (use qmap_laws_finite [OF assms(1)] in auto)
  then have c: "card (dom (sem (smps_on_wire w)) - {k}) \<le> unat (cf_max_smps (eng_cfg w))"
    using assms(2) by (simp add: engine_ok_def)
  have "wire_ok ((sem (smps_on_wire w))(k := None)) (w_smps w)"
    using assms(2) by (auto simp: engine_ok_def wire_ok_def)
  then show "engine_ok sem (w\<lparr>smps_on_wire := snd (qm_remove qm (smps_on_wire w) k)\<rparr>) q (insert p cur)"
    using assms(2,3) c pr r \<open>p \<in> dom (w_smps w)\<close>
    by (auto simp: engine_ok_def is_queue_def qmap_laws_remove [OF assms(1)])
qed

lemma complete_smp_keeps:
  assumes "callback_ok sem I cb" "callback_ok sem I epi_err" and "engine_ok sem w q cur" "busy sem w q" "smp \<in> cur" "I w"
    and "complete_smp cb epi_err smp status mad w = Some (rc, w')"
  shows "(\<exists>q'. engine_ok sem w' q' cur \<and> busy sem w' q') \<and> ms_rx (w_ms w') = ms_rx (w_ms w) \<and>
    eng_cfg w' = eng_cfg w \<and> I w'"
proof -
  obtain s where s: "w_smps w smp = Some s" using assms by (auto simp: engine_ok_def)
  consider "epi_err (sm_cb s) smp mad w = Some (rc, w')" | "cb (sm_cb s) smp mad w = Some (rc, w')" | "w' = w"
    using assms(7) s by (auto simp: complete_smp_def Let_def split: if_splits Option.bind_splits)
  then show ?thesis
    using assms(1-6) s unfolding callback_ok_def by cases blast+
qed

lemma process_one_recv_keeps:
  assumes "qmap_laws qm sem" and "user_inv I" "callback_ok sem I cb" "callback_ok sem I epi_err"
    and "engine_ok sem w q {}" "busy sem w q" "I w" and "process_one_recv qm e cb epi_err w = Some (rc, w')"
  shows "\<exists>q'. engine_ok sem w' q' {} \<and> (rc = 0 \<longrightarrow> busy sem w' q') \<and> eng_cfg w' = eng_cfg w \<and> I w' \<and>
    length (ms_rx (w_ms w')) < length (ms_rx (w_ms w))"
proof (cases "ms_rx (w_ms w)")
  case Nil
  with assms(8) show ?thesis by (simp add: process_one_recv_def)
next
  case (Cons reply rx)
  let ?w1 = "w\<lparr>w_ms := (w_ms w)\<lparr>ms_rx := rx\<rparr>\<rparr>"
  have ok1: "engine_ok sem ?w1 q {}" by (rule engine_ok_upd [OF assms(5)]) auto
  show ?thesis
  proof (cases reply)
    case (RecvError en)
    have "engine_ok sem (w\<lparr>w_ms := (w_ms w)\<lparr>ms_rx := rx, ms_errno := en\<rparr>\<rparr>) q {}"
      by (rule engine_ok_upd [OF assms(5)]) auto
    moreover have "fewer_cbs w (w\<lparr>w_ms := (w_ms w)\<lparr>ms_rx := rx, ms_errno := en\<rparr>\<rparr>)"
      by (simp add: fewer_cbs_def live_cbs_def)
    ultimately show ?thesis using Cons RecvError assms(8) user_invD [OF assms(2,7)] by (auto simp: process_one_recv_def)
  next
    case (RecvMad status len mad)
    obtain t where t: "mad_get_field64 e mad 0 IB_MAD_TRID_F = Some t"
      using assms(8) Cons RecvMad by (auto simp: process_one_recv_def split: Option.bind_splits)
    let ?k = "ucast (ucast t :: u32) :: u64"
    let ?w2 = "?w1\<lparr>smps_on_wire := snd (qm_remove qm (smps_on_wire w) ?k)\<rparr>"
    have fw: "fewer_cbs w ?w2" by (simp add: fewer_cbs_def live_cbs_def)
    show ?thesis
    proof (cases "sem (smps_on_wire w) ?k")
      case None
      have "sem (snd (qm_remove qm (smps_on_wire w) ?k)) = sem (smps_on_wire w)"
        using None by (simp add: qmap_laws_remove [OF assms(1)] fun_upd_idem)
      then have "engine_ok sem ?w2 q {}" using ok1 by (simp add: engine_ok_def is_queue_def)
      moreover have "(rc, w') = (-1, ?w2)"
        using assms(8) Cons RecvMad t None qmap_laws_remove(1) [OF assms(1), of "smps_on_wire w" ?k]
        by (simp add: process_one_recv_def Let_def split: prod.splits)
      ultimately show ?thesis using Cons user_invD [OF assms(2,7) fw] by auto
    next
      case (Some p)
      have ok2: "engine_ok sem ?w2 q {p}" "p \<in> dom (w_smps w)"
        using engine_ok_remove [OF assms(1) ok1, of ?k p] Some by simp_all
      have run: "do { (rc, w) \<leftarrow> process_smp_queue qm e ?w2;
            (rc, w) \<leftarrow> (if rc \<noteq> 0 then Some (rc, w) else complete_smp cb epi_err p status mad w);
            w \<leftarrow> free_smp p w; Some (rc, w) } = Some (rc, w')"
        using assms(8) Cons RecvMad t Some qmap_laws_remove(1) [OF assms(1), of "smps_on_wire w" ?k]
        by (simp add: process_one_recv_def Let_def split: prod.splits)
      then obtain rc3 w3 where w3: "process_smp_queue qm e ?w2 = Some (rc3, w3)" by (auto split: Option.bind_splits)
      from process_smp_queue_keeps [OF assms(1) ok2(1) this] obtain q3 where
        q3: "engine_ok sem w3 q3 {p}" "same_setup ?w2 w3" "rc3 = 0 \<longrightarrow> busy sem w3 q3" by blast
      have I3: "I w3"
        by (rule user_invD [OF assms(2,7) fewer_cbs_trans [OF fw process_smp_queue_cbs [OF w3]]])
      obtain w4 where w4: "(if rc3 \<noteq> 0 then Some (rc3, w3) else complete_smp cb epi_err p status mad w3) = Some (rc, w4)"
          "free_smp p w4 = Some w'"
        using run w3 by (auto split: Option.bind_splits)
      have "\<exists>q4. engine_ok sem w4 q4 {p} \<and> (rc = 0 \<longrightarrow> busy sem w4 q4) \<and> ms_rx (w_ms w4) = rx \<and>
          eng_cfg w4 = eng_cfg w \<and> I w4"
      proof (cases "rc3 = 0")
        case True
        then have "complete_smp cb epi_err p status mad w3 = Some (rc, w4)" using w4(1) by simp
        from complete_smp_keeps [OF assms(3,4) q3(1) _ _ I3 this] q3(2,3) True show ?thesis
          by (auto simp: same_setup_def)
      next
        case False
        then show ?thesis using w4(1) q3(1,2) I3 by (auto simp: same_setup_def)
      qed
      then obtain q4 where q4: "engine_ok sem w4 q4 {p}" "rc = 0 \<longrightarrow> busy sem w4 q4" "ms_rx (w_ms w4) = rx"
          "eng_cfg w4 = eng_cfg w" "I w4"
        by blast
      obtain w5 where "free_smp p w4 = Some w5" "engine_ok sem w5 q4 ({p} - {p})" "w5 = w4\<lparr>w_smps := (w_smps w4)(p := None)\<rparr>"
        using engine_ok_free [OF q4(1)] by blast
      moreover have "I w'" by (rule user_invD [OF assms(2) q4(5) free_smp_cbs [OF w4(2)]])
      ultimately show ?thesis using w4(2) q4 Cons by (auto simp: busy_def room_def)
    qed
  qed
qed

lemma mads_loop_keeps:
  assumes "qmap_laws qm sem" and "user_inv I" "callback_ok sem I cb" "callback_ok sem I epi_err"
    and "engine_ok sem w q {}" "busy sem w q" "I w" and "mads_loop n qm e cb epi_err w = Some (rc, w')"
  shows "\<exists>q'. engine_ok sem w' q' {} \<and> eng_cfg w' = eng_cfg w \<and> I w' \<and>
    (rc = 0 \<longrightarrow> sem (smps_on_wire w') = Map.empty \<and> busy sem w' q')"
  using assms(5-)
proof (induction n arbitrary: w q)
  case (Suc n)
  show ?case
  proof (cases "qm_head qm (smps_on_wire w)")
    case None
    then show ?thesis using Suc.prems qmap_laws_head [OF assms(1), of "smps_on_wire w"] by auto
  next
    case (Some p)
    then obtain rc1 w1 where w1: "process_one_recv qm e cb epi_err w = Some (rc1, w1)"
      using Suc.prems(4) by (auto split: Option.bind_splits)
    from process_one_recv_keeps [OF assms(1-4) Suc.prems(1-3) this] obtain q1 where
      q1: "engine_ok sem w1 q1 {}" "rc1 = 0 \<longrightarrow> busy sem w1 q1" "eng_cfg w1 = eng_cfg w" "I w1" by blast
    show ?thesis
    proof (cases "rc1 = 0")
      case True
      then show ?thesis using Suc.IH [OF q1(1) _ q1(4)] q1 Suc.prems(4) Some w1 by auto
    next
      case False
      then show ?thesis using q1 Suc.prems(4) Some w1 by auto
    qed
  qed
qed simp

lemma mads_loop_enough:
  assumes "qmap_laws qm sem" and "user_inv I" "callback_ok sem I cb" "callback_ok sem I epi_err"
    and "engine_ok sem w q {}" "busy sem w q" "I w" and "length (ms_rx (w_ms w)) < n" "n \<le> m"
  shows "mads_loop m qm e cb epi_err w = mads_loop n qm e cb epi_err w"
  using assms(5-)
proof (induction n arbitrary: w q m)
  case (Suc n)
  then obtain m' where m: "m = Suc m'" "n \<le> m'" by (cases m) auto
  show ?case
  proof (cases "process_one_recv qm e cb epi_err w")
    case (Some r)
    obtain rc1 w1 where r: "r = (rc1, w1)" by fastforce
    from process_one_recv_keeps [OF assms(1-4) Suc.prems(1-3) Some [unfolded r]] obtain q1 where
      q1: "engine_ok sem w1 q1 {}" "rc1 = 0 \<longrightarrow> busy sem w1 q1" "length (ms_rx (w_ms w1)) < length (ms_rx (w_ms w))" "I w1"
      by blast
    have "mads_loop m' qm e cb epi_err w1 = mads_loop n qm e cb epi_err w1" if "rc1 = 0"
      using Suc.IH [OF q1(1) _ q1(4), of m'] q1 that Suc.prems(4) m(2) by simp
    then show ?thesis using Some r m(1) by simp
  qed (simp add: m(1))
qed simp

text \<open>
  C11: with callbacks that respect the engine, from a state in which its
  structures are sound and nothing waits while there is room, \<open>process_mads\<close> ends in such a
  state, and an invariant \<open>I\<close> of what the callbacks work on holds there if it did at the start: every packet queued or on the wire is live and is in one place only, and at most
  \<open>max_smps\<close> are on the wire. When it returns 0 (and \<open>max_smps\<close> is not 0) nothing is
  left: no packet is on the wire and none is queued.
\<close>

theorem process_mads_complete:
  fixes w :: "('m, 'k, 'z) smp_world_scheme"
  assumes "qmap_laws qm sem" and "user_inv I" "callback_ok sem I cb" "callback_ok sem I epi_err"
    and "engine_ok sem w q {}" "busy sem w q" "I w" and "process_mads qm e cb epi_err w = Some (rc, w')"
  shows "\<exists>q'. engine_ok sem w' q' {} \<and> I w' \<and>
    (rc = 0 \<and> cf_max_smps (eng_cfg w) \<noteq> 0 \<longrightarrow> sem (smps_on_wire w') = Map.empty \<and> q' = [])"
proof -
  from mads_loop_keeps [OF assms(1-7)] assms(8) obtain q' where
    q': "engine_ok sem w' q' {}" "eng_cfg w' = eng_cfg w" "I w'" "rc = 0 \<longrightarrow> sem (smps_on_wire w') = Map.empty \<and> busy sem w' q'"
    unfolding process_mads_def by blast
  then have "q' = []" if "rc = 0" "cf_max_smps (eng_cfg w) \<noteq> 0"
    using that by (auto simp: busy_def room_def unat_eq_0)
  then show ?thesis using q' by blast
qed

text \<open>
  C13: one round more than there are results of \<open>umad_recv\<close> is enough for
  the loop of \<open>process_mads\<close>, however many packets the callbacks issue: more rounds change
  nothing.
\<close>

theorem process_mads_returns:
  fixes w :: "('m, 'k, 'z) smp_world_scheme"
  assumes "qmap_laws qm sem" and "user_inv I" "callback_ok sem I cb" "callback_ok sem I epi_err"
    and "engine_ok sem w q {}" "busy sem w q" "I w" and "length (ms_rx (w_ms w)) < n"
  shows "mads_loop n qm e cb epi_err w = process_mads qm e cb epi_err w"
  unfolding process_mads_def by (rule mads_loop_enough [OF assms(1-7)]) (use assms(8) in simp_all)

definition own_response :: "endian \<Rightarrow> ('m, 'k, 'z) smp_world_scheme \<Rightarrow> 'k \<Rightarrow> ptr \<Rightarrow> mem \<Rightarrow> bool" where
  \<comment> \<open>the MAD answers the request of the live packet whose callback is \<open>k\<close>\<close>
  "own_response e w k smp mad \<longleftrightarrow> (\<exists>s. w_smps w smp = Some s \<and> sm_cb s = k \<and>
     map_option (\<lambda>t. ucast t :: u32) (mad_get_field64 e mad 0 IB_MAD_TRID_F) = Some (ucast (r_trid (sm_rpc s))) \<and>
     mad_get_field mad 0 IB_DRSMP_STATUS_F = Some 0)"

text \<open>
  C12: a callback is only ever run on a live packet, with the callback and
  data that packet was issued with, and on a MAD that carries the transaction id of its request and
  the status 0: what \<open>process_one_recv\<close> does depends on \<open>cb\<close> in such states only.
\<close>

theorem callback_own_response:
  fixes w :: "('m, 'k, 'z) smp_world_scheme"
  assumes "qmap_laws qm sem" and "engine_ok sem w q {}"
    and "\<And>(v :: ('m, 'k, 'z) smp_world_scheme) k smp mad. own_response e v k smp mad \<Longrightarrow> cb k smp mad v = cb' k smp mad v"
  shows "process_one_recv qm e cb epi_err w = process_one_recv qm e cb' epi_err w"
proof (cases "ms_rx (w_ms w)")
  case (Cons reply rx)
  show ?thesis
  proof (cases reply)
    case (RecvMad status len mad)
    let ?w1 = "w\<lparr>w_ms := (w_ms w)\<lparr>ms_rx := rx\<rparr>\<rparr>"
    have ok1: "engine_ok sem ?w1 q {}" by (rule engine_ok_upd [OF assms(2)]) auto
    have "complete_smp cb epi_err p status mad w3 = complete_smp cb' epi_err p status mad w3"
      if t: "mad_get_field64 e mad 0 IB_MAD_TRID_F = Some t"
        and p: "sem (smps_on_wire w) (ucast (ucast t :: u32)) = Some p"
        and w3: "process_smp_queue qm e (?w1\<lparr>smps_on_wire := snd (qm_remove qm (smps_on_wire w) (ucast (ucast t :: u32)))\<rparr>)
                  = Some (rc3, w3)" for t p rc3 w3
    proof -
      have "engine_ok sem (?w1\<lparr>smps_on_wire := snd (qm_remove qm (smps_on_wire w) (ucast (ucast t :: u32)))\<rparr>) q {p}"
        using engine_ok_remove(1) [OF assms(1) ok1, of "ucast (ucast t :: u32)" p] p by simp
      from process_smp_queue_keeps [OF assms(1) this w3] have same: "w_smps w3 p = w_smps w p" by auto
      obtain s where s: "w_smps w p = Some s" "ucast (ucast t :: u32) = smp_key s"
        using assms(2) p unfolding engine_ok_def wire_ok_def by blast
      have "(ucast t :: u32) = ucast (r_trid (sm_rpc s))"
        using s(2) unfolding smp_key_def by (rule ucast64_inject)
      then have "own_response e w3 (sm_cb s) p mad" if "mad_get_field mad 0 IB_DRSMP_STATUS_F = Some 0"
        using that t s(1) same by (simp add: own_response_def)
      then show ?thesis
        using s(1) same assms(3) by (auto simp: complete_smp_def Let_def intro!: Option.bind_cong)
    qed
    note same = this
    show ?thesis
    proof (cases "mad_get_field64 e mad 0 IB_MAD_TRID_F")
      case (Some t)
      obtain item m where rm: "qm_remove qm (smps_on_wire w) (ucast (ucast t :: u32)) = (item, m)" by fastforce
      have "sem (smps_on_wire w) (ucast (ucast t :: u32)) = item"
        "m = snd (qm_remove qm (smps_on_wire w) (ucast (ucast t :: u32)))"
        using qmap_laws_remove(1) [OF assms(1), of "smps_on_wire w" "ucast (ucast t :: u32)"] rm by simp_all
      then show ?thesis
        using Cons RecvMad Some rm same [OF Some]
        by (cases item) (auto simp: process_one_recv_def intro!: Option.bind_cong)
    qed (simp add: process_one_recv_def Cons RecvMad)
  qed (simp add: process_one_recv_def Cons)
qed (simp add: process_one_recv_def)

section \<open>Tearing down\<close>

lemma drop_queued_ok:
  assumes "engine_ok sem w q {}" and "length q < n"
  shows "\<exists>w'. drop_queued n w = Some w' \<and> engine_ok sem w' [] {} \<and> smps_on_wire w' = smps_on_wire w \<and>
    dom (w_smps w') = dom (w_smps w) - set q"
  using assms
proof (induction n arbitrary: w q)
  case (Suc n)
  show ?case
  proof (cases q)
    case Nil
    then have "get_smp w = Some (None, w)" using Suc.prems by (intro get_smp_empty) (simp add: engine_ok_def)
    with Nil Suc.prems show ?thesis by auto
  next
    case (Cons p q1)
    obtain w1 where w1: "get_smp w = Some (Some p, w1)" "engine_ok sem w1 q1 (insert p {})" "relinked w w1"
        "w_smps w1 = w_smps w"
      using engine_ok_get Suc.prems(1) unfolding Cons by blast
    obtain w2 where w2: "free_smp p w1 = Some w2" "engine_ok sem w2 q1 {}" "w2 = w1\<lparr>w_smps := (w_smps w1)(p := None)\<rparr>"
      using engine_ok_free [OF w1(2), of p] by auto
    obtain w3 where w3: "drop_queued n w2 = Some w3" "engine_ok sem w3 [] {}" "smps_on_wire w3 = smps_on_wire w2"
        "dom (w_smps w3) = dom (w_smps w2) - set q1"
      using Suc.IH [OF w2(2)] Suc.prems(2) Cons by auto
    have "dom (w_smps w3) = dom (w_smps w) - set q" using w3(4) w2(3) w1(4) Cons by auto
    then show ?thesis using w1(1) w2 w3 relinked_frame(5) [OF w1(3)] by auto
  qed
qed simp

lemma drop_wire_ok:
  assumes "qmap_laws qm sem" and "engine_ok sem w [] {}" and "card (dom (sem (smps_on_wire w))) < n"
  shows "\<exists>w'. drop_wire n qm w = Some w' \<and> engine_ok sem w' [] {} \<and>
    dom (w_smps w') = dom (w_smps w) - ran (sem (smps_on_wire w))"
  using assms(2-)
proof (induction n arbitrary: w)
  case (Suc n)
  show ?case
  proof (cases "qm_head qm (smps_on_wire w)")
    case None
    then show ?thesis using Suc.prems qmap_laws_head [OF assms(1), of "smps_on_wire w"] by auto
  next
    case (Some p)
    then obtain k where k: "sem (smps_on_wire w) k = Some p"
      using qmap_laws_head [OF assms(1), of "smps_on_wire w"] by (auto simp: ran_def)
    have uniq: "j = k" if "sem (smps_on_wire w) j = Some p" for j
      using Suc.prems(1) k that unfolding engine_ok_def by (metis wire_ok_inj)
    let ?w1 = "w\<lparr>smps_on_wire := qm_remove_item qm (smps_on_wire w) p\<rparr>"
    have sem1: "sem (smps_on_wire ?w1) = (sem (smps_on_wire w))(k := None)"
      using qmap_laws_remove_item [OF assms(1) k] uniq by simp
    have "engine_ok sem ?w1 [] {p}"
      using engine_ok_remove(1) [OF assms(1) Suc.prems(1) k] sem1
      by (simp add: engine_ok_def is_queue_def qmap_laws_remove [OF assms(1)])
    then obtain w2 where w2: "free_smp p ?w1 = Some w2" "engine_ok sem w2 [] {}" "w2 = ?w1\<lparr>w_smps := (w_smps ?w1)(p := None)\<rparr>"
      using engine_ok_free [of sem ?w1 "[]" "{p}" p] by auto
    have "card (dom (sem (smps_on_wire ?w1))) < n"
    proof -
      have "card (dom (sem (smps_on_wire w)) - {k}) < card (dom (sem (smps_on_wire w)))"
        by (rule psubset_card_mono) (use k qmap_laws_finite [OF assms(1)] in auto)
      then show ?thesis unfolding sem1 using Suc.prems(2) by simp
    qed
    then have "card (dom (sem (smps_on_wire w2))) < n" unfolding w2(3) by simp
    then obtain w3 where w3: "drop_wire n qm w2 = Some w3" "engine_ok sem w3 [] {}"
        "dom (w_smps w3) = dom (w_smps w2) - ran (sem (smps_on_wire w2))"
      using Suc.IH [OF w2(2)] by blast
    have "sem (smps_on_wire w2) = (sem (smps_on_wire w))(k := None)" using sem1 unfolding w2(3) by simp
    then have "ran (sem (smps_on_wire w2)) = ran (sem (smps_on_wire w)) - {p}"
      using ran_remove [where m = "sem (smps_on_wire w)", OF k uniq] by simp
    moreover have "p \<in> ran (sem (smps_on_wire w))" using k by (auto simp: ran_def)
    moreover have "dom (w_smps w2) = dom (w_smps w) - {p}" unfolding w2(3) by simp
    ultimately have "dom (w_smps w3) = dom (w_smps w) - ran (sem (smps_on_wire w))"
      unfolding w3(3) by auto
    then show ?thesis using Some w2(1) w3(1,2) by simp
  qed
qed simp

lemma engine_destroyed:
  fixes w :: "('m, 'k, 'z) smp_world_scheme"
  assumes "qmap_laws qm sem" and "engine_ok sem w q {}"
  shows "\<exists>w'. smp_engine_destroy qm w = Some w' \<and> \<not> w_port_open w' \<and>
    dom (w_smps w') = dom (w_smps w) - (set q \<union> ran (sem (smps_on_wire w)))"
proof -
  have "set q \<subseteq> {..<w_next w}"
    using assms(2) linked_live unfolding engine_ok_def is_queue_def by blast
  then have "card (set q) \<le> w_next w" using card_mono [of "{..<w_next w}" "set q"] by simp
  then have len: "length q < Suc (w_next w)"
    using assms(2) by (simp add: engine_ok_def is_queue_def distinct_card)
  obtain w1 where w1: "drop_queued (Suc (w_next w)) w = Some w1" "engine_ok sem w1 [] {}"
      "smps_on_wire w1 = smps_on_wire w" "dom (w_smps w1) = dom (w_smps w) - set q"
    using drop_queued_ok [OF assms(2) len] by blast
  obtain w2 where w2: "drop_wire (Suc (qm_count qm (smps_on_wire w1))) qm w1 = Some w2"
      "dom (w_smps w2) = dom (w_smps w1) - ran (sem (smps_on_wire w1))"
    using drop_wire_ok [OF assms(1) w1(2), of "Suc (qm_count qm (smps_on_wire w1))"]
    by (auto simp: qmap_laws_count [OF assms(1)])
  have "smp_engine_destroy qm w = Some (w2\<lparr>w_port_open := False\<rparr>)"
    using w1(1) w2(1) by (simp add: smp_engine_destroy_def del: drop_queued.simps drop_wire.simps)
  then show ?thesis using w1(3,4) w2(2) by (simp add: Diff_Diff_Int Un_Diff_Int) blast
qed

text \<open>
  Property: tearing the engine down never touches a packet twice and never
  fails; it frees exactly the packets queued or on the wire, each once, and closes the port.
\<close>

theorem smp_engine_destroy_frees:
  fixes w :: "('m, 'k, 'z) smp_world_scheme"
  assumes "qmap_laws qm sem" and "engine_ok sem w q {}"
  shows "\<exists>w'. smp_engine_destroy qm w = Some w' \<and> \<not> w_port_open w' \<and>
    dom (w_smps w') = dom (w_smps w) - (set q \<union> ran (sem (smps_on_wire w)))"
  by (rule engine_destroyed [OF assms])

section \<open>A state in which the hypotheses hold\<close>

text \<open>A map with the documented behaviour of \<open>cl_qmap\<close>: an association list.\<close>

definition alist_qmap :: "(u64 \<times> ptr) list qmap_ops" where
  "alist_qmap = \<lparr>qm_init = [],
     qm_count = (\<lambda>m. length (remdups (map fst m))),
     qm_insert = (\<lambda>m k p. if map_of m k = None then (k, p) # m else m),
     qm_remove = (\<lambda>m k. (map_of m k, filter (\<lambda>x. fst x \<noteq> k) m)),
     qm_get = map_of,
     qm_head = (\<lambda>m. if m = [] then None else Some (snd (hd m))),
     qm_remove_item = (\<lambda>m p. filter (\<lambda>x. map_of m (fst x) \<noteq> Some p) m)\<rparr>"

lemma map_of_filter_keys: "map_of (filter (\<lambda>x. P (fst x)) m) k = (if P k then map_of m k else None)"
  by (induction m) auto

lemma alist_qmap_laws: "qmap_laws alist_qmap map_of"
  unfolding qmap_laws_def
proof (intro conjI allI impI)
  fix m :: "(u64 \<times> ptr) list" and k p
  show "qm_count alist_qmap m = card (dom (map_of m))"
    by (simp add: alist_qmap_def dom_map_of_conv_image_fst length_remdups_card_conv)
  show "map_of (snd (qm_remove alist_qmap m k)) = (map_of m)(k := None)"
    by (simp add: alist_qmap_def fun_eq_iff map_of_filter_keys [where P = "\<lambda>a. a \<noteq> k"])
  show "case qm_head alist_qmap m of None \<Rightarrow> map_of m = Map.empty | Some p \<Rightarrow> p \<in> ran (map_of m)"
    by (cases m) (auto simp: alist_qmap_def ran_def intro!: exI [of _ "fst (hd m)"])
  assume k: "map_of m k = Some p" and u: "\<forall>j. map_of m j = Some p \<longrightarrow> j = k"
  show "map_of (qm_remove_item alist_qmap m p) = (map_of m)(k := None)"
  proof
    fix j
    show "map_of (qm_remove_item alist_qmap m p) j = ((map_of m)(k := None)) j"
    proof (cases "map_of m j = Some p")
      case True
      then have "j = k" using u by blast
      with True show ?thesis
        by (simp add: alist_qmap_def map_of_filter_keys [where P = "\<lambda>a. map_of m a \<noteq> Some p"])
    next
      case False
      then have "j \<noteq> k" using k by blast
      with False show ?thesis
        by (simp add: alist_qmap_def map_of_filter_keys [where P = "\<lambda>a. map_of m a \<noteq> Some p"])
    qed
  qed
qed (simp_all add: alist_qmap_def finite_dom_map_of domIff)

definition example_cfg :: ibnd_config_t where
  "example_cfg = \<lparr>cf_max_smps = 1, cf_show_progress = 0, cf_max_hops = 0, cf_debug = 0, cf_timeout_ms = 1000,
     cf_retries = 3, cf_flags = 0, cf_mkey = 0\<rparr>"

definition example_smp :: "u64 \<Rightarrow> ptr option \<Rightarrow> unit ibnd_smp_t" where
  "example_smp trid nxt = \<lparr>qnext = nxt, sm_cb = (), sm_path = portid_zero,
     sm_rpc = smp_request example_cfg trid portid_zero IB_ATTR_NODE_INFO 0\<rparr>"

definition example_queue_world :: "((u64 \<times> ptr) list, unit) smp_world" where
  \<comment> \<open>two packets are queued, and there is room for one\<close>
  "example_queue_world = \<lparr>umad_fd = 3, smi_agent = 0, smi_dir_agent = 1, smp_queue_head = Some 0,
     smp_queue_tail = Some 1, smps_on_wire = [], eng_cfg = example_cfg, total_smps = 0, w_ms = example_state,
     w_smps = [0 \<mapsto> example_smp 7 (Some 1), 1 \<mapsto> example_smp 8 None], w_next = 2, w_alloc = (\<lambda>_. True),
     w_port_open = True\<rparr>"

definition example_wire_world :: "((u64 \<times> ptr) list, unit) smp_world" where
  \<comment> \<open>one packet is on the wire and its response arrives\<close>
  "example_wire_world = example_queue_world\<lparr>smp_queue_head := None, smp_queue_tail := None, smps_on_wire := [(0, 0)],
     w_smps := [0 \<mapsto> example_smp 0 None], w_ms := example_state\<lparr>ms_rx := [RecvMad 0 256 (replicate 256 0)]\<rparr>\<rparr>"

lemma example_queue_ok:
  "engine_ok map_of example_queue_world [0, 1] {}" "queue_ready map_of example_queue_world [0, 1]"
  "queue_spec (room map_of example_queue_world) (ms_tx (w_ms example_queue_world)) [0, 1] =
     Some (0, [0], [0], [1], [None, None])"
  "is_queue example_queue_world [0, 1]"
  by (simp_all add: engine_ok_def is_queue_def example_queue_world_def example_smp_def wire_ok_def example_cfg_def
      queue_ready_def sendable_def smp_request_def portid_zero_def dr_path_zero_def rpc_zero_def smp_key_def
      room_def example_state_def numeral_3_eq_3 c_eval)

lemma example_wire_ok: "engine_ok map_of example_wire_world [] {}" "busy map_of example_wire_world []"
  by (simp_all add: engine_ok_def is_queue_def example_queue_world_def example_wire_world_def example_smp_def
      wire_ok_def example_cfg_def smp_request_def portid_zero_def dr_path_zero_def rpc_zero_def smp_key_def busy_def)

definition done_cb :: "((u64 \<times> ptr) list, unit, unit) completion" where
  "done_cb k smp mad w = Some (0, w)"

lemma done_cb_ok: "user_inv (\<lambda>_. True)" "callback_ok map_of (\<lambda>_. True) done_cb"
  by (auto simp: callback_ok_def done_cb_def user_inv_def)

lemma example_wire_run:
  "\<exists>w'. process_mads alist_qmap BE done_cb done_cb example_wire_world = Some (0, w')"
proof -
  obtain t where t: "mad_get_field64 BE (replicate 256 0) 0 IB_MAD_TRID_F = Some t" "(ucast t :: u32) = 0"
    using tid32_zero [of BE] by (auto simp: tid32_def)
  have st: "mad_get_field (replicate 256 0) 0 IB_DRSMP_STATUS_F = Some 0"
    by (simp add: eval_field)
  show ?thesis
    by (simp add: process_mads_def example_wire_world_def example_queue_world_def example_state_def alist_qmap_def
        process_one_recv_def t st process_smp_queue_def example_cfg_def get_smp_def complete_smp_def done_cb_def
        free_smp_def example_smp_def)
qed

theorem smp_queue_refines_witness:
  "\<exists>w'. fifo_run queue_smp get_smp [Get, Put 0, Get, Get, Get] example_queue_world =
     Some ([Some 0, Some 1, Some 0, None], w') \<and> is_queue w' []"
  using smp_queue_refines [OF example_queue_ok(4), of "[Get, Put 0, Get, Get, Get]"]
  by (auto simp: example_queue_world_def)

theorem process_smp_queue_refines_witness:
  "\<exists>w' rqs. process_smp_queue alist_qmap BE example_queue_world = Some (0, w') \<and> is_queue w' [1] \<and>
     ms_sent (w_ms w') = ms_sent example_state @ rqs \<and> length rqs = 1 \<and> map_of (smps_on_wire w') = [7 \<mapsto> 0]"
  using process_smp_queue_refines [OF alist_qmap_laws example_queue_ok(1-3), of BE]
  by (auto simp: engine_ok_def requests_of_def list_all2_conv_all_nth example_queue_world_def example_smp_def
      smp_key_def smp_request_def rpc_zero_def)

theorem process_mads_complete_witness:
  "\<exists>w' q'. process_mads alist_qmap BE done_cb done_cb example_wire_world = Some (0, w') \<and>
     engine_ok map_of w' q' {} \<and> map_of (smps_on_wire w') = Map.empty \<and> q' = []"
proof -
  obtain w' where w': "process_mads alist_qmap BE done_cb done_cb example_wire_world = Some (0, w')"
    using example_wire_run by blast
  have "cf_max_smps (eng_cfg example_wire_world) \<noteq> 0"
    by (simp add: example_wire_world_def example_queue_world_def example_cfg_def)
  then show ?thesis
    using process_mads_complete [OF alist_qmap_laws done_cb_ok done_cb_ok(2) example_wire_ok TrueI w'] w' by blast
qed

theorem process_mads_returns_witness:
  "\<exists>w'. mads_loop 1000 alist_qmap BE done_cb done_cb example_wire_world = Some (0, w')"
proof -
  have "length (ms_rx (w_ms example_wire_world)) < 1000" by (simp add: example_wire_world_def)
  from process_mads_returns [OF alist_qmap_laws done_cb_ok done_cb_ok(2) example_wire_ok TrueI this, of BE] example_wire_run
  show ?thesis by metis
qed

theorem callback_own_response_witness:
  "process_one_recv alist_qmap BE (\<lambda>k smp mad w. if own_response BE w k smp mad then done_cb k smp mad w else None)
       done_cb example_wire_world =
   process_one_recv alist_qmap BE done_cb done_cb example_wire_world"
  by (rule callback_own_response [OF alist_qmap_laws example_wire_ok(1)]) simp

theorem smp_engine_destroy_frees_witness:
  "\<exists>w'. smp_engine_destroy alist_qmap example_queue_world = Some w' \<and> dom (w_smps w') = {}"
proof -
  have "dom (w_smps example_queue_world) - (set [0, 1] \<union> ran (map_of (smps_on_wire example_queue_world))) = {}"
    by (auto simp: example_queue_world_def split: if_splits)
  then show ?thesis
    using smp_engine_destroy_frees [OF alist_qmap_laws example_queue_ok(1)] by metis
qed

end
