(* ===== verification/FabricCorrect.thy ===== *)
theory FabricCorrect
  imports Fabric SmpEngineCorrect MadResolveCorrect
begin

text \<open>
  The fabric object is well formed: its lists and hash chains are what they should be, nodes are
  unique by GUID, the ports of a node point back to it, and links are symmetric. Every operation of
  \<open>Fabric\<close> that changes the object keeps this.
\<close>

section \<open>Linked lists\<close>

fun path :: "(ptr \<Rightarrow> ptr option option) \<Rightarrow> ptr option \<Rightarrow> ptr list \<Rightarrow> bool" where
  \<comment> \<open>the list from \<open>x\<close> has exactly these elements\<close>
  "path next x [] \<longleftrightarrow> x = None"
| "path next x (p # ps) \<longleftrightarrow> x = Some p \<and> (\<exists>y. next p = Some y \<and> path next y ps)"

lemma path_unique: "path next x ps \<Longrightarrow> path next x qs \<Longrightarrow> ps = qs"
proof (induction ps arbitrary: x qs)
  case Nil
  then show ?case by (cases qs) auto
next
  case (Cons p ps)
  then show ?case by (cases qs) auto
qed

lemma path_suffix: "path next x (ps @ p # qs) \<Longrightarrow> path next (Some p) (p # qs)"
  by (induction ps arbitrary: x) auto

lemma path_distinct: "path next x ps \<Longrightarrow> distinct ps"
proof (induction ps arbitrary: x)
  case (Cons p ps)
  have "p \<notin> set ps"
  proof
    assume "p \<in> set ps"
    then obtain as bs where ps: "ps = as @ p # bs" by (auto dest: split_list)
    have "path next (Some p) (p # ps)" using Cons.prems by auto
    moreover have "path next (Some p) (p # bs)" using Cons.prems path_suffix [of "next" x "p # as" p bs] ps by simp
    ultimately have "p # ps = p # bs" by (rule path_unique)
    then show False using ps by simp
  qed
  then show ?case using Cons by auto
qed simp

lemma path_cong: "path next x ps \<Longrightarrow> (\<And>p. p \<in> set ps \<Longrightarrow> next' p = next p) \<Longrightarrow> path next' x ps"
  by (induction ps arbitrary: x) auto

lemma path_bounded:
  assumes "path next x ps" and "\<And>p. p \<in> set ps \<Longrightarrow> p < n"
  shows "length ps \<le> n"
proof -
  have "set ps \<subseteq> {..<n}" using assms(2) by auto
  then have "card (set ps) \<le> n" using card_mono [of "{..<n}" "set ps"] by simp
  then show ?thesis using distinct_card [OF path_distinct [OF assms(1)]] by simp
qed

lemma find_chain_path:
  assumes "path next x ps" and "\<And>p. p \<in> set ps \<Longrightarrow> test p = Some (t p)" and "length ps \<le> n"
  shows "find_chain n next test x = Some (find t ps)"
  using assms
proof (induction ps arbitrary: x n)
  case Nil
  then show ?case by (simp add: find_chain_def)
next
  case (Cons p ps)
  then obtain m y where n: "n = Suc m" "x = Some p" "next p = Some y" "path next y ps" "length ps \<le> m"
    by (cases n) auto
  have "find_chain m next test y = Some (find t ps)"
    using Cons.IH [OF n(4) _ n(5)] Cons.prems(2) by simp
  then show ?case using n Cons.prems(2) [of p] by (auto simp: find_chain_def)
qed

lemma find_SomeD: "find P xs = Some x \<Longrightarrow> x \<in> set xs \<and> P x"
  by (induction xs) (auto split: if_splits)

section \<open>The invariant\<close>

definition lists_nodes :: "(ibnd_node_t \<Rightarrow> ptr option) \<Rightarrow> (ibnd_node_t \<Rightarrow> bool) \<Rightarrow> (ptr \<rightharpoonup> ibnd_node_t) \<Rightarrow> ptr option \<Rightarrow> bool" where
  \<comment> \<open>the list linked by \<open>sel\<close> from \<open>x\<close> has exactly the live nodes with \<open>P\<close>\<close>
  "lists_nodes sel P h x \<longleftrightarrow>
     (\<exists>ps. path (\<lambda>p. map_option sel (h p)) x ps \<and> set ps = {p. \<exists>n. h p = Some n \<and> P n})"

definition nodes_ok :: "'m fabric \<Rightarrow> bool" where
  "nodes_ok f \<longleftrightarrow>
     (\<forall>p \<in> dom (st_nodes f). p < st_next f) \<and>
     length (nodestbl f) = HTSZ \<and>
     (\<forall>i < HTSZ. lists_nodes nd_htnext (\<lambda>n. hash_idx (nd_guid n) = i) (st_nodes f) (nodestbl f ! i)) \<and>
     lists_nodes nd_next (\<lambda>_. True) (st_nodes f) (fb_nodes f) \<and>
     lists_nodes type_next (\<lambda>n. nd_type n = uint IB_NODE_CA) (st_nodes f) (ch_adapters f) \<and>
     lists_nodes type_next (\<lambda>n. nd_type n = uint IB_NODE_SWITCH) (st_nodes f) (switches f) \<and>
     lists_nodes type_next (\<lambda>n. nd_type n = uint IB_NODE_ROUTER) (st_nodes f) (routers f) \<and>
     (\<forall>p q n m. st_nodes f p = Some n \<longrightarrow> st_nodes f q = Some m \<longrightarrow> nd_guid n = nd_guid m \<longrightarrow> p = q)"

definition node_shape :: "ibnd_node_t \<Rightarrow> bool" where
  "node_shape n \<longleftrightarrow> 0 \<le> numports n \<and> length (ports n) = nat (numports n + 1) \<and> length (nd_info n) = 64 \<and>
     length (switchinfo n) = 64 \<and> length (nodedesc n) = 64 \<and> length (ch_type_str n) = CHASSIS_TYPE_SIZE"

definition port_shape :: "ibnd_port_t \<Rightarrow> bool" where
  "port_shape x \<longleftrightarrow> length (po_info x) = 64 \<and> length (ext_info x) = 64"

definition ports_ok :: "'m fabric \<Rightarrow> bool" where
  \<comment> \<open>an entry of the \<open>ports\<close> array of a node is a port that names this node and this number\<close>
  "ports_ok f \<longleftrightarrow>
     (\<forall>p \<in> dom (st_ports f). p < st_next f) \<and>
     (\<forall>p n. st_nodes f p = Some n \<longrightarrow> node_shape n \<and>
        (\<forall>i < length (ports n). \<forall>a. ports n ! i = Some a \<longrightarrow>
           (\<exists>x. st_ports f a = Some x \<and> po_node x = Some p \<and> portnum x = int i))) \<and>
     (\<forall>p x. st_ports f p = Some x \<longrightarrow> port_shape x)"

definition links_ok :: "(ptr \<rightharpoonup> ibnd_port_t) \<Rightarrow> bool" where
  "links_ok h \<longleftrightarrow> (\<forall>p x q. h p = Some x \<longrightarrow> remoteport x = Some q \<longrightarrow> (\<exists>y. h q = Some y \<and> remoteport y = Some p))"

definition fabric_ok :: "'m fabric \<Rightarrow> bool" where
  "fabric_ok f \<longleftrightarrow> nodes_ok f \<and> ports_ok f \<and> links_ok (st_ports f)"

lemma nodes_okD:
  assumes "nodes_ok f"
  shows "\<forall>p \<in> dom (st_nodes f). p < st_next f" and "length (nodestbl f) = HTSZ"
    and "i < HTSZ \<Longrightarrow> lists_nodes nd_htnext (\<lambda>n. hash_idx (nd_guid n) = i) (st_nodes f) (nodestbl f ! i)"
    and "lists_nodes nd_next (\<lambda>_. True) (st_nodes f) (fb_nodes f)"
    and "lists_nodes type_next (\<lambda>n. nd_type n = uint IB_NODE_CA) (st_nodes f) (ch_adapters f)"
    and "lists_nodes type_next (\<lambda>n. nd_type n = uint IB_NODE_SWITCH) (st_nodes f) (switches f)"
    and "lists_nodes type_next (\<lambda>n. nd_type n = uint IB_NODE_ROUTER) (st_nodes f) (routers f)"
    and "st_nodes f p = Some n \<Longrightarrow> st_nodes f q = Some m \<Longrightarrow> nd_guid n = nd_guid m \<Longrightarrow> p = q"
  using assms unfolding nodes_ok_def by blast+

section \<open>Finding a node\<close>

lemma lists_nodes_find:
  assumes "lists_nodes sel P (st_nodes f) x" and "\<forall>p \<in> dom (st_nodes f). p < st_next f"
  shows "\<exists>ps. set ps = {p. \<exists>n. st_nodes f p = Some n \<and> P n} \<and>
    (\<forall>t. find_chain (Suc (st_next f)) (node_next sel f) (\<lambda>p. map_option t (st_nodes f p)) x =
       Some (find (\<lambda>p. t (the (st_nodes f p))) ps))"
proof -
  obtain ps where ps: "path (node_next sel f) x ps" "set ps = {p. \<exists>n. st_nodes f p = Some n \<and> P n}"
    using assms(1) by (auto simp: lists_nodes_def node_next_def [abs_def])
  have "length ps \<le> Suc (st_next f)"
    using path_bounded [OF ps(1), of "st_next f"] ps(2) assms(2) by fastforce
  then show ?thesis using ps(2) by (intro exI [of _ ps]) (auto intro!: find_chain_path [OF ps(1)])
qed

lemma find_node_guid:
  assumes "nodes_ok f"
  shows "\<exists>r. ibnd_find_node_guid f guid = Some r \<and>
    (case r of None \<Rightarrow> \<forall>p n. st_nodes f p = Some n \<longrightarrow> nd_guid n \<noteq> guid
     | Some p \<Rightarrow> \<exists>n. st_nodes f p = Some n \<and> nd_guid n = guid)"
proof -
  have i: "hash_idx guid < HTSZ" by (simp add: hash_idx_def HTSZ_def)
  then have "mem_rd (nodestbl f) (hash_idx guid) = Some (nodestbl f ! hash_idx guid)"
    using assms by (simp add: nodes_ok_def mem_rd_def)
  moreover obtain ps where ps: "set ps = {p. \<exists>n. st_nodes f p = Some n \<and> hash_idx (nd_guid n) = hash_idx guid}"
      "\<forall>t. find_chain (Suc (st_next f)) (node_next nd_htnext f) (\<lambda>p. map_option t (st_nodes f p)) (nodestbl f ! hash_idx guid) =
         Some (find (\<lambda>p. t (the (st_nodes f p))) ps)"
    using lists_nodes_find [OF nodes_okD(3) [OF assms i] nodes_okD(1) [OF assms]] by blast
  ultimately have "ibnd_find_node_guid f guid = Some (find (\<lambda>p. nd_guid (the (st_nodes f p)) = guid) ps)"
    by (simp add: ibnd_find_node_guid_def)
  moreover have "case find (\<lambda>p. nd_guid (the (st_nodes f p)) = guid) ps of
       None \<Rightarrow> \<forall>p n. st_nodes f p = Some n \<longrightarrow> nd_guid n \<noteq> guid
     | Some p \<Rightarrow> \<exists>n. st_nodes f p = Some n \<and> nd_guid n = guid"
  proof (cases "find (\<lambda>p. nd_guid (the (st_nodes f p)) = guid) ps")
    case None
    have "nd_guid n \<noteq> guid" if "st_nodes f p = Some n" for p n
    proof
      assume g: "nd_guid n = guid"
      then have "p \<in> set ps" using that ps(1) by simp
      then have "nd_guid (the (st_nodes f p)) \<noteq> guid" using None by (simp add: find_None_iff)
      then show False using that g by simp
    qed
    then show ?thesis by (simp add: None)
  next
    case (Some p)
    have p: "p \<in> set ps" "nd_guid (the (st_nodes f p)) = guid" using find_SomeD [OF Some] by simp_all
    from p(1) obtain n where "st_nodes f p = Some n" unfolding ps(1) by blast
    then show ?thesis using p(2) Some by simp
  qed
  ultimately show ?thesis by blast
qed

text \<open>
  C15: in a well-formed fabric \<open>ibnd_find_node_guid\<close> ends, accesses only
  live nodes, and returns the one node with the GUID asked for, \<open>NULL\<close> exactly if there is none:
  no collision in the hash table hides a node or yields another.
\<close>

theorem find_node_guid_correct:
  fixes f :: "'m fabric"
  assumes "fabric_ok f"
  shows "\<exists>r. ibnd_find_node_guid f guid = Some r \<and>
    (\<forall>p. r = Some p \<longleftrightarrow> (\<exists>n. st_nodes f p = Some n \<and> nd_guid n = guid))"
proof -
  have n: "nodes_ok f" using assms by (simp add: fabric_ok_def)
  from find_node_guid [OF this, of guid] obtain r where
    r: "ibnd_find_node_guid f guid = Some r"
       "case r of None \<Rightarrow> \<forall>p n. st_nodes f p = Some n \<longrightarrow> nd_guid n \<noteq> guid
        | Some p \<Rightarrow> \<exists>n. st_nodes f p = Some n \<and> nd_guid n = guid" by blast
  have "p = q" if "st_nodes f p = Some m" "st_nodes f q = Some m'" "nd_guid m = nd_guid m'" for p q m m'
    using n that unfolding nodes_ok_def by blast
  then have "\<forall>p. r = Some p \<longleftrightarrow> (\<exists>n. st_nodes f p = Some n \<and> nd_guid n = guid)"
    using r(2) by (cases r) auto
  then show ?thesis using r(1) by blast
qed

section \<open>What keeps a fabric well formed\<close>

definition skel :: "ibnd_node_t \<Rightarrow> u64 \<times> int \<times> ptr option \<times> ptr option \<times> ptr option" where
  \<comment> \<open>what the lists and tables depend on\<close>
  "skel n = (nd_guid n, nd_type n, nd_next n, nd_htnext n, type_next n)"

lemma skel_eqD: "skel n = skel m \<Longrightarrow> nd_guid n = nd_guid m \<and> nd_type n = nd_type m \<and> nd_next n = nd_next m \<and>
    nd_htnext n = nd_htnext m \<and> type_next n = type_next m"
  by (simp add: skel_def)

lemma lists_nodes_cong:
  assumes "lists_nodes sel P h x" and "\<And>p. map_option (\<lambda>n. (sel n, P n)) (h' p) = map_option (\<lambda>n. (sel n, P n)) (h p)"
  shows "lists_nodes sel P h' x"
proof -
  obtain ps where ps: "path (\<lambda>p. map_option sel (h p)) x ps" "set ps = {p. \<exists>n. h p = Some n \<and> P n}"
    using assms(1) by (auto simp: lists_nodes_def)
  have s: "map_option sel (h' p) = map_option sel (h p)" and P: "(\<exists>n. h' p = Some n \<and> P n) \<longleftrightarrow> (\<exists>n. h p = Some n \<and> P n)" for p
    using assms(2) [of p] by (cases "h p"; cases "h' p"; simp)+
  have "path (\<lambda>p. map_option sel (h' p)) x ps" using ps(1) by (rule path_cong) (simp add: s)
  moreover have "set ps = {p. \<exists>n. h' p = Some n \<and> P n}" unfolding ps(2) by (simp only: P)
  ultimately show ?thesis unfolding lists_nodes_def by blast
qed

lemma nodes_ok_skel:
  assumes "nodes_ok f" and "\<And>p. map_option skel (st_nodes f' p) = map_option skel (st_nodes f p)"
    and "nodestbl f' = nodestbl f" "fb_nodes f' = fb_nodes f" "switches f' = switches f"
    and "ch_adapters f' = ch_adapters f" "routers f' = routers f" "st_next f \<le> st_next f'"
  shows "nodes_ok f'"
proof -
  have same: "map_option (\<lambda>n. (sel n, P n)) (st_nodes f' p) = map_option (\<lambda>n. (sel n, P n)) (st_nodes f p)"
    if "\<And>n m. skel n = skel m \<Longrightarrow> sel n = sel m \<and> P n = P m"
    for p and sel :: "ibnd_node_t \<Rightarrow> ptr option" and P :: "ibnd_node_t \<Rightarrow> bool"
  proof (cases "st_nodes f p")
    case None
    then show ?thesis using assms(2) [of p] by simp
  next
    case (Some n)
    then obtain m where m: "st_nodes f' p = Some m" "skel m = skel n" using assms(2) [of p] by auto
    then show ?thesis using Some that [OF m(2)] by simp
  qed
  have d: "dom (st_nodes f') = dom (st_nodes f)"
  proof -
    have "st_nodes f' p = None \<longleftrightarrow> st_nodes f p = None" for p
      using assms(2) [of p] by (metis map_option_is_None)
    then show ?thesis by (simp add: dom_def)
  qed
  have g: "\<exists>m. st_nodes f p = Some m \<and> nd_guid m = nd_guid n" if "st_nodes f' p = Some n" for p n
    using assms(2) [of p] that by (cases "st_nodes f p") (auto simp: skel_def)
  show ?thesis
    unfolding nodes_ok_def d assms(3-7)
  proof (intro conjI allI impI)
    show "\<forall>p \<in> dom (st_nodes f). p < st_next f'" using nodes_okD(1) [OF assms(1)] assms(8) by (meson order_less_le_trans)
    show "length (nodestbl f) = HTSZ" by (rule nodes_okD(2) [OF assms(1)])
    show "p = q" if "st_nodes f' p = Some n" "st_nodes f' q = Some m" "nd_guid n = nd_guid m" for p q n m
      using g [OF that(1)] g [OF that(2)] that(3) nodes_okD(8) [OF assms(1)] by metis
    show "lists_nodes nd_htnext (\<lambda>n. hash_idx (nd_guid n) = i) (st_nodes f') (nodestbl f ! i)" if "i < HTSZ" for i
      by (rule lists_nodes_cong [OF nodes_okD(3) [OF assms(1) that]], rule same) (simp add: skel_def)
    show "lists_nodes nd_next (\<lambda>_. True) (st_nodes f') (fb_nodes f)"
      by (rule lists_nodes_cong [OF nodes_okD(4) [OF assms(1)]], rule same) (simp add: skel_def)
    show "lists_nodes type_next (\<lambda>n. nd_type n = uint IB_NODE_CA) (st_nodes f') (ch_adapters f)"
      by (rule lists_nodes_cong [OF nodes_okD(5) [OF assms(1)]], rule same) (simp add: skel_def)
    show "lists_nodes type_next (\<lambda>n. nd_type n = uint IB_NODE_SWITCH) (st_nodes f') (switches f)"
      by (rule lists_nodes_cong [OF nodes_okD(6) [OF assms(1)]], rule same) (simp add: skel_def)
    show "lists_nodes type_next (\<lambda>n. nd_type n = uint IB_NODE_ROUTER) (st_nodes f') (routers f)"
      by (rule lists_nodes_cong [OF nodes_okD(7) [OF assms(1)]], rule same) (simp add: skel_def)
  qed
qed

lemma ports_ok_cong:
  assumes "ports_ok f" and "st_next f \<le> st_next f'"
    and "\<And>p n'. st_nodes f' p = Some n' \<Longrightarrow> node_shape n' \<and> (\<exists>n. st_nodes f p = Some n \<and> ports n' = ports n)"
    and "\<And>p x'. st_ports f' p = Some x' \<Longrightarrow> port_shape x' \<and> p \<in> dom (st_ports f)"
    and "\<And>p x. st_ports f p = Some x \<Longrightarrow> \<exists>x'. st_ports f' p = Some x' \<and> po_node x' = po_node x \<and> portnum x' = portnum x"
  shows "ports_ok f'"
  unfolding ports_ok_def
proof (intro conjI allI impI)
  show "\<forall>p \<in> dom (st_ports f'). p < st_next f'"
    using assms(1,2,4) unfolding ports_ok_def by (meson domD order_less_le_trans)
  show "node_shape n'" if "st_nodes f' p = Some n'" for p n' using assms(3) [OF that] by simp
  show "port_shape x'" if "st_ports f' p = Some x'" for p x' using assms(4) [OF that] by simp
  fix p n' i a
  assume n': "st_nodes f' p = Some n'" and i: "i < length (ports n')" "ports n' ! i = Some a"
  from assms(3) [OF n'] obtain n where n: "st_nodes f p = Some n" "ports n' = ports n" by blast
  then obtain x where "st_ports f a = Some x" "po_node x = Some p" "portnum x = int i"
    using assms(1) i unfolding ports_ok_def by metis
  with assms(5) [of a x] show "\<exists>x. st_ports f' a = Some x \<and> po_node x = Some p \<and> portnum x = int i" by fastforce
qed

lemma ports_okD:
  assumes "ports_ok f"
  shows "\<forall>p \<in> dom (st_ports f). p < st_next f"
    and "st_nodes f p = Some n \<Longrightarrow> node_shape n"
    and "st_nodes f p = Some n \<Longrightarrow> i < length (ports n) \<Longrightarrow> ports n ! i = Some a \<Longrightarrow>
      \<exists>x. st_ports f a = Some x \<and> po_node x = Some p \<and> portnum x = int i"
    and "st_ports f p = Some x \<Longrightarrow> port_shape x"
  using assms unfolding ports_ok_def by blast+

lemma upd_node_ok:
  assumes "fabric_ok f" and "upd_node a g f = Some f'"
    and "\<And>n. st_nodes f a = Some n \<Longrightarrow> skel (g n) = skel n \<and> ports (g n) = ports n \<and> node_shape (g n)"
  shows "fabric_ok f'"
proof -
  obtain n where n: "st_nodes f a = Some n" "f' = f\<lparr>st_nodes := (st_nodes f)(a \<mapsto> g n)\<rparr>"
    using assms(2) by (auto simp: upd_node_def split: option.splits)
  have "nodes_ok f'"
    by (rule nodes_ok_skel [of f]) (use assms(1,3) n in \<open>auto simp: fabric_ok_def\<close>)
  moreover have "ports_ok f'"
    by (rule ports_ok_cong [of f])
      (use assms(1,3) n ports_okD [of f] in \<open>auto simp: fabric_ok_def split: if_splits\<close>)
  ultimately show ?thesis using assms(1) n(2) by (simp add: fabric_ok_def)
qed

lemma links_okD: "links_ok h \<Longrightarrow> h p = Some x \<Longrightarrow> remoteport x = Some q \<Longrightarrow> \<exists>y. h q = Some y \<and> remoteport y = Some p"
  unfolding links_ok_def by blast

lemma links_ok_cong:
  assumes "links_ok h" and "\<And>p. map_option remoteport (h' p) = map_option remoteport (h p)"
  shows "links_ok h'"
  unfolding links_ok_def
proof (intro allI impI)
  fix p x' q
  assume x': "h' p = Some x'" "remoteport x' = Some q"
  then obtain x where "h p = Some x" "remoteport x = Some q" using assms(2) [of p] by (cases "h p") auto
  then obtain y where "h q = Some y" "remoteport y = Some p" using links_okD [OF assms(1)] by blast
  then show "\<exists>y. h' q = Some y \<and> remoteport y = Some p" using assms(2) [of q] by (cases "h' q") auto
qed

lemma upd_port_ok:
  assumes "fabric_ok f" and "upd_port a g f = Some f'"
    and "\<And>x. st_ports f a = Some x \<Longrightarrow> po_node (g x) = po_node x \<and> portnum (g x) = portnum x \<and>
      remoteport (g x) = remoteport x \<and> port_shape (g x)"
  shows "fabric_ok f'"
proof -
  obtain x where x: "st_ports f a = Some x" "f' = f\<lparr>st_ports := (st_ports f)(a \<mapsto> g x)\<rparr>"
    using assms(2) by (auto simp: upd_port_def split: option.splits)
  have "nodes_ok f'" by (rule nodes_ok_skel [of f]) (use assms(1) x in \<open>auto simp: fabric_ok_def\<close>)
  moreover have "ports_ok f'"
    by (rule ports_ok_cong [of f])
      (use assms(1,3) x ports_okD [of f] in \<open>auto simp: fabric_ok_def split: if_splits\<close>)
  moreover have "links_ok (st_ports f')"
    by (rule links_ok_cong [of "st_ports f"]) (use assms(1,3) x in \<open>auto simp: fabric_ok_def\<close>)
  ultimately show ?thesis by (simp add: fabric_ok_def)
qed

section \<open>Linking two ports\<close>

definition relink :: "ptr \<Rightarrow> ptr \<Rightarrow> ptr \<Rightarrow> ibnd_port_t \<Rightarrow> ibnd_port_t" where
  \<comment> \<open>the port at \<open>a\<close> once \<open>p\<close> and \<open>q\<close> are linked: their old peers have none\<close>
  "relink p q a x = x\<lparr>remoteport := (if a = q then Some p else if a = p then Some q
     else if remoteport x = Some p \<or> remoteport x = Some q then None else remoteport x)\<rparr>"

lemma links_back:
  assumes "links_ok h" and "h p = Some x" and "h a = Some z"
  shows "remoteport z = Some p \<longleftrightarrow> remoteport x = Some a"
  using links_okD [OF assms(1) assms(2), of a] links_okD [OF assms(1) assms(3), of p] assms(2,3) by auto

lemma relink_links:
  assumes "links_ok h" and "p \<in> dom h" "q \<in> dom h"
  shows "links_ok (\<lambda>a. map_option (relink p q a) (h a))"
  unfolding links_ok_def
proof (intro allI impI)
  fix a x' b
  assume "map_option (relink p q a) (h a) = Some x'" "remoteport x' = Some b"
  then obtain x where x: "h a = Some x" "remoteport (relink p q a x) = Some b" by auto
  obtain xp xq where pq: "h p = Some xp" "h q = Some xq" using assms(2,3) by blast
  consider "a = q" "b = p" | "a = p" "a \<noteq> q" "b = q" | "a \<noteq> p" "a \<noteq> q" "remoteport x = Some b" "b \<noteq> p" "b \<noteq> q"
    using x(2) by (auto simp: relink_def split: if_splits)
  then show "\<exists>y. map_option (relink p q b) (h b) = Some y \<and> remoteport y = Some a"
  proof cases
    case 3
    then obtain y where "h b = Some y" "remoteport y = Some a" using links_okD [OF assms(1) x(1)] by blast
    with 3 show ?thesis by (simp add: relink_def)
  qed (use pq in \<open>auto simp: relink_def\<close>)
qed

definition cut_link :: "ptr option \<Rightarrow> (ptr \<rightharpoonup> ibnd_port_t) \<Rightarrow> ptr \<rightharpoonup> ibnd_port_t" where
  "cut_link r h = (\<lambda>a. map_option (\<lambda>z. if r = Some a then z\<lparr>remoteport := None\<rparr> else z) (h a))"

lemma cut_link_step:
  assumes "\<And>b. r = Some b \<Longrightarrow> b \<in> dom (st_ports f)"
  shows "(case r of None \<Rightarrow> Some f | Some b \<Rightarrow> upd_port b (\<lambda>z. z\<lparr>remoteport := None\<rparr>) f) =
    Some (f\<lparr>st_ports := cut_link r (st_ports f)\<rparr>)"
proof (cases r)
  case None
  then show ?thesis by (simp add: cut_link_def option.map_ident)
next
  case (Some b)
  then obtain z where z: "st_ports f b = Some z" using assms by blast
  have "(st_ports f)(b \<mapsto> z\<lparr>remoteport := None\<rparr>) = cut_link r (st_ports f)"
    using z Some by (auto simp: cut_link_def fun_eq_iff option.map_ident)
  then show ?thesis using Some z by (simp add: upd_port_def)
qed

lemma link_ports_relinks:
  assumes "links_ok (st_ports f)" and "p \<in> dom (st_ports f)" "q \<in> dom (st_ports f)"
  shows "link_ports p q f = Some (f\<lparr>st_ports := (\<lambda>a. map_option (relink p q a) (st_ports f a))\<rparr>)"
proof -
  obtain x y where x: "st_ports f p = Some x" and y: "st_ports f q = Some y" using assms(2,3) by blast
  note bk = links_back [OF assms(1)]
  let ?h1 = "cut_link (remoteport x) (st_ports f)"
  have s1: "(case remoteport x of None \<Rightarrow> Some f | Some b \<Rightarrow> upd_port b (\<lambda>z. z\<lparr>remoteport := None\<rparr>) f) =
      Some (f\<lparr>st_ports := ?h1\<rparr>)"
    by (rule cut_link_step) (use links_okD [OF assms(1) x] in blast)
  obtain y1 where y1: "?h1 q = Some y1" "remoteport y1 = (if remoteport x = Some q then None else remoteport y)"
    using y by (auto simp: cut_link_def)
  let ?h2 = "cut_link (remoteport y1) ?h1"
  have s2: "(case remoteport y1 of None \<Rightarrow> Some (f\<lparr>st_ports := ?h1\<rparr>)
      | Some b \<Rightarrow> upd_port b (\<lambda>z. z\<lparr>remoteport := None\<rparr>) (f\<lparr>st_ports := ?h1\<rparr>)) = Some (f\<lparr>st_ports := ?h2\<rparr>)"
  proof -
    have "b \<in> dom (st_ports (f\<lparr>st_ports := ?h1\<rparr>))" if "remoteport y1 = Some b" for b
      using links_okD [OF assms(1) y, of b] y1(2) that by (auto simp: cut_link_def split: if_splits)
    from cut_link_step [OF this] show ?thesis by simp
  qed
  obtain x2 y2 where xy2: "?h2 p = Some x2" "?h2 q = Some y2"
      "x2\<lparr>remoteport := Some q\<rparr> = x\<lparr>remoteport := Some q\<rparr>" "y2\<lparr>remoteport := Some p\<rparr> = y\<lparr>remoteport := Some p\<rparr>"
    using x y by (auto simp: cut_link_def)
  have h: "?h2(p \<mapsto> x2\<lparr>remoteport := Some q\<rparr>, q \<mapsto> (if p = q then x\<lparr>remoteport := Some p\<rparr> else y\<lparr>remoteport := Some p\<rparr>)) =
      (\<lambda>a. map_option (relink p q a) (st_ports f a))"
  proof
    fix a
    show "(?h2(p \<mapsto> x2\<lparr>remoteport := Some q\<rparr>, q \<mapsto> (if p = q then x\<lparr>remoteport := Some p\<rparr> else y\<lparr>remoteport := Some p\<rparr>))) a =
        map_option (relink p q a) (st_ports f a)"
    proof (cases "a = p \<or> a = q")
      case True
      then show ?thesis using x y xy2(3) by (auto simp: relink_def)
    next
      case False
      show ?thesis
      proof (cases "st_ports f a")
        case (Some z)
        have "remoteport z = Some p \<longleftrightarrow> remoteport x = Some a" "remoteport z = Some q \<longleftrightarrow> remoteport y = Some a"
          using bk [OF x Some] bk [OF y Some] by blast+
        moreover have "remoteport y = Some p" if "remoteport x = Some q" using bk [OF x y] that by blast
        ultimately show ?thesis using False Some y1(2) by (auto simp: cut_link_def relink_def)
      qed (use False in \<open>simp add: cut_link_def\<close>)
    qed
  qed
  have self: "(\<lambda>a. map_option (relink q q a) (st_ports f a))(q \<mapsto> (relink q q q y)\<lparr>remoteport := Some q\<rparr>) =
      (\<lambda>a. map_option (relink q q a) (st_ports f a))"
    using y by (simp add: fun_eq_iff relink_def)
  show ?thesis
    unfolding link_ports_def using x y s1 y1(1) s2 xy2 h self by (cases "p = q") (auto simp: upd_port_def)
qed

lemma link_ports_ok:
  assumes "fabric_ok f" and "p \<in> dom (st_ports f)" "q \<in> dom (st_ports f)"
  shows "\<exists>f'. link_ports p q f = Some f' \<and> fabric_ok f' \<and>
    f' = f\<lparr>st_ports := (\<lambda>a. map_option (relink p q a) (st_ports f a))\<rparr>"
proof -
  let ?f = "f\<lparr>st_ports := (\<lambda>a. map_option (relink p q a) (st_ports f a))\<rparr>"
  have l: "links_ok (st_ports f)" using assms(1) by (simp add: fabric_ok_def)
  have "nodes_ok ?f" by (rule nodes_ok_skel [of f]) (use assms(1) in \<open>auto simp: fabric_ok_def\<close>)
  moreover have "ports_ok ?f"
    by (rule ports_ok_cong [of f])
      (use assms(1) ports_okD [of f] in \<open>auto simp: fabric_ok_def relink_def port_shape_def\<close>)
  moreover have "links_ok (st_ports ?f)" using relink_links [OF l assms(2,3)] by simp
  ultimately show ?thesis using link_ports_relinks [OF l assms(2,3)] by (simp add: fabric_ok_def)
qed

text \<open>
  C16: \<open>link_ports\<close> on live ports of a well-formed fabric succeeds and links
  the two with each other; ports that were linked to one of them before are linked to nothing, every
  other port and every other field is unchanged, and the fabric is well formed: links stay symmetric.
\<close>

theorem link_ports_symmetric:
  fixes f :: "'m fabric"
  assumes "fabric_ok f" and "p \<in> dom (st_ports f)" "q \<in> dom (st_ports f)"
  shows "\<exists>f'. link_ports p q f = Some f' \<and> fabric_ok f' \<and>
    f' = f\<lparr>st_ports := (\<lambda>a. map_option (relink p q a) (st_ports f a))\<rparr>"
  by (rule link_ports_ok [OF assms])

section \<open>Adding a node\<close>

lemma lists_nodes_insert:
  assumes "lists_nodes sel P h x" and "a \<notin> dom h" and "P n" and "sel n = x"
  shows "lists_nodes sel P (h(a \<mapsto> n)) (Some a)"
proof -
  obtain ps where ps: "path (\<lambda>p. map_option sel (h p)) x ps" "set ps = {p. \<exists>n. h p = Some n \<and> P n}"
    using assms(1) by (auto simp: lists_nodes_def)
  have a: "a \<notin> set ps" using ps(2) assms(2) by auto
  then have "path (\<lambda>p. map_option sel ((h(a \<mapsto> n)) p)) x ps" by (intro path_cong [OF ps(1)]) auto
  then have "path (\<lambda>p. map_option sel ((h(a \<mapsto> n)) p)) (Some a) (a # ps)" using assms(4) by simp
  moreover have "set (a # ps) = {p. \<exists>m. (h(a \<mapsto> n)) p = Some m \<and> P m}" using ps(2) assms(2,3) by auto
  ultimately show ?thesis unfolding lists_nodes_def by blast
qed

lemma lists_nodes_skip:
  assumes "lists_nodes sel P h x" and "a \<notin> dom h" and "\<not> P n"
  shows "lists_nodes sel P (h(a \<mapsto> n)) x"
proof -
  obtain ps where ps: "path (\<lambda>p. map_option sel (h p)) x ps" "set ps = {p. \<exists>n. h p = Some n \<and> P n}"
    using assms(1) by (auto simp: lists_nodes_def)
  have a: "a \<notin> set ps" using ps(2) assms(2) by auto
  then have "path (\<lambda>p. map_option sel ((h(a \<mapsto> n)) p)) x ps" by (intro path_cong [OF ps(1)]) auto
  moreover have "set ps = {p. \<exists>m. (h(a \<mapsto> n)) p = Some m \<and> P m}" using ps(2) assms(2,3) by auto
  ultimately show ?thesis unfolding lists_nodes_def by blast
qed

definition type_listed :: "int \<Rightarrow> ibnd_node_t \<Rightarrow> ptr \<Rightarrow> ptr option \<Rightarrow> ptr option \<Rightarrow> bool" where
  \<comment> \<open>the list of a type before and after a node is added\<close>
  "type_listed t n a x x' \<longleftrightarrow> (if nd_type n = t then type_next n = x \<and> x' = Some a else x' = x)"

lemma nodes_ok_add:
  assumes "nodes_ok f" and a: "a \<notin> dom (st_nodes f)" and "a < st_next f'" "st_next f \<le> st_next f'"
    and h': "st_nodes f' = (st_nodes f)(a \<mapsto> n)" and g: "\<And>p m. st_nodes f p = Some m \<Longrightarrow> nd_guid m \<noteq> nd_guid n"
    and t: "nd_htnext n = nodestbl f ! hash_idx (nd_guid n)" "nodestbl f' = (nodestbl f)[hash_idx (nd_guid n) := Some a]"
    and l: "nd_next n = fb_nodes f" "fb_nodes f' = Some a"
    and ty: "type_listed (uint IB_NODE_CA) n a (ch_adapters f) (ch_adapters f')"
      "type_listed (uint IB_NODE_SWITCH) n a (switches f) (switches f')"
      "type_listed (uint IB_NODE_ROUTER) n a (routers f) (routers f')"
  shows "nodes_ok f'"
  unfolding nodes_ok_def h' t(2) l(2)
proof (intro conjI allI impI)
  show "\<forall>p \<in> dom ((st_nodes f)(a \<mapsto> n)). p < st_next f'"
    using nodes_okD(1) [OF assms(1)] assms(3,4) by (auto intro: order_less_le_trans)
  show "length ((nodestbl f)[hash_idx (nd_guid n) := Some a]) = HTSZ" using nodes_okD(2) [OF assms(1)] by simp
  show "lists_nodes nd_htnext (\<lambda>m. hash_idx (nd_guid m) = i) ((st_nodes f)(a \<mapsto> n))
      ((nodestbl f)[hash_idx (nd_guid n) := Some a] ! i)" if i: "i < HTSZ" for i
  proof (cases "hash_idx (nd_guid n) = i")
    case True
    then show ?thesis
      using lists_nodes_insert [OF nodes_okD(3) [OF assms(1) i] a, of n] t(1) nodes_okD(2) [OF assms(1)] i by simp
  next
    case False
    then show ?thesis using lists_nodes_skip [OF nodes_okD(3) [OF assms(1) i] a, of n] by simp
  qed
  show "lists_nodes nd_next (\<lambda>_. True) ((st_nodes f)(a \<mapsto> n)) (Some a)"
    using lists_nodes_insert [OF nodes_okD(4) [OF assms(1)] a] l(1) by simp
  have type: "lists_nodes type_next (\<lambda>m. nd_type m = T) ((st_nodes f)(a \<mapsto> n)) x'"
    if "type_listed T n a x x'" "lists_nodes type_next (\<lambda>m. nd_type m = T) (st_nodes f) x" for T x x'
    using that lists_nodes_insert [OF that(2) a, of n] lists_nodes_skip [OF that(2) a, of n]
    by (auto simp: type_listed_def split: if_splits)
  show "lists_nodes type_next (\<lambda>n. nd_type n = uint IB_NODE_CA) ((st_nodes f)(a \<mapsto> n)) (ch_adapters f')"
    by (rule type [OF ty(1) nodes_okD(5) [OF assms(1)]])
  show "lists_nodes type_next (\<lambda>n. nd_type n = uint IB_NODE_SWITCH) ((st_nodes f)(a \<mapsto> n)) (switches f')"
    by (rule type [OF ty(2) nodes_okD(6) [OF assms(1)]])
  show "lists_nodes type_next (\<lambda>n. nd_type n = uint IB_NODE_ROUTER) ((st_nodes f)(a \<mapsto> n)) (routers f')"
    by (rule type [OF ty(3) nodes_okD(7) [OF assms(1)]])
  show "p = q" if "((st_nodes f)(a \<mapsto> n)) p = Some m" "((st_nodes f)(a \<mapsto> n)) q = Some m'" "nd_guid m = nd_guid m'"
    for p q m m'
    using that g [of p m] g [of q m'] nodes_okD(8) [OF assms(1), of p m q m'] by (auto split: if_splits)
qed

lemma decode_u64_field:
  assumes "field_desc n = Some f" and "bitlen f = 64" and "n \<noteq> 0"
  shows "decode_u64 e buf n = mad_get_field64 e buf 0 n"
  using assms
  by (cases "get_field64 e buf 0 f")
    (simp_all add: decode_u64_def mad_decode_field_def mad_get_field64_def mem_store_all native_word64_inverse)

lemma add_to_nodeguid_hash_new:
  assumes "nodes_ok f" and "a \<notin> dom (st_nodes f)" and "st_next f \<le> k"
  shows "add_to_nodeguid_hash a (f\<lparr>st_next := k, st_nodes := (st_nodes f)(a \<mapsto> n)\<rparr>) =
    Some (0, f\<lparr>st_next := k, st_nodes := (st_nodes f)(a \<mapsto> n\<lparr>nd_htnext := nodestbl f ! hash_idx (nd_guid n)\<rparr>),
               nodestbl := (nodestbl f)[hash_idx (nd_guid n) := Some a]\<rparr>)"
proof -
  let ?i = "hash_idx (nd_guid n)" and ?f = "f\<lparr>st_next := k, st_nodes := (st_nodes f)(a \<mapsto> n)\<rparr>"
  have i: "?i < HTSZ" by (simp add: hash_idx_def HTSZ_def)
  obtain ps where ps: "path (node_next nd_htnext f) (nodestbl f ! ?i) ps"
      "set ps = {p. \<exists>m. st_nodes f p = Some m \<and> hash_idx (nd_guid m) = ?i}"
    using nodes_okD(3) [OF assms(1) i] by (auto simp: lists_nodes_def node_next_def [abs_def])
  have a: "a \<notin> set ps" using ps(2) assms(2) by auto
  have "path (node_next nd_htnext ?f) (nodestbl f ! ?i) ps"
    by (rule path_cong [OF ps(1)]) (use a in \<open>auto simp: node_next_def\<close>)
  moreover have "length ps \<le> Suc k"
    using path_bounded [OF ps(1), of "st_next f"] ps(2) nodes_okD(1) [OF assms(1)] assms(3) by fastforce
  ultimately have "find_chain (Suc k) (node_next nd_htnext ?f) (\<lambda>p. Some (p = a)) (nodestbl f ! ?i) =
      Some (find (\<lambda>p. p = a) ps)"
    by (intro find_chain_path) auto
  moreover have "find (\<lambda>p. p = a) ps = None" using a by (auto simp: find_None_iff)
  ultimately show ?thesis
    using i nodes_okD(2) [OF assms(1)] by (simp add: add_to_nodeguid_hash_def mem_rd_def Let_def)
qed

section \<open>Fabrics to start with\<close>

lemma lists_nodes_none:
  assumes "\<And>p n. h p = Some n \<Longrightarrow> \<not> P n"
  shows "lists_nodes sel P h None"
  unfolding lists_nodes_def using assms by (intro exI [of _ "[]"]) auto

lemma initial_fabric_ok: "fabric_ok (allocate_fabric_internal qm alloc)"
proof -
  let ?f = "allocate_fabric_internal qm alloc"
  have e: "st_nodes ?f = Map.empty" "st_ports ?f = Map.empty" "nodestbl ?f = replicate HTSZ None"
      "fb_nodes ?f = None" "ch_adapters ?f = None" "switches ?f = None" "routers ?f = None"
    by (simp_all add: allocate_fabric_internal_def create_lid2guid_def)
  have none: "lists_nodes sel P Map.empty None" for sel P by (rule lists_nodes_none) simp
  have "nodes_ok ?f" unfolding nodes_ok_def e by (simp add: none)
  moreover have "ports_ok ?f" unfolding ports_ok_def e by simp
  moreover have "links_ok (st_ports ?f)" unfolding links_ok_def e by simp
  ultimately show ?thesis by (simp add: fabric_ok_def)
qed

definition example_fabric :: "(u64 \<times> ptr) list fabric" where
  \<comment> \<open>one adapter with its port 1 and the management port 0\<close>
  "example_fabric = (allocate_fabric_internal alist_qmap (\<lambda>_. True))\<lparr>
     st_nodes := [0 \<mapsto> node_zero\<lparr>nd_type := 1, numports := 1, ports := [Some 2, Some 3]\<rparr>],
     st_ports := [2 \<mapsto> port_zero\<lparr>po_node := Some 0\<rparr>, 3 \<mapsto> port_zero\<lparr>po_node := Some 0, portnum := 1\<rparr>],
     nodestbl := (replicate HTSZ None)[0 := Some 0], fb_nodes := Some 0, ch_adapters := Some 0, st_next := 4\<rparr>"

lemma example_fabric_ok: "fabric_ok example_fabric"
proof -
  let ?n = "node_zero\<lparr>nd_type := 1, numports := 1, ports := [Some 2, Some 3]\<rparr>"
  let ?i = "(allocate_fabric_internal alist_qmap (\<lambda>_. True)) :: (u64 \<times> ptr) list fabric"
  have e: "st_nodes ?i = Map.empty" "nodestbl ?i = replicate HTSZ None" "fb_nodes ?i = None" "ch_adapters ?i = None"
      "switches ?i = None" "routers ?i = None" "st_next ?i = 0"
    by (simp_all add: allocate_fabric_internal_def create_lid2guid_def)
  have h: "hash_idx 0 = 0" by (simp add: hash_idx_def HASHGUID_def)
  have "nodes_ok example_fabric"
  proof (rule nodes_ok_add [of ?i 0 _ ?n])
    show "nodes_ok ?i" using initial_fabric_ok [of alist_qmap "\<lambda>_. True"] by (simp add: fabric_ok_def)
  qed (simp_all add: e example_fabric_def node_zero_def h HTSZ_def type_listed_def c_eval)
  moreover have "ports_ok example_fabric"
    unfolding ports_ok_def
  proof (intro conjI allI impI)
    show "\<forall>p \<in> dom (st_ports example_fabric). p < st_next example_fabric" by (auto simp: example_fabric_def)
    show "node_shape n" if "st_nodes example_fabric p = Some n" for p n
      using that by (auto simp: example_fabric_def node_shape_def node_zero_def CHASSIS_TYPE_SIZE_def split: if_splits)
    show "port_shape x" if "st_ports example_fabric p = Some x" for p x
      using that by (auto simp: example_fabric_def port_shape_def port_zero_def split: if_splits)
    show "\<exists>x. st_ports example_fabric a = Some x \<and> po_node x = Some p \<and> portnum x = int i"
      if n: "st_nodes example_fabric p = Some n" "i < length (ports n)" "ports n ! i = Some a" for p n i a
    proof -
      have "n = ?n" "p = 0" using n(1) by (auto simp: example_fabric_def split: if_splits)
      moreover from this have "i = 0 \<or> i = 1" using n(2) by auto
      ultimately show ?thesis using n(3) by (auto simp: example_fabric_def port_zero_def)
    qed
  qed
  moreover have "links_ok (st_ports example_fabric)"
    unfolding links_ok_def by (auto simp: example_fabric_def port_zero_def split: if_splits)
  ultimately show ?thesis by (simp add: fabric_ok_def)
qed

theorem find_node_guid_correct_witness:
  "ibnd_find_node_guid example_fabric 0 = Some (Some 0) \<and> ibnd_find_node_guid example_fabric 137 = Some None"
proof
  have n: "st_nodes example_fabric = [0 \<mapsto> node_zero\<lparr>nd_type := 1, numports := 1, ports := [Some 2, Some 3]\<rparr>]"
    by (simp add: example_fabric_def)
  from find_node_guid_correct [OF example_fabric_ok, of 0] show "ibnd_find_node_guid example_fabric 0 = Some (Some 0)"
    by (auto simp: n node_zero_def)
  from find_node_guid_correct [OF example_fabric_ok, of 137] obtain r where
    r: "ibnd_find_node_guid example_fabric 137 = Some r"
       "\<forall>p. r = Some p \<longleftrightarrow> (\<exists>n. st_nodes example_fabric p = Some n \<and> nd_guid n = 137)" by blast
  have "r = None" using r(2) by (cases r) (auto simp: n node_zero_def split: if_splits)
  then show "ibnd_find_node_guid example_fabric 137 = Some None" using r(1) by simp
qed

theorem link_ports_symmetric_witness:
  "\<exists>f'. link_ports 2 3 example_fabric = Some f' \<and> fabric_ok f' \<and>
     map_option remoteport (st_ports f' 2) = Some (Some 3) \<and> map_option remoteport (st_ports f' 3) = Some (Some 2)"
proof -
  have "2 \<in> dom (st_ports example_fabric)" "3 \<in> dom (st_ports example_fabric)" by (simp_all add: example_fabric_def)
  from link_ports_symmetric [OF example_fabric_ok this] obtain f' where f': "link_ports 2 3 example_fabric = Some f'"
      "fabric_ok f'" "f' = example_fabric\<lparr>st_ports := (\<lambda>a. map_option (relink 2 3 a) (st_ports example_fabric a))\<rparr>" by blast
  have "map_option remoteport (st_ports f' 2) = Some (Some 3) \<and> map_option remoteport (st_ports f' 3) = Some (Some 2)"
    unfolding f'(3) by (simp add: example_fabric_def relink_def)
  with f'(1,2) show ?thesis by blast
qed

end
