(* ===== verification/DiscoverCorrect.thy ===== *)
theory DiscoverCorrect
  imports Discover FabricCorrect
begin

text \<open>
  What discovery guarantees: every callback keeps the fabric well formed and the engine sound, so the
  whole run does, whatever the responses say, as long as it does not access memory outside a
  structure; where a response makes it do so; and how far routes and hop counts can grow.
\<close>

section \<open>Nodes and ports are added\<close>

lemma sint_small:
  assumes "unat (w :: u32) < 2 ^ 31"
  shows "sint w = int (unat w)"
proof -
  have u: "uint w = int (unat w)" by simp
  have "int (unat w) < int (2 ^ 31)" using assms by (rule of_nat_less_iff [THEN iffD2])
  then have "int (unat w) < 2 ^ 31" by (simp only: of_nat_power of_nat_numeral)
  moreover have "- (2 ^ 31) \<le> int (unat w)" by (rule order_trans [OF _ of_nat_0_le_iff]) simp
  ultimately have "signed_take_bit 31 (uint w) = uint w" unfolding u by (intro signed_take_bit_int_eq_self)
  moreover have "sint w = signed_take_bit 31 (uint w)" by (simp add: sint_uint)
  ultimately show ?thesis by (rule trans [OF _ trans [OF _ u], rotated])
qed

lemma node_info_nports:
  assumes "length info = 64" and "decode_int e info IB_NODE_NPORTS_F = Some k"
  shows "0 \<le> k \<and> k < 256"
proof -
  have "field_in (length info) 0 \<lparr>bitoffs = 0, bitlen = 8, name = ''NumPorts'', def_dump_fn = Some Dump_uint\<rparr>"
    using assms(1) by (simp add: field_in_def field_end_def field_start_def)
  from get_field_small [OF fd_IB_NODE_NPORTS_F _ _ this] obtain w where
    w: "mad_get_field info 0 IB_NODE_NPORTS_F = Some w" "unat w < 256" by auto
  moreover have "IB_NODE_NPORTS_F \<noteq> 0" by (simp add: c_eval)
  ultimately have "k = sint w"
    using decode_int_field [OF fd_IB_NODE_NPORTS_F, of e info] assms(2) by simp
  moreover have "int (unat w) < 256" using w(2) by linarith
  ultimately show ?thesis using sint_small [of w] w(2) by simp
qed

lemma node_info_guid: "decode_u64 e info IB_NODE_GUID_F = mad_get_field64 e info 0 IB_NODE_GUID_F"
  by (rule decode_u64_field [OF fd_IB_NODE_GUID_F]) (simp_all add: c_eval)

lemma new_addr_ok:
  assumes "fabric_ok f" and "new_addr f = (r, f')"
  shows "fabric_ok f'" "\<And>a. r = Some a \<Longrightarrow> a = st_next f \<and> a \<notin> dom (st_nodes f) \<and> a \<notin> dom (st_ports f)"
    "f' = f\<lparr>st_next := Suc (st_next f)\<rparr>"
proof -
  show f': "f' = f\<lparr>st_next := Suc (st_next f)\<rparr>" using assms(2) by (simp add: new_addr_def)
  have "nodes_ok f'" by (rule nodes_ok_skel [of f]) (use assms(1) f' in \<open>auto simp: fabric_ok_def\<close>)
  moreover have "ports_ok f'"
    by (rule ports_ok_cong [of f]) (use assms(1) f' ports_okD [of f] in \<open>auto simp: fabric_ok_def\<close>)
  ultimately show "fabric_ok f'" using assms(1) f' by (simp add: fabric_ok_def)
  show "a = st_next f \<and> a \<notin> dom (st_nodes f) \<and> a \<notin> dom (st_ports f)" if "r = Some a" for a
    using that assms nodes_okD(1) [of f] ports_okD(1) [of f]
    by (auto simp: new_addr_def fabric_ok_def split: if_splits)
qed

lemma add_to_type_list_adds:
  assumes "add_to_type_list a f = Some f'" and "st_nodes f a = Some n"
  obtains t where "st_nodes f' = (st_nodes f)(a \<mapsto> n\<lparr>type_next := t\<rparr>)"
    "nodestbl f' = nodestbl f" "fb_nodes f' = fb_nodes f" "st_next f' = st_next f" "st_ports f' = st_ports f"
    "type_listed (uint IB_NODE_CA) (n\<lparr>type_next := t\<rparr>) a (ch_adapters f) (ch_adapters f')"
    "type_listed (uint IB_NODE_SWITCH) (n\<lparr>type_next := t\<rparr>) a (switches f) (switches f')"
    "type_listed (uint IB_NODE_ROUTER) (n\<lparr>type_next := t\<rparr>) a (routers f) (routers f')"
proof -
  have c: "uint IB_NODE_CA = 1" "uint IB_NODE_SWITCH = 2" "uint IB_NODE_ROUTER = 3" by (simp_all add: c_eval)
  define t where "t = (if nd_type n = 1 then ch_adapters f else if nd_type n = 2 then switches f
    else if nd_type n = 3 then routers f else type_next n)"
  have same: "(st_nodes f)(a \<mapsto> n\<lparr>type_next := type_next n\<rparr>) = st_nodes f" using assms(2) by auto
  show ?thesis
    using assms by (intro that [of t])
      (auto simp: add_to_type_list_def Let_def c t_def type_listed_def same split: if_splits)
qed

lemma ports_ok_new_node:
  assumes "ports_ok f" and "node_shape n" "ports n = replicate k None" "st_next f \<le> st_next f'"
    and "st_nodes f' = (st_nodes f)(a \<mapsto> n)" "st_ports f' = st_ports f"
  shows "ports_ok f'"
  unfolding ports_ok_def assms(5,6)
proof (intro conjI allI impI)
  show "\<forall>p \<in> dom (st_ports f). p < st_next f'" using ports_okD(1) [OF assms(1)] assms(4) by (meson order_less_le_trans)
  show "node_shape m" if "((st_nodes f)(a \<mapsto> n)) p = Some m" for p m
    using that assms(2) ports_okD(2) [OF assms(1), of p m] by (auto split: if_splits)
  show "port_shape x" if "st_ports f p = Some x" for p x by (rule ports_okD(4) [OF assms(1) that])
  show "\<exists>x. st_ports f b = Some x \<and> po_node x = Some p \<and> portnum x = int i"
    if "((st_nodes f)(a \<mapsto> n)) p = Some m" "i < length (ports m)" "ports m ! i = Some b" for p m i b
    using that assms(3) ports_okD(3) [OF assms(1), of p m i b] by (auto split: if_splits)
qed

lemma create_node_ok:
  assumes ok: "fabric_ok f" and len: "length node_info = 64" and run: "create_node e via node_info f = Some (r, f')"
    and guid: "mad_get_field64 e node_info 0 IB_NODE_GUID_F = Some guid"
    and fresh: "\<And>p n. st_nodes f p = Some n \<Longrightarrow> nd_guid n \<noteq> guid"
  shows "fabric_ok f'"
proof -
  obtain r1 f1 where n1: "new_addr f = (r1, f1)" by fastforce
  note ok1 = new_addr_ok [OF ok n1]
  show ?thesis
  proof (cases r1)
    case None
    then show ?thesis using run n1 ok1(1) by (simp add: create_node_def)
  next
    case (Some a)
    obtain r2 f2 where n2: "new_addr f1 = (r2, f2)" by fastforce
    note ok2 = new_addr_ok [OF ok1(1) n2]
    obtain ty np where dec: "decode_int e node_info IB_NODE_TYPE_F = Some ty" "decode_int e node_info IB_NODE_NPORTS_F = Some np"
      using run n1 Some by (auto simp: create_node_def split: Option.bind_splits)
    show ?thesis
    proof (cases r2)
      case None
      then show ?thesis using run n1 n2 Some dec ok2(1) guid by (simp add: create_node_def node_info_guid)
    next
      case r2: (Some b)
      let ?n0 = "node_zero\<lparr>nd_guid := guid, nd_type := ty, numports := np,
          ports := replicate (nat (np + 1)) None, path_portid := via, nd_info := node_info\<rparr>"
      let ?k = "Suc (Suc (st_next f))" and ?i = "hash_idx guid"
      have f2: "f2 = f\<lparr>st_next := ?k\<rparr>" using ok1(3) ok2(3) by simp
      have a: "a \<notin> dom (st_nodes f)" "a = st_next f" using ok1(2) [OF Some] by blast+
      have nok: "nodes_ok f" using ok by (simp add: fabric_ok_def)
      let ?n1 = "?n0\<lparr>nd_htnext := nodestbl f ! ?i\<rparr>"
      let ?n2 = "?n1\<lparr>nd_next := fb_nodes f\<rparr>"
      have hash: "add_to_nodeguid_hash a (f\<lparr>st_next := ?k, st_nodes := (st_nodes f)(a \<mapsto> ?n0)\<rparr>) =
          Some (0, f\<lparr>st_next := ?k, st_nodes := (st_nodes f)(a \<mapsto> ?n1), nodestbl := (nodestbl f)[?i := Some a]\<rparr>)"
        using add_to_nodeguid_hash_new [OF nok a(1), of ?k ?n0] by simp
      have run': "add_to_type_list a (f\<lparr>st_next := ?k, nodestbl := (nodestbl f)[?i := Some a],
          st_nodes := (st_nodes f)(a \<mapsto> ?n2), fb_nodes := Some a\<rparr>) = Some f'"
        using run n1 n2 Some r2 dec guid hash
        by (auto simp: create_node_def node_info_guid f2 upd_node_def split: Option.bind_splits)
      obtain t where t: "st_nodes f' = (st_nodes f)(a \<mapsto> ?n2\<lparr>type_next := t\<rparr>)"
          "nodestbl f' = (nodestbl f)[?i := Some a]" "fb_nodes f' = Some a" "st_next f' = ?k" "st_ports f' = st_ports f"
          "type_listed (uint IB_NODE_CA) (?n2\<lparr>type_next := t\<rparr>) a (ch_adapters f) (ch_adapters f')"
          "type_listed (uint IB_NODE_SWITCH) (?n2\<lparr>type_next := t\<rparr>) a (switches f) (switches f')"
          "type_listed (uint IB_NODE_ROUTER) (?n2\<lparr>type_next := t\<rparr>) a (routers f) (routers f')"
        by (rule add_to_type_list_adds [OF run']) (simp, rule that, simp_all)
      have "nodes_ok f'"
        by (rule nodes_ok_add [OF nok a(1) _ _ t(1) _ _ _ _ t(3)]) (use t fresh a(2) in simp_all)
      moreover have "ports_ok f'"
      proof (rule ports_ok_new_node [of f])
        have "0 \<le> np" using node_info_nports [OF len dec(2)] by simp
        then show "node_shape (?n2\<lparr>type_next := t\<rparr>)"
          using len by (simp add: node_shape_def node_zero_def CHASSIS_TYPE_SIZE_def)
        show "ports (?n2\<lparr>type_next := t\<rparr>) = replicate (nat (np + 1)) None" by simp
      qed (use ok t in \<open>simp_all add: fabric_ok_def\<close>)
      ultimately show ?thesis using ok t(5) by (simp add: fabric_ok_def)
    qed
  qed
qed

lemma find_or_add_node_ok:
  assumes ok: "fabric_ok f" and len: "length node_info = 64"
    and guid: "mad_get_field64 e node_info 0 IB_NODE_GUID_F = Some guid"
    and run: "find_or_add_node e via node_info guid f = Some (r, f')"
  shows "fabric_ok f'"
proof -
  have nok: "nodes_ok f" using ok by (simp add: fabric_ok_def)
  from find_node_guid [OF nok, of guid] obtain x where x: "ibnd_find_node_guid f guid = Some x"
      "case x of None \<Rightarrow> \<forall>p n. st_nodes f p = Some n \<longrightarrow> nd_guid n \<noteq> guid
       | Some p \<Rightarrow> \<exists>n. st_nodes f p = Some n \<and> nd_guid n = guid" by blast
  show ?thesis
  proof (cases x)
    case (Some p)
    then show ?thesis using run x(1) ok by (simp add: find_or_add_node_def)
  next
    case None
    then obtain r1 where "create_node e via node_info f = Some (r1, f')"
      using run x(1) by (auto simp: find_or_add_node_def split: Option.bind_splits)
    from create_node_ok [OF ok len this guid] x(2) None show ?thesis by simp
  qed
qed

text \<open>A fabric whose tables, lists and stores are the same is as well formed.\<close>

lemma fabric_ok_frame:
  assumes "fabric_ok f" and "st_nodes f' = st_nodes f" "st_ports f' = st_ports f" "nodestbl f' = nodestbl f"
    and "fb_nodes f' = fb_nodes f" "switches f' = switches f" "ch_adapters f' = ch_adapters f"
    and "routers f' = routers f" "st_next f \<le> st_next f'"
  shows "fabric_ok f'"
proof -
  have "nodes_ok f'" by (rule nodes_ok_skel [of f]) (use assms in \<open>simp_all add: fabric_ok_def\<close>)
  moreover have "ports_ok f'"
    by (rule ports_ok_cong [of f]) (use assms ports_okD [of f] in \<open>auto simp: fabric_ok_def\<close>)
  ultimately show ?thesis using assms by (simp add: fabric_ok_def)
qed

lemma attach_port_ok:
  assumes ok: "fabric_ok f" and new: "new_addr f = (Some a, f1)" and n: "st_nodes f p = Some n" "i < length (ports n)"
    and x: "po_node x = Some p" "portnum x = int i" "remoteport x = None" "port_shape x"
  shows "fabric_ok (f1\<lparr>st_ports := (st_ports f)(a \<mapsto> x), st_nodes := (st_nodes f)(p \<mapsto> n\<lparr>ports := (ports n)[i := Some a]\<rparr>)\<rparr>)"
proof -
  let ?n = "n\<lparr>ports := (ports n)[i := Some a]\<rparr>"
  let ?f = "f1\<lparr>st_ports := (st_ports f)(a \<mapsto> x), st_nodes := (st_nodes f)(p \<mapsto> ?n)\<rparr>"
  have a: "a = st_next f" "a \<notin> dom (st_ports f)" and f1: "f1 = f\<lparr>st_next := Suc (st_next f)\<rparr>"
    using new_addr_ok(2,3) [OF ok new] by auto
  have nok: "nodes_ok f" and pok: "ports_ok f" and lok: "links_ok (st_ports f)" using ok by (simp_all add: fabric_ok_def)
  have "nodes_ok ?f" by (rule nodes_ok_skel [OF nok]) (use n f1 in \<open>auto simp: skel_def\<close>)
  moreover have "ports_ok ?f"
    unfolding ports_ok_def
  proof (intro conjI allI impI)
    show "\<forall>q \<in> dom (st_ports ?f). q < st_next ?f"
      using ports_okD(1) [OF pok] a f1 by (auto intro: less_SucI)
    show "node_shape m" if "st_nodes ?f q = Some m" for q m
    proof (cases "q = p")
      case True
      then have "m = ?n" using that by simp
      then show ?thesis using ports_okD(2) [OF pok n(1)] by (simp add: node_shape_def)
    qed (use that ports_okD(2) [OF pok, of q m] in simp)
    show "port_shape z" if "st_ports ?f q = Some z" for q z
      using that x(4) ports_okD(4) [OF pok, of q z] by (auto split: if_splits)
    show "\<exists>z. st_ports ?f b = Some z \<and> po_node z = Some q \<and> portnum z = int j"
      if m: "st_nodes ?f q = Some m" "j < length (ports m)" "ports m ! j = Some b" for q m j b
    proof (cases "q = p \<and> j = i")
      case True
      then show ?thesis using m n(2) x by auto
    next
      case False
      obtain m' where m': "st_nodes f q = Some m'" "j < length (ports m')" "ports m' ! j = Some b"
        using m False n by (cases "q = p") auto
      from ports_okD(3) [OF pok m'] obtain z where z: "st_ports f b = Some z" "po_node z = Some q" "portnum z = int j"
        by blast
      then have "b \<noteq> a" using a(2) by blast
      then show ?thesis using z by simp
    qed
  qed
  moreover have "links_ok ((st_ports f)(a \<mapsto> x))"
    unfolding links_ok_def
  proof (intro allI impI)
    fix q z b
    assume z: "((st_ports f)(a \<mapsto> x)) q = Some z" "remoteport z = Some b"
    then have "q \<noteq> a" using x(3) by auto
    then obtain y where y: "st_ports f b = Some y" "remoteport y = Some q" using links_okD [OF lok, of q z b] z by auto
    then have "b \<noteq> a" using a(2) by blast
    then show "\<exists>y. ((st_ports f)(a \<mapsto> x)) b = Some y \<and> remoteport y = Some q" using y by simp
  qed
  ultimately show ?thesis by (simp add: fabric_ok_def)
qed

lemma port_zero_shape [simp]: "port_shape port_zero"
  by (simp add: port_shape_def port_zero_def)

lemma node_port_bound: "node_port n i = Some x \<Longrightarrow> i < length (ports n) \<and> x = ports n ! i"
  by (auto simp: node_port_def mem_rd_def split: if_splits)

lemma shell_port_ok:
  assumes ok: "fabric_ok f" and run: "shell_port node i f = Some (r, f')"
  shows "fabric_ok f'" "\<And>a. r = Some a \<Longrightarrow> a \<in> dom (st_ports f')" "dom (st_nodes f') = dom (st_nodes f)"
proof -
  have pok: "ports_ok f" using ok by (simp add: fabric_ok_def)
  obtain n p where n: "st_nodes f node = Some n" "node_port n i = Some p"
    using run by (auto simp: shell_port_def split: Option.bind_splits)
  note b = node_port_bound [OF n(2)]
  have "fabric_ok f' \<and> (\<forall>a. r = Some a \<longrightarrow> a \<in> dom (st_ports f')) \<and> dom (st_nodes f') = dom (st_nodes f)"
  proof (cases p)
    case (Some a)
    then have "\<exists>x. st_ports f a = Some x" using ports_okD(3) [OF pok n(1), of i a] b by auto
    then show ?thesis using run n Some ok by (auto simp: shell_port_def)
  next
    case None
    obtain r1 f1 where new: "new_addr f = (r1, f1)" by fastforce
    show ?thesis
    proof (cases r1)
      case None': None
      then show ?thesis using run n None new new_addr_ok [OF ok new] by (auto simp: shell_port_def)
    next
      case (Some a)
      have "fabric_ok (f1\<lparr>st_ports := (st_ports f)(a \<mapsto> port_zero\<lparr>po_node := Some node, portnum := int i\<rparr>),
          st_nodes := (st_nodes f)(node \<mapsto> n\<lparr>ports := (ports n)[i := Some a]\<rparr>)\<rparr>)"
        by (rule attach_port_ok [OF ok new [unfolded Some] n(1)]) (use b in \<open>simp_all add: port_zero_def port_shape_def\<close>)
      then show ?thesis
        using run n None new Some new_addr_ok(3) [OF ok new] by (auto simp: shell_port_def split: if_splits)
    qed
  qed
  then show "fabric_ok f'" "\<And>a. r = Some a \<Longrightarrow> a \<in> dom (st_ports f')" "dom (st_nodes f') = dom (st_nodes f)" by auto
qed

lemma upd_node_dom: "upd_node a g f = Some f' \<Longrightarrow> dom (st_nodes f') = dom (st_nodes f) \<and> st_ports f' = st_ports f"
  by (auto simp: upd_node_def split: option.splits if_splits)

lemma upd_port_dom: "upd_port a g f = Some f' \<Longrightarrow> dom (st_ports f') = dom (st_ports f) \<and> st_nodes f' = st_nodes f"
  by (auto simp: upd_port_def split: option.splits if_splits)

lemma store_port_info_again:
  assumes "st_ports f a = Some x"
  shows "store_port_info node a i info f =
    store_port_info node a i info (f\<lparr>st_ports := (st_ports f)(a \<mapsto> x\<lparr>po_node := Some node, portnum := int i\<rparr>)\<rparr>)"
  using assms by (simp add: store_port_info_def upd_port_def)

lemma store_port_info_ok:
  assumes ok: "fabric_ok f" and x: "st_ports f a = Some x" "po_node x = Some node" "portnum x = int i"
    and len: "length info = 64" and run: "store_port_info node a i info f = Some f'"
  shows "fabric_ok f'" "dom (st_ports f') = dom (st_ports f)" "dom (st_nodes f') = dom (st_nodes f)"
proof -
  obtain lid l f1 n where f1: "upd_port a (\<lambda>p. p\<lparr>po_info := info, po_node := Some node, portnum := int i, ext_portnum := 0,
          base_lid := ucast (lid :: u32), lmc := ucast (l :: u32)\<rparr>) f = Some f1"
      and "st_nodes f1 node = Some n" and rest: "(if i = 0 then upd_node node (\<lambda>n. n\<lparr>smalid := ucast lid, smalmc := ucast l\<rparr>) f1
        else if nd_type n = uint IB_NODE_SWITCH then upd_port a (\<lambda>p. p\<lparr>base_lid := smalid n, lmc := smalmc n\<rparr>) f1
        else Some f1) = Some f'"
    using run unfolding store_port_info_def by (auto simp only: Option.bind_eq_Some_conv)
  have sh: "port_shape z" if "st_ports f b = Some z" for b z
    using ok that ports_okD(4) by (auto simp: fabric_ok_def)
  have ok1: "fabric_ok f1"
    by (rule upd_port_ok [OF ok f1]) (use x sh len in \<open>auto simp: port_shape_def\<close>)
  have d1: "dom (st_ports f1) = dom (st_ports f)" "dom (st_nodes f1) = dom (st_nodes f)"
    using upd_port_dom [OF f1] by simp_all
  have sn: "node_shape n" if "st_nodes f1 b = Some n" for b n
    using ok1 that ports_okD(2) by (auto simp: fabric_ok_def)
  have sh1: "port_shape z" if "st_ports f1 b = Some z" for b z
    using ok1 that ports_okD(4) by (auto simp: fabric_ok_def)
  from rest consider lid l where "upd_node node (\<lambda>n. n\<lparr>smalid := lid, smalmc := l\<rparr>) f1 = Some f'"
    | lid l where "upd_port a (\<lambda>p. p\<lparr>base_lid := lid, lmc := l\<rparr>) f1 = Some f'" | "f' = f1"
    by (metis option.inject)
  then have "fabric_ok f' \<and> dom (st_ports f') = dom (st_ports f) \<and> dom (st_nodes f') = dom (st_nodes f)"
  proof cases
    case 1
    have "fabric_ok f'" by (rule upd_node_ok [OF ok1 1]) (use sn in \<open>auto simp: skel_def node_shape_def\<close>)
    then show ?thesis using upd_node_dom [OF 1] d1 by simp
  next
    case 2
    have "fabric_ok f'" by (rule upd_port_ok [OF ok1 2]) (use sh1 in \<open>auto simp: port_shape_def\<close>)
    then show ?thesis using upd_port_dom [OF 2] d1 by simp
  qed (use ok1 d1 in simp)
  then show "fabric_ok f'" "dom (st_ports f') = dom (st_ports f)" "dom (st_nodes f') = dom (st_nodes f)" by auto
qed

lemma port_stored_ok:
  assumes ok: "fabric_ok f" and len: "length info = 64"
    and run: "find_or_add_port e node i f = Some (Some a, f1)" "store_port_info node a i info f1 = Some f'"
  shows "fabric_ok f'" "a \<in> dom (st_ports f')" "dom (st_nodes f') = dom (st_nodes f)"
proof -
  have pok: "ports_ok f" using ok by (simp add: fabric_ok_def)
  obtain n p where n: "st_nodes f node = Some n" "node_port n i = Some p"
    using run(1) by (auto simp: find_or_add_port_def split: Option.bind_splits)
  note b = node_port_bound [OF n(2)]
  have "\<exists>g x. fabric_ok g \<and> st_ports g a = Some x \<and> po_node x = Some node \<and> portnum x = int i \<and>
      store_port_info node a i info g = Some f' \<and> dom (st_nodes g) = dom (st_nodes f)"
  proof (cases p)
    case (Some a')
    then have "a' = a" "f1 = f" using run(1) n by (auto simp: find_or_add_port_def)
    moreover obtain x where "st_ports f a' = Some x" "po_node x = Some node" "portnum x = int i"
      using ports_okD(3) [OF pok n(1), of i a'] b Some by auto
    ultimately show ?thesis using ok run(2) by blast
  next
    case None
    obtain r2 f2 where new: "new_addr f = (r2, f2)" by fastforce
    then obtain guid where a: "r2 = Some a" and f1: "f1 = f2\<lparr>st_ports := (st_ports f)(a \<mapsto> port_zero\<lparr>po_guid := guid\<rparr>),
            st_nodes := (st_nodes f)(node \<mapsto> n\<lparr>ports := (ports n)[i := Some a]\<rparr>)\<rparr>"
      using run(1) n None new_addr_ok(3) [OF ok new]
      by (auto simp: find_or_add_port_def split: option.splits Option.bind_splits)
    let ?x = "port_zero\<lparr>po_guid := guid, po_node := Some node, portnum := int i\<rparr>"
    let ?g = "f2\<lparr>st_nodes := (st_nodes f)(node \<mapsto> n\<lparr>ports := (ports n)[i := Some a]\<rparr>), st_ports := (st_ports f)(a \<mapsto> ?x)\<rparr>"
    have "fabric_ok (f2\<lparr>st_ports := (st_ports f)(a \<mapsto> ?x), st_nodes := (st_nodes f)(node \<mapsto> n\<lparr>ports := (ports n)[i := Some a]\<rparr>)\<rparr>)"
      by (rule attach_port_ok [OF ok new [unfolded a] n(1)]) (use b in \<open>simp_all add: port_zero_def port_shape_def\<close>)
    then have "fabric_ok ?g" by (rule fabric_ok_frame) simp_all
    moreover have "store_port_info node a i info ?g = Some f'"
      using run(2) store_port_info_again [of f1 a "port_zero\<lparr>po_guid := guid\<rparr>" node i info] f1 by simp
    ultimately show ?thesis using n(1) by (intro exI [of _ ?g] exI [of _ ?x]) auto
  qed
  then obtain g x where g: "fabric_ok g" "st_ports g a = Some x" "po_node x = Some node" "portnum x = int i"
      "store_port_info node a i info g = Some f'" "dom (st_nodes g) = dom (st_nodes f)" by blast
  note s = store_port_info_ok [OF g(1-4) len g(5)]
  show "fabric_ok f'" "dom (st_nodes f') = dom (st_nodes f)" using s g(6) by simp_all
  show "a \<in> dom (st_ports f')" using s(2) g(2) by auto
qed

lemma find_or_add_port_none:
  assumes "fabric_ok f" and "find_or_add_port e node i f = Some (None, f')"
  shows "fabric_ok f'" "dom (st_nodes f') = dom (st_nodes f)"
proof -
  obtain r g where new: "new_addr f = (r, g)" by fastforce
  have "f' = g" using assms(2) new by (auto simp: find_or_add_port_def split: option.splits Option.bind_splits)
  then show "fabric_ok f'" "dom (st_nodes f') = dom (st_nodes f)" using new_addr_ok [OF assms(1) new] by simp_all
qed

lemma connect_ok:
  assumes ok: "fabric_ok f" and p: "port \<in> dom (st_ports f)" and run: "connect node port i rem f = Some (rc, f')"
  shows "fabric_ok f'" "dom (st_nodes f') = dom (st_nodes f)"
proof -
  have "fabric_ok f' \<and> dom (st_nodes f') = dom (st_nodes f)"
  proof (cases rem)
    case None
    then have "f' = f\<lparr>from_node := Some node, from_portnum := int i\<rparr>" using run by (simp add: connect_def)
    moreover from this have "fabric_ok f'" by (intro fabric_ok_frame [OF ok]) simp_all
    ultimately show ?thesis by simp
  next
    case (Some r)
    obtain q j where r: "rem = Some (q, j)" using Some by (cases r) simp
    then obtain m b where m: "st_nodes f q = Some m" "node_port m j = Some b"
      using run by (auto simp: connect_def split: Option.bind_splits)
    show ?thesis
    proof (cases b)
      case None
      then show ?thesis using run r m ok by (simp add: connect_def)
    next
      case (Some b')
      have "b' \<in> dom (st_ports f)"
        using ok m node_port_bound [OF m(2)] Some ports_okD(3) [of f q m j b'] by (auto simp: fabric_ok_def)
      from link_ports_ok [OF ok p this] show ?thesis using run r m Some by (auto simp: connect_def)
    qed
  qed
  then show "fabric_ok f'" "dom (st_nodes f') = dom (st_nodes f)" by auto
qed

lemma add_to_portguid_hash_ok:
  assumes ok: "fabric_ok f" and run: "add_to_portguid_hash port f = Some (r, f')"
  shows "fabric_ok f'" "dom (st_nodes f') = dom (st_nodes f)" "dom (st_ports f') = dom (st_ports f)"
proof -
  obtain p x where p: "st_ports f port = Some p" and
      f': "f' = f \<or> f' = f\<lparr>st_ports := (st_ports f)(port \<mapsto> p\<lparr>po_htnext := x\<rparr>),
          portstbl := (portstbl f)[hash_idx (po_guid p) := Some port]\<rparr>"
    using run by (auto simp: add_to_portguid_hash_def Let_def split: Option.bind_splits if_splits)
  have "fabric_ok (f\<lparr>st_ports := (st_ports f)(port \<mapsto> p\<lparr>po_htnext := x\<rparr>)\<rparr>)" (is "fabric_ok ?g")
    by (rule upd_port_ok [OF ok, of port "\<lambda>p. p\<lparr>po_htnext := x\<rparr>"])
      (use p ok ports_okD(4) in \<open>auto simp: upd_port_def fabric_ok_def port_shape_def\<close>)
  then have "fabric_ok (?g\<lparr>portstbl := (portstbl f)[hash_idx (po_guid p) := Some port]\<rparr>)"
    by (rule fabric_ok_frame) simp_all
  then show "fabric_ok f'" using f' ok by auto
  show "dom (st_nodes f') = dom (st_nodes f)" "dom (st_ports f') = dom (st_ports f)"
    using f' p by (auto split: if_splits)
qed

lemma lid_loop_ok:
  assumes "fabric_ok f" and "lid_loop n qm port lid hi f = Some f'"
  shows "fabric_ok f' \<and> st_nodes f' = st_nodes f \<and> st_ports f' = st_ports f"
  using assms
proof (induction n arbitrary: lid f)
  case (Suc n)
  let ?g = "add_lid qm port lid f"
  have g: "st_nodes ?g = st_nodes f" "st_ports ?g = st_ports f" "nodestbl ?g = nodestbl f" "fb_nodes ?g = fb_nodes f"
      "switches ?g = switches f" "ch_adapters ?g = ch_adapters f" "routers ?g = routers f" "st_next f \<le> st_next ?g"
    by (auto simp: add_lid_def new_addr_def split: option.splits)
  from fabric_ok_frame [OF Suc.prems(1) g] Suc.IH [of ?g] Suc.prems g show ?case by (auto split: if_splits)
qed simp

lemma add_to_portlid_hash_ok:
  assumes "fabric_ok f" and "add_to_portlid_hash qm port f = Some f'"
  shows "fabric_ok f' \<and> st_nodes f' = st_nodes f \<and> st_ports f' = st_ports f"
  using assms lid_loop_ok [OF assms(1)]
  by (auto simp: add_to_portlid_hash_def Let_def split: Option.bind_splits if_splits)

section \<open>Callbacks keep the invariant\<close>

fun completion_nodes :: "completion \<Rightarrow> ptr set" where
  \<comment> \<open>the nodes a callback is given\<close>
  "completion_nodes (RecvNodeInfo None) = {}"
| "completion_nodes (RecvNodeInfo (Some (node, _))) = {node}"
| "completion_nodes (RecvNodeDesc node) = {node}"
| "completion_nodes (RecvSwitchInfo node) = {node}"
| "completion_nodes (RecvPortInfo node) = {node}"
| "completion_nodes (RecvPort0Info node) = {node}"
| "completion_nodes (RecvMlnxExtPortInfo node) = {node}"

definition discovery_inv :: "'m discovery \<Rightarrow> bool" where
  \<comment> \<open>the fabric is well formed, and no callback that is to come has a dangling node\<close>
  "discovery_inv w \<longleftrightarrow> fabric_ok (d_fab w) \<and> (\<forall>k \<in> live_cbs w. completion_nodes k \<subseteq> dom (st_nodes (d_fab w)))"

definition disc_ok :: "('m \<Rightarrow> u64 \<rightharpoonup> ptr) \<Rightarrow> ptr set \<Rightarrow> 'm discovery \<Rightarrow> bool" where
  "disc_ok sem cur w \<longleftrightarrow> (\<exists>q. engine_ok sem w q cur \<and> busy sem w q) \<and> discovery_inv w"

definition disc_to :: "('m \<Rightarrow> u64 \<rightharpoonup> ptr) \<Rightarrow> ptr set \<Rightarrow> 'm discovery \<Rightarrow> 'm discovery \<Rightarrow> bool" where
  \<comment> \<open>what a step of discovery may do to a state that is in order\<close>
  "disc_to sem cur w w' \<longleftrightarrow> disc_ok sem cur w' \<and> ms_rx (w_ms w') = ms_rx (w_ms w) \<and> eng_cfg w' = eng_cfg w \<and>
     dom (st_nodes (d_fab w)) \<subseteq> dom (st_nodes (d_fab w'))"

lemma disc_to_refl: "disc_ok sem cur w \<Longrightarrow> disc_to sem cur w w"
  by (simp add: disc_to_def)

lemma disc_to_trans: "disc_to sem cur a b \<Longrightarrow> disc_to sem cur b c \<Longrightarrow> disc_to sem cur a c"
  by (auto simp: disc_to_def)

lemma disc_to_ok: "disc_to sem cur w w' \<Longrightarrow> disc_ok sem cur w'"
  by (simp add: disc_to_def)

lemma disc_okD: "disc_ok sem cur w \<Longrightarrow> fabric_ok (d_fab w)"
  by (simp add: disc_ok_def discovery_inv_def)

lemma d_fab_more: "smp_world.more w' = smp_world.more w \<Longrightarrow> d_fab (w' :: 'm discovery) = d_fab w"
  by (cases w; cases w') simp

lemma user_inv_discovery: "user_inv discovery_inv"
  unfolding user_inv_def fewer_cbs_def
proof (intro allI impI)
  fix w w' :: "'m discovery"
  assume a: "discovery_inv w \<and> live_cbs w' \<subseteq> live_cbs w \<and> smp_world.more w' = smp_world.more w"
  then have "d_fab w' = d_fab w" by (intro d_fab_more) simp
  then show "discovery_inv w'" using a by (auto simp: discovery_inv_def)
qed

lemma with_fab:
  assumes "disc_ok sem cur w" and "fabric_ok f" "dom (st_nodes (d_fab w)) \<subseteq> dom (st_nodes f)"
  shows "disc_to sem cur w (w\<lparr>d_fab := f\<rparr>)"
proof -
  obtain q where q: "engine_ok sem w q cur" "busy sem w q" using assms(1) by (auto simp: disc_ok_def)
  have "engine_ok sem (w\<lparr>d_fab := f\<rparr>) q cur" by (rule engine_ok_upd [OF q(1)]) (use q in \<open>auto simp: engine_ok_def\<close>)
  moreover have "busy sem (w\<lparr>d_fab := f\<rparr>) q" using q(2) by (simp add: busy_def room_def)
  ultimately show ?thesis
    using assms by (fastforce simp: disc_to_def disc_ok_def discovery_inv_def live_cbs_def)
qed

lemma on_fab_step:
  assumes "disc_ok sem cur w" and "on_fab g w = Some w'"
    and "\<And>f'. g (d_fab w) = Some f' \<Longrightarrow> fabric_ok f' \<and> dom (st_nodes f') = dom (st_nodes (d_fab w))"
  shows "disc_to sem cur w w'"
proof -
  obtain f' where f': "g (d_fab w) = Some f'" "w' = w\<lparr>d_fab := f'\<rparr>" using assms(2) by (auto simp: on_fab_def)
  then show ?thesis using with_fab [OF assms(1), of f'] assms(3) by simp
qed

lemma issue_smp_step:
  assumes laws: "qmap_laws qm sem" and ok: "disc_ok sem cur w" and k: "completion_nodes k \<subseteq> dom (st_nodes (d_fab w))"
    and run: "issue_smp qm e portid attrid amod k w = Some (rc, via, w')"
  shows "disc_to sem cur w w'" "d_fab w' = d_fab w"
proof -
  obtain q where q: "engine_ok sem w q cur" "busy sem w q" using ok by (auto simp: disc_ok_def)
  from issue_smp_keeps [OF laws q(1) run] obtain q' where
    q': "engine_ok sem w' q' cur" "same_setup w w'" "busy sem w' q'" using q(2) by blast
  note c = issue_smp_cbs [OF run]
  show f: "d_fab w' = d_fab w" using c by (intro d_fab_more) simp
  have "discovery_inv w" using ok by (simp add: disc_ok_def)
  then have "discovery_inv w'" using c k unfolding discovery_inv_def f by blast
  then show "disc_to sem cur w w'" using q' f by (auto simp: disc_to_def disc_ok_def same_setup_def)
qed

lemma issue_from_step:
  assumes laws: "qmap_laws qm sem" and ok: "disc_ok sem cur w" and "smp \<in> cur"
    and k: "completion_nodes k \<subseteq> dom (st_nodes (d_fab w))" and run: "issue_from qm e smp attrid amod k w = Some (rc, w')"
  shows "disc_to sem cur w w'"
proof -
  obtain s via w1 s1 where "w_smps w smp = Some s" and w1: "issue_smp qm e (sm_path s) attrid amod k w = Some (rc, via, w1)" "w_smps w1 smp = Some s1"
      "w' = w1\<lparr>w_smps := (w_smps w1)(smp \<mapsto> s1\<lparr>sm_path := via\<rparr>)\<rparr>"
    using run by (auto simp: issue_from_def split: Option.bind_splits)
  note st = issue_smp_step [OF laws ok k w1(1)]
  obtain q where q: "engine_ok sem w1 q cur" "busy sem w1 q" using st(1) by (auto simp: disc_to_def disc_ok_def)
  have "engine_ok sem w' q cur"
    by (rule engine_ok_upd [OF q(1)]) (use q assms(3) w1(2,3) in \<open>auto simp: engine_ok_def\<close>)
  moreover have "busy sem w' q" using q(2) w1(3) by (simp add: busy_def room_def)
  moreover have "fewer_cbs w1 w'"
    by (rule fewer_cbsI) (use w1(2,3) in \<open>fastforce split: if_splits\<close>)+
  from user_invD [OF user_inv_discovery _ this] have "discovery_inv w'" using st(1) by (simp add: disc_to_def disc_ok_def)
  ultimately show ?thesis using st(1) w1(3) by (auto simp: disc_to_def disc_ok_def)
qed

text \<open>Routes change no node and no port.\<close>

lemma deeper_step: "disc_ok sem cur w \<Longrightarrow> disc_to sem cur w (deeper w)"
  unfolding deeper_def by (rule with_fab) (auto intro: fabric_ok_frame [OF disc_okD])

lemma retract_dpath_step:
  assumes "disc_ok sem cur w" and "retract_dpath portid w = Some (rc, portid', w')"
  shows "disc_to sem cur w w'"
  using assms disc_to_refl [OF assms(1)] deeper_step [OF assms(1)]
  by (auto simp: retract_dpath_def Let_def split: if_splits Option.bind_splits)

lemma extend_dpath_step:
  assumes "disc_ok sem cur w" and "extend_dpath portid i w = Some (rc, portid', w')"
  shows "disc_to sem cur w w'"
proof -
  have "w' = w \<or> w' = deeper w"
    using assms(2) unfolding extend_dpath_def Let_def by (auto split: if_splits Option.bind_splits prod.splits)
  then show ?thesis using disc_to_refl [OF assms(1)] deeper_step [OF assms(1)] by blast
qed

lemma new_addr_step:
  assumes "disc_ok sem cur w" and "new_addr (d_fab w) = (a, f)"
  shows "disc_to sem cur w (w\<lparr>d_fab := f\<rparr>)"
  by (rule with_fab [OF assms(1)]) (use assms(2) in \<open>auto simp: new_addr_def intro: fabric_ok_frame [OF disc_okD [OF assms(1)]]\<close>)

lemma query_peer_step:
  assumes laws: "qmap_laws qm sem" and ok: "disc_ok sem cur w" and n: "node \<in> dom (st_nodes (d_fab w))"
    and run: "query_peer qm e smp node i w = Some w'"
  shows "disc_to sem cur w w'"
proof -
  obtain s n where sn: "w_smps w smp = Some s" "st_nodes (d_fab w) node = Some n"
    using run by (auto simp: query_peer_def split: Option.bind_splits)
  then obtain rc via w1 where w1: "(if nd_type n \<noteq> uint IB_NODE_SWITCH \<and> from_node (d_fab w) = Some node \<and>
          cnt (pt_drpath (sm_path s)) > 1
        then retract_dpath (sm_path s) w
        else if pt_lid (sm_path s) = 0 \<or> nd_type n = uint IB_NODE_SWITCH
        then extend_dpath (sm_path s) i w
        else Some (0, sm_path s, w)) = Some (rc, via, w1)"
      "(if rc > 0 then (case new_addr (d_fab w1) of (None, _) \<Rightarrow> None
         | (Some _, f) \<Rightarrow> map_option snd (query_node_info qm e via (Some (node, i)) (w1\<lparr>d_fab := f\<rparr>)))
        else Some w1) = Some w'"
    using run unfolding query_peer_def Let_def by (auto simp only: Option.bind_eq_Some_conv option.inject split_paired_Ex prod.case)
  have s1: "disc_to sem cur w w1"
    using w1(1) retract_dpath_step [OF ok] extend_dpath_step [OF ok] disc_to_refl [OF ok]
    by (auto split: if_splits)
  show ?thesis
  proof (cases "rc > 0")
    case True
    obtain a f where a: "new_addr (d_fab w1) = (Some a, f)"
      using w1(2) True by (cases "new_addr (d_fab w1)"; cases "fst (new_addr (d_fab w1))") auto
    let ?w = "w1\<lparr>d_fab := f\<rparr>"
    note s2 = disc_to_trans [OF s1 new_addr_step [OF disc_to_ok [OF s1] a]]
    obtain rc2 via2 where "issue_smp qm e via IB_ATTR_NODE_INFO 0 (RecvNodeInfo (Some (node, i))) ?w = Some (rc2, via2, w')"
      using w1(2) True a by (auto simp: query_node_info_def)
    moreover have "node \<in> dom (st_nodes (d_fab ?w))" using s2 n unfolding disc_to_def by blast
    ultimately have "disc_to sem cur ?w w'" by (intro issue_smp_step(1) [OF laws disc_to_ok [OF s2]]) simp_all
    then show ?thesis by (rule disc_to_trans [OF s2])
  next
    case False
    then show ?thesis using w1(2) s1 by simp
  qed
qed

lemma query_step:
  assumes "qmap_laws qm sem" and "disc_ok sem cur w" "smp \<in> cur" and "node \<in> dom (st_nodes (d_fab w))"
  shows "query_node_desc qm e smp node w = Some (rc, w') \<Longrightarrow> disc_to sem cur w w'"
    and "query_switch_info qm e smp node w = Some (rc, w') \<Longrightarrow> disc_to sem cur w w'"
    and "query_port_info qm e smp node i w = Some (rc, w') \<Longrightarrow> disc_to sem cur w w'"
    and "query_mlnx_ext_port_info qm e smp node i w = Some (rc, w') \<Longrightarrow> disc_to sem cur w w'"
proof -
  note st = issue_from_step [OF assms(1)]
  show "disc_to sem cur w w'" if "query_node_desc qm e smp node w = Some (rc, w')"
    by (rule st [OF assms(2,3) _ that [unfolded query_node_desc_def]]) (use assms(4) in simp)
  show "disc_to sem cur w w'" if "query_port_info qm e smp node i w = Some (rc, w')"
    by (rule st [OF assms(2,3) _ that [unfolded query_port_info_def]]) (use assms(4) in simp)
  show "disc_to sem cur w w'" if "query_mlnx_ext_port_info qm e smp node i w = Some (rc, w')"
    by (rule st [OF assms(2,3) _ that [unfolded query_mlnx_ext_port_info_def]]) (use assms(4) in simp)
  assume "query_switch_info qm e smp node w = Some (rc, w')"
  then obtain w1 where w1: "on_fab (upd_node node (\<lambda>n. n\<lparr>smaenhsp0 := 0\<rparr>)) w = Some w1"
      "issue_from qm e smp IB_ATTR_SWITCH_INFO 0 (RecvSwitchInfo node) w1 = Some (rc, w')"
    by (auto simp: query_switch_info_def split: Option.bind_splits)
  have s1: "disc_to sem cur w w1"
  proof (rule on_fab_step [OF assms(2) w1(1)])
    fix f'
    assume u: "upd_node node (\<lambda>n. n\<lparr>smaenhsp0 := 0\<rparr>) (d_fab w) = Some f'"
    have "fabric_ok f'"
      by (rule upd_node_ok [OF disc_okD [OF assms(2)] u])
        (use disc_okD [OF assms(2)] ports_okD(2) in \<open>auto simp: skel_def node_shape_def fabric_ok_def\<close>)
    then show "fabric_ok f' \<and> dom (st_nodes f') = dom (st_nodes (d_fab w))" using upd_node_dom [OF u] by simp
  qed
  have "node \<in> dom (st_nodes (d_fab w1))" using s1 assms(4) unfolding disc_to_def by blast
  then have "disc_to sem cur w1 w'" by (intro st [OF disc_to_ok [OF s1] assms(3) _ w1(2)]) simp
  then show "disc_to sem cur w w'" by (rule disc_to_trans [OF s1])
qed

text \<open>The responses, one by one.\<close>

lemma store_in_node_step:
  assumes "disc_ok sem cur w" and "on_fab (upd_node node g) w = Some w'"
    and "\<And>n. skel (g n) = skel n \<and> ports (g n) = ports n \<and> (node_shape n \<longrightarrow> node_shape (g n))"
  shows "disc_to sem cur w w'"
proof (rule on_fab_step [OF assms(1,2)])
  fix f'
  assume u: "upd_node node g (d_fab w) = Some f'"
  have "fabric_ok f'"
  proof (rule upd_node_ok [OF disc_okD [OF assms(1)] u])
    fix n
    assume "st_nodes (d_fab w) node = Some n"
    then have "node_shape n" using disc_okD [OF assms(1)] ports_okD(2) [of "d_fab w" node n] by (simp add: fabric_ok_def)
    then show "skel (g n) = skel n \<and> ports (g n) = ports n \<and> node_shape (g n)" using assms(3) [of n] by blast
  qed
  then show "fabric_ok f' \<and> dom (st_nodes f') = dom (st_nodes (d_fab w))" using upd_node_dom [OF u] by simp
qed

lemma store_in_port_step:
  assumes "disc_ok sem cur w" and "on_fab (upd_port port g) w = Some w'"
    and "\<And>x. po_node (g x) = po_node x \<and> portnum (g x) = portnum x \<and> remoteport (g x) = remoteport x \<and>
      (port_shape x \<longrightarrow> port_shape (g x))"
  shows "disc_to sem cur w w'"
proof (rule on_fab_step [OF assms(1,2)])
  fix f'
  assume u: "upd_port port g (d_fab w) = Some f'"
  have "fabric_ok f'"
  proof (rule upd_port_ok [OF disc_okD [OF assms(1)] u])
    fix x
    assume "st_ports (d_fab w) port = Some x"
    then have "port_shape x" using disc_okD [OF assms(1)] ports_okD(4) [of "d_fab w" port x] by (simp add: fabric_ok_def)
    then show "po_node (g x) = po_node x \<and> portnum (g x) = portnum x \<and> remoteport (g x) = remoteport x \<and> port_shape (g x)"
      using assms(3) [of x] by blast
  qed
  then show "fabric_ok f' \<and> dom (st_nodes f') = dom (st_nodes (d_fab w))" using upd_port_dom [OF u] by simp
qed

lemma recv_switch_info_step:
  assumes "disc_ok sem cur w" and "recv_switch_info e node mad w = Some (rc, w')"
  shows "disc_to sem cur w w'"
proof -
  obtain info enh where i: "mem_load mad IB_SMP_DATA_OFFS 64 = Some info"
      "on_fab (upd_node node (\<lambda>n. n\<lparr>switchinfo := info, smaenhsp0 := enh\<rparr>)) w = Some w'"
    using assms(2) by (auto simp: recv_switch_info_def split: Option.bind_splits)
  show ?thesis
    by (rule store_in_node_step [OF assms(1) i(2)])
      (use length_mem_load [OF i(1)] in \<open>simp add: skel_def node_shape_def\<close>)
qed

lemma recv_node_desc_step:
  assumes "disc_ok sem cur w" and "recv_node_desc node mad w = Some (rc, w')"
  shows "disc_to sem cur w w'"
proof -
  obtain d where d: "mem_load mad IB_SMP_DATA_OFFS 64 = Some d" "on_fab (upd_node node (\<lambda>n. n\<lparr>nodedesc := d\<rparr>)) w = Some w'"
    using assms(2) by (auto simp: recv_node_desc_def split: Option.bind_splits)
  show ?thesis
    by (rule store_in_node_step [OF assms(1) d(2)])
      (use length_mem_load [OF d(1)] in \<open>simp add: skel_def node_shape_def\<close>)
qed

lemma peer_step:
  assumes "qmap_laws qm sem" and "disc_ok sem cur w" and "node \<in> dom (st_nodes (d_fab w))"
    and "(if wanted then query_peer qm e smp node i w else Some w) = Some w'"
  shows "disc_to sem cur w w'"
  using assms(4) query_peer_step [OF assms(1-3)] disc_to_refl [OF assms(2)] by (auto split: if_splits)

lemma ext_port_known_step:
  assumes "qmap_laws qm sem" and "disc_ok sem cur w" and "node \<in> dom (st_nodes (d_fab w))"
    and "ext_port_known qm e smp node port i w = Some (rc, w')"
  shows "disc_to sem cur w w'"
proof -
  obtain wanted where "(if wanted then query_peer qm e smp node i w else Some w) = Some w'"
    using assms(4) by (auto simp: ext_port_known_def split: Option.bind_splits)
  then show ?thesis by (rule peer_step [OF assms(1-3)])
qed

lemma mlnx_ext_port_info_err_step:
  assumes "qmap_laws qm sem" and "disc_ok sem cur w" and "node \<in> dom (st_nodes (d_fab w))"
    and "mlnx_ext_port_info_err qm e smp node mad w = Some (rc, w')"
  shows "disc_to sem cur w w'"
proof -
  have "w' = w \<or> (\<exists>port i. ext_port_known qm e smp node port i w = Some (rc, w'))"
    using assms(4) by (auto simp: mlnx_ext_port_info_err_def split: Option.bind_splits option.splits)
  then show ?thesis using ext_port_known_step [OF assms(1-3)] disc_to_refl [OF assms(2)] by blast
qed

lemma recv_mlnx_ext_port_info_step:
  assumes laws: "qmap_laws qm sem" and ok: "disc_ok sem cur w" and n: "node \<in> dom (st_nodes (d_fab w))"
    and run: "recv_mlnx_ext_port_info qm e smp node mad w = Some (rc, w')"
  shows "disc_to sem cur w w'"
proof -
  consider "w' = w" | port info i w1 where "mem_load mad IB_SMP_DATA_OFFS 64 = Some info"
      "on_fab (upd_port port (\<lambda>p. p\<lparr>ext_info := info\<rparr>)) w = Some w1"
      "ext_port_known qm e smp node port i w1 = Some (rc, w')"
    using run by (auto simp: recv_mlnx_ext_port_info_def split: Option.bind_splits option.splits)
  then show ?thesis
  proof cases
    case 2
    have s1: "disc_to sem cur w w1"
      by (rule store_in_port_step [OF ok 2(2)]) (use length_mem_load [OF 2(1)] in \<open>simp add: port_shape_def\<close>)
    have "node \<in> dom (st_nodes (d_fab w1))" using s1 n unfolding disc_to_def by blast
    from ext_port_known_step [OF laws disc_to_ok [OF s1] this 2(3)] show ?thesis by (rule disc_to_trans [OF s1])
  qed (use disc_to_refl [OF ok] in simp)
qed

lemma nodes_stay: "disc_to sem cur w w' \<Longrightarrow> node \<in> dom (st_nodes (d_fab w)) \<Longrightarrow> node \<in> dom (st_nodes (d_fab w'))"
  unfolding disc_to_def by blast

text \<open>The part of \<open>recv_port_info\<close> that works on the fabric, and what follows.\<close>

definition port_info_fab :: "'m qmap_ops \<Rightarrow> ptr \<Rightarrow> ptr \<Rightarrow> nat \<Rightarrow> mem \<Rightarrow> 'm fabric \<Rightarrow> 'm fabric option" where
  "port_info_fab qm node port port_num info f = do {
     f \<leftarrow> store_port_info node port port_num info f;
     (_, f) \<leftarrow> add_to_portguid_hash port f;
     add_to_portlid_hash qm port f
   }"

lemma port_info_fab_ok:
  assumes "fabric_ok f" and "length info = 64" and "find_or_add_port e node i f = Some (Some a, f1)"
    and "port_info_fab qm node a i info f1 = Some f'"
  shows "fabric_ok f'" "dom (st_nodes f') = dom (st_nodes f)"
proof -
  obtain f2 r f3 where f: "store_port_info node a i info f1 = Some f2" "add_to_portguid_hash a f2 = Some (r, f3)"
      "add_to_portlid_hash qm a f3 = Some f'"
    using assms(4) by (auto simp: port_info_fab_def split: Option.bind_splits)
  note 2 = port_stored_ok [OF assms(1-3) f(1)]
  note 3 = add_to_portguid_hash_ok [OF 2(1) f(2)]
  note 4 = add_to_portlid_hash_ok [OF 3(1) f(3)]
  show "fabric_ok f'" "dom (st_nodes f') = dom (st_nodes f)" using 2 3 4 by simp_all
qed

lemma recv_port_info_cases:
  assumes "recv_port_info qm e smp node mad w = Some (rc, w')"
  obtains i info f where "mem_load mad IB_SMP_DATA_OFFS 64 = Some info"
      "find_or_add_port e node i (d_fab w) = Some (None, f)" "w' = w\<lparr>d_fab := f\<rparr>"
    | i info port f1 f where "mem_load mad IB_SMP_DATA_OFFS 64 = Some info"
      "find_or_add_port e node i (d_fab w) = Some (Some port, f1)" "port_info_fab qm node port i info f1 = Some f"
      "(\<exists>r. query_mlnx_ext_port_info qm e smp node i (w\<lparr>d_fab := f\<rparr>) = Some (r, w')) \<or>
       query_peer qm e smp node i (w\<lparr>d_fab := f\<rparr>) = Some w' \<or> w' = w\<lparr>d_fab := f\<rparr>"
proof -
  obtain i info lp port f1 where a: "mem_load mad IB_SMP_DATA_OFFS 64 = Some info"
      "find_or_add_port e node i (d_fab w) = Some (port, f1)"
      and run: "(case port of None \<Rightarrow> Some (-1, w\<lparr>d_fab := f1\<rparr>)
     | Some port \<Rightarrow> do {
         w \<leftarrow> on_fab (store_port_info node port i info) (w\<lparr>d_fab := f1\<rparr>);
         w \<leftarrow> on_fab (\<lambda>f. map_option snd (add_to_portguid_hash port f)) w;
         w \<leftarrow> on_fab (add_to_portlid_hash qm port) w;
         ext \<leftarrow> wants_mlnx_ext_info w port;
         if ext then do { (_, w) \<leftarrow> query_mlnx_ext_port_info qm e smp node i w; Some (0, w) }
         else do {
           _ \<leftarrow> debug_port (d_fab w) port;
           wanted \<leftarrow> peer_wanted (d_fab w) node port i (unat (ucast (lp :: u32) :: u8));
           w \<leftarrow> (if wanted then query_peer qm e smp node i w else Some w);
           Some (0, w)
         }
       }) = Some (rc, w')"
    using assms unfolding recv_port_info_def Let_def
    by (auto simp only: Option.bind_eq_Some_conv split_paired_Ex prod.case)
  show ?thesis
  proof (cases port)
    case None
    then show ?thesis using that(1) [OF a(1)] a(2) run by auto
  next
    case (Some p)
    obtain w3 where w3: "(do {
         w \<leftarrow> on_fab (store_port_info node p i info) (w\<lparr>d_fab := f1\<rparr>);
         w \<leftarrow> on_fab (\<lambda>f. map_option snd (add_to_portguid_hash p f)) w;
         on_fab (add_to_portlid_hash qm p) w }) = Some w3"
      and rest: "(\<exists>r. query_mlnx_ext_port_info qm e smp node i w3 = Some (r, w')) \<or>
       query_peer qm e smp node i w3 = Some w' \<or> w' = w3"
      using run Some by (auto split: Option.bind_splits if_splits)
    have "port_info_fab qm node p i info f1 = Some (d_fab w3)" "w3 = w\<lparr>d_fab := d_fab w3\<rparr>"
      using w3 by (auto simp: port_info_fab_def on_fab_def split: Option.bind_splits)
    then show ?thesis using that(2) [OF a(1)] a(2) Some rest by metis
  qed
qed

lemma recv_port_info_step:
  assumes laws: "qmap_laws qm sem" and ok: "disc_ok sem cur w" and smp: "smp \<in> cur" and n: "node \<in> dom (st_nodes (d_fab w))"
    and run: "recv_port_info qm e smp node mad w = Some (rc, w')"
  shows "disc_to sem cur w w'"
  using run
proof (cases rule: recv_port_info_cases)
  case (1 i info f)
  show ?thesis
    unfolding 1(3) by (rule with_fab [OF ok]) (use find_or_add_port_none [OF disc_okD [OF ok] 1(2)] in simp_all)
next
  case (2 i info port f1 f)
  note f = port_info_fab_ok [OF disc_okD [OF ok] length_mem_load [OF 2(1)] 2(2,3)]
  have s1: "disc_to sem cur w (w\<lparr>d_fab := f\<rparr>)" by (rule with_fab [OF ok]) (use f in simp_all)
  note n1 = nodes_stay [OF s1 n]
  have "disc_to sem cur (w\<lparr>d_fab := f\<rparr>) w'"
    using 2(4) query_step(4) [OF laws disc_to_ok [OF s1] smp n1] query_peer_step [OF laws disc_to_ok [OF s1] n1]
      disc_to_refl [OF disc_to_ok [OF s1]] by blast
  then show ?thesis by (rule disc_to_trans [OF s1])
qed

lemma query_ports_step:
  assumes "qmap_laws qm sem" and "disc_ok sem cur w" "smp \<in> cur" and "node \<in> dom (st_nodes (d_fab w))"
    and "query_ports qm e smp node js w = Some w'"
  shows "disc_to sem cur w w'"
  using assms(2-)
proof (induction js arbitrary: w)
  case Nil
  then show ?case by (simp add: disc_to_refl)
next
  case (Cons i js)
  obtain r w1 where w1: "query_port_info qm e smp node i w = Some (r, w1)" "query_ports qm e smp node js w1 = Some w'"
    using Cons.prems(4) by (auto split: Option.bind_splits)
  note s1 = query_step(3) [OF assms(1) Cons.prems(1-3) w1(1)]
  show ?case
    by (rule disc_to_trans [OF s1 Cons.IH [OF disc_to_ok [OF s1] Cons.prems(2) nodes_stay [OF s1 Cons.prems(3)] w1(2)]])
qed

lemma recv_port0_info_step:
  assumes laws: "qmap_laws qm sem" and ok: "disc_ok sem cur w" and smp: "smp \<in> cur" and n: "node \<in> dom (st_nodes (d_fab w))"
    and run: "recv_port0_info qm e smp node mad w = Some (rc, w')"
  shows "disc_to sem cur w w'"
proof -
  obtain w1 js where w1: "recv_port_info qm e smp node mad w = Some (rc, w1)" "query_ports qm e smp node js w1 = Some w'"
    using run by (auto simp: recv_port0_info_def split: Option.bind_splits)
  note s1 = recv_port_info_step [OF laws ok smp n w1(1)]
  show ?thesis
    by (rule disc_to_trans [OF s1 query_ports_step [OF laws disc_to_ok [OF s1] smp nodes_stay [OF s1 n] w1(2)]])
qed

lemma query_found_step:
  assumes laws: "qmap_laws qm sem" and ok: "disc_ok sem cur w" and smp: "smp \<in> cur" and n: "node \<in> dom (st_nodes (d_fab w))"
    and run: "query_found qm e smp node i new w = Some w'"
  shows "disc_to sem cur w w'"
proof -
  obtain w1 where w1: "(if new then do {
              (_, w) \<leftarrow> query_node_desc qm e smp node w;
              n \<leftarrow> st_nodes (d_fab w) node;
              if nd_type n = uint IB_NODE_SWITCH then do {
                (_, w) \<leftarrow> query_switch_info qm e smp node w;
                (_, w) \<leftarrow> query_port_info qm e smp node 0 w;
                Some w
              } else Some w
            } else Some w) = Some w1"
      and rest: "(\<exists>r. query_port_info qm e smp node i w1 = Some (r, w')) \<or> w' = w1"
    using run unfolding query_found_def by (auto split: Option.bind_splits if_splits)
  have s1: "disc_to sem cur w w1"
  proof (cases new)
    case True
    then obtain r wa where wa: "query_node_desc qm e smp node w = Some (r, wa)"
        "w1 = wa \<or> (\<exists>r wb r'. query_switch_info qm e smp node wa = Some (r, wb) \<and> query_port_info qm e smp node 0 wb = Some (r', w1))"
      using w1 by (auto split: Option.bind_splits if_splits)
    note sa = query_step(1) [OF laws ok smp n wa(1)]
    note qa = query_step [OF laws disc_to_ok [OF sa] smp nodes_stay [OF sa n]]
    from wa(2) show ?thesis
    proof
      assume "\<exists>r wb r'. query_switch_info qm e smp node wa = Some (r, wb) \<and> query_port_info qm e smp node 0 wb = Some (r', w1)"
      then obtain r wb r' where wb: "query_switch_info qm e smp node wa = Some (r, wb)"
          "query_port_info qm e smp node 0 wb = Some (r', w1)" by blast
      note sb = disc_to_trans [OF sa qa(2) [OF wb(1)]]
      show ?thesis
        by (rule disc_to_trans [OF sb query_step(3) [OF laws disc_to_ok [OF sb] smp nodes_stay [OF sb n] wb(2)]])
    qed (use sa in simp)
  qed (use w1 disc_to_refl [OF ok] in simp)
  from rest show ?thesis
  proof
    assume "\<exists>r. query_port_info qm e smp node i w1 = Some (r, w')"
    then obtain r where "query_port_info qm e smp node i w1 = Some (r, w')" by blast
    from query_step(3) [OF laws disc_to_ok [OF s1] smp nodes_stay [OF s1 n] this] show ?thesis
      by (rule disc_to_trans [OF s1])
  qed (use s1 in simp)
qed

lemma create_node_nodes:
  assumes "create_node e via node_info f = Some (r, f')"
  shows "dom (st_nodes f) \<subseteq> dom (st_nodes f')" "\<And>a. r = Some a \<Longrightarrow> a \<in> dom (st_nodes f')"
proof -
  have hash: "dom (st_nodes h) = dom (st_nodes g)" if "add_to_nodeguid_hash a g = Some (x, h)" for a x g and h :: "'a fabric"
    using that by (auto simp: add_to_nodeguid_hash_def Let_def split: Option.bind_splits if_splits)
  have type: "dom (st_nodes h) = dom (st_nodes g)" if "add_to_type_list a g = Some h" for a g and h :: "'a fabric"
    using that by (auto simp: add_to_type_list_def Let_def split: Option.bind_splits if_splits)
  obtain r1 f1 where n1: "new_addr f = (r1, f1)" by fastforce
  obtain r2 f2 where n2: "new_addr f1 = (r2, f2)" by fastforce
  have same: "st_nodes f1 = st_nodes f" "st_nodes f2 = st_nodes f"
    using n1 n2 by (auto simp: new_addr_def)
  have "(r = None \<and> st_nodes f' = st_nodes f) \<or> (\<exists>a. r = Some a \<and> dom (st_nodes f') = insert a (dom (st_nodes f)))"
  proof (cases "r1 = None \<or> r2 = None")
    case True
    then show ?thesis using assms n1 n2 same
      by (cases r1) (auto simp: create_node_def split: Option.bind_splits)
  next
    case False
    then obtain a b where ab: "r1 = Some a" "r2 = Some b" by auto
    obtain n x g h where g: "add_to_nodeguid_hash a (f2\<lparr>st_nodes := (st_nodes f2)(a \<mapsto> n)\<rparr>) = Some (x, g)"
        "upd_node a (\<lambda>n. n\<lparr>nd_next := fb_nodes g\<rparr>) g = Some h" "add_to_type_list a (h\<lparr>fb_nodes := Some a\<rparr>) = Some f'" "r = Some a"
      using assms unfolding create_node_def n1 n2 ab prod.case option.case Let_def
      by (auto simp only: Option.bind_eq_Some_conv split_paired_Ex n2 ab prod.case option.case option.inject prod.inject)
    have "dom (st_nodes f') = insert a (dom (st_nodes f))"
      using hash [OF g(1)] upd_node_dom [OF g(2)] type [OF g(3)] same by simp
    then show ?thesis using g(4) by blast
  qed
  then show "dom (st_nodes f) \<subseteq> dom (st_nodes f')" "\<And>a. r = Some a \<Longrightarrow> a \<in> dom (st_nodes f')" by auto
qed

lemma find_or_add_node_nodes:
  assumes "nodes_ok f" and "find_or_add_node e via node_info guid f = Some (r, f')"
  shows "dom (st_nodes f) \<subseteq> dom (st_nodes f')" "\<And>a b. r = Some (a, b) \<Longrightarrow> a \<in> dom (st_nodes f')"
proof -
  from find_node_guid [OF assms(1), of guid] obtain x where x: "ibnd_find_node_guid f guid = Some x"
      "\<And>p. x = Some p \<Longrightarrow> p \<in> dom (st_nodes f)" by fastforce
  have "dom (st_nodes f) \<subseteq> dom (st_nodes f') \<and> (\<forall>a b. r = Some (a, b) \<longrightarrow> a \<in> dom (st_nodes f'))"
  proof (cases x)
    case (Some p)
    then show ?thesis using assms(2) x by (auto simp: find_or_add_node_def)
  next
    case None
    then obtain r1 where r1: "create_node e via node_info f = Some (r1, f')" "r = map_option (\<lambda>a. (a, True)) r1"
      using assms(2) x(1) by (auto simp: find_or_add_node_def split: Option.bind_splits)
    show ?thesis using create_node_nodes [OF r1(1)] r1(2) by (cases r1) auto
  qed
  then show "dom (st_nodes f) \<subseteq> dom (st_nodes f')" "\<And>a b. r = Some (a, b) \<Longrightarrow> a \<in> dom (st_nodes f')" by blast+
qed

lemma recv_node_info_step:
  assumes laws: "qmap_laws qm sem" and ok: "disc_ok sem cur w" and smp: "smp \<in> cur"
    and run: "recv_node_info qm e smp cbdata mad w = Some (rc, w')"
  shows "disc_to sem cur w w'"
proof -
  obtain info guid pguid i s r f where a: "mem_load mad IB_SMP_DATA_OFFS 64 = Some info"
      "mad_get_field64 e info 0 IB_NODE_GUID_F = Some guid"
      "find_or_add_node e (sm_path (s :: completion ibnd_smp_t)) info guid (d_fab w) = Some (r, f)"
    and r: "(case r of None \<Rightarrow> Some (-1, w\<lparr>d_fab := f\<rparr>)
     | Some (node, node_is_new) \<Rightarrow> do {
         (port, f) \<leftarrow> shell_port node i f;
         case port of None \<Rightarrow> Some (-1, w\<lparr>d_fab := f\<rparr>)
         | Some port \<Rightarrow> do {
             f \<leftarrow> upd_port port (\<lambda>p. p\<lparr>po_guid := pguid\<rparr>) f;
             (rc, f) \<leftarrow> connect node port i cbdata f;
             let w = w\<lparr>d_fab := f\<rparr>;
             if rc < 0 then Some (-1, w)
             else do { w \<leftarrow> query_found qm e smp node i node_is_new w; Some (0, w) }
           }
       }) = Some (rc, w')"
    using run unfolding recv_node_info_def Let_def
    by (auto simp only: Option.bind_eq_Some_conv split_paired_Ex prod.case)
  note fok = disc_okD [OF ok]
  have f: "fabric_ok f" "dom (st_nodes (d_fab w)) \<subseteq> dom (st_nodes f)" "\<And>a b. r = Some (a, b) \<Longrightarrow> a \<in> dom (st_nodes f)"
    using find_or_add_node_ok [OF fok length_mem_load [OF a(1)] a(2,3)]
      find_or_add_node_nodes [OF _ a(3)] fok by (auto simp: fabric_ok_def)
  have skip: "disc_to sem cur w (w\<lparr>d_fab := g\<rparr>)" if "fabric_ok g" "dom (st_nodes g) = dom (st_nodes f)" for g
    by (rule with_fab [OF ok that(1)]) (use that(2) f(2) in simp)
  show ?thesis
  proof (cases r)
    case None
    then show ?thesis using r skip [OF f(1)] by simp
  next
    case (Some nb)
    obtain node new where nb: "r = Some (node, new)" using Some by (cases nb) simp
    obtain port g where g: "shell_port node i f = Some (port, g)" using r nb by (auto split: Option.bind_splits)
    note sg = shell_port_ok [OF f(1) g]
    show ?thesis
    proof (cases port)
      case None
      then show ?thesis using r nb g skip [OF sg(1,3)] by simp
    next
      case (Some p)
      obtain h rc2 k where h: "upd_port p (\<lambda>p. p\<lparr>po_guid := pguid\<rparr>) g = Some h" "connect node p i cbdata h = Some (rc2, k)"
          "w' = w\<lparr>d_fab := k\<rparr> \<or> query_found qm e smp node i new (w\<lparr>d_fab := k\<rparr>) = Some w'"
        using r nb g Some by (auto simp: Let_def split: Option.bind_splits if_splits)
      have "fabric_ok h"
        by (rule upd_port_ok [OF sg(1) h(1)])
          (use sg(1) ports_okD(4) in \<open>auto simp: fabric_ok_def port_shape_def\<close>)
      moreover have "p \<in> dom (st_ports h)" using sg(2) [OF Some] upd_port_dom [OF h(1)] by simp
      ultimately have "fabric_ok k" "dom (st_nodes k) = dom (st_nodes h)" using connect_ok h(2) by blast+
      then have s1: "disc_to sem cur w (w\<lparr>d_fab := k\<rparr>)" using skip sg(3) upd_port_dom [OF h(1)] by simp
      have n1: "node \<in> dom (st_nodes (d_fab (w\<lparr>d_fab := k\<rparr>)))"
        using f(3) [OF nb] sg(3) upd_port_dom [OF h(1)] \<open>dom (st_nodes k) = dom (st_nodes h)\<close> by simp
      from h(3) show ?thesis
      proof
        assume "query_found qm e smp node i new (w\<lparr>d_fab := k\<rparr>) = Some w'"
        from query_found_step [OF laws disc_to_ok [OF s1] smp n1 this] show ?thesis by (rule disc_to_trans [OF s1])
      qed (use s1 in simp)
    qed
  qed
qed

lemma run_completion_step:
  assumes laws: "qmap_laws qm sem" and ok: "disc_ok sem cur w" and smp: "smp \<in> cur"
    and k: "completion_nodes k \<subseteq> dom (st_nodes (d_fab w))" and run: "run_completion qm e k smp mad w = Some (rc, w')"
  shows "disc_to sem cur w w'"
proof (cases k)
  case (RecvNodeInfo cbdata)
  then show ?thesis using run recv_node_info_step [OF laws ok smp] by (simp add: run_completion_def)
next
  case (RecvNodeDesc node)
  then show ?thesis using run recv_node_desc_step [OF ok] by (simp add: run_completion_def)
next
  case (RecvSwitchInfo node)
  then show ?thesis using run recv_switch_info_step [OF ok] by (simp add: run_completion_def)
next
  case (RecvPortInfo node)
  then have "node \<in> dom (st_nodes (d_fab w))" using k by simp
  from recv_port_info_step [OF laws ok smp this] show ?thesis using run RecvPortInfo by (simp add: run_completion_def)
next
  case (RecvPort0Info node)
  then have "node \<in> dom (st_nodes (d_fab w))" using k by simp
  from recv_port0_info_step [OF laws ok smp this] show ?thesis using run RecvPort0Info by (simp add: run_completion_def)
next
  case (RecvMlnxExtPortInfo node)
  then have "node \<in> dom (st_nodes (d_fab w))" using k by simp
  from recv_mlnx_ext_port_info_step [OF laws ok this] show ?thesis using run RecvMlnxExtPortInfo by (simp add: run_completion_def)
qed

lemma run_epi_err_step:
  assumes laws: "qmap_laws qm sem" and ok: "disc_ok sem cur w"
    and k: "completion_nodes k \<subseteq> dom (st_nodes (d_fab w))" and run: "run_epi_err qm e k smp mad w = Some (rc, w')"
  shows "disc_to sem cur w w'"
proof -
  obtain node where n: "k = RecvMlnxExtPortInfo node" using run by (cases k) (simp_all add: run_epi_err_def)
  then have "node \<in> dom (st_nodes (d_fab w))" using k by simp
  from mlnx_ext_port_info_err_step [OF laws ok this] show ?thesis using run n by (simp add: run_epi_err_def)
qed

lemma discovery_callback:
  assumes "\<And>s smp mad w cur rc w'. disc_ok sem cur w \<Longrightarrow> smp \<in> cur \<Longrightarrow> w_smps w smp = Some s \<Longrightarrow>
      completion_nodes (sm_cb s) \<subseteq> dom (st_nodes (d_fab w)) \<Longrightarrow> cb (sm_cb s) smp mad w = Some (rc, w') \<Longrightarrow> disc_to sem cur w w'"
  shows "callback_ok sem discovery_inv cb"
  unfolding callback_ok_def
proof (intro allI impI)
  fix s smp mad w q cur rc w'
  assume a: "engine_ok sem w q cur \<and> busy sem w q \<and> smp \<in> cur \<and> w_smps w smp = Some s \<and> discovery_inv w \<and>
     cb (sm_cb s) smp mad w = Some (rc, w')"
  have "sm_cb s \<in> live_cbs w" using a by (auto simp: live_cbs_def ran_def)
  then have "completion_nodes (sm_cb s) \<subseteq> dom (st_nodes (d_fab w))" using a by (simp add: discovery_inv_def)
  moreover have "disc_ok sem cur w" using a by (auto simp: disc_ok_def)
  ultimately have "disc_to sem cur w w'" using assms a by blast
  then show "(\<exists>q'. engine_ok sem w' q' cur \<and> busy sem w' q') \<and> ms_rx (w_ms w') = ms_rx (w_ms w) \<and>
     eng_cfg w' = eng_cfg w \<and> discovery_inv w'" by (simp add: disc_to_def disc_ok_def)
qed

lemma callbacks_ok:
  assumes "qmap_laws qm sem"
  shows "callback_ok sem discovery_inv (run_completion qm e)" "callback_ok sem discovery_inv (run_epi_err qm e)"
  by (rule discovery_callback, rule run_completion_step [OF assms], assumption+)
    (rule discovery_callback, rule run_epi_err_step [OF assms], assumption+)

text \<open>
  C2: however the responses to the queries of a discovery read, arrive and repeat,
  the run of the engine over its callbacks keeps the fabric well formed: every node is in the lists
  and hash chains exactly once and is unique by its GUID, the ports of a node are live and name it
  and their number, links are symmetric, and no callback that is still to run has a node that is not
  live. When the run returns 0 no query is left.
\<close>

theorem discovery_sound:
  fixes w :: "'m discovery"
  assumes laws: "qmap_laws qm sem" and "engine_ok sem w q {}" "busy sem w q" and "discovery_inv w"
    and "process_mads qm e (run_completion qm e) (run_epi_err qm e) w = Some (rc, w')"
  shows "fabric_ok (d_fab w') \<and> (\<forall>k \<in> live_cbs w'. completion_nodes k \<subseteq> dom (st_nodes (d_fab w'))) \<and>
    (rc = 0 \<and> cf_max_smps (eng_cfg w) \<noteq> 0 \<longrightarrow> sem (smps_on_wire w') = Map.empty \<and> smp_queue_head w' = None)"
proof -
  from mads_loop_keeps [OF laws user_inv_discovery callbacks_ok [OF laws] assms(2-4) assms(5) [unfolded process_mads_def]]
  obtain q' where q': "engine_ok sem w' q' {}" "eng_cfg w' = eng_cfg w" "discovery_inv w'"
      "rc = 0 \<longrightarrow> sem (smps_on_wire w') = Map.empty \<and> busy sem w' q'" by blast
  have "smp_queue_head w' = None" if "rc = 0" "cf_max_smps (eng_cfg w) \<noteq> 0"
  proof -
    have "q' = []" using q' that by (auto simp: busy_def room_def unat_eq_0)
    then show ?thesis using q'(1) by (simp add: engine_ok_def is_queue_def)
  qed
  then show ?thesis using q'(3,4) by (simp add: discovery_inv_def)
qed

section \<open>How far a route grows\<close>

text \<open>
  C17: extending a route of at most 63 hops never writes outside the array of
  hops: the route stays at 63 hops at most, with -1 and an unchanged path when it is full, and with 0
  when the hop limit is reached. When it is extended, the hop is appended and the others are kept,
  and the limit, if there is one, was not exceeded before the step.
\<close>

theorem extend_dpath_bounded:
  fixes w :: "'m discovery"
  assumes "length (hops (pt_drpath p)) = 64" and "0 \<le> cnt (pt_drpath p)" "cnt (pt_drpath p) \<le> 63"
  shows "\<exists>rc p' w'. extend_dpath p port w = Some (rc, p', w') \<and> length (hops (pt_drpath p')) = 64 \<and>
    cnt (pt_drpath p') \<le> 63 \<and>
    (rc = 1 \<longrightarrow> cnt (pt_drpath p') = cnt (pt_drpath p) + 1 \<and>
       hops (pt_drpath p') = (hops (pt_drpath p))[nat (cnt (pt_drpath p')) := word_of_nat port] \<and>
       (w' = w \<or> w' = deeper w) \<and>
       (cf_max_hops (eng_cfg w) \<noteq> 0 \<longrightarrow> maxhops_discovered (d_fab w) \<le> cf_max_hops (eng_cfg w))) \<and>
    (rc \<noteq> 1 \<longrightarrow> hops (pt_drpath p') = hops (pt_drpath p) \<and> cnt (pt_drpath p') = cnt (pt_drpath p) \<and> w' = w \<and>
       (rc = 0 \<and> hops_exhausted w \<or> rc = -1 \<and> cnt (pt_drpath p) = 63))"
proof -
  let ?c = "cnt (pt_drpath p)"
  have c: "size_of_int ?c = nat ?c" using assms(2,3) by (intro size_of_int_nonneg) simp_all
  show ?thesis
  proof (cases "hops_exhausted w")
    case True
    then show ?thesis using assms by (simp add: extend_dpath_def)
  next
    case False
    then have m: "cf_max_hops (eng_cfg w) \<noteq> 0 \<longrightarrow> maxhops_discovered (d_fab w) \<le> cf_max_hops (eng_cfg w)"
      by (auto simp: hops_exhausted_def)
    show ?thesis
    proof (cases "?c = 63")
      case True
      then show ?thesis using assms False c by (simp add: extend_dpath_def add_port_to_dpath_def Let_def)
    next
      case lt: False
      then have "nat ?c \<le> 62" "nat (?c + 1) < 64" using assms(2,3) by auto
      then show ?thesis using assms False c m lt
        by (simp add: extend_dpath_def add_port_to_dpath_def Let_def mem_wr_def)
    qed
  qed
qed

section \<open>LIDs\<close>





text \<open>
  C37: \<open>recv_port_info\<close> indexes the ports of a node with the attribute
  modifier of the response and does not compare it with their number: a response with a greater
  number makes it access memory behind the array.
\<close>

theorem port_info_out_of_range:
  fixes w :: "'m discovery"
  assumes "fabric_ok (d_fab w)" and "st_nodes (d_fab w) node = Some n"
    and "mad_get_field mad 0 IB_MAD_ATTRMOD_F = Some v" and "numports n < int (unat (ucast v :: u8))"
  shows "recv_port_info qm e smp node mad w = None"
proof -
  have "node_shape n" using assms(1,2) ports_okD(2) by (auto simp: fabric_ok_def)
  then have "length (ports n) = nat (numports n + 1)" by (simp add: node_shape_def)
  moreover have "nat (numports n + 1) \<le> unat (ucast v :: u8)" unfolding nat_le_iff using assms(4) by linarith
  ultimately have "\<not> unat (ucast v :: u8) < length (ports n)" by simp
  then have "find_or_add_port e node (unat (ucast v :: u8)) (d_fab w) = None"
    using assms(2) by (simp add: find_or_add_port_def node_port_def mem_rd_def)
  then show ?thesis using assms(3) by (simp add: recv_port_info_def mad_port_num_def)
qed

section \<open>Examples\<close>

definition example_discovery :: "(u64 \<times> ptr) list discovery" where
  \<comment> \<open>the first query is on the wire and answered by an adapter; there is no memory for another\<close>
  "example_discovery = \<lparr>umad_fd = 3, smi_agent = 0, smi_dir_agent = 1, smp_queue_head = None,
     smp_queue_tail = None, smps_on_wire = [(0, 0)], eng_cfg = example_cfg, total_smps = 1,
     w_ms = example_state\<lparr>ms_rx := [RecvMad 0 256 (replicate 256 0)]\<rparr>,
     w_smps = [0 \<mapsto> \<lparr>qnext = None, sm_cb = RecvNodeInfo None, sm_path = portid_zero, sm_rpc = smp_request example_cfg 0 portid_zero IB_ATTR_NODE_INFO 0\<rparr>],
     w_next = 1, w_alloc = (\<lambda>_. False), w_port_open = True,
     d_fab = allocate_fabric_internal alist_qmap (\<lambda>_. True), d_selfportid = portid_zero, d_initial_hops = 0\<rparr>"

lemma example_discovery_ok:
  "engine_ok map_of example_discovery [] {}" "busy map_of example_discovery []" "discovery_inv example_discovery"
proof -
  show "engine_ok map_of example_discovery [] {}" "busy map_of example_discovery []"
    by (simp_all add: engine_ok_def is_queue_def example_discovery_def wire_ok_def example_cfg_def smp_request_def
        portid_zero_def dr_path_zero_def rpc_zero_def smp_key_def busy_def)
  show "discovery_inv example_discovery"
    using initial_fabric_ok by (simp add: discovery_inv_def example_discovery_def live_cbs_def)
qed

lemma zeros64: "bitoffs f div 8 + 8 \<le> n \<Longrightarrow> get_field64 e (replicate n 0) 0 f = Some 0"
  by (cases e) (simp_all add: get_field64_def mem_load_def native_word_def ntohll_def htonll_def
      native_bytes_zero le_word_zeros)

lemma example_discovery_run:
  "\<exists>w'. process_mads alist_qmap BE (run_completion alist_qmap BE) (run_epi_err alist_qmap BE) example_discovery = Some (0, w') \<and>
     (\<exists>p. st_nodes (d_fab w') p \<noteq> None)"
proof -
  obtain t where t: "mad_get_field64 BE (replicate 256 0) 0 IB_MAD_TRID_F = Some t" "(ucast t :: u32) = 0"
    using tid32_zero [of BE] by (auto simp: tid32_def)
  have st: "mad_get_field (replicate 256 0) 0 IB_DRSMP_STATUS_F = Some 0"
    by (simp add: eval_field)
  have ld: "mem_load (replicate 256 0 :: mem) IB_SMP_DATA_OFFS 64 = Some (replicate 64 0)"
    by (simp add: mem_load_def c_eval)
  have g: "mad_get_field64 BE (replicate 64 0) 0 IB_NODE_GUID_F = Some 0" "mad_get_field64 BE (replicate 64 0) 0 IB_NODE_PORT_GUID_F = Some 0"
    "mad_get_field (replicate 64 0) 0 IB_NODE_LOCAL_PORT_F = Some 0" "decode_u64 BE (replicate 64 0) IB_NODE_GUID_F = Some 0"
    "decode_int BE (replicate 64 0) IB_NODE_TYPE_F = Some 0" "decode_int BE (replicate 64 0) IB_NODE_NPORTS_F = Some 0"
  proof -
    have nz: "IB_NODE_GUID_F \<noteq> 0" "IB_NODE_TYPE_F \<noteq> 0" "IB_NODE_NPORTS_F \<noteq> 0" by (simp_all add: c_eval)
    show g: "mad_get_field64 BE (replicate 64 0) 0 IB_NODE_GUID_F = Some 0"
      "mad_get_field64 BE (replicate 64 0) 0 IB_NODE_PORT_GUID_F = Some 0"
      by (simp_all add: mad_get_field64_def fd_IB_NODE_GUID_F fd_IB_NODE_PORT_GUID_F zeros64)
    show "decode_u64 BE (replicate 64 0) IB_NODE_GUID_F = Some 0" by (simp add: node_info_guid g)
    show "mad_get_field (replicate 64 0) 0 IB_NODE_LOCAL_PORT_F = Some 0" by (simp add: eval_field)
    have "mad_get_field (replicate 64 0) 0 IB_NODE_TYPE_F = Some 0" "mad_get_field (replicate 64 0) 0 IB_NODE_NPORTS_F = Some 0"
      by (simp_all add: eval_field)
    then show "decode_int BE (replicate 64 0) IB_NODE_TYPE_F = Some 0" "decode_int BE (replicate 64 0) IB_NODE_NPORTS_F = Some 0"
      using decode_int_field [OF fd_IB_NODE_TYPE_F _ _ nz(2), of BE] decode_int_field [OF fd_IB_NODE_NPORTS_F _ _ nz(3), of BE]
      by simp_all
  qed
  let ?f = "allocate_fabric_internal alist_qmap (\<lambda>_. True)"
  have e: "st_nodes ?f = Map.empty" "st_ports ?f = Map.empty" "nodestbl ?f = replicate 137 None" "fb_nodes ?f = None"
      "ch_adapters ?f = None" "switches ?f = None" "routers ?f = None" "st_next ?f = 0" "st_alloc ?f = (\<lambda>_. True)"
    by (simp_all add: allocate_fabric_internal_def create_lid2guid_def HTSZ_def)
  have h: "hash_idx 0 = 0" by (simp add: hash_idx_def HASHGUID_def)
  let ?n = "node_zero\<lparr>ports := [None], path_portid := portid_zero\<rparr>"
  let ?f1 = "?f\<lparr>st_next := 2, st_nodes := [0 \<mapsto> ?n], nodestbl := (replicate 137 None)[0 := Some 0], fb_nodes := Some 0\<rparr>"
  have f: "find_or_add_node BE portid_zero (replicate 64 0) 0 ?f = Some (Some (0, True), ?f1)"
    by (simp add: find_or_add_node_def create_node_def g ibnd_find_node_guid_def mem_rd_def h e find_chain_def
        new_addr_def add_to_nodeguid_hash_def upd_node_def add_to_type_list_def HTSZ_def IB_NODE_CA_def IB_NODE_SWITCH_def
        IB_NODE_ROUTER_def node_zero_def)
  let ?p = "port_zero\<lparr>po_node := Some 0\<rparr>"
  let ?f2 = "?f1\<lparr>st_next := 3, st_ports := [2 \<mapsto> ?p], st_nodes := [0 \<mapsto> ?n\<lparr>ports := [Some 2]\<rparr>]\<rparr>"
  have p: "shell_port 0 0 ?f1 = Some (Some 2, ?f2)"
    by (simp add: shell_port_def node_port_def mem_rd_def new_addr_def e port_zero_def)
  let ?w0 = "example_discovery\<lparr>w_ms := example_state\<lparr>ms_rx := []\<rparr>, smps_on_wire := []\<rparr>"
  let ?g = "?f2\<lparr>from_node := Some 0, from_portnum := 0\<rparr>"
  have q: "query_found alist_qmap BE 0 0 0 True (?w0\<lparr>d_fab := ?g\<rparr>) = Some (?w0\<lparr>d_fab := ?g, w_next := 3\<rparr>)"
    by (simp add: query_found_def query_node_desc_def query_port_info_def issue_from_def issue_smp_def
        example_discovery_def node_zero_def IB_NODE_SWITCH_def portid_zero_def)
  have r: "run_completion alist_qmap BE (RecvNodeInfo None) 0 (replicate 256 0) ?w0 = Some (0, ?w0\<lparr>d_fab := ?g, w_next := 3\<rparr>)"
  proof -
    have w0: "w_smps ?w0 0 = Some \<lparr>qnext = None, sm_cb = RecvNodeInfo None, sm_path = portid_zero,
        sm_rpc = smp_request example_cfg 0 portid_zero IB_ATTR_NODE_INFO 0\<rparr>" "d_fab ?w0 = ?f"
      by (simp_all add: example_discovery_def)
    have u: "upd_port 2 (\<lambda>p. p\<lparr>po_guid := 0\<rparr>) ?f2 = Some ?f2"
      by (simp add: upd_port_def port_zero_def)
    have c: "connect 0 2 0 None ?f2 = Some (0, ?g)" by (simp add: connect_def)
    have "recv_node_info alist_qmap BE 0 None (replicate 256 0) ?w0 = Some (0, ?w0\<lparr>d_fab := ?g, w_next := 3\<rparr>)"
      unfolding recv_node_info_def ld g w0 bind.bind_lunit option.case
      using f p u c q by (simp only: Let_def Option.bind.bind_lunit ibnd_smp_t.simps option.case prod.case unat_0 if_False) simp
    then show ?thesis by (simp add: run_completion_def)
  qed
  have psq: "process_smp_queue alist_qmap BE ?w0 = Some (0, ?w0)"
    by (simp add: process_smp_queue_def alist_qmap_def example_discovery_def example_cfg_def get_smp_def)
  have cs: "complete_smp (run_completion alist_qmap BE) (run_epi_err alist_qmap BE) 0 0 (replicate 256 0) ?w0 =
      Some (0, ?w0\<lparr>d_fab := ?g, w_next := 3\<rparr>)"
    using r st by (simp add: complete_smp_def example_discovery_def)
  let ?w' = "?w0\<lparr>d_fab := ?g, w_next := 3, w_smps := Map.empty\<rparr>"
  have fr: "free_smp 0 (?w0\<lparr>d_fab := ?g, w_next := 3\<rparr>) = Some ?w'"
    by (simp add: free_smp_def example_discovery_def)
  have rx: "ms_rx (w_ms example_discovery) = [RecvMad 0 256 (replicate 256 0)]" by (simp add: example_discovery_def)
  have rm: "qm_remove alist_qmap (smps_on_wire example_discovery) 0 = (Some 0, [])"
    by (simp add: alist_qmap_def example_discovery_def)
  have w0: "example_discovery\<lparr>w_ms := (w_ms example_discovery)\<lparr>ms_rx := []\<rparr>, smps_on_wire := []\<rparr> = ?w0"
    by (simp add: example_discovery_def)
  have "process_one_recv alist_qmap BE (run_completion alist_qmap BE) (run_epi_err alist_qmap BE) example_discovery =
      Some (0, ?w')"
    using psq cs fr by (simp add: process_one_recv_def rx t rm w0)
  moreover have "qm_head alist_qmap (smps_on_wire example_discovery) \<noteq> None" "qm_head alist_qmap (smps_on_wire ?w') = None"
    by (simp_all add: alist_qmap_def example_discovery_def)
  ultimately have "process_mads alist_qmap BE (run_completion alist_qmap BE) (run_epi_err alist_qmap BE) example_discovery =
      Some (0, ?w')"
    by (auto simp: process_mads_def rx)
  moreover have "st_nodes (d_fab ?w') 0 \<noteq> None" by simp
  ultimately show ?thesis by blast
qed

theorem discovery_sound_witness:
  "\<exists>w'. process_mads alist_qmap BE (run_completion alist_qmap BE) (run_epi_err alist_qmap BE) example_discovery = Some (0, w') \<and>
     fabric_ok (d_fab w') \<and> (\<exists>p. st_nodes (d_fab w') p \<noteq> None) \<and> map_of (smps_on_wire w') = Map.empty"
proof -
  obtain w' where w': "process_mads alist_qmap BE (run_completion alist_qmap BE) (run_epi_err alist_qmap BE) example_discovery =
      Some (0, w')" "\<exists>p. st_nodes (d_fab w') p \<noteq> None" using example_discovery_run by blast
  have "cf_max_smps (eng_cfg example_discovery) \<noteq> 0" by (simp add: example_discovery_def example_cfg_def)
  then show ?thesis
    using discovery_sound [OF alist_qmap_laws example_discovery_ok w'(1)] w' by blast
qed

theorem extend_dpath_bounded_witness:
  "\<exists>rc p' w'. extend_dpath portid_zero 7 example_discovery = Some (rc, p', w') \<and> cnt (pt_drpath p') \<le> 63 \<and>
     length (hops (pt_drpath p')) = 64"
  using extend_dpath_bounded [of portid_zero 7 example_discovery] by (auto simp: portid_zero_def dr_path_zero_def)


theorem port_info_out_of_range_witness:
  "recv_port_info alist_qmap BE 0 0 ((replicate 256 0)[23 := 5]) (example_discovery\<lparr>d_fab := example_fabric\<rparr>) = None"
proof (rule port_info_out_of_range)
  show "fabric_ok (d_fab (example_discovery\<lparr>d_fab := example_fabric\<rparr>))" using example_fabric_ok by simp
  show "st_nodes (d_fab (example_discovery\<lparr>d_fab := example_fabric\<rparr>)) 0 =
      Some (node_zero\<lparr>nd_type := 1, numports := 1, ports := [Some 2, Some 3]\<rparr>)" by (simp add: example_fabric_def)
  show "mad_get_field ((replicate 256 0)[23 := 5]) 0 IB_MAD_ATTRMOD_F = Some 5" by (simp add: eval_field)
  show "numports (node_zero\<lparr>nd_type := 1, numports := 1, ports := [Some 2, Some 3]\<rparr>) < int (unat (ucast (5 :: u32) :: u8))"
    by simp
qed

end
