(* ===== verification/ChassisCorrect.thy ===== *)
theory ChassisCorrect
  imports Chassis DiscoverCorrect
begin

text \<open>
  Grouping into chassis: every table keeps boards and ports in range, grouping a well-formed fabric
  never leaves an array and ends with well-formed chassis, and it changes nothing but what belongs
  to chassis. The cases in which the code does leave an array or follow \<open>NULL\<close> are stated too.
\<close>

section \<open>Tables\<close>

lemma table_at_in: "0 \<le> i \<Longrightarrow> nat i < length t \<Longrightarrow> table_at t i = Some (t ! nat i)"
  by (simp add: table_at_def mem_rd_def)

lemma slot_from_in:
  assumes "0 \<le> p" "nat p < length s" "nat p < length a"
  shows "slot_from ct s a p n = Some (n\<lparr>ch_type := ct, ch_slotnum := s ! nat p, ch_anafanum := a ! nat p\<rparr>)"
  using assms by (simp add: slot_from_def table_at_in)

lemmas slot_tables = line_slot_2_sfb4_def anafa_line_slot_2_sfb4_def line_slot_2_sfb12_def anafa_line_slot_2_sfb12_def
  line_slot_2_sfb18_def anafa_line_slot_2_sfb18_def line_slot_2_sfb18x2_def anafa_line_slot_2_sfb18x2_def
  line_slot_2_sfb4200_def anafa_line_slot_2_sfb4200_def ipr_slot_2_sfb4_port_def spine12_slot_2_slb_def
  anafa_spine12_slot_2_slb_def spine4_slot_2_slb_def anafa_spine4_slot_2_slb_def spine18_slot_2_slb_def
  anafa_spine18_slot_2_slb_def anafa_spine18x2_slot_2_slb_def sfb4200_slot_2_slb_def anafa_sfb4200_slot_2_slb_def

lemma length_slot_tables [simp]:
  "length line_slot_2_sfb4 = 37" "length anafa_line_slot_2_sfb4 = 37" "length line_slot_2_sfb12 = 37"
  "length anafa_line_slot_2_sfb12 = 37" "length line_slot_2_sfb18 = 37" "length anafa_line_slot_2_sfb18 = 37"
  "length line_slot_2_sfb18x2 = 37" "length anafa_line_slot_2_sfb18x2 = 37" "length line_slot_2_sfb4200 = 37"
  "length anafa_line_slot_2_sfb4200 = 37" "length ipr_slot_2_sfb4_port = 37" "length spine12_slot_2_slb = 37"
  "length anafa_spine12_slot_2_slb = 37" "length spine4_slot_2_slb = 37" "length anafa_spine4_slot_2_slb = 37"
  "length spine18_slot_2_slb = 37" "length anafa_spine18_slot_2_slb = 37" "length anafa_spine18x2_slot_2_slb = 37"
  "length sfb4200_slot_2_slb = 37" "length anafa_sfb4200_slot_2_slb = 37"
  unfolding slot_tables by simp_all

definition placed :: "nat \<Rightarrow> (u8 \<Rightarrow> u8 \<Rightarrow> bool) \<Rightarrow> u8 list \<Rightarrow> u8 list \<Rightarrow> bool" where
  \<comment> \<open>the first \<open>k\<close> ports have a place with \<open>P\<close>\<close>
  "placed k P s a \<longleftrightarrow> list_all (\<lambda>(s, a). P s a) (take k (drop 1 (zip s a)))"

lemma placedD:
  assumes "placed k P s a" "length s = 37" "length a = 37" "k \<le> 36" "1 \<le> p" "p \<le> int k"
  shows "P (s ! nat p) (a ! nat p)"
proof -
  have i: "nat p - 1 < length (take k (drop 1 (zip s a)))" using assms(2-6) by simp
  have "take k (drop 1 (zip s a)) ! (nat p - 1) = (s ! nat p, a ! nat p)"
    using assms(2-6) by (simp add: nat_diff_distrib)
  then show ?thesis using assms(1) i unfolding placed_def list_all_length by fastforce
qed

abbreviation by_threes :: "u8 \<Rightarrow> u8 \<Rightarrow> bool" where
  "by_threes s a \<equiv> 1 \<le> 3 * (uint s - 1) + uint a \<and> 3 * (uint s - 1) + uint a \<le> 36"

lemma line_places:
  "placed 24 by_threes line_slot_2_sfb4 anafa_line_slot_2_sfb4"
  "placed 24 by_threes line_slot_2_sfb12 anafa_line_slot_2_sfb12"
  "placed 36 (\<lambda>s a. 1 \<le> uint s \<and> uint s \<le> 36) line_slot_2_sfb18 anafa_line_slot_2_sfb18"
  "placed 18 (\<lambda>s a. 1 \<le> uint s \<and> uint s \<le> 36) line_slot_2_sfb18x2 anafa_line_slot_2_sfb18x2"
  "placed 36 (\<lambda>s a. 1 \<le> uint s \<and> uint s \<le> 36) line_slot_2_sfb4200 anafa_line_slot_2_sfb4200"
  unfolding placed_def slot_tables by simp_all

lemma spine_places:
  "placed 12 (\<lambda>s a. 1 \<le> uint s \<and> uint s \<le> 18) spine4_slot_2_slb anafa_spine4_slot_2_slb"
  "placed 12 (\<lambda>s a. 1 \<le> 3 * (uint s - 1) + uint a \<and> 3 * (uint s - 1) + uint a \<le> 18) spine12_slot_2_slb anafa_spine12_slot_2_slb"
  "placed 18 (\<lambda>s a. 1 \<le> 2 * (uint s - 1) + uint a \<and> 2 * (uint s - 1) + uint a \<le> 18) spine18_slot_2_slb anafa_spine18_slot_2_slb"
  "placed 18 (\<lambda>s a. 1 \<le> 2 * (uint s - 1) + uint a \<and> 2 * (uint s - 1) + uint a \<le> 18) spine18_slot_2_slb anafa_spine18x2_slot_2_slb"
  unfolding placed_def slot_tables by simp_all

section \<open>External ports\<close>

lemma ext_rows:
  "\<forall>t \<in> {int2ext_map_slb24, int2ext_map_slb8, int2ext_map_slb2024}. length t = 2 \<and> (\<forall>r \<in> set t. length r = 25 \<and> (\<forall>x \<in> set r. 0 \<le> x \<and> x \<le> 24))"
  "length int2ext_map_sfb4700x2 = 2" "\<forall>r \<in> set int2ext_map_sfb4700x2. length r = 37 \<and> (\<forall>x \<in> set r. 0 \<le> x \<and> x \<le> 24)"
  "length int2ext_map_slb4018 = 37" "\<forall>x \<in> set int2ext_map_slb4018. 0 \<le> x \<and> x \<le> 24"
  by (simp_all add: int2ext_map_slb24_def int2ext_map_slb8_def int2ext_map_slb2024_def int2ext_map_sfb4700x2_def int2ext_map_slb4018_def)

lemma row_value:
  assumes "length t = 2" "\<forall>r \<in> set t. length r = k \<and> (\<forall>x \<in> set r. 0 \<le> x \<and> x \<le> 24)" "i < 2" "0 \<le> p" "nat p < k"
  shows "\<exists>x. table2_at t i p = Some x \<and> 0 \<le> x \<and> x \<le> (24 :: int)"
proof -
  have r: "t ! i \<in> set t" using assms(1,3) by simp
  then have row: "length (t ! i) = k" "\<forall>x \<in> set (t ! i). 0 \<le> x \<and> x \<le> 24" using assms(2) by blast+
  then have "t ! i ! nat p \<in> set (t ! i)" using assms(5) by simp
  with row show ?thesis using assms(1,3-5) by (simp add: table2_at_def mem_rd_def table_at_in)
qed

lemma ext_port_total:
  "\<exists>x. ext_port_of d found a p = Some x \<and> 0 \<le> x \<and> x \<le> 24"
proof (cases "found = 0 \<or> (\<not> is_line d \<and> \<not> is_spine_4700x2 d) \<or>
    ((is_line_4700 d \<or> is_spine_4700x2 d) \<and> (p < 19 \<or> p > 36)) \<or>
    ((\<not> is_line_4700 d \<and> \<not> is_spine_4700x2 d) \<and> (p < 13 \<or> p > 24)) \<or> a < 1 \<or> a > 2")
  case True
  then show ?thesis by (auto simp: ext_port_of_def)
next
  case False
  have i: "unat a - 1 < 2" using False by (auto simp: word_less_nat_alt word_le_nat_alt)
  note e = ext_rows(1)
  have short: "\<exists>x. table2_at t (unat a - 1) p = Some x \<and> 0 \<le> x \<and> x \<le> 24"
    if "t \<in> {int2ext_map_slb24, int2ext_map_slb8, int2ext_map_slb2024}" "0 \<le> p" "p \<le> 24" for t
    by (rule row_value [of _ 25]) (use e that i in auto)
  have long: "\<exists>x. table2_at int2ext_map_sfb4700x2 (unat a - 1) p = Some x \<and> 0 \<le> x \<and> x \<le> 24"
    if "0 \<le> p" "p \<le> 36"
    by (rule row_value [of _ 37]) (use ext_rows(2,3) that i in auto)
  have one: "\<exists>x. table_at int2ext_map_slb4018 p = Some x \<and> 0 \<le> x \<and> x \<le> 24" if "0 \<le> p" "p \<le> 36"
    using ext_rows(4,5) that by (simp add: table_at_in)
  have not24: "\<not> is_line_24 d" "\<not> is_line_2024 d" if "is_line_4700 d \<or> is_spine_4700x2 d"
    using that by (auto simp: is_line_4700_def is_spine_4700x2_def is_line_24_def is_line_2024_def c_eval)
  show ?thesis
    using False short long one not24 by (auto simp: ext_port_of_def Let_def)
qed

definition external :: "u32 \<Rightarrow> u8 \<times> int \<Rightarrow> int" where
  "external d = (\<lambda>(a, p). the (ext_port_of d 1 a p))"

lemma external_image:
  "external VTR_DEVID_SLB24 ` ({1, 2} \<times> {13..24}) = {1..24}"
  "external VTR_DEVID_SLB2024 ` ({1, 2} \<times> {13..24}) = {1..24}"
  "external VTR_DEVID_SLB4018 ` ({1} \<times> {19..36}) = {1..18}"
proof -
  have s: "{13..24 :: int} = {13, 14, 15, 16, 17, 18, 19, 20, 21, 22, 23, 24}" "{19..36 :: int} = {19, 20, 21, 22, 23, 24, 25, 26, 27, 28, 29, 30, 31, 32, 33, 34, 35, 36}"
      "{1..24 :: int} = {1, 2, 3, 4, 5, 6, 7, 8, 9, 10, 11, 12, 13, 14, 15, 16, 17, 18, 19, 20, 21, 22, 23, 24}" "{1..18 :: int} = {1, 2, 3, 4, 5, 6, 7, 8, 9, 10, 11, 12, 13, 14, 15, 16, 17, 18}"
    by (rule set_eqI, simp, presburger)+
  note u = ext_port_of_def is_line_def is_line_24_def is_line_8_def is_line_2024_def is_line_4700_def
    is_spine_4700x2_def c_eval table2_at_def table_at_def mem_rd_def external_def
  show "external VTR_DEVID_SLB24 ` ({1, 2} \<times> {13..24}) = {1..24}"
    unfolding s by (simp add: u int2ext_map_slb24_def) blast
  show "external VTR_DEVID_SLB2024 ` ({1, 2} \<times> {13..24}) = {1..24}"
    unfolding s by (simp add: u int2ext_map_slb2024_def) blast?
  show "external VTR_DEVID_SLB4018 ` ({1} \<times> {19..36}) = {1..18}"
    unfolding s by (simp add: u int2ext_map_slb4018_def) blast?
qed

text \<open>
  Property (functional): on the line boards with 24 or 18 ports of their own, sLB-24 and sLB-2024 with two chips
  and sLB-4018 with one, \<open>voltaire_portmap\<close> numbers the outer ports of the chips 1 to 24 (1 to 18)
  without a gap and without giving a number twice (the sLB-8 has eight ports of three lanes, each number three times);
  and whatever the device, the chip and the port, it stays in its tables and the number is at most 24.
\<close>

theorem external_ports_bijective:
  "bij_betw (external VTR_DEVID_SLB24) ({1, 2} \<times> {13..24}) {1..24} \<and>
   bij_betw (external VTR_DEVID_SLB2024) ({1, 2} \<times> {13..24}) {1..24} \<and>
   bij_betw (external VTR_DEVID_SLB4018) ({1} \<times> {19..36}) {1..18} \<and>
   (\<forall>d found a p. \<exists>x. ext_port_of d found a p = Some x \<and> 0 \<le> x \<and> x \<le> 24)"
proof -
  have b: "bij_betw h A B" if "h ` A = B" "card A = card B" "finite A" for h and A :: "(u8 \<times> int) set" and B :: "int set"
    using that by (simp add: bij_betw_def eq_card_imp_inj_on)
  have c: "card ({1, 2 :: u8} \<times> {13..24 :: int}) = 24" "card ({1 :: u8} \<times> {19..36 :: int}) = 18"
    by (simp_all add: card_cartesian_product)
  show ?thesis
    using ext_port_total by (intro conjI allI b external_image) (simp_all add: c)
qed

section \<open>Places\<close>

lemmas is_devices = is_spine_def is_spine_9096_def is_spine_9288_def is_spine_2004_def is_spine_2012_def is_spine_4700_def
  is_spine_4700x2_def is_spine_4200_def is_line_def is_line_24_def is_line_8_def is_line_2024_def is_line_4700_def

lemma line_index_threes:
  assumes "devid n = Some d" "\<not> is_line_4700 d" "by_threes (ch_slotnum n) (ch_anafanum n)"
  shows "get_line_index n = Some (3 * (uint (ch_slotnum n) - 1) + uint (ch_anafanum n))"
  using assms by (simp add: get_line_index_def LINES_MAX_NUM_def Let_def)

lemma line_index_slot:
  assumes "devid n = Some d" "is_line_4700 d" "1 \<le> uint (ch_slotnum n)" "uint (ch_slotnum n) \<le> 36"
  shows "get_line_index n = Some (uint (ch_slotnum n))"
  using assms by (simp add: get_line_index_def LINES_MAX_NUM_def Let_def)

definition line_wires :: "u32 \<Rightarrow> int" where
  \<comment> \<open>the ports of a spine board that lead to line boards are 1 to this\<close>
  "line_wires d = (if is_spine_4700 d \<or> is_spine_4200 d then 36 else if is_spine_4700x2 d then 18 else 24)"

definition spine_wires :: "u32 \<Rightarrow> int set" where
  \<comment> \<open>the ports of a line board that lead to a spine board of this device\<close>
  "spine_wires d = (if is_spine_4700 d \<or> is_spine_4700x2 d then {1..18} else if is_spine_4200 d then {1..18} - {5, 6} else {1..12})"

definition same_generation :: "u32 \<Rightarrow> u32 \<Rightarrow> bool" where
  \<comment> \<open>18-port line boards go with 36-port spine boards, the others with the older ones\<close>
  "same_generation s l \<longleftrightarrow> (is_line_4700 l \<longleftrightarrow> is_spine_4700 s \<or> is_spine_4700x2 s \<or> is_spine_4200 s)"

lemma slb_slot_place:
  assumes s: "is_spine s" and l: "devid n = Some l" "same_generation s l" and p: "1 \<le> p" "p \<le> line_wires s"
  shows "\<exists>n' i. slb_slot s p n = Some n' \<and> get_line_index n' = Some i \<and> 1 \<le> i \<and> i \<le> 36"
proof -
  have three: "\<exists>n' i. slot_from ct st at p n = Some n' \<and> get_line_index n' = Some i \<and> 1 \<le> i \<and> i \<le> 36"
    if t: "placed 24 by_threes st at" "length st = 37" "length at = 37" "p \<le> 24" "\<not> is_line_4700 l" for ct st at
  proof -
    have w: "by_threes (st ! nat p) (at ! nat p)" by (rule placedD [OF t(1-3)]) (use p t in auto)
    have "get_line_index (n\<lparr>ch_type := ct, ch_slotnum := st ! nat p, ch_anafanum := at ! nat p\<rparr>) =
        Some (3 * (uint (st ! nat p) - 1) + uint (at ! nat p))"
      using line_index_threes [of "n\<lparr>ch_type := ct, ch_slotnum := st ! nat p, ch_anafanum := at ! nat p\<rparr>" l] l t(5) w
      by (simp add: devid_def)
    then show ?thesis using w slot_from_in [of p st at ct n] p t by auto
  qed
  have slot: "\<exists>n' i. slot_from ct st at p n = Some n' \<and> get_line_index n' = Some i \<and> 1 \<le> i \<and> i \<le> 36"
    if t: "placed k (\<lambda>s a. 1 \<le> uint s \<and> uint s \<le> 36) st at" "length st = 37" "length at = 37" "k \<le> 36" "p \<le> int k" "is_line_4700 l"
    for ct st at k
  proof -
    have w: "1 \<le> uint (st ! nat p) \<and> uint (st ! nat p) \<le> 36" using placedD [OF t(1-4) p(1)] t by simp
    have "get_line_index (n\<lparr>ch_type := ct, ch_slotnum := st ! nat p, ch_anafanum := at ! nat p\<rparr>) = Some (uint (st ! nat p))"
      using line_index_slot [of "n\<lparr>ch_type := ct, ch_slotnum := st ! nat p, ch_anafanum := at ! nat p\<rparr>" l] l t(6) w
      by (simp add: devid_def)
    then show ?thesis using w slot_from_in [of p st at ct n] p t by auto
  qed
  note a = three [OF line_places(1)] three [OF line_places(2)] slot [OF line_places(3)] slot [OF line_places(4)] slot [OF line_places(5)]
  note u = slb_slot_def is_devices line_wires_def same_generation_def c_eval
  consider "s = VTR_DEVID_SFB4" | "s = VTR_DEVID_SFB4_DDR" | "s = VTR_DEVID_SFB12" | "s = VTR_DEVID_SFB12_DDR" | "s = VTR_DEVID_SFB2004"
    | "s = VTR_DEVID_SFB2012" | "s = VTR_DEVID_SFB4700" | "s = VTR_DEVID_SFB4700X2" | "s = VTR_DEVID_SFB4200"
    using s unfolding is_devices by blast
  then show ?thesis
    by cases (insert a p l(2), simp_all add: u)
qed

lemma spine_index_place:
  assumes "devid m = Some d" "1 \<le> i" "i \<le> 18"
    and "i = (if is_spine_9288 d \<or> is_spine_2012 d then 3 * (uint (ch_slotnum m) - 1) + uint (ch_anafanum m)
              else if is_spine_4700 d \<or> is_spine_4700x2 d then 2 * (uint (ch_slotnum m) - 1) + uint (ch_anafanum m)
              else uint (ch_slotnum m))"
  shows "get_spine_index m = Some i"
  using assms(1-3) by (simp add: get_spine_index_def SPINES_MAX_NUM_def Let_def assms(4) [symmetric])

lemma sfb_slot_place:
  assumes m: "devid m = Some d" and s: "is_spine d" and q: "q \<in> spine_wires d"
  shows "\<exists>m' i. sfb_slot d q m = Some m' \<and> get_spine_index m' = Some i \<and> 1 \<le> i \<and> i \<le> 18"
proof -
  have place: "\<exists>m' i. slot_from ct st at q m = Some m' \<and> get_spine_index m' = Some i \<and> 1 \<le> i \<and> i \<le> 18"
    if t: "placed k (\<lambda>s a. 1 \<le> h (uint s) (uint a) \<and> h (uint s) (uint a) \<le> 18) st at" "length st = 37" "length at = 37"
        "k \<le> 36" "1 \<le> q" "q \<le> int k"
      and h: "\<And>s a. h s a = (if is_spine_9288 d \<or> is_spine_2012 d then 3 * (s - 1) + a
              else if is_spine_4700 d \<or> is_spine_4700x2 d then 2 * (s - 1) + a else s)"
    for ct st at k and h :: "int \<Rightarrow> int \<Rightarrow> int"
  proof -
    let ?m = "m\<lparr>ch_type := ct, ch_slotnum := st ! nat q, ch_anafanum := at ! nat q\<rparr>"
    have w: "1 \<le> h (uint (st ! nat q)) (uint (at ! nat q)) \<and> h (uint (st ! nat q)) (uint (at ! nat q)) \<le> 18"
      using placedD [OF t(1-6)] by simp
    have "get_spine_index ?m = Some (h (uint (st ! nat q)) (uint (at ! nat q)))"
      by (rule spine_index_place [of _ d]) (use m w h in \<open>auto simp: devid_def\<close>)
    then show ?thesis using w slot_from_in [of q st at ct m] t by auto
  qed
  note a = place [OF spine_places(1)] place [OF spine_places(2)] place [OF spine_places(3)] place [OF spine_places(4)]
  note u = sfb_slot_def is_devices spine_wires_def c_eval
  have p42: "placed 4 (\<lambda>s a. 1 \<le> uint s \<and> uint s \<le> 18) sfb4200_slot_2_slb anafa_sfb4200_slot_2_slb"
    unfolding placed_def slot_tables by simp
  have late: "list_all (\<lambda>s. 1 \<le> uint s \<and> uint s \<le> 18) (take 12 (drop 7 sfb4200_slot_2_slb))"
    unfolding slot_tables by simp
  have f42: "\<exists>m' i. slot_from ct sfb4200_slot_2_slb anafa_sfb4200_slot_2_slb q m = Some m' \<and> get_spine_index m' = Some i \<and> 1 \<le> i \<and> i \<le> 18"
    if d: "d = VTR_DEVID_SFB4200" for ct
  proof -
    have r: "1 \<le> q" "q \<le> 18" "q \<noteq> 5" "q \<noteq> 6" using q d by (auto simp: u)
    let ?m = "m\<lparr>ch_type := ct, ch_slotnum := sfb4200_slot_2_slb ! nat q, ch_anafanum := anafa_sfb4200_slot_2_slb ! nat q\<rparr>"
    have w: "1 \<le> uint (sfb4200_slot_2_slb ! nat q) \<and> uint (sfb4200_slot_2_slb ! nat q) \<le> 18"
    proof (cases "q \<le> 4")
      case True
      then show ?thesis using placedD [OF p42, of q] r by simp
    next
      case False
      then have i: "nat q - 7 < 12" "7 + (nat q - 7) = nat q" using r by auto
      then have "take 12 (drop 7 sfb4200_slot_2_slb) ! (nat q - 7) = sfb4200_slot_2_slb ! nat q" by simp
      moreover have "nat q - 7 < length (take 12 (drop 7 sfb4200_slot_2_slb))" using i by simp
      ultimately show ?thesis using late unfolding list_all_length by metis
    qed
    have "get_spine_index ?m = Some (uint (sfb4200_slot_2_slb ! nat q))"
      by (rule spine_index_place [of _ d]) (use m w d in \<open>auto simp: devid_def u\<close>)
    then show ?thesis using w slot_from_in [of q sfb4200_slot_2_slb anafa_sfb4200_slot_2_slb ct m] r by auto
  qed
  consider "d = VTR_DEVID_SFB4" | "d = VTR_DEVID_SFB4_DDR" | "d = VTR_DEVID_SFB12" | "d = VTR_DEVID_SFB12_DDR" | "d = VTR_DEVID_SFB2004"
    | "d = VTR_DEVID_SFB2012" | "d = VTR_DEVID_SFB4700" | "d = VTR_DEVID_SFB4700X2" | "d = VTR_DEVID_SFB4200"
    using s unfolding is_devices by blast
  then show ?thesis
    by cases (insert a f42 q, simp_all add: u)
qed

text \<open>
  C20 (bounds): a line board of the generation of its spine board gets, from any port of the spine
  board that leads to line boards, a place 1 to 36 in the chassis, and a spine board gets, from any port
  of a line board that leads to it, a place 1 to 18. So \<open>insert_line_router\<close> and
  \<open>insert_spine\<close> do not end with their internal error and stay inside the arrays.
\<close>

theorem boards_have_places:
  assumes "is_spine s"
  shows "(\<forall>n l p. devid n = Some l \<and> same_generation s l \<and> 1 \<le> p \<and> p \<le> line_wires s \<longrightarrow>
      (\<exists>n' i. slb_slot s p n = Some n' \<and> get_line_index n' = Some i \<and> 1 \<le> i \<and> i \<le> 36)) \<and>
    (\<forall>m q. devid m = Some s \<and> q \<in> spine_wires s \<longrightarrow>
      (\<exists>m' i. sfb_slot s q m = Some m' \<and> get_spine_index m' = Some i \<and> 1 \<le> i \<and> i \<le> 18))"
  using slb_slot_place [OF assms] sfb_slot_place [OF _ assms] by blast

definition example_board :: "u8 list \<Rightarrow> ibnd_node_t" where
  \<comment> \<open>a Voltaire switch with this device id\<close>
  "example_board dev = node_zero\<lparr>nd_info := replicate 30 0 @ dev @ replicate 6 0 @ [8, 241] @ replicate 24 0, nd_type := 2\<rparr>"

theorem boards_have_places_witness:
  "(\<exists>n' i. slb_slot VTR_DEVID_SFB12 24 (example_board [0x5a, 9]) = Some n' \<and> get_line_index n' = Some i \<and> 1 \<le> i \<and> i \<le> 36) \<and>
   (\<exists>m' i. sfb_slot VTR_DEVID_SFB12 12 (example_board [0x5a, 8]) = Some m' \<and> get_spine_index m' = Some i \<and> 1 \<le> i \<and> i \<le> 18)"
proof -
  have s: "is_spine VTR_DEVID_SFB12" by (simp add: is_devices)
  have l: "devid (example_board [0x5a, 9]) = Some VTR_DEVID_SLB24"
    by (simp add: devid_def example_board_def node_zero_def eval_field nth_append VTR_DEVID_SLB24_def)
  have d: "devid (example_board [0x5a, 8]) = Some VTR_DEVID_SFB12"
    by (simp add: devid_def example_board_def node_zero_def eval_field nth_append VTR_DEVID_SFB12_def)
  have "same_generation VTR_DEVID_SFB12 VTR_DEVID_SLB24" "24 \<le> line_wires VTR_DEVID_SFB12" "12 \<in> spine_wires VTR_DEVID_SFB12"
    by (simp_all add: same_generation_def line_wires_def spine_wires_def is_devices c_eval)
  with boards_have_places [OF s] l d show ?thesis by fastforce
qed

end
