(* ===== verification/GroupCorrect.thy ===== *)
theory GroupCorrect
  imports ChassisCorrect
begin

text \<open>
  Grouping is safe: on a well-formed fabric whose boards are numbered as the hardware numbers them,
  \<open>group_nodes\<close> never leaves an array, never follows \<open>NULL\<close> or a freed pointer and ends, and
  it leaves the nodes, the ports, the links and the lists as they were.
\<close>

section \<open>What grouping leaves as it is\<close>

definition nstat :: "ibnd_node_t \<Rightarrow> ibnd_node_t" where
  \<comment> \<open>a node without what belongs to its chassis\<close>
  "nstat n = n\<lparr>next_chassis_node := None, nd_chassis := None, ch_type := 0, ch_type_str := [], ch_anafanum := 0,
     ch_slotnum := 0, ch_slot := 0, ch_found := 0\<rparr>"

definition pstat :: "ibnd_port_t \<Rightarrow> ibnd_port_t" where
  "pstat x = x\<lparr>ext_portnum := 0\<rparr>"

definition fstat :: "'m fabric \<Rightarrow> 'm fabric" where
  "fstat f = f\<lparr>fb_chassis := None, st_nodes := \<lambda>p. map_option nstat (st_nodes f p),
     st_ports := \<lambda>p. map_option pstat (st_ports f p), st_chassis := Map.empty, st_next := 0\<rparr>"

lemma nstatD: "nstat n = nstat m \<Longrightarrow> nd_info n = nd_info m \<and> ports n = ports m \<and> numports n = numports m \<and>
    nodedesc n = nodedesc m \<and> nd_type n = nd_type m \<and> nd_next n = nd_next m \<and> type_next n = type_next m \<and>
    skel n = skel m \<and> switchinfo n = switchinfo m \<and> nd_guid n = nd_guid m"
  by (cases n; cases m) (simp add: nstat_def skel_def)

lemma pstatD: "pstat x = pstat y \<Longrightarrow> portnum x = portnum y \<and> po_node x = po_node y \<and> remoteport x = remoteport y \<and>
    po_info x = po_info y \<and> ext_info x = ext_info y"
  by (cases x; cases y) (simp add: pstat_def)

lemma fstatD:
  assumes "fstat f' = fstat f"
  shows "map_option nstat (st_nodes f' p) = map_option nstat (st_nodes f p)"
    and "map_option pstat (st_ports f' p) = map_option pstat (st_ports f p)"
    and "nodestbl f' = nodestbl f" "fb_nodes f' = fb_nodes f" "switches f' = switches f"
    and "ch_adapters f' = ch_adapters f" "routers f' = routers f"
proof -
  show "map_option nstat (st_nodes f' p) = map_option nstat (st_nodes f p)"
    using arg_cong [OF assms, of "\<lambda>f. st_nodes f p"] by (simp add: fstat_def)
  show "map_option pstat (st_ports f' p) = map_option pstat (st_ports f p)"
    using arg_cong [OF assms, of "\<lambda>f. st_ports f p"] by (simp add: fstat_def)
  show "nodestbl f' = nodestbl f" using arg_cong [OF assms, of nodestbl] by (simp add: fstat_def)
  show "fb_nodes f' = fb_nodes f" using arg_cong [OF assms, of fb_nodes] by (simp add: fstat_def)
  show "switches f' = switches f" using arg_cong [OF assms, of switches] by (simp add: fstat_def)
  show "ch_adapters f' = ch_adapters f" using arg_cong [OF assms, of ch_adapters] by (simp add: fstat_def)
  show "routers f' = routers f" using arg_cong [OF assms, of routers] by (simp add: fstat_def)
qed

lemma fstat_node:
  assumes "fstat f' = fstat f" and "st_nodes f' p = Some n'"
  shows "\<exists>n. st_nodes f p = Some n \<and> nstat n' = nstat n"
  using fstatD(1) [OF assms(1), of p] assms(2) by (cases "st_nodes f p") auto

lemma fstat_port:
  assumes "fstat f' = fstat f" and "st_ports f' p = Some x'"
  shows "\<exists>x. st_ports f p = Some x \<and> pstat x' = pstat x"
  using fstatD(2) [OF assms(1), of p] assms(2) by (cases "st_ports f p") auto

section \<open>Boards\<close>

definition port_range :: "ibnd_port_t \<Rightarrow> bool" where
  "port_range x \<longleftrightarrow> 0 \<le> portnum x \<and> portnum x \<le> 36"

definition desc_ok :: "mem \<Rightarrow> bool" where
  \<comment> \<open>a description that ends, whose slot is not the one behind the last\<close>
  "desc_ok d \<longleftrightarrow> 0 \<in> set d \<and>
     (\<forall>d' t s i k. mlx_desc d = Some (Some (d', t, s, i)) \<longrightarrow> atoi_at d' (Suc s) = Some k \<longrightarrow>
        (d' ! s = 76 \<longrightarrow> k mod 256 \<noteq> int LINES_MAX_NUM + 1) \<and> (d' ! s = 83 \<longrightarrow> k mod 256 \<noteq> int SPINES_MAX_NUM + 1))"

definition port_wired :: "'m fabric \<Rightarrow> ibnd_port_t \<Rightarrow> bool" where
  \<comment> \<open>it belongs to a node; ports of Voltaire switches and what they are wired to are in the tables\<close>
  "port_wired f x \<longleftrightarrow> (\<exists>m n. po_node x = Some m \<and> st_nodes f m = Some n \<and>
     (vendid n = Some VTR_VENDOR_ID \<longrightarrow> port_range x \<and>
        (\<forall>r y. remoteport x = Some r \<longrightarrow> st_ports f r = Some y \<longrightarrow> port_range y)))"

definition board_fits :: "'m fabric \<Rightarrow> ibnd_node_t \<Rightarrow> bool" where
  \<comment> \<open>it has ports; every port of a Voltaire router is wired; a Mellanox switch has a proper description\<close>
  "board_fits f n \<longleftrightarrow> 0 < numports n \<and>
     (vendid n = Some VTR_VENDOR_ID \<longrightarrow> (\<forall>d. devid n = Some d \<longrightarrow> is_router d \<longrightarrow>
        (\<forall>a x. Some a \<in> set (ports n) \<longrightarrow> st_ports f a = Some x \<longrightarrow> remoteport x \<noteq> None))) \<and>
     (vendid n = Some MLX_VENDOR_ID \<longrightarrow> devid n = Some MLX_DEVID_IS4 \<longrightarrow> desc_ok (nodedesc n))"

definition boards_ok :: "'m fabric \<Rightarrow> bool" where
  "boards_ok f \<longleftrightarrow> (\<forall>p x. st_ports f p = Some x \<longrightarrow> port_wired f x) \<and> (\<forall>p n. st_nodes f p = Some n \<longrightarrow> board_fits f n)"

definition node_in_chassis :: "'m fabric \<Rightarrow> ibnd_node_t \<Rightarrow> bool" where
  "node_in_chassis f n \<longleftrightarrow> length (ch_type_str n) = CHASSIS_TYPE_SIZE \<and>
     (\<forall>c. nd_chassis n = Some c \<longrightarrow> c \<in> dom (st_chassis f)) \<and>
     (vendid n = Some MLX_VENDOR_ID \<longrightarrow> (ch_slot n = LINE_CS \<longrightarrow> unat (ch_slotnum n) \<le> LINES_MAX_NUM) \<and>
        (ch_slot n = SPINE_CS \<longrightarrow> unat (ch_slotnum n) \<le> SPINES_MAX_NUM))"

definition chassis_shape :: "'m fabric \<Rightarrow> ibnd_chassis_t \<Rightarrow> bool" where
  "chassis_shape f c \<longleftrightarrow> length (spinenode c) = SPINES_MAX_NUM + 1 \<and> length (linenode c) = LINES_MAX_NUM + 1 \<and>
     (\<forall>p. Some p \<in> set (spinenode c) \<union> set (linenode c) \<longrightarrow> p \<in> dom (st_nodes f))"

definition chassis_ok :: "'m fabric \<Rightarrow> bool" where
  "chassis_ok f \<longleftrightarrow> (\<forall>p n. st_nodes f p = Some n \<longrightarrow> node_in_chassis f n) \<and>
     (\<forall>a c. st_chassis f a = Some c \<longrightarrow> chassis_shape f c \<and> a < st_next f)"

definition good :: "'m fabric \<Rightarrow> bool" where
  "good f \<longleftrightarrow> fabric_ok f \<and> boards_ok f \<and> chassis_ok f"

definition grown :: "'m fabric \<Rightarrow> 'm fabric \<Rightarrow> bool" where
  \<comment> \<open>a step that adds no chassis\<close>
  "grown f f' \<longleftrightarrow> fstat f' = fstat f \<and> st_next f' = st_next f \<and> chassis_next f' = chassis_next f \<and> fb_chassis f' = fb_chassis f"

lemma grown_refl [simp]: "grown f f" by (simp add: grown_def)

lemma grown_trans [trans]: "grown f g \<Longrightarrow> grown g h \<Longrightarrow> grown f h" by (simp add: grown_def)

lemma static_fabric_ok:
  assumes "fabric_ok f" and st: "fstat f' = fstat f" and "st_next f \<le> st_next f'" and "chassis_ok f'"
  shows "fabric_ok f'"
proof -
  have n: "map_option skel (st_nodes f' p) = map_option skel (st_nodes f p)" for p
    using fstatD(1) [OF st, of p] by (cases "st_nodes f p"; cases "st_nodes f' p") (auto dest: nstatD)
  have "nodes_ok f'"
    by (rule nodes_ok_skel [OF _ n]) (use assms(1,3) fstatD(3-7) [OF st] in \<open>simp_all add: fabric_ok_def\<close>)
  moreover have "ports_ok f'"
  proof (rule ports_ok_cong [of f])
    show "ports_ok f" "st_next f \<le> st_next f'" using assms(1,3) by (simp_all add: fabric_ok_def)
    show "node_shape n' \<and> (\<exists>n. st_nodes f p = Some n \<and> ports n' = ports n)" if h: "st_nodes f' p = Some n'" for p n'
    proof -
      obtain n where n: "st_nodes f p = Some n" "nstat n' = nstat n" using fstat_node [OF st h] by blast
      have "node_shape n" using assms(1) n(1) ports_okD(2) by (auto simp: fabric_ok_def)
      moreover have "length (ch_type_str n') = CHASSIS_TYPE_SIZE"
        using assms(4) h by (simp add: chassis_ok_def node_in_chassis_def)
      ultimately show ?thesis using nstatD [OF n(2)] n(1) by (simp add: node_shape_def)
    qed
    show "port_shape x' \<and> p \<in> dom (st_ports f)" if x': "st_ports f' p = Some x'" for p x'
    proof -
      obtain x where x: "st_ports f p = Some x" "pstat x' = pstat x" using fstat_port [OF st x'] by blast
      then have "port_shape x" using assms(1) ports_okD(4) by (auto simp: fabric_ok_def)
      then show ?thesis using pstatD [OF x(2)] x(1) by (auto simp: port_shape_def)
    qed
    show "\<exists>x'. st_ports f' p = Some x' \<and> po_node x' = po_node x \<and> portnum x' = portnum x" if "st_ports f p = Some x" for p x
      using fstat_port [OF st [symmetric] that] pstatD by metis
  qed
  moreover have "links_ok (st_ports f')"
  proof (rule links_ok_cong [of "st_ports f"])
    show "links_ok (st_ports f)" using assms(1) by (simp add: fabric_ok_def)
    show "map_option remoteport (st_ports f' p) = map_option remoteport (st_ports f p)" for p
      using fstatD(2) [OF st, of p] by (cases "st_ports f p"; cases "st_ports f' p") (auto dest: pstatD)
  qed
  ultimately show ?thesis by (simp add: fabric_ok_def)
qed

lemma static_ids: "nstat n' = nstat n \<Longrightarrow> vendid n' = vendid n \<and> devid n' = devid n"
  using nstatD [of n' n] by (simp add: vendid_def devid_def)

lemma static_boards_ok:
  assumes "boards_ok f" and st: "fstat f' = fstat f"
  shows "boards_ok f'"
  unfolding boards_ok_def
proof (intro conjI allI impI)
  fix p x' assume x': "st_ports f' p = Some x'"
  then obtain x where x: "st_ports f p = Some x" "pstat x' = pstat x" using fstat_port [OF st] by blast
  then obtain m n where n: "po_node x = Some m" "st_nodes f m = Some n" and
    w: "vendid n = Some VTR_VENDOR_ID \<longrightarrow> port_range x \<and> (\<forall>r y. remoteport x = Some r \<longrightarrow> st_ports f r = Some y \<longrightarrow> port_range y)"
    using assms(1) unfolding boards_ok_def port_wired_def by blast
  obtain n' where n': "st_nodes f' m = Some n'" "nstat n = nstat n'" using fstat_node [OF st [symmetric] n(2)] by blast
  have "port_range y'" if h: "vendid n' = Some VTR_VENDOR_ID" "remoteport x' = Some r" "st_ports f' r = Some y'" for r y'
  proof -
    obtain y where y: "st_ports f r = Some y" "pstat y' = pstat y" using fstat_port [OF st h(3)] by blast
    then show ?thesis using w h static_ids [OF n'(2)] pstatD [OF x(2)] pstatD [OF y(2)] by (simp add: port_range_def)
  qed
  then show "port_wired f' x'"
    unfolding port_wired_def using n n' w static_ids [OF n'(2)] pstatD [OF x(2)] by (auto simp: port_range_def)
next
  fix p n' assume n': "st_nodes f' p = Some n'"
  then obtain n where n: "st_nodes f p = Some n" "nstat n' = nstat n" using fstat_node [OF st] by blast
  have b: "board_fits f n" using assms(1) n(1) unfolding boards_ok_def by blast
  have r: "remoteport x' \<noteq> None"
    if h: "vendid n' = Some VTR_VENDOR_ID" "devid n' = Some d" "is_router d" "Some a \<in> set (ports n')" "st_ports f' a = Some x'" for d a x'
  proof -
    obtain x where x: "st_ports f a = Some x" "pstat x' = pstat x" using fstat_port [OF st h(5)] by blast
    have "remoteport x \<noteq> None"
      using b h(1-4) x(1) static_ids [OF n(2)] nstatD [OF n(2)] unfolding board_fits_def by auto
    then show ?thesis using pstatD [OF x(2)] by simp
  qed
  then show "board_fits f' n'"
    using b static_ids [OF n(2)] nstatD [OF n(2)] unfolding board_fits_def by auto
qed

lemma goodI:
  assumes "good f" and "fstat f' = fstat f" "st_next f \<le> st_next f'" "chassis_ok f'"
  shows "good f'"
  using assms static_fabric_ok [of f f'] static_boards_ok [of f f'] by (simp add: good_def)


section \<open>Steps that keep a fabric good\<close>

lemma good_node:
  assumes "good f" and n: "st_nodes f p = Some n" and n': "nstat n' = nstat n" "node_in_chassis f n'"
  shows "good (f\<lparr>st_nodes := (st_nodes f)(p \<mapsto> n')\<rparr>) \<and> grown f (f\<lparr>st_nodes := (st_nodes f)(p \<mapsto> n')\<rparr>)"
proof -
  let ?f = "f\<lparr>st_nodes := (st_nodes f)(p \<mapsto> n')\<rparr>"
  have s: "fstat ?f = fstat f" using n n'(1) by (auto simp: fstat_def fun_eq_iff)
  have d: "dom ((st_nodes f)(p \<mapsto> n')) = dom (st_nodes f)" using n by auto
  have "chassis_ok ?f"
    using assms(1) n'(2) d unfolding good_def chassis_ok_def node_in_chassis_def chassis_shape_def by simp
  then have "good ?f" using goodI [OF assms(1) s] by simp
  then show ?thesis using s by (simp add: grown_def chassis_next_def fun_eq_iff)
qed

lemma good_port:
  assumes "good f" and x: "st_ports f p = Some x" "pstat x' = pstat x"
  shows "good (f\<lparr>st_ports := (st_ports f)(p \<mapsto> x')\<rparr>) \<and> grown f (f\<lparr>st_ports := (st_ports f)(p \<mapsto> x')\<rparr>)"
proof -
  let ?f = "f\<lparr>st_ports := (st_ports f)(p \<mapsto> x')\<rparr>"
  have s: "fstat ?f = fstat f" using x by (auto simp: fstat_def fun_eq_iff)
  have "chassis_ok ?f"
    using assms(1) unfolding good_def chassis_ok_def node_in_chassis_def chassis_shape_def by simp
  then have "good ?f" using goodI [OF assms(1) s] by simp
  then show ?thesis using s by (simp add: grown_def chassis_next_def fun_eq_iff)
qed

lemma good_chassis:
  assumes "good f" and c: "st_chassis f p = Some c" "chs_next c' = chs_next c" "chassis_shape f c'"
  shows "good (f\<lparr>st_chassis := (st_chassis f)(p \<mapsto> c')\<rparr>) \<and> grown f (f\<lparr>st_chassis := (st_chassis f)(p \<mapsto> c')\<rparr>)"
proof -
  let ?f = "f\<lparr>st_chassis := (st_chassis f)(p \<mapsto> c')\<rparr>"
  have s: "fstat ?f = fstat f" by (simp add: fstat_def)
  have d: "dom ((st_chassis f)(p \<mapsto> c')) = dom (st_chassis f)" using c(1) by auto
  have "chassis_ok ?f"
    using assms(1) c d unfolding good_def chassis_ok_def node_in_chassis_def chassis_shape_def by simp
  then have "good ?f" using goodI [OF assms(1) s] by simp
  then show ?thesis using s c by (simp add: grown_def chassis_next_def fun_eq_iff)
qed

definition goes :: "'m fabric \<Rightarrow> 'm fabric option \<Rightarrow> bool" where
  "goes f r \<longleftrightarrow> (\<exists>f'. r = Some f' \<and> good f' \<and> grown f f')"

definition runs :: "'m fabric \<Rightarrow> (int \<times> 'm fabric) option \<Rightarrow> bool" where
  "runs f r \<longleftrightarrow> (\<exists>rc f'. r = Some (rc, f') \<and> good f' \<and> grown f f')"

lemma runs_stay [simp]: "good f \<Longrightarrow> runs f (Some (rc, f))"
  by (simp add: runs_def)

lemma goes_stay [simp]: "good f \<Longrightarrow> goes f (Some f)"
  by (simp add: goes_def)

lemma runs_Pair [simp]: "goes f r \<Longrightarrow> runs f (map_option (Pair rc) r)"
  by (auto simp: goes_def runs_def)

lemma runs_bind:
  assumes "runs f r" and "\<And>rc g. r = Some (rc, g) \<Longrightarrow> good g \<Longrightarrow> grown f g \<Longrightarrow> runs g (k (rc, g))"
  shows "runs f (r \<bind> k)"
proof -
  obtain rc g where g: "r = Some (rc, g)" "good g" "grown f g" using assms(1) by (auto simp: runs_def)
  from assms(2) [OF this] obtain rc' h where "k (rc, g) = Some (rc', h)" "good h" "grown g h" by (auto simp: runs_def)
  then show ?thesis using g grown_trans by (auto simp: runs_def)
qed

lemma goes_bind:
  assumes "goes f r" and "\<And>g. r = Some g \<Longrightarrow> good g \<Longrightarrow> grown f g \<Longrightarrow> runs g (k g)"
  shows "runs f (r \<bind> k)"
proof -
  obtain g where g: "r = Some g" "good g" "grown f g" using assms(1) by (auto simp: goes_def)
  from assms(2) [OF this] obtain rc' h where "k g = Some (rc', h)" "good h" "grown g h" by (auto simp: runs_def)
  then show ?thesis using g grown_trans by (auto simp: runs_def)
qed

lemma goes_goes:
  assumes "goes f r" and "\<And>g. r = Some g \<Longrightarrow> good g \<Longrightarrow> grown f g \<Longrightarrow> goes g (k g)"
  shows "goes f (r \<bind> k)"
proof -
  obtain g where g: "r = Some g" "good g" "grown f g" using assms(1) by (auto simp: goes_def)
  from assms(2) [OF this] obtain h where "k g = Some h" "good h" "grown g h" by (auto simp: goes_def)
  then show ?thesis using g grown_trans by (auto simp: goes_def)
qed

lemma runs_for_each:
  assumes "good f" and "\<And>p g. p \<in> set ps \<Longrightarrow> good g \<Longrightarrow> grown f g \<Longrightarrow> runs g (act p g)"
  shows "runs f (for_each act ps f)"
  using assms
proof (induction ps arbitrary: f)
  case (Cons p ps)
  have "runs f (act p f)" using Cons.prems by simp
  then show ?case
    unfolding for_each.simps
  proof (rule runs_bind, unfold prod.case)
    fix rc g assume g: "good g" "grown f g"
    have "runs g (for_each act ps g)"
    proof (rule Cons.IH [OF g(1)])
      show "runs h (act q h)" if "q \<in> set ps" "good h" "grown g h" for q h
        using Cons.prems(2) [of q h] grown_trans [OF g(2)] that by simp
    qed
    then show "runs g (if rc \<noteq> 0 then Some (rc, g) else for_each act ps g)" using g by simp
  qed
qed simp

subsection \<open>What a good fabric answers\<close>

lemma goodD:
  assumes "good f"
  shows "fabric_ok f" "boards_ok f" "chassis_ok f"
    and "st_nodes f p = Some n \<Longrightarrow> node_shape n" "st_nodes f p = Some n \<Longrightarrow> board_fits f n" "st_nodes f p = Some n \<Longrightarrow> node_in_chassis f n"
    and "st_ports f a = Some x \<Longrightarrow> port_wired f x"
    and "st_chassis f c = Some y \<Longrightarrow> chassis_shape f y \<and> c < st_next f"
proof -
  show "fabric_ok f" "boards_ok f" "chassis_ok f" using assms by (simp_all add: good_def)
  then show "st_nodes f p = Some n \<Longrightarrow> node_shape n" "st_nodes f p = Some n \<Longrightarrow> board_fits f n" "st_nodes f p = Some n \<Longrightarrow> node_in_chassis f n"
    and "st_ports f a = Some x \<Longrightarrow> port_wired f x"
    and "st_chassis f c = Some y \<Longrightarrow> chassis_shape f y \<and> c < st_next f"
    using ports_okD(2) by (auto simp: fabric_ok_def boards_ok_def chassis_ok_def)
qed

lemma node_ids:
  assumes "good f" "st_nodes f p = Some n"
  shows "\<exists>v. vendid n = Some v" "\<exists>d. devid n = Some d"
proof -
  have "length (nd_info n) = 64" using goodD(4) [OF assms] by (simp add: node_shape_def)
  then show "\<exists>v. vendid n = Some v" "\<exists>d. devid n = Some d"
    unfolding vendid_def devid_def by (simp_all add: mad_get_field_in [OF fd_IB_NODE_VENDORID_F] mad_get_field_in [OF fd_IB_NODE_DEVID_F])
qed

lemma grown_node:
  assumes "grown f g" "st_nodes f p = Some n"
  shows "\<exists>n'. st_nodes g p = Some n' \<and> nstat n' = nstat n"
  using fstat_node [of f g p n] assms by (auto simp: grown_def)

lemma port_at_good:
  assumes "good f" "st_nodes f node = Some n" "p \<in> set (ports_of n)"
  shows "\<exists>x. port_at node p f = Some x \<and> (\<forall>a. x = Some a \<longrightarrow> Some a \<in> set (ports n) \<and>
     (\<exists>y. st_ports f a = Some y \<and> po_node y = Some node \<and>
       (\<forall>r. remoteport y = Some r \<longrightarrow> (\<exists>z m k. st_ports f r = Some z \<and> po_node z = Some m \<and> st_nodes f m = Some k))))"
proof -
  have sh: "node_shape n" using goodD(4) [OF assms(1,2)] .
  then have i: "p < length (ports n)" using assms(3) by (auto simp: node_shape_def ports_of_def nat_add_distrib)
  have "\<exists>y. st_ports f a = Some y \<and> po_node y = Some node \<and>
       (\<forall>r. remoteport y = Some r \<longrightarrow> (\<exists>z m k. st_ports f r = Some z \<and> po_node z = Some m \<and> st_nodes f m = Some k))"
    if a: "ports n ! p = Some a" for a
  proof -
    have po: "ports_ok f" "links_ok (st_ports f)" using goodD(1) [OF assms(1)] by (simp_all add: fabric_ok_def)
    obtain y where y: "st_ports f a = Some y" "po_node y = Some node" using ports_okD(3) [OF po(1) assms(2) i a] by blast
    have "\<exists>z m k. st_ports f r = Some z \<and> po_node z = Some m \<and> st_nodes f m = Some k" if r: "remoteport y = Some r" for r
    proof -
      obtain z where z: "st_ports f r = Some z" using links_okD [OF po(2) y(1) r] by blast
      show ?thesis using goodD(7) [OF assms(1) z] z unfolding port_wired_def by blast
    qed
    then show ?thesis using y by blast
  qed
  moreover have "port_at node p f = Some (ports n ! p)" using assms(2) i by (simp add: port_at_def node_port_def mem_rd_def)
  moreover have "ports n ! p \<in> set (ports n)" using i by simp
  ultimately show ?thesis by (metis (no_types))
qed

lemma port_cases:
  assumes "good f" "st_nodes f node = Some n" "p \<in> set (ports_of n)"
  obtains (empty) "port_at node p f = Some None"
    | (open_end) a y where "port_at node p f = Some (Some a)" "Some a \<in> set (ports n)" "st_ports f a = Some y"
        "po_node y = Some node" "remoteport y = None"
    | (wired) a y r z m k where "port_at node p f = Some (Some a)" "st_ports f a = Some y"
        "po_node y = Some node" "remoteport y = Some r" "st_ports f r = Some z" "po_node z = Some m" "st_nodes f m = Some k"
proof -
  obtain pa where pa: "port_at node p f = Some pa" "\<forall>a. pa = Some a \<longrightarrow> Some a \<in> set (ports n) \<and>
     (\<exists>y. st_ports f a = Some y \<and> po_node y = Some node \<and>
       (\<forall>r. remoteport y = Some r \<longrightarrow> (\<exists>z m k. st_ports f r = Some z \<and> po_node z = Some m \<and> st_nodes f m = Some k)))"
    using port_at_good [OF assms] by blast
  show thesis
  proof (cases pa)
    case None
    then show thesis using pa(1) empty by simp
  next
    case (Some a)
    then obtain y where y: "Some a \<in> set (ports n)" "st_ports f a = Some y" "po_node y = Some node"
        "\<forall>r. remoteport y = Some r \<longrightarrow> (\<exists>z m k. st_ports f r = Some z \<and> po_node z = Some m \<and> st_nodes f m = Some k)"
      using pa(2) by blast
    show thesis
    proof (cases "remoteport y")
      case None
      then show thesis using open_end pa(1) Some y(1-3) by blast
    next
      case (Some r)
      then show thesis using wired pa(1) \<open>pa = Some a\<close> y(2-4) by blast
    qed
  qed
qed

section \<open>Slots\<close>

definition slotted :: "ibnd_node_t \<Rightarrow> ibnd_node_t \<Rightarrow> bool" where
  "slotted n n' \<longleftrightarrow> nstat n' = nstat n \<and> ch_type_str n' = ch_type_str n \<and> nd_chassis n' = nd_chassis n \<and> ch_slot n' = ch_slot n"

lemma slotted_refl [simp]: "slotted n n" by (simp add: slotted_def)

lemma slotted_slot: "slotted n (n\<lparr>ch_type := t, ch_slotnum := s, ch_anafanum := a\<rparr>)"
  by (simp add: slotted_def nstat_def)

lemma slot_from_total:
  assumes "0 \<le> p" "p \<le> 36" "length st = 37" "length at = 37"
  shows "\<exists>n'. slot_from ct st at p n = Some n' \<and> slotted n n'"
  using slot_from_in [of p st at ct n] assms slotted_slot by simp

lemma sfb_slot_total: "0 \<le> p \<Longrightarrow> p \<le> 36 \<Longrightarrow> \<exists>n'. sfb_slot d p n = Some n' \<and> slotted n n'"
  by (simp add: sfb_slot_def slot_from_total)

lemma slb_slot_total: "0 \<le> p \<Longrightarrow> p \<le> 36 \<Longrightarrow> \<exists>n'. slb_slot d p n = Some n' \<and> slotted n n'"
  by (simp add: slb_slot_def slot_from_total)

lemma router_slot_total: "0 \<le> p \<Longrightarrow> p \<le> 36 \<Longrightarrow> \<exists>n'. router_slot d guid p n = Some n' \<and> slotted n n'"
  by (simp add: router_slot_def slot_from_total table_at_in slotted_slot)

lemma port_node_good:
  assumes "good f" "st_ports f r = Some x"
  shows "\<exists>m n. port_node f r = Some (x, n) \<and> po_node x = Some m \<and> st_nodes f m = Some n"
proof -
  obtain m n where "po_node x = Some m" "st_nodes f m = Some n"
    using goodD(7) [OF assms] unfolding port_wired_def by blast
  then show ?thesis using assms(2) by (simp add: port_node_def)
qed

lemma other_vendor: "vendid n = Some VTR_VENDOR_ID \<Longrightarrow> vendid n \<noteq> Some MLX_VENDOR_ID"
  by (simp add: c_eval)

lemma slotted_voltaire:
  assumes "node_in_chassis f n" "vendid n = Some VTR_VENDOR_ID" "slotted (n\<lparr>ch_slot := s\<rparr>) n'"
  shows "nstat n' = nstat n \<and> node_in_chassis f n'"
proof -
  have st: "nstat n' = nstat n" using assms(3) by (simp add: slotted_def nstat_def)
  then have "vendid n' = Some VTR_VENDOR_ID" using static_ids [OF st] assms(2) by simp
  from other_vendor [OF this] show ?thesis using assms(1,3) st by (auto simp: slotted_def node_in_chassis_def)
qed

lemma get_sfb_slot_goes:
  assumes "good f" "st_nodes f node = Some n" "vendid n = Some VTR_VENDOR_ID" "st_ports f r = Some x" "port_range x"
  shows "goes f (get_sfb_slot node r f)"
proof -
  obtain d where d: "devid n = Some d" using node_ids(2) [OF assms(1,2)] by blast
  obtain n' where n': "sfb_slot d (portnum x) (n\<lparr>ch_slot := SPINE_CS\<rparr>) = Some n'" "slotted (n\<lparr>ch_slot := SPINE_CS\<rparr>) n'"
    using sfb_slot_total assms(5) unfolding port_range_def by blast
  have "nstat n' = nstat n \<and> node_in_chassis f n'"
    using slotted_voltaire [OF goodD(6) [OF assms(1,2)] assms(3) n'(2)] .
  then show ?thesis using good_node [OF assms(1,2)] assms(2,4) d n'(1) by (simp add: get_sfb_slot_def goes_def)
qed

lemma get_slb_slot_goes:
  assumes "good f" "st_nodes f node = Some n" "vendid n = Some VTR_VENDOR_ID" "st_ports f r = Some x" "port_range x"
  shows "goes f (get_slb_slot node r f)"
proof -
  obtain m k where m: "port_node f r = Some (x, k)" "st_nodes f m = Some k" using port_node_good [OF assms(1,4)] by blast
  obtain d where d: "devid k = Some d" using node_ids(2) [OF assms(1) m(2)] by blast
  obtain n' where n': "slb_slot d (portnum x) (n\<lparr>ch_slot := LINE_CS\<rparr>) = Some n'" "slotted (n\<lparr>ch_slot := LINE_CS\<rparr>) n'"
    using slb_slot_total assms(5) unfolding port_range_def by blast
  have "nstat n' = nstat n \<and> node_in_chassis f n'"
    using slotted_voltaire [OF goodD(6) [OF assms(1,2)] assms(3) n'(2)] .
  then show ?thesis using good_node [OF assms(1,2)] assms(2) m(1) d n'(1) by (simp add: get_slb_slot_def goes_def)
qed

lemma get_router_slot_goes:
  assumes "good f" "st_nodes f node = Some n" "st_ports f r = Some x" "port_range x"
  shows "goes f (get_router_slot node r f)"
proof -
  obtain m k where m: "port_node f r = Some (x, k)" "st_nodes f m = Some k" using port_node_good [OF assms(1,3)] by blast
  obtain d where d: "devid k = Some d" using node_ids(2) [OF assms(1) m(2)] by blast
  let ?n = "n\<lparr>ch_found := 1, ch_slot := SRBD_CS\<rparr>"
  obtain n' where n': "router_slot d (nd_guid k) (portnum x) ?n = Some n'" "slotted ?n n'"
    using router_slot_total assms(4) unfolding port_range_def by blast
  have "nstat n' = nstat n" using n'(2) by (simp add: slotted_def nstat_def)
  moreover have "node_in_chassis f n'"
    using goodD(6) [OF assms(1,2)] n'(2) by (auto simp: node_in_chassis_def slotted_def c_eval)
  ultimately show ?thesis using good_node [OF assms(1,2)] assms(2) m(1) d n'(1) by (simp add: get_router_slot_def goes_def)
qed

lemma voltaire_portmap_goes:
  assumes "good f" "st_ports f a = Some x"
  shows "goes f (voltaire_portmap a f)"
proof -
  obtain m k where m: "port_node f a = Some (x, k)" "st_nodes f m = Some k" using port_node_good [OF assms] by blast
  obtain d where d: "devid k = Some d" using node_ids(2) [OF assms(1) m(2)] by blast
  obtain e where e: "ext_port_of d (ch_found k) (ch_anafanum k) (portnum x) = Some e" using ext_port_total by blast
  have "pstat (x\<lparr>ext_portnum := e\<rparr>) = pstat x" by (simp add: pstat_def)
  from good_port [OF assms this] show ?thesis
    using m(1) d e assms(2) by (simp add: voltaire_portmap_def goes_def upd_port_def)
qed

subsection \<open>Voltaire switches\<close>

text \<open>The ports of a Voltaire switch, and what they are wired to, are in the tables.\<close>

lemma voltaire_port:
  assumes "good f" "st_nodes f node = Some n" "vendid n = Some VTR_VENDOR_ID" "st_ports f a = Some x" "po_node x = Some node"
  shows "port_range x" "remoteport x = Some r \<Longrightarrow> st_ports f r = Some y \<Longrightarrow> port_range y"
  using goodD(7) [OF assms(1,4)] assms(2,3,5) unfolding port_wired_def by auto

lemma spine_port_goes:
  assumes "good f" "st_nodes f node = Some n" "vendid n = Some VTR_VENDOR_ID" "p \<in> set (ports_of n)"
  shows "runs f (spine_port_step node x2 p f)"
  using assms(1,2,4)
proof (cases rule: port_cases)
  case (wired a y r z m k)
  note range = voltaire_port [OF assms(1-3) wired(2,3)]
  have "goes f (get_sfb_slot node r f)" by (rule get_sfb_slot_goes [OF assms(1-3) wired(5) range(2) [OF wired(4,5)]])
  moreover have "goes f (get_router_slot m a f)" by (rule get_router_slot_goes [OF assms(1) wired(7,2) range(1)])
  ultimately show ?thesis using wired assms(1,2) by (simp add: spine_port_step_def)
qed (use assms(1) in \<open>simp_all add: spine_port_step_def\<close>)

lemma line_port_goes:
  assumes "good f" "st_nodes f node = Some n" "vendid n = Some VTR_VENDOR_ID" "p \<in> set (ports_of n)"
  shows "runs f (line_port_step node l p f)"
  using assms(1,2,4)
proof (cases rule: port_cases)
  case (wired a y r z m k)
  have "goes f (get_slb_slot node r f)"
    by (rule get_slb_slot_goes [OF assms(1-3) wired(5) voltaire_port(2) [OF assms(1-3) wired(2-5)]])
  then show ?thesis using wired assms(1) by (simp add: line_port_step_def)
qed (use assms(1) in \<open>simp_all add: line_port_step_def\<close>)

lemma router_port_goes:
  assumes "good f" "st_nodes f node = Some n" "vendid n = Some VTR_VENDOR_ID" "p \<in> set (ports_of n)"
    and "devid n = Some d" "is_router d"
  shows "runs f (router_port_step node p f)"
  using assms(1,2,4)
proof (cases rule: port_cases)
  case (open_end a y)
  then show ?thesis using goodD(5) [OF assms(1,2)] assms(3,5,6) unfolding board_fits_def by blast
next
  case (wired a y r z m k)
  obtain e where e: "devid k = Some e" using node_ids(2) [OF assms(1) wired(7)] by blast
  have "goes f (get_router_slot node r f)"
    by (rule get_router_slot_goes [OF assms(1,2) wired(5) voltaire_port(2) [OF assms(1-3) wired(2-5)]])
  then show ?thesis using wired e assms(1) by (simp add: router_port_step_def port_node_def)
qed (use assms(1) in \<open>simp_all add: router_port_step_def\<close>)

lemma map_port_goes:
  assumes "good f" "st_nodes f node = Some n" "p \<in> set (ports_of n)"
  shows "runs f (map_port_step node p f)"
  by (cases rule: port_cases [OF assms]) (use assms(1) in \<open>simp_all add: map_port_step_def voltaire_portmap_goes\<close>)

lemma each_port:
  assumes "good f" "st_nodes f node = Some n"
    and "\<And>p g n'. p \<in> set (ports_of n') \<Longrightarrow> good g \<Longrightarrow> st_nodes g node = Some n' \<Longrightarrow> nstat n' = nstat n \<Longrightarrow> runs g (act p g)"
  shows "runs f (for_each act (ports_of n) f)"
proof (rule runs_for_each [OF assms(1)])
  fix p g
  assume p: "p \<in> set (ports_of n)" and g: "good g" "grown f g"
  obtain n' where n': "st_nodes g node = Some n'" "nstat n' = nstat n" using grown_node [OF g(2) assms(2)] by blast
  have "ports_of n' = ports_of n" using nstatD [OF n'(2)] by (simp add: ports_of_def)
  then show "runs g (act p g)" using assms(3) [of p n' g] p g(1) n' by simp
qed

lemma fill_voltaire_runs:
  assumes "good f" "st_nodes f node = Some n" "vendid n = Some VTR_VENDOR_ID"
  shows "runs f (fill_voltaire_chassis_record node f)"
proof (cases "ch_found n = 0")
  case False
  then show ?thesis using assms by (simp add: fill_voltaire_chassis_record_def)
next
  case True
  obtain d where d: "devid n = Some d" using node_ids(2) [OF assms(1,2)] by blast
  let ?n = "n\<lparr>ch_found := 1\<rparr>"
  let ?f = "f\<lparr>st_nodes := (st_nodes f)(node \<mapsto> ?n)\<rparr>"
  have m: "nstat ?n = nstat n" by (simp add: nstat_def)
  have "node_in_chassis f ?n" using goodD(6) [OF assms(1,2)] by (simp add: node_in_chassis_def vendid_def)
  with good_node [OF assms(1,2) m] have f: "good ?f" "grown f ?f" by simp_all
  have n: "st_nodes ?f node = Some ?n" by simp
  have po: "ports_of n = ports_of ?n" by (simp add: ports_of_def)
  have ids: "vendid n' = Some VTR_VENDOR_ID" "devid n' = Some d" if "nstat n' = nstat ?n" for n'
    using static_ids [of n' n] m that assms(3) d by simp_all
  have a: "runs ?f (for_each (router_port_step node) (ports_of n) ?f)" if "is_router d"
    unfolding po by (rule each_port [OF f(1) n]) (blast intro: router_port_goes ids that)
  have b: "runs ?f (for_each (spine_port_step node x) (ports_of n) ?f)" for x
    unfolding po by (rule each_port [OF f(1) n]) (blast intro: spine_port_goes ids)
  have c: "runs ?f (for_each (line_port_step node x) (ports_of n) ?f)" for x
    unfolding po by (rule each_port [OF f(1) n]) (blast intro: line_port_goes ids)
  have "runs ?f (if is_router d then for_each (router_port_step node) (ports_of n) ?f
        else if is_spine d then for_each (spine_port_step node (is_spine_4700x2 d)) (ports_of n) ?f
        else if is_line d then for_each (line_port_step node (is_line_4700 d)) (ports_of n) ?f
        else Some (0, ?f))"
    by (split if_split)+ (intro conjI impI a b c runs_stay f(1))
  then have "runs ?f ((if is_router d then for_each (router_port_step node) (ports_of n) ?f
        else if is_spine d then for_each (spine_port_step node (is_spine_4700x2 d)) (ports_of n) ?f
        else if is_line d then for_each (line_port_step node (is_line_4700 d)) (ports_of n) ?f
        else Some (0, ?f)) \<bind> (\<lambda>(_, f). for_each (map_port_step node) (ports_of n) f))"
  proof (rule runs_bind, unfold prod.case)
    fix rc g assume g: "good g" "grown ?f g"
    obtain n' where n': "st_nodes g node = Some n'" "nstat n' = nstat ?n" using grown_node [OF g(2) n] by blast
    have "ports_of n' = ports_of n" using nstatD [OF n'(2)] by (simp add: ports_of_def)
    then show "runs g (for_each (map_port_step node) (ports_of n) g)"
      using each_port [OF g(1) n'(1), of "map_port_step node"] map_port_goes by metis
  qed
  then have "runs ?f (fill_voltaire_chassis_record node f)"
    using True assms(2) d unfolding fill_voltaire_chassis_record_def upd_node_def
    by (simp split del: if_split)
  then show ?thesis using f(2) grown_trans by (auto simp: runs_def)
qed

subsection \<open>Mellanox switches\<close>

lemma scan_to_total:
  assumes "i \<le> z" "z < length d" "d ! z = 0"
  shows "\<exists>j. scan_to stops d i = Some j \<and> i \<le> j \<and> j \<le> z \<and> (d ! j \<in> set stops \<or> d ! j = 0)"
proof -
  let ?P = "\<lambda>c. c \<notin> set stops \<and> c \<noteq> 0"
  let ?k = "length (takeWhile ?P (drop i d))"
  have "?k \<le> z - i"
  proof (rule ccontr)
    assume "\<not> ?k \<le> z - i"
    then have l: "z - i < ?k" by simp
    then have "takeWhile ?P (drop i d) ! (z - i) = drop i d ! (z - i)" by (rule takeWhile_nth)
    moreover have "drop i d ! (z - i) = 0" using assms by simp
    moreover have "?P (takeWhile ?P (drop i d) ! (z - i))" using set_takeWhileD [OF nth_mem [OF l]] by blast
    ultimately show False by simp
  qed
  then have j: "i + ?k \<le> z" using assms(1) by simp
  moreover have "\<not> ?P (drop i d ! ?k)" by (rule nth_length_takeWhile) (use j assms in simp)
  ultimately have "i + ?k < length d" "d ! (i + ?k) \<in> set stops \<or> d ! (i + ?k) = 0" using assms by auto
  then show ?thesis using j by (auto simp: scan_to_def Let_def)
qed

lemma cut_part_total:
  assumes "i \<le> z" "z < length d" "d ! z = 0"
  shows "\<exists>r. cut_part stops d i = Some r \<and>
    (\<forall>c d' j. r = Some (c, d', j) \<longrightarrow> length d' = length d \<and> d' ! z = 0 \<and> i \<le> j \<and> j \<le> z)"
proof -
  obtain j where j: "scan_to stops d i = Some j" "i \<le> j" "j \<le> z" using scan_to_total [OF assms] by blast
  show ?thesis
  proof (cases "d ! j = 0")
    case True
    then show ?thesis using j assms(2) by (simp add: cut_part_def mem_rd_def)
  next
    case False
    then have "j < z" using j(3) assms(3) by (cases "j = z") auto
    then show ?thesis using j assms(2,3) False by (simp add: cut_part_def mem_rd_def mem_wr_def)
  qed
qed

lemma mlx_desc_total:
  assumes z: "z < length d" "d ! z = 0" and len: "4 \<le> length d"
  shows "\<exists>r. mlx_desc d = Some r \<and> (\<forall>d' t s i. r = Some (d', t, s, i) \<longrightarrow>
    length d' = length d \<and> d' ! z = 0 \<and> t \<le> z \<and> s \<le> z \<and> i < z)"
proof (cases "take 4 d = [77, 70, 48, 59]")
  case False
  then show ?thesis using len by (simp add: mlx_desc_def mem_load_def)
next
  case magic: True
  have "4 \<le> z"
  proof (rule ccontr)
    assume z4: "\<not> 4 \<le> z"
    then have "[77, 70, 48, 59] ! z = (0 :: u8)" using nth_take [of z 4 d] magic z(2) by simp
    moreover have "z = 0 \<or> z = 1 \<or> z = 2 \<or> z = 3" using z4 by arith
    ultimately show False by auto
  qed
  then obtain r1 where r1: "cut_part [58] d 4 = Some r1" "\<And>c d' j. r1 = Some (c, d', j) \<Longrightarrow> length d' = length d \<and> d' ! z = 0 \<and> j \<le> z"
    using cut_part_total [of 4 z d "[58]"] z by blast
  show ?thesis
  proof (cases r1)
    case None
    then show ?thesis using r1(1) magic len by (simp add: mlx_desc_def mem_load_def)
  next
    case (Some x1)
    then obtain c1 d1 t where x1: "r1 = Some (c1, d1, t)" by (cases x1) auto
    note d1 = r1(2) [OF x1]
    obtain r2 where r2: "cut_part [47] d1 t = Some r2" "\<And>c d' j. r2 = Some (c, d', j) \<Longrightarrow> length d' = length d \<and> d' ! z = 0 \<and> j \<le> z"
      using cut_part_total [of t z d1 "[47]"] d1 z by fastforce
    show ?thesis
    proof (cases r2)
      case None
      then show ?thesis using r1(1) x1 r2(1) magic len by (simp add: mlx_desc_def mem_load_def)
    next
      case (Some x2)
      then obtain c2 d2 s where x2: "r2 = Some (c2, d2, s)" by (cases x2) auto
      note d2 = r2(2) [OF x2]
      obtain r3 where r3: "cut_part [47, 58] d2 s = Some r3" "\<And>c d' j. r3 = Some (c, d', j) \<Longrightarrow> length d' = length d \<and> d' ! z = 0 \<and> j \<le> z"
        using cut_part_total [of s z d2 "[47, 58]"] d2 z by fastforce
      have "\<exists>r4. (case r3 of None \<Rightarrow> Some None | Some (c, d, i) \<Rightarrow> if c = 58 then cut_part [47] d i else Some (Some (c, d, i))) = Some r4 \<and>
          (\<forall>c d' j. r4 = Some (c, d', j) \<longrightarrow> length d' = length d \<and> d' ! z = 0 \<and> j \<le> z)"
      proof (cases r3)
        case (Some x3)
        then obtain c3 d3 k where x3: "r3 = Some (c3, d3, k)" by (cases x3) auto
        then show ?thesis using cut_part_total [of k z d3 "[47]"] r3(2) [OF x3] z by fastforce
      qed simp
      then obtain r4 where r4: "(case r3 of None \<Rightarrow> Some None | Some (c, d, i) \<Rightarrow> if c = 58 then cut_part [47] d i else Some (Some (c, d, i))) = Some r4"
          and x4: "\<And>c d' j. r4 = Some (c, d', j) \<Longrightarrow> length d' = length d \<and> d' ! z = 0 \<and> j \<le> z" by blast
      have m: "mlx_desc d = (case r4 of None \<Rightarrow> Some None
          | Some (_, d, i) \<Rightarrow> do { c \<leftarrow> mem_rd d i; Some (if c \<noteq> 85 then None else Some (d, t, s, i)) })"
        using r1(1) x1 r2(1) x2 r3(1) r4 magic len by (simp add: mlx_desc_def mem_load_def)
      show ?thesis
      proof (cases r4)
        case (Some y)
        then obtain c4 d4 i where y: "r4 = Some (c4, d4, i)" by (cases y) auto
        note d4 = x4 [OF y]
        have "i < z" if "d4 ! i = 85" using d4 that by (cases "i = z") auto
        then show ?thesis using m y d4 d1 d2 z by (auto simp: mem_rd_def)
      qed (simp add: m)
    qed
  qed
qed

lemma atoi_at_total: "d ! z = 0 \<Longrightarrow> z < length d \<Longrightarrow> i \<le> z \<Longrightarrow> \<exists>k. atoi_at d i = Some k"
proof -
  assume "d ! z = 0" "z < length d" "i \<le> z"
  then have "drop i d ! (z - i) = 0" "z - i < length (drop i d)" by simp_all
  then have "0 \<in> set (drop i d)" by (metis nth_mem)
  then show ?thesis by (simp add: atoi_at_def Let_def)
qed

lemma ext_port_goes:
  assumes "good f" "st_nodes f node = Some n" "p \<in> set (ports_of n)"
  shows "runs f (ext_port_step node p f)"
proof -
  have u: "goes f (upd_port a (\<lambda>x. x\<lparr>ext_portnum := int p\<rparr>) f)" if "st_ports f a = Some x" for a x
    using good_port [OF assms(1) that, of "x\<lparr>ext_portnum := int p\<rparr>"] that
    by (simp add: goes_def upd_port_def pstat_def)
  show ?thesis
    by (cases rule: port_cases [OF assms]) (use assms(1) u in \<open>simp_all add: ext_port_step_def\<close>)
qed

lemma str_n_cpy_total:
  assumes "n \<le> length dst"
  shows "\<exists>d. str_n_cpy dst src n = Some d \<and> length d = length dst"
proof -
  let ?s = "take n (takeWhile (\<lambda>b. b \<noteq> 0) src)"
  have l: "length (?s @ replicate (n - length ?s) 0) = n" by simp
  have "mem_store dst 0 (?s @ replicate (n - length ?s) 0) \<noteq> None"
    using assms unfolding mem_store_def l by simp
  then show ?thesis using length_mem_store by (force simp: str_n_cpy_def Let_def)
qed

lemma byte_of_int: "uint (word_of_int k :: u8) = k mod 256"
  by (simp add: uint_word_of_int)

lemma placed_slot:
  assumes "node_in_chassis f n" and "nstat n' = nstat n" "nd_chassis n' = nd_chassis n" "length (ch_type_str n') = CHASSIS_TYPE_SIZE"
    and "ch_slot n' = LINE_CS \<Longrightarrow> unat (ch_slotnum n') \<le> LINES_MAX_NUM" "ch_slot n' = SPINE_CS \<Longrightarrow> unat (ch_slotnum n') \<le> SPINES_MAX_NUM"
  shows "node_in_chassis f n'"
  using assms static_ids [OF assms(2)] by (simp add: node_in_chassis_def)

lemma fill_mellanox_runs:
  assumes "good f" "st_nodes f node = Some n" "vendid n = Some MLX_VENDOR_ID"
  shows "runs f (fill_mellanox_chassis_record node f)"
proof -
  let ?put = "\<lambda>n'. f\<lparr>st_nodes := (st_nodes f)(node \<mapsto> n')\<rparr>"
  obtain d where d: "devid n = Some d" using node_ids(2) [OF assms(1,2)] by blast
  have in_ch: "node_in_chassis f n" by (rule goodD(6) [OF assms(1,2)])
  show ?thesis
  proof (cases "ch_found n \<noteq> 0 \<or> d \<noteq> MLX_DEVID_IS4")
    case True
    then show ?thesis using assms(1,2) d by (auto simp: fill_mellanox_chassis_record_def)
  next
    case False
    then have f0: "ch_found n = 0" and dd: "d = MLX_DEVID_IS4" by simp_all
    have desc: "desc_ok (nodedesc n)" using goodD(5) [OF assms(1,2)] assms(3) d dd unfolding board_fits_def by simp
    have len: "length (nodedesc n) = 64" using goodD(4) [OF assms(1,2)] by (simp add: node_shape_def)
    obtain z where z: "z < length (nodedesc n)" "nodedesc n ! z = 0" using desc by (auto simp: desc_ok_def in_set_conv_nth)
    obtain r where r: "mlx_desc (nodedesc n) = Some r" and parts: "\<And>d' t s i. r = Some (d', t, s, i) \<Longrightarrow>
        length d' = length (nodedesc n) \<and> d' ! z = 0 \<and> t \<le> z \<and> s \<le> z \<and> i < z"
      using mlx_desc_total [OF z] len by (metis (no_types, lifting) numeral_le_iff semiring_norm(68,69,71))
    show ?thesis
    proof (cases r)
      case None
      then show ?thesis using assms(1,2) d dd f0 r by (simp add: fill_mellanox_chassis_record_def Let_def)
    next
      case (Some q)
      then obtain d' t s i where q: "r = Some (d', t, s, i)" by (cases q) auto
      note p = parts [OF q]
      obtain anafa where anafa: "atoi_at d' (Suc i) = Some anafa" using atoi_at_total [of d' z "Suc i"] p z by auto
      have c: "mem_rd d' s = Some (d' ! s)" using p z by (simp add: mem_rd_def)
      let ?n1 = "n\<lparr>ch_anafanum := word_of_int anafa\<rparr>"
      show ?thesis
      proof (cases "d' ! s = 76 \<or> d' ! s = 83")
        case False
        have "good (?put ?n1) \<and> grown f (?put ?n1)"
          by (rule good_node [OF assms(1,2)]) (use in_ch in \<open>simp_all add: nstat_def node_in_chassis_def vendid_def\<close>)
        then show ?thesis
          using False assms(2) d dd f0 r q anafa c by (simp add: fill_mellanox_chassis_record_def Let_def runs_def)
      next
        case slot: True
        then have "s < z" using p by (cases "s = z") auto
        then obtain k where k: "atoi_at d' (Suc s) = Some k" using atoi_at_total [of d' z "Suc s"] p z by auto
        have k': "d' ! s = 76 \<Longrightarrow> k mod 256 \<noteq> 37" "d' ! s = 83 \<Longrightarrow> k mod 256 \<noteq> 19"
          using desc r q k unfolding desc_ok_def by (auto simp: c_eval)
        define sl where "sl = (if d' ! s = 76 then LINE_CS else SPINE_CS)"
        let ?n2 = "\<lambda>num. n\<lparr>ch_anafanum := word_of_int anafa, ch_slot := sl, ch_found := 1, ch_slotnum := num\<rparr>"
        let ?bad = "(sl = LINE_CS \<and> unat (word_of_int k :: u8) > LINES_MAX_NUM + 1) \<or>
                  (sl = SPINE_CS \<and> unat (word_of_int k :: u8) > SPINES_MAX_NUM + 1)"
        have tl: "length (ch_type_str n) = CHASSIS_TYPE_SIZE" using in_ch by (simp add: node_in_chassis_def)
        obtain ts where ts: "str_n_cpy (ch_type_str n) (drop t d') (CHASSIS_TYPE_SIZE - 1) = Some ts" "length ts = CHASSIS_TYPE_SIZE"
          using str_n_cpy_total [of "CHASSIS_TYPE_SIZE - 1" "ch_type_str n"] tl by fastforce
        have n0: "good (?put (?n2 0)) \<and> grown f (?put (?n2 0))"
          by (rule good_node [OF assms(1,2)], simp add: nstat_def, rule placed_slot [OF in_ch]) (use tl in \<open>simp_all add: nstat_def\<close>)
        have n2: "good (?put (?n2 num\<lparr>ch_type_str := ts\<rparr>)) \<and> grown f (?put (?n2 num\<lparr>ch_type_str := ts\<rparr>))"
          if "sl = LINE_CS \<Longrightarrow> unat num \<le> LINES_MAX_NUM" "sl = SPINE_CS \<Longrightarrow> unat num \<le> SPINES_MAX_NUM" for num
          by (rule good_node [OF assms(1,2)], simp add: nstat_def, rule placed_slot [OF in_ch]) (use that ts(2) in \<open>simp_all add: nstat_def\<close>)
        have u: "unat (word_of_int k :: u8) = nat (k mod 256)" by (simp only: unat_eq_nat_uint byte_of_int)
        have small: "sl = LINE_CS \<Longrightarrow> unat (word_of_int k :: u8) \<le> LINES_MAX_NUM" "sl = SPINE_CS \<Longrightarrow> unat (word_of_int k :: u8) \<le> SPINES_MAX_NUM"
          if "\<not> ?bad"
          using that k' slot unfolding u by (auto simp: sl_def LINES_MAX_NUM_def SPINES_MAX_NUM_def c_eval split: if_splits)
        have cs: "\<not> (d' ! s \<noteq> 76 \<and> d' ! s \<noteq> 83)" using slot by blast
        have e: "fill_mellanox_chassis_record node f =
            (if ?bad then Some (0, ?put (?n2 0))
             else if sl = LINE_CS then for_each (ext_port_step node) [1..<Suc (nat (min (numports n) 18))] (?put (?n2 (word_of_int k)\<lparr>ch_type_str := ts\<rparr>))
             else Some (0, ?put (?n2 (word_of_int k)\<lparr>ch_type_str := ts\<rparr>)))"
          unfolding fill_mellanox_chassis_record_def Let_def
          by (simp add: assms(2) f0 d dd r q anafa c k ts(1) [unfolded One_nat_def] if_not_P [OF cs] sl_def [symmetric] cong: if_cong split del: if_split)
        show ?thesis
        proof (cases ?bad)
          case True
          show ?thesis unfolding e if_P [OF True] using n0 by (simp add: runs_def)
        next
          case False
          let ?g = "?put (?n2 (word_of_int k)\<lparr>ch_type_str := ts\<rparr>)"
          have g: "good ?g" "grown f ?g" using n2 [OF small(1) [OF False] small(2) [OF False]] by simp_all
          have "runs ?g (for_each (ext_port_step node) [1..<Suc (nat (min (numports n) 18))] ?g)"
          proof (rule runs_for_each [OF g(1)])
            fix a h assume a: "a \<in> set [1..<Suc (nat (min (numports n) 18))]" and h: "good h" "grown ?g h"
            obtain n' where n': "st_nodes h node = Some n'" "nstat n' = nstat n"
              using grown_node [OF grown_trans [OF g(2) h(2)] assms(2)] by blast
            have "a \<in> set (ports_of n')" using a nstatD [OF n'(2)] by (auto simp: ports_of_def)
            then show "runs h (ext_port_step node a h)" by (rule ext_port_goes [OF h(1) n'(1)])
          qed
          then have "runs f (for_each (ext_port_step node) [1..<Suc (nat (min (numports n) 18))] ?g)"
            using g(2) grown_trans unfolding runs_def by blast
          moreover have "runs f (Some (0, ?g))" using g by (simp add: runs_def)
          ultimately show ?thesis unfolding e if_not_P [OF False] by (split if_split) (intro conjI impI)
        qed
      qed
    qed
  qed
qed

section \<open>Building a chassis\<close>

lemma line_index_total:
  assumes "good f" "st_nodes f p = Some n"
  shows "\<exists>i. get_line_index n = Some i \<and> (i = -1 \<or> 1 \<le> i \<and> i \<le> int LINES_MAX_NUM)"
  using node_ids(2) [OF assms] by (auto simp: get_line_index_def Let_def)

lemma spine_index_total:
  assumes "good f" "st_nodes f p = Some n"
  shows "\<exists>i. get_spine_index n = Some i \<and> (i = -1 \<or> 1 \<le> i \<and> i \<le> int SPINES_MAX_NUM)"
  using node_ids(2) [OF assms] by (auto simp: get_spine_index_def Let_def)

lemma upd_node_chassis_goes:
  assumes "good f" "node \<in> dom (st_nodes f)" "ch \<in> dom (st_chassis f)"
  shows "goes f (upd_node node (\<lambda>n. n\<lparr>nd_chassis := Some ch\<rparr>) f)"
proof -
  obtain n where n: "st_nodes f node = Some n" using assms(2) by blast
  let ?n = "n\<lparr>nd_chassis := Some ch\<rparr>"
  have "nstat ?n = nstat n" by (simp add: nstat_def)
  moreover have "node_in_chassis f ?n"
    using goodD(6) [OF assms(1) n] assms(3) by (auto simp: node_in_chassis_def vendid_def)
  ultimately show ?thesis using good_node [OF assms(1) n] n by (simp add: goes_def upd_node_def)
qed

lemma upd_chassis_goes:
  assumes "good f" "st_chassis f ch = Some c" "chs_next (h c) = chs_next c" "chassis_shape f (h c)"
  shows "goes f (upd_chassis ch h f)"
  using good_chassis [OF assms] assms(2) by (simp add: goes_def upd_chassis_def)

lemma grown_dom:
  assumes "grown f g"
  shows "dom (st_nodes g) = dom (st_nodes f)" "dom (st_chassis g) = dom (st_chassis f)"
proof -
  have g: "fstat g = fstat f" "chassis_next g = chassis_next f" using assms by (auto simp: grown_def)
  have n: "st_nodes g p = None \<longleftrightarrow> st_nodes f p = None" for p using fstatD(1) [OF g(1), of p] by (metis map_option_is_None)
  have c: "st_chassis g p = None \<longleftrightarrow> st_chassis f p = None" for p
    using fun_cong [OF g(2), of p] unfolding chassis_next_def by (metis map_option_is_None)
  show "dom (st_nodes g) = dom (st_nodes f)" "dom (st_chassis g) = dom (st_chassis f)" by (auto simp: dom_def n c)
qed

lemma goes_dom:
  assumes "goes f r" "r = Some g"
  shows "good g" "dom (st_nodes g) = dom (st_nodes f)" "dom (st_chassis g) = dom (st_chassis f)"
  using assms grown_dom [of f g] by (auto simp: goes_def)

lemma put_in_slot:
  assumes "good f" "node \<in> dom (st_nodes f)" "st_chassis f ch = Some c" "chs_next (h c) = chs_next c" "chassis_shape f (h c)"
  shows "goes f (do { f \<leftarrow> upd_chassis ch h f; upd_node node (\<lambda>n. n\<lparr>nd_chassis := Some ch\<rparr>) f })"
proof (rule goes_goes)
  show u: "goes f (upd_chassis ch h f)" by (rule upd_chassis_goes [of f ch c]) (use assms in simp_all)
  fix g assume "upd_chassis ch h f = Some g" "good g" "grown f g"
  with goes_dom [OF u] show "goes g (upd_node node (\<lambda>n. n\<lparr>nd_chassis := Some ch\<rparr>) g)"
    by (intro upd_node_chassis_goes) (use assms(2,3) in auto)
qed

lemma slots_shape:
  assumes "chassis_shape f c" "node \<in> dom (st_nodes f)"
  shows "chassis_shape f (c\<lparr>linenode := (linenode c)[i := Some node]\<rparr>)" "chassis_shape f (c\<lparr>spinenode := (spinenode c)[i := Some node]\<rparr>)"
  using assms set_update_subset_insert [of "linenode c" i "Some node"] set_update_subset_insert [of "spinenode c" i "Some node"]
  unfolding chassis_shape_def by auto

lemma insert_line_router_runs:
  assumes "good f" "node \<in> dom (st_nodes f)" "ch \<in> dom (st_chassis f)"
  shows "runs f (insert_line_router node ch f)"
proof -
  obtain n c where n: "st_nodes f node = Some n" and c: "st_chassis f ch = Some c" using assms by blast
  obtain i where i: "get_line_index n = Some i" "i = -1 \<or> 1 \<le> i \<and> i \<le> int LINES_MAX_NUM" using line_index_total [OF assms(1) n] by blast
  have sh: "chassis_shape f c" using goodD(8) [OF assms(1) c] by simp
  have "goes f (do { f \<leftarrow> upd_chassis ch (\<lambda>c. c\<lparr>linenode := (linenode c)[nat i := Some node]\<rparr>) f;
      upd_node node (\<lambda>n. n\<lparr>nd_chassis := Some ch\<rparr>) f })"
    by (rule put_in_slot [OF assms(1,2) c]) (simp_all add: slots_shape [OF sh assms(2)])
  then have "runs f (do { f \<leftarrow> upd_chassis ch (\<lambda>c. c\<lparr>linenode := (linenode c)[nat i := Some node]\<rparr>) f;
      f \<leftarrow> upd_node node (\<lambda>n. n\<lparr>nd_chassis := Some ch\<rparr>) f; Some (0, f) })"
    by (auto simp: goes_def runs_def Option.bind_eq_Some_conv)
  moreover have "table_at (linenode c) i = Some (linenode c ! nat i)" if "i \<noteq> -1"
    using that i(2) sh by (auto simp: chassis_shape_def intro: table_at_in)
  ultimately show ?thesis using n c i assms(1) by (auto simp: insert_line_router_def)
qed

lemma insert_spine_runs:
  assumes "good f" "node \<in> dom (st_nodes f)" "ch \<in> dom (st_chassis f)"
  shows "runs f (insert_spine node ch f)"
proof -
  obtain n c where n: "st_nodes f node = Some n" and c: "st_chassis f ch = Some c" using assms by blast
  obtain i where i: "get_spine_index n = Some i" "i = -1 \<or> 1 \<le> i \<and> i \<le> int SPINES_MAX_NUM" using spine_index_total [OF assms(1) n] by blast
  have sh: "chassis_shape f c" using goodD(8) [OF assms(1) c] by simp
  have "goes f (do { f \<leftarrow> upd_chassis ch (\<lambda>c. c\<lparr>spinenode := (spinenode c)[nat i := Some node]\<rparr>) f;
      upd_node node (\<lambda>n. n\<lparr>nd_chassis := Some ch\<rparr>) f })"
    by (rule put_in_slot [OF assms(1,2) c]) (simp_all add: slots_shape [OF sh assms(2)])
  then have "runs f (do { f \<leftarrow> upd_chassis ch (\<lambda>c. c\<lparr>spinenode := (spinenode c)[nat i := Some node]\<rparr>) f;
      f \<leftarrow> upd_node node (\<lambda>n. n\<lparr>nd_chassis := Some ch\<rparr>) f; Some (0, f) })"
    by (auto simp: goes_def runs_def Option.bind_eq_Some_conv)
  moreover have "table_at (spinenode c) i = Some (spinenode c ! nat i)" if "i \<noteq> -1"
    using that i(2) sh by (auto simp: chassis_shape_def intro: table_at_in)
  ultimately show ?thesis using n c i assms(1) by (auto simp: insert_spine_def)
qed

lemma insert_mellanox_goes:
  assumes "good f" "st_nodes f node = Some n" "vendid n = Some MLX_VENDOR_ID" "ch \<in> dom (st_chassis f)"
  shows "goes f (insert_mellanox_line_and_spine node ch f)"
proof -
  obtain c where c: "st_chassis f ch = Some c" using assms(4) by blast
  have sh: "chassis_shape f c" using goodD(8) [OF assms(1) c] by simp
  have d: "node \<in> dom (st_nodes f)" using assms(2) by blast
  let ?i = "unat (ch_slotnum n)"
  have l: "goes f (do { f \<leftarrow> upd_chassis ch (\<lambda>c. c\<lparr>linenode := (linenode c)[?i := Some node]\<rparr>) f;
      upd_node node (\<lambda>n. n\<lparr>nd_chassis := Some ch\<rparr>) f })"
    by (rule put_in_slot [OF assms(1) d c]) (simp_all add: slots_shape [OF sh d])
  have s: "goes f (do { f \<leftarrow> upd_chassis ch (\<lambda>c. c\<lparr>spinenode := (spinenode c)[?i := Some node]\<rparr>) f;
      upd_node node (\<lambda>n. n\<lparr>nd_chassis := Some ch\<rparr>) f })"
    by (rule put_in_slot [OF assms(1) d c]) (simp_all add: slots_shape [OF sh d])
  have "mem_rd (linenode c) ?i = Some (linenode c ! ?i)" if "ch_slot n = LINE_CS"
    using that goodD(6) [OF assms(1,2)] assms(3) sh by (simp add: node_in_chassis_def chassis_shape_def mem_rd_def)
  moreover have "mem_rd (spinenode c) ?i = Some (spinenode c ! ?i)" if "ch_slot n = SPINE_CS"
    using that goodD(6) [OF assms(1,2)] assms(3) sh by (simp add: node_in_chassis_def chassis_shape_def mem_rd_def)
  ultimately show ?thesis using assms(1,2) c l s by (simp add: insert_mellanox_line_and_spine_def Let_def)
qed

subsection \<open>The passes over the boards\<close>

lemma wired_step_runs:
  assumes "good f" "st_nodes f node = Some n" "p \<in> set (ports_of n)"
    and "\<And>m. m \<in> dom (st_nodes f) \<Longrightarrow> runs f (act m f)"
  shows "runs f (wired_step act skip node p f)"
  using assms(1-3)
proof (cases rule: port_cases)
  case (wired a y r z m k)
  then have "runs f (act m f)" using assms(4) by blast
  then show ?thesis using wired assms(1) by (simp add: wired_step_def)
qed (use assms(1) in \<open>simp_all add: wired_step_def\<close>)

lemma wired_runs:
  assumes "good f" "st_nodes f node = Some n" "ch \<in> dom (st_chassis f)"
    and "\<And>g m. good g \<Longrightarrow> m \<in> dom (st_nodes g) \<Longrightarrow> ch \<in> dom (st_chassis g) \<Longrightarrow> runs g (act m g)"
  shows "runs f (for_each (wired_step act skip node) (ports_of n) f)"
proof (rule runs_for_each [OF assms(1)])
  fix p g assume p: "p \<in> set (ports_of n)" and g: "good g" "grown f g"
  obtain n' where n': "st_nodes g node = Some n'" "nstat n' = nstat n" using grown_node [OF g(2) assms(2)] by blast
  have "p \<in> set (ports_of n')" using p nstatD [OF n'(2)] by (simp add: ports_of_def)
  then show "runs g (wired_step act skip node p g)"
    using wired_step_runs [OF g(1) n'(1)] assms(3,4) g grown_dom [OF g(2)] by blast
qed

lemma line_pass_runs:
  assumes "good f" "ch \<in> dom (st_chassis f)" "i \<le> LINES_MAX_NUM"
  shows "runs f (line_pass_step ch i f)"
proof -
  obtain c where c: "st_chassis f ch = Some c" using assms(2) by blast
  have sh: "chassis_shape f c" using goodD(8) [OF assms(1) c] by simp
  then have i: "mem_rd (linenode c) i = Some (linenode c ! i)" "linenode c ! i \<in> set (linenode c)"
    using assms(3) by (simp_all add: chassis_shape_def mem_rd_def)
  show ?thesis
  proof (cases "linenode c ! i")
    case None
    then show ?thesis using c i assms(1) by (simp add: line_pass_step_def)
  next
    case (Some node)
    then obtain n where n: "st_nodes f node = Some n" using sh i(2) unfolding chassis_shape_def by fastforce
    obtain d where d: "devid n = Some d" using node_ids(2) [OF assms(1) n] by blast
    let ?r = "for_each (wired_step (\<lambda>m. insert_spine m ch) (\<lambda>p. (is_line_4700 d \<and> p > 18) \<or> (\<not> is_line_4700 d \<and> p > 12)) node) (ports_of n) f"
    have "runs f ?r" by (rule wired_runs [OF assms(1) n assms(2)]) (rule insert_spine_runs)
    then have "runs f (?r \<bind> (\<lambda>(rc, f). Some (if rc \<noteq> 0 then -1 else 0, f)))"
      by (rule runs_bind) simp
    then show ?thesis using c i n d Some assms(1) by (simp add: line_pass_step_def)
  qed
qed

lemma spine_pass_runs:
  assumes "good f" "ch \<in> dom (st_chassis f)" "i \<le> SPINES_MAX_NUM"
  shows "runs f (spine_pass_step ch i f)"
proof -
  obtain c where c: "st_chassis f ch = Some c" using assms(2) by blast
  have sh: "chassis_shape f c" using goodD(8) [OF assms(1) c] by simp
  then have i: "mem_rd (spinenode c) i = Some (spinenode c ! i)" "spinenode c ! i \<in> set (spinenode c)"
    using assms(3) by (simp_all add: chassis_shape_def mem_rd_def)
  show ?thesis
  proof (cases "spinenode c ! i")
    case None
    then show ?thesis using c i assms(1) by (simp add: spine_pass_step_def)
  next
    case (Some node)
    then obtain n where n: "st_nodes f node = Some n" using sh i(2) unfolding chassis_shape_def by fastforce
    obtain d where d: "devid n = Some d" using node_ids(2) [OF assms(1) n] by blast
    let ?r = "for_each (wired_step (\<lambda>m. insert_line_router m ch) (\<lambda>p. is_spine_4700x2 d \<and> p > 18) node) (ports_of n) f"
    have "runs f ?r" by (rule wired_runs [OF assms(1) n assms(2)]) (rule insert_line_router_runs)
    then have "runs f (?r \<bind> (\<lambda>(rc, f). Some (if rc \<noteq> 0 then -1 else 0, f)))"
      by (rule runs_bind) simp
    then show ?thesis using c i n d Some assms(1) by (simp add: spine_pass_step_def)
  qed
qed

definition always :: "'m fabric \<Rightarrow> ('m fabric \<Rightarrow> (int \<times> 'm fabric) option) \<Rightarrow> bool" where
  \<comment> \<open>it runs from whatever grows out of \<open>f\<close>\<close>
  "always f k \<longleftrightarrow> (\<forall>g. good g \<longrightarrow> grown f g \<longrightarrow> runs g (k g))"

lemma always_then:
  assumes "always f r" "always f k"
  shows "always f (\<lambda>g. and_then (r g) k)"
  unfolding always_def and_then_def
proof (intro allI impI)
  fix g assume g: "good g" "grown f g"
  show "runs g (r g \<bind> (\<lambda>(rc, s). if rc \<noteq> 0 then Some (-1, s) else k s))"
  proof (rule runs_bind, unfold prod.case)
    show "runs g (r g)" using assms(1) g unfolding always_def by blast
    show "runs h (if rc \<noteq> 0 then Some (-1, h) else k h)" if "good h" "grown g h" for rc h
      using that assms(2) grown_trans [OF g(2)] unfolding always_def by simp
  qed
qed

lemma passes_run:
  assumes "good f" "ch \<in> dom (st_chassis f)"
  shows "runs f (pass_on_lines_catch_spines ch f)" "runs f (pass_on_spines_catch_lines ch f)"
proof -
  have d: "ch \<in> dom (st_chassis g)" if "grown f g" for g using grown_dom(2) [OF that] assms(2) by simp
  show "runs f (pass_on_lines_catch_spines ch f)"
    unfolding pass_on_lines_catch_spines_def by (rule runs_for_each [OF assms(1)], rule line_pass_runs) (use d in auto)
  show "runs f (pass_on_spines_catch_lines ch f)"
    unfolding pass_on_spines_catch_lines_def by (rule runs_for_each [OF assms(1)], rule spine_pass_runs) (use d in auto)
qed

lemma interpolate_goes:
  assumes "good f" "ch \<in> dom (st_chassis f)"
  shows "goes f (pass_on_spines_interpolate_chguid ch f)"
proof -
  obtain c where c: "st_chassis f ch = Some c" using assms(2) by blast
  have sh: "chassis_shape f c" using goodD(8) [OF assms(1) c] by simp
  show ?thesis
  proof (cases "first_spine c")
    case None
    then show ?thesis using c assms(1) by (simp add: pass_on_spines_interpolate_chguid_def)
  next
    case (Some node)
    then have "Some node \<in> set (spinenode c)"
      using in_set_dropD [of "Some node" 1 "spinenode c"] by (auto simp: first_spine_def dest!: find_SomeD split: option.splits)
    then obtain n where n: "st_nodes f node = Some n" using sh unfolding chassis_shape_def by blast
    have "goes f (upd_chassis ch (\<lambda>c. c\<lparr>chassisguid := nd_guid n - 1\<rparr>) f)"
      by (rule upd_chassis_goes [OF assms(1) c]) (use sh in \<open>simp_all add: chassis_shape_def\<close>)
    then show ?thesis using c Some n by (simp add: pass_on_spines_interpolate_chguid_def)
  qed
qed

lemma first_lines_runs:
  assumes "good f" "st_nodes f node = Some n" "p \<in> set (ports_of n)" "ch \<in> dom (st_chassis f)"
  shows "runs f (first_lines_step node ch p f)"
proof -
  obtain d where d: "devid n = Some d" using node_ids(2) [OF assms(1,2)] by blast
  have "runs f (map_option (\<lambda>(_, f). (0, f)) (insert_line_router m ch f))" if "m \<in> dom (st_nodes f)" for m
    using insert_line_router_runs [OF assms(1) that assms(4)] by (auto simp: runs_def)
  from wired_step_runs [where act = "\<lambda>m f. map_option (\<lambda>(_, f). (0, f)) (insert_line_router m ch f)", OF assms(1-3) this]
  show ?thesis using assms(2) d by (simp add: first_lines_step_def)
qed

lemma build_chassis_runs:
  assumes "good f" "node \<in> dom (st_nodes f)" "ch \<in> dom (st_chassis f)"
  shows "runs f (build_chassis node ch f)"
proof -
  have ch: "ch \<in> dom (st_chassis g)" and node: "node \<in> dom (st_nodes g)" if "grown f g" for g
    using grown_dom [OF that] assms(2,3) by simp_all
  have spine: "always f (insert_spine node ch)"
    unfolding always_def using insert_spine_runs node ch by blast
  have passes: "always f (pass_on_lines_catch_spines ch)" "always f (pass_on_spines_catch_lines ch)"
    unfolding always_def using passes_run ch by blast+
  have guid: "always f (\<lambda>f. map_option (Pair 0) (pass_on_spines_interpolate_chguid ch f))"
    unfolding always_def by (intro allI impI runs_Pair interpolate_goes ch)
  note tail = always_then [OF passes(1) always_then [OF passes(2) always_then [OF passes(1) always_then [OF passes(2) guid]]]]
  have "always f (\<lambda>f. do { n \<leftarrow> st_nodes f node; (_, f) \<leftarrow> for_each (first_lines_step node ch) (ports_of n) f;
      and_then (pass_on_lines_catch_spines ch f) (\<lambda>f. and_then (pass_on_spines_catch_lines ch f) (\<lambda>f. and_then (pass_on_lines_catch_spines ch f)
      (\<lambda>f. and_then (pass_on_spines_catch_lines ch f) (\<lambda>f. map_option (Pair 0) (pass_on_spines_interpolate_chguid ch f))))) })"
    (is "always f (\<lambda>f. st_nodes f node \<bind> (\<lambda>n. _ n f \<bind> (\<lambda>(_, f). ?tail f)))")
    unfolding always_def
  proof (intro allI impI)
    fix g assume g: "good g" "grown f g"
    then obtain n where n: "st_nodes g node = Some n" using node by blast
    have each: "runs g (for_each (first_lines_step node ch) (ports_of n) g)"
    proof (rule runs_for_each [OF g(1)])
      fix p h assume p: "p \<in> set (ports_of n)" and h: "good h" "grown g h"
      obtain n' where n': "st_nodes h node = Some n'" "nstat n' = nstat n" using grown_node [OF h(2) n] by blast
      have "p \<in> set (ports_of n')" using p nstatD [OF n'(2)] by (simp add: ports_of_def)
      then show "runs h (first_lines_step node ch p h)"
        using first_lines_runs [OF h(1) n'(1)] ch [OF grown_trans [OF g(2) h(2)]] by blast
    qed
    have "runs g (for_each (first_lines_step node ch) (ports_of n) g \<bind> (\<lambda>(_, f). ?tail f))"
    proof (rule runs_bind [OF each], unfold prod.case)
      show "runs h (?tail h)" if "good h" "grown g h" for h
        using tail that(1) grown_trans [OF g(2) that(2)] unfolding always_def by blast
    qed
    then show "runs g (st_nodes g node \<bind> (\<lambda>n. for_each (first_lines_step node ch) (ports_of n) g \<bind> (\<lambda>(_, f). ?tail f)))"
      using n by simp
  qed
  from always_then [OF spine this] show ?thesis
    using assms(1) unfolding always_def build_chassis_def by simp
qed

section \<open>Grouping\<close>

definition scan_ok :: "'m fabric \<Rightarrow> 'm chassis_scan_t \<Rightarrow> bool" where
  \<comment> \<open>the chassis made so far are one list, of which the fabric knows nothing or the start\<close>
  "scan_ok f0 s \<longleftrightarrow> good (gr_fab s) \<and> fstat (gr_fab s) = fstat f0 \<and> st_next f0 \<le> st_next (gr_fab s) \<and>
     (\<exists>cs. path (chassis_next (gr_fab s)) (first_chassis s) cs \<and> set cs = dom (st_chassis (gr_fab s)) \<and>
        (cs \<noteq> [] \<longrightarrow> last_chassis s = Some (last cs))) \<and>
     (fb_chassis (gr_fab s) = None \<or> fb_chassis (gr_fab s) = first_chassis s)"

definition scans :: "'m fabric \<Rightarrow> (int \<times> 'm chassis_scan_t) option \<Rightarrow> bool" where
  "scans f0 r \<longleftrightarrow> (\<exists>rc s. r = Some (rc, s) \<and> scan_ok f0 s)"

lemma scans_stay [simp]: "scan_ok f0 s \<Longrightarrow> scans f0 (Some (rc, s))"
  by (simp add: scans_def)

lemma scan_fab:
  assumes "scan_ok f0 s" "good g" "grown (gr_fab s) g"
  shows "scan_ok f0 (s\<lparr>gr_fab := g\<rparr>)"
  using assms grown_dom [OF assms(3)] unfolding scan_ok_def grown_def by auto

lemma scan_num: "scan_ok f0 (s\<lparr>next_num := k\<rparr>) = scan_ok f0 s"
  by (simp add: scan_ok_def)

lemma in_scan_scans:
  assumes "scan_ok f0 s" "runs (gr_fab s) r"
  shows "scans f0 (in_scan r s)"
  using assms scan_fab [OF assms(1)] by (auto simp: runs_def scans_def in_scan_def)

lemma path_snoc:
  assumes "path next x cs" "cs \<noteq> []" "a \<notin> set cs" "next' (last cs) = Some (Some a)" "next' a = Some None"
    and "\<And>p. p \<in> set cs \<Longrightarrow> p \<noteq> last cs \<Longrightarrow> next' p = next p"
  shows "path next' x (cs @ [a])"
  using assms
proof (induction cs arbitrary: x)
  case (Cons c cs)
  then obtain y where y: "x = Some c" "next c = Some y" "path next y cs" by auto
  show ?case
  proof (cases "cs = []")
    case True
    then show ?thesis using Cons.prems y(1) by simp
  next
    case False
    have "c \<notin> set cs" using path_distinct [OF Cons.prems(1)] by simp
    then have "next' c = next c" using Cons.prems(6) [of c] False by (metis last_ConsR last_in_set list.set_intros(1))
    moreover have "path next' y (cs @ [a])"
      by (rule Cons.IH [OF y(3) False]) (use Cons.prems False in simp_all)
    ultimately show ?thesis using y(1,2) by simp
  qed
qed simp

lemma good_more:
  assumes "good f" and "c = chassis_zero"
  shows "good (f\<lparr>st_next := Suc (st_next f), st_chassis := (st_chassis f)(st_next f \<mapsto> c)\<rparr>)"
    and "good (f\<lparr>st_next := Suc (st_next f)\<rparr>)"
proof -
  have z: "chassis_shape f chassis_zero" by (simp add: chassis_shape_def chassis_zero_def c_eval)
  have ok: "chassis_ok f" using assms(1) by (simp add: good_def)
  show "good (f\<lparr>st_next := Suc (st_next f), st_chassis := (st_chassis f)(st_next f \<mapsto> c)\<rparr>)"
    by (rule goodI [OF assms(1)])
      (use ok z assms(2) in \<open>auto simp: fstat_def chassis_ok_def node_in_chassis_def chassis_shape_def less_Suc_eq\<close>)
  show "good (f\<lparr>st_next := Suc (st_next f)\<rparr>)"
    by (rule goodI [OF assms(1)])
      (use ok in \<open>auto simp: fstat_def chassis_ok_def node_in_chassis_def chassis_shape_def less_Suc_eq\<close>)
qed

lemma add_chassis_scans:
  assumes ok: "scan_ok f0 s"
  shows "\<exists>rc s'. add_chassis s = Some (rc, s') \<and> scan_ok f0 s' \<and> next_num s' = next_num s \<and>
    (rc = 0 \<longrightarrow> (\<exists>a. current_chassis s' = Some a \<and> a \<in> dom (st_chassis (gr_fab s'))))"
proof -
  let ?f = "gr_fab s"
  let ?a = "st_next ?f"
  obtain cs where cs: "path (chassis_next ?f) (first_chassis s) cs" "set cs = dom (st_chassis ?f)" "cs \<noteq> [] \<longrightarrow> last_chassis s = Some (last cs)"
    and g: "good ?f" "fstat ?f = fstat f0" "st_next f0 \<le> st_next ?f" "fb_chassis ?f = None \<or> fb_chassis ?f = first_chassis s"
    using ok unfolding scan_ok_def by blast
  have a: "?a \<notin> set cs"
  proof
    assume "?a \<in> set cs"
    then obtain c where "st_chassis ?f ?a = Some c" using cs(2) by blast
    with goodD(8) [OF g(1)] show False by fastforce
  qed
  let ?g = "?f\<lparr>st_next := Suc ?a, st_chassis := (st_chassis ?f)(?a \<mapsto> chassis_zero)\<rparr>"
  show ?thesis
  proof (cases "st_alloc ?f ?a")
    case False
    have "scan_ok f0 (s\<lparr>current_chassis := None, gr_fab := ?f\<lparr>st_next := Suc ?a\<rparr>\<rparr>)"
      using cs g good_more(2) [OF g(1) refl] unfolding scan_ok_def by (auto simp: fstat_def chassis_next_def [abs_def])
    then show ?thesis using False by (simp add: add_chassis_def new_addr_def)
  next
    case True
    show ?thesis
    proof (cases "first_chassis s")
      case None
      then have "cs = []" using cs(1) by (cases cs) auto
      then have "scan_ok f0 (s\<lparr>current_chassis := Some ?a, first_chassis := Some ?a, last_chassis := Some ?a, gr_fab := ?g\<rparr>)"
        unfolding scan_ok_def using cs g None good_more(1) [OF g(1) refl]
        by (auto simp: fstat_def chassis_next_def chassis_zero_def intro!: exI [of _ "[?a]"])
      then show ?thesis using True None by (simp add: add_chassis_def new_addr_def)
    next
      case (Some c0)
      then have ne: "cs \<noteq> []" using cs(1) by auto
      then obtain l where l: "st_chassis ?f (last cs) = Some l" using cs(2) last_in_set by (metis domD)
      have la: "last cs \<noteq> ?a" using a ne last_in_set by metis
      let ?h = "?g\<lparr>st_chassis := (st_chassis ?g)(last cs \<mapsto> l\<lparr>chs_next := Some ?a\<rparr>)\<rparr>"
      have gg: "good ?g" by (rule good_more(1) [OF g(1) refl])
      have lg: "st_chassis ?g (last cs) = Some l" using l la by simp
      have "chassis_ok ?h" using goodD(3,8) [OF gg] lg
        unfolding chassis_ok_def node_in_chassis_def chassis_shape_def by auto
      then have gh: "good ?h" by (intro goodI [OF gg]) (simp_all add: fstat_def)
      have "path (chassis_next ?h) (first_chassis s) (cs @ [?a])"
        by (rule path_snoc [OF cs(1) ne a]) (use la a in \<open>auto simp: chassis_next_def chassis_zero_def\<close>)
      moreover have "set (cs @ [?a]) = dom (st_chassis ?h)" using cs(2) l la by auto
      ultimately have "scan_ok f0 (s\<lparr>current_chassis := Some ?a, last_chassis := Some ?a, gr_fab := ?h\<rparr>)"
        unfolding scan_ok_def using g gh by (auto simp: fstat_def intro!: exI [of _ "cs @ [?a]"])
      then show ?thesis using True Some ne cs(3) l la
        by (simp add: add_chassis_def new_addr_def upd_chassis_def Let_def)
    qed
  qed
qed

subsection \<open>Chassis GUIDs\<close>

lemma system_guid:
  assumes "good f" "st_nodes f p = Some n"
  shows "\<exists>g. mad_get_field64 e (nd_info n) 0 IB_NODE_SYSTEM_GUID_F = Some g"
proof -
  have "length (nd_info n) = 64" using goodD(4) [OF assms] by (simp add: node_shape_def)
  then show ?thesis by (simp add: mad_get_field64_def fd_IB_NODE_SYSTEM_GUID_F get_field64_load mem_load_def)
qed

lemma get_chassisguid_total:
  assumes "good f" "st_nodes f p = Some n"
  shows "\<exists>g. get_chassisguid e f n = Some g"
proof -
  obtain v where v: "vendid n = Some v" using node_ids(1) [OF assms] by blast
  obtain g where g: "mad_get_field64 e (nd_info n) 0 IB_NODE_SYSTEM_GUID_F = Some g" using system_guid [OF assms] by blast
  have one: "1 \<in> set (ports_of n)" using goodD(5) [OF assms] by (auto simp: ports_of_def board_fits_def)
  have "\<exists>x. xsigo_chassisguid e f n = Some x"
    using assms one
  proof (cases rule: port_cases)
    case empty
    then show ?thesis using g assms(2) by (simp add: xsigo_chassisguid_def port_at_def)
  next
    case (open_end a y)
    then show ?thesis using g assms(2) by (simp add: xsigo_chassisguid_def port_at_def)
  next
    case (wired a y r z m k)
    obtain h where "mad_get_field64 e (nd_info k) 0 IB_NODE_SYSTEM_GUID_F = Some h" using system_guid [OF assms(1) wired(7)] by blast
    then show ?thesis using g wired assms(2) by (simp add: xsigo_chassisguid_def port_at_def)
  qed
  then show ?thesis using v g by (simp add: get_chassisguid_def)
qed

lemma find_chassisguid_total:
  assumes ok: "scan_ok f0 s" and n: "st_nodes (gr_fab s) p = Some n"
  shows "\<exists>r. find_chassisguid e (gr_fab s) n = Some r \<and> (\<forall>c. r = Some c \<longrightarrow> c \<in> dom (st_chassis (gr_fab s)))"
proof -
  let ?f = "gr_fab s"
  obtain cs where cs: "path (chassis_next ?f) (first_chassis s) cs" "set cs = dom (st_chassis ?f)"
    and g: "good ?f" "fb_chassis ?f = None \<or> fb_chassis ?f = first_chassis s"
    using ok unfolding scan_ok_def by blast
  obtain cg where cg: "get_chassisguid e ?f n = Some cg" using get_chassisguid_total [OF g(1) n] by blast
  obtain ds where ds: "path (chassis_next ?f) (fb_chassis ?f) ds" "set ds \<subseteq> dom (st_chassis ?f)"
    using g(2) cs by (metis empty_subsetI list.set(1) order_refl path.simps(1))
  have b: "c < st_next ?f" if "c \<in> set ds" for c using that ds(2) goodD(8) [OF g(1)] by blast
  have "find_chain (Suc (st_next ?f)) (chassis_next ?f) (\<lambda>c. map_option (\<lambda>x. chassisguid x = cg) (st_chassis ?f c)) (fb_chassis ?f)
      = Some (find (\<lambda>c. chassisguid (the (st_chassis ?f c)) = cg) ds)"
  proof (rule find_chain_path [OF ds(1)])
    show "map_option (\<lambda>x. chassisguid x = cg) (st_chassis ?f c) = Some (chassisguid (the (st_chassis ?f c)) = cg)" if c: "c \<in> set ds" for c
    proof -
      obtain y where "st_chassis ?f c = Some y" using c ds(2) by blast
      then show ?thesis by simp
    qed
    show "length ds \<le> Suc (st_next ?f)" using path_bounded [OF ds(1) b] by simp
  qed
  moreover have "c \<in> dom (st_chassis ?f)" if "find (\<lambda>c. chassisguid (the (st_chassis ?f c)) = cg) ds = Some c" for c
    using find_SomeD [OF that] ds(2) by blast
  ultimately show ?thesis using cg by (simp add: find_chassisguid_def)
qed

subsection \<open>The passes\<close>

lemma record_pass_scans:
  assumes "scan_ok f0 s" "node \<in> dom (st_nodes (gr_fab s))"
  shows "scans f0 (record_pass node s)"
proof -
  have g: "good (gr_fab s)" using assms(1) by (simp add: scan_ok_def)
  obtain n v where n: "st_nodes (gr_fab s) node = Some n" "vendid n = Some v" using assms(2) node_ids(1) [OF g] by blast
  have "scans f0 (in_scan (fill_voltaire_chassis_record node (gr_fab s)) s)" if "v = VTR_VENDOR_ID"
    by (rule in_scan_scans [OF assms(1) fill_voltaire_runs [OF g n(1)]]) (use n(2) that in simp)
  moreover have "scans f0 (in_scan (fill_mellanox_chassis_record node (gr_fab s)) s)" if "v = MLX_VENDOR_ID"
    by (rule in_scan_scans [OF assms(1) fill_mellanox_runs [OF g n(1)]]) (use n(2) that in simp)
  ultimately show ?thesis using n assms(1) by (simp add: record_pass_def)
qed

lemma set_chassis_goes:
  assumes "good f" "ch \<in> dom (st_chassis f)"
    and "\<And>c. chs_next (h c) = chs_next c \<and> spinenode (h c) = spinenode c \<and> linenode (h c) = linenode c"
  shows "goes f (upd_chassis ch h f)"
proof -
  obtain c where c: "st_chassis f ch = Some c" using assms(2) by blast
  show ?thesis
    by (rule upd_chassis_goes [OF assms(1) c]) (use goodD(8) [OF assms(1) c] assms(3) [of c] in \<open>simp_all add: chassis_shape_def\<close>)
qed

lemma scan_goes:
  assumes "scan_ok f0 s" "goes (gr_fab s) r"
  shows "\<exists>g. r = Some g \<and> scan_ok f0 (s\<lparr>gr_fab := g\<rparr>) \<and> dom (st_nodes g) = dom (st_nodes (gr_fab s)) \<and>
    dom (st_chassis g) = dom (st_chassis (gr_fab s)) \<and> grown (gr_fab s) g"
proof -
  obtain g where "r = Some g" "good g" "grown (gr_fab s) g" using assms(2) by (auto simp: goes_def)
  then show ?thesis using scan_fab [OF assms(1)] grown_dom by blast
qed

lemma voltaire_pass_scans:
  assumes ok: "scan_ok f0 s" and d: "node \<in> dom (st_nodes (gr_fab s))"
  shows "scans f0 (voltaire_pass node s)"
proof -
  have g: "good (gr_fab s)" using ok by (simp add: scan_ok_def)
  obtain n where n: "st_nodes (gr_fab s) node = Some n" using d by blast
  obtain v dv where v: "vendid n = Some v" "devid n = Some dv" using node_ids [OF g n] by blast
  have "\<exists>b. in_numbered_chassis (gr_fab s) n = Some b"
    using goodD(6) [OF g n] by (auto simp: in_numbered_chassis_def node_in_chassis_def split: option.split)
  then obtain b where b: "in_numbered_chassis (gr_fab s) n = Some b" by blast
  obtain rc s1 where s1: "add_chassis s = Some (rc, s1)" "scan_ok f0 s1"
    "rc = 0 \<longrightarrow> (\<exists>a. current_chassis s1 = Some a \<and> a \<in> dom (st_chassis (gr_fab s1)))"
    using add_chassis_scans [OF ok] by blast
  have nodes: "dom (st_nodes (gr_fab s1)) = dom (st_nodes (gr_fab s))"
  proof -
    have st: "fstat (gr_fab s1) = fstat (gr_fab s)" using ok s1(2) by (simp add: scan_ok_def)
    have "st_nodes (gr_fab s1) p = None \<longleftrightarrow> st_nodes (gr_fab s) p = None" for p
      using fstatD(1) [OF st, of p] by (metis map_option_is_None)
    then show ?thesis by (auto simp: dom_def)
  qed
  have "scans f0 (do { ch \<leftarrow> current_chassis s1; f \<leftarrow> upd_chassis ch (\<lambda>c. c\<lparr>chassisnum := word_of_int (next_num s1 + 1)\<rparr>) (gr_fab s1);
      in_scan (build_chassis node ch f) (s1\<lparr>next_num := next_num s1 + 1\<rparr>) })" if rc: "rc = 0"
  proof -
    obtain a where a: "current_chassis s1 = Some a" "a \<in> dom (st_chassis (gr_fab s1))" using s1(3) rc by blast
    have g1: "good (gr_fab s1)" using s1(2) by (simp add: scan_ok_def)
    have u: "goes (gr_fab s1) (upd_chassis a (\<lambda>c. c\<lparr>chassisnum := word_of_int (next_num s1 + 1)\<rparr>) (gr_fab s1))"
      by (rule set_chassis_goes [OF g1 a(2)]) simp
    obtain f where f: "upd_chassis a (\<lambda>c. c\<lparr>chassisnum := word_of_int (next_num s1 + 1)\<rparr>) (gr_fab s1) = Some f"
        "dom (st_nodes f) = dom (st_nodes (gr_fab s1))" "dom (st_chassis f) = dom (st_chassis (gr_fab s1))" "grown (gr_fab s1) f"
      using scan_goes [OF s1(2) u] by blast
    have gf: "good f" using goes_dom(1) [OF u f(1)] .
    have "runs f (build_chassis node a f)"
      by (rule build_chassis_runs [OF gf]) (use f nodes d a(2) in auto)
    then have "runs (gr_fab s1) (build_chassis node a f)" using grown_trans [OF f(4)] unfolding runs_def by blast
    then have "scans f0 (in_scan (build_chassis node a f) (s1\<lparr>next_num := next_num s1 + 1\<rparr>))"
      using in_scan_scans [of f0 "s1\<lparr>next_num := next_num s1 + 1\<rparr>"] s1(2) scan_num by force
    then show ?thesis using a(1) f(1) by simp
  qed
  then show ?thesis using n v b s1(1,2) ok by (auto simp: voltaire_pass_def Let_def)
qed

lemma scan_head:
  assumes "scan_ok f0 s"
  shows "scan_ok f0 (s\<lparr>gr_fab := (gr_fab s)\<lparr>fb_chassis := first_chassis s\<rparr>\<rparr>)"
proof -
  have g: "good (gr_fab s)" using assms by (simp add: scan_ok_def)
  let ?f = "(gr_fab s)\<lparr>fb_chassis := first_chassis s\<rparr>"
  have "good ?f"
    by (rule goodI [OF g]) (use goodD(3) [OF g] in \<open>auto simp: fstat_def chassis_ok_def node_in_chassis_def chassis_shape_def\<close>)
  then show ?thesis using assms by (auto simp: scan_ok_def fstat_def chassis_next_def [abs_def])
qed

lemma count_pass_scans:
  assumes ok: "scan_ok f0 s" and d: "node \<in> dom (st_nodes (gr_fab s))"
  shows "scans f0 (count_pass e node s)"
proof -
  have g: "good (gr_fab s)" using ok by (simp add: scan_ok_def)
  obtain n where n: "st_nodes (gr_fab s) node = Some n" using d by blast
  obtain v where v: "vendid n = Some v" using node_ids(1) [OF g n] by blast
  obtain sg where sg: "mad_get_field64 e (nd_info n) 0 IB_NODE_SYSTEM_GUID_F = Some sg" using system_guid [OF g n] by blast
  obtain r where r: "find_chassisguid e (gr_fab s) n = Some r" "\<And>c. r = Some c \<Longrightarrow> c \<in> dom (st_chassis (gr_fab s))"
    using find_chassisguid_total [OF ok n] by blast
  show ?thesis
  proof (cases "v = VTR_VENDOR_ID \<or> sg = 0")
    case True
    then show ?thesis using n v sg ok by (auto simp: count_pass_def)
  next
    case go: False
    show ?thesis
    proof (cases r)
      case (Some c)
      have "runs (gr_fab s) (map_option (Pair 0) (upd_chassis c (\<lambda>c. c\<lparr>nodecount := nodecount c + 1\<rparr>) (gr_fab s)))"
        by (rule runs_Pair, rule set_chassis_goes [OF g r(2) [OF Some]]) simp
      from in_scan_scans [OF ok this] show ?thesis using n v sg r(1) go Some by (auto simp: count_pass_def)
    next
      case None
      obtain rc s1 where s1: "add_chassis s = Some (rc, s1)" "scan_ok f0 s1"
        "rc = 0 \<longrightarrow> (\<exists>a. current_chassis s1 = Some a \<and> a \<in> dom (st_chassis (gr_fab s1)))"
        using add_chassis_scans [OF ok] by blast
      show ?thesis
      proof (cases "rc = 0")
        case False
        then show ?thesis using n v sg r(1) go None s1 by (auto simp: count_pass_def)
      next
        case True
        obtain a where a: "current_chassis s1 = Some a" "a \<in> dom (st_chassis (gr_fab s1))" using s1(3) True by blast
        have g1: "good (gr_fab s1)" "fstat (gr_fab s1) = fstat (gr_fab s)" using ok s1(2) by (simp_all add: scan_ok_def)
        obtain n1 where n1: "st_nodes (gr_fab s1) node = Some n1" "nstat n = nstat n1" using fstat_node [OF g1(2) [symmetric] n] by blast
        have same: "nd_info n1 = nd_info n" "ports n1 = ports n" "vendid n1 = vendid n"
          using nstatD [OF n1(2)] static_ids [OF n1(2)] by simp_all
        have "get_chassisguid e (gr_fab s1) n1 = get_chassisguid e (gr_fab s1) n"
          unfolding get_chassisguid_def xsigo_chassisguid_def node_port_def same by (rule refl)
        then obtain cg where cg: "get_chassisguid e (gr_fab s1) n = Some cg" using get_chassisguid_total [OF g1(1) n1(1)] by metis
        have u: "goes (gr_fab s1) (upd_chassis a (\<lambda>c. c\<lparr>chassisguid := cg, nodecount := 1\<rparr>) (gr_fab s1))"
          by (rule set_chassis_goes [OF g1(1) a(2)]) simp
        obtain f where f: "upd_chassis a (\<lambda>c. c\<lparr>chassisguid := cg, nodecount := 1\<rparr>) (gr_fab s1) = Some f" "scan_ok f0 (s1\<lparr>gr_fab := f\<rparr>)"
          using scan_goes [OF s1(2) u] by blast
        have "scan_ok f0 (s1\<lparr>gr_fab := (if fb_chassis f = None then f\<lparr>fb_chassis := first_chassis s1\<rparr> else f)\<rparr>)"
          using f(2) scan_head [OF f(2)] by simp
        then show ?thesis using n v sg r(1) go None s1(1) True a(1) cg f(1) by (simp add: count_pass_def)
      qed
    qed
  qed
qed

lemma add_node_goes:
  assumes "good f" "node \<in> dom (st_nodes f)" "ch \<in> dom (st_chassis f)"
  shows "goes f (do { f \<leftarrow> upd_node node (\<lambda>n. n\<lparr>ch_found := 1\<rparr>) f; add_node_to_chassis ch node f })"
proof -
  obtain n c where n: "st_nodes f node = Some n" and c: "st_chassis f ch = Some c" using assms(2,3) by blast
  let ?n = "n\<lparr>ch_found := 1, nd_chassis := Some ch, next_chassis_node := chs_nodes c\<rparr>"
  let ?f = "f\<lparr>st_nodes := (st_nodes f)(node \<mapsto> ?n)\<rparr>"
  have st: "nstat ?n = nstat n" by (simp add: nstat_def)
  have "node_in_chassis f ?n" using goodD(6) [OF assms(1) n] assms(3) by (auto simp: node_in_chassis_def vendid_def)
  with good_node [OF assms(1) n st] have g: "good ?f" "grown f ?f" by simp_all
  have "goes ?f (upd_chassis ch (\<lambda>c. c\<lparr>chs_nodes := Some node\<rparr>) ?f)"
    by (rule set_chassis_goes [OF g(1)]) (use c in auto)
  moreover have "(do { f \<leftarrow> upd_node node (\<lambda>n. n\<lparr>ch_found := 1\<rparr>) f; add_node_to_chassis ch node f }) =
      upd_chassis ch (\<lambda>c. c\<lparr>chs_nodes := Some node\<rparr>) ?f"
    using n c by (simp add: upd_node_def add_node_to_chassis_def)
  ultimately show ?thesis using g(2) grown_trans unfolding goes_def by auto
qed

lemma number_chassis_scans:
  assumes ok: "scan_ok f0 s" and c: "ch \<in> dom (st_chassis (gr_fab s))"
  shows "\<exists>s'. number_chassis ch s = Some s' \<and> scan_ok f0 s' \<and> grown (gr_fab s) (gr_fab s')"
proof -
  have g: "good (gr_fab s)" using ok by (simp add: scan_ok_def)
  have u: "goes (gr_fab s) (upd_chassis ch (\<lambda>c. c\<lparr>chassisnum := word_of_int (next_num s + 1)\<rparr>) (gr_fab s))"
    by (rule set_chassis_goes [OF g c]) simp
  obtain f where f: "upd_chassis ch (\<lambda>c. c\<lparr>chassisnum := word_of_int (next_num s + 1)\<rparr>) (gr_fab s) = Some f" "scan_ok f0 (s\<lparr>gr_fab := f\<rparr>)" "grown (gr_fab s) f"
    using scan_goes [OF ok u] by blast
  then show ?thesis using ok c scan_num [where s = "s\<lparr>gr_fab := f\<rparr>"] by (auto simp: number_chassis_def Let_def)
qed

lemma member_pass_scans:
  assumes ok: "scan_ok f0 s" and d: "node \<in> dom (st_nodes (gr_fab s))"
  shows "scans f0 (member_pass e node s)"
proof -
  have g: "good (gr_fab s)" using ok by (simp add: scan_ok_def)
  obtain n where n: "st_nodes (gr_fab s) node = Some n" using d by blast
  obtain v where v: "vendid n = Some v" using node_ids(1) [OF g n] by blast
  obtain sg where sg: "mad_get_field64 e (nd_info n) 0 IB_NODE_SYSTEM_GUID_F = Some sg" using system_guid [OF g n] by blast
  obtain r where r: "find_chassisguid e (gr_fab s) n = Some r" "\<And>c. r = Some c \<Longrightarrow> c \<in> dom (st_chassis (gr_fab s))"
    using find_chassisguid_total [OF ok n] by blast
  show ?thesis
  proof (cases "v = VTR_VENDOR_ID \<or> sg = 0 \<or> r = None")
    case True
    then show ?thesis using n v sg r(1) ok by (auto simp: member_pass_def)
  next
    case go: False
    then obtain ch where ch: "r = Some ch" by auto
    note live = r(2) [OF ch]
    obtain c where c: "st_chassis (gr_fab s) ch = Some c" using live by blast
    obtain s1 where s1: "number_chassis ch s = Some s1" "scan_ok f0 s1" "grown (gr_fab s) (gr_fab s1)"
      using number_chassis_scans [OF ok live] by blast
    have g1: "good (gr_fab s1)" using s1(2) by (simp add: scan_ok_def)
    obtain n1 where n1: "st_nodes (gr_fab s1) node = Some n1" "nstat n1 = nstat n" using grown_node [OF s1(3) n] by blast
    have d1: "node \<in> dom (st_nodes (gr_fab s1))" "ch \<in> dom (st_chassis (gr_fab s1))" using grown_dom [OF s1(3)] d live by simp_all
    have a: "runs (gr_fab s1) (map_option (Pair 0) (do { f \<leftarrow> upd_node node (\<lambda>n. n\<lparr>ch_found := 1\<rparr>) (gr_fab s1); add_node_to_chassis ch node f }))"
      by (rule runs_Pair, rule add_node_goes [OF g1 d1])
    have "do { f \<leftarrow> upd_node node (\<lambda>n. n\<lparr>ch_found := 1\<rparr>) (gr_fab s1); in_scan (map_option (Pair 0) (add_node_to_chassis ch node f)) s1 } =
        in_scan (map_option (Pair 0) (do { f \<leftarrow> upd_node node (\<lambda>n. n\<lparr>ch_found := 1\<rparr>) (gr_fab s1); add_node_to_chassis ch node f })) s1"
      using n1(1) by (simp add: upd_node_def)
    then have a: "scans f0 (do { f \<leftarrow> upd_node node (\<lambda>n. n\<lparr>ch_found := 1\<rparr>) (gr_fab s1); in_scan (map_option (Pair 0) (add_node_to_chassis ch node f)) s1 })"
      using in_scan_scans [OF s1(2) a] by simp
    have b: "scans f0 (in_scan (map_option (Pair 0) (insert_mellanox_line_and_spine node ch (gr_fab s1))) s1)" if "v = MLX_VENDOR_ID"
      by (rule in_scan_scans [OF s1(2)], rule runs_Pair, rule insert_mellanox_goes [OF g1 n1(1) _ d1(2)])
        (use static_ids [OF n1(2)] v that in simp)
    show ?thesis using n v sg r(1) go ch c ok s1(1,2) a b by (auto simp: member_pass_def)
  qed
qed

subsection \<open>All of it\<close>

lemma scan_nodes:
  assumes "scan_ok f0 s"
  shows "dom (st_nodes (gr_fab s)) = dom (st_nodes f0)" and "st_nodes f0 p = Some n \<Longrightarrow> \<exists>n'. st_nodes (gr_fab s) p = Some n' \<and> nstat n' = nstat n"
proof -
  have st: "fstat (gr_fab s) = fstat f0" using assms by (simp add: scan_ok_def)
  have "st_nodes (gr_fab s) p = None \<longleftrightarrow> st_nodes f0 p = None" for p
    using fstatD(1) [OF st, of p] by (metis map_option_is_None)
  then show "dom (st_nodes (gr_fab s)) = dom (st_nodes f0)" by (auto simp: dom_def)
  show "\<exists>n'. st_nodes (gr_fab s) p = Some n' \<and> nstat n' = nstat n" if "st_nodes f0 p = Some n"
    using fstat_node [OF st [symmetric] that] by auto
qed

lemma node_loop_scans:
  assumes "path (node_next sel f0) x ps" "length ps \<le> k" "scan_ok f0 s"
    and sel: "\<And>n m. nstat n = nstat m \<Longrightarrow> sel n = sel m"
    and act: "\<And>node s. scan_ok f0 s \<Longrightarrow> node \<in> dom (st_nodes (gr_fab s)) \<Longrightarrow> scans f0 (act node s)"
  shows "scans f0 (node_loop k sel act x s)"
  using assms(1-3)
proof (induction ps arbitrary: x k s)
  case Nil
  then show ?case by simp
next
  case (Cons p ps)
  then obtain k' y where k: "k = Suc k'" "x = Some p" "node_next sel f0 p = Some y" "path (node_next sel f0) y ps" "length ps \<le> k'"
    by (cases k) auto
  then obtain n0 where n0: "st_nodes f0 p = Some n0" "y = sel n0" by (auto simp: node_next_def)
  have "p \<in> dom (st_nodes (gr_fab s))" using scan_nodes(1) [OF Cons.prems(3)] n0(1) by auto
  then obtain rc s1 where s1: "act p s = Some (rc, s1)" "scan_ok f0 s1" using act [OF Cons.prems(3)] unfolding scans_def by blast
  obtain n1 where n1: "st_nodes (gr_fab s1) p = Some n1" "nstat n1 = nstat n0" using scan_nodes(2) [OF s1(2) n0(1)] by blast
  have "scans f0 (node_loop k' sel act y s1)" by (rule Cons.IH [OF k(4,5) s1(2)])
  then show ?case using k(1,2) s1 n1(1) sel [OF n1(2)] n0(2) by simp
qed

lemma scans_and_then:
  assumes "scans f0 r" and "\<And>s. scan_ok f0 s \<Longrightarrow> scans f0 (k s)"
  shows "scans f0 (and_then r k)"
  using assms by (fastforce simp: scans_def and_then_def)

lemma node_list:
  assumes "nodes_ok f" "lists_nodes sel P (st_nodes f) x"
  shows "\<exists>ps. path (node_next sel f) x ps \<and> length ps \<le> Suc (st_next f)"
proof -
  obtain ps where ps: "path (node_next sel f) x ps" "set ps = {p. \<exists>n. st_nodes f p = Some n \<and> P n}"
    using assms(2) by (auto simp: lists_nodes_def node_next_def [abs_def])
  have "length ps \<le> st_next f" using path_bounded [OF ps(1), of "st_next f"] ps(2) nodes_okD(1) [OF assms(1)] by fastforce
  then show ?thesis using ps(1) by auto
qed

lemma destroy_chassis_path:
  assumes "path (chassis_next f) x cs" "length cs \<le> k"
  shows "destroy_chassis_list k x f = Some (f\<lparr>st_chassis := (\<lambda>a. if a \<in> set cs then None else st_chassis f a)\<rparr>)"
  using assms
proof (induction cs arbitrary: x k f)
  case (Cons c cs)
  then obtain k' y where k: "k = Suc k'" "x = Some c" "chassis_next f c = Some y" "path (chassis_next f) y cs" "length cs \<le> k'"
    by (cases k) auto
  then obtain v where v: "st_chassis f c = Some v" "y = chs_next v" by (auto simp: chassis_next_def)
  let ?f = "f\<lparr>st_chassis := (st_chassis f)(c := None)\<rparr>"
  have c: "c \<notin> set cs" using path_distinct [OF Cons.prems(1)] by simp
  have "path (chassis_next ?f) y cs" by (rule path_cong [OF k(4)]) (use c in \<open>auto simp: chassis_next_def\<close>)
  from Cons.IH [OF this k(5)] show ?case using k(1,2) v
    by (auto simp: fun_eq_iff intro!: arg_cong [where f = "\<lambda>h. f\<lparr>st_chassis := h\<rparr>"])
qed simp

definition ungrouped :: "'m fabric \<Rightarrow> bool" where
  \<comment> \<open>as discovery leaves it\<close>
  "ungrouped f \<longleftrightarrow> st_chassis f = Map.empty \<and> fb_chassis f = None \<and>
     (\<forall>p n. st_nodes f p = Some n \<longrightarrow> nd_chassis n = None \<and> ch_slot n = UNRESOLVED_CS)"

lemma group_nodes_runs:
  assumes ok: "fabric_ok f" "boards_ok f" and un: "ungrouped f"
  shows "\<exists>rc f'. group_nodes e f = Some (rc, f') \<and> (rc = 0 \<or> rc = -1) \<and> fabric_ok f' \<and> fstat f' = fstat f \<and>
    (rc = 0 \<longrightarrow> chassis_ok f' \<and> (\<exists>cs. path (chassis_next f') (fb_chassis f') cs \<and> set cs = dom (st_chassis f'))) \<and>
    (rc \<noteq> 0 \<longrightarrow> st_chassis f' = Map.empty \<and> fb_chassis f' = None)"
proof -
  have nodes: "nodes_ok f" using ok(1) by (simp add: fabric_ok_def)
  have "node_in_chassis f n" if "st_nodes f p = Some n" for p n
    using un that ok(1) ports_okD(2) [of f p n] by (simp add: ungrouped_def node_in_chassis_def fabric_ok_def node_shape_def c_eval)
  then have "good f" using ok un by (auto simp: good_def chassis_ok_def ungrouped_def)
  let ?s = "\<lparr>first_chassis = None, current_chassis = None, last_chassis = None, next_num = 0, gr_fab = f\<rparr>"
  have s0: "scan_ok f ?s" using \<open>good f\<close> un by (auto simp: scan_ok_def ungrouped_def intro!: exI [of _ "[]"])
  obtain ps where ps: "path (node_next type_next f) (switches f) ps" "length ps \<le> Suc (st_next f)"
    using node_list [OF nodes nodes_okD(6) [OF nodes]] by blast
  obtain qs where qs: "path (node_next nd_next f) (fb_nodes f) qs" "length qs \<le> Suc (st_next f)"
    using node_list [OF nodes nodes_okD(4) [OF nodes]] by blast
  have lists: "switches (gr_fab s) = switches f" "fb_nodes (gr_fab s) = fb_nodes f" if "scan_ok f s" for s
    using fstatD(4,5) [of "gr_fab s" f] that by (simp_all add: scan_ok_def)
  have sel: "type_next n = type_next m" "nd_next n = nd_next m" if "nstat n = nstat m" for n m using nstatD [OF that] by simp_all
  have a: "scans f (node_loop (Suc (st_next f)) type_next record_pass (switches f) s)" if "scan_ok f s" for s
    by (rule node_loop_scans [OF ps that sel(1) record_pass_scans])
  have b: "scans f (node_loop (Suc (st_next f)) type_next voltaire_pass (switches (gr_fab s)) s)" if "scan_ok f s" for s
    unfolding lists [OF that] by (rule node_loop_scans [OF ps that sel(1) voltaire_pass_scans])
  have c: "scans f (node_loop (Suc (st_next f)) nd_next (count_pass e) (fb_nodes (gr_fab s)) s)" if "scan_ok f s" for s
    unfolding lists [OF that] by (rule node_loop_scans [OF qs that sel(2) count_pass_scans])
  have d: "scans f (node_loop (Suc (st_next f)) nd_next (member_pass e) (fb_nodes (gr_fab s)) s)" if "scan_ok f s" for s
    unfolding lists [OF that] by (rule node_loop_scans [OF qs that sel(2) member_pass_scans])
  let ?run = "and_then (node_loop (Suc (st_next f)) type_next record_pass (switches f) ?s) (\<lambda>s.
      and_then (node_loop (Suc (st_next f)) type_next voltaire_pass (switches (gr_fab s)) s) (\<lambda>s.
      and_then (node_loop (Suc (st_next f)) nd_next (count_pass e) (fb_nodes (gr_fab s)) s) (\<lambda>s.
      and_then (node_loop (Suc (st_next f)) nd_next (member_pass e) (fb_nodes (gr_fab s)) s) (\<lambda>s. Some (0, s)))))"
  have "scans f ?run" by (intro scans_and_then a b c d s0 scans_stay)
  then obtain rc s where run: "?run = Some (rc, s)" and s: "scan_ok f s" by (auto simp: scans_def)
  obtain cs where cs: "path (chassis_next (gr_fab s)) (first_chassis s) cs" "set cs = dom (st_chassis (gr_fab s))"
    and g: "good (gr_fab s)" "fstat (gr_fab s) = fstat f" using s unfolding scan_ok_def by blast
  show ?thesis
  proof (cases "rc = 0")
    case True
    let ?f = "(gr_fab s)\<lparr>fb_chassis := first_chassis s\<rparr>"
    have "scan_ok f (s\<lparr>gr_fab := ?f\<rparr>)" by (rule scan_head [OF s])
    then have "good ?f" "fstat ?f = fstat f" by (simp_all add: scan_ok_def)
    moreover have "path (chassis_next ?f) (fb_chassis ?f) cs" using cs(1) by (simp add: chassis_next_def [abs_def])
    ultimately show ?thesis using run True cs(2) by (auto simp: group_nodes_def Let_def good_def)
  next
    case False
    have b: "c < st_next (gr_fab s)" if "c \<in> set cs" for c using that cs(2) goodD(8) [OF g(1)] by blast
    let ?f = "(gr_fab s)\<lparr>st_chassis := (\<lambda>a. if a \<in> set cs then None else st_chassis (gr_fab s) a), fb_chassis := None\<rparr>"
    have "destroy_chassis_list (Suc (st_next (gr_fab s))) (first_chassis s) (gr_fab s) =
        Some ((gr_fab s)\<lparr>st_chassis := (\<lambda>a. if a \<in> set cs then None else st_chassis (gr_fab s) a)\<rparr>)"
      by (rule destroy_chassis_path [OF cs(1)]) (use path_bounded [OF cs(1) b] in simp)
    moreover have "(\<lambda>a. if a \<in> set cs then None else st_chassis (gr_fab s) a) = Map.empty" using cs(2) by auto
    moreover have "fabric_ok ?f" by (rule fabric_ok_frame [of "gr_fab s"]) (use g(1) in \<open>simp_all add: good_def\<close>)
    moreover have "fstat ?f = fstat f" using g(2) by (simp add: fstat_def)
    ultimately show ?thesis using run False by (simp add: group_nodes_def Let_def)
  qed
qed

text \<open>
  C4 (safety): grouping a well-formed fabric ends, without leaving an array and without following
  \<open>NULL\<close>, a dangling or a freed pointer, provided the boards are numbered as the hardware numbers
  them (\<open>boards_ok\<close>: ports of Voltaire boards and their neighbours at most 36, Voltaire routers
  fully wired, Mellanox descriptions terminated and naming a slot the chassis has). It changes nothing
  but what belongs to chassis; if it succeeds, the chassis are one list and every reference between nodes
  and chassis is live; if it fails, no chassis is left.
\<close>

theorem group_nodes_safe:
  assumes "fabric_ok f" "boards_ok f" and "ungrouped f"
  shows "\<exists>rc f'. group_nodes e f = Some (rc, f') \<and> (rc = 0 \<or> rc = -1) \<and> fabric_ok f' \<and> fstat f' = fstat f \<and>
    (rc = 0 \<longrightarrow> chassis_ok f' \<and> (\<exists>cs. path (chassis_next f') (fb_chassis f') cs \<and> set cs = dom (st_chassis f'))) \<and>
    (rc \<noteq> 0 \<longrightarrow> st_chassis f' = Map.empty \<and> fb_chassis f' = None)"
  by (rule group_nodes_runs [OF assms])

theorem group_nodes_safe_witness:
  "\<exists>rc f'. group_nodes BE example_fabric = Some (rc, f') \<and> fabric_ok f' \<and> fstat f' = fstat example_fabric"
proof -
  have n: "st_nodes example_fabric = [0 \<mapsto> node_zero\<lparr>nd_type := 1, numports := 1, ports := [Some 2, Some 3]\<rparr>]"
    and p: "st_ports example_fabric = [2 \<mapsto> port_zero\<lparr>po_node := Some 0\<rparr>, 3 \<mapsto> port_zero\<lparr>po_node := Some 0, portnum := 1\<rparr>]"
    by (simp_all add: example_fabric_def)
  have v: "vendid (node_zero\<lparr>nd_type := 1, numports := 1, ports := [Some 2, Some 3]\<rparr>) = Some 0"
    by (simp add: vendid_def node_zero_def eval_field)
  have "boards_ok example_fabric"
    unfolding boards_ok_def port_wired_def board_fits_def n p
    by (auto simp: port_zero_def v c_eval split: if_splits)
  moreover have "ungrouped example_fabric"
    by (auto simp: ungrouped_def example_fabric_def allocate_fabric_internal_def create_lid2guid_def node_zero_def c_eval split: if_splits)
  ultimately show ?thesis using group_nodes_safe [OF example_fabric_ok, of BE] by blast
qed


section \<open>Where it is not safe\<close>

text \<open>
  C38 (error): the check of the slot number of a Mellanox switch lets the number behind the last
  slot through: a switch whose description names spine slot 19 is recorded, and entering it in any
  chassis accesses \<open>spinenode[19]\<close>, behind the end of the array.
\<close>

theorem mellanox_slot_overrun:
  assumes "st_nodes f node = Some n" "ch_found n = 0" "devid n = Some MLX_DEVID_IS4" "length (ch_type_str n) = CHASSIS_TYPE_SIZE"
    and "mlx_desc (nodedesc n) = Some (Some (d, t, s, i))" "mem_rd d s = Some 83"
    and "atoi_at d (Suc s) = Some (int SPINES_MAX_NUM + 1)" "atoi_at d (Suc i) = Some k"
    and "st_chassis f ch = Some c" "length (spinenode c) = SPINES_MAX_NUM + 1"
  shows "\<exists>f'. fill_mellanox_chassis_record node f = Some (0, f') \<and> insert_mellanox_line_and_spine node ch f' = None"
proof -
  have num: "int SPINES_MAX_NUM + 1 = 19" by (simp add: SPINES_MAX_NUM_def)
  obtain ts where ts: "str_n_cpy (ch_type_str n) (drop t d) (CHASSIS_TYPE_SIZE - Suc 0) = Some ts"
    using str_n_cpy_total [of "CHASSIS_TYPE_SIZE - 1" "ch_type_str n" "drop t d"] assms(4) by auto
  let ?n = "n\<lparr>ch_anafanum := word_of_int k, ch_slot := SPINE_CS, ch_found := 1, ch_slotnum := 19, ch_type_str := ts\<rparr>"
  let ?f = "f\<lparr>st_nodes := (st_nodes f)(node \<mapsto> ?n)\<rparr>"
  have "fill_mellanox_chassis_record node f = Some (0, ?f)"
    using assms(1-3,5-8) ts
    by (simp add: fill_mellanox_chassis_record_def Let_def num SPINES_MAX_NUM_def LINE_CS_def SPINE_CS_def)
  moreover have "insert_mellanox_line_and_spine node ch ?f = None"
    using assms(9,10) by (simp add: insert_mellanox_line_and_spine_def Let_def mem_rd_def SPINES_MAX_NUM_def LINE_CS_def SPINE_CS_def)
  ultimately show ?thesis by blast
qed

definition example_spine :: ibnd_node_t where
  \<comment> \<open>described as \<open>MF0;a:b/S19/U1\<close>\<close>
  "example_spine = node_zero\<lparr>nd_info := replicate 30 0 @ [0xbd, 0x36] @ replicate 6 0 @ [2, 0xc9] @ replicate 24 0,
     nodedesc := [77, 70, 48, 59, 97, 58, 98, 47, 83, 49, 57, 47, 85, 49] @ replicate 50 0\<rparr>"

theorem mellanox_slot_overrun_witness:
  "\<exists>f'. fill_mellanox_chassis_record 0 (example_fabric\<lparr>st_nodes := [0 \<mapsto> example_spine], st_chassis := [1 \<mapsto> chassis_zero]\<rparr>) = Some (0, f') \<and>
     insert_mellanox_line_and_spine 0 1 f' = None"
proof (rule mellanox_slot_overrun [of _ 0 example_spine _ 6 8 12 1 1 chassis_zero])
  show "devid example_spine = Some MLX_DEVID_IS4"
    by (simp add: devid_def example_spine_def node_zero_def eval_field nth_append MLX_DEVID_IS4_def)
  let ?d = "[77, 70, 48, 59, 97, 0, 98, 0, 83, 49, 57, 0, 85, 49] @ replicate 50 (0 :: u8)"
  show "mlx_desc (nodedesc example_spine) = Some (Some (?d, 6, 8, 12))"
    by (simp add: example_spine_def node_zero_def mlx_desc_def cut_part_def scan_to_def mem_load_def mem_rd_def mem_wr_def Let_def)
  show "mem_rd ?d 8 = Some 83" by (simp add: mem_rd_def)
  have d: "dec 19 = [char_of (49 :: nat), char_of (57 :: nat)]" "dec 1 = [char_of (49 :: nat)]"
    by (simp_all add: dec.simps [of 19] dec.simps [of "Suc 0"] digit_char_def)
  have "c_atoi [char_of (49 :: nat), char_of (57 :: nat)] = 19" using atoi_dec [of 19] unfolding d by simp
  then show "atoi_at ?d (Suc 8) = Some (int SPINES_MAX_NUM + 1)"
    by (simp add: atoi_at_def Let_def SPINES_MAX_NUM_def)
  have "c_atoi [char_of (49 :: nat)] = 1" using atoi_dec [of 1] unfolding d by simp
  then show "atoi_at ?d (Suc 12) = Some 1"
    by (simp add: atoi_at_def Let_def)
qed (simp_all add: example_spine_def node_zero_def chassis_zero_def SPINES_MAX_NUM_def CHASSIS_TYPE_SIZE_def)

end
