(* ===== verification/DiscoverFabric.thy ===== *)
theory DiscoverFabric
  imports Discover Chassis MadServ
begin

text \<open>
  A whole discovery (\<open>ibnd_discover_fabric\<close> of \<open>libibnetdisc/src/ibnetdisc.c\<close>): the port is
  opened and the own address resolved by synchronous calls (\<open>MadRpc\<close>, \<open>MadResolve\<close>), then
  the engine runs the queries (\<open>SmpEngine\<close>, \<open>Discover\<close>), and what was found is grouped
  (\<open>Chassis\<close>).
\<close>

text \<open>What the calls to \<open>libibumad\<close> and the allocator return, in the order they are made\<close>

record discover_env =
  de_fabric :: bool \<comment> \<open>\<open>calloc\<close> of the fabric\<close>
  de_alloc :: "ptr \<Rightarrow> bool" \<comment> \<open>allocations in the fabric\<close>
  de_rpc_init :: bool
  de_rpc_alloc :: bool
  de_rpc_fd :: int
  de_reg :: reg_state
  de_eng_init :: bool
  de_eng_fd :: int
  de_agent :: int
  de_dir_agent :: int
  de_smps :: "ptr \<Rightarrow> bool" \<comment> \<open>allocations of packets\<close>

definition rpc_port :: "ibmad_port \<Rightarrow> ibnd_config_t \<Rightarrow> ibmad_port" where
  \<comment> \<open>the settings are those of the caller, not the defaults\<close>
  "rpc_port port cfg = smp_mkey_set (mad_rpc_set_retries (mad_rpc_set_timeout port
     (int_of_u32 (cf_timeout_ms cfg))) (int_of_u32 (cf_retries cfg))) (cf_mkey cfg)"

definition start_world :: "'m qmap_ops \<Rightarrow> discover_env \<Rightarrow> mad_state \<Rightarrow> 'm fabric \<Rightarrow> ib_portid_t \<Rightarrow> u32 \<Rightarrow>
    ibnd_config_t \<Rightarrow> 'm discovery" where
  \<comment> \<open>the engine and the scan before \<open>smp_engine_init\<close>\<close>
  "start_world qm env ms f self ih cfg = \<lparr>umad_fd = 0, smi_agent = 0, smi_dir_agent = 0, smp_queue_head = None,
     smp_queue_tail = None, smps_on_wire = qm_init qm, eng_cfg = cfg, total_smps = 0, w_ms = ms, w_smps = Map.empty,
     w_next = 0, w_alloc = de_smps env, w_port_open = False, d_fab = f, d_selfportid = self, d_initial_hops = ih\<rparr>"

definition discover_nodes :: "'m qmap_ops \<Rightarrow> endian \<Rightarrow> ib_portid_t \<Rightarrow> 'm discovery \<Rightarrow> (int \<times> 'm discovery) option" where
  \<comment> \<open>\<open>if (!query_node_info(...)) if (process_mads(...) != 0) goto error;\<close>\<close>
  "discover_nodes qm e from w = do {
     (rc, w) \<leftarrow> query_node_info qm e from None w;
     if rc = 0 then process_mads qm e (run_completion qm e) (run_epi_err qm e) w else Some (0, w)
   }"

definition discover_failed :: "'m qmap_ops \<Rightarrow> 'm discovery \<Rightarrow> ('m fabric option \<times> 'm discovery) option" where
  \<comment> \<open>the label \<open>error\<close>\<close>
  "discover_failed qm w = do {
     w \<leftarrow> smp_engine_destroy qm w;
     w \<leftarrow> on_fab (ibnd_destroy_fabric qm) w;
     Some (None, w)
   }"

definition discover_finish :: "'m qmap_ops \<Rightarrow> endian \<Rightarrow> int \<Rightarrow> 'm discovery \<Rightarrow> ('m fabric option \<times> 'm discovery) option" where
  "discover_finish qm e rc w =
     (if rc \<noteq> 0 then discover_failed qm w
      else do {
        let f = (d_fab w)\<lparr>total_mads_used := total_smps w,
                   maxhops_discovered := maxhops_discovered (d_fab w) + d_initial_hops w\<rparr>;
        (rc, f) \<leftarrow> group_nodes e f;
        let w = w\<lparr>d_fab := f\<rparr>;
        if rc \<noteq> 0 then discover_failed qm w
        else do { w \<leftarrow> smp_engine_destroy qm w; Some (Some (d_fab w), w) }
      })"

definition ibnd_discover_fabric :: "'m qmap_ops \<Rightarrow> endian \<Rightarrow> mem \<Rightarrow> discover_env \<Rightarrow> mad_state \<Rightarrow> ib_portid_t option \<Rightarrow>
    ibnd_config_t option \<Rightarrow> ('m fabric option \<times> 'm discovery option) option" where
  \<comment> \<open>\<open>junk\<close>: the uninitialised buffers of \<open>ib_resolve_self_via\<close>; the second component is the
    state of the engine at the end, when it was started\<close>
  "ibnd_discover_fabric qm e junk env ms from cfg = do {
     let from = (case from of None \<Rightarrow> portid_zero | Some p \<Rightarrow> p);
     let config = set_config config_zero cfg;
     if \<not> de_fabric env then Some (None, None)
     else do {
       let f = allocate_fabric_internal qm (de_alloc env);
       (port, _) \<leftarrow> mad_rpc_open_port (de_reg env) (de_rpc_init env) (de_rpc_alloc env) (de_rpc_fd env)
                      [int (unat IB_SMI_CLASS), int (unat IB_SMI_DIRECT_CLASS)] 2;
       case port of None \<Rightarrow> Some (None, None)
       | Some port \<Rightarrow> do {
           cfg \<leftarrow> cfg; \<comment> \<open>\<open>cfg->timeout_ms\<close>, also when \<open>cfg\<close> is \<open>NULL\<close>\<close>
           (rc, self, _, _, ms) \<leftarrow> ib_resolve_self_via e junk ms portid_zero None (rpc_port port cfg);
           if rc < 0 then Some (None, None)
           else do {
             let (rc, w) = smp_engine_init qm (de_eng_init env) (de_eng_fd env) (de_agent env) (de_dir_agent env) config
                             (start_world qm env ms f self (word_of_int (cnt (pt_drpath from))) config);
             if rc \<noteq> 0 then Some (None, Some w)
             else do {
               (rc, w) \<leftarrow> discover_nodes qm e from w;
               (r, w) \<leftarrow> discover_finish qm e rc w;
               Some (r, Some w)
             }
           }
         }
     }
   }"

end
