(* ===== verification/DiscoverFabricCorrect.thy ===== *)
theory DiscoverFabricCorrect
  imports DiscoverFabric GroupCorrect
begin

text \<open>
  Destroying a fabric frees every structure once, and what \<open>ibnd_discover_fabric\<close> does with a
  discovered fabric leaves nothing of the engine behind.
\<close>

section \<open>Nodes and ports\<close>

definition owns :: "'m fabric \<Rightarrow> ptr \<Rightarrow> bool" where
  \<comment> \<open>the node is live with the array of its ports, and what the array holds are its ports\<close>
  "owns f p \<longleftrightarrow> (\<exists>n. st_nodes f p = Some n \<and> 0 \<le> numports n \<and> length (ports n) = nat (numports n + 1) \<and>
     (\<forall>i < length (ports n). \<forall>a. ports n ! i = Some a \<longrightarrow>
        (\<exists>x. st_ports f a = Some x \<and> po_node x = Some p \<and> portnum x = int i)))"

definition freed :: "'m fabric \<Rightarrow> 'm fabric \<Rightarrow> ptr set \<Rightarrow> bool" where
  \<comment> \<open>these ports, and nothing else, are gone\<close>
  "freed f f' gone \<longleftrightarrow> f' = f\<lparr>st_ports := (\<lambda>a. if a \<in> gone then None else st_ports f a)\<rparr>"

lemma freed_empty [simp]: "freed f f {}"
  by (simp add: freed_def)

lemma free_ports_all:
  assumes "\<And>a. Some a \<in> set ps \<Longrightarrow> a \<in> dom (st_ports f)"
    and "\<And>i j a. i < length ps \<Longrightarrow> j < length ps \<Longrightarrow> ps ! i = Some a \<Longrightarrow> ps ! j = Some a \<Longrightarrow> i = j"
  shows "\<exists>f'. free_ports ps f = Some f' \<and> freed f f' {a. Some a \<in> set ps}"
  using assms
proof (induction ps arbitrary: f)
  case (Cons p ps)
  have d: "i = j" if "i < length ps" "j < length ps" "ps ! i = Some a" "ps ! j = Some a" for i j a
    using Cons.prems(2) [of "Suc i" "Suc j" a] that by simp
  show ?case
  proof (cases p)
    case None
    obtain f' where "free_ports ps f = Some f'" "freed f f' {a. Some a \<in> set ps}"
      using Cons.IH [of f] Cons.prems(1) d by auto
    then show ?thesis using None by (simp add: free_port_def)
  next
    case (Some a)
    obtain x where x: "st_ports f a = Some x" using Cons.prems(1) [of a] Some by auto
    have a: "Some a \<notin> set ps"
    proof
      assume "Some a \<in> set ps"
      then obtain i where "i < length ps" "ps ! i = Some a" by (auto simp: in_set_conv_nth)
      then show False using Cons.prems(2) [of 0 "Suc i" a] Some by simp
    qed
    let ?f = "f\<lparr>st_ports := (st_ports f)(a := None)\<rparr>"
    have live: "b \<in> dom (st_ports ?f)" if "Some b \<in> set ps" for b
    proof -
      have "b \<noteq> a" using that a by auto
      then show ?thesis using Cons.prems(1) [of b] that by auto
    qed
    have "\<exists>f'. free_ports ps ?f = Some f' \<and> freed ?f f' {a. Some a \<in> set ps}"
      by (rule Cons.IH) (fact live, fact d)
    then obtain f' where f': "free_ports ps ?f = Some f'" "freed ?f f' {a. Some a \<in> set ps}" by blast
    have "freed f f' {b. Some b \<in> set (p # ps)}"
      using f'(2) Some unfolding freed_def by (auto simp: fun_eq_iff intro!: arg_cong [where f = "\<lambda>h. f\<lparr>st_ports := h\<rparr>"])
    then show ?thesis using f'(1) Some x by (simp add: free_port_def)
  qed
qed simp

definition held :: "'m fabric \<Rightarrow> ptr set \<Rightarrow> ptr set" where
  \<comment> \<open>the ports in the arrays of these nodes\<close>
  "held f ps = {a. \<exists>p \<in> ps. \<exists>n. st_nodes f p = Some n \<and> Some a \<in> set (ports n)}"

lemma owns_held:
  assumes "owns f p" "a \<in> held f {p}"
  shows "\<exists>x. st_ports f a = Some x \<and> po_node x = Some p"
proof -
  obtain n where n: "st_nodes f p = Some n" "\<And>i a. i < length (ports n) \<Longrightarrow> ports n ! i = Some a \<Longrightarrow>
      \<exists>x. st_ports f a = Some x \<and> po_node x = Some p \<and> portnum x = int i"
    using assms(1) unfolding owns_def by blast
  then obtain i where "i < length (ports n)" "ports n ! i = Some a" using assms(2) by (auto simp: held_def in_set_conv_nth)
  then show ?thesis using n(2) by blast
qed

lemma destroy_node_frees:
  assumes "owns f p"
  shows "\<exists>f'. destroy_node p f = Some (f'\<lparr>st_nodes := (st_nodes f)(p := None)\<rparr>) \<and> freed f f' (held f {p})"
proof -
  obtain n where n: "st_nodes f p = Some n" "0 \<le> numports n" "length (ports n) = nat (numports n + 1)"
    and own: "\<And>i a. i < length (ports n) \<Longrightarrow> ports n ! i = Some a \<Longrightarrow>
        \<exists>x. st_ports f a = Some x \<and> po_node x = Some p \<and> portnum x = int i"
    using assms unfolding owns_def by blast
  have "\<exists>f'. free_ports (ports n) f = Some f' \<and> freed f f' {a. Some a \<in> set (ports n)}"
  proof (rule free_ports_all)
    show "a \<in> dom (st_ports f)" if "Some a \<in> set (ports n)" for a
      using that own by (metis domI in_set_conv_nth)
    show "i = j" if h: "i < length (ports n)" "j < length (ports n)" "ports n ! i = Some a" "ports n ! j = Some a" for i j a
    proof -
      obtain x y where "st_ports f a = Some x" "portnum x = int i" "st_ports f a = Some y" "portnum y = int j"
        using own [OF h(1,3)] own [OF h(2,4)] by blast
      then show ?thesis by simp
    qed
  qed
  moreover have "held f {p} = {a. Some a \<in> set (ports n)}" using n(1) by (simp add: held_def)
  ultimately obtain f' where f': "free_ports (ports n) f = Some f'" "freed f f' (held f {p})" by auto
  have ne: "ports n \<noteq> []" using n(2,3) by auto
  have "mem_load (ports n) 0 (nat (numports n + 1)) = Some (ports n)" using n(3) by (simp add: mem_load_def)
  moreover have "st_nodes f' = st_nodes f" using f'(2) by (simp add: freed_def)
  ultimately have "destroy_node p f = Some (f'\<lparr>st_nodes := (st_nodes f)(p := None)\<rparr>)"
    using n(1) ne f'(1) by (simp add: destroy_node_def)
  then show ?thesis using f'(2) by blast
qed

lemma destroy_nodes_path:
  assumes "path (node_next nd_next f) x ps" "length ps \<le> k" "\<And>p. p \<in> set ps \<Longrightarrow> owns f p"
  shows "destroy_node_list k x f =
      Some (f\<lparr>st_nodes := (\<lambda>a. if a \<in> set ps then None else st_nodes f a),
              st_ports := (\<lambda>a. if a \<in> held f (set ps) then None else st_ports f a)\<rparr>)"
  using assms
proof (induction ps arbitrary: x k f)
  case Nil
  then show ?case by (simp add: held_def)
next
  case (Cons p ps)
  then obtain k' y where k: "k = Suc k'" "x = Some p" "node_next nd_next f p = Some y" "path (node_next nd_next f) y ps" "length ps \<le> k'"
    by (cases k) auto
  then obtain n where n: "st_nodes f p = Some n" "y = nd_next n" by (auto simp: node_next_def)
  have p: "p \<notin> set ps" using path_distinct [OF Cons.prems(1)] by simp
  have own: "owns f p" using Cons.prems(3) by simp
  obtain f1 where f1: "destroy_node p f = Some (f1\<lparr>st_nodes := (st_nodes f)(p := None)\<rparr>)" "freed f f1 (held f {p})"
    using destroy_node_frees [OF own] by blast
  let ?g = "f1\<lparr>st_nodes := (st_nodes f)(p := None)\<rparr>"
  have g: "st_ports ?g = (\<lambda>a. if a \<in> held f {p} then None else st_ports f a)" using f1(2) by (simp add: freed_def)
  have keep: "st_ports ?g a = st_ports f a" if "st_ports f a = Some z" "po_node z = Some q" "q \<noteq> p" for a z q
    using owns_held [OF own, of a] that unfolding g by auto
  have "path (node_next nd_next ?g) y ps" by (rule path_cong [OF k(4)]) (use p in \<open>auto simp: node_next_def\<close>)
  moreover have "owns ?g q" if q: "q \<in> set ps" for q
  proof -
    have ne: "q \<noteq> p" using q p by auto
    have "owns f q" using Cons.prems(3) q by simp
    then show ?thesis using ne keep unfolding owns_def by fastforce
  qed
  ultimately have h: "destroy_node_list k' y ?g =
      Some (?g\<lparr>st_nodes := (\<lambda>a. if a \<in> set ps then None else st_nodes ?g a),
              st_ports := (\<lambda>a. if a \<in> held ?g (set ps) then None else st_ports ?g a)\<rparr>)"
    using Cons.IH [OF _ k(5), of ?g y] by blast
  have "held ?g (set ps) \<union> held f {p} = held f (set (p # ps))" using p by (auto simp: held_def)
  then have "(\<lambda>a. if a \<in> held ?g (set ps) then None else st_ports ?g a) = (\<lambda>a. if a \<in> held f (set (p # ps)) then None else st_ports f a)"
    unfolding g by (auto simp: fun_eq_iff set_eq_iff)
  moreover have "(\<lambda>a. if a \<in> set ps then None else st_nodes ?g a) = (\<lambda>a. if a \<in> set (p # ps) then None else st_nodes f a)" by auto
  ultimately show ?case using k(1,2) n f1(1,2) h by (simp add: freed_def)
qed

section \<open>The map of LIDs\<close>

definition lids_ok :: "('m \<Rightarrow> u64 \<rightharpoonup> ptr) \<Rightarrow> 'm fabric \<Rightarrow> bool" where
  \<comment> \<open>the map holds live items, each under one LID\<close>
  "lids_ok sem f \<longleftrightarrow> ran (sem (lid2guid f)) \<subseteq> dom (st_items f) \<and> inj_on (sem (lid2guid f)) (dom (sem (lid2guid f)))"

lemma lid_items_freed:
  assumes laws: "qmap_laws qm sem" and "lids_ok sem f" "card (dom (sem (lid2guid f))) < k"
  shows "\<exists>m items. destroy_lid_items k qm f = Some (f\<lparr>lid2guid := m, st_items := items\<rparr>) \<and> sem m = Map.empty \<and>
    dom items = dom (st_items f) - ran (sem (lid2guid f))"
  using assms(2,3)
proof (induction k arbitrary: f)
  case (Suc k)
  note l = laws [unfolded qmap_laws_def]
  show ?case
  proof (cases "qm_head qm (lid2guid f)")
    case None
    moreover have "case qm_head qm (lid2guid f) of None \<Rightarrow> sem (lid2guid f) = Map.empty | Some p \<Rightarrow> p \<in> ran (sem (lid2guid f))"
      using l by blast
    ultimately have "sem (lid2guid f) = Map.empty" by simp
    then show ?thesis using None by (auto intro!: exI [of _ "lid2guid f"] exI [of _ "st_items f"])
  next
    case (Some a)
    moreover have "case qm_head qm (lid2guid f) of None \<Rightarrow> sem (lid2guid f) = Map.empty | Some p \<Rightarrow> p \<in> ran (sem (lid2guid f))"
      using l by blast
    ultimately have "a \<in> ran (sem (lid2guid f))" by simp
    then obtain key where key: "sem (lid2guid f) key = Some a" by (auto simp: ran_def)
    have inj: "j = key" if "sem (lid2guid f) j = Some a" for j
    proof -
      have "inj_on (sem (lid2guid f)) (dom (sem (lid2guid f)))" using Suc.prems(1) by (simp add: lids_ok_def)
      then show ?thesis by (rule inj_onD) (use key that in auto)
    qed
    let ?m = "qm_remove_item qm (lid2guid f) a"
    have m: "sem ?m = (sem (lid2guid f))(key := None)" using l key inj by blast
    obtain q where q: "st_items f a = Some q" using Suc.prems(1) \<open>a \<in> ran _\<close> unfolding lids_ok_def by blast
    let ?g = "f\<lparr>lid2guid := ?m, st_items := (st_items f)(a := None)\<rparr>"
    have r: "ran (sem ?m) = ran (sem (lid2guid f)) - {a}" unfolding m by (rule ran_remove [where m = "sem (lid2guid f)", OF key]) (use inj in blast)
    have "lids_ok sem ?g"
    proof -
      have "inj_on (sem ?m) (dom (sem ?m))" using Suc.prems(1) unfolding m lids_ok_def inj_on_def by auto
      moreover have "ran (sem ?m) \<subseteq> dom (st_items ?g)" using Suc.prems(1) r unfolding lids_ok_def by auto
      ultimately show ?thesis by (simp add: lids_ok_def)
    qed
    moreover have "card (dom (sem (lid2guid ?g))) < k"
    proof -
      have "finite (dom (sem (lid2guid f)))" using l by blast
      then have "card (dom (sem (lid2guid f)) - {key}) < card (dom (sem (lid2guid f)))"
        by (rule card_Diff1_less) (use key in auto)
      then show ?thesis using Suc.prems(2) m by simp
    qed
    ultimately obtain m' items where h: "destroy_lid_items k qm ?g = Some (?g\<lparr>lid2guid := m', st_items := items\<rparr>)" "sem m' = Map.empty"
        "dom items = dom (st_items ?g) - ran (sem (lid2guid ?g))" using Suc.IH by blast
    have "dom items = dom (st_items f) - ran (sem (lid2guid f))" using h(3) r \<open>a \<in> ran _\<close> by auto
    then show ?thesis using Some q h(1,2) by auto
  qed
qed simp

section \<open>The fabric\<close>

definition chassis_list :: "'m fabric \<Rightarrow> bool" where
  \<comment> \<open>the chassis that are live are the list\<close>
  "chassis_list f \<longleftrightarrow> (\<exists>cs. path (chassis_next f) (fb_chassis f) cs \<and> set cs = dom (st_chassis f) \<and> (\<forall>c \<in> set cs. c < st_next f))"

lemma ibnd_destroy_fabric_frees:
  assumes laws: "qmap_laws qm sem" and ok: "fabric_ok f" and lids: "lids_ok sem f" and ch: "chassis_list f"
  shows "\<exists>f'. ibnd_destroy_fabric qm f = Some f' \<and> st_nodes f' = Map.empty \<and> st_chassis f' = Map.empty \<and>
    st_ports f' = (\<lambda>a. if a \<in> held f (dom (st_nodes f)) then None else st_ports f a) \<and>
    dom (st_items f') = dom (st_items f) - ran (sem (lid2guid f))"
proof -
  obtain cs where cs: "path (chassis_next f) (fb_chassis f) cs" "set cs = dom (st_chassis f)" "\<And>c. c \<in> set cs \<Longrightarrow> c < st_next f"
    using ch unfolding chassis_list_def by blast
  let ?f1 = "f\<lparr>st_chassis := (\<lambda>a. if a \<in> set cs then None else st_chassis f a)\<rparr>"
  have "length cs \<le> st_next f" by (rule path_bounded [OF cs(1,3)])
  then have 1: "destroy_chassis_list (Suc (st_next f)) (fb_chassis f) f = Some ?f1"
    by (intro destroy_chassis_path [OF cs(1)]) simp
  have c: "st_chassis ?f1 = Map.empty" using cs(2) by auto
  have nok: "nodes_ok f" "ports_ok f" using ok by (simp_all add: fabric_ok_def)
  obtain ps where ps: "path (node_next nd_next f) (fb_nodes f) ps" "set ps = dom (st_nodes f)"
    using nodes_okD(4) [OF nok(1)] by (auto simp: lists_nodes_def node_next_def [abs_def] dom_def)
  have len: "length ps \<le> st_next f" by (rule path_bounded [OF ps(1)]) (use ps(2) nodes_okD(1) [OF nok(1)] in auto)
  have own: "owns f p" if p: "p \<in> set ps" for p
  proof -
    obtain n where n: "st_nodes f p = Some n" using p ps(2) by auto
    have "0 \<le> numports n \<and> length (ports n) = nat (numports n + 1)"
      using ports_okD(2) [OF nok(2) n] by (simp add: node_shape_def)
    moreover have "\<forall>i < length (ports n). \<forall>a. ports n ! i = Some a \<longrightarrow> (\<exists>x. st_ports f a = Some x \<and> po_node x = Some p \<and> portnum x = int i)"
      by (intro allI impI ports_okD(3) [OF nok(2) n])
    ultimately show ?thesis unfolding owns_def by (intro exI [of _ n]) (simp add: n)
  qed
  have own: "owns ?f1 p" if "p \<in> set ps" for p using own [OF that] by (simp add: owns_def)
  have p1: "path (node_next nd_next ?f1) (fb_nodes ?f1) ps" using ps(1) by (simp add: node_next_def [abs_def])
  let ?f2 = "?f1\<lparr>st_nodes := (\<lambda>a. if a \<in> set ps then None else st_nodes ?f1 a),
              st_ports := (\<lambda>a. if a \<in> held ?f1 (set ps) then None else st_ports ?f1 a)\<rparr>"
  have 2: "destroy_node_list (Suc (st_next ?f1)) (fb_nodes ?f1) ?f1 = Some ?f2"
    by (rule destroy_nodes_path [OF p1 _ own]) (use len in simp_all)
  have "lids_ok sem ?f2" using lids by (simp add: lids_ok_def)
  moreover have "qm_count qm (lid2guid ?f2) = card (dom (sem (lid2guid ?f2)))" using laws [unfolded qmap_laws_def] by blast
  ultimately have "\<exists>m items. destroy_lid2guid qm ?f2 = Some (?f2\<lparr>lid2guid := m, st_items := items\<rparr>) \<and> sem m = Map.empty \<and>
      dom items = dom (st_items ?f2) - ran (sem (lid2guid ?f2))"
    unfolding destroy_lid2guid_def by (intro lid_items_freed [OF laws]) simp_all
  then obtain m items where 3: "destroy_lid2guid qm ?f2 = Some (?f2\<lparr>lid2guid := m, st_items := items\<rparr>)"
      "dom items = dom (st_items ?f2) - ran (sem (lid2guid ?f2))" by blast
  have "ibnd_destroy_fabric qm f = Some (?f2\<lparr>lid2guid := m, st_items := items\<rparr>)"
    unfolding ibnd_destroy_fabric_def using 1 2 3(1) by simp
  moreover have "st_nodes ?f2 = Map.empty" using ps(2) by (auto simp: fun_eq_iff)
  moreover have "held ?f1 (set ps) = held f (dom (st_nodes f))" using ps(2) by (simp add: held_def)
  ultimately show ?thesis using c 3(2) by (simp cong: if_cong)
qed


section \<open>The end of a discovery\<close>

lemma drop_queued_more: "drop_queued n w = Some w' \<Longrightarrow> smp_world.more w' = smp_world.more w"
proof (induction n arbitrary: w)
  case (Suc n)
  from Suc.prems obtain r w1 where r: "get_smp w = Some (r, w1)" by (auto simp: Option.bind_eq_Some_conv)
  have m: "smp_world.more w1 = smp_world.more w"
    using r by (auto simp: get_smp_def Let_def Option.bind_eq_Some_conv split: option.splits)
  show ?case
  proof (cases r)
    case None
    then show ?thesis using Suc.prems r m by simp
  next
    case (Some a)
    then obtain w2 where w2: "free_smp a w1 = Some w2" "drop_queued n w2 = Some w'"
      using Suc.prems r by (auto simp: Option.bind_eq_Some_conv)
    then have "smp_world.more w2 = smp_world.more w1" by (auto simp: free_smp_def split: option.splits)
    then show ?thesis using Suc.IH [OF w2(2)] m by simp
  qed
qed simp

lemma drop_wire_more: "drop_wire n qm w = Some w' \<Longrightarrow> smp_world.more w' = smp_world.more w"
proof (induction n arbitrary: w)
  case (Suc n)
  show ?case
  proof (cases "qm_head qm (smps_on_wire w)")
    case None
    then show ?thesis using Suc.prems by simp
  next
    case (Some a)
    then obtain w2 where w2: "free_smp a (w\<lparr>smps_on_wire := qm_remove_item qm (smps_on_wire w) a\<rparr>) = Some w2" "drop_wire n qm w2 = Some w'"
      using Suc.prems by (auto simp: Option.bind_eq_Some_conv)
    then have "smp_world.more w2 = smp_world.more w" by (auto simp: free_smp_def split: option.splits)
    then show ?thesis using Suc.IH [OF w2(2)] by simp
  qed
qed simp

lemma smp_engine_destroy_more:
  assumes "smp_engine_destroy qm w = Some w'"
  shows "smp_world.more w' = smp_world.more w"
  using assms drop_queued_more drop_wire_more
  unfolding smp_engine_destroy_def by (fastforce simp: Option.bind_eq_Some_conv simp del: drop_queued.simps drop_wire.simps)

lemma engine_torn_down:
  fixes w :: "'m discovery"
  assumes "qmap_laws qm sem" and "engine_ok sem w q {}"
  shows "\<exists>w'. smp_engine_destroy qm (w\<lparr>d_fab := f\<rparr>) = Some w' \<and> \<not> w_port_open w' \<and> d_fab w' = f \<and>
    dom (w_smps w') = dom (w_smps w) - (set q \<union> ran (sem (smps_on_wire w)))"
proof -
  have "engine_ok sem (w\<lparr>d_fab := f\<rparr>) q {}"
    by (rule engine_ok_upd [OF assms(2)]) (use assms(2) in \<open>auto simp: engine_ok_def\<close>)
  from engine_destroyed [OF assms(1) this] obtain w' where w': "smp_engine_destroy qm (w\<lparr>d_fab := f\<rparr>) = Some w'" "\<not> w_port_open w'"
      "dom (w_smps w') = dom (w_smps w) - (set q \<union> ran (sem (smps_on_wire w)))" by auto
  have "d_fab w' = d_fab (w\<lparr>d_fab := f\<rparr>)" by (rule d_fab_more [OF smp_engine_destroy_more [OF w'(1)]])
  then show ?thesis using w' by auto
qed

definition torn_down :: "('m \<Rightarrow> u64 \<rightharpoonup> ptr) \<Rightarrow> 'm discovery \<Rightarrow> ptr list \<Rightarrow> 'm discovery \<Rightarrow> bool" where
  \<comment> \<open>the port is closed, and the packets queued or on the wire are freed\<close>
  "torn_down sem w q w' \<longleftrightarrow> \<not> w_port_open w' \<and>
     dom (w_smps w') = dom (w_smps w) - (set q \<union> ran (sem (smps_on_wire w)))"

definition all_freed :: "('m \<Rightarrow> u64 \<rightharpoonup> ptr) \<Rightarrow> 'm fabric \<Rightarrow> 'm fabric \<Rightarrow> bool" where
  \<comment> \<open>of the first fabric nothing is left in the second: no node, no chassis, no port of a node and no item of the LID map\<close>
  "all_freed sem f f' \<longleftrightarrow> st_nodes f' = Map.empty \<and> st_chassis f' = Map.empty \<and>
     dom (st_ports f') = dom (st_ports f) - held f (dom (st_nodes f)) \<and>
     dom (st_items f') = dom (st_items f) - ran (sem (lid2guid f))"

lemma discover_failed_frees:
  fixes w :: "'m discovery"
  assumes laws: "qmap_laws qm sem" and w: "engine_ok sem w q {}"
    and f: "fabric_ok f" "lids_ok sem f" "chassis_list f"
  shows "\<exists>w'. discover_failed qm (w\<lparr>d_fab := f\<rparr>) = Some (None, w') \<and> torn_down sem w q w' \<and> all_freed sem f (d_fab w')"
proof -
  obtain w1 where w1: "smp_engine_destroy qm (w\<lparr>d_fab := f\<rparr>) = Some w1" "\<not> w_port_open w1" "d_fab w1 = f"
      "dom (w_smps w1) = dom (w_smps w) - (set q \<union> ran (sem (smps_on_wire w)))"
    using engine_torn_down [OF laws w] by blast
  obtain f' where f': "ibnd_destroy_fabric qm f = Some f'" "st_nodes f' = Map.empty" "st_chassis f' = Map.empty"
      "st_ports f' = (\<lambda>a. if a \<in> held f (dom (st_nodes f)) then None else st_ports f a)"
      "dom (st_items f') = dom (st_items f) - ran (sem (lid2guid f))"
    using ibnd_destroy_fabric_frees [OF laws f] by blast
  have "dom (st_ports f') = dom (st_ports f) - held f (dom (st_nodes f))" unfolding f'(4) by (auto split: if_splits)
  then show ?thesis using w1 f' by (simp add: discover_failed_def on_fab_def torn_down_def all_freed_def)
qed

lemma fstat_stores:
  assumes "fstat g = fstat f"
  shows "dom (st_nodes g) = dom (st_nodes f)" "dom (st_ports g) = dom (st_ports f)" "lid2guid g = lid2guid f" "st_items g = st_items f"
    "held g (dom (st_nodes g)) = held f (dom (st_nodes f))"
proof -
  have n: "map_option nstat (st_nodes g p) = map_option nstat (st_nodes f p)" for p
    using fun_cong [OF arg_cong [OF assms, of st_nodes], of p] by (simp add: fstat_def)
  have p: "map_option pstat (st_ports g a) = map_option pstat (st_ports f a)" for a
    using fun_cong [OF arg_cong [OF assms, of st_ports], of a] by (simp add: fstat_def)
  show d: "dom (st_nodes g) = dom (st_nodes f)" using n by (metis (no_types, lifting) domIff option.map_disc_iff subsetI subset_antisym)
  show "dom (st_ports g) = dom (st_ports f)" using p by (metis (no_types, lifting) domIff option.map_disc_iff subsetI subset_antisym)
  show "lid2guid g = lid2guid f" "st_items g = st_items f"
    using arg_cong [OF assms, of lid2guid] arg_cong [OF assms, of st_items] by (simp_all add: fstat_def)
  have "map_option ports (st_nodes g p) = map_option ports (st_nodes f p)" for p
    using n [of p] by (cases "st_nodes g p"; cases "st_nodes f p") (auto dest: nstatD)
  then have "(\<exists>n. st_nodes g p = Some n \<and> Some a \<in> set (ports n)) \<longleftrightarrow> (\<exists>n. st_nodes f p = Some n \<and> Some a \<in> set (ports n))" for p a
    by (metis (no_types, lifting) map_option_eq_Some)
  then show "held g (dom (st_nodes g)) = held f (dom (st_nodes f))" unfolding held_def d by simp
qed

lemma discover_finish_ends:
  fixes w :: "'m discovery"
  assumes laws: "qmap_laws qm sem" and w: "engine_ok sem w q {}"
    and f: "fabric_ok (d_fab w)" "boards_ok (d_fab w)" "ungrouped (d_fab w)" "lids_ok sem (d_fab w)"
  shows "\<exists>r w'. discover_finish qm e rc w = Some (r, w') \<and> torn_down sem w q w' \<and>
    (case r of None \<Rightarrow> all_freed sem (d_fab w) (d_fab w')
     | Some g \<Rightarrow> rc = 0 \<and> g = d_fab w' \<and> fabric_ok g \<and> chassis_ok g \<and> dom (st_nodes g) = dom (st_nodes (d_fab w)) \<and>
         dom (st_ports g) = dom (st_ports (d_fab w)))"
proof (cases "rc = 0")
  case False
  have "chassis_list (d_fab w)" using f(3) by (auto simp: chassis_list_def ungrouped_def intro!: exI [of _ "[]"])
  from discover_failed_frees [OF laws w f(1,4) this] show ?thesis using False by (auto simp: discover_finish_def)
next
  case True
  let ?f = "(d_fab w)\<lparr>total_mads_used := total_smps w, maxhops_discovered := maxhops_discovered (d_fab w) + d_initial_hops w\<rparr>"
  have "fabric_ok ?f" by (rule fabric_ok_frame [OF f(1)]) simp_all
  moreover have "boards_ok ?f" using f(2) by (simp add: boards_ok_def port_wired_def board_fits_def)
  moreover have "ungrouped ?f" using f(3) by (simp add: ungrouped_def)
  ultimately obtain grc g where g: "group_nodes e ?f = Some (grc, g)" "fabric_ok g" "fstat g = fstat ?f"
      "grc = 0 \<longrightarrow> chassis_ok g" "grc \<noteq> 0 \<longrightarrow> st_chassis g = Map.empty \<and> fb_chassis g = None"
    using group_nodes_runs [of ?f e] by blast
  have same: "dom (st_nodes g) = dom (st_nodes (d_fab w))" "dom (st_ports g) = dom (st_ports (d_fab w))"
      "lid2guid g = lid2guid (d_fab w)" "st_items g = st_items (d_fab w)" "held g (dom (st_nodes g)) = held (d_fab w) (dom (st_nodes (d_fab w)))"
    using fstat_stores [OF g(3)] by (simp_all add: held_def)
  show ?thesis
  proof (cases "grc = 0")
    case True
    obtain w' where "smp_engine_destroy qm (w\<lparr>d_fab := g\<rparr>) = Some w'" "\<not> w_port_open w'" "d_fab w' = g"
        "dom (w_smps w') = dom (w_smps w) - (set q \<union> ran (sem (smps_on_wire w)))"
      using engine_torn_down [OF laws w] by blast
    then show ?thesis using True \<open>rc = 0\<close> g same(1,2) by (simp add: discover_finish_def Let_def torn_down_def)
  next
    case False
    have "lids_ok sem g" using f(4) same(3,4) by (simp add: lids_ok_def)
    moreover have "chassis_list g" using g(5) False by (auto simp: chassis_list_def intro!: exI [of _ "[]"])
    ultimately obtain w' where w': "discover_failed qm (w\<lparr>d_fab := g\<rparr>) = Some (None, w')" "torn_down sem w q w'" "all_freed sem g (d_fab w')"
      using discover_failed_frees [OF laws w g(2)] by blast
    have "all_freed sem (d_fab w) (d_fab w')" using w'(3) same by (simp add: all_freed_def)
    then show ?thesis using w'(1,2) False \<open>rc = 0\<close> g(1) by (simp add: discover_finish_def Let_def)
  qed
qed

text \<open>
  C3 (safety): once the queries are over, with whatever result, and provided that the fabric found is well
  formed (as every handler leaves it), its boards are numbered as the hardware numbers them (\<open>boards_ok\<close>), no
  node is in a chassis yet (\<open>ungrouped\<close>) and the LID map holds each live item under one LID (\<open>lids_ok\<close>), \<open>ibnd_discover_fabric\<close>
  comes to its end without touching freed memory and without leaving an array. The engine is torn down, with every packet that was queued
  or on the wire freed and the port closed. On success the fabric returned is well formed, with live chassis references and all
  the nodes and ports found; otherwise every node, every port of a node, every chassis and every item of the LID map is freed.
\<close>

theorem discovery_ends_cleanly:
  fixes w :: "'m discovery"
  assumes "qmap_laws qm sem" and "engine_ok sem w q {}"
    and "fabric_ok (d_fab w)" "boards_ok (d_fab w)" "ungrouped (d_fab w)" "lids_ok sem (d_fab w)"
  shows "\<exists>r w'. discover_finish qm e rc w = Some (r, w') \<and> torn_down sem w q w' \<and>
    (case r of None \<Rightarrow> all_freed sem (d_fab w) (d_fab w')
     | Some g \<Rightarrow> rc = 0 \<and> g = d_fab w' \<and> fabric_ok g \<and> chassis_ok g \<and> dom (st_nodes g) = dom (st_nodes (d_fab w)) \<and>
         dom (st_ports g) = dom (st_ports (d_fab w)))"
  using discover_finish_ends [OF assms, of e rc] by simp


text \<open>
  C7 (safety): destroying a well-formed fabric never frees anything twice and never
  follows a dangling pointer; it frees all nodes, all chassis, exactly the ports the nodes hold and exactly
  the items of the LID map.
\<close>

theorem destroy_fabric_frees:
  assumes "qmap_laws qm sem" and "fabric_ok f" and "lids_ok sem f" and "chassis_list f"
  shows "\<exists>f'. ibnd_destroy_fabric qm f = Some f' \<and> st_nodes f' = Map.empty \<and> st_chassis f' = Map.empty \<and>
    st_ports f' = (\<lambda>a. if a \<in> held f (dom (st_nodes f)) then None else st_ports f a) \<and>
    dom (st_items f') = dom (st_items f) - ran (sem (lid2guid f))"
  by (rule ibnd_destroy_fabric_frees [OF assms])

text \<open>
  Property (error): \<open>ibnd_discover_fabric\<close> accepts \<open>NULL\<close> for the
  configuration where it takes the settings of the engine from it, but then reads the time-out for
  the synchronous calls through the same pointer: without a configuration every call that gets the
  port open follows \<open>NULL\<close>.
\<close>

theorem discover_without_config:
  assumes "de_fabric env"
    and "mad_rpc_open_port (de_reg env) (de_rpc_init env) (de_rpc_alloc env) (de_rpc_fd env)
           [int (unat IB_SMI_CLASS), int (unat IB_SMI_DIRECT_CLASS)] 2 = Some (Some port, rs)"
  shows "ibnd_discover_fabric qm e junk env ms from None = None"
  using assms by (simp add: ibnd_discover_fabric_def Let_def)

section \<open>Concrete states\<close>

lemma example_fabric_lids: "lids_ok map_of example_fabric" "chassis_list example_fabric" "boards_ok example_fabric" "ungrouped example_fabric"
proof -
  have n: "st_nodes example_fabric = [0 \<mapsto> node_zero\<lparr>nd_type := 1, numports := 1, ports := [Some 2, Some 3]\<rparr>]"
    and p: "st_ports example_fabric = [2 \<mapsto> port_zero\<lparr>po_node := Some 0\<rparr>, 3 \<mapsto> port_zero\<lparr>po_node := Some 0, portnum := 1\<rparr>]"
    by (simp_all add: example_fabric_def)
  have v: "vendid (node_zero\<lparr>nd_type := 1, numports := 1, ports := [Some 2, Some 3]\<rparr>) = Some 0"
    by (simp add: vendid_def node_zero_def eval_field)
  note e = example_fabric_def allocate_fabric_internal_def create_lid2guid_def alist_qmap_def
  show "lids_ok map_of example_fabric" by (simp add: lids_ok_def e)
  show "chassis_list example_fabric" by (auto simp: chassis_list_def e intro!: exI [of _ "[]"])
  show "ungrouped example_fabric" by (auto simp: ungrouped_def e node_zero_def c_eval split: if_splits)
  show "boards_ok example_fabric"
    unfolding boards_ok_def port_wired_def board_fits_def n p by (auto simp: port_zero_def v c_eval split: if_splits)
qed

theorem destroy_fabric_frees_witness:
  "\<exists>f'. ibnd_destroy_fabric alist_qmap example_fabric = Some f' \<and> st_nodes f' = Map.empty \<and> st_ports f' = Map.empty"
proof -
  have "held example_fabric (dom (st_nodes example_fabric)) = {2, 3}" "dom (st_ports example_fabric) = {2, 3}"
    by (auto simp: held_def example_fabric_def split: if_splits)
  then have "(\<lambda>a. if a \<in> held example_fabric (dom (st_nodes example_fabric)) then None else st_ports example_fabric a) = Map.empty"
    by (auto simp: fun_eq_iff)
  with destroy_fabric_frees [OF alist_qmap_laws example_fabric_ok example_fabric_lids(1,2)] show ?thesis by metis
qed

lemma example_grouped:
  "group_nodes BE (example_fabric\<lparr>total_mads_used := k, maxhops_discovered := h\<rparr>) =
     Some (0, example_fabric\<lparr>total_mads_used := k, maxhops_discovered := h, fb_chassis := None\<rparr>)"
proof -
  let ?n = "node_zero\<lparr>nd_type := 1, numports := 1, ports := [Some 2, Some 3]\<rparr>"
  have e: "switches example_fabric = None" "fb_nodes example_fabric = Some 0" "st_nodes example_fabric = [0 \<mapsto> ?n]" "st_next example_fabric = 4"
    by (simp_all add: example_fabric_def allocate_fabric_internal_def create_lid2guid_def)
  have v: "vendid ?n = Some 0" by (simp add: vendid_def node_zero_def eval_field)
  have g: "mad_get_field64 BE (nd_info node_zero) 0 IB_NODE_SYSTEM_GUID_F = Some 0" "nd_next node_zero = None"
    by (simp_all add: node_zero_def eval_field mad_get_field64_def get_field64_load mem_load_def le_word_zeros)
  have k: "node_loop 5 nx body (Some p) s = do {
      (rc, s) \<leftarrow> body p s;
      if rc \<noteq> 0 then Some (rc, s) else do { n \<leftarrow> st_nodes (gr_fab s) p; node_loop 4 nx body (nx n) s }
    }" for nx body p and s :: "(u64 \<times> ptr) list chassis_scan_t"
    using node_loop.simps(3) [of 4 nx body p s] by simp
  show ?thesis by (simp add: group_nodes_def and_then_def e k count_pass_def member_pass_def v g)
qed

lemma example_engine: "engine_ok map_of (example_discovery\<lparr>d_fab := example_fabric\<rparr>) [] {}"
  by (rule engine_ok_upd [OF example_discovery_ok(1)]) (simp_all add: example_discovery_def)

theorem discovery_ends_cleanly_witness:
  "\<exists>g w' w''. discover_finish alist_qmap BE 0 (example_discovery\<lparr>d_fab := example_fabric\<rparr>) = Some (Some g, w') \<and>
     fabric_ok g \<and> chassis_ok g \<and> dom (st_nodes g) = {0} \<and> \<not> w_port_open w' \<and> w_smps w' = Map.empty \<and>
     discover_finish alist_qmap BE (-1) (example_discovery\<lparr>d_fab := example_fabric\<rparr>) = Some (None, w'') \<and>
     st_nodes (d_fab w'') = Map.empty \<and> st_ports (d_fab w'') = Map.empty \<and> \<not> w_port_open w''"
proof -
  let ?w = "example_discovery\<lparr>d_fab := example_fabric\<rparr>"
  have d: "dom (st_nodes example_fabric) = {0}" "dom (st_ports example_fabric) = {2, 3}" "held example_fabric (dom (st_nodes example_fabric)) = {2, 3}"
    by (auto simp: held_def example_fabric_def split: if_splits)
  have s: "dom (w_smps ?w) - (set [] \<union> ran (map_of (smps_on_wire ?w))) = {}" by (simp add: example_discovery_def)
  note ends = discovery_ends_cleanly [OF alist_qmap_laws example_engine, of BE, simplified, OF example_fabric_ok example_fabric_lids(3,4,1)]
  have "r \<noteq> None" if "discover_finish alist_qmap BE 0 ?w = Some (r, w')" for r w'
    using that by (auto simp: discover_finish_def Let_def example_grouped Option.bind_eq_Some_conv)
  with ends [of 0] obtain g w' where "discover_finish alist_qmap BE 0 ?w = Some (Some g, w')" "torn_down map_of ?w [] w'"
      "fabric_ok g" "chassis_ok g" "dom (st_nodes g) = {0}"
    using d(1) by (auto split: option.splits)
  moreover from ends [of "-1"] obtain w'' where "discover_finish alist_qmap BE (-1) ?w = Some (None, w'')" "torn_down map_of ?w [] w''"
      "all_freed map_of example_fabric (d_fab w'')"
    by (auto split: option.splits)
  moreover from \<open>torn_down map_of ?w [] w'\<close> have "w_smps w' = Map.empty" using s by (simp add: torn_down_def flip: dom_eq_empty_conv)
  ultimately show ?thesis using d by (auto simp: torn_down_def all_freed_def)
qed

theorem discover_without_config_witness:
  "ibnd_discover_fabric alist_qmap BE [] \<lparr>de_fabric = True, de_alloc = (\<lambda>_. True), de_rpc_init = True, de_rpc_alloc = True,
     de_rpc_fd = 3, de_reg = \<lparr>rg_results = [5, 6], rg_calls = [], rg_errno = 0\<rparr>, de_eng_init = True, de_eng_fd = 4,
     de_agent = 5, de_dir_agent = 6, de_smps = (\<lambda>_. True)\<rparr> example_state None None = None"
proof -
  obtain p rs where run: "mad_rpc_open_port \<lparr>rg_results = [5, 6], rg_calls = [], rg_errno = 0\<rparr> True True 3
      [int (unat IB_SMI_CLASS), int (unat IB_SMI_DIRECT_CLASS)] 2 = Some (Some p, rs)"
    by (simp add: mad_rpc_open_port_def mad_register_client_via_def mad_register_port_client_def do_register_def
        agents_set_def blank_port_def mgmt_class_vers_def c_eval)
  show ?thesis by (rule discover_without_config) (simp, use run in simp)
qed

end
