(* ===== verification/IbnCache.thy ===== *)
theory IbnCache
  imports Fabric Chassis
begin

text \<open>
  The cache of a fabric (\<open>libibnetdisc/src/ibnetdisc_cache.c\<close>): a fabric is written to a
  file and read back without asking the subnet again. The file is little-endian on every host.

  Reading builds, beside the fabric, temporary structures that hold the keys by which nodes and
  ports name each other; they live in a store of their own (\<open>st_ncache\<close>, \<open>st_pcache\<close>)
  whose addresses come from the allocator of the fabric. What \<open>_load_node\<close> and \<open>_load_port\<close> allocate is stored once its record
  has been read; on a failed read, where they free the structures they have just made, nothing has been stored. The array of the
  port keys is a list in the record of its node, and \<open>fabric_cache\<close> itself is an argument: neither has an address.
\<close>

section \<open>Files\<close>

text \<open>
  What the kernel does in one call of \<open>read\<close> or \<open>write\<close>: it transfers some bytes, is
  interrupted (\<open>EINTR\<close>), or fails. A descriptor holds what the next calls do; when the list is
  used up, calls transfer all they can.
\<close>

datatype io_result = Chunk nat | Eintr | Eio

record rfile =
  rf_data :: mem \<comment> \<open>what is left to read\<close>
  rf_sched :: "io_result list"

record wfile =
  wf_data :: mem
  wf_pos :: nat
  wf_sched :: "io_result list"
  wf_seekable :: bool

datatype 'a io = Done 'a | Interrupted | Failed

definition sys_read :: "nat \<Rightarrow> rfile \<Rightarrow> mem io \<times> rfile" where
  \<comment> \<open>\<open>read\<close> transfers no bytes only at the end of the file\<close>
  "sys_read n fd =
     (case rf_sched fd of
        [] \<Rightarrow> (Done (take n (rf_data fd)), fd\<lparr>rf_data := drop n (rf_data fd)\<rparr>)
      | Chunk k # rs \<Rightarrow> let m = min n (Suc k) in
          (Done (take m (rf_data fd)), fd\<lparr>rf_data := drop m (rf_data fd), rf_sched := rs\<rparr>)
      | Eintr # rs \<Rightarrow> (Interrupted, fd\<lparr>rf_sched := rs\<rparr>)
      | Eio # rs \<Rightarrow> (Failed, fd\<lparr>rf_sched := rs\<rparr>))"

definition put_at :: "nat \<Rightarrow> mem \<Rightarrow> mem \<Rightarrow> mem" where
  \<comment> \<open>a file after bytes are written at a position; a gap reads as zeros\<close>
  "put_at pos bs file = take pos (file @ replicate (pos - length file) 0) @ bs @ drop (pos + length bs) file"

definition sys_write :: "mem \<Rightarrow> wfile \<Rightarrow> nat io \<times> wfile" where
  "sys_write bs fd =
     (let put = (\<lambda>m rs. (Done m, fd\<lparr>wf_data := put_at (wf_pos fd) (take m bs) (wf_data fd), wf_pos := wf_pos fd + m, wf_sched := rs\<rparr>))
      in case wf_sched fd of
        [] \<Rightarrow> put (length bs) []
      | Chunk k # rs \<Rightarrow> put (min (length bs) k) rs
      | Eintr # rs \<Rightarrow> (Interrupted, fd\<lparr>wf_sched := rs\<rparr>)
      | Eio # rs \<Rightarrow> (Failed, fd\<lparr>wf_sched := rs\<rparr>))"

text \<open>
  \<open>ibnd_read\<close> and \<open>ibnd_write\<close>: every round uses up an entry of the descriptor, transfers
  a byte, or ends.
\<close>

fun read_loop :: "nat \<Rightarrow> nat \<Rightarrow> nat \<Rightarrow> mem \<Rightarrow> rfile \<Rightarrow> (nat option \<times> mem \<times> rfile) option" where
  \<comment> \<open>\<open>count_done\<close> at the end, none after an error\<close>
  "read_loop 0 count count_done buf fd = None"
| "read_loop (Suc n) count count_done buf fd =
     (if count - count_done > 0 then
        (case sys_read (count - count_done) fd of
           (Failed, fd) \<Rightarrow> Some (None, buf, fd)
         | (Interrupted, fd) \<Rightarrow> read_loop n count count_done buf fd
         | (Done bs, fd) \<Rightarrow>
             if bs = [] then Some (Some count_done, buf, fd)
             else do { buf \<leftarrow> mem_store buf count_done bs; read_loop n count (count_done + length bs) buf fd })
      else Some (Some count_done, buf, fd))"

definition ibnd_read :: "rfile \<Rightarrow> mem \<Rightarrow> nat \<Rightarrow> (int \<times> mem \<times> rfile) option" where
  "ibnd_read fd buf count = do {
     (r, buf, fd) \<leftarrow> read_loop (count + length (rf_sched fd) + 1) count 0 buf fd;
     case r of None \<Rightarrow> Some (-1, buf, fd)
     | Some count_done \<Rightarrow>
         if count_done \<noteq> count then Some (-1, buf, fd) else Some (int count_done, buf, fd)
   }"

fun write_loop :: "nat \<Rightarrow> mem \<Rightarrow> nat \<Rightarrow> nat \<Rightarrow> wfile \<Rightarrow> (int \<times> wfile) option" where
  "write_loop 0 buf count count_done fd = None"
| "write_loop (Suc n) buf count count_done fd =
     (if count - count_done > 0 then do {
        bs \<leftarrow> mem_load buf count_done (count - count_done);
        case sys_write bs fd of
          (Failed, fd) \<Rightarrow> Some (-1, fd)
        | (Interrupted, fd) \<Rightarrow> write_loop n buf count count_done fd
        | (Done m, fd) \<Rightarrow> write_loop n buf count (count_done + m) fd
      }
      else Some (int count_done, fd))"

definition ibnd_write :: "wfile \<Rightarrow> mem \<Rightarrow> nat \<Rightarrow> (int \<times> wfile) option" where
  "ibnd_write fd buf count = write_loop (count + length (wf_sched fd) + 1) buf count 0 fd"

section \<open>Integers in the file\<close>

text \<open>
  \<open>offset += _marshall<n>(buf + offset, x)\<close> and \<open>offset += _unmarshall<n>(buf + offset, &x)\<close>;
  a \<open>cursor\<close> is the buffer and the offset.
\<close>

type_synonym cursor = "mem \<times> nat"

definition marshall8 :: "u8 \<Rightarrow> cursor \<Rightarrow> cursor option" where
  "marshall8 num = (\<lambda>(buf, offset). do { buf \<leftarrow> mem_store buf offset [num]; Some (buf, offset + 1) })"

definition marshall16 :: "u16 \<Rightarrow> cursor \<Rightarrow> cursor option" where
  "marshall16 num = (\<lambda>(buf, offset). do {
     buf \<leftarrow> mem_store buf offset [ucast (num AND 0x00FF), ucast (drop_bit 8 (num AND 0xFF00))];
     Some (buf, offset + 2)
   })"

definition marshall32 :: "u32 \<Rightarrow> cursor \<Rightarrow> cursor option" where
  "marshall32 num = (\<lambda>(buf, offset). do {
     buf \<leftarrow> mem_store buf offset
       [ucast (num AND 0x000000FF), ucast (drop_bit 8 (num AND 0x0000FF00)),
        ucast (drop_bit 16 (num AND 0x00FF0000)), ucast (drop_bit 24 (num AND 0xFF000000))];
     Some (buf, offset + 4)
   })"

definition marshall64 :: "u64 \<Rightarrow> cursor \<Rightarrow> cursor option" where
  "marshall64 num = (\<lambda>(buf, offset). do {
     buf \<leftarrow> mem_store buf offset
       [ucast num, ucast (drop_bit 8 num), ucast (drop_bit 16 num), ucast (drop_bit 24 num),
        ucast (drop_bit 32 num), ucast (drop_bit 40 num), ucast (drop_bit 48 num), ucast (drop_bit 56 num)];
     Some (buf, offset + 8)
   })"

definition marshall_buf :: "mem \<Rightarrow> nat \<Rightarrow> cursor \<Rightarrow> cursor option" where
  "marshall_buf inbuf len = (\<lambda>(buf, offset). do {
     bs \<leftarrow> mem_load inbuf 0 len;
     buf \<leftarrow> mem_store buf offset bs;
     Some (buf, offset + len)
   })"

definition unmarshall8 :: "mem \<Rightarrow> nat \<Rightarrow> (u8 \<times> nat) option" where
  "unmarshall8 buf offset = do { b \<leftarrow> mem_load buf offset 1; Some (b ! 0, offset + 1) }"

definition unmarshall16 :: "mem \<Rightarrow> nat \<Rightarrow> (u16 \<times> nat) option" where
  "unmarshall16 buf offset = do {
     b \<leftarrow> mem_load buf offset 2;
     Some (push_bit 8 (ucast (b ! 1)) OR ucast (b ! 0), offset + 2)
   }"

definition unmarshall32 :: "mem \<Rightarrow> nat \<Rightarrow> (u32 \<times> nat) option" where
  "unmarshall32 buf offset = do {
     b \<leftarrow> mem_load buf offset 4;
     Some (ucast (b ! 0) OR push_bit 8 (ucast (b ! 1)) OR push_bit 16 (ucast (b ! 2)) OR push_bit 24 (ucast (b ! 3)),
       offset + 4)
   }"

definition unmarshall64 :: "mem \<Rightarrow> nat \<Rightarrow> (u64 \<times> nat) option" where
  "unmarshall64 buf offset = do {
     b \<leftarrow> mem_load buf offset 8;
     Some (ucast (b ! 0) OR push_bit 8 (ucast (b ! 1)) OR push_bit 16 (ucast (b ! 2)) OR push_bit 24 (ucast (b ! 3))
       OR push_bit 32 (ucast (b ! 4)) OR push_bit 40 (ucast (b ! 5)) OR push_bit 48 (ucast (b ! 6)) OR push_bit 56 (ucast (b ! 7)),
       offset + 8)
   }"

definition unmarshall_buf :: "mem \<Rightarrow> nat \<Rightarrow> nat \<Rightarrow> (mem \<times> nat) option" where
  "unmarshall_buf buf offset len = do { bs \<leftarrow> mem_load buf offset len; Some (bs, offset + len) }"

section \<open>The temporary structures\<close>

record ibnd_port_cache_key_t =
  ck_guid :: u64
  ck_portnum :: u8

record ibnd_node_cache_t =
  nc_node :: "ptr option"
  ports_stored_count :: u8
  port_cache_keys :: "ibnd_port_cache_key_t list"
  nc_next :: "ptr option"
  nc_htnext :: "ptr option"
  node_stored_to_fabric :: int

record ibnd_port_cache_t =
  pc_port :: "ptr option"
  node_guid :: u64
  remoteport_flag :: u8
  remoteport_cache_key :: ibnd_port_cache_key_t
  pc_next :: "ptr option"
  pc_htnext :: "ptr option"
  port_stored_to_fabric :: int

record 'm fabric_cache =
  f_int :: "'m fabric"
  from_node_guid :: u64
  nodes_cache :: "ptr option"
  ports_cache :: "ptr option"
  nodescachetbl :: "ptr option list"
  portscachetbl :: "ptr option list"
  st_ncache :: "ptr \<rightharpoonup> ibnd_node_cache_t"
  st_pcache :: "ptr \<rightharpoonup> ibnd_port_cache_t"

definition IBND_FABRIC_CACHE_BUFLEN :: nat where [c_eval]: "IBND_FABRIC_CACHE_BUFLEN = 4096"
definition IBND_FABRIC_CACHE_MAGIC :: u32 where [c_eval]: "IBND_FABRIC_CACHE_MAGIC = 0x8FE7832B"
definition IBND_FABRIC_CACHE_VERSION :: u32 where [c_eval]: "IBND_FABRIC_CACHE_VERSION = 0x00000001"
definition IBND_FABRIC_CACHE_COUNT_OFFSET :: nat where [c_eval]: "IBND_FABRIC_CACHE_COUNT_OFFSET = 8"
definition IBND_FABRIC_CACHE_HEADER_LEN :: nat where [c_eval]: "IBND_FABRIC_CACHE_HEADER_LEN = 28"
definition IBND_NODE_CACHE_HEADER_LEN :: nat where [c_eval]: "IBND_NODE_CACHE_HEADER_LEN = 15 + 64 * 3"
definition IBND_PORT_CACHE_KEY_LEN :: nat where [c_eval]: "IBND_PORT_CACHE_KEY_LEN = 8 + 1"
definition IBND_PORT_CACHE_LEN :: nat where [c_eval]: "IBND_PORT_CACHE_LEN = 31 + 64"

definition key_zero :: ibnd_port_cache_key_t where
  "key_zero = \<lparr>ck_guid = 0, ck_portnum = 0\<rparr>"

definition ncache_zero :: ibnd_node_cache_t where
  "ncache_zero = \<lparr>nc_node = None, ports_stored_count = 0, port_cache_keys = [], nc_next = None, nc_htnext = None,
     node_stored_to_fabric = 0\<rparr>"

definition pcache_zero :: ibnd_port_cache_t where
  "pcache_zero = \<lparr>pc_port = None, node_guid = 0, remoteport_flag = 0, remoteport_cache_key = key_zero, pc_next = None,
     pc_htnext = None, port_stored_to_fabric = 0\<rparr>"

definition fcache_zero :: "'m fabric \<Rightarrow> 'm fabric_cache" where
  \<comment> \<open>after \<open>fabric_cache->f_int = f_int\<close>\<close>
  "fcache_zero f = \<lparr>f_int = f, from_node_guid = 0, nodes_cache = None, ports_cache = None,
     nodescachetbl = replicate HTSZ None, portscachetbl = replicate HTSZ None,
     st_ncache = Map.empty, st_pcache = Map.empty\<rparr>"

definition new_cache_addr :: "'m fabric_cache \<Rightarrow> ptr option \<times> 'm fabric_cache" where
  \<comment> \<open>\<open>malloc\<close>\<close>
  "new_cache_addr c = (let (a, f) = new_addr (f_int c) in (a, c\<lparr>f_int := f\<rparr>))"

definition on_f_int :: "('m fabric \<Rightarrow> 'm fabric option) \<Rightarrow> 'm fabric_cache \<Rightarrow> 'm fabric_cache option" where
  "on_f_int g c = do { f \<leftarrow> g (f_int c); Some (c\<lparr>f_int := f\<rparr>) }"

definition ncache_node :: "'m fabric_cache \<Rightarrow> ptr \<Rightarrow> ibnd_node_t option" where
  \<comment> \<open>\<open>*node_cache->node\<close>\<close>
  "ncache_node c a = do { nc \<leftarrow> st_ncache c a; p \<leftarrow> nc_node nc; st_nodes (f_int c) p }"

definition pcache_port :: "'m fabric_cache \<Rightarrow> ptr \<Rightarrow> ibnd_port_t option" where
  \<comment> \<open>\<open>*port_cache->port\<close>\<close>
  "pcache_port c a = do { pc \<leftarrow> st_pcache c a; p \<leftarrow> pc_port pc; st_ports (f_int c) p }"

section \<open>Destroying them\<close>

definition destroy_ibnd_node_cache :: "ptr \<Rightarrow> 'm fabric_cache \<Rightarrow> 'm fabric_cache option" where
  "destroy_ibnd_node_cache a c = do {
     nc \<leftarrow> st_ncache c a;
     c \<leftarrow> (case nc_node nc of
            Some node \<Rightarrow> if node_stored_to_fabric nc = 0 then on_f_int (destroy_node node) c else Some c
          | None \<Rightarrow> Some c);
     Some (c\<lparr>st_ncache := (st_ncache c)(a := None)\<rparr>)
   }"

definition destroy_ibnd_port_cache :: "ptr \<Rightarrow> 'm fabric_cache \<Rightarrow> 'm fabric_cache option" where
  \<comment> \<open>the body of the second loop\<close>
  "destroy_ibnd_port_cache a c = do {
     pc \<leftarrow> st_pcache c a;
     c \<leftarrow> (if port_stored_to_fabric pc = 0 then on_f_int (free_port (pc_port pc)) c else Some c);
     Some (c\<lparr>st_pcache := (st_pcache c)(a := None)\<rparr>)
   }"

fun destroy_node_caches :: "nat \<Rightarrow> ptr option \<Rightarrow> 'm fabric_cache \<Rightarrow> 'm fabric_cache option" where
  "destroy_node_caches n None c = Some c"
| "destroy_node_caches 0 (Some a) c = None"
| "destroy_node_caches (Suc n) (Some a) c = do {
     nc \<leftarrow> st_ncache c a;
     c \<leftarrow> destroy_ibnd_node_cache a c;
     destroy_node_caches n (nc_next nc) c
   }"

fun destroy_port_caches :: "nat \<Rightarrow> ptr option \<Rightarrow> 'm fabric_cache \<Rightarrow> 'm fabric_cache option" where
  "destroy_port_caches n None c = Some c"
| "destroy_port_caches 0 (Some a) c = None"
| "destroy_port_caches (Suc n) (Some a) c = do {
     pc \<leftarrow> st_pcache c a;
     c \<leftarrow> destroy_ibnd_port_cache a c;
     destroy_port_caches n (pc_next pc) c
   }"

definition destroy_ibnd_fabric_cache :: "'m fabric_cache \<Rightarrow> 'm fabric_cache option" where
  "destroy_ibnd_fabric_cache c = do {
     c \<leftarrow> destroy_node_caches (Suc (st_next (f_int c))) (nodes_cache c) c;
     destroy_port_caches (Suc (st_next (f_int c))) (ports_cache c) c
   }"

section \<open>Reading\<close>

definition load_header_info :: "mem \<Rightarrow> rfile \<Rightarrow> 'm fabric_cache \<Rightarrow> (int \<times> u32 \<times> u32 \<times> 'm fabric_cache \<times> rfile) option" where
  \<comment> \<open>\<open>buf\<close>: the uninitialised array; the counts are those of the caller, 0 before the call\<close>
  "load_header_info buf fd c = do {
     (rc, buf, fd) \<leftarrow> ibnd_read fd buf IBND_FABRIC_CACHE_HEADER_LEN;
     if rc < 0 then Some (-1, 0, 0, c, fd)
     else do {
       (magic, offset) \<leftarrow> unmarshall32 buf 0;
       if magic \<noteq> IBND_FABRIC_CACHE_MAGIC then Some (-1, 0, 0, c, fd)
       else do {
         (version, offset) \<leftarrow> unmarshall32 buf offset;
         if version \<noteq> IBND_FABRIC_CACHE_VERSION then Some (-1, 0, 0, c, fd)
         else do {
           (node_count, offset) \<leftarrow> unmarshall32 buf offset;
           (port_count, offset) \<leftarrow> unmarshall32 buf offset;
           (guid, offset) \<leftarrow> unmarshall64 buf offset;
           (tmp32, offset) \<leftarrow> unmarshall32 buf offset;
           Some (0, node_count, port_count,
             c\<lparr>from_node_guid := guid, f_int := (f_int c)\<lparr>maxhops_discovered := tmp32\<rparr>\<rparr>, fd)
         }
       }
     }
   }"

definition store_node_cache :: "ptr \<Rightarrow> 'm fabric_cache \<Rightarrow> 'm fabric_cache option" where
  "store_node_cache a c = do {
     n \<leftarrow> ncache_node c a;
     nc \<leftarrow> st_ncache c a;
     let i = hash_idx (nd_guid n);
     x \<leftarrow> mem_rd (nodescachetbl c) i;
     Some (c\<lparr>st_ncache := (st_ncache c)(a \<mapsto> nc\<lparr>nc_next := nodes_cache c, nc_htnext := x\<rparr>),
       nodes_cache := Some a, nodescachetbl := (nodescachetbl c)[i := Some a]\<rparr>)
   }"

definition read_node :: "mem \<Rightarrow> ibnd_node_t \<Rightarrow> (ibnd_node_t \<times> u8) option" where
  \<comment> \<open>the fields of a node, and \<open>ports_stored_count\<close>\<close>
  "read_node buf node = do {
     (smalid, offset) \<leftarrow> unmarshall16 buf 0;
     (smalmc, offset) \<leftarrow> unmarshall8 buf offset;
     (smaenhsp0, offset) \<leftarrow> unmarshall8 buf offset;
     (switchinfo, offset) \<leftarrow> unmarshall_buf buf offset 64;
     (guid, offset) \<leftarrow> unmarshall64 buf offset;
     (type, offset) \<leftarrow> unmarshall8 buf offset;
     (numports, offset) \<leftarrow> unmarshall8 buf offset;
     (info, offset) \<leftarrow> unmarshall_buf buf offset 64;
     (nodedesc, offset) \<leftarrow> unmarshall_buf buf offset 64;
     (count, offset) \<leftarrow> unmarshall8 buf offset;
     Some (node\<lparr>smalid := smalid, smalmc := smalmc, smaenhsp0 := uint smaenhsp0, switchinfo := switchinfo,
       nd_guid := guid, nd_type := uint type, numports := uint numports, nd_info := info, nodedesc := nodedesc\<rparr>, count)
   }"

fun read_keys :: "nat \<Rightarrow> mem \<Rightarrow> nat \<Rightarrow> (ibnd_port_cache_key_t list) option" where
  \<comment> \<open>the keys that the loop stores into \<open>port_cache_keys\<close>\<close>
  "read_keys 0 buf offset = Some []"
| "read_keys (Suc n) buf offset = do {
     (guid, offset) \<leftarrow> unmarshall64 buf offset;
     (portnum, offset) \<leftarrow> unmarshall8 buf offset;
     ks \<leftarrow> read_keys n buf offset;
     Some (\<lparr>ck_guid = guid, ck_portnum = portnum\<rparr> # ks)
   }"

definition load_node_failed :: "ptr \<Rightarrow> 'm fabric_cache \<Rightarrow> rfile \<Rightarrow> (int \<times> 'm fabric_cache \<times> rfile) option" where
  \<comment> \<open>the label \<open>cleanup\<close> of \<open>_load_node\<close>\<close>
  "load_node_failed a c fd = do { c \<leftarrow> destroy_ibnd_node_cache a c; Some (-1, c, fd) }"

definition load_node :: "mem \<Rightarrow> rfile \<Rightarrow> 'm fabric_cache \<Rightarrow> (int \<times> 'm fabric_cache \<times> rfile) option" where
  "load_node buf fd c =
     (case new_cache_addr c of (None, c) \<Rightarrow> Some (-1, c, fd)
      | (Some a, c) \<Rightarrow>
     (case new_cache_addr c of (None, c) \<Rightarrow> Some (-1, c, fd)
      | (Some p, c) \<Rightarrow> do {
          let c = c\<lparr>f_int := (f_int c)\<lparr>st_nodes := (st_nodes (f_int c))(p \<mapsto> node_zero)\<rparr>,
                    st_ncache := (st_ncache c)(a \<mapsto> ncache_zero\<lparr>nc_node := Some p\<rparr>)\<rparr>;
          (rc, buf, fd) \<leftarrow> ibnd_read fd buf IBND_NODE_CACHE_HEADER_LEN;
          if rc < 0 then load_node_failed a c fd
          else do {
            (node, count) \<leftarrow> read_node buf node_zero;
            let nc = ncache_zero\<lparr>nc_node := Some p, ports_stored_count := count\<rparr>;
            let c = c\<lparr>f_int := (f_int c)\<lparr>st_nodes := (st_nodes (f_int c))(p \<mapsto> node)\<rparr>,
                      st_ncache := (st_ncache c)(a \<mapsto> nc)\<rparr>;
            if count = 0 then do { c \<leftarrow> store_node_cache a c; Some (0, c, fd) }
            else (case new_cache_addr c of (None, c) \<Rightarrow> load_node_failed a c fd
             | (Some _, c) \<Rightarrow> do {
                 (rc, buf, fd) \<leftarrow> ibnd_read fd buf (IBND_PORT_CACHE_KEY_LEN * unat count);
                 if rc < 0 then load_node_failed a c fd
                 else do {
                   ks \<leftarrow> read_keys (unat count) buf 0;
                   c \<leftarrow> store_node_cache a (c\<lparr>st_ncache := (st_ncache c)(a \<mapsto> nc\<lparr>port_cache_keys := ks\<rparr>)\<rparr>);
                   Some (0, c, fd)
                 }
               })
          }
        }))"

definition store_port_cache :: "ptr \<Rightarrow> 'm fabric_cache \<Rightarrow> 'm fabric_cache option" where
  "store_port_cache a c = do {
     x \<leftarrow> pcache_port c a;
     pc \<leftarrow> st_pcache c a;
     let i = hash_idx (po_guid x);
     y \<leftarrow> mem_rd (portscachetbl c) i;
     Some (c\<lparr>st_pcache := (st_pcache c)(a \<mapsto> pc\<lparr>pc_next := ports_cache c, pc_htnext := y\<rparr>),
       ports_cache := Some a, portscachetbl := (portscachetbl c)[i := Some a]\<rparr>)
   }"

definition read_port :: "mem \<Rightarrow> ibnd_port_t \<Rightarrow> ibnd_port_cache_t \<Rightarrow> (ibnd_port_t \<times> ibnd_port_cache_t) option" where
  "read_port buf port pc = do {
     (guid, offset) \<leftarrow> unmarshall64 buf 0;
     (portnum, offset) \<leftarrow> unmarshall8 buf offset;
     (ext_portnum, offset) \<leftarrow> unmarshall8 buf offset;
     (base_lid, offset) \<leftarrow> unmarshall16 buf offset;
     (lmc, offset) \<leftarrow> unmarshall8 buf offset;
     (info, offset) \<leftarrow> unmarshall_buf buf offset 64;
     (node_guid, offset) \<leftarrow> unmarshall64 buf offset;
     (flag, offset) \<leftarrow> unmarshall8 buf offset;
     (rguid, offset) \<leftarrow> unmarshall64 buf offset;
     (rportnum, offset) \<leftarrow> unmarshall8 buf offset;
     Some (port\<lparr>po_guid := guid, portnum := uint portnum, ext_portnum := uint ext_portnum, base_lid := base_lid,
         lmc := lmc, po_info := info\<rparr>,
       pc\<lparr>node_guid := node_guid, remoteport_flag := flag,
         remoteport_cache_key := \<lparr>ck_guid = rguid, ck_portnum = rportnum\<rparr>\<rparr>)
   }"

definition load_port :: "mem \<Rightarrow> rfile \<Rightarrow> 'm fabric_cache \<Rightarrow> (int \<times> 'm fabric_cache \<times> rfile) option" where
  "load_port buf fd c =
     (case new_cache_addr c of (None, c) \<Rightarrow> Some (-1, c, fd)
      | (Some a, c) \<Rightarrow>
     (case new_cache_addr c of (None, c) \<Rightarrow> Some (-1, c, fd)
      | (Some p, c) \<Rightarrow> do {
          let pc = pcache_zero\<lparr>pc_port := Some p\<rparr>;
          (rc, buf, fd) \<leftarrow> ibnd_read fd buf IBND_PORT_CACHE_LEN;
          if rc < 0 then Some (-1, c, fd) \<comment> \<open>both are freed again\<close>
          else do {
            (port, pc) \<leftarrow> read_port buf port_zero pc;
            let c = c\<lparr>f_int := (f_int c)\<lparr>st_ports := (st_ports (f_int c))(p \<mapsto> port)\<rparr>,
                      st_pcache := (st_pcache c)(a \<mapsto> pc)\<rparr>;
            c \<leftarrow> store_port_cache a c;
            Some (0, c, fd)
          }
        }))"

fun load_loop :: "nat \<Rightarrow> (rfile \<Rightarrow> 'm fabric_cache \<Rightarrow> (int \<times> 'm fabric_cache \<times> rfile) option) \<Rightarrow> rfile \<Rightarrow> 'm fabric_cache \<Rightarrow>
    (int \<times> 'm fabric_cache \<times> rfile) option" where
  \<comment> \<open>\<open>for (i = 0; i < n; i++) if (load(fd, fabric_cache) < 0) goto cleanup;\<close>\<close>
  "load_loop 0 load fd c = Some (0, c, fd)"
| "load_loop (Suc n) load fd c = do {
     (rc, c, fd) \<leftarrow> load fd c;
     if rc < 0 then Some (-1, c, fd) else load_loop n load fd c
   }"

section \<open>Rebuilding the fabric\<close>

definition pcache_find :: "'m fabric_cache \<Rightarrow> ibnd_port_cache_key_t \<Rightarrow> ptr option option" where
  \<comment> \<open>\<open>_find_port\<close>\<close>
  "pcache_find c key = do {
     x \<leftarrow> mem_rd (portscachetbl c) (hash_idx (ck_guid key));
     find_chain (Suc (st_next (f_int c))) (\<lambda>a. map_option pc_htnext (st_pcache c a))
       (\<lambda>a. map_option (\<lambda>p. po_guid p = ck_guid key \<and> portnum p = uint (ck_portnum key)) (pcache_port c a)) x
   }"

definition ncache_find :: "'m fabric_cache \<Rightarrow> u64 \<Rightarrow> ptr option option" where
  \<comment> \<open>\<open>_find_node\<close>\<close>
  "ncache_find c guid = do {
     x \<leftarrow> mem_rd (nodescachetbl c) (hash_idx guid);
     find_chain (Suc (st_next (f_int c))) (\<lambda>a. map_option nc_htnext (st_ncache c a))
       (\<lambda>a. map_option (\<lambda>n. nd_guid n = guid) (ncache_node c a)) x
   }"

definition fill_port :: "ptr \<Rightarrow> ibnd_port_cache_key_t \<Rightarrow> 'm fabric_cache \<Rightarrow> (int \<times> 'm fabric_cache) option" where
  "fill_port node key c = do {
     r \<leftarrow> pcache_find c key;
     case r of None \<Rightarrow> Some (-1, c)
     | Some a \<Rightarrow> do {
         pc \<leftarrow> st_pcache c a;
         if port_stored_to_fabric pc \<noteq> 0 then Some (-1, c)
         else do {
           p \<leftarrow> pc_port pc;
           x \<leftarrow> st_ports (f_int c) p;
           n \<leftarrow> st_nodes (f_int c) node;
           ps \<leftarrow> mem_wr (ports n) (nat (portnum x)) (Some p);
           let f = (f_int c)\<lparr>st_nodes := (st_nodes (f_int c))(node \<mapsto> n\<lparr>ports := ps\<rparr>)\<rparr>;
           (_, f) \<leftarrow> add_to_portguid_hash p f;
           Some (0, c\<lparr>f_int := f,
             st_pcache := (st_pcache c)(a \<mapsto> pc\<lparr>port_stored_to_fabric := port_stored_to_fabric pc + 1\<rparr>)\<rparr>)
         }
       }
   }"

fun fill_ports :: "ptr \<Rightarrow> ibnd_port_cache_key_t list \<Rightarrow> 'm fabric_cache \<Rightarrow> (int \<times> 'm fabric_cache) option" where
  "fill_ports node [] c = Some (0, c)"
| "fill_ports node (k # ks) c = do {
     (rc, c) \<leftarrow> fill_port node k c;
     if rc < 0 then Some (-1, c) else fill_ports node ks c
   }"

definition rebuild_node :: "ptr \<Rightarrow> 'm fabric_cache \<Rightarrow> (int \<times> 'm fabric_cache) option" where
  \<comment> \<open>the body of the loop of \<open>_rebuild_nodes\<close>\<close>
  "rebuild_node a c = do {
     nc \<leftarrow> st_ncache c a;
     node \<leftarrow> nc_node nc;
     let f = f_int c;
     f \<leftarrow> upd_node node (nd_next_update (\<lambda>_. fb_nodes f)) f;
     let f = f\<lparr>fb_nodes := Some node\<rparr>;
     (_, f) \<leftarrow> add_to_nodeguid_hash node f;
     f \<leftarrow> add_to_type_list node f;
     let c = c\<lparr>f_int := f, st_ncache := (st_ncache c)(a \<mapsto> nc\<lparr>node_stored_to_fabric := node_stored_to_fabric nc + 1\<rparr>)\<rparr>;
     case new_cache_addr c of (None, c) \<Rightarrow> Some (-1, c)
     | (Some _, c) \<Rightarrow> do {
         f \<leftarrow> upd_node node (\<lambda>n. n\<lparr>ports := replicate (nat (numports n + 1)) None\<rparr>) (f_int c);
         ks \<leftarrow> mem_load (port_cache_keys nc) 0 (unat (ports_stored_count nc));
         fill_ports node ks (c\<lparr>f_int := f\<rparr>)
       }
   }"

fun rebuild_nodes :: "nat \<Rightarrow> ptr option \<Rightarrow> 'm fabric_cache \<Rightarrow> (int \<times> 'm fabric_cache) option" where
  "rebuild_nodes n None c = Some (0, c)"
| "rebuild_nodes 0 (Some a) c = None"
| "rebuild_nodes (Suc n) (Some a) c = do {
     nc \<leftarrow> st_ncache c a;
     (rc, c) \<leftarrow> rebuild_node a c;
     if rc < 0 then Some (-1, c) else rebuild_nodes n (nc_next nc) c
   }"

definition rebuild_port :: "'m qmap_ops \<Rightarrow> ptr \<Rightarrow> 'm fabric_cache \<Rightarrow> (int \<times> 'm fabric_cache) option" where
  \<comment> \<open>the body of the loop of \<open>_rebuild_ports\<close>\<close>
  "rebuild_port qm a c = do {
     pc \<leftarrow> st_pcache c a;
     r \<leftarrow> ncache_find c (node_guid pc);
     case r of None \<Rightarrow> Some (-1, c)
     | Some na \<Rightarrow> do {
         nc \<leftarrow> st_ncache c na;
         port \<leftarrow> pc_port pc;
         f \<leftarrow> upd_port port (\<lambda>x. x\<lparr>po_node := nc_node nc\<rparr>) (f_int c);
         let c = c\<lparr>f_int := f\<rparr>;
         if remoteport_flag pc \<noteq> 0 then do {
           r \<leftarrow> pcache_find c (remoteport_cache_key pc);
           case r of None \<Rightarrow> Some (-1, c)
           | Some ra \<Rightarrow> do {
               rpc \<leftarrow> st_pcache c ra;
               f \<leftarrow> upd_port port (\<lambda>x. x\<lparr>remoteport := pc_port rpc\<rparr>) (f_int c);
               f \<leftarrow> add_to_portlid_hash qm port f;
               Some (0, c\<lparr>f_int := f\<rparr>)
             }
         }
         else do {
           f \<leftarrow> upd_port port (\<lambda>x. x\<lparr>remoteport := None\<rparr>) (f_int c);
           f \<leftarrow> add_to_portlid_hash qm port f;
           Some (0, c\<lparr>f_int := f\<rparr>)
         }
       }
   }"

fun rebuild_ports :: "nat \<Rightarrow> 'm qmap_ops \<Rightarrow> ptr option \<Rightarrow> 'm fabric_cache \<Rightarrow> (int \<times> 'm fabric_cache) option" where
  "rebuild_ports n qm None c = Some (0, c)"
| "rebuild_ports 0 qm (Some a) c = None"
| "rebuild_ports (Suc n) qm (Some a) c = do {
     pc \<leftarrow> st_pcache c a;
     (rc, c) \<leftarrow> rebuild_port qm a c;
     if rc < 0 then Some (-1, c) else rebuild_ports n qm (pc_next pc) c
   }"

section \<open>Loading a fabric\<close>

text \<open>What the calls of the system return: \<open>open\<close>, and the allocations of the two objects\<close>

record load_env =
  ld_open :: "rfile option"
  ld_cache :: bool
  ld_fabric :: bool
  ld_alloc :: "ptr \<Rightarrow> bool"

definition load_records :: "mem \<Rightarrow> rfile \<Rightarrow> 'm fabric_cache \<Rightarrow> (int \<times> 'm fabric_cache) option" where
  \<comment> \<open>the header, the nodes and the ports\<close>
  "load_records buf fd c = do {
     (rc, node_count, port_count, c, fd) \<leftarrow> load_header_info buf fd c;
     if rc < 0 then Some (-1, c)
     else do {
       (rc, c, fd) \<leftarrow> load_loop (unat node_count) (load_node buf) fd c;
       if rc < 0 then Some (-1, c)
       else do {
         (rc, c, fd) \<leftarrow> load_loop (unat port_count) (load_port buf) fd c;
         Some (rc, c)
       }
     }
   }"

definition rebuild_fabric :: "'m qmap_ops \<Rightarrow> endian \<Rightarrow> 'm fabric_cache \<Rightarrow> (int \<times> 'm fabric_cache) option" where
  \<comment> \<open>from the search for the first node to \<open>group_nodes\<close>\<close>
  "rebuild_fabric qm e c = do {
     r \<leftarrow> ncache_find c (from_node_guid c);
     case r of None \<Rightarrow> Some (-1, c)
     | Some a \<Rightarrow> do {
         nc \<leftarrow> st_ncache c a;
         let c = c\<lparr>f_int := (f_int c)\<lparr>from_node := nc_node nc\<rparr>\<rparr>;
         (rc, c) \<leftarrow> rebuild_nodes (Suc (st_next (f_int c))) (nodes_cache c) c;
         if rc < 0 then Some (-1, c)
         else do {
           (rc, c) \<leftarrow> rebuild_ports (Suc (st_next (f_int c))) qm (ports_cache c) c;
           if rc < 0 then Some (-1, c)
           else do {
             (rc, f) \<leftarrow> group_nodes e (f_int c);
             Some (if rc \<noteq> 0 then -1 else 0, c\<lparr>f_int := f\<rparr>)
           }
         }
       }
   }"

definition load_failed :: "'m qmap_ops \<Rightarrow> 'm fabric_cache \<Rightarrow> 'm fabric_cache option" where
  \<comment> \<open>the label \<open>cleanup\<close>\<close>
  "load_failed qm c = do { c \<leftarrow> on_f_int (ibnd_destroy_fabric qm) c; destroy_ibnd_fabric_cache c }"

definition ibnd_load_fabric :: "'m qmap_ops \<Rightarrow> endian \<Rightarrow> mem \<Rightarrow> load_env \<Rightarrow> string option \<Rightarrow>
    ('m fabric option \<times> 'm fabric_cache option) option" where
  \<comment> \<open>the fabric, and what is live at the end; \<open>flags\<close> is not used\<close>
  "ibnd_load_fabric qm e buf env file =
     (if file = None then Some (None, None)
      else (case ld_open env of None \<Rightarrow> Some (None, None)
      | Some fd \<Rightarrow>
          if \<not> ld_cache env \<or> \<not> ld_fabric env then Some (None, None)
          else do {
            let c = fcache_zero (allocate_fabric_internal qm (ld_alloc env));
            (rc, c) \<leftarrow> load_records buf fd c;
            if rc < 0 then do { c \<leftarrow> load_failed qm c; Some (None, Some c) }
            else do {
              (rc, c) \<leftarrow> rebuild_fabric qm e c;
              if rc < 0 then do { c \<leftarrow> load_failed qm c; Some (None, Some c) }
              else do { c \<leftarrow> destroy_ibnd_fabric_cache c; Some (Some (f_int c), Some c) }
            }
          }))"

section \<open>Writing\<close>

definition flush_cursor :: "wfile \<Rightarrow> cursor \<Rightarrow> (int \<times> wfile) option" where
  \<comment> \<open>\<open>if (ibnd_write(fd, buf, offset) < 0) return -1; return 0;\<close>\<close>
  "flush_cursor fd = (\<lambda>(buf, offset). do { (rc, fd) \<leftarrow> ibnd_write fd buf offset; Some (if rc < 0 then -1 else 0, fd) })"

definition cache_header_info :: "mem \<Rightarrow> 'm fabric \<Rightarrow> wfile \<Rightarrow> (int \<times> wfile) option" where
  "cache_header_info buf f fd = do {
     c \<leftarrow> marshall32 IBND_FABRIC_CACHE_MAGIC (buf, 0);
     c \<leftarrow> marshall32 IBND_FABRIC_CACHE_VERSION c;
     c \<leftarrow> marshall32 0 c;
     c \<leftarrow> marshall32 0 c;
     p \<leftarrow> from_node f;
     n \<leftarrow> st_nodes f p;
     c \<leftarrow> marshall64 (nd_guid n) c;
     c \<leftarrow> marshall32 (maxhops_discovered f) c;
     flush_cursor fd c
   }"

definition sys_lseek :: "nat \<Rightarrow> wfile \<Rightarrow> int \<times> wfile" where
  "sys_lseek pos fd = (if wf_seekable fd then (int pos, fd\<lparr>wf_pos := pos\<rparr>) else (-1, fd))"

definition cache_header_counts :: "mem \<Rightarrow> u32 \<Rightarrow> u32 \<Rightarrow> wfile \<Rightarrow> (int \<times> wfile) option" where
  "cache_header_counts buf node_count port_count fd = do {
     c \<leftarrow> marshall32 node_count (buf, 0);
     c \<leftarrow> marshall32 port_count c;
     let (rc, fd) = sys_lseek IBND_FABRIC_CACHE_COUNT_OFFSET fd;
     if rc < 0 then Some (-1, fd) else flush_cursor fd c
   }"

fun marshall_keys :: "'m fabric \<Rightarrow> ptr option list \<Rightarrow> u8 \<Rightarrow> cursor \<Rightarrow> (u8 \<times> cursor) option" where
  \<comment> \<open>the loop over \<open>node->ports\<close>, with \<open>ports_stored_count\<close>\<close>
  "marshall_keys f [] count c = Some (count, c)"
| "marshall_keys f (None # ps) count c = marshall_keys f ps count c"
| "marshall_keys f (Some p # ps) count c = do {
     x \<leftarrow> st_ports f p;
     c \<leftarrow> marshall64 (po_guid x) c;
     c \<leftarrow> marshall8 (word_of_int (portnum x)) c;
     marshall_keys f ps (count + 1) c
   }"

definition cache_node :: "mem \<Rightarrow> 'm fabric \<Rightarrow> ptr \<Rightarrow> wfile \<Rightarrow> (int \<times> wfile) option" where
  "cache_node buf f node fd = do {
     n \<leftarrow> st_nodes f node;
     c \<leftarrow> marshall16 (smalid n) (buf, 0);
     c \<leftarrow> marshall8 (smalmc n) c;
     c \<leftarrow> marshall8 (word_of_int (smaenhsp0 n)) c;
     c \<leftarrow> marshall_buf (switchinfo n) 64 c;
     c \<leftarrow> marshall64 (nd_guid n) c;
     c \<leftarrow> marshall8 (word_of_int (nd_type n)) c;
     c \<leftarrow> marshall8 (word_of_int (numports n)) c;
     c \<leftarrow> marshall_buf (nd_info n) 64 c;
     (buf, offset) \<leftarrow> marshall_buf (nodedesc n) 64 c;
     let ports_stored_offset = offset;
     ps \<leftarrow> mem_load (ports n) 0 (nat (numports n + 1));
     (count, buf, offset) \<leftarrow> marshall_keys f ps 0 (buf, offset + 1);
     (buf, _) \<leftarrow> marshall8 count (buf, ports_stored_offset);
     flush_cursor fd (buf, offset)
   }"

definition cache_port :: "mem \<Rightarrow> 'm fabric \<Rightarrow> ptr \<Rightarrow> wfile \<Rightarrow> (int \<times> wfile) option" where
  "cache_port buf f port fd = do {
     x \<leftarrow> st_ports f port;
     c \<leftarrow> marshall64 (po_guid x) (buf, 0);
     c \<leftarrow> marshall8 (word_of_int (portnum x)) c;
     c \<leftarrow> marshall8 (word_of_int (ext_portnum x)) c;
     c \<leftarrow> marshall16 (base_lid x) c;
     c \<leftarrow> marshall8 (lmc x) c;
     c \<leftarrow> marshall_buf (po_info x) 64 c;
     p \<leftarrow> po_node x;
     n \<leftarrow> st_nodes f p;
     c \<leftarrow> marshall64 (nd_guid n) c;
     c \<leftarrow> (case remoteport x of
            Some r \<Rightarrow> do {
              y \<leftarrow> st_ports f r;
              c \<leftarrow> marshall8 1 c;
              c \<leftarrow> marshall64 (po_guid y) c;
              marshall8 (word_of_int (portnum y)) c
            }
          | None \<Rightarrow> do { c \<leftarrow> marshall8 0 c; c \<leftarrow> marshall64 0 c; marshall8 0 c });
     flush_cursor fd c
   }"

text \<open>A list of structures is written while writing succeeds; the state is the count and the descriptor.\<close>

definition cache_list :: "'m fabric \<Rightarrow> (ptr \<Rightarrow> wfile \<Rightarrow> (int \<times> wfile) option) \<Rightarrow> (ptr \<Rightarrow> ptr option option) \<Rightarrow> ptr option \<Rightarrow>
    u32 \<times> wfile \<Rightarrow> (int \<times> u32 \<times> wfile) option" where
  "cache_list f write next x s = do {
     (r, s) \<leftarrow> walk (Suc (st_next f)) next (\<lambda>p (count, fd). do {
         (rc, fd) \<leftarrow> write p fd;
         Some (if rc < 0 then (True, count, fd) else (False, count + 1, fd))
       }) x s;
     Some (if r = None then 0 else -1, s)
   }"

fun cache_buckets :: "mem \<Rightarrow> 'm fabric \<Rightarrow> ptr option list \<Rightarrow> u32 \<times> wfile \<Rightarrow> (int \<times> u32 \<times> wfile) option" where
  "cache_buckets buf f [] s = Some (0, s)"
| "cache_buckets buf f (x # xs) s = do {
     (rc, s) \<leftarrow> cache_list f (cache_port buf f) (port_next f) x s;
     if rc < 0 then Some (-1, s) else cache_buckets buf f xs s
   }"

definition cache_records :: "mem \<Rightarrow> 'm fabric \<Rightarrow> wfile \<Rightarrow> (int \<times> wfile) option" where
  \<comment> \<open>everything between \<open>open\<close> and \<open>close\<close>\<close>
  "cache_records buf f fd = do {
     (rc, fd) \<leftarrow> cache_header_info buf f fd;
     if rc < 0 then Some (-1, fd)
     else do {
       (rc, node_count, fd) \<leftarrow> cache_list f (cache_node buf f) (node_next nd_next f) (fb_nodes f) (0, fd);
       if rc < 0 then Some (-1, fd)
       else do {
         tbl \<leftarrow> mem_load (portstbl f) 0 HTSZ;
         (rc, port_count, fd) \<leftarrow> cache_buckets buf f tbl (0, fd);
         if rc < 0 then Some (-1, fd) else cache_header_counts buf node_count port_count fd
       }
     }
   }"

definition IBND_CACHE_FABRIC_FLAG_NO_OVERWRITE :: u32 where [c_eval]: "IBND_CACHE_FABRIC_FLAG_NO_OVERWRITE = 0x0001"

text \<open>What the calls of the system return: \<open>stat\<close>, \<open>unlink\<close>, \<open>open\<close> and \<open>close\<close>\<close>

record cache_env =
  ce_exists :: bool
  ce_unlink :: bool
  ce_open :: "wfile option"
  ce_close :: bool

datatype cached = Untouched | Removed | Written mem

definition ibnd_cache_fabric :: "mem \<Rightarrow> cache_env \<Rightarrow> 'm fabric option \<Rightarrow> string option \<Rightarrow> u32 \<Rightarrow> (int \<times> cached) option" where
  \<comment> \<open>the result, and what has become of the file\<close>
  "ibnd_cache_fabric buf env fabric file flags =
     (case fabric of None \<Rightarrow> Some (-1, Untouched)
      | Some f \<Rightarrow>
          if file = None then Some (-1, Untouched)
          else if flags AND IBND_CACHE_FABRIC_FLAG_NO_OVERWRITE = 0 \<and> ce_exists env \<and> \<not> ce_unlink env
          then Some (-1, Untouched)
          else if flags AND IBND_CACHE_FABRIC_FLAG_NO_OVERWRITE \<noteq> 0 \<and> ce_exists env then Some (-1, Untouched)
          else (case ce_open env of None \<Rightarrow> Some (-1, if ce_exists env then Removed else Untouched)
          | Some fd \<Rightarrow> do {
              (rc, fd) \<leftarrow> cache_records buf f fd;
              if rc < 0 \<or> \<not> ce_close env then Some (-1, Removed)
              else Some (0, Written (wf_data fd))
            }))"

end
