(* ===== verification/IbnCacheCorrect.thy ===== *)
theory IbnCacheCorrect
  imports IbnCache DiscoverFabricCorrect
begin

text \<open>
  What is proved of the cache. Reading and writing transfer exactly the bytes asked for, however the
  kernel cuts them up. A record that is written is read back. Reading a file, whatever it contains,
  ends with the temporary structures in order, and the clean-up frees everything.
\<close>

section \<open>Files\<close>

lemma take_drop_min: "take (min (length xs) n) xs = take n xs" "drop (min (length xs) n) xs = drop n xs"
  by (simp_all add: min_def)

lemma sys_read_Done:
  assumes "sys_read n fd = (Done bs, fd')" and "0 < n"
  shows "bs = take (length bs) (rf_data fd)" and "length bs \<le> n" and "rf_data fd' = drop (length bs) (rf_data fd)"
    and "bs = [] \<longleftrightarrow> rf_data fd = []" and "length (rf_sched fd') \<le> length (rf_sched fd)"
    and "Eio \<notin> set (rf_sched fd) \<Longrightarrow> Eio \<notin> set (rf_sched fd')"
  using assms by (auto simp: sys_read_def Let_def take_drop_min split: list.splits io_result.splits)

lemma sys_read_other:
  assumes "sys_read n fd = (r, fd')" and "\<And>bs. r \<noteq> Done bs"
  shows "rf_data fd' = rf_data fd" and "length (rf_sched fd) = Suc (length (rf_sched fd'))"
    and "Eio \<notin> set (rf_sched fd) \<Longrightarrow> r = Interrupted \<and> Eio \<notin> set (rf_sched fd')"
  using assms by (auto simp: sys_read_def Let_def split: list.splits io_result.splits)

lemma read_loop_reads:
  assumes "done \<le> count" and "count \<le> length buf" and "count - done + length (rf_sched fd) < n"
  shows "\<exists>r buf' fd'. read_loop n count done buf fd = Some (r, buf', fd') \<and> length buf' = length buf \<and>
    (Eio \<notin> set (rf_sched fd) \<longrightarrow> Eio \<notin> set (rf_sched fd')) \<and>
    (case r of None \<Rightarrow> Eio \<in> set (rf_sched fd)
     | Some d \<Rightarrow> d = min count (done + length (rf_data fd)) \<and>
         buf' = take done buf @ take (d - done) (rf_data fd) @ drop d buf \<and> rf_data fd' = drop (d - done) (rf_data fd))"
  using assms
proof (induction n arbitrary: "done" buf fd)
  case 0
  then show ?case by simp
next
  case (Suc n)
  show ?case
  proof (cases "done < count")
    case False
    then show ?thesis using Suc.prems by (simp add: min_def)
  next
    case True
    obtain r fd1 where r: "sys_read (count - done) fd = (r, fd1)" by fastforce
    consider (part) bs where "r = Done bs" "bs \<noteq> []" | (eof) "r = Done []" | (intr) "r = Interrupted" | (fail) "r = Failed"
      by (cases r) auto
    then show ?thesis
    proof cases
      case part
      note d = sys_read_Done [OF r [unfolded part(1)]]
      let ?b = "take done buf @ bs @ drop (done + length bs) buf"
      have len: "length bs \<le> count - done" using d(2) True by simp
      then have st: "mem_store buf done bs = Some ?b" using Suc.prems by (simp add: mem_store_def)
      have pos: "0 < length bs" using part(2) by simp
      have fuel: "count - (done + length bs) + length (rf_sched fd1) < n" using Suc.prems(3) len pos d(5) True by linarith
      have lenb: "length ?b = length buf" using len Suc.prems by simp
      have "\<exists>r buf' fd'. read_loop n count (done + length bs) ?b fd1 = Some (r, buf', fd') \<and> length buf' = length ?b \<and>
        (Eio \<notin> set (rf_sched fd1) \<longrightarrow> Eio \<notin> set (rf_sched fd')) \<and>
        (case r of None \<Rightarrow> Eio \<in> set (rf_sched fd1)
         | Some e \<Rightarrow> e = min count (done + length bs + length (rf_data fd1)) \<and>
             buf' = take (done + length bs) ?b @ take (e - (done + length bs)) (rf_data fd1) @ drop e ?b \<and>
             rf_data fd' = drop (e - (done + length bs)) (rf_data fd1))"
        by (rule Suc.IH) (use Suc.prems len fuel in auto)
      then obtain r' buf' fd' where run: "read_loop n count (done + length bs) ?b fd1 = Some (r', buf', fd')" "length buf' = length ?b"
          "Eio \<notin> set (rf_sched fd1) \<longrightarrow> Eio \<notin> set (rf_sched fd')"
          "case r' of None \<Rightarrow> Eio \<in> set (rf_sched fd1)
         | Some e \<Rightarrow> e = min count (done + length bs + length (rf_data fd1)) \<and>
             buf' = take (done + length bs) ?b @ take (e - (done + length bs)) (rf_data fd1) @ drop e ?b \<and>
             rf_data fd' = drop (e - (done + length bs)) (rf_data fd1)" by blast
      have le: "length bs \<le> length (rf_data fd)" using arg_cong [OF d(1), of length] True by simp
      have "case r' of None \<Rightarrow> Eio \<in> set (rf_sched fd)
        | Some e \<Rightarrow> e = min count (done + length (rf_data fd)) \<and>
           buf' = take done buf @ take (e - done) (rf_data fd) @ drop e buf \<and> rf_data fd' = drop (e - done) (rf_data fd)"
      proof (cases r')
        case None
        then show ?thesis using run(4) d(6) True by auto
      next
        case (Some e)
        then have e: "e = min count (done + length bs + length (rf_data fd1))"
            "buf' = take (done + length bs) ?b @ take (e - (done + length bs)) (rf_data fd1) @ drop e ?b"
            "rf_data fd' = drop (e - (done + length bs)) (rf_data fd1)" using run(4) by simp_all
        have ge: "done + length bs \<le> e" using e(1) len True by simp
        have "take (e - done) (rf_data fd) = bs @ take (e - (done + length bs)) (rf_data fd1)"
        proof -
          have "take (e - done) (rf_data fd) = take (length bs + (e - (done + length bs))) (rf_data fd)" using ge by simp
          also have "\<dots> = take (length bs) (rf_data fd) @ take (e - (done + length bs)) (drop (length bs) (rf_data fd))" by (rule take_add)
          finally show ?thesis using d(1,3) True by simp
        qed
        moreover have "take (done + length bs) ?b = take done buf @ bs" using Suc.prems True by simp
        moreover have "drop e ?b = drop e buf" using ge len Suc.prems by (simp add: drop_append min_def)
        ultimately show ?thesis using Some e d(3) ge le True by (simp add: add.commute)
      qed
      moreover have "read_loop (Suc n) count done buf fd = Some (r', buf', fd')" using r part True st run(1) by simp
      moreover have "length buf' = length buf" using run(2) lenb by (rule trans)
      moreover have "Eio \<notin> set (rf_sched fd) \<longrightarrow> Eio \<notin> set (rf_sched fd')" using run(3) d(6) True by simp
      ultimately show ?thesis by blast
    next
      case eof
      note d = sys_read_Done [OF r [unfolded eof]]
      have "rf_data fd = []" "rf_data fd1 = []" using d(3,4) True by simp_all
      then show ?thesis using r eof True d(6) Suc.prems by (simp add: min_def)
    next
      case intr
      note d = sys_read_other [OF r, unfolded intr, simplified]
      have "\<exists>r buf' fd'. read_loop n count done buf fd1 = Some (r, buf', fd') \<and> length buf' = length buf \<and>
        (Eio \<notin> set (rf_sched fd1) \<longrightarrow> Eio \<notin> set (rf_sched fd')) \<and>
        (case r of None \<Rightarrow> Eio \<in> set (rf_sched fd1)
         | Some d \<Rightarrow> d = min count (done + length (rf_data fd1)) \<and>
             buf' = take done buf @ take (d - done) (rf_data fd1) @ drop d buf \<and> rf_data fd' = drop (d - done) (rf_data fd1))"
        by (rule Suc.IH) (use Suc.prems d(2) in auto)
      then show ?thesis using r intr True d(1,3) by (fastforce split: option.splits)
    next
      case fail
      then show ?thesis using r True sys_read_other(3) [OF r] by auto
    qed
  qed
qed

text \<open>Exactly the bytes asked for, or an error\<close>

lemma ibnd_read_reads:
  assumes "count \<le> length buf"
  shows "\<exists>rc buf' fd'. ibnd_read fd buf count = Some (rc, buf', fd') \<and> length buf' = length buf \<and>
    (Eio \<notin> set (rf_sched fd) \<longrightarrow> Eio \<notin> set (rf_sched fd')) \<and>
    (rc = -1 \<and> (Eio \<in> set (rf_sched fd) \<or> length (rf_data fd) < count) \<or>
     rc = int count \<and> count \<le> length (rf_data fd) \<and> buf' = take count (rf_data fd) @ drop count buf \<and>
     rf_data fd' = drop count (rf_data fd))"
proof -
  obtain r buf' fd' where r: "read_loop (count + length (rf_sched fd) + 1) count 0 buf fd = Some (r, buf', fd')"
      "length buf' = length buf" "Eio \<notin> set (rf_sched fd) \<longrightarrow> Eio \<notin> set (rf_sched fd')"
      "case r of None \<Rightarrow> Eio \<in> set (rf_sched fd)
     | Some d \<Rightarrow> d = min count (length (rf_data fd)) \<and>
         buf' = take d (rf_data fd) @ drop d buf \<and> rf_data fd' = drop d (rf_data fd)"
    using read_loop_reads [of 0 count buf fd "count + length (rf_sched fd) + 1", OF _ assms]
    by (force simp del: read_loop.simps cong: option.case_cong)
  show ?thesis
  proof (cases r)
    case None
    then show ?thesis using r by (simp add: ibnd_read_def del: read_loop.simps)
  next
    case (Some d)
    then show ?thesis using r by (auto simp: ibnd_read_def min_def simp del: read_loop.simps split: if_splits)
  qed
qed


lemma put_at_end: "pos = length file \<Longrightarrow> put_at pos bs file = file @ bs"
  by (simp add: put_at_def)

lemma length_put_at: "length (put_at pos bs file) = max (length file) (pos + length bs)"
  by (simp add: put_at_def)

lemma put_at_append: "put_at (pos + length as) bs (put_at pos as file) = put_at pos (as @ bs) file"
  by (auto simp: put_at_def min_def ac_simps)

lemma put_at_Nil: "pos \<le> length file \<Longrightarrow> put_at pos [] file = file"
  by (simp add: put_at_def)

lemma write_loop_writes:
  assumes "done \<le> count" and "count \<le> length buf" and "count - done + length (wf_sched fd) < n"
    and "wf_pos fd \<le> length (wf_data fd)"
  shows "\<exists>rc fd'. write_loop n buf count done fd = Some (rc, fd') \<and>
    (Eio \<notin> set (wf_sched fd) \<longrightarrow> rc \<noteq> -1 \<and> Eio \<notin> set (wf_sched fd')) \<and> wf_seekable fd' = wf_seekable fd \<and>
    (rc = -1 \<or> rc = int count \<and> wf_data fd' = put_at (wf_pos fd) (take (count - done) (drop done buf)) (wf_data fd) \<and>
       wf_pos fd' = wf_pos fd + (count - done))"
  using assms
proof (induction n arbitrary: "done" fd)
  case 0
  then show ?case by simp
next
  case (Suc n)
  show ?case
  proof (cases "done < count")
    case False
    then show ?thesis using Suc.prems by (simp add: put_at_Nil)
  next
    case True
    let ?bs = "take (count - done) (drop done buf)"
    have ld: "mem_load buf done (count - done) = Some ?bs" using Suc.prems by (simp add: mem_load_def)
    have lb: "length ?bs = count - done" using Suc.prems by simp
    obtain r fd1 where r: "sys_write ?bs fd = (r, fd1)" by fastforce
    consider (part) m where "r = Done m" | (intr) "r = Interrupted" | (fail) "r = Failed" by (cases r) auto
    then show ?thesis
    proof cases
      case part
      have m: "m \<le> count - done" "wf_data fd1 = put_at (wf_pos fd) (take m ?bs) (wf_data fd)" "wf_pos fd1 = wf_pos fd + m"
          "wf_seekable fd1 = wf_seekable fd" "Eio \<notin> set (wf_sched fd) \<longrightarrow> Eio \<notin> set (wf_sched fd1)"
          "m = count - done \<or> length (wf_sched fd1) < length (wf_sched fd)" "length (wf_sched fd1) \<le> length (wf_sched fd)"
        using r part lb by (auto simp: sys_write_def Let_def split: list.splits io_result.splits)
      have fuel: "count - (done + m) + length (wf_sched fd1) < n" using Suc.prems(3) m(1,6,7) True by linarith
      have "length (take m ?bs) = m" using m(1) lb by simp
      then have pos: "wf_pos fd1 \<le> length (wf_data fd1)" by (simp add: m(2,3) length_put_at)
      have "\<exists>rc fd'. write_loop n buf count (done + m) fd1 = Some (rc, fd') \<and>
        (Eio \<notin> set (wf_sched fd1) \<longrightarrow> rc \<noteq> -1 \<and> Eio \<notin> set (wf_sched fd')) \<and> wf_seekable fd' = wf_seekable fd1 \<and>
        (rc = -1 \<or> rc = int count \<and> wf_data fd' = put_at (wf_pos fd1) (take (count - (done + m)) (drop (done + m) buf)) (wf_data fd1) \<and>
         wf_pos fd' = wf_pos fd1 + (count - (done + m)))"
        by (rule Suc.IH) (use Suc.prems m(1) fuel pos in auto)
      then obtain rc fd' where run: "write_loop n buf count (done + m) fd1 = Some (rc, fd')"
          "Eio \<notin> set (wf_sched fd1) \<longrightarrow> rc \<noteq> -1 \<and> Eio \<notin> set (wf_sched fd')" "wf_seekable fd' = wf_seekable fd1"
          "rc = -1 \<or> rc = int count \<and> wf_data fd' = put_at (wf_pos fd1) (take (count - (done + m)) (drop (done + m) buf)) (wf_data fd1) \<and>
           wf_pos fd' = wf_pos fd1 + (count - (done + m))" by blast
      have sp: "?bs = take m ?bs @ take (count - (done + m)) (drop (done + m) buf)"
      proof -
        have "count - done = m + (count - (done + m))" using m(1) by linarith
        then have "take (count - done) (drop done buf) = take (m + (count - (done + m))) (drop done buf)" by (rule arg_cong)
        also have "\<dots> = take m (drop done buf) @ take (count - (done + m)) (drop (done + m) buf)"
          by (simp only: take_add drop_drop add.commute)
        also have "take m (drop done buf) = take m ?bs" using m(1) by (simp add: min_absorb1)
        finally show ?thesis .
      qed
      have "put_at (wf_pos fd1) (take (count - (done + m)) (drop (done + m) buf)) (wf_data fd1) =
          put_at (wf_pos fd) (take m ?bs @ take (count - (done + m)) (drop (done + m) buf)) (wf_data fd)"
        using put_at_append [of "wf_pos fd" "take m ?bs" "take (count - (done + m)) (drop (done + m) buf)" "wf_data fd"]
        unfolding \<open>length (take m ?bs) = m\<close> m(2,3) .
      then have p1: "put_at (wf_pos fd1) (take (count - (done + m)) (drop (done + m) buf)) (wf_data fd1) = put_at (wf_pos fd) ?bs (wf_data fd)"
        unfolding sp [symmetric] .
      have p2: "wf_pos fd1 + (count - (done + m)) = wf_pos fd + (count - done)" using m(1,3) by simp
      have "rc = -1 \<or> rc = int count \<and> wf_data fd' = put_at (wf_pos fd) ?bs (wf_data fd) \<and> wf_pos fd' = wf_pos fd + (count - done)"
        using run(4) unfolding p1 p2 .
      moreover have "wf_seekable fd' = wf_seekable fd" using run(3) m(4) by (rule trans)
      moreover have "Eio \<notin> set (wf_sched fd) \<longrightarrow> rc \<noteq> -1 \<and> Eio \<notin> set (wf_sched fd')" using run(2) m(5) by blast
      moreover have "write_loop (Suc n) buf count done fd = Some (rc, fd')" using run(1) r part ld True by simp
      ultimately show ?thesis by blast
    next
      case intr
      then have d: "wf_data fd1 = wf_data fd" "wf_pos fd1 = wf_pos fd" "wf_seekable fd1 = wf_seekable fd"
          "length (wf_sched fd) = Suc (length (wf_sched fd1))" "Eio \<notin> set (wf_sched fd) \<longrightarrow> Eio \<notin> set (wf_sched fd1)"
        using r by (auto simp: sys_write_def Let_def split: list.splits io_result.splits)
      have "\<exists>rc fd'. write_loop n buf count done fd1 = Some (rc, fd') \<and>
        (Eio \<notin> set (wf_sched fd1) \<longrightarrow> rc \<noteq> -1 \<and> Eio \<notin> set (wf_sched fd')) \<and> wf_seekable fd' = wf_seekable fd1 \<and>
        (rc = -1 \<or> rc = int count \<and> wf_data fd' = put_at (wf_pos fd1) (take (count - done) (drop done buf)) (wf_data fd1) \<and>
         wf_pos fd' = wf_pos fd1 + (count - done))"
        by (rule Suc.IH) (use Suc.prems d in auto)
      moreover have "write_loop (Suc n) buf count done fd = write_loop n buf count done fd1" using r intr ld True by simp
      ultimately show ?thesis unfolding d using d(5) by metis
    next
      case fail
      then have "Eio \<in> set (wf_sched fd)" "wf_seekable fd1 = wf_seekable fd"
        using r by (auto simp: sys_write_def Let_def split: list.splits io_result.splits)
      then show ?thesis using r fail ld True by simp
    qed
  qed
qed

lemma ibnd_write_writes:
  assumes "count \<le> length buf" and "wf_pos fd \<le> length (wf_data fd)"
  shows "\<exists>rc fd'. ibnd_write fd buf count = Some (rc, fd') \<and>
    (Eio \<notin> set (wf_sched fd) \<longrightarrow> rc \<noteq> -1 \<and> Eio \<notin> set (wf_sched fd')) \<and> wf_seekable fd' = wf_seekable fd \<and>
    (rc = -1 \<or> rc = int count \<and> wf_data fd' = put_at (wf_pos fd) (take count buf) (wf_data fd) \<and> wf_pos fd' = wf_pos fd + count)"
  using write_loop_writes [of 0 count buf fd "count + length (wf_sched fd) + 1"] assms
  by (simp add: ibnd_write_def del: write_loop.simps)

section \<open>Integers\<close>

text \<open>The code's masks and shifts are the little-endian bytes of the number.\<close>

lemma marshall_bytes:
  "[ucast (a AND 0x00FF), ucast (drop_bit 8 (a AND 0xFF00))] = native_bytes LE 2 (a :: u16)"
  "[ucast (b AND 0x000000FF), ucast (drop_bit 8 (b AND 0x0000FF00)), ucast (drop_bit 16 (b AND 0x00FF0000)),
    ucast (drop_bit 24 (b AND 0xFF000000))] = native_bytes LE 4 (b :: u32)"
  "[ucast c, ucast (drop_bit 8 c), ucast (drop_bit 16 c), ucast (drop_bit 24 c), ucast (drop_bit 32 c), ucast (drop_bit 40 c),
    ucast (drop_bit 48 c), ucast (drop_bit 56 c)] = native_bytes LE 8 (c :: u64)"
proof -
  have m: "(0xFF :: u16) = mask 8" "(0xFF00 :: u16) = push_bit 8 (mask 8)" "(0xFF :: u32) = mask 8" "(0xFF00 :: u32) = push_bit 8 (mask 8)"
    "(0xFF0000 :: u32) = push_bit 16 (mask 8)" "(0xFF000000 :: u32) = push_bit 24 (mask 8)"
    by (simp_all add: mask_eq_exp_minus_1)
  show "[ucast (a AND 0x00FF), ucast (drop_bit 8 (a AND 0xFF00))] = native_bytes LE 2 a"
    unfolding m by (auto simp: native_bytes_def upt_rec byte_of_def bit_eq_iff bit_simps)
  show "[ucast (b AND 0x000000FF), ucast (drop_bit 8 (b AND 0x0000FF00)), ucast (drop_bit 16 (b AND 0x00FF0000)),
    ucast (drop_bit 24 (b AND 0xFF000000))] = native_bytes LE 4 b"
    unfolding m by (auto simp: native_bytes_def upt_rec byte_of_def bit_eq_iff bit_simps)
  show "[ucast c, ucast (drop_bit 8 c), ucast (drop_bit 16 c), ucast (drop_bit 24 c), ucast (drop_bit 32 c), ucast (drop_bit 40 c),
    ucast (drop_bit 48 c), ucast (drop_bit 56 c)] = native_bytes LE 8 c"
    by (simp add: native_bytes_def upt_rec byte_of_def)
qed

definition cur :: "mem \<Rightarrow> mem \<Rightarrow> cursor" where
  \<comment> \<open>the bytes \<open>w\<close> have been put into the buffer\<close>
  "cur junk w = (w @ drop (length w) junk, length w)"

lemma cur_start: "(junk, 0) = cur junk []"
  by (simp add: cur_def)

lemma cur_store:
  assumes "length w + length bs \<le> length junk"
  shows "mem_store (w @ drop (length w) junk) (length w) bs = Some ((w @ bs) @ drop (length (w @ bs)) junk)"
  using assms by (simp add: mem_store_def add.commute)

lemma marshall_cur:
  "length w + 1 \<le> length junk \<Longrightarrow> marshall8 x8 (cur junk w) = Some (cur junk (w @ [x8]))"
  "length w + 2 \<le> length junk \<Longrightarrow> marshall16 x16 (cur junk w) = Some (cur junk (w @ native_bytes LE 2 x16))"
  "length w + 4 \<le> length junk \<Longrightarrow> marshall32 x32 (cur junk w) = Some (cur junk (w @ native_bytes LE 4 x32))"
  "length w + 8 \<le> length junk \<Longrightarrow> marshall64 x64 (cur junk w) = Some (cur junk (w @ native_bytes LE 8 x64))"
  "length w + 64 \<le> length junk \<Longrightarrow> length b = 64 \<Longrightarrow> marshall_buf b 64 (cur junk w) = Some (cur junk (w @ b))"
  using cur_store [of w "[x8]" junk] cur_store [of w "native_bytes LE 2 x16" junk] cur_store [of w "native_bytes LE 4 x32" junk]
    cur_store [of w "native_bytes LE 8 x64" junk] cur_store [of w b junk]
  unfolding marshall8_def marshall16_def marshall32_def marshall64_def marshall_buf_def marshall_bytes cur_def
  by (simp_all add: mem_load_def)

lemma unmarshall_bytes:
  "mem_load p i 1 = Some [y] \<Longrightarrow> unmarshall8 p i = Some (y, i + 1)"
  "mem_load p i 2 = Some (native_bytes LE 2 a) \<Longrightarrow> unmarshall16 p i = Some (a, i + 2)"
  "mem_load p i 4 = Some (native_bytes LE 4 b) \<Longrightarrow> unmarshall32 p i = Some (b, i + 4)"
  "mem_load p i 8 = Some (native_bytes LE 8 c) \<Longrightarrow> unmarshall64 p i = Some (c, i + 8)"
proof -
  show "mem_load p i 1 = Some [y] \<Longrightarrow> unmarshall8 p i = Some (y, i + 1)" by (simp add: unmarshall8_def)
  have a: "push_bit 8 (ucast (byte_of 1 a)) OR ucast (byte_of 0 a) = a"
    using le_word_inverse [of 2 a] by (simp add: upt_rec push_bit_or or.commute)
  show "mem_load p i 2 = Some (native_bytes LE 2 a) \<Longrightarrow> unmarshall16 p i = Some (a, i + 2)"
    using a by (simp add: unmarshall16_def native_bytes_def upt_rec)
  have "le_word (map (\<lambda>k. byte_of k b) [0..<4]) = b" by (rule le_word_inverse) simp
  then show "mem_load p i 4 = Some (native_bytes LE 4 b) \<Longrightarrow> unmarshall32 p i = Some (b, i + 4)"
    by (simp add: unmarshall32_def native_bytes_def upt_rec push_bit_or or.assoc numeral_eq_Suc)
  have "le_word (map (\<lambda>k. byte_of k c) [0..<8]) = c" by (rule le_word_inverse) simp
  then show "mem_load p i 8 = Some (native_bytes LE 8 c) \<Longrightarrow> unmarshall64 p i = Some (c, i + 8)"
    by (simp add: unmarshall64_def native_bytes_def upt_rec push_bit_or or.assoc numeral_eq_Suc)
qed


section \<open>Records\<close>

text \<open>The bytes of the file, as the comment in the source lays them out\<close>

definition key_bytes :: "ibnd_port_cache_key_t \<Rightarrow> mem" where
  "key_bytes k = native_bytes LE 8 (ck_guid k) @ [ck_portnum k]"

definition node_header :: "ibnd_node_t \<Rightarrow> u8 \<Rightarrow> mem" where
  "node_header n count = native_bytes LE 2 (smalid n) @ [smalmc n, word_of_int (smaenhsp0 n)] @ switchinfo n @
     native_bytes LE 8 (nd_guid n) @ [word_of_int (nd_type n), word_of_int (numports n)] @ nd_info n @ nodedesc n @ [count]"

definition node_bytes :: "ibnd_node_t \<Rightarrow> ibnd_port_cache_key_t list \<Rightarrow> mem" where
  "node_bytes n ks = node_header n (of_nat (length ks)) @ concat (map key_bytes ks)"

definition port_bytes :: "ibnd_port_t \<Rightarrow> u64 \<Rightarrow> ibnd_port_cache_key_t option \<Rightarrow> mem" where
  "port_bytes x ng r = native_bytes LE 8 (po_guid x) @ [word_of_int (portnum x), word_of_int (ext_portnum x)] @
     native_bytes LE 2 (base_lid x) @ [lmc x] @ po_info x @ native_bytes LE 8 ng @
     (case r of None \<Rightarrow> [0] @ key_bytes key_zero | Some k \<Rightarrow> [1] @ key_bytes k)"

definition header_bytes :: "u32 \<Rightarrow> u32 \<Rightarrow> u64 \<Rightarrow> u32 \<Rightarrow> mem" where
  "header_bytes nn np guid max_hops = native_bytes LE 4 IBND_FABRIC_CACHE_MAGIC @ native_bytes LE 4 IBND_FABRIC_CACHE_VERSION @
     native_bytes LE 4 nn @ native_bytes LE 4 np @ native_bytes LE 8 guid @ native_bytes LE 4 max_hops"

lemma length_key_bytes [simp]: "length (key_bytes k) = 9"
  by (simp add: key_bytes_def)

lemma length_keys_bytes [simp]: "length (concat (map key_bytes ks)) = 9 * length ks"
  by (induction ks) simp_all

lemma length_header_bytes [simp]: "length (header_bytes a b c d) = 28"
  by (simp add: header_bytes_def)

definition byte_fields :: "ibnd_node_t \<Rightarrow> bool" where
  \<comment> \<open>the integers the code casts to a byte are bytes\<close>
  "byte_fields n \<longleftrightarrow> smaenhsp0 n \<in> {0..<256} \<and> nd_type n \<in> {0..<256} \<and> numports n \<in> {0..<256}"

definition node_sized :: "ibnd_node_t \<Rightarrow> bool" where
  "node_sized n \<longleftrightarrow> length (switchinfo n) = 64 \<and> length (nd_info n) = 64 \<and> length (nodedesc n) = 64"

definition cached_node :: "ibnd_node_t \<Rightarrow> ibnd_node_t" where
  \<comment> \<open>the fields of a node that the file keeps\<close>
  "cached_node n = node_zero\<lparr>smalid := smalid n, smalmc := smalmc n, smaenhsp0 := smaenhsp0 n, switchinfo := switchinfo n,
     nd_guid := nd_guid n, nd_type := nd_type n, numports := numports n, nd_info := nd_info n, nodedesc := nodedesc n\<rparr>"

definition cached_port :: "ibnd_port_t \<Rightarrow> ibnd_port_t" where
  "cached_port x = port_zero\<lparr>po_guid := po_guid x, portnum := portnum x, ext_portnum := ext_portnum x, base_lid := base_lid x,
     lmc := lmc x, po_info := po_info x\<rparr>"

lemma uint_byte: "0 \<le> i \<Longrightarrow> i < 256 \<Longrightarrow> uint (word_of_int i :: u8) = i"
  by (simp add: unsigned_of_int take_bit_int_eq_self)

lemma length_node_header: "node_sized n \<Longrightarrow> length (node_header n count) = 207"
  by (simp add: node_header_def node_sized_def)

lemma load_bytes: "mem_load (xs @ ys) i k = (if k + i \<le> length xs then mem_load xs i k
    else if length xs \<le> i then mem_load ys (i - length xs) k else mem_load (xs @ ys) i k)"
  by (auto simp: mem_load_def)

lemma load_here: "mem_load (xs @ ys) 0 (length xs) = Some xs"
  by (simp add: mem_load_def)

lemmas unmarshall_defs = unmarshall8_def unmarshall16_def unmarshall32_def unmarshall64_def unmarshall_buf_def

lemma read_node_header:
  assumes "node_sized n" and "byte_fields n"
  shows "read_node (node_header n count @ rest) node_zero = Some (cached_node n, count)"
proof -
  let ?p = "node_header n count @ rest"
  have f: "unmarshall16 ?p 0 = Some (smalid n, 2)"
    using unmarshall_bytes(2) [of ?p 0 "smalid n"] by (simp add: node_header_def mem_load_def)
  have b: "unmarshall8 ?p 2 = Some (smalmc n, 3)" "unmarshall8 ?p 3 = Some (word_of_int (smaenhsp0 n), 4)"
    "unmarshall_buf ?p 4 64 = Some (switchinfo n, 68)"
    using assms by (simp_all add: node_header_def mem_load_def unmarshall8_def unmarshall_buf_def node_sized_def)
  have g: "unmarshall64 ?p 68 = Some (nd_guid n, 76)"
    using unmarshall_bytes(4) [of ?p 68 "nd_guid n"] assms by (simp add: node_header_def mem_load_def node_sized_def)
  have r: "unmarshall8 ?p 76 = Some (word_of_int (nd_type n), 77)" "unmarshall8 ?p 77 = Some (word_of_int (numports n), 78)"
    "unmarshall_buf ?p 78 64 = Some (nd_info n, 142)" "unmarshall_buf ?p 142 64 = Some (nodedesc n, 206)"
    "unmarshall8 ?p 206 = Some (count, 207)"
    using assms by (simp_all add: node_header_def mem_load_def unmarshall8_def unmarshall_buf_def node_sized_def)
  show ?thesis using assms(2) by (simp add: read_node_def f b g r cached_node_def uint_byte byte_fields_def)
qed

lemma read_node_prefix:
  assumes "length xs = 207"
  shows "read_node (xs @ ys) node = read_node xs node" and "\<exists>n count. read_node xs node_zero = Some (n, count) \<and> ports n = [] \<and> 0 \<le> numports n"
  using assms by (simp_all add: read_node_def unmarshall_defs mem_load_def node_zero_def)

lemma read_keys_bytes:
  "read_keys (length ks) (pre @ concat (map key_bytes ks) @ rest) (length pre) = Some ks"
proof (induction ks arbitrary: pre)
  case Nil
  then show ?case by simp
next
  case (Cons k ks)
  let ?p = "pre @ key_bytes k @ concat (map key_bytes ks) @ rest"
  have a: "unmarshall64 ?p (length pre) = Some (ck_guid k, length pre + 8)"
    by (rule unmarshall_bytes) (simp add: mem_load_def key_bytes_def)
  have b: "unmarshall8 ?p (length pre + 8) = Some (ck_portnum k, length pre + 9)"
    by (simp add: mem_load_def key_bytes_def unmarshall8_def)
  have "read_keys (length ks) ?p (length pre + 9) = Some ks"
    using Cons.IH [of "pre @ key_bytes k"] by simp
  then show ?case using a b by simp
qed

lemma read_keys_total:
  "i + 9 * n \<le> length buf \<Longrightarrow> \<exists>ks. read_keys n buf i = Some ks \<and> length ks = n"
proof (induction n arbitrary: i)
  case (Suc n)
  then have "(9 + i) + 9 * n \<le> length buf" by simp
  from Suc.IH [OF this] obtain ks where "read_keys n buf (9 + i) = Some ks" "length ks = n" by blast
  then show ?case using Suc.prems by (simp add: unmarshall_defs mem_load_def)
qed simp

lemma read_keys_prefix:
  "i + 9 * n \<le> length xs \<Longrightarrow> read_keys n (xs @ ys) i = read_keys n xs i"
  by (induction n arbitrary: i) (simp_all add: unmarshall_defs mem_load_def)

lemma read_port_bytes:
  assumes "length (po_info x) = 64" and "portnum x \<in> {0..<256}" and "ext_portnum x \<in> {0..<256}"
  shows "read_port (port_bytes x ng r @ rest) port_zero pc = Some (cached_port x,
    pc\<lparr>node_guid := ng, remoteport_flag := (if r = None then 0 else 1),
      remoteport_cache_key := (case r of None \<Rightarrow> key_zero | Some k \<Rightarrow> k)\<rparr>)"
proof -
  define k where "k = (case r of None \<Rightarrow> key_zero | Some k \<Rightarrow> k)"
  define b where "b = (if r = None then 0 else 1 :: u8)"
  let ?p = "port_bytes x ng r @ rest"
  have p: "port_bytes x ng r = native_bytes LE 8 (po_guid x) @ [word_of_int (portnum x), word_of_int (ext_portnum x)] @
     native_bytes LE 2 (base_lid x) @ [lmc x] @ po_info x @ native_bytes LE 8 ng @ [b] @ native_bytes LE 8 (ck_guid k) @ [ck_portnum k]"
    by (cases r) (simp_all add: port_bytes_def k_def b_def key_bytes_def)
  have f: "unmarshall64 ?p 0 = Some (po_guid x, 8)" using unmarshall_bytes(4) [of ?p 0 "po_guid x"] by (simp add: p mem_load_def)
  have g: "unmarshall16 ?p 10 = Some (base_lid x, 12)" using unmarshall_bytes(2) [of ?p 10 "base_lid x"] by (simp add: p mem_load_def)
  have h: "unmarshall64 ?p 77 = Some (ng, 85)" using unmarshall_bytes(4) [of ?p 77 ng] assms(1) by (simp add: p mem_load_def)
  have i: "unmarshall64 ?p 86 = Some (ck_guid k, 94)"
    using unmarshall_bytes(4) [of ?p 86 "ck_guid k"] assms(1) by (simp add: p mem_load_def)
  have s: "unmarshall8 ?p 8 = Some (word_of_int (portnum x), 9)" "unmarshall8 ?p 9 = Some (word_of_int (ext_portnum x), 10)"
    "unmarshall8 ?p 12 = Some (lmc x, 13)" "unmarshall_buf ?p 13 64 = Some (po_info x, 77)" "unmarshall8 ?p 85 = Some (b, 86)"
    "unmarshall8 ?p 94 = Some (ck_portnum k, 95)"
    using assms(1) by (simp_all add: p mem_load_def unmarshall8_def unmarshall_buf_def)
  show ?thesis
    using assms(2,3) unfolding k_def [symmetric] b_def [symmetric]
    by (simp add: read_port_def f g h i s cached_port_def uint_byte)
qed

lemma read_port_prefix:
  assumes "length xs = 95"
  shows "read_port (xs @ ys) x pc = read_port xs x pc"
    and "\<exists>y ng b k. \<forall>pc. read_port xs port_zero pc = Some (y, pc\<lparr>node_guid := ng, remoteport_flag := b, remoteport_cache_key := k\<rparr>) \<and>
      0 \<le> portnum y"
  using assms by (simp_all add: read_port_def unmarshall_defs mem_load_def) blast

end
