(* ===== verification/IbnCacheWrite.thy ===== *)
theory IbnCacheWrite
  imports IbnCacheCorrect
begin

text \<open>
  What \<open>ibnd_cache_fabric\<close> writes: the header, one record for every node in the list of nodes, and
  one for every port in the hash table, in their order.
\<close>

section \<open>Appending to a file\<close>

definition appends :: "wfile \<Rightarrow> mem \<Rightarrow> (int \<times> wfile) option \<Rightarrow> bool" where
  \<comment> \<open>the bytes are appended, or an error of the kernel is reported\<close>
  "appends fd bs r \<longleftrightarrow> (\<exists>rc fd'. r = Some (rc, fd') \<and> wf_seekable fd' = wf_seekable fd \<and>
     (Eio \<notin> set (wf_sched fd) \<longrightarrow> rc = 0 \<and> Eio \<notin> set (wf_sched fd')) \<and>
     (rc = -1 \<or> rc = 0 \<and> wf_data fd' = wf_data fd @ bs \<and> wf_pos fd' = length (wf_data fd')))"

lemma flush_appends:
  assumes "length w \<le> length junk" and "wf_pos fd = length (wf_data fd)"
  shows "appends fd w (flush_cursor fd (cur junk w))"
proof -
  obtain rc fd' where r: "ibnd_write fd (w @ drop (length w) junk) (length w) = Some (rc, fd')" "wf_seekable fd' = wf_seekable fd"
      "Eio \<notin> set (wf_sched fd) \<longrightarrow> rc \<noteq> -1 \<and> Eio \<notin> set (wf_sched fd')"
      "rc = -1 \<or> rc = int (length w) \<and> wf_data fd' = put_at (wf_pos fd) (take (length w) (w @ drop (length w) junk)) (wf_data fd) \<and>
        wf_pos fd' = wf_pos fd + length w"
    using ibnd_write_writes [of "length w" "w @ drop (length w) junk" fd] assms by auto
  have "appends fd w (Some (if rc < 0 then -1 else 0, fd'))"
    unfolding appends_def using r(2,3,4) assms(2) by (auto simp: put_at_end)
  then show ?thesis using r(1) by (simp add: flush_cursor_def cur_def)
qed

section \<open>Nodes\<close>

definition port_key :: "ibnd_port_t \<Rightarrow> ibnd_port_cache_key_t" where
  "port_key x = \<lparr>ck_guid = po_guid x, ck_portnum = word_of_int (portnum x)\<rparr>"

fun keys_of :: "'m fabric \<Rightarrow> ptr option list \<Rightarrow> ibnd_port_cache_key_t list" where
  "keys_of f [] = []"
| "keys_of f (None # ps) = keys_of f ps"
| "keys_of f (Some p # ps) = port_key (the (st_ports f p)) # keys_of f ps"

lemma length_keys_of: "length (keys_of f ps) \<le> length ps"
  by (induction f ps rule: keys_of.induct) simp_all

lemma marshall_keys_cur:
  assumes "\<And>a. Some a \<in> set ps \<Longrightarrow> a \<in> dom (st_ports f)" and "length w + 9 * length ps \<le> length junk"
  shows "marshall_keys f ps count (cur junk w) =
    Some (count + of_nat (length (keys_of f ps)), cur junk (w @ concat (map key_bytes (keys_of f ps))))"
  using assms
proof (induction f ps count "cur junk w" arbitrary: w rule: marshall_keys.induct)
  case (3 f p ps count)
  then obtain x where x: "st_ports f p = Some x" by fastforce
  have c: "marshall64 (po_guid x) (cur junk w) = Some (cur junk (w @ native_bytes LE 8 (po_guid x)))"
    "marshall8 (word_of_int (portnum x)) (cur junk (w @ native_bytes LE 8 (po_guid x))) = Some (cur junk (w @ key_bytes (port_key x)))"
    using "3.prems"(2) by (simp_all add: marshall_cur key_bytes_def port_key_def)
  have "marshall_keys f ps (count + 1) (cur junk (w @ key_bytes (port_key x))) =
      Some (count + 1 + of_nat (length (keys_of f ps)), cur junk ((w @ key_bytes (port_key x)) @ concat (map key_bytes (keys_of f ps))))"
    by (rule "3.hyps" [OF x c]) (use "3.prems" in auto)
  then show ?case using x c by (simp add: add.assoc)
qed simp_all

definition node_record :: "'m fabric \<Rightarrow> ptr \<Rightarrow> mem" where
  "node_record f p = (let n = the (st_nodes f p) in node_bytes n (keys_of f (ports n)))"

lemma cur_skip: "length w < length junk \<Longrightarrow> (w @ drop (length w) junk, length w + 1) = cur junk (w @ [junk ! length w])"
  by (simp add: cur_def Cons_nth_drop_Suc)

lemma cache_node_appends:
  assumes "st_nodes f p = Some n" and "node_shape n" and "numports n < 256" and "length buf = IBND_FABRIC_CACHE_BUFLEN"
    and "\<And>a. Some a \<in> set (ports n) \<Longrightarrow> a \<in> dom (st_ports f)" and "wf_pos fd = length (wf_data fd)"
  shows "appends fd (node_record f p) (cache_node buf f p fd)"
proof -
  note sz = assms(2) [unfolded node_shape_def]
  let ?w = "node_header n 0"
  define w where "w = butlast (node_header n 0)"
  have w: "w = native_bytes LE 2 (smalid n) @ [smalmc n, word_of_int (smaenhsp0 n)] @ switchinfo n @
     native_bytes LE 8 (nd_guid n) @ [word_of_int (nd_type n), word_of_int (numports n)] @ nd_info n @ nodedesc n"
    by (simp add: w_def node_header_def butlast_append)
  have h: "w @ [c] = node_header n c" for c by (simp add: w node_header_def)
  have lw: "length w = 206" using sz by (simp add: w)
  have lb: "length buf = 4096" using assms(4) by (simp add: c_eval)
  let ?kb = "concat (map key_bytes (keys_of f (ports n)))"
  let ?count = "of_nat (length (keys_of f (ports n))) :: u8"
  have lp: "length (ports n) \<le> 256" using sz assms(3) by simp
  have ps: "mem_load (ports n) 0 (nat (numports n + 1)) = Some (ports n)" using sz by (simp add: mem_load_def)
  have ks: "marshall_keys f (ports n) 0 (w @ drop 206 buf, 207) = Some (?count, cur buf ((w @ [buf ! 206]) @ ?kb))"
    using marshall_keys_cur [OF assms(5), where w = "w @ [buf ! 206]" and junk = buf and count = 0] cur_skip [of w buf] lw lb lp by simp
  let ?k = "length (keys_of f (ports n))"
  have ln: "length (node_bytes n (keys_of f (ports n))) = 207 + 9 * ?k" using lw by (simp add: node_bytes_def h [symmetric])
  have st: "marshall8 ?count (w @ buf ! 206 # ?kb @ drop (207 + 9 * ?k) buf, 206) =
      Some (node_bytes n (keys_of f (ports n)) @ drop (207 + 9 * ?k) buf, 207)"
    using lw by (simp add: marshall8_def mem_store_def node_bytes_def h [symmetric])
  have fl: "appends fd (node_bytes n (keys_of f (ports n))) (flush_cursor fd (cur buf (node_bytes n (keys_of f (ports n)))))"
  proof (rule flush_appends [OF _ assms(6)])
    have "length (keys_of f (ports n)) \<le> 256" using length_keys_of [of f "ports n"] lp by linarith
    then show "length (node_bytes n (keys_of f (ports n))) \<le> length buf"
      using lw lb by (simp add: node_bytes_def h [symmetric])
  qed
  have "cache_node buf f p fd = flush_cursor fd (cur buf (node_bytes n (keys_of f (ports n))))"
  proof -
    have run: "(do {
       c \<leftarrow> marshall16 (smalid n) (buf, 0);
       c \<leftarrow> marshall8 (smalmc n) c;
       c \<leftarrow> marshall8 (word_of_int (smaenhsp0 n)) c;
       c \<leftarrow> marshall_buf (switchinfo n) 64 c;
       c \<leftarrow> marshall64 (nd_guid n) c;
       c \<leftarrow> marshall8 (word_of_int (nd_type n)) c;
       c \<leftarrow> marshall8 (word_of_int (numports n)) c;
       c \<leftarrow> marshall_buf (nd_info n) 64 c;
       c \<leftarrow> marshall_buf (nodedesc n) 64 c;
       g c}) = g (cur buf w)" for g :: "cursor \<Rightarrow> (int \<times> wfile) option"
      using sz lb by (simp add: cur_start marshall_cur w)
    have lc: "length (w @ [buf ! 206]) = 207" using lw by simp
    show ?thesis
      unfolding cache_node_def assms(1) Option.bind.bind_lunit
      by (subst run) (simp add: cur_def [of _ w] lw ps ks, simp add: cur_def st ln lw)
  qed
  then show ?thesis using fl by (simp add: node_record_def assms(1) Let_def)
qed


section \<open>Ports\<close>

definition port_record :: "'m fabric \<Rightarrow> ptr \<Rightarrow> mem" where
  "port_record f p = (let x = the (st_ports f p) in
     port_bytes x (nd_guid (the (st_nodes f (the (po_node x))))) (map_option (\<lambda>r. port_key (the (st_ports f r))) (remoteport x)))"

definition port_writable :: "'m fabric \<Rightarrow> ptr \<Rightarrow> bool" where
  "port_writable f p \<longleftrightarrow> (\<exists>x. st_ports f p = Some x \<and> length (po_info x) = 64 \<and>
     (\<exists>q n. po_node x = Some q \<and> st_nodes f q = Some n) \<and> (\<forall>r. remoteport x = Some r \<longrightarrow> r \<in> dom (st_ports f)))"

lemma cache_port_appends:
  assumes "port_writable f p" and "length buf = IBND_FABRIC_CACHE_BUFLEN" and "wf_pos fd = length (wf_data fd)"
  shows "appends fd (port_record f p) (cache_port buf f p fd)"
proof -
  obtain x q n where x: "st_ports f p = Some x" "length (po_info x) = 64" "po_node x = Some q" "st_nodes f q = Some n"
      "\<And>r. remoteport x = Some r \<Longrightarrow> r \<in> dom (st_ports f)"
    using assms(1) unfolding port_writable_def by blast
  have lb: "length buf = 4096" using assms(2) by (simp add: c_eval)
  have run: "cache_port buf f p fd = flush_cursor fd (cur buf (port_record f p))"
  proof (cases "remoteport x")
    case None
    then show ?thesis using x(2) lb
      by (simp add: cache_port_def x(1,3,4) cur_start marshall_cur port_record_def Let_def port_bytes_def key_bytes_def key_zero_def)
  next
    case (Some r)
    then obtain y where "st_ports f r = Some y" using x(5) by blast
    then show ?thesis using x(2) lb Some
      by (simp add: cache_port_def x(1,3,4) cur_start marshall_cur port_record_def Let_def port_bytes_def key_bytes_def port_key_def)
  qed
  have "length (port_record f p) = 95" using x(1,2) by (cases "remoteport x") (simp_all add: port_record_def port_bytes_def Let_def)
  then show ?thesis unfolding run using lb by (intro flush_appends [OF _ assms(3)]) simp
qed

section \<open>Lists\<close>

lemma cache_list_appends:
  fixes f :: "'m fabric"
  assumes "path next x ps" and "length ps \<le> Suc (st_next f)"
    and "\<And>p fd. p \<in> set ps \<Longrightarrow> wf_pos fd = length (wf_data fd) \<Longrightarrow> appends fd (enc p) (write p fd)"
    and "wf_pos fd = length (wf_data fd)"
  shows "\<exists>rc cnt fd'. cache_list f write next x (c0, fd) = Some (rc, cnt, fd') \<and> (rc = 0 \<longrightarrow> cnt = c0 + of_nat (length ps)) \<and>
    appends fd (concat (map enc ps)) (Some (rc, fd'))"
proof -
  let ?body = "\<lambda>p (count, fd). do {
         (rc, fd) \<leftarrow> write p fd;
         Some (if rc < 0 then (True, count, fd) else (False, count + 1, fd))
       }"
  have "\<exists>r cnt fd'. walk k next ?body x (c0, fd) = Some (r, cnt, fd') \<and> (r = None \<longrightarrow> cnt = c0 + of_nat (length ps)) \<and>
      appends fd (concat (map enc ps)) (Some (if r = None then 0 else -1, fd'))" if "length ps \<le> k" for k
    using assms(1,3,4) that
  proof (induction ps arbitrary: x c0 fd k)
    case Nil
    then show ?case by (simp add: appends_def)
  next
    case (Cons p ps)
    then obtain m y where k: "k = Suc m" "x = Some p" "next p = Some y" "path next y ps" "length ps \<le> m" by (cases k) auto
    obtain rc fd1 where w: "write p fd = Some (rc, fd1)" and w1: "wf_seekable fd1 = wf_seekable fd"
        "Eio \<notin> set (wf_sched fd) \<longrightarrow> rc = 0 \<and> Eio \<notin> set (wf_sched fd1)"
        "rc = -1 \<or> rc = 0 \<and> wf_data fd1 = wf_data fd @ enc p \<and> wf_pos fd1 = length (wf_data fd1)"
      using Cons.prems(2) [of p fd] Cons.prems(3) by (auto simp: appends_def)
    show ?case
    proof (cases "rc = -1")
      case True
      then show ?thesis using k w w1 by (auto simp: appends_def)
    next
      case False
      then have w2: "rc = 0" "wf_data fd1 = wf_data fd @ enc p" "wf_pos fd1 = length (wf_data fd1)" using w1(3) by simp_all
      obtain r cnt fd' where r: "walk m next ?body y (c0 + 1, fd1) = Some (r, cnt, fd')" "r = None \<longrightarrow> cnt = c0 + 1 + of_nat (length ps)"
          "appends fd1 (concat (map enc ps)) (Some (if r = None then 0 else -1, fd'))"
        using Cons.IH [OF k(4) Cons.prems(2) w2(3) k(5), of "c0 + 1"] by auto
      have "appends fd (concat (map enc (p # ps))) (Some (if r = None then 0 else -1, fd'))"
        using r(3) w1 w2 by (auto simp: appends_def)
      then show ?thesis using r(1,2) k w w2(1) by simp
    qed
  qed
  from this [OF assms(2)] show ?thesis by (force simp: cache_list_def)
qed

lemma cache_buckets_appends:
  assumes "list_all2 (path (port_next f)) xs pss" and "\<And>ps. ps \<in> set pss \<Longrightarrow> length ps \<le> Suc (st_next f)"
    and "\<And>p. p \<in> set (concat pss) \<Longrightarrow> port_writable f p" and "length buf = IBND_FABRIC_CACHE_BUFLEN"
    and "wf_pos fd = length (wf_data fd)"
  shows "\<exists>rc cnt fd'. cache_buckets buf f xs (c0, fd) = Some (rc, cnt, fd') \<and>
    (rc = 0 \<longrightarrow> cnt = c0 + of_nat (length (concat pss))) \<and>
    appends fd (concat (map (port_record f) (concat pss))) (Some (rc, fd'))"
  using assms
proof (induction xs pss arbitrary: c0 fd rule: list_all2_induct)
  case Nil
  then show ?case by (simp add: appends_def)
next
  case (Cons x xs ps pss)
  obtain rc cnt fd1 where l: "cache_list f (cache_port buf f) (port_next f) x (c0, fd) = Some (rc, cnt, fd1)"
      "rc = 0 \<longrightarrow> cnt = c0 + of_nat (length ps)" "appends fd (concat (map (port_record f) ps)) (Some (rc, fd1))"
    using cache_list_appends [OF Cons.hyps(1), of f "port_record f" "cache_port buf f" fd c0] Cons.prems cache_port_appends
    by (metis UnI1 concat.simps(2) list.set_intros(1) set_append)
  show ?case
  proof (cases "rc = 0")
    case False
    then show ?thesis using l by (auto simp: appends_def)
  next
    case True
    then have a: "wf_data fd1 = wf_data fd @ concat (map (port_record f) ps)" "wf_pos fd1 = length (wf_data fd1)"
        "wf_seekable fd1 = wf_seekable fd" "Eio \<notin> set (wf_sched fd) \<longrightarrow> Eio \<notin> set (wf_sched fd1)"
      using l(3) by (auto simp: appends_def)
    obtain rc' cnt' fd' where r: "cache_buckets buf f xs (cnt, fd1) = Some (rc', cnt', fd')"
        "rc' = 0 \<longrightarrow> cnt' = cnt + of_nat (length (concat pss))"
        "appends fd1 (concat (map (port_record f) (concat pss))) (Some (rc', fd'))"
      using Cons.IH [of fd1 cnt] Cons.prems a(2) by auto
    have "appends fd (concat (map (port_record f) (concat (ps # pss)))) (Some (rc', fd'))"
      using r(3) a by (auto simp: appends_def)
    then show ?thesis using l(1,2) True r(1,2) by simp
  qed
qed

section \<open>The whole file\<close>

definition cacheable :: "'m fabric \<Rightarrow> ptr list \<Rightarrow> ptr list list \<Rightarrow> bool" where
  \<comment> \<open>the list of nodes, the buckets of the table of ports, and what can be followed from them\<close>
  "cacheable f ns pss \<longleftrightarrow> path (node_next nd_next f) (fb_nodes f) ns \<and> length (portstbl f) = HTSZ \<and>
     list_all2 (path (port_next f)) (portstbl f) pss \<and>
     length ns \<le> Suc (st_next f) \<and> (\<forall>ps \<in> set pss. length ps \<le> Suc (st_next f)) \<and>
     (\<forall>p \<in> set ns. \<exists>n. st_nodes f p = Some n \<and> node_shape n \<and> byte_fields n \<and>
        (\<forall>a. Some a \<in> set (ports n) \<longrightarrow> a \<in> dom (st_ports f))) \<and>
     (\<forall>p \<in> set (concat pss). port_writable f p) \<and> (\<exists>p. from_node f = Some p \<and> p \<in> dom (st_nodes f))"

definition file_bytes :: "'m fabric \<Rightarrow> ptr list \<Rightarrow> ptr list \<Rightarrow> mem" where
  "file_bytes f ns ps = header_bytes (of_nat (length ns)) (of_nat (length ps))
       (nd_guid (the (st_nodes f (the (from_node f))))) (maxhops_discovered f) @
     concat (map (node_record f) ns) @ concat (map (port_record f) ps)"

lemma cache_header_info_appends:
  assumes "from_node f = Some p" and "st_nodes f p = Some n" and "length buf = IBND_FABRIC_CACHE_BUFLEN"
    and "wf_pos fd = length (wf_data fd)"
  shows "appends fd (header_bytes 0 0 (nd_guid n) (maxhops_discovered f)) (cache_header_info buf f fd)"
proof -
  have "cache_header_info buf f fd = flush_cursor fd (cur buf (header_bytes 0 0 (nd_guid n) (maxhops_discovered f)))"
    using assms by (simp add: cache_header_info_def cur_start marshall_cur header_bytes_def c_eval)
  then show ?thesis using assms(3) by (auto intro!: flush_appends [OF _ assms(4)] simp: c_eval)
qed

lemma cache_counts_written:
  assumes "length buf = IBND_FABRIC_CACHE_BUFLEN" and "wf_seekable fd" and "Eio \<notin> set (wf_sched fd)"
    and "wf_data fd = header_bytes 0 0 g h @ rest"
  shows "\<exists>fd'. cache_header_counts buf nn np fd = Some (0, fd') \<and> wf_data fd' = header_bytes nn np g h @ rest"
proof -
  let ?w = "native_bytes LE 4 nn @ native_bytes LE 4 np"
  let ?fd = "fd\<lparr>wf_pos := 8\<rparr>"
  have lb: "length buf = 4096" using assms(1) by (simp add: c_eval)
  obtain rc fd' where w: "ibnd_write ?fd (?w @ drop 8 buf) 8 = Some (rc, fd')" "rc \<noteq> -1"
      "rc = -1 \<or> rc = 8 \<and> wf_data fd' = put_at 8 (take 8 (?w @ drop 8 buf)) (wf_data fd)"
    using ibnd_write_writes [of 8 "?w @ drop 8 buf" ?fd] assms(3,4) lb by auto
  have "put_at 8 ?w (wf_data fd) = header_bytes nn np g h @ rest"
    by (simp add: assms(4) put_at_def header_bytes_def)
  moreover have "take 8 (?w @ drop 8 buf) = ?w" by simp
  ultimately have d: "rc = 8" "wf_data fd' = header_bytes nn np g h @ rest" using w(2,3) by simp_all
  have "marshall32 nn (buf, 0) = Some (cur buf (native_bytes LE 4 nn))" using lb by (simp add: cur_start marshall_cur)
  moreover have "marshall32 np (cur buf (native_bytes LE 4 nn)) = Some (?w @ drop 8 buf, 8)"
    using lb by (simp add: marshall_cur) (simp add: cur_def)
  ultimately have "cache_header_counts buf nn np fd = Some (0, fd')"
    using assms(2) w(1) d(1) by (simp add: cache_header_counts_def sys_lseek_def flush_cursor_def c_eval)
  then show ?thesis using d(2) by blast
qed

lemma cache_records_written:
  assumes "cacheable f ns pss" and "length buf = IBND_FABRIC_CACHE_BUFLEN"
    and "wf_data fd = []" and "wf_pos fd = 0" and "wf_seekable fd" and "Eio \<notin> set (wf_sched fd)"
  shows "\<exists>fd'. cache_records buf f fd = Some (0, fd') \<and> wf_data fd' = file_bytes f ns (concat pss)"
proof -
  note c = assms(1) [unfolded cacheable_def]
  obtain p n where p: "from_node f = Some p" "st_nodes f p = Some n" using c by blast
  obtain fd1 where h: "cache_header_info buf f fd = Some (0, fd1)" "wf_data fd1 = header_bytes 0 0 (nd_guid n) (maxhops_discovered f)"
      "wf_pos fd1 = length (wf_data fd1)" "wf_seekable fd1" "Eio \<notin> set (wf_sched fd1)"
    using cache_header_info_appends [OF p assms(2), of fd] assms(3-6) by (auto simp: appends_def)
  have "appends fd (node_record f q) (cache_node buf f q fd)" if q: "q \<in> set ns" "wf_pos fd = length (wf_data fd)" for q fd
  proof -
    obtain m where m: "st_nodes f q = Some m" "node_shape m" "byte_fields m" "\<forall>a. Some a \<in> set (ports m) \<longrightarrow> a \<in> dom (st_ports f)"
      using c q(1) by blast
    then show ?thesis using assms(2) q(2) by (intro cache_node_appends [OF m(1,2)]) (auto simp: byte_fields_def)
  qed
  then obtain cnt fd2 where l: "cache_list f (cache_node buf f) (node_next nd_next f) (fb_nodes f) (0, fd1) = Some (0, cnt, fd2)"
      "cnt = of_nat (length ns)" "wf_data fd2 = wf_data fd1 @ concat (map (node_record f) ns)" "wf_pos fd2 = length (wf_data fd2)"
      "wf_seekable fd2" "Eio \<notin> set (wf_sched fd2)"
    using cache_list_appends [of "node_next nd_next f" "fb_nodes f" ns f "node_record f" "cache_node buf f" fd1 0] c h(3-5)
    by (auto simp: appends_def)
  obtain cnt' fd3 where b: "cache_buckets buf f (portstbl f) (0, fd2) = Some (0, cnt', fd3)" "cnt' = of_nat (length (concat pss))"
      "wf_data fd3 = wf_data fd2 @ concat (map (port_record f) (concat pss))" "wf_seekable fd3" "Eio \<notin> set (wf_sched fd3)"
    using cache_buckets_appends [of f "portstbl f" pss buf fd2 0] c assms(2) l(4-6) by (auto simp: appends_def)
  have "wf_data fd3 = header_bytes 0 0 (nd_guid n) (maxhops_discovered f) @
      (concat (map (node_record f) ns) @ concat (map (port_record f) (concat pss)))"
    using h(2) l(3) b(3) by simp
  from cache_counts_written [OF assms(2) b(4,5) this, of cnt cnt'] obtain fd' where
    "cache_header_counts buf cnt cnt' fd3 = Some (0, fd')"
    "wf_data fd' = header_bytes cnt cnt' (nd_guid n) (maxhops_discovered f) @
      (concat (map (node_record f) ns) @ concat (map (port_record f) (concat pss)))" by blast
  moreover have "mem_load (portstbl f) 0 HTSZ = Some (portstbl f)" using c by (simp add: mem_load_def)
  ultimately show ?thesis using h(1) l(1,2) b(1,2) p by (auto simp: cache_records_def file_bytes_def)
qed

end
