(* ===== verification/IbnCacheRead.thy ===== *)
theory IbnCacheRead
  imports IbnCacheWrite
begin

text \<open>
  What reading a cache file does. The reference is a pure parser of the bytes; the code refines it,
  whatever the file contains and however the kernel delivers it: it fails when the parser fails, and
  otherwise the temporary structures hold what the parser returns, in well-formed lists and hash chains.
\<close>

section \<open>The reference: a parser\<close>

type_synonym node_value = "ibnd_node_t \<times> ibnd_port_cache_key_t list"
type_synonym port_value = "ibnd_port_t \<times> u64 \<times> u8 \<times> ibnd_port_cache_key_t"

definition parse_node :: "mem \<Rightarrow> (node_value \<times> mem) option" where
  "parse_node d = (if length d < 207 then None else do {
     (n, count) \<leftarrow> read_node (take 207 d) node_zero;
     let k = 9 * unat count;
     if length d < 207 + k then None
     else do { ks \<leftarrow> read_keys (unat count) (drop 207 d) 0; Some ((n, ks), drop (207 + k) d) }
   })"

definition parse_port :: "mem \<Rightarrow> (port_value \<times> mem) option" where
  "parse_port d = (if length d < 95 then None else do {
     (x, pc) \<leftarrow> read_port (take 95 d) port_zero pcache_zero;
     Some ((x, node_guid pc, remoteport_flag pc, remoteport_cache_key pc), drop 95 d)
   })"

fun parse_many :: "nat \<Rightarrow> (mem \<Rightarrow> ('a \<times> mem) option) \<Rightarrow> mem \<Rightarrow> ('a list \<times> mem) option" where
  "parse_many 0 parse d = Some ([], d)"
| "parse_many (Suc n) parse d = do { (v, d) \<leftarrow> parse d; (vs, d) \<leftarrow> parse_many n parse d; Some (v # vs, d) }"

definition parse_header :: "mem \<Rightarrow> ((u32 \<times> u32 \<times> u64 \<times> u32) \<times> mem) option" where
  "parse_header d = (if length d < 28 then None else do {
     (magic, i) \<leftarrow> unmarshall32 d 0;
     (version, i) \<leftarrow> unmarshall32 d i;
     (nn, i) \<leftarrow> unmarshall32 d i;
     (np, i) \<leftarrow> unmarshall32 d i;
     (guid, i) \<leftarrow> unmarshall64 d i;
     (h, i) \<leftarrow> unmarshall32 d i;
     if magic \<noteq> IBND_FABRIC_CACHE_MAGIC \<or> version \<noteq> IBND_FABRIC_CACHE_VERSION then None
     else Some ((nn, np, guid, h), drop 28 d)
   })"

definition parse_file :: "mem \<Rightarrow> (u64 \<times> u32 \<times> node_value list \<times> port_value list) option" where
  "parse_file d = do {
     ((nn, np, guid, h), d) \<leftarrow> parse_header d;
     (ns, d) \<leftarrow> parse_many (unat nn) parse_node d;
     (ps, d) \<leftarrow> parse_many (unat np) parse_port d;
     Some (guid, h, ns, ps)
   }"

section \<open>The temporary structures\<close>

definition node_entry :: "'m fabric_cache \<Rightarrow> ptr \<Rightarrow> ptr \<Rightarrow> bool" where
  "node_entry c a p \<longleftrightarrow> a < st_next (f_int c) \<and> p < st_next (f_int c) \<and>
     (\<exists>nc n. st_ncache c a = Some nc \<and> nc_node nc = Some p \<and> unat (ports_stored_count nc) = length (port_cache_keys nc) \<and>
       st_nodes (f_int c) p = Some n \<and> 0 \<le> numports n)"

definition port_entry :: "'m fabric_cache \<Rightarrow> ptr \<Rightarrow> ptr \<Rightarrow> bool" where
  "port_entry c a p \<longleftrightarrow> a < st_next (f_int c) \<and> p < st_next (f_int c) \<and>
     (\<exists>pc x. st_pcache c a = Some pc \<and> pc_port pc = Some p \<and> st_ports (f_int c) p = Some x \<and> 0 \<le> portnum x)"

definition nodes_part :: "'m fabric_cache \<Rightarrow> (ptr \<times> ptr) list \<Rightarrow> bool" where
  \<comment> \<open>the pairs of a node cache and its node, in the order of the list\<close>
  "nodes_part c NA \<longleftrightarrow> length (nodescachetbl c) = HTSZ \<and> distinct (map snd NA) \<and>
     dom (st_ncache c) = fst ` set NA \<and> dom (st_nodes (f_int c)) = snd ` set NA \<and>
     (\<forall>(a, p) \<in> set NA. node_entry c a p) \<and>
     path (\<lambda>a. map_option nc_next (st_ncache c a)) (nodes_cache c) (map fst NA) \<and>
     (\<forall>i < HTSZ. path (\<lambda>a. map_option nc_htnext (st_ncache c a)) (nodescachetbl c ! i)
        (map fst (filter (\<lambda>(a, p). hash_idx (nd_guid (the (st_nodes (f_int c) p))) = i) NA)))"

definition ports_part :: "'m fabric_cache \<Rightarrow> (ptr \<times> ptr) list \<Rightarrow> bool" where
  "ports_part c PA \<longleftrightarrow> length (portscachetbl c) = HTSZ \<and> distinct (map snd PA) \<and>
     dom (st_pcache c) = fst ` set PA \<and> dom (st_ports (f_int c)) = snd ` set PA \<and>
     (\<forall>(a, p) \<in> set PA. port_entry c a p) \<and>
     path (\<lambda>a. map_option pc_next (st_pcache c a)) (ports_cache c) (map fst PA) \<and>
     (\<forall>i < HTSZ. path (\<lambda>a. map_option pc_htnext (st_pcache c a)) (portscachetbl c ! i)
        (map fst (filter (\<lambda>(a, p). hash_idx (po_guid (the (st_ports (f_int c) p))) = i) PA)))"

definition start_fabric :: "'m qmap_ops \<Rightarrow> (ptr \<Rightarrow> bool) \<Rightarrow> 'm fabric \<Rightarrow> bool" where
  \<comment> \<open>a fabric as it is allocated, but for structures that are live and the number of hops\<close>
  "start_fabric qm alloc f \<longleftrightarrow> (\<exists>ns ps k h.
     f = (allocate_fabric_internal qm alloc)\<lparr>st_nodes := ns, st_ports := ps, st_next := k, maxhops_discovered := h\<rparr>)"

lemma start_fabric_upd:
  assumes "start_fabric qm alloc f"
  shows "start_fabric qm alloc (f\<lparr>st_nodes := ns\<rparr>)" and "start_fabric qm alloc (f\<lparr>st_ports := ps\<rparr>)"
    and "start_fabric qm alloc (f\<lparr>st_next := k\<rparr>)" and "start_fabric qm alloc (f\<lparr>maxhops_discovered := h\<rparr>)"
proof -
  obtain ns' ps' k' h' where f: "f = (allocate_fabric_internal qm alloc)\<lparr>st_nodes := ns', st_ports := ps', st_next := k', maxhops_discovered := h'\<rparr>"
    using assms unfolding start_fabric_def by blast
  show "start_fabric qm alloc (f\<lparr>st_nodes := ns\<rparr>)"
    unfolding start_fabric_def by (rule exI [of _ ns], rule exI [of _ ps'], rule exI [of _ k'], rule exI [of _ h']) (simp add: f)
  show "start_fabric qm alloc (f\<lparr>st_ports := ps\<rparr>)"
    unfolding start_fabric_def by (rule exI [of _ ns'], rule exI [of _ ps], rule exI [of _ k'], rule exI [of _ h']) (simp add: f)
  show "start_fabric qm alloc (f\<lparr>st_next := k\<rparr>)"
    unfolding start_fabric_def by (rule exI [of _ ns'], rule exI [of _ ps'], rule exI [of _ k], rule exI [of _ h']) (simp add: f)
  show "start_fabric qm alloc (f\<lparr>maxhops_discovered := h\<rparr>)"
    unfolding start_fabric_def by (rule exI [of _ ns'], rule exI [of _ ps'], rule exI [of _ k'], rule exI [of _ h]) (simp add: f)
qed

definition unlinked :: "'m qmap_ops \<Rightarrow> (ptr \<Rightarrow> bool) \<Rightarrow> 'm fabric_cache \<Rightarrow> bool" where
  \<comment> \<open>nothing is in the fabric yet\<close>
  "unlinked qm alloc c \<longleftrightarrow>
     start_fabric qm alloc (f_int c) \<and>
     (\<forall>p n. st_nodes (f_int c) p = Some n \<longrightarrow> ports n = []) \<and>
     (\<forall>a nc. st_ncache c a = Some nc \<longrightarrow> node_stored_to_fabric nc = 0) \<and>
     (\<forall>a pc. st_pcache c a = Some pc \<longrightarrow> port_stored_to_fabric pc = 0)"

definition loaded :: "'m qmap_ops \<Rightarrow> (ptr \<Rightarrow> bool) \<Rightarrow> 'm fabric_cache \<Rightarrow> (ptr \<times> ptr) list \<Rightarrow> (ptr \<times> ptr) list \<Rightarrow> bool" where
  "loaded qm alloc c NA PA \<longleftrightarrow> nodes_part c NA \<and> ports_part c PA \<and> unlinked qm alloc c"

definition node_value :: "'m fabric_cache \<Rightarrow> ptr \<times> ptr \<Rightarrow> node_value" where
  "node_value c = (\<lambda>(a, p). (the (st_nodes (f_int c) p), port_cache_keys (the (st_ncache c a))))"

definition port_value :: "'m fabric_cache \<Rightarrow> ptr \<times> ptr \<Rightarrow> port_value" where
  "port_value c = (\<lambda>(a, p). (the (st_ports (f_int c) p), node_guid (the (st_pcache c a)),
     remoteport_flag (the (st_pcache c a)), remoteport_cache_key (the (st_pcache c a))))"

lemma new_cache_addr_eq:
  "new_cache_addr c = (if st_alloc (f_int c) (st_next (f_int c)) then Some (st_next (f_int c)) else None,
     c\<lparr>f_int := (f_int c)\<lparr>st_next := Suc (st_next (f_int c))\<rparr>\<rparr>)"
  by (simp add: new_cache_addr_def new_addr_def Let_def)

lemma entry_grow:
  "node_entry c a p \<Longrightarrow> st_next (f_int c) \<le> k \<Longrightarrow> node_entry (c\<lparr>f_int := (f_int c)\<lparr>st_next := k\<rparr>\<rparr>) a p"
  "port_entry c a p \<Longrightarrow> st_next (f_int c) \<le> k \<Longrightarrow> port_entry (c\<lparr>f_int := (f_int c)\<lparr>st_next := k\<rparr>\<rparr>) a p"
  unfolding node_entry_def port_entry_def by simp_all

lemma loaded_grow:
  assumes "loaded qm alloc c NA PA" and "st_next (f_int c) \<le> k"
  shows "loaded qm alloc (c\<lparr>f_int := (f_int c)\<lparr>st_next := k\<rparr>\<rparr>) NA PA"
proof -
  let ?c = "c\<lparr>f_int := (f_int c)\<lparr>st_next := k\<rparr>\<rparr>"
  have "nodes_part ?c NA" "ports_part ?c PA"
    using assms entry_grow [of c] by (auto simp: loaded_def nodes_part_def ports_part_def)
  moreover have "unlinked qm alloc ?c"
    using assms(1) start_fabric_upd(3) unfolding loaded_def unlinked_def by auto
  ultimately show ?thesis by (simp add: loaded_def)
qed

definition put_node :: "ptr \<Rightarrow> ibnd_node_cache_t \<Rightarrow> ptr \<Rightarrow> ibnd_node_t \<Rightarrow> 'm fabric_cache \<Rightarrow> 'm fabric_cache" where
  "put_node a nc p n c = c\<lparr>f_int := (f_int c)\<lparr>st_nodes := (st_nodes (f_int c))(p \<mapsto> n)\<rparr>, st_ncache := (st_ncache c)(a \<mapsto> nc)\<rparr>"

definition put_port :: "ptr \<Rightarrow> ibnd_port_cache_t \<Rightarrow> ptr \<Rightarrow> ibnd_port_t \<Rightarrow> 'm fabric_cache \<Rightarrow> 'm fabric_cache" where
  "put_port a pc p x c = c\<lparr>f_int := (f_int c)\<lparr>st_ports := (st_ports (f_int c))(p \<mapsto> x)\<rparr>, st_pcache := (st_pcache c)(a \<mapsto> pc)\<rparr>"

lemma put_node_put_node: "put_node a nc' p n' (put_node a nc p n c) = put_node a nc' p n' c"
  by (simp add: put_node_def)

lemma path_upd: "path next x ps \<Longrightarrow> p \<notin> set ps \<Longrightarrow> path (next(p := y)) x ps"
  by (erule path_cong) auto

lemma nodes_part_entry: "nodes_part c NA \<Longrightarrow> (a, p) \<in> set NA \<Longrightarrow> node_entry c a p"
  unfolding nodes_part_def by blast

lemma ports_part_entry: "ports_part c PA \<Longrightarrow> (a, p) \<in> set PA \<Longrightarrow> port_entry c a p"
  unfolding ports_part_def by blast

lemma nodes_part_fresh:
  assumes "nodes_part c NA" and "st_next (f_int c) \<le> a"
  shows "a \<notin> dom (st_ncache c)" and "a \<notin> dom (st_nodes (f_int c))"
proof -
  have b: "b < st_next (f_int c) \<and> p < st_next (f_int c)" if "(b, p) \<in> set NA" for b p
    using nodes_part_entry [OF assms(1) that] by (simp add: node_entry_def)
  moreover have "dom (st_ncache c) = fst ` set NA" "dom (st_nodes (f_int c)) = snd ` set NA"
    using assms(1) unfolding nodes_part_def by blast+
  moreover have "a \<notin> fst ` set NA" "a \<notin> snd ` set NA"
  proof -
    show "a \<notin> fst ` set NA"
    proof
      assume "a \<in> fst ` set NA"
      then obtain p where "(a, p) \<in> set NA" by auto
      then show False using b [of a p] assms(2) by simp
    qed
    show "a \<notin> snd ` set NA"
    proof
      assume "a \<in> snd ` set NA"
      then obtain p where "(p, a) \<in> set NA" by auto
      then show False using b [of p a] assms(2) by simp
    qed
  qed
  ultimately show "a \<notin> dom (st_ncache c)" "a \<notin> dom (st_nodes (f_int c))" by simp_all
qed

lemma ports_part_fresh:
  assumes "ports_part c PA" and "st_next (f_int c) \<le> a"
  shows "a \<notin> dom (st_pcache c)" and "a \<notin> dom (st_ports (f_int c))"
proof -
  have b: "b < st_next (f_int c) \<and> p < st_next (f_int c)" if "(b, p) \<in> set PA" for b p
    using ports_part_entry [OF assms(1) that] by (simp add: port_entry_def)
  moreover have "dom (st_pcache c) = fst ` set PA" "dom (st_ports (f_int c)) = snd ` set PA"
    using assms(1) unfolding ports_part_def by blast+
  moreover have "a \<notin> fst ` set PA" "a \<notin> snd ` set PA"
  proof -
    show "a \<notin> fst ` set PA"
    proof
      assume "a \<in> fst ` set PA"
      then obtain p where "(a, p) \<in> set PA" by auto
      then show False using b [of a p] assms(2) by simp
    qed
    show "a \<notin> snd ` set PA"
    proof
      assume "a \<in> snd ` set PA"
      then obtain p where "(p, a) \<in> set PA" by auto
      then show False using b [of p a] assms(2) by simp
    qed
  qed
  ultimately show "a \<notin> dom (st_pcache c)" "a \<notin> dom (st_ports (f_int c))" by simp_all
qed

lemma upd_if: "(\<lambda>b. map_option g (if b = a then Some v else h b)) = (\<lambda>b. map_option g (h b))(a := Some (g v))"
  by (simp add: fun_eq_iff)

lemma store_node_cache_ok:
  assumes l: "nodes_part c NA" and a: "a \<notin> dom (st_ncache c)" "a < st_next (f_int c)"
    and p: "p \<notin> dom (st_nodes (f_int c))" "p < st_next (f_int c)"
    and nc: "nc_node nc = Some p" "unat (ports_stored_count nc) = length (port_cache_keys nc)" "0 \<le> numports n"
  shows "\<exists>x. store_node_cache a (put_node a nc p n c) =
      Some ((put_node a (nc\<lparr>nc_next := nodes_cache c, nc_htnext := x\<rparr>) p n c)
        \<lparr>nodes_cache := Some a, nodescachetbl := (nodescachetbl c)[hash_idx (nd_guid n) := Some a]\<rparr>) \<and>
    nodes_part ((put_node a (nc\<lparr>nc_next := nodes_cache c, nc_htnext := x\<rparr>) p n c)
        \<lparr>nodes_cache := Some a, nodescachetbl := (nodescachetbl c)[hash_idx (nd_guid n) := Some a]\<rparr>) ((a, p) # NA)"
proof -
  let ?i = "hash_idx (nd_guid n)"
  let ?x = "nodescachetbl c ! ?i"
  let ?nc = "nc\<lparr>nc_next := nodes_cache c, nc_htnext := ?x\<rparr>"
  let ?c = "(put_node a ?nc p n c)\<lparr>nodes_cache := Some a, nodescachetbl := (nodescachetbl c)[?i := Some a]\<rparr>"
  note L = l [unfolded nodes_part_def]
  have i: "?i < HTSZ" by (simp add: hash_idx_def HTSZ_def)
  have fa: "a \<notin> set (map fst NA)" and fp: "p \<notin> set (map snd NA)" using a p L by auto
  have "store_node_cache a (put_node a nc p n c) = Some ?c"
    using i L nc by (simp add: store_node_cache_def put_node_def ncache_node_def mem_rd_def Let_def)
  moreover have "nodes_part ?c ((a, p) # NA)"
    unfolding nodes_part_def
  proof (intro conjI)
    show "length (nodescachetbl ?c) = HTSZ" using L by simp
    show "distinct (map snd ((a, p) # NA))" using L fp by simp
    show "dom (st_ncache ?c) = fst ` set ((a, p) # NA)" "dom (st_nodes (f_int ?c)) = snd ` set ((a, p) # NA)"
      using L by (simp_all add: put_node_def)
    show "\<forall>(b, q) \<in> set ((a, p) # NA). node_entry ?c b q"
    proof (intro ballI, clarify)
      fix b q
      assume bq: "(b, q) \<in> set ((a, p) # NA)"
      show "node_entry ?c b q"
      proof (cases "(b, q) = (a, p)")
        case True
        then show ?thesis using nc a(2) p(2) by (simp add: put_node_def node_entry_def)
      next
        case False
        then have m: "(b, q) \<in> set NA" using bq by auto
        then have "b \<noteq> a" "q \<noteq> p" using fa fp by force+
        moreover have "node_entry c b q" using L m by blast
        ultimately show ?thesis by (simp add: put_node_def node_entry_def)
      qed
    qed
    have "path (\<lambda>a. map_option nc_next (st_ncache c a)) (nodes_cache c) (map fst NA)" using L by blast
    then show "path (\<lambda>a. map_option nc_next (st_ncache ?c a)) (nodes_cache ?c) (map fst ((a, p) # NA))"
      using path_upd [OF _ fa] by (simp add: put_node_def upd_if)
    show "\<forall>j < HTSZ. path (\<lambda>a. map_option nc_htnext (st_ncache ?c a)) (nodescachetbl ?c ! j)
        (map fst (filter (\<lambda>(a, p). hash_idx (nd_guid (the (st_nodes (f_int ?c) p))) = j) ((a, p) # NA)))"
    proof (intro allI impI)
      fix j
      assume j: "j < HTSZ"
      let ?f = "\<lambda>(a, q). hash_idx (nd_guid (the (st_nodes (f_int c) q))) = j"
      have "path (\<lambda>a. map_option nc_htnext (st_ncache c a)) (nodescachetbl c ! j) (map fst (filter ?f NA))"
        using L j by blast
      then have q: "path ((\<lambda>a. map_option nc_htnext (st_ncache c a))(a := Some ?x)) (nodescachetbl c ! j) (map fst (filter ?f NA))"
        using fa by (intro path_upd) auto
      have "filter (\<lambda>(a, q). hash_idx (nd_guid (the (((st_nodes (f_int c))(p \<mapsto> n)) q))) = j) NA = filter ?f NA"
      proof (intro filter_cong refl)
        fix y assume y: "y \<in> set NA"
        obtain b q where bq: "y = (b, q)" by fastforce
        then have "q \<noteq> p" using fp y by force
        then show "(case y of (a, q) \<Rightarrow> hash_idx (nd_guid (the (((st_nodes (f_int c))(p \<mapsto> n)) q))) = j) = ?f y" using bq by simp
      qed
      then show "path (\<lambda>a. map_option nc_htnext (st_ncache ?c a)) (nodescachetbl ?c ! j)
        (map fst (filter (\<lambda>(a, p). hash_idx (nd_guid (the (st_nodes (f_int ?c) p))) = j) ((a, p) # NA)))"
        using q j L by (auto simp: put_node_def upd_if)
    qed
  qed
  ultimately show ?thesis by blast
qed


lemma destroy_fresh_node:
  assumes "a \<notin> dom (st_ncache c)" and "p \<notin> dom (st_nodes (f_int c))" and "ports n = []"
    and "nc_node nc = Some p" and "node_stored_to_fabric nc = 0"
  shows "destroy_ibnd_node_cache a (put_node a nc p n c) = Some c"
proof -
  have "(st_ncache c)(a := None) = st_ncache c" "(st_nodes (f_int c))(p := None) = st_nodes (f_int c)" using assms(1,2) by auto
  then show ?thesis using assms(3-5) by (simp add: destroy_ibnd_node_cache_def put_node_def on_f_int_def destroy_node_def)
qed

lemma unlinked_put_node:
  assumes "unlinked qm alloc c" and "ports n = []" and "node_stored_to_fabric nc = 0"
  shows "unlinked qm alloc (put_node a nc p n c)"
  using assms start_fabric_upd(1) unfolding unlinked_def put_node_def by auto

lemma node_values_put:
  assumes "nodes_part c NA" and "a \<notin> dom (st_ncache c)" and "p \<notin> dom (st_nodes (f_int c))"
    and "st_ncache c' = (st_ncache c)(a \<mapsto> nc)" and "st_nodes (f_int c') = (st_nodes (f_int c))(p \<mapsto> n)"
  shows "map (node_value c') ((a, p) # NA) = (n, port_cache_keys nc) # map (node_value c) NA"
proof -
  have "b \<noteq> a \<and> q \<noteq> p" if "(b, q) \<in> set NA" for b q
    using nodes_part_entry [OF assms(1) that] assms(2,3) by (auto simp: node_entry_def)
  then show ?thesis using assms(4,5) by (auto simp: node_value_def)
qed

section \<open>One node\<close>

definition node_read :: "'m fabric_cache \<Rightarrow> rfile \<Rightarrow> 'm fabric_cache \<Rightarrow> bool" where
  \<comment> \<open>what a call may change besides the nodes\<close>
  "node_read c fd c' \<longleftrightarrow> from_node_guid c' = from_node_guid c \<and> maxhops_discovered (f_int c') = maxhops_discovered (f_int c) \<and>
     st_pcache c' = st_pcache c \<and> st_ports (f_int c') = st_ports (f_int c)"

lemma ports_part_cong:
  assumes "ports_part c PA" and "st_pcache c' = st_pcache c" and "st_ports (f_int c') = st_ports (f_int c)"
    and "ports_cache c' = ports_cache c" and "portscachetbl c' = portscachetbl c" and "st_next (f_int c) \<le> st_next (f_int c')"
  shows "ports_part c' PA"
proof -
  have "port_entry c' a p" if "port_entry c a p" for a p
    using that assms(2,3,6) by (simp add: port_entry_def)
  then show ?thesis using assms unfolding ports_part_def by (simp add: case_prod_beta)
qed

lemma nodes_part_cong:
  assumes "nodes_part c NA" and "st_ncache c' = st_ncache c" and "st_nodes (f_int c') = st_nodes (f_int c)"
    and "nodes_cache c' = nodes_cache c" and "nodescachetbl c' = nodescachetbl c" and "st_next (f_int c) \<le> st_next (f_int c')"
  shows "nodes_part c' NA"
proof -
  have "node_entry c' a p" if "node_entry c a p" for a p
    using that assms(2,3,6) by (simp add: node_entry_def)
  then show ?thesis using assms unfolding nodes_part_def by (simp add: case_prod_beta)
qed


text \<open>The rounds of \<open>_load_node\<close> from the second allocation on, for a state with fresh addresses\<close>

definition node_outcome :: "'m qmap_ops \<Rightarrow> (ptr \<Rightarrow> bool) \<Rightarrow> 'm fabric_cache \<Rightarrow> (ptr \<times> ptr) list \<Rightarrow> (ptr \<times> ptr) list \<Rightarrow> rfile \<Rightarrow>
    int \<Rightarrow> 'm fabric_cache \<Rightarrow> rfile \<Rightarrow> bool" where
  "node_outcome qm alloc c NA PA fd rc c' fd' \<longleftrightarrow> node_read c fd c' \<and> (Eio \<notin> set (rf_sched fd) \<longrightarrow> Eio \<notin> set (rf_sched fd')) \<and>
     (rc = -1 \<and> loaded qm alloc c' NA PA \<and> map (node_value c') NA = map (node_value c) NA \<and>
        (Eio \<in> set (rf_sched fd) \<or> (\<exists>a. \<not> alloc a) \<or> parse_node (rf_data fd) = None) \<or>
      rc = 0 \<and> (\<exists>v a p. parse_node (rf_data fd) = Some (v, rf_data fd') \<and> loaded qm alloc c' ((a, p) # NA) PA \<and>
        map (node_value c') ((a, p) # NA) = v # map (node_value c) NA))"

lemma node_outcome_ok:
  assumes "parse_node (rf_data fd) = Some (v, rf_data fd')" and "loaded qm alloc c' ((a, p) # NA) PA"
    and "map (node_value c') ((a, p) # NA) = v # map (node_value c) NA" and "node_read c fd c'"
    and "Eio \<notin> set (rf_sched fd) \<longrightarrow> Eio \<notin> set (rf_sched fd')"
  shows "node_outcome qm alloc c NA PA fd 0 c' fd'"
  using assms(4,5) unfolding node_outcome_def
  by (intro conjI disjI2 exI [of _ v] exI [of _ a] exI [of _ p] assms(1-3)) simp_all

lemma loaded_alloc: "loaded qm alloc c NA PA \<Longrightarrow> st_alloc (f_int c) = alloc"
  by (auto simp: loaded_def unlinked_def start_fabric_def allocate_fabric_internal_def create_lid2guid_def)

lemma node_stored:
  assumes l: "loaded qm alloc c NA PA" and a: "a \<notin> dom (st_ncache c)" "a < st_next (f_int c)"
    and p: "p \<notin> dom (st_nodes (f_int c))" "p < st_next (f_int c)"
    and nc: "nc_node nc = Some p" "unat (ports_stored_count nc) = length (port_cache_keys nc)" "node_stored_to_fabric nc = 0"
    and n: "ports n = []" "0 \<le> numports n"
  shows "\<exists>c'. store_node_cache a (put_node a nc p n c) = Some c' \<and> loaded qm alloc c' ((a, p) # NA) PA \<and>
    map (node_value c') ((a, p) # NA) = (n, port_cache_keys nc) # map (node_value c) NA \<and> node_read c fd c'"
proof -
  have np: "nodes_part c NA" "ports_part c PA" "unlinked qm alloc c" using l by (simp_all add: loaded_def)
  obtain x where x: "store_node_cache a (put_node a nc p n c) =
      Some ((put_node a (nc\<lparr>nc_next := nodes_cache c, nc_htnext := x\<rparr>) p n c)
        \<lparr>nodes_cache := Some a, nodescachetbl := (nodescachetbl c)[hash_idx (nd_guid n) := Some a]\<rparr>)"
    "nodes_part ((put_node a (nc\<lparr>nc_next := nodes_cache c, nc_htnext := x\<rparr>) p n c)
        \<lparr>nodes_cache := Some a, nodescachetbl := (nodescachetbl c)[hash_idx (nd_guid n) := Some a]\<rparr>) ((a, p) # NA)"
    using store_node_cache_ok [OF np(1) a p nc(1,2) n(2)] by blast
  let ?nc = "nc\<lparr>nc_next := nodes_cache c, nc_htnext := x\<rparr>"
  let ?c = "(put_node a ?nc p n c)\<lparr>nodes_cache := Some a, nodescachetbl := (nodescachetbl c)[hash_idx (nd_guid n) := Some a]\<rparr>"
  have "ports_part ?c PA" by (rule ports_part_cong [OF np(2)]) (simp_all add: put_node_def)
  moreover have "unlinked qm alloc (put_node a ?nc p n c)" by (rule unlinked_put_node [OF np(3) n(1)]) (simp add: nc(3))
  then have "unlinked qm alloc ?c" by (simp add: unlinked_def)
  moreover have "map (node_value ?c) ((a, p) # NA) = (n, port_cache_keys ?nc) # map (node_value c) NA"
    by (rule node_values_put [OF np(1) a(1) p(1)]) (simp_all add: put_node_def)
  ultimately show ?thesis using x by (simp add: loaded_def node_read_def put_node_def)
qed

lemma loaded_grow_value:
  assumes "loaded qm alloc c NA PA" and "st_next (f_int c) \<le> k"
  shows "node_value (c\<lparr>f_int := (f_int c)\<lparr>st_next := k\<rparr>\<rparr>) = node_value c"
  by (simp add: node_value_def)

lemma new_cache_addr_cases:
  assumes "loaded qm alloc c NA PA"
  obtains (fail) "new_cache_addr c = (None, c\<lparr>f_int := (f_int c)\<lparr>st_next := Suc (st_next (f_int c))\<rparr>\<rparr>)" "\<not> alloc (st_next (f_int c))"
  | (ok) "new_cache_addr c = (Some (st_next (f_int c)), c\<lparr>f_int := (f_int c)\<lparr>st_next := Suc (st_next (f_int c))\<rparr>\<rparr>)"
  using loaded_alloc [OF assms] by (cases "alloc (st_next (f_int c))") (auto simp: new_cache_addr_eq)

lemma new_cache_addr_put:
  "new_cache_addr (put_node a nc p n c) = (case new_cache_addr c of (r, c) \<Rightarrow> (r, put_node a nc p n c))"
  by (simp add: new_cache_addr_eq put_node_def)

lemma load_node_body:
  fixes c :: "'m fabric_cache"
  assumes l: "loaded qm alloc c NA PA" and a: "a \<notin> dom (st_ncache c)" "a < st_next (f_int c)"
    and p: "p \<notin> dom (st_nodes (f_int c))" "p < st_next (f_int c)" and buf: "length buf = IBND_FABRIC_CACHE_BUFLEN"
  defines "c1 \<equiv> put_node a (ncache_zero\<lparr>nc_node := Some p\<rparr>) p node_zero c"
  shows "\<exists>rc c' fd'. do {
       (rc, buf, fd) \<leftarrow> ibnd_read fd buf IBND_NODE_CACHE_HEADER_LEN;
       if rc < 0 then load_node_failed a c1 fd
       else do {
         (node, count) \<leftarrow> read_node buf node_zero;
         let nc = ncache_zero\<lparr>nc_node := Some p, ports_stored_count := count\<rparr>;
         let c = put_node a nc p node c1;
         if count = 0 then do { c \<leftarrow> store_node_cache a c; Some (0, c, fd) }
         else (case new_cache_addr c of (None, c) \<Rightarrow> load_node_failed a c fd
          | (Some _, c) \<Rightarrow> do {
              (rc, buf, fd) \<leftarrow> ibnd_read fd buf (IBND_PORT_CACHE_KEY_LEN * unat count);
              if rc < 0 then load_node_failed a c fd
              else do {
                ks \<leftarrow> read_keys (unat count) buf 0;
                c \<leftarrow> store_node_cache a (c\<lparr>st_ncache := (st_ncache c)(a \<mapsto> nc\<lparr>port_cache_keys := ks\<rparr>)\<rparr>);
                Some (0, c, fd)
              }
            })
       }
     } = Some (rc, c', fd') \<and> node_outcome qm alloc c NA PA fd rc c' fd'"
proof -
  have lb: "length buf = 4096" using buf by (simp add: c_eval)
  have gone: "destroy_ibnd_node_cache a (put_node a nc p n c') = Some c'"
    if "nc_node nc = Some p" "node_stored_to_fabric nc = 0" "ports n = []" "st_ncache c' = st_ncache c" "st_nodes (f_int c') = st_nodes (f_int c)" for nc n c'
    by (rule destroy_fresh_node) (use that a p in simp_all)
  obtain rc b1 fd1 where r1: "ibnd_read fd buf 207 = Some (rc, b1, fd1)" "length b1 = 4096"
      "Eio \<notin> set (rf_sched fd) \<longrightarrow> Eio \<notin> set (rf_sched fd1)"
      "rc = -1 \<and> (Eio \<in> set (rf_sched fd) \<or> length (rf_data fd) < 207) \<or>
       rc = 207 \<and> 207 \<le> length (rf_data fd) \<and> b1 = take 207 (rf_data fd) @ drop 207 buf \<and> rf_data fd1 = drop 207 (rf_data fd)"
    using ibnd_read_reads [of 207 buf fd] lb by auto
  show ?thesis
  proof (cases "rc = -1")
    case True
    have "load_node_failed a c1 fd1 = Some (-1, c, fd1)"
      unfolding load_node_failed_def c1_def by (subst gone) (simp_all add: ncache_zero_def node_zero_def)
    moreover have "node_outcome qm alloc c NA PA fd (-1) c fd1"
      using True r1(3,4) l by (auto simp: node_outcome_def node_read_def parse_node_def)
    ultimately show ?thesis using r1(1) True by (simp add: IBND_NODE_CACHE_HEADER_LEN_def)
  next
    case False
    then have d: "rc = 207" "207 \<le> length (rf_data fd)" "b1 = take 207 (rf_data fd) @ drop 207 buf" "rf_data fd1 = drop 207 (rf_data fd)"
      using r1(4) by auto
    have l207: "length (take 207 (rf_data fd)) = 207" using d(2) by simp
    obtain n count where n: "read_node (take 207 (rf_data fd)) node_zero = Some (n, count)" "ports n = []" "0 \<le> numports n"
      using read_node_prefix(2) [OF l207] by blast
    have rn: "read_node b1 node_zero = Some (n, count)" unfolding d(3) read_node_prefix(1) [OF l207] by (rule n(1))
    let ?nc = "ncache_zero\<lparr>nc_node := Some p, ports_stored_count := count\<rparr>"
    have c1: "put_node a nc p n c1 = put_node a nc p n c" for nc unfolding c1_def by (rule put_node_put_node)
    show ?thesis
    proof (cases "count = 0")
      case True
      obtain c' where s: "store_node_cache a (put_node a ?nc p n c) = Some c'" "loaded qm alloc c' ((a, p) # NA) PA"
          "map (node_value c') ((a, p) # NA) = (n, []) # map (node_value c) NA" "node_read c fd c'"
        using node_stored [OF l a p _ _ _ n(2,3), of ?nc fd] True by (auto simp: ncache_zero_def)
      have "parse_node (rf_data fd) = Some ((n, []), rf_data fd1)" using d n(1) True by (simp add: parse_node_def)
      then have "node_outcome qm alloc c NA PA fd 0 c' fd1" by (rule node_outcome_ok [OF _ s(2-4) r1(3)])
      then show ?thesis using r1(1) d(1) rn s(1) True by (simp add: IBND_NODE_CACHE_HEADER_LEN_def c1)
    next
      case cnt: False
      let ?c2 = "c\<lparr>f_int := (f_int c)\<lparr>st_next := Suc (st_next (f_int c))\<rparr>\<rparr>"
      have l2: "loaded qm alloc ?c2 NA PA" by (rule loaded_grow [OF l]) simp
      have v2: "node_value ?c2 = node_value c" by (rule loaded_grow_value [OF l]) simp
      have g2: "load_node_failed a (put_node a ?nc p n ?c2) fd' = Some (-1, ?c2, fd')" for fd'
        unfolding load_node_failed_def by (subst gone) (simp_all add: ncache_zero_def n(2))
      have nr2: "node_read c fd ?c2" by (simp add: node_read_def)
      show ?thesis
        using l
      proof (cases rule: new_cache_addr_cases)
        case fail
        then have "node_outcome qm alloc c NA PA fd (-1) ?c2 fd1"
          using l2 v2 nr2 r1(3) by (auto simp: node_outcome_def)
        then show ?thesis using r1(1) d(1) rn cnt g2
          by (simp add: IBND_NODE_CACHE_HEADER_LEN_def c1 new_cache_addr_put fail(1))
      next
        case ok
        let ?k = "9 * unat count"
        have "unat count < 256" using unsigned_less [of count] by simp
        then have "?k \<le> length b1" using r1(2) by simp
        then obtain rc' b2 fd2 where r2: "ibnd_read fd1 b1 ?k = Some (rc', b2, fd2)"
            "Eio \<notin> set (rf_sched fd1) \<longrightarrow> Eio \<notin> set (rf_sched fd2)"
            "rc' = -1 \<and> (Eio \<in> set (rf_sched fd1) \<or> length (rf_data fd1) < ?k) \<or>
             rc' = int ?k \<and> ?k \<le> length (rf_data fd1) \<and> b2 = take ?k (rf_data fd1) @ drop ?k b1 \<and> rf_data fd2 = drop ?k (rf_data fd1)"
          using ibnd_read_reads [of ?k b1 fd1] by auto
        have kl: "IBND_PORT_CACHE_KEY_LEN * unat count = ?k" by (simp add: IBND_PORT_CACHE_KEY_LEN_def)
        show ?thesis
        proof (cases "rc' = -1")
          case True
          have "0 \<le> int ?k" by (rule of_nat_0_le_iff)
          then have "rc' \<noteq> int ?k" using True by linarith
          then have "Eio \<in> set (rf_sched fd1) \<or> length (rf_data fd1) < ?k" using r2(3) by blast
          then have "node_outcome qm alloc c NA PA fd (-1) ?c2 fd2"
            using l2 v2 nr2 r1(3) r2(2) d n(1) by (auto simp: node_outcome_def parse_node_def Let_def)
          then show ?thesis using r1(1) d(1) rn cnt g2 r2(1) True
            by (simp add: IBND_NODE_CACHE_HEADER_LEN_def c1 new_cache_addr_put ok kl)
        next
          case False
          then have d2: "rc' = int ?k" "?k \<le> length (rf_data fd1)" "b2 = take ?k (rf_data fd1) @ drop ?k b1" "rf_data fd2 = drop ?k (rf_data fd1)"
            using r2(3) by auto
          obtain ks where ks: "read_keys (unat count) (rf_data fd1) 0 = Some ks" "length ks = unat count"
            using read_keys_total [of 0 "unat count" "rf_data fd1"] d2(2) by auto
          have "read_keys (unat count) b2 0 = read_keys (unat count) (take ?k (rf_data fd1)) 0"
            unfolding d2(3) by (rule read_keys_prefix) (use d2(2) in simp)
          also have "\<dots> = read_keys (unat count) (take ?k (rf_data fd1) @ drop ?k (rf_data fd1)) 0"
            by (rule read_keys_prefix [symmetric]) (use d2(2) in simp)
          finally have rk: "read_keys (unat count) b2 0 = Some ks" using ks(1) by simp
          let ?nc' = "?nc\<lparr>port_cache_keys := ks\<rparr>"
          obtain c' where s: "store_node_cache a (put_node a ?nc' p n ?c2) = Some c'" "loaded qm alloc c' ((a, p) # NA) PA"
              "map (node_value c') ((a, p) # NA) = (n, ks) # map (node_value ?c2) NA" "node_read ?c2 fd c'"
            using node_stored [OF l2 _ _ _ _ _ _ _ n(2,3), of a p ?nc' fd] a p ks(2) by (auto simp: ncache_zero_def)
          have "parse_node (rf_data fd) = Some ((n, ks), rf_data fd2)"
            using d n(1) d2 ks(1) by (simp add: parse_node_def Let_def add.commute)
          moreover have "node_read c fd c'" using s(4) by (simp add: node_read_def)
          moreover have "Eio \<notin> set (rf_sched fd) \<longrightarrow> Eio \<notin> set (rf_sched fd2)" using r1(3) r2(2) by blast
          ultimately have oc: "node_outcome qm alloc c NA PA fd 0 c' fd2"
            by (intro node_outcome_ok [OF _ s(2) s(3) [unfolded v2]])
          have put: "(put_node a ?nc p n ?c2)\<lparr>st_ncache := (st_ncache (put_node a ?nc p n ?c2))(a \<mapsto> ?nc')\<rparr> = put_node a ?nc' p n ?c2"
            by (simp add: put_node_def)
          show ?thesis
            apply (rule exI [of _ 0], rule exI [of _ c'], rule exI [of _ fd2], rule conjI)
             apply (simp add: IBND_NODE_CACHE_HEADER_LEN_def r1(1) d(1) rn cnt c1 new_cache_addr_put ok kl r2(1) d2(1) rk put s(1) Let_def del: fun_upd_apply)
            by (rule oc)
        qed
      qed
    qed
  qed
qed


lemma load_node_step:
  fixes c :: "'m fabric_cache"
  assumes l: "loaded qm alloc c NA PA" and buf: "length buf = IBND_FABRIC_CACHE_BUFLEN"
  shows "\<exists>rc c' fd'. load_node buf fd c = Some (rc, c', fd') \<and> node_outcome qm alloc c NA PA fd rc c' fd'"
proof -
  let ?grow = "\<lambda>k. c\<lparr>f_int := (f_int c)\<lparr>st_next := k\<rparr>\<rparr>"
  have bad: "node_outcome qm alloc c NA PA fd (-1) (?grow k) fd" if "st_next (f_int c) \<le> k" "\<not> alloc b" for k b
    using loaded_grow [OF l that(1)] loaded_grow_value [OF l that(1)] that(2) by (auto simp: node_outcome_def node_read_def)
  show ?thesis
    using l
  proof (cases rule: new_cache_addr_cases)
    case fail
    then show ?thesis using bad [OF _ fail(2), of "Suc (st_next (f_int c))"] by (simp add: load_node_def)
  next
    case ok
    let ?a = "st_next (f_int c)"
    note l1 = loaded_grow [OF l, of "Suc ?a"]
    show ?thesis
      using l1 [simplified]
    proof (cases rule: new_cache_addr_cases)
      case fail
      then show ?thesis using bad [OF _ fail(2), of "Suc (Suc ?a)"] ok by (simp add: load_node_def)
    next
      case ok2: ok
      let ?c = "?grow (Suc (Suc ?a))" let ?p = "Suc ?a"
      have l2: "loaded qm alloc ?c NA PA" by (rule loaded_grow [OF l]) simp
      have fresh: "?a \<notin> dom (st_ncache ?c)" "?a < st_next (f_int ?c)" "?p \<notin> dom (st_nodes (f_int ?c))" "?p < st_next (f_int ?c)"
        using nodes_part_fresh [of c NA] l by (simp_all add: loaded_def)
      from load_node_body [OF l2 fresh buf, of fd] obtain rc c' fd' where run: "do {
       (rc, buf, fd) \<leftarrow> ibnd_read fd buf IBND_NODE_CACHE_HEADER_LEN;
       if rc < 0 then load_node_failed ?a (put_node ?a (ncache_zero\<lparr>nc_node := Some ?p\<rparr>) ?p node_zero ?c) fd
       else do {
         (node, count) \<leftarrow> read_node buf node_zero;
         let nc = ncache_zero\<lparr>nc_node := Some ?p, ports_stored_count := count\<rparr>;
         let c = put_node ?a nc ?p node (put_node ?a (ncache_zero\<lparr>nc_node := Some ?p\<rparr>) ?p node_zero ?c);
         if count = 0 then do { c \<leftarrow> store_node_cache ?a c; Some (0, c, fd) }
         else (case new_cache_addr c of (None, c) \<Rightarrow> load_node_failed ?a c fd
          | (Some _, c) \<Rightarrow> do {
              (rc, buf, fd) \<leftarrow> ibnd_read fd buf (IBND_PORT_CACHE_KEY_LEN * unat count);
              if rc < 0 then load_node_failed ?a c fd
              else do {
                ks \<leftarrow> read_keys (unat count) buf 0;
                c \<leftarrow> store_node_cache ?a (c\<lparr>st_ncache := (st_ncache c)(?a \<mapsto> nc\<lparr>port_cache_keys := ks\<rparr>)\<rparr>);
                Some (0, c, fd)
              }
            })
       }
     } = Some (rc, c', fd')" "node_outcome qm alloc ?c NA PA fd rc c' fd'" by blast
      have "load_node buf fd c = Some (rc, c', fd')"
        unfolding run(1) [symmetric] by (simp add: load_node_def ok ok2 put_node_def Let_def cong: if_cong)
      moreover have "node_outcome qm alloc c NA PA fd rc c' fd'"
        using run(2) loaded_grow_value [OF l, of "Suc (Suc ?a)"] by (simp add: node_outcome_def node_read_def)
      ultimately show ?thesis by blast
    qed
  qed
qed

section \<open>One port\<close>

definition port_read :: "'m fabric_cache \<Rightarrow> 'm fabric_cache \<Rightarrow> bool" where
  "port_read c c' \<longleftrightarrow> from_node_guid c' = from_node_guid c \<and> maxhops_discovered (f_int c') = maxhops_discovered (f_int c) \<and>
     st_ncache c' = st_ncache c \<and> st_nodes (f_int c') = st_nodes (f_int c)"

definition port_outcome :: "'m qmap_ops \<Rightarrow> (ptr \<Rightarrow> bool) \<Rightarrow> 'm fabric_cache \<Rightarrow> (ptr \<times> ptr) list \<Rightarrow> (ptr \<times> ptr) list \<Rightarrow> rfile \<Rightarrow>
    int \<Rightarrow> 'm fabric_cache \<Rightarrow> rfile \<Rightarrow> bool" where
  "port_outcome qm alloc c NA PA fd rc c' fd' \<longleftrightarrow> port_read c c' \<and> (Eio \<notin> set (rf_sched fd) \<longrightarrow> Eio \<notin> set (rf_sched fd')) \<and>
     (rc = -1 \<and> loaded qm alloc c' NA PA \<and> map (port_value c') PA = map (port_value c) PA \<and>
        (Eio \<in> set (rf_sched fd) \<or> (\<exists>a. \<not> alloc a) \<or> parse_port (rf_data fd) = None) \<or>
      rc = 0 \<and> (\<exists>v a p. parse_port (rf_data fd) = Some (v, rf_data fd') \<and> loaded qm alloc c' NA ((a, p) # PA) \<and>
        map (port_value c') ((a, p) # PA) = v # map (port_value c) PA))"

lemma port_outcome_ok:
  assumes "parse_port (rf_data fd) = Some (v, rf_data fd')" and "loaded qm alloc c' NA ((a, p) # PA)"
    and "map (port_value c') ((a, p) # PA) = v # map (port_value c) PA" and "port_read c c'"
    and "Eio \<notin> set (rf_sched fd) \<longrightarrow> Eio \<notin> set (rf_sched fd')"
  shows "port_outcome qm alloc c NA PA fd 0 c' fd'"
  using assms(4,5) unfolding port_outcome_def
  by (intro conjI disjI2 exI [of _ v] exI [of _ a] exI [of _ p] assms(1-3)) simp_all

lemma store_port_cache_ok:
  assumes l: "ports_part c PA" and a: "a \<notin> dom (st_pcache c)" "a < st_next (f_int c)"
    and p: "p \<notin> dom (st_ports (f_int c))" "p < st_next (f_int c)" and pc: "pc_port pc = Some p" "0 \<le> portnum x"
  shows "\<exists>y. store_port_cache a (put_port a pc p x c) =
      Some ((put_port a (pc\<lparr>pc_next := ports_cache c, pc_htnext := y\<rparr>) p x c)
        \<lparr>ports_cache := Some a, portscachetbl := (portscachetbl c)[hash_idx (po_guid x) := Some a]\<rparr>) \<and>
    ports_part ((put_port a (pc\<lparr>pc_next := ports_cache c, pc_htnext := y\<rparr>) p x c)
        \<lparr>ports_cache := Some a, portscachetbl := (portscachetbl c)[hash_idx (po_guid x) := Some a]\<rparr>) ((a, p) # PA)"
proof -
  let ?i = "hash_idx (po_guid x)"
  let ?y = "portscachetbl c ! ?i"
  let ?pc = "pc\<lparr>pc_next := ports_cache c, pc_htnext := ?y\<rparr>"
  let ?c = "(put_port a ?pc p x c)\<lparr>ports_cache := Some a, portscachetbl := (portscachetbl c)[?i := Some a]\<rparr>"
  note L = l [unfolded ports_part_def]
  have i: "?i < HTSZ" by (simp add: hash_idx_def HTSZ_def)
  have fa: "a \<notin> set (map fst PA)" and fp: "p \<notin> set (map snd PA)" using a p L by auto
  have "store_port_cache a (put_port a pc p x c) = Some ?c"
    using i L pc by (simp add: store_port_cache_def put_port_def pcache_port_def mem_rd_def Let_def)
  moreover have "ports_part ?c ((a, p) # PA)"
    unfolding ports_part_def
  proof (intro conjI)
    show "length (portscachetbl ?c) = HTSZ" using L by simp
    show "distinct (map snd ((a, p) # PA))" using L fp by simp
    show "dom (st_pcache ?c) = fst ` set ((a, p) # PA)" "dom (st_ports (f_int ?c)) = snd ` set ((a, p) # PA)"
      using L by (simp_all add: put_port_def)
    show "\<forall>(b, q) \<in> set ((a, p) # PA). port_entry ?c b q"
    proof (intro ballI, clarify)
      fix b q
      assume bq: "(b, q) \<in> set ((a, p) # PA)"
      show "port_entry ?c b q"
      proof (cases "(b, q) = (a, p)")
        case True
        then show ?thesis using pc a(2) p(2) by (simp add: put_port_def port_entry_def)
      next
        case False
        then have m: "(b, q) \<in> set PA" using bq by auto
        then have "b \<noteq> a" "q \<noteq> p" using fa fp by force+
        moreover have "port_entry c b q" using L m by blast
        ultimately show ?thesis by (simp add: put_port_def port_entry_def)
      qed
    qed
    have "path (\<lambda>a. map_option pc_next (st_pcache c a)) (ports_cache c) (map fst PA)" using L by blast
    then show "path (\<lambda>a. map_option pc_next (st_pcache ?c a)) (ports_cache ?c) (map fst ((a, p) # PA))"
      using path_upd [OF _ fa] by (simp add: put_port_def upd_if)
    show "\<forall>j < HTSZ. path (\<lambda>a. map_option pc_htnext (st_pcache ?c a)) (portscachetbl ?c ! j)
        (map fst (filter (\<lambda>(a, p). hash_idx (po_guid (the (st_ports (f_int ?c) p))) = j) ((a, p) # PA)))"
    proof (intro allI impI)
      fix j
      assume j: "j < HTSZ"
      let ?f = "\<lambda>(a, q). hash_idx (po_guid (the (st_ports (f_int c) q))) = j"
      have "path (\<lambda>a. map_option pc_htnext (st_pcache c a)) (portscachetbl c ! j) (map fst (filter ?f PA))"
        using L j by blast
      then have q: "path ((\<lambda>a. map_option pc_htnext (st_pcache c a))(a := Some ?y)) (portscachetbl c ! j) (map fst (filter ?f PA))"
        using fa by (intro path_upd) auto
      have "filter (\<lambda>(a, q). hash_idx (po_guid (the (((st_ports (f_int c))(p \<mapsto> x)) q))) = j) PA = filter ?f PA"
      proof (intro filter_cong refl)
        fix y assume y: "y \<in> set PA"
        obtain b q where bq: "y = (b, q)" by fastforce
        then have "q \<noteq> p" using fp y by force
        then show "(case y of (a, q) \<Rightarrow> hash_idx (po_guid (the (((st_ports (f_int c))(p \<mapsto> x)) q))) = j) = ?f y" using bq by simp
      qed
      then show "path (\<lambda>a. map_option pc_htnext (st_pcache ?c a)) (portscachetbl ?c ! j)
        (map fst (filter (\<lambda>(a, p). hash_idx (po_guid (the (st_ports (f_int ?c) p))) = j) ((a, p) # PA)))"
        using q j L by (auto simp: put_port_def upd_if)
    qed
  qed
  ultimately show ?thesis by blast
qed

lemma port_values_put:
  assumes "ports_part c PA" and "a \<notin> dom (st_pcache c)" and "p \<notin> dom (st_ports (f_int c))"
    and "st_pcache c' = (st_pcache c)(a \<mapsto> pc)" and "st_ports (f_int c') = (st_ports (f_int c))(p \<mapsto> x)"
  shows "map (port_value c') ((a, p) # PA) = (x, node_guid pc, remoteport_flag pc, remoteport_cache_key pc) # map (port_value c) PA"
proof -
  have "b \<noteq> a \<and> q \<noteq> p" if "(b, q) \<in> set PA" for b q
    using ports_part_entry [OF assms(1) that] assms(2,3) by (auto simp: port_entry_def)
  then show ?thesis using assms(4,5) by (auto simp: port_value_def)
qed

lemma load_port_step:
  fixes c :: "'m fabric_cache"
  assumes l: "loaded qm alloc c NA PA" and buf: "length buf = IBND_FABRIC_CACHE_BUFLEN"
  shows "\<exists>rc c' fd'. load_port buf fd c = Some (rc, c', fd') \<and> port_outcome qm alloc c NA PA fd rc c' fd'"
proof -
  let ?grow = "\<lambda>k. c\<lparr>f_int := (f_int c)\<lparr>st_next := k\<rparr>\<rparr>"
  let ?a = "st_next (f_int c)"
  have lb: "length buf = 4096" using buf by (simp add: c_eval)
  have val: "port_value (?grow k) = port_value c" for k by (simp add: port_value_def)
  have bad: "port_outcome qm alloc c NA PA fd (-1) (?grow k) fd'"
    if "st_next (f_int c) \<le> k" "(\<not> alloc b) \<or> Eio \<in> set (rf_sched fd) \<or> parse_port (rf_data fd) = None"
      "Eio \<notin> set (rf_sched fd) \<longrightarrow> Eio \<notin> set (rf_sched fd')" for k b fd'
    using loaded_grow [OF l that(1)] that(2,3) val by (auto simp: port_outcome_def port_read_def)
  show ?thesis
    using l
  proof (cases rule: new_cache_addr_cases)
    case fail
    then show ?thesis using bad [of "Suc ?a" ?a fd] by (simp add: load_port_def)
  next
    case ok
    note l1 = loaded_grow [OF l, of "Suc ?a"]
    show ?thesis
      using l1 [simplified]
    proof (cases rule: new_cache_addr_cases)
      case fail
      then show ?thesis using bad [of "Suc (Suc ?a)" "Suc ?a" fd] ok by (simp add: load_port_def)
    next
      case ok2: ok
      let ?c = "?grow (Suc (Suc ?a))" let ?p = "Suc ?a"
      have l2: "loaded qm alloc ?c NA PA" by (rule loaded_grow [OF l]) simp
      have np: "nodes_part ?c NA" "ports_part ?c PA" "unlinked qm alloc ?c" using l2 by (simp_all add: loaded_def)
      have fresh: "?a \<notin> dom (st_pcache ?c)" "?a < st_next (f_int ?c)" "?p \<notin> dom (st_ports (f_int ?c))" "?p < st_next (f_int ?c)"
        using ports_part_fresh [of c PA] l by (simp_all add: loaded_def)
      obtain rc b1 fd1 where r: "ibnd_read fd buf 95 = Some (rc, b1, fd1)"
          "Eio \<notin> set (rf_sched fd) \<longrightarrow> Eio \<notin> set (rf_sched fd1)"
          "rc = -1 \<and> (Eio \<in> set (rf_sched fd) \<or> length (rf_data fd) < 95) \<or>
           rc = 95 \<and> 95 \<le> length (rf_data fd) \<and> b1 = take 95 (rf_data fd) @ drop 95 buf \<and> rf_data fd1 = drop 95 (rf_data fd)"
        using ibnd_read_reads [of 95 buf fd] lb by auto
      have kl: "IBND_PORT_CACHE_LEN = 95" by (simp add: IBND_PORT_CACHE_LEN_def)
      show ?thesis
      proof (cases "rc = -1")
        case True
        then have "Eio \<in> set (rf_sched fd) \<or> parse_port (rf_data fd) = None" using r(3) by (auto simp: parse_port_def)
        then show ?thesis using bad [of "Suc (Suc ?a)" 0 fd1] r(1,2) True by (simp add: load_port_def ok ok2 kl Let_def)
      next
        case False
        then have d: "rc = 95" "95 \<le> length (rf_data fd)" "b1 = take 95 (rf_data fd) @ drop 95 buf" "rf_data fd1 = drop 95 (rf_data fd)"
          using r(3) by auto
        have l95: "length (take 95 (rf_data fd)) = 95" using d(2) by simp
        obtain x ng b k where x: "\<And>pc. read_port (take 95 (rf_data fd)) port_zero pc =
            Some (x, pc\<lparr>node_guid := ng, remoteport_flag := b, remoteport_cache_key := k\<rparr>)" "0 \<le> portnum x"
          using read_port_prefix(2) [OF l95] by blast
        let ?pc = "pcache_zero\<lparr>pc_port := Some ?p, node_guid := ng, remoteport_flag := b, remoteport_cache_key := k\<rparr>"
        have rp: "read_port b1 port_zero (pcache_zero\<lparr>pc_port := Some ?p\<rparr>) = Some (x, ?pc)"
          unfolding d(3) read_port_prefix(1) [OF l95] by (rule x(1))
        obtain y where y: "store_port_cache ?a (put_port ?a ?pc ?p x ?c) =
            Some ((put_port ?a (?pc\<lparr>pc_next := ports_cache ?c, pc_htnext := y\<rparr>) ?p x ?c)
              \<lparr>ports_cache := Some ?a, portscachetbl := (portscachetbl ?c)[hash_idx (po_guid x) := Some ?a]\<rparr>)"
          "ports_part ((put_port ?a (?pc\<lparr>pc_next := ports_cache ?c, pc_htnext := y\<rparr>) ?p x ?c)
              \<lparr>ports_cache := Some ?a, portscachetbl := (portscachetbl ?c)[hash_idx (po_guid x) := Some ?a]\<rparr>) ((?a, ?p) # PA)"
          using store_port_cache_ok [OF np(2) fresh, of ?pc x] x(2) by auto
        let ?pc' = "?pc\<lparr>pc_next := ports_cache ?c, pc_htnext := y\<rparr>"
        let ?c' = "(put_port ?a ?pc' ?p x ?c)\<lparr>ports_cache := Some ?a, portscachetbl := (portscachetbl ?c)[hash_idx (po_guid x) := Some ?a]\<rparr>"
        have "nodes_part ?c' NA" by (rule nodes_part_cong [OF np(1)]) (simp_all add: put_port_def)
        moreover have "unlinked qm alloc ?c'"
          using np(3) start_fabric_upd(2) unfolding unlinked_def put_port_def by (auto simp: pcache_zero_def)
        ultimately have "loaded qm alloc ?c' NA ((?a, ?p) # PA)" using y(2) by (simp add: loaded_def)
        moreover have "map (port_value ?c') ((?a, ?p) # PA) = (x, ng, b, k) # map (port_value ?c) PA"
        proof -
          have "map (port_value ?c') ((?a, ?p) # PA) =
              (x, node_guid ?pc', remoteport_flag ?pc', remoteport_cache_key ?pc') # map (port_value ?c) PA"
            by (rule port_values_put [OF np(2) fresh(1,3)]) (simp_all add: put_port_def)
          then show ?thesis by simp
        qed
        moreover have "parse_port (rf_data fd) = Some ((x, ng, b, k), rf_data fd1)" using d x(1) by (simp add: parse_port_def)
        moreover have "port_read c ?c'" by (simp add: port_read_def put_port_def)
        ultimately have "port_outcome qm alloc c NA PA fd 0 ?c' fd1"
          using r(2) unfolding val by (intro port_outcome_ok)
        moreover have "load_port buf fd c = Some (0, ?c', fd1)"
          using y(1) r(1) d(1) rp by (simp add: load_port_def ok ok2 kl Let_def put_port_def)
        ultimately show ?thesis by blast
      qed
    qed
  qed
qed


section \<open>All records\<close>

lemma node_values_cong: "port_read c c' \<Longrightarrow> node_value c' = node_value c"
  by (simp add: fun_eq_iff node_value_def port_read_def)

lemma node_outcomeE:
  assumes "node_outcome qm alloc c NA PA fd rc c' fd'"
  obtains (bad) "rc = -1" "loaded qm alloc c' NA PA" "Eio \<in> set (rf_sched fd) \<or> (\<exists>a. \<not> alloc a) \<or> parse_node (rf_data fd) = None"
    | (good) v a p where "rc = 0" "parse_node (rf_data fd) = Some (v, rf_data fd')" "loaded qm alloc c' ((a, p) # NA) PA"
        "map (node_value c') ((a, p) # NA) = v # map (node_value c) NA"
proof (cases "rc = 0")
  case False
  then show thesis using assms by (intro bad) (simp_all add: node_outcome_def)
next
  case True
  then have "\<exists>v a p. parse_node (rf_data fd) = Some (v, rf_data fd') \<and> loaded qm alloc c' ((a, p) # NA) PA \<and>
        map (node_value c') ((a, p) # NA) = v # map (node_value c) NA"
    using assms by (simp only: node_outcome_def) simp
  then show thesis using good [OF True] by (elim exE conjE) assumption
qed

lemma port_outcomeE:
  assumes "port_outcome qm alloc c NA PA fd rc c' fd'"
  obtains (bad) "rc = -1" "loaded qm alloc c' NA PA" "Eio \<in> set (rf_sched fd) \<or> (\<exists>a. \<not> alloc a) \<or> parse_port (rf_data fd) = None"
    | (good) v a p where "rc = 0" "parse_port (rf_data fd) = Some (v, rf_data fd')" "loaded qm alloc c' NA ((a, p) # PA)"
        "map (port_value c') ((a, p) # PA) = v # map (port_value c) PA"
proof (cases "rc = 0")
  case False
  then show thesis using assms by (intro bad) (simp_all add: port_outcome_def)
next
  case True
  then have "\<exists>v a p. parse_port (rf_data fd) = Some (v, rf_data fd') \<and> loaded qm alloc c' NA ((a, p) # PA) \<and>
        map (port_value c') ((a, p) # PA) = v # map (port_value c) PA"
    using assms by (simp only: port_outcome_def) simp
  then show thesis using good [OF True] by (elim exE conjE) assumption
qed

lemma load_nodes:
  fixes c :: "'m fabric_cache"
  assumes "loaded qm alloc c NA PA" and "length buf = IBND_FABRIC_CACHE_BUFLEN"
  shows "\<exists>rc c' fd' NA'. load_loop n (load_node buf) fd c = Some (rc, c', fd') \<and> loaded qm alloc c' NA' PA \<and>
    from_node_guid c' = from_node_guid c \<and> maxhops_discovered (f_int c') = maxhops_discovered (f_int c) \<and>
    (Eio \<notin> set (rf_sched fd) \<longrightarrow> Eio \<notin> set (rf_sched fd')) \<and>
    map (port_value c') PA = map (port_value c) PA \<and>
    (rc = -1 \<and> (Eio \<in> set (rf_sched fd) \<or> (\<exists>a. \<not> alloc a) \<or> parse_many n parse_node (rf_data fd) = None) \<or>
     rc = 0 \<and> (\<exists>vs. parse_many n parse_node (rf_data fd) = Some (vs, rf_data fd') \<and>
       map (node_value c') NA' = rev vs @ map (node_value c) NA))"
  using assms(1)
proof (induction n arbitrary: fd c NA)
  case 0
  then show ?case by auto
next
  case (Suc n)
  obtain rc c1 fd1 where s: "load_node buf fd c = Some (rc, c1, fd1)" "node_outcome qm alloc c NA PA fd rc c1 fd1"
    using load_node_step [OF Suc.prems assms(2)] by blast
  have keep: "from_node_guid c1 = from_node_guid c" "maxhops_discovered (f_int c1) = maxhops_discovered (f_int c)"
      "map (port_value c1) PA = map (port_value c) PA" "Eio \<notin> set (rf_sched fd) \<longrightarrow> Eio \<notin> set (rf_sched fd1)"
    using s(2) by (simp_all add: node_outcome_def node_read_def port_value_def)
  from s(2) show ?case
  proof (cases rule: node_outcomeE)
    case bad
    then have "load_loop (Suc n) (load_node buf) fd c = Some (-1, c1, fd1)" using s(1) by simp
    moreover have "Eio \<in> set (rf_sched fd) \<or> (\<exists>a. \<not> alloc a) \<or> parse_many (Suc n) parse_node (rf_data fd) = None"
      using bad(3) by auto
    ultimately show ?thesis using bad(2) keep by blast
  next
    case (good v a p)
    obtain rc' c' fd' NA' where r: "load_loop n (load_node buf) fd1 c1 = Some (rc', c', fd')" "loaded qm alloc c' NA' PA"
      "from_node_guid c' = from_node_guid c1" "maxhops_discovered (f_int c') = maxhops_discovered (f_int c1)"
      "Eio \<notin> set (rf_sched fd1) \<longrightarrow> Eio \<notin> set (rf_sched fd')" "map (port_value c') PA = map (port_value c1) PA"
      "rc' = -1 \<and> (Eio \<in> set (rf_sched fd1) \<or> (\<exists>a. \<not> alloc a) \<or> parse_many n parse_node (rf_data fd1) = None) \<or>
       rc' = 0 \<and> (\<exists>vs. parse_many n parse_node (rf_data fd1) = Some (vs, rf_data fd') \<and>
         map (node_value c') NA' = rev vs @ map (node_value c1) ((a, p) # NA))"
      using Suc.IH [OF good(3), of fd1] by blast
    have run: "load_loop (Suc n) (load_node buf) fd c = Some (rc', c', fd')" using s(1) good(1) r(1) by simp
    have "rc' = -1 \<and> (Eio \<in> set (rf_sched fd) \<or> (\<exists>a. \<not> alloc a) \<or> parse_many (Suc n) parse_node (rf_data fd) = None) \<or>
       rc' = 0 \<and> (\<exists>vs. parse_many (Suc n) parse_node (rf_data fd) = Some (vs, rf_data fd') \<and>
         map (node_value c') NA' = rev vs @ map (node_value c) NA)"
      using r(7) good(2,4) keep(4) by auto
    then show ?thesis using run r(2-6) keep by auto
  qed
qed

lemma load_ports:
  fixes c :: "'m fabric_cache"
  assumes "loaded qm alloc c NA PA" and "length buf = IBND_FABRIC_CACHE_BUFLEN"
  shows "\<exists>rc c' fd' PA'. load_loop n (load_port buf) fd c = Some (rc, c', fd') \<and> loaded qm alloc c' NA PA' \<and>
    port_read c c' \<and> (Eio \<notin> set (rf_sched fd) \<longrightarrow> Eio \<notin> set (rf_sched fd')) \<and>
    (rc = -1 \<and> (Eio \<in> set (rf_sched fd) \<or> (\<exists>a. \<not> alloc a) \<or> parse_many n parse_port (rf_data fd) = None) \<or>
     rc = 0 \<and> (\<exists>vs. parse_many n parse_port (rf_data fd) = Some (vs, rf_data fd') \<and>
       map (port_value c') PA' = rev vs @ map (port_value c) PA))"
  using assms(1)
proof (induction n arbitrary: fd c PA)
  case 0
  then show ?case by (auto simp: port_read_def)
next
  case (Suc n)
  obtain rc c1 fd1 where s: "load_port buf fd c = Some (rc, c1, fd1)" "port_outcome qm alloc c NA PA fd rc c1 fd1"
    using load_port_step [OF Suc.prems assms(2)] by blast
  have keep: "port_read c c1" "Eio \<notin> set (rf_sched fd) \<longrightarrow> Eio \<notin> set (rf_sched fd1)"
    using s(2) by (simp_all add: port_outcome_def)
  from s(2) show ?case
  proof (cases rule: port_outcomeE)
    case bad
    then have "load_loop (Suc n) (load_port buf) fd c = Some (-1, c1, fd1)" using s(1) by simp
    moreover have "Eio \<in> set (rf_sched fd) \<or> (\<exists>a. \<not> alloc a) \<or> parse_many (Suc n) parse_port (rf_data fd) = None"
      using bad(3) by auto
    ultimately show ?thesis using bad(2) keep by blast
  next
    case (good v a p)
    obtain rc' c' fd' PA' where r: "load_loop n (load_port buf) fd1 c1 = Some (rc', c', fd')" "loaded qm alloc c' NA PA'"
      "port_read c1 c'" "Eio \<notin> set (rf_sched fd1) \<longrightarrow> Eio \<notin> set (rf_sched fd')"
      "rc' = -1 \<and> (Eio \<in> set (rf_sched fd1) \<or> (\<exists>a. \<not> alloc a) \<or> parse_many n parse_port (rf_data fd1) = None) \<or>
       rc' = 0 \<and> (\<exists>vs. parse_many n parse_port (rf_data fd1) = Some (vs, rf_data fd') \<and>
         map (port_value c') PA' = rev vs @ map (port_value c1) ((a, p) # PA))"
      using Suc.IH [OF good(3), of fd1] by blast
    have run: "load_loop (Suc n) (load_port buf) fd c = Some (rc', c', fd')" using s(1) good(1) r(1) by simp
    have "rc' = -1 \<and> (Eio \<in> set (rf_sched fd) \<or> (\<exists>a. \<not> alloc a) \<or> parse_many (Suc n) parse_port (rf_data fd) = None) \<or>
       rc' = 0 \<and> (\<exists>vs. parse_many (Suc n) parse_port (rf_data fd) = Some (vs, rf_data fd') \<and>
         map (port_value c') PA' = rev vs @ map (port_value c) PA)"
      using r(5) good(2,4) keep(2) by auto
    moreover have "port_read c c'" using keep(1) r(3) by (simp add: port_read_def)
    ultimately show ?thesis using run r(2,4) keep(2) by blast
  qed
qed

lemma load_header:
  assumes "length buf = IBND_FABRIC_CACHE_BUFLEN"
  shows "\<exists>rc nn np c' fd'. load_header_info buf fd c = Some (rc, nn, np, c', fd') \<and>
    (Eio \<notin> set (rf_sched fd) \<longrightarrow> Eio \<notin> set (rf_sched fd')) \<and>
    (rc = -1 \<and> c' = c \<and> (Eio \<in> set (rf_sched fd) \<or> parse_header (rf_data fd) = None) \<or>
     rc = 0 \<and> (\<exists>g h. parse_header (rf_data fd) = Some ((nn, np, g, h), rf_data fd') \<and>
       c' = c\<lparr>from_node_guid := g, f_int := (f_int c)\<lparr>maxhops_discovered := h\<rparr>\<rparr>))"
proof -
  obtain rc b1 fd1 where r: "ibnd_read fd buf 28 = Some (rc, b1, fd1)"
      "Eio \<notin> set (rf_sched fd) \<longrightarrow> Eio \<notin> set (rf_sched fd1)"
      "rc = -1 \<and> (Eio \<in> set (rf_sched fd) \<or> length (rf_data fd) < 28) \<or>
       rc = 28 \<and> 28 \<le> length (rf_data fd) \<and> b1 = take 28 (rf_data fd) @ drop 28 buf \<and> rf_data fd1 = drop 28 (rf_data fd)"
    using ibnd_read_reads [of 28 buf fd] assms by (auto simp: c_eval)
  have kl: "IBND_FABRIC_CACHE_HEADER_LEN = 28" by (simp add: IBND_FABRIC_CACHE_HEADER_LEN_def)
  show ?thesis
  proof (cases "rc = -1")
    case True
    then have "Eio \<in> set (rf_sched fd) \<or> parse_header (rf_data fd) = None" using r(3) by (auto simp: parse_header_def)
    then show ?thesis using r(1,2) True by (simp add: load_header_info_def kl)
  next
    case False
    then have d: "rc = 28" "28 \<le> length (rf_data fd)" "b1 = take 28 (rf_data fd) @ drop 28 buf" "rf_data fd1 = drop 28 (rf_data fd)"
      using r(3) by auto
    have ld: "mem_load b1 i k = mem_load (rf_data fd) i k \<and> mem_load (rf_data fd) i k \<noteq> None" if "i + k \<le> 28" for i k
      using d(2) that by (simp add: d(3) mem_load_def take_drop min_absorb1)
    have u: "unmarshall32 b1 i = unmarshall32 (rf_data fd) i \<and> (\<exists>v. unmarshall32 (rf_data fd) i = Some (v, i + 4))" if "i + 4 \<le> 28" for i
      using ld [OF that] by (auto simp: unmarshall32_def)
    have u64: "unmarshall64 b1 16 = unmarshall64 (rf_data fd) 16 \<and> (\<exists>v. unmarshall64 (rf_data fd) 16 = Some (v, 24))"
      using ld [of 16 8] by (auto simp: unmarshall64_def)
    obtain magic version nn np g h where v: "unmarshall32 (rf_data fd) 0 = Some (magic, 4)" "unmarshall32 (rf_data fd) 4 = Some (version, 8)"
      "unmarshall32 (rf_data fd) 8 = Some (nn, 12)" "unmarshall32 (rf_data fd) 12 = Some (np, 16)"
      "unmarshall64 (rf_data fd) 16 = Some (g, 24)" "unmarshall32 (rf_data fd) 24 = Some (h, 28)"
      using u [of 0] u [of 4] u [of 8] u [of 12] u [of 24] u64 by auto
    have w: "unmarshall32 b1 0 = Some (magic, 4)" "unmarshall32 b1 4 = Some (version, 8)"
      "unmarshall32 b1 8 = Some (nn, 12)" "unmarshall32 b1 12 = Some (np, 16)"
      "unmarshall64 b1 16 = Some (g, 24)" "unmarshall32 b1 24 = Some (h, 28)"
      using u [of 0] u [of 4] u [of 8] u [of 12] u [of 24] u64 v by simp_all
    have p: "parse_header (rf_data fd) = (if magic \<noteq> IBND_FABRIC_CACHE_MAGIC \<or> version \<noteq> IBND_FABRIC_CACHE_VERSION then None
       else Some ((nn, np, g, h), rf_data fd1))"
      using d(2) by (simp add: parse_header_def v d(4))
    show ?thesis using r(1,2) by (simp add: load_header_info_def kl w d(1) p)
  qed
qed

text \<open>Reading refines the parser.\<close>

lemma load_records_parse:
  fixes qm :: "'m qmap_ops"
  assumes buf: "length buf = IBND_FABRIC_CACHE_BUFLEN"
  shows "\<exists>rc c NA PA. load_records buf fd (fcache_zero (allocate_fabric_internal qm alloc)) = Some (rc, c) \<and>
    loaded qm alloc c NA PA \<and>
    (rc = -1 \<and> (Eio \<in> set (rf_sched fd) \<or> (\<exists>a. \<not> alloc a) \<or> parse_file (rf_data fd) = None) \<or>
     rc = 0 \<and> (\<exists>ns ps. parse_file (rf_data fd) = Some (from_node_guid c, maxhops_discovered (f_int c), ns, ps) \<and>
       map (node_value c) NA = rev ns \<and> map (port_value c) PA = rev ps))"
proof -
  let ?c0 = "fcache_zero (allocate_fabric_internal qm alloc)"
  have st: "start_fabric qm alloc (allocate_fabric_internal qm alloc)"
    unfolding start_fabric_def
    by (rule exI [of _ Map.empty], rule exI [of _ Map.empty], rule exI [of _ 0], rule exI [of _ 0])
      (simp add: allocate_fabric_internal_def create_lid2guid_def)
  have e: "st_nodes (allocate_fabric_internal qm alloc) = Map.empty" "st_ports (allocate_fabric_internal qm alloc) = Map.empty"
    by (simp_all add: allocate_fabric_internal_def create_lid2guid_def)
  have l0: "loaded qm alloc (?c0\<lparr>from_node_guid := g, f_int := (f_int ?c0)\<lparr>maxhops_discovered := h\<rparr>\<rparr>) [] []" for g h
    using start_fabric_upd(4) [OF st]
    by (simp add: loaded_def nodes_part_def ports_part_def unlinked_def fcache_zero_def e)
  have "loaded qm alloc ?c0 [] []"
    using st by (simp add: loaded_def nodes_part_def ports_part_def unlinked_def fcache_zero_def e)
  note l00 = this
  obtain rc nn np c1 fd1 where h: "load_header_info buf fd ?c0 = Some (rc, nn, np, c1, fd1)"
    "Eio \<notin> set (rf_sched fd) \<longrightarrow> Eio \<notin> set (rf_sched fd1)"
    "rc = -1 \<and> c1 = ?c0 \<and> (Eio \<in> set (rf_sched fd) \<or> parse_header (rf_data fd) = None) \<or>
     rc = 0 \<and> (\<exists>g h. parse_header (rf_data fd) = Some ((nn, np, g, h), rf_data fd1) \<and>
       c1 = ?c0\<lparr>from_node_guid := g, f_int := (f_int ?c0)\<lparr>maxhops_discovered := h\<rparr>\<rparr>)"
    using load_header [OF buf, of fd ?c0] by (elim exE conjE) (rule that)
  show ?thesis
  proof (cases "rc = 0")
    case False
    then have "rc = -1" "c1 = ?c0" "Eio \<in> set (rf_sched fd) \<or> parse_file (rf_data fd) = None"
      using h(3) by (auto simp: parse_file_def)
    then show ?thesis using h(1) l00 by (auto simp: load_records_def)
  next
    case True
    then obtain g hp where g: "parse_header (rf_data fd) = Some ((nn, np, g, hp), rf_data fd1)"
        "c1 = ?c0\<lparr>from_node_guid := g, f_int := (f_int ?c0)\<lparr>maxhops_discovered := hp\<rparr>\<rparr>" using h(3) by auto
    have l1: "loaded qm alloc c1 [] []" unfolding g(2) by (rule l0)
    obtain rc2 c2 fd2 NA where n: "load_loop (unat nn) (load_node buf) fd1 c1 = Some (rc2, c2, fd2)" "loaded qm alloc c2 NA []"
      "from_node_guid c2 = from_node_guid c1" "maxhops_discovered (f_int c2) = maxhops_discovered (f_int c1)"
      "Eio \<notin> set (rf_sched fd1) \<longrightarrow> Eio \<notin> set (rf_sched fd2)"
      "rc2 = -1 \<and> (Eio \<in> set (rf_sched fd1) \<or> (\<exists>a. \<not> alloc a) \<or> parse_many (unat nn) parse_node (rf_data fd1) = None) \<or>
       rc2 = 0 \<and> (\<exists>vs. parse_many (unat nn) parse_node (rf_data fd1) = Some (vs, rf_data fd2) \<and> map (node_value c2) NA = rev vs)"
      using load_nodes [OF l1 buf, of "unat nn" fd1]
      by (simp only: list.map(1) append_Nil2 simp_thms) (elim exE conjE, rule that)
    show ?thesis
    proof (cases "rc2 = 0")
      case False
      then have "rc2 = -1" "Eio \<in> set (rf_sched fd) \<or> (\<exists>a. \<not> alloc a) \<or> parse_file (rf_data fd) = None"
        using n(6) h(2) g(1) by (auto simp: parse_file_def)
      then show ?thesis using h(1) True n(1,2) by (auto simp: load_records_def)
    next
      case True2: True
      then obtain vs where vs: "parse_many (unat nn) parse_node (rf_data fd1) = Some (vs, rf_data fd2)" "map (node_value c2) NA = rev vs"
        using n(6) by auto
      obtain rc3 c3 fd3 PA where p: "load_loop (unat np) (load_port buf) fd2 c2 = Some (rc3, c3, fd3)" "loaded qm alloc c3 NA PA"
        "port_read c2 c3"
        "rc3 = -1 \<and> (Eio \<in> set (rf_sched fd2) \<or> (\<exists>a. \<not> alloc a) \<or> parse_many (unat np) parse_port (rf_data fd2) = None) \<or>
         rc3 = 0 \<and> (\<exists>vs. parse_many (unat np) parse_port (rf_data fd2) = Some (vs, rf_data fd3) \<and> map (port_value c3) PA = rev vs)"
        using load_ports [OF n(2) buf, of "unat np" fd2]
        by (simp only: list.map(1) append_Nil2 simp_thms) (elim exE conjE, rule that)
      have run: "load_records buf fd ?c0 = Some (rc3, c3)"
        using h(1) True n(1) True2 p(1) by (simp add: load_records_def)
      have vals: "map (node_value c3) NA = rev vs" using node_values_cong [OF p(3)] vs(2) by simp
      have hd: "from_node_guid c3 = g" "maxhops_discovered (f_int c3) = hp" using p(3) n(3,4) g(2) by (simp_all add: port_read_def)
      have "rc3 = -1 \<and> (Eio \<in> set (rf_sched fd) \<or> (\<exists>a. \<not> alloc a) \<or> parse_file (rf_data fd) = None) \<or>
         rc3 = 0 \<and> (\<exists>ns ps. parse_file (rf_data fd) = Some (from_node_guid c3, maxhops_discovered (f_int c3), ns, ps) \<and>
           map (node_value c3) NA = rev ns \<and> map (port_value c3) PA = rev ps)"
        using p(4) h(2) n(5) g(1) vs(1) vals hd by (auto simp: parse_file_def)
      then show ?thesis using run p(2) by blast
    qed
  qed
qed

end
