(* ===== verification/IbnCacheTrip.thy ===== *)
theory IbnCacheTrip
  imports IbnCacheRead
begin

text \<open>
  Round trip: what \<open>ibnd_cache_fabric\<close> writes is what \<open>ibnd_load_fabric\<close> reads. Clean-up: a
  file that cannot be read leaves nothing behind.
\<close>

section \<open>The parser reads what is written\<close>

lemma parse_node_bytes:
  assumes "node_sized n" and "byte_fields n" and "length ks < 256"
  shows "parse_node (node_bytes n ks @ rest) = Some ((cached_node n, ks), rest)"
proof -
  let ?c = "of_nat (length ks) :: u8"
  have c: "unat ?c = length ks" using assms(3) by (simp add: unsigned_of_nat take_bit_nat_eq_self)
  have l: "length (node_header n ?c) = 207" by (rule length_node_header [OF assms(1)])
  have "read_node (node_header n ?c) node_zero = Some (cached_node n, ?c)"
    using read_node_header [OF assms(1,2), of ?c "[]"] by simp
  moreover have "read_keys (length ks) (concat (map key_bytes ks) @ rest) 0 = Some ks"
    using read_keys_bytes [of ks "[]" rest] by simp
  ultimately show ?thesis using l by (simp add: parse_node_def node_bytes_def c Let_def)
qed

lemma parse_port_bytes:
  assumes "length (po_info x) = 64" and "portnum x \<in> {0..<256}" and "ext_portnum x \<in> {0..<256}"
  shows "parse_port (port_bytes x ng r @ rest) =
    Some ((cached_port x, ng, if r = None then 0 else 1, case r of None \<Rightarrow> key_zero | Some k \<Rightarrow> k), rest)"
proof -
  have l: "length (port_bytes x ng r) = 95" using assms(1) by (cases r) (simp_all add: port_bytes_def)
  have "read_port (port_bytes x ng r) port_zero pcache_zero = Some (cached_port x,
    pcache_zero\<lparr>node_guid := ng, remoteport_flag := (if r = None then 0 else 1),
      remoteport_cache_key := (case r of None \<Rightarrow> key_zero | Some k \<Rightarrow> k)\<rparr>)"
    using read_port_bytes [OF assms, of ng r "[]" pcache_zero] by simp
  then show ?thesis using l by (simp add: parse_port_def)
qed

lemma parse_many_map:
  assumes "\<And>x rest. x \<in> set xs \<Longrightarrow> parse (enc x @ rest) = Some (val x, rest)"
  shows "parse_many (length xs) parse (concat (map enc xs) @ rest) = Some (map val xs, rest)"
  using assms by (induction xs) simp_all

lemma parse_header_bytes: "parse_header (header_bytes nn np g h @ rest) = Some ((nn, np, g, h), rest)"
proof -
  let ?p = "header_bytes nn np g h @ rest"
  have "unmarshall32 ?p 0 = Some (IBND_FABRIC_CACHE_MAGIC, 4)" "unmarshall32 ?p 4 = Some (IBND_FABRIC_CACHE_VERSION, 8)"
    "unmarshall32 ?p 8 = Some (nn, 12)" "unmarshall32 ?p 12 = Some (np, 16)" "unmarshall32 ?p 24 = Some (h, 28)"
    using unmarshall_bytes(3) [of ?p 0 IBND_FABRIC_CACHE_MAGIC] unmarshall_bytes(3) [of ?p 4 IBND_FABRIC_CACHE_VERSION]
      unmarshall_bytes(3) [of ?p 8 nn] unmarshall_bytes(3) [of ?p 12 np] unmarshall_bytes(3) [of ?p 24 h]
    by (simp_all add: header_bytes_def mem_load_def)
  moreover have "unmarshall64 ?p 16 = Some (g, 24)"
    using unmarshall_bytes(4) [of ?p 16 g] by (simp add: header_bytes_def mem_load_def)
  ultimately show ?thesis by (simp add: parse_header_def)
qed

definition fits_bytes :: "'m fabric \<Rightarrow> ptr list \<Rightarrow> ptr list \<Rightarrow> bool" where
  \<comment> \<open>the counts and the port numbers fit in the bytes of the file\<close>
  "fits_bytes f ns ps \<longleftrightarrow> length ns < 2 ^ 32 \<and> length ps < 2 ^ 32 \<and>
     (\<forall>p \<in> set ns. length (keys_of f (ports (the (st_nodes f p)))) < 256) \<and>
     (\<forall>p \<in> set ps. portnum (the (st_ports f p)) \<in> {0..<256} \<and> ext_portnum (the (st_ports f p)) \<in> {0..<256})"

definition node_image :: "'m fabric \<Rightarrow> ptr \<Rightarrow> node_value" where
  "node_image f p = (let n = the (st_nodes f p) in (cached_node n, keys_of f (ports n)))"

definition port_image :: "'m fabric \<Rightarrow> ptr \<Rightarrow> port_value" where
  "port_image f p = (let x = the (st_ports f p) in (cached_port x, nd_guid (the (st_nodes f (the (po_node x)))),
     if remoteport x = None then 0 else 1,
     case remoteport x of None \<Rightarrow> key_zero | Some r \<Rightarrow> port_key (the (st_ports f r))))"

lemma parse_file_bytes:
  assumes "cacheable f ns pss" and "fits_bytes f ns (concat pss)"
  shows "parse_file (file_bytes f ns (concat pss)) = Some (nd_guid (the (st_nodes f (the (from_node f)))), maxhops_discovered f,
    map (node_image f) ns, map (port_image f) (concat pss))"
proof -
  have n: "parse_node (node_record f p @ rest) = Some (node_image f p, rest)" if p: "p \<in> set ns" for p rest
  proof -
    obtain n where n: "st_nodes f p = Some n" "node_shape n" "byte_fields n" using assms(1) p unfolding cacheable_def by blast
    have "length (keys_of f (ports n)) < 256" using assms(2) p n(1) unfolding fits_bytes_def by fastforce
    then show ?thesis using parse_node_bytes [of n "keys_of f (ports n)" rest] n
      by (simp add: node_record_def node_image_def node_sized_def node_shape_def Let_def)
  qed
  have q: "parse_port (port_record f p @ rest) = Some (port_image f p, rest)" if p: "p \<in> set (concat pss)" for p rest
  proof -
    have "port_writable f p" using assms(1) p unfolding cacheable_def by blast
    then obtain x where x: "st_ports f p = Some x" "length (po_info x) = 64" unfolding port_writable_def by blast
    have "portnum x \<in> {0..<256}" "ext_portnum x \<in> {0..<256}" using assms(2) p x(1) unfolding fits_bytes_def by fastforce+
    from parse_port_bytes [OF x(2) this] show ?thesis
      by (cases "remoteport x") (simp_all add: port_record_def port_image_def x(1) Let_def)
  qed
  have c: "unat (of_nat (length ns) :: u32) = length ns" "unat (of_nat (length (concat pss)) :: u32) = length (concat pss)"
    using assms(2) by (simp_all add: fits_bytes_def unsigned_of_nat take_bit_nat_eq_self del: length_concat)
  have "parse_many (length ns) parse_node (concat (map (node_record f) ns) @ concat (map (port_record f) (concat pss))) =
      Some (map (node_image f) ns, concat (map (port_record f) (concat pss)))"
    by (rule parse_many_map) (rule n)
  moreover have "parse_many (length (concat pss)) parse_port (concat (map (port_record f) (concat pss))) =
      Some (map (port_image f) (concat pss), [])"
    using parse_many_map [of "concat pss" parse_port "port_record f" "port_image f" "[]"] q by simp
  ultimately show ?thesis
    by (simp add: parse_file_def file_bytes_def parse_header_bytes c del: length_concat map_concat)
qed

text \<open>
  C5 (roundtrip): a fabric is written to a file and the file is read back, under any
  division of both transfers into pieces and interruptions. Both end with success, and the temporary structures hold
  exactly the nodes with the keys of their ports and the ports with their owners and remote ends, the GUID
  of the first node and the number of hops. The fabric is one whose lists and links can be followed (\<open>cacheable\<close>) and that the
  fields of the format can hold (\<open>fits_bytes\<close>): fewer than 256 keys of ports for a node, port numbers of one byte, 32-bit counts.
\<close>

theorem cache_file_roundtrip:
  fixes f :: "'m fabric" and qm :: "'n qmap_ops"
  assumes "cacheable f ns pss" and "fits_bytes f ns (concat pss)"
    and "length buf = IBND_FABRIC_CACHE_BUFLEN" and "length buf' = IBND_FABRIC_CACHE_BUFLEN"
    and "Eio \<notin> set wsched" and "Eio \<notin> set rsched"
  shows "\<exists>fd c NA PA. cache_records buf f \<lparr>wf_data = [], wf_pos = 0, wf_sched = wsched, wf_seekable = True\<rparr> = Some (0, fd) \<and>
    load_records buf' \<lparr>rf_data = wf_data fd, rf_sched = rsched\<rparr> (fcache_zero (allocate_fabric_internal qm (\<lambda>_. True))) = Some (0, c) \<and>
    loaded qm (\<lambda>_. True) c NA PA \<and>
    from_node_guid c = nd_guid (the (st_nodes f (the (from_node f)))) \<and> maxhops_discovered (f_int c) = maxhops_discovered f \<and>
    map (node_value c) NA = rev (map (node_image f) ns) \<and> map (port_value c) PA = rev (map (port_image f) (concat pss))"
proof -
  let ?fd = "\<lparr>wf_data = [], wf_pos = 0, wf_sched = wsched, wf_seekable = True\<rparr>"
  obtain fd where w: "cache_records buf f ?fd = Some (0, fd)" "wf_data fd = file_bytes f ns (concat pss)"
    using cache_records_written [OF assms(1,3), of ?fd] assms(5) by auto
  let ?rd = "\<lparr>rf_data = wf_data fd, rf_sched = rsched\<rparr>"
  have p: "parse_file (rf_data ?rd) = Some (nd_guid (the (st_nodes f (the (from_node f)))), maxhops_discovered f,
    map (node_image f) ns, map (port_image f) (concat pss))"
    using parse_file_bytes [OF assms(1,2)] by (simp add: w(2))
  obtain rc c NA PA where r: "load_records buf' ?rd (fcache_zero (allocate_fabric_internal qm (\<lambda>_. True))) = Some (rc, c)"
    "loaded qm (\<lambda>_. True) c NA PA"
    "rc = -1 \<and> (Eio \<in> set (rf_sched ?rd) \<or> (\<exists>a :: ptr. \<not> True) \<or> parse_file (rf_data ?rd) = None) \<or>
     rc = 0 \<and> (\<exists>ns ps. parse_file (rf_data ?rd) = Some (from_node_guid c, maxhops_discovered (f_int c), ns, ps) \<and>
       map (node_value c) NA = rev ns \<and> map (port_value c) PA = rev ps)"
    using load_records_parse [OF assms(4), of ?rd qm "\<lambda>_. True"] by (elim exE conjE) (rule that)
  from r(3) have "rc = 0" "from_node_guid c = nd_guid (the (st_nodes f (the (from_node f))))"
    "maxhops_discovered (f_int c) = maxhops_discovered f"
    "map (node_value c) NA = rev (map (node_image f) ns)" "map (port_value c) PA = rev (map (port_image f) (concat pss))"
    using p assms(6) by auto
  then show ?thesis using w(1) r(1,2) by blast
qed


text \<open>
  C6 (refinement): reading a file refines a pure parser of its bytes. For any file, any division of the
  reads, any failures: the three loops of \<open>ibnd_load_fabric\<close> end and never leave their buffer, with well-formed temporary
  lists and hash chains; they fail only after a failed read or allocation or where the parser fails, and
  otherwise the lists hold, in reverse order, what the parser returns.
\<close>

theorem load_records_refines:
  fixes qm :: "'m qmap_ops"
  assumes "length buf = IBND_FABRIC_CACHE_BUFLEN"
  shows "\<exists>rc c NA PA. load_records buf fd (fcache_zero (allocate_fabric_internal qm alloc)) = Some (rc, c) \<and>
    loaded qm alloc c NA PA \<and>
    (rc = -1 \<and> (Eio \<in> set (rf_sched fd) \<or> (\<exists>a. \<not> alloc a) \<or> parse_file (rf_data fd) = None) \<or>
     rc = 0 \<and> (\<exists>ns ps. parse_file (rf_data fd) = Some (from_node_guid c, maxhops_discovered (f_int c), ns, ps) \<and>
       map (node_value c) NA = rev ns \<and> map (port_value c) PA = rev ps))"
  by (rule load_records_parse [OF assms])

section \<open>The clean-up\<close>

definition ncache_owns :: "'m fabric_cache \<Rightarrow> ptr \<Rightarrow> ptr \<Rightarrow> bool" where
  \<comment> \<open>a node cache whose node, unless it belongs to the fabric, is live and has no ports\<close>
  "ncache_owns c a p \<longleftrightarrow> (\<exists>nc. st_ncache c a = Some nc \<and> nc_node nc = Some p \<and>
     (node_stored_to_fabric nc = 0 \<longrightarrow> (\<exists>n. st_nodes (f_int c) p = Some n \<and> ports n = [])))"

definition pcache_owns :: "'m fabric_cache \<Rightarrow> ptr \<Rightarrow> ptr \<Rightarrow> bool" where
  "pcache_owns c a p \<longleftrightarrow> (\<exists>pc. st_pcache c a = Some pc \<and> pc_port pc = Some p \<and>
     (port_stored_to_fabric pc = 0 \<longrightarrow> p \<in> dom (st_ports (f_int c))))"

definition own_nodes :: "'m fabric_cache \<Rightarrow> (ptr \<times> ptr) list \<Rightarrow> ptr set" where
  "own_nodes c NA = {p. \<exists>a nc. (a, p) \<in> set NA \<and> st_ncache c a = Some nc \<and> node_stored_to_fabric nc = 0}"

definition own_ports :: "'m fabric_cache \<Rightarrow> (ptr \<times> ptr) list \<Rightarrow> ptr set" where
  "own_ports c PA = {p. \<exists>a pc. (a, p) \<in> set PA \<and> st_pcache c a = Some pc \<and> port_stored_to_fabric pc = 0}"

lemma destroy_node_caches_path:
  fixes c :: "'m fabric_cache"
  assumes "path (\<lambda>a. map_option nc_next (st_ncache c a)) x (map fst NA)" and "distinct (map snd NA)"
    and "\<And>a p. (a, p) \<in> set NA \<Longrightarrow> ncache_owns c a p" and "length NA \<le> k"
  shows "destroy_node_caches k x c = Some (c\<lparr>
      f_int := (f_int c)\<lparr>st_nodes := (\<lambda>p. if p \<in> own_nodes c NA then None else st_nodes (f_int c) p)\<rparr>,
      st_ncache := (\<lambda>a. if a \<in> fst ` set NA then None else st_ncache c a)\<rparr>)"
  using assms
proof (induction NA arbitrary: x k c)
  case Nil
  then show ?case by (simp add: own_nodes_def)
next
  case (Cons ap NA)
  obtain a p where ap: "ap = (a, p)" by fastforce
  obtain m y where k: "k = Suc m" "x = Some a" "map_option nc_next (st_ncache c a) = Some y"
      "path (\<lambda>a. map_option nc_next (st_ncache c a)) y (map fst NA)" "length NA \<le> m"
    using Cons.prems(1,4) ap by (cases k) auto
  have da: "a \<notin> fst ` set NA" using path_distinct [OF Cons.prems(1)] ap by simp
  have dp: "p \<notin> snd ` set NA" using Cons.prems(2) ap by simp
  obtain nc where nc: "st_ncache c a = Some nc" "nc_node nc = Some p" "nc_next nc = y"
      "node_stored_to_fabric nc = 0 \<longrightarrow> (\<exists>n. st_nodes (f_int c) p = Some n \<and> ports n = [])"
    using Cons.prems(3) [of a p] ap k(3) by (auto simp: ncache_owns_def)
  let ?own = "if node_stored_to_fabric nc = 0 then {p} else {}"
  let ?c = "c\<lparr>f_int := (f_int c)\<lparr>st_nodes := (\<lambda>q. if q \<in> ?own then None else st_nodes (f_int c) q)\<rparr>, st_ncache := (st_ncache c)(a := None)\<rparr>"
  have step: "destroy_ibnd_node_cache a c = Some ?c"
  proof (cases "node_stored_to_fabric nc = 0")
    case True
    then obtain n where n: "st_nodes (f_int c) p = Some n" "ports n = []" using nc(4) by blast
    have "(st_nodes (f_int c))(p := None) = (\<lambda>q. if q = p then None else st_nodes (f_int c) q)" by auto
    then show ?thesis using nc True n by (simp add: destroy_ibnd_node_cache_def on_f_int_def destroy_node_def)
  next
    case False
    then show ?thesis using nc by (simp add: destroy_ibnd_node_cache_def)
  qed
  have own: "ncache_owns ?c b q" if "(b, q) \<in> set NA" for b q
  proof -
    have "b \<noteq> a" "q \<noteq> p" using da dp that by force+
    then show ?thesis using Cons.prems(3) [of b q] that by (auto simp: ncache_owns_def)
  qed
  have "path (\<lambda>b. map_option nc_next (st_ncache ?c b)) y (map fst NA)"
    by (rule path_cong [OF k(4)]) (use da in auto)
  then have run: "destroy_node_caches m y ?c = Some (?c\<lparr>
      f_int := (f_int ?c)\<lparr>st_nodes := (\<lambda>q. if q \<in> own_nodes ?c NA then None else st_nodes (f_int ?c) q)\<rparr>,
      st_ncache := (\<lambda>b. if b \<in> fst ` set NA then None else st_ncache ?c b)\<rparr>)"
    using Cons.prems(2) own k(5) by (intro Cons.IH) simp_all
  have "own_nodes c (ap # NA) = own_nodes ?c NA \<union> ?own"
    using da nc(1) by (auto simp: own_nodes_def image_iff ap split: if_splits)
  then have e1: "(\<lambda>q. if q \<in> own_nodes ?c NA then None else st_nodes (f_int ?c) q) =
      (\<lambda>q. if q \<in> own_nodes c (ap # NA) then None else st_nodes (f_int c) q)" by (auto simp: fun_eq_iff)
  have e2: "(\<lambda>b. if b \<in> fst ` set NA then None else st_ncache ?c b) =
      (\<lambda>b. if b \<in> fst ` set (ap # NA) then None else st_ncache c b)" by (auto simp: fun_eq_iff ap)
  have "destroy_node_caches k x c = destroy_node_caches m y ?c" using k(1,2) nc(1,3) step by simp
  then show ?case unfolding run e1 e2 by simp
qed


lemma destroy_port_caches_path:
  fixes c :: "'m fabric_cache"
  assumes "path (\<lambda>a. map_option pc_next (st_pcache c a)) x (map fst PA)" and "distinct (map snd PA)"
    and "\<And>a p. (a, p) \<in> set PA \<Longrightarrow> pcache_owns c a p" and "length PA \<le> k"
  shows "destroy_port_caches k x c = Some (c\<lparr>
      f_int := (f_int c)\<lparr>st_ports := (\<lambda>p. if p \<in> own_ports c PA then None else st_ports (f_int c) p)\<rparr>,
      st_pcache := (\<lambda>a. if a \<in> fst ` set PA then None else st_pcache c a)\<rparr>)"
  using assms
proof (induction PA arbitrary: x k c)
  case Nil
  then show ?case by (simp add: own_ports_def)
next
  case (Cons ap PA)
  obtain a p where ap: "ap = (a, p)" by fastforce
  obtain m y where k: "k = Suc m" "x = Some a" "map_option pc_next (st_pcache c a) = Some y"
      "path (\<lambda>a. map_option pc_next (st_pcache c a)) y (map fst PA)" "length PA \<le> m"
    using Cons.prems(1,4) ap by (cases k) auto
  have da: "a \<notin> fst ` set PA" using path_distinct [OF Cons.prems(1)] ap by simp
  have dp: "p \<notin> snd ` set PA" using Cons.prems(2) ap by simp
  have "pcache_owns c a p" using Cons.prems(3) [of a p] ap by simp
  then obtain pc where pc: "st_pcache c a = Some pc" "pc_port pc = Some p"
      "port_stored_to_fabric pc = 0 \<longrightarrow> p \<in> dom (st_ports (f_int c))" unfolding pcache_owns_def by blast
  have py: "pc_next pc = y" using k(3) pc(1) by simp
  let ?own = "if port_stored_to_fabric pc = 0 then {p} else {}"
  let ?c = "c\<lparr>f_int := (f_int c)\<lparr>st_ports := (\<lambda>q. if q \<in> ?own then None else st_ports (f_int c) q)\<rparr>, st_pcache := (st_pcache c)(a := None)\<rparr>"
  have step: "destroy_ibnd_port_cache a c = Some ?c"
  proof (cases "port_stored_to_fabric pc = 0")
    case True
    have "(st_ports (f_int c))(p := None) = (\<lambda>q. if q = p then None else st_ports (f_int c) q)" by auto
    then show ?thesis using pc True by (auto simp: destroy_ibnd_port_cache_def on_f_int_def free_port_def)
  next
    case False
    then show ?thesis using pc by (simp add: destroy_ibnd_port_cache_def)
  qed
  have own: "pcache_owns ?c b q" if "(b, q) \<in> set PA" for b q
  proof -
    have "b \<noteq> a" "q \<noteq> p" using da dp that by force+
    then show ?thesis using Cons.prems(3) [of b q] that by (auto simp: pcache_owns_def)
  qed
  have "path (\<lambda>b. map_option pc_next (st_pcache ?c b)) y (map fst PA)"
    by (rule path_cong [OF k(4)]) (use da in auto)
  then have run: "destroy_port_caches m y ?c = Some (?c\<lparr>
      f_int := (f_int ?c)\<lparr>st_ports := (\<lambda>q. if q \<in> own_ports ?c PA then None else st_ports (f_int ?c) q)\<rparr>,
      st_pcache := (\<lambda>b. if b \<in> fst ` set PA then None else st_pcache ?c b)\<rparr>)"
    using Cons.prems(2) own k(5) by (intro Cons.IH) simp_all
  have "own_ports c (ap # PA) = own_ports ?c PA \<union> ?own"
    using da pc(1) by (auto simp: own_ports_def image_iff ap split: if_splits)
  then have e1: "(\<lambda>q. if q \<in> own_ports ?c PA then None else st_ports (f_int ?c) q) =
      (\<lambda>q. if q \<in> own_ports c (ap # PA) then None else st_ports (f_int c) q)" by (auto simp: fun_eq_iff)
  have e2: "(\<lambda>b. if b \<in> fst ` set PA then None else st_pcache ?c b) =
      (\<lambda>b. if b \<in> fst ` set (ap # PA) then None else st_pcache c b)" by (auto simp: fun_eq_iff ap)
  have "destroy_port_caches k x c = destroy_port_caches m y ?c" using k(1,2) pc(1) py step by simp
  then show ?case unfolding run e1 e2 by simp
qed

definition cache_lists :: "'m fabric_cache \<Rightarrow> (ptr \<times> ptr) list \<Rightarrow> (ptr \<times> ptr) list \<Rightarrow> bool" where
  \<comment> \<open>what the clean-up relies on\<close>
  "cache_lists c NA PA \<longleftrightarrow> path (\<lambda>a. map_option nc_next (st_ncache c a)) (nodes_cache c) (map fst NA) \<and>
     path (\<lambda>a. map_option pc_next (st_pcache c a)) (ports_cache c) (map fst PA) \<and>
     distinct (map snd NA) \<and> distinct (map snd PA) \<and> dom (st_ncache c) = fst ` set NA \<and> dom (st_pcache c) = fst ` set PA \<and>
     length NA \<le> st_next (f_int c) \<and> length PA \<le> st_next (f_int c)"

lemma destroy_fabric_cache_frees:
  fixes c :: "'m fabric_cache"
  assumes "cache_lists c NA PA"
    and "\<And>a p. (a, p) \<in> set NA \<Longrightarrow> ncache_owns c a p" and "\<And>a p. (a, p) \<in> set PA \<Longrightarrow> pcache_owns c a p"
  shows "destroy_ibnd_fabric_cache c = Some (c\<lparr>f_int := (f_int c)\<lparr>
      st_nodes := (\<lambda>p. if p \<in> own_nodes c NA then None else st_nodes (f_int c) p),
      st_ports := (\<lambda>p. if p \<in> own_ports c PA then None else st_ports (f_int c) p)\<rparr>,
    st_ncache := Map.empty, st_pcache := Map.empty\<rparr>)"
proof -
  note L = assms(1) [unfolded cache_lists_def]
  let ?c = "c\<lparr>f_int := (f_int c)\<lparr>st_nodes := (\<lambda>p. if p \<in> own_nodes c NA then None else st_nodes (f_int c) p)\<rparr>,
      st_ncache := (\<lambda>a. if a \<in> fst ` set NA then None else st_ncache c a)\<rparr>"
  have 1: "destroy_node_caches (Suc (st_next (f_int c))) (nodes_cache c) c = Some ?c"
    by (rule destroy_node_caches_path) (use L assms(2) in simp_all)
  have own: "pcache_owns ?c a p" if "(a, p) \<in> set PA" for a p
    using assms(3) [OF that] by (auto simp: pcache_owns_def)
  have 2: "destroy_port_caches (Suc (st_next (f_int ?c))) (ports_cache ?c) ?c = Some (?c\<lparr>
      f_int := (f_int ?c)\<lparr>st_ports := (\<lambda>p. if p \<in> own_ports ?c PA then None else st_ports (f_int ?c) p)\<rparr>,
      st_pcache := (\<lambda>a. if a \<in> fst ` set PA then None else st_pcache ?c a)\<rparr>)"
    by (rule destroy_port_caches_path) (use L own in simp_all)
  have e: "(\<lambda>a. if a \<in> fst ` set NA then None else st_ncache c a) = Map.empty"
    "(\<lambda>a. if a \<in> fst ` set PA then None else st_pcache c a) = Map.empty"
  proof -
    have "st_ncache c a = None" if "a \<notin> fst ` set NA" for a using L that by (metis domIff)
    moreover have "st_pcache c a = None" if "a \<notin> fst ` set PA" for a using L that by (metis domIff)
    ultimately show "(\<lambda>a. if a \<in> fst ` set NA then None else st_ncache c a) = Map.empty"
      "(\<lambda>a. if a \<in> fst ` set PA then None else st_pcache c a) = Map.empty" by auto
  qed
  have o: "own_ports ?c PA = own_ports c PA" by (simp add: own_ports_def)
  have 3: "destroy_port_caches (Suc (st_next (f_int ?c))) (ports_cache ?c) ?c = Some (c\<lparr>
      f_int := (f_int c)\<lparr>st_nodes := (\<lambda>p. if p \<in> own_nodes c NA then None else st_nodes (f_int c) p),
        st_ports := (\<lambda>p. if p \<in> own_ports c PA then None else st_ports (f_int c) p)\<rparr>,
      st_ncache := (\<lambda>a. if a \<in> fst ` set NA then None else st_ncache c a),
      st_pcache := (\<lambda>a. if a \<in> fst ` set PA then None else st_pcache c a)\<rparr>)"
    using 2 unfolding o by (simp cong: if_cong)
  then show ?thesis unfolding destroy_ibnd_fabric_cache_def 1 Option.bind.bind_lunit unfolding e by simp
qed

lemma loaded_lists:
  assumes "loaded qm alloc c NA PA"
  shows "cache_lists c NA PA" and "\<And>a p. (a, p) \<in> set NA \<Longrightarrow> ncache_owns c a p" and "\<And>a p. (a, p) \<in> set PA \<Longrightarrow> pcache_owns c a p"
    and "own_nodes c NA = dom (st_nodes (f_int c))" and "own_ports c PA = dom (st_ports (f_int c))"
proof -
  have np: "nodes_part c NA" "ports_part c PA" "unlinked qm alloc c" using assms by (simp_all add: loaded_def)
  have N: "path (\<lambda>a. map_option nc_next (st_ncache c a)) (nodes_cache c) (map fst NA)" "distinct (map snd NA)" "dom (st_ncache c) = fst ` set NA"
      "dom (st_nodes (f_int c)) = snd ` set NA"
    using np(1) unfolding nodes_part_def by blast+
  have P: "path (\<lambda>a. map_option pc_next (st_pcache c a)) (ports_cache c) (map fst PA)" "distinct (map snd PA)" "dom (st_pcache c) = fst ` set PA"
      "dom (st_ports (f_int c)) = snd ` set PA"
    using np(2) unfolding ports_part_def by blast+
  have "length (map fst NA) \<le> st_next (f_int c)"
    by (rule path_bounded [OF N(1)]) (use nodes_part_entry [OF np(1)] in \<open>auto simp: node_entry_def\<close>)
  moreover have "length (map fst PA) \<le> st_next (f_int c)"
    by (rule path_bounded [OF P(1)]) (use ports_part_entry [OF np(2)] in \<open>auto simp: port_entry_def\<close>)
  ultimately show "cache_lists c NA PA" using N P by (simp add: cache_lists_def)
  show "ncache_owns c a p" if "(a, p) \<in> set NA" for a p
    using nodes_part_entry [OF np(1) that] np(3) by (auto simp: ncache_owns_def node_entry_def unlinked_def)
  show "pcache_owns c a p" if "(a, p) \<in> set PA" for a p
    using ports_part_entry [OF np(2) that] by (auto simp: pcache_owns_def port_entry_def)
  have "\<exists>nc. st_ncache c a = Some nc \<and> node_stored_to_fabric nc = 0" if "(a, p) \<in> set NA" for a p
    using nodes_part_entry [OF np(1) that] np(3) by (auto simp: node_entry_def unlinked_def)
  then have "own_nodes c NA = snd ` set NA" unfolding own_nodes_def by (force simp: image_iff)
  then show "own_nodes c NA = dom (st_nodes (f_int c))" using N(4) by blast
  have "\<exists>pc. st_pcache c a = Some pc \<and> port_stored_to_fabric pc = 0" if "(a, p) \<in> set PA" for a p
    using ports_part_entry [OF np(2) that] np(3) by (auto simp: port_entry_def unlinked_def)
  then have "own_ports c PA = snd ` set PA" unfolding own_ports_def by (force simp: image_iff)
  then show "own_ports c PA = dom (st_ports (f_int c))" using P(4) by blast
qed

lemma start_fabric_destroyed:
  assumes "qmap_laws qm sem" and "start_fabric qm alloc f"
  shows "ibnd_destroy_fabric qm f = Some f"
proof -
  have f: "fb_chassis f = None" "fb_nodes f = None" "lid2guid f = qm_init qm"
    using assms(2) by (auto simp: start_fabric_def allocate_fabric_internal_def create_lid2guid_def)
  have e: "sem (qm_init qm) = Map.empty" "case qm_head qm (qm_init qm) of None \<Rightarrow> sem (qm_init qm) = Map.empty | Some p \<Rightarrow> p \<in> ran (sem (qm_init qm))"
    using assms(1) unfolding qmap_laws_def by blast+
  then have "qm_head qm (qm_init qm) = None" by (cases "qm_head qm (qm_init qm)") simp_all
  then show ?thesis by (simp add: ibnd_destroy_fabric_def destroy_lid2guid_def f)
qed

lemma load_failed_frees:
  assumes "qmap_laws qm sem" and "loaded qm alloc c NA PA"
  shows "\<exists>c'. load_failed qm c = Some c' \<and> st_ncache c' = Map.empty \<and> st_pcache c' = Map.empty \<and>
    st_nodes (f_int c') = Map.empty \<and> st_ports (f_int c') = Map.empty \<and> st_items (f_int c') = Map.empty \<and> st_chassis (f_int c') = Map.empty"
proof -
  have s: "start_fabric qm alloc (f_int c)" using assms(2) by (simp add: loaded_def unlinked_def)
  have e: "(\<lambda>p. if p \<in> dom h then None else h p) = Map.empty" for h :: "ptr \<rightharpoonup> 'z" by (auto simp: fun_eq_iff)
  have i: "st_items (f_int c) = Map.empty" "st_chassis (f_int c) = Map.empty"
    using s by (auto simp: start_fabric_def allocate_fabric_internal_def create_lid2guid_def)
  have "load_failed qm c = destroy_ibnd_fabric_cache c"
    using start_fabric_destroyed [OF assms(1) s] by (simp add: load_failed_def on_f_int_def)
  then show ?thesis
    using destroy_fabric_cache_frees [OF loaded_lists(1-3) [OF assms(2)]] loaded_lists(4,5) [OF assms(2)] i by (simp add: e)
qed

text \<open>
  C8 (safety): for every content of the file, every division of the reads and every pattern of
  failing reads and allocations: unless the file has the format and all its records are read, \<open>ibnd_load_fabric\<close>
  returns \<open>NULL\<close> with everything freed, no structure twice.
\<close>

theorem load_bad_file:
  fixes qm :: "'m qmap_ops"
  assumes "qmap_laws qm sem" and "length buf = IBND_FABRIC_CACHE_BUFLEN"
    and "ld_open env = Some fd" and "ld_cache env" and "ld_fabric env"
  shows "(\<exists>c. ibnd_load_fabric qm e buf env (Some file) = Some (None, Some c) \<and> st_ncache c = Map.empty \<and> st_pcache c = Map.empty \<and>
      st_nodes (f_int c) = Map.empty \<and> st_ports (f_int c) = Map.empty \<and> st_items (f_int c) = Map.empty \<and> st_chassis (f_int c) = Map.empty) \<or>
    (\<exists>c ns ps. load_records buf fd (fcache_zero (allocate_fabric_internal qm (ld_alloc env))) = Some (0, c) \<and>
      parse_file (rf_data fd) = Some (from_node_guid c, maxhops_discovered (f_int c), ns, ps))"
proof -
  obtain rc c NA PA where r: "load_records buf fd (fcache_zero (allocate_fabric_internal qm (ld_alloc env))) = Some (rc, c)"
    "loaded qm (ld_alloc env) c NA PA"
    "rc = -1 \<and> (Eio \<in> set (rf_sched fd) \<or> (\<exists>a. \<not> ld_alloc env a) \<or> parse_file (rf_data fd) = None) \<or>
     rc = 0 \<and> (\<exists>ns ps. parse_file (rf_data fd) = Some (from_node_guid c, maxhops_discovered (f_int c), ns, ps) \<and>
       map (node_value c) NA = rev ns \<and> map (port_value c) PA = rev ps)"
    using load_records_parse [OF assms(2), of fd qm "ld_alloc env"] by blast
  show ?thesis
  proof (cases "rc = 0")
    case True
    then show ?thesis using r(1,3) by auto
  next
    case False
    then have "rc = -1" using r(3) by blast
    then show ?thesis
      using load_failed_frees [OF assms(1) r(2)] r(1) assms(3-5) by (auto simp: ibnd_load_fabric_def Let_def)
  qed
qed


section \<open>A node with 256 ports\<close>

text \<open>
  C40 (error): \<open>numports\<close> is a byte of NodeInfo, and a switch has port 0 besides. When all 256 ports of
  a node exist, the counter \<open>ports_stored_count\<close>, a \<open>uint8_t\<close>, is back at 0: the record that
  is written names 256 ports and says that it names none, and a reader takes their keys for the next node.
\<close>

theorem cache_node_count_wraps:
  assumes "st_nodes f p = Some n" and "node_shape n" and "byte_fields n" and "numports n = 255"
    and "\<And>i. i < 256 \<Longrightarrow> \<exists>a x. ports n ! i = Some a \<and> st_ports f a = Some x"
    and "length buf = IBND_FABRIC_CACHE_BUFLEN" and "wf_pos fd = length (wf_data fd)" and "Eio \<notin> set (wf_sched fd)"
  shows "\<exists>fd' ks. cache_node buf f p fd = Some (0, fd') \<and> length ks = 256 \<and>
    wf_data fd' = wf_data fd @ node_header n 0 @ concat (map key_bytes ks) \<and>
    parse_node (drop (length (wf_data fd)) (wf_data fd')) = Some ((cached_node n, []), concat (map key_bytes ks))"
proof -
  have wrap: "(256 :: u8) = 0" by transfer simp
  have len: "length (ports n) = 256" using assms(2,4) by (simp add: node_shape_def)
  have full: "length (keys_of f ps) = length ps" if "None \<notin> set ps" for ps
    using that by (induction f ps rule: keys_of.induct) auto
  have some: "\<exists>a x. e = Some a \<and> st_ports f a = Some x" if "e \<in> set (ports n)" for e
    using that assms(5) unfolding in_set_conv_nth len by blast
  then have "None \<notin> set (ports n)" by blast
  then have k: "length (keys_of f (ports n)) = 256" using full len by simp
  have "a \<in> dom (st_ports f)" if "Some a \<in> set (ports n)" for a using some [OF that] by auto
  then have "appends fd (node_record f p) (cache_node buf f p fd)"
    by (intro cache_node_appends [OF assms(1,2) _ assms(6) _ assms(7)]) (simp_all add: assms(4))
  moreover have "node_record f p = node_header n 0 @ concat (map key_bytes (keys_of f (ports n)))"
    by (simp add: node_record_def assms(1) node_bytes_def k wrap)
  ultimately obtain fd' where w: "cache_node buf f p fd = Some (0, fd')"
      "wf_data fd' = wf_data fd @ node_header n 0 @ concat (map key_bytes (keys_of f (ports n)))"
    using assms(8) by (auto simp: appends_def)
  have s: "node_sized n" using assms(2) by (simp add: node_sized_def node_shape_def)
  have "parse_node (node_bytes n [] @ concat (map key_bytes (keys_of f (ports n)))) =
      Some ((cached_node n, []), concat (map key_bytes (keys_of f (ports n))))"
    by (rule parse_node_bytes [OF s assms(3)]) simp
  then have "parse_node (drop (length (wf_data fd)) (wf_data fd')) = Some ((cached_node n, []), concat (map key_bytes (keys_of f (ports n))))"
    by (simp add: w(2) node_bytes_def)
  then show ?thesis using w k by blast
qed

section \<open>A port number that is too large\<close>

lemma find_eq: "a \<in> set xs \<Longrightarrow> find (\<lambda>b. b = a) xs = Some a"
  by (induction xs) auto

lemma ncache_find_hit:
  assumes "nodes_part c NA" and "(a, p) \<in> set NA" and "nd_guid (the (st_nodes (f_int c) p)) = g"
    and "\<And>b q. (b, q) \<in> set NA \<Longrightarrow> nd_guid (the (st_nodes (f_int c) q)) = g \<Longrightarrow> b = a"
  shows "ncache_find c g = Some (Some a)"
proof -
  let ?f = "filter (\<lambda>(a, p). hash_idx (nd_guid (the (st_nodes (f_int c) p))) = hash_idx g) NA"
  have i: "hash_idx g < HTSZ" by (simp add: hash_idx_def HTSZ_def)
  have pa: "path (\<lambda>a. map_option nc_htnext (st_ncache c a)) (nodescachetbl c ! hash_idx g) (map fst ?f)"
    and tl: "length (nodescachetbl c) = HTSZ"
    using assms(1) i unfolding nodes_part_def by blast+
  have test: "map_option (\<lambda>n. nd_guid n = g) (ncache_node c b) = Some (b = a)" if b: "b \<in> set (map fst ?f)" for b
  proof -
    obtain q where q: "(b, q) \<in> set NA" using b by auto
    then obtain nc n where n: "st_ncache c b = Some nc" "nc_node nc = Some q" "st_nodes (f_int c) q = Some n"
      using nodes_part_entry [OF assms(1)] unfolding node_entry_def by blast
    have "nd_guid n = g \<longleftrightarrow> b = a"
    proof
      assume "nd_guid n = g" then show "b = a" using assms(4) [OF q] n(3) by simp
    next
      assume "b = a"
      then obtain nc' n' where "st_ncache c b = Some nc'" "nc_node nc' = Some p" "st_nodes (f_int c) p = Some n'"
        using nodes_part_entry [OF assms(1,2)] unfolding node_entry_def by blast
      then show "nd_guid n = g" using n assms(3) by simp
    qed
    then show ?thesis using n by (simp add: ncache_node_def)
  qed
  have len: "length (map fst ?f) \<le> Suc (st_next (f_int c))"
  proof -
    have "length (map fst ?f) \<le> st_next (f_int c)"
      by (rule path_bounded [OF pa]) (use nodes_part_entry [OF assms(1)] in \<open>auto simp: node_entry_def\<close>)
    then show ?thesis by simp
  qed
  have "a \<in> set (map fst ?f)" using assms(2,3) by (force simp: image_iff)
  from find_eq [OF this] show ?thesis
    using find_chain_path [OF pa, of _ "\<lambda>b. b = a", OF test len] tl i by (simp add: ncache_find_def mem_rd_def)
qed

lemma pcache_find_hit:
  assumes "ports_part c PA" and "(a, p) \<in> set PA" and "po_guid (the (st_ports (f_int c) p)) = ck_guid k"
    and "portnum (the (st_ports (f_int c) p)) = uint (ck_portnum k)"
    and "\<And>b q. (b, q) \<in> set PA \<Longrightarrow> po_guid (the (st_ports (f_int c) q)) = ck_guid k \<Longrightarrow>
      portnum (the (st_ports (f_int c) q)) = uint (ck_portnum k) \<Longrightarrow> b = a"
  shows "pcache_find c k = Some (Some a)"
proof -
  let ?f = "filter (\<lambda>(a, p). hash_idx (po_guid (the (st_ports (f_int c) p))) = hash_idx (ck_guid k)) PA"
  have i: "hash_idx (ck_guid k) < HTSZ" by (simp add: hash_idx_def HTSZ_def)
  have pa: "path (\<lambda>a. map_option pc_htnext (st_pcache c a)) (portscachetbl c ! hash_idx (ck_guid k)) (map fst ?f)"
    and tl: "length (portscachetbl c) = HTSZ"
    using assms(1) i unfolding ports_part_def by blast+
  have test: "map_option (\<lambda>x. po_guid x = ck_guid k \<and> portnum x = uint (ck_portnum k)) (pcache_port c b) = Some (b = a)"
    if b: "b \<in> set (map fst ?f)" for b
  proof -
    obtain q where q: "(b, q) \<in> set PA" using b by auto
    then obtain pc x where x: "st_pcache c b = Some pc" "pc_port pc = Some q" "st_ports (f_int c) q = Some x"
      using ports_part_entry [OF assms(1)] unfolding port_entry_def by blast
    have "po_guid x = ck_guid k \<and> portnum x = uint (ck_portnum k) \<longleftrightarrow> b = a"
    proof
      assume "po_guid x = ck_guid k \<and> portnum x = uint (ck_portnum k)" then show "b = a" using assms(5) [OF q] x(3) by simp
    next
      assume "b = a"
      then obtain pc' x' where "st_pcache c b = Some pc'" "pc_port pc' = Some p" "st_ports (f_int c) p = Some x'"
        using ports_part_entry [OF assms(1,2)] unfolding port_entry_def by blast
      then show "po_guid x = ck_guid k \<and> portnum x = uint (ck_portnum k)" using x assms(3,4) by simp
    qed
    then show ?thesis using x by (simp add: pcache_port_def)
  qed
  have len: "length (map fst ?f) \<le> Suc (st_next (f_int c))"
  proof -
    have "length (map fst ?f) \<le> st_next (f_int c)"
      by (rule path_bounded [OF pa]) (use ports_part_entry [OF assms(1)] in \<open>auto simp: port_entry_def\<close>)
    then show ?thesis by simp
  qed
  have "a \<in> set (map fst ?f)" using assms(2,3) by (force simp: image_iff)
  from find_eq [OF this] show ?thesis
    using find_chain_path [OF pa, of _ "\<lambda>b. b = a", OF test len] tl i by (simp add: pcache_find_def mem_rd_def)
qed

lemma start_fabric_fields:
  assumes "start_fabric qm alloc f"
  shows "fb_nodes f = None" and "nodestbl f = replicate HTSZ None" and "portstbl f = replicate HTSZ None"
    and "switches f = None" and "ch_adapters f = None" and "routers f = None" and "st_alloc f = alloc"
  using assms by (auto simp: start_fabric_def allocate_fabric_internal_def create_lid2guid_def)

text \<open>
  C39 (error): the number of a port that the file gives is the index at which the port is stored into the array of its
  node, which has \<open>numports + 1\<close> entries; nothing compares the two. Every file with one node and one
  port of it whose number is larger is read without complaint and then written behind the end of the array.
\<close>

theorem load_port_overrun:
  fixes qm :: "'m qmap_ops"
  assumes "node_sized n" and "byte_fields n" and "length (po_info x) = 64" and "portnum x \<in> {0..<256}" and "ext_portnum x \<in> {0..<256}"
    and "numports n < portnum x"
    and "ld_open env = Some \<lparr>rf_data = header_bytes 1 1 (nd_guid n) h @ node_bytes n [port_key x] @ port_bytes x ng r, rf_sched = sched\<rparr>"
    and "Eio \<notin> set sched" and "ld_cache env" and "ld_fabric env" and "\<And>a. ld_alloc env a"
    and "length buf = IBND_FABRIC_CACHE_BUFLEN"
  shows "ibnd_load_fabric qm e buf env (Some file) = None"
proof -
  let ?fd = "\<lparr>rf_data = header_bytes 1 1 (nd_guid n) h @ node_bytes n [port_key x] @ port_bytes x ng r, rf_sched = sched\<rparr>"
  let ?pv = "(cached_port x, ng, if r = None then 0 else 1 :: u8, case r of None \<Rightarrow> key_zero | Some k \<Rightarrow> k)"
  have "parse_port (port_bytes x ng r @ []) = Some (?pv, [])" by (rule parse_port_bytes) (use assms in simp_all)
  moreover have "parse_node (node_bytes n [port_key x] @ port_bytes x ng r) = Some ((cached_node n, [port_key x]), port_bytes x ng r)"
    by (rule parse_node_bytes) (use assms in simp_all)
  ultimately have p: "parse_file (rf_data ?fd) = Some (nd_guid n, h, [(cached_node n, [port_key x])], [?pv])"
    by (simp add: parse_file_def parse_header_bytes)
  have al: "ld_alloc env = (\<lambda>_. True)" using assms(11) by auto
  obtain rc c NA PA where r: "load_records buf ?fd (fcache_zero (allocate_fabric_internal qm (ld_alloc env))) = Some (rc, c)"
    "loaded qm (ld_alloc env) c NA PA"
    "rc = -1 \<and> (Eio \<in> set (rf_sched ?fd) \<or> (\<exists>a. \<not> ld_alloc env a) \<or> parse_file (rf_data ?fd) = None) \<or>
     rc = 0 \<and> (\<exists>ns ps. parse_file (rf_data ?fd) = Some (from_node_guid c, maxhops_discovered (f_int c), ns, ps) \<and>
       map (node_value c) NA = rev ns \<and> map (port_value c) PA = rev ps)"
    using load_records_parse [OF assms(12), of ?fd qm "ld_alloc env"] by blast
  have v: "rc = 0" "from_node_guid c = nd_guid n" "map (node_value c) NA = [(cached_node n, [port_key x])]" "map (port_value c) PA = [?pv]"
  proof -
    have "rf_sched ?fd = sched" by simp
    then have "rc = 0 \<and> (\<exists>ns ps. parse_file (rf_data ?fd) = Some (from_node_guid c, maxhops_discovered (f_int c), ns, ps) \<and>
       map (node_value c) NA = rev ns \<and> map (port_value c) PA = rev ps)"
      using r(3) assms(8,11) p by (metis option.distinct(1))
    then show "rc = 0" "from_node_guid c = nd_guid n" "map (node_value c) NA = [(cached_node n, [port_key x])]" "map (port_value c) PA = [?pv]"
      unfolding p by simp_all
  qed
  obtain a p b q where ap: "NA = [(a, p)]" "PA = [(b, q)]" using v(3,4) by (auto simp: map_eq_Cons_conv)
  have np: "nodes_part c NA" "ports_part c PA" "unlinked qm (ld_alloc env) c" using r(2) by (simp_all add: loaded_def)
  obtain nc where nc: "st_ncache c a = Some nc" "nc_node nc = Some p" "unat (ports_stored_count nc) = length (port_cache_keys nc)"
      "st_nodes (f_int c) p = Some (cached_node n)" "port_cache_keys nc = [port_key x]"
    using nodes_part_entry [OF np(1), of a p] ap v(3) by (auto simp: node_entry_def node_value_def)
  obtain pc where pc: "st_pcache c b = Some pc" "pc_port pc = Some q" "st_ports (f_int c) q = Some (cached_port x)" "port_stored_to_fabric pc = 0"
    using ports_part_entry [OF np(2), of b q] ap v(4) np(3) by (auto simp: port_entry_def port_value_def unlinked_def)
  have heads: "nodes_cache c = Some a" "nc_next nc = None" using np(1) ap nc(1) by (auto simp: nodes_part_def)
  have g: "nd_guid (cached_node n) = nd_guid n" "numports (cached_node n) = numports n" "ports (cached_node n) = []"
    "po_guid (cached_port x) = po_guid x" "portnum (cached_port x) = portnum x"
    by (simp_all add: cached_node_def cached_port_def node_zero_def)
  have find1: "ncache_find c (from_node_guid c) = Some (Some a)"
    unfolding v(2) by (rule ncache_find_hit [OF np(1), of a p]) (simp_all add: ap nc(4) g)
  note st = start_fabric_fields [OF np(3) [unfolded unlinked_def, THEN conjunct1]]
  have i: "hash_idx (nd_guid n) < HTSZ" by (simp add: hash_idx_def HTSZ_def)
  let ?c = "c\<lparr>f_int := (f_int c)\<lparr>from_node := nc_node nc\<rparr>\<rparr>"
  have fill: "fill_port p (port_key x) c' = None"
    if c': "st_pcache c' = st_pcache c" "st_ports (f_int c') = st_ports (f_int c)" "portscachetbl c' = portscachetbl c"
      "ports_cache c' = ports_cache c" "st_next (f_int c) \<le> st_next (f_int c')"
      "st_nodes (f_int c') p = Some m" "length (ports m) = nat (numports n + 1)" for c' :: "'m fabric_cache" and m
  proof -
    have pp: "ports_part c' PA" by (rule ports_part_cong [OF np(2)]) (use c' in simp_all)
    have "pcache_find c' (port_key x) = Some (Some b)"
      by (rule pcache_find_hit [OF pp, of b q]) (use assms(4) in \<open>simp_all add: ap c'(2) pc(3) g port_key_def uint_byte\<close>)
    moreover have "mem_wr (ports m) (nat (portnum x)) (Some q) = None" using assms(6) c'(7) by (simp add: mem_wr_def)
    ultimately show ?thesis using c' pc g by (simp add: fill_port_def)
  qed
  have "rebuild_node a ?c = None"
  proof -
    obtain f1 where f1: "add_to_nodeguid_hash p ((f_int ?c)\<lparr>st_nodes := (st_nodes (f_int c))(p \<mapsto> (cached_node n)\<lparr>nd_next := None\<rparr>), fb_nodes := Some p\<rparr>) = Some (0, f1)"
      "st_ports f1 = st_ports (f_int c)" "st_next f1 = st_next (f_int c)" "st_alloc f1 = st_alloc (f_int c)"
      "\<exists>m. st_nodes f1 p = Some m \<and> numports m = numports n"
      using st i by (simp add: add_to_nodeguid_hash_def Let_def g mem_rd_def find_chain_def)
    obtain f2 where f2: "add_to_type_list p f1 = Some f2"
      "st_ports f2 = st_ports (f_int c)" "st_next f2 = st_next (f_int c)" "st_alloc f2 = st_alloc (f_int c)"
      "\<exists>m. st_nodes f2 p = Some m \<and> numports m = numports n"
      using f1(2-5) by (fastforce simp: add_to_type_list_def Let_def split: if_splits)
    then obtain m where m: "st_nodes f2 p = Some m" "numports m = numports n" by blast
    have u: "unat (ports_stored_count nc) = 1" using nc(3,5) by simp
    show ?thesis
      using nc heads f1(1) f2(1-4) m st al u
      by (simp add: rebuild_node_def upd_node_def Let_def new_cache_addr_eq mem_load_def fill [of _ "m\<lparr>ports := replicate (nat (numports n + 1)) None\<rparr>"])
  qed
  then have "rebuild_nodes (Suc (st_next (f_int ?c))) (nodes_cache ?c) ?c = None"
    using heads nc(1) by simp
  then have "rebuild_fabric qm e c = None"
    using find1 nc(1) by (simp add: rebuild_fabric_def Let_def del: rebuild_nodes.simps)
  then show ?thesis using r(1) v(1) assms(7,9,10) by (simp add: ibnd_load_fabric_def Let_def)
qed

section \<open>Concrete states\<close>

definition example_cached :: "(u64 \<times> ptr) list fabric" where
  \<comment> \<open>one node with two ports, both in the table of ports\<close>
  "example_cached = example_fabric\<lparr>from_node := Some 0, portstbl := Some 2 # replicate 136 None,
     st_ports := [2 \<mapsto> port_zero\<lparr>po_node := Some 0, po_htnext := Some 3, remoteport := Some 3\<rparr>,
       3 \<mapsto> port_zero\<lparr>po_node := Some 0, portnum := 1, remoteport := Some 2\<rparr>]\<rparr>"

lemma example_cached_ok:
  "cacheable example_cached [0] ([2, 3] # replicate 136 [])" "fits_bytes example_cached [0] (concat ([2, 3] # replicate 136 []))"
proof -
  have n: "st_nodes example_cached = [0 \<mapsto> node_zero\<lparr>nd_type := 1, numports := 1, ports := [Some 2, Some 3]\<rparr>]"
    and p: "st_ports example_cached = [2 \<mapsto> port_zero\<lparr>po_node := Some 0, po_htnext := Some 3, remoteport := Some 3\<rparr>,
       3 \<mapsto> port_zero\<lparr>po_node := Some 0, portnum := 1, remoteport := Some 2\<rparr>]"
    and e: "fb_nodes example_cached = Some 0" "portstbl example_cached = Some 2 # replicate 136 None" "st_next example_cached = 4"
      "from_node example_cached = Some 0"
    by (simp_all add: example_cached_def example_fabric_def)
  have "list_all2 (path (port_next example_cached)) (replicate 136 None) (replicate 136 [])"
    by (simp add: list_all2_conv_all_nth)
  then show "cacheable example_cached [0] ([2, 3] # replicate 136 [])"
    unfolding cacheable_def e
    by (auto simp: node_next_def port_next_def n p node_zero_def port_zero_def HTSZ_def node_shape_def byte_fields_def
        CHASSIS_TYPE_SIZE_def port_writable_def)
  show "fits_bytes example_cached [0] (concat ([2, 3] # replicate 136 []))"
    by (auto simp: fits_bytes_def n p port_zero_def)
qed

theorem cache_file_roundtrip_witness:
  "\<exists>fd c NA PA. cache_records (replicate 4096 7) example_cached \<lparr>wf_data = [], wf_pos = 0, wf_sched = [Chunk 3, Eintr, Chunk 0], wf_seekable = True\<rparr> = Some (0, fd) \<and>
    load_records (replicate 4096 9) \<lparr>rf_data = wf_data fd, rf_sched = [Eintr, Chunk 5]\<rparr>
      (fcache_zero (allocate_fabric_internal alist_qmap (\<lambda>_. True))) = Some (0, c) \<and>
    map (node_value c) NA = [node_image example_cached 0] \<and> map (port_value c) PA = [port_image example_cached 3, port_image example_cached 2]"
proof -
  have "length (replicate 4096 (7 :: u8)) = IBND_FABRIC_CACHE_BUFLEN" "length (replicate 4096 (9 :: u8)) = IBND_FABRIC_CACHE_BUFLEN"
    "Eio \<notin> set [Chunk 3, Eintr, Chunk 0]" "Eio \<notin> set [Eintr, Chunk 5]"
    by (simp_all add: IBND_FABRIC_CACHE_BUFLEN_def)
  note trip = cache_file_roundtrip [OF example_cached_ok this, of alist_qmap]
  have "rev (map (node_image example_cached) [0]) = [node_image example_cached 0]"
    "rev (map (port_image example_cached) (concat ([2, 3] # replicate 136 []))) = [port_image example_cached 3, port_image example_cached 2]"
    by simp_all
  from trip [unfolded this] show ?thesis by (elim exE conjE) (intro exI conjI)
qed

theorem load_bad_file_witness:
  "\<exists>c. ibnd_load_fabric alist_qmap LE (replicate 4096 0) \<lparr>ld_open = Some \<lparr>rf_data = [0, 1, 2], rf_sched = []\<rparr>, ld_cache = True,
      ld_fabric = True, ld_alloc = (\<lambda>_. True)\<rparr> (Some ''cache'') = Some (None, Some c) \<and> st_ncache c = Map.empty"
proof -
  have "parse_file [0, 1, 2] = None" by (simp add: parse_file_def parse_header_def)
  then show ?thesis
    using load_bad_file [OF alist_qmap_laws, of "replicate 4096 0" "\<lparr>ld_open = Some \<lparr>rf_data = [0, 1, 2], rf_sched = []\<rparr>, ld_cache = True,
      ld_fabric = True, ld_alloc = (\<lambda>_. True)\<rparr>" "\<lparr>rf_data = [0, 1, 2], rf_sched = []\<rparr>" LE "''cache''"]
    by (auto simp: IBND_FABRIC_CACHE_BUFLEN_def)
qed

theorem cache_node_count_wraps_witness:
  "\<exists>fd' ks. cache_node (replicate 4096 0) (example_fabric\<lparr>
      st_nodes := [0 \<mapsto> node_zero\<lparr>nd_type := 2, numports := 255, ports := replicate 256 (Some 2)\<rparr>]\<rparr>) 0
      \<lparr>wf_data = [], wf_pos = 0, wf_sched = [], wf_seekable = True\<rparr> = Some (0, fd') \<and> length ks = 256 \<and>
    wf_data fd' = node_header (node_zero\<lparr>nd_type := 2, numports := 255, ports := replicate 256 (Some 2)\<rparr>) 0 @ concat (map key_bytes ks)"
  using cache_node_count_wraps [of "example_fabric\<lparr>st_nodes := [0 \<mapsto> node_zero\<lparr>nd_type := 2, numports := 255, ports := replicate 256 (Some 2)\<rparr>]\<rparr>"
      0 "node_zero\<lparr>nd_type := 2, numports := 255, ports := replicate 256 (Some 2)\<rparr>" "replicate 4096 0"
      "\<lparr>wf_data = [], wf_pos = 0, wf_sched = [], wf_seekable = True\<rparr>"]
  by (auto simp: node_shape_def byte_fields_def node_zero_def CHASSIS_TYPE_SIZE_def IBND_FABRIC_CACHE_BUFLEN_def example_fabric_def)

theorem load_port_overrun_witness:
  "ibnd_load_fabric alist_qmap LE (replicate 4096 0) \<lparr>ld_open = Some \<lparr>rf_data = header_bytes 1 1 0 0 @
       node_bytes (node_zero\<lparr>nd_type := 1, numports := 1\<rparr>) [port_key (port_zero\<lparr>portnum := 2\<rparr>)] @
       port_bytes (port_zero\<lparr>portnum := 2\<rparr>) 0 None, rf_sched = []\<rparr>, ld_cache = True, ld_fabric = True, ld_alloc = (\<lambda>_. True)\<rparr>
     (Some ''cache'') = None"
  by (rule load_port_overrun [where n = "node_zero\<lparr>nd_type := 1, numports := 1\<rparr>" and x = "port_zero\<lparr>portnum := 2\<rparr>" and h = 0 and ng = 0 and r = None and sched = "[]"])
    (simp_all add: node_sized_def byte_fields_def node_zero_def port_zero_def IBND_FABRIC_CACHE_BUFLEN_def)

theorem load_records_refines_witness:
  "\<exists>c NA PA. load_records (replicate 4096 0) \<lparr>rf_data = header_bytes 0 0 5 3, rf_sched = [Chunk 6]\<rparr>
      (fcache_zero (allocate_fabric_internal alist_qmap (\<lambda>_. True))) = Some (0, c) \<and> loaded alist_qmap (\<lambda>_. True) c NA PA \<and>
    from_node_guid c = 5"
proof -
  have "parse_file (header_bytes 0 0 5 3) = Some (5, 3, [], [])"
    using parse_header_bytes [of 0 0 5 3 "[]"] by (simp add: parse_file_def)
  then show ?thesis
    using load_records_refines [of "replicate 4096 0" "\<lparr>rf_data = header_bytes 0 0 5 3, rf_sched = [Chunk 6]\<rparr>" alist_qmap "\<lambda>_. True"]
    by (auto simp: IBND_FABRIC_CACHE_BUFLEN_def)
qed

end
