(* ===== verification/FieldMore.thy ===== *)
theory FieldMore
  imports FieldTable
begin

text \<open>
  The numbers of the further fields of \<open>enum MAD_FIELDS\<close> that the models of the tools name, checked against the enumeration, and their
  descriptors.
\<close>

section \<open>Numbers\<close>

definition IB_SA_MKEY_F :: nat where [c_eval]: "IB_SA_MKEY_F = 19"
definition IB_PORT_MKEY_F :: nat where [c_eval]: "IB_PORT_MKEY_F = 27"
definition IB_PORT_LINK_WIDTH_SUPPORTED_F :: nat where [c_eval]: "IB_PORT_LINK_WIDTH_SUPPORTED_F = 36"
definition IB_PORT_LINK_SPEED_SUPPORTED_F :: nat where [c_eval]: "IB_PORT_LINK_SPEED_SUPPORTED_F = 38"
definition IB_SW_LINEAR_FDB_CAP_F :: nat where [c_eval]: "IB_SW_LINEAR_FDB_CAP_F = 88"
definition IB_SW_MCAST_FDB_CAP_F :: nat where [c_eval]: "IB_SW_MCAST_FDB_CAP_F = 90"
definition IB_SW_LINEAR_FDB_TOP_F :: nat where [c_eval]: "IB_SW_LINEAR_FDB_TOP_F = 91"
definition IB_PORT_LINK_SPEED_EXT_SUPPORTED_F :: nat where [c_eval]: "IB_PORT_LINK_SPEED_EXT_SUPPORTED_F = 325"
definition IB_MLNX_EXT_PORT_LINK_SPEED_SUPPORTED_F :: nat where [c_eval]: "IB_MLNX_EXT_PORT_LINK_SPEED_SUPPORTED_F = 516"

definition more_constants_1 :: "(string \<times> nat) list" where
  "more_constants_1 = [(''IB_SA_MKEY_F'', IB_SA_MKEY_F),
     (''IB_PORT_MKEY_F'', IB_PORT_MKEY_F),
     (''IB_PORT_LINK_WIDTH_SUPPORTED_F'', IB_PORT_LINK_WIDTH_SUPPORTED_F),
     (''IB_PORT_LINK_SPEED_SUPPORTED_F'', IB_PORT_LINK_SPEED_SUPPORTED_F),
     (''IB_SW_LINEAR_FDB_CAP_F'', IB_SW_LINEAR_FDB_CAP_F),
     (''IB_SW_MCAST_FDB_CAP_F'', IB_SW_MCAST_FDB_CAP_F),
     (''IB_SW_LINEAR_FDB_TOP_F'', IB_SW_LINEAR_FDB_TOP_F)]"

lemma more_in_1: "subseq more_constants_1 (enum_values MAD_FIELDS_1 0 env)"
  by (rule agrees_subseq) (simp add: more_constants_1_def MAD_FIELDS_1_def c_eval)

definition more_constants_4 :: "(string \<times> nat) list" where
  "more_constants_4 = [(''IB_PORT_LINK_SPEED_EXT_SUPPORTED_F'', IB_PORT_LINK_SPEED_EXT_SUPPORTED_F)]"

lemma more_in_4: "subseq more_constants_4 (enum_values MAD_FIELDS_4 295 env)"
  by (rule agrees_subseq) (simp add: more_constants_4_def MAD_FIELDS_4_def c_eval)

definition more_constants_6 :: "(string \<times> nat) list" where
  "more_constants_6 = [(''IB_MLNX_EXT_PORT_LINK_SPEED_SUPPORTED_F'', IB_MLNX_EXT_PORT_LINK_SPEED_SUPPORTED_F)]"

lemma more_in_6: "subseq more_constants_6 (enum_values MAD_FIELDS_6 510 env)"
  by (rule agrees_subseq) (simp add: more_constants_6_def MAD_FIELDS_6_def c_eval)

definition more_constants :: "(string \<times> nat) list" where
  "more_constants = more_constants_1 @ [] @ [] @ more_constants_4 @ [] @ more_constants_6 @ []"

lemma more_constants_agree: "subseq more_constants (enum_values MAD_FIELDS 0 [])"
  unfolding more_constants_def MAD_FIELDS_def enum_values_append
    enum_next_1 enum_next_2 enum_next_3 enum_next_4 enum_next_5 enum_next_6
  by (intro list_emb_append_mono more_in_1 list_emb_Nil list_emb_Nil more_in_4 list_emb_Nil more_in_6 list_emb_Nil)

section \<open>Descriptors\<close>

lemma fd_IB_SA_MKEY_F: "field_desc IB_SA_MKEY_F =
    Some \<lparr>bitoffs = 288, bitlen = 64, name = ''SaSMkey'', def_dump_fn = Some Dump_hex\<rparr>"
  by (simp add: field_desc_def length_ib_mad_f c_eval ib_mad_f_def nth_append ib_mad_f_1_def BITSOFFS_def BE_OFFS_def)

lemma fd_IB_PORT_MKEY_F: "field_desc IB_PORT_MKEY_F =
    Some \<lparr>bitoffs = 0, bitlen = 64, name = ''Mkey'', def_dump_fn = Some Dump_hex\<rparr>"
  by (simp add: field_desc_def length_ib_mad_f c_eval ib_mad_f_def nth_append ib_mad_f_1_def BITSOFFS_def BE_OFFS_def)

lemma fd_IB_PORT_LINK_WIDTH_SUPPORTED_F: "field_desc IB_PORT_LINK_WIDTH_SUPPORTED_F =
    Some \<lparr>bitoffs = 232, bitlen = 8, name = ''LinkWidthSupported'', def_dump_fn = Some Dump_linkwidthsup\<rparr>"
  by (simp add: field_desc_def length_ib_mad_f c_eval ib_mad_f_def nth_append ib_mad_f_1_def BITSOFFS_def BE_OFFS_def)

lemma fd_IB_PORT_LINK_SPEED_SUPPORTED_F: "field_desc IB_PORT_LINK_SPEED_SUPPORTED_F =
    Some \<lparr>bitoffs = 284, bitlen = 4, name = ''LinkSpeedSupported'', def_dump_fn = Some Dump_linkspeedsup\<rparr>"
  by (simp add: field_desc_def length_ib_mad_f c_eval ib_mad_f_def nth_append ib_mad_f_1_def BITSOFFS_def BE_OFFS_def)

lemma fd_IB_SW_LINEAR_FDB_CAP_F: "field_desc IB_SW_LINEAR_FDB_CAP_F =
    Some \<lparr>bitoffs = 16, bitlen = 16, name = ''LinearFdbCap'', def_dump_fn = Some Dump_uint\<rparr>"
  by (simp add: field_desc_def length_ib_mad_f c_eval ib_mad_f_def nth_append ib_mad_f_1_def BITSOFFS_def BE_OFFS_def)

lemma fd_IB_SW_MCAST_FDB_CAP_F: "field_desc IB_SW_MCAST_FDB_CAP_F =
    Some \<lparr>bitoffs = 48, bitlen = 16, name = ''McastFdbCap'', def_dump_fn = Some Dump_uint\<rparr>"
  by (simp add: field_desc_def length_ib_mad_f c_eval ib_mad_f_def nth_append ib_mad_f_1_def BITSOFFS_def BE_OFFS_def)

lemma fd_IB_SW_LINEAR_FDB_TOP_F: "field_desc IB_SW_LINEAR_FDB_TOP_F =
    Some \<lparr>bitoffs = 32, bitlen = 16, name = ''LinearFdbTop'', def_dump_fn = Some Dump_uint\<rparr>"
  by (simp add: field_desc_def length_ib_mad_f c_eval ib_mad_f_def nth_append ib_mad_f_1_def BITSOFFS_def BE_OFFS_def)

lemma fd_IB_PORT_LINK_SPEED_EXT_SUPPORTED_F: "field_desc IB_PORT_LINK_SPEED_EXT_SUPPORTED_F =
    Some \<lparr>bitoffs = 488, bitlen = 4, name = ''LinkSpeedExtSupported'', def_dump_fn = Some Dump_linkspeedextsup\<rparr>"
  by (simp add: field_desc_def length_ib_mad_f c_eval ib_mad_f_def nth_append ib_mad_f_4_def BITSOFFS_def BE_OFFS_def)

lemma fd_IB_MLNX_EXT_PORT_LINK_SPEED_SUPPORTED_F: "field_desc IB_MLNX_EXT_PORT_LINK_SPEED_SUPPORTED_F =
    Some \<lparr>bitoffs = 32, bitlen = 8, name = ''LinkSpeedSupported'', def_dump_fn = Some Dump_hex\<rparr>"
  by (simp add: field_desc_def length_ib_mad_f c_eval ib_mad_f_def nth_append ib_mad_f_5_def BITSOFFS_def BE_OFFS_def)

lemmas more_descs =
  fd_IB_SA_MKEY_F
  fd_IB_PORT_MKEY_F
  fd_IB_PORT_LINK_WIDTH_SUPPORTED_F
  fd_IB_PORT_LINK_SPEED_SUPPORTED_F
  fd_IB_SW_LINEAR_FDB_CAP_F
  fd_IB_SW_MCAST_FDB_CAP_F
  fd_IB_SW_LINEAR_FDB_TOP_F
  fd_IB_PORT_LINK_SPEED_EXT_SUPPORTED_F
  fd_IB_MLNX_EXT_PORT_LINK_SPEED_SUPPORTED_F

end
