(* ===== verification/IbTool.thy ===== *)
theory IbTool
  imports FieldMore Discover MadDump MadResolve "HOL-Library.Signed_Division"
begin

text \<open>
  What the models of the command line tools (\<open>src/*.c\<close>) share: a query as the tools make it, and the conversions of
  \<open>printf\<close> their reports use. The tools are modelled over an arbitrary query function, which
  answers, or not, and moves to a next state; \<open>smp_ask\<close> is the one the programs run with. What a tool prints is a string of its
  state.
\<close>

section \<open>Queries\<close>

text \<open>The answer, if any, the address as the call leaves it and the next state\<close>

type_synonym 's ask = "ib_portid_t \<Rightarrow> u32 \<Rightarrow> u32 \<Rightarrow> 's \<Rightarrow> (mem option \<times> ib_portid_t \<times> 's) option"

definition smp_ask :: "endian \<Rightarrow> int \<Rightarrow> ibmad_port \<Rightarrow> mad_state ask" where
  \<comment> \<open>\<open>memset(buf, 0, 64); smp_query_via(buf, portid, attrid, mod, timeout, srcport)\<close>\<close>
  "smp_ask e timeout srcport portid attrid amod st = do {
     (ok, buf, portid, st) \<leftarrow> smp_query_via e st (replicate 64 0) portid attrid amod timeout srcport;
     Some (if ok then Some buf else None, portid, st)
   }"

definition net_ask :: "(ib_portid_t \<Rightarrow> u32 \<Rightarrow> u32 \<Rightarrow> mem option) \<Rightarrow> 's ask" where
  \<comment> \<open>a network that does not change: every address and attribute has one answer\<close>
  "net_ask net portid attrid amod s = Some (net portid attrid amod, portid, s)"

section \<open>Text\<close>

definition hex64 :: "u64 \<Rightarrow> string" where
  \<comment> \<open>\<open>%016lx\<close>\<close>
  "hex64 g = pad0 16 (hex False (unat g))"

definition dec_u :: "int \<Rightarrow> string" where
  \<comment> \<open>\<open>%u\<close> of an \<open>int\<close>\<close>
  "dec_u i = dec (unat (word_of_int i :: u32))"

definition NEWLINE :: string where
  "NEWLINE = [CHR 0x0A]"

definition quoted :: "string \<Rightarrow> string" where
  "quoted s = CHR 0x22 # s @ [CHR 0x22]"

end
