(* ===== verification/IbDiag.thy ===== *)
theory IbDiag
  imports IbTool "HOL-Library.Sublist"
begin

text \<open>
  What the tools share (\<open>src/ibdiag_common.c\<close>): the configuration file, the common options and the option string for \<open>getopt_long\<close>,
  resolving addresses without asking the local port, what a link could run at, and the printing of fields.
  Files are the lists of lines \<open>fgets\<close> returns; what \<open>getopt_long\<close>, \<open>getpass\<close> and \<open>umad_get_port\<close> return are arguments.
  Using a \<open>NULL\<close> pointer is \<open>None\<close>. The usage text and warnings have no model.
\<close>

section \<open>The configuration\<close>

record ibdiag =
  ibd_ca :: "string option"
  ibd_ca_port :: int
  ibd_timeout :: int
  ibd_ibnetdisc_flags :: u32
  ibd_mkey :: u64
  ibd_sakey :: u64
  ibd_nd_format :: "string option"
  ibd_dest_type :: MAD_DEST
  ibd_sm_id :: "ib_portid_t option"
  show_keys :: bool
  ibverbose :: int
  ibdebug :: int
  ibd_show_errors :: bool \<comment> \<open>\<open>madrpc_show_errors\<close>\<close>
  ibd_rpc_timeout :: "int option" \<comment> \<open>\<open>madrpc_set_timeout\<close>\<close>

definition ibdiag_start :: ibdiag where
  \<comment> \<open>the initial values of the globals\<close>
  "ibdiag_start = \<lparr>ibd_ca = None, ibd_ca_port = 0, ibd_timeout = 0, ibd_ibnetdisc_flags = IBND_CONFIG_MLX_EPI, ibd_mkey = 0, ibd_sakey = 0,
     ibd_nd_format = None, ibd_dest_type = IB_DEST_LID, ibd_sm_id = None, show_keys = False, ibverbose = 0, ibdebug = 0,
     ibd_show_errors = False, ibd_rpc_timeout = None\<rparr>"

definition strtok :: "char \<Rightarrow> string \<Rightarrow> string option \<times> string" where
  \<comment> \<open>\<open>strtok_r\<close> with one delimiter: the token and what it leaves\<close>
  "strtok d s = (let t = dropWhile (\<lambda>c. c = d) s in
     (if t = [] then None else Some (takeWhile (\<lambda>c. c \<noteq> d) t), tl (dropWhile (\<lambda>c. c \<noteq> d) t @ [NUL])))"

definition strtoul_int :: "string \<Rightarrow> int" where
  \<comment> \<open>\<open>strtoul(s, NULL, 0)\<close> stored in an \<open>int\<close>\<close>
  "strtoul_int s = int_of_u32 (ucast (fst (c_strtoull 0 s)))"

definition val_str_true :: "string \<Rightarrow> bool" where
  "val_str_true s \<longleftrightarrow> prefix ''TRUE'' s \<or> prefix ''true'' s"

definition config_line :: "string \<Rightarrow> ibdiag \<Rightarrow> ibdiag option" where
  "config_line buf c = (case strtok CHR 0x0A buf of
     (None, _) \<Rightarrow> Some c
   | (Some p, _) \<Rightarrow>
       if hd p = CHR ''#'' then Some c
       else (let (name, rest) = strtok CHR ''='' p; val = fst (strtok CHR 0x0A (c_str rest)) in do {
         name \<leftarrow> name;
         if prefix ''CA'' name then map_option (\<lambda>v. c\<lparr>ibd_ca := Some v\<rparr>) val
         else if prefix ''Port'' name then map_option (\<lambda>v. c\<lparr>ibd_ca_port := strtoul_int v\<rparr>) val
         else if prefix ''timeout'' name then map_option (\<lambda>v. c\<lparr>ibd_timeout := strtoul_int v\<rparr>) val
         else if prefix ''MLX_EPI'' name then map_option (\<lambda>v. c\<lparr>ibd_ibnetdisc_flags :=
           (if val_str_true v then ibd_ibnetdisc_flags c OR IBND_CONFIG_MLX_EPI
            else ibd_ibnetdisc_flags c AND NOT IBND_CONFIG_MLX_EPI)\<rparr>) val
         else if prefix ''m_key'' name then map_option (\<lambda>v. c\<lparr>ibd_mkey := fst (c_strtoull 0 v)\<rparr>) val
         else if prefix ''sa_key'' name then map_option (\<lambda>v. c\<lparr>ibd_sakey := fst (c_strtoull 0 v)\<rparr>) val
         else if prefix ''nd_format'' name then map_option (\<lambda>v. c\<lparr>ibd_nd_format := Some v\<rparr>) val
         else Some c
       }))"

fun config_lines :: "string list \<Rightarrow> ibdiag \<Rightarrow> ibdiag option" where
  "config_lines [] c = Some c"
| "config_lines (l # ls) c = do { c \<leftarrow> config_line l c; config_lines ls c }"

definition read_ibdiag_config :: "string list option \<Rightarrow> ibdiag \<Rightarrow> ibdiag option" where
  \<comment> \<open>a missing file is ignored\<close>
  "read_ibdiag_config file c = (case file of None \<Rightarrow> Some c | Some ls \<Rightarrow> config_lines ls c)"

section \<open>Options\<close>

record ibdiag_opt =
  op_name :: string
  op_letter :: nat
  op_has_arg :: nat

definition common_opts :: "ibdiag_opt list" where
  "common_opts = map (\<lambda>(n, l, a). \<lparr>op_name = n, op_letter = of_char l, op_has_arg = a\<rparr>) [
     (''config'', CHR ''z'', 1), (''Ca'', CHR ''C'', 1), (''Port'', CHR ''P'', 1), (''Direct'', CHR ''D'', 0), (''Lid'', CHR ''L'', 0),
     (''Guid'', CHR ''G'', 0), (''timeout'', CHR ''t'', 1), (''sm_port'', CHR ''s'', 1), (''show_keys'', CHR ''K'', 0),
     (''m_key'', CHR ''y'', 1), (''errors'', CHR ''e'', 0), (''verbose'', CHR ''v'', 0), (''debug'', CHR ''d'', 0),
     (''help'', CHR ''h'', 0), (''version'', CHR ''V'', 0)]"

definition make_opt :: "ibdiag_opt \<Rightarrow> ibdiag_opt option list \<Rightarrow> ibdiag_opt option list option" where
  \<comment> \<open>the first option with a letter takes its entry in the map\<close>
  "make_opt opt mp = do {
     x \<leftarrow> mem_rd mp (op_letter opt);
     if x = None then mem_wr mp (op_letter opt) (Some opt) else Some mp
   }"

fun make_opts :: "ibdiag_opt list \<Rightarrow> ibdiag_opt option list \<Rightarrow> ibdiag_opt option list option" where
  "make_opts [] mp = Some mp"
| "make_opts (opt # os) mp = do { mp \<leftarrow> make_opt opt mp; make_opts os mp }"

definition long_opts :: "string \<Rightarrow> ibdiag_opt list \<Rightarrow> ibdiag_opt list" where
  \<comment> \<open>the options of the tool, then the common ones it does not exclude\<close>
  "long_opts exclude custom = custom @ filter (\<lambda>opt. char_of (op_letter opt) \<notin> set exclude) common_opts"

definition make_long_opts :: "string \<Rightarrow> ibdiag_opt list \<Rightarrow> ibdiag_opt option list \<Rightarrow> (ibdiag_opt list \<times> ibdiag_opt option list) option" where
  "make_long_opts exclude custom mp = map_option (Pair (long_opts exclude custom)) (make_opts (long_opts exclude custom) mp)"

fun make_str_loop :: "ibdiag_opt list \<Rightarrow> cbuf \<Rightarrow> nat \<Rightarrow> nat \<Rightarrow> (cbuf \<times> nat) option" where
  \<comment> \<open>a letter, and a colon for every argument, while they fit\<close>
  "make_str_loop [] p n sz = Some (p, n)"
| "make_str_loop (opt # os) p n sz =
     (if n + 2 + op_has_arg opt < sz then do {
        p \<leftarrow> mem_store p n (char_of (op_letter opt) # replicate (op_has_arg opt) CHR '':'');
        make_str_loop os p (n + 1 + op_has_arg opt) sz
      } else Some (p, n))"

definition make_str_opts :: "ibdiag_opt list \<Rightarrow> cbuf \<Rightarrow> nat \<Rightarrow> cbuf option" where
  "make_str_opts os p sz = do { (p, n) \<leftarrow> make_str_loop os p 0 sz; mem_wr p n NUL }"

text \<open>An option is handled, is not one of the common ones, or ends the program with a status\<close>

datatype 'c opt_end = Handled 'c | Unknown | Exit int

definition common_opt :: "(string list option) \<Rightarrow> string \<Rightarrow> char \<Rightarrow> string \<Rightarrow> ibdiag \<Rightarrow> ibdiag opt_end option" where
  \<comment> \<open>\<open>process_opt\<close>; \<open>file\<close> is the file that option \<open>z\<close> names, \<open>pass\<close> the answer to \<open>getpass\<close>\<close>
  "common_opt file pass ch arg c = (
     if ch = CHR ''z'' then map_option Handled (read_ibdiag_config file c)
     else if ch = CHR ''h'' then Some (Exit 2)
     else if ch = CHR ''V'' then Some (Exit 0)
     else if ch = CHR ''e'' then Some (Handled (c\<lparr>ibd_show_errors := True\<rparr>))
     else if ch = CHR ''v'' then Some (Handled (c\<lparr>ibverbose := ibverbose c + 1\<rparr>))
     else if ch = CHR ''d'' then Some (Handled (c\<lparr>ibdebug := ibdebug c + 1, ibd_show_errors := True\<rparr>))
     else if ch = CHR ''C'' then Some (Handled (c\<lparr>ibd_ca := Some arg\<rparr>))
     else if ch = CHR ''P'' then Some (Handled (c\<lparr>ibd_ca_port := strtoul_int arg\<rparr>))
     else if ch = CHR ''D'' then Some (Handled (c\<lparr>ibd_dest_type := IB_DEST_DRPATH\<rparr>))
     else if ch = CHR ''L'' then Some (Handled (c\<lparr>ibd_dest_type := IB_DEST_LID\<rparr>))
     else if ch = CHR ''G'' then Some (Handled (c\<lparr>ibd_dest_type := IB_DEST_GUID\<rparr>))
     else if ch = CHR ''t'' then
       (let (val, rest) = c_strtol 0 arg in
        Some (if rest \<noteq> [] \<or> val \<le> 0 \<or> val > 2 ^ 31 - 1 then Exit (-1)
              else Handled (c\<lparr>ibd_timeout := val, ibd_rpc_timeout := Some val\<rparr>)))
     else if ch = CHR ''s'' then
       (let lid = to_int (fst (c_strtol 0 arg)) in
        Some (if \<not> IB_LID_VALID lid then Exit (-1)
              else Handled (c\<lparr>ibd_sm_id := Some (ib_portid_set portid_zero lid 0 0)\<rparr>)))
     else if ch = CHR ''K'' then Some (Handled (c\<lparr>show_keys := True\<rparr>))
     else if ch = CHR ''y'' then
       (let bad = (\<lambda>s. \<bar>fst (scan_signed 0 s)\<bar> > 2 ^ 64 - 1 \<or> snd (c_strtoull 0 s) \<noteq> []) in
        Some (if \<not> bad arg then Handled (c\<lparr>ibd_mkey := fst (c_strtoull 0 arg)\<rparr>)
              else if \<not> bad pass then Handled (c\<lparr>ibd_mkey := fst (c_strtoull 0 pass)\<rparr>) else Exit (-1)))
     else Some Unknown)"

fun opts_loop :: "(string \<Rightarrow> string list option) \<Rightarrow> string \<Rightarrow> ibdiag_opt option list \<Rightarrow> (nat \<Rightarrow> string \<Rightarrow> 't \<Rightarrow> (bool \<times> 't) option) \<Rightarrow>
    (nat \<times> string) list \<Rightarrow> ibdiag \<times> 't \<Rightarrow> (ibdiag \<times> 't) opt_end option" where
  \<comment> \<open>one round for every result of \<open>getopt_long\<close>; the handler of the tool answers whether it knows the option\<close>
  "opts_loop files pass mp handler [] (c, t) = Some (Handled (c, t))"
| "opts_loop files pass mp handler ((ch, arg) # rs) (c, t) = do {
     known \<leftarrow> mem_rd mp ch;
     if known = None then Some (Exit 2)
     else do {
       (mine, t) \<leftarrow> handler ch arg t;
       if mine then opts_loop files pass mp handler rs (c, t)
       else do {
         r \<leftarrow> common_opt (files arg) pass (char_of ch) arg c;
         case r of Handled c \<Rightarrow> opts_loop files pass mp handler rs (c, t)
         | Unknown \<Rightarrow> Some (Exit 2)
         | Exit n \<Rightarrow> Some (Exit n)
       }
     }
   }"

definition ibdiag_process_opts :: "string list option \<Rightarrow> (string \<Rightarrow> string list option) \<Rightarrow> string \<Rightarrow> string \<Rightarrow> ibdiag_opt list \<Rightarrow>
    (nat \<Rightarrow> string \<Rightarrow> 't \<Rightarrow> (bool \<times> 't) option) \<Rightarrow> (cbuf \<Rightarrow> (nat \<times> string) list) \<Rightarrow> cbuf \<Rightarrow> ibdiag \<times> 't \<Rightarrow> (ibdiag \<times> 't) opt_end option" where
  \<comment> \<open>\<open>junk\<close>: the local array \<open>str_opts\<close>; \<open>getopt\<close> is applied to the option string\<close>
  "ibdiag_process_opts config files pass exclude custom handler getopt junk = (\<lambda>(c, t). do {
     (os, mp) \<leftarrow> make_long_opts exclude custom (replicate 256 None);
     c \<leftarrow> read_ibdiag_config config c;
     str \<leftarrow> make_str_opts os junk 1024;
     opts_loop files pass mp handler (getopt str) (c, t)
   })"

section \<open>Counts for people\<close>

fun bit_length :: "nat \<Rightarrow> nat" where
  "bit_length n = (if n = 0 then 0 else Suc (bit_length (n div 2)))"

declare bit_length.simps [simp del]

definition float_u64 :: "nat \<Rightarrow> nat" where
  \<comment> \<open>\<open>(float)\<close> of an integer: 24 significant bits, to the nearest, ties to even\<close>
  "float_u64 n = (let k = bit_length n - 24; q = n div 2 ^ k; r = n mod 2 ^ k in
     (if 2 * r > 2 ^ k \<or> 2 * r = 2 ^ k \<and> odd q then q + 1 else q) * 2 ^ k)"

fun cnt_units :: "nat \<Rightarrow> nat" where
  \<comment> \<open>\<open>tmp /= 1024; while (tmp) { ui++; tmp /= 1024; div *= 1024; }\<close>\<close>
  "cnt_units n = (if n < 1024 then 0 else Suc (cnt_units (n div 1024)))"

declare cnt_units.simps [simp del]

definition unit_names :: "bool \<Rightarrow> string list" where
  "unit_names data = (if data then [''B'', ''KB'', ''MB'', ''GB'', ''TB'', ''PB'', ''EB''] else [[], ''K'', ''M'', ''G'', ''T'', ''P'', ''E''])"

definition conv_cnt_human_readable :: "u64 \<Rightarrow> bool \<Rightarrow> string \<times> nat \<times> nat" where
  \<comment> \<open>the unit, and the value as numerator and divisor, a power of 2: the division is exact\<close>
  "conv_cnt_human_readable val64 data =
     (let ui = cnt_units (unat val64); d = 1024 ^ ui; v = float_u64 (unat val64);
          (ui, d, v) = (if data then (if 4 * v > 1024 * d then (ui + 1, d * 1024, 4 * v) else (ui, d, 4 * v)) else (ui, d, v))
      in (if ui < 7 then unit_names data ! ui else [], v, d))"

section \<open>Capabilities of a port\<close>

definition IB_PORT_CAP_HAS_CAP_MASK2 :: u32 where [c_eval]: "IB_PORT_CAP_HAS_CAP_MASK2 = 0x8000"
definition IB_PORT_CAP2_IS_PORT_INFO_EXT_SUPPORTED :: u16 where [c_eval]: "IB_PORT_CAP2_IS_PORT_INFO_EXT_SUPPORTED = 0x0002"

text \<open>\<open>Inl\<close> ends the program with this status.\<close>

definition is_port_info_extended_supported :: "endian \<Rightarrow> 's ask \<Rightarrow> ib_portid_t \<Rightarrow> int \<Rightarrow> 's \<Rightarrow> ((int + bool) \<times> ib_portid_t \<times> 's) option" where
  \<comment> \<open>\<open>cap_mask2\<close> is a \<open>uint16_t\<close>: two bytes\<close>
  "is_port_info_extended_supported e ask dest port s = do {
     (ni, dest, s) \<leftarrow> ask dest IB_ATTR_NODE_INFO 0 s;
     case ni of None \<Rightarrow> Some (Inl (-1), dest, s)
     | Some ni \<Rightarrow> do {
     type \<leftarrow> decode_int e ni IB_NODE_TYPE_F;
     (pi, dest, s) \<leftarrow> ask dest IB_ATTR_PORT_INFO (word_of_int (if type = uint IB_NODE_SWITCH then 0 else port)) s;
     case pi of None \<Rightarrow> Some (Inl (-1), dest, s)
     | Some pi \<Rightarrow> do {
     cap_mask \<leftarrow> decode_int e pi IB_PORT_CAPMASK_F;
     if word_of_int cap_mask AND IB_PORT_CAP_HAS_CAP_MASK2 = 0 then Some (Inr False, dest, s)
     else do {
       bs \<leftarrow> mad_decode_field e pi IB_PORT_CAPMASK2_F (replicate 2 0);
       Some (Inr (native_word e bs AND IB_PORT_CAP2_IS_PORT_INFO_EXT_SUPPORTED \<noteq> 0), dest, s)
     }
     }}
   }"

definition mlnx_ext_port_info_device :: "u32 \<Rightarrow> u32 \<Rightarrow> u16 \<Rightarrow> bool" where
  \<comment> \<open>\<open>is_mlnx_ext_port_info_supported\<close> of the tools, with \<open>ibd_ibnetdisc_flags\<close>\<close>
  "mlnx_ext_port_info_device flags vendorid devid \<longleftrightarrow>
     flags AND IBND_CONFIG_MLX_EPI \<noteq> 0 \<and>
     (0xc738 \<le> devid \<and> devid \<le> 0xc73b \<or>
      devid \<in> {0xc839, 0xcb20, 0xcf08, 0xcf09, 0xd2f0} \<or>
      vendorid = 0x119f \<and> (devid \<in> {0x1b02, 0x1b50, 0x1ba0} \<or> 0x1bd0 \<le> devid \<and> devid \<le> 0x1bd5 \<or> devid = 0x1bf0) \<or>
      0x1003 \<le> devid \<and> devid \<le> 0x101b \<or> devid = 0xa2d2 \<or>
      vendorid = 0x119f \<and> (devid \<in> {0x1b33, 0x1b73, 0x1b40, 0x1b41, 0x1b60, 0x1b61, 0x1b83, 0x1b93, 0x1b94, 0x1bb4, 0x1bb5} \<or>
        0x1bc4 \<le> devid \<and> devid \<le> 0x1bc6))"

section \<open>Addresses\<close>

text \<open>What \<open>umad_get_port\<close> says of the local port, or its negative result\<close>

record umad_port_t =
  up_base_lid :: int
  up_sm_lid :: int
  up_sm_sl :: int
  up_portnum :: int
  up_gid_prefix :: u64 \<comment> \<open>in network order\<close>
  up_port_guid :: u64

definition resolve_sm_portid :: "(int + umad_port_t) \<Rightarrow> int \<times> ib_portid_t option" where
  \<comment> \<open>the address, unless the call fails\<close>
  "resolve_sm_portid up = (case up of Inl rc \<Rightarrow> (rc, None)
     | Inr port \<Rightarrow> (0, Some (portid_zero\<lparr>pt_lid := up_sm_lid port, pt_sl := word_of_int (up_sm_sl port)\<rparr>)))"

definition resolve_self :: "endian \<Rightarrow> (int + umad_port_t) \<Rightarrow> (int \<times> (ib_portid_t \<times> int \<times> mem) option) option" where
  \<comment> \<open>the address, the number and the GID; the callers take what they asked for\<close>
  "resolve_self e up = (case up of Inl rc \<Rightarrow> Some (rc, None)
     | Inr port \<Rightarrow> do {
         gid \<leftarrow> mad_encode_field e (replicate 16 0) IB_GID_PREFIX_F (native_bytes e 8 (ntohll e (up_gid_prefix port)));
         gid \<leftarrow> mad_encode_field e gid IB_GID_GUID_F (native_bytes e 8 (ntohll e (up_port_guid port)));
         Some (0, Some (portid_zero\<lparr>pt_lid := up_base_lid port, pt_sl := word_of_int (up_sm_sl port)\<rparr>, up_portnum port, gid))
       })"

definition sm_address :: "(int + umad_port_t) \<Rightarrow> ib_portid_t option \<Rightarrow> ib_portid_t option" where
  \<comment> \<open>\<open>if (!sm_id) { sm_id = &tmp; if (resolve_sm_portid(...) < 0) return -1; }\<close>\<close>
  "sm_address up sm_id = (case sm_id of Some s \<Rightarrow> Some s
     | None \<Rightarrow> (let (rc, s) = resolve_sm_portid up in if rc < 0 then None else s))"

definition resolve_gid :: "endian \<Rightarrow> (int + umad_port_t) \<Rightarrow> mad_state \<Rightarrow> ib_portid_t \<Rightarrow> mem \<Rightarrow> ib_portid_t option \<Rightarrow> ibmad_port \<Rightarrow>
    (int \<times> ib_portid_t \<times> mad_state) option" where
  "resolve_gid e up st portid gid sm_id srcport = (case sm_address up sm_id of None \<Rightarrow> Some (-1, portid, st)
     | Some sm \<Rightarrow> do {
         (lid, _, _, st) \<leftarrow> ib_path_query_via e st srcport gid gid sm (replicate IB_SA_DATA_SIZE 0);
         Some (if lid < 0 then -1 else 0, portid\<lparr>pt_lid := lid\<rparr>, st)
       })"

definition resolve_guid :: "endian \<Rightarrow> (int + umad_port_t) \<Rightarrow> mad_state \<Rightarrow> ib_portid_t \<Rightarrow> u64 \<Rightarrow> ib_portid_t option \<Rightarrow> ibmad_port \<Rightarrow>
    (int \<times> ib_portid_t \<times> mad_state) option" where
  "resolve_guid e up st portid guid sm_id srcport = (case sm_address up sm_id of None \<Rightarrow> Some (-1, portid, st)
     | Some sm \<Rightarrow> do {
         (rc, self) \<leftarrow> resolve_self e up;
         if rc < 0 then Some (-1, portid, st)
         else do {
           (_, _, selfgid) \<leftarrow> self;
           p \<leftarrow> mem_load (pt_gid portid) 0 8;
           gid \<leftarrow> (if native_word e p = (0 :: u64) then mad_set_field64 e (pt_gid portid) 0 IB_GID_PREFIX_F IB_DEFAULT_SUBN_PREFIX
                  else Some (pt_gid portid));
           gid \<leftarrow> mad_set_field64 e gid 0 IB_GID_GUID_F guid;
           (lid, _, buf, st) \<leftarrow> ib_path_query_via e st srcport selfgid gid sm (replicate IB_SA_DATA_SIZE 0);
           let portid = portid\<lparr>pt_gid := gid, pt_lid := lid\<rparr>;
           if lid < 0 then Some (-1, portid, st)
           else do {
             sl \<leftarrow> decode_sl e buf IB_SA_PR_SL_F (pt_sl portid);
             Some (0, portid\<lparr>pt_sl := sl\<rparr>, st)
           }
         }
       })"

definition resolve_portid_str :: "endian \<Rightarrow> (string \<Rightarrow> u8 list option) \<Rightarrow> (int + umad_port_t) \<Rightarrow> string \<Rightarrow> MAD_DEST \<Rightarrow> ib_portid_t option \<Rightarrow>
    ibmad_port \<Rightarrow> mad_state \<Rightarrow> (int \<times> ib_portid_t \<times> mad_state) option" where
  "resolve_portid_str e inet_pton up addr_str dest_type sm_id srcport st =
     (let portid = portid_zero in
      case dest_type of
        IB_DEST_LID \<Rightarrow>
          (let lid = to_int (fst (c_strtol 0 addr_str)) in
           Some (if \<not> IB_LID_VALID lid then (-1, portid, st) else (0, ib_portid_set portid lid 0 0, st)))
      | IB_DEST_DRPATH \<Rightarrow> do {
          (r, route) \<leftarrow> str2drpath True (pt_drpath portid) (Some addr_str) 0 0;
          Some (if r < 0 then -1 else 0, portid\<lparr>pt_drpath := route\<rparr>, st)
        }
      | IB_DEST_GUID \<Rightarrow>
          (let guid = fst (c_strtoull 0 addr_str) in
           if guid = 0 then Some (-1, portid, st) else resolve_guid e up st portid guid sm_id srcport)
      | IB_DEST_DRSLID \<Rightarrow>
          (let (v, rest) = c_strtol 0 addr_str; lid = to_int v in
           if \<not> IB_LID_VALID lid then Some (-1, portid, st)
           else do {
             let portid = ib_portid_set portid lid 0 0;
             (rc, self) \<leftarrow> resolve_self e up;
             if rc < 0 then Some (-1, portid, st)
             else do {
               (selfportid, _, _) \<leftarrow> self;
               routepath \<leftarrow> (if rest = [] then None else Some (tl rest));
               (r, route) \<leftarrow> str2drpath True (pt_drpath portid) (Some routepath) (pt_lid selfportid) 0;
               Some (if r < 0 then -1 else 0, portid\<lparr>pt_drpath := route\<rparr>, st)
             }
           })
      | IB_DEST_GID \<Rightarrow>
          (case inet_pton addr_str of None \<Rightarrow> Some (-1, portid, st)
           | Some gid \<Rightarrow> resolve_gid e up st portid gid sm_id srcport)
      | IB_DEST_other \<Rightarrow> Some (-1, portid, st))"

section \<open>What a link could run at\<close>

definition get_max_width :: "u32 \<Rightarrow> u32" where
  "get_max_width num = push_bit (
     if bit num 3 then 3
     else if bit num 2 then 2
     else if bit num 1 then 1
     else if bit num 4 then 4
     else 0) 1"

fun lg :: "nat \<Rightarrow> nat" where
  \<comment> \<open>\<open>while (num >>= 1) r++;\<close>\<close>
  "lg n = (if n < 2 then 0 else Suc (lg (n div 2)))"

declare lg.simps [simp del]

definition get_max :: "u32 \<Rightarrow> u32" where
  "get_max num = push_bit (lg (unat num)) 1"

definition FDR10 :: u32 where [c_eval]: "FDR10 = 0x01"

definition could_be :: "endian \<Rightarrow> cbuf \<Rightarrow> nat \<Rightarrow> nat \<Rightarrow> u32 \<Rightarrow> cbuf \<Rightarrow> cbuf option" where
  \<comment> \<open>\<open>snprintf(msg, msg_size, "Could be %s", mad_dump_val(field, buf, 64, &max))\<close>; the first buffer is the local array\<close>
  "could_be e junk sz field m msg = do {
     r \<leftarrow> mad_dump_val e field junk 0 64 (native_bytes e 4 m);
     buf \<leftarrow> r;
     c_snprintf msg 0 sz (''Could be '' @ c_str buf)
   }"

definition port_cap_mask :: "'m fabric \<Rightarrow> ibnd_port_t \<Rightarrow> u32 option" where
  \<comment> \<open>of port 0 for a switch, 0 when there is none\<close>
  "port_cap_mask f p = do {
     node \<leftarrow> po_node p;
     n \<leftarrow> st_nodes f node;
     if nd_type n = uint IB_NODE_SWITCH then do {
       x \<leftarrow> mem_rd (ports n) 0;
       case x of None \<Rightarrow> Some 0 | Some a \<Rightarrow> do { p0 \<leftarrow> st_ports f a; mad_get_field (po_info p0) 0 IB_PORT_CAPMASK_F }
     } else mad_get_field (po_info p) 0 IB_PORT_CAPMASK_F
   }"

definition both_fields :: "ibnd_port_t \<Rightarrow> ibnd_port_t \<Rightarrow> nat \<Rightarrow> u32 option" where
  "both_fields p q field = do { a \<leftarrow> mad_get_field (po_info p) 0 field; b \<leftarrow> mad_get_field (po_info q) 0 field; Some (a AND b) }"

definition max_speed_msg :: "endian \<Rightarrow> cbuf \<Rightarrow> nat \<Rightarrow> ibnd_port_t \<Rightarrow> ibnd_port_t \<Rightarrow> cbuf \<Rightarrow> cbuf option" where
  \<comment> \<open>from the label \<open>check_fdr10_supp\<close>\<close>
  "max_speed_msg e junk sz p q msg = do {
     a \<leftarrow> mad_get_field (ext_info p) 0 IB_MLNX_EXT_PORT_LINK_SPEED_SUPPORTED_F;
     b \<leftarrow> mad_get_field (ext_info q) 0 IB_MLNX_EXT_PORT_LINK_SPEED_SUPPORTED_F;
     if a AND FDR10 \<noteq> 0 \<and> b AND FDR10 \<noteq> 0 then do {
       act \<leftarrow> mad_get_field (ext_info p) 0 IB_MLNX_EXT_PORT_LINK_SPEED_ACTIVE_F;
       if act AND FDR10 \<noteq> 0 then Some msg
       else do {
         speed \<leftarrow> mad_get_field (po_info p) 0 IB_PORT_LINK_SPEED_ACTIVE_F;
         c_snprintf msg 0 sz (if speed = 4 then ''Could be FDR10 (Found link at QDR but expected speed is FDR10)'' else ''Could be FDR10'')
       }
     } else do {
       m \<leftarrow> map_option get_max (both_fields p q IB_PORT_LINK_SPEED_SUPPORTED_F);
       act \<leftarrow> mad_get_field (po_info p) 0 IB_PORT_LINK_SPEED_ACTIVE_F;
       if m AND act \<noteq> 0 then Some msg else could_be e junk sz IB_PORT_LINK_SPEED_ACTIVE_F m msg
     }
   }"

definition get_max_msg :: "endian \<Rightarrow> cbuf \<Rightarrow> 'm fabric \<Rightarrow> cbuf \<Rightarrow> cbuf \<Rightarrow> nat \<Rightarrow> ptr \<Rightarrow> (cbuf \<times> cbuf) option" where
  "get_max_msg e junk f width_msg speed_msg sz port = do {
     p \<leftarrow> st_ports f port;
     r \<leftarrow> remoteport p;
     q \<leftarrow> st_ports f r;
     m \<leftarrow> map_option get_max_width (both_fields p q IB_PORT_LINK_WIDTH_SUPPORTED_F);
     act \<leftarrow> mad_get_field (po_info p) 0 IB_PORT_LINK_WIDTH_ACTIVE_F;
     width_msg \<leftarrow> (if m AND act \<noteq> 0 then Some width_msg else could_be e junk sz IB_PORT_LINK_WIDTH_ACTIVE_F m width_msg);
     cap \<leftarrow> port_cap_mask f p;
     rem \<leftarrow> port_cap_mask f q;
     ext \<leftarrow> (if cap AND IB_PORT_CAP_HAS_EXT_SPEEDS \<noteq> 0 \<and> rem AND IB_PORT_CAP_HAS_EXT_SPEEDS \<noteq> 0 then do {
         a \<leftarrow> mad_get_field (po_info p) 0 IB_PORT_LINK_SPEED_EXT_SUPPORTED_F;
         b \<leftarrow> mad_get_field (po_info q) 0 IB_PORT_LINK_SPEED_EXT_SUPPORTED_F;
         Some (a \<noteq> 0 \<and> b \<noteq> 0)
       } else Some False);
     speed_msg \<leftarrow> (if ext then do {
         m \<leftarrow> map_option get_max (both_fields p q IB_PORT_LINK_SPEED_EXT_SUPPORTED_F);
         act \<leftarrow> mad_get_field (po_info p) 0 IB_PORT_LINK_SPEED_EXT_ACTIVE_F;
         if m AND act \<noteq> 0 then Some speed_msg else could_be e junk sz IB_PORT_LINK_SPEED_EXT_ACTIVE_F m speed_msg
       } else max_speed_msg e junk sz p q speed_msg);
     Some (width_msg, speed_msg)
   }"

section \<open>Printing fields\<close>

definition NOT_DISPLAYED_STR :: string where "NOT_DISPLAYED_STR = ''<not displayed>''"

definition snprint_field :: "cbuf \<Rightarrow> nat \<Rightarrow> nat \<Rightarrow> nat \<Rightarrow> string \<Rightarrow> (nat \<times> cbuf) option" where
  \<comment> \<open>also \<open>vsnprint_field\<close>; \<open>s\<close> is what the format yields\<close>
  "snprint_field buf n field spacing s = do {
     nm \<leftarrow> mad_field_name field;
     let len = length nm;
     if len + 2 > n \<or> spacing + 1 > n then Some (0, buf)
     else do {
       buf \<leftarrow> mem_store buf 0 (nm @ replicate (n - len) NUL);
       buf \<leftarrow> mem_wr buf len CHR '':'';
       buf \<leftarrow> mem_store buf (len + 1) (replicate (spacing - len) CHR ''.'');
       buf \<leftarrow> c_snprintf buf (spacing + 1) (n - spacing) s;
       buf \<leftarrow> (if length s \<ge> n - spacing then mem_wr buf n NUL else Some buf);
       Some (length s + spacing, buf)
     }
   }"

fun portinfo_lines :: "endian \<Rightarrow> bool \<Rightarrow> nat \<Rightarrow> mem \<Rightarrow> nat list \<Rightarrow> mem \<Rightarrow> cbuf \<Rightarrow> string \<Rightarrow> (bool \<times> mem \<times> cbuf \<times> string) option" where
  \<comment> \<open>a loop of \<open>dump_portinfo\<close>; \<open>keys\<close>: security keys are shown; \<open>val\<close> and \<open>buf\<close> are the local arrays\<close>
  "portinfo_lines e keys tabs info [] val buf out = Some (True, val, buf, out)"
| "portinfo_lines e keys tabs info (field # fs) val buf out = do {
     (ok, val, buf) \<leftarrow> (if field = IB_PORT_MKEY_F \<and> \<not> keys
       then map_option (\<lambda>(_, buf). (True, val, buf)) (snprint_field buf 1024 field 32 NOT_DISPLAYED_STR)
       else do {
         val \<leftarrow> mad_decode_field e info field val;
         r \<leftarrow> mad_dump_field e field buf 0 1024 val;
         Some (case r of None \<Rightarrow> (False, val, buf) | Some buf \<Rightarrow> (True, val, buf))
       });
     let out = out @ replicate tabs CHR 0x09;
     if \<not> ok then Some (False, val, buf, out)
     else portinfo_lines e keys tabs info fs val buf (out @ c_str buf @ NEWLINE)
   }"

definition dump_portinfo :: "endian \<Rightarrow> bool \<Rightarrow> mem \<Rightarrow> nat \<Rightarrow> mem \<Rightarrow> cbuf \<Rightarrow> string option" where
  "dump_portinfo e keys info tabs val buf = do {
     (ok, val, buf, out) \<leftarrow> portinfo_lines e keys tabs info [IB_PORT_FIRST_F..<IB_PORT_LAST_F] val buf [];
     if \<not> ok then Some out
     else map_option (\<lambda>(_, _, _, out). out)
       (portinfo_lines e True tabs info [IB_PORT_CAPMASK2_F..<IB_PORT_LINK_SPEED_EXT_LAST_F] val buf out)
   }"

section \<open>Operations by name\<close>

definition lower :: "char \<Rightarrow> char" where
  "lower c = (let n = of_char c :: nat in if 65 \<le> n \<and> n \<le> 90 then char_of (n + 32) else c)"

definition same_name :: "string \<Rightarrow> string \<Rightarrow> bool" where
  \<comment> \<open>\<open>!strcasecmp(a, b)\<close>\<close>
  "same_name a b \<longleftrightarrow> map lower a = map lower b"

definition match_op :: "(string \<times> string option \<times> 'f) list \<Rightarrow> string \<Rightarrow> 'f option" where
  \<comment> \<open>the name, the alias and the function of every record up to the end mark\<close>
  "match_op tbl nm = map_option (\<lambda>(_, _, fn). fn)
     (find (\<lambda>(n, alias, _). same_name n nm \<or> (case alias of None \<Rightarrow> False | Some a \<Rightarrow> same_name a nm)) tbl)"

end
