(* ===== verification/IbTracert.thy ===== *)
theory IbTracert
  imports IbDiag
begin

text \<open>
  Tracing a route (\<open>src/ibtracert.c\<close>): \<open>find_route\<close> follows the forwarding tables of the switches from one port to another,
  \<open>find_mcpath\<close> searches the multicast tables breadth first. \<open>tracert\<close> holds the options; the name that \<open>remap_node_name\<close> gives a node is
  an argument. The structures on the stack are values of the state; in the search, nodes and ports are
  allocated and linked, and pointers are addresses into \<open>mc_nodes\<close> and \<open>mc_ports\<close>. An access outside an array or
  through \<open>NULL\<close> is \<open>None\<close>. Messages for debugging and the further lines of the verbose mode have no model.
\<close>

section \<open>Structures\<close>

definition MAXHOPS :: nat where [c_eval]: "MAXHOPS = 63"

definition node_type_str :: "string list" where
  "node_type_str = [''???'', ''ca'', ''switch'', ''router'', ''iwarp rnic'']"

record Port =
  tp_next :: "ptr option"
  tp_remoteport :: "ptr option"
  tp_guid :: u64
  tp_portnum :: int
  tp_lid :: int
  tp_lmc :: int
  tp_state :: int
  tp_physstate :: int
  tp_info :: mem

record Switch =
  ts_linearcap :: int
  ts_mccap :: int
  ts_linearFDBtop :: int
  ts_enhsp0 :: int
  ts_fdb :: mem
  ts_info :: mem

record Node =
  tn_htnext :: "ptr option"
  tn_dnext :: "ptr option"
  tn_ports :: "ptr option"
  tn_path :: ib_portid_t
  tn_type :: int
  tn_dist :: int
  tn_numports :: int
  tn_upport :: int
  tn_upnode :: "ptr option"
  tn_guid :: u64
  tn_desc :: mem
  tn_info :: mem

definition Port_zero :: Port where
  "Port_zero = \<lparr>tp_next = None, tp_remoteport = None, tp_guid = 0, tp_portnum = 0, tp_lid = 0, tp_lmc = 0, tp_state = 0,
     tp_physstate = 0, tp_info = replicate 64 0\<rparr>"

definition Node_zero :: Node where
  "Node_zero = \<lparr>tn_htnext = None, tn_dnext = None, tn_ports = None, tn_path = portid_zero, tn_type = 0, tn_dist = 0, tn_numports = 0,
     tn_upport = 0, tn_upnode = None, tn_guid = 0, tn_desc = replicate 64 0, tn_info = replicate 64 0\<rparr>"

record tracert =
  tr_e :: endian
  tr_force :: bool
  tr_verbose :: int
  tr_names :: "u64 \<Rightarrow> mem \<Rightarrow> string"

section \<open>Asking a node\<close>

definition is_port_inactive :: "Node \<Rightarrow> Port \<Rightarrow> Switch \<Rightarrow> bool" where
  "is_port_inactive node port sw \<longleftrightarrow>
     tp_state port \<noteq> 4 \<and>
     (tn_type node \<noteq> uint IB_NODE_SWITCH \<or> tn_type node = uint IB_NODE_SWITCH \<and> ts_enhsp0 sw \<noteq> 0)"

definition isprint :: "u8 \<Rightarrow> bool" where
  "isprint b \<longleftrightarrow> 0x20 \<le> b \<and> b \<le> 0x7e"

fun clean_desc :: "mem \<Rightarrow> mem" where
  \<comment> \<open>up to the first null, characters that cannot be printed become blanks\<close>
  "clean_desc [] = []"
| "clean_desc (b # bs) = (if b = 0 then b # bs else (if isprint b then b else 0x20) # clean_desc bs)"

definition get_node :: "endian \<Rightarrow> 's ask \<Rightarrow> Node \<Rightarrow> Port \<Rightarrow> ib_portid_t \<Rightarrow> 's \<Rightarrow>
    (int \<times> Node \<times> Port \<times> ib_portid_t \<times> 's) option" where
  "get_node e ask node port portid s = do {
     (ni, portid, s) \<leftarrow> ask portid IB_ATTR_NODE_INFO 0 s;
     case ni of None \<Rightarrow> Some (-1, node\<lparr>tn_info := replicate 64 0\<rparr>, port, portid, s)
     | Some ni \<Rightarrow> do {
     let node = node\<lparr>tn_info := ni\<rparr>;
     (nd, portid, s) \<leftarrow> ask portid IB_ATTR_NODE_DESC 0 s;
     case nd of None \<Rightarrow> Some (-1, node\<lparr>tn_desc := replicate 64 0\<rparr>, port, portid, s)
     | Some nd \<Rightarrow> do {
     let node = node\<lparr>tn_desc := clean_desc nd\<rparr>;
     (pi, portid, s) \<leftarrow> ask portid IB_ATTR_PORT_INFO 0 s;
     case pi of None \<Rightarrow> Some (-1, node, port\<lparr>tp_info := replicate 64 0\<rparr>, portid, s)
     | Some pi \<Rightarrow> do {
     guid \<leftarrow> decode_u64 e ni IB_NODE_GUID_F;
     type \<leftarrow> decode_int e ni IB_NODE_TYPE_F;
     nports \<leftarrow> decode_int e ni IB_NODE_NPORTS_F;
     pguid \<leftarrow> decode_u64 e ni IB_NODE_PORT_GUID_F;
     num \<leftarrow> decode_int e ni IB_NODE_LOCAL_PORT_F;
     lid \<leftarrow> decode_int e pi IB_PORT_LID_F;
     lm \<leftarrow> decode_int e pi IB_PORT_LMC_F;
     state \<leftarrow> decode_int e pi IB_PORT_STATE_F;
     Some (0, node\<lparr>tn_guid := guid, tn_type := type, tn_numports := nports\<rparr>,
       port\<lparr>tp_info := pi, tp_guid := pguid, tp_portnum := num, tp_lid := lid, tp_lmc := lm, tp_state := state\<rparr>, portid, s)
     }}}
   }"

definition switch_lookup :: "endian \<Rightarrow> 's ask \<Rightarrow> Switch \<Rightarrow> ib_portid_t \<Rightarrow> int \<Rightarrow> 's \<Rightarrow>
    (int \<times> Switch \<times> ib_portid_t \<times> 's) option" where
  \<comment> \<open>an entry of the table is an \<open>int8_t\<close>\<close>
  "switch_lookup e ask sw portid lid s = do {
     (si, portid, s) \<leftarrow> ask portid IB_ATTR_SWITCH_INFO 0 s;
     case si of None \<Rightarrow> Some (-1, sw\<lparr>ts_info := replicate 64 0\<rparr>, portid, s)
     | Some si \<Rightarrow> do {
     cap \<leftarrow> decode_int e si IB_SW_LINEAR_FDB_CAP_F;
     top \<leftarrow> decode_int e si IB_SW_LINEAR_FDB_TOP_F;
     enh \<leftarrow> decode_int e si IB_SW_ENHANCED_PORT0_F;
     let sw = sw\<lparr>ts_info := si, ts_linearcap := cap, ts_linearFDBtop := top, ts_enhsp0 := enh\<rparr>;
     if lid \<ge> cap \<and> lid > top then Some (-1, sw, portid, s)
     else do {
     (fdb, portid, s) \<leftarrow> ask portid IB_ATTR_LINEARFORWTBL (word_of_int (lid sdiv 64)) s;
     case fdb of None \<Rightarrow> Some (-1, sw\<lparr>ts_fdb := replicate 64 0\<rparr>, portid, s)
     | Some fdb \<Rightarrow>
         if lid smod 64 < 0 then None
         else do { b \<leftarrow> mem_rd fdb (nat (lid smod 64)); Some (sint b, sw\<lparr>ts_fdb := fdb\<rparr>, portid, s) }
     }}
   }"

definition sameport :: "bool \<Rightarrow> Port \<Rightarrow> Port \<Rightarrow> bool" where
  "sameport force a b \<longleftrightarrow> tp_guid a = tp_guid b \<or> force \<and> tp_lid a = tp_lid b"

definition extend_route :: "ib_portid_t \<Rightarrow> int \<Rightarrow> (int \<times> ib_portid_t) option" where
  \<comment> \<open>\<open>extend_dpath\<close> of \<open>ibtracert.c\<close>\<close>
  "extend_route portid nextport = (let r = pt_drpath portid in
     if size_of_int (cnt r + 2) \<ge> 64 then Some (-1, portid)
     else if cnt r + 1 < 0 then None
     else do {
       p \<leftarrow> mem_wr (hops r) (nat (cnt r + 1)) (word_of_int nextport);
       Some (cnt r + 1, portid\<lparr>pt_drpath := r\<lparr>cnt := cnt r + 1, hops := p\<rparr>\<rparr>)
     })"

section \<open>The report\<close>

definition node_type_text :: "Node \<Rightarrow> string option" where
  "node_type_text node =
     (if tn_type node \<le> uint IB_NODE_MAX then (if tn_type node < 0 then None else mem_rd node_type_str (nat (tn_type node))) else Some ''???'')"

definition lid_range :: "Port \<Rightarrow> string" where
  \<comment> \<open>\<open>"%u-%u", port->lid, port->lid + (1 << port->lmc) - 1\<close>\<close>
  "lid_range port = dec_u (tp_lid port) @ ''-'' @ dec_u (tp_lid port + 2 ^ nat (tp_lmc port) - 1)"

definition dump_endnode :: "tracert \<Rightarrow> int \<Rightarrow> string \<Rightarrow> Node \<Rightarrow> Port \<Rightarrow> string option" where
  "dump_endnode opt dump prompt node port = (let num = (if tn_type node = uint IB_NODE_SWITCH then 0 else tp_portnum port) in
     if dump = 0 then Some []
     else if dump = 1 then Some (prompt @ '' {0x'' @ hex64 (tn_guid node) @ ''}['' @ dec_int num @ '']'' @ NEWLINE)
     else do {
       type \<leftarrow> node_type_text node;
       Some (prompt @ '' '' @ type @ '' {0x'' @ hex64 (tn_guid node) @ ''} portnum '' @ dec_int num @ '' lid '' @ lid_range port @
         '' '' @ quoted (tr_names opt (tn_guid node) (tn_desc node)) @ NEWLINE)
     })"

definition dump_route :: "tracert \<Rightarrow> int \<Rightarrow> Node \<Rightarrow> int \<Rightarrow> Port \<Rightarrow> string option" where
  "dump_route opt dump node outport port =
     (if dump = 0 \<and> tr_verbose opt = 0 then Some []
      else if dump = 1 then Some (''['' @ dec_int outport @ ''] -> {0x'' @ hex64 (tp_guid port) @ ''}['' @ dec_int (tp_portnum port) @ '']'' @ NEWLINE)
      else do {
        type \<leftarrow> node_type_text node;
        Some (''['' @ dec_int outport @ ''] -> '' @ type @ '' port {0x'' @ hex64 (tp_guid port) @ ''}['' @ dec_int (tp_portnum port) @ ''] lid '' @
          lid_range port @ '' '' @ quoted (tr_names opt (tn_guid node) (tn_desc node)) @ NEWLINE)
      })"

section \<open>Following the forwarding tables\<close>

text \<open>
  The variables of \<open>find_route\<close>: \<open>node\<close> and \<open>port\<close> point to \<open>fromnode\<close> and
  \<open>fromport\<close> first and to \<open>nextnode\<close> and \<open>nextport\<close> after the first round.
\<close>

record 's tracing =
  fr_from :: ib_portid_t
  fr_to :: ib_portid_t
  fr_fromnode :: Node
  fr_fromport :: Port
  fr_nextnode :: Node
  fr_nextport :: Port
  fr_toport :: Port
  fr_moved :: bool
  fr_sw :: Switch
  fr_portnum :: int
  fr_outport :: int
  fr_next_sw_outport :: int
  fr_net :: 's
  fr_out :: string

definition fr_node :: "'s tracing \<Rightarrow> Node" where
  "fr_node t = (if fr_moved t then fr_nextnode t else fr_fromnode t)"

definition fr_port :: "'s tracing \<Rightarrow> Port" where
  "fr_port t = (if fr_moved t then fr_nextport t else fr_fromport t)"

text \<open>How the search ends: by \<open>break\<close>, at a label, at a \<open>return\<close> in the loop, or after too many rounds\<close>

datatype trace_end = Found | NoRoute | Unreachable | AtAdapter | BadPort | BadOutPort | BadTable | PathTooLong

definition ask_next :: "endian \<Rightarrow> 's ask \<Rightarrow> 's tracing \<Rightarrow> (int \<times> 's tracing) option" where
  \<comment> \<open>\<open>get_node(&nextnode, &nextport, from)\<close>\<close>
  "ask_next e ask t = do {
     (rc, node, port, from, s) \<leftarrow> get_node e ask (fr_nextnode t) (fr_nextport t) (fr_from t) (fr_net t);
     Some (rc, t\<lparr>fr_nextnode := node, fr_nextport := port, fr_from := from, fr_net := s\<rparr>)
   }"

definition look_up :: "endian \<Rightarrow> 's ask \<Rightarrow> 's tracing \<Rightarrow> 's tracing option" where
  \<comment> \<open>\<open>next_sw_outport = switch_lookup(&sw, from, to->lid)\<close>\<close>
  "look_up e ask t = do {
     (r, sw, from, s) \<leftarrow> switch_lookup e ask (fr_sw t) (fr_from t) (pt_lid (fr_to t)) (fr_net t);
     Some (t\<lparr>fr_next_sw_outport := r, fr_sw := sw, fr_from := from, fr_net := s\<rparr>)
   }"

definition switch_step :: "tracert \<Rightarrow> 's ask \<Rightarrow> 's tracing \<Rightarrow> (trace_end option \<times> 's tracing) option" where
  \<comment> \<open>the branch for a switch; a result ends the loop\<close>
  "switch_step opt ask t = do {
     let t = t\<lparr>fr_outport := fr_next_sw_outport t\<rparr>;
     (rc, from) \<leftarrow> extend_route (fr_from t) (fr_outport t);
     let t = t\<lparr>fr_from := from\<rparr>;
     if rc < 0 then Some (Some PathTooLong, t)
     else do {
       (rc, t) \<leftarrow> ask_next (tr_e opt) ask t;
       if rc < 0 then Some (Some Unreachable, t)
       else if fr_outport t = 0
       then Some (Some (if sameport (tr_force opt) (fr_nextport t) (fr_toport t) then Found else BadTable), t)
       else Some (None, t)
     }
   }"

definition adapter_step :: "tracert \<Rightarrow> 's ask \<Rightarrow> 's tracing \<Rightarrow> (trace_end option \<times> 's tracing) option" where
  \<comment> \<open>the branch for a channel adapter or a router\<close>
  "adapter_step opt ask t = do {
     let t = t\<lparr>fr_outport := fr_portnum t\<rparr>;
     if \<not> sameport (tr_force opt) (fr_port t) (fr_fromport t) then Some (Some AtAdapter, t)
     else do {
       let ca_src = \<not> cnt (pt_drpath (fr_from t)) > 0;
       (rc, from) \<leftarrow> (if \<not> ca_src
         then Some (0, (fr_from t)\<lparr>pt_drpath := (pt_drpath (fr_from t))\<lparr>cnt := cnt (pt_drpath (fr_from t)) - 1\<rparr>\<rparr>)
         else if fr_portnum t \<noteq> 0 then extend_route (fr_from t) (fr_portnum t) else Some (0, fr_from t));
       let t = t\<lparr>fr_from := from\<rparr>;
       if rc < 0 then Some (Some PathTooLong, t)
       else do {
         (rc, t) \<leftarrow> ask_next (tr_e opt) ask t;
         if rc < 0 then Some (Some Unreachable, t)
         else if ca_src then Some (None, t)
         else do {
           b \<leftarrow> mem_rd (hops (pt_drpath (fr_from t))) (nat (cnt (pt_drpath (fr_from t)) + 1));
           Some (None, t\<lparr>fr_nextport := (fr_nextport t)\<lparr>tp_portnum := uint b\<rparr>\<rparr>)
         }
       }
     }
   }"

definition table_bad :: "Node \<Rightarrow> 's tracing \<Rightarrow> bool" where
  "table_bad node t \<longleftrightarrow> fr_next_sw_outport t < 0 \<or> fr_next_sw_outport t > tn_numports node"

definition trace_step :: "tracert \<Rightarrow> 's ask \<Rightarrow> int \<Rightarrow> 's tracing \<Rightarrow> (trace_end option \<times> 's tracing) option" where
  \<comment> \<open>one round of the loop\<close>
  "trace_step opt ask dump t =
     (if is_port_inactive (fr_node t) (fr_port t) (fr_sw t) then Some (Some BadPort, t)
      else if sameport (tr_force opt) (fr_port t) (fr_toport t) then Some (Some Found, t)
      else do {
        (end, t) \<leftarrow> (if tn_type (fr_node t) = uint IB_NODE_SWITCH then switch_step opt ask t
          else if tn_type (fr_node t) = uint IB_NODE_CA \<or> tn_type (fr_node t) = uint IB_NODE_ROUTER then adapter_step opt ask t
          else Some (None, t));
        if end \<noteq> None then Some (end, t)
        else do {
          t \<leftarrow> (if tn_type (fr_nextnode t) = uint IB_NODE_SWITCH then look_up (tr_e opt) ask t else Some t);
          if tn_type (fr_nextnode t) = uint IB_NODE_SWITCH \<and> table_bad (fr_nextnode t) t
          then Some (Some BadTable, t\<lparr>fr_outport := fr_next_sw_outport t\<rparr>)
          else if is_port_inactive (fr_nextnode t) (fr_nextport t) (fr_sw t) then Some (Some BadOutPort, t)
          else do {
            let t = t\<lparr>fr_moved := True, fr_portnum := tp_portnum (fr_nextport t)\<rparr>;
            line \<leftarrow> dump_route opt dump (fr_node t) (fr_outport t) (fr_port t);
            Some (None, t\<lparr>fr_out := fr_out t @ line\<rparr>)
          }
        }
      })"

fun trace_loop :: "nat \<Rightarrow> tracert \<Rightarrow> 's ask \<Rightarrow> int \<Rightarrow> 's tracing \<Rightarrow> (trace_end \<times> 's tracing) option" where
  \<comment> \<open>\<open>while (maxhops--)\<close> and the test of \<open>maxhops\<close> behind it\<close>
  "trace_loop 0 opt ask dump t = Some (NoRoute, t)"
| "trace_loop (Suc maxhops) opt ask dump t = do {
     (end, t) \<leftarrow> trace_step opt ask dump t;
     case end of None \<Rightarrow> trace_loop maxhops opt ask dump t
     | Some end \<Rightarrow> Some (if end = Found \<and> maxhops = 0 then NoRoute else end, t)
   }"

definition trace_from :: "tracert \<Rightarrow> 's ask \<Rightarrow> int \<Rightarrow> 's tracing \<Rightarrow> (trace_end \<times> 's tracing) option" where
  \<comment> \<open>from the line \<open>node = &fromnode\<close>\<close>
  "trace_from opt ask dump t = do {
     let t = t\<lparr>fr_moved := False, fr_portnum := tp_portnum (fr_fromport t)\<rparr>;
     line \<leftarrow> dump_endnode opt dump ''From'' (fr_node t) (fr_port t);
     let t = t\<lparr>fr_out := fr_out t @ line\<rparr>;
     t \<leftarrow> (if tn_type (fr_node t) = uint IB_NODE_SWITCH then look_up (tr_e opt) ask t else Some t);
     if tn_type (fr_node t) = uint IB_NODE_SWITCH \<and> table_bad (fr_node t) t
     then Some (BadTable, t\<lparr>fr_outport := fr_next_sw_outport t\<rparr>)
     else do {
       (end, t) \<leftarrow> trace_loop MAXHOPS opt ask dump t;
       if end = Found then do {
         line \<leftarrow> dump_endnode opt dump ''To'' (fr_node t) (fr_port t);
         Some (end, t\<lparr>fr_out := fr_out t @ line\<rparr>)
       } else Some (end, t)
     }
   }"

definition find_route :: "tracert \<Rightarrow> 's ask \<Rightarrow> Switch \<Rightarrow> int \<Rightarrow> ib_portid_t \<Rightarrow> ib_portid_t \<Rightarrow> 's \<Rightarrow>
    (trace_end \<times> 's tracing) option" where
  \<comment> \<open>\<open>Found\<close> is the result 0, everything else is -1; \<open>sw\<close> is what the stack holds\<close>
  "find_route opt ask sw dump from to s = do {
     (rc, fromnode, fromport, from, s) \<leftarrow> get_node (tr_e opt) ask Node_zero Port_zero from s;
     (rc, toport, to, s) \<leftarrow> (if rc < 0 then Some (rc, Port_zero, to, s)
       else map_option (\<lambda>(rc, _, toport, to, s). (rc, toport, to, s)) (get_node (tr_e opt) ask Node_zero Port_zero to s));
     let t = \<lparr>fr_from = from, fr_to = to, fr_fromnode = fromnode, fr_fromport = fromport, fr_nextnode = Node_zero, fr_nextport = Port_zero,
       fr_toport = toport, fr_moved = False, fr_sw = sw, fr_portnum = 0, fr_outport = 255, fr_next_sw_outport = 255, fr_net = s, fr_out = []\<rparr>;
     if rc < 0 \<and> \<not> tr_force opt then Some (Unreachable, t)
     else trace_from opt ask dump (if rc < 0 \<and> pt_lid to > 0 then t\<lparr>fr_toport := (fr_toport t)\<lparr>tp_lid := pt_lid to\<rparr>\<rparr> else t)
   }"

section \<open>The multicast search\<close>

record 's mc_search =
  mc_nodes :: "ptr \<rightharpoonup> Node"
  mc_ports :: "ptr \<rightharpoonup> Port"
  mc_next :: ptr
  mc_alloc :: "ptr \<Rightarrow> bool"
  mc_table :: "ptr option list" \<comment> \<open>\<open>nodestbl\<close> of \<open>insert_node\<close>\<close>
  mc_dist :: "ptr option list" \<comment> \<open>\<open>nodesdist\<close>\<close>
  mc_target :: u64
  mc_net :: 's
  mc_out :: string

definition mc_emit :: "string \<Rightarrow> 's mc_search \<Rightarrow> 's mc_search" where
  "mc_emit text w = w\<lparr>mc_out := mc_out w @ text\<rparr>"

definition upd_mc_node :: "ptr \<Rightarrow> (Node \<Rightarrow> Node) \<Rightarrow> 's mc_search \<Rightarrow> 's mc_search option" where
  "upd_mc_node p h w = map_option (\<lambda>n. w\<lparr>mc_nodes := (mc_nodes w)(p \<mapsto> h n)\<rparr>) (mc_nodes w p)"

definition upd_mc_port :: "ptr \<Rightarrow> (Port \<Rightarrow> Port) \<Rightarrow> 's mc_search \<Rightarrow> 's mc_search option" where
  "upd_mc_port p h w = map_option (\<lambda>n. w\<lparr>mc_ports := (mc_ports w)(p \<mapsto> h n)\<rparr>) (mc_ports w p)"

text \<open>\<open>calloc\<close>; \<open>None\<close> in the result ends the program\<close>

definition new_mc_node :: "'s mc_search \<Rightarrow> ptr option \<times> 's mc_search" where
  "new_mc_node w = (let p = mc_next w in
     if mc_alloc w p then (Some p, w\<lparr>mc_next := p + 1, mc_nodes := (mc_nodes w)(p \<mapsto> Node_zero)\<rparr>) else (None, w))"

definition new_mc_port :: "'s mc_search \<Rightarrow> ptr option \<times> 's mc_search" where
  "new_mc_port w = (let p = mc_next w in
     if mc_alloc w p then (Some p, w\<lparr>mc_next := p + 1, mc_ports := (mc_ports w)(p \<mapsto> Port_zero)\<rparr>) else (None, w))"

definition HTSZ_mc :: nat where [c_eval]: "HTSZ_mc = 137"

definition insert_node :: "ptr \<Rightarrow> 's mc_search \<Rightarrow> (int \<times> 's mc_search) option" where
  "insert_node new w = do {
     n \<leftarrow> mc_nodes w new;
     let hash = unat (HASHGUID (tn_guid n)) mod HTSZ_mc;
     x \<leftarrow> mem_rd (mc_table w) hash;
     r \<leftarrow> find_chain (Suc (mc_next w)) (\<lambda>p. map_option tn_htnext (mc_nodes w p))
            (\<lambda>p. map_option (\<lambda>m. tn_guid m = tn_guid n) (mc_nodes w p)) x;
     if r \<noteq> None then Some (-1, w)
     else Some (0, w\<lparr>mc_nodes := (mc_nodes w)(new \<mapsto> n\<lparr>tn_htnext := x\<rparr>), mc_table := (mc_table w)[hash := Some new]\<rparr>)
   }"

definition get_port :: "endian \<Rightarrow> 's ask \<Rightarrow> Port \<Rightarrow> int \<Rightarrow> ib_portid_t \<Rightarrow> 's \<Rightarrow> (int \<times> Port \<times> ib_portid_t \<times> 's) option" where
  "get_port e ask port num portid s = do {
     let port = port\<lparr>tp_portnum := num\<rparr>;
     (pi, portid, s) \<leftarrow> ask portid IB_ATTR_PORT_INFO (word_of_int num) s;
     case pi of None \<Rightarrow> Some (-1, port, portid, s)
     | Some pi \<Rightarrow> do {
     lid \<leftarrow> decode_int e pi IB_PORT_LID_F;
     lm \<leftarrow> decode_int e pi IB_PORT_LMC_F;
     state \<leftarrow> decode_int e pi IB_PORT_STATE_F;
     phys \<leftarrow> decode_int e pi IB_PORT_PHYS_STATE_F;
     Some (1, port\<lparr>tp_lid := lid, tp_lmc := lm, tp_state := state, tp_physstate := phys\<rparr>, portid, s)
     }
   }"

definition link_port :: "ptr \<Rightarrow> ptr \<Rightarrow> 's mc_search \<Rightarrow> 's mc_search option" where
  "link_port port node w = do {
     n \<leftarrow> mc_nodes w node;
     w \<leftarrow> upd_mc_port port (\<lambda>p. p\<lparr>tp_next := tn_ports n\<rparr>) w;
     upd_mc_node node (\<lambda>n. n\<lparr>tn_ports := Some port\<rparr>) w
   }"

definition verbose_node :: "tracert \<Rightarrow> string \<Rightarrow> ptr \<Rightarrow> ptr option \<Rightarrow> 's mc_search \<Rightarrow> 's mc_search option" where
  \<comment> \<open>\<open>dump_endnode(ibverbose, prompt, node, port)\<close>\<close>
  "verbose_node opt prompt node port w =
     (if tr_verbose opt = 0 then Some w
      else do {
        n \<leftarrow> mc_nodes w node;
        port \<leftarrow> port;
        p \<leftarrow> mc_ports w port;
        line \<leftarrow> dump_endnode opt (tr_verbose opt) prompt n p;
        Some (mc_emit line w)
      })"

definition new_node :: "tracert \<Rightarrow> ptr \<Rightarrow> ptr \<Rightarrow> ib_portid_t \<Rightarrow> nat \<Rightarrow> 's mc_search \<Rightarrow> (int \<times> 's mc_search) option" where
  "new_node opt node port portid dist w = do {
     p \<leftarrow> mc_ports w port;
     if tp_guid p = mc_target w then do {
       w \<leftarrow> upd_mc_node node (\<lambda>n. n\<lparr>tn_dist := -1\<rparr>) w;
       w \<leftarrow> link_port port node w;
       w \<leftarrow> verbose_node opt ''found target'' node (Some port) w;
       Some (1, w)
     } else do {
       (rc, w) \<leftarrow> insert_node node w;
       if rc < 0 then Some (-1, w)
       else do {
         w \<leftarrow> link_port port node w;
         x \<leftarrow> mem_rd (mc_dist w) dist;
         w \<leftarrow> upd_mc_node node (\<lambda>n. n\<lparr>tn_dist := int dist, tn_path := portid, tn_dnext := x\<rparr>) w;
         Some (0, w\<lparr>mc_dist := (mc_dist w)[dist := Some node]\<rparr>)
       }
     }
   }"

fun mask_bits :: "u16 \<Rightarrow> nat list \<Rightarrow> bool list \<Rightarrow> nat \<Rightarrow> bool list option" where
  \<comment> \<open>\<open>for (i = 0; i < 16; i++, map++) if (mask & (1 << i)) *map = 1;\<close>\<close>
  "mask_bits bits [] mp pos = Some mp"
| "mask_bits bits (i # is) mp pos = do {
     mp \<leftarrow> (if bit bits i then mem_wr mp pos True else Some mp);
     mask_bits bits is mp (pos + 1)
   }"

fun mc_sets :: "'s ask \<Rightarrow> int \<Rightarrow> nat list \<Rightarrow> bool list \<Rightarrow> ib_portid_t \<Rightarrow> 's \<Rightarrow> (int \<times> bool list \<times> ib_portid_t \<times> 's) option" where
  \<comment> \<open>the loop over the sets of 16 ports\<close>
  "mc_sets ask mlid [] mp portid s = Some (0, mp, portid, s)"
| "mc_sets ask mlid (n # sets) mp portid s = do {
     (mdb, portid, s) \<leftarrow> ask portid IB_ATTR_MULTICASTFORWTBL (word_of_int (mlid sdiv 32) OR push_bit 28 (word_of_nat n)) s;
     case mdb of None \<Rightarrow> Some (-1, mp, portid, s)
     | Some mdb \<Rightarrow>
         if mlid smod 32 < 0 then None
         else do {
           bs \<leftarrow> mem_load mdb (2 * nat (mlid smod 32)) 2;
           mp \<leftarrow> mask_bits (native_word BE bs) [0..<16] mp (16 * n);
           mc_sets ask mlid sets mp portid s
         }
   }"

definition switch_mclookup :: "endian \<Rightarrow> 's ask \<Rightarrow> Node \<Rightarrow> ib_portid_t \<Rightarrow> int \<Rightarrow> 's \<Rightarrow> (int \<times> bool list \<times> ib_portid_t \<times> 's) option" where
  "switch_mclookup e ask node portid mlid s = do {
     let mp = replicate 256 False;
     (si, portid, s) \<leftarrow> ask portid IB_ATTR_SWITCH_INFO 0 s;
     case si of None \<Rightarrow> Some (-1, mp, portid, s)
     | Some si \<Rightarrow> do {
     let mlid = mlid - 0xc000;
     cap \<leftarrow> decode_int e si IB_SW_MCAST_FDB_CAP_F;
     if mlid \<ge> cap then Some (-1, mp, portid, s)
     else mc_sets ask mlid [0..<nat ((tn_numports node + 15) div 16)] mp portid s
     }
   }"

text \<open>How the search ends: at a node, with \<open>NULL\<close>, or with the end of the program\<close>

datatype mc_end = McFound ptr | McNone | McExit

definition shorten :: "ib_portid_t \<Rightarrow> ib_portid_t" where
  \<comment> \<open>\<open>path->drpath.cnt--\<close>\<close>
  "shorten portid = portid\<lparr>pt_drpath := (pt_drpath portid)\<lparr>cnt := cnt (pt_drpath portid) - 1\<rparr>\<rparr>"

definition mc_remote :: "tracert \<Rightarrow> 's ask \<Rightarrow> ptr \<Rightarrow> ptr \<Rightarrow> nat \<Rightarrow> 's mc_search \<Rightarrow> (mc_end option \<times> 's mc_search) option" where
  \<comment> \<open>from \<open>remotenode = calloc\<close> to the end of the body; \<open>None\<close> goes on with the next port\<close>
  "mc_remote opt ask node port dist w = (case new_mc_node w of
     (None, w) \<Rightarrow> Some (Some McExit, w)
   | (Some rnode, w) \<Rightarrow> (case new_mc_port w of
       (None, w) \<Rightarrow> Some (Some McExit, w)
     | (Some rport, w) \<Rightarrow> do {
         n \<leftarrow> mc_nodes w node;
         rn \<leftarrow> mc_nodes w rnode;
         rp \<leftarrow> mc_ports w rport;
         (rc, rn, rp, path, s) \<leftarrow> get_node (tr_e opt) ask rn rp (tn_path n) (mc_net w);
         w \<leftarrow> upd_mc_node node (\<lambda>n. n\<lparr>tn_path := path\<rparr>) (w\<lparr>mc_net := s\<rparr>);
         if rc < 0 then do {
           w \<leftarrow> upd_mc_node node (\<lambda>n. n\<lparr>tn_path := shorten path\<rparr>) w;
           Some (None, w\<lparr>mc_nodes := (mc_nodes w)(rnode := None), mc_ports := (mc_ports w)(rport := None)\<rparr>)
         } else do {
           let w = w\<lparr>mc_nodes := (mc_nodes w)(rnode \<mapsto> rn\<lparr>tn_upnode := Some node, tn_upport := tp_portnum rp\<rparr>),
                     mc_ports := (mc_ports w)(rport \<mapsto> rp\<lparr>tp_remoteport := Some port\<rparr>)\<rparr>;
           (r, w) \<leftarrow> new_node opt rnode rport path (dist + 1) w;
           if r > 0 then Some (Some (McFound rnode), w)
           else do {
             w \<leftarrow> (if r = 0 then verbose_node opt ''new remote'' rnode (Some rport) w
                  else if tn_type rn = uint IB_NODE_SWITCH then do {
                    m \<leftarrow> mc_nodes w rnode;
                    q \<leftarrow> mc_ports w rport;
                    line \<leftarrow> dump_endnode opt 2 ''ERR: circle discovered at'' m q;
                    Some (mc_emit line w)
                  } else Some w);
             w \<leftarrow> upd_mc_node node (\<lambda>n. n\<lparr>tn_path := shorten (tn_path n)\<rparr>) w;
             Some (None, w)
           }
         }
       }))"

definition mc_port_step :: "tracert \<Rightarrow> 's ask \<Rightarrow> bool \<Rightarrow> ptr \<Rightarrow> nat \<Rightarrow> int \<Rightarrow> int \<Rightarrow> ptr \<Rightarrow> 's mc_search \<Rightarrow>
    (mc_end option \<times> ptr \<times> 's mc_search) option" where
  \<comment> \<open>a port \<open>i\<close> that the map names; the variable \<open>port\<close> stays for the next one\<close>
  "mc_port_step opt ask up node dist leafport i port w =
     (if dist = 0 \<and> leafport \<noteq> 0 then do {
        w \<leftarrow> (if up then upd_mc_node node (\<lambda>n. n\<lparr>tn_path := shorten (tn_path n)\<rparr>) w else Some w);
        (end, w) \<leftarrow> mc_remote opt ask node port dist w;
        Some (end, port, w)
      } else (case new_mc_port w of
        (None, w) \<Rightarrow> Some (Some McExit, port, w)
      | (Some port, w) \<Rightarrow> do {
          n \<leftarrow> mc_nodes w node;
          p \<leftarrow> mc_ports w port;
          (rc, p, path, s) \<leftarrow> get_port (tr_e opt) ask p i (tn_path n) (mc_net w);
          w \<leftarrow> upd_mc_node node (\<lambda>n. n\<lparr>tn_path := path\<rparr>) (w\<lparr>mc_net := s, mc_ports := (mc_ports w)(port \<mapsto> p)\<rparr>);
          if rc < 0 then Some (Some McNone, port, w\<lparr>mc_ports := (mc_ports w)(port := None)\<rparr>)
          else if tp_physstate p \<noteq> 5 then Some (None, port, w\<lparr>mc_ports := (mc_ports w)(port := None)\<rparr>)
          else do {
            (rc, path) \<leftarrow> extend_route path i;
            w \<leftarrow> upd_mc_node node (\<lambda>n. n\<lparr>tn_path := path\<rparr>) w;
            if rc < 0 then Some (Some McNone, port, w\<lparr>mc_ports := (mc_ports w)(port := None)\<rparr>)
            else do {
              (end, w) \<leftarrow> mc_remote opt ask node port dist w;
              Some (end, port, w)
            }
          }
        }))"

fun mc_port_loop :: "tracert \<Rightarrow> 's ask \<Rightarrow> bool \<Rightarrow> ptr \<Rightarrow> nat \<Rightarrow> int \<Rightarrow> bool list \<Rightarrow> nat list \<Rightarrow> ptr \<Rightarrow> 's mc_search \<Rightarrow>
    (mc_end option \<times> ptr \<times> 's mc_search) option" where
  \<comment> \<open>\<open>for (i = 1; i <= node->numports; i++)\<close>\<close>
  "mc_port_loop opt ask up node dist leafport mp [] port w = Some (None, port, w)"
| "mc_port_loop opt ask up node dist leafport mp (i # is) port w = do {
     n \<leftarrow> mc_nodes w node;
     m \<leftarrow> mem_rd mp i;
     if \<not> m \<or> int i = tn_upport n then mc_port_loop opt ask up node dist leafport mp is port w
     else do {
       (end, port, w) \<leftarrow> mc_port_step opt ask up node dist leafport (int i) port w;
       if end = None then mc_port_loop opt ask up node dist leafport mp is port w else Some (end, port, w)
     }
   }"

definition mc_node_step :: "tracert \<Rightarrow> 's ask \<Rightarrow> bool \<Rightarrow> int \<Rightarrow> nat \<Rightarrow> ptr \<Rightarrow> int \<times> ptr \<times> 's mc_search \<Rightarrow>
    (mc_end option \<times> int \<times> ptr \<times> 's mc_search) option" where
  \<comment> \<open>the body for one node of the present distance; the state holds \<open>leafport\<close> and \<open>port\<close>\<close>
  "mc_node_step opt ask up mlid dist node = (\<lambda>(leafport, port, w). do {
     n \<leftarrow> mc_nodes w node;
     w \<leftarrow> verbose_node opt ''processing'' node (tn_ports n) w;
     if tn_type n \<noteq> uint IB_NODE_SWITCH then
       if dist \<noteq> 0 then Some (None, leafport, port, w)
       else do {
         let r = pt_drpath (tn_path n);
         b \<leftarrow> (if cnt r < 0 then None else mem_rd (hops r) (nat (cnt r)));
         let leafport = uint b;
         p \<leftarrow> mc_ports w port;
         mp \<leftarrow> (if tp_portnum p < 0 then None else mem_wr (replicate 256 False) (nat (tp_portnum p)) True);
         w \<leftarrow> upd_mc_node node (\<lambda>n. n\<lparr>tn_upport := 0\<rparr>) w;
         (end, port, w) \<leftarrow> mc_port_loop opt ask up node dist leafport mp [1..<Suc (nat (tn_numports n))] port w;
         Some (end, leafport, port, w)
       }
     else do {
       w \<leftarrow> (if dist = 1 \<and> leafport \<noteq> 0 then upd_mc_node node (\<lambda>n. n\<lparr>tn_upport := leafport\<rparr>) w else Some w);
       (rc, mp, path, s) \<leftarrow> switch_mclookup (tr_e opt) ask n (tn_path n) mlid (mc_net w);
       w \<leftarrow> upd_mc_node node (\<lambda>n. n\<lparr>tn_path := path\<rparr>) (w\<lparr>mc_net := s\<rparr>);
       if rc < 0 then Some (None, leafport, port, w)
       else do {
         (end, port, w) \<leftarrow> mc_port_loop opt ask up node dist leafport mp [1..<Suc (nat (tn_numports n))] port w;
         Some (end, leafport, port, w)
       }
     }
   })"

fun mc_level :: "nat \<Rightarrow> tracert \<Rightarrow> 's ask \<Rightarrow> bool \<Rightarrow> int \<Rightarrow> nat \<Rightarrow> ptr option \<Rightarrow> int \<times> ptr \<times> 's mc_search \<Rightarrow>
    (mc_end option \<times> int \<times> ptr \<times> 's mc_search) option" where
  \<comment> \<open>\<open>for (node = nodesdist[dist]; node; node = node->dnext)\<close>\<close>
  "mc_level k opt ask up mlid dist None t = Some (None, t)"
| "mc_level 0 opt ask up mlid dist (Some node) t = None"
| "mc_level (Suc k) opt ask up mlid dist (Some node) t = do {
     (end, leafport, port, w) \<leftarrow> mc_node_step opt ask up mlid dist node t;
     if end \<noteq> None then Some (end, leafport, port, w)
     else do {
       n \<leftarrow> mc_nodes w node;
       mc_level k opt ask up mlid dist (tn_dnext n) (leafport, port, w)
     }
   }"

fun mc_levels :: "tracert \<Rightarrow> 's ask \<Rightarrow> bool \<Rightarrow> int \<Rightarrow> nat list \<Rightarrow> int \<times> ptr \<times> 's mc_search \<Rightarrow> (mc_end \<times> 's mc_search) option" where
  \<comment> \<open>\<open>for (dist = 0; dist < MAXHOPS; dist++)\<close>\<close>
  "mc_levels opt ask up mlid [] (leafport, port, w) = Some (McNone, w)"
| "mc_levels opt ask up mlid (dist # dists) (leafport, port, w) = do {
     x \<leftarrow> mem_rd (mc_dist w) dist;
     (end, leafport, port, w) \<leftarrow> mc_level (Suc (mc_next w)) opt ask up mlid dist x (leafport, port, w);
     case end of Some end \<Rightarrow> Some (end, w) | None \<Rightarrow> mc_levels opt ask up mlid dists (leafport, port, w)
   }"

definition find_mcpath :: "tracert \<Rightarrow> 's ask \<Rightarrow> ib_portid_t \<Rightarrow> int \<Rightarrow> 's mc_search \<Rightarrow> (mc_end \<times> 's mc_search) option" where
  "find_mcpath opt ask from mlid w = (case new_mc_node w of
     (None, w) \<Rightarrow> Some (McExit, w)
   | (Some node, w) \<Rightarrow> (case new_mc_port w of
       (None, w) \<Rightarrow> Some (McExit, w)
     | (Some port, w) \<Rightarrow> do {
         (rc, n, p, from, s) \<leftarrow> get_node (tr_e opt) ask Node_zero Port_zero from (mc_net w);
         let w = w\<lparr>mc_net := s, mc_nodes := (mc_nodes w)(node \<mapsto> n), mc_ports := (mc_ports w)(port \<mapsto> p)\<rparr>;
         if rc < 0 then Some (McNone, w)
         else do {
           w \<leftarrow> upd_mc_node node (\<lambda>n. n\<lparr>tn_upnode := None\<rparr>) w;
           (r, w) \<leftarrow> new_node opt node port from 0 w;
           if r > 0 then
             if tn_type n \<noteq> uint IB_NODE_SWITCH then Some (McNone, w)
             else do {
               (rc, mp, _, s) \<leftarrow> switch_mclookup (tr_e opt) ask n from mlid (mc_net w);
               let w = w\<lparr>mc_net := s\<rparr>;
               if rc < 0 then Some (McNone, w)
               else do {
                 m \<leftarrow> mem_rd mp 0;
                 Some (if m then McFound node else McNone, w)
               }
             }
           else mc_levels opt ask (cnt (pt_drpath from) > 0) mlid [0..<MAXHOPS] (0, port, w)
         }
       }))"

definition find_target_portguid :: "endian \<Rightarrow> 's ask \<Rightarrow> ib_portid_t \<Rightarrow> 's \<Rightarrow> (u64 \<times> ib_portid_t \<times> 's) option" where
  \<comment> \<open>-1 for a port that does not answer\<close>
  "find_target_portguid e ask to s = do {
     (rc, _, p, to, s) \<leftarrow> get_node e ask Node_zero Port_zero to s;
     Some (if rc < 0 then -1 else tp_guid p, to, s)
   }"

fun dump_mcpath :: "nat \<Rightarrow> tracert \<Rightarrow> int \<Rightarrow> 's mc_search \<Rightarrow> ptr \<Rightarrow> string option" where
  \<comment> \<open>the ancestors first; the first argument bounds the depth of the recursion\<close>
  "dump_mcpath 0 opt dump w node = None"
| "dump_mcpath (Suc k) opt dump w node = do {
     n \<leftarrow> mc_nodes w node;
     before \<leftarrow> (case tn_upnode n of None \<Rightarrow> Some [] | Some up \<Rightarrow> dump_mcpath k opt dump w up);
     port \<leftarrow> tn_ports n;
     p \<leftarrow> mc_ports w port;
     type \<leftarrow> node_type_text n;
     let name = quoted (tr_names opt (tn_guid n) (tn_desc n));
     let located = '' port '' @ dec_int (tp_portnum p) @ '' lid '' @ lid_range p @ '' '' @ name @ NEWLINE;
     if tn_dist n = 0 then Some (before @ ''From '' @ type @ '' 0x'' @ hex False (unat (tn_guid n)) @ located)
     else do {
       remote \<leftarrow> tp_remoteport p;
       q \<leftarrow> mc_ports w remote;
       let step = (if dump = 1
         then ''['' @ dec_int (tp_portnum q) @ ''] -> '' @ type @ '' {0x'' @ hex64 (tn_guid n) @ ''}['' @ dec_int (tn_upport n) @ '']'' @ NEWLINE
         else ''['' @ dec_int (tp_portnum q) @ ''] -> '' @ type @ '' 0x'' @ hex False (unat (tn_guid n)) @ ''['' @ dec_int (tn_upport n) @
           ''] lid '' @ dec_u (tp_lid p) @ '' '' @ name @ NEWLINE);
       Some (before @ step @ (if tn_dist n < 0 then ''To '' @ type @ '' 0x'' @ hex False (unat (tn_guid n)) @ located else []))
     }
   }"

section \<open>The whole trace\<close>

definition ask_through :: "endian \<Rightarrow> int \<Rightarrow> ibmad_port option \<Rightarrow> mad_state ask" where
  \<comment> \<open>\<open>smp_query_via\<close> reads \<open>srcport->smp_mkey\<close> first\<close>
  "ask_through e timeout srcport portid attrid amod st = do { port \<leftarrow> srcport; smp_ask e timeout port portid attrid amod st }"

definition resolve_lid :: "endian \<Rightarrow> ib_portid_t \<Rightarrow> mad_state \<Rightarrow> (int \<times> ib_portid_t \<times> mad_state) option" where
  \<comment> \<open>the query goes through the port \<open>NULL\<close>; \<open>lid\<close> is a \<open>uint16_t\<close>, two bytes\<close>
  "resolve_lid e portid st = do {
     (info, portid, st) \<leftarrow> ask_through e 0 None portid IB_ATTR_PORT_INFO 0 st;
     case info of None \<Rightarrow> Some (-1, portid, st)
     | Some info \<Rightarrow> do {
         bs \<leftarrow> mad_decode_field e info IB_PORT_LID_F (replicate 2 0);
         Some (0, ib_portid_set portid (uint (native_word e bs :: u16)) 0 0, st)
       }
   }"

definition multicast_route :: "tracert \<Rightarrow> 's ask \<Rightarrow> int \<Rightarrow> int \<Rightarrow> ib_portid_t \<Rightarrow> ib_portid_t \<Rightarrow> 's mc_search \<Rightarrow>
    ((int + int) \<times> 's mc_search) option" where
  \<comment> \<open>from the search for the GUID of the target; \<open>Inl\<close> ends the program\<close>
  "multicast_route opt ask dumplevel mlid src dest w = do {
     (guid, dest, s) \<leftarrow> find_target_portguid (tr_e opt) ask dest (mc_net w);
     let w = w\<lparr>mc_net := s, mc_target := guid\<rparr>;
     if guid = 0 then Some (Inr (-1), w)
     else do {
       (end, w) \<leftarrow> find_mcpath opt ask src mlid w;
       case end of McExit \<Rightarrow> Some (Inl (-1), w)
       | McNone \<Rightarrow> Some (Inr (-1), w)
       | McFound node \<Rightarrow> do {
           lines \<leftarrow> dump_mcpath (Suc (mc_next w)) opt dumplevel w node;
           Some (Inr 0, mc_emit lines w)
         }
     }
   }"

definition get_route :: "tracert \<Rightarrow> ibdiag \<Rightarrow> (string \<Rightarrow> u8 list option) \<Rightarrow> (int + umad_port_t) \<Rightarrow> ibmad_port \<Rightarrow> int \<Rightarrow> Switch \<Rightarrow>
    int option \<Rightarrow> int \<Rightarrow> string \<Rightarrow> string \<Rightarrow> mad_state mc_search \<Rightarrow> ((int + int) \<times> mad_state mc_search) option" where
  \<comment> \<open>\<open>mlid\<close> is given for a multicast trace; the state holds the tables that live as long as the program\<close>
  "get_route opt c inet_pton up srcport timeout sw mlid dumplevel srcid dstid w = (let ask = smp_ask (tr_e opt) timeout srcport; e = tr_e opt in do {
     (rc, src, st) \<leftarrow> resolve_portid_str e inet_pton up srcid (ibd_dest_type c) (ibd_sm_id c) srcport (mc_net w);
     if rc < 0 then Some (Inr (-1), w\<lparr>mc_net := st\<rparr>)
     else do {
     (rc, dest, st) \<leftarrow> resolve_portid_str e inet_pton up dstid (ibd_dest_type c) (ibd_sm_id c) srcport st;
     if rc < 0 then Some (Inr (-1), w\<lparr>mc_net := st\<rparr>)
     else do {
     (rc, src, dest, st) \<leftarrow> (if ibd_dest_type c \<noteq> IB_DEST_DRPATH then Some (0, src, dest, st)
       else do {
         (rc, src, st) \<leftarrow> resolve_lid e src st;
         if rc < 0 then Some (rc, src, dest, st)
         else do { (rc, dest, st) \<leftarrow> resolve_lid e dest st; Some (rc, src, dest, st) }
       });
     let w = w\<lparr>mc_net := st\<rparr>;
     if rc < 0 then Some (Inr (-1), w)
     else if pt_lid dest = 0 \<or> pt_lid src = 0 then Some (Inl 2, w)
     else do {
     (end, src, w) \<leftarrow> (if ibd_dest_type c = IB_DEST_DRPATH then Some (Found, src, w)
       else do {
         (end, t) \<leftarrow> find_route opt ask sw 0 portid_zero src (mc_net w);
         Some (end, fr_from t, mc_emit (fr_out t) (w\<lparr>mc_net := fr_net t\<rparr>))
       });
     if end \<noteq> Found then Some (Inr (-1), w)
     else case mlid of None \<Rightarrow> do {
         (end, t) \<leftarrow> find_route opt ask sw dumplevel src dest (mc_net w);
         Some (Inr (if end = Found then 0 else -1), mc_emit (fr_out t) (w\<lparr>mc_net := fr_net t\<rparr>))
       }
     | Some mlid \<Rightarrow> multicast_route opt ask dumplevel mlid src dest w
     }}}
   })"

section \<open>A file of pairs\<close>

definition scan_word :: "string \<Rightarrow> string \<times> string" where
  \<comment> \<open>\<open>%20s\<close>: blanks are skipped, at most 20 characters are taken\<close>
  "scan_word s = (let t = dropWhile is_space s; w = take 20 (takeWhile (\<lambda>c. \<not> is_space c) t) in (w, drop (length w) t))"

definition scan_pair :: "cbuf \<Rightarrow> cbuf \<Rightarrow> string \<Rightarrow> (nat \<times> cbuf \<times> cbuf) option" where
  \<comment> \<open>\<open>sscanf(portsbuf, "%20s %20s", srcbuf, dstbuf)\<close>: the number of words stored\<close>
  "scan_pair srcbuf dstbuf s = (let (a, r) = scan_word s; (b, _) = scan_word r in
     if a = [] then Some (0, srcbuf, dstbuf)
     else do {
       srcbuf \<leftarrow> mem_store srcbuf 0 (a @ [NUL]);
       if b = [] then Some (1, srcbuf, dstbuf)
       else do { dstbuf \<leftarrow> mem_store dstbuf 0 (b @ [NUL]); Some (2, srcbuf, dstbuf) }
     })"

fun route_pairs :: "(string \<Rightarrow> string \<Rightarrow> 'w \<Rightarrow> ((int + int) \<times> 'w) option) \<Rightarrow> string list \<Rightarrow> nat \<Rightarrow> cbuf \<Rightarrow> cbuf \<Rightarrow> 'w \<Rightarrow> ((int + nat) \<times> 'w) option" where
  \<comment> \<open>one trace for every line of the file; \<open>Inr\<close> holds the number of pairs\<close>
  "route_pairs tr [] pairs srcbuf dstbuf w = Some (Inr pairs, w)"
| "route_pairs tr (l # ls) pairs srcbuf dstbuf w = (case fst (strtok CHR 0x0A l) of
     None \<Rightarrow> route_pairs tr ls pairs srcbuf dstbuf w
   | Some s \<Rightarrow>
       (let t = dropWhile is_space s in
        if t = [] \<or> hd t = CHR ''#'' then route_pairs tr ls pairs srcbuf dstbuf w
        else do {
          (n, srcbuf, dstbuf) \<leftarrow> scan_pair srcbuf dstbuf s;
          if n \<noteq> 2 then Some (Inl (-1), w)
          else do {
            (r, w) \<leftarrow> tr (c_str srcbuf) (c_str dstbuf) w;
            case r of Inl n \<Rightarrow> Some (Inl n, w)
            | Inr rc \<Rightarrow> if rc \<noteq> 0 then Some (Inl (-1), w) else route_pairs tr ls (pairs + 1) srcbuf dstbuf w
          }
        }))"

section \<open>The program\<close>

record tracert_args =
  ta_force :: int
  ta_dumplevel :: int
  ta_multicast :: int
  ta_mlid :: int
  ta_name_map :: "string option"
  ta_ports_file :: "string option"

definition tracert_start :: tracert_args where
  "tracert_start = \<lparr>ta_force = 0, ta_dumplevel = 2, ta_multicast = 0, ta_mlid = 0, ta_name_map = None, ta_ports_file = None\<rparr>"

definition tracert_options :: "ibdiag_opt list" where
  "tracert_options = map (\<lambda>(n, l, a). \<lparr>op_name = n, op_letter = l, op_has_arg = a\<rparr>) [
     (''force'', of_char CHR ''f'', 0), (''no_info'', of_char CHR ''n'', 0), (''mlid'', of_char CHR ''m'', 1),
     (''node-name-map'', 1, 1), (''ports-file'', 2, 1)]"

definition tracert_opt :: "nat \<Rightarrow> string \<Rightarrow> tracert_args \<Rightarrow> (bool \<times> tracert_args) option" where
  \<comment> \<open>\<open>process_opt\<close> of \<open>ibtracert.c\<close>: whether it knows the option\<close>
  "tracert_opt ch arg a = Some (
     if ch = 1 then (True, a\<lparr>ta_name_map := Some arg\<rparr>)
     else if ch = 2 then (True, a\<lparr>ta_ports_file := Some arg\<rparr>)
     else if ch = of_char CHR ''m'' then (True, a\<lparr>ta_multicast := ta_multicast a + 1, ta_mlid := strtoul_int arg\<rparr>)
     else if ch = of_char CHR ''f'' then (True, a\<lparr>ta_force := ta_force a + 1\<rparr>)
     else if ch = of_char CHR ''n'' then (True, a\<lparr>ta_dumplevel := 1\<rparr>)
     else (False, a))"

definition tracert_run :: "(string \<Rightarrow> string \<Rightarrow> 'w \<Rightarrow> ((int + int) \<times> 'w) option) \<Rightarrow> (string \<Rightarrow> string list option) \<Rightarrow> tracert_args \<Rightarrow>
    string list \<Rightarrow> cbuf \<Rightarrow> cbuf \<Rightarrow> 'w \<Rightarrow> (int \<times> string \<times> 'w) option" where
  \<comment> \<open>\<open>main\<close> once the port is open: the exit status and the closing line; \<open>argv\<close> holds what the options leave,
      \<open>tr\<close> is \<open>get_route\<close> and \<open>fopen\<close> gives the lines of a file\<close>
  "tracert_run tr fopen a argv srcbuf dstbuf w = (case ta_ports_file a of
     None \<Rightarrow> do {
       src \<leftarrow> mem_rd argv 0;
       dst \<leftarrow> mem_rd argv 1;
       (r, w) \<leftarrow> tr src dst w;
       Some (case r of Inl n \<Rightarrow> n | Inr rc \<Rightarrow> if rc \<noteq> 0 then -1 else 0, [], w)
     }
   | Some file \<Rightarrow> (case fopen file of None \<Rightarrow> Some (-1, [], w)
     | Some ls \<Rightarrow> do {
         (r, w) \<leftarrow> route_pairs tr ls 0 srcbuf dstbuf w;
         Some (case r of Inl n \<Rightarrow> (n, [], w)
           | Inr pairs \<Rightarrow> (0, dec_int (int pairs) @ '' lid/guid pairs processed from '' @ file @ NEWLINE, w))
       }))"

end
