(* ===== verification/IbTracertCorrect.thy ===== *)
theory IbTracertCorrect
  imports IbTracert MadResolveCorrect FabricCorrect
begin

text \<open>
  What \<open>find_route\<close> finds. A fabric is a graph of nodes whose ports are cabled, with a forwarding table in every switch; a network is truthful
  when every answer it gives is about the node that the directed route of the request leads to. It may lose any request.
\<close>

section \<open>Fabrics\<close>

record 'v topo =
  t_type :: "'v \<Rightarrow> int"
  t_ports :: "'v \<Rightarrow> int"
  t_guid :: "'v \<Rightarrow> int \<Rightarrow> u64" \<comment> \<open>of a port\<close>
  t_lft :: "'v \<Rightarrow> int \<Rightarrow> int" \<comment> \<open>the table of a switch, by LID\<close>
  t_peer :: "'v \<Rightarrow> int \<Rightarrow> ('v \<times> int) option" \<comment> \<open>the other end of the cable\<close>

abbreviation is_switch :: "'v topo \<Rightarrow> 'v \<Rightarrow> bool" where
  "is_switch T v \<equiv> t_type T v = uint IB_NODE_SWITCH"

fun leads :: "'v topo \<Rightarrow> 'v \<times> int \<Rightarrow> int list \<Rightarrow> ('v \<times> int) option" where
  \<comment> \<open>the node a route leads to, with the port it is entered by; an adapter has one way out\<close>
  "leads T (v, i) [] = Some (v, i)"
| "leads T (v, i) (h # hs) = (if is_switch T v \<or> h = i then (case t_peer T v h of None \<Rightarrow> None | Some y \<Rightarrow> leads T y hs) else None)"

definition topo_ok :: "'v topo \<Rightarrow> 'v \<times> int \<Rightarrow> bool" where
  "topo_ok T root \<longleftrightarrow>
     (\<forall>v p u q. t_peer T v p = Some (u, q) \<longrightarrow> t_peer T u q = Some (v, p)) \<and>
     (\<forall>v. t_type T v \<in> uint ` {IB_NODE_CA, IB_NODE_SWITCH, IB_NODE_ROUTER}) \<and>
     (\<forall>v i j. is_switch T v \<longrightarrow> t_guid T v i = t_guid T v j) \<and>
     (\<forall>x v p u q. x = root \<or> t_peer T v p = Some x \<longrightarrow> x = (u, q) \<longrightarrow> q \<in> {0..<256} \<and> (\<not> is_switch T u \<longrightarrow> q \<noteq> 0))"

definition route_of :: "ib_portid_t \<Rightarrow> int list" where
  "route_of p = map uint (take (nat (cnt (pt_drpath p))) (drop 1 (hops (pt_drpath p))))"

definition direct :: "ib_portid_t \<Rightarrow> bool" where
  "direct p \<longleftrightarrow> 0 \<le> cnt (pt_drpath p) \<and> cnt (pt_drpath p) < 63 \<and> length (hops (pt_drpath p)) = 64"

definition tells :: "endian \<Rightarrow> 'v topo \<Rightarrow> int \<Rightarrow> 'v \<times> int \<Rightarrow> u32 \<Rightarrow> u32 \<Rightarrow> mem \<Rightarrow> bool" where
  \<comment> \<open>an answer of the node \<open>v\<close>, entered by port \<open>i\<close>, is true\<close>
  "tells e T lid = (\<lambda>(v, i) attrid amod b.
     (attrid = IB_ATTR_NODE_INFO \<longrightarrow> decode_int e b IB_NODE_TYPE_F = Some (t_type T v) \<and>
        decode_int e b IB_NODE_NPORTS_F = Some (t_ports T v) \<and> decode_u64 e b IB_NODE_PORT_GUID_F = Some (t_guid T v i) \<and>
        decode_int e b IB_NODE_LOCAL_PORT_F = Some i) \<and>
     (attrid = IB_ATTR_LINEARFORWTBL \<and> amod = word_of_int (lid div 64) \<longrightarrow>
        mem_rd b (nat (lid mod 64)) = Some (word_of_int (t_lft T v lid)) \<and> - 128 \<le> t_lft T v lid \<and> t_lft T v lid < 128))"

definition truthful :: "endian \<Rightarrow> 'v topo \<Rightarrow> 'v \<times> int \<Rightarrow> int \<Rightarrow> 's ask \<Rightarrow> bool" where
  "truthful e T root lid ask \<longleftrightarrow> (\<forall>p attrid amod s r p' s'. ask p attrid amod s = Some (r, p', s') \<longrightarrow>
     pt_drpath p' = pt_drpath p \<and> pt_lid p' = pt_lid p \<and>
     (\<forall>b. r = Some b \<longrightarrow> pt_lid p = 0 \<longrightarrow> direct p \<longrightarrow>
        (case leads T root (route_of p) of None \<Rightarrow> False | Some x \<Rightarrow> tells e T lid x attrid amod b)))"

definition lft_step :: "'v topo \<Rightarrow> int \<Rightarrow> 'v \<times> int \<Rightarrow> ('v \<times> int) option" where
  \<comment> \<open>where a packet for \<open>lid\<close> goes next\<close>
  "lft_step T lid = (\<lambda>(v, i).
     if is_switch T v then (if 0 \<le> t_lft T v lid \<and> t_lft T v lid \<le> t_ports T v then t_peer T v (t_lft T v lid) else None)
     else t_peer T v i)"

fun lft_walk :: "'v topo \<Rightarrow> int \<Rightarrow> nat \<Rightarrow> 'v \<times> int \<Rightarrow> ('v \<times> int) option" where
  "lft_walk T lid 0 x = Some x"
| "lft_walk T lid (Suc k) x = Option.bind (lft_walk T lid k x) (lft_step T lid)"

section \<open>One query\<close>

lemma leads_append: "leads T x (hs @ hs') = Option.bind (leads T x hs) (\<lambda>y. leads T y hs')"
  by (induction T x hs rule: leads.induct) (auto split: option.splits)

lemma truthfulD:
  assumes "truthful e T root lid ask" and "ask p attrid amod s = Some (r, p', s')"
  shows "pt_drpath p' = pt_drpath p" and "pt_lid p' = pt_lid p"
    and "r = Some b \<Longrightarrow> pt_lid p = 0 \<Longrightarrow> direct p \<Longrightarrow> leads T root (route_of p) \<noteq> None"
    and "r = Some b \<Longrightarrow> pt_lid p = 0 \<Longrightarrow> direct p \<Longrightarrow> leads T root (route_of p) = Some x \<Longrightarrow> tells e T lid x attrid amod b"
proof -
  have t: "pt_drpath p' = pt_drpath p \<and> pt_lid p' = pt_lid p \<and> (\<forall>b. r = Some b \<longrightarrow> pt_lid p = 0 \<longrightarrow> direct p \<longrightarrow>
      (case leads T root (route_of p) of None \<Rightarrow> False | Some x \<Rightarrow> tells e T lid x attrid amod b))"
    using assms unfolding truthful_def by blast
  then show "pt_drpath p' = pt_drpath p" "pt_lid p' = pt_lid p" by blast+
  show "r = Some b \<Longrightarrow> pt_lid p = 0 \<Longrightarrow> direct p \<Longrightarrow> leads T root (route_of p) \<noteq> None"
    using t by (cases "leads T root (route_of p)") auto
  show "r = Some b \<Longrightarrow> pt_lid p = 0 \<Longrightarrow> direct p \<Longrightarrow> leads T root (route_of p) = Some x \<Longrightarrow> tells e T lid x attrid amod b"
    using t by (cases "leads T root (route_of p)") auto
qed

lemma same_route: "pt_drpath p' = pt_drpath p \<Longrightarrow> route_of p' = route_of p \<and> direct p' = direct p"
  by (simp add: route_of_def direct_def)

lemma get_node_tells:
  assumes "truthful e T root lid ask" and "get_node e ask n x p s = Some (rc, n', x', p', s')"
  shows "pt_drpath p' = pt_drpath p" and "pt_lid p' = pt_lid p"
    and "0 \<le> rc \<Longrightarrow> pt_lid p = 0 \<Longrightarrow> direct p \<Longrightarrow> leads T root (route_of p) = Some (v, i) \<Longrightarrow>
      tn_type n' = t_type T v \<and> tn_numports n' = t_ports T v \<and> tp_guid x' = t_guid T v i \<and> tp_portnum x' = i"
    and "0 \<le> rc \<Longrightarrow> pt_lid p = 0 \<Longrightarrow> direct p \<Longrightarrow> leads T root (route_of p) \<noteq> None"
proof -
  obtain r1 p1 s1 where q1: "ask p IB_ATTR_NODE_INFO 0 s = Some (r1, p1, s1)"
    using assms(2) by (auto simp: get_node_def Option.bind_eq_Some_conv)
  note t1 = truthfulD [OF assms(1) q1]
  have "pt_drpath p' = pt_drpath p \<and> pt_lid p' = pt_lid p"
  proof (cases r1)
    case None
    then show ?thesis using assms(2) q1 t1 by (auto simp: get_node_def)
  next
    case (Some ni)
    then obtain r2 p2 s2 where q2: "ask p1 IB_ATTR_NODE_DESC 0 s1 = Some (r2, p2, s2)"
      using assms(2) q1 by (auto simp: get_node_def Option.bind_eq_Some_conv Let_def)
    note t2 = truthfulD [OF assms(1) q2]
    show ?thesis
    proof (cases r2)
      case None
      then show ?thesis using assms(2) q1 q2 t1 t2 Some by (auto simp: get_node_def Let_def)
    next
      case (Some nd)
      then obtain r3 p3 s3 where q3: "ask p2 IB_ATTR_PORT_INFO 0 s2 = Some (r3, p3, s3)"
        using assms(2) q1 q2 \<open>r1 = Some ni\<close> by (auto simp: get_node_def Option.bind_eq_Some_conv Let_def)
      note t3 = truthfulD [OF assms(1) q3]
      show ?thesis using assms(2) q1 q2 q3 t1 t2 t3 Some \<open>r1 = Some ni\<close>
        by (auto simp: get_node_def Let_def Option.bind_eq_Some_conv split: option.splits)
    qed
  qed
  then show "pt_drpath p' = pt_drpath p" "pt_lid p' = pt_lid p" by simp_all
  show "leads T root (route_of p) \<noteq> None" if h: "0 \<le> rc" "pt_lid p = 0" "direct p"
  proof -
    obtain ni where "r1 = Some ni" using assms(2) q1 h(1) by (cases r1) (auto simp: get_node_def)
    from t1(3) [OF this h(2,3)] show ?thesis .
  qed
  assume a: "0 \<le> rc" "pt_lid p = 0" "direct p" "leads T root (route_of p) = Some (v, i)"
  obtain ni where ni: "r1 = Some ni" using assms(2) q1 a(1) by (cases r1) (auto simp: get_node_def)
  have "tells e T lid (v, i) IB_ATTR_NODE_INFO 0 ni" by (rule t1(4) [OF ni a(2-4)])
  then show "tn_type n' = t_type T v \<and> tn_numports n' = t_ports T v \<and> tp_guid x' = t_guid T v i \<and> tp_portnum x' = i"
    using assms(2) q1 ni a(1) by (auto simp: get_node_def Let_def Option.bind_eq_Some_conv tells_def split: option.splits)
qed

lemma sdiv_pos: "0 \<le> lid \<Longrightarrow> lid sdiv 64 = lid div (64 :: int)" "0 \<le> lid \<Longrightarrow> lid smod 64 = lid mod (64 :: int)"
  by (cases "lid = 0"; simp add: signed_divide_int_def signed_modulo_int_def)+

lemma mod_not_neg: "(lid mod 64 < (0 :: int)) = False"
  by simp

lemma switch_lookup_tells:
  assumes "truthful e T root lid ask" and "switch_lookup e ask sw p lid s = Some (r, sw', p', s')" and "0 \<le> lid"
  shows "pt_drpath p' = pt_drpath p" and "pt_lid p' = pt_lid p"
    and "0 \<le> r \<Longrightarrow> pt_lid p = 0 \<Longrightarrow> direct p \<Longrightarrow> leads T root (route_of p) = Some (v, i) \<Longrightarrow> r = t_lft T v lid"
proof -
  obtain r1 p1 s1 where q1: "ask p IB_ATTR_SWITCH_INFO 0 s = Some (r1, p1, s1)"
    using assms(2) by (auto simp: switch_lookup_def Option.bind_eq_Some_conv)
  note t1 = truthfulD [OF assms(1) q1]
  have "(pt_drpath p' = pt_drpath p1 \<and> pt_lid p' = pt_lid p1) \<and>
    (0 \<le> r \<longrightarrow> pt_lid p = 0 \<longrightarrow> direct p \<longrightarrow> leads T root (route_of p) = Some (v, i) \<longrightarrow> r = t_lft T v lid)"
  proof (cases r1)
    case None
    then show ?thesis using assms(2) q1 by (auto simp: switch_lookup_def)
  next
    case (Some si)
    obtain cap top enh where d: "decode_int e si IB_SW_LINEAR_FDB_CAP_F = Some cap" "decode_int e si IB_SW_LINEAR_FDB_TOP_F = Some top"
        "decode_int e si IB_SW_ENHANCED_PORT0_F = Some enh"
      using assms(2) q1 Some by (auto simp: switch_lookup_def Option.bind_eq_Some_conv)
    show ?thesis
    proof (cases "lid \<ge> cap \<and> lid > top")
      case True
      then show ?thesis using assms(2) q1 Some d by (auto simp: switch_lookup_def Let_def)
    next
      case False
      then obtain r2 p2 s2 where q2: "ask p1 IB_ATTR_LINEARFORWTBL (word_of_int (lid sdiv 64)) s1 = Some (r2, p2, s2)"
        using assms(2) q1 Some d by (auto simp: switch_lookup_def Option.bind_eq_Some_conv Let_def simp del: de_Morgan_conj)
      note t2 = truthfulD [OF assms(1) q2]
      show ?thesis
      proof (cases r2)
        case None
        then show ?thesis using assms(2) q1 q2 Some d False t2 by (auto simp: switch_lookup_def Let_def)
      next
        case b: (Some b)
        have "r = t_lft T v lid" if "pt_lid p = 0" "direct p" "leads T root (route_of p) = Some (v, i)"
        proof -
          have "tells e T lid (v, i) IB_ATTR_LINEARFORWTBL (word_of_int (lid sdiv 64)) b"
            by (rule t2(4) [OF b]) (use t1(1,2) that same_route [OF t1(1)] in simp_all)
          then have "mem_rd b (nat (lid mod 64)) = Some (word_of_int (t_lft T v lid))" "- 128 \<le> t_lft T v lid" "t_lft T v lid < 128"
            using assms(3) by (simp_all add: tells_def sdiv_pos)
          then show ?thesis
            using assms(2,3) q1 q2 Some d False b
            by (auto simp: switch_lookup_def Let_def sdiv_pos mod_not_neg signed_of_int signed_take_bit_int_eq_self)
        qed
        then show ?thesis using assms(2,3) q1 q2 Some d False t2 b by (auto simp: switch_lookup_def Let_def sdiv_pos mod_not_neg Option.bind_eq_Some_conv split: if_splits)
      qed
    qed
  qed
  then show "pt_drpath p' = pt_drpath p" "pt_lid p' = pt_lid p"
    "0 \<le> r \<Longrightarrow> pt_lid p = 0 \<Longrightarrow> direct p \<Longrightarrow> leads T root (route_of p) = Some (v, i) \<Longrightarrow> r = t_lft T v lid" using t1 by auto
qed

section \<open>Routes\<close>

lemma route_extended:
  assumes "extend_route p n = Some (rc, p')" and "direct p" and "0 \<le> rc" and "n \<in> {0..<256}"
  shows "pt_lid p' = pt_lid p" and "direct p'" and "route_of p' = route_of p @ [n]"
proof -
  let ?c = "nat (cnt (pt_drpath p))" and ?h = "hops (pt_drpath p)"
  have d: "0 \<le> cnt (pt_drpath p)" "cnt (pt_drpath p) < 63" "length ?h = 64" using assms(2) by (simp_all add: direct_def)
  have lt: "cnt (pt_drpath p) + 2 < 64"
  proof -
    have "nat (cnt (pt_drpath p) + 2) < 64"
      using assms(1,3) d(1,2) size_of_int_nonneg [of "cnt (pt_drpath p) + 2"]
      by (auto simp: extend_route_def Let_def split: if_splits)
    then show ?thesis by simp
  qed
  then have p': "p' = p\<lparr>pt_drpath := (pt_drpath p)\<lparr>cnt := cnt (pt_drpath p) + 1, hops := ?h[Suc ?c := word_of_int n]\<rparr>\<rparr>"
    using assms(1,3) d by (auto simp: extend_route_def Let_def mem_wr_def nat_add_distrib split: if_splits)
  then show "pt_lid p' = pt_lid p" "direct p'" using d lt by (simp_all add: direct_def)
  have "uint (word_of_int n :: u8) = n" using assms(4) by (simp add: uint_word_of_int)
  moreover have "?c + 1 < length ?h" using d lt by linarith
  then have "take (Suc ?c) (drop 1 (?h[Suc ?c := word_of_int n])) = take ?c (drop 1 ?h) @ [word_of_int n]"
    by (simp add: take_Suc_conv_app_nth drop_update_swap)
  ultimately show "route_of p' = route_of p @ [n]"
    using d by (simp add: p' route_of_def nat_add_distrib)
qed

lemma route_shortened:
  assumes "direct p" and "0 < cnt (pt_drpath p)"
  shows "direct (shorten p)" and "pt_lid (shorten p) = pt_lid p"
    and "route_of p = route_of (shorten p) @ [uint (hops (pt_drpath p) ! nat (cnt (pt_drpath p)))]"
proof -
  let ?c = "nat (cnt (pt_drpath p) - 1)" and ?h = "hops (pt_drpath p)"
  have d: "cnt (pt_drpath p) < 63" "length ?h = 64" using assms(1) by (simp_all add: direct_def)
  show "direct (shorten p)" "pt_lid (shorten p) = pt_lid p" using assms d by (simp_all add: direct_def shorten_def)
  have c: "nat (cnt (pt_drpath p)) = Suc ?c" using assms(2) by linarith
  have "?c + 1 < length ?h" using d c by linarith
  then have "take (Suc ?c) (drop 1 ?h) = take ?c (drop 1 ?h) @ [?h ! Suc ?c]" by (simp add: take_Suc_conv_app_nth)
  then show "route_of p = route_of (shorten p) @ [uint (?h ! nat (cnt (pt_drpath p)))]"
    by (simp add: route_of_def shorten_def c)
qed

lemma leads_extended:
  assumes "leads T root (route_of p) = Some (v, j)" and "is_switch T v \<or> n = j" and "t_peer T v n = Some y"
    and "route_of p' = route_of p @ [n]"
  shows "leads T root (route_of p') = Some y"
  using assms by (cases y) (auto simp: leads_append)

lemma leads_back:
  assumes "topo_ok T root" and "leads T root (hs @ [h]) = Some (v, j)"
  obtains u i where "leads T root hs = Some (u, i)" and "t_peer T v j = Some (u, h)" and "is_switch T u \<or> h = i"
proof -
  obtain u i where u: "leads T root hs = Some (u, i)" using assms(2) by (cases "leads T root hs") (auto simp: leads_append)
  then have "t_peer T u h = Some (v, j)" "is_switch T u \<or> h = i"
    using assms(2) by (auto simp: leads_append split: if_splits option.splits)
  moreover have "t_peer T v j = Some (u, h)" using assms(1) calculation(1) unfolding topo_ok_def by blast
  ultimately show ?thesis using that u by blast
qed

lemma leads_entry:
  assumes "topo_ok T root" and "leads T root hs = Some (v, j)"
  shows "j \<in> {0..<256}" and "\<not> is_switch T v \<Longrightarrow> j \<noteq> 0"
proof -
  have "(v, j) = root \<or> (\<exists>u p. t_peer T u p = Some (v, j))"
  proof (cases hs rule: rev_cases)
    case Nil
    then show ?thesis using assms(2) by (cases root) simp
  next
    case (snoc gs h)
    obtain u i where "t_peer T v j = Some (u, h)" using leads_back [OF assms(1) assms(2) [unfolded snoc]] by blast
    then have "t_peer T u h = Some (v, j)" using assms(1) unfolding topo_ok_def by blast
    then show ?thesis by blast
  qed
  then have "j \<in> {0..<256} \<and> (\<not> is_switch T v \<longrightarrow> j \<noteq> 0)"
    using assms(1) unfolding topo_ok_def by blast
  then show "j \<in> {0..<256}" "\<not> is_switch T v \<Longrightarrow> j \<noteq> 0" by blast+
qed

section \<open>One round\<close>

definition at_node :: "'v topo \<Rightarrow> 'v \<times> int \<Rightarrow> 'v \<Rightarrow> int \<Rightarrow> ib_portid_t \<Rightarrow> Node \<Rightarrow> Port \<Rightarrow> bool" where
  \<comment> \<open>the address leads to \<open>v\<close> through port \<open>j\<close>, and what is known of it is true\<close>
  "at_node T root v j from node port \<longleftrightarrow> pt_lid from = 0 \<and> direct from \<and> leads T root (route_of from) = Some (v, j) \<and>
     tn_type node = t_type T v \<and> tn_numports node = t_ports T v \<and> tp_guid port = t_guid T v j"

definition tracing_ok :: "'v topo \<Rightarrow> 'v \<times> int \<Rightarrow> int \<Rightarrow> 'v \<times> int \<Rightarrow> nat \<Rightarrow> 's tracing \<Rightarrow> bool" where
  "tracing_ok T root lid start k t \<longleftrightarrow> pt_lid (fr_to t) = lid \<and> (\<exists>v j i. at_node T root v j (fr_from t) (fr_node t) (fr_port t) \<and>
     lft_walk T lid k start = Some (v, i) \<and> (is_switch T v \<or> i = j \<and> fr_portnum t = j) \<and>
     (is_switch T v \<longrightarrow> fr_next_sw_outport t = t_lft T v lid \<and> t_lft T v lid \<in> {0..<128} \<and> t_lft T v lid \<le> t_ports T v))"

lemma ask_next_tells:
  assumes "truthful e T root lid ask" and "ask_next e ask t = Some (rc, t')"
    and "0 \<le> rc" and "pt_lid (fr_from t) = 0" and "direct (fr_from t)"
  shows "\<exists>v j. leads T root (route_of (fr_from t)) = Some (v, j)"
    and "leads T root (route_of (fr_from t)) = Some (v, j) \<Longrightarrow> at_node T root v j (fr_from t') (fr_nextnode t') (fr_nextport t')"
    and "leads T root (route_of (fr_from t)) = Some (v, j) \<Longrightarrow> tp_portnum (fr_nextport t') = j"
    and "fr_to t' = fr_to t" and "fr_toport t' = fr_toport t" and "fr_outport t' = fr_outport t"
    and "fr_fromport t' = fr_fromport t" and "pt_drpath (fr_from t') = pt_drpath (fr_from t)"
proof -
  obtain n x p s where g: "get_node e ask (fr_nextnode t) (fr_nextport t) (fr_from t) (fr_net t) = Some (rc, n, x, p, s)"
      "t' = t\<lparr>fr_nextnode := n, fr_nextport := x, fr_from := p, fr_net := s\<rparr>"
    using assms(2) by (auto simp: ask_next_def Option.bind_eq_Some_conv)
  note G = get_node_tells [OF assms(1) g(1)]
  show "\<exists>v j. leads T root (route_of (fr_from t)) = Some (v, j)" using G(4) [OF assms(3-5)] by auto
  show "leads T root (route_of (fr_from t)) = Some (v, j) \<Longrightarrow> at_node T root v j (fr_from t') (fr_nextnode t') (fr_nextport t')"
    "leads T root (route_of (fr_from t)) = Some (v, j) \<Longrightarrow> tp_portnum (fr_nextport t') = j"
    using G(1,2) G(3) [OF assms(3-5)] assms(4,5) same_route [OF G(1)] by (simp_all add: g(2) at_node_def)
  show "fr_to t' = fr_to t" "fr_toport t' = fr_toport t" "fr_outport t' = fr_outport t"
    "fr_fromport t' = fr_fromport t" "pt_drpath (fr_from t') = pt_drpath (fr_from t)"
    using G(1) by (simp_all add: g(2))
qed

lemma look_up_tells:
  assumes "truthful e T root lid ask" and "look_up e ask t = Some t'" and "pt_lid (fr_to t) = lid" and "0 \<le> lid"
    and "at_node T root v j (fr_from t) n x"
  shows "at_node T root v j (fr_from t') n x" and "0 \<le> fr_next_sw_outport t' \<Longrightarrow> fr_next_sw_outport t' = t_lft T v lid"
    and "fr_to t' = fr_to t" and "fr_toport t' = fr_toport t" and "fr_nextnode t' = fr_nextnode t" and "fr_nextport t' = fr_nextport t"
    and "fr_fromnode t' = fr_fromnode t" and "fr_fromport t' = fr_fromport t" and "fr_moved t' = fr_moved t" and "fr_portnum t' = fr_portnum t"
proof -
  obtain r sw p s where l: "switch_lookup e ask (fr_sw t) (fr_from t) lid (fr_net t) = Some (r, sw, p, s)"
      "t' = t\<lparr>fr_next_sw_outport := r, fr_sw := sw, fr_from := p, fr_net := s\<rparr>"
    using assms(2,3) by (auto simp: look_up_def Option.bind_eq_Some_conv)
  note L = switch_lookup_tells [OF assms(1) l(1) assms(4)]
  have a: "pt_lid (fr_from t) = 0" "direct (fr_from t)" "leads T root (route_of (fr_from t)) = Some (v, j)"
    using assms(5) by (simp_all add: at_node_def)
  show "at_node T root v j (fr_from t') n x" "0 \<le> fr_next_sw_outport t' \<Longrightarrow> fr_next_sw_outport t' = t_lft T v lid"
    using L(1,2) L(3) [OF _ a] assms(5) same_route [OF L(1)] by (simp_all add: l(2) at_node_def)
qed (use assms(2) in \<open>auto simp: look_up_def Option.bind_eq_Some_conv\<close>)

definition next_at :: "'v topo \<Rightarrow> 'v \<times> int \<Rightarrow> int \<Rightarrow> 'v \<Rightarrow> int \<Rightarrow> 's tracing \<Rightarrow> 's tracing \<Rightarrow> bool" where
  \<comment> \<open>after a step from \<open>v\<close>, entered by \<open>i\<close>, \<open>nextnode\<close> is where the tables lead\<close>
  "next_at T root lid v i t t' \<longleftrightarrow> fr_to t' = fr_to t \<and> fr_toport t' = fr_toport t \<and> (\<exists>w q r. lft_step T lid (v, i) = Some (w, q) \<and>
     at_node T root w r (fr_from t') (fr_nextnode t') (fr_nextport t') \<and> (is_switch T w \<or> q = r \<and> tp_portnum (fr_nextport t') = r))"

lemma switch_step_tells:
  assumes "truthful e T root lid ask" and "tr_e opt = e" and "\<not> tr_force opt" and "topo_ok T root"
    and "at_node T root v j (fr_from t) (fr_node t) (fr_port t)" and "is_switch T v"
    and "fr_next_sw_outport t = t_lft T v lid" and "0 \<le> t_lft T v lid" and "t_lft T v lid \<le> t_ports T v" and "t_lft T v lid < 128"
    and "switch_step opt ask t = Some (r, t')"
  shows "r = None \<or> r = Some Found \<Longrightarrow> next_at T root lid v i t t'"
    and "r = Some Found \<Longrightarrow> tp_guid (fr_nextport t') = tp_guid (fr_toport t')"
proof -
  let ?t = "t\<lparr>fr_outport := fr_next_sw_outport t\<rparr>"
  have step: "next_at T root lid v i t t' \<and> (r = Some Found \<longrightarrow> tp_guid (fr_nextport t') = tp_guid (fr_toport t'))" if r: "r = None \<or> r = Some Found"
  proof -
    obtain rc from1 where x: "extend_route (fr_from t) (t_lft T v lid) = Some (rc, from1)"
      using assms(7,11) by (auto simp: switch_step_def Let_def Option.bind_eq_Some_conv)
    have rc: "\<not> rc < 0" using assms(7,11) x r by (auto simp: switch_step_def Let_def)
    let ?t1 = "t\<lparr>fr_outport := t_lft T v lid, fr_from := from1\<rparr>"
    obtain rc2 t2 where n: "ask_next e ask ?t1 = Some (rc2, t2)"
      using assms(2,7,11) x rc by (auto simp: switch_step_def Let_def Option.bind_eq_Some_conv)
    have rc2: "\<not> rc2 < 0" using assms(2,7,11) x rc n r by (auto simp: switch_step_def Let_def)
    have a: "direct (fr_from t)" "pt_lid (fr_from t) = 0" "leads T root (route_of (fr_from t)) = Some (v, j)" using assms(5) by (simp_all add: at_node_def)
    have ext: "pt_lid from1 = 0" "direct from1" "route_of from1 = route_of (fr_from t) @ [t_lft T v lid]"
      using route_extended [OF x a(1)] rc a(2) assms(8,10) by auto
    have N: "\<exists>w q. leads T root (route_of from1) = Some (w, q)"
      using ask_next_tells(1) [OF assms(1) n] rc2 ext by auto
    then obtain w q where w: "leads T root (route_of from1) = Some (w, q)" by blast
    have peer: "t_peer T v (t_lft T v lid) = Some (w, q)"
      using w a(3) assms(6) by (auto simp: ext(3) leads_append split: option.splits)
    have at: "at_node T root w q (fr_from t2) (fr_nextnode t2) (fr_nextport t2)" "tp_portnum (fr_nextport t2) = q"
        "fr_to t2 = fr_to t" "fr_toport t2 = fr_toport t" "fr_outport t2 = t_lft T v lid"
      using ask_next_tells(2,3) [OF assms(1) n, where v = w and j = q] ask_next_tells(4-8) [OF assms(1) n] rc2 ext w by auto
    have t': "t' = t2" using assms(2,7,11) x rc n rc2 r by (auto simp: switch_step_def Let_def split: if_splits)
    have "lft_step T lid (v, i) = Some (w, q)" using peer assms(6,8,9) by (simp add: lft_step_def)
    then have "next_at T root lid v i t t'" using at by (auto simp: next_at_def t')
    moreover have "r = Some Found \<longrightarrow> tp_guid (fr_nextport t') = tp_guid (fr_toport t')"
      using assms(2,3,7,11) x rc n rc2 at by (auto simp: switch_step_def Let_def sameport_def t' split: if_splits)
    ultimately show ?thesis by blast
  qed
  then show "r = None \<or> r = Some Found \<Longrightarrow> next_at T root lid v i t t'"
    "r = Some Found \<Longrightarrow> tp_guid (fr_nextport t') = tp_guid (fr_toport t')" by blast+
qed

lemma adapter_step_tells:
  assumes "truthful e T root lid ask" and "tr_e opt = e" and "topo_ok T root"
    and "at_node T root v j (fr_from t) (fr_node t) (fr_port t)" and "\<not> is_switch T v" and "fr_portnum t = j"
    and "adapter_step opt ask t = Some (r, t')"
  shows "r = None \<Longrightarrow> next_at T root lid v j t t'" and "r \<noteq> Some Found"
proof -
  let ?t = "t\<lparr>fr_outport := fr_portnum t\<rparr>"
  have a: "direct (fr_from t)" "pt_lid (fr_from t) = 0" "leads T root (route_of (fr_from t)) = Some (v, j)" using assms(4) by (simp_all add: at_node_def)
  have j: "j \<in> {0..<256}" "j \<noteq> 0" using leads_entry [OF assms(3) a(3)] assms(5) by auto
  show "r \<noteq> Some Found" using assms(7) by (auto simp: adapter_step_def Let_def Option.bind_eq_Some_conv split: if_splits)
  show "next_at T root lid v j t t'" if r: "r = None"
  proof (cases "cnt (pt_drpath (fr_from t)) > 0")
    case False
    obtain rc from1 where x: "extend_route (fr_from t) j = Some (rc, from1)"
      using assms(6,7) j r False by (auto simp: adapter_step_def Let_def Option.bind_eq_Some_conv split: if_splits)
    have rc: "\<not> rc < 0" using assms(6,7) j r False x by (auto simp: adapter_step_def Let_def Option.bind_eq_Some_conv split: if_splits)
    let ?t1 = "t\<lparr>fr_outport := j, fr_from := from1\<rparr>"
    obtain rc2 where n: "ask_next e ask ?t1 = Some (rc2, t')" "\<not> rc2 < 0"
      using assms(2,6,7) j r False x rc by (auto simp: adapter_step_def Let_def Option.bind_eq_Some_conv split: if_splits)
    have ext: "pt_lid from1 = 0" "direct from1" "route_of from1 = route_of (fr_from t) @ [j]"
      using route_extended [OF x a(1)] rc a(2) j(1) by auto
    have "\<exists>w q. leads T root (route_of from1) = Some (w, q)"
      using ask_next_tells(1) [OF assms(1) n(1)] n(2) ext by auto
    then obtain w q where w: "leads T root (route_of from1) = Some (w, q)" by blast
    have peer: "t_peer T v j = Some (w, q)"
      using w a(3) by (auto simp: ext(3) leads_append split: option.splits if_splits)
    have at: "at_node T root w q (fr_from t') (fr_nextnode t') (fr_nextport t')" "tp_portnum (fr_nextport t') = q"
        "fr_to t' = fr_to t" "fr_toport t' = fr_toport t"
      using ask_next_tells(2,3) [OF assms(1) n(1), where v = w and j = q] ask_next_tells(4-8) [OF assms(1) n(1)] n(2) ext w by auto
    have "lft_step T lid (v, j) = Some (w, q)" using peer assms(5) by (simp add: lft_step_def)
    then show ?thesis using at by (auto simp: next_at_def)
  next
    case True
    note sh = route_shortened [OF a(1) True]
    let ?h = "uint (hops (pt_drpath (fr_from t)) ! nat (cnt (pt_drpath (fr_from t))))"
    obtain w q where w: "leads T root (route_of (shorten (fr_from t))) = Some (w, q)" "t_peer T v j = Some (w, ?h)" "is_switch T w \<or> ?h = q"
      using leads_back [OF assms(3) a(3) [unfolded sh(3)]] by blast
    let ?t1 = "t\<lparr>fr_outport := j, fr_from := shorten (fr_from t)\<rparr>"
    obtain rc2 t2 b where n: "ask_next e ask ?t1 = Some (rc2, t2)" "\<not> rc2 < 0"
        "mem_rd (hops (pt_drpath (fr_from t2))) (nat (cnt (pt_drpath (fr_from t2)) + 1)) = Some b"
        "t' = t2\<lparr>fr_nextport := (fr_nextport t2)\<lparr>tp_portnum := uint b\<rparr>\<rparr>"
      using assms(2,6,7) r True by (auto simp: adapter_step_def shorten_def Let_def Option.bind_eq_Some_conv split: if_splits)
    note N = ask_next_tells(2,3) [OF assms(1) n(1), where v = w and j = q] ask_next_tells(4-8) [OF assms(1) n(1)]
    have at: "at_node T root w q (fr_from t2) (fr_nextnode t2) (fr_nextport t2)"
        "fr_to t2 = fr_to t" "fr_toport t2 = fr_toport t" "pt_drpath (fr_from t2) = pt_drpath (shorten (fr_from t))"
      using N n(2) sh(1,2) a(2) w(1) by auto
    have b: "uint b = ?h" using n(3) True by (simp add: at(4) shorten_def mem_rd_Some)
    have "lft_step T lid (v, j) = Some (w, ?h)" using w(2) assms(5) by (simp add: lft_step_def)
    moreover have "at_node T root w q (fr_from t') (fr_nextnode t') (fr_nextport t')" using at(1) by (simp add: n(4) at_node_def)
    ultimately show ?thesis using at(2,3) w(3) b n(4) by (auto simp: next_at_def)
  qed
qed

lemma switch_lookup_small: "switch_lookup e ask sw p lid s = Some (r, sw', p', s') \<Longrightarrow> r < 128"
proof -
  have "sint (b :: u8) < 128" for b using sint_lt [of b] by simp
  then show "switch_lookup e ask sw p lid s = Some (r, sw', p', s') \<Longrightarrow> r < 128"
    by (auto simp: switch_lookup_def Let_def Option.bind_eq_Some_conv split: option.split_asm if_split_asm; metis)
qed

lemma look_up_small: "look_up e ask t = Some t' \<Longrightarrow> fr_next_sw_outport t' < 128"
  by (auto simp: look_up_def Option.bind_eq_Some_conv dest: switch_lookup_small)

lemma trace_step_tells:
  assumes "truthful (tr_e opt) T root lid ask" and "\<not> tr_force opt" and "topo_ok T root" and "0 \<le> lid"
    and "tracing_ok T root lid start k t" and "trace_step opt ask dump t = Some (r, t')"
  shows "r = None \<Longrightarrow> tracing_ok T root lid start (Suc k) t' \<and> fr_toport t' = fr_toport t"
    and "r = Some Found \<Longrightarrow> fr_toport t' = fr_toport t \<and>
      (\<exists>m v i. m \<le> Suc k \<and> lft_walk T lid m start = Some (v, i) \<and> t_guid T v i = tp_guid (fr_toport t))"
proof -
  obtain v j i where s: "pt_lid (fr_to t) = lid" "at_node T root v j (fr_from t) (fr_node t) (fr_port t)"
      "lft_walk T lid k start = Some (v, i)" "is_switch T v \<or> i = j \<and> fr_portnum t = j"
      "is_switch T v \<longrightarrow> fr_next_sw_outport t = t_lft T v lid \<and> t_lft T v lid \<in> {0..<128} \<and> t_lft T v lid \<le> t_ports T v"
    using assms(5) unfolding tracing_ok_def by blast
  have type: "tn_type (fr_node t) = t_type T v" and guid: "tp_guid (fr_port t) = t_guid T v i"
  proof -
    show "tn_type (fr_node t) = t_type T v" using s(2) by (simp add: at_node_def)
    have "t_guid T v j = t_guid T v i" using s(4) assms(3) unfolding topo_ok_def by blast
    then show "tp_guid (fr_port t) = t_guid T v i" using s(2) by (simp add: at_node_def)
  qed
  have kinds: "t_type T v = uint IB_NODE_CA \<or> t_type T v = uint IB_NODE_SWITCH \<or> t_type T v = uint IB_NODE_ROUTER"
    using assms(3) unfolding topo_ok_def by auto
  let ?step = "if is_switch T v then switch_step opt ask t else adapter_step opt ask t"
  have tells: "(re = None \<or> re = Some Found \<longrightarrow> next_at T root lid v i t t1) \<and> (re = Some Found \<longrightarrow> tp_guid (fr_nextport t1) = tp_guid (fr_toport t1))"
    if "?step = Some (re, t1)" for re t1
  proof (cases "is_switch T v")
    case True
    then show ?thesis using switch_step_tells(1) [OF assms(1) refl assms(2,3) s(2) True, where i = i] switch_step_tells(2) [OF assms(1) refl assms(2,3) s(2) True] s(5) that by auto
  next
    case False
    then show ?thesis using adapter_step_tells [OF assms(1) refl assms(3) s(2) False] s(4) that by auto
  qed
  show "tracing_ok T root lid start (Suc k) t' \<and> fr_toport t' = fr_toport t" if r: "r = None"
  proof -
    obtain t1 where t1: "?step = Some (None, t1)"
      using assms(6) r type kinds by (auto simp: trace_step_def Option.bind_eq_Some_conv split: if_splits)
    have "next_at T root lid v i t t1" using tells [OF t1] by simp
    then obtain w q j' where w: "lft_step T lid (v, i) = Some (w, q)" "at_node T root w j' (fr_from t1) (fr_nextnode t1) (fr_nextport t1)"
        "is_switch T w \<or> q = j' \<and> tp_portnum (fr_nextport t1) = j'" "fr_to t1 = fr_to t" "fr_toport t1 = fr_toport t"
      unfolding next_at_def by blast
    have wt: "tn_type (fr_nextnode t1) = t_type T w" "tn_numports (fr_nextnode t1) = t_ports T w" using w(2) by (simp_all add: at_node_def)
    obtain t2 where t2: "(if is_switch T w then look_up (tr_e opt) ask t1 else Some t1) = Some t2"
      using assms(6) r type kinds t1 wt by (auto simp: trace_step_def Option.bind_eq_Some_conv split: if_splits)
    have keep: "at_node T root w j' (fr_from t2) (fr_nextnode t2) (fr_nextport t2)" "fr_nextnode t2 = fr_nextnode t1" "fr_nextport t2 = fr_nextport t1"
        "fr_to t2 = fr_to t" "fr_toport t2 = fr_toport t"
        "is_switch T w \<Longrightarrow> 0 \<le> fr_next_sw_outport t2 \<Longrightarrow> fr_next_sw_outport t2 = t_lft T w lid \<and> t_lft T w lid < 128"
    proof -
      show "at_node T root w j' (fr_from t2) (fr_nextnode t2) (fr_nextport t2)" "fr_nextnode t2 = fr_nextnode t1" "fr_nextport t2 = fr_nextport t1"
        "fr_to t2 = fr_to t" "fr_toport t2 = fr_toport t"
        using look_up_tells(1,3-6) [OF assms(1) _ _ assms(4) w(2)] t2 s(1) w(2,4,5) by (auto split: if_splits)
      assume "is_switch T w" "0 \<le> fr_next_sw_outport t2"
      then show "fr_next_sw_outport t2 = t_lft T w lid \<and> t_lft T w lid < 128"
        using look_up_tells(2) [OF assms(1) _ _ assms(4) w(2)] look_up_small [of "tr_e opt" ask t1 t2] t2 s(1) w(4) by auto
    qed
    have cont: "trace_step opt ask dump t = (if is_switch T w \<and> table_bad (fr_nextnode t2) t2
        then Some (Some BadTable, t2\<lparr>fr_outport := fr_next_sw_outport t2\<rparr>)
        else if is_port_inactive (fr_nextnode t2) (fr_nextport t2) (fr_sw t2) then Some (Some BadOutPort, t2)
        else do {
          let t = t2\<lparr>fr_moved := True, fr_portnum := tp_portnum (fr_nextport t2)\<rparr>;
          line \<leftarrow> dump_route opt dump (fr_node t) (fr_outport t) (fr_port t);
          Some (None, t\<lparr>fr_out := fr_out t @ line\<rparr>)
        })"
    proof -
      have n1: "\<not> is_port_inactive (fr_node t) (fr_port t) (fr_sw t)"
      proof
        assume "is_port_inactive (fr_node t) (fr_port t) (fr_sw t)"
        then have "trace_step opt ask dump t = Some (Some BadPort, t)" by (simp add: trace_step_def)
        then show False using assms(6) r by simp
      qed
      have n2: "\<not> sameport (tr_force opt) (fr_port t) (fr_toport t)"
      proof
        assume "sameport (tr_force opt) (fr_port t) (fr_toport t)"
        then have "trace_step opt ask dump t = Some (Some Found, t)" using n1 by (simp add: trace_step_def)
        then show False using assms(6) r by simp
      qed
      have "(if tn_type (fr_node t) = uint IB_NODE_SWITCH then switch_step opt ask t
          else if tn_type (fr_node t) = uint IB_NODE_CA \<or> tn_type (fr_node t) = uint IB_NODE_ROUTER then adapter_step opt ask t
          else Some (None, t)) = Some (None, t1)"
        using t1 type kinds by (auto split: if_splits)
      moreover have "tn_type (fr_nextnode t2) = t_type T w" using keep(2) wt(1) by simp
      ultimately show ?thesis using n1 n2 t2 wt(1) by (simp add: trace_step_def)
    qed
    have nb: "\<not> (is_switch T w \<and> table_bad (fr_nextnode t2) t2)"
      using assms(6) r unfolding cont by (auto split: if_splits)
    obtain line where t': "t' = t2\<lparr>fr_moved := True, fr_portnum := tp_portnum (fr_nextport t2), fr_out := fr_out t2 @ line\<rparr>"
      using assms(6) r unfolding cont by (auto simp: Let_def Option.bind_eq_Some_conv split: if_splits)
    have "at_node T root w j' (fr_from t') (fr_node t') (fr_port t')" using keep(1) by (simp add: t' fr_node_def fr_port_def)
    moreover have "lft_walk T lid (Suc k) start = Some (w, q)" using s(3) w(1) by simp
    moreover have "is_switch T w \<or> q = j' \<and> fr_portnum t' = j'" using w(3) by (simp add: t' keep(3))
    moreover have "is_switch T w \<longrightarrow> fr_next_sw_outport t' = t_lft T w lid \<and> t_lft T w lid \<in> {0..<128} \<and> t_lft T w lid \<le> t_ports T w"
      using nb keep(6) wt(2) keep(2) by (auto simp: t' table_bad_def not_less)
    moreover have "pt_lid (fr_to t') = lid" "fr_toport t' = fr_toport t" using keep(4,5) s(1) by (simp_all add: t')
    ultimately show ?thesis unfolding tracing_ok_def by blast
  qed
  show "fr_toport t' = fr_toport t \<and>
      (\<exists>m v i. m \<le> Suc k \<and> lft_walk T lid m start = Some (v, i) \<and> t_guid T v i = tp_guid (fr_toport t))" if r: "r = Some Found"
  proof (cases "sameport (tr_force opt) (fr_port t) (fr_toport t)")
    case True
    then have "t' = t" using assms(6) r by (auto simp: trace_step_def split: if_splits)
    moreover have "t_guid T v i = tp_guid (fr_toport t)" using True assms(2) guid by (simp add: sameport_def)
    ultimately show ?thesis using s(3) le_SucI by blast
  next
    case False
    then have t1: "?step = Some (Some Found, t')"
      using assms(6) r type kinds by (auto simp: trace_step_def Let_def Option.bind_eq_Some_conv split: if_splits)
    have "next_at T root lid v i t t'" "tp_guid (fr_nextport t') = tp_guid (fr_toport t')" using tells [OF t1] by auto
    then obtain w q j' where w: "lft_step T lid (v, i) = Some (w, q)" "at_node T root w j' (fr_from t') (fr_nextnode t') (fr_nextport t')"
        "is_switch T w \<or> q = j'" "fr_toport t' = fr_toport t" "tp_guid (fr_nextport t') = tp_guid (fr_toport t)"
      unfolding next_at_def by auto
    have "t_guid T w j' = t_guid T w q" using w(3) assms(3) unfolding topo_ok_def by blast
    then have "t_guid T w q = tp_guid (fr_toport t)" using w(2,5) by (simp add: at_node_def)
    moreover have "lft_walk T lid (Suc k) start = Some (w, q)" using s(3) w(1) by simp
    ultimately show ?thesis using w(4) by blast
  qed
qed

lemma trace_loop_tells:
  assumes "truthful (tr_e opt) T root lid ask" and "\<not> tr_force opt" and "topo_ok T root" and "0 \<le> lid"
    and "tracing_ok T root lid start k t" and "trace_loop n opt ask dump t = Some (Found, t')"
  shows "fr_toport t' = fr_toport t \<and> (\<exists>m v i. m < k + n \<and> lft_walk T lid m start = Some (v, i) \<and> t_guid T v i = tp_guid (fr_toport t))"
  using assms(5,6)
proof (induction n arbitrary: k t)
  case 0
  then show ?case by simp
next
  case (Suc n)
  obtain r t1 where st: "trace_step opt ask dump t = Some (r, t1)"
    using Suc.prems(2) by (auto simp: Option.bind_eq_Some_conv)
  note S = trace_step_tells [OF assms(1-4) Suc.prems(1) st]
  show ?case
  proof (cases r)
    case None
    then have "trace_loop n opt ask dump t1 = Some (Found, t')" using Suc.prems(2) st by simp
    from Suc.IH [OF _ this, of "Suc k"] show ?thesis using S(1) [OF None] by auto
  next
    case (Some re)
    then have "re = Found" "n \<noteq> 0" "t' = t1" using Suc.prems(2) st by (auto split: if_splits)
    then have "r = Some Found" using Some by simp
    from S(2) [OF this] obtain m v i where m: "fr_toport t1 = fr_toport t" "m \<le> Suc k" "lft_walk T lid m start = Some (v, i)"
        "t_guid T v i = tp_guid (fr_toport t)" by blast
    have "m < k + Suc n" using m(2) \<open>n \<noteq> 0\<close> by linarith
    then show ?thesis using m \<open>t' = t1\<close> by blast
  qed
qed

section \<open>The whole search\<close>

definition owner :: "endian \<Rightarrow> int \<Rightarrow> u64 \<Rightarrow> 's ask \<Rightarrow> bool" where
  \<comment> \<open>what answers at a LID is the port with this GUID\<close>
  "owner e lid g ask \<longleftrightarrow> (\<forall>p s b p' s'. pt_lid p = lid \<longrightarrow> ask p IB_ATTR_NODE_INFO 0 s = Some (Some b, p', s') \<longrightarrow>
     decode_u64 e b IB_NODE_PORT_GUID_F = Some g)"

lemma get_node_owner:
  assumes "owner e (pt_lid p) g ask" and "get_node e ask n x p s = Some (rc, n', x', p', s')" and "0 \<le> rc"
  shows "tp_guid x' = g"
proof -
  obtain r1 p1 s1 where q: "ask p IB_ATTR_NODE_INFO 0 s = Some (r1, p1, s1)"
    using assms(2) by (auto simp: get_node_def Option.bind_eq_Some_conv)
  obtain ni where ni: "r1 = Some ni" using assms(2,3) q by (cases r1) (auto simp: get_node_def)
  then have "decode_u64 e ni IB_NODE_PORT_GUID_F = Some g" using assms(1) q unfolding owner_def by blast
  then show ?thesis using assms(2,3) q ni by (auto simp: get_node_def Let_def Option.bind_eq_Some_conv split: option.split_asm)
qed

lemma trace_from_tells:
  assumes "truthful (tr_e opt) T root lid ask" and "\<not> tr_force opt" and "topo_ok T root" and "0 \<le> lid" and "pt_lid (fr_to t) = lid"
    and "at_node T root v j (fr_from t) (fr_fromnode t) (fr_fromport t)" and "tp_portnum (fr_fromport t) = j"
    and "trace_from opt ask dump t = Some (Found, t')"
  shows "fr_toport t' = fr_toport t \<and> (\<exists>m w i. m < 63 \<and> lft_walk T lid m (v, j) = Some (w, i) \<and> t_guid T w i = tp_guid (fr_toport t))"
proof -
  obtain line where line: "dump_endnode opt dump ''From'' (fr_fromnode t) (fr_fromport t) = Some line"
    using assms(8) by (auto simp: trace_from_def fr_node_def fr_port_def Let_def Option.bind_eq_Some_conv)
  let ?t = "t\<lparr>fr_moved := False, fr_portnum := tp_portnum (fr_fromport t), fr_out := fr_out t @ line\<rparr>"
  have at: "at_node T root v j (fr_from ?t) (fr_fromnode t) (fr_fromport t)" using assms(6) by simp
  have ty: "tn_type (fr_fromnode t) = t_type T v" "tn_numports (fr_fromnode t) = t_ports T v" using assms(6) by (simp_all add: at_node_def)
  obtain t1 where t1: "(if is_switch T v then look_up (tr_e opt) ask ?t else Some ?t) = Some t1"
    using assms(8) line ty by (auto simp: trace_from_def fr_node_def fr_port_def Let_def Option.bind_eq_Some_conv split: if_splits)
  have keep: "at_node T root v j (fr_from t1) (fr_fromnode t) (fr_fromport t)" "fr_fromnode t1 = fr_fromnode t" "fr_fromport t1 = fr_fromport t"
      "fr_to t1 = fr_to t" "fr_toport t1 = fr_toport t" "\<not> fr_moved t1" "fr_portnum t1 = j"
      "is_switch T v \<Longrightarrow> 0 \<le> fr_next_sw_outport t1 \<Longrightarrow> fr_next_sw_outport t1 = t_lft T v lid \<and> t_lft T v lid < 128"
  proof -
    show "at_node T root v j (fr_from t1) (fr_fromnode t) (fr_fromport t)" "fr_fromnode t1 = fr_fromnode t" "fr_fromport t1 = fr_fromport t"
      "fr_to t1 = fr_to t" "fr_toport t1 = fr_toport t" "\<not> fr_moved t1" "fr_portnum t1 = j"
    proof -
      have lid: "pt_lid (fr_to ?t) = lid" using assms(5) by simp
      consider "is_switch T v" "look_up (tr_e opt) ask ?t = Some t1" | "t1 = ?t" using t1 by (auto split: if_splits)
      then have "at_node T root v j (fr_from t1) (fr_fromnode t) (fr_fromport t) \<and> fr_fromnode t1 = fr_fromnode ?t \<and>
          fr_fromport t1 = fr_fromport ?t \<and> fr_to t1 = fr_to ?t \<and> fr_toport t1 = fr_toport ?t \<and> fr_moved t1 = fr_moved ?t \<and> fr_portnum t1 = fr_portnum ?t"
      proof cases
        case 1
        show ?thesis using look_up_tells(1,3,4,7-10) [OF assms(1) 1(2) lid assms(4) at] by blast
      next
        case 2
        then show ?thesis using at by simp
      qed
      then show "at_node T root v j (fr_from t1) (fr_fromnode t) (fr_fromport t)" "fr_fromnode t1 = fr_fromnode t" "fr_fromport t1 = fr_fromport t"
        "fr_to t1 = fr_to t" "fr_toport t1 = fr_toport t" "\<not> fr_moved t1" "fr_portnum t1 = j" using assms(7) by simp_all
    qed
    assume "is_switch T v" "0 \<le> fr_next_sw_outport t1"
    then show "fr_next_sw_outport t1 = t_lft T v lid \<and> t_lft T v lid < 128"
      using look_up_tells(2) [OF assms(1) _ _ assms(4) at] look_up_small [of "tr_e opt" ask ?t t1] t1 assms(5) by auto
  qed
  have run: "trace_from opt ask dump t = (if is_switch T v \<and> table_bad (fr_fromnode t) t1
      then Some (BadTable, t1\<lparr>fr_outport := fr_next_sw_outport t1\<rparr>)
      else do {
        (end, t) \<leftarrow> trace_loop MAXHOPS opt ask dump t1;
        if end = Found then do {
          line \<leftarrow> dump_endnode opt dump ''To'' (fr_node t) (fr_port t);
          Some (end, t\<lparr>fr_out := fr_out t @ line\<rparr>)
        } else Some (end, t)
      })"
  proof -
    let ?u = "t\<lparr>fr_moved := False, fr_portnum := tp_portnum (fr_fromport t)\<rparr>"
    have "fr_node ?u = fr_fromnode t" "fr_port ?u = fr_fromport t" "fr_node ?t = fr_fromnode t" "fr_node t1 = fr_fromnode t"
      using keep(2,6) by (simp_all add: fr_node_def fr_port_def)
    then show ?thesis using t1 ty line by (cases "is_switch T v") (simp_all add: trace_from_def Let_def)
  qed
  have nb: "\<not> (is_switch T v \<and> table_bad (fr_fromnode t) t1)" using assms(8) unfolding run by (auto split: if_splits)
  then obtain t2 where t2: "trace_loop MAXHOPS opt ask dump t1 = Some (Found, t2)" "fr_toport t' = fr_toport t2"
    using assms(8) unfolding run by (auto simp: Option.bind_eq_Some_conv split: if_splits)
  have "tracing_ok T root lid (v, j) 0 t1"
    unfolding tracing_ok_def using keep nb ty(2) assms(5) by (auto simp: fr_node_def fr_port_def table_bad_def not_less)
  from trace_loop_tells [OF assms(1-4) this t2(1)] show ?thesis using t2(2) keep(5) by (simp add: MAXHOPS_def)
qed

text \<open>
  C9 (functional): in any fabric and over any network that tells the truth, however many packets it loses: when \<open>find_route\<close>
  reports a route, without \<open>-f\<close> and from a source given by a directed route, the forwarding tables do lead a packet for the LID of the destination from the source to the port that
  owns this LID, in at most 62 hops.
\<close>

theorem find_route_sound:
  assumes "truthful (tr_e opt) T root (pt_lid to) ask" and "topo_ok T root" and "owner (tr_e opt) (pt_lid to) g ask"
    and "\<not> tr_force opt" and "0 \<le> pt_lid to"
    and "pt_lid from = 0" and "direct from" and "leads T root (route_of from) = Some (v, j)"
    and "find_route opt ask sw dump from to s = Some (Found, t)"
  shows "\<exists>m w i. m \<le> 62 \<and> lft_walk T (pt_lid to) m (v, j) = Some (w, i) \<and> t_guid T w i = g"
proof -
  obtain rc n x from1 s1 where g1: "get_node (tr_e opt) ask Node_zero Port_zero from s = Some (rc, n, x, from1, s1)"
    using assms(9) by (auto simp: find_route_def Option.bind_eq_Some_conv)
  have rc: "\<not> rc < 0" using assms(4,9) g1 by (auto simp: find_route_def Let_def)
  obtain rc2 n2 y to1 s2 where g2: "get_node (tr_e opt) ask Node_zero Port_zero to s1 = Some (rc2, n2, y, to1, s2)"
    using assms(9) g1 rc by (auto simp: find_route_def Let_def Option.bind_eq_Some_conv)
  have rc2: "\<not> rc2 < 0" using assms(4,9) g1 rc g2 by (auto simp: find_route_def Let_def)
  let ?t = "\<lparr>fr_from = from1, fr_to = to1, fr_fromnode = n, fr_fromport = x, fr_nextnode = Node_zero, fr_nextport = Port_zero,
       fr_toport = y, fr_moved = False, fr_sw = sw, fr_portnum = 0, fr_outport = 255, fr_next_sw_outport = 255, fr_net = s2, fr_out = []\<rparr>"
  have run: "trace_from opt ask dump ?t = Some (Found, t)"
    using assms(4,9) g1 rc g2 rc2 by (simp add: find_route_def Let_def)
  note G = get_node_tells [OF assms(1) g1] and H = get_node_tells [OF assms(1) g2]
  have "at_node T root v j from1 n x" "tp_portnum x = j"
    using G(1,2) G(3) [OF _ assms(6-8)] rc assms(6-8) same_route [OF G(1)] by (simp_all add: at_node_def)
  then have "fr_toport t = y \<and> (\<exists>m w i. m < 63 \<and> lft_walk T (pt_lid to) m (v, j) = Some (w, i) \<and> t_guid T w i = tp_guid y)"
    using trace_from_tells [OF assms(1,4,2,5) _ _ _ run, of v j] H(2) by simp
  moreover have "tp_guid y = g" by (rule get_node_owner [OF assms(3) g2]) (use rc2 in simp)
  ultimately obtain m w i where "m < 63" "lft_walk T (pt_lid to) m (v, j) = Some (w, i)" "t_guid T w i = g" by blast
  then show ?thesis by (intro exI [of _ m] exI [of _ w] exI [of _ i]) simp
qed

section \<open>An example\<close>

text \<open>Two adapters, 0 and 2, at ports 3 and 4 of the switch 1; LID 5 belongs to adapter 2\<close>

definition example_topo :: "nat topo" where
  "example_topo = \<lparr>t_type = (\<lambda>v. if v = 1 then 2 else 1), t_ports = (\<lambda>v. if v = 1 then 8 else 1), t_guid = (\<lambda>v i. of_nat (v + 7)),
     t_lft = (\<lambda>v lid. 4), t_peer = (\<lambda>v p. if (v, p) = (0, 1) then Some (1, 3) else if (v, p) = (1, 3) then Some (0, 1)
       else if (v, p) = (1, 4) then Some (2, 1) else if (v, p) = (2, 1) then Some (1, 4) else None)\<rparr>"

definition example_node_info :: "u8 \<Rightarrow> u8 \<Rightarrow> u8 \<Rightarrow> u8 \<Rightarrow> mem" where
  "example_node_info type n g i = [1, 1, type, n] @ replicate 23 0 @ [g] @ replicate 8 0 @ [i] @ replicate 27 0"

definition example_port_info :: mem where "example_port_info = replicate 32 0 @ [4] @ replicate 31 0"
definition example_switch_info :: mem where "example_switch_info = [1] @ replicate 63 0"
definition example_lft :: mem where "example_lft = replicate 5 0 @ [4] @ replicate 58 0"

definition example_answer :: "u8 \<Rightarrow> u8 \<Rightarrow> u8 \<Rightarrow> u8 \<Rightarrow> u32 \<Rightarrow> mem option" where
  "example_answer type n g i attrid =
     (if attrid = IB_ATTR_NODE_INFO then Some (example_node_info type n g i)
      else if attrid = IB_ATTR_NODE_DESC then Some (replicate 64 0)
      else if attrid = IB_ATTR_PORT_INFO then Some example_port_info
      else if attrid = IB_ATTR_SWITCH_INFO then Some example_switch_info
      else if attrid = IB_ATTR_LINEARFORWTBL then Some example_lft else None)"

definition example_net :: "ib_portid_t \<Rightarrow> u32 \<Rightarrow> u32 \<Rightarrow> mem option" where
  "example_net p attrid amod =
     (if pt_lid p = 5 then example_answer 1 1 9 1 attrid
      else if pt_lid p = 0 \<and> route_of p = [] then example_answer 1 1 7 1 attrid
      else if pt_lid p = 0 \<and> route_of p = [1] then example_answer 2 8 8 3 attrid
      else if pt_lid p = 0 \<and> route_of p = [1, 4] then example_answer 1 1 9 1 attrid else None)"

lemma example_decode:
  "decode_int e (example_node_info type n g i) IB_NODE_TYPE_F = Some (uint type)"
  "decode_int e (example_node_info type n g i) IB_NODE_NPORTS_F = Some (uint n)"
  "decode_u64 e (example_node_info type n g i) IB_NODE_PORT_GUID_F = Some (ucast g)"
  "decode_int e (example_node_info type n g i) IB_NODE_LOCAL_PORT_F = Some (uint i)"
proof -
  have nz: "IB_NODE_TYPE_F \<noteq> 0" "IB_NODE_NPORTS_F \<noteq> 0" "IB_NODE_LOCAL_PORT_F \<noteq> 0" "IB_NODE_PORT_GUID_F \<noteq> 0" by (simp_all add: c_eval)
  note d = decode_int_field [OF fd_IB_NODE_TYPE_F _ _ nz(1), simplified] decode_int_field [OF fd_IB_NODE_NPORTS_F _ _ nz(2), simplified]
    decode_int_field [OF fd_IB_NODE_LOCAL_PORT_F _ _ nz(3), simplified]
  have si: "sint (ucast b :: u32) = uint b" for b :: u8
  proof -
    have "uint b < 256" "0 \<le> uint b" using unsigned_less [of b, where 'a=int] by simp_all
    then have "uint b < 2147483648" "- 2147483648 \<le> uint b" by linarith+
    then have "signed_take_bit 31 (uint b) = uint b" by (intro signed_take_bit_int_eq_self) simp_all
    moreover have "sint (word_of_int (uint b) :: u32) = signed_take_bit 31 (uint b)" by (simp only: signed_of_int) simp
    ultimately show ?thesis unfolding ucast_eq by simp
  qed
  show "decode_int e (example_node_info type n g i) IB_NODE_TYPE_F = Some (uint type)"
    "decode_int e (example_node_info type n g i) IB_NODE_NPORTS_F = Some (uint n)"
    "decode_int e (example_node_info type n g i) IB_NODE_LOCAL_PORT_F = Some (uint i)"
    by (simp_all add: d eval_field example_node_info_def nth_append si)
  show "decode_u64 e (example_node_info type n g i) IB_NODE_PORT_GUID_F = Some (ucast g)"
    by (simp add: decode_u64_field [OF fd_IB_NODE_PORT_GUID_F _ nz(4), simplified] mad_get_field64_def fd_IB_NODE_PORT_GUID_F
        get_field64_load mem_load_def example_node_info_def le_word_zeros)
qed

lemma example_port_decode:
  "decode_int e example_port_info IB_PORT_LID_F = Some 0"
  "decode_int e example_port_info IB_PORT_LMC_F = Some 0"
  "decode_int e example_port_info IB_PORT_STATE_F = Some 4"
  "decode_int e example_switch_info IB_SW_LINEAR_FDB_CAP_F = Some 256"
  "decode_int e example_switch_info IB_SW_LINEAR_FDB_TOP_F = Some 0"
  "decode_int e example_switch_info IB_SW_ENHANCED_PORT0_F = Some 0"
proof -
  have nz: "IB_PORT_LID_F \<noteq> 0" "IB_PORT_LMC_F \<noteq> 0" "IB_PORT_STATE_F \<noteq> 0" "IB_SW_LINEAR_FDB_CAP_F \<noteq> 0" "IB_SW_LINEAR_FDB_TOP_F \<noteq> 0"
    "IB_SW_ENHANCED_PORT0_F \<noteq> 0" by (simp_all add: c_eval)
  note d = decode_int_field [OF fd_IB_PORT_LID_F _ _ nz(1), simplified] decode_int_field [OF fd_IB_PORT_LMC_F _ _ nz(2), simplified]
    decode_int_field [OF fd_IB_PORT_STATE_F _ _ nz(3), simplified] decode_int_field [OF fd_IB_SW_LINEAR_FDB_CAP_F _ _ nz(4), simplified]
    decode_int_field [OF fd_IB_SW_LINEAR_FDB_TOP_F _ _ nz(5), simplified] decode_int_field [OF fd_IB_SW_ENHANCED_PORT0_F _ _ nz(6), simplified]
  show "decode_int e example_port_info IB_PORT_LID_F = Some 0"
    "decode_int e example_port_info IB_PORT_LMC_F = Some 0"
    "decode_int e example_port_info IB_PORT_STATE_F = Some 4"
    "decode_int e example_switch_info IB_SW_LINEAR_FDB_CAP_F = Some 256"
    "decode_int e example_switch_info IB_SW_LINEAR_FDB_TOP_F = Some 0"
    "decode_int e example_switch_info IB_SW_ENHANCED_PORT0_F = Some 0"
    by (simp_all add: d eval_field more_descs nth_append c_ones_def example_port_info_def example_switch_info_def)
qed

lemma example_get_node:
  assumes "\<And>a. net p a 0 = example_answer type n g i a"
  shows "get_node e (net_ask net) nd x p s = Some (0,
    nd\<lparr>tn_info := example_node_info type n g i, tn_desc := replicate 64 0, tn_guid := 0, tn_type := uint type, tn_numports := uint n\<rparr>,
    x\<lparr>tp_info := example_port_info, tp_guid := ucast g, tp_portnum := uint i, tp_lid := 0, tp_lmc := 0, tp_state := 4\<rparr>, p, s)"
proof -
  have "clean_desc (replicate 64 0) = replicate 64 0" by (simp add: eval_nat_numeral)
  moreover have "decode_u64 e (example_node_info type n g i) IB_NODE_GUID_F = Some 0"
  proof -
    have nz: "IB_NODE_GUID_F \<noteq> 0" by (simp add: c_eval)
    show ?thesis
      by (simp add: decode_u64_field [OF fd_IB_NODE_GUID_F _ nz, simplified] mad_get_field64_def fd_IB_NODE_GUID_F
          get_field64_load mem_load_def example_node_info_def le_word_zeros)
  qed
  ultimately show ?thesis
    by (simp add: get_node_def net_ask_def assms example_answer_def example_decode example_port_decode Let_def
        IB_ATTR_NODE_INFO_def IB_ATTR_NODE_DESC_def IB_ATTR_PORT_INFO_def)
qed

lemma example_lookup:
  assumes "\<And>a m. net p a m = example_answer type n g i a"
  shows "switch_lookup e (net_ask net) sw p 5 s = Some (4, sw\<lparr>ts_info := example_switch_info, ts_linearcap := 256,
    ts_linearFDBtop := 0, ts_enhsp0 := 0, ts_fdb := example_lft\<rparr>, p, s)"
  using example_port_decode(4-6) [of e]
  by (simp add: switch_lookup_def net_ask_def assms example_answer_def Let_def sdiv_pos mem_rd_def nth_append example_lft_def
      IB_ATTR_NODE_INFO_def IB_ATTR_NODE_DESC_def IB_ATTR_PORT_INFO_def IB_ATTR_SWITCH_INFO_def IB_ATTR_LINEARFORWTBL_def)

lemma example_truthful:
  "truthful e example_topo (0, 1) 5 (net_ask example_net)" "topo_ok example_topo (0, 1)" "owner e 5 9 (net_ask example_net)"
proof -
  show "topo_ok example_topo (0, 1)"
    by (auto simp: topo_ok_def example_topo_def c_eval split: if_splits)
  show "owner e 5 9 (net_ask example_net)"
    by (auto simp: owner_def net_ask_def example_net_def example_answer_def example_decode)
  have "tells e example_topo 5 x attrid amod b"
    if "example_net p attrid amod = Some b" "pt_lid p = 0" "leads example_topo (0, 1) (route_of p) = Some x" for p attrid amod b x
    using that
    by (auto simp: tells_def example_net_def example_answer_def example_decode example_topo_def mem_rd_def nth_append example_lft_def
        IB_ATTR_NODE_INFO_def IB_ATTR_NODE_DESC_def IB_ATTR_PORT_INFO_def IB_ATTR_SWITCH_INFO_def IB_ATTR_LINEARFORWTBL_def IB_NODE_SWITCH_def
        split: if_splits)
  moreover have "leads example_topo (0, 1) (route_of p) \<noteq> None" if "example_net p attrid amod = Some b" "pt_lid p = 0" for p attrid amod b
    using that by (auto simp: example_net_def example_topo_def c_eval split: if_splits)
  ultimately show "truthful e example_topo (0, 1) 5 (net_ask example_net)"
    by (fastforce simp: truthful_def net_ask_def split: option.splits)
qed

lemma example_route:
  "\<exists>t. find_route \<lparr>tr_e = LE, tr_force = False, tr_verbose = 0, tr_names = (\<lambda>_ _. [])\<rparr> (net_ask example_net) sw 0
    portid_zero (portid_zero\<lparr>pt_lid := 5\<rparr>) () = Some (Found, t)"
proof -
  let ?opt = "\<lparr>tr_e = LE, tr_force = False, tr_verbose = 0, tr_names = (\<lambda>_ _. [])\<rparr>"
  obtain p1 where p1: "p1 = portid_zero\<lparr>pt_drpath := dr_path_zero\<lparr>cnt := 1, hops := (replicate 64 0)[1 := 1]\<rparr>\<rparr>" by blast
  obtain p2 where p2: "p2 = portid_zero\<lparr>pt_drpath := dr_path_zero\<lparr>cnt := 2, hops := (replicate 64 0)[1 := 1, 2 := 4]\<rparr>\<rparr>" by blast
  have r: "route_of portid_zero = []" "route_of p1 = [1]" "route_of p2 = [1, 4]" "pt_lid portid_zero = 0" "pt_lid p1 = 0" "pt_lid p2 = 0"
  proof -
    have "(replicate 64 0 :: mem) = 0 # 0 # 0 # replicate 61 0" by (simp add: eval_nat_numeral)
    then show "route_of portid_zero = []" "route_of p1 = [1]" "route_of p2 = [1, 4]" "pt_lid portid_zero = 0" "pt_lid p1 = 0" "pt_lid p2 = 0"
      by (simp_all add: p1 p2 route_of_def portid_zero_def dr_path_zero_def)
  qed
  have x: "extend_route portid_zero 1 = Some (1, p1)" "extend_route p1 4 = Some (2, p2)"
    by (simp_all add: p1 p2 extend_route_def portid_zero_def dr_path_zero_def size_of_int_nonneg mem_wr_def)
  have a: "example_net portid_zero attrid m = example_answer 1 1 7 1 attrid" "example_net (portid_zero\<lparr>pt_lid := 5\<rparr>) attrid m = example_answer 1 1 9 1 attrid"
    "example_net p1 attrid m = example_answer 2 8 8 3 attrid" "example_net p2 attrid m = example_answer 1 1 9 1 attrid" for attrid m
    using r by (simp_all add: example_net_def)
  note g = example_get_node [where net = example_net, OF a(1)] example_get_node [where net = example_net, OF a(2)]
    example_get_node [where net = example_net, OF a(3)] example_get_node [where net = example_net, OF a(4)] example_lookup [where net = example_net, OF a(3)]
  have m: "trace_loop (numeral k) opt ask dump t = do {
      (end, t) \<leftarrow> trace_step opt ask dump t;
      case end of None \<Rightarrow> trace_loop (pred_numeral k) opt ask dump t
      | Some end \<Rightarrow> Some (if end = Found \<and> pred_numeral k = 0 then NoRoute else end, t)
    }" for k opt and ask :: "unit ask" and dump t
    by (simp add: numeral_eq_Suc)
  have c: "cnt (pt_drpath portid_zero) = 0" by (simp add: portid_zero_def dr_path_zero_def)
  show ?thesis
    using c by (simp add: MAXHOPS_def m find_route_def g x Let_def trace_from_def fr_node_def fr_port_def dump_endnode_def dump_route_def look_up_def
        ask_next_def trace_step_def adapter_step_def switch_step_def is_port_inactive_def sameport_def table_bad_def Port_zero_def Node_zero_def
        IB_NODE_SWITCH_def IB_NODE_CA_def IB_NODE_ROUTER_def)
qed

theorem find_route_sound_witness:
  "\<exists>m w i. m \<le> 62 \<and> lft_walk example_topo 5 m (0, 1) = Some (w, i) \<and> t_guid example_topo w i = 9"
proof -
  let ?opt = "\<lparr>tr_e = LE, tr_force = False, tr_verbose = 0, tr_names = (\<lambda>_ _. [])\<rparr>"
  obtain t where t: "find_route ?opt (net_ask example_net) undefined 0 portid_zero (portid_zero\<lparr>pt_lid := 5\<rparr>) () = Some (Found, t)"
    using example_route by blast
  have l: "pt_lid portid_zero = 0" "direct portid_zero" "leads example_topo (0, 1) (route_of portid_zero) = Some (0, 1)"
    by (simp_all add: direct_def route_of_def portid_zero_def dr_path_zero_def)
  show ?thesis
    using find_route_sound [where opt = ?opt and T = example_topo and root = "(0, 1)" and g = 9, OF _ _ _ _ _ l t] example_truthful(1,3) [of LE] example_truthful(2)
    by simp
qed

end
