(* ===== verification/IbSa.thy ===== *)
theory IbSa
  imports IbDiag
begin

text \<open>
  Queries to the subnet administrator through \<open>libibumad\<close> (\<open>src/ibdiag_sa.c\<close>), and that the records of an answer lie inside the MAD
  that was received. \<open>umad_open_port\<close> and \<open>umad_register\<close> are what they return; sends and receives are those of \<open>mad_state\<close>, and
  \<open>ret_of\<close> gives the negated value that a failing call returns with an \<open>errno\<close>.
\<close>

section \<open>The handle\<close>

record sa_handle =
  sh_fd :: int
  sh_agent :: int
  sh_dport :: ib_portid_t

definition sa_get_handle :: "(int + umad_port_t) \<Rightarrow> int \<Rightarrow> int \<Rightarrow> sa_handle option" where
  "sa_get_handle up fd agent =
     (let dport = (case snd (resolve_sm_portid up) of None \<Rightarrow> portid_zero | Some p \<Rightarrow> p) in
      if pt_lid dport = 0 then None
      else if fd < 0 then None
      else if agent < 0 then None
      else Some \<lparr>sh_fd = fd, sh_agent = agent, sh_dport = gsi_address dport\<rparr>)"

section \<open>A query\<close>

record sa_query_result =
  qr_status :: u32
  qr_cnt :: u32
  qr_mad :: "mem option"






definition sa_free_result_mad :: "sa_query_result \<Rightarrow> sa_query_result" where
  "sa_free_result_mad result = result\<lparr>qr_mad := None\<rparr>"


section \<open>Errors as text\<close>

definition ib_sa_error_str :: "string list" where
  "ib_sa_error_str = [''SA_NO_ERROR'', ''SA_ERR_NO_RESOURCES'', ''SA_ERR_REQ_INVALID'', ''SA_ERR_NO_RECORDS'', ''SA_ERR_TOO_MANY_RECORDS'',
     ''SA_ERR_REQ_INVALID_GID'', ''SA_ERR_REQ_INSUFFICIENT_COMPONENTS'', ''SA_ERR_REQ_DENIED'', ''SA_ERR_STATUS_PRIO_SUGGESTED'',
     ''SA_ERR_UNKNOWN'']"

definition ib_sa_err_str :: "u8 \<Rightarrow> string" where
  "ib_sa_err_str status = ib_sa_error_str ! min (unat status) (length ib_sa_error_str - 1)"

definition ib_mad_inv_field_str :: "string list" where
  "ib_mad_inv_field_str = [''MAD No invalid fields'', ''MAD Bad version'', ''MAD Method specified is not supported'',
     ''MAD Method/Attribute combination is not supported'', ''MAD Reserved'', ''MAD Reserved'', ''MAD Reserved'',
     ''MAD Invalid value in Attribute field(s) or Attribute Modifier'', ''MAD UNKNOWN ERROR'']"

definition ib_mad_inv_field_err_str :: "u8 \<Rightarrow> string" where
  "ib_mad_inv_field_err_str f = ib_mad_inv_field_str ! min (unat f) (length ib_mad_inv_field_str - 1)"

definition sa_report_err :: "u32 \<Rightarrow> string option" where
  \<comment> \<open>the line on stderr; the two buffers are on the stack, zeroed\<close>
  "sa_report_err status = do {
     let st = status AND 0xff;
     mad \<leftarrow> (if st \<noteq> 0 then c_snprintf (replicate 128 NUL) 0 128 ('' ('' @ (if bit st 0 then ''BUSY'' else []) @ ''; '' @
         (if bit st 1 then ''Redirection Required'' else []) @ ''; '' @ ib_mad_inv_field_err_str (ucast (drop_bit 2 st)) @ '')'')
       else Some (replicate 128 NUL));
     let st = signed_drop_bit 8 status;
     sa \<leftarrow> (if st \<noteq> 0 then c_snprintf (replicate 64 NUL) 0 64 ('' SA('' @ ib_sa_err_str (ucast st) @ '')'') else Some (replicate 64 NUL));
     Some (''ERROR: Query result returned 0x'' @ pad0 4 (hex False (unat status)) @ '', '' @ c_str mad @ c_str sa @ NEWLINE)
   }"

section \<open>The records of an answer\<close>














end
