(* ===== verification/MadGlobal.thy ===== *)
theory MadGlobal
  imports MadServ MadResolve
begin

text \<open>
  The calls of \<open>libibmad\<close> on its default port: \<open>ibmp\<close> of \<open>rpc.c\<close> and the wrappers around it in \<open>smp.c\<close>, \<open>sa.c\<close>, \<open>vendor.c\<close>,
  \<open>serv.c\<close>, \<open>register.c\<close> and \<open>resolve.c\<close>; opening it with \<open>madrpc_init\<close>, closing a port, and the memory for packets. The port is the
  first argument.
\<close>

section \<open>The default port\<close>

definition ibmp_start :: ibmad_port where
  \<comment> \<open>\<open>static struct ibmad_port mad_port; struct ibmad_port *ibmp = &mad_port;\<close>\<close>
  "ibmp_start = \<lparr>port_id = 0, class_agents = replicate MAX_CLASS 0, mp_timeout = 0, mp_retries = 0, smp_mkey = 0\<rparr>"

fun init_classes :: "reg_state \<Rightarrow> int list \<Rightarrow> int \<Rightarrow> ibmad_port \<Rightarrow> (bool \<times> ibmad_port \<times> reg_state) option" where
  \<comment> \<open>\<open>while (num_classes--)\<close>: the class is not compared with \<open>MAX_CLASS\<close> here; false for a registration that fails\<close>
  "init_classes rs classes n p =
     (if n = 0 then Some (True, p, rs)
      else case classes of [] \<Rightarrow> None
      | mgmt # classes \<Rightarrow> do {
          (r, q, rs) \<leftarrow> mad_register_client_via rs mgmt (if mgmt = uint IB_SA_CLASS then 1 else 0) (Some p);
          q \<leftarrow> q;
          if r < 0 then Some (False, q, rs) else init_classes rs classes (n - 1) q
        })"

definition madrpc_init :: "ibmad_port \<Rightarrow> reg_state \<Rightarrow> bool \<Rightarrow> int \<Rightarrow> int list \<Rightarrow> int \<Rightarrow> (bool \<times> ibmad_port \<times> reg_state) option" where
  \<comment> \<open>false: \<open>IBPANIC\<close> ends the program; \<open>umad_init\<close> and \<open>umad_open_port\<close> are what they return\<close>
  "madrpc_init ibmp rs init_ok fd mgmt_classes num_classes =
     (if \<not> init_ok \<or> fd < 0 \<or> num_classes \<ge> int MAX_CLASS then Some (False, ibmp, rs)
      else init_classes rs mgmt_classes num_classes (ibmp\<lparr>port_id := fd, class_agents := replicate MAX_CLASS (-1)\<rparr>))"

definition madrpc_portid :: "ibmad_port \<Rightarrow> int" where
  "madrpc_portid ibmp = port_id ibmp"

definition mad_rpc_close_port :: "ibmad_port \<Rightarrow> int list \<Rightarrow> int list" where
  \<comment> \<open>the descriptors that are open, before and after\<close>
  "mad_rpc_close_port port fds = remove1 (port_id port) fds"

section \<open>Transactions\<close>

definition madrpc :: "ibmad_port \<Rightarrow> endian \<Rightarrow> mad_state \<Rightarrow> ib_rpc_t \<Rightarrow> ib_portid_t \<Rightarrow> mem option \<Rightarrow> mem option \<Rightarrow>
    (bool \<times> ib_rpc_t \<times> ib_portid_t \<times> mem option \<times> mad_state) option" where
  "madrpc ibmp e st rpc dport payload rcvdata = mad_rpc e st ibmp rpc dport payload rcvdata"

definition madrpc_rmpp :: "ibmad_port \<Rightarrow> endian \<Rightarrow> mad_state \<Rightarrow> ib_rpc_t \<Rightarrow> ib_portid_t \<Rightarrow> ib_rmpp_hdr_t option \<Rightarrow> mem option \<Rightarrow>
    (bool \<times> ib_rpc_t \<times> ib_rmpp_hdr_t option \<times> mem option \<times> mad_state) option" where
  "madrpc_rmpp ibmp e st rpc dport rmpp data = mad_rpc_rmpp e st ibmp rpc dport rmpp data"

definition smp_set :: "ibmad_port \<Rightarrow> endian \<Rightarrow> mad_state \<Rightarrow> mem \<Rightarrow> ib_portid_t \<Rightarrow> u32 \<Rightarrow> u32 \<Rightarrow> int \<Rightarrow>
    (bool \<times> mem \<times> ib_portid_t \<times> mad_state) option" where
  "smp_set ibmp e st data portid attrid amod timeout = smp_set_via e st data portid attrid amod timeout ibmp"

definition smp_query :: "ibmad_port \<Rightarrow> endian \<Rightarrow> mad_state \<Rightarrow> mem \<Rightarrow> ib_portid_t \<Rightarrow> u32 \<Rightarrow> u32 \<Rightarrow> int \<Rightarrow>
    (bool \<times> mem \<times> ib_portid_t \<times> mad_state) option" where
  "smp_query ibmp e st rcvbuf portid attrid amod timeout = smp_query_via e st rcvbuf portid attrid amod timeout ibmp"

definition sa_call :: "ibmad_port \<Rightarrow> endian \<Rightarrow> mad_state \<Rightarrow> mem \<Rightarrow> ib_portid_t \<Rightarrow> ib_sa_call_t \<Rightarrow> int \<Rightarrow>
    (bool \<times> mem \<times> ib_portid_t \<times> ib_sa_call_t \<times> mad_state) option" where
  "sa_call ibmp e st rcvbuf portid sa timeout = sa_rpc_call e st ibmp rcvbuf portid sa timeout"

definition ib_path_query :: "ibmad_port \<Rightarrow> endian \<Rightarrow> mad_state \<Rightarrow> mem \<Rightarrow> mem \<Rightarrow> ib_portid_t \<Rightarrow> mem \<Rightarrow>
    (int \<times> ib_portid_t \<times> mem \<times> mad_state) option" where
  "ib_path_query ibmp e st srcgid destgid sm_id buf = ib_path_query_via e st ibmp srcgid destgid sm_id buf"

definition ib_vendor_call :: "ibmad_port \<Rightarrow> endian \<Rightarrow> mad_state \<Rightarrow> mem \<Rightarrow> ib_portid_t \<Rightarrow> ib_vendor_call_t \<Rightarrow>
    (bool \<times> mem \<times> ib_portid_t \<times> mad_state) option" where
  "ib_vendor_call ibmp e st data portid call = ib_vendor_call_via e st data portid call ibmp"

section \<open>Serving\<close>

definition mad_send :: "ibmad_port \<Rightarrow> endian \<Rightarrow> mad_state \<Rightarrow> ib_rpc_t \<Rightarrow> ib_portid_t \<Rightarrow> ib_rmpp_hdr_t option \<Rightarrow> mem option \<Rightarrow>
    (int \<times> ib_rpc_t \<times> mad_state) option" where
  "mad_send ibmp e st rpc dport rmpp data = mad_send_via e st rpc dport rmpp data ibmp"

definition mad_respond :: "ibmad_port \<Rightarrow> endian \<Rightarrow> mad_state \<Rightarrow> umad_pkt \<Rightarrow> ib_mad_addr_t option \<Rightarrow> ib_portid_t option \<Rightarrow> u32 \<Rightarrow>
    (int \<times> umad_pkt \<times> ib_portid_t option \<times> mad_state) option" where
  "mad_respond ibmp e st umad mad_addr portid rstatus = mad_respond_via e st umad mad_addr portid rstatus ibmp"

definition mad_receive :: "mad_state \<Rightarrow> (mem option \<times> mad_state) option" where
  \<comment> \<open>the port only matters to \<open>umad_recv\<close>\<close>
  "mad_receive st = mad_receive_via st"

definition mad_alloc :: "bool \<Rightarrow> umad_pkt option" where
  \<comment> \<open>\<open>umad_alloc(1, umad_size() + IB_MAD_SIZE)\<close>, zeroed, unless there is no memory\<close>
  "mad_alloc ok = (if ok then Some zero_pkt else None)"

section \<open>Registering and resolving\<close>

definition mad_register_client :: "ibmad_port \<Rightarrow> reg_state \<Rightarrow> int \<Rightarrow> u8 \<Rightarrow> (int \<times> ibmad_port option \<times> reg_state) option" where
  "mad_register_client ibmp rs mgmt rmpp_version = mad_register_client_via rs mgmt rmpp_version (Some ibmp)"

definition mad_register_server :: "ibmad_port \<Rightarrow> reg_state \<Rightarrow> int \<Rightarrow> u8 \<Rightarrow> u32 \<Rightarrow> (int \<times> ibmad_port option \<times> reg_state) option" where
  "mad_register_server ibmp rs mgmt rmpp_version class_oui = mad_register_server_via rs mgmt rmpp_version class_oui (Some ibmp)"

definition ib_resolve_smlid :: "ibmad_port \<Rightarrow> endian \<Rightarrow> mem \<Rightarrow> mad_state \<Rightarrow> (int \<times> ib_portid_t \<times> mad_state) option" where
  "ib_resolve_smlid ibmp e junk st = ib_resolve_smlid_via e junk st ibmp"

definition ib_resolve_portid_str :: "ibmad_port \<Rightarrow> endian \<Rightarrow> mem \<Rightarrow> (string \<Rightarrow> u8 list option) \<Rightarrow> mad_state \<Rightarrow> string \<Rightarrow> MAD_DEST \<Rightarrow>
    ib_portid_t option \<Rightarrow> (int \<times> ib_portid_t \<times> mad_state) option" where
  "ib_resolve_portid_str ibmp e junk inet_pton st addr_str dest_type sm_id =
     ib_resolve_portid_str_via e junk inet_pton st addr_str dest_type sm_id ibmp"

definition ib_resolve_self :: "ibmad_port \<Rightarrow> endian \<Rightarrow> mem \<Rightarrow> mad_state \<Rightarrow> ib_portid_t \<Rightarrow> u8 list option \<Rightarrow>
    (int \<times> ib_portid_t \<times> int \<times> u8 list option \<times> mad_state) option" where
  "ib_resolve_self ibmp e junk st portid gid = ib_resolve_self_via e junk st portid gid ibmp"

section \<open>Registration of the classes\<close>

declare init_classes.simps [simp del]

lemma init_classes_registers:
  assumes "init_classes rs classes n p = Some (True, q, rs')" and "0 \<le> n"
    and "length (class_agents p) = MAX_CLASS" and "\<forall>c \<in> set old. 0 \<le> class_agents p ! nat c" and "\<forall>c \<in> set old. 0 \<le> c \<and> c < int MAX_CLASS"
  shows "length (class_agents q) = MAX_CLASS \<and> port_id q = port_id p \<and>
    (\<forall>c \<in> set old \<union> set (take (nat n) classes). 0 \<le> c \<and> c < int MAX_CLASS \<and> 0 \<le> class_agents q ! nat c)"
  using assms
proof (induction classes arbitrary: rs n p old)
  case Nil
  then show ?case by (subst (asm) init_classes.simps) (auto split: if_splits)
next
  case (Cons c cs)
  show ?case
  proof (cases "n = 0")
    case True
    with Cons.prems show ?thesis by (subst (asm) init_classes.simps) auto
  next
    case False
    with Cons.prems(1) obtain r p1 rs1 where
      reg: "mad_register_client_via rs c (if c = uint IB_SA_CLASS then 1 else 0) (Some p) = Some (r, Some p1, rs1)" and r: "\<not> r < 0"
      and rest: "init_classes rs1 cs (n - 1) p1 = Some (True, q, rs')"
      by (subst (asm) init_classes.simps) (auto simp: Option.bind_eq_Some_conv split: if_splits)
    from reg r obtain agent where p1: "agents_set p c agent = Some p1" and agent: "0 \<le> agent"
      by (auto simp: mad_register_client_via_def Option.bind_eq_Some_conv split: if_splits)
    have c: "0 \<le> c" "c < int MAX_CLASS" and p1': "p1 = p\<lparr>class_agents := (class_agents p)[nat c := agent]\<rparr>"
      using p1 Cons.prems(3) by (auto simp: agents_set_def split: if_splits)
    have "length (class_agents q) = MAX_CLASS \<and> port_id q = port_id p1 \<and>
        (\<forall>d \<in> set (c # old) \<union> set (take (nat (n - 1)) cs). 0 \<le> d \<and> d < int MAX_CLASS \<and> 0 \<le> class_agents q ! nat d)"
    proof (rule Cons.IH [OF rest])
      show "\<forall>d \<in> set (c # old). 0 \<le> class_agents p1 ! nat d"
        using Cons.prems(3-5) c agent by (auto simp: p1' nth_list_update)
    qed (use False Cons.prems c in \<open>auto simp: p1'\<close>)
    moreover have "take (nat n) (c # cs) = c # take (nat (n - 1)) cs"
      using False Cons.prems(2) by (cases "nat n") (auto simp: nat_diff_distrib)
    ultimately show ?thesis by (auto simp: p1')
  qed
qed

end
