(* ===== verification/Spec2Isabelle.thy ===== *)
theory Spec2Isabelle
  imports FieldCorrect MadPacketCorrect MadRpcCorrect MadClientsCorrect MadServCorrect PortId MadResolveCorrect MadDumpCorrect GroupCorrect DiscoverFabricCorrect IbnCacheTrip IbTracertCorrect IbSa MadGlobal
begin

text \<open>
  A verification library for infiniband-diags: the diagnostic tools for InfiniBand fabrics and the two libraries they stand on.

  \<^bold>\<open>The program.\<close> \<open>libibmad\<close> encodes and decodes management datagrams (MADs), sends them through \<open>libibumad\<close> and
  waits for the answers. \<open>libibnetdisc\<close> discovers a whole fabric with many subnet management packets in flight, keeps it as a graph of nodes
  and ports, groups it into chassis, and writes it to and reads it from a cache file. The tools in \<open>src/\<close> are
  programs over the two. Every value that leaves or enters a MAD goes through the table of bit fields in \<open>fields.c\<close>, so the
  theories build on each other in the same order:

  \<^item> \<open>IbPrelude\<close>: buffers as lists of bytes with bounded reads and writes, words of the host in both byte orders (a parameter
    \<open>endian\<close>), and the named collections of rules. A fault of the C code (an access outside an object, through \<open>NULL\<close> or to freed memory)
    is the value \<open>None\<close> of the option monad everywhere, so that ``does not fault'' is ``is \<open>Some\<close>''.
  \<^item> \<open>MadField\<close>, \<open>FieldEnum\<close>, \<open>FieldTable\<close>, \<open>FieldAccess\<close>: \<open>libibmad/src/fields.c\<close> and \<open>enum MAD_FIELDS\<close>; the table is literal,
    entry by entry. \<open>FieldCorrect\<close>: what every accessor does to every bit of the buffer, for every entry of the table, round trips,
    independence of the byte order. \<open>FieldMore\<close>: the numbers of further fields that the tools name.
  \<^item> \<open>MadTypes\<close>, \<open>MadPacket\<close>: \<open>mad.h\<close> and \<open>mad.c\<close>; \<open>MadPacketCorrect\<close>: each part of the header reads back as requested.
  \<^item> \<open>MadRpc\<close>: \<open>rpc.c\<close>. The state \<open>mad_state\<close> holds the globals, the transmission results and the received MADs still to come, so that
    the network is arbitrary. \<open>MadRpcCorrect\<close>: what may be concluded from each result, retries, time-outs, redirections. Its locale
    \<open>mad_call\<close> is the contract the attribute calls rely on.
  \<^item> \<open>MadClients\<close> (\<open>smp.c\<close>, \<open>sa.c\<close>, \<open>gs.c\<close>, \<open>cc.c\<close>, \<open>vendor.c\<close>, \<open>bm.c\<close>), \<open>MadServ\<close> (\<open>serv.c\<close>, \<open>register.c\<close>),
    \<open>MadResolve\<close> (\<open>resolve.c\<close>), \<open>PortId\<close> (\<open>portid.c\<close>), \<open>CString\<close> and \<open>MadDump\<close> (\<open>dump.c\<close>), each with its theory of
    results (\<open>...Correct\<close>, or the same theory). \<open>MadGlobal\<close>: the calls on the default port of the library.
  \<^item> \<open>SmpEngine\<close>: \<open>libibnetdisc/src/query_smp.c\<close>. The state has the packets on the heap, the linked queue, the map of packets on the wire
    and the engine. \<open>SmpEngineCorrect\<close>: the linked list refines a first-in first-out queue, the send loop refines an abstract one, packets are
    freed once, a callback sees its own response.
  \<^item> \<open>Fabric\<close> and \<open>Discover\<close>: \<open>ibnetdisc.c\<close>. Nodes, ports and chassis live in stores from addresses to records, because lists, hash chains
    and links share them; the handlers of the responses are callbacks of the engine. \<open>FabricCorrect\<close> has the invariant
    \<open>fabric_ok\<close>, \<open>DiscoverCorrect\<close> its preservation by every handler, \<open>DiscoverFabric\<close> and \<open>DiscoverFabricCorrect\<close> the whole
    \<open>ibnd_discover_fabric\<close> and the destruction of a fabric.
  \<^item> \<open>Chassis\<close>: \<open>chassis.c\<close> with all its tables; \<open>ChassisCorrect\<close> (tables) and \<open>GroupCorrect\<close> (\<open>group_nodes\<close> as a whole).
  \<^item> \<open>IbnCache\<close>: \<open>ibnetdisc_cache.c\<close>; \<open>IbnCacheCorrect\<close> (transfers, records, clean-up), \<open>IbnCacheWrite\<close> and \<open>IbnCacheRead\<close>
    (the writer against the bytes it should write, the reader against a pure parser) and \<open>IbnCacheTrip\<close> (both together).
  \<^item> \<open>IbTool\<close>, \<open>IbDiag\<close>: what the tools share (\<open>src/ibdiag_common.c\<close>). The tools are modelled over an arbitrary function \<open>ask\<close> for queries;
    \<open>smp_ask\<close>, made from \<open>smp_query_via\<close>, is the one the programs use. \<open>IbTracert\<close>: \<open>src/ibtracert.c\<close>;
    \<open>IbTracertCorrect\<close>: the route that is reported is the one the forwarding tables define.
    \<open>IbSa\<close>: \<open>src/ibdiag_sa.c\<close>, a query of the tools to the subnet administrator, and that its records lie in what was received.

  \<^bold>\<open>How the code is modelled.\<close> Structures are records, enumerations datatypes or words, C integers words or integers with their
  conversions written out, strings lists of characters and character arrays buffers. Errors are values: \<open>NULL\<close> results are an inner
  option, status codes are numbers, \<open>exit\<close> is the left side of a sum. Definitions carry the names of the code; where one C function is split,
  the parts have names of their own and a comment that says which lines they are.

  \<^bold>\<open>Loops and their bounds.\<close> Loops over arrays recurse on the list of indices. The loops that end only because of what they meet carry
  fuel, and the fuel given by the callers is enough: the receive loop of a transaction and \<open>process_mads\<close> use up one received MAD per
  round (number of MADs to come plus 1), the send loop one transmission result per round, walks along lists and hash chains
  visit an address once (next free address plus 1), the loop over the LIDs of a port has at most 65536 rounds, the transfers of the cache
  use one result of the kernel per round (bytes left plus results plus 1). That the fuel suffices is part of what is proved: the
  theorems state \<open>= Some \<dots>\<close> results (\<open>process_mads_returns\<close>, \<open>group_nodes_safe\<close>, \<open>destroy_fabric_frees\<close>, \<open>load_records_refines\<close>
  and others), and running out would be \<open>None\<close>. The loop of \<open>find_route\<close> has its bound \<open>MAXHOPS\<close> from the code.

  \<^bold>\<open>Parameters and hypotheses.\<close> Not in the repository, hence arguments: what \<open>libibumad\<close> returns for registrations, sends and
  receives; \<open>cl_qmap\<close> of complib (operations \<open>qmap_ops\<close> with the laws \<open>qmap_laws\<close> of a finite map, instantiated by an association list); the
  allocator; the results of \<open>read\<close> and \<open>write\<close>; \<open>getopt_long\<close>, \<open>getpass\<close>, \<open>inet_pton\<close>, \<open>umad_get_port\<close> and
  \<open>remap_node_name\<close>. Hypotheses that describe the hardware or the data are definitions of their own and hold in an example each:
  \<open>boards_ok\<close> and \<open>ungrouped\<close> (board numbers as the vendors assign them), \<open>lids_ok\<close>, \<open>cacheable\<close> and \<open>fits_bytes\<close> (what the byte format can
  hold), \<open>truthful\<close>, \<open>topo_ok\<close> and \<open>owner\<close> (a network whose answers agree with one fabric).

  \<^bold>\<open>What is proved.\<close> Field codec: exact effect and value of every accessor on every entry, decode after encode, disjoint
  fields untouched, the same bytes on both byte orders. Packets: the header, the directed route and the class data of an
  encoded MAD. Transactions: only a MAD with the transaction id of the request and status 0 is returned, at most the configured number of sends, an
  answer in time is returned, redirections are followed. Engine: refinement of the queue and the send loop, termination, exact freeing. Fabric:
  the invariant under every handler, look-up by GUID and LID, symmetric links, bounded routes, freeing. Chassis: places inside
  the arrays, safety of the whole grouping. Cache: round trip, refinement of a parser, clean-up. Tools: soundness of the route that \<open>ibtracert\<close> reports.
  The theorems of kind \<open>error\<close> state what the code does where it is wrong: inputs for which it leaves an array
  (\<open>str2drpath_overflow\<close>, \<open>port_info_out_of_range\<close>, \<open>mellanox_slot_overrun\<close>, \<open>load_port_overrun\<close>) or stores a wrong count
  (\<open>cache_node_count_wraps\<close>).

  \<^bold>\<open>Not modelled.\<close> Messages on stderr and in debug modes; the usage texts; releasing what \<open>libibumad\<close> holds; the remaining tools, which parse options and print
  around the modelled calls; the test programs, the scripts in Perl and shell, and the documentation.
\<close>

end
